(* ===== verification/Prelude.thy ===== *)
theory Prelude
  imports Main "HOL-Library.Word"
begin

text \<open>
  Shared vocabulary of the development: results as sums, the hash maps the kernel keeps its
  in-memory state in (association lists with one entry per key, behind the interface
  \<open>hash_map\<close>), saturating machine arithmetic, and the interface \<open>step_system\<close> of a
  component with a start state and steps, with the invariant rule every state machine of the
  development uses.

  Instants (\<open>chrono::DateTime\<close>, \<open>std::time::Instant\<close>) are values of type \<open>instant\<close>,
  integers of one unit; each reading of the clock is an argument of the operation that takes it,
  in the order the code takes them.
\<close>

named_theorems hmap_simps \<open>lookups in a hash map after an operation\<close>
named_theorems inv_intros \<open>operations that keep a well-formedness invariant\<close>

type_synonym instant = int
type_synonym duration = int

section \<open>Results\<close>

text \<open>\<open>Result<T, E>\<close> is \<open>'e + 'a\<close>: \<open>Err\<close> is \<open>Inl\<close>, \<open>Ok\<close> is \<open>Inr\<close>.\<close>

abbreviation Err :: "'e \<Rightarrow> 'e + 'a" where
  "Err \<equiv> Inl"

abbreviation Ok :: "'a \<Rightarrow> 'e + 'a" where
  "Ok \<equiv> Inr"

text \<open>The \<open>?\<close> operator: an error leaves the function, a value goes on.\<close>

definition and_then :: "'e + 'a \<Rightarrow> ('a \<Rightarrow> 'e + 'b) \<Rightarrow> 'e + 'b" where
  "and_then r f = (case r of Inl e \<Rightarrow> Inl e | Inr v \<Rightarrow> f v)"

lemma and_then_simps [simp]:
  "and_then (Err e) f = Err e"
  "and_then (Ok v) f = f v"
  by (simp_all add: and_then_def)

lemma and_then_Ok_iff: "and_then r f = Ok y \<longleftrightarrow> (\<exists>v. r = Ok v \<and> f v = Ok y)"
  by (cases r) auto

lemma and_then_OkE [elim!]:
  assumes "and_then r f = Ok y"
  obtains v where "r = Ok v" and "f v = Ok y"
  using assms by (auto simp: and_then_Ok_iff)

definition is_ok :: "'e + 'a \<Rightarrow> bool" where
  "is_ok r = (case r of Inl _ \<Rightarrow> False | Inr _ \<Rightarrow> True)"

lemma is_ok_simps [simp]: "is_ok (Ok v)" "\<not> is_ok (Err e)"
  by (simp_all add: is_ok_def)

lemma is_ok_iff: "is_ok r \<longleftrightarrow> (\<exists>v. r = Ok v)"
  by (cases r) auto

lemma not_is_ok_iff: "\<not> is_ok r \<longleftrightarrow> (\<exists>e. r = Err e)"
  by (cases r) auto

text \<open>\<open>ok_or\<close>: a missing value is the given error.\<close>

definition ok_or :: "'a option \<Rightarrow> 'e \<Rightarrow> 'e + 'a" where
  "ok_or x e = (case x of None \<Rightarrow> Err e | Some v \<Rightarrow> Ok v)"

lemma ok_or_simps [simp]:
  "ok_or None e = Err e"
  "ok_or (Some v) e = Ok v"
  by (simp_all add: ok_or_def)

lemma ok_or_Ok_iff [simp]: "ok_or x e = Ok v \<longleftrightarrow> x = Some v"
  by (cases x) auto

text \<open>\<open>ensure!(cond, e)\<close>.\<close>

definition ensure :: "bool \<Rightarrow> 'e \<Rightarrow> 'e + unit" where
  "ensure b e = (if b then Ok () else Err e)"

lemma ensure_Ok_iff [simp]: "ensure b e = Ok u \<longleftrightarrow> b"
  by (simp add: ensure_def)

text \<open>\<open>Option::filter\<close> and \<open>Option::or\<close>.\<close>

definition option_filter :: "('a \<Rightarrow> bool) \<Rightarrow> 'a option \<Rightarrow> 'a option" where
  "option_filter P x = (case x of None \<Rightarrow> None | Some v \<Rightarrow> if P v then Some v else None)"

lemma option_filter_Some_iff [simp]: "option_filter P x = Some v \<longleftrightarrow> x = Some v \<and> P v"
  by (auto simp: option_filter_def split: option.splits if_splits)

lemma option_filter_simps [simp]:
  "option_filter P None = None"
  "option_filter P (Some v) = (if P v then Some v else None)"
  by (simp_all add: option_filter_def)

definition option_or :: "'a option \<Rightarrow> 'a option \<Rightarrow> 'a option" where
  "option_or x y = (case x of None \<Rightarrow> y | Some v \<Rightarrow> Some v)"

lemma option_or_simps [simp]:
  "option_or None y = y"
  "option_or (Some v) y = Some v"
  by (simp_all add: option_or_def)

definition unwrap_or :: "'a option \<Rightarrow> 'a \<Rightarrow> 'a" where
  "unwrap_or x d = (case x of None \<Rightarrow> d | Some v \<Rightarrow> v)"

lemma unwrap_or_simps [simp]:
  "unwrap_or None d = d"
  "unwrap_or (Some v) d = v"
  by (simp_all add: unwrap_or_def)

section \<open>Hash maps\<close>

text \<open>
  The interface of \<open>HashMap\<close>, \<open>HashSet\<close> entries and \<open>DashMap\<close> as the kernel uses them.
  \<open>retain\<close> keeps the entries a predicate accepts; \<open>wf\<close> says that no key has two entries.
\<close>

locale hash_map =
  fixes empty :: "'m"
    and get :: "'m \<Rightarrow> 'k \<Rightarrow> 'v option"
    and insert :: "'k \<Rightarrow> 'v \<Rightarrow> 'm \<Rightarrow> 'm"
    and remove :: "'k \<Rightarrow> 'm \<Rightarrow> 'm"
    and retain :: "('k \<Rightarrow> 'v \<Rightarrow> bool) \<Rightarrow> 'm \<Rightarrow> 'm"
    and wf :: "'m \<Rightarrow> bool"
  assumes get_empty: "get empty k = None"
    and get_insert: "get (insert k v m) k' = (if k' = k then Some v else get m k')"
    and get_remove: "get (remove k m) k' = (if k' = k then None else get m k')"
    and get_retain: "wf m \<Longrightarrow> get (retain P m) k = option_filter (P k) (get m k)"
    and wf_empty: "wf empty"
    and wf_insert: "wf m \<Longrightarrow> wf (insert k v m)"
    and wf_remove: "wf m \<Longrightarrow> wf (remove k m)"
    and wf_retain: "wf m \<Longrightarrow> wf (retain P m)"
begin

lemma get_insert_same: "get (insert k v m) k = Some v"
  by (simp add: get_insert)

lemma get_insert_other: "k' \<noteq> k \<Longrightarrow> get (insert k v m) k' = get m k'"
  by (simp add: get_insert)

lemma retain_subset: "wf m \<Longrightarrow> get (retain P m) k = Some v \<Longrightarrow> get m k = Some v \<and> P k v"
  by (simp add: get_retain)

lemma retain_twice:
  assumes "wf m"
  shows "get (retain P (retain P m)) k = get (retain P m) k"
  using assms by (auto simp: get_retain wf_retain option_filter_def split: option.splits)

lemma remove_insert: "get (remove k (insert k v m)) k' = get (remove k m) k'"
  by (simp add: get_remove get_insert)

end

type_synonym ('k, 'v) hmap = "('k \<times> 'v) list"

definition hm_get :: "('k, 'v) hmap \<Rightarrow> 'k \<Rightarrow> 'v option" where
  "hm_get m k = map_of m k"

definition hm_remove :: "'k \<Rightarrow> ('k, 'v) hmap \<Rightarrow> ('k, 'v) hmap" where
  "hm_remove k m = filter (\<lambda>(k', _). k' \<noteq> k) m"

definition hm_insert :: "'k \<Rightarrow> 'v \<Rightarrow> ('k, 'v) hmap \<Rightarrow> ('k, 'v) hmap" where
  "hm_insert k v m = (k, v) # hm_remove k m"

definition hm_retain :: "('k \<Rightarrow> 'v \<Rightarrow> bool) \<Rightarrow> ('k, 'v) hmap \<Rightarrow> ('k, 'v) hmap" where
  "hm_retain P m = filter (\<lambda>(k, v). P k v) m"

definition hm_wf :: "('k, 'v) hmap \<Rightarrow> bool" where
  "hm_wf m = distinct (map fst m)"

definition hm_contains_key :: "('k, 'v) hmap \<Rightarrow> 'k \<Rightarrow> bool" where
  "hm_contains_key m k = (hm_get m k \<noteq> None)"

text \<open>\<open>values().filter(P).count()\<close>.\<close>

definition hm_count :: "('v \<Rightarrow> bool) \<Rightarrow> ('k, 'v) hmap \<Rightarrow> nat" where
  "hm_count P m = length (filter (\<lambda>(_, v). P v) m)"

lemma map_of_filter_key: "map_of (filter (\<lambda>(k', _). k' \<noteq> k) m) k' = (if k' = k then None else map_of m k')"
  by (induction m) auto

lemma map_of_filter_distinct:
  "distinct (map fst m) \<Longrightarrow> map_of (filter (\<lambda>(k, v). P k v) m) k = option_filter (P k) (map_of m k)"
proof (induction m)
  case Nil
  then show ?case by simp
next
  case (Cons kv m)
  have "k \<notin> fst ` set m \<Longrightarrow> map_of (filter (\<lambda>(k, v). P k v) m) k = None"
    by (force simp: map_of_eq_None_iff)
  with Cons show ?case by (cases kv) auto
qed

lemma distinct_map_fst_filter: "distinct (map fst m) \<Longrightarrow> distinct (map fst (filter Q m))"
  by (induction m) auto

interpretation hm: hash_map "[]" hm_get hm_insert hm_remove hm_retain hm_wf
proof
  fix m :: "('k, 'v) hmap" and k k' :: 'k and v :: 'v and P :: "'k \<Rightarrow> 'v \<Rightarrow> bool"
  show "hm_get [] k = None"
    by (simp add: hm_get_def)
  show "hm_get (hm_insert k v m) k' = (if k' = k then Some v else hm_get m k')"
    by (simp add: hm_get_def hm_insert_def hm_remove_def map_of_filter_key)
  show "hm_get (hm_remove k m) k' = (if k' = k then None else hm_get m k')"
    by (simp add: hm_get_def hm_remove_def map_of_filter_key)
  show "hm_wf m \<Longrightarrow> hm_get (hm_retain P m) k = option_filter (P k) (hm_get m k)"
    by (simp add: hm_get_def hm_retain_def hm_wf_def map_of_filter_distinct)
  show "hm_wf []"
    by (simp add: hm_wf_def)
  show "hm_wf m \<Longrightarrow> hm_wf (hm_insert k v m)"
    by (auto simp: hm_wf_def hm_insert_def hm_remove_def distinct_map_fst_filter)
  show "hm_wf m \<Longrightarrow> hm_wf (hm_remove k m)"
    by (simp add: hm_wf_def hm_remove_def distinct_map_fst_filter)
  show "hm_wf m \<Longrightarrow> hm_wf (hm_retain P m)"
    by (simp add: hm_wf_def hm_retain_def distinct_map_fst_filter)
qed

lemmas hm_lookups [simp, hmap_simps] =
  hm.get_empty hm.get_insert hm.get_remove

lemmas hm_wfs [simp, inv_intros] =
  hm.wf_empty hm.wf_insert hm.wf_remove hm.wf_retain

declare hm.get_retain [simp, hmap_simps]

lemma hm_get_Cons: "hm_get ((k, v) # m) k' = (if k' = k then Some v else hm_get m k')"
  by (simp add: hm_get_def)

lemma hm_count_le: "hm_count P m \<le> length m"
  by (simp add: hm_count_def)

lemma hm_get_in_set: "hm_get m k = Some v \<Longrightarrow> (k, v) \<in> set m"
  by (simp add: hm_get_def map_of_SomeD)

lemma hm_get_iff_in_set: "hm_wf m \<Longrightarrow> hm_get m k = Some v \<longleftrightarrow> (k, v) \<in> set m"
  by (simp add: hm_get_def hm_wf_def)

section \<open>Saturating machine arithmetic\<close>

type_synonym u8 = "8 word"
type_synonym u16 = "16 word"
type_synonym u32 = "32 word"
type_synonym u64 = "64 word"

text \<open>\<open>saturating_add\<close>, \<open>saturating_sub\<close> and \<open>saturating_mul\<close> of the unsigned types.\<close>

definition sat_add :: "'n::len word \<Rightarrow> 'n word \<Rightarrow> 'n word" where
  "sat_add a b = (if unat a + unat b < 2 ^ LENGTH('n) then a + b else - 1)"

definition sat_sub :: "'n::len word \<Rightarrow> 'n word \<Rightarrow> 'n word" where
  "sat_sub a b = (if b \<le> a then a - b else 0)"

definition sat_mul :: "'n::len word \<Rightarrow> 'n word \<Rightarrow> 'n word" where
  "sat_mul a b = (if unat a * unat b < 2 ^ LENGTH('n) then a * b else - 1)"

lemma unat_max_word: "unat (- 1 :: 'n::len word) = 2 ^ LENGTH('n) - 1"
  by (simp add: unsigned_minus_1_eq_mask mask_eq_exp_minus_1)

lemma unat_sat_add: "unat (sat_add a b) = min (unat a + unat b) (2 ^ LENGTH('n) - 1)"
  for a b :: "'n::len word"
  by (auto simp: sat_add_def unat_word_ariths unat_max_word min_def)

lemma unat_sat_sub: "unat (sat_sub a b) = unat a - unat b"
  for a b :: "'n::len word"
  by (auto simp: sat_sub_def unat_sub word_le_nat_alt)

lemma unat_sat_mul: "unat (sat_mul a b) = min (unat a * unat b) (2 ^ LENGTH('n) - 1)"
  for a b :: "'n::len word"
proof (cases "unat a * unat b < 2 ^ LENGTH('n)")
  case True
  then have "unat a * unat b \<le> 2 ^ LENGTH('n) - 1" by linarith
  with True show ?thesis by (simp add: sat_mul_def unat_word_ariths min_absorb1)
next
  case False
  then have "2 ^ LENGTH('n) - 1 \<le> unat a * unat b" by linarith
  with False show ?thesis by (simp add: sat_mul_def unat_max_word min_absorb2 del: unat_mult_lem)
qed

section \<open>Components with steps\<close>

text \<open>
  A component whose operations interleave: a start state and labelled steps. The invariant rule
  is proved once here; each state machine of the development interprets the locale on its own
  start state and step function or relation.
\<close>

locale step_system =
  fixes init :: "'s"
    and step :: "'s \<Rightarrow> 'l \<Rightarrow> 's \<Rightarrow> bool"
    and inv :: "'s \<Rightarrow> bool"
  assumes inv_init: "inv init"
    and inv_step: "inv s \<Longrightarrow> step s l t \<Longrightarrow> inv t"
begin

inductive run :: "'s \<Rightarrow> 'l list \<Rightarrow> 's \<Rightarrow> bool" where
  run_nil: "run s [] s"
| run_cons: "step s l t \<Longrightarrow> run t ls u \<Longrightarrow> run s (l # ls) u"

inductive reachable :: "'s \<Rightarrow> bool" where
  reach_init: "reachable init"
| reach_step: "reachable s \<Longrightarrow> step s l t \<Longrightarrow> reachable t"

lemma run_keeps_inv: "run s ls t \<Longrightarrow> inv s \<Longrightarrow> inv t"
  by (induction rule: run.induct) (auto intro: inv_step)

lemma reachable_inv: "reachable s \<Longrightarrow> inv s"
  by (induction rule: reachable.induct) (auto intro: inv_init inv_step)

lemma run_reachable: "run s ls t \<Longrightarrow> reachable s \<Longrightarrow> reachable t"
  by (induction rule: run.induct) (auto intro: reach_step)

lemma run_append: "run s ls t \<Longrightarrow> run t ms u \<Longrightarrow> run s (ls @ ms) u"
  by (induction rule: run.induct) (auto intro: run.intros)

end

text \<open>
  A component whose operations are functions of its state: the run of a list of operations is
  their fold, and every list of operations is a run.
\<close>

locale det_system =
  fixes init :: "'s"
    and exec :: "'s \<Rightarrow> 'l \<Rightarrow> 's"
    and inv :: "'s \<Rightarrow> bool"
  assumes exec_init: "inv init"
    and exec_keeps: "inv s \<Longrightarrow> inv (exec s l)"

sublocale det_system \<subseteq> steps: step_system init "\<lambda>s l t. t = exec s l" inv
  by unfold_locales (auto intro: exec_init exec_keeps)

context det_system begin

lemma run_iff: "steps.run s ls t \<longleftrightarrow> t = foldl exec s ls"
proof
  show "steps.run s ls t \<Longrightarrow> t = foldl exec s ls"
    by (induction rule: steps.run.induct) simp_all
  show "t = foldl exec s ls \<Longrightarrow> steps.run s ls t"
    by (induction ls arbitrary: s) (auto intro: steps.run_nil steps.run_cons)
qed

lemma foldl_keeps: "inv s \<Longrightarrow> inv (foldl exec s ls)"
  by (rule steps.run_keeps_inv [of s ls]) (simp_all add: run_iff)

lemma after_inv: "inv (foldl exec init ls)"
  by (rule foldl_keeps) (rule exec_init)

end

section \<open>Traces\<close>

text \<open>
  A trace is justified when each of its events is, by the events before it. Such properties are
  proved along the way the trace is written, at its end.
\<close>

definition justified :: "('e list \<Rightarrow> 'e \<Rightarrow> bool) \<Rightarrow> 'e list \<Rightarrow> bool" where
  "justified J evs \<longleftrightarrow> (\<forall>pre e post. evs = pre @ e # post \<longrightarrow> J pre e)"

lemma justifiedD: "justified J evs \<Longrightarrow> evs = pre @ e # post \<Longrightarrow> J pre e"
  by (simp add: justified_def)

lemma justified_Nil [simp]: "justified J []"
  by (simp add: justified_def)

lemma justified_snoc [simp]: "justified J (evs @ [e]) \<longleftrightarrow> justified J evs \<and> J evs e"
proof
  assume j: "justified J (evs @ [e])"
  have "J pre x" if "evs = pre @ x # post" for pre x post
    using justifiedD [OF j, of pre x "post @ [e]"] that by simp
  then show "justified J evs \<and> J evs e" using justifiedD [OF j, of evs e "[]"] by (auto simp: justified_def)
next
  assume j: "justified J evs \<and> J evs e"
  show "justified J (evs @ [e])"
    unfolding justified_def
  proof (intro allI impI)
    fix pre x post
    assume eq: "evs @ [e] = pre @ x # post"
    then show "J pre x"
      using j by (cases post rule: rev_cases) (auto simp: justified_def)
  qed
qed

lemma justified_append:
  "justified J (a @ b) \<longleftrightarrow> justified J a \<and> justified (\<lambda>pre. J (a @ pre)) b"
  by (induction b rule: rev_induct) (auto simp flip: append_assoc)

lemma justified_free: "(\<And>pre e. e \<in> set b \<Longrightarrow> J pre e) \<Longrightarrow> justified J b"
  by (auto simp: justified_def)

lemma justified_extend: "justified J a \<Longrightarrow> (\<And>pre e. e \<in> set b \<Longrightarrow> J pre e) \<Longrightarrow> justified J (a @ b)"
  by (simp add: justified_append justified_free)

end
