(* ===== verification/Rust_Str.thy ===== *)
theory Rust_Str
  imports Prelude "HOL-Library.Sublist"
begin

text \<open>
  The operations of Rust's \<open>str\<close> the kernel uses. A \<open>str\<close> is its UTF-8 bytes, a \<open>string\<close>.
  Searching, splitting at an ASCII character and trimming are exact on UTF-8, because a UTF-8
  sequence never starts inside another one; white space is the Unicode \<open>White_Space\<close> set
  (\<open>char::is_whitespace\<close>), written out as its byte sequences. \<open>str::to_lowercase\<close> needs the
  Unicode case tables and is a parameter of the definitions that use it; \<open>ascii_lower\<close> is what
  it does to ASCII text.
\<close>

section \<open>Searching\<close>

definition starts_with :: "string \<Rightarrow> string \<Rightarrow> bool" where
  "starts_with s p = (take (length p) s = p)"

definition ends_with :: "string \<Rightarrow> string \<Rightarrow> bool" where
  "ends_with s p = (length p \<le> length s \<and> drop (length s - length p) s = p)"

fun str_contains :: "string \<Rightarrow> string \<Rightarrow> bool" where
  "str_contains [] p = (p = [])"
| "str_contains (c # cs) p = (starts_with (c # cs) p \<or> str_contains cs p)"

definition strip_prefix :: "string \<Rightarrow> string \<Rightarrow> string option" where
  "strip_prefix p s = (if starts_with s p then Some (drop (length p) s) else None)"

lemma starts_with_iff: "starts_with s p \<longleftrightarrow> (\<exists>r. s = p @ r)"
  unfolding starts_with_def by (metis append_eq_conv_conj append_take_drop_id)

lemma starts_with_prefix: "starts_with s p \<longleftrightarrow> prefix p s"
  by (auto simp: starts_with_iff prefix_def)

lemma starts_with_Nil [simp]: "starts_with s []"
  by (simp add: starts_with_def)

lemma starts_with_append [simp]: "starts_with (p @ r) p"
  by (simp add: starts_with_def)

lemma ends_with_iff: "ends_with s p \<longleftrightarrow> (\<exists>r. s = r @ p)"
proof
  assume "ends_with s p"
  then have "s = take (length s - length p) s @ p"
    by (metis append_take_drop_id ends_with_def)
  then show "\<exists>r. s = r @ p" ..
qed (auto simp: ends_with_def)

lemma str_contains_sublist: "str_contains s p \<longleftrightarrow> sublist p s"
  by (induction s) (auto simp: sublist_Cons_right starts_with_prefix)

lemma str_contains_iff: "str_contains s p \<longleftrightarrow> (\<exists>a b. s = a @ p @ b)"
  by (simp add: str_contains_sublist sublist_def)

lemma strip_prefix_Some_iff: "strip_prefix p s = Some r \<longleftrightarrow> s = p @ r"
  by (auto simp: strip_prefix_def starts_with_iff)

lemma strip_prefix_None_iff: "strip_prefix p s = None \<longleftrightarrow> (\<forall>r. s \<noteq> p @ r)"
  by (auto simp: strip_prefix_def starts_with_iff)

section \<open>Splitting\<close>

text \<open>\<open>split(c)\<close>: always at least one piece.\<close>

fun split_on :: "char \<Rightarrow> string \<Rightarrow> string list" where
  "split_on c [] = [[]]"
| "split_on c (x # xs) =
     (if x = c then [] # split_on c xs
      else (case split_on c xs of [] \<Rightarrow> [[x]] | p # ps \<Rightarrow> (x # p) # ps))"

text \<open>\<open>split_once(c)\<close>: at the first occurrence.\<close>

fun split_once :: "char \<Rightarrow> string \<Rightarrow> (string \<times> string) option" where
  "split_once c [] = None"
| "split_once c (x # xs) =
     (if x = c then Some ([], xs) else map_option (\<lambda>(a, b). (x # a, b)) (split_once c xs))"

fun join_with :: "string \<Rightarrow> string list \<Rightarrow> string" where
  "join_with sep [] = []"
| "join_with sep [x] = x"
| "join_with sep (x # y # ys) = x @ sep @ join_with sep (y # ys)"

lemma split_on_neq_Nil [simp]: "split_on c s \<noteq> []"
  by (induction s) (auto split: list.splits)

lemma split_on_free: "p \<in> set (split_on c s) \<Longrightarrow> c \<notin> set p"
proof (induction s arbitrary: p)
  case (Cons x xs)
  then show ?case by (cases "split_on c xs") (auto split: if_splits)
qed simp

lemma split_on_no_sep: "c \<notin> set s \<Longrightarrow> split_on c s = [s]"
  by (induction s) auto

lemma split_on_append: "c \<notin> set a \<Longrightarrow> split_on c (a @ c # b) = a # split_on c b"
  by (induction a) auto

lemma join_split_on: "join_with [c] (split_on c s) = s"
proof (induction s)
  case (Cons x xs)
  then show ?case
    by (cases "split_on c xs"; cases "tl (split_on c xs)") (auto split: list.splits)
qed simp

lemma split_on_join: "ps \<noteq> [] \<Longrightarrow> (\<forall>p \<in> set ps. c \<notin> set p) \<Longrightarrow> split_on c (join_with [c] ps) = ps"
  by (induction "[c]" ps rule: join_with.induct) (simp_all add: split_on_no_sep split_on_append)

lemma split_on_lines: "(\<forall>l \<in> set ls. c \<notin> set l) \<Longrightarrow> split_on c (concat (map (\<lambda>l. l @ [c]) ls)) = ls @ [[]]"
  by (induction ls) (simp_all add: split_on_append)

lemma split_once_append: "c \<notin> set a \<Longrightarrow> split_once c (a @ c # b) = Some (a, b)"
  by (induction a) auto

lemma split_once_Some_iff: "split_once c s = Some (a, b) \<longleftrightarrow> s = a @ c # b \<and> c \<notin> set a"
proof (induction s arbitrary: a)
  case (Cons x xs)
  show ?case
  proof (cases "x = c")
    case True
    then show ?thesis by (cases a) auto
  next
    case False
    then have "split_once c (x # xs) = Some (a, b) \<longleftrightarrow> (\<exists>a'. a = x # a' \<and> split_once c xs = Some (a', b))"
      by auto
    with Cons False show ?thesis by (cases a) auto
  qed
qed simp

section \<open>White space\<close>

definition ws_units :: "string list" where
  "ws_units =
    [[CHR 0x09], [CHR 0x0A], [CHR 0x0B], [CHR 0x0C], [CHR 0x0D], [CHR 0x20],
     [CHR 0xC2, CHR 0x85], [CHR 0xC2, CHR 0xA0], [CHR 0xE1, CHR 0x9A, CHR 0x80],
     [CHR 0xE2, CHR 0x80, CHR 0x80], [CHR 0xE2, CHR 0x80, CHR 0x81],
     [CHR 0xE2, CHR 0x80, CHR 0x82], [CHR 0xE2, CHR 0x80, CHR 0x83],
     [CHR 0xE2, CHR 0x80, CHR 0x84], [CHR 0xE2, CHR 0x80, CHR 0x85],
     [CHR 0xE2, CHR 0x80, CHR 0x86], [CHR 0xE2, CHR 0x80, CHR 0x87],
     [CHR 0xE2, CHR 0x80, CHR 0x88], [CHR 0xE2, CHR 0x80, CHR 0x89],
     [CHR 0xE2, CHR 0x80, CHR 0x8A], [CHR 0xE2, CHR 0x80, CHR 0xA8],
     [CHR 0xE2, CHR 0x80, CHR 0xA9], [CHR 0xE2, CHR 0x80, CHR 0xAF],
     [CHR 0xE2, CHR 0x81, CHR 0x9F], [CHR 0xE3, CHR 0x80, CHR 0x80]]"

text \<open>The byte length of the white-space character a string starts (ends) with, 0 for none.\<close>

definition ws_prefix :: "string \<Rightarrow> nat" where
  "ws_prefix s = (case find (starts_with s) ws_units of None \<Rightarrow> 0 | Some u \<Rightarrow> length u)"

definition ws_suffix :: "string \<Rightarrow> nat" where
  "ws_suffix s = (case find (ends_with s) ws_units of None \<Rightarrow> 0 | Some u \<Rightarrow> length u)"

lemma ws_units_nonempty: "u \<in> set ws_units \<Longrightarrow> u \<noteq> []"
  by (auto simp: ws_units_def)

lemma ws_prefix_le: "ws_prefix s \<le> length s"
  by (auto simp: ws_prefix_def find_Some_iff starts_with_iff split: option.splits)

lemma ws_suffix_le: "ws_suffix s \<le> length s"
  by (auto simp: ws_suffix_def find_Some_iff ends_with_def split: option.splits)

function trim_start :: "string \<Rightarrow> string" where
  "trim_start s = (if ws_prefix s = 0 then s else trim_start (drop (ws_prefix s) s))"
  by pat_completeness auto
termination
proof (relation "measure length")
  fix s :: string
  assume "ws_prefix s \<noteq> 0"
  with ws_prefix_le [of s] show "(drop (ws_prefix s) s, s) \<in> measure length" by auto
qed auto

function trim_end :: "string \<Rightarrow> string" where
  "trim_end s = (if ws_suffix s = 0 then s else trim_end (take (length s - ws_suffix s) s))"
  by pat_completeness auto
termination
proof (relation "measure length")
  fix s :: string
  assume "ws_suffix s \<noteq> 0"
  with ws_suffix_le [of s] show "(take (length s - ws_suffix s) s, s) \<in> measure length" by auto
qed auto

declare trim_start.simps [simp del] trim_end.simps [simp del]

definition trim :: "string \<Rightarrow> string" where
  "trim s = trim_end (trim_start s)"

fun has_ws :: "string \<Rightarrow> bool" where
  "has_ws [] = False"
| "has_ws (c # cs) = (0 < ws_prefix (c # cs) \<or> has_ws cs)"

function split_ws :: "string \<Rightarrow> string \<Rightarrow> string list" where
  "split_ws acc s =
     (case s of
        [] \<Rightarrow> if acc = [] then [] else [rev acc]
      | c # cs \<Rightarrow>
          if 0 < ws_prefix s
          then (if acc = [] then [] else [rev acc]) @ split_ws [] (drop (ws_prefix s) s)
          else split_ws (c # acc) cs)"
  by pat_completeness auto
termination
  by (relation "measure (\<lambda>(acc, s). length s)") auto

declare split_ws.simps [simp del]

definition split_whitespace :: "string \<Rightarrow> string list" where
  "split_whitespace s = split_ws [] s"

text \<open>A string whose bytes are all printable ASCII has no white space to trim.\<close>

definition graphic :: "char \<Rightarrow> bool" where
  "graphic c = (0x21 \<le> (of_char c :: nat) \<and> (of_char c :: nat) \<le> 0x7E)"

lemma ws_units_not_graphic: "u \<in> set ws_units \<Longrightarrow> \<not> graphic (hd u) \<and> \<not> graphic (last u)"
  by (auto simp: ws_units_def graphic_def)

lemma ws_prefix_0: "s = [] \<or> graphic (hd s) \<Longrightarrow> ws_prefix s = 0"
proof -
  assume s: "s = [] \<or> graphic (hd s)"
  have "find (starts_with s) ws_units = None"
    unfolding find_None_iff
  proof
    assume "\<exists>u. u \<in> set ws_units \<and> starts_with s u"
    then obtain u r where u: "u \<in> set ws_units" and "s = u @ r"
      by (auto simp: starts_with_iff)
    with s ws_units_nonempty [OF u] ws_units_not_graphic [OF u] show False
      by (cases u) auto
  qed
  then show ?thesis by (simp add: ws_prefix_def)
qed

lemma ws_suffix_0: "s = [] \<or> graphic (last s) \<Longrightarrow> ws_suffix s = 0"
proof -
  assume s: "s = [] \<or> graphic (last s)"
  have "find (ends_with s) ws_units = None"
    unfolding find_None_iff
  proof
    assume "\<exists>u. u \<in> set ws_units \<and> ends_with s u"
    then obtain u r where u: "u \<in> set ws_units" and "s = r @ u"
      by (auto simp: ends_with_iff)
    with s ws_units_nonempty [OF u] ws_units_not_graphic [OF u] show False
      by (cases u rule: rev_cases) auto
  qed
  then show ?thesis by (simp add: ws_suffix_def)
qed

lemma trim_graphic: "s = [] \<or> (graphic (hd s) \<and> graphic (last s)) \<Longrightarrow> trim s = s"
  by (auto simp: trim_def trim_start.simps [of s] trim_end.simps [of s] ws_prefix_0 ws_suffix_0)

text \<open>A string without white space is its own trimming.\<close>

lemma ws_prefix_Nil [simp]: "ws_prefix [] = 0"
  by (rule ws_prefix_0) simp

lemma has_ws_unit: "u \<in> set ws_units \<Longrightarrow> has_ws (r @ u)"
proof (induction r)
  case Nil
  then have "find (starts_with u) ws_units \<noteq> None" by (auto simp: find_None_iff starts_with_iff)
  then obtain v where v: "find (starts_with u) ws_units = Some v" by blast
  then have "v \<in> set ws_units" by (auto simp: find_Some_iff)
  then have "0 < ws_prefix u" using v ws_units_nonempty by (simp add: ws_prefix_def)
  then have "has_ws u" by (cases u) simp_all
  then show ?case by simp
qed simp

lemma trim_no_ws: "\<not> has_ws s \<Longrightarrow> trim s = s"
proof -
  assume no: "\<not> has_ws s"
  then have "ws_prefix s = 0" by (cases s) auto
  moreover have "ws_suffix s = 0"
    using no has_ws_unit by (auto simp: ws_suffix_def find_Some_iff ends_with_iff split: option.splits)
  ultimately show ?thesis by (simp add: trim_def trim_start.simps [of s] trim_end.simps [of s])
qed

lemma has_ws_graphic_append: "list_all graphic p \<Longrightarrow> \<not> has_ws s \<Longrightarrow> \<not> has_ws (p @ s)"
  by (induction p) (auto simp: ws_prefix_0)

lemma ws_prefix_space [simp]: "ws_prefix (CHR '' '' # s) = 1"
  by (simp add: ws_prefix_def ws_units_def starts_with_def)

lemma trim_start_space: "trim_start (CHR '' '' # s) = trim_start s"
  by (simp add: trim_start.simps [of "CHR '' '' # s"])

lemma trim_space: "trim (CHR '' '' # s) = trim s"
  by (simp add: trim_def trim_start_space)

section \<open>ASCII case\<close>

definition ascii_lower_char :: "char \<Rightarrow> char" where
  "ascii_lower_char c =
     (if 65 \<le> (of_char c :: nat) \<and> (of_char c :: nat) \<le> 90 then char_of ((of_char c :: nat) + 32) else c)"

definition ascii_lower :: "string \<Rightarrow> string" where
  "ascii_lower s = map ascii_lower_char s"

definition is_ascii :: "string \<Rightarrow> bool" where
  "is_ascii s = list_all (\<lambda>c. (of_char c :: nat) < 128) s"

definition eq_ignore_ascii_case :: "string \<Rightarrow> string \<Rightarrow> bool" where
  "eq_ignore_ascii_case a b = (ascii_lower a = ascii_lower b)"

text \<open>What the development relies on where it uses \<open>str::to_lowercase\<close>.\<close>

definition lower_spec :: "(string \<Rightarrow> string) \<Rightarrow> bool" where
  "lower_spec lower = (\<forall>s. is_ascii s \<longrightarrow> lower s = ascii_lower s)"

lemma lower_spec_ascii_lower: "lower_spec ascii_lower"
  by (simp add: lower_spec_def)

section \<open>Printing numbers\<close>

text \<open>Decimal (\<open>{}\<close>) and two-digit hexadecimal (\<open>{:02x}\<close>) formatting.\<close>

definition digit_char :: "nat \<Rightarrow> char" where
  "digit_char d = (if d < 10 then char_of (48 + d) else char_of (87 + d))"

fun show_nat :: "nat \<Rightarrow> string" where
  "show_nat n = (if n < 10 then [digit_char n] else show_nat (n div 10) @ [digit_char (n mod 10)])"

declare show_nat.simps [simp del]

definition hex_byte :: "u8 \<Rightarrow> string" where
  "hex_byte b = [digit_char (unat b div 16), digit_char (unat b mod 16)]"

definition hex_char :: "char \<Rightarrow> bool" where
  "hex_char c = (c \<in> set ''0123456789abcdef'')"

lemma digit_char_hex: "d < 16 \<Longrightarrow> hex_char (digit_char d)"
proof -
  have "list_all (\<lambda>d. hex_char (digit_char d)) [0..<16]" by code_simp
  then show "d < 16 \<Longrightarrow> ?thesis" by (auto simp: list_all_iff)
qed

lemma hex_byte_hex: "c \<in> set (hex_byte b) \<Longrightarrow> hex_char c"
proof -
  have "unat b < 256" using unsigned_less [of b] by simp
  then have "unat b div 16 < 16" and "unat b mod 16 < 16" by auto
  then show "c \<in> set (hex_byte b) \<Longrightarrow> ?thesis"
    by (auto simp: hex_byte_def intro: digit_char_hex)
qed

lemma hex_char_graphic: "hex_char c \<Longrightarrow> graphic c"
  by (auto simp: hex_char_def graphic_def)

lemma hex_char_not_sep: "hex_char c \<Longrightarrow> c \<noteq> CHR '';'' \<and> c \<noteq> CHR ''=''"
  by (auto simp: hex_char_def)

text \<open>A name between single quotes, as the messages have it.\<close>

definition quoted :: "string \<Rightarrow> string" where
  "quoted s = [CHR 0x27] @ s @ [CHR 0x27]"

section \<open>Lines\<close>

text \<open>\<open>str::lines\<close>: a final line ending starts no further line, and a line ends with its \<open>\\r\<close> removed.\<close>

definition strip_cr :: "string \<Rightarrow> string" where
  "strip_cr l = (if l \<noteq> [] \<and> last l = CHR 0x0D then butlast l else l)"

text \<open>
  The pieces at the line feeds; the last piece is dropped when empty, and keeps a trailing
  carriage return, since no line feed follows it.
\<close>

definition str_lines :: "string \<Rightarrow> string list" where
  "str_lines s =
     (let ps = split_on (CHR 0x0A) s
      in map strip_cr (butlast ps) @ (if last ps = [] then [] else [last ps]))"

end
