(* ===== verification/Token_Store.thy ===== *)
theory Token_Store
  imports Rust_Str
begin

text \<open>
  The two in-memory credential stores: \<open>managers/agent_token.rs\<close> (tokens that name one agent)
  and \<open>managers/browser_session.rs\<close> (sessions that stand for the admin key), the token
  generator of \<open>apikey.rs\<close> and the session cookie. Both stores keep fingerprints, never
  tokens; SHA-256 (crate \<open>sha2\<close>) is the parameter \<open>sha\<close>, from a message to its hex digest,
  and the random bytes of \<open>OsRng\<close> are an argument of minting.

  What a client of either store relies on is the interface \<open>token_store\<close>; both stores
  interpret it. Instants and durations are in nanoseconds here.
\<close>

section \<open>Generating a key (apikey.rs)\<close>

definition generate :: "u8 list \<Rightarrow> string" where
  "generate bytes = concat (map hex_byte bytes)"

lemma generate_hex: "c \<in> set (generate bytes) \<Longrightarrow> hex_char c"
  by (auto simp: generate_def dest: hex_byte_hex)

lemma length_generate: "length (generate bytes) = 2 * length bytes"
  by (induction bytes) (simp_all add: generate_def hex_byte_def)

lemma generate_Nil_iff [simp]: "generate bytes = [] \<longleftrightarrow> bytes = []"
  using length_generate [of bytes] by auto

section \<open>The interface\<close>

text \<open>
  What is done to a store, as a history: minting (identity, lifetime, random bytes, and the two
  readings of the clock, for the expiry and for the pruning) and revoking.
\<close>

datatype ('id, 'r) cred_op =
    Mint 'id duration "u8 list" instant instant
  | Revoke 'r

text \<open>
  \<open>fp\<close> is the fingerprint, \<open>mint s id ttl bytes t0 t1\<close> stores an entry that expires at
  \<open>t0 + ttl\<close> and prunes what has expired at \<open>t1\<close>, \<open>resolve s tok now\<close> is who the token
  names at \<open>now\<close>, and \<open>kills r tok id\<close> says that the revocation \<open>r\<close> withdraws a token
  that names \<open>id\<close>.
\<close>

locale token_store =
  fixes fp :: "string \<Rightarrow> string"
    and empty :: "'s"
    and resolve :: "'s \<Rightarrow> string \<Rightarrow> instant \<Rightarrow> 'id option"
    and mint :: "'s \<Rightarrow> 'id \<Rightarrow> duration \<Rightarrow> u8 list \<Rightarrow> instant \<Rightarrow> instant \<Rightarrow> 's \<times> string"
    and wf :: "'s \<Rightarrow> bool"
  assumes mint_token: "snd (mint s i ttl bytes t0 t1) = generate bytes"
    and resolve_empty: "resolve empty tok now = None"
    and resolve_minted:
      "fp tok = fp (generate bytes) \<Longrightarrow>
       resolve (fst (mint s i ttl bytes t0 t1)) tok now = (if t0 + ttl > now then Some i else None)"
    and resolve_other:
      "wf s \<Longrightarrow> fp tok \<noteq> fp (generate bytes) \<Longrightarrow> t1 \<le> now \<Longrightarrow>
       resolve (fst (mint s i ttl bytes t0 t1)) tok now = resolve s tok now"
    and mint_adds_nothing_else:
      "wf s \<Longrightarrow> fp tok \<noteq> fp (generate bytes) \<Longrightarrow>
       resolve (fst (mint s i ttl bytes t0 t1)) tok now = Some j \<Longrightarrow> resolve s tok now = Some j"
    and expiry_final: "resolve s tok later = Some i \<Longrightarrow> now \<le> later \<Longrightarrow> resolve s tok now = Some i"
    and wf_empty: "wf empty"
    and wf_mint: "wf s \<Longrightarrow> wf (fst (mint s i ttl bytes t0 t1))"
begin

lemma expired_stays: "resolve s tok now = None \<Longrightarrow> now \<le> later \<Longrightarrow> resolve s tok later = None"
  by (cases "resolve s tok later") (auto dest: expiry_final)

end

locale revocable_store = token_store fp empty resolve mint wf
  for fp :: "string \<Rightarrow> string"
    and empty :: "'s"
    and resolve :: "'s \<Rightarrow> string \<Rightarrow> instant \<Rightarrow> 'id option"
    and mint :: "'s \<Rightarrow> 'id \<Rightarrow> duration \<Rightarrow> u8 list \<Rightarrow> instant \<Rightarrow> instant \<Rightarrow> 's \<times> string"
    and wf :: "'s \<Rightarrow> bool" +
  fixes revoke :: "'s \<Rightarrow> 'r \<Rightarrow> 's"
    and kills :: "'r \<Rightarrow> string \<Rightarrow> 'id \<Rightarrow> bool"
  assumes resolve_revoke:
      "wf s \<Longrightarrow> resolve (revoke s r) tok now = option_filter (\<lambda>i. \<not> kills r tok i) (resolve s tok now)"
    and wf_revoke: "wf s \<Longrightarrow> wf (revoke s r)"
begin

fun exec :: "'s \<Rightarrow> ('id, 'r) cred_op \<Rightarrow> 's" where
  "exec s (Mint i ttl bytes t0 t1) = fst (mint s i ttl bytes t0 t1)"
| "exec s (Revoke r) = revoke s r"

definition after :: "('id, 'r) cred_op list \<Rightarrow> 's" where
  "after ops = foldl exec empty ops"

text \<open>The token \<open>tok\<close> was minted for \<open>i\<close> in \<open>ops\<close>, is unexpired at \<open>now\<close> and was not revoked since.\<close>

definition granted :: "('id, 'r) cred_op list \<Rightarrow> string \<Rightarrow> instant \<Rightarrow> 'id \<Rightarrow> bool" where
  "granted ops tok now i \<longleftrightarrow>
     (\<exists>pre ttl bytes t0 t1 post.
        ops = pre @ Mint i ttl bytes t0 t1 # post \<and> fp tok = fp (generate bytes) \<and> now < t0 + ttl \<and>
        (\<forall>r. Revoke r \<in> set post \<longrightarrow> \<not> kills r tok i))"

lemma wf_after: "wf (after ops)"
proof (induction ops rule: rev_induct)
  case (snoc op ops)
  then show ?case by (cases op) (auto simp: after_def intro: wf_mint wf_revoke)
qed (simp add: after_def wf_empty)

lemma granted_snoc:
  assumes "granted ops tok now i" and "\<And>r. op = Revoke r \<Longrightarrow> \<not> kills r tok i"
  shows "granted (ops @ [op]) tok now i"
proof -
  from assms(1) obtain pre ttl bytes t0 t1 post where
    "ops = pre @ Mint i ttl bytes t0 t1 # post" "fp tok = fp (generate bytes)" "now < t0 + ttl"
    "\<forall>r. Revoke r \<in> set post \<longrightarrow> \<not> kills r tok i"
    unfolding granted_def by blast
  with assms(2) show ?thesis
    unfolding granted_def
    by (intro exI [of _ pre] exI [of _ ttl] exI [of _ bytes] exI [of _ t0] exI [of _ t1]
        exI [of _ "post @ [op]"]) auto
qed

text \<open>Provenance: whoever a token names was given it, and it has neither expired nor been revoked.\<close>

lemma resolve_granted: "resolve (after ops) tok now = Some i \<Longrightarrow> granted ops tok now i"
proof (induction ops rule: rev_induct)
  case Nil
  then show ?case by (simp add: after_def resolve_empty)
next
  case (snoc op ops)
  show ?case
  proof (cases op)
    case (Mint j ttl bytes t0 t1)
    show ?thesis
    proof (cases "fp tok = fp (generate bytes)")
      case True
      with snoc.prems Mint have "j = i" and "now < t0 + ttl"
        by (auto simp: after_def resolve_minted split: if_splits)
      with Mint True show ?thesis
        unfolding granted_def by (intro exI [of _ ops]) auto
    next
      case False
      with snoc.prems Mint have "resolve (after ops) tok now = Some i"
        using mint_adds_nothing_else [OF wf_after] by (simp add: after_def)
      with Mint show ?thesis by (auto intro: granted_snoc snoc.IH)
    qed
  next
    case (Revoke r)
    with snoc.prems have "option_filter (\<lambda>i. \<not> kills r tok i) (resolve (after ops) tok now) = Some i"
      by (simp add: after_def resolve_revoke [OF wf_after [unfolded after_def]])
    then have "resolve (after ops) tok now = Some i" and "\<not> kills r tok i"
      by simp_all
    with Revoke show ?thesis by (auto intro: granted_snoc snoc.IH)
  qed
qed

text \<open>Conversely, a granted token resolves as long as no later mint collides with its fingerprint.\<close>

lemma granted_resolves:
  assumes "ops = pre @ Mint i ttl bytes t0 t1 # post"
    and "fp tok = fp (generate bytes)" and "now < t0 + ttl"
    and "\<And>r. Revoke r \<in> set post \<Longrightarrow> \<not> kills r tok i"
    and "\<And>j ttl' b s0 s1. Mint j ttl' b s0 s1 \<in> set post \<Longrightarrow> fp tok \<noteq> fp (generate b) \<and> s1 \<le> now"
  shows "resolve (after ops) tok now = Some i"
  using assms
proof (induction post arbitrary: ops rule: rev_induct)
  case Nil
  then show ?case by (simp add: after_def resolve_minted)
next
  case (snoc op post)
  let ?ops = "pre @ Mint i ttl bytes t0 t1 # post"
  have IH: "resolve (after ?ops) tok now = Some i"
  proof (rule snoc.IH [OF refl snoc.prems(2,3)])
    show "\<And>r. Revoke r \<in> set post \<Longrightarrow> \<not> kills r tok i"
      using snoc.prems(4) by simp
    fix j ttl' b s0 s1
    assume "Mint j ttl' b s0 s1 \<in> set post"
    then show "fp tok \<noteq> fp (generate b) \<and> s1 \<le> now"
      using snoc.prems(5) [of j ttl' b s0 s1] by simp
  qed
  have ops: "after ops = exec (after ?ops) op"
    by (simp add: snoc.prems(1) after_def)
  show ?case
  proof (cases op)
    case (Mint j ttl' b s0 s1)
    then have "fp tok \<noteq> fp (generate b) \<and> s1 \<le> now"
      using snoc.prems(5) [of j ttl' b s0 s1] by simp
    with Mint IH ops show ?thesis by (simp add: resolve_other [OF wf_after])
  next
    case (Revoke r)
    with IH ops snoc.prems(4) [of r] show ?thesis by (simp add: resolve_revoke [OF wf_after])
  qed
qed

end

section \<open>Agent tokens (managers/agent_token.rs)\<close>

definition AGENT_TOKEN_HEADER :: string where
  "AGENT_TOKEN_HEADER = ''X-Agent-Token''"

definition minutes :: "int \<Rightarrow> duration" where
  "minutes m = m * 60 * 10 ^ 9"

definition at_DEFAULT_TTL_MINUTES :: int where
  "at_DEFAULT_TTL_MINUTES = 60"

record agent_token_entry =
  at_agent_id :: string
  at_expires_at :: instant

type_synonym agent_token_store = "(string, agent_token_entry) hmap"

definition at_fingerprint :: "(string \<Rightarrow> string) \<Rightarrow> string \<Rightarrow> string" where
  "at_fingerprint sha token = sha (''cloto-agent-token:'' @ token)"

definition at_prune :: "agent_token_store \<Rightarrow> instant \<Rightarrow> agent_token_store" where
  "at_prune entries now = hm_retain (\<lambda>_ e. at_expires_at e > now) entries"

definition at_mint ::
  "(string \<Rightarrow> string) \<Rightarrow> agent_token_store \<Rightarrow> string \<Rightarrow> duration \<Rightarrow> u8 list \<Rightarrow> instant \<Rightarrow> instant
   \<Rightarrow> agent_token_store \<times> string" where
  "at_mint sha entries agent_id ttl bytes t0 t1 =
     (let token = generate bytes;
          entry = \<lparr>at_agent_id = agent_id, at_expires_at = t0 + ttl\<rparr>;
          pruned = at_prune entries t1
      in (hm_insert (at_fingerprint sha token) entry pruned, token))"

definition at_mint_default ::
  "(string \<Rightarrow> string) \<Rightarrow> agent_token_store \<Rightarrow> string \<Rightarrow> u8 list \<Rightarrow> instant \<Rightarrow> instant
   \<Rightarrow> agent_token_store \<times> string" where
  "at_mint_default sha entries agent_id = at_mint sha entries agent_id (minutes at_DEFAULT_TTL_MINUTES)"

definition at_resolve :: "(string \<Rightarrow> string) \<Rightarrow> agent_token_store \<Rightarrow> string \<Rightarrow> instant \<Rightarrow> string option" where
  "at_resolve sha entries token now =
     map_option at_agent_id
       (option_filter (\<lambda>e. at_expires_at e > now) (hm_get entries (at_fingerprint sha token)))"

definition at_revoke_agent :: "agent_token_store \<Rightarrow> string \<Rightarrow> agent_token_store" where
  "at_revoke_agent entries agent_id = hm_retain (\<lambda>_ e. at_agent_id e \<noteq> agent_id) entries"

definition at_live_count :: "agent_token_store \<Rightarrow> instant \<Rightarrow> nat" where
  "at_live_count entries now = hm_count (\<lambda>e. at_expires_at e > now) entries"

text \<open>Revoking withdraws every token that names the agent.\<close>

interpretation agent_tokens: revocable_store "at_fingerprint sha" "[]" "at_resolve sha" "at_mint sha" hm_wf
    at_revoke_agent "\<lambda>agent_id _ named. named = agent_id"
  for sha
  by unfold_locales (auto simp: at_mint_def at_prune_def at_resolve_def at_revoke_agent_def Let_def
      option_filter_def split: option.splits if_splits)

section \<open>Browser sessions (managers/browser_session.rs)\<close>

definition SESSION_COOKIE :: string where
  "SESSION_COOKIE = ''cloto_session''"

definition bs_DEFAULT_TTL_MINUTES :: int where
  "bs_DEFAULT_TTL_MINUTES = 480"

record session_entry =
  bs_label :: string
  bs_expires_at :: instant

type_synonym session_store = "(string, session_entry) hmap"

definition bs_fingerprint :: "(string \<Rightarrow> string) \<Rightarrow> string \<Rightarrow> string" where
  "bs_fingerprint sha token = sha (''cloto-browser-session:'' @ token)"

definition bs_prune :: "session_store \<Rightarrow> instant \<Rightarrow> session_store" where
  "bs_prune entries now = hm_retain (\<lambda>_ e. bs_expires_at e > now) entries"

definition bs_mint ::
  "(string \<Rightarrow> string) \<Rightarrow> session_store \<Rightarrow> string \<Rightarrow> duration \<Rightarrow> u8 list \<Rightarrow> instant \<Rightarrow> instant
   \<Rightarrow> session_store \<times> string" where
  "bs_mint sha entries label ttl bytes t0 t1 =
     (let token = generate bytes;
          entry = \<lparr>bs_label = label, bs_expires_at = t0 + ttl\<rparr>;
          pruned = bs_prune entries t1
      in (hm_insert (bs_fingerprint sha token) entry pruned, token))"

definition bs_mint_default ::
  "(string \<Rightarrow> string) \<Rightarrow> session_store \<Rightarrow> string \<Rightarrow> u8 list \<Rightarrow> instant \<Rightarrow> instant
   \<Rightarrow> session_store \<times> string" where
  "bs_mint_default sha entries label = bs_mint sha entries label (minutes bs_DEFAULT_TTL_MINUTES)"

definition bs_resolve :: "(string \<Rightarrow> string) \<Rightarrow> session_store \<Rightarrow> string \<Rightarrow> instant \<Rightarrow> string option" where
  "bs_resolve sha entries token now =
     map_option bs_label
       (option_filter (\<lambda>e. bs_expires_at e > now) (hm_get entries (bs_fingerprint sha token)))"

text \<open>Revoking answers whether the session was live.\<close>

definition bs_revoke :: "(string \<Rightarrow> string) \<Rightarrow> session_store \<Rightarrow> string \<Rightarrow> instant \<Rightarrow> session_store \<times> bool" where
  "bs_revoke sha entries token now =
     (let fp = bs_fingerprint sha token
      in (hm_remove fp entries,
          case hm_get entries fp of None \<Rightarrow> False | Some e \<Rightarrow> bs_expires_at e > now))"

definition bs_revoke_all :: "session_store \<Rightarrow> session_store" where
  "bs_revoke_all entries = []"

definition bs_live_count :: "session_store \<Rightarrow> instant \<Rightarrow> nat" where
  "bs_live_count entries now = hm_count (\<lambda>e. bs_expires_at e > now) entries"

text \<open>Signing out drops one session; a key rotation drops every one.\<close>

datatype session_revocation = OneSession string instant | AllSessions

fun bs_revoke_op :: "(string \<Rightarrow> string) \<Rightarrow> session_store \<Rightarrow> session_revocation \<Rightarrow> session_store" where
  "bs_revoke_op sha entries (OneSession token now) = fst (bs_revoke sha entries token now)"
| "bs_revoke_op sha entries AllSessions = bs_revoke_all entries"

fun bs_kills :: "(string \<Rightarrow> string) \<Rightarrow> session_revocation \<Rightarrow> string \<Rightarrow> string \<Rightarrow> bool" where
  "bs_kills sha (OneSession token now) tok label = (bs_fingerprint sha tok = bs_fingerprint sha token)"
| "bs_kills sha AllSessions tok label = True"

lemma bs_resolve_revoked:
  "bs_resolve sha (fst (bs_revoke sha entries token t)) tok now =
     (if bs_fingerprint sha tok = bs_fingerprint sha token then None else bs_resolve sha entries tok now)"
  by (simp add: bs_resolve_def bs_revoke_def Let_def)

lemma bs_revoke_live: "snd (bs_revoke sha entries token now) \<longleftrightarrow> bs_resolve sha entries token now \<noteq> None"
  by (simp add: bs_resolve_def bs_revoke_def Let_def option_filter_def split: option.splits)

lemma wf_bs_revoke [inv_intros]: "hm_wf entries \<Longrightarrow> hm_wf (fst (bs_revoke sha entries token now))"
  by (simp add: bs_revoke_def Let_def)

lemma bs_resolve_revoke_all [simp]: "bs_resolve sha (bs_revoke_all entries) tok now = None"
  by (simp add: bs_resolve_def bs_revoke_all_def)

interpretation sessions: revocable_store "bs_fingerprint sha" "[]" "bs_resolve sha" "bs_mint sha" hm_wf
    "bs_revoke_op sha" "bs_kills sha"
  for sha
proof
  fix s :: session_store and r :: session_revocation and tok :: string and now :: instant
  show "bs_resolve sha (bs_revoke_op sha s r) tok now
      = option_filter (\<lambda>label. \<not> bs_kills sha r tok label) (bs_resolve sha s tok now)"
    by (cases r; cases "bs_resolve sha s tok now") (auto simp: bs_resolve_revoked)
  show "hm_wf s \<Longrightarrow> hm_wf (bs_revoke_op sha s r)"
    by (cases r) (simp_all add: wf_bs_revoke bs_revoke_all_def)
qed (auto simp: bs_mint_def bs_prune_def bs_resolve_def Let_def option_filter_def
      split: option.splits if_splits)

section \<open>The session cookie\<close>

definition token_from_cookie_header :: "string \<Rightarrow> string option" where
  "token_from_cookie_header raw =
     option_filter (\<lambda>v. v \<noteq> [])
       (map_option snd
         (find (\<lambda>(name, _). name = SESSION_COOKIE)
           (map (\<lambda>(name, v). (trim name, trim v))
             (List.map_filter (split_once (CHR ''='')) (split_on (CHR '';'') raw)))))"

definition num_seconds :: "duration \<Rightarrow> int" where
  "num_seconds d = (if d < 0 then - ((- d) div 10 ^ 9) else d div 10 ^ 9)"

definition set_cookie_value :: "string \<Rightarrow> duration \<Rightarrow> bool \<Rightarrow> string" where
  "set_cookie_value token ttl secure =
     SESSION_COOKIE @ ''='' @ token @ ''; HttpOnly; SameSite=Strict; Path=/; Max-Age=''
       @ show_nat (nat (max 0 (num_seconds ttl)))
       @ (if secure then ''; Secure'' else [])"

definition clear_cookie_value :: "bool \<Rightarrow> string" where
  "clear_cookie_value secure =
     SESSION_COOKIE @ ''=; HttpOnly; SameSite=Strict; Path=/; Max-Age=0''
       @ (if secure then ''; Secure'' else [])"

section \<open>Properties\<close>

text \<open>
  The histories of the two stores: what an empty store holds after a list of operations. The
  lemmas below restate the interface's histories with the stores' own operations.
\<close>

fun at_exec :: "(string \<Rightarrow> string) \<Rightarrow> agent_token_store \<Rightarrow> (string, string) cred_op \<Rightarrow> agent_token_store" where
  "at_exec sha s (Mint agent_id ttl bytes t0 t1) = fst (at_mint sha s agent_id ttl bytes t0 t1)"
| "at_exec sha s (Revoke agent_id) = at_revoke_agent s agent_id"

fun bs_exec ::
  "(string \<Rightarrow> string) \<Rightarrow> session_store \<Rightarrow> (string, session_revocation) cred_op \<Rightarrow> session_store" where
  "bs_exec sha s (Mint label ttl bytes t0 t1) = fst (bs_mint sha s label ttl bytes t0 t1)"
| "bs_exec sha s (Revoke r) = bs_revoke_op sha s r"

lemma at_exec_eq: "agent_tokens.exec sha = at_exec sha"
proof (intro ext)
  fix s and op :: "(string, string) cred_op"
  show "agent_tokens.exec sha s op = at_exec sha s op" by (cases op) simp_all
qed

lemma bs_exec_eq: "sessions.exec sha = bs_exec sha"
proof (intro ext)
  fix s and op :: "(string, session_revocation) cred_op"
  show "sessions.exec sha s op = bs_exec sha s op" by (cases op) simp_all
qed

lemma at_after: "agent_tokens.after sha ops = foldl (at_exec sha) [] ops"
  by (simp add: agent_tokens.after_def at_exec_eq)

lemma bs_after: "sessions.after sha ops = foldl (bs_exec sha) [] ops"
  by (simp add: sessions.after_def bs_exec_eq)

text \<open>C7. Provenance of agent tokens: after any history of minting and revoking, a token that
  names an agent carries the fingerprint of a token minted for exactly that agent, has not
  expired, and the agent has not been revoked since.\<close>

theorem agent_token_provenance:
  assumes "at_resolve sha (foldl (at_exec sha) [] ops) tok now = Some agent"
  shows "\<exists>pre ttl bytes t0 t1 post.
    ops = pre @ Mint agent ttl bytes t0 t1 # post \<and>
    at_fingerprint sha tok = at_fingerprint sha (generate bytes) \<and>
    now < t0 + ttl \<and> Revoke agent \<notin> set post"
  using agent_tokens.resolve_granted [of sha ops tok now agent] assms
  unfolding at_after agent_tokens.granted_def by blast

theorem agent_token_provenance_witness:
  "\<exists>pre ttl bytes t0 t1 post.
    [Mint ''a'' 10 [1] 0 0, Mint ''b'' 10 [2] 0 0, Revoke ''a'']
      = pre @ Mint ''b'' ttl bytes t0 t1 # (post :: (string, string) cred_op list) \<and>
    at_fingerprint id (generate [2]) = at_fingerprint id (generate bytes) \<and>
    5 < t0 + ttl \<and> Revoke ''b'' \<notin> set post"
proof -
  have "at_resolve id (foldl (at_exec id) []
      [Mint ''a'' 10 [1] 0 0, Mint ''b'' 10 [2] 0 0, Revoke ''a'']) (generate [2]) 5 = Some ''b''"
    by code_simp
  from agent_token_provenance [OF this] show ?thesis .
qed

text \<open>A minted agent token names its agent, and nobody else, until it expires: whatever is
  minted or revoked in between, as long as the agent itself is not revoked and no later token
  has the same fingerprint.\<close>

theorem agent_token_resolves_until_expiry:
  assumes "now < t0 + ttl"
    and "Revoke agent \<notin> set post"
    and "\<And>j ttl' b s0 s1. Mint j ttl' b s0 s1 \<in> set post \<Longrightarrow>
      at_fingerprint sha (generate bytes) \<noteq> at_fingerprint sha (generate b) \<and> s1 \<le> now"
  shows "at_resolve sha (foldl (at_exec sha) [] (pre @ Mint agent ttl bytes t0 t1 # post)) (generate bytes) now
       = Some agent"
  using agent_tokens.granted_resolves [OF refl refl assms(1), of post agent sha bytes pre t1] assms(2,3)
  unfolding at_after by blast

theorem agent_token_resolves_until_expiry_witness:
  "at_resolve id (foldl (at_exec id) [] ([Mint ''x'' 3 [7] 0 0] @ Mint ''a'' 10 [1] 0 0
     # [Mint ''b'' 10 [2] 1 1, Revoke ''b''])) (generate [1]) 5 = Some ''a''"
proof (rule agent_token_resolves_until_expiry)
  fix j ttl' b s0 s1
  assume "Mint j ttl' b s0 s1 \<in> set [Mint ''b'' 10 [2] 1 1, Revoke ''b'']"
  then have "b = [2]" and "s1 = 1" by auto
  moreover have "at_fingerprint id (generate [1]) \<noteq> at_fingerprint id (generate [2])" by code_simp
  ultimately show "at_fingerprint id (generate [1]) \<noteq> at_fingerprint id (generate b) \<and> s1 \<le> 5"
    by simp
qed simp_all

text \<open>C34. Provenance of browser sessions: a cookie that resolves was minted, for the label it
  resolves to, within its lifetime; since then neither that session was signed out nor every
  session revoked.\<close>

theorem session_provenance:
  assumes "bs_resolve sha (foldl (bs_exec sha) [] ops) tok now = Some label"
  shows "\<exists>pre ttl bytes t0 t1 post.
    ops = pre @ Mint label ttl bytes t0 t1 # post \<and>
    bs_fingerprint sha tok = bs_fingerprint sha (generate bytes) \<and> now < t0 + ttl \<and>
    Revoke AllSessions \<notin> set post \<and>
    (\<forall>token t. Revoke (OneSession token t) \<in> set post \<longrightarrow> bs_fingerprint sha token \<noteq> bs_fingerprint sha tok)"
proof -
  from assms have "sessions.granted sha ops tok now label"
    by (intro sessions.resolve_granted) (simp add: bs_after)
  then obtain pre ttl bytes t0 t1 post where
    *: "ops = pre @ Mint label ttl bytes t0 t1 # post" "bs_fingerprint sha tok = bs_fingerprint sha (generate bytes)"
      "now < t0 + ttl" and kill: "\<forall>r. Revoke r \<in> set post \<longrightarrow> \<not> bs_kills sha r tok label"
    unfolding sessions.granted_def by blast
  from kill have "Revoke AllSessions \<notin> set post"
    and "\<forall>token t. Revoke (OneSession token t) \<in> set post \<longrightarrow> bs_fingerprint sha token \<noteq> bs_fingerprint sha tok"
    by force+
  with * show ?thesis by blast
qed

theorem session_provenance_witness:
  "\<exists>pre ttl bytes t0 t1 post.
    [Mint ''admin-key'' 10 [3] 0 0, Mint ''access:x'' 10 [4] 0 0, Revoke (OneSession (generate [4]) 1)]
      = pre @ Mint ''admin-key'' ttl bytes t0 t1 # post \<and>
    bs_fingerprint id (generate [3]) = bs_fingerprint id (generate bytes) \<and> 2 < t0 + ttl \<and>
    Revoke AllSessions \<notin> set post \<and>
    (\<forall>token t. Revoke (OneSession token t) \<in> set post \<longrightarrow>
       bs_fingerprint id token \<noteq> bs_fingerprint id (generate [3]))"
proof -
  have "bs_resolve id (foldl (bs_exec id) []
      [Mint ''admin-key'' 10 [3] 0 0, Mint ''access:x'' 10 [4] 0 0, Revoke (OneSession (generate [4]) 1)])
      (generate [3]) 2 = Some ''admin-key''"
    by code_simp
  from session_provenance [OF this] show ?thesis .
qed

end
