(* ===== verification/Json.thy ===== *)
theory Json
  imports Complex_Main Rust_Str "HOL-Library.List_Lexorder" "HOL-Library.Char_ord"
begin

text \<open>
  JSON values as \<open>serde_json::Value\<close> holds them. Integers keep the library's two
  representations, finite floats are rationals, objects are association lists ordered by key
  (the library's map is a \<open>BTreeMap\<close>: the workspace does not enable \<open>preserve_order\<close>).
  Printing and parsing are the library's: the parameter \<open>json_text\<close>, with \<open>json_reads_back\<close> as
  what the code relies on.
\<close>

datatype json_number = PosInt nat | NegInt int | Float rat

datatype json =
    JNull
  | JBool bool
  | JNum json_number
  | JStr string
  | JArr "json list"
  | JObj "(string \<times> json) list"

type_synonym json_map = "(string \<times> json) list"

definition json_get :: "json \<Rightarrow> string \<Rightarrow> json option" where
  "json_get v k = (case v of JObj m \<Rightarrow> map_of m k | _ \<Rightarrow> None)"

definition json_as_str :: "json \<Rightarrow> string option" where
  "json_as_str v = (case v of JStr s \<Rightarrow> Some s | _ \<Rightarrow> None)"

definition json_as_object :: "json \<Rightarrow> json_map option" where
  "json_as_object v = (case v of JObj m \<Rightarrow> Some m | _ \<Rightarrow> None)"

definition json_as_bool :: "json \<Rightarrow> bool option" where
  "json_as_bool v = (case v of JBool b \<Rightarrow> Some b | _ \<Rightarrow> None)"

definition json_as_array :: "json \<Rightarrow> json list option" where
  "json_as_array v = (case v of JArr vs \<Rightarrow> Some vs | _ \<Rightarrow> None)"

definition json_as_u64 :: "json \<Rightarrow> nat option" where
  "json_as_u64 v = (case v of JNum (PosInt n) \<Rightarrow> Some n | _ \<Rightarrow> None)"

text \<open>\<open>arr.iter().filter_map(|v| v.as_str().map(str::to_string))\<close>.\<close>

definition json_str_items :: "json list \<Rightarrow> string list" where
  "json_str_items vs = List.map_filter json_as_str vs"

definition json_is_null :: "json \<Rightarrow> bool" where
  "json_is_null v = (v = JNull)"

text \<open>\<open>Map::insert\<close>: the key keeps its place in the order.\<close>

fun json_map_insert :: "string \<Rightarrow> json \<Rightarrow> json_map \<Rightarrow> json_map" where
  "json_map_insert k v [] = [(k, v)]"
| "json_map_insert k v ((k', v') # m) =
     (if k = k' then (k, v) # m
      else if k < k' then (k, v) # (k', v') # m
      else (k', v') # json_map_insert k v m)"

lemma map_of_json_map_insert [simp]:
  "map_of (json_map_insert k v m) k' = (if k' = k then Some v else map_of m k')"
  by (induction k v m rule: json_map_insert.induct) auto

lemma fst_set_json_map_insert [simp]: "fst ` set (json_map_insert k v m) = insert k (fst ` set m)"
  by (induction k v m rule: json_map_insert.induct) auto

text \<open>The \<open>json!\<close> macro on an object.\<close>

definition json_object :: "(string \<times> json) list \<Rightarrow> json" where
  "json_object kvs = JObj (foldl (\<lambda>m (k, v). json_map_insert k v m) [] kvs)"

lemma map_of_json_fold:
  "map_of (foldl (\<lambda>m (k, v). json_map_insert k v m) m kvs) k = (case map_of (rev kvs) k of None \<Rightarrow> map_of m k | Some v \<Rightarrow> Some v)"
  by (induction kvs arbitrary: m) (auto split: option.splits simp: map_add_def)

lemma json_get_object [simp]: "json_get (json_object kvs) k = map_of (rev kvs) k"
  by (simp add: json_get_def json_object_def map_of_json_fold split: option.splits)

definition json_map_wf :: "json_map \<Rightarrow> bool" where
  "json_map_wf m = sorted_wrt (<) (map fst m)"

lemma json_map_wf_insert [inv_intros]: "json_map_wf m \<Longrightarrow> json_map_wf (json_map_insert k v m)"
proof (induction k v m rule: json_map_insert.induct)
  case (2 k v k' v' m)
  have "x \<in> fst ` set (json_map_insert k v m) \<Longrightarrow> x = k \<or> x \<in> fst ` set m" for x
    by simp
  with 2 show ?case
    by (auto simp: json_map_wf_def not_less order.order_iff_strict)
qed (simp add: json_map_wf_def)

text \<open>\<open>Vec<String>\<close> as a JSON array, and back.\<close>

definition json_strings :: "string list \<Rightarrow> json" where
  "json_strings xs = JArr (map JStr xs)"

fun strings_of :: "json list \<Rightarrow> string list option" where
  "strings_of [] = Some []"
| "strings_of (JStr s # vs) = map_option ((#) s) (strings_of vs)"
| "strings_of (_ # vs) = None"

definition json_as_strings :: "json \<Rightarrow> string list option" where
  "json_as_strings v = (case v of JArr vs \<Rightarrow> strings_of vs | _ \<Rightarrow> None)"

lemma json_as_strings_strings [simp]: "json_as_strings (json_strings xs) = Some xs"
proof -
  have "strings_of (map JStr xs) = Some xs" by (induction xs) simp_all
  then show ?thesis by (simp add: json_as_strings_def json_strings_def)
qed

section \<open>Text\<close>

record json_text =
  json_to_string :: "json \<Rightarrow> string"
  json_from_str :: "string \<Rightarrow> json option"

text \<open>
  What a reader of stored JSON relies on. The library's parser gives it for every value with no
  float in it (it may be a unit off in the last place) and less than 128 levels of nesting.
\<close>

definition json_reads_back :: "json_text \<Rightarrow> json \<Rightarrow> bool" where
  "json_reads_back jt v = (json_from_str jt (json_to_string jt v) = Some v)"

end
