(* ===== verification/Access_Control.thy ===== *)
theory Access_Control
  imports Json "HOL-Library.Product_Lexorder" "HOL-Library.Option_ord"
begin

text \<open>
  \<open>db/mcp.rs\<close>: registered servers, the access control table, argument rules, and the lookup every
  tool call's grant goes through. The tables are lists of rows in insertion order; a foreign key
  ties every access row to a server row (migration \<open>20260306000000\<close>, with the \<open>foreign_keys\<close>
  pragma on), a primary key makes the rule rows of one (agent, server, tool) unique.

  SQLite itself is the parameter \<open>sqlite\<close>: its \<open>datetime\<close> function, which is \<open>NULL\<close> on text
  that is not a date, and the row \<open>LIMIT 1\<close> picks when several match. Every statement may fail or
  time out: the fault of a statement is an argument, \<open>None\<close> when it succeeds, and a transaction
  that fails leaves the tables as they were. A lookup of several statements runs at one instant.
\<close>

section \<open>Enumerations\<close>

datatype EntryType = Capability | ServerGrant | ToolGrant

fun entry_type_str :: "EntryType \<Rightarrow> string" where
  "entry_type_str Capability = ''capability''"
| "entry_type_str ServerGrant = ''server_grant''"
| "entry_type_str ToolGrant = ''tool_grant''"

lemma entry_type_str_inj [simp]: "entry_type_str a = entry_type_str b \<longleftrightarrow> a = b"
  by (cases a; cases b) simp_all

datatype PermissionLevel = Allow | Deny

fun permission_str :: "PermissionLevel \<Rightarrow> string" where
  "permission_str Allow = ''allow''"
| "permission_str Deny = ''deny''"

datatype DefaultPolicy = OptIn | OptOut

fun dp_as_str :: "DefaultPolicy \<Rightarrow> string" where
  "dp_as_str OptIn = ''opt-in''"
| "dp_as_str OptOut = ''opt-out''"

definition dp_from_str_lossy :: "string \<Rightarrow> DefaultPolicy" where
  "dp_from_str_lossy s = (if s = ''opt-out'' then OptOut else OptIn)"

fun default_permission :: "DefaultPolicy \<Rightarrow> PermissionLevel" where
  "default_permission OptOut = Allow"
| "default_permission OptIn = Deny"

datatype MessageSource = MsUser | MsAgent | MsSystem

definition message_source_from_str_validated :: "string \<Rightarrow> MessageSource option" where
  "message_source_from_str_validated s =
     (if s = ''user'' then Some MsUser
      else if s = ''agent'' then Some MsAgent
      else if s = ''system'' then Some MsSystem
      else None)"

lemma dp_roundtrip: "dp_from_str_lossy (dp_as_str p) = p"
  by (cases p) (simp_all add: dp_from_str_lossy_def)

section \<open>Tables\<close>

record mcp_server_record =
  ms_name :: string
  ms_command :: string
  ms_args :: string
  ms_env :: string
  ms_transport :: string
  ms_url :: "string option"
  ms_auth_token :: "string option"
  ms_directory :: "string option"
  ms_display_name :: "string option"
  ms_auto_restart :: bool
  ms_script_content :: "string option"
  ms_description :: "string option"
  ms_default_policy :: string
  ms_marketplace_id :: "string option"
  ms_installed_version :: "string option"
  ms_trust_level :: "string option"
  ms_seal :: "string option"
  ms_is_active :: bool
  ms_created_at :: int
  ms_updated_at :: "int option"

text \<open>The columns' defaults are those of the Rust \<open>Default\<close> implementation.\<close>

definition mcp_server_record_default :: mcp_server_record where
  "mcp_server_record_default =
     \<lparr>ms_name = [], ms_command = [], ms_args = ''[]'', ms_env = ''{}'', ms_transport = ''stdio'',
      ms_url = None, ms_auth_token = None, ms_directory = None, ms_display_name = None,
      ms_auto_restart = True, ms_script_content = None, ms_description = None,
      ms_default_policy = ''opt-in'', ms_marketplace_id = None, ms_installed_version = None,
      ms_trust_level = None, ms_seal = None, ms_is_active = True, ms_created_at = 0,
      ms_updated_at = None\<rparr>"

text \<open>
  An access control entry. The column \<open>permission\<close> is text (\<open>access_row\<close>); a row read into the
  Rust struct has it decoded (\<open>access_control_entry\<close>).
\<close>

record 'p access_entry =
  ac_id :: "int option"
  ac_entry_type :: EntryType
  ac_agent_id :: string
  ac_server_id :: string
  ac_tool_name :: "string option"
  ac_permission :: 'p
  ac_granted_by :: "string option"
  ac_granted_at :: string
  ac_expires_at :: "string option"
  ac_justification :: "string option"
  ac_metadata :: "string option"

type_synonym access_row = "string access_entry"
type_synonym access_control_entry = "PermissionLevel access_entry"

record argument_rule_row =
  rr_agent_id :: string
  rr_server_id :: string
  rr_tool_name :: string
  rr_equals :: string
  rr_required :: string
  rr_updated_at :: string

record argument_rule =
  ar_server_id :: string
  ar_tool_name :: "string option"
  ar_equals :: json_map
  ar_required :: "string list"

text \<open>An agent: its id, its default engine, and whether it is enabled.\<close>

type_synonym agent_row = "string \<times> string \<times> bool"

record db =
  db_servers :: "mcp_server_record list"
  db_access :: "access_row list"
  db_access_seq :: int
  db_rules :: "argument_rule_row list"
  db_agents :: "agent_row list"

type_synonym db_error = string
type_synonym fault = "db_error option"

record sqlite =
  sq_datetime :: "string \<Rightarrow> instant option"
  sq_pick :: "string list \<Rightarrow> string option"

text \<open>\<open>LIMIT 1\<close> gives one of the matching rows, and none only when none matches.\<close>

definition sqlite_ok :: "sqlite \<Rightarrow> bool" where
  "sqlite_ok sq \<longleftrightarrow> sq_pick sq [] = None \<and> (\<forall>xs. xs \<noteq> [] \<longrightarrow> (\<exists>x \<in> set xs. sq_pick sq xs = Some x))"

definition db_timeout :: "fault \<Rightarrow> 'a \<Rightarrow> db_error + 'a" where
  "db_timeout f v = (case f of None \<Rightarrow> Ok v | Some e \<Rightarrow> Err e)"

lemma db_timeout_simps [simp]:
  "db_timeout None v = Ok v"
  "db_timeout (Some e) v = Err e"
  by (simp_all add: db_timeout_def)

definition FK_ERROR :: db_error where
  "FK_ERROR = ''FOREIGN KEY constraint failed''"

definition UNIQUE_ERROR :: db_error where
  "UNIQUE_ERROR = ''UNIQUE constraint failed''"

definition PLACEHOLDER_COMMAND :: string where
  "PLACEHOLDER_COMMAND = ''config-loaded''"

section \<open>Servers\<close>

definition find_server :: "db \<Rightarrow> string \<Rightarrow> mcp_server_record option" where
  "find_server db n = find (\<lambda>r. ms_name r = n) (db_servers db)"

definition has_server :: "db \<Rightarrow> string \<Rightarrow> bool" where
  "has_server db n = list_ex (\<lambda>r. ms_name r = n) (db_servers db)"

text \<open>\<open>INSERT OR IGNORE INTO mcp_servers (name, command, args, created_at)\<close>.\<close>

definition ensure_server :: "int \<Rightarrow> string \<Rightarrow> db \<Rightarrow> db" where
  "ensure_server now n db =
     (if has_server db n then db
      else db\<lparr>db_servers := db_servers db @
        [mcp_server_record_default\<lparr>ms_name := n, ms_command := PLACEHOLDER_COMMAND, ms_args := ''[]'',
           ms_created_at := now\<rparr>]\<rparr>)"

text \<open>The upsert: what a second save keeps of the row, \<open>COALESCE(excluded.c, c)\<close> included.\<close>

definition upsert_server :: "int \<Rightarrow> mcp_server_record \<Rightarrow> mcp_server_record \<Rightarrow> mcp_server_record" where
  "upsert_server now new old = old
     \<lparr>ms_command := ms_command new,
      ms_args := ms_args new,
      ms_env := ms_env new,
      ms_transport := ms_transport new,
      ms_url := ms_url new,
      ms_auth_token := ms_auth_token new,
      ms_directory := option_or (ms_directory new) (ms_directory old),
      ms_display_name := option_or (ms_display_name new) (ms_display_name old),
      ms_auto_restart := ms_auto_restart new,
      ms_script_content := ms_script_content new,
      ms_description := option_or (ms_description new) (ms_description old),
      ms_marketplace_id := option_or (ms_marketplace_id new) (ms_marketplace_id old),
      ms_installed_version := option_or (ms_installed_version new) (ms_installed_version old),
      ms_trust_level := option_or (ms_trust_level new) (ms_trust_level old),
      ms_seal := option_or (ms_seal new) (ms_seal old),
      ms_is_active := ms_is_active new,
      ms_updated_at := Some now\<rparr>"

definition save_mcp_server :: "fault \<Rightarrow> int \<Rightarrow> mcp_server_record \<Rightarrow> db \<Rightarrow> db \<times> (db_error + unit)" where
  "save_mcp_server f now rec db =
     (case f of Some e \<Rightarrow> (db, Err e)
      | None \<Rightarrow>
         (db\<lparr>db_servers :=
            (if has_server db (ms_name rec)
             then map (\<lambda>r. if ms_name r = ms_name rec then upsert_server now rec r else r) (db_servers db)
             else db_servers db @ [rec])\<rparr>, Ok ()))"

definition load_active_mcp_servers :: "fault \<Rightarrow> db \<Rightarrow> db_error + mcp_server_record list" where
  "load_active_mcp_servers f db =
     db_timeout f (sort_key ms_created_at (filter ms_is_active (db_servers db)))"

definition load_all_mcp_servers :: "fault \<Rightarrow> db \<Rightarrow> db_error + mcp_server_record list" where
  "load_all_mcp_servers f db = db_timeout f (sort_key ms_created_at (db_servers db))"

text \<open>Two statements; the second cascades to the access rows of the server.\<close>

definition delete_mcp_server :: "(nat \<Rightarrow> fault) \<Rightarrow> string \<Rightarrow> db \<Rightarrow> db \<times> (db_error + unit)" where
  "delete_mcp_server f n db =
     (case f 0 of Some e \<Rightarrow> (db, Err e)
      | None \<Rightarrow>
         (let db1 = db\<lparr>db_access := filter (\<lambda>r. ac_server_id r \<noteq> n) (db_access db)\<rparr>
          in case f 1 of Some e \<Rightarrow> (db1, Err e)
             | None \<Rightarrow> (db1\<lparr>db_servers := filter (\<lambda>r. ms_name r \<noteq> n) (db_servers db1),
                            db_access := filter (\<lambda>r. ac_server_id r \<noteq> n) (db_access db1)\<rparr>, Ok ())))"

definition get_mcp_server_settings :: "fault \<Rightarrow> db \<Rightarrow> string \<Rightarrow> db_error + mcp_server_record option" where
  "get_mcp_server_settings f db n = db_timeout f (find_server db n)"

definition update_server_rows ::
  "fault \<Rightarrow> string \<Rightarrow> (mcp_server_record \<Rightarrow> mcp_server_record) \<Rightarrow> db \<Rightarrow> db \<times> (db_error + nat)" where
  "update_server_rows f n upd db =
     (case f of Some e \<Rightarrow> (db, Err e)
      | None \<Rightarrow> (db\<lparr>db_servers := map (\<lambda>r. if ms_name r = n then upd r else r) (db_servers db)\<rparr>,
                 Ok (length (filter (\<lambda>r. ms_name r = n) (db_servers db)))))"

definition update_mcp_server_default_policy :: "fault \<Rightarrow> string \<Rightarrow> string \<Rightarrow> db \<Rightarrow> db \<times> (db_error + nat)" where
  "update_mcp_server_default_policy f n policy = update_server_rows f n (\<lambda>r. r\<lparr>ms_default_policy := policy\<rparr>)"

definition update_mcp_server_env :: "fault \<Rightarrow> string \<Rightarrow> string \<Rightarrow> db \<Rightarrow> db \<times> (db_error + nat)" where
  "update_mcp_server_env f n env = update_server_rows f n (\<lambda>r. r\<lparr>ms_env := env\<rparr>)"

definition update_mcp_server_auth_token ::
  "fault \<Rightarrow> string \<Rightarrow> string option \<Rightarrow> db \<Rightarrow> db \<times> (db_error + nat)" where
  "update_mcp_server_auth_token f n tok = update_server_rows f n (\<lambda>r. r\<lparr>ms_auth_token := tok\<rparr>)"

section \<open>Access rows\<close>

definition insert_access :: "access_row \<Rightarrow> db \<Rightarrow> db_error + db" where
  "insert_access row db =
     (if has_server db (ac_server_id row)
      then Ok (db\<lparr>db_access := db_access db @ [row\<lparr>ac_id := Some (db_access_seq db + 1)\<rparr>],
                 db_access_seq := db_access_seq db + 1\<rparr>)
      else Err FK_ERROR)"

fun insert_all :: "access_row list \<Rightarrow> db \<Rightarrow> db_error + db" where
  "insert_all [] db = Ok db"
| "insert_all (row # rows) db = and_then (insert_access row db) (insert_all rows)"

definition row_of_entry :: "access_control_entry \<Rightarrow> access_row" where
  "row_of_entry e =
     \<lparr>ac_id = ac_id e, ac_entry_type = ac_entry_type e, ac_agent_id = ac_agent_id e,
      ac_server_id = ac_server_id e, ac_tool_name = ac_tool_name e,
      ac_permission = permission_str (ac_permission e), ac_granted_by = ac_granted_by e,
      ac_granted_at = ac_granted_at e, ac_expires_at = ac_expires_at e,
      ac_justification = ac_justification e, ac_metadata = ac_metadata e\<rparr>"

text \<open>Decoding a row: text that is neither permission is an error of the database layer.\<close>

definition DECODE_ERROR :: db_error where
  "DECODE_ERROR = ''error occurred while decoding column''"

definition decode_permission :: "string \<Rightarrow> db_error + PermissionLevel" where
  "decode_permission s =
     (if s = ''allow'' then Ok Allow else if s = ''deny'' then Ok Deny else Err DECODE_ERROR)"

definition decode_row :: "access_row \<Rightarrow> db_error + access_control_entry" where
  "decode_row r =
     and_then (decode_permission (ac_permission r))
       (\<lambda>p. Ok \<lparr>ac_id = ac_id r, ac_entry_type = ac_entry_type r, ac_agent_id = ac_agent_id r,
          ac_server_id = ac_server_id r, ac_tool_name = ac_tool_name r, ac_permission = p,
          ac_granted_by = ac_granted_by r, ac_granted_at = ac_granted_at r,
          ac_expires_at = ac_expires_at r, ac_justification = ac_justification r,
          ac_metadata = ac_metadata r\<rparr>)"

fun decode_rows :: "access_row list \<Rightarrow> db_error + access_control_entry list" where
  "decode_rows [] = Ok []"
| "decode_rows (r # rs) = and_then (decode_row r) (\<lambda>e. and_then (decode_rows rs) (\<lambda>es. Ok (e # es)))"

definition save_access_control_entry ::
  "(nat \<Rightarrow> fault) \<Rightarrow> int \<Rightarrow> access_control_entry \<Rightarrow> db \<Rightarrow> db \<times> (db_error + int)" where
  "save_access_control_entry f now entry db =
     (case f 0 of Some e \<Rightarrow> (db, Err e)
      | None \<Rightarrow>
         (let db1 = ensure_server now (ac_server_id entry) db
          in case f 1 of Some e \<Rightarrow> (db1, Err e)
             | None \<Rightarrow>
                (case insert_access (row_of_entry entry) db1 of
                   Inl e \<Rightarrow> (db1, Err e)
                 | Inr db2 \<Rightarrow> (db2, Ok (db_access_seq db2)))))"

definition get_access_entries_for_server ::
  "fault \<Rightarrow> db \<Rightarrow> string \<Rightarrow> db_error + access_control_entry list" where
  "get_access_entries_for_server f db server_id =
     and_then (db_timeout f
         (sort_key (\<lambda>r. (ac_agent_id r, entry_type_str (ac_entry_type r), ac_tool_name r))
           (filter (\<lambda>r. ac_server_id r = server_id) (db_access db))))
       decode_rows"

definition get_agents_for_server :: "fault \<Rightarrow> db \<Rightarrow> string \<Rightarrow> db_error + string list" where
  "get_agents_for_server f db server_id =
     and_then (get_access_entries_for_server f db server_id)
       (\<lambda>entries. Ok (map ac_agent_id
          (filter (\<lambda>e. ac_entry_type e = ServerGrant \<and> ac_permission e = Allow) entries)))"

definition get_access_entries_for_agent ::
  "fault \<Rightarrow> db \<Rightarrow> string \<Rightarrow> db_error + access_control_entry list" where
  "get_access_entries_for_agent f db agent_id =
     and_then (db_timeout f
         (sort_key (\<lambda>r. (ac_server_id r, entry_type_str (ac_entry_type r), ac_tool_name r))
           (filter (\<lambda>r. ac_agent_id r = agent_id) (db_access db))))
       decode_rows"

text \<open>A transaction: the new tables when every statement succeeds, the old ones otherwise.\<close>

definition transaction :: "fault \<Rightarrow> (db \<Rightarrow> db_error + db) \<Rightarrow> db \<Rightarrow> db \<times> (db_error + unit)" where
  "transaction f body db =
     (case and_then (body db) (db_timeout f) of
        Inl e \<Rightarrow> (db, Err e)
      | Inr db' \<Rightarrow> (db', Ok ()))"

definition put_access_entries ::
  "fault \<Rightarrow> int \<Rightarrow> string \<Rightarrow> access_control_entry list \<Rightarrow> db \<Rightarrow> db \<times> (db_error + unit)" where
  "put_access_entries f now server_id entries =
     transaction f (\<lambda>db.
       let db1 = ensure_server now server_id db;
           db2 = db1\<lparr>db_access := filter (\<lambda>r. \<not> (ac_server_id r = server_id \<and>
                       ac_entry_type r \<in> {ServerGrant, ToolGrant})) (db_access db1)\<rparr>
       in insert_all (map row_of_entry (filter (\<lambda>e. ac_entry_type e \<noteq> Capability) entries)) db2)"

definition grant_row ::
  "EntryType \<Rightarrow> string \<Rightarrow> string \<Rightarrow> string option \<Rightarrow> PermissionLevel \<Rightarrow> string \<Rightarrow> string \<Rightarrow> access_row" where
  "grant_row ty agent server tool perm by stamp =
     \<lparr>ac_id = None, ac_entry_type = ty, ac_agent_id = agent, ac_server_id = server, ac_tool_name = tool,
      ac_permission = permission_str perm, ac_granted_by = Some by, ac_granted_at = stamp,
      ac_expires_at = None, ac_justification = None, ac_metadata = None\<rparr>"

fun insert_server_grants :: "int \<Rightarrow> string \<Rightarrow> string \<Rightarrow> string \<Rightarrow> string list \<Rightarrow> db \<Rightarrow> db_error + db" where
  "insert_server_grants now agent by stamp [] db = Ok db"
| "insert_server_grants now agent by stamp (server # servers) db =
     and_then (insert_access (grant_row ServerGrant agent server None Allow by stamp)
                 (ensure_server now server db))
       (insert_server_grants now agent by stamp servers)"

definition put_agent_server_grants ::
  "fault \<Rightarrow> int \<Rightarrow> string \<Rightarrow> string \<Rightarrow> string list \<Rightarrow> string \<Rightarrow> db \<Rightarrow> db \<times> (db_error + unit)" where
  "put_agent_server_grants f now stamp agent_id granted_server_ids granted_by =
     transaction f (\<lambda>db.
       insert_server_grants now agent_id granted_by stamp granted_server_ids
         (db\<lparr>db_access := filter (\<lambda>r. \<not> (ac_agent_id r = agent_id \<and> ac_entry_type r = ServerGrant))
                           (db_access db)\<rparr>))"

text \<open>
  One \<open>INSERT ... SELECT\<close>: the agents are chosen before any row is written. Answers how many rows
  it inserted.
\<close>

definition has_server_grant :: "db \<Rightarrow> string \<Rightarrow> string \<Rightarrow> bool" where
  "has_server_grant db agent server =
     list_ex (\<lambda>r. ac_agent_id r = agent \<and> ac_server_id r = server \<and> ac_entry_type r = ServerGrant \<and>
                 ac_tool_name r = None) (db_access db)"

definition grant_default_engine_to_agents ::
  "fault \<Rightarrow> string \<Rightarrow> string \<Rightarrow> db \<Rightarrow> db \<times> (db_error + nat)" where
  "grant_default_engine_to_agents f stamp server_id db =
     (let agents = map fst (filter (\<lambda>(agent, engine, _). engine = server_id \<and> \<not> has_server_grant db agent server_id)
                              (db_agents db));
          rows = map (\<lambda>agent. grant_row ServerGrant agent server_id None Allow ''install:default-engine'' stamp) agents
      in case and_then (insert_all rows db) (db_timeout f) of
           Inl e \<Rightarrow> (db, Err e)
         | Inr db' \<Rightarrow> (db', Ok (length agents)))"

text \<open>\<open>SELECT EXISTS(SELECT 1 FROM agents WHERE id = ? AND enabled = 1)\<close>.\<close>

definition agent_active :: "db \<Rightarrow> string \<Rightarrow> bool" where
  "agent_active db agent = list_ex (\<lambda>(i, _, enabled). i = agent \<and> enabled) (db_agents db)"

definition delete_access_entry ::
  "fault \<Rightarrow> string \<Rightarrow> string \<Rightarrow> string \<Rightarrow> string option \<Rightarrow> db \<Rightarrow> db \<times> (db_error + nat)" where
  "delete_access_entry f agent_id server_id entry_type tool_name db =
     (let matches = (\<lambda>r. ac_agent_id r = agent_id \<and> ac_server_id r = server_id \<and>
                       entry_type_str (ac_entry_type r) = entry_type \<and> ac_tool_name r = tool_name)
      in case f of Some e \<Rightarrow> (db, Err e)
         | None \<Rightarrow> (db\<lparr>db_access := filter (\<lambda>r. \<not> matches r) (db_access db)\<rparr>,
                    Ok (length (filter matches (db_access db)))))"

section \<open>Resolving a call's permission\<close>

definition permission_from_column :: "string \<Rightarrow> PermissionLevel" where
  "permission_from_column perm = (if perm = ''allow'' then Allow else Deny)"

text \<open>\<open>expires_at IS NULL OR datetime(expires_at) > datetime('now')\<close>.\<close>

definition unexpired :: "sqlite \<Rightarrow> instant \<Rightarrow> access_row \<Rightarrow> bool" where
  "unexpired sq now r =
     (case ac_expires_at r of
        None \<Rightarrow> True
      | Some s \<Rightarrow> (case sq_datetime sq s of None \<Rightarrow> False | Some t \<Rightarrow> t > now))"

definition tool_rows :: "sqlite \<Rightarrow> instant \<Rightarrow> db \<Rightarrow> string \<Rightarrow> string \<Rightarrow> string \<Rightarrow> access_row list" where
  "tool_rows sq now db agent_id server_id tool_name =
     filter (\<lambda>r. ac_agent_id r = agent_id \<and> ac_server_id r = server_id \<and> ac_tool_name r = Some tool_name \<and>
                ac_entry_type r = ToolGrant \<and> unexpired sq now r) (db_access db)"

definition server_rows :: "sqlite \<Rightarrow> instant \<Rightarrow> db \<Rightarrow> string \<Rightarrow> string \<Rightarrow> access_row list" where
  "server_rows sq now db agent_id server_id =
     filter (\<lambda>r. ac_agent_id r = agent_id \<and> ac_server_id r = server_id \<and> ac_entry_type r = ServerGrant \<and>
                ac_tool_name r = None \<and> unexpired sq now r) (db_access db)"

definition explicit_tool_grant ::
  "sqlite \<Rightarrow> instant \<Rightarrow> fault \<Rightarrow> db \<Rightarrow> string \<Rightarrow> string \<Rightarrow> string \<Rightarrow> db_error + PermissionLevel option" where
  "explicit_tool_grant sq now f db agent_id server_id tool_name =
     db_timeout f (map_option permission_from_column
       (sq_pick sq (map ac_permission (tool_rows sq now db agent_id server_id tool_name))))"

definition explicit_server_grant ::
  "sqlite \<Rightarrow> instant \<Rightarrow> fault \<Rightarrow> db \<Rightarrow> string \<Rightarrow> string \<Rightarrow> db_error + PermissionLevel option" where
  "explicit_server_grant sq now f db agent_id server_id =
     db_timeout f (map_option permission_from_column
       (sq_pick sq (map ac_permission (server_rows sq now db agent_id server_id))))"

text \<open>The faults of a lookup are numbered in the order of its statements.\<close>

definition resolve_explicit_permission ::
  "sqlite \<Rightarrow> instant \<Rightarrow> (nat \<Rightarrow> fault) \<Rightarrow> db \<Rightarrow> string \<Rightarrow> string \<Rightarrow> string \<Rightarrow> db_error + PermissionLevel option" where
  "resolve_explicit_permission sq now f db agent_id server_id tool_name =
     and_then (explicit_tool_grant sq now (f 0) db agent_id server_id tool_name)
       (\<lambda>tool. case tool of
           Some perm \<Rightarrow> Ok (Some perm)
         | None \<Rightarrow> explicit_server_grant sq now (f 1) db agent_id server_id)"

definition resolve_tool_access ::
  "sqlite \<Rightarrow> instant \<Rightarrow> (nat \<Rightarrow> fault) \<Rightarrow> db \<Rightarrow> string \<Rightarrow> string \<Rightarrow> string \<Rightarrow> db_error + PermissionLevel" where
  "resolve_tool_access sq now f db agent_id server_id tool_name =
     and_then (resolve_explicit_permission sq now f db agent_id server_id tool_name)
       (\<lambda>explicit. case explicit of
           Some perm \<Rightarrow> Ok perm
         | None \<Rightarrow>
             and_then (db_timeout (f 2) (map_option ms_default_policy (find_server db server_id)))
               (\<lambda>policy. Ok (default_permission (dp_from_str_lossy (unwrap_or policy ''opt-in'')))))"

fun resolve_any_tool_access ::
  "sqlite \<Rightarrow> instant \<Rightarrow> (nat \<Rightarrow> nat \<Rightarrow> fault) \<Rightarrow> db \<Rightarrow> string \<Rightarrow> string \<Rightarrow> string list \<Rightarrow> PermissionLevel" where
  "resolve_any_tool_access sq now f db agent_id server_id [] = Deny"
| "resolve_any_tool_access sq now f db agent_id server_id (tool_name # tool_names) =
     (if resolve_tool_access sq now (f 0) db agent_id server_id tool_name = Ok Allow then Allow
      else resolve_any_tool_access sq now (\<lambda>i. f (Suc i)) db agent_id server_id tool_names)"

section \<open>The grants of one agent on one server\<close>

record tool_grant =
  tg_tool_name :: string
  tg_permission :: PermissionLevel

record server_grant_set =
  gs_server :: "PermissionLevel option"
  gs_tools :: "tool_grant list"

fun collect_tool_grants ::
  "sqlite \<Rightarrow> instant \<Rightarrow> (nat \<Rightarrow> fault) \<Rightarrow> db \<Rightarrow> string \<Rightarrow> string \<Rightarrow> string list \<Rightarrow> db_error + tool_grant list" where
  "collect_tool_grants sq now f db agent_id server_id [] = Ok []"
| "collect_tool_grants sq now f db agent_id server_id (tool # names) =
     and_then (explicit_tool_grant sq now (f 0) db agent_id server_id tool)
       (\<lambda>perm. and_then (collect_tool_grants sq now (\<lambda>i. f (Suc i)) db agent_id server_id names)
         (\<lambda>tools. Ok (case perm of None \<Rightarrow> tools
                     | Some p \<Rightarrow> \<lparr>tg_tool_name = tool, tg_permission = p\<rparr> # tools)))"

text \<open>The faults: of the listing, of each tool's lookup, of the server lookup.\<close>

definition agent_grants_on_server ::
  "sqlite \<Rightarrow> instant \<Rightarrow> fault \<Rightarrow> (nat \<Rightarrow> fault) \<Rightarrow> fault \<Rightarrow> db \<Rightarrow> string \<Rightarrow> string \<Rightarrow> db_error + server_grant_set" where
  "agent_grants_on_server sq now f0 f f1 db agent_id server_id =
     and_then (db_timeout f0 (sort (remdups (List.map_filter ac_tool_name
         (filter (\<lambda>r. ac_agent_id r = agent_id \<and> ac_server_id r = server_id \<and> ac_entry_type r = ToolGrant \<and>
                     ac_tool_name r \<noteq> None \<and> unexpired sq now r) (db_access db))))))
       (\<lambda>names. and_then (collect_tool_grants sq now f db agent_id server_id names)
         (\<lambda>tools. and_then (explicit_server_grant sq now f1 db agent_id server_id)
           (\<lambda>server. Ok \<lparr>gs_server = server, gs_tools = tools\<rparr>)))"

definition replace_agent_grants_on_server ::
  "fault \<Rightarrow> string \<Rightarrow> string \<Rightarrow> string \<Rightarrow> server_grant_set \<Rightarrow> string \<Rightarrow> db \<Rightarrow> db \<times> (db_error + unit)" where
  "replace_agent_grants_on_server f stamp agent_id server_id gset granted_by =
     transaction f (\<lambda>db.
       insert_all
         ((case gs_server gset of None \<Rightarrow> []
           | Some p \<Rightarrow> [grant_row ServerGrant agent_id server_id None p granted_by stamp])
          @ map (\<lambda>t. grant_row ToolGrant agent_id server_id (Some (tg_tool_name t)) (tg_permission t) granted_by stamp)
              (gs_tools gset))
         (db\<lparr>db_access := filter (\<lambda>r. \<not> (ac_agent_id r = agent_id \<and> ac_server_id r = server_id \<and>
                             ac_entry_type r \<in> {ServerGrant, ToolGrant})) (db_access db)\<rparr>))"

section \<open>Argument rules\<close>

definition argument_rule_from_row :: "json_text \<Rightarrow> argument_rule_row \<Rightarrow> db_error + argument_rule" where
  "argument_rule_from_row jt r =
     and_then (ok_or (Option.bind (json_from_str jt (rr_equals r)) json_as_object) ''equals: invalid JSON'')
       (\<lambda>equals. and_then (ok_or (Option.bind (json_from_str jt (rr_required r)) json_as_strings) ''required: invalid JSON'')
         (\<lambda>required. Ok \<lparr>ar_server_id = rr_server_id r,
            ar_tool_name = (if rr_tool_name r = [] then None else Some (rr_tool_name r)),
            ar_equals = equals, ar_required = required\<rparr>))"

fun argument_rules_from_rows :: "json_text \<Rightarrow> argument_rule_row list \<Rightarrow> db_error + argument_rule list" where
  "argument_rules_from_rows jt [] = Ok []"
| "argument_rules_from_rows jt (r # rs) =
     and_then (argument_rule_from_row jt r)
       (\<lambda>rule. and_then (argument_rules_from_rows jt rs) (\<lambda>rules. Ok (rule # rules)))"

definition list_argument_rules :: "json_text \<Rightarrow> fault \<Rightarrow> db \<Rightarrow> string \<Rightarrow> db_error + argument_rule list" where
  "list_argument_rules jt f db agent_id =
     and_then (db_timeout f (sort_key (\<lambda>r. (rr_server_id r, rr_tool_name r))
         (filter (\<lambda>r. rr_agent_id r = agent_id) (db_rules db))))
       (argument_rules_from_rows jt)"

definition argument_rules_for_call ::
  "json_text \<Rightarrow> fault \<Rightarrow> db \<Rightarrow> string \<Rightarrow> string \<Rightarrow> string \<Rightarrow> db_error + argument_rule list" where
  "argument_rules_for_call jt f db agent_id server_id tool_name =
     and_then (db_timeout f (filter (\<lambda>r. rr_agent_id r = agent_id \<and> rr_server_id r = server_id \<and>
                                        rr_tool_name r \<in> {[], tool_name}) (db_rules db)))
       (argument_rules_from_rows jt)"

definition insert_rule :: "argument_rule_row \<Rightarrow> db \<Rightarrow> db_error + db" where
  "insert_rule row db =
     (if list_ex (\<lambda>r. rr_agent_id r = rr_agent_id row \<and> rr_server_id r = rr_server_id row \<and>
                     rr_tool_name r = rr_tool_name row) (db_rules db)
      then Err UNIQUE_ERROR
      else Ok (db\<lparr>db_rules := db_rules db @ [row]\<rparr>))"

fun insert_rules :: "argument_rule_row list \<Rightarrow> db \<Rightarrow> db_error + db" where
  "insert_rules [] db = Ok db"
| "insert_rules (row # rows) db = and_then (insert_rule row db) (insert_rules rows)"

definition rule_row :: "json_text \<Rightarrow> string \<Rightarrow> string \<Rightarrow> argument_rule \<Rightarrow> argument_rule_row" where
  "rule_row jt stamp agent_id rule =
     \<lparr>rr_agent_id = agent_id, rr_server_id = ar_server_id rule,
      rr_tool_name = unwrap_or (ar_tool_name rule) [],
      rr_equals = json_to_string jt (JObj (ar_equals rule)),
      rr_required = json_to_string jt (json_strings (ar_required rule)), rr_updated_at = stamp\<rparr>"

definition put_argument_rules ::
  "json_text \<Rightarrow> fault \<Rightarrow> string \<Rightarrow> string \<Rightarrow> argument_rule list \<Rightarrow> db \<Rightarrow> db \<times> (db_error + unit)" where
  "put_argument_rules jt f stamp agent_id rules =
     transaction f (\<lambda>db.
       insert_rules (map (rule_row jt stamp agent_id) rules)
         (db\<lparr>db_rules := filter (\<lambda>r. rr_agent_id r \<noteq> agent_id) (db_rules db)\<rparr>))"

section \<open>The summary bar\<close>

text \<open>Per tool: explicit allows, explicit denies, and the count shown as inherited.\<close>

definition get_access_summary ::
  "fault \<Rightarrow> fault \<Rightarrow> db \<Rightarrow> string \<Rightarrow> db_error + (string \<times> int \<times> int \<times> int) list" where
  "get_access_summary f0 f1 db server_id =
     (let grants = filter (\<lambda>r. ac_server_id r = server_id \<and> ac_entry_type r = ToolGrant) (db_access db);
          count = (\<lambda>tool perm. int (length (filter (\<lambda>r. ac_tool_name r = Some tool \<and> ac_permission r = perm) grants)))
      in and_then (db_timeout f0 (map (\<lambda>tool. (tool, count tool ''allow'', count tool ''deny''))
             (sort (remdups (List.map_filter ac_tool_name grants)))))
           (\<lambda>rows. and_then (db_timeout f1 (int (length (remdups (map ac_agent_id
                 (filter (\<lambda>r. ac_server_id r = server_id \<and> ac_entry_type r = ServerGrant) (db_access db)))))))
             (\<lambda>server_grant_count. Ok (map (\<lambda>(tool, allowed, denied).
                (tool, allowed, denied, max 0 (server_grant_count - (allowed + denied)))) rows))))"

end
