(* ===== verification/Access_Laws.thy ===== *)
theory Access_Laws
  imports Access_Control
begin

text \<open>
  What the access tables promise: the precedence of grants, the round trips of the bulk writes and
  what they leave alone, and the integrity of the tables under every sequence of writes.
\<close>

section \<open>Lemmas on the tables\<close>

lemma has_server_iff: "has_server db n \<longleftrightarrow> n \<in> ms_name ` set (db_servers db)"
  by (auto simp: has_server_def list_ex_iff)

lemma find_server_None_iff: "find_server db n = None \<longleftrightarrow> \<not> has_server db n"
  by (auto simp: find_server_def has_server_def find_None_iff list_ex_iff)

lemma has_server_update [simp]:
  "has_server (db\<lparr>db_access := a\<rparr>) n = has_server db n"
  "has_server (db\<lparr>db_access_seq := i\<rparr>) n = has_server db n"
  "has_server (db\<lparr>db_rules := rs\<rparr>) n = has_server db n"
  by (simp_all add: has_server_def)

lemma find_server_update [simp]:
  "find_server (db\<lparr>db_access := a\<rparr>) n = find_server db n"
  "find_server (db\<lparr>db_access_seq := i\<rparr>) n = find_server db n"
  by (simp_all add: find_server_def)

lemma ensure_server_keeps [simp]:
  "db_access (ensure_server now n db) = db_access db"
  "db_access_seq (ensure_server now n db) = db_access_seq db"
  "db_rules (ensure_server now n db) = db_rules db"
  "db_agents (ensure_server now n db) = db_agents db"
  by (simp_all add: ensure_server_def)

lemma has_server_ensure [simp]: "has_server (ensure_server now n db) m \<longleftrightarrow> m = n \<or> has_server db m"
  by (auto simp: ensure_server_def has_server_def mcp_server_record_default_def)

text \<open>A placeholder has the policy that an unknown server has.\<close>

definition server_policy :: "db \<Rightarrow> string \<Rightarrow> PermissionLevel" where
  "server_policy db server =
     default_permission (dp_from_str_lossy (unwrap_or (map_option ms_default_policy (find_server db server)) ''opt-in''))"

lemma find_append: "find P (xs @ ys) = (case find P xs of None \<Rightarrow> find P ys | Some x \<Rightarrow> Some x)"
  by (induction xs) auto

lemma server_policy_ensure [simp]: "server_policy (ensure_server now n db) m = server_policy db m"
proof (cases "find_server db m")
  case None
  then show ?thesis
    by (auto simp: server_policy_def ensure_server_def find_server_def find_append mcp_server_record_default_def)
next
  case (Some srv)
  then show ?thesis
    by (auto simp: server_policy_def ensure_server_def find_server_def find_append)
qed

lemma server_policy_cong: "db_servers db = db_servers db' \<Longrightarrow> server_policy db = server_policy db'"
  by (auto simp: server_policy_def find_server_def)

lemma server_policy_Allow_iff:
  "server_policy db server = Allow \<longleftrightarrow> (\<exists>srv. find_server db server = Some srv \<and> ms_default_policy srv = ''opt-out'')"
  by (cases "find_server db server") (auto simp: server_policy_def dp_from_str_lossy_def)

text \<open>Inserting rows gives them the next numbers and fails on a dangling server.\<close>

fun number_rows :: "int \<Rightarrow> access_row list \<Rightarrow> access_row list" where
  "number_rows n [] = []"
| "number_rows n (r # rs) = r\<lparr>ac_id := Some (n + 1)\<rparr> # number_rows (n + 1) rs"

lemma insert_all_eq:
  "insert_all rows db =
     (if \<forall>r \<in> set rows. has_server db (ac_server_id r)
      then Ok (db\<lparr>db_access := db_access db @ number_rows (db_access_seq db) rows,
                 db_access_seq := db_access_seq db + int (length rows)\<rparr>)
      else Err FK_ERROR)"
  by (induction rows arbitrary: db) (auto simp: insert_access_def)

text \<open>The number of a row plays no part in any query.\<close>

lemma filter_number_rows:
  assumes "\<And>r i. P (r\<lparr>ac_id := i\<rparr>) = P r" and "\<And>r i. g (r\<lparr>ac_id := i\<rparr>) = g r"
  shows "map g (filter P (number_rows n rows)) = map g (filter P rows)"
  using assms by (induction rows arbitrary: n) simp_all

lemma set_map_number_rows:
  assumes "\<And>r i. g (r\<lparr>ac_id := i\<rparr>) = g r"
  shows "g ` set (number_rows n rows) = g ` set rows"
  using assms by (induction rows arbitrary: n) simp_all

lemma unexpired_number [simp]: "unexpired sq now (r\<lparr>ac_id := i\<rparr>) = unexpired sq now r"
  by (simp add: unexpired_def)

lemma transaction_simps:
  "body db = Ok db' \<Longrightarrow> transaction None body db = (db', Ok ())"
  "body db = Err e \<Longrightarrow> transaction f body db = (db, Err e)"
  "transaction (Some e) body db = (db, Err e) \<or> (\<exists>e'. transaction (Some e) body db = (db, Err e'))"
  by (simp_all add: transaction_def split: sum.splits) (cases "body db"; simp)

lemma transaction_either: "fst (transaction f body db) \<in> {db, fst (transaction None body db)}"
  by (cases "body db"; cases f) (auto simp: transaction_def)

lemma transaction_cases:
  obtains db' where "body db = Ok db'" and "f = None" and "transaction f body db = (db', Ok ())"
  | e where "transaction f body db = (db, Err e)"
  by (cases "body db"; cases f) (auto simp: transaction_def)

section \<open>Lemmas on resolution\<close>

lemma sq_pick_cases:
  assumes "sqlite_ok sq"
  obtains "xs = []" and "sq_pick sq xs = None"
  | x where "x \<in> set xs" and "sq_pick sq xs = Some x"
  using assms unfolding sqlite_ok_def by (cases "xs = []") auto

lemma sq_pick_None_iff: "sqlite_ok sq \<Longrightarrow> sq_pick sq xs = None \<longleftrightarrow> xs = []"
  unfolding sqlite_ok_def by (cases "xs = []") auto

lemma sq_pick_unanimous:
  assumes "sqlite_ok sq" and "xs \<noteq> []" and "\<And>x. x \<in> set xs \<Longrightarrow> x = v"
  shows "sq_pick sq xs = Some v"
  using assms unfolding sqlite_ok_def by auto

text \<open>A database that returns rows in insertion order and knows one date, for the examples.\<close>

definition insertion_order :: sqlite where
  "insertion_order = \<lparr>sq_datetime = (\<lambda>s. if s = ''2030-01-01'' then Some 2030 else None),
     sq_pick = (\<lambda>xs. case xs of [] \<Rightarrow> None | x # _ \<Rightarrow> Some x)\<rparr>"

lemma sqlite_ok_insertion_order: "sqlite_ok insertion_order"
  by (auto simp: sqlite_ok_def insertion_order_def neq_Nil_conv)

definition example_db :: db where
  "example_db = \<lparr>db_servers = [mcp_server_record_default\<lparr>ms_name := ''files''\<rparr>,
       mcp_server_record_default\<lparr>ms_name := ''web'', ms_default_policy := ''opt-out''\<rparr>],
     db_access = [(grant_row ToolGrant ''ann'' ''files'' (Some ''write'') Deny ''op'' ''t0'')\<lparr>ac_id := Some 1\<rparr>,
       (grant_row ServerGrant ''ann'' ''files'' None Allow ''op'' ''t0'')
         \<lparr>ac_id := Some 2, ac_expires_at := Some ''2030-01-01''\<rparr>,
       (grant_row ToolGrant ''bob'' ''web'' (Some ''get'') Allow ''op'' ''t0'')\<lparr>ac_id := Some 3\<rparr>],
     db_access_seq = 3, db_rules = [],
     db_agents = [(''ann'', ''files'', True), (''bob'', ''files'', True), (''eve'', ''web'', False)]\<rparr>"

text \<open>A lookup depends on the texts of the live rows and on the server's policy only.\<close>

definition same_rows :: "sqlite \<Rightarrow> instant \<Rightarrow> db \<Rightarrow> db \<Rightarrow> string \<Rightarrow> string \<Rightarrow> string \<Rightarrow> bool" where
  "same_rows sq now db db' agent server tool \<longleftrightarrow>
     map ac_permission (tool_rows sq now db agent server tool) = map ac_permission (tool_rows sq now db' agent server tool) \<and>
     map ac_permission (server_rows sq now db agent server) = map ac_permission (server_rows sq now db' agent server)"

lemma resolve_tool_access_policy:
  "resolve_tool_access sq now f db agent server tool =
     and_then (resolve_explicit_permission sq now f db agent server tool)
       (\<lambda>explicit. case explicit of Some perm \<Rightarrow> Ok perm | None \<Rightarrow> db_timeout (f 2) (server_policy db server))"
  unfolding resolve_tool_access_def server_policy_def
  by (cases "f 2") (auto simp: and_then_def split: sum.splits option.splits)

lemma resolve_explicit_cong:
  "same_rows sq now db db' agent server tool \<Longrightarrow>
   resolve_explicit_permission sq now f db agent server tool = resolve_explicit_permission sq now f db' agent server tool"
  unfolding same_rows_def resolve_explicit_permission_def explicit_tool_grant_def explicit_server_grant_def
  by simp

lemma resolve_tool_access_cong:
  assumes "same_rows sq now db db' agent server tool" and "server_policy db server = server_policy db' server"
  shows "resolve_tool_access sq now f db agent server tool = resolve_tool_access sq now f db' agent server tool"
  unfolding resolve_tool_access_policy assms(2) resolve_explicit_cong [OF assms(1)] ..

lemma sq_pick_Nil: "sqlite_ok sq \<Longrightarrow> sq_pick sq [] = None"
  by (simp add: sqlite_ok_def)

lemma resolve_without_tool_grant:
  assumes "sqlite_ok sq" and "tool_rows sq t db agent server tool = []"
  shows "resolve_tool_access sq t (\<lambda>_. None) db agent server tool
    = Ok (case sq_pick sq (map ac_permission (server_rows sq t db agent server)) of
            Some x \<Rightarrow> permission_from_column x | None \<Rightarrow> server_policy db server)"
  using assms
  by (simp add: resolve_tool_access_policy resolve_explicit_permission_def explicit_tool_grant_def
      explicit_server_grant_def sq_pick_Nil split: option.splits)

lemma granted_by_precedence:
  assumes "sqlite_ok sq"
    and "resolve_tool_access sq now f db agent server tool = Ok Allow"
  shows "(\<exists>r \<in> set (tool_rows sq now db agent server tool). ac_permission r = ''allow'') \<or>
    tool_rows sq now db agent server tool = [] \<and>
      (\<exists>r \<in> set (server_rows sq now db agent server). ac_permission r = ''allow'') \<or>
    tool_rows sq now db agent server tool = [] \<and> server_rows sq now db agent server = [] \<and>
      (\<exists>srv. find_server db server = Some srv \<and> ms_default_policy srv = ''opt-out'')"
proof -
  let ?tool = "map ac_permission (tool_rows sq now db agent server tool)"
  let ?server = "map ac_permission (server_rows sq now db agent server)"
  note defs = resolve_tool_access_policy resolve_explicit_permission_def explicit_tool_grant_def
    explicit_server_grant_def
  from assms(2) have f0: "f 0 = None"
    by (cases "f 0") (simp_all add: defs)
  from assms(1) show ?thesis
  proof (cases rule: sq_pick_cases [where xs = ?tool])
    case (2 x)
    with assms(2) f0 have "permission_from_column x = Allow" by (simp add: defs)
    with 2 show ?thesis by (auto simp: permission_from_column_def split: if_splits)
  next
    case 1
    with assms(2) f0 have f1: "f 1 = None"
      by (cases "f 1") (simp_all add: defs)
    from assms(1) show ?thesis
    proof (cases rule: sq_pick_cases [where xs = ?server])
      case (2 x)
      with 1 assms(2) f0 f1 have "permission_from_column x = Allow" by (simp add: defs)
      with 1 2 show ?thesis by (auto simp: permission_from_column_def split: if_splits)
    next
      case none: 1
      with 1 assms(2) f0 f1 have "server_policy db server = Allow"
        by (cases "f 2") (simp_all add: defs)
      with 1 none show ?thesis by (simp add: server_policy_Allow_iff)
    qed
  qed
qed


text \<open>C3. A call is allowed only by the precedence the design states: by a live tool grant that
  says allow; else, when the tool has no live grant, by a live server grant that says allow; else,
  when there is neither, by the \<open>opt-out\<close> policy of a registered server. An expired row, a row
  whose expiry is not a date, and an unknown server never allow.\<close>

theorem resolve_tool_access_allows_only:
  assumes "sqlite_ok sq"
    and "resolve_tool_access sq now f db agent server tool = Ok Allow"
  shows "(\<exists>r \<in> set (tool_rows sq now db agent server tool). ac_permission r = ''allow'') \<or>
    tool_rows sq now db agent server tool = [] \<and>
      (\<exists>r \<in> set (server_rows sq now db agent server). ac_permission r = ''allow'') \<or>
    tool_rows sq now db agent server tool = [] \<and> server_rows sq now db agent server = [] \<and>
      (\<exists>srv. find_server db server = Some srv \<and> ms_default_policy srv = ''opt-out'')"
  using assms by (rule granted_by_precedence)

theorem resolve_tool_access_allows_only_witness:
  "(\<exists>r \<in> set (tool_rows insertion_order 7 example_db ''ann'' ''files'' ''read''). ac_permission r = ''allow'') \<or>
    tool_rows insertion_order 7 example_db ''ann'' ''files'' ''read'' = [] \<and>
      (\<exists>r \<in> set (server_rows insertion_order 7 example_db ''ann'' ''files''). ac_permission r = ''allow'') \<or>
    tool_rows insertion_order 7 example_db ''ann'' ''files'' ''read'' = [] \<and>
      server_rows insertion_order 7 example_db ''ann'' ''files'' = [] \<and>
      (\<exists>srv. find_server example_db ''files'' = Some srv \<and> ms_default_policy srv = ''opt-out'')"
proof (rule resolve_tool_access_allows_only [OF sqlite_ok_insertion_order])
  show "resolve_tool_access insertion_order 7 (\<lambda>_. None) example_db ''ann'' ''files'' ''read'' = Ok Allow"
    by code_simp
qed

section \<open>Replacing the grants of one agent on one server\<close>

lemma replace_result:
  assumes "has_server db server \<or> gs_server gset = None \<and> gs_tools gset = []"
  shows "replace_agent_grants_on_server None stamp agent server gset granter db =
    (db\<lparr>db_access :=
        filter (\<lambda>r. \<not> (ac_agent_id r = agent \<and> ac_server_id r = server \<and> ac_entry_type r \<in> {ServerGrant, ToolGrant})) (db_access db)
        @ number_rows (db_access_seq db)
            ((case gs_server gset of None \<Rightarrow> [] | Some p \<Rightarrow> [grant_row ServerGrant agent server None p granter stamp])
             @ map (\<lambda>t. grant_row ToolGrant agent server (Some (tg_tool_name t)) (tg_permission t) granter stamp) (gs_tools gset)),
        db_access_seq := db_access_seq db + int ((case gs_server gset of None \<Rightarrow> 0 | Some _ \<Rightarrow> 1) + length (gs_tools gset))\<rparr>, Ok ())"
  using assms
  by (auto simp: replace_agent_grants_on_server_def transaction_def insert_all_eq grant_row_def split: option.splits)

lemma grant_row_fields [simp]:
  "ac_entry_type (grant_row ty a s t p b stamp) = ty"
  "ac_agent_id (grant_row ty a s t p b stamp) = a"
  "ac_server_id (grant_row ty a s t p b stamp) = s"
  "ac_tool_name (grant_row ty a s t p b stamp) = t"
  "ac_permission (grant_row ty a s t p b stamp) = permission_str p"
  "unexpired sq now (grant_row ty a s t p b stamp)"
  by (simp_all add: grant_row_def unexpired_def)

lemma permission_from_column_str [simp]: "permission_from_column (permission_str p) = p"
  by (cases p) (simp_all add: permission_from_column_def)

lemma filter_deleted: "(\<And>r. Q r \<Longrightarrow> D r) \<Longrightarrow> filter Q (filter (\<lambda>r. \<not> D r) xs) = []"
  by (induction xs) auto

lemma filter_kept: "(\<And>r. Q r \<Longrightarrow> \<not> D r) \<Longrightarrow> filter Q (filter (\<lambda>r. \<not> D r) xs) = filter Q xs"
  by (induction xs) auto

lemma filter_grant_names:
  "distinct (map tg_tool_name ts) \<Longrightarrow> t \<in> set ts \<Longrightarrow> filter (\<lambda>u. tg_tool_name u = tg_tool_name t) ts = [t]"
  by (induction ts) (auto simp: filter_empty_conv image_iff)

lemma tool_rows_replaced:
  assumes "has_server db server"
  shows "map ac_permission (tool_rows sq now
      (fst (replace_agent_grants_on_server None stamp agent server gset granter db)) agent server tool)
    = map (permission_str \<circ> tg_permission) (filter (\<lambda>t. tg_tool_name t = tool) (gs_tools gset))"
proof -
  have "filter (\<lambda>r. ac_agent_id r = agent \<and> ac_server_id r = server \<and> ac_tool_name r = Some tool \<and>
        ac_entry_type r = ToolGrant \<and> unexpired sq now r)
      (map (\<lambda>t. grant_row ToolGrant agent server (Some (tg_tool_name t)) (tg_permission t) granter stamp) ts)
    = map (\<lambda>t. grant_row ToolGrant agent server (Some (tg_tool_name t)) (tg_permission t) granter stamp)
        (filter (\<lambda>t. tg_tool_name t = tool) ts)" for ts :: "tool_grant list"
    by (induction ts) auto
  then show ?thesis
    by (simp add: replace_result [OF disjI1 [OF assms]] tool_rows_def filter_deleted filter_number_rows comp_def
        split: option.splits)
qed

lemma server_rows_replaced:
  assumes "has_server db server"
  shows "map ac_permission (server_rows sq now
      (fst (replace_agent_grants_on_server None stamp agent server gset granter db)) agent server)
    = (case gs_server gset of None \<Rightarrow> [] | Some p \<Rightarrow> [permission_str p])"
  by (simp add: replace_result [OF disjI1 [OF assms]] server_rows_def filter_deleted filter_number_rows comp_def
      filter_empty_conv split: option.splits)

lemma collect_tool_grants_eq:
  assumes "\<And>t. t \<in> set names \<Longrightarrow> explicit_tool_grant sq now None db agent server t = Ok (Some (g t))"
  shows "collect_tool_grants sq now (\<lambda>_. None) db agent server names
    = Ok (map (\<lambda>t. \<lparr>tg_tool_name = t, tg_permission = g t\<rparr>) names)"
  using assms by (induction names) simp_all

lemma insort_map_key: "insort (k x) (map k xs) = map k (insort_key k x xs)"
  by (induction xs) simp_all

lemma sort_map_key: "sort (map k xs) = map k (sort_key k xs)"
  by (induction xs) (simp_all add: insort_map_key)

lemma map_filter_number_rows:
  assumes "\<And>r i. P (r\<lparr>ac_id := i\<rparr>) = P r"
  shows "List.map_filter ac_tool_name (filter P (number_rows n rows)) = List.map_filter ac_tool_name (filter P rows)"
  using assms by (induction rows arbitrary: n) (simp_all add: List.map_filter_simps split: option.splits)

lemma replaced_names:
  assumes "has_server db server"
  shows "List.map_filter ac_tool_name
       (filter (\<lambda>r. ac_agent_id r = agent \<and> ac_server_id r = server \<and> ac_entry_type r = ToolGrant \<and>
           ac_tool_name r \<noteq> None \<and> unexpired sq now r)
         (db_access (fst (replace_agent_grants_on_server None stamp agent server gset granter db))))
    = map tg_tool_name (gs_tools gset)"
proof -
  have "List.map_filter ac_tool_name
       (filter (\<lambda>r. ac_agent_id r = agent \<and> ac_server_id r = server \<and> ac_entry_type r = ToolGrant \<and>
           (\<exists>y. ac_tool_name r = Some y) \<and> unexpired sq now r)
         (map (\<lambda>t. grant_row ToolGrant agent server (Some (tg_tool_name t)) (tg_permission t) granter stamp) ts))
    = map tg_tool_name ts" for ts :: "tool_grant list"
    by (induction ts) (simp_all add: List.map_filter_simps)
  then show ?thesis
    by (simp add: replace_result [OF disjI1 [OF assms]] filter_deleted map_filter_number_rows split: option.splits)
qed

text \<open>C36. Replacing and then reading the grants of an agent on a server gives back the set that was
  written, tools in name order: whatever rows there were before, expired ones included, and at
  any later time.\<close>

theorem replace_agent_grants_roundtrip:
  assumes "sqlite_ok sq" and "has_server db server"
    and "distinct (map tg_tool_name (gs_tools gset))"
  shows "agent_grants_on_server sq now None (\<lambda>_. None) None
      (fst (replace_agent_grants_on_server None stamp agent server gset granter db)) agent server
    = Ok \<lparr>gs_server = gs_server gset, gs_tools = sort_key tg_tool_name (gs_tools gset)\<rparr>"
proof -
  let ?db = "fst (replace_agent_grants_on_server None stamp agent server gset granter db)"
  let ?names = "sort (map tg_tool_name (gs_tools gset))"
  let ?g = "\<lambda>n. tg_permission (hd (filter (\<lambda>u. tg_tool_name u = n) (gs_tools gset)))"
  have one: "filter (\<lambda>u. tg_tool_name u = tg_tool_name t) (gs_tools gset) = [t]" if "t \<in> set (gs_tools gset)" for t
    using filter_grant_names [OF assms(3) that] .
  have lookup: "explicit_tool_grant sq now None ?db agent server n = Ok (Some (?g n))" if "n \<in> set ?names" for n
  proof -
    from that obtain t where t: "t \<in> set (gs_tools gset)" "n = tg_tool_name t" by auto
    with one show ?thesis
      using sq_pick_unanimous [OF assms(1), of "[permission_str (tg_permission t)]"]
      by (simp add: explicit_tool_grant_def tool_rows_replaced [OF assms(2)])
  qed
  have "map (\<lambda>n. \<lparr>tg_tool_name = n, tg_permission = ?g n\<rparr>) ?names = sort_key tg_tool_name (gs_tools gset)"
    unfolding sort_map_key map_map by (rule map_idI) (simp add: one)
  moreover have "explicit_server_grant sq now None ?db agent server = Ok (gs_server gset)"
    using sq_pick_unanimous [OF assms(1), of "[permission_str (the (gs_server gset))]"] assms(1)
    by (auto simp: explicit_server_grant_def server_rows_replaced [OF assms(2)] sqlite_ok_def split: option.splits)
  ultimately show ?thesis
    unfolding agent_grants_on_server_def replaced_names [OF assms(2)] distinct_remdups_id [OF assms(3)]
    using collect_tool_grants_eq [OF lookup, of ?names] by simp
qed

theorem replace_agent_grants_roundtrip_witness:
  "agent_grants_on_server insertion_order 9 None (\<lambda>_. None) None
      (fst (replace_agent_grants_on_server None ''t1'' ''ann'' ''files''
        \<lparr>gs_server = None, gs_tools = [\<lparr>tg_tool_name = ''stat'', tg_permission = Deny\<rparr>, \<lparr>tg_tool_name = ''read'', tg_permission = Allow\<rparr>]\<rparr>
        ''op'' example_db)) ''ann'' ''files''
    = Ok \<lparr>gs_server = None,
          gs_tools = [\<lparr>tg_tool_name = ''read'', tg_permission = Allow\<rparr>, \<lparr>tg_tool_name = ''stat'', tg_permission = Deny\<rparr>]\<rparr>"
proof -
  have "has_server example_db ''files''" by code_simp
  moreover have "sort_key tg_tool_name [\<lparr>tg_tool_name = ''stat'', tg_permission = Deny\<rparr>, \<lparr>tg_tool_name = ''read'', tg_permission = Allow\<rparr>]
    = [\<lparr>tg_tool_name = ''read'', tg_permission = Allow\<rparr>, \<lparr>tg_tool_name = ''stat'', tg_permission = Deny\<rparr>]"
    by code_simp
  ultimately show ?thesis
    by (subst replace_agent_grants_roundtrip [OF sqlite_ok_insertion_order]) simp_all
qed

text \<open>Replacing the grants of one agent on one server changes no other answer: every other
  agent, and this agent on every other server, resolves each tool as before. A write that fails
  changes nothing at all.\<close>

theorem replace_agent_grants_frame:
  assumes "(agent', server') \<noteq> (agent, server)"
  shows "resolve_tool_access sq now g (fst (replace_agent_grants_on_server f stamp agent server gset granter db)) agent' server' tool
       = resolve_tool_access sq now g db agent' server' tool"
proof -
  let ?body = "\<lambda>db'. fst (replace_agent_grants_on_server None stamp agent server gset granter db')"
  have "fst (replace_agent_grants_on_server f stamp agent server gset granter db) \<in> {db, ?body db}"
    unfolding replace_agent_grants_on_server_def
    by (rule transaction_either)
  moreover have "resolve_tool_access sq now g (?body db) agent' server' tool = resolve_tool_access sq now g db agent' server' tool"
  proof (cases "has_server db server \<or> gs_server gset = None \<and> gs_tools gset = []")
    case True
    show ?thesis
    proof (rule resolve_tool_access_cong)
      show "same_rows sq now (?body db) db agent' server' tool"
        using assms
        by (auto simp: same_rows_def replace_result [OF True] tool_rows_def server_rows_def filter_number_rows
            filter_empty_conv intro!: arg_cong [where f = "map ac_permission"] filter_cong split: option.splits)
      show "server_policy (?body db) server' = server_policy db server'"
        by (simp add: replace_result [OF True] server_policy_def)
    qed
  next
    case False
    then have "?body db = db"
      unfolding replace_agent_grants_on_server_def
      by (auto simp: transaction_def insert_all_eq split: option.splits)
    then show ?thesis by simp
  qed
  ultimately show ?thesis by auto
qed


theorem replace_agent_grants_frame_witness:
  "resolve_tool_access insertion_order 9 (\<lambda>_. None) (fst (replace_agent_grants_on_server None ''t1'' ''ann'' ''files''
      \<lparr>gs_server = Some Deny, gs_tools = []\<rparr> ''op'' example_db)) ''bob'' ''files'' ''read''
   = resolve_tool_access insertion_order 9 (\<lambda>_. None) example_db ''bob'' ''files'' ''read''"
  by (rule replace_agent_grants_frame) simp

section \<open>Granting servers to an agent\<close>

lemma insert_server_grants_Ok:
  "\<exists>db'. insert_server_grants now agent granter stamp servers db = Ok db' \<and>
     db_access db' = db_access db @ number_rows (db_access_seq db)
       (map (\<lambda>s. grant_row ServerGrant agent s None Allow granter stamp) servers) \<and>
     server_policy db' = server_policy db"
proof (induction servers arbitrary: db)
  case (Cons s servers)
  let ?row = "grant_row ServerGrant agent s None Allow granter stamp"
  let ?db1 = "ensure_server now s db"
  let ?db2 = "?db1\<lparr>db_access := db_access db @ [?row\<lparr>ac_id := Some (db_access_seq db + 1)\<rparr>],
      db_access_seq := db_access_seq db + 1\<rparr>"
  have "insert_access ?row ?db1 = Ok ?db2"
    by (simp add: insert_access_def)
  moreover have "server_policy ?db2 = server_policy db"
    by (rule ext) (simp add: server_policy_def [of ?db2] server_policy_def [of ?db1, symmetric])
  ultimately show ?case
    using Cons.IH [of ?db2] by auto
qed simp

lemma put_agent_server_grants_result:
  "\<exists>db'. put_agent_server_grants None now stamp agent servers granter db = (db', Ok ()) \<and>
     db_access db' = filter (\<lambda>r. \<not> (ac_agent_id r = agent \<and> ac_entry_type r = ServerGrant)) (db_access db)
       @ number_rows (db_access_seq db) (map (\<lambda>s. grant_row ServerGrant agent s None Allow granter stamp) servers) \<and>
     server_policy db' = server_policy db"
proof -
  let ?db0 = "db\<lparr>db_access := filter (\<lambda>r. \<not> (ac_agent_id r = agent \<and> ac_entry_type r = ServerGrant)) (db_access db)\<rparr>"
  have "server_policy ?db0 = server_policy db"
    by (rule ext) (simp add: server_policy_def)
  with insert_server_grants_Ok [of now agent granter stamp servers ?db0] show ?thesis
    by (auto simp: put_agent_server_grants_def transaction_def)
qed

text \<open>Setting an agent's servers gives it exactly those: on each server, a tool with no grant of
  its own is allowed when the server is in the list and falls back to the server's policy when
  it is not; tool grants keep their answer, and every other agent resolves as before.\<close>

theorem put_agent_server_grants_exact:
  assumes "sqlite_ok sq"
  shows "snd (put_agent_server_grants None now stamp agent servers granter db) = Ok () \<and>
    resolve_tool_access sq t (\<lambda>_. None) (fst (put_agent_server_grants None now stamp agent servers granter db)) agent' s tool
    = (if agent' \<noteq> agent \<or> tool_rows sq t db agent s tool \<noteq> []
       then resolve_tool_access sq t (\<lambda>_. None) db agent' s tool
       else if s \<in> set servers then Ok Allow else Ok (server_policy db s))"
proof -
  let ?row = "\<lambda>s. grant_row ServerGrant agent s None Allow granter stamp"
  from put_agent_server_grants_result [of now stamp agent servers granter db] obtain db' where
    put: "put_agent_server_grants None now stamp agent servers granter db = (db', Ok ())" and
    acc: "db_access db' = filter (\<lambda>r. \<not> (ac_agent_id r = agent \<and> ac_entry_type r = ServerGrant)) (db_access db)
       @ number_rows (db_access_seq db) (map ?row servers)" and
    pol: "server_policy db' = server_policy db"
    by blast
  have tools: "map ac_permission (tool_rows sq t db' a s tool) = map ac_permission (tool_rows sq t db a s tool)" for a
    by (auto simp: tool_rows_def acc filter_number_rows filter_empty_conv
        intro!: arg_cong [where f = "map ac_permission"] filter_cong)
  have other: "map ac_permission (server_rows sq t db' a s) = map ac_permission (server_rows sq t db a s)" if "a \<noteq> agent" for a
    using that by (auto simp: server_rows_def acc filter_number_rows filter_empty_conv
        intro!: arg_cong [where f = "map ac_permission"] filter_cong)
  have own: "map ac_permission (server_rows sq t db' agent s) = map (\<lambda>_. ''allow'') (filter (\<lambda>x. x = s) servers)"
  proof -
    have "filter (\<lambda>r. ac_agent_id r = agent \<and> ac_server_id r = s \<and> ac_entry_type r = ServerGrant \<and>
        ac_tool_name r = None \<and> unexpired sq t r) (map ?row servers) = map ?row (filter (\<lambda>x. x = s) servers)"
      by (induction servers) auto
    then show ?thesis
      by (simp add: server_rows_def acc filter_number_rows filter_deleted comp_def)
  qed
  show ?thesis
  proof (cases "agent' = agent \<and> tool_rows sq t db agent s tool = []")
    case True
    then have "tool_rows sq t db' agent s tool = []"
      using tools [of agent] by simp
    moreover have "sq_pick sq (map (\<lambda>_. ''allow'') (filter (\<lambda>x. x = s) servers)) = (if s \<in> set servers then Some ''allow'' else None)"
      using assms by (auto simp: sq_pick_None_iff filter_empty_conv intro!: sq_pick_unanimous)
    ultimately show ?thesis
      using True assms put
      by (simp add: resolve_without_tool_grant own pol permission_from_column_def)
  next
    case False
    show ?thesis
    proof (cases "agent' = agent")
      case True
      with False have "sq_pick sq (map ac_permission (tool_rows sq t db agent s tool)) \<noteq> None"
        using assms by (simp add: sq_pick_None_iff)
      with True False put tools [of agent] show ?thesis
        by (auto simp: resolve_tool_access_policy resolve_explicit_permission_def explicit_tool_grant_def)
    next
      case ne: False
      then have "resolve_tool_access sq t (\<lambda>_. None) db' agent' s tool = resolve_tool_access sq t (\<lambda>_. None) db agent' s tool"
        by (intro resolve_tool_access_cong) (simp_all add: same_rows_def tools other pol)
      with ne put show ?thesis by simp
    qed
  qed
qed

theorem put_agent_server_grants_exact_witness:
  "resolve_tool_access insertion_order 9 (\<lambda>_. None)
     (fst (put_agent_server_grants None 5 ''t1'' ''bob'' [''files'', ''new''] ''op'' example_db)) ''bob'' ''new'' ''go''
   = Ok Allow"
proof -
  have "tool_rows insertion_order 9 example_db ''bob'' ''new'' ''go'' = []" by code_simp
  then show ?thesis
    using put_agent_server_grants_exact [OF sqlite_ok_insertion_order,
        where now = 5 and stamp = "''t1''" and agent = "''bob''" and servers = "[''files'', ''new'']" and granter = "''op''"
          and db = example_db and t = 9 and agent' = "''bob''" and s = "''new''" and tool = "''go''"]
    by simp
qed

section \<open>Granting a default engine\<close>

text \<open>Installing an engine grants it to every agent that declares it and has no server grant on
  it, and to nobody else: an agent with a server grant, an operator's deny included, and an agent
  that declares another engine resolve every tool of every server as before.\<close>

theorem grant_default_engine_respects_operator:
  assumes "sqlite_ok sq" and "has_server db engine"
  shows "resolve_tool_access sq t (\<lambda>_. None) (fst (grant_default_engine_to_agents None stamp engine db)) agent s tool
    = (if s = engine \<and> (\<exists>on. (agent, engine, on) \<in> set (db_agents db)) \<and> \<not> has_server_grant db agent engine \<and>
          tool_rows sq t db agent s tool = []
       then Ok Allow else resolve_tool_access sq t (\<lambda>_. None) db agent s tool)"
proof -
  let ?agents = "map fst (filter (\<lambda>(a, e, _). e = engine \<and> \<not> has_server_grant db a engine) (db_agents db))"
  let ?row = "\<lambda>a. grant_row ServerGrant a engine None Allow ''install:default-engine'' stamp"
  define db' where "db' = fst (grant_default_engine_to_agents None stamp engine db)"
  have db': "db' = db\<lparr>db_access := db_access db @ number_rows (db_access_seq db) (map ?row ?agents),
      db_access_seq := db_access_seq db + int (length ?agents)\<rparr>"
    using assms(2) by (simp add: db'_def grant_default_engine_to_agents_def insert_all_eq)
  have chosen: "agent \<in> set ?agents \<longleftrightarrow> (\<exists>on. (agent, engine, on) \<in> set (db_agents db)) \<and> \<not> has_server_grant db agent engine"
    by force
  have tools: "map ac_permission (tool_rows sq t db' agent s tool) = map ac_permission (tool_rows sq t db agent s tool)"
    by (simp add: tool_rows_def db' filter_number_rows filter_empty_conv)
  have "filter (\<lambda>r. ac_agent_id r = agent \<and> ac_server_id r = s \<and> ac_entry_type r = ServerGrant \<and>
      ac_tool_name r = None \<and> unexpired sq t r) (map ?row as)
    = map ?row (filter (\<lambda>a. a = agent \<and> s = engine) as)" for as
    by (induction as) auto
  from this [of ?agents] have servers: "map ac_permission (server_rows sq t db' agent s)
      = map ac_permission (server_rows sq t db agent s) @ map (\<lambda>_. ''allow'') (filter (\<lambda>a. a = agent \<and> s = engine) ?agents)"
    by (simp add: server_rows_def db' filter_number_rows comp_def)
  have pol: "server_policy db' s = server_policy db s"
    by (simp add: server_policy_def db')
  show ?thesis
  proof (cases "s = engine \<and> agent \<in> set ?agents")
    case True
    then have "\<not> has_server_grant db agent s"
      using chosen by simp
    then have "server_rows sq t db agent s = []"
      by (auto simp: server_rows_def has_server_grant_def list_ex_iff filter_empty_conv)
    with servers True have pick: "sq_pick sq (map ac_permission (server_rows sq t db' agent s)) = Some ''allow''"
      by (intro sq_pick_unanimous [OF assms(1)]) (auto simp: filter_empty_conv)
    show ?thesis
    proof (cases "tool_rows sq t db agent s tool = []")
      case none: True
      with True chosen tools pick assms(1) show ?thesis
        by (simp add: db'_def [symmetric] resolve_without_tool_grant permission_from_column_def del: set_map set_filter)
    next
      case False
      then have "sq_pick sq (map ac_permission (tool_rows sq t db agent s tool)) \<noteq> None"
        using assms(1) by (simp add: sq_pick_None_iff)
      with False tools show ?thesis
        by (auto simp: db'_def [symmetric] resolve_tool_access_policy resolve_explicit_permission_def explicit_tool_grant_def)
    qed
  next
    case False
    then have "filter (\<lambda>a. a = agent \<and> s = engine) ?agents = []"
      by (auto simp: filter_empty_conv)
    with servers tools pol have "resolve_tool_access sq t (\<lambda>_. None) db' agent s tool = resolve_tool_access sq t (\<lambda>_. None) db agent s tool"
      by (intro resolve_tool_access_cong) (simp_all add: same_rows_def)
    with False chosen show ?thesis by (auto simp: db'_def)
  qed
qed


theorem grant_default_engine_respects_operator_witness:
  "resolve_tool_access insertion_order 9 (\<lambda>_. None)
     (fst (grant_default_engine_to_agents None ''t1'' ''files'' example_db)) ''bob'' ''files'' ''think'' = Ok Allow"
proof -
  have "has_server example_db ''files''" and "tool_rows insertion_order 9 example_db ''bob'' ''files'' ''think'' = []"
    and "\<not> has_server_grant example_db ''bob'' ''files''" and "(''bob'', ''files'', True) \<in> set (db_agents example_db)"
    by code_simp+
  then show ?thesis
    by (subst grant_default_engine_respects_operator [OF sqlite_ok_insertion_order]) auto
qed

section \<open>Argument rules: what is written is what is read\<close>

text \<open>A rule the rule tables can hold: its JSON reads back, and its tool name is not the empty
  name, which the table uses for the server-wide rule.\<close>

definition storable_rule :: "json_text \<Rightarrow> argument_rule \<Rightarrow> bool" where
  "storable_rule jt rule \<longleftrightarrow> json_reads_back jt (JObj (ar_equals rule)) \<and>
     json_reads_back jt (json_strings (ar_required rule)) \<and> ar_tool_name rule \<noteq> Some []"

definition rule_key :: "argument_rule \<Rightarrow> string \<times> string" where
  "rule_key rule = (ar_server_id rule, unwrap_or (ar_tool_name rule) [])"

lemma rule_from_row_roundtrip:
  "storable_rule jt rule \<Longrightarrow> argument_rule_from_row jt (rule_row jt stamp agent rule) = Ok rule"
  by (cases "ar_tool_name rule")
    (auto simp: storable_rule_def json_reads_back_def argument_rule_from_row_def rule_row_def json_as_object_def)

lemma rules_from_rows_roundtrip:
  "(\<And>r. r \<in> set rules \<Longrightarrow> storable_rule jt r) \<Longrightarrow>
   argument_rules_from_rows jt (map (rule_row jt stamp agent) rules) = Ok rules"
  by (induction rules) (simp_all add: rule_from_row_roundtrip)

lemma insert_rules_Ok:
  assumes "distinct (map (\<lambda>r. (rr_agent_id r, rr_server_id r, rr_tool_name r)) (db_rules db @ rows))"
  shows "insert_rules rows db = Ok (db\<lparr>db_rules := db_rules db @ rows\<rparr>)"
  using assms
proof (induction rows arbitrary: db)
  case (Cons row rows)
  then have "insert_rule row db = Ok (db\<lparr>db_rules := db_rules db @ [row]\<rparr>)"
    by (auto simp: insert_rule_def list_ex_iff rev_image_eqI)
  with Cons.IH [of "db\<lparr>db_rules := db_rules db @ [row]\<rparr>"] Cons.prems show ?case by simp
qed simp

lemma insort_map_gen: "insort_key k (g x) (map g xs) = map g (insort_key (k \<circ> g) x xs)"
  by (induction xs) simp_all

lemma sort_key_map_gen: "sort_key k (map g xs) = map g (sort_key (k \<circ> g) xs)"
  by (induction xs) (simp_all add: insort_map_gen comp_def)

definition rule_rows_distinct :: "db \<Rightarrow> bool" where
  "rule_rows_distinct db = distinct (map (\<lambda>r. (rr_agent_id r, rr_server_id r, rr_tool_name r)) (db_rules db))"

lemma put_argument_rules_result:
  assumes "rule_rows_distinct db" and "distinct (map rule_key rules)"
  shows "put_argument_rules jt None stamp agent rules db =
    (db\<lparr>db_rules := filter (\<lambda>r. rr_agent_id r \<noteq> agent) (db_rules db) @ map (rule_row jt stamp agent) rules\<rparr>, Ok ())"
proof -
  let ?key = "\<lambda>r. (rr_agent_id r, rr_server_id r, rr_tool_name r)"
  let ?kept = "filter (\<lambda>r. rr_agent_id r \<noteq> agent) (db_rules db)"
  have "map ?key (map (rule_row jt stamp agent) rules) = map (Pair agent) (map rule_key rules)"
    by (simp add: rule_row_def rule_key_def comp_def)
  then have "distinct (map ?key (map (rule_row jt stamp agent) rules))"
    using assms(2) by (simp only: distinct_map inj_on_def) auto
  moreover have "distinct (map ?key ?kept)"
    using assms(1) unfolding rule_rows_distinct_def by (rule distinct_map_filter)
  moreover have "set (map ?key ?kept) \<inter> set (map ?key (map (rule_row jt stamp agent) rules)) = {}"
    by (auto simp: rule_row_def)
  ultimately have "distinct (map ?key (?kept @ map (rule_row jt stamp agent) rules))"
    by (simp only: map_append distinct_append)
  then show ?thesis
    by (simp add: put_argument_rules_def transaction_def insert_rules_Ok)
qed

text \<open>Argument rules round trip: after the rules of an agent are replaced, the listing gives them
  back ordered by server and tool, and a call finds exactly its server's rule for every tool and
  its rule for that tool; the rules of every other agent stay as they were.\<close>

theorem argument_rules_roundtrip:
  assumes "rule_rows_distinct db" and "distinct (map rule_key rules)"
    and "\<And>r. r \<in> set rules \<Longrightarrow> storable_rule jt r"
    and db'_def: "db' = fst (put_argument_rules jt None stamp agent rules db)"
  shows "list_argument_rules jt None db' agent = Ok (sort_key rule_key rules) \<and>
    (tool \<noteq> [] \<longrightarrow> argument_rules_for_call jt None db' agent server tool
       = Ok (filter (\<lambda>r. ar_server_id r = server \<and> ar_tool_name r \<in> {None, Some tool}) rules)) \<and>
    (agent' \<noteq> agent \<longrightarrow> argument_rules_for_call jt f db' agent' server tool
       = argument_rules_for_call jt f db agent' server tool)"
proof (intro conjI impI)
  have db': "db_rules db' = filter (\<lambda>r. rr_agent_id r \<noteq> agent) (db_rules db) @ map (rule_row jt stamp agent) rules"
    by (simp add: db'_def put_argument_rules_result [OF assms(1,2)])
  have "filter (\<lambda>r. rr_agent_id r = agent) (db_rules db') = map (rule_row jt stamp agent) rules"
    by (simp add: db' rule_row_def filter_empty_conv comp_def filter_map)
  moreover have "(\<lambda>r. (rr_server_id r, rr_tool_name r)) \<circ> rule_row jt stamp agent = rule_key"
    by (auto simp: rule_row_def rule_key_def)
  ultimately show "list_argument_rules jt None db' agent = Ok (sort_key rule_key rules)"
    using rules_from_rows_roundtrip [of "sort_key rule_key rules" jt stamp agent] assms(3)
    by (simp add: list_argument_rules_def sort_key_map_gen)
  show "argument_rules_for_call jt None db' agent server tool
       = Ok (filter (\<lambda>r. ar_server_id r = server \<and> ar_tool_name r \<in> {None, Some tool}) rules)" if "tool \<noteq> []"
  proof -
    let ?hit = "\<lambda>r. rr_agent_id r = agent \<and> rr_server_id r = server \<and> rr_tool_name r \<in> {[], tool}"
    have "?hit (rule_row jt stamp agent r) \<longleftrightarrow> ar_server_id r = server \<and> ar_tool_name r \<in> {None, Some tool}"
      if "r \<in> set rules" for r
      using assms(3) [OF that] \<open>tool \<noteq> []\<close>
      by (cases "ar_tool_name r") (auto simp: rule_row_def storable_rule_def)
    then have "filter ?hit (db_rules db')
      = map (rule_row jt stamp agent) (filter (\<lambda>r. ar_server_id r = server \<and> ar_tool_name r \<in> {None, Some tool}) rules)"
      by (simp add: db' filter_map comp_def cong: filter_cong)
    then show ?thesis
      using rules_from_rows_roundtrip [of "filter (\<lambda>r. ar_server_id r = server \<and> ar_tool_name r \<in> {None, Some tool}) rules" jt stamp agent]
        assms(3) by (simp add: argument_rules_for_call_def)
  qed
  show "argument_rules_for_call jt f db' agent' server tool = argument_rules_for_call jt f db agent' server tool"
    if "agent' \<noteq> agent"
  proof -
    have "filter (\<lambda>r. rr_agent_id r = agent' \<and> rr_server_id r = server \<and> rr_tool_name r \<in> {[], tool}) (db_rules db')
        = filter (\<lambda>r. rr_agent_id r = agent' \<and> rr_server_id r = server \<and> rr_tool_name r \<in> {[], tool}) (db_rules db)"
      using that by (auto simp: db' rule_row_def filter_empty_conv intro!: filter_cong)
    then show ?thesis by (simp add: argument_rules_for_call_def)
  qed
qed


definition example_rule :: argument_rule where
  "example_rule = \<lparr>ar_server_id = ''files'', ar_tool_name = Some ''write'', ar_equals = [(''root'', JStr ''/data'')],
     ar_required = [''path'']\<rparr>"

definition example_codec :: json_text where
  "example_codec = \<lparr>json_to_string = (\<lambda>v. case v of JObj _ \<Rightarrow> ''o'' | _ \<Rightarrow> ''a''),
     json_from_str = (\<lambda>s. if s = ''o'' then Some (JObj [(''root'', JStr ''/data'')])
       else if s = ''a'' then Some (JArr [JStr ''path'']) else None)\<rparr>"

theorem argument_rules_roundtrip_witness:
  "argument_rules_for_call example_codec None
     (fst (put_argument_rules example_codec None ''t1'' ''ann'' [example_rule] example_db)) ''ann'' ''files'' ''write''
   = Ok [example_rule]"
proof -
  have "rule_rows_distinct example_db" and "storable_rule example_codec example_rule"
    and "ar_server_id example_rule = ''files''" and "ar_tool_name example_rule = Some ''write''"
    by code_simp+
  then show ?thesis
    using argument_rules_roundtrip [of example_db "[example_rule]" example_codec _ "''t1''" "''ann''" "''write''" "''files''"]
    by simp
qed

section \<open>Integrity of the tables\<close>

text \<open>What the schema promises: server names and rule keys are unique, access rows are numbered
  without repetition up to the sequence, and every access row names a server that exists.\<close>

definition numbered :: "int \<Rightarrow> access_row \<Rightarrow> bool" where
  "numbered seq r = (case ac_id r of None \<Rightarrow> False | Some i \<Rightarrow> i \<le> seq)"

definition db_inv :: "db \<Rightarrow> bool" where
  "db_inv db \<longleftrightarrow> distinct (map ms_name (db_servers db)) \<and>
     list_all (\<lambda>r. has_server db (ac_server_id r)) (db_access db) \<and>
     distinct (map ac_id (db_access db)) \<and>
     list_all (numbered (db_access_seq db)) (db_access db) \<and>
     rule_rows_distinct db"

datatype db_op =
    SaveServer fault int mcp_server_record
  | DeleteServer "nat \<Rightarrow> fault" string
  | UpdatePolicy fault string string
  | UpdateEnv fault string string
  | UpdateAuthToken fault string "string option"
  | SaveEntry "nat \<Rightarrow> fault" int access_control_entry
  | PutEntries fault int string "access_control_entry list"
  | PutAgentGrants fault int string string "string list" string
  | GrantEngine fault string string
  | DeleteEntry fault string string string "string option"
  | ReplaceGrants fault string string string server_grant_set string
  | PutRules json_text fault string string "argument_rule list"

fun db_exec :: "db \<Rightarrow> db_op \<Rightarrow> db" where
  "db_exec db (SaveServer f now rec) = fst (save_mcp_server f now rec db)"
| "db_exec db (DeleteServer f n) = fst (delete_mcp_server f n db)"
| "db_exec db (UpdatePolicy f n p) = fst (update_mcp_server_default_policy f n p db)"
| "db_exec db (UpdateEnv f n e) = fst (update_mcp_server_env f n e db)"
| "db_exec db (UpdateAuthToken f n t) = fst (update_mcp_server_auth_token f n t db)"
| "db_exec db (SaveEntry f now e) = fst (save_access_control_entry f now e db)"
| "db_exec db (PutEntries f now s es) = fst (put_access_entries f now s es db)"
| "db_exec db (PutAgentGrants f now stamp a ss g) = fst (put_agent_server_grants f now stamp a ss g db)"
| "db_exec db (GrantEngine f stamp s) = fst (grant_default_engine_to_agents f stamp s db)"
| "db_exec db (DeleteEntry f a s ty t) = fst (delete_access_entry f a s ty t db)"
| "db_exec db (ReplaceGrants f stamp a s gset g) = fst (replace_agent_grants_on_server f stamp a s gset g db)"
| "db_exec db (PutRules jt f stamp a rules) = fst (put_argument_rules jt f stamp a rules db)"

definition empty_db :: "agent_row list \<Rightarrow> db" where
  "empty_db agents = \<lparr>db_servers = [], db_access = [], db_access_seq = 0, db_rules = [], db_agents = agents\<rparr>"

text \<open>Deleting rows, changing servers without renaming them, and adding a placeholder.\<close>

lemma db_inv_filter_access [inv_intros]:
  "db_inv db \<Longrightarrow> db_inv (db\<lparr>db_access := filter P (db_access db)\<rparr>)"
  by (auto simp: db_inv_def list_all_iff rule_rows_distinct_def distinct_map_filter)

lemma db_inv_filter_rules [inv_intros]:
  "db_inv db \<Longrightarrow> db_inv (db\<lparr>db_rules := filter P (db_rules db)\<rparr>)"
  by (auto simp: db_inv_def list_all_iff rule_rows_distinct_def distinct_map_filter)

lemma db_inv_servers:
  assumes "db_inv db" and "map ms_name servers = map ms_name (db_servers db)"
  shows "db_inv (db\<lparr>db_servers := servers\<rparr>)"
proof -
  have "has_server (db\<lparr>db_servers := servers\<rparr>) n = has_server db n" for n
    using arg_cong [OF assms(2), of set] by (simp add: has_server_iff)
  with assms show ?thesis by (simp add: db_inv_def rule_rows_distinct_def)
qed

lemma db_inv_add_server:
  assumes "db_inv db" and "\<not> has_server db (ms_name r)"
  shows "db_inv (db\<lparr>db_servers := db_servers db @ [r]\<rparr>)"
  using assms by (auto simp: db_inv_def rule_rows_distinct_def has_server_iff list_all_iff)

lemma db_inv_ensure [inv_intros]: "db_inv db \<Longrightarrow> db_inv (ensure_server now n db)"
  by (auto simp: ensure_server_def mcp_server_record_default_def intro!: db_inv_add_server)

lemma db_inv_insert:
  assumes "db_inv db" and "insert_access row db = Ok db'"
  shows "db_inv db'"
proof -
  have "Some (db_access_seq db + 1) \<notin> ac_id ` set (db_access db)"
  proof
    assume "Some (db_access_seq db + 1) \<in> ac_id ` set (db_access db)"
    then obtain r where "r \<in> set (db_access db)" and "ac_id r = Some (db_access_seq db + 1)" by auto
    with assms(1) show False by (force simp: db_inv_def list_all_iff numbered_def)
  qed
  moreover have "numbered (i + 1) r" if "numbered i r" for i r
    using that by (auto simp: numbered_def split: option.splits)
  moreover have "numbered (i + 1) (row\<lparr>ac_id := Some (i + 1)\<rparr>)" for i
    by (simp add: numbered_def)
  ultimately show ?thesis
    using assms
    by (auto simp: db_inv_def insert_access_def rule_rows_distinct_def list_all_iff split: if_splits)
qed

lemma db_inv_insert_all: "db_inv db \<Longrightarrow> insert_all rows db = Ok db' \<Longrightarrow> db_inv db'"
  by (induction rows arbitrary: db) (auto dest: db_inv_insert)

lemma db_inv_insert_server_grants:
  "db_inv db \<Longrightarrow> insert_server_grants now a g stamp ss db = Ok db' \<Longrightarrow> db_inv db'"
  by (induction ss arbitrary: db) (auto dest: db_inv_insert [OF db_inv_ensure])

lemma db_inv_insert_rules: "db_inv db \<Longrightarrow> insert_rules rows db = Ok db' \<Longrightarrow> db_inv db'"
proof (induction rows arbitrary: db)
  case (Cons row rows)
  then obtain db1 where "insert_rule row db = Ok db1" and rest: "insert_rules rows db1 = Ok db'" by auto
  with Cons.prems have "db_inv db1"
    by (auto simp: insert_rule_def db_inv_def rule_rows_distinct_def list_ex_iff list_all_iff split: if_splits) blast
  with Cons.IH rest show ?case by blast
qed simp

lemma db_inv_transaction:
  assumes "db_inv db" and "\<And>db'. body db = Ok db' \<Longrightarrow> db_inv db'"
  shows "db_inv (fst (transaction f body db))"
  by (rule transaction_cases [of body db f]) (use assms in auto)

lemma db_inv_update_rows:
  assumes "db_inv db" and "\<And>r. ms_name (upd r) = ms_name r"
  shows "db_inv (fst (update_server_rows f n upd db))"
  using assms by (auto simp: update_server_rows_def split: option.splits intro!: db_inv_servers)

lemma db_inv_delete_server: "db_inv db \<Longrightarrow> db_inv (fst (delete_mcp_server f n db))"
  by (auto simp: delete_mcp_server_def Let_def db_inv_def rule_rows_distinct_def has_server_iff list_all_iff
      distinct_map_filter split: option.splits)

lemma db_inv_save_server: "db_inv db \<Longrightarrow> db_inv (fst (save_mcp_server f now rec db))"
  by (auto simp: save_mcp_server_def upsert_server_def split: option.splits
      intro!: db_inv_servers db_inv_add_server)

lemma db_inv_save_entry: "db_inv db \<Longrightarrow> db_inv (fst (save_access_control_entry f now e db))"
  by (auto simp: save_access_control_entry_def Let_def split: option.splits sum.splits
      intro: db_inv_ensure dest: db_inv_insert [OF db_inv_ensure])

lemma db_inv_grant_engine: "db_inv db \<Longrightarrow> db_inv (fst (grant_default_engine_to_agents f stamp s db))"
  by (auto simp: grant_default_engine_to_agents_def Let_def and_then_Ok_iff db_timeout_def
      split: sum.splits option.splits dest: db_inv_insert_all)

lemma db_inv_exec: "db_inv db \<Longrightarrow> db_inv (db_exec db op)"
proof (cases op)
  case (PutEntries f now s es)
  assume "db_inv db"
  with PutEntries show ?thesis
    by (auto simp: put_access_entries_def Let_def intro!: db_inv_transaction
        elim!: db_inv_insert_all [rotated] intro: db_inv_filter_access [OF db_inv_ensure, of _ _ now s, simplified])
next
  case (PutAgentGrants f now stamp a ss g)
  assume "db_inv db"
  with PutAgentGrants show ?thesis
    by (auto simp: put_agent_server_grants_def intro!: db_inv_transaction
        elim!: db_inv_insert_server_grants [rotated] intro: db_inv_filter_access)
next
  case (ReplaceGrants f stamp a s gset g)
  assume "db_inv db"
  with ReplaceGrants show ?thesis
    by (auto simp: replace_agent_grants_on_server_def intro!: db_inv_transaction
        elim!: db_inv_insert_all [rotated] intro: db_inv_filter_access)
next
  case (PutRules jt f stamp a rules)
  assume "db_inv db"
  with PutRules show ?thesis
    by (auto simp: put_argument_rules_def intro!: db_inv_transaction
        elim!: db_inv_insert_rules [rotated] intro: db_inv_filter_rules)
next
  case (DeleteEntry f a s ty t)
  assume "db_inv db"
  with DeleteEntry show ?thesis
    by (auto simp: delete_access_entry_def Let_def split: option.splits intro: db_inv_filter_access)
qed (auto simp: update_mcp_server_default_policy_def update_mcp_server_env_def update_mcp_server_auth_token_def
      intro: db_inv_update_rows db_inv_delete_server db_inv_save_server db_inv_save_entry db_inv_grant_engine)

interpretation tables: det_system "empty_db agents" db_exec db_inv for agents
proof
  show "db_inv (empty_db agents)"
    by (simp add: db_inv_def empty_db_def rule_rows_distinct_def)
qed (rule db_inv_exec)

text \<open>Whatever writes are made, in any order and whichever of them fail midway, the tables stay
  consistent: server names and rule keys are unique, access rows are numbered once, and no access
  row is left naming a server that does not exist.\<close>

theorem db_invariant: "db_inv (foldl db_exec (empty_db agents) ops)"
  by (rule tables.after_inv)


section \<open>The inherited count\<close>

text \<open>The summary's inherited count is not the number of agents with a server grant and no tool
  grant: each tool grant lowers it, also one of an agent that has no server grant, so one agent
  that inherits its access is counted as none.\<close>

theorem access_summary_undercounts_inherited:
  "get_access_summary None None
     \<lparr>db_servers = [mcp_server_record_default\<lparr>ms_name := ''web''\<rparr>],
      db_access = [grant_row ServerGrant ''ann'' ''web'' None Allow ''op'' ''t0'',
                   grant_row ToolGrant ''bob'' ''web'' (Some ''get'') Allow ''op'' ''t0''],
      db_access_seq = 2, db_rules = [], db_agents = []\<rparr> ''web''
   = Ok [(''get'', 1, 0, 0)]"
  by code_simp

end
