(* ===== verification/Mgp.thy ===== *)
theory Mgp
  imports Json
begin

text \<open>
  \<open>managers/mcp_mgp.rs\<close>: the error values of the protocol, code safety levels, the negotiation of
  capabilities with a server and the risk level of a tool. \<open>TrustLevel\<close> is re-exported from the
  crate \<open>mgp-seal\<close>: its variants and their order are those the source documents
  (\<open>Untrusted < Experimental < Standard < Core\<close>), its parser \<open>from_str_lossy\<close> is a parameter.
\<close>

section \<open>Errors\<close>

type_synonym mgp_code = int

definition MGP_ERR_PERMISSION_DENIED :: mgp_code where "MGP_ERR_PERMISSION_DENIED = 1000"
definition MGP_ERR_ACCESS_DENIED :: mgp_code where "MGP_ERR_ACCESS_DENIED = 1001"
definition MGP_ERR_AUTH_REQUIRED :: mgp_code where "MGP_ERR_AUTH_REQUIRED = 1002"
definition MGP_ERR_AUTH_EXPIRED :: mgp_code where "MGP_ERR_AUTH_EXPIRED = 1003"
definition MGP_ERR_VALIDATION_BLOCKED :: mgp_code where "MGP_ERR_VALIDATION_BLOCKED = 1010"
definition MGP_ERR_CODE_SAFETY_VIOLATION :: mgp_code where "MGP_ERR_CODE_SAFETY_VIOLATION = 1011"
definition MGP_ERR_SERVER_NOT_READY :: mgp_code where "MGP_ERR_SERVER_NOT_READY = 2000"
definition MGP_ERR_SERVER_DRAINING :: mgp_code where "MGP_ERR_SERVER_DRAINING = 2001"
definition MGP_ERR_SERVER_RESTARTING :: mgp_code where "MGP_ERR_SERVER_RESTARTING = 2002"
definition MGP_ERR_RATE_LIMITED :: mgp_code where "MGP_ERR_RATE_LIMITED = 3000"
definition MGP_ERR_RESOURCE_EXHAUSTED :: mgp_code where "MGP_ERR_RESOURCE_EXHAUSTED = 3001"
definition MGP_ERR_QUOTA_EXCEEDED :: mgp_code where "MGP_ERR_QUOTA_EXCEEDED = 3002"
definition MGP_ERR_TIMEOUT :: mgp_code where "MGP_ERR_TIMEOUT = 3003"
definition MGP_ERR_INVALID_TOOL_ARGS :: mgp_code where "MGP_ERR_INVALID_TOOL_ARGS = 4000"
definition MGP_ERR_TOOL_NOT_FOUND :: mgp_code where "MGP_ERR_TOOL_NOT_FOUND = 4001"
definition MGP_ERR_TOOL_DISABLED :: mgp_code where "MGP_ERR_TOOL_DISABLED = 4002"
definition MGP_ERR_TOOL_NAME_CONFLICT :: mgp_code where "MGP_ERR_TOOL_NAME_CONFLICT = 4003"
definition MGP_ERR_RESOURCE_NOT_FOUND :: mgp_code where "MGP_ERR_RESOURCE_NOT_FOUND = 4004"
definition MGP_ERR_SERVER_ALREADY_REGISTERED :: mgp_code where "MGP_ERR_SERVER_ALREADY_REGISTERED = 4101"
definition MGP_ERR_UPSTREAM_ERROR :: mgp_code where "MGP_ERR_UPSTREAM_ERROR = 5000"
definition MGP_ERR_UPSTREAM_TIMEOUT :: mgp_code where "MGP_ERR_UPSTREAM_TIMEOUT = 5001"
definition MGP_ERR_UPSTREAM_UNAVAILABLE :: mgp_code where "MGP_ERR_UPSTREAM_UNAVAILABLE = 5002"

record mgp_error_recovery =
  mr_category :: string
  mr_retryable :: bool
  mr_retry_after_ms :: "u64 option"
  mr_retry_strategy :: "string option"
  mr_max_retries :: "u32 option"
  mr_fallback_tool :: "string option"
  mr_details :: "json option"

definition recovery_default :: mgp_error_recovery where
  "recovery_default = \<lparr>mr_category = [], mr_retryable = False, mr_retry_after_ms = None,
     mr_retry_strategy = None, mr_max_retries = None, mr_fallback_tool = None, mr_details = None\<rparr>"

record mgp_error =
  me_code :: mgp_code
  me_message :: string
  me_recovery :: "mgp_error_recovery option"

definition mgp_error_new :: "mgp_code \<Rightarrow> string \<Rightarrow> mgp_error" where
  "mgp_error_new code msg = \<lparr>me_code = code, me_message = msg, me_recovery = None\<rparr>"

definition with_recovery :: "mgp_error \<Rightarrow> mgp_error_recovery \<Rightarrow> mgp_error" where
  "with_recovery e recovery = e\<lparr>me_recovery := Some recovery\<rparr>"

definition permission_denied :: "string \<Rightarrow> mgp_error" where
  "permission_denied msg = mgp_error_new MGP_ERR_PERMISSION_DENIED msg"

definition mgp_access_denied :: "string \<Rightarrow> mgp_error" where
  "mgp_access_denied msg = mgp_error_new MGP_ERR_ACCESS_DENIED msg"

definition auth_required :: "string \<Rightarrow> mgp_error" where
  "auth_required msg = mgp_error_new MGP_ERR_AUTH_REQUIRED msg"

definition auth_expired :: "string \<Rightarrow> mgp_error" where
  "auth_expired msg = mgp_error_new MGP_ERR_AUTH_EXPIRED msg"

definition validation_blocked :: "string \<Rightarrow> mgp_error" where
  "validation_blocked msg = mgp_error_new MGP_ERR_VALIDATION_BLOCKED msg"

definition code_safety_violation :: "string \<Rightarrow> mgp_error" where
  "code_safety_violation msg = mgp_error_new MGP_ERR_CODE_SAFETY_VIOLATION msg"

definition server_not_ready :: "string \<Rightarrow> mgp_error" where
  "server_not_ready msg = with_recovery (mgp_error_new MGP_ERR_SERVER_NOT_READY msg)
     (recovery_default\<lparr>mr_category := ''lifecycle'', mr_retryable := True, mr_retry_after_ms := Some 1000,
        mr_retry_strategy := Some ''exponential'', mr_max_retries := Some 5\<rparr>)"

definition server_draining :: "string \<Rightarrow> mgp_error" where
  "server_draining msg = with_recovery (mgp_error_new MGP_ERR_SERVER_DRAINING msg)
     (recovery_default\<lparr>mr_category := ''lifecycle'', mr_retryable := True, mr_retry_after_ms := Some 2000\<rparr>)"

definition server_restarting :: "string \<Rightarrow> mgp_error" where
  "server_restarting msg = with_recovery (mgp_error_new MGP_ERR_SERVER_RESTARTING msg)
     (recovery_default\<lparr>mr_category := ''lifecycle'', mr_retryable := True, mr_retry_after_ms := Some 3000,
        mr_retry_strategy := Some ''exponential'', mr_max_retries := Some 3\<rparr>)"

definition rate_limited :: "string \<Rightarrow> u64 \<Rightarrow> mgp_error" where
  "rate_limited msg retry_after_ms = with_recovery (mgp_error_new MGP_ERR_RATE_LIMITED msg)
     (recovery_default\<lparr>mr_category := ''resource'', mr_retryable := True, mr_retry_after_ms := Some retry_after_ms\<rparr>)"

definition resource_exhausted :: "string \<Rightarrow> mgp_error" where
  "resource_exhausted msg = mgp_error_new MGP_ERR_RESOURCE_EXHAUSTED msg"

definition quota_exceeded :: "string \<Rightarrow> mgp_error" where
  "quota_exceeded msg = mgp_error_new MGP_ERR_QUOTA_EXCEEDED msg"

definition mgp_timeout :: "string \<Rightarrow> mgp_error" where
  "mgp_timeout msg = with_recovery (mgp_error_new MGP_ERR_TIMEOUT msg)
     (recovery_default\<lparr>mr_category := ''resource'', mr_retryable := True, mr_retry_after_ms := Some 1000,
        mr_retry_strategy := Some ''exponential'', mr_max_retries := Some 3\<rparr>)"

definition invalid_tool_args :: "string \<Rightarrow> mgp_error" where
  "invalid_tool_args msg = mgp_error_new MGP_ERR_INVALID_TOOL_ARGS msg"

definition tool_not_found :: "string \<Rightarrow> mgp_error" where
  "tool_not_found msg = mgp_error_new MGP_ERR_TOOL_NOT_FOUND msg"

definition tool_disabled :: "string \<Rightarrow> mgp_error" where
  "tool_disabled msg = mgp_error_new MGP_ERR_TOOL_DISABLED msg"

definition tool_name_conflict :: "string \<Rightarrow> mgp_error" where
  "tool_name_conflict msg = mgp_error_new MGP_ERR_TOOL_NAME_CONFLICT msg"

definition resource_not_found :: "string \<Rightarrow> mgp_error" where
  "resource_not_found msg = with_recovery (mgp_error_new MGP_ERR_RESOURCE_NOT_FOUND msg)
     (recovery_default\<lparr>mr_category := ''validation'', mr_retryable := False\<rparr>)"

definition server_already_registered :: "string \<Rightarrow> mgp_error" where
  "server_already_registered msg = mgp_error_new MGP_ERR_SERVER_ALREADY_REGISTERED msg"

definition upstream_error :: "string \<Rightarrow> mgp_error" where
  "upstream_error msg = with_recovery (mgp_error_new MGP_ERR_UPSTREAM_ERROR msg)
     (recovery_default\<lparr>mr_category := ''upstream'', mr_retryable := True, mr_retry_after_ms := Some 2000,
        mr_retry_strategy := Some ''exponential'', mr_max_retries := Some 3\<rparr>)"

definition upstream_timeout :: "string \<Rightarrow> mgp_error" where
  "upstream_timeout msg = with_recovery (mgp_error_new MGP_ERR_UPSTREAM_TIMEOUT msg)
     (recovery_default\<lparr>mr_category := ''upstream'', mr_retryable := True, mr_retry_after_ms := Some 2000,
        mr_retry_strategy := Some ''exponential'', mr_max_retries := Some 3\<rparr>)"

definition upstream_unavailable :: "string \<Rightarrow> mgp_error" where
  "upstream_unavailable msg = with_recovery (mgp_error_new MGP_ERR_UPSTREAM_UNAVAILABLE msg)
     (recovery_default\<lparr>mr_category := ''upstream'', mr_retryable := True, mr_retry_after_ms := Some 5000,
        mr_retry_strategy := Some ''exponential'', mr_max_retries := Some 5\<rparr>)"

definition missing_tool_arg :: "string \<Rightarrow> mgp_error" where
  "missing_tool_arg name = invalid_tool_args (''Missing required parameter: '' @ name)"

definition invalid_tool_arg :: "string \<Rightarrow> mgp_error" where
  "invalid_tool_arg msg = invalid_tool_args msg"

section \<open>Code safety levels\<close>

datatype CodeSafetyLevel = CsUnrestricted | CsStandard | CsStrict | CsReadonly

fun csl_text :: "CodeSafetyLevel \<Rightarrow> string" where
  "csl_text CsUnrestricted = ''unrestricted''"
| "csl_text CsStandard = ''standard''"
| "csl_text CsStrict = ''strict''"
| "csl_text CsReadonly = ''readonly''"

definition csl_from_str_lossy :: "(string \<Rightarrow> string) \<Rightarrow> string \<Rightarrow> CodeSafetyLevel" where
  "csl_from_str_lossy lower s =
     (let l = lower s
      in if l = ''unrestricted'' then CsUnrestricted
         else if l = ''standard'' then CsStandard
         else if l = ''strict'' then CsStrict
         else if l = ''readonly'' then CsReadonly
         else CsReadonly)"

record code_safety_metadata =
  cs_level :: CodeSafetyLevel
  cs_language :: "string option"
  cs_max_code_size_bytes :: "nat option"

section \<open>Risk and trust\<close>

datatype RiskLevel = Safe | Moderate | Dangerous

instantiation RiskLevel :: linorder
begin

fun risk_rank :: "RiskLevel \<Rightarrow> nat" where
  "risk_rank Safe = 0"
| "risk_rank Moderate = 1"
| "risk_rank Dangerous = 2"

definition less_eq_RiskLevel :: "RiskLevel \<Rightarrow> RiskLevel \<Rightarrow> bool" where
  "less_eq_RiskLevel a b = (risk_rank a \<le> risk_rank b)"

definition less_RiskLevel :: "RiskLevel \<Rightarrow> RiskLevel \<Rightarrow> bool" where
  "less_RiskLevel a b = (risk_rank a < risk_rank b)"

instance
proof
  fix a b :: RiskLevel
  show "a \<le> b \<Longrightarrow> b \<le> a \<Longrightarrow> a = b"
    by (cases a; cases b) (simp_all add: less_eq_RiskLevel_def)
qed (auto simp: less_eq_RiskLevel_def less_RiskLevel_def)

end

datatype TrustLevel = Untrusted | Experimental | Standard | Core

instantiation TrustLevel :: linorder
begin

fun trust_rank :: "TrustLevel \<Rightarrow> nat" where
  "trust_rank Untrusted = 0"
| "trust_rank Experimental = 1"
| "trust_rank Standard = 2"
| "trust_rank Core = 3"

definition less_eq_TrustLevel :: "TrustLevel \<Rightarrow> TrustLevel \<Rightarrow> bool" where
  "less_eq_TrustLevel a b = (trust_rank a \<le> trust_rank b)"

definition less_TrustLevel :: "TrustLevel \<Rightarrow> TrustLevel \<Rightarrow> bool" where
  "less_TrustLevel a b = (trust_rank a < trust_rank b)"

instance
proof
  fix a b :: TrustLevel
  show "a \<le> b \<Longrightarrow> b \<le> a \<Longrightarrow> a = b"
    by (cases a; cases b) (simp_all add: less_eq_TrustLevel_def)
qed (auto simp: less_eq_TrustLevel_def less_TrustLevel_def)

end

lemmas risk_order [simp] = less_eq_RiskLevel_def less_RiskLevel_def
lemmas trust_order [simp] = less_eq_TrustLevel_def less_TrustLevel_def

section \<open>Negotiation\<close>

definition MGP_VERSION :: string where
  "MGP_VERSION = ''0.6.0''"

definition CLIENT_EXTENSIONS :: "string list" where
  "CLIENT_EXTENSIONS =
     [''tool_security'', ''permissions'', ''access_control'', ''audit'', ''code_safety'', ''error_handling'',
      ''lifecycle'', ''streaming'', ''progress'', ''events'', ''callbacks'', ''discovery'', ''tool_discovery'',
      ''delegation'', ''agent_token'']"

record mgp_server_capabilities =
  mc_version :: string
  mc_extensions :: "string list"
  mc_server_id :: "string option"
  mc_trust_level :: "string option"
  mc_permissions_required :: "string list"
  mc_tools_for_capability :: "(string, string list) hmap option"

record negotiated_mgp =
  ng_version :: string
  ng_active_extensions :: "string list"
  ng_trust_level :: TrustLevel

text \<open>\<open>str::parse::<u64>\<close>: an optional plus sign and decimal digits, below \<open>2 ^ 64\<close>.\<close>

definition is_digit :: "char \<Rightarrow> bool" where
  "is_digit c = (48 \<le> (of_char c :: nat) \<and> (of_char c :: nat) \<le> 57)"

definition digits_value :: "string \<Rightarrow> nat" where
  "digits_value s = foldl (\<lambda>n c. 10 * n + ((of_char c :: nat) - 48)) 0 s"

definition parse_u64 :: "string \<Rightarrow> nat option" where
  "parse_u64 s =
     (let d = (case s of c # r \<Rightarrow> if c = CHR ''+'' then r else s | [] \<Rightarrow> [])
      in if d \<noteq> [] \<and> list_all is_digit d \<and> digits_value d < 2 ^ 64 then Some (digits_value d) else None)"

definition parse_version :: "string \<Rightarrow> (nat \<times> nat) option" where
  "parse_version v =
     (case split_on (CHR ''.'') (hd (split_on (CHR ''-'') v)) of
        a # b # _ \<Rightarrow> Option.bind (parse_u64 a) (\<lambda>major. map_option (Pair major) (parse_u64 b))
      | _ \<Rightarrow> None)"

definition semver_compatible :: "string \<Rightarrow> string \<Rightarrow> bool" where
  "semver_compatible client_ver server_ver =
     (case (parse_version client_ver, parse_version server_ver) of
        (Some (cm, cmin), Some (sm, smin)) \<Rightarrow>
          if cm \<ge> 1 \<or> sm \<ge> 1 then cm = sm else cm = sm \<and> cmin = smin
      | _ \<Rightarrow> True)"

text \<open>An incompatible version is only logged: it does not change the outcome.\<close>

definition negotiate ::
  "(string \<Rightarrow> TrustLevel) \<Rightarrow> mgp_server_capabilities option \<Rightarrow> string option \<Rightarrow> negotiated_mgp option" where
  "negotiate parse_trust server_caps config_trust =
     (case server_caps of
        None \<Rightarrow> None
      | Some server \<Rightarrow>
          Some \<lparr>ng_version = mc_version server,
            ng_active_extensions = filter (\<lambda>ext. list_ex (\<lambda>s. s = ext) (mc_extensions server)) CLIENT_EXTENSIONS,
            ng_trust_level =
              (case config_trust of
                 Some cfg \<Rightarrow> parse_trust cfg
               | None \<Rightarrow> (case mc_trust_level server of Some srv \<Rightarrow> parse_trust srv | None \<Rightarrow> Untrusted))\<rparr>)"

section \<open>Effective risk\<close>

datatype PermissionRiskClass = PrSafe | PrModerate | PrDangerous

definition from_permissions :: "string list \<Rightarrow> PermissionRiskClass" where
  "from_permissions permissions =
     (if list_ex (\<lambda>p. p \<in> set [''shell.execute'', ''code_execution'']) permissions then PrDangerous
      else if list_ex (\<lambda>p. p \<in> set [''filesystem.write'']) permissions then PrModerate
      else PrSafe)"

fun trust_risk :: "TrustLevel \<Rightarrow> RiskLevel" where
  "trust_risk Core = Safe"
| "trust_risk Standard = Moderate"
| "trust_risk Experimental = Dangerous"
| "trust_risk Untrusted = Dangerous"

definition validator_risk :: "string option \<Rightarrow> RiskLevel" where
  "validator_risk v =
     (case v of
        Some n \<Rightarrow> if n \<in> set [''sandbox'', ''network_restricted'', ''code_safety''] then Moderate
                  else if n = ''none'' then Dangerous else Safe
      | None \<Rightarrow> Safe)"

fun permission_risk :: "PermissionRiskClass \<Rightarrow> RiskLevel" where
  "permission_risk PrDangerous = Dangerous"
| "permission_risk PrModerate = Moderate"
| "permission_risk PrSafe = Safe"

definition derive_effective_risk_level ::
  "TrustLevel \<Rightarrow> string option \<Rightarrow> PermissionRiskClass \<Rightarrow> RiskLevel" where
  "derive_effective_risk_level trust validator permissions_class =
     max (max (trust_risk trust) (validator_risk validator)) (permission_risk permissions_class)"

section \<open>Properties\<close>

lemma trust_risk_antimono: "a \<le> b \<Longrightarrow> trust_risk b \<le> trust_risk a"
  by (cases a; cases b) simp_all

lemma from_permissions_mono:
  "set ps \<subseteq> set qs \<Longrightarrow> permission_risk (from_permissions ps) \<le> permission_risk (from_permissions qs)"
  by (auto simp: from_permissions_def list_ex_iff)

text \<open>The risk shown for a tool never falls when a server is trusted less or asks for more
  permissions, and it is at least each of the three risks it is derived from. In particular an
  untrusted or experimental server's tools are always dangerous, and a tool is safe only on a
  core server with no risky permission.\<close>

theorem effective_risk_monotone:
  assumes "t' \<le> t" and "set ps \<subseteq> set qs"
  shows "derive_effective_risk_level t v (from_permissions ps) \<le> derive_effective_risk_level t' v (from_permissions qs) \<and>
    (t < Standard \<longrightarrow> derive_effective_risk_level t v (from_permissions ps) = Dangerous) \<and>
    (derive_effective_risk_level t v (from_permissions ps) = Safe \<longrightarrow>
       t = Core \<and> (\<forall>p \<in> {''shell.execute'', ''code_execution'', ''filesystem.write''}. p \<notin> set ps))"
proof (intro conjI impI)
  show "derive_effective_risk_level t v (from_permissions ps) \<le> derive_effective_risk_level t' v (from_permissions qs)"
    unfolding derive_effective_risk_level_def
    by (intro max.mono trust_risk_antimono from_permissions_mono assms order.refl)
  have dangerous: "max (max Dangerous a) b = Dangerous" for a b
    by (cases a; cases b) (simp_all add: max_def)
  show "t < Standard \<Longrightarrow> derive_effective_risk_level t v (from_permissions ps) = Dangerous"
    by (cases t) (simp_all add: derive_effective_risk_level_def dangerous)
  assume safe: "derive_effective_risk_level t v (from_permissions ps) = Safe"
  have "max (max a b) c = Safe \<Longrightarrow> a = Safe \<and> c = Safe" for a b c
    by (cases a; cases b; cases c) (simp_all add: max_def)
  with safe have "trust_risk t = Safe" and perm: "permission_risk (from_permissions ps) = Safe"
    unfolding derive_effective_risk_level_def by blast+
  then show "t = Core" by (cases t) simp_all
  from perm show "\<forall>p \<in> {''shell.execute'', ''code_execution'', ''filesystem.write''}. p \<notin> set ps"
    by (auto simp: from_permissions_def list_ex_iff split: if_splits)
qed

theorem effective_risk_monotone_witness:
  "derive_effective_risk_level Core None (from_permissions []) \<le>
   derive_effective_risk_level Standard None (from_permissions [''filesystem.write''])"
  using effective_risk_monotone [of Standard Core "[]" "[''filesystem.write'']" None] by simp

text \<open>Negotiating never gives a server more than both sides say: the active extensions are those
  the kernel offers and the server asks for, in the kernel's order, and with a configured trust
  level the server's own declaration has no effect. A server that says nothing is untrusted.\<close>

theorem negotiate_grants_no_more:
  assumes "negotiate parse_trust (Some server) config = Some n"
  shows "set (ng_active_extensions n) = set CLIENT_EXTENSIONS \<inter> set (mc_extensions server) \<and>
    subseq (ng_active_extensions n) CLIENT_EXTENSIONS \<and>
    (\<forall>cfg decl. config = Some cfg \<longrightarrow>
       ng_trust_level n = parse_trust cfg \<and>
       map_option ng_trust_level (negotiate parse_trust (Some (server\<lparr>mc_trust_level := decl\<rparr>)) config) = Some (parse_trust cfg)) \<and>
    (config = None \<longrightarrow> mc_trust_level server = None \<longrightarrow> ng_trust_level n = Untrusted)"
  using assms by (auto simp: negotiate_def list_ex_iff)

theorem negotiate_grants_no_more_witness:
  "set (ng_active_extensions (the (negotiate (\<lambda>s. if s = ''core'' then Core else Untrusted)
      (Some \<lparr>mc_version = ''0.6.0'', mc_extensions = [''audit'', ''root'', ''permissions''], mc_server_id = None,
         mc_trust_level = Some ''core'', mc_permissions_required = [], mc_tools_for_capability = None\<rparr>)
      (Some ''untrusted''))))
   = set CLIENT_EXTENSIONS \<inter> set [''audit'', ''root'', ''permissions'']"
  using negotiate_grants_no_more [of "\<lambda>s. if s = ''core'' then Core else Untrusted"
      "\<lparr>mc_version = ''0.6.0'', mc_extensions = [''audit'', ''root'', ''permissions''], mc_server_id = None,
        mc_trust_level = Some ''core'', mc_permissions_required = [], mc_tools_for_capability = None\<rparr>" "Some ''untrusted''"]
  by (simp add: negotiate_def)

end
