(* ===== verification/Tool_Validator.thy ===== *)
theory Tool_Validator
  imports Mgp
begin

text \<open>
  \<open>managers/mcp_tool_validator.rs\<close>: the kernel's own check of tool arguments before a call is
  forwarded, and the check of agent-written server code. Unicode normalization (crate
  \<open>unicode-normalization\<close>) and \<open>to_lowercase\<close> are the parameters \<open>nfkc\<close> and \<open>lower\<close>; on ASCII
  text they are the identity and \<open>ascii_lower\<close>, which is what the laws below ask of them.
\<close>

section \<open>The sandbox validator\<close>

definition SANDBOX_BLOCKED_PATTERNS :: "string list" where
  "SANDBOX_BLOCKED_PATTERNS =
     [''rm -rf /'', ''rm -fr /'', ''mkfs'', ''dd if=/dev'', '':(){ :|:& };:'', ''> /dev/sda'', ''shutdown'',
      ''reboot'', ''init 0'', ''init 6'', ''chmod -r 777 /'', ''chown -r'', ''sudo '', ''su '',
      ''su'' @ [CHR 0x09], ''doas '', ''/bin/rm -rf'', ''/usr/bin/rm -rf'']"

definition SANDBOX_BLOCKED_METACHAR :: "string list" where
  "SANDBOX_BLOCKED_METACHAR = [''$('', [CHR 0x60], ''|'', '';'', ''&&'', ''||'']"

definition KERNEL_TOOL_VALIDATORS :: "(string \<times> string) list" where
  "KERNEL_TOOL_VALIDATORS = [(''execute_command'', ''sandbox'')]"

definition get_kernel_validator :: "string \<Rightarrow> string option" where
  "get_kernel_validator tool_name =
     map_option snd (find (\<lambda>(name, _). name = tool_name) KERNEL_TOOL_VALIDATORS)"

text \<open>The line separators U+2028 and U+2029 in UTF-8.\<close>

definition line_separators :: "string list" where
  "line_separators = [[CHR 0x0A], [CHR 0x0D], [CHR 0xE2, CHR 0x80, CHR 0xA8], [CHR 0xE2, CHR 0x80, CHR 0xA9]]"

definition short_flag :: "string \<Rightarrow> bool" where
  "short_flag t = (starts_with t ''-'' \<and> \<not> starts_with t ''--'')"

definition dangerous_rm :: "string list \<Rightarrow> bool" where
  "dangerous_rm tokens =
     (case tokens of
        [] \<Rightarrow> False
      | first # _ \<Rightarrow>
          (first = ''rm'' \<or> ends_with first ''/rm'') \<and>
          list_ex (\<lambda>t. short_flag t \<and> (CHR ''r'' \<in> set t \<or> CHR ''R'' \<in> set t)) tokens \<and>
          list_ex (\<lambda>t. short_flag t \<and> CHR ''f'' \<in> set t) tokens)"

definition validate_sandbox_args ::
  "(string \<Rightarrow> string) \<Rightarrow> (string \<Rightarrow> string) \<Rightarrow> json \<Rightarrow> string + unit" where
  "validate_sandbox_args nfkc lower args =
     (case Option.bind (json_get args ''command'') json_as_str of
        None \<Rightarrow> Ok ()
      | Some command \<Rightarrow>
          if trim command = [] then Err ''Kernel validation: empty command is not allowed''
          else
            let lc = lower (nfkc command)
            in if list_ex (str_contains lc) line_separators
               then Err ''Kernel validation: command contains embedded newline or line separator''
               else case find (str_contains lc) SANDBOX_BLOCKED_METACHAR of
                 Some meta \<Rightarrow> Err (''Kernel validation: command contains blocked shell metacharacter: '' @ quoted meta)
               | None \<Rightarrow>
                  (case find (str_contains lc) SANDBOX_BLOCKED_PATTERNS of
                     Some pat \<Rightarrow> Err (''Kernel validation: command contains blocked pattern: '' @ quoted pat)
                   | None \<Rightarrow>
                      if dangerous_rm (split_whitespace lc)
                      then Err ''Kernel validation: command contains dangerous rm flags (-r and -f)''
                      else Ok ()))"

definition validate_tool_arguments ::
  "(string \<Rightarrow> string) \<Rightarrow> (string \<Rightarrow> string) \<Rightarrow> string \<Rightarrow> string \<Rightarrow> json \<Rightarrow> string + unit" where
  "validate_tool_arguments nfkc lower validator_name tool_name args =
     (if validator_name = ''sandbox'' then validate_sandbox_args nfkc lower args else Ok ())"

section \<open>Agent-written code\<close>

definition BLOCKED_IMPORTS :: "string list" where
  "BLOCKED_IMPORTS =
     [''subprocess'', ''shutil'', ''socket'', ''ctypes'', ''multiprocessing'', ''signal'', ''pty'', ''fcntl'',
      ''resource'', ''importlib'', ''code'', ''codeop'', ''compileall'', ''py_compile'']"

definition BLOCKED_PATTERNS :: "string list" where
  "BLOCKED_PATTERNS =
     [''eval('', ''exec('', ''__import__('', ''compile('', ''open('', ''globals('', ''locals('', ''os.system'',
      ''os.popen'', ''os.spawn'', ''os.exec'', ''os.remove'', ''os.unlink'', ''os.rmdir'', ''os.makedirs'',
      ''subprocess.'', ''__builtins__'', ''getattr('', ''setattr('', ''delattr('']"

definition MAX_CODE_SIZE :: nat where
  "MAX_CODE_SIZE = 10000"

definition STRICT_ALLOWED_IMPORTS :: "string list" where
  "STRICT_ALLOWED_IMPORTS =
     [''asyncio'', ''json'', ''httpx'', ''os'', ''datetime'', ''time'', ''math'', ''re'', ''hashlib'', ''base64'',
      ''urllib'', ''typing'']"

definition READONLY_BLOCKED_PATTERNS :: "string list" where
  "READONLY_BLOCKED_PATTERNS =
     [''open('', ''.write('', ''.writelines('', ''os.mkdir'', ''os.makedirs'', ''os.rename'', ''os.replace'',
      ''os.remove'', ''os.unlink'', ''os.rmdir'', ''shutil.'', ''pathlib.Path.write_'', ''.to_csv('',
      ''.to_json('', ''.to_parquet('']"

text \<open>\<open>trim_start_matches(p)\<close> takes the prefix off as often as it is there.\<close>

function trim_start_matches :: "string \<Rightarrow> string \<Rightarrow> string" where
  "trim_start_matches p s =
     (if p \<noteq> [] \<and> starts_with s p then trim_start_matches p (drop (length p) s) else s)"
  by pat_completeness auto
termination
  by (relation "measure (\<lambda>(p, s). length s)") (auto simp: starts_with_iff)

declare trim_start_matches.simps [simp del]

definition size_errors :: "string \<Rightarrow> string list" where
  "size_errors code =
     (if length code > MAX_CODE_SIZE
      then [''Code too large: '' @ show_nat (length code) @ '' bytes (max '' @ show_nat MAX_CODE_SIZE @ '')'']
      else [])"

definition import_errors :: "string \<Rightarrow> string list" where
  "import_errors code_lower =
     map (\<lambda>blocked. ''Blocked import: '' @ quoted blocked)
       (filter (\<lambda>blocked. str_contains code_lower (''import '' @ blocked) \<or> str_contains code_lower (''from '' @ blocked))
         BLOCKED_IMPORTS)"

definition pattern_errors :: "string \<Rightarrow> string list" where
  "pattern_errors code_lower = map (\<lambda>p. ''Blocked pattern: '' @ quoted p) (filter (str_contains code_lower) BLOCKED_PATTERNS)"

definition imported_module :: "string \<Rightarrow> string" where
  "imported_module trimmed =
     (case split_whitespace (trim_start_matches ''import '' (trim_start_matches ''from '' trimmed)) of
        [] \<Rightarrow> []
      | w # _ \<Rightarrow> hd (split_on (CHR ''.'') w))"

definition allowlist_errors :: "string \<Rightarrow> string list" where
  "allowlist_errors code =
     List.map_filter (\<lambda>line.
         let trimmed = trim line
         in if starts_with trimmed ''import '' \<or> starts_with trimmed ''from '' then
              let m = imported_module trimmed
              in if m \<noteq> [] \<and> m \<notin> set STRICT_ALLOWED_IMPORTS
                 then Some (''Import not in strict allowlist: '' @ quoted m) else None
            else None)
       (str_lines code)"

definition readonly_errors :: "string \<Rightarrow> string list" where
  "readonly_errors code =
     map (\<lambda>p. ''Readonly violation: write pattern '' @ quoted p) (filter (str_contains code) READONLY_BLOCKED_PATTERNS)"

definition validate_mcp_code :: "(string \<Rightarrow> string) \<Rightarrow> string \<Rightarrow> CodeSafetyLevel \<Rightarrow> string list + unit" where
  "validate_mcp_code lower code level =
     (if level = CsUnrestricted then Ok ()
      else
        let code_lower = lower code;
            errors = size_errors code @ import_errors code_lower @ pattern_errors code_lower
              @ (if level \<in> {CsStrict, CsReadonly} then allowlist_errors code else [])
              @ (if level = CsReadonly then readonly_errors code else [])
        in if errors = [] then Ok () else Err errors)"

section \<open>Properties\<close>

lemma ascii_lower_append: "ascii_lower (a @ b) = ascii_lower a @ ascii_lower b"
  by (simp add: ascii_lower_def)

lemma contains_ascii_lower: "str_contains s p \<Longrightarrow> str_contains (ascii_lower s) (ascii_lower p)"
  unfolding str_contains_iff by (elim exE) (simp add: ascii_lower_append, blast)

lemma sandbox_Ok:
  assumes "validate_sandbox_args nfkc lower args = Ok ()"
    and "json_get args ''command'' = Some (JStr command)"
  shows "trim command \<noteq> [] \<and> (\<forall>p \<in> set (line_separators @ SANDBOX_BLOCKED_METACHAR @ SANDBOX_BLOCKED_PATTERNS).
      \<not> str_contains (lower (nfkc command)) p) \<and> \<not> dangerous_rm (split_whitespace (lower (nfkc command)))"
  using assms
  by (auto simp: validate_sandbox_args_def json_as_str_def Let_def find_None_iff list_ex_iff
      split: if_splits option.splits)

text \<open>What the two libraries do on ASCII text.\<close>

definition nfkc_spec :: "(string \<Rightarrow> string) \<Rightarrow> bool" where
  "nfkc_spec nfkc = (\<forall>s. is_ascii s \<longrightarrow> nfkc s = s)"

text \<open>A shell command of ASCII text that reaches a server has no line break, command
  substitution, pipe, separator or conditional in it, contains none of the blocked patterns in any
  spelling of upper and lower case, and is not an \<open>rm\<close> with both a recursive and a force flag.\<close>

theorem sandbox_rejects_injection:
  assumes "nfkc_spec nfkc" and "lower_spec lower" and "is_ascii command"
    and "validate_tool_arguments nfkc lower ''sandbox'' tool args = Ok ()"
    and "json_get args ''command'' = Some (JStr command)"
  shows "(\<forall>q. ascii_lower q \<in> set (line_separators @ SANDBOX_BLOCKED_METACHAR @ SANDBOX_BLOCKED_PATTERNS) \<longrightarrow>
      \<not> str_contains command q) \<and> trim command \<noteq> [] \<and> \<not> dangerous_rm (split_whitespace (ascii_lower command))"
proof -
  have "lower (nfkc command) = ascii_lower command"
    using assms(1-3) by (simp add: nfkc_spec_def lower_spec_def)
  moreover have "validate_sandbox_args nfkc lower args = Ok ()"
    using assms(4) by (simp add: validate_tool_arguments_def)
  ultimately show ?thesis
    using sandbox_Ok [OF _ assms(5)] contains_ascii_lower [of command] by metis
qed

theorem sandbox_rejects_injection_witness:
  "\<not> str_contains ''ls -l src'' ''SHUTDOWN'' \<and> \<not> dangerous_rm (split_whitespace (ascii_lower ''ls -l src''))"
proof -
  have "nfkc_spec id" by (simp add: nfkc_spec_def)
  moreover have "is_ascii ''ls -l src''" by code_simp
  moreover have "validate_tool_arguments id ascii_lower ''sandbox'' ''execute_command'' (JObj [(''command'', JStr ''ls -l src'')]) = Ok ()"
    by code_simp
  moreover have "ascii_lower ''SHUTDOWN'' \<in> set (line_separators @ SANDBOX_BLOCKED_METACHAR @ SANDBOX_BLOCKED_PATTERNS)"
    by code_simp
  moreover have "json_get (JObj [(''command'', JStr ''ls -l src'')]) ''command'' = Some (JStr ''ls -l src'')"
    by (simp add: json_get_def)
  ultimately show ?thesis
    using sandbox_rejects_injection [OF _ lower_spec_ascii_lower] by blast
qed

text \<open>The stricter a code safety level, the less code it accepts: what \<open>readonly\<close> accepts
  \<open>strict\<close> accepts, what that accepts \<open>standard\<close> accepts, and \<open>unrestricted\<close> accepts everything.
  Code accepted above \<open>unrestricted\<close> is at most 10000 bytes long and names none of the blocked
  functions.\<close>

theorem code_safety_levels_nested:
  "(validate_mcp_code lower code CsReadonly = Ok () \<longrightarrow> validate_mcp_code lower code CsStrict = Ok ()) \<and>
   (validate_mcp_code lower code CsStrict = Ok () \<longrightarrow> validate_mcp_code lower code CsStandard = Ok ()) \<and>
   validate_mcp_code lower code CsUnrestricted = Ok () \<and>
   (validate_mcp_code lower code CsStandard = Ok () \<longrightarrow>
      length code \<le> 10000 \<and> (\<forall>p \<in> set BLOCKED_PATTERNS. \<not> str_contains (lower code) p))"
  by (auto simp: validate_mcp_code_def Let_def size_errors_def pattern_errors_def MAX_CODE_SIZE_def
      filter_empty_conv split: if_splits)

theorem code_safety_levels_nested_witness:
  "validate_mcp_code ascii_lower ''import json'' CsStrict = Ok () \<and> validate_mcp_code ascii_lower ''import json'' CsStandard = Ok ()"
proof -
  have "validate_mcp_code ascii_lower ''import json'' CsReadonly = Ok ()" by code_simp
  then show ?thesis
    using code_safety_levels_nested [of ascii_lower "''import json''"] by blast
qed

text \<open>The blocked imports are not all blocked: a second module on an import line is not looked
  at, so \<open>import json, socket\<close> passes the standard level. The same code with the module first is
  refused.\<close>

theorem blocked_import_bypass:
  "validate_mcp_code ascii_lower ''import json, socket'' CsStandard = Ok () \<and>
   validate_mcp_code ascii_lower ''import socket'' CsStandard \<noteq> Ok ()"
  by code_simp

text \<open>The sandbox validator looks at \<open>rm\<close> only as the first word and does not count a single
  ampersand among the metacharacters, so a backgrounded command hides a recursive forced removal
  that is refused on its own.\<close>

theorem sandbox_background_bypass:
  "validate_tool_arguments id ascii_lower ''sandbox'' ''execute_command''
      (JObj [(''command'', JStr ''true & rm -r -f data'')]) = Ok () \<and>
   validate_tool_arguments id ascii_lower ''sandbox'' ''execute_command''
      (JObj [(''command'', JStr ''rm -r -f data'')]) \<noteq> Ok ()"
  by code_simp

end
