(* ===== verification/Capability_Gate.thy ===== *)
theory Capability_Gate
  imports Access_Control Tool_Validator
begin

text \<open>
  The two places of \<open>managers/mcp.rs\<close> where a tool call leaves the kernel for a server:
  \<open>resolve_tool_call_target\<close> (with \<open>call_server_tool\<close>) and \<open>execute_tool_internal\<close>, with the
  per-agent gate, the argument rules and the kernel's own access control both go through; the
  tool schemas an agent is shown; and the rejections of \<open>cloto_shared\<close>.

  What a call reads beside its arguments is a \<open>gate_env\<close>: the database and its faults, the clock,
  the libraries of text, and the servers the manager holds. What a call does is a list of
  \<open>exec_event\<close>s: messages to servers, audit entries, cache touches and deliveries, in order. The
  answer of a server and the answers of the kernel's own tools are arguments.
\<close>

section \<open>Rejections and failures (shared/src/lib.rs)\<close>

datatype RejectionCode =
    YoloRequired | AccessDenied | SealUnsigned | RiskUnapproved | CodeUnsafe | DelegationCycle
  | DelegationDepth | SelfDelegation | NotDynamicallyRegistered | UnknownRejection

record tool_rejection =
  rj_code :: RejectionCode
  rj_reason :: string
  rj_remediation_hint :: "string option"
  rj_retryable :: bool
  rj_details :: "json option"

text \<open>An \<open>anyhow::Error\<close>: a typed protocol error, a rejection that travels wrapped, or a message.\<close>

datatype anyhow = AMgp mgp_error | AReject tool_rejection | AMsg string

datatype ToolFailure = Rejection tool_rejection | FailError anyhow

fun tool_failure_from :: "anyhow \<Rightarrow> ToolFailure" where
  "tool_failure_from (AReject r) = Rejection r"
| "tool_failure_from err = FailError err"

definition access_denied_rejection :: "string \<Rightarrow> tool_rejection" where
  "access_denied_rejection reason =
     \<lparr>rj_code = AccessDenied, rj_reason = reason,
      rj_remediation_hint = Some ''Ask the operator to grant this agent access to the tool.'',
      rj_retryable = True, rj_details = None\<rparr>"

definition access_denied :: "string \<Rightarrow> anyhow" where
  "access_denied reason = AReject (access_denied_rejection reason)"

section \<open>Servers and callers\<close>

datatype Caller = Agent string | System

datatype ServerStatus =
    Registered | Connecting | Connected | Draining | Disconnected | StatusError string | Restarting

definition is_operational :: "ServerStatus \<Rightarrow> bool" where
  "is_operational st = (st = Connected)"

record mcp_tool =
  tool_name :: string
  tool_description :: "string option"
  tool_input_schema :: json
  tool_annotations :: "json option"

text \<open>The parts of a server's handle that routing and gating read; a client is named by its connection.\<close>

record mcp_server_handle =
  sh_id :: string
  sh_required_permissions :: "string list"
  sh_client :: "nat option"
  sh_tools :: "mcp_tool list"
  sh_mgp_negotiated :: "negotiated_mgp option"
  sh_status :: ServerStatus

definition ENGINE_TOOL_NAMES :: "string list" where
  "ENGINE_TOOL_NAMES = [''think'', ''think_with_tools'']"

definition tools_expose_reasoning :: "mcp_tool list \<Rightarrow> bool" where
  "tools_expose_reasoning tools = list_ex (\<lambda>t. tool_name t \<in> set ENGINE_TOOL_NAMES) tools"

definition is_reasoning_engine :: "mcp_server_handle \<Rightarrow> bool" where
  "is_reasoning_engine h = tools_expose_reasoning (sh_tools h)"

record mcp_state =
  st_servers :: "(string, mcp_server_handle) hmap"
  st_tool_index :: "(string, string) hmap"

record gate_env =
  ge_sqlite :: sqlite
  ge_now :: instant
  ge_json :: json_text
  ge_nfkc :: "string \<Rightarrow> string"
  ge_lower :: "string \<Rightarrow> string"
  ge_db :: db
  ge_state :: mcp_state

text \<open>
  The faults of a call's lookups: the caller's grant (three statements), its argument rules, the
  delegation's agent, and the delegation's grant.
\<close>

record gate_faults =
  gf_grant :: "nat \<Rightarrow> fault"
  gf_rules :: fault
  gf_actor :: fault
  gf_delegated :: "nat \<Rightarrow> fault"

definition no_faults :: gate_faults where
  "no_faults = \<lparr>gf_grant = (\<lambda>_. None), gf_rules = None, gf_actor = None, gf_delegated = (\<lambda>_. None)\<rparr>"

section \<open>The gate\<close>

text \<open>U+00A7 in UTF-8.\<close>

definition section_sign :: string where
  "section_sign = [CHR 0xC2, CHR 0xA7]"

text \<open>The complaints of one rule about a call's arguments, in the order of the code.\<close>

definition rule_problems :: "json_text \<Rightarrow> json \<Rightarrow> argument_rule \<Rightarrow> string list" where
  "rule_problems jt args rule =
     List.map_filter (\<lambda>(name, expected).
         case json_get args name of
           None \<Rightarrow> None
         | Some actual \<Rightarrow>
             if actual \<noteq> expected
             then Some (name @ '' must be '' @ json_to_string jt expected @ '' (got '' @ json_to_string jt actual @ '')'')
             else None) (ar_equals rule)
     @ List.map_filter (\<lambda>name.
         case json_get args name of
           None \<Rightarrow> Some (name @ '' is required'')
         | Some v \<Rightarrow> if v = JNull then Some (name @ '' is required'') else None) (ar_required rule)"

definition check_failed :: "string \<Rightarrow> string \<Rightarrow> string \<Rightarrow> anyhow" where
  "check_failed agent_id server_id tool =
     AMgp (mgp_access_denied (''Access check failed for agent '' @ quoted agent_id @ '' on ''
       @ quoted (server_id @ ''.'' @ tool)))"

definition enforce_argument_rules ::
  "gate_env \<Rightarrow> fault \<Rightarrow> string \<Rightarrow> string \<Rightarrow> string \<Rightarrow> json \<Rightarrow> anyhow + unit" where
  "enforce_argument_rules g f agent_id server_id tool args =
     (case argument_rules_for_call (ge_json g) f (ge_db g) agent_id server_id tool of
        Inl _ \<Rightarrow> Err (check_failed agent_id server_id tool)
      | Inr rules \<Rightarrow>
          let problems = concat (map (rule_problems (ge_json g) args) rules)
          in if problems = [] then Ok ()
             else Err (AReject \<lparr>rj_code = AccessDenied,
               rj_reason = ''Access denied: agent '' @ quoted agent_id @ '' may not call '' @ quoted tool
                 @ '' on server '' @ quoted server_id @ '' with these arguments: ''
                 @ join_with ''; '' (sort (remdups problems)),
               rj_remediation_hint = Some ''Call the tool again with the argument values the rule requires.'',
               rj_retryable = True, rj_details = None\<rparr>))"

definition enforce_caller_grant ::
  "gate_env \<Rightarrow> (nat \<Rightarrow> fault) \<Rightarrow> fault \<Rightarrow> Caller \<Rightarrow> string \<Rightarrow> string \<Rightarrow> json \<Rightarrow> anyhow + unit" where
  "enforce_caller_grant g f fr caller server_id tool args =
     (case caller of
        System \<Rightarrow> Ok ()
      | Agent agent_id \<Rightarrow>
          (case resolve_tool_access (ge_sqlite g) (ge_now g) f (ge_db g) agent_id server_id tool of
             Inr Allow \<Rightarrow> enforce_argument_rules g fr agent_id server_id tool args
           | Inr Deny \<Rightarrow>
               Err (access_denied (''Access denied: agent '' @ quoted agent_id @ '' is not granted '' @ quoted tool
                 @ '' on server '' @ quoted server_id))
           | Inl _ \<Rightarrow> Err (check_failed agent_id server_id tool)))"

definition is_kernel_native_tool :: "string \<Rightarrow> bool" where
  "is_kernel_native_tool tool = (starts_with tool ''mgp.'' \<or> starts_with tool ''gui.'')"

definition enforce_kernel_rbac :: "gate_env \<Rightarrow> (nat \<Rightarrow> fault) \<Rightarrow> Caller \<Rightarrow> string \<Rightarrow> anyhow + unit" where
  "enforce_kernel_rbac g f caller tool =
     (case caller of
        System \<Rightarrow> Ok ()
      | Agent agent_id \<Rightarrow>
          (case resolve_explicit_permission (ge_sqlite g) (ge_now g) f (ge_db g) agent_id ''kernel'' tool of
             Inl e \<Rightarrow> Err (AMsg e)
           | Inr (Some Deny) \<Rightarrow>
               Err (access_denied (''Access denied: agent '' @ quoted agent_id @ '' cannot use kernel tool '' @ quoted tool))
           | Inr _ \<Rightarrow> Ok ()))"

definition check_tool_access ::
  "gate_env \<Rightarrow> (nat \<Rightarrow> fault) \<Rightarrow> string \<Rightarrow> string \<Rightarrow> string + PermissionLevel" where
  "check_tool_access g f agent_id tool =
     and_then (ok_or (hm_get (st_tool_index (ge_state g)) tool) (''MCP tool '' @ quoted tool @ '' not found''))
       (\<lambda>server_id. resolve_tool_access (ge_sqlite g) (ge_now g) f (ge_db g) agent_id server_id tool)"

section \<open>Path 1: calling a server by name\<close>

definition json_array_len :: "json \<Rightarrow> nat option" where
  "json_array_len v = (case v of JArr xs \<Rightarrow> Some (length xs) | _ \<Rightarrow> None)"

text \<open>The delegation envelope of a call, \<open>args._mgp.delegation\<close>, and the three checks on it.\<close>

definition delegation_of :: "json \<Rightarrow> json option" where
  "delegation_of args = Option.bind (json_get args ''_mgp'') (\<lambda>m. json_get m ''delegation'')"

definition check_delegation ::
  "gate_env \<Rightarrow> gate_faults \<Rightarrow> string \<Rightarrow> string \<Rightarrow> json \<Rightarrow> anyhow + unit" where
  "check_delegation g fs server_id tool delegation =
     and_then (case Option.bind (json_get delegation ''chain'') json_array_len of
         Some n \<Rightarrow> if n > 3
           then Err (AMgp (permission_denied (''Delegation chain depth '' @ show_nat n @ '' exceeds maximum of 3'')))
           else Ok ()
       | None \<Rightarrow> Ok ())
     (\<lambda>_. and_then (case Option.bind (json_get delegation ''original_actor'') json_as_str of
         Some actor \<Rightarrow>
           if \<not> (case db_timeout (gf_actor fs) (agent_active (ge_db g) actor) of Inl _ \<Rightarrow> False | Inr b \<Rightarrow> b)
           then Err (AMgp (permission_denied (''Delegation rejected: original_actor '' @ quoted actor
                  @ '' is not a known active agent (MGP '' @ section_sign @ ''5.6.3)'')))
           else if (case resolve_tool_access (ge_sqlite g) (ge_now g) (gf_delegated fs) (ge_db g) actor server_id tool of
                      Inl _ \<Rightarrow> Deny | Inr p \<Rightarrow> p) = Deny
           then Err (access_denied (''Delegation rejected: original_actor '' @ quoted actor
                  @ '' does not have access to '' @ server_id @ ''.'' @ tool @ '' (MGP '' @ section_sign @ ''5.6.1)''))
           else Ok ()
       | None \<Rightarrow> Ok ())
     (\<lambda>_. case Option.bind (json_get delegation ''delegated_via'') json_as_str of
         Some via \<Rightarrow>
           if (case hm_get (st_servers (ge_state g)) via of None \<Rightarrow> False | Some h \<Rightarrow> is_operational (sh_status h))
           then Ok ()
           else Err (AMgp (permission_denied (''Delegation rejected: delegated_via '' @ quoted via
                  @ '' is not a known operational server (MGP '' @ section_sign @ ''5.6.3)'')))
       | None \<Rightarrow> Ok ()))"

definition find_client :: "mcp_state \<Rightarrow> string \<Rightarrow> anyhow + nat" where
  "find_client st server_id =
     and_then (ok_or (hm_get (st_servers st) server_id)
        (AMgp (tool_not_found (''MCP server '' @ quoted server_id @ '' not found''))))
       (\<lambda>handle. ok_or (sh_client handle)
          (AMgp (server_not_ready (''MCP server '' @ quoted server_id @ '' not connected''))))"

definition kernel_validation :: "gate_env \<Rightarrow> string \<Rightarrow> json \<Rightarrow> string + unit" where
  "kernel_validation g tool args =
     (case get_kernel_validator tool of
        None \<Rightarrow> Ok ()
      | Some validator \<Rightarrow> validate_tool_arguments (ge_nfkc g) (ge_lower g) validator tool args)"

definition map_err :: "('e \<Rightarrow> 'f) \<Rightarrow> 'e + 'a \<Rightarrow> 'f + 'a" where
  "map_err h r = (case r of Inl e \<Rightarrow> Inl (h e) | Inr v \<Rightarrow> Inr v)"

definition resolve_tool_call_target ::
  "gate_env \<Rightarrow> gate_faults \<Rightarrow> Caller \<Rightarrow> string \<Rightarrow> string \<Rightarrow> json \<Rightarrow> anyhow + nat" where
  "resolve_tool_call_target g fs caller server_id tool args =
     and_then (enforce_caller_grant g (gf_grant fs) (gf_rules fs) caller server_id tool args)
     (\<lambda>_. and_then (case delegation_of args of
         Some delegation \<Rightarrow> check_delegation g fs server_id tool delegation
       | None \<Rightarrow> Ok ())
     (\<lambda>_. and_then (find_client (ge_state g) server_id)
     (\<lambda>client. and_then (map_err AMsg (kernel_validation g tool args))
     (\<lambda>_. Ok client))))"

datatype ToolContent = TextContent string | ImageContent string string | ResourceContent json

record call_tool_result =
  cr_content :: "ToolContent list"
  cr_is_error :: "bool option"
  cr_result_type :: "string option"

datatype exec_event =
    ClientCall nat string json
  | AuditEvent string string string string string
  | SessionTouch string string
  | DeliverEvent string string string

text \<open>A server's answer to a call: an error of the transport, or a result.\<close>

type_synonym server_reply = "nat \<Rightarrow> string \<Rightarrow> json \<Rightarrow> string + call_tool_result"

definition call_server_tool ::
  "gate_env \<Rightarrow> gate_faults \<Rightarrow> server_reply \<Rightarrow> Caller \<Rightarrow> string \<Rightarrow> string \<Rightarrow> json
   \<Rightarrow> exec_event list \<times> (anyhow + call_tool_result)" where
  "call_server_tool g fs reply caller server_id tool args =
     (case resolve_tool_call_target g fs caller server_id tool args of
        Inl e \<Rightarrow> ([], Err e)
      | Inr client \<Rightarrow> ([ClientCall client tool args], map_err AMsg (reply client tool args)))"

section \<open>Path 2: executing a tool by name\<close>

text \<open>The tools the kernel answers itself.\<close>

definition KERNEL_TOOLS :: "string list" where
  "KERNEL_TOOLS =
     [''mgp.kernel.create_mcp_server'', ''mgp.access.query'', ''mgp.access.grant'', ''mgp.access.revoke'',
      ''mgp.audit.replay'', ''mgp.health.ping'', ''mgp.health.status'', ''mgp.lifecycle.shutdown'',
      ''mgp.stream.cancel'', ''mgp.stream.pace'', ''mgp.events.subscribe'', ''mgp.events.unsubscribe'',
      ''mgp.events.replay'', ''mgp.events.pending_callbacks'', ''mgp.callback.respond'', ''mgp.discovery.list'',
      ''mgp.discovery.register'', ''mgp.discovery.deregister'', ''mgp.tools.discover'', ''mgp.tools.request'',
      ''mgp.tools.session'', ''mgp.tools.session.evict'', ''mgp.skill.load'', ''mgp.agent.ask'',
      ''mgp.operator.ask'', ''mgp.operator.replies'', ''gui.map'', ''gui.read'']"

definition texts_of :: "ToolContent list \<Rightarrow> string list" where
  "texts_of content = List.map_filter (\<lambda>c. case c of TextContent t \<Rightarrow> Some t | _ \<Rightarrow> None) content"

definition json_map_remove :: "string \<Rightarrow> json_map \<Rightarrow> json_map" where
  "json_map_remove k m = filter (\<lambda>(k', _). k' \<noteq> k) m"

definition detect_external_rejection :: "json_text \<Rightarrow> string \<Rightarrow> tool_rejection option" where
  "detect_external_rejection jt text =
     Option.bind (Option.bind (json_from_str jt text) json_as_object) (\<lambda>obj.
       Option.bind (Option.bind (map_of obj ''status'') json_as_str) (\<lambda>status.
         if status \<noteq> ''rejected'' \<and> status \<noteq> ''denied'' then None
         else
           let details = foldr json_map_remove
                 [''status'', ''reason'', ''remediation_hint'', ''remediation'', ''retryable''] obj
           in Some \<lparr>rj_code = UnknownRejection,
                rj_reason = unwrap_or (Option.bind (map_of obj ''reason'') json_as_str)
                  ''External MCP server rejected the tool call.'',
                rj_remediation_hint =
                  Option.bind (option_or (map_of obj ''remediation_hint'') (map_of obj ''remediation'')) json_as_str,
                rj_retryable = unwrap_or (Option.bind (map_of obj ''retryable'') json_as_bool) True,
                rj_details = (if details = [] then None else Some (JObj details))\<rparr>))"

text \<open>What the caller gets from a server's result.\<close>

definition tool_outcome :: "json_text \<Rightarrow> call_tool_result \<Rightarrow> ToolFailure + json" where
  "tool_outcome jt result =
     (let parts = texts_of (cr_content result);
          joined = join_with [CHR 0x0A] parts
      in if cr_is_error result = Some True then
           (case detect_external_rejection jt joined of
              Some rejection \<Rightarrow> Err (Rejection rejection)
            | None \<Rightarrow> Err (FailError (AMsg (''MCP tool error: '' @ joined))))
         else
           (case parts of
              [text] \<Rightarrow> Ok (case json_from_str jt text of Some v \<Rightarrow> v | None \<Rightarrow> JStr text)
            | _ \<Rightarrow> Ok (JStr joined)))"

definition execute_tool_internal ::
  "gate_env \<Rightarrow> (nat \<Rightarrow> fault) \<Rightarrow> gate_faults \<Rightarrow> (Caller \<Rightarrow> string \<Rightarrow> json \<Rightarrow> ToolFailure + json) \<Rightarrow> server_reply
   \<Rightarrow> Caller \<Rightarrow> string \<Rightarrow> json \<Rightarrow> exec_event list \<times> (ToolFailure + json)" where
  "execute_tool_internal g fk fs kernel_tool reply caller tool args =
     (case (if is_kernel_native_tool tool then enforce_kernel_rbac g fk caller tool else Ok ()) of
        Inl e \<Rightarrow> ([], Err (tool_failure_from e))
      | Inr _ \<Rightarrow>
          if tool \<in> set KERNEL_TOOLS then ([], kernel_tool caller tool args)
          else
            (case and_then (ok_or (hm_get (st_tool_index (ge_state g)) tool)
                       (AMgp (tool_not_found (''MCP tool '' @ quoted tool @ '' not found''))))
                     (\<lambda>server_id. and_then (find_client (ge_state g) server_id) (\<lambda>client. Ok (server_id, client))) of
               Inl e \<Rightarrow> ([], Err (FailError e))
             | Inr (server_id, client) \<Rightarrow>
                 (case enforce_caller_grant g (gf_grant fs) (gf_rules fs) caller server_id tool args of
                    Inl e \<Rightarrow> ([], Err (tool_failure_from e))
                  | Inr _ \<Rightarrow>
                      (case kernel_validation g tool args of
                         Inl e \<Rightarrow> ([AuditEvent ''TOOL_BLOCKED'' server_id tool ''blocked'' e], Err (FailError (AMsg e)))
                       | Inr _ \<Rightarrow>
                           (case reply client tool args of
                              Inl e \<Rightarrow> ([ClientCall client tool args, AuditEvent ''TOOL_ERROR'' server_id tool ''error'' e],
                                        Err (FailError (AMsg e)))
                            | Inr result \<Rightarrow>
                                (let verdict = (if cr_is_error result = Some True then ''error'' else ''success'')
                                 in ([ClientCall client tool args,
                                      AuditEvent ''TOOL_EXECUTED'' server_id tool verdict []]
                                     @ (case caller of Agent a \<Rightarrow> [SessionTouch a (server_id @ ''.'' @ tool)] | System \<Rightarrow> [])
                                     @ [DeliverEvent server_id tool verdict],
                                     tool_outcome (ge_json g) result)))))))"

section \<open>The tools an agent is shown\<close>

record tool_security_metadata =
  ts_effective_risk_level :: RiskLevel
  ts_trust_level :: TrustLevel
  ts_validator :: "string option"
  ts_code_safety :: "code_safety_metadata option"

definition compute_tool_security :: "mcp_server_handle \<Rightarrow> string \<Rightarrow> tool_security_metadata option" where
  "compute_tool_security handle tool =
     Option.bind (sh_mgp_negotiated handle) (\<lambda>mgp.
       if \<not> list_ex (\<lambda>e. e = ''tool_security'') (ng_active_extensions mgp) then None
       else
         let validator = get_kernel_validator tool;
             perm_class = from_permissions (sh_required_permissions handle)
         in Some \<lparr>ts_effective_risk_level = derive_effective_risk_level (ng_trust_level mgp) validator perm_class,
              ts_trust_level = ng_trust_level mgp, ts_validator = validator, ts_code_safety = None\<rparr>)"

end
