(* ===== verification/Gate_Laws.thy ===== *)
theory Gate_Laws
  imports Capability_Gate Access_Laws
begin

text \<open>
  What the two call paths promise: a message reaches a server exactly when the caller is granted
  the call, its arguments satisfy the agent's rules, its delegation holds, and the kernel's own
  validation passes. Both paths interpret one interface, \<open>gated_path\<close>.
\<close>

section \<open>What a permitted call is\<close>

definition rule_satisfied :: "json \<Rightarrow> argument_rule \<Rightarrow> bool" where
  "rule_satisfied args rule \<longleftrightarrow>
     (\<forall>(name, expected) \<in> set (ar_equals rule). json_get args name \<in> {None, Some expected}) \<and>
     (\<forall>name \<in> set (ar_required rule). json_get args name \<notin> {None, Some JNull})"

definition call_granted :: "gate_env \<Rightarrow> gate_faults \<Rightarrow> string \<Rightarrow> string \<Rightarrow> string \<Rightarrow> json \<Rightarrow> bool" where
  "call_granted g fs agent server tool args \<longleftrightarrow>
     resolve_tool_access (ge_sqlite g) (ge_now g) (gf_grant fs) (ge_db g) agent server tool = Ok Allow \<and>
     (\<exists>rules. argument_rules_for_call (ge_json g) (gf_rules fs) (ge_db g) agent server tool = Ok rules \<and>
        (\<forall>rule \<in> set rules. rule_satisfied args rule))"

definition caller_granted :: "gate_env \<Rightarrow> gate_faults \<Rightarrow> Caller \<Rightarrow> string \<Rightarrow> string \<Rightarrow> json \<Rightarrow> bool" where
  "caller_granted g fs caller server tool args \<longleftrightarrow>
     (case caller of System \<Rightarrow> True | Agent a \<Rightarrow> call_granted g fs a server tool args)"

definition delegation_ok :: "gate_env \<Rightarrow> gate_faults \<Rightarrow> string \<Rightarrow> string \<Rightarrow> json \<Rightarrow> bool" where
  "delegation_ok g fs server tool d \<longleftrightarrow>
     (\<forall>xs. json_get d ''chain'' = Some (JArr xs) \<longrightarrow> length xs \<le> 3) \<and>
     (\<forall>actor. json_get d ''original_actor'' = Some (JStr actor) \<longrightarrow>
        gf_actor fs = None \<and> agent_active (ge_db g) actor \<and>
        resolve_tool_access (ge_sqlite g) (ge_now g) (gf_delegated fs) (ge_db g) actor server tool = Ok Allow) \<and>
     (\<forall>via. json_get d ''delegated_via'' = Some (JStr via) \<longrightarrow>
        (\<exists>h. hm_get (st_servers (ge_state g)) via = Some h \<and> sh_status h = Connected))"

definition client_of :: "gate_env \<Rightarrow> string \<Rightarrow> nat \<Rightarrow> bool" where
  "client_of g server client \<longleftrightarrow>
     (\<exists>h. hm_get (st_servers (ge_state g)) server = Some h \<and> sh_client h = Some client)"

lemma map_filter_Nil_iff: "List.map_filter h xs = [] \<longleftrightarrow> (\<forall>x \<in> set xs. h x = None)"
  by (induction xs) (auto simp: List.map_filter_simps split: option.splits)

lemma rule_problems_Nil_iff: "rule_problems jt args rule = [] \<longleftrightarrow> rule_satisfied args rule"
  by (auto simp: rule_problems_def rule_satisfied_def map_filter_Nil_iff split: option.splits if_splits)

lemma enforce_argument_rules_Ok_iff:
  "enforce_argument_rules g f agent server tool args = Ok () \<longleftrightarrow>
     (\<exists>rules. argument_rules_for_call (ge_json g) f (ge_db g) agent server tool = Ok rules \<and>
        (\<forall>rule \<in> set rules. rule_satisfied args rule))"
  by (auto simp: enforce_argument_rules_def Let_def rule_problems_Nil_iff split: sum.splits)

lemma enforce_caller_grant_Ok_iff:
  "enforce_caller_grant g (gf_grant fs) (gf_rules fs) caller server tool args = Ok () \<longleftrightarrow>
     caller_granted g fs caller server tool args"
  by (auto simp: enforce_caller_grant_def caller_granted_def call_granted_def enforce_argument_rules_Ok_iff
      split: Caller.splits sum.splits PermissionLevel.splits)

lemma json_as_str_Some_iff: "json_as_str v = Some s \<longleftrightarrow> v = JStr s"
  by (cases v) (auto simp: json_as_str_def)

lemma json_array_len_Some_iff: "json_array_len v = Some n \<longleftrightarrow> (\<exists>xs. v = JArr xs \<and> length xs = n)"
  by (cases v) (auto simp: json_array_len_def)

lemma chain_check_iff:
  "(case Option.bind (json_get d ''chain'') json_array_len of
      Some n \<Rightarrow> if n > 3 then Err (e n) else Ok () | None \<Rightarrow> Ok ()) = Ok ()
   \<longleftrightarrow> (\<forall>xs. json_get d ''chain'' = Some (JArr xs) \<longrightarrow> length xs \<le> 3)"
  by (cases "json_get d ''chain''") (auto simp: json_array_len_def split: json.splits)

lemma actor_check_iff:
  "(case Option.bind (json_get d ''original_actor'') json_as_str of
      Some actor \<Rightarrow>
        if \<not> (case db_timeout fa (agent_active db actor) of Inl _ \<Rightarrow> False | Inr b \<Rightarrow> b) then Err (e1 actor)
        else if (case access actor of Inl (_ :: db_error) \<Rightarrow> Deny | Inr p \<Rightarrow> p) = Deny then Err (e2 actor)
        else Ok ()
    | None \<Rightarrow> Ok ()) = Ok ()
   \<longleftrightarrow> (\<forall>actor. json_get d ''original_actor'' = Some (JStr actor) \<longrightarrow>
          fa = None \<and> agent_active db actor \<and> access actor = Ok Allow)"
proof (cases "Option.bind (json_get d ''original_actor'') json_as_str")
  case None
  then have "json_get d ''original_actor'' \<noteq> Some (JStr actor)" for actor
    by (auto simp: json_as_str_def)
  with None show ?thesis by simp
next
  case (Some actor)
  then have "json_get d ''original_actor'' = Some (JStr actor)"
    by (auto simp: bind_eq_Some_conv json_as_str_Some_iff)
  with Some show ?thesis
    by (cases fa; cases "access actor") (auto split: PermissionLevel.splits, metis PermissionLevel.exhaust)
qed

lemma via_check_iff:
  "(case Option.bind (json_get d ''delegated_via'') json_as_str of
      Some via \<Rightarrow>
        if (case hm_get m via of None \<Rightarrow> False | Some h \<Rightarrow> is_operational (sh_status h)) then Ok () else Err (e via)
    | None \<Rightarrow> Ok ()) = Ok ()
   \<longleftrightarrow> (\<forall>via. json_get d ''delegated_via'' = Some (JStr via) \<longrightarrow>
          (\<exists>h. hm_get m via = Some h \<and> sh_status h = Connected))"
proof (cases "Option.bind (json_get d ''delegated_via'') json_as_str")
  case None
  then have "json_get d ''delegated_via'' \<noteq> Some (JStr via)" for via
    by (auto simp: json_as_str_def)
  with None show ?thesis by simp
next
  case (Some via)
  then have "json_get d ''delegated_via'' = Some (JStr via)"
    by (auto simp: bind_eq_Some_conv json_as_str_Some_iff)
  with Some show ?thesis
    by (auto simp: is_operational_def split: option.splits)
qed

lemma and_then_unit_Ok_iff: "and_then r (\<lambda>_. q) = Ok y \<longleftrightarrow> r = Ok () \<and> q = Ok y"
  by (cases r) auto

lemma check_delegation_Ok_iff: "check_delegation g fs server tool d = Ok () \<longleftrightarrow> delegation_ok g fs server tool d"
  unfolding check_delegation_def and_then_unit_Ok_iff chain_check_iff actor_check_iff via_check_iff delegation_ok_def ..

lemma find_client_Ok_iff: "find_client (ge_state g) server = Ok client \<longleftrightarrow> client_of g server client"
  by (auto simp: find_client_def client_of_def and_then_Ok_iff)

lemma map_err_Ok_iff [simp]: "map_err h r = Ok v \<longleftrightarrow> r = Ok v"
  by (cases r) (simp_all add: map_err_def)

text \<open>C1. The call gate, exactly: a call is handed to a server's connection if and only if the caller
  is the kernel or an agent that is granted the tool and whose argument rules all hold, the
  delegation it carries is at most three deep, on behalf of an active agent that is itself granted
  the tool, through a connected server, the server is known and connected, and the kernel's
  validator accepts the arguments. A lookup that fails refuses the call.\<close>

theorem resolve_tool_call_target_exact:
  "resolve_tool_call_target g fs caller server tool args = Ok client \<longleftrightarrow>
     caller_granted g fs caller server tool args \<and>
     (\<forall>d. delegation_of args = Some d \<longrightarrow> delegation_ok g fs server tool d) \<and>
     client_of g server client \<and>
     kernel_validation g tool args = Ok ()"
proof -
  have "(case delegation_of args of Some d \<Rightarrow> check_delegation g fs server tool d | None \<Rightarrow> Ok ()) = Ok ()
    \<longleftrightarrow> (\<forall>d. delegation_of args = Some d \<longrightarrow> delegation_ok g fs server tool d)"
    by (auto simp: check_delegation_Ok_iff split: option.splits)
  then show ?thesis
    unfolding resolve_tool_call_target_def and_then_unit_Ok_iff enforce_caller_grant_Ok_iff
    by (auto simp: and_then_Ok_iff find_client_Ok_iff)
qed

text \<open>A kernel with one connected server, for the examples.\<close>

definition example_env :: gate_env where
  "example_env = \<lparr>ge_sqlite = insertion_order, ge_now = 7, ge_json = example_codec, ge_nfkc = id,
     ge_lower = ascii_lower, ge_db = example_db,
     ge_state = \<lparr>st_servers = [(''files'', \<lparr>sh_id = ''files'', sh_required_permissions = [], sh_client = Some 4,
         sh_tools = [\<lparr>tool_name = ''read'', tool_description = None, tool_input_schema = JNull, tool_annotations = None\<rparr>],
         sh_mgp_negotiated = None, sh_status = Connected\<rparr>)],
       st_tool_index = [(''read'', ''files'')]\<rparr>\<rparr>"

definition example_args :: json where
  "example_args = JObj [(''_mgp'', JObj [(''delegation'', JObj [(''chain'', JArr [JStr ''ann'']),
     (''delegated_via'', JStr ''files''), (''original_actor'', JStr ''ann'')])])]"

theorem resolve_tool_call_target_exact_witness:
  "caller_granted example_env no_faults (Agent ''ann'') ''files'' ''read'' example_args \<and>
   delegation_ok example_env no_faults ''files'' ''read'' (the (delegation_of example_args))"
proof -
  have "resolve_tool_call_target example_env no_faults (Agent ''ann'') ''files'' ''read'' example_args = Ok 4"
    by code_simp
  moreover have "\<exists>d. delegation_of example_args = Some d"
    by (simp add: delegation_of_def example_args_def json_get_def)
  ultimately show ?thesis
    using resolve_tool_call_target_exact [of example_env no_faults "Agent ''ann''" "''files''" "''read''" example_args 4]
    by auto
qed

section \<open>Executing a tool by name\<close>

definition is_call :: "exec_event \<Rightarrow> bool" where
  "is_call e = (case e of ClientCall _ _ _ \<Rightarrow> True | _ \<Rightarrow> False)"

definition kernel_rbac_ok :: "gate_env \<Rightarrow> (nat \<Rightarrow> fault) \<Rightarrow> Caller \<Rightarrow> string \<Rightarrow> bool" where
  "kernel_rbac_ok g f caller tool \<longleftrightarrow>
     (\<forall>a. caller = Agent a \<longrightarrow>
        (\<exists>p. resolve_explicit_permission (ge_sqlite g) (ge_now g) f (ge_db g) a ''kernel'' tool = Ok p \<and> p \<noteq> Some Deny))"

lemma enforce_kernel_rbac_Ok_iff: "enforce_kernel_rbac g f caller tool = Ok () \<longleftrightarrow> kernel_rbac_ok g f caller tool"
  by (auto simp: enforce_kernel_rbac_def kernel_rbac_ok_def
      split: Caller.splits sum.splits option.splits PermissionLevel.splits)

definition execution_permitted ::
  "gate_env \<Rightarrow> (nat \<Rightarrow> fault) \<Rightarrow> gate_faults \<Rightarrow> Caller \<Rightarrow> string \<Rightarrow> json \<Rightarrow> string \<Rightarrow> nat \<Rightarrow> bool" where
  "execution_permitted g fk fs caller tool args server client \<longleftrightarrow>
     (is_kernel_native_tool tool \<longrightarrow> kernel_rbac_ok g fk caller tool) \<and> tool \<notin> set KERNEL_TOOLS \<and>
     hm_get (st_tool_index (ge_state g)) tool = Some server \<and> client_of g server client \<and>
     caller_granted g fs caller server tool args \<and> kernel_validation g tool args = Ok ()"

lemma execute_calls:
  "filter is_call (fst (execute_tool_internal g fk fs kernel_tool reply caller tool args)) =
     (if (is_kernel_native_tool tool \<longrightarrow> kernel_rbac_ok g fk caller tool) \<and> tool \<notin> set KERNEL_TOOLS
      then (case hm_get (st_tool_index (ge_state g)) tool of
              None \<Rightarrow> []
            | Some server \<Rightarrow>
                (case find_client (ge_state g) server of
                   Inl _ \<Rightarrow> []
                 | Inr client \<Rightarrow>
                     if caller_granted g fs caller server tool args \<and> kernel_validation g tool args = Ok ()
                     then [ClientCall client tool args] else []))
      else [])"
proof (cases "(if is_kernel_native_tool tool then enforce_kernel_rbac g fk caller tool else Ok ())")
  case (Inl e)
  then have "\<not> (is_kernel_native_tool tool \<longrightarrow> kernel_rbac_ok g fk caller tool)"
    using enforce_kernel_rbac_Ok_iff [of g fk caller tool] by (auto split: if_splits)
  with Inl show ?thesis by (auto simp: execute_tool_internal_def)
next
  case (Inr u)
  then have rbac: "is_kernel_native_tool tool \<longrightarrow> kernel_rbac_ok g fk caller tool"
    using enforce_kernel_rbac_Ok_iff [of g fk caller tool] by (auto split: if_splits)
  show ?thesis
  proof (cases "hm_get (st_tool_index (ge_state g)) tool")
    case None
    with Inr show ?thesis by (simp add: execute_tool_internal_def)
  next
    case (Some server)
    note index = Some
    show ?thesis
    proof (cases "find_client (ge_state g) server")
      case (Inl e)
      with Inr index show ?thesis by (simp add: execute_tool_internal_def)
    next
      case client: (Inr client)
      show ?thesis
        using Inr rbac index client enforce_caller_grant_Ok_iff [of g fs caller server tool args]
        by (cases "enforce_caller_grant g (gf_grant fs) (gf_rules fs) caller server tool args";
            cases "kernel_validation g tool args"; cases "reply client tool args"; cases caller)
          (auto simp: execute_tool_internal_def is_call_def Let_def)
    qed
  qed
qed

lemma execute_calls_permitted:
  "execution_permitted g fk fs caller tool args server client \<Longrightarrow>
   filter is_call (fst (execute_tool_internal g fk fs kernel_tool reply caller tool args)) = [ClientCall client tool args]"
  by (auto simp: execute_calls execution_permitted_def find_client_Ok_iff [symmetric])

lemma execute_calls_refused:
  assumes "\<And>server client. \<not> execution_permitted g fk fs caller tool args server client"
  shows "filter is_call (fst (execute_tool_internal g fk fs kernel_tool reply caller tool args)) = []"
  using assms find_client_Ok_iff [of g]
  by (fastforce simp: execute_calls execution_permitted_def split: option.splits sum.splits)


text \<open>The kernel's own tools are refused by an explicit deny only: an agent may use one when the
  lookup succeeds and finds no deny, and the policy of the server row named \<open>kernel\<close>, or of any
  server, plays no part. A failed lookup refuses.\<close>

theorem kernel_rbac_deny_only:
  "(enforce_kernel_rbac g f caller tool = Ok () \<longleftrightarrow> kernel_rbac_ok g f caller tool) \<and>
   enforce_kernel_rbac (g\<lparr>ge_db := (ge_db g)\<lparr>db_servers := servers\<rparr>\<rparr>) f caller tool = enforce_kernel_rbac g f caller tool"
proof
  show "enforce_kernel_rbac g f caller tool = Ok () \<longleftrightarrow> kernel_rbac_ok g f caller tool"
    by (rule enforce_kernel_rbac_Ok_iff)
  have "resolve_explicit_permission sq now f ((ge_db g)\<lparr>db_servers := servers\<rparr>) a s t = resolve_explicit_permission sq now f (ge_db g) a s t"
    for sq now a s t
    by (rule resolve_explicit_cong) (simp add: same_rows_def tool_rows_def server_rows_def)
  then show "enforce_kernel_rbac (g\<lparr>ge_db := (ge_db g)\<lparr>db_servers := servers\<rparr>\<rparr>) f caller tool = enforce_kernel_rbac g f caller tool"
    by (simp add: enforce_kernel_rbac_def split: Caller.splits)
qed

section \<open>One interface for both paths\<close>

text \<open>
  \<open>reaches f caller server tool args\<close>: some message leaves for the server. What a path promises is
  that no message leaves for an agent whose grant lookup says anything but allow.
\<close>

locale gated_path =
  fixes reaches :: "gate_env \<Rightarrow> gate_faults \<Rightarrow> Caller \<Rightarrow> string \<Rightarrow> string \<Rightarrow> json \<Rightarrow> bool"
  assumes gate: "reaches g fs (Agent a) server tool args \<Longrightarrow> call_granted g fs a server tool args"
begin

lemma denied_never_reaches:
  assumes "resolve_tool_access (ge_sqlite g) (ge_now g) (gf_grant fs) (ge_db g) a server tool \<noteq> Ok Allow"
  shows "\<not> reaches g fs (Agent a) server tool args"
  using assms gate by (auto simp: call_granted_def)

text \<open>After an operator replaces an agent's grants on a server by a deny, the path never reaches it.\<close>

lemma revoked_never_reaches:
  assumes "sqlite_ok (ge_sqlite g)" and "has_server db server"
    and "ge_db g = fst (replace_agent_grants_on_server None stamp a server \<lparr>gs_server = Some Deny, gs_tools = []\<rparr> granter db)"
  shows "\<not> reaches g fs (Agent a) server tool args"
proof (rule denied_never_reaches)
  have tools: "tool_rows (ge_sqlite g) (ge_now g) (ge_db g) a server tool = []"
    using tool_rows_replaced [OF assms(2), of "ge_sqlite g" "ge_now g" stamp a "\<lparr>gs_server = Some Deny, gs_tools = []\<rparr>" granter tool]
    by (simp add: assms(3))
  have "map ac_permission (server_rows (ge_sqlite g) (ge_now g) (ge_db g) a server) = [''deny'']"
    using server_rows_replaced [OF assms(2), of "ge_sqlite g" "ge_now g" stamp a "\<lparr>gs_server = Some Deny, gs_tools = []\<rparr>" granter]
    by (simp add: assms(3))
  then have "\<forall>r \<in> set (server_rows (ge_sqlite g) (ge_now g) (ge_db g) a server). ac_permission r \<noteq> ''allow''"
    and "server_rows (ge_sqlite g) (ge_now g) (ge_db g) a server \<noteq> []"
    by auto
  with tools show "resolve_tool_access (ge_sqlite g) (ge_now g) (gf_grant fs) (ge_db g) a server tool \<noteq> Ok Allow"
    using granted_by_precedence [OF assms(1)] by fastforce
qed

end

text \<open>Some message leaves for the server, whatever the server or the kernel's own tools answer.\<close>

definition named_path_reaches :: "gate_env \<Rightarrow> gate_faults \<Rightarrow> Caller \<Rightarrow> string \<Rightarrow> string \<Rightarrow> json \<Rightarrow> bool" where
  "named_path_reaches g fs caller server tool args \<longleftrightarrow>
     (\<exists>reply. fst (call_server_tool g fs reply caller server tool args) \<noteq> [])"

definition indexed_path_reaches :: "gate_env \<Rightarrow> gate_faults \<Rightarrow> Caller \<Rightarrow> string \<Rightarrow> string \<Rightarrow> json \<Rightarrow> bool" where
  "indexed_path_reaches g fs caller server tool args \<longleftrightarrow>
     hm_get (st_tool_index (ge_state g)) tool = Some server \<and>
     (\<exists>fk kernel_tool reply. filter is_call (fst (execute_tool_internal g fk fs kernel_tool reply caller tool args)) \<noteq> [])"

lemma call_granted_caller: "caller_granted g fs (Agent a) server tool args \<longleftrightarrow> call_granted g fs a server tool args"
  by (simp add: caller_granted_def)

interpretation named_path: gated_path named_path_reaches
proof
  fix g fs a server tool args
  assume "named_path_reaches g fs (Agent a) server tool args"
  then obtain client where "resolve_tool_call_target g fs (Agent a) server tool args = Ok client"
    by (cases "resolve_tool_call_target g fs (Agent a) server tool args")
      (auto simp: named_path_reaches_def call_server_tool_def)
  then have "enforce_caller_grant g (gf_grant fs) (gf_rules fs) (Agent a) server tool args = Ok ()"
    by (auto simp: resolve_tool_call_target_def and_then_unit_Ok_iff)
  then show "call_granted g fs a server tool args"
    by (simp add: enforce_caller_grant_Ok_iff call_granted_caller)
qed

interpretation indexed_path: gated_path indexed_path_reaches
proof
  fix g fs a server tool args
  assume *: "indexed_path_reaches g fs (Agent a) server tool args"
  then obtain fk where "\<exists>server' client. execution_permitted g fk fs (Agent a) tool args server' client"
    unfolding indexed_path_reaches_def using execute_calls_refused by blast
  with * show "call_granted g fs a server tool args"
    by (auto simp: indexed_path_reaches_def execution_permitted_def call_granted_caller)
qed

text \<open>C6. Revocation is complete: once an operator has replaced an agent's grants on a server by a
  deny, that agent reaches no tool of that server, by either path, with any arguments and at any
  later time, whatever the answers of servers and of the kernel's own tools.\<close>

theorem revoked_agent_reaches_nothing:
  assumes "sqlite_ok (ge_sqlite g)" and "has_server db server"
    and "ge_db g = fst (replace_agent_grants_on_server None stamp a server \<lparr>gs_server = Some Deny, gs_tools = []\<rparr> granter db)"
  shows "fst (call_server_tool g fs reply (Agent a) server tool args) = [] \<and>
    (hm_get (st_tool_index (ge_state g)) tool = Some server \<longrightarrow>
       filter is_call (fst (execute_tool_internal g fk fs kernel_tool reply (Agent a) tool args)) = [])"
  using named_path.revoked_never_reaches [OF assms, of fs tool args]
    indexed_path.revoked_never_reaches [OF assms, of fs tool args]
  unfolding named_path_reaches_def indexed_path_reaches_def by blast

theorem revoked_agent_reaches_nothing_witness:
  "fst (call_server_tool (example_env\<lparr>ge_db := fst (replace_agent_grants_on_server None ''t2'' ''ann'' ''files''
       \<lparr>gs_server = Some Deny, gs_tools = []\<rparr> ''op'' example_db)\<rparr>) no_faults
     (\<lambda>_ _ _. Err ''down'') (Agent ''ann'') ''files'' ''read'' JNull) = []"
proof -
  have "has_server example_db ''files''" by code_simp
  then show ?thesis
    using revoked_agent_reaches_nothing [of "example_env\<lparr>ge_db := fst (replace_agent_grants_on_server None ''t2'' ''ann'' ''files''
        \<lparr>gs_server = Some Deny, gs_tools = []\<rparr> ''op'' example_db)\<rparr>" example_db "''files''" "''t2''" "''ann''" "''op''"]
    by (simp add: sqlite_ok_insertion_order example_env_def)
qed

end
