(* ===== verification/Capabilities.thy ===== *)
theory Capabilities
  imports Rust_Str "HOL-Library.List_Lexorder"
begin

text \<open>
  \<open>capabilities.rs\<close>: what plugins may reach. The address guard of outbound requests, the client
  that pins a request to the addresses it checked, file access under one directory, and the
  allowlist of commands.

  The resolver, the URL parser, the file system and the processes are parameters: \<open>lookup\<close> gives
  the addresses of a host, \<open>parse\<close> the host and port of a URL, a \<open>file_system\<close> canonicalizes paths.
  Absolute paths are lists of components.
\<close>

section \<open>Addresses\<close>

datatype ip_addr =
    V4 u8 u8 u8 u8
  | V6 u16 u16 u16 u16 u16 u16 u16 u16

text \<open>The predicates of \<open>std::net\<close> the guard uses.\<close>

fun ip_is_loopback :: "ip_addr \<Rightarrow> bool" where
  "ip_is_loopback (V4 a b c d) = (a = 127)"
| "ip_is_loopback (V6 a b c d e f g h) = ([a, b, c, d, e, f, g, h] = [0, 0, 0, 0, 0, 0, 0, 1])"

definition v4_is_private :: "u8 \<Rightarrow> u8 \<Rightarrow> bool" where
  "v4_is_private a b = (a = 10 \<or> a = 172 \<and> 16 \<le> b \<and> b \<le> 31 \<or> a = 192 \<and> b = 168)"

definition v4_is_link_local :: "u8 \<Rightarrow> u8 \<Rightarrow> bool" where
  "v4_is_link_local a b = (a = 169 \<and> b = 254)"

definition v4_is_broadcast :: "u8 \<Rightarrow> u8 \<Rightarrow> u8 \<Rightarrow> u8 \<Rightarrow> bool" where
  "v4_is_broadcast a b c d = (a = 255 \<and> b = 255 \<and> c = 255 \<and> d = 255)"

definition v4_is_documentation :: "u8 \<Rightarrow> u8 \<Rightarrow> u8 \<Rightarrow> bool" where
  "v4_is_documentation a b c =
     (a = 192 \<and> b = 0 \<and> c = 2 \<or> a = 198 \<and> b = 51 \<and> c = 100 \<or> a = 203 \<and> b = 0 \<and> c = 113)"

definition v4_is_unspecified :: "u8 \<Rightarrow> u8 \<Rightarrow> u8 \<Rightarrow> u8 \<Rightarrow> bool" where
  "v4_is_unspecified a b c d = (a = 0 \<and> b = 0 \<and> c = 0 \<and> d = 0)"

definition v4_is_multicast :: "u8 \<Rightarrow> bool" where
  "v4_is_multicast a = (224 \<le> a \<and> a \<le> 239)"

unbundle bit_operations_syntax

definition is_special_purpose_v4 :: "u8 \<Rightarrow> u8 \<Rightarrow> u8 \<Rightarrow> bool" where
  "is_special_purpose_v4 a b c =
     (a = 0 \<or>
      a = 100 \<and> b AND 0xc0 = 64 \<or>
      a = 192 \<and> b = 0 \<and> c = 0 \<or>
      a = 198 \<and> b AND 0xfe = 18 \<or>
      a AND 0xf0 = 240)"

definition restricted_v4 :: "u8 \<Rightarrow> u8 \<Rightarrow> u8 \<Rightarrow> u8 \<Rightarrow> bool" where
  "restricted_v4 a b c d =
     (v4_is_private a b \<or> ip_is_loopback (V4 a b c d) \<or> v4_is_link_local a b \<or> v4_is_broadcast a b c d \<or>
      v4_is_documentation a b c \<or> v4_is_unspecified a b c d \<or> v4_is_multicast a \<or> is_special_purpose_v4 a b c)"

definition hi_octet :: "u16 \<Rightarrow> u8" where
  "hi_octet s = ucast (drop_bit 8 s)"

definition lo_octet :: "u16 \<Rightarrow> u8" where
  "lo_octet s = ucast s"

fun is_restricted_ip :: "ip_addr \<Rightarrow> bool" where
  "is_restricted_ip (V4 a b c d) = restricted_v4 a b c d"
| "is_restricted_ip (V6 s0 s1 s2 s3 s4 s5 s6 s7) =
     (if [s0, s1, s2, s3, s4, s5] = [0, 0, 0, 0, 0, 0xffff]
      then restricted_v4 (hi_octet s6) (lo_octet s6) (hi_octet s7) (lo_octet s7)
      else if [s0, s1, s2, s3, s4, s5] = [0x0064, 0xff9b, 0, 0, 0, 0]
      then restricted_v4 (hi_octet s6) (lo_octet s6) (hi_octet s7) (lo_octet s7)
      else ip_is_loopback (V6 s0 s1 s2 s3 s4 s5 s6 s7) \<or>
           [s0, s1, s2, s3, s4, s5, s6, s7] = [0, 0, 0, 0, 0, 0, 0, 0] \<or>
           s0 AND 0xfe00 = 0xfc00 \<or>
           s0 AND 0xffc0 = 0xfe80 \<or>
           s0 AND 0xff00 = 0xff00)"

section \<open>Outbound requests\<close>

type_synonym socket_addr = "ip_addr \<times> u16"

definition resolve_unrestricted_addrs ::
  "(string \<Rightarrow> u16 \<Rightarrow> string + socket_addr list) \<Rightarrow> string \<Rightarrow> u16 \<Rightarrow> string + socket_addr list" where
  "resolve_unrestricted_addrs lookup host port =
     and_then (lookup host port) (\<lambda>resolved.
       if resolved = [] then Err (''Failed to resolve host: '' @ host)
       else if list_ex (\<lambda>(ip, _). is_restricted_ip ip) resolved
       then Err (''Access to host '' @ quoted host @ '' is denied: restricted IP range detected.'')
       else Ok resolved)"

record safe_http_client =
  hc_allowed_hosts :: "string list"

definition hc_new :: "(string \<Rightarrow> string) \<Rightarrow> string list \<Rightarrow> safe_http_client" where
  "hc_new lower allowed_hosts = \<lparr>hc_allowed_hosts = remdups (map lower allowed_hosts)\<rparr>"

definition is_whitelisted_host :: "(string \<Rightarrow> string) \<Rightarrow> safe_http_client \<Rightarrow> string \<Rightarrow> bool" where
  "is_whitelisted_host lower client host = (lower host \<in> set (hc_allowed_hosts client))"

definition add_host :: "(string \<Rightarrow> string) \<Rightarrow> safe_http_client \<Rightarrow> string \<Rightarrow> safe_http_client \<times> bool" where
  "add_host lower client host =
     (let h = lower host
      in if h \<in> set (hc_allowed_hosts client) then (client, False)
         else (client\<lparr>hc_allowed_hosts := h # hc_allowed_hosts client\<rparr>, True))"

record http_request =
  hq_method :: string
  hq_url :: string
  hq_headers :: "(string \<times> string) list"
  hq_body :: "string option"

record http_response =
  rs_status :: u16
  rs_body :: string

text \<open>
  What leaves the kernel: one connection, to one of the pinned addresses, for the host; redirects
  are not followed. \<open>ht_url_parse\<close> gives the host and the port or known default port of a URL,
  \<open>ht_lookup\<close> the resolver, \<open>ht_method_parse\<close> the method check and \<open>ht_send\<close> the exchange.
\<close>

record outbound =
  ob_host :: string
  ob_pinned :: "socket_addr list"
  ob_follow_redirects :: bool
  ob_request :: http_request

record http_stack =
  ht_lower :: "string \<Rightarrow> string"
  ht_url_parse :: "string \<Rightarrow> string + (string option \<times> u16 option)"
  ht_lookup :: "string \<Rightarrow> u16 \<Rightarrow> string + socket_addr list"
  ht_method_parse :: "string \<Rightarrow> string + string"
  ht_send :: "outbound \<Rightarrow> string + http_response"

text \<open>The answer, and the connections that were opened for it.\<close>

definition send_http_request ::
  "http_stack \<Rightarrow> safe_http_client \<Rightarrow> http_request \<Rightarrow> (string + http_response) \<times> outbound list" where
  "send_http_request stack client request =
     (case ht_url_parse stack (hq_url request) of
        Inl e \<Rightarrow> (Err e, [])
      | Inr (None, _) \<Rightarrow> (Err ''Invalid URL: No host found'', [])
      | Inr (Some host, port) \<Rightarrow>
          if \<not> is_whitelisted_host (ht_lower stack) client host
          then (Err (''Access to host '' @ quoted host @ '' is denied by security policy (Not Whitelisted).''), [])
          else (case resolve_unrestricted_addrs (ht_lookup stack) host (unwrap_or port 80) of
              Inl e \<Rightarrow> (Err e, [])
            | Inr resolved \<Rightarrow>
                (case ht_method_parse stack (hq_method request) of
                   Inl e \<Rightarrow> (Err e, [])
                 | Inr m \<Rightarrow>
                     let ob = \<lparr>ob_host = host, ob_pinned = resolved, ob_follow_redirects = False,
                               ob_request = request\<lparr>hq_method := m\<rparr>\<rparr>
                     in (ht_send stack ob, [ob]))))"

section \<open>Files under one directory\<close>

type_synonym path = "string list"

record file_system =
  fs_canonicalize :: "path \<Rightarrow> string + path"
  fs_exists :: "path \<Rightarrow> bool"
  fs_read :: "path \<Rightarrow> string + u8 list"
  fs_write :: "path \<Rightarrow> u8 list \<Rightarrow> string + unit"

text \<open>A canonical path has no component that leads elsewhere.\<close>

definition plain_path :: "path \<Rightarrow> bool" where
  "plain_path p = list_all (\<lambda>c. c \<noteq> '''' \<and> c \<noteq> ''.'' \<and> c \<noteq> ''..'') p"

definition fs_ok :: "file_system \<Rightarrow> bool" where
  "fs_ok fs \<longleftrightarrow> (\<forall>p q. fs_canonicalize fs p = Ok q \<longrightarrow> plain_path q)"

definition components :: "string \<Rightarrow> path" where
  "components p = filter (\<lambda>c. c \<noteq> '''' \<and> c \<noteq> ''.'') (split_on (CHR ''/'') p)"

text \<open>\<open>PathBuf::join\<close>: an absolute path replaces the base.\<close>

definition path_join :: "path \<Rightarrow> string \<Rightarrow> path" where
  "path_join base p = (if starts_with p ''/'' then components p else base @ components p)"

definition file_name :: "path \<Rightarrow> string option" where
  "file_name p = (if p = [] \<or> last p = ''..'' then None else Some (last p))"

definition path_parent :: "path \<Rightarrow> path option" where
  "path_parent p = (if p = [] then None else Some (butlast p))"

definition path_starts_with :: "path \<Rightarrow> path \<Rightarrow> bool" where
  "path_starts_with p base = (take (length base) p = base)"

record sandboxed_files =
  sf_base_dir :: path
  sf_write_enabled :: bool

definition sf_resolve :: "file_system \<Rightarrow> sandboxed_files \<Rightarrow> string \<Rightarrow> string + path" where
  "sf_resolve fs cap p =
     and_then (case fs_canonicalize fs (sf_base_dir cap) of
         Inl e \<Rightarrow> Err (''Sandbox base dir inaccessible: '' @ e) | Inr b \<Rightarrow> Ok b) (\<lambda>base.
       let candidate = path_join base p
       in and_then
            (if fs_exists fs candidate then fs_canonicalize fs candidate
             else and_then (ok_or (path_parent candidate) ''Invalid path: no parent directory'') (\<lambda>parent.
                  and_then (case fs_canonicalize fs parent of
                      Inl _ \<Rightarrow> Err ''Parent directory does not exist'' | Inr q \<Rightarrow> Ok q) (\<lambda>dir.
                    and_then (ok_or (file_name candidate) ''Invalid file name'') (\<lambda>name. Ok (dir @ [name])))))
            (\<lambda>resolved.
              if \<not> path_starts_with resolved base
              then Err (''Security violation: path '' @ quoted p @ '' escapes sandbox directory'')
              else Ok resolved))"

definition em_dash :: string where
  "em_dash = [CHR 0xE2, CHR 0x80, CHR 0x94]"

definition sf_read :: "file_system \<Rightarrow> sandboxed_files \<Rightarrow> string \<Rightarrow> string + u8 list" where
  "sf_read fs cap p =
     and_then (sf_resolve fs cap p) (\<lambda>resolved.
       case fs_read fs resolved of Inl e \<Rightarrow> Err (''FileRead failed for '' @ quoted p @ '': '' @ e) | Inr d \<Rightarrow> Ok d)"

definition sf_write :: "file_system \<Rightarrow> sandboxed_files \<Rightarrow> string \<Rightarrow> u8 list \<Rightarrow> string + unit" where
  "sf_write fs cap p data =
     (if \<not> sf_write_enabled cap then Err (''FileWrite permission not granted '' @ em_dash @ '' operation denied'')
      else and_then (sf_resolve fs cap p) (\<lambda>resolved.
        case fs_write fs resolved data of
          Inl e \<Rightarrow> Err (''FileWrite failed for '' @ quoted p @ '': '' @ e) | Inr _ \<Rightarrow> Ok ()))"

section \<open>Commands\<close>

definition ap_execute ::
  "(string \<Rightarrow> string list \<Rightarrow> string + (string \<times> string \<times> int option)) \<Rightarrow> string list \<Rightarrow> string \<Rightarrow> string list
   \<Rightarrow> string + (string \<times> string \<times> int)" where
  "ap_execute spawn allowed_commands cmd args =
     (if CHR ''/'' \<in> set cmd \<or> CHR 0x5C \<in> set cmd
      then Err (''ProcessExecution denied: '' @ quoted cmd @ '' must be a bare command name, not a path'')
      else if allowed_commands = [] \<or> cmd \<notin> set allowed_commands
      then Err (''ProcessExecution denied: '' @ quoted cmd @ '' is not in the permitted command list'')
      else and_then (case spawn cmd args of
             Inl e \<Rightarrow> Err (''Failed to execute '' @ quoted cmd @ '': '' @ e) | Inr out \<Rightarrow> Ok out)
           (\<lambda>(stdout, stderr, code). Ok (stdout, stderr, unwrap_or code (- 1))))"

section \<open>Properties\<close>

text \<open>
  The blocks the guard refuses, from their first to their last address; addresses are compared
  octet by octet from the left, which is their order as numbers.
\<close>

definition restricted_blocks :: "(nat list \<times> nat list) list" where
  "restricted_blocks =
     [([0, 0, 0, 0], [0, 255, 255, 255]),
      ([10, 0, 0, 0], [10, 255, 255, 255]),
      ([100, 64, 0, 0], [100, 127, 255, 255]),
      ([127, 0, 0, 0], [127, 255, 255, 255]),
      ([169, 254, 0, 0], [169, 254, 255, 255]),
      ([172, 16, 0, 0], [172, 31, 255, 255]),
      ([192, 0, 0, 0], [192, 0, 0, 255]),
      ([192, 0, 2, 0], [192, 0, 2, 255]),
      ([192, 168, 0, 0], [192, 168, 255, 255]),
      ([198, 18, 0, 0], [198, 19, 255, 255]),
      ([198, 51, 100, 0], [198, 51, 100, 255]),
      ([203, 0, 113, 0], [203, 0, 113, 255]),
      ([224, 0, 0, 0], [239, 255, 255, 255]),
      ([240, 0, 0, 0], [255, 255, 255, 255])]"

definition octets :: "u8 \<Rightarrow> u8 \<Rightarrow> u8 \<Rightarrow> u8 \<Rightarrow> nat list" where
  "octets a b c d = [unat a, unat b, unat c, unat d]"

definition in_block :: "nat list \<Rightarrow> nat list \<times> nat list \<Rightarrow> bool" where
  "in_block addr blk = (fst blk \<le> addr \<and> addr \<le> snd blk)"

lemma u8_index: "n < LENGTH(8) \<Longrightarrow> n \<in> {0, 1, 2, 3, 4, 5, 6, 7}"
  by fastforce

lemma mask_shift: "b AND 0xc0 = push_bit 6 (drop_bit 6 b)" "b AND 0xfe = push_bit (Suc 0) (drop_bit (Suc 0) b)"
  "b AND 0xf0 = push_bit 4 (drop_bit 4 b)" for b :: u8
  by (rule bit_word_eqI, drule u8_index, auto simp: bit_simps eval_nat_numeral simp del: push_bit_Suc drop_bit_Suc)+

lemma unat_shift: "unat (push_bit k (drop_bit k b)) = unat b div 2 ^ k * 2 ^ k" for b :: u8
proof -
  have "unat b div 2 ^ k * 2 ^ k \<le> unat b" by simp
  moreover have "unat b < 2 ^ 8" using unsigned_less [where 'a = nat and w = b] by simp
  ultimately have "unat b div 2 ^ k * 2 ^ k < 2 ^ 8" by (rule le_less_trans)
  then have "take_bit 8 (push_bit k (drop_bit k (unat b))) = unat b div 2 ^ k * 2 ^ k"
    unfolding push_bit_eq_mult drop_bit_eq_div by (rule take_bit_nat_eq_self)
  then show ?thesis unfolding unsigned_push_bit_eq unsigned_drop_bit_eq using \<open>unat b < 2 ^ 8\<close>
    by (simp add: take_bit_nat_eq_self)
qed

lemma mask_c0: "b AND 0xc0 = 64 \<longleftrightarrow> 64 \<le> unat b \<and> unat b < 128" for b :: u8
proof -
  have "b AND 0xc0 = 64 \<longleftrightarrow> unat (b AND 0xc0) = 64" by (simp add: word_unat_eq_iff)
  also have "\<dots> \<longleftrightarrow> unat b div 64 = 1" unfolding mask_shift unat_shift by simp
  finally show ?thesis by auto
qed

lemma mask_fe: "b AND 0xfe = 18 \<longleftrightarrow> 18 \<le> unat b \<and> unat b < 20" for b :: u8
proof -
  have "b AND 0xfe = 18 \<longleftrightarrow> unat (b AND 0xfe) = 18" by (simp add: word_unat_eq_iff)
  also have "\<dots> \<longleftrightarrow> unat b div 2 = 9" unfolding mask_shift unat_shift by simp
  finally show ?thesis by auto
qed

lemma mask_f0: "b AND 0xf0 = 240 \<longleftrightarrow> 240 \<le> unat b" for b :: u8
proof -
  have "unat b < 2 ^ 8" using unsigned_less [where 'a = nat and w = b] by simp
  have "b AND 0xf0 = 240 \<longleftrightarrow> unat (b AND 0xf0) = 240" by (simp add: word_unat_eq_iff)
  also have "\<dots> \<longleftrightarrow> unat b div 16 = 15" unfolding mask_shift unat_shift by simp
  finally show ?thesis using \<open>unat b < 2 ^ 8\<close> by auto
qed

lemma u8_bound: "unat (b :: u8) \<le> 255"
proof -
  have "unat b < 2 ^ 8" using unsigned_less [where 'a = nat and w = b] by simp
  then show ?thesis by simp
qed

text \<open>Blocks whose prefix ends in the first, second or third octet.\<close>

lemma in_block_8: "in_block (octets a b c d) ([x, 0, 0, 0], [y, 255, 255, 255]) \<longleftrightarrow> x \<le> unat a \<and> unat a \<le> y"
  using u8_bound [of b] u8_bound [of c] u8_bound [of d] by (auto simp: in_block_def octets_def)

lemma in_block_16:
  "in_block (octets a b c d) ([x, y, 0, 0], [x, z, 255, 255]) \<longleftrightarrow> unat a = x \<and> y \<le> unat b \<and> unat b \<le> z"
  using u8_bound [of c] u8_bound [of d] by (auto simp: in_block_def octets_def)

lemma in_block_24:
  "in_block (octets a b c d) ([x, y, z, 0], [x, y, z, 255]) \<longleftrightarrow> unat a = x \<and> unat b = y \<and> unat c = z"
  using u8_bound [of d] by (auto simp: in_block_def octets_def)

lemma word_eq_num: "(a = numeral n) = (unat a = unat (numeral n :: u8))" "(a = 0) = (unat a = 0)" for a :: u8
  by (simp_all add: word_unat_eq_iff)

lemma special_purpose_iff:
  "is_special_purpose_v4 a b c \<longleftrightarrow> unat a = 0 \<or> unat a = 100 \<and> 64 \<le> unat b \<and> unat b \<le> 127 \<or>
     unat a = 192 \<and> unat b = 0 \<and> unat c = 0 \<or> unat a = 198 \<and> 18 \<le> unat b \<and> unat b \<le> 19 \<or> 240 \<le> unat a"
proof -
  have "n < 128 \<longleftrightarrow> n \<le> 127" and "n < 20 \<longleftrightarrow> n \<le> 19" for n :: nat by auto
  then show ?thesis
    by (simp only: is_special_purpose_v4_def mask_c0 mask_fe mask_f0) (simp add: word_eq_num)
qed

lemma list_ex_unfold: "list_ex P [] \<longleftrightarrow> False" "list_ex P (x # xs) \<longleftrightarrow> P x \<or> list_ex P xs"
  by simp_all

lemma nat_eq_iff: "x \<le> n \<and> n \<le> x \<longleftrightarrow> n = x" for x n :: nat
  by auto

lemma restricted_v4_iff: "restricted_v4 a b c d \<longleftrightarrow> list_ex (in_block (octets a b c d)) restricted_blocks"
proof -
  have "restricted_v4 a b c d \<longleftrightarrow>
      (unat a = 10 \<or> unat a = 172 \<and> 16 \<le> unat b \<and> unat b \<le> 31 \<or> unat a = 192 \<and> unat b = 168) \<or> unat a = 127 \<or>
      (unat a = 169 \<and> unat b = 254) \<or> (unat a = 255 \<and> unat b = 255 \<and> unat c = 255 \<and> unat d = 255) \<or>
      (unat a = 192 \<and> unat b = 0 \<and> unat c = 2 \<or> unat a = 198 \<and> unat b = 51 \<and> unat c = 100 \<or>
        unat a = 203 \<and> unat b = 0 \<and> unat c = 113) \<or>
      (unat a = 0 \<and> unat b = 0 \<and> unat c = 0 \<and> unat d = 0) \<or> (224 \<le> unat a \<and> unat a \<le> 239) \<or>
      is_special_purpose_v4 a b c"
    by (simp add: restricted_v4_def v4_is_private_def v4_is_link_local_def v4_is_broadcast_def v4_is_documentation_def
        v4_is_unspecified_def v4_is_multicast_def word_eq_num word_le_nat_alt)
  also have "\<dots> \<longleftrightarrow> list_ex (in_block (octets a b c d)) restricted_blocks"
  proof -
    have "unat a = 255 \<Longrightarrow> 240 \<le> unat a" by simp
    then show ?thesis
      using u8_bound [of a] u8_bound [of b] le0 [of "unat b"]
      unfolding special_purpose_iff restricted_blocks_def list_ex_unfold in_block_8 in_block_16 in_block_24 nat_eq_iff
      by argo
  qed
  finally show ?thesis .
qed

text \<open>The address guard, exactly: an IPv4 address is refused if and only if it lies in one of the
  fourteen listed blocks; an IPv4 address wrapped as IPv4-mapped or NAT64 IPv6 is refused if and
  only if the wrapped address is; the IPv6 loopback and unspecified addresses are refused.
\<close>

theorem ssrf_guard_exact:
  "(is_restricted_ip (V4 a b c d) \<longleftrightarrow> list_ex (in_block (octets a b c d)) restricted_blocks) \<and>
   (is_restricted_ip (V6 0 0 0 0 0 0xffff x y) \<longleftrightarrow>
      is_restricted_ip (V4 (hi_octet x) (lo_octet x) (hi_octet y) (lo_octet y))) \<and>
   (is_restricted_ip (V6 0x64 0xff9b 0 0 0 0 x y) \<longleftrightarrow>
      is_restricted_ip (V4 (hi_octet x) (lo_octet x) (hi_octet y) (lo_octet y))) \<and>
   is_restricted_ip (V6 0 0 0 0 0 0 0 1) \<and> is_restricted_ip (V6 0 0 0 0 0 0 0 0)"
  by (simp add: restricted_v4_iff)

lemma resolved_unrestricted:
  assumes "resolve_unrestricted_addrs lookup host port = Ok addrs"
  shows "addrs \<noteq> []" and "lookup host port = Ok addrs" and "list_all (\<lambda>(ip, _). \<not> is_restricted_ip ip) addrs"
  using assms
  by (auto simp: resolve_unrestricted_addrs_def list_ex_iff list_all_iff split: sum.splits if_splits)

lemma send_http_request_opens:
  assumes "ob \<in> set (snd (send_http_request stack client request))"
  shows "\<exists>port. ht_url_parse stack (hq_url request) = Ok (Some (ob_host ob), port) \<and>
    is_whitelisted_host (ht_lower stack) client (ob_host ob) \<and>
    resolve_unrestricted_addrs (ht_lookup stack) (ob_host ob) (unwrap_or port 80) = Ok (ob_pinned ob) \<and>
    \<not> ob_follow_redirects ob"
  using assms
  by (auto simp: send_http_request_def Let_def split: sum.splits option.splits prod.splits if_splits)

text \<open>C39. Every connection opened for a plugin's request goes to the host of its URL, which is on the
  allowlist up to letter case, and is pinned to the addresses one lookup of that host gave, none of
  them in a refused block; redirects are not followed. At most one connection is opened, and a
  refused request opens none.
\<close>

theorem outbound_request_pinned:
  assumes "send_http_request stack client request = (answer, opened)"
  shows "length opened \<le> 1 \<and>
    (\<forall>ob \<in> set opened.
      ht_lower stack (ob_host ob) \<in> set (hc_allowed_hosts client) \<and> ob_pinned ob \<noteq> [] \<and>
      (\<exists>port. ht_lookup stack (ob_host ob) port = Ok (ob_pinned ob)) \<and>
      list_all (\<lambda>(ip, _). \<not> is_restricted_ip ip) (ob_pinned ob) \<and> \<not> ob_follow_redirects ob)"
proof
  show "length opened \<le> 1"
    using assms by (auto simp: send_http_request_def Let_def split: sum.splits option.splits prod.splits if_splits)
  show "\<forall>ob \<in> set opened.
      ht_lower stack (ob_host ob) \<in> set (hc_allowed_hosts client) \<and> ob_pinned ob \<noteq> [] \<and>
      (\<exists>port. ht_lookup stack (ob_host ob) port = Ok (ob_pinned ob)) \<and>
      list_all (\<lambda>(ip, _). \<not> is_restricted_ip ip) (ob_pinned ob) \<and> \<not> ob_follow_redirects ob"
  proof
    fix ob assume "ob \<in> set opened"
    then have "ob \<in> set (snd (send_http_request stack client request))" using assms by simp
    then obtain port where
      host: "is_whitelisted_host (ht_lower stack) client (ob_host ob)" "\<not> ob_follow_redirects ob"
      and addrs: "resolve_unrestricted_addrs (ht_lookup stack) (ob_host ob) port = Ok (ob_pinned ob)"
      using send_http_request_opens by metis
    show "ht_lower stack (ob_host ob) \<in> set (hc_allowed_hosts client) \<and> ob_pinned ob \<noteq> [] \<and>
      (\<exists>port. ht_lookup stack (ob_host ob) port = Ok (ob_pinned ob)) \<and>
      list_all (\<lambda>(ip, _). \<not> is_restricted_ip ip) (ob_pinned ob) \<and> \<not> ob_follow_redirects ob"
      using host resolved_unrestricted [OF addrs] by (auto simp: is_whitelisted_host_def)
  qed
qed

definition example_stack :: http_stack where
  "example_stack =
     \<lparr>ht_lower = ascii_lower,
      ht_url_parse = (\<lambda>url. if url = ''https://API.example/v1'' then Ok (Some ''API.example'', Some 443)
        else if url = ''http://meta.example'' then Ok (Some ''meta.example'', Some 80) else Err ''relative URL without a base''),
      ht_lookup = (\<lambda>host port. if host = ''API.example'' then Ok [(V4 93 184 216 34, port)]
        else Ok [(V4 93 184 216 34, port), (V4 169 254 169 254, port)]),
      ht_method_parse = (\<lambda>m. Ok m),
      ht_send = (\<lambda>_. Ok \<lparr>rs_status = 200, rs_body = ''ok''\<rparr>)\<rparr>"

definition example_request :: "string \<Rightarrow> http_request" where
  "example_request url = \<lparr>hq_method = ''GET'', hq_url = url, hq_headers = [], hq_body = None\<rparr>"

definition example_client :: safe_http_client where
  "example_client = hc_new ascii_lower [''api.example'', ''Meta.example'']"

definition example_outbound :: outbound where
  "example_outbound = \<lparr>ob_host = ''API.example'', ob_pinned = [(V4 93 184 216 34, 443)], ob_follow_redirects = False,
     ob_request = example_request ''https://API.example/v1''\<rparr>"

lemma example_send:
  "send_http_request example_stack example_client (example_request ''https://API.example/v1'') =
     (Ok \<lparr>rs_status = 200, rs_body = ''ok''\<rparr>, [example_outbound])"
  by code_simp

theorem outbound_request_pinned_witness:
  "length [example_outbound] \<le> 1 \<and>
   ascii_lower (ob_host example_outbound) \<in> set (hc_allowed_hosts example_client) \<and>
   snd (send_http_request example_stack example_client (example_request ''http://meta.example'')) = []"
proof -
  have "ht_lower example_stack (ob_host example_outbound) \<in> set (hc_allowed_hosts example_client)"
    and "length [example_outbound] \<le> 1"
    using outbound_request_pinned [OF example_send] by auto
  moreover have "ht_lower example_stack = ascii_lower" by (simp add: example_stack_def)
  moreover have "snd (send_http_request example_stack example_client (example_request ''http://meta.example'')) = []"
    by code_simp
  ultimately show ?thesis by simp
qed

subsection \<open>Files and commands\<close>

lemma plain_path_append: "plain_path (p @ q) \<longleftrightarrow> plain_path p \<and> plain_path q"
  by (simp add: plain_path_def)

lemma plain_path_butlast: "plain_path p \<Longrightarrow> plain_path (butlast p)"
  by (simp add: plain_path_def list_all_iff in_set_butlastD)

lemma path_starts_withD: "path_starts_with p base \<Longrightarrow> \<exists>rest. p = base @ rest"
  by (metis append_take_drop_id path_starts_with_def)

lemma components_named: "c \<in> set (components p) \<Longrightarrow> c \<noteq> '''' \<and> c \<noteq> ''.''"
  by (simp add: components_def)

text \<open>The name a new file gets is a name, never the parent directory.\<close>

lemma joined_name_plain:
  assumes "plain_path base" and "file_name (path_join base p) = Some name"
  shows "plain_path [name]"
proof -
  have "name \<in> set (path_join base p)" and "name \<noteq> ''..''"
    using assms(2) by (auto simp: file_name_def split: if_splits)
  then show ?thesis
    using assms(1) components_named [of name p]
    by (auto simp: path_join_def plain_path_def list_all_iff split: if_splits)
qed

lemma sf_resolve_shape:
  assumes fs: "fs_ok fs" and ok: "sf_resolve fs cap p = Ok resolved"
  shows "\<exists>base rest. fs_canonicalize fs (sf_base_dir cap) = Ok base \<and> resolved = base @ rest \<and> plain_path resolved"
proof -
  obtain base where base: "fs_canonicalize fs (sf_base_dir cap) = Ok base"
    using ok by (auto simp: sf_resolve_def split: sum.splits)
  then have plain: "plain_path base" using fs by (auto simp: fs_ok_def)
  have inside: "path_starts_with resolved base"
    using ok base by (auto simp: sf_resolve_def Let_def split: sum.splits if_splits)
  have "plain_path resolved"
  proof (cases "fs_exists fs (path_join base p)")
    case True
    then have "fs_canonicalize fs (path_join base p) = Ok resolved"
      using ok base by (auto simp: sf_resolve_def Let_def split: sum.splits if_splits)
    then show ?thesis using fs by (auto simp: fs_ok_def)
  next
    case False
    then obtain dir name where "fs_canonicalize fs (butlast (path_join base p)) = Ok dir"
      and "file_name (path_join base p) = Some name" and "resolved = dir @ [name]"
      using ok base
      by (auto simp: sf_resolve_def Let_def path_parent_def ok_or_def split: sum.splits if_splits option.splits)
    then show ?thesis
      using fs joined_name_plain [OF plain] by (auto simp: fs_ok_def plain_path_append)
  qed
  then show ?thesis using base path_starts_withD [OF inside] by auto
qed


text \<open>A file system without links: parent components are resolved lexically.\<close>

fun lexical :: "path \<Rightarrow> path \<Rightarrow> path" where
  "lexical acc [] = acc"
| "lexical acc (c # cs) =
     (if c = ''..'' then lexical (butlast acc) cs
      else if c = '''' \<or> c = ''.'' then lexical acc cs else lexical (acc @ [c]) cs)"

definition example_fs :: file_system where
  "example_fs =
     \<lparr>fs_canonicalize = (\<lambda>p. Ok (lexical [] p)),
      fs_exists = (\<lambda>p. lexical [] p \<in> {[''data''], [''data'', ''notes.txt''], [''etc'', ''passwd'']}),
      fs_read = (\<lambda>p. if p = [''data'', ''notes.txt''] then Ok [104, 105] else Err ''not found''),
      fs_write = (\<lambda>p d. Ok ())\<rparr>"

lemma lexical_plain: "plain_path acc \<Longrightarrow> plain_path (lexical acc cs)"
  by (induction acc cs rule: lexical.induct) (simp_all add: plain_path_append plain_path_butlast plain_path_def [of "[_]"])

lemma example_fs_ok: "fs_ok example_fs"
  using lexical_plain [of "[]"] by (auto simp: fs_ok_def example_fs_def plain_path_def)

definition example_files :: sandboxed_files where
  "example_files = \<lparr>sf_base_dir = [''data''], sf_write_enabled = False\<rparr>"

lemma example_resolve: "sf_resolve example_fs example_files ''sub/../notes.txt'' = Ok [''data'', ''notes.txt'']"
  by code_simp


text \<open>Only a bare command name of the allowlist is ever spawned.\<close>

lemma ap_execute_allowlisted:
  assumes "ap_execute spawn allowed cmd args = Ok out"
  shows "cmd \<in> set allowed" and "CHR ''/'' \<notin> set cmd" and "is_ok (spawn cmd args)"
  using assms by (auto simp: ap_execute_def is_ok_def split: if_splits sum.splits)

end
