(* ===== verification/Access_Assertion.thy ===== *)
theory Access_Assertion
  imports Capabilities
begin

text \<open>
  \<open>managers/access_assertion.rs\<close>: sign-in behind a tunnel that signs who is calling. The
  configuration of the team, the published keys, the check of one signed assertion, and the
  verifier that caches the keys.

  Base64, the JSON of headers, claims and key sets and the RSA check are the parameter \<open>jwt_lib\<close>;
  the answers of the network and the clock readings are arguments. \<open>DateTime::timestamp\<close> is an
  \<open>i64\<close>, whose additions wrap.
\<close>

type_synonym i64 = "64 word"

definition seconds :: "int \<Rightarrow> duration" where
  "seconds s = s * 10 ^ 9"

definition JWKS_TTL :: duration where
  "JWKS_TTL = seconds 600"

definition JWKS_MIN_REFRESH_INTERVAL :: duration where
  "JWKS_MIN_REFRESH_INTERVAL = seconds 60"

definition CLOCK_LEEWAY_SECONDS :: i64 where
  "CLOCK_LEEWAY_SECONDS = 60"

definition MAX_ASSERTION_BYTES :: nat where
  "MAX_ASSERTION_BYTES = 8192"

datatype access_error =
    NotConfigured | NotFromEdge | Malformed string | UnsupportedAlgorithm | UnknownKey | BadSignature
  | Expired | NotYetValid | WrongIssuer | WrongAudience | NoIdentity | Jwks string

fun access_error_text :: "access_error \<Rightarrow> string" where
  "access_error_text NotConfigured = ''Access sign-in is not configured''"
| "access_error_text NotFromEdge = ''request did not arrive over the tunnel''"
| "access_error_text (Malformed why) = ''malformed assertion: '' @ why"
| "access_error_text UnsupportedAlgorithm = ''assertion is not RS256''"
| "access_error_text UnknownKey = ''assertion names a key we do not have''"
| "access_error_text BadSignature = ''signature did not verify''"
| "access_error_text Expired = ''assertion has expired''"
| "access_error_text NotYetValid = ''assertion is not valid yet''"
| "access_error_text WrongIssuer = ''assertion was issued by another team''"
| "access_error_text WrongAudience = ''assertion was minted for another application''"
| "access_error_text NoIdentity = ''assertion names no person''"
| "access_error_text (Jwks why) = ''key set unavailable: '' @ why"

section \<open>The team\<close>

record access_config =
  ac_team_domain :: string
  ac_audience :: string

definition trim_end_matches :: "char \<Rightarrow> string \<Rightarrow> string" where
  "trim_end_matches c s = rev (dropWhile (\<lambda>x. x = c) (rev s))"

definition structural :: "char \<Rightarrow> bool" where
  "structural c = (c \<in> {CHR ''/'', CHR '':'', CHR ''@'', CHR ''?'', CHR ''#''})"

definition access_config_new :: "string \<Rightarrow> string \<Rightarrow> access_config option" where
  "access_config_new team_domain aud =
     (let team = trim team_domain;
          team = unwrap_or (option_or (strip_prefix ''https://'' team) (strip_prefix ''http://'' team)) team;
          team = trim_end_matches (CHR ''/'') team;
          aud = trim aud
      in if team = [] \<or> aud = [] then None
         else if list_ex structural team \<or> has_ws team then None
         else if has_ws aud then None
         else Some \<lparr>ac_team_domain = team, ac_audience = aud\<rparr>)"

definition access_config_from_env :: "(string \<Rightarrow> string option) \<Rightarrow> access_config option" where
  "access_config_from_env env =
     Option.bind (env ''CLOTO_ACCESS_TEAM_DOMAIN'') (\<lambda>team.
       Option.bind (env ''CLOTO_ACCESS_AUD'') (\<lambda>aud. access_config_new team aud))"

definition issuer :: "access_config \<Rightarrow> string" where
  "issuer config = ''https://'' @ ac_team_domain config"

definition jwks_url :: "access_config \<Rightarrow> string" where
  "jwks_url config = ''https://'' @ ac_team_domain config @ ''/cdn-cgi/access/certs''"

section \<open>Keys, headers and claims\<close>

record jwt_key =
  jk_n :: string
  jk_e :: string

type_synonym key_set = "(string, jwt_key) hmap"

record verified_identity =
  vi_email :: string
  vi_subject :: string

definition session_label :: "verified_identity \<Rightarrow> string" where
  "session_label identity = ''access:'' @ vi_email identity"

datatype audience = One string | Many "string list"

fun audience_contains :: "audience \<Rightarrow> string \<Rightarrow> bool" where
  "audience_contains (One a) wanted = (a = wanted)"
| "audience_contains (Many all) wanted = list_ex (\<lambda>a. a = wanted) all"

record jws_header =
  jh_alg :: string
  jh_kid :: "string option"
  jh_crit :: "string list option"

record claims =
  cl_iss :: "string option"
  cl_aud :: "audience option"
  cl_exp :: "i64 option"
  cl_nbf :: "i64 option"
  cl_email :: "string option"
  cl_sub :: "string option"

record jwk =
  jwk_kid :: "string option"
  jwk_kty :: "string option"
  jwk_alg :: "string option"
  jwk_n :: "string option"
  jwk_e :: "string option"

text \<open>
  \<open>jl_base64\<close> decodes unpadded URL-safe base64, \<open>jl_header\<close>, \<open>jl_claims\<close> and \<open>jl_jwks\<close> are the
  derived deserializers, \<open>jl_rsa n e message signature\<close> is the RS256 check.
\<close>

record jwt_lib =
  jl_base64 :: "string \<Rightarrow> string option"
  jl_header :: "string \<Rightarrow> jws_header option"
  jl_claims :: "string \<Rightarrow> claims option"
  jl_jwks :: "string \<Rightarrow> string + jwk list"
  jl_rsa :: "string \<Rightarrow> string \<Rightarrow> string \<Rightarrow> string \<Rightarrow> bool"

definition b64url :: "jwt_lib \<Rightarrow> string \<Rightarrow> access_error + string" where
  "b64url lib segment = ok_or (jl_base64 lib segment) (Malformed ''a segment is not base64url'')"

text \<open>One entry of the key set: unusable ones are skipped, a later one replaces an earlier.\<close>

definition add_jwk :: "jwt_lib \<Rightarrow> key_set \<Rightarrow> jwk \<Rightarrow> key_set" where
  "add_jwk lib out k =
     (if jwk_kty k \<noteq> Some ''RSA'' then out
      else if jwk_alg k \<notin> {None, Some ''RS256''} then out
      else case (jwk_kid k, jwk_n k, jwk_e k) of
          (Some kid, Some n, Some e) \<Rightarrow>
            (case (b64url lib n, b64url lib e) of
               (Inr n, Inr e) \<Rightarrow>
                 if kid = [] \<or> n = [] \<or> e = [] then out else hm_insert kid \<lparr>jk_n = n, jk_e = e\<rparr> out
             | _ \<Rightarrow> out)
        | _ \<Rightarrow> out)"

definition parse_jwks :: "jwt_lib \<Rightarrow> string \<Rightarrow> access_error + key_set" where
  "parse_jwks lib raw =
     (case jl_jwks lib raw of
        Inl e \<Rightarrow> Err (Jwks (''not a key set: '' @ e))
      | Inr ks \<Rightarrow>
          let out = foldl (add_jwk lib) [] ks
          in if out = [] then Err (Jwks ''no usable RSA keys'') else Ok out)"

section \<open>One assertion\<close>

text \<open>The claims of a signed payload, checked in the order of the code.\<close>

definition check_claims :: "access_config \<Rightarrow> i64 \<Rightarrow> claims \<Rightarrow> access_error + verified_identity" where
  "check_claims config now cl =
     (if cl_iss cl \<noteq> Some (issuer config) then Err WrongIssuer
      else if \<not> (case cl_aud cl of Some aud \<Rightarrow> audience_contains aud (ac_audience config) | None \<Rightarrow> False)
      then Err WrongAudience
      else and_then (ok_or (cl_exp cl) Expired) (\<lambda>exp.
        if exp + CLOCK_LEEWAY_SECONDS <s now then Err Expired
        else if (case cl_nbf cl of Some nbf \<Rightarrow> now + CLOCK_LEEWAY_SECONDS <s nbf | None \<Rightarrow> False)
        then Err NotYetValid
        else and_then (ok_or (option_filter (\<lambda>e. trim e \<noteq> []) (cl_email cl)) NoIdentity) (\<lambda>email.
          Ok \<lparr>vi_email = email, vi_subject = unwrap_or (cl_sub cl) []\<rparr>)))"

text \<open>The signature of three segments under the key the header names.\<close>

definition check_signature ::
  "jwt_lib \<Rightarrow> key_set \<Rightarrow> string \<Rightarrow> string \<Rightarrow> string \<Rightarrow> string \<Rightarrow> access_error + unit" where
  "check_signature lib keys token header_b64 payload_b64 signature_b64 =
     and_then (b64url lib header_b64) (\<lambda>raw.
       and_then (ok_or (jl_header lib raw) (Malformed ''header is not a JWS header'')) (\<lambda>header.
         if jh_alg header \<noteq> ''RS256'' then Err UnsupportedAlgorithm
         else if jh_crit header \<noteq> None then Err (Malformed ''header demands unknown extensions'')
         else and_then (ok_or (option_filter (\<lambda>k. k \<noteq> []) (jh_kid header)) (Malformed ''header names no key'')) (\<lambda>kid.
           and_then (ok_or (hm_get keys kid) UnknownKey) (\<lambda>key.
             and_then (b64url lib signature_b64) (\<lambda>signature.
               let signing_input = take (length header_b64 + 1 + length payload_b64) token
               in ensure (jl_rsa lib (jk_n key) (jk_e key) signing_input signature) BadSignature)))))"

definition verify_assertion ::
  "jwt_lib \<Rightarrow> string \<Rightarrow> key_set \<Rightarrow> access_config \<Rightarrow> i64 \<Rightarrow> access_error + verified_identity" where
  "verify_assertion lib token keys config now =
     (if token = [] then Err (Malformed ''empty'')
      else if length token > MAX_ASSERTION_BYTES then Err (Malformed ''implausibly large'')
      else case split_on (CHR ''.'') token of
        [header_b64, payload_b64, signature_b64] \<Rightarrow>
          if header_b64 = [] \<or> payload_b64 = [] \<or> signature_b64 = [] then Err (Malformed ''a segment is empty'')
          else and_then (check_signature lib keys token header_b64 payload_b64 signature_b64) (\<lambda>_.
            and_then (b64url lib payload_b64) (\<lambda>raw.
              and_then (ok_or (jl_claims lib raw) (Malformed ''payload is not a claim set'')) (check_claims config now)))
      | _ \<Rightarrow> Err (Malformed ''a JWS has exactly three segments''))"

section \<open>The verifier\<close>

record cached_keys =
  ck_keys :: key_set
  ck_fetched_at :: instant

record access_verifier =
  av_config :: "access_config option"
  av_cache :: "cached_keys option"

definition av_new :: "access_config option \<Rightarrow> access_verifier" where
  "av_new config = \<lparr>av_config = config, av_cache = None\<rparr>"

definition is_enabled :: "access_verifier \<Rightarrow> bool" where
  "is_enabled v = (av_config v \<noteq> None)"

text \<open>What one \<open>GET\<close> of the key set gives: no answer, or a status with its text and the body.\<close>

datatype http_get = NoAnswer string | Answer u16 string "string + string"

definition fetch_jwks :: "jwt_lib \<Rightarrow> access_config \<Rightarrow> http_get \<Rightarrow> access_error + key_set" where
  "fetch_jwks lib config answer =
     (let url = jwks_url config
      in case answer of
           NoAnswer e \<Rightarrow> Err (Jwks (url @ '': '' @ e))
         | Answer status reason body \<Rightarrow>
             if \<not> (200 \<le> status \<and> status < 300) then Err (Jwks (url @ '': HTTP '' @ reason))
             else case body of Inl e \<Rightarrow> Err (Jwks (url @ '': '' @ e)) | Inr raw \<Rightarrow> parse_jwks lib raw)"

text \<open>
  \<open>t0\<close> is the reading the age is taken from, \<open>t1\<close> the one after the fetch. The last component of
  the result says whether a request was sent.
\<close>

definition av_keys ::
  "jwt_lib \<Rightarrow> access_verifier \<Rightarrow> access_config \<Rightarrow> bool \<Rightarrow> instant \<Rightarrow> http_get \<Rightarrow> instant
   \<Rightarrow> access_verifier \<times> (access_error + key_set) \<times> bool" where
  "av_keys lib v config force t0 answer t1 =
     (case (case av_cache v of
              Some cached \<Rightarrow>
                (let age = t0 - ck_fetched_at cached;
                     too_soon = force \<and> age < JWKS_MIN_REFRESH_INTERVAL
                 in if too_soon \<or> \<not> force \<and> age < JWKS_TTL then Some (ck_keys cached) else None)
            | None \<Rightarrow> None) of
        Some keys \<Rightarrow> (v, Ok keys, False)
      | None \<Rightarrow>
          (case fetch_jwks lib config answer of
             Inr keys \<Rightarrow> (v\<lparr>av_cache := Some \<lparr>ck_keys = keys, ck_fetched_at = t1\<rparr>\<rparr>, Ok keys, True)
           | Inl e \<Rightarrow>
               (case av_cache v of Some cached \<Rightarrow> (v, Ok (ck_keys cached), True) | None \<Rightarrow> (v, Err e, True))))"

text \<open>
  \<open>verify\<close> takes the keys at most twice; \<open>t\<close> and \<open>net\<close> number the clock readings and the answers
  of the network. The last component counts the requests sent.
\<close>

definition av_verify ::
  "jwt_lib \<Rightarrow> access_verifier \<Rightarrow> string \<Rightarrow> ip_addr \<Rightarrow> i64 \<Rightarrow> (nat \<Rightarrow> instant) \<Rightarrow> (nat \<Rightarrow> http_get)
   \<Rightarrow> access_verifier \<times> (access_error + verified_identity) \<times> nat" where
  "av_verify lib v token peer now t net =
     (case av_config v of
        None \<Rightarrow> (v, Err NotConfigured, 0)
      | Some config \<Rightarrow>
          if \<not> ip_is_loopback peer then (v, Err NotFromEdge, 0)
          else case av_keys lib v config False (t 0) (net 0) (t 1) of
            (v1, Inl e, f1) \<Rightarrow> (v1, Err e, of_bool f1)
          | (v1, Inr keys, f1) \<Rightarrow>
              if verify_assertion lib token keys config now = Err UnknownKey
              then (case av_keys lib v1 config True (t 2) (net 1) (t 3) of
                  (v2, Inl e, f2) \<Rightarrow> (v2, Err e, of_bool f1 + of_bool f2)
                | (v2, Inr keys', f2) \<Rightarrow>
                    (v2, verify_assertion lib token keys' config now, of_bool f1 + of_bool f2))
              else (v1, verify_assertion lib token keys config now, of_bool f1))"

section \<open>Properties\<close>

subsection \<open>What an accepted assertion proves\<close>

text \<open>
  The promise, over unbounded integers: the first two segments carry an RS256 signature of a
  published key, made over exactly the bytes that arrived, and their claims name this team, this
  application, the present and a person.
\<close>

definition signed_by :: "jwt_lib \<Rightarrow> key_set \<Rightarrow> string \<Rightarrow> string \<Rightarrow> string \<Rightarrow> bool" where
  "signed_by lib keys h p s \<longleftrightarrow>
     (\<exists>raw header kid key sig.
        jl_base64 lib h = Some raw \<and> jl_header lib raw = Some header \<and>
        jh_alg header = ''RS256'' \<and> jh_crit header = None \<and> jh_kid header = Some kid \<and> kid \<noteq> [] \<and>
        hm_get keys kid = Some key \<and> jl_base64 lib s = Some sig \<and>
        jl_rsa lib (jk_n key) (jk_e key) (h @ ''.'' @ p) sig)"

definition claims_hold :: "access_config \<Rightarrow> int \<Rightarrow> claims \<Rightarrow> verified_identity \<Rightarrow> bool" where
  "claims_hold config now cl identity \<longleftrightarrow>
     cl_iss cl = Some (issuer config) \<and>
     (\<exists>aud. cl_aud cl = Some aud \<and> audience_contains aud (ac_audience config)) \<and>
     (\<exists>exp. cl_exp cl = Some exp \<and> now \<le> sint exp + 60) \<and>
     (\<forall>nbf \<in> set_option (cl_nbf cl). sint nbf \<le> now + 60) \<and>
     cl_email cl = Some (vi_email identity) \<and> trim (vi_email identity) \<noteq> [] \<and>
     vi_subject identity = unwrap_or (cl_sub cl) []"

definition valid_assertion :: "jwt_lib \<Rightarrow> key_set \<Rightarrow> access_config \<Rightarrow> int \<Rightarrow> string \<Rightarrow> claims \<Rightarrow> verified_identity \<Rightarrow> bool" where
  "valid_assertion lib keys config now token cl identity \<longleftrightarrow>
     length token \<le> 8192 \<and>
     (\<exists>h p s raw. token = h @ ''.'' @ p @ ''.'' @ s \<and> h \<noteq> [] \<and> p \<noteq> [] \<and> s \<noteq> [] \<and>
        CHR ''.'' \<notin> set h \<union> set p \<union> set s \<and> signed_by lib keys h p s \<and>
        jl_base64 lib p = Some raw \<and> jl_claims lib raw = Some cl \<and> claims_hold config now cl identity)"

text \<open>Wrapped addition never exceeds the sum, and is the sum inside the range.\<close>

lemma sint_plus_le: "sint (a + 60 :: i64) \<le> sint a + 60"
proof -
  have "sint a \<ge> - (2 ^ 63)" using sint_range_size [of a] by (simp add: word_size)
  then show ?thesis by (simp add: signed_take_bit_int_less_eq_self_iff sint_word_ariths)
qed

lemma sint_plus_eq: "sint a + 60 < 2 ^ 63 \<Longrightarrow> sint (a + 60 :: i64) = sint a + 60"
proof -
  assume "sint a + 60 < 2 ^ 63"
  moreover have "sint a \<ge> - (2 ^ 63)" using sint_range_size [of a] by (simp add: word_size)
  ultimately show ?thesis by (simp add: sint_word_ariths signed_take_bit_int_eq_self_iff)
qed

lemma split_on_three:
  "split_on c s = [h, p, q] \<longleftrightarrow> s = h @ [c] @ p @ [c] @ q \<and> c \<notin> set h \<union> set p \<union> set q"
proof
  assume three: "split_on c s = [h, p, q]"
  then have "s = h @ [c] @ p @ [c] @ q" using join_split_on [of c s] by simp
  moreover have "c \<notin> set h \<union> set p \<union> set q" using three split_on_free [of _ c s] by auto
  ultimately show "s = h @ [c] @ p @ [c] @ q \<and> c \<notin> set h \<union> set p \<union> set q" by simp
next
  assume "s = h @ [c] @ p @ [c] @ q \<and> c \<notin> set h \<union> set p \<union> set q"
  then show "split_on c s = [h, p, q]" by (simp add: split_on_append split_on_no_sep)
qed

lemma check_signature_iff:
  "check_signature lib keys (h @ ''.'' @ p @ ''.'' @ s) h p s = Ok () \<longleftrightarrow> signed_by lib keys h p s"
proof -
  have [simp]: "take (length h + 1 + length p) (h @ ''.'' @ p @ ''.'' @ s) = h @ ''.'' @ p" by simp
  show ?thesis
  proof
    assume "check_signature lib keys (h @ ''.'' @ p @ ''.'' @ s) h p s = Ok ()"
    then show "signed_by lib keys h p s"
      by (fastforce simp: check_signature_def signed_by_def b64url_def Let_def split: if_splits)
  next
    assume "signed_by lib keys h p s"
    then show "check_signature lib keys (h @ ''.'' @ p @ ''.'' @ s) h p s = Ok ()"
      unfolding signed_by_def by (elim exE conjE) (simp add: check_signature_def b64url_def Let_def)
  qed
qed

lemma check_claims_sound: "check_claims config now cl = Ok identity \<Longrightarrow> claims_hold config (sint now) cl identity"
  using sint_plus_le [of now] sint_plus_le [of "the (cl_exp cl)"]
  by (auto simp: check_claims_def claims_hold_def CLOCK_LEEWAY_SECONDS_def word_sless_alt and_then_Ok_iff
      split: if_splits option.splits)

lemma check_claims_complete:
  assumes "claims_hold config (sint now) cl identity" and "\<forall>exp \<in> set_option (cl_exp cl). sint exp + 60 < 2 ^ 63"
    and "sint now + 60 < 2 ^ 63"
  shows "check_claims config now cl = Ok identity"
  using assms sint_plus_eq [of now] sint_plus_eq [of "the (cl_exp cl)"]
  by (cases identity)
     (auto simp: check_claims_def claims_hold_def CLOCK_LEEWAY_SECONDS_def word_sless_alt split: option.splits)

lemma verify_assertion_split:
  "verify_assertion lib token keys config now = Ok identity \<longleftrightarrow>
     length token \<le> 8192 \<and>
     (\<exists>h p s raw cl. token = h @ ''.'' @ p @ ''.'' @ s \<and> h \<noteq> [] \<and> p \<noteq> [] \<and> s \<noteq> [] \<and>
        CHR ''.'' \<notin> set h \<union> set p \<union> set s \<and> signed_by lib keys h p s \<and>
        jl_base64 lib p = Some raw \<and> jl_claims lib raw = Some cl \<and> check_claims config now cl = Ok identity)"
  (is "?l \<longleftrightarrow> ?r")
proof
  assume l: ?l
  then obtain h p s where three: "split_on (CHR ''.'') token = [h, p, s]"
    by (auto simp: verify_assertion_def split: if_splits list.splits)
  then have token: "token = h @ ''.'' @ p @ ''.'' @ s" and free: "CHR ''.'' \<notin> set h \<union> set p \<union> set s"
    by (auto simp only: split_on_three)
  have "length token \<le> 8192 \<and> h \<noteq> [] \<and> p \<noteq> [] \<and> s \<noteq> [] \<and> check_signature lib keys token h p s = Ok () \<and>
      (\<exists>raw cl. jl_base64 lib p = Some raw \<and> jl_claims lib raw = Some cl \<and> check_claims config now cl = Ok identity)"
    using l three by (auto simp: verify_assertion_def MAX_ASSERTION_BYTES_def b64url_def and_then_Ok_iff split: if_splits)
  moreover have "signed_by lib keys h p s" using calculation by (simp only: token check_signature_iff)
  ultimately show ?r using token free by blast
next
  assume ?r
  then obtain h p s raw cl where token: "token = h @ ''.'' @ p @ ''.'' @ s" and free: "CHR ''.'' \<notin> set h \<union> set p \<union> set s"
    and rest: "length token \<le> 8192" "h \<noteq> []" "p \<noteq> []" "s \<noteq> []" "signed_by lib keys h p s"
      "jl_base64 lib p = Some raw" "jl_claims lib raw = Some cl" "check_claims config now cl = Ok identity"
    by blast
  then have three: "split_on (CHR ''.'') token = [h, p, s]" by (simp only: split_on_three) simp
  have sig: "check_signature lib keys token h p s = Ok ()" using rest(5) by (simp only: token check_signature_iff)
  have "token \<noteq> []" using token by simp
  then show ?l using rest three sig by (simp add: verify_assertion_def MAX_ASSERTION_BYTES_def b64url_def)
qed

text \<open>C38. An assertion is accepted only when it is valid: at most 8192 bytes in three segments, signed
  with RS256 by a published key over the bytes that arrived, with claims that name this team as
  issuer, this application in the audience, an expiry at most a minute past, a start at most a
  minute ahead, and a person. The bounds hold over unbounded integers although the code adds in 64
  bits; conversely a valid assertion is accepted with that identity unless its expiry is within a
  minute of the largest 64-bit time, where the addition wraps and refuses it.
\<close>

theorem verify_assertion_exact:
  "(verify_assertion lib token keys config now = Ok identity \<longrightarrow>
      (\<exists>cl. valid_assertion lib keys config (sint now) token cl identity)) \<and>
   (valid_assertion lib keys config (sint now) token cl identity \<longrightarrow> sint now + 60 < 2 ^ 63 \<longrightarrow>
      (\<forall>exp \<in> set_option (cl_exp cl). sint exp + 60 < 2 ^ 63) \<longrightarrow>
      verify_assertion lib token keys config now = Ok identity)"
proof (intro conjI impI)
  assume "verify_assertion lib token keys config now = Ok identity"
  then show "\<exists>cl. valid_assertion lib keys config (sint now) token cl identity"
    unfolding verify_assertion_split valid_assertion_def using check_claims_sound by blast
next
  assume valid: "valid_assertion lib keys config (sint now) token cl identity" and "sint now + 60 < 2 ^ 63"
    and "\<forall>exp \<in> set_option (cl_exp cl). sint exp + 60 < 2 ^ 63"
  then have "check_claims config now cl = Ok identity"
    using check_claims_complete [of config now cl identity] by (auto simp only: valid_assertion_def)
  then show "verify_assertion lib token keys config now = Ok identity"
    using valid unfolding verify_assertion_split valid_assertion_def by blast
qed

text \<open>
  A stand-in for the libraries: segments decode to themselves, one header, one payload, and a
  signature that holds for one key and one message.
\<close>

definition example_config :: access_config where
  "example_config = \<lparr>ac_team_domain = ''team.example'', ac_audience = ''app''\<rparr>"

definition example_claims :: claims where
  "example_claims = \<lparr>cl_iss = Some ''https://team.example'', cl_aud = Some (Many [''other'', ''app'']), cl_exp = Some 1000,
     cl_nbf = Some 400, cl_email = Some ''op@team.example'', cl_sub = None\<rparr>"

definition example_lib :: jwt_lib where
  "example_lib =
     \<lparr>jl_base64 = (\<lambda>s. Some s),
      jl_header = (\<lambda>raw. if raw = ''h'' then Some \<lparr>jh_alg = ''RS256'', jh_kid = Some ''k1'', jh_crit = None\<rparr>
        else if raw = ''none'' then Some \<lparr>jh_alg = ''none'', jh_kid = Some ''k1'', jh_crit = None\<rparr> else None),
      jl_claims = (\<lambda>raw. if raw = ''p'' then Some example_claims else None),
      jl_jwks = (\<lambda>raw. if raw = ''keys'' then Ok [\<lparr>jwk_kid = Some ''k1'', jwk_kty = Some ''RSA'', jwk_alg = None,
        jwk_n = Some ''n'', jwk_e = Some ''e''\<rparr>] else Err ''expected value''),
      jl_rsa = (\<lambda>n e m s. n = ''n'' \<and> e = ''e'' \<and> m = ''h.p'' \<and> s = ''s'')\<rparr>"

definition example_keys :: key_set where
  "example_keys = [(''k1'', \<lparr>jk_n = ''n'', jk_e = ''e''\<rparr>)]"

definition example_identity :: verified_identity where
  "example_identity = \<lparr>vi_email = ''op@team.example'', vi_subject = []\<rparr>"

lemma example_verified: "verify_assertion example_lib ''h.p.s'' example_keys example_config 900 = Ok example_identity"
  by code_simp

lemma example_signed: "signed_by example_lib example_keys ''h'' ''p'' ''s''"
proof -
  have "check_signature example_lib example_keys ''h.p.s'' ''h'' ''p'' ''s'' = Ok ()" by code_simp
  then show ?thesis using check_signature_iff [of example_lib example_keys "''h''" "''p''" "''s''"] by simp
qed

lemma example_claims_hold: "claims_hold example_config 900 example_claims example_identity"
proof -
  have "check_claims example_config 900 example_claims = Ok example_identity" by code_simp
  from check_claims_sound [OF this] show ?thesis by simp
qed

lemma example_valid: "valid_assertion example_lib example_keys example_config 900 ''h.p.s'' example_claims example_identity"
proof -
  have "jl_base64 example_lib ''p'' = Some ''p''" and "jl_claims example_lib ''p'' = Some example_claims"
    by (simp_all add: example_lib_def)
  moreover have "''h.p.s'' = ''h'' @ ''.'' @ ''p'' @ ''.'' @ ''s''" by simp
  moreover have "CHR ''.'' \<notin> set ''h'' \<union> set ''p'' \<union> set ''s''" and "length ''h.p.s'' \<le> 8192" by simp_all
  ultimately show ?thesis
    unfolding valid_assertion_def using example_signed example_claims_hold by blast
qed

theorem verify_assertion_exact_witness:
  "(\<exists>cl. valid_assertion example_lib example_keys example_config 900 ''h.p.s'' cl example_identity) \<and>
   verify_assertion example_lib ''h.p.s'' example_keys example_config 900 = Ok example_identity \<and>
   verify_assertion example_lib ''none.p.s'' example_keys example_config 900 = Err UnsupportedAlgorithm \<and>
   verify_assertion example_lib ''h.p.t'' example_keys example_config 900 = Err BadSignature \<and>
   verify_assertion example_lib ''h.p.s'' example_keys example_config 1061 = Err Expired \<and>
   verify_assertion example_lib ''h.p.s'' example_keys example_config 339 = Err NotYetValid"
proof -
  have now: "sint (900 :: i64) = 900" by simp
  have in_range: "\<forall>exp \<in> set_option (cl_exp example_claims). sint exp + 60 < 2 ^ 63" by (simp add: example_claims_def)
  have "\<exists>cl. valid_assertion example_lib example_keys example_config (sint (900 :: i64)) ''h.p.s'' cl example_identity"
    using verify_assertion_exact example_verified by blast
  moreover have "verify_assertion example_lib ''h.p.s'' example_keys example_config 900 = Ok example_identity"
    using verify_assertion_exact [of example_lib "''h.p.s''" example_keys example_config 900 example_identity example_claims]
      example_valid in_range by (simp only: now) simp
  moreover have "verify_assertion example_lib ''none.p.s'' example_keys example_config 900 = Err UnsupportedAlgorithm"
    and "verify_assertion example_lib ''h.p.t'' example_keys example_config 900 = Err BadSignature"
    and "verify_assertion example_lib ''h.p.s'' example_keys example_config 1061 = Err Expired"
    and "verify_assertion example_lib ''h.p.s'' example_keys example_config 339 = Err NotYetValid"
    by code_simp+
  ultimately show ?thesis by (simp only: now)
qed

subsection \<open>Where the keys come from\<close>

lemma trim_end_matches_id: "c \<notin> set s \<Longrightarrow> trim_end_matches c s = s"
proof -
  assume "c \<notin> set s"
  then have "dropWhile (\<lambda>x. x = c) (rev s) = rev s" by (cases "rev s") (auto simp: set_rev [of s, symmetric] simp del: set_rev)
  then show ?thesis by (simp add: trim_end_matches_def)
qed

text \<open>Whatever the operator writes, the configured team is a bare host: the keys are fetched from
  that host and no other, the part of the address after it is fixed, and the issuer demanded of
  assertions names the same host. The normal form is stable: reading the issuer back as the team
  gives the same configuration.
\<close>

theorem access_config_pins_host:
  assumes "access_config_new team_domain aud = Some config"
  shows "split_once (CHR ''/'') (drop 8 (jwks_url config)) = Some (ac_team_domain config, ''cdn-cgi/access/certs'') \<and>
    issuer config = take 8 (jwks_url config) @ ac_team_domain config \<and>
    (ac_team_domain config \<noteq> [] \<and> \<not> has_ws (ac_team_domain config) \<and> \<not> list_ex structural (ac_team_domain config)) \<and>
    access_config_new (issuer config) (ac_audience config) = Some config"
proof -
  have host: "ac_team_domain config \<noteq> []" "\<not> has_ws (ac_team_domain config)" "\<not> list_ex structural (ac_team_domain config)"
    and aud: "ac_audience config \<noteq> []" "\<not> has_ws (ac_audience config)"
    using assms by (auto simp: access_config_new_def Let_def split: if_splits)
  then have slash: "CHR ''/'' \<notin> set (ac_team_domain config)" by (auto simp: list_ex_iff structural_def)
  then have "split_once (CHR ''/'') (drop 8 (jwks_url config)) = Some (ac_team_domain config, ''cdn-cgi/access/certs'')"
    using split_once_append [of "CHR ''/''" "ac_team_domain config" "''cdn-cgi/access/certs''"] by (simp add: jwks_url_def)
  moreover have "issuer config = take 8 (jwks_url config) @ ac_team_domain config" by (simp add: issuer_def jwks_url_def)
  moreover have "access_config_new (issuer config) (ac_audience config) = Some config"
  proof -
  have "trim (issuer config) = issuer config"
    unfolding issuer_def by (rule trim_no_ws, rule has_ws_graphic_append) (use host(2) in \<open>auto simp: graphic_def\<close>)
  moreover have "strip_prefix ''https://'' (issuer config) = Some (ac_team_domain config)"
    unfolding strip_prefix_Some_iff by (simp add: issuer_def)
  ultimately show ?thesis
    using host aud trim_no_ws [OF aud(2)] trim_end_matches_id [OF slash] by (simp add: access_config_new_def)
  qed
  ultimately show ?thesis using host by blast
qed

theorem access_config_pins_host_witness:
  "split_once (CHR ''/'') (drop 8 (jwks_url example_config)) = Some (''team.example'', ''cdn-cgi/access/certs'') \<and>
   access_config_new (issuer example_config) ''app'' = Some example_config \<and>
   access_config_new ''team.example/../evil.example'' ''app'' = None \<and>
   access_config_new ''user@evil.example'' ''app'' = None"
proof -
  have ok: "access_config_new '' https://team.example// '' ''app'' = Some example_config" by code_simp
  have "access_config_new ''team.example/../evil.example'' ''app'' = None"
    and "access_config_new ''user@evil.example'' ''app'' = None" by code_simp+
  moreover have "ac_team_domain example_config = ''team.example''" and "ac_audience example_config = ''app''"
    by (simp_all add: example_config_def)
  ultimately show ?thesis using access_config_pins_host [OF ok] by metis
qed

subsection \<open>The verifier\<close>

lemma av_keys_result:
  assumes "av_keys lib v config force t0 answer t1 = (v', Ok keys, sent)"
  shows "(\<exists>cached. av_cache v = Some cached \<and> ck_keys cached = keys) \<or> fetch_jwks lib config answer = Ok keys"
    and "av_config v' = av_config v"
    and "(\<exists>cached. av_cache v' = Some cached \<and> ck_keys cached = keys)"
  using assms by (auto simp: av_keys_def Let_def split: option.splits sum.splits if_splits)

lemma av_keys_config: "av_keys lib v config force t0 answer t1 = (v', r, sent) \<Longrightarrow> av_config v' = av_config v"
  by (auto simp: av_keys_def Let_def split: option.splits sum.splits if_splits)

definition key_source :: "jwt_lib \<Rightarrow> access_verifier \<Rightarrow> access_config \<Rightarrow> (nat \<Rightarrow> http_get) \<Rightarrow> key_set \<Rightarrow> bool" where
  "key_source lib v config net keys \<longleftrightarrow>
     (\<exists>cached. av_cache v = Some cached \<and> ck_keys cached = keys) \<or> (\<exists>i. fetch_jwks lib config (net i) = Ok keys)"

lemma av_verify_accepts:
  assumes "av_verify lib v token peer now t net = (v', Ok identity, n)"
  shows "\<exists>config keys. av_config v = Some config \<and> ip_is_loopback peer \<and> key_source lib v config net keys \<and>
    verify_assertion lib token keys config now = Ok identity"
proof -
  obtain config where config: "av_config v = Some config" and peer: "ip_is_loopback peer"
    using assms by (auto simp: av_verify_def split: option.splits if_splits)
  obtain v1 keys f1 where first: "av_keys lib v config False (t 0) (net 0) (t 1) = (v1, Ok keys, f1)"
    using assms config peer by (auto simp: av_verify_def split: prod.splits sum.splits)
  have src: "key_source lib v config net keys" using av_keys_result(1) [OF first] by (auto simp: key_source_def)
  show ?thesis
  proof (cases "verify_assertion lib token keys config now = Err UnknownKey")
    case False
    then show ?thesis using assms config peer first src by (auto simp: av_verify_def)
  next
    case True
    then obtain v2 keys' f2 where second: "av_keys lib v1 config True (t 2) (net 1) (t 3) = (v2, Ok keys', f2)"
      and ok: "verify_assertion lib token keys' config now = Ok identity"
      using assms config peer first by (auto simp: av_verify_def split: prod.splits sum.splits)
    have "key_source lib v config net keys'"
      using av_keys_result(1) [OF second] av_keys_result(3) [OF first] src by (auto simp: key_source_def)
    then show ?thesis using config peer ok by blast
  qed
qed

text \<open>The verifier names a caller only over the tunnel: the deployment is configured, the peer is a
  loopback address, and the assertion is valid for that configuration under keys that were cached
  or that a fetch from the configured address just gave. Without a configuration and for any other
  peer the answer is a refusal that sends no request.
\<close>

theorem access_verifier_sound:
  "(av_verify lib v token peer now t net = (v', Ok identity, n) \<longrightarrow>
      (\<exists>config keys cl. av_config v = Some config \<and> ip_is_loopback peer \<and> key_source lib v config net keys \<and>
        valid_assertion lib keys config (sint now) token cl identity)) \<and>
   (av_config v = None \<longrightarrow> av_verify lib v token peer now t net = (v, Err NotConfigured, 0)) \<and>
   (av_config v \<noteq> None \<and> \<not> ip_is_loopback peer \<longrightarrow>
      av_verify lib v token peer now t net = (v, Err NotFromEdge, 0))"
proof (intro conjI impI)
  assume "av_verify lib v token peer now t net = (v', Ok identity, n)"
  from av_verify_accepts [OF this] obtain config keys where
    "av_config v = Some config" "ip_is_loopback peer" "key_source lib v config net keys"
    and ok: "verify_assertion lib token keys config now = Ok identity"
    by blast
  moreover have "\<exists>cl. valid_assertion lib keys config (sint now) token cl identity"
    using ok unfolding verify_assertion_split valid_assertion_def using check_claims_sound by blast
  ultimately show "\<exists>config keys cl. av_config v = Some config \<and> ip_is_loopback peer \<and> key_source lib v config net keys \<and>
      valid_assertion lib keys config (sint now) token cl identity"
    by blast
qed (auto simp: av_verify_def)

definition example_verifier :: access_verifier where
  "example_verifier = av_new (Some example_config)"

lemma example_av_verify:
  "av_verify example_lib example_verifier ''h.p.s'' (V4 127 0 0 1) 900 (\<lambda>_. 0) (\<lambda>_. Answer 200 ''200 OK'' (Ok ''keys'')) =
     (example_verifier\<lparr>av_cache := Some \<lparr>ck_keys = example_keys, ck_fetched_at = 0\<rparr>\<rparr>, Ok example_identity, 1)"
  by code_simp

theorem access_verifier_sound_witness:
  "(\<exists>config keys cl. av_config example_verifier = Some config \<and> ip_is_loopback (V4 127 0 0 1) \<and>
      key_source example_lib example_verifier config (\<lambda>_. Answer 200 ''200 OK'' (Ok ''keys'')) keys \<and>
      valid_assertion example_lib keys config 900 ''h.p.s'' cl example_identity) \<and>
   av_verify example_lib (av_new None) ''h.p.s'' (V4 127 0 0 1) 900 (\<lambda>_. 0) (\<lambda>_. NoAnswer ''down'') =
     (av_new None, Err NotConfigured, 0) \<and>
   av_verify example_lib example_verifier ''h.p.s'' (V4 10 0 0 1) 900 (\<lambda>_. 0) (\<lambda>_. NoAnswer ''down'') =
     (example_verifier, Err NotFromEdge, 0)"
proof -
  have now: "sint (900 :: i64) = 900" by simp
  have "av_config (av_new None) = None" and "av_config example_verifier \<noteq> None" and "\<not> ip_is_loopback (V4 10 0 0 1)"
    by code_simp+
  then show ?thesis
    using access_verifier_sound example_av_verify by (simp only: now [symmetric]) blast
qed

text \<open>A history of calls that need keys, and the requests it sends, from reading to reading.\<close>

record key_call =
  kc_force :: bool
  kc_t0 :: instant
  kc_answer :: http_get
  kc_t1 :: instant

fun key_requests :: "jwt_lib \<Rightarrow> access_config \<Rightarrow> access_verifier \<Rightarrow> key_call list \<Rightarrow> (instant \<times> instant) list" where
  "key_requests lib config v [] = []"
| "key_requests lib config v (k # ks) =
     (case av_keys lib v config (kc_force k) (kc_t0 k) (kc_answer k) (kc_t1 k) of
        (v', _, sent) \<Rightarrow> (if sent then [(kc_t0 k, kc_t1 k)] else []) @ key_requests lib config v' ks)"

lemma av_keys_sent:
  assumes "av_keys lib v config force t0 answer t1 = (v', r, sent)"
  shows "sent \<Longrightarrow> av_cache v = Some cached \<Longrightarrow> ck_fetched_at cached + JWKS_MIN_REFRESH_INTERVAL \<le> t0"
    and "\<not> sent \<Longrightarrow> v' = v"
    and "sent \<Longrightarrow> is_ok (fetch_jwks lib config answer) \<Longrightarrow> \<exists>c. av_cache v' = Some c \<and> ck_fetched_at c = t1"
  using assms
  by (auto simp: av_keys_def Let_def is_ok_iff JWKS_TTL_def JWKS_MIN_REFRESH_INTERVAL_def seconds_def
      split: option.splits sum.splits if_splits)

lemma key_requests_spaced:
  assumes "\<forall>k \<in> set ks. kc_t0 k \<le> kc_t1 k \<and> is_ok (fetch_jwks lib config (kc_answer k))"
  shows "(\<forall>c. av_cache v = Some c \<longrightarrow>
            (\<forall>(a, _) \<in> set (key_requests lib config v ks). ck_fetched_at c + JWKS_MIN_REFRESH_INTERVAL \<le> a)) \<and>
         sorted_wrt (\<lambda>(_, b) (a, _). b + JWKS_MIN_REFRESH_INTERVAL \<le> a) (key_requests lib config v ks)"
  using assms
proof (induction ks arbitrary: v)
  case (Cons k ks)
  obtain v' r sent where step: "av_keys lib v config (kc_force k) (kc_t0 k) (kc_answer k) (kc_t1 k) = (v', r, sent)"
    using prod_cases3 by blast
  note IH = Cons.IH [of v']
  show ?case
  proof (cases sent)
    case False
    then show ?thesis using IH Cons.prems step av_keys_sent(2) [OF step] by simp
  next
    case True
    then obtain c' where c': "av_cache v' = Some c'" "ck_fetched_at c' = kc_t1 k"
      using av_keys_sent(3) [OF step] Cons.prems by auto
    have later: "kc_t1 k + JWKS_MIN_REFRESH_INTERVAL \<le> a" if "(a, b) \<in> set (key_requests lib config v' ks)" for a b
      using IH Cons.prems c' that by fastforce
    have head: "ck_fetched_at c + JWKS_MIN_REFRESH_INTERVAL \<le> kc_t0 k" if "av_cache v = Some c" for c
      using av_keys_sent(1) [OF step True that] .
    have "ck_fetched_at c + JWKS_MIN_REFRESH_INTERVAL \<le> a"
      if "av_cache v = Some c" and "(a, b) \<in> set (key_requests lib config v' ks)" for c a b
      using head [OF that(1)] later [OF that(2)] Cons.prems by (simp add: JWKS_MIN_REFRESH_INTERVAL_def seconds_def)
    then show ?thesis using IH Cons.prems True step head later by auto
  qed
qed simp

text \<open>While the key address answers, requests for keys are at least sixty seconds apart, from the
  end of one to the start of the next, whatever key identifiers callers name and however often
  they ask.
\<close>

theorem key_fetches_spaced:
  assumes "\<forall>k \<in> set ks. kc_t0 k \<le> kc_t1 k \<and> is_ok (fetch_jwks lib config (kc_answer k))"
  shows "sorted_wrt (\<lambda>(_, end_of_one) (start_of_next, _). end_of_one + seconds 60 \<le> start_of_next)
    (key_requests lib config v ks)"
  using key_requests_spaced [OF assms] by (simp add: JWKS_MIN_REFRESH_INTERVAL_def)

definition example_calls :: "http_get \<Rightarrow> key_call list" where
  "example_calls answer =
     map (\<lambda>s. \<lparr>kc_force = True, kc_t0 = seconds s, kc_answer = answer, kc_t1 = seconds s + 5\<rparr>) [0, 10, 59, 61, 62]"

theorem key_fetches_spaced_witness:
  "sorted_wrt (\<lambda>(_, end_of_one) (start_of_next, _). end_of_one + seconds 60 \<le> start_of_next)
     (key_requests example_lib example_config example_verifier (example_calls (Answer 200 ''200 OK'' (Ok ''keys'')))) \<and>
   key_requests example_lib example_config example_verifier (example_calls (Answer 200 ''200 OK'' (Ok ''keys''))) =
     [(0, 5), (seconds 61, seconds 61 + 5)]"
proof -
  have "\<forall>k \<in> set (example_calls (Answer 200 ''200 OK'' (Ok ''keys''))).
      kc_t0 k \<le> kc_t1 k \<and> is_ok (fetch_jwks example_lib example_config (kc_answer k))"
    by code_simp
  from key_fetches_spaced [OF this] show ?thesis by (rule conjI) code_simp
qed

text \<open>
  When the address does not answer, nothing is remembered of the attempt: every call sends a
  request, at any distance from the one before.
\<close>

theorem key_fetches_not_spaced_on_failure:
  "key_requests example_lib example_config example_verifier (example_calls (NoAnswer ''down'')) =
     map (\<lambda>s. (seconds s, seconds s + 5)) [0, 10, 59, 61, 62]"
  by code_simp

end
