(* ===== verification/Auth.thy ===== *)
theory Auth
  imports Token_Store Capability_Gate Access_Assertion
begin

text \<open>
  Who may call the API: the layer every \<open>/api\<close> request passes (\<open>middleware.rs\<close>), the key check
  of the handlers and the caller of a tool call (\<open>handlers.rs\<close>), signing a browser in and out
  (\<open>handlers/auth.rs\<close>), revoking and rotating the key (\<open>handlers.rs\<close>, \<open>lib.rs\<close>,
  \<open>db/api_keys.rs\<close>), and the rate limiter of addresses.

  Headers are a list of names and values in arrival order; names compare without case. The
  conversions of header values (crate \<open>http\<close>) are the parameter \<open>http_lib\<close>, SHA-256 is \<open>sha\<close>,
  the parsed query string is part of the request. A lock that cannot be read is \<open>None\<close> in place
  of what it guards. Whether the binary is a debug build is a field of the state.
\<close>

section \<open>Requests\<close>

type_synonym headers = "(string \<times> string) list"

definition header_get :: "headers \<Rightarrow> string \<Rightarrow> string option" where
  "header_get hs n = map_option snd (find (\<lambda>(k, _). eq_ignore_ascii_case k n) hs)"

definition header_contains_key :: "headers \<Rightarrow> string \<Rightarrow> bool" where
  "header_contains_key hs n = list_ex (\<lambda>(k, _). eq_ignore_ascii_case k n) hs"

text \<open>\<open>HeaderMap::insert\<close> replaces every value of the name.\<close>

definition header_insert :: "string \<Rightarrow> string \<Rightarrow> headers \<Rightarrow> headers" where
  "header_insert n v hs = filter (\<lambda>(k, _). \<not> eq_ignore_ascii_case k n) hs @ [(n, v)]"

record http_lib =
  hv_to_str :: "string \<Rightarrow> string option"
  hv_from_str :: "string \<Rightarrow> string option"

text \<open>A header value is given back, or made, as the text it is, or not at all.\<close>

definition http_ok :: "http_lib \<Rightarrow> bool" where
  "http_ok hl \<longleftrightarrow> (\<forall>v s. hv_to_str hl v = Some s \<longrightarrow> s = v) \<and> (\<forall>s v. hv_from_str hl s = Some v \<longrightarrow> v = s)"

record request =
  rq_path :: string
  rq_headers :: headers
  rq_query :: "(string, string) hmap"

record auth_state =
  as_admin_key :: "string option option"
  as_revoked :: "string list option"
  as_sessions :: session_store
  as_tokens :: agent_token_store
  as_debug_build :: bool
  as_skip_auth_env :: "string option"
  as_verifier :: access_verifier

datatype app_error = PermissionDeniedAdmin | Validation string | Internal string

definition ADMIN_API_KEY_HEADER :: string where
  "ADMIN_API_KEY_HEADER = ''X-API-Key''"

definition COOKIE_HEADER :: string where
  "COOKIE_HEADER = ''cookie''"

definition ACCESS_ASSERTION_HEADER :: string where
  "ACCESS_ASSERTION_HEADER = ''cf-access-jwt-assertion''"

section \<open>The key check (handlers.rs)\<close>

definition hash_api_key :: "(string \<Rightarrow> string) \<Rightarrow> string \<Rightarrow> string" where
  "hash_api_key sha key = sha (''cloto-revoke-salt-2026:'' @ key)"

definition check_auth_with_query ::
  "(string \<Rightarrow> string) \<Rightarrow> http_lib \<Rightarrow> auth_state \<Rightarrow> headers \<Rightarrow> (string, string) hmap \<Rightarrow> app_error + unit" where
  "check_auth_with_query sha hl st headers query =
     (let from_header = Option.bind (header_get headers ADMIN_API_KEY_HEADER) (hv_to_str hl);
          provided = option_or from_header (hm_get query ''token'')
      in case as_admin_key st of
           None \<Rightarrow> Err PermissionDeniedAdmin
         | Some (Some required_key) \<Rightarrow>
             (case provided of
                None \<Rightarrow> Err PermissionDeniedAdmin
              | Some p \<Rightarrow>
                  if p \<noteq> required_key then Err PermissionDeniedAdmin
                  else (case as_revoked st of
                          None \<Rightarrow> Err PermissionDeniedAdmin
                        | Some revoked \<Rightarrow>
                            if hash_api_key sha p \<in> set revoked then Err PermissionDeniedAdmin else Ok ()))
         | Some None \<Rightarrow>
             if as_debug_build st \<and>
                (case as_skip_auth_env st of None \<Rightarrow> False | Some v \<Rightarrow> v = ''1'' \<or> eq_ignore_ascii_case v ''true'')
             then Ok () else Err PermissionDeniedAdmin)"

definition check_auth :: "(string \<Rightarrow> string) \<Rightarrow> http_lib \<Rightarrow> auth_state \<Rightarrow> headers \<Rightarrow> app_error + unit" where
  "check_auth sha hl st headers = check_auth_with_query sha hl st headers []"

definition resolve_tool_caller ::
  "(string \<Rightarrow> string) \<Rightarrow> http_lib \<Rightarrow> auth_state \<Rightarrow> headers \<Rightarrow> instant \<Rightarrow> app_error + Caller" where
  "resolve_tool_caller sha hl st headers now =
     (case header_get headers AGENT_TOKEN_HEADER of
        Some raw \<Rightarrow>
          (case hv_to_str hl raw of
             None \<Rightarrow> Err PermissionDeniedAdmin
           | Some token \<Rightarrow>
               (case at_resolve sha (as_tokens st) token now of
                  None \<Rightarrow> Err PermissionDeniedAdmin
                | Some agent_id \<Rightarrow> Ok (Agent agent_id)))
      | None \<Rightarrow> and_then (check_auth sha hl st headers) (\<lambda>_. Ok System))"

section \<open>The layer (middleware.rs)\<close>

definition PUBLIC_API_PATHS :: "string list" where
  "PUBLIC_API_PATHS =
     [''/system/version'', ''/system/health'', ''/setup/status'', ''/setup/progress'', ''/marketplace/progress'']"

definition api_path :: "string \<Rightarrow> string" where
  "api_path path = unwrap_or (strip_prefix ''/api'' path) path"

definition is_public_api_path :: "string \<Rightarrow> bool" where
  "is_public_api_path path = (api_path path \<in> set PUBLIC_API_PATHS)"

definition AGENT_TOKEN_API_PATHS :: "string list" where
  "AGENT_TOKEN_API_PATHS = [''/mcp/call'']"

definition ACCESS_SESSION_PATH :: string where
  "ACCESS_SESSION_PATH = ''/auth/session/access''"

definition ACCESS_ASSERTION_API_PATHS :: "string list" where
  "ACCESS_ASSERTION_API_PATHS = [ACCESS_SESSION_PATH]"

definition defers_auth_to_handler :: "string \<Rightarrow> headers \<Rightarrow> bool" where
  "defers_auth_to_handler path headers =
     (let p = api_path path;
          agent_token = p \<in> set AGENT_TOKEN_API_PATHS \<and> header_contains_key headers AGENT_TOKEN_HEADER;
          access_assertion = p \<in> set ACCESS_ASSERTION_API_PATHS \<and> header_contains_key headers ACCESS_ASSERTION_HEADER
      in agent_token \<or> access_assertion)"

definition session_token :: "http_lib \<Rightarrow> headers \<Rightarrow> string option" where
  "session_token hl headers =
     Option.bind (Option.bind (header_get headers COOKIE_HEADER) (hv_to_str hl)) token_from_cookie_header"

text \<open>The rewritten request when the session authenticates it, nothing otherwise.\<close>

definition authenticate_browser_session ::
  "(string \<Rightarrow> string) \<Rightarrow> http_lib \<Rightarrow> auth_state \<Rightarrow> request \<Rightarrow> instant \<Rightarrow> request option" where
  "authenticate_browser_session sha hl st req now =
     Option.bind (session_token hl (rq_headers req)) (\<lambda>token.
       if bs_resolve sha (as_sessions st) token now = None then None
       else case as_admin_key st of
           Some (Some key) \<Rightarrow>
             map_option (\<lambda>value. req\<lparr>rq_headers := header_insert ADMIN_API_KEY_HEADER value (rq_headers req)\<rparr>)
               (hv_from_str hl key)
         | _ \<Rightarrow> None)"

text \<open>The request that goes on to the routes, or the refusal.\<close>

definition auth_middleware ::
  "(string \<Rightarrow> string) \<Rightarrow> http_lib \<Rightarrow> auth_state \<Rightarrow> request \<Rightarrow> instant \<Rightarrow> app_error + request" where
  "auth_middleware sha hl st req now =
     (if is_public_api_path (rq_path req) then Ok req
      else if defers_auth_to_handler (rq_path req) (rq_headers req) then Ok req
      else case authenticate_browser_session sha hl st req now of
          Some req' \<Rightarrow> Ok req'
        | None \<Rightarrow> and_then (check_auth_with_query sha hl st (rq_headers req) (rq_query req)) (\<lambda>_. Ok req))"

section \<open>Signing in and out (handlers/auth.rs)\<close>

definition cookie_secure_from :: "string option \<Rightarrow> bool" where
  "cookie_secure_from raw =
     (\<not> (case raw of Some v \<Rightarrow> v = ''0'' \<or> eq_ignore_ascii_case v ''false'' | None \<Rightarrow> False))"

text \<open>
  Minting: the session the request came with is dropped first. \<open>t\<close> are the readings of the clock:
  for the revocation, for the new expiry, for the pruning. The answer is the cookie to set.
\<close>

definition issue_session ::
  "(string \<Rightarrow> string) \<Rightarrow> http_lib \<Rightarrow> string option \<Rightarrow> auth_state \<Rightarrow> headers \<Rightarrow> string \<Rightarrow> u8 list \<Rightarrow> (nat \<Rightarrow> instant)
   \<Rightarrow> auth_state \<times> string" where
  "issue_session sha hl secure_env st headers label bytes t =
     (let sessions = (case session_token hl headers of
            Some previous \<Rightarrow> fst (bs_revoke sha (as_sessions st) previous (t 0))
          | None \<Rightarrow> as_sessions st);
          ttl = minutes bs_DEFAULT_TTL_MINUTES;
          (sessions', token) = bs_mint sha sessions label ttl bytes (t 1) (t 2)
      in (st\<lparr>as_sessions := sessions'\<rparr>, set_cookie_value token ttl (cookie_secure_from secure_env)))"

definition create_session ::
  "(string \<Rightarrow> string) \<Rightarrow> http_lib \<Rightarrow> string option \<Rightarrow> auth_state \<Rightarrow> headers \<Rightarrow> u8 list \<Rightarrow> (nat \<Rightarrow> instant)
   \<Rightarrow> auth_state \<times> string" where
  "create_session sha hl secure_env st headers = issue_session sha hl secure_env st headers ''admin-key''"

text \<open>
  Sign-in by a signed assertion: \<open>now\<close> is the time the claims are checked at, \<open>kt\<close> and \<open>net\<close> are
  the clock readings and network answers of the verifier.
\<close>

definition create_session_from_access ::
  "(string \<Rightarrow> string) \<Rightarrow> http_lib \<Rightarrow> jwt_lib \<Rightarrow> string option \<Rightarrow> auth_state \<Rightarrow> ip_addr \<Rightarrow> headers
   \<Rightarrow> i64 \<Rightarrow> (nat \<Rightarrow> instant) \<Rightarrow> (nat \<Rightarrow> http_get) \<Rightarrow> u8 list \<Rightarrow> (nat \<Rightarrow> instant) \<Rightarrow> auth_state \<times> (app_error + string)" where
  "create_session_from_access sha hl lib secure_env st peer headers now kt net bytes t =
     (let assertion = unwrap_or (Option.bind (header_get headers ACCESS_ASSERTION_HEADER) (hv_to_str hl)) []
      in case av_verify lib (as_verifier st) assertion peer now kt net of
           (v, Inl _, _) \<Rightarrow> (st\<lparr>as_verifier := v\<rparr>, Err PermissionDeniedAdmin)
         | (v, Inr identity, _) \<Rightarrow>
             (let (st', cookie) = issue_session sha hl secure_env (st\<lparr>as_verifier := v\<rparr>) headers
                    (session_label identity) bytes t
              in (st', Ok cookie)))"

definition delete_session ::
  "(string \<Rightarrow> string) \<Rightarrow> http_lib \<Rightarrow> string option \<Rightarrow> auth_state \<Rightarrow> headers \<Rightarrow> instant \<Rightarrow> auth_state \<times> string \<times> bool" where
  "delete_session sha hl secure_env st headers now =
     (let (st', ended) = (case session_token hl headers of
            Some token \<Rightarrow> (let (s, live) = bs_revoke sha (as_sessions st) token now in (st\<lparr>as_sessions := s\<rparr>, live))
          | None \<Rightarrow> (st, False))
      in (st', clear_cookie_value (cookie_secure_from secure_env), ended))"

text \<open>Installing a new key (lib.rs): nothing happens when the lock is poisoned.\<close>

definition install_admin_api_key :: "auth_state \<Rightarrow> string \<Rightarrow> auth_state \<times> bool" where
  "install_admin_api_key st key =
     (case as_admin_key st of
        None \<Rightarrow> (st, False)
      | Some _ \<Rightarrow> (st\<lparr>as_admin_key := Some (Some key), as_sessions := bs_revoke_all (as_sessions st)\<rparr>, True))"

section \<open>Revoked keys (db/api_keys.rs and their cache)\<close>

type_synonym revoked_table = "(string \<times> int) list"

definition revoke_api_key ::
  "(string \<Rightarrow> string) \<Rightarrow> fault \<Rightarrow> int \<Rightarrow> string \<Rightarrow> revoked_table \<Rightarrow> revoked_table \<times> (db_error + unit)" where
  "revoke_api_key sha f now_ms key table =
     (case f of Some e \<Rightarrow> (table, Err e)
      | None \<Rightarrow>
         (let h = hash_api_key sha key
          in (if h \<in> fst ` set table then table else table @ [(h, now_ms)], Ok ())))"

definition load_revoked_key_hashes :: "fault \<Rightarrow> revoked_table \<Rightarrow> db_error + string list" where
  "load_revoked_key_hashes f table = db_timeout f (map fst table)"

definition days_ms :: "int \<Rightarrow> int" where
  "days_ms d = d * 86400000"

definition cleanup_revoked_keys ::
  "(nat \<Rightarrow> fault) \<Rightarrow> int \<Rightarrow> int \<Rightarrow> revoked_table \<Rightarrow> revoked_table \<times> (db_error + string list)" where
  "cleanup_revoked_keys f now_ms ttl_days table =
     (case f 0 of Some e \<Rightarrow> (table, Err e)
      | None \<Rightarrow>
         (let kept = filter (\<lambda>(_, at_ms). \<not> at_ms < now_ms - days_ms ttl_days) table
          in (kept, load_revoked_key_hashes (f 1) kept)))"

definition is_api_key_revoked :: "(string \<Rightarrow> string) \<Rightarrow> fault \<Rightarrow> revoked_table \<Rightarrow> string \<Rightarrow> db_error + bool" where
  "is_api_key_revoked sha f table key = db_timeout f (hash_api_key sha key \<in> fst ` set table)"

text \<open>
  The two tasks that write the cache, at the granularity in which they interleave: the handler
  writes the table and then the cache; the periodic cleanup (every six hours, 90 days) empties and
  reads the table and then replaces the cache by what it read.
\<close>

record revocation =
  rv_table :: revoked_table
  rv_cache :: "string list"
  rv_read :: "string list option"

datatype revocation_step =
    PersistRevocation string int
  | CacheRevocation string
  | CleanupRead int
  | CleanupInstall

fun revocation_exec :: "(string \<Rightarrow> string) \<Rightarrow> revocation \<Rightarrow> revocation_step \<Rightarrow> revocation" where
  "revocation_exec sha s (PersistRevocation key now_ms) =
     s\<lparr>rv_table := fst (revoke_api_key sha None now_ms key (rv_table s))\<rparr>"
| "revocation_exec sha s (CacheRevocation key) = s\<lparr>rv_cache := hash_api_key sha key # rv_cache s\<rparr>"
| "revocation_exec sha s (CleanupRead now_ms) =
     (let (table, hashes) = cleanup_revoked_keys (\<lambda>_. None) now_ms 90 (rv_table s)
      in s\<lparr>rv_table := table, rv_read := (case hashes of Inl _ \<Rightarrow> None | Inr hs \<Rightarrow> Some hs)\<rparr>)"
| "revocation_exec sha s CleanupInstall =
     (case rv_read s of None \<Rightarrow> s | Some hs \<Rightarrow> s\<lparr>rv_cache := hs, rv_read := None\<rparr>)"

text \<open>The handler's two steps together, for the key the request was authenticated with.\<close>

definition invalidate_api_key ::
  "(string \<Rightarrow> string) \<Rightarrow> http_lib \<Rightarrow> fault \<Rightarrow> auth_state \<Rightarrow> headers \<Rightarrow> int \<Rightarrow> revocation \<Rightarrow> revocation \<times> (app_error + unit)" where
  "invalidate_api_key sha hl f st headers now_ms s =
     (case check_auth sha hl st headers of
        Inl e \<Rightarrow> (s, Err e)
      | Inr _ \<Rightarrow>
          (case Option.bind (header_get headers ADMIN_API_KEY_HEADER) (hv_to_str hl) of
             None \<Rightarrow> (s, Err (Validation ''X-API-Key header required''))
           | Some key \<Rightarrow>
               (case revoke_api_key sha f now_ms key (rv_table s) of
                  (_, Inl e) \<Rightarrow> (s, Err (Internal e))
                | (table, Inr _) \<Rightarrow>
                    (s\<lparr>rv_table := table, rv_cache := hash_api_key sha key # rv_cache s\<rparr>, Ok ()))))"

section \<open>The rate limiter of addresses\<close>

text \<open>The token bucket (crate \<open>governor\<close>) is a parameter: a new bucket, and a draw from one.\<close>

record 'b bucket_lib =
  bk_new :: 'b
  bk_check :: "'b \<Rightarrow> instant \<Rightarrow> 'b \<times> bool"

type_synonym ('ip, 'b) limiters = "('ip, 'b \<times> instant) hmap"

text \<open>A zero rate or burst is taken as one.\<close>

definition non_zero_or_min :: "u32 \<Rightarrow> u32" where
  "non_zero_or_min n = (if n = 0 then 1 else n)"

definition rl_check :: "'b bucket_lib \<Rightarrow> ('ip, 'b) limiters \<Rightarrow> 'ip \<Rightarrow> instant \<Rightarrow> instant \<Rightarrow> ('ip, 'b) limiters \<times> bool" where
  "rl_check bl m ip t0 t1 =
     (let (bucket, _) = unwrap_or (hm_get m ip) (bk_new bl, t0);
          (bucket', allowed) = bk_check bl bucket t1
      in (hm_insert ip (bucket', t1) m, allowed))"

definition IDLE_THRESHOLD :: duration where
  "IDLE_THRESHOLD = minutes 10"

definition rl_cleanup :: "('ip, 'b) limiters \<Rightarrow> instant \<Rightarrow> ('ip, 'b) limiters" where
  "rl_cleanup m now = hm_retain (\<lambda>_ (_, last_seen). max 0 (now - last_seen) < IDLE_THRESHOLD) m"

definition tracked_ips :: "('ip, 'b) limiters \<Rightarrow> nat" where
  "tracked_ips m = length m"

definition rate_limit_middleware ::
  "'b bucket_lib \<Rightarrow> ('ip, 'b) limiters \<Rightarrow> 'ip \<Rightarrow> instant \<Rightarrow> instant \<Rightarrow> request \<Rightarrow> ('ip, 'b) limiters \<times> (string + request)" where
  "rate_limit_middleware bl m ip t0 t1 req =
     (let (m', allowed) = rl_check bl m ip t0 t1
      in (m', if allowed then Ok req else Err ''Too many requests; retry later''))"

end
