(* ===== verification/Auth_Laws.thy ===== *)
theory Auth_Laws
  imports Auth
begin

text \<open>
  What the API's authentication promises: who gets past the layer, as whom a tool call runs, what
  signing in and out and rotating the key do to a browser, and how long a revocation holds.
\<close>

section \<open>Headers\<close>

lemma header_get_insert [simp]:
  "header_get (header_insert n v hs) k = (if eq_ignore_ascii_case n k then Some v else header_get hs k)"
proof (cases "eq_ignore_ascii_case n k")
  case True
  then have "find (\<lambda>(k', _). eq_ignore_ascii_case k' k) (filter (\<lambda>(k', _). \<not> eq_ignore_ascii_case k' n) hs) = None"
    by (auto simp: find_None_iff eq_ignore_ascii_case_def)
  moreover have "find P xs = None \<Longrightarrow> find P (xs @ ys) = find P ys" for P :: "string \<times> string \<Rightarrow> bool" and xs ys
    by (induction xs) (auto split: if_splits)
  ultimately show ?thesis
    using True by (simp add: header_get_def header_insert_def)
next
  case False
  then have "find (\<lambda>(k', _). eq_ignore_ascii_case k' k) (filter (\<lambda>(k', _). \<not> eq_ignore_ascii_case k' n) hs @ [(n, v)])
      = find (\<lambda>(k', _). eq_ignore_ascii_case k' k) hs"
    by (induction hs) (auto simp: eq_ignore_ascii_case_def)
  with False show ?thesis
    by (simp add: header_get_def header_insert_def)
qed

lemma header_contains_iff: "header_contains_key hs n \<longleftrightarrow> header_get hs n \<noteq> None"
  by (induction hs) (auto simp: header_contains_key_def header_get_def)

lemma header_names [simp]:
  "\<not> eq_ignore_ascii_case ADMIN_API_KEY_HEADER AGENT_TOKEN_HEADER"
  "eq_ignore_ascii_case ADMIN_API_KEY_HEADER ADMIN_API_KEY_HEADER"
  by code_simp+

section \<open>The key check\<close>

text \<open>The key a request presents.\<close>

definition presented_key :: "http_lib \<Rightarrow> headers \<Rightarrow> (string, string) hmap \<Rightarrow> string option" where
  "presented_key hl headers query =
     option_or (Option.bind (header_get headers ADMIN_API_KEY_HEADER) (hv_to_str hl)) (hm_get query ''token'')"

definition debug_open :: "auth_state \<Rightarrow> bool" where
  "debug_open st \<longleftrightarrow> as_admin_key st = Some None \<and> as_debug_build st \<and>
     (\<exists>v. as_skip_auth_env st = Some v \<and> (v = ''1'' \<or> eq_ignore_ascii_case v ''true''))"

text \<open>The live key, presented and not revoked, with both locks readable.\<close>

definition keyed :: "(string \<Rightarrow> string) \<Rightarrow> auth_state \<Rightarrow> string \<Rightarrow> bool" where
  "keyed sha st key \<longleftrightarrow> as_admin_key st = Some (Some key) \<and>
     (\<exists>revoked. as_revoked st = Some revoked \<and> hash_api_key sha key \<notin> set revoked)"

lemma check_auth_with_query_Ok_iff:
  "check_auth_with_query sha hl st headers query = Ok () \<longleftrightarrow>
     (\<exists>key. presented_key hl headers query = Some key \<and> keyed sha st key) \<or> debug_open st"
  by (auto simp: check_auth_with_query_def presented_key_def keyed_def debug_open_def Let_def
      split: option.splits if_splits)

lemma check_auth_Ok_iff:
  "check_auth sha hl st headers = Ok () \<longleftrightarrow>
     (\<exists>key. presented_key hl headers [] = Some key \<and> keyed sha st key) \<or> debug_open st"
  by (simp add: check_auth_def check_auth_with_query_Ok_iff)

lemma authenticate_browser_session_Some_iff:
  assumes "http_ok hl"
  shows "authenticate_browser_session sha hl st req now = Some req' \<longleftrightarrow>
    (\<exists>token label key. session_token hl (rq_headers req) = Some token \<and>
       bs_resolve sha (as_sessions st) token now = Some label \<and>
       as_admin_key st = Some (Some key) \<and> hv_from_str hl key = Some key \<and>
       req' = req\<lparr>rq_headers := header_insert ADMIN_API_KEY_HEADER key (rq_headers req)\<rparr>)"
proof
  assume "authenticate_browser_session sha hl st req now = Some req'"
  then obtain token label key val where "session_token hl (rq_headers req) = Some token"
    "bs_resolve sha (as_sessions st) token now = Some label" "as_admin_key st = Some (Some key)"
    and v: "hv_from_str hl key = Some val"
    "req' = req\<lparr>rq_headers := header_insert ADMIN_API_KEY_HEADER val (rq_headers req)\<rparr>"
    by (auto simp: authenticate_browser_session_def bind_eq_Some_conv split: option.splits if_splits)
  moreover from v assms have "val = key" by (simp add: http_ok_def)
  ultimately show "\<exists>token label key. session_token hl (rq_headers req) = Some token \<and>
       bs_resolve sha (as_sessions st) token now = Some label \<and>
       as_admin_key st = Some (Some key) \<and> hv_from_str hl key = Some key \<and>
       req' = req\<lparr>rq_headers := header_insert ADMIN_API_KEY_HEADER key (rq_headers req)\<rparr>"
    by blast
qed (auto simp: authenticate_browser_session_def)

lemma auth_middleware_admits:
  assumes "http_ok hl" and "auth_middleware sha hl st req now = Ok req'"
  shows "req' = req \<and> (is_public_api_path (rq_path req) \<or>
      defers_auth_to_handler (rq_path req) (rq_headers req) \<or>
      (\<exists>key. presented_key hl (rq_headers req) (rq_query req) = Some key \<and> keyed sha st key) \<or>
      debug_open st)
    \<or> (\<exists>token label key. session_token hl (rq_headers req) = Some token \<and>
      bs_resolve sha (as_sessions st) token now = Some label \<and> as_admin_key st = Some (Some key) \<and>
      req' = req\<lparr>rq_headers := header_insert ADMIN_API_KEY_HEADER key (rq_headers req)\<rparr>)"
proof (cases "authenticate_browser_session sha hl st req now")
  case None
  with assms(2) show ?thesis
    using check_auth_with_query_Ok_iff [of sha hl st "rq_headers req" "rq_query req"]
    by (cases "check_auth_with_query sha hl st (rq_headers req) (rq_query req)")
      (auto simp: auth_middleware_def split: if_splits)
next
  case (Some r)
  with assms show ?thesis
    using authenticate_browser_session_Some_iff [OF assms(1), of sha st req now r]
    by (auto simp: auth_middleware_def split: if_splits)
qed


definition plain_http :: http_lib where
  "plain_http = \<lparr>hv_to_str = Some, hv_from_str = Some\<rparr>"

lemma http_ok_plain: "http_ok plain_http"
  by (simp add: http_ok_def plain_http_def)

definition example_auth :: auth_state where
  "example_auth = \<lparr>as_admin_key = Some (Some ''k1''), as_revoked = Some [], as_sessions = [], as_tokens = [],
     as_debug_build = False, as_skip_auth_env = None,
     as_verifier = av_new None\<rparr>"

definition example_request :: request where
  "example_request = \<lparr>rq_path = ''/api/agents'', rq_headers = [(''x-api-key'', ''k1'')], rq_query = []\<rparr>"


text \<open>As whom a tool call runs. A request that carries an agent token runs as the agent the token
  names, or is refused: it never falls back to the kernel's own identity. It runs as the kernel
  only without a token and with the live, unrevoked key, its own or the one the layer put there
  for a session.\<close>

theorem tool_caller_identity:
  assumes "http_ok hl" and "auth_middleware sha hl st req now = Ok req'"
    and "resolve_tool_caller sha hl st (rq_headers req') now' = Ok caller"
  shows "(\<forall>a. caller = Agent a \<longrightarrow>
        (\<exists>token. header_get (rq_headers req) AGENT_TOKEN_HEADER = Some token \<and>
           at_resolve sha (as_tokens st) token now' = Some a)) \<and>
    (caller = System \<longrightarrow> header_get (rq_headers req) AGENT_TOKEN_HEADER = None \<and>
        (debug_open st \<or> (\<exists>key. keyed sha st key \<and>
          (header_get (rq_headers req) ADMIN_API_KEY_HEADER = Some key \<or>
           (\<exists>token label. session_token hl (rq_headers req) = Some token \<and>
              bs_resolve sha (as_sessions st) token now = Some label)))))"
proof -
  have headers: "header_get (rq_headers req') AGENT_TOKEN_HEADER = header_get (rq_headers req) AGENT_TOKEN_HEADER"
    using auth_middleware_admits [OF assms(1,2)] by auto
  have to_str: "hv_to_str hl v = Some s \<Longrightarrow> s = v" for v s
    using assms(1) by (simp add: http_ok_def)
  show ?thesis
  proof (cases "header_get (rq_headers req') AGENT_TOKEN_HEADER")
    case (Some raw)
    with assms(3) obtain token a where "hv_to_str hl raw = Some token" "at_resolve sha (as_tokens st) token now' = Some a"
      and "caller = Agent a"
      by (auto simp: resolve_tool_caller_def split: option.splits)
    with Some headers to_str show ?thesis by auto
  next
    case None
    with assms(3) have "caller = System" and auth: "check_auth sha hl st (rq_headers req') = Ok ()"
      by (auto simp: resolve_tool_caller_def)
    from auth have "(\<exists>key. header_get (rq_headers req') ADMIN_API_KEY_HEADER = Some key \<and> keyed sha st key) \<or> debug_open st"
      using to_str by (auto simp: check_auth_Ok_iff presented_key_def option_or_def bind_eq_Some_conv split: option.splits)
    with \<open>caller = System\<close> None headers show ?thesis
      using auth_middleware_admits [OF assms(1,2)] by (auto simp: keyed_def)
  qed
qed

theorem tool_caller_identity_witness:
  "header_get (rq_headers example_request) AGENT_TOKEN_HEADER = None \<and> keyed id example_auth ''k1''"
proof -
  have "auth_middleware id plain_http example_auth example_request 0 = Ok example_request"
    and "resolve_tool_caller id plain_http example_auth (rq_headers example_request) 0 = Ok System"
    and "session_token plain_http (rq_headers example_request) = None"
    and "as_admin_key example_auth \<noteq> Some None"
    and "header_get (rq_headers example_request) ADMIN_API_KEY_HEADER = Some ''k1''"
    by code_simp+
  then show ?thesis
    using tool_caller_identity [OF http_ok_plain, of id example_auth example_request 0 example_request 0 System]
    by (auto simp: debug_open_def)
qed

section \<open>The session cookie\<close>

text \<open>A cookie name and value as browsers send them: printable, no separator in them.\<close>

definition cookie_pair_ok :: "string \<times> string \<Rightarrow> bool" where
  "cookie_pair_ok = (\<lambda>(n, v). n \<noteq> [] \<and> (\<forall>c \<in> set n. graphic c \<and> c \<noteq> CHR '';'' \<and> c \<noteq> CHR ''='') \<and>
     (\<forall>c \<in> set v. graphic c \<and> c \<noteq> CHR '';''))"

definition cookie_header :: "(string \<times> string) list \<Rightarrow> string" where
  "cookie_header pairs = join_with ''; '' (map (\<lambda>(n, v). n @ ''='' @ v) pairs)"

lemma trim_all_graphic: "(\<And>c. c \<in> set s \<Longrightarrow> graphic c) \<Longrightarrow> trim s = s"
  by (rule trim_graphic) (cases s; simp)

lemma split_pair:
  assumes "cookie_pair_ok (n, v)" and "pre \<in> {[], '' ''}"
  shows "split_once (CHR ''='') (pre @ n @ ''='' @ v) = Some (pre @ n, v)"
    and "trim (pre @ n) = n" and "trim v = v" and "CHR '';'' \<notin> set (pre @ n @ ''='' @ v)"
proof -
  have pre: "CHR ''='' \<notin> set pre" "CHR '';'' \<notin> set pre" using assms(2) by auto
  have ok: "\<forall>c \<in> set n. graphic c \<and> c \<noteq> CHR '';'' \<and> c \<noteq> CHR ''=''" "\<forall>c \<in> set v. graphic c \<and> c \<noteq> CHR '';''"
    using assms(1) by (simp_all add: cookie_pair_ok_def)
  then have sep: "CHR ''='' \<notin> set n" "CHR '';'' \<notin> set n" "CHR '';'' \<notin> set v" by blast+
  have n: "CHR ''='' \<notin> set (pre @ n)" "\<And>c. c \<in> set n \<Longrightarrow> graphic c" "\<And>c. c \<in> set v \<Longrightarrow> graphic c"
    using ok pre sep by simp_all
  then show "split_once (CHR ''='') (pre @ n @ ''='' @ v) = Some (pre @ n, v)"
    using split_once_append [of "CHR ''=''" "pre @ n" v] by simp
  have "trim n = n" and v: "trim v = v"
    using n trim_all_graphic by blast+
  with assms(2) show "trim (pre @ n) = n" and "trim v = v"
    using trim_space [of n] by auto
  show "CHR '';'' \<notin> set (pre @ n @ ''='' @ v)"
    using pre sep by simp
qed

text \<open>The parsed pairs of a header; every pair but the first has a blank before it.\<close>

lemma parsed_pairs:
  assumes "\<And>p. p \<in> set pairs \<Longrightarrow> cookie_pair_ok p" and "pairs \<noteq> []" and "pre \<in> {[], '' ''}"
  shows "map (\<lambda>(n, v). (trim n, trim v))
    (List.map_filter (split_once (CHR ''='')) (split_on (CHR '';'') (pre @ cookie_header pairs))) = pairs"
  using assms
proof (induction pairs arbitrary: pre)
  case (Cons p ps)
  obtain n v where p: "p = (n, v)" by (cases p)
  then have ok: "cookie_pair_ok (n, v)" using Cons.prems by simp
  note facts = split_pair [OF ok Cons.prems(3)] and IH = Cons.IH and prems = Cons.prems
  show ?case
  proof (cases ps)
    case Nil
    with p facts show ?thesis
      by (simp add: cookie_header_def split_on_no_sep List.map_filter_simps)
  next
    case (Cons q qs)
    then have "pre @ cookie_header (p # ps) = (pre @ n @ ''='' @ v) @ CHR '';'' # '' '' @ cookie_header ps"
      by (simp add: cookie_header_def p)
    moreover have "map (\<lambda>(n, v). (trim n, trim v))
        (List.map_filter (split_once (CHR ''='')) (split_on (CHR '';'') ('' '' @ cookie_header ps))) = ps"
      using Cons prems by (intro IH) auto
    ultimately show ?thesis
      using facts split_on_append [OF facts(4), of "'' '' @ cookie_header ps"]
      by (simp add: List.map_filter_simps p)
  qed
qed simp

lemma cookie_roundtrip:
  assumes "\<And>p. p \<in> set pairs \<Longrightarrow> cookie_pair_ok p" and "pairs \<noteq> []"
  shows "token_from_cookie_header (cookie_header pairs) = option_filter (\<lambda>v. v \<noteq> []) (map_of pairs SESSION_COOKIE)"
proof -
  have "map_option snd (find (\<lambda>(name, _). name = k) xs) = map_of xs k" for k and xs :: "(string \<times> string) list"
    by (induction xs) auto
  then show ?thesis
    by (simp add: token_from_cookie_header_def parsed_pairs [OF assms, of "[]", simplified])
qed

section \<open>Signing in, signing out, rotating the key\<close>

lemma issue_session_state:
  "fst (issue_session sha hl env st headers label bytes t) = st\<lparr>as_sessions := fst (bs_mint sha
     (case session_token hl headers of Some previous \<Rightarrow> fst (bs_revoke sha (as_sessions st) previous (t 0)) | None \<Rightarrow> as_sessions st)
     label (minutes bs_DEFAULT_TTL_MINUTES) bytes (t 1) (t 2))\<rparr>"
  by (simp add: issue_session_def Let_def split: prod.splits)

lemma issued_session_resolves:
  "now < t 1 + minutes bs_DEFAULT_TTL_MINUTES \<Longrightarrow>
   bs_resolve sha (as_sessions (fst (issue_session sha hl env st headers label bytes t))) (generate bytes) now = Some label"
  by (simp add: issue_session_state sessions.resolve_minted)

lemma issue_session_keeps [simp]:
  "as_admin_key (fst (issue_session sha hl env st headers label bytes t)) = as_admin_key st"
  "as_revoked (fst (issue_session sha hl env st headers label bytes t)) = as_revoked st"
  by (simp_all add: issue_session_state)

text \<open>A request of a browser that holds the session: the cookie among others, and nothing else needed.\<close>

definition carries_session :: "http_lib \<Rightarrow> request \<Rightarrow> string \<Rightarrow> bool" where
  "carries_session hl req token \<longleftrightarrow> (\<exists>pairs. header_get (rq_headers req) COOKIE_HEADER = Some (cookie_header pairs) \<and>
     hv_to_str hl (cookie_header pairs) = Some (cookie_header pairs) \<and> pairs \<noteq> [] \<and>
     list_all cookie_pair_ok pairs \<and> map_of pairs SESSION_COOKIE = Some token)"

lemma carries_session_token: "carries_session hl req token \<Longrightarrow> token \<noteq> [] \<Longrightarrow> session_token hl (rq_headers req) = Some token"
  by (auto simp: carries_session_def session_token_def list_all_iff cookie_roundtrip)

text \<open>A browser that signs in is admitted by its cookie until the session expires: every request
  that carries it goes on with the live key attached, so a handler's own key check passes exactly
  when that key is not revoked. Signing out with the same request ends it at once, and installing
  a new key ends it and refuses the old key.\<close>

theorem sign_in_lifecycle:
  assumes "as_admin_key st = Some (Some key)" and "bytes \<noteq> []"
    and "hv_to_str hl key = Some key" and "hv_from_str hl key = Some key"
    and "carries_session hl req (generate bytes)"
    and "\<not> is_public_api_path (rq_path req)" and "\<not> defers_auth_to_handler (rq_path req) (rq_headers req)"
    and st': "st' = fst (create_session sha hl env st headers bytes t)"
    and "now < t 1 + minutes bs_DEFAULT_TTL_MINUTES" and "key' \<noteq> key"
  shows "(\<exists>req'. auth_middleware sha hl st' req now = Ok req' \<and>
      (check_auth sha hl st' (rq_headers req') = Ok () \<longleftrightarrow> keyed sha st key)) \<and>
    authenticate_browser_session sha hl (fst (delete_session sha hl env st' (rq_headers req) now)) req later = None \<and>
    authenticate_browser_session sha hl (fst (install_admin_api_key st' key')) req later = None \<and>
    check_auth sha hl (fst (install_admin_api_key st' key')) [(ADMIN_API_KEY_HEADER, key)] \<noteq> Ok ()"
proof (intro conjI)
  have token: "session_token hl (rq_headers req) = Some (generate bytes)"
    using carries_session_token [OF assms(5)] assms(2) by simp
  have live: "bs_resolve sha (as_sessions st') (generate bytes) now = Some ''admin-key''"
    using assms(9) by (simp add: st' create_session_def issued_session_resolves)
  have keep [simp]: "as_admin_key st' = Some (Some key)" "as_revoked st' = as_revoked st"
    using assms(1) by (simp_all add: st' create_session_def)
  let ?req = "req\<lparr>rq_headers := header_insert ADMIN_API_KEY_HEADER key (rq_headers req)\<rparr>"
  have "auth_middleware sha hl st' req now = Ok ?req"
    using assms(4,6,7) token live by (simp add: auth_middleware_def authenticate_browser_session_def)
  moreover have "check_auth sha hl st' (rq_headers ?req) = Ok () \<longleftrightarrow> keyed sha st key"
    using assms(1,3) by (auto simp: check_auth_Ok_iff presented_key_def keyed_def debug_open_def)
  ultimately show "\<exists>req'. auth_middleware sha hl st' req now = Ok req' \<and>
      (check_auth sha hl st' (rq_headers req') = Ok () \<longleftrightarrow> keyed sha st key)" by blast
  show "authenticate_browser_session sha hl (fst (delete_session sha hl env st' (rq_headers req) now)) req later = None"
    using token bs_resolve_revoked [of sha "as_sessions st'" "generate bytes" now "generate bytes" later]
    by (simp add: delete_session_def authenticate_browser_session_def Let_def case_prod_unfold)
  show "authenticate_browser_session sha hl (fst (install_admin_api_key st' key')) req later = None"
    using token by (simp add: install_admin_api_key_def authenticate_browser_session_def)
  show "check_auth sha hl (fst (install_admin_api_key st' key')) [(ADMIN_API_KEY_HEADER, key)] \<noteq> Ok ()"
    using assms(3,10)
    by (auto simp: check_auth_Ok_iff presented_key_def keyed_def debug_open_def install_admin_api_key_def header_get_def)
qed

definition signed_in_request :: request where
  "signed_in_request = \<lparr>rq_path = ''/api/agents'',
     rq_headers = [(''Cookie'', cookie_header [(''theme'', ''dark''), (''cloto_session'', generate [7, 255])])], rq_query = []\<rparr>"

theorem sign_in_lifecycle_witness:
  "authenticate_browser_session id plain_http
     (fst (delete_session id plain_http None (fst (create_session id plain_http None example_auth [] [7, 255] (\<lambda>_. 0)))
       (rq_headers signed_in_request) 5)) signed_in_request 6 = None"
proof -
  have "carries_session plain_http signed_in_request (generate [7, 255])"
    unfolding carries_session_def
  proof (intro exI conjI)
    show "header_get (rq_headers signed_in_request) COOKIE_HEADER = Some (cookie_header [(''theme'', ''dark''), (''cloto_session'', generate [7, 255])])"
      by code_simp
    show "hv_to_str plain_http (cookie_header [(''theme'', ''dark''), (''cloto_session'', generate [7, 255])])
        = Some (cookie_header [(''theme'', ''dark''), (''cloto_session'', generate [7, 255])])"
      by (simp add: plain_http_def)
    show "list_all cookie_pair_ok [(''theme'', ''dark''), (''cloto_session'', generate [7, 255])]" by code_simp
    show "map_of [(''theme'', ''dark''), (''cloto_session'', generate [7, 255])] SESSION_COOKIE = Some (generate [7, 255])"
      by code_simp
  qed simp
  moreover have "\<not> is_public_api_path (rq_path signed_in_request)"
    "\<not> defers_auth_to_handler (rq_path signed_in_request) (rq_headers signed_in_request)"
    "as_admin_key example_auth = Some (Some ''k1'')" "(5 :: int) < 0 + minutes bs_DEFAULT_TTL_MINUTES"
    by code_simp+
  ultimately show ?thesis
    using sign_in_lifecycle [of example_auth "''k1''" "[7, 255]" plain_http signed_in_request _ id None "[]" "\<lambda>_. 0" 5 "''k2''" 6]
    by (simp add: plain_http_def)
qed

text \<open>Sign-in by assertion: a session is opened only for a request over loopback with an assertion
  valid for the configured team and application, under the label of the person it names; a refused
  request opens no session. Either way the key and the agent tokens stay as they were.
\<close>

theorem access_sign_in_sound:
  assumes "http_ok hl"
    and "create_session_from_access sha hl lib env st peer headers now kt net bytes t = (st', answer)"
  shows "(is_ok answer \<longrightarrow>
      (\<exists>token config keys cl identity. header_get headers ACCESS_ASSERTION_HEADER = Some token \<and>
        av_config (as_verifier st) = Some config \<and> ip_is_loopback peer \<and>
        valid_assertion lib keys config (sint now) token cl identity \<and>
        (\<forall>later. later < t 1 + minutes bs_DEFAULT_TTL_MINUTES \<longrightarrow>
           bs_resolve sha (as_sessions st') (generate bytes) later = Some (''access:'' @ vi_email identity)))) \<and>
    (\<not> is_ok answer \<longrightarrow> as_sessions st' = as_sessions st \<and> answer = Err PermissionDeniedAdmin) \<and>
    (as_admin_key st' = as_admin_key st \<and> as_tokens st' = as_tokens st)"
proof -
  let ?assertion = "unwrap_or (Option.bind (header_get headers ACCESS_ASSERTION_HEADER) (hv_to_str hl)) []"
  obtain v verdict n where verify: "av_verify lib (as_verifier st) ?assertion peer now kt net = (v, verdict, n)"
    using prod_cases3 by blast
  have refused: "\<not> is_ok answer \<longrightarrow> as_sessions st' = as_sessions st \<and> answer = Err PermissionDeniedAdmin"
    using assms(2) verify by (auto simp: create_session_from_access_def Let_def split: sum.splits prod.splits)
  have kept: "as_admin_key st' = as_admin_key st \<and> as_tokens st' = as_tokens st"
    using assms(2) verify
    by (auto simp: create_session_from_access_def issue_session_def Let_def split: sum.splits prod.splits)
  have opened: "\<exists>token config keys cl identity. header_get headers ACCESS_ASSERTION_HEADER = Some token \<and>
        av_config (as_verifier st) = Some config \<and> ip_is_loopback peer \<and>
        valid_assertion lib keys config (sint now) token cl identity \<and>
        (\<forall>later. later < t 1 + minutes bs_DEFAULT_TTL_MINUTES \<longrightarrow>
           bs_resolve sha (as_sessions st') (generate bytes) later = Some (''access:'' @ vi_email identity))"
    if "is_ok answer"
  proof -
  from that obtain identity where identity: "verdict = Ok identity"
    using assms(2) verify by (auto simp: create_session_from_access_def Let_def split: sum.splits prod.splits)
  then have st': "st' = fst (issue_session sha hl env (st\<lparr>as_verifier := v\<rparr>) headers (session_label identity) bytes t)"
    using assms(2) verify by (auto simp: create_session_from_access_def Let_def split: prod.splits)
  from av_verify_accepts [OF verify [unfolded identity]] obtain config keys where config: "av_config (as_verifier st) = Some config"
    "ip_is_loopback peer" and ok: "verify_assertion lib ?assertion keys config now = Ok identity"
    by blast
  have "?assertion \<noteq> []" using ok by (auto simp: verify_assertion_def)
  then obtain token where "header_get headers ACCESS_ASSERTION_HEADER = Some token" and "?assertion = token"
    using assms(1) by (cases "header_get headers ACCESS_ASSERTION_HEADER")
      (auto simp: http_ok_def unwrap_or_def split: option.splits)
  moreover obtain cl where "valid_assertion lib keys config (sint now) ?assertion cl identity"
    using ok unfolding verify_assertion_split valid_assertion_def using check_claims_sound by blast
  moreover have "bs_resolve sha (as_sessions st') (generate bytes) later = Some (''access:'' @ vi_email identity)"
    if "later < t 1 + minutes bs_DEFAULT_TTL_MINUTES" for later
    unfolding st' session_label_def [symmetric] using that by (rule issued_session_resolves)
  ultimately show ?thesis
    using config by (intro exI conjI allI impI) (assumption | simp)+
  qed
  show ?thesis by (intro conjI impI) (use opened refused kept in auto)
qed

definition example_edge_auth :: auth_state where
  "example_edge_auth = example_auth\<lparr>as_verifier := example_verifier\<rparr>"

definition example_edge_sign_in :: "ip_addr \<Rightarrow> auth_state \<times> (app_error + string)" where
  "example_edge_sign_in peer = create_session_from_access id plain_http example_lib None example_edge_auth peer
     [(''Cf-Access-Jwt-Assertion'', ''h.p.s'')] 900 (\<lambda>_. 0) (\<lambda>_. Answer 200 ''200 OK'' (Ok ''keys'')) [1, 2] (\<lambda>_. 0)"

lemma example_edge:
  assumes "example_edge_sign_in (V4 127 0 0 1) = (st', answer)"
  shows "is_ok answer" and "bs_resolve id (as_sessions st') (generate [1, 2]) 0 = Some ''access:op@team.example''"
proof -
  have header: "header_get [(''Cf-Access-Jwt-Assertion'', ''h.p.s'')] ACCESS_ASSERTION_HEADER = Some ''h.p.s''" by code_simp
  have [simp]: "hv_to_str plain_http = Some" "as_verifier example_edge_auth = example_verifier"
    by (simp_all add: plain_http_def example_edge_auth_def)
  have label: "session_label example_identity = ''access:op@team.example''" by (simp add: session_label_def example_identity_def)
  have "0 < (\<lambda>_. 0) 1 + minutes bs_DEFAULT_TTL_MINUTES" by (simp add: minutes_def bs_DEFAULT_TTL_MINUTES_def)
  note resolves = issued_session_resolves [OF this, of id plain_http None _ _ "''access:op@team.example''" "[1, 2]"]
  show "is_ok answer" and "bs_resolve id (as_sessions st') (generate [1, 2]) 0 = Some ''access:op@team.example''"
    using assms resolves unfolding example_edge_sign_in_def create_session_from_access_def
    by (auto simp add: header label example_av_verify Let_def split: prod.splits) (metis fst_conv)
qed

theorem access_sign_in_sound_witness:
  "bs_resolve id (as_sessions (fst (example_edge_sign_in (V4 127 0 0 1)))) (generate [1, 2]) 0 =
     Some ''access:op@team.example'' \<and>
   (\<exists>config keys cl identity. av_config (as_verifier example_edge_auth) = Some config \<and>
      valid_assertion example_lib keys config 900 ''h.p.s'' cl identity) \<and>
   as_sessions (fst (example_edge_sign_in (V4 10 0 0 1))) = []"
proof -
  have ok: "is_ok (snd (example_edge_sign_in (V4 127 0 0 1)))" using example_edge(1) [OF prod.collapse [symmetric]] .
  have refused: "\<not> is_ok (snd (example_edge_sign_in (V4 10 0 0 1)))" by code_simp
  have now: "sint (900 :: i64) = 900" by simp
  have header: "header_get [(''Cf-Access-Jwt-Assertion'', ''h.p.s'')] ACCESS_ASSERTION_HEADER = Some ''h.p.s''" by code_simp
  note sound = access_sign_in_sound [OF http_ok_plain, of id example_lib None example_edge_auth _
      "[(''Cf-Access-Jwt-Assertion'', ''h.p.s'')]" 900 "\<lambda>_. 0" "\<lambda>_. Answer 200 ''200 OK'' (Ok ''keys'')" "[1, 2]" "\<lambda>_. 0",
      folded example_edge_sign_in_def, OF prod.collapse [symmetric]]
  have "\<exists>config keys cl identity. av_config (as_verifier example_edge_auth) = Some config \<and>
      valid_assertion example_lib keys config 900 ''h.p.s'' cl identity"
    using sound [THEN conjunct1, rule_format, OF ok] header by (auto simp only: now option.inject)
  moreover have "as_sessions (fst (example_edge_sign_in (V4 10 0 0 1))) = []"
    using sound refused by (simp add: example_edge_auth_def example_auth_def)
  moreover have "bs_resolve id (as_sessions (fst (example_edge_sign_in (V4 127 0 0 1)))) (generate [1, 2]) 0 =
     Some ''access:op@team.example''" using example_edge(2) [OF prod.collapse [symmetric]] .
  ultimately show ?thesis by blast
qed

section \<open>How long a revocation holds\<close>

text \<open>The two tasks without interleaving: a handler's two writes, a cleanup's two halves.\<close>

datatype revocation_op = Invalidate string int | Cleanup int

fun revocation_op_exec :: "(string \<Rightarrow> string) \<Rightarrow> revocation \<Rightarrow> revocation_op \<Rightarrow> revocation" where
  "revocation_op_exec sha s (Invalidate key now_ms) =
     foldl (revocation_exec sha) s [PersistRevocation key now_ms, CacheRevocation key]"
| "revocation_op_exec sha s (Cleanup now_ms) = foldl (revocation_exec sha) s [CleanupRead now_ms, CleanupInstall]"

definition no_revocations :: revocation where
  "no_revocations = \<lparr>rv_table = [], rv_cache = [], rv_read = None\<rparr>"

definition cache_is_table :: "revocation \<Rightarrow> bool" where
  "cache_is_table s \<longleftrightarrow> set (rv_cache s) = fst ` set (rv_table s) \<and> rv_read s = None \<and> hm_wf (rv_table s)"

interpretation revocations: det_system no_revocations "revocation_op_exec sha" cache_is_table for sha
proof
  show "cache_is_table no_revocations"
    by (simp add: cache_is_table_def no_revocations_def)
  fix s op
  assume "cache_is_table s"
  then show "cache_is_table (revocation_op_exec sha s op)"
    by (cases op) (auto simp: cache_is_table_def revoke_api_key_def cleanup_revoked_keys_def load_revoked_key_hashes_def
        hm_wf_def distinct_map_fst_filter Let_def)
qed

lemma revocation_survives:
  assumes "(hash_api_key sha key, at_ms) \<in> set (rv_table s)"
    and "\<And>now. Cleanup now \<in> set ops \<Longrightarrow> now \<le> at_ms + days_ms 90"
  shows "(hash_api_key sha key, at_ms) \<in> set (rv_table (foldl (revocation_op_exec sha) s ops))"
  using assms
proof (induction ops arbitrary: s)
  case (Cons op ops)
  have "(hash_api_key sha key, at_ms) \<in> set (rv_table (revocation_op_exec sha s op))"
  proof (cases op)
    case (Cleanup now)
    with Cons.prems(2) [of now] have "\<not> at_ms < now - days_ms 90" by simp
    with Cleanup Cons.prems(1) show ?thesis
      by (auto simp: cleanup_revoked_keys_def load_revoked_key_hashes_def Let_def)
  qed (use Cons.prems(1) in \<open>auto simp: revoke_api_key_def Let_def\<close>)
  then show ?case using Cons.IH Cons.prems(2) by simp
qed simp

text \<open>A revoked key is refused for ninety days, whatever other keys are revoked and however often
  the cleanup runs in between, when the cleanup does not overlap a revocation.\<close>

theorem revoked_key_refused_for_90_days:
  assumes "hash_api_key sha key \<notin> fst ` set (rv_table (foldl (revocation_op_exec sha) no_revocations before))"
    and "\<And>now. Cleanup now \<in> set after \<Longrightarrow> now \<le> at_ms + days_ms 90"
    and "s = foldl (revocation_op_exec sha) no_revocations (before @ Invalidate key at_ms # after)"
    and "presented_key hl headers query = Some key"
  shows "check_auth_with_query sha hl (st\<lparr>as_admin_key := Some (Some key), as_revoked := Some (rv_cache s)\<rparr>) headers query
       = Err PermissionDeniedAdmin"
proof -
  let ?before = "foldl (revocation_op_exec sha) no_revocations before"
  have "(hash_api_key sha key, at_ms) \<in> set (rv_table (revocation_op_exec sha ?before (Invalidate key at_ms)))"
    using assms(1) by (simp add: revoke_api_key_def Let_def)
  from revocation_survives [OF this assms(2)] have "(hash_api_key sha key, at_ms) \<in> set (rv_table s)"
    by (simp add: assms(3))
  moreover have "cache_is_table s"
    unfolding assms(3) by (rule revocations.after_inv)
  ultimately have "hash_api_key sha key \<in> set (rv_cache s)"
    by (force simp: cache_is_table_def)
  with assms(4) show ?thesis
    by (simp add: check_auth_with_query_def presented_key_def)
qed

theorem revoked_key_refused_for_90_days_witness:
  "check_auth_with_query id plain_http (example_auth\<lparr>as_admin_key := Some (Some ''k1''),
      as_revoked := Some (rv_cache (foldl (revocation_op_exec id) no_revocations ([] @ Invalidate ''k1'' 0 # [Cleanup 5])))\<rparr>)
     [(''X-API-Key'', ''k1'')] [] = Err PermissionDeniedAdmin"
proof (rule revoked_key_refused_for_90_days [OF _ _ refl])
  show "now \<le> 0 + days_ms 90" if "Cleanup now \<in> set [Cleanup 5]" for now
    using that by (simp add: days_ms_def)
  show "presented_key plain_http [(''X-API-Key'', ''k1'')] [] = Some ''k1''" by code_simp
qed (simp add: no_revocations_def)

text \<open>The cleanup can undo a revocation it overlaps: when the handler writes between the two
  halves of a cleanup, the cleanup replaces the cache by what it read before, and the key that was
  just revoked is accepted, although the table has it, until the next cleanup.\<close>

theorem cleanup_race_drops_revocation:
  "let s = foldl (revocation_exec sha) no_revocations
       [CleanupRead now_ms, PersistRevocation key now_ms, CacheRevocation key, CleanupInstall]
   in is_api_key_revoked sha None (rv_table s) key = Ok True \<and>
      check_auth sha plain_http (st\<lparr>as_admin_key := Some (Some key), as_revoked := Some (rv_cache s)\<rparr>)
        [(ADMIN_API_KEY_HEADER, key)] = Ok ()"
  by (simp add: no_revocations_def cleanup_revoked_keys_def load_revoked_key_hashes_def revoke_api_key_def
      is_api_key_revoked_def check_auth_Ok_iff presented_key_def keyed_def header_get_def plain_http_def Let_def)

text \<open>A revoked key that is still configured comes back after ninety days.\<close>

theorem revocation_expires:
  "let s = foldl (revocation_op_exec sha) no_revocations [Invalidate key 0, Cleanup (days_ms 90 + 1)]
   in check_auth sha plain_http (st\<lparr>as_admin_key := Some (Some key), as_revoked := Some (rv_cache s)\<rparr>)
        [(ADMIN_API_KEY_HEADER, key)] = Ok ()"
  by (simp add: no_revocations_def cleanup_revoked_keys_def load_revoked_key_hashes_def revoke_api_key_def
      check_auth_Ok_iff presented_key_def keyed_def header_get_def plain_http_def Let_def days_ms_def)

section \<open>The rate limiter\<close>

lemma rl_check_frame: "ip' \<noteq> ip \<Longrightarrow> hm_get (fst (rl_check bl m ip t0 t1)) ip' = hm_get m ip'"
  by (simp add: rl_check_def Let_def case_prod_unfold)

lemma rl_cleanup_keeps_recent:
  "hm_wf m \<Longrightarrow> hm_get (rl_cleanup m now) ip = option_filter (\<lambda>(_, seen). now - seen < IDLE_THRESHOLD) (hm_get m ip)"
  by (auto simp: rl_cleanup_def IDLE_THRESHOLD_def minutes_def option_filter_def split: option.splits)

end
