(* ===== verification/Approval_Gate.thy ===== *)
theory Approval_Gate
  imports Capability_Gate
begin

text \<open>
  \<open>handlers/command_approval.rs\<close>: asking a person before an agent's tool calls run, with what was
  trusted before (\<open>db/trusted_commands.rs\<close> and the session's memory), the classification it reads
  (\<open>managers/mcp.rs\<close>) and the three answers of the dashboard (\<open>handlers/commands.rs\<close>).

  The answer a waiting request gets is an argument: a decision, or \<open>None\<close> when the responder was
  dropped. What the gate writes to the inbox, the audit log and the event channel is a list of
  \<open>approval_event\<close>s in order; failures of those writes are only logged by the code and have no
  effect here. Identifiers are arguments. The entries of a request are JSON objects with fixed
  fields in the code and a record here.
\<close>

section \<open>How a tool is classified (managers/mcp.rs)\<close>

definition get_tool_risk_level :: "mcp_state \<Rightarrow> string \<Rightarrow> RiskLevel option" where
  "get_tool_risk_level st tool =
     Option.bind (hm_get (st_tool_index st) tool) (\<lambda>server_id.
       Option.bind (hm_get (st_servers st) server_id) (\<lambda>handle.
         map_option ts_effective_risk_level (compute_tool_security handle tool)))"

definition is_tool_destructive :: "mcp_state \<Rightarrow> string \<Rightarrow> bool" where
  "is_tool_destructive st tool =
     (case hm_get (st_tool_index st) tool of
        None \<Rightarrow> True
      | Some server_id \<Rightarrow>
          (case hm_get (st_servers st) server_id of
             None \<Rightarrow> True
           | Some handle \<Rightarrow>
               (case find (\<lambda>t. tool_name t = tool) (sh_tools handle) of
                  None \<Rightarrow> True
                | Some t \<Rightarrow>
                    (case tool_annotations t of
                       None \<Rightarrow> True
                     | Some ann \<Rightarrow>
                         if unwrap_or (Option.bind (json_get ann ''readOnlyHint'') json_as_bool) False then False
                         else unwrap_or (Option.bind (json_get ann ''destructiveHint'') json_as_bool) True))))"

section \<open>Trusted commands (db/trusted_commands.rs)\<close>

text \<open>Rows of an agent and a pattern; the table's check leaves only exact patterns.\<close>

type_synonym trusted_table = "(string \<times> string) list"

definition is_command_trusted :: "fault \<Rightarrow> trusted_table \<Rightarrow> string \<Rightarrow> string \<Rightarrow> db_error + bool" where
  "is_command_trusted f table agent_id full_command =
     db_timeout f (length (filter (\<lambda>r. r = (agent_id, full_command)) table) > 0)"

definition delete_trusted_commands_for_agent :: "fault \<Rightarrow> trusted_table \<Rightarrow> string \<Rightarrow> trusted_table \<times> (db_error + nat)" where
  "delete_trusted_commands_for_agent f table agent_id =
     (case f of Some e \<Rightarrow> (table, Err e)
      | None \<Rightarrow> (filter (\<lambda>(a, _). a \<noteq> agent_id) table, Ok (length (filter (\<lambda>(a, _). a = agent_id) table))))"

definition add_trusted_command :: "fault \<Rightarrow> trusted_table \<Rightarrow> string \<Rightarrow> string \<Rightarrow> trusted_table \<times> (db_error + unit)" where
  "add_trusted_command f table agent_id pattern =
     (case f of Some e \<Rightarrow> (table, Err e)
      | None \<Rightarrow> (if (agent_id, pattern) \<in> set table then table else table @ [(agent_id, pattern)], Ok ()))"

section \<open>Requests\<close>

datatype CommandApprovalDecision = Approve | Trust | DenyCommand

datatype McpLogLevel =
    LogDebug | LogInfo | LogNotice | LogWarning | LogError | LogCritical | LogAlert | LogEmergency

record tool_call =
  tc_id :: string
  tc_name :: string
  tc_arguments :: json

record untrusted_command =
  uc_call_id :: string
  uc_command :: string
  uc_command_name :: string
  uc_severity :: McpLogLevel

record approval_state =
  ap_trusted :: trusted_table
  ap_session_trusted :: "(string, string list) hmap"

definition session_trusts :: "approval_state \<Rightarrow> string \<Rightarrow> string \<Rightarrow> bool" where
  "session_trusts st agent_id n = (n \<in> set (unwrap_or (hm_get (ap_session_trusted st) agent_id) []))"

fun command_severity :: "RiskLevel option \<Rightarrow> McpLogLevel" where
  "command_severity (Some Dangerous) = LogError"
| "command_severity (Some Moderate) = LogWarning"
| "command_severity (Some Safe) = LogWarning"
| "command_severity None = LogError"

definition more_severe :: "McpLogLevel \<Rightarrow> McpLogLevel \<Rightarrow> McpLogLevel" where
  "more_severe a b = (if a = LogError \<or> b = LogError then LogError else LogWarning)"

text \<open>Whether a tool without a sandbox validator is asked about.\<close>

definition needs_approval :: "mcp_state \<Rightarrow> string \<Rightarrow> bool" where
  "needs_approval ms tool =
     (case get_tool_risk_level ms tool of
        Some Safe \<Rightarrow> False
      | Some _ \<Rightarrow> True
      | None \<Rightarrow> if is_kernel_native_tool tool then False else is_tool_destructive ms tool)"

definition command_of :: "tool_call \<Rightarrow> string option" where
  "command_of call = Option.bind (json_get (tc_arguments call) ''command'') json_as_str"

definition first_word :: "string \<Rightarrow> string" where
  "first_word cmd = (case split_whitespace cmd of [] \<Rightarrow> cmd | w # _ \<Rightarrow> w)"

text \<open>The entry a call adds to the request, if any; \<open>f\<close> is the fault of the trust lookup.\<close>

definition untrusted_entry ::
  "mcp_state \<Rightarrow> approval_state \<Rightarrow> string \<Rightarrow> fault \<Rightarrow> tool_call \<Rightarrow> untrusted_command option" where
  "untrusted_entry ms st agent_id f call =
     (if get_kernel_validator (tc_name call) \<noteq> Some ''sandbox'' then
        (if needs_approval ms (tc_name call) \<and> \<not> session_trusts st agent_id (tc_name call)
         then Some \<lparr>uc_call_id = tc_id call, uc_command = ''[destructive] '' @ tc_name call,
                    uc_command_name = tc_name call,
                    uc_severity = command_severity (get_tool_risk_level ms (tc_name call))\<rparr>
         else None)
      else
        (case command_of call of
           None \<Rightarrow> None
         | Some cmd \<Rightarrow>
             (let db_trusted = (case is_command_trusted f (ap_trusted st) agent_id cmd of Inl _ \<Rightarrow> False | Inr b \<Rightarrow> b);
                  name = first_word cmd
              in if \<not> db_trusted \<and> \<not> session_trusts st agent_id name
                 then Some \<lparr>uc_call_id = tc_id call, uc_command = cmd, uc_command_name = name, uc_severity = LogError\<rparr>
                 else None)))"

fun collect_untrusted_commands ::
  "mcp_state \<Rightarrow> approval_state \<Rightarrow> string \<Rightarrow> (nat \<Rightarrow> fault) \<Rightarrow> McpLogLevel \<Rightarrow> tool_call list
   \<Rightarrow> untrusted_command list \<times> McpLogLevel" where
  "collect_untrusted_commands ms st agent_id f severity [] = ([], severity)"
| "collect_untrusted_commands ms st agent_id f severity (call # calls) =
     (case untrusted_entry ms st agent_id (f 0) call of
        None \<Rightarrow> collect_untrusted_commands ms st agent_id (\<lambda>i. f (Suc i)) severity calls
      | Some cmd \<Rightarrow>
          (let (cmds, worst) = collect_untrusted_commands ms st agent_id (\<lambda>i. f (Suc i))
                 (more_severe severity (uc_severity cmd)) calls
           in (cmd # cmds, worst)))"

section \<open>The gate\<close>

datatype notification_kind = ApprovalItem | NoticeItem

datatype approval_event =
    AutoApproved string string string "string list"
  | RequestRecorded string notification_kind McpLogLevel string string string bool
  | RequestAnnounced string string "untrusted_command list"
  | RequestSettled string string
  | ResultAnnounced string string

definition extract_denied_ids :: "untrusted_command list \<Rightarrow> string list" where
  "extract_denied_ids cmds = remdups (map uc_call_id cmds)"

definition handle_cron_approval :: "tool_call list \<Rightarrow> string \<Rightarrow> string \<Rightarrow> approval_event list" where
  "handle_cron_approval calls agent_id approval_id =
     (if calls = [] then []
      else [AutoApproved ''CRON_AUTO_APPROVED'' agent_id approval_id (map tc_name calls),
            ResultAnnounced approval_id ''cron_auto_approved''])"

definition handle_yolo_approval :: "tool_call list \<Rightarrow> string \<Rightarrow> string \<Rightarrow> approval_event list" where
  "handle_yolo_approval calls agent_id approval_id =
     (if calls = [] then []
      else [AutoApproved ''YOLO_AUTO_APPROVED'' agent_id approval_id
              (map (\<lambda>c. case command_of c of Some cmd \<Rightarrow> cmd | None \<Rightarrow> ''[tool] '' @ tc_name c) calls),
            ResultAnnounced approval_id ''auto_approved''])"

definition settle_approval :: "string \<Rightarrow> string \<Rightarrow> approval_event list" where
  "settle_approval approval_id decision = [RequestSettled approval_id decision, ResultAnnounced approval_id decision]"

definition commands_summary :: "untrusted_command list \<Rightarrow> string" where
  "commands_summary cmds = join_with [CHR 0x0A] (map uc_command cmds)"

text \<open>U+2014 in UTF-8.\<close>

definition long_dash :: string where
  "long_dash = [CHR 0xE2, CHR 0x80, CHR 0x94]"

definition record_unanswered_notice ::
  "string \<Rightarrow> string \<Rightarrow> McpLogLevel \<Rightarrow> untrusted_command list \<Rightarrow> approval_event list" where
  "record_unanswered_notice approval_id agent_id severity cmds =
     [RequestRecorded (approval_id @ '':unanswered'') NoticeItem severity
        (show_nat (length cmds) @ '' command(s) denied '' @ long_dash @ '' the request closed before anyone answered'')
        agent_id (commands_summary cmds) False]"

fun add_trusted_commands :: "(nat \<Rightarrow> fault) \<Rightarrow> string \<Rightarrow> string list \<Rightarrow> trusted_table \<Rightarrow> trusted_table" where
  "add_trusted_commands f agent_id [] table = table"
| "add_trusted_commands f agent_id (c # cs) table =
     add_trusted_commands (\<lambda>i. f (Suc i)) agent_id cs (fst (add_trusted_command (f 0) table agent_id c))"

definition trust_names :: "string \<Rightarrow> string list \<Rightarrow> (string, string list) hmap \<Rightarrow> (string, string list) hmap" where
  "trust_names agent_id names m =
     foldl (\<lambda>m n. hm_insert agent_id (List.insert n (unwrap_or (hm_get m agent_id) [])) m) m names"

text \<open>\<open>f\<close> are the faults of the writes to the table.\<close>

definition process_approval_decision ::
  "(nat \<Rightarrow> fault) \<Rightarrow> CommandApprovalDecision option \<Rightarrow> string \<Rightarrow> string \<Rightarrow> untrusted_command list \<Rightarrow> McpLogLevel
   \<Rightarrow> approval_state \<Rightarrow> approval_state \<times> string list \<times> approval_event list" where
  "process_approval_decision f decision approval_id agent_id cmds severity st =
     (case decision of
        Some Approve \<Rightarrow>
          (st\<lparr>ap_trusted := add_trusted_commands f agent_id (map uc_command cmds) (ap_trusted st)\<rparr>, [],
           settle_approval approval_id ''approved'')
      | Some Trust \<Rightarrow>
          (st\<lparr>ap_session_trusted := trust_names agent_id (map uc_command_name cmds) (ap_session_trusted st)\<rparr>, [],
           settle_approval approval_id ''trusted'')
      | Some DenyCommand \<Rightarrow> (st, extract_denied_ids cmds, settle_approval approval_id ''denied by user'')
      | None \<Rightarrow> (st, extract_denied_ids cmds,
          settle_approval approval_id ''channel closed'' @ record_unanswered_notice approval_id agent_id severity cmds))"

text \<open>
  The faults are those of the trust lookups and of the trust writes. The trust state may change
  while the request waits: \<open>st'\<close> is the state when the answer arrives.
\<close>

definition approval_request_events :: "string \<Rightarrow> string \<Rightarrow> untrusted_command list \<Rightarrow> McpLogLevel \<Rightarrow> approval_event list" where
  "approval_request_events approval_id agent_id cmds severity =
     [RequestRecorded approval_id ApprovalItem severity (show_nat (length cmds) @ '' command(s) awaiting approval'')
        agent_id (commands_summary cmds) True,
      RequestAnnounced approval_id agent_id cmds]"

record approval_inputs =
  ai_approval_id :: string
  ai_read_faults :: "nat \<Rightarrow> fault"
  ai_write_faults :: "nat \<Rightarrow> fault"
  ai_meanwhile :: "approval_state \<Rightarrow> approval_state"
  ai_answer :: "CommandApprovalDecision option"

definition run_approval_gate ::
  "mcp_state \<Rightarrow> approval_inputs \<Rightarrow> tool_call list \<Rightarrow> string \<Rightarrow> bool \<Rightarrow> bool \<Rightarrow> approval_state
   \<Rightarrow> approval_state \<times> string list \<times> approval_event list" where
  "run_approval_gate ms inp calls agent_id yolo_mode cron_source st =
     (if cron_source then (st, [], handle_cron_approval calls agent_id (ai_approval_id inp))
      else if yolo_mode then (st, [], handle_yolo_approval calls agent_id (ai_approval_id inp))
      else case collect_untrusted_commands ms st agent_id (ai_read_faults inp) LogWarning calls of
        ([], _) \<Rightarrow> (st, [], [])
      | (cmds, severity) \<Rightarrow>
          (case process_approval_decision (ai_write_faults inp) (ai_answer inp) (ai_approval_id inp) agent_id cmds severity
                  (ai_meanwhile inp st) of
             (st', denied, evs) \<Rightarrow>
               (st', denied, approval_request_events (ai_approval_id inp) agent_id cmds severity @ evs)))"

end
