(* ===== verification/Approval_Laws.thy ===== *)
theory Approval_Laws
  imports Approval_Gate
begin

text \<open>
  What the approval gate guarantees: which calls of a batch it lets run, and exactly what an answer
  changes for later calls.
\<close>

section \<open>Which calls are asked about\<close>

lemma collect_length_free:
  "fst (collect_untrusted_commands ms st agent f severity calls) =
     List.map_filter (\<lambda>(i, call). untrusted_entry ms st agent (f i) call) (enumerate 0 calls)"
proof -
  have "fst (collect_untrusted_commands ms st agent (\<lambda>i. f (n + i)) severity calls) =
     List.map_filter (\<lambda>(i, call). untrusted_entry ms st agent (f i) call) (enumerate n calls)" for n severity
  proof (induction calls arbitrary: n severity)
    case (Cons call calls)
    have "(\<lambda>i. f (n + Suc i)) = (\<lambda>i. f (Suc n + i))" by simp
    then show ?case
      using Cons.IH [of "Suc n"]
      by (simp add: List.map_filter_simps split: option.splits prod.splits) (metis fst_conv)
  qed (simp add: List.map_filter_simps)
  from this [of 0] show ?thesis by simp
qed

lemma untrusted_entry_id: "untrusted_entry ms st agent f call = Some cmd \<Longrightarrow> uc_call_id cmd = tc_id call"
  by (auto simp: untrusted_entry_def Let_def split: if_splits option.splits)

definition asked :: "mcp_state \<Rightarrow> approval_state \<Rightarrow> string \<Rightarrow> (nat \<Rightarrow> fault) \<Rightarrow> tool_call list \<Rightarrow> nat \<Rightarrow> bool" where
  "asked ms st agent f calls i \<longleftrightarrow> i < length calls \<and> untrusted_entry ms st agent (f i) (calls ! i) \<noteq> None"

lemma collected_ids:
  "uc_call_id ` set (fst (collect_untrusted_commands ms st agent f severity calls)) =
     {tc_id (calls ! i) |i. asked ms st agent f calls i}" (is "?l = ?r")
proof
  show "?l \<subseteq> ?r"
    using untrusted_entry_id
    by (fastforce simp: collect_length_free map_filter_def in_set_enumerate_eq asked_def)
  show "?r \<subseteq> ?l"
  proof
    fix x assume "x \<in> ?r"
    then obtain i cmd where i: "i < length calls" and cmd: "untrusted_entry ms st agent (f i) (calls ! i) = Some cmd"
      and x: "x = tc_id (calls ! i)" by (auto simp: asked_def)
    have "(i, calls ! i) \<in> set (enumerate 0 calls)" using i by (simp add: in_set_enumerate_eq)
    then have "cmd \<in> set (List.map_filter (\<lambda>(i, call). untrusted_entry ms st agent (f i) call) (enumerate 0 calls))"
      using cmd by (force simp: map_filter_def image_iff)
    then show "x \<in> ?l" using untrusted_entry_id [OF cmd] x by (force simp: collect_length_free)
  qed
qed

text \<open>What lets a call pass without asking.\<close>

definition trust_key :: "tool_call \<Rightarrow> string" where
  "trust_key call = (if get_kernel_validator (tc_name call) = Some ''sandbox''
     then first_word (unwrap_or (command_of call) []) else tc_name call)"

definition in_scope :: "mcp_state \<Rightarrow> tool_call \<Rightarrow> bool" where
  "in_scope ms call = (if get_kernel_validator (tc_name call) = Some ''sandbox''
     then command_of call \<noteq> None else needs_approval ms (tc_name call))"

definition exactly_trusted :: "approval_state \<Rightarrow> string \<Rightarrow> fault \<Rightarrow> tool_call \<Rightarrow> bool" where
  "exactly_trusted st agent f call \<longleftrightarrow> get_kernel_validator (tc_name call) = Some ''sandbox'' \<and> f = None \<and>
     (\<exists>cmd. command_of call = Some cmd \<and> (agent, cmd) \<in> set (ap_trusted st))"

lemma is_command_trusted_iff:
  "(case is_command_trusted f table agent cmd of Inl _ \<Rightarrow> False | Inr b \<Rightarrow> b) \<longleftrightarrow> f = None \<and> (agent, cmd) \<in> set table"
  by (cases f) (auto simp: is_command_trusted_def db_timeout_def filter_empty_conv)

lemma untrusted_entry_None_iff:
  "untrusted_entry ms st agent f call = None \<longleftrightarrow>
     \<not> in_scope ms call \<or> session_trusts st agent (trust_key call) \<or> exactly_trusted st agent f call"
  by (auto simp: untrusted_entry_def is_command_trusted_iff in_scope_def trust_key_def exactly_trusted_def Let_def
      split: option.splits)

section \<open>What the gate lets run\<close>

lemma process_denied:
  "set (fst (snd (process_approval_decision f decision aid agent cmds severity st))) =
     (if decision \<in> {Some Approve, Some Trust} then {} else uc_call_id ` set cmds)"
  by (auto simp: process_approval_decision_def extract_denied_ids_def
      split: option.splits CommandApprovalDecision.splits)

lemma run_approval_gate_denied:
  "set (fst (snd (run_approval_gate ms inp calls agent yolo cron st))) =
     (if cron \<or> yolo \<or> ai_answer inp \<in> {Some Approve, Some Trust} then {}
      else {tc_id (calls ! i) |i. asked ms st agent (ai_read_faults inp) calls i})"
proof (cases "cron \<or> yolo")
  case True
  then show ?thesis by (auto simp: run_approval_gate_def)
next
  case False
  obtain cmds severity where collect:
    "collect_untrusted_commands ms st agent (ai_read_faults inp) LogWarning calls = (cmds, severity)" by fastforce
  have ids: "uc_call_id ` set cmds = {tc_id (calls ! i) |i. asked ms st agent (ai_read_faults inp) calls i}"
    using collected_ids [of ms st agent "ai_read_faults inp" LogWarning calls] collect by simp
  show ?thesis
  proof (cases cmds)
    case Nil
    then show ?thesis using False collect ids by (auto simp: run_approval_gate_def)
  next
    case (Cons c cs)
    then have "fst (snd (run_approval_gate ms inp calls agent yolo cron st)) =
        fst (snd (process_approval_decision (ai_write_faults inp) (ai_answer inp) (ai_approval_id inp) agent cmds severity
          (ai_meanwhile inp st)))"
      using False collect by (simp add: run_approval_gate_def split: prod.splits)
    then show ?thesis using False ids by (simp add: process_denied)
  qed
qed

text \<open>C5. Outside the scheduler's and the operator's automatic modes, a call runs only if nobody had to
  be asked or the person asked agreed: the denied calls of a batch are, when the answer is no or
  never comes, exactly those with the identifier of a call that is in scope, whose agent was not
  trusted with its command word or tool for the session, and whose exact command is not stored as
  trusted or could not be looked up. The automatic modes deny nothing, change no trust, and leave
  an audit entry for every batch that has a call.
\<close>

theorem approval_gate_exact:
  "(\<not> cron \<and> \<not> yolo \<longrightarrow>
      set (fst (snd (run_approval_gate ms inp calls agent yolo cron st))) =
        (if ai_answer inp \<in> {Some Approve, Some Trust} then {}
         else {tc_id (calls ! i) |i. i < length calls \<and> in_scope ms (calls ! i) \<and>
                 \<not> session_trusts st agent (trust_key (calls ! i)) \<and>
                 \<not> exactly_trusted st agent (ai_read_faults inp i) (calls ! i)})) \<and>
   (cron \<or> yolo \<longrightarrow>
      (case run_approval_gate ms inp calls agent yolo cron st of (st', denied, evs) \<Rightarrow>
         st' = st \<and> denied = [] \<and>
         (calls \<noteq> [] \<longrightarrow> (\<exists>kind names. AutoApproved kind agent (ai_approval_id inp) names \<in> set evs \<and>
            length names = length calls))))"
proof (intro conjI impI)
  assume "\<not> cron \<and> \<not> yolo"
  then show "set (fst (snd (run_approval_gate ms inp calls agent yolo cron st))) =
        (if ai_answer inp \<in> {Some Approve, Some Trust} then {}
         else {tc_id (calls ! i) |i. i < length calls \<and> in_scope ms (calls ! i) \<and>
                 \<not> session_trusts st agent (trust_key (calls ! i)) \<and>
                 \<not> exactly_trusted st agent (ai_read_faults inp i) (calls ! i)})"
    by (auto simp: run_approval_gate_denied asked_def untrusted_entry_None_iff)
next
  assume "cron \<or> yolo"
  then show "case run_approval_gate ms inp calls agent yolo cron st of (st', denied, evs) \<Rightarrow>
         st' = st \<and> denied = [] \<and>
         (calls \<noteq> [] \<longrightarrow> (\<exists>kind names. AutoApproved kind agent (ai_approval_id inp) names \<in> set evs \<and>
            length names = length calls))"
    by (auto simp: run_approval_gate_def handle_cron_approval_def handle_yolo_approval_def)
qed

definition no_servers :: mcp_state where
  "no_servers = \<lparr>st_servers = [], st_tool_index = []\<rparr>"

definition shell_call :: "string \<Rightarrow> string \<Rightarrow> tool_call" where
  "shell_call i cmd = \<lparr>tc_id = i, tc_name = ''execute_command'', tc_arguments = JObj [(''command'', JStr cmd)]\<rparr>"

definition plugin_call :: "string \<Rightarrow> string \<Rightarrow> tool_call" where
  "plugin_call i name = \<lparr>tc_id = i, tc_name = name, tc_arguments = JObj []\<rparr>"

definition example_inputs :: "CommandApprovalDecision option \<Rightarrow> approval_inputs" where
  "example_inputs answer = \<lparr>ai_approval_id = ''a1'', ai_read_faults = (\<lambda>_. None), ai_write_faults = (\<lambda>_. None),
     ai_meanwhile = (\<lambda>s. s), ai_answer = answer\<rparr>"

definition example_trust :: approval_state where
  "example_trust = \<lparr>ap_trusted = [(''ann'', ''ls -l'')], ap_session_trusted = []\<rparr>"

definition example_batch :: "tool_call list" where
  "example_batch = [shell_call ''c1'' ''ls -l'', shell_call ''c2'' ''rm x'', plugin_call ''c3'' ''mgp.tools.discover'']"

theorem approval_gate_exact_witness:
  "set (fst (snd (run_approval_gate no_servers (example_inputs None) example_batch ''ann'' False False example_trust))) = {''c2''} \<and>
   fst (snd (run_approval_gate no_servers (example_inputs None) example_batch ''ann'' True False example_trust)) = []"
proof -
  have "fst (snd (run_approval_gate no_servers (example_inputs None) example_batch ''ann'' True False example_trust)) = []"
    using approval_gate_exact [of False True no_servers "example_inputs None" example_batch "''ann''" example_trust]
    by (simp split: prod.splits)
  moreover have "{tc_id (example_batch ! i) |i. i < length example_batch \<and> in_scope no_servers (example_batch ! i) \<and>
      \<not> session_trusts example_trust ''ann'' (trust_key (example_batch ! i)) \<and>
      \<not> exactly_trusted example_trust ''ann'' None (example_batch ! i)} = {''c2''}" (is "?s = _")
  proof -
    have "in_scope no_servers (example_batch ! 1)" and "\<not> session_trusts example_trust ''ann'' (trust_key (example_batch ! 1))"
      and "\<not> in_scope no_servers (example_batch ! 2)" and "tc_id (example_batch ! 1) = ''c2''"
      by code_simp+
    moreover have "exactly_trusted example_trust ''ann'' None (example_batch ! 0)"
      and "\<not> exactly_trusted example_trust ''ann'' None (example_batch ! 1)"
      by (simp_all add: exactly_trusted_def example_batch_def shell_call_def command_of_def json_get_def json_as_str_def
          example_trust_def get_kernel_validator_def KERNEL_TOOL_VALIDATORS_def)
    moreover have "i = 0 \<or> i = 1 \<or> i = 2" if "i < length example_batch" for i
      using that by (auto simp: example_batch_def)
    moreover have "1 < length example_batch" by (simp add: example_batch_def)
    ultimately show ?thesis
      by (intro equalityI subsetI) (simp_all, metis+)
  qed
  ultimately show ?thesis
    using approval_gate_exact [of False False no_servers "example_inputs None" example_batch "''ann''" example_trust]
    by (simp add: example_inputs_def)
qed

section \<open>What an answer changes\<close>

lemma add_trusted_commands_rows:
  "(\<And>i. f i = None) \<Longrightarrow> set (add_trusted_commands f agent cs table) = set table \<union> Pair agent ` set cs"
  by (induction f agent cs table rule: add_trusted_commands.induct) (auto simp: add_trusted_command_def)

lemma trust_names_get:
  "set (unwrap_or (hm_get (trust_names agent names m) a) []) =
     set (unwrap_or (hm_get m a) []) \<union> (if a = agent then set names else {})"
  unfolding trust_names_def by (induction names arbitrary: m) auto

definition remembered :: "CommandApprovalDecision option \<Rightarrow> untrusted_command list \<Rightarrow> fault \<Rightarrow> tool_call \<Rightarrow> bool" where
  "remembered decision cmds f call \<longleftrightarrow>
     decision = Some Approve \<and> get_kernel_validator (tc_name call) = Some ''sandbox'' \<and> f = None \<and>
       command_of call \<in> Some ` uc_command ` set cmds \<or>
     decision = Some Trust \<and> trust_key call \<in> uc_command_name ` set cmds"

text \<open>What an answer changes for later calls, exactly: of the calls asked about before, only calls of
  the same agent are let through, and only those the answer covers. An approval covers the exact
  command strings of the request, for shell calls; trusting covers the words and tool names of the
  request, whatever follows the word; a refusal and a dropped request cover nothing and leave the
  stored trust as it was. No answer makes the gate ask about more than before.
\<close>

theorem approval_remembers_exactly:
  assumes "\<And>i. write_faults i = None"
    and "process_approval_decision write_faults decision aid agent cmds severity st = (st', denied, evs)"
  shows "untrusted_entry ms st' agent' f call = None \<longleftrightarrow>
    untrusted_entry ms st agent' f call = None \<or> agent' = agent \<and> remembered decision cmds f call"
proof (cases decision)
  case None
  then show ?thesis using assms(2)
    by (auto simp: process_approval_decision_def remembered_def untrusted_entry_None_iff)
next
  case (Some d)
  show ?thesis
  proof (cases d)
    case Approve
    then have "set (ap_trusted st') = set (ap_trusted st) \<union> Pair agent ` set (map uc_command cmds)"
      and "ap_session_trusted st' = ap_session_trusted st"
      using assms(2) Some add_trusted_commands_rows [OF assms(1)] by (auto simp: process_approval_decision_def)
    then show ?thesis using Some Approve
      by (auto simp: untrusted_entry_None_iff remembered_def exactly_trusted_def session_trusts_def)
  next
    case Trust
    then have "session_trusts st' a n \<longleftrightarrow> session_trusts st a n \<or> a = agent \<and> n \<in> uc_command_name ` set cmds" for a n
      using assms(2) Some by (auto simp: process_approval_decision_def session_trusts_def trust_names_get split: if_splits)
    moreover have "ap_trusted st' = ap_trusted st"
      using assms(2) Some Trust by (auto simp: process_approval_decision_def)
    ultimately show ?thesis using Some Trust
      by (auto simp: untrusted_entry_None_iff remembered_def exactly_trusted_def)
  next
    case DenyCommand
    then show ?thesis using assms(2) Some
      by (auto simp: process_approval_decision_def remembered_def untrusted_entry_None_iff)
  qed
qed

definition example_asked :: "untrusted_command list" where
  "example_asked = [\<lparr>uc_call_id = ''c2'', uc_command = ''rm x'', uc_command_name = ''rm'', uc_severity = LogError\<rparr>]"

theorem approval_remembers_exactly_witness:
  "untrusted_entry no_servers (fst (process_approval_decision (\<lambda>_. None) (Some Approve) ''a1'' ''ann'' example_asked LogError
      example_trust)) ''ann'' None (shell_call ''c9'' ''rm x'') = None \<and>
   untrusted_entry no_servers (fst (process_approval_decision (\<lambda>_. None) (Some Approve) ''a1'' ''ann'' example_asked LogError
      example_trust)) ''ann'' None (shell_call ''c9'' ''rm y'') \<noteq> None \<and>
   untrusted_entry no_servers (fst (process_approval_decision (\<lambda>_. None) (Some Trust) ''a1'' ''ann'' example_asked LogError
      example_trust)) ''ann'' None (shell_call ''c9'' ''rm y'') = None"
proof -
  have step: "untrusted_entry no_servers (fst (process_approval_decision (\<lambda>_. None) d ''a1'' ''ann'' example_asked LogError
      example_trust)) ''ann'' None call = None \<longleftrightarrow>
    untrusted_entry no_servers example_trust ''ann'' None call = None \<or> remembered d example_asked None call" for d call
  proof -
    obtain st' denied evs where "process_approval_decision (\<lambda>_. None) d ''a1'' ''ann'' example_asked LogError example_trust = (st', denied, evs)"
      using prod_cases3 by blast
    from approval_remembers_exactly [OF refl this, of no_servers "''ann''" None call] this show ?thesis by simp
  qed
  have "remembered (Some Approve) example_asked None (shell_call ''c9'' ''rm x'')"
    and "\<not> remembered (Some Approve) example_asked None (shell_call ''c9'' ''rm y'')"
    and "remembered (Some Trust) example_asked None (shell_call ''c9'' ''rm y'')"
    unfolding remembered_def by code_simp+
  moreover have "untrusted_entry no_servers example_trust ''ann'' None (shell_call ''c9'' ''rm y'') \<noteq> None"
    by code_simp
  ultimately show ?thesis unfolding step by blast
qed

text \<open>
  The words of shell commands and the names of tools are one set: trusting a shell command also lets
  the tool of that name run.
\<close>

theorem trusted_word_covers_tool:
  "untrusted_entry no_servers example_trust ''ann'' None (plugin_call ''c9'' ''rm'') \<noteq> None \<and>
   untrusted_entry no_servers (fst (process_approval_decision (\<lambda>_. None) (Some Trust) ''a1'' ''ann'' example_asked LogError
      example_trust)) ''ann'' None (plugin_call ''c9'' ''rm'') = None"
  by code_simp

end
