(* ===== verification/Agentic_Loop.thy ===== *)
theory Agentic_Loop
  imports Approval_Laws Gate_Laws
begin

text \<open>
  One turn of an agent: the loop of \<open>handlers/system.rs\<close> (\<open>run_agentic_loop\<close>, from the point where
  the agent has tools) that asks the engine, puts the tool calls through the approval gate, runs
  them and feeds the results back, with the path a call takes in \<open>managers/registry.rs\<close> and the
  texts of rejections.

  The engine, the clock of timeouts and everything a call reads are inputs, numbered by iteration
  or by call. What a turn does is a list of \<open>turn_event\<close>s in order. \<open>GateRan\<close> and \<open>EngineAsked\<close>
  record a call of the gate and of the engine with what it was given. Durations are left out of
  \<open>ToolInvoked\<close>. A call cut off by the timeout has done some of its work: the first \<open>k\<close> of its
  events.
\<close>

section \<open>Rejection texts\<close>

definition arrow :: string where
  "arrow = [CHR 0xE2, CHR 0x86, CHR 0x92]"

definition newline :: string where
  "newline = [CHR 0x0A]"

definition compose_rejection_text :: "tool_rejection \<Rightarrow> string" where
  "compose_rejection_text r =
     ''Error: '' @ rj_reason r @ newline @ ''REMEDIATION: '' @
     unwrap_or (rj_remediation_hint r) ''This rejection cannot be resolved by operator action.'' @ newline @
     ''Do not retry this tool call; report the situation to the user.''"

text \<open>\<open>None\<close> is the panic of \<open>expect\<close> on an empty list.\<close>

definition compose_rejection_final_response :: "(string \<times> tool_rejection) list \<Rightarrow> string option" where
  "compose_rejection_final_response rejections =
     (if rejections = [] then None
      else Some (let r = snd (last rejections); tools = join_with '', '' (sort (remdups (map fst rejections)))
        in case rj_code r of
             YoloRequired \<Rightarrow> ''The requested operation (tool(s): '' @ tools @
               '') was rejected because privileged (YOLO) mode is currently disabled. Please enable it in Settings '' @ arrow @
               '' Security to allow these operations.''
           | SelfDelegation \<Rightarrow> ''Inter-agent delegation was aborted: the delegation target is the same as the caller. This is a logical constraint and cannot be resolved.''
           | DelegationDepth \<Rightarrow> ''Inter-agent delegation was aborted: the delegation chain exceeded the maximum depth. This is a logical constraint '' @
               long_dash @ '' the agent logic needs to be redesigned to avoid deep delegation.''
           | DelegationCycle \<Rightarrow> ''Inter-agent delegation was aborted: the requested chain would form a cycle. This is a logical constraint and cannot be resolved without changing the delegation target.''
           | AccessDenied \<Rightarrow> ''Access to tool(s) '' @ tools @
               '' was denied by the access control policy. Please review the agent'' @ [CHR 0x27] @ ''s permissions in the Agent Workspace.''
           | SealUnsigned \<Rightarrow> ''Tool(s) '' @ tools @
               '' could not be executed because the providing MCP server is not signed at the required trust level. Please sign the server or lower its trust level.''
           | CodeUnsafe \<Rightarrow> ''Generated MCP server code failed safety validation. Please review the violations reported in the rejection details.''
           | RiskUnapproved \<Rightarrow> ''Tool(s) '' @ tools @
               '' are classified as dangerous and have not been approved for autonomous execution. Please approve them in the dashboard.''
           | NotDynamicallyRegistered \<Rightarrow> ''The server was not removed: it was installed by the operator, not registered at runtime, and only the operator can uninstall it.''
           | UnknownRejection \<Rightarrow> ''Tool(s) '' @ tools @ '' were rejected by the MCP server. Reason: '' @ rj_reason r))"

section \<open>Running one tool for an agent (managers/registry.rs)\<close>

text \<open>A compiled-in tool: its plugin, its name and what it answers. Plugins are searched in the order given.\<close>

record rust_tool =
  rt_plugin_id :: string
  rt_name :: string
  rt_execute :: "json \<Rightarrow> anyhow + json"

record call_inputs =
  ci_gate :: gate_env
  ci_rbac_faults :: "nat \<Rightarrow> fault"
  ci_faults :: gate_faults
  ci_kernel_tool :: "Caller \<Rightarrow> string \<Rightarrow> json \<Rightarrow> ToolFailure + json"
  ci_reply :: server_reply
  ci_timeout :: "nat option"

definition execute_tool_for_agent ::
  "call_inputs \<Rightarrow> rust_tool list \<Rightarrow> string list \<Rightarrow> string \<Rightarrow> string \<Rightarrow> json \<Rightarrow> exec_event list \<times> (ToolFailure + json)" where
  "execute_tool_for_agent ci plugins allowed_plugin_ids agent_id tool args =
     (case find (\<lambda>p. rt_plugin_id p \<in> set allowed_plugin_ids \<and> rt_name p = tool) plugins of
        Some p \<Rightarrow> ([], (case rt_execute p args of Inl e \<Rightarrow> Err (tool_failure_from e) | Inr v \<Rightarrow> Ok v))
      | None \<Rightarrow> execute_tool_internal (ci_gate ci) (ci_rbac_faults ci) (ci_faults ci) (ci_kernel_tool ci) (ci_reply ci)
                  (Agent agent_id) tool args)"

section \<open>The turn\<close>

datatype think_result = Final string | ToolCalls "string option" "tool_call list"

datatype turn_event =
    EngineAsked nat "json list"
  | ThinkingShown nat string
  | GateRan nat "tool_call list" approval_state "string list"
  | GateEvent approval_event
  | ToolRun nat tool_call json "exec_event list"
  | ToolInvoked string string bool nat "string option"
  | ToolRejected string string tool_rejection nat
  | RejectionNoticed string McpLogLevel string string
  | RejectionAudited string string tool_rejection
  | HistoryRecorded "json list"
  | LoopCompleted nat nat

datatype turn_end = Answered string | Failed anyhow | Panicked

record turn_env =
  tu_agent_id :: string
  tu_plugins :: "rust_tool list"
  tu_allowed_plugins :: "string list"
  tu_tool_names :: "string list"
  tu_cron_source :: bool
  tu_max_override :: "string option"
  tu_max_iterations :: nat
  tu_json :: json_text
  tu_error_text :: "anyhow \<Rightarrow> string"
  tu_engine :: "nat \<Rightarrow> json list \<Rightarrow> anyhow + think_result"
  tu_forced :: "anyhow + string"
  tu_yolo :: "nat \<Rightarrow> bool"
  tu_servers :: "nat \<Rightarrow> mcp_state"
  tu_approval :: "nat \<Rightarrow> approval_inputs"
  tu_call :: "nat \<Rightarrow> call_inputs"

record turn_state =
  ts_history :: "json list"
  ts_rejections :: "(string \<times> tool_rejection) list"
  ts_total :: nat
  ts_approvals :: approval_state
  ts_events :: "turn_event list"

definition emit :: "turn_event list \<Rightarrow> turn_state \<Rightarrow> turn_state" where
  "emit evs ts = ts\<lparr>ts_events := ts_events ts @ evs\<rparr>"

definition push :: "json \<Rightarrow> turn_state \<Rightarrow> turn_state" where
  "push v ts = ts\<lparr>ts_history := ts_history ts @ [v]\<rparr>"

definition MAX_TOOL_HISTORY :: nat where
  "MAX_TOOL_HISTORY = 100"

text \<open>\<open>str::parse::<u8>\<close>: an optional plus sign and decimal digits up to 255.\<close>

definition is_digit :: "char \<Rightarrow> bool" where
  "is_digit c = ((48 :: nat) \<le> of_char c \<and> of_char c \<le> (57 :: nat))"

definition digits_value :: "string \<Rightarrow> nat" where
  "digits_value s = foldl (\<lambda>n c. 10 * n + (of_char c - 48)) 0 s"

definition parse_u8 :: "string \<Rightarrow> nat option" where
  "parse_u8 s =
     (let ds = unwrap_or (strip_prefix ''+'' s) s
      in if ds \<noteq> [] \<and> list_all is_digit ds \<and> digits_value ds \<le> 255 then Some (digits_value ds) else None)"

definition max_iterations :: "turn_env \<Rightarrow> nat" where
  "max_iterations env = min (unwrap_or (Option.bind (tu_max_override env) parse_u8) (tu_max_iterations env)) 64"

text \<open>The characters of a text: a byte and the continuation bytes after it.\<close>

definition is_continuation :: "char \<Rightarrow> bool" where
  "is_continuation c = ((128 :: nat) \<le> of_char c \<and> of_char c < (192 :: nat))"

definition char_count :: "string \<Rightarrow> nat" where
  "char_count s = length (filter (\<lambda>c. \<not> is_continuation c) s)"

fun take_chars :: "nat \<Rightarrow> string \<Rightarrow> string" where
  "take_chars n [] = []"
| "take_chars n (c # cs) =
     (if is_continuation c then c # take_chars n cs
      else (case n of 0 \<Rightarrow> [] | Suc m \<Rightarrow> c # take_chars m cs))"

definition tool_hint :: "json \<Rightarrow> string option" where
  "tool_hint args =
     map_option (\<lambda>cmd.
         let first_line = (case str_lines cmd of [] \<Rightarrow> cmd | l # _ \<Rightarrow> l)
         in if char_count first_line > 60 then take_chars 57 first_line @ [CHR 0xE2, CHR 0x80, CHR 0xA6] else first_line)
       (Option.bind (json_get args ''command'') json_as_str)"

definition tool_message :: "string \<Rightarrow> string \<Rightarrow> json" where
  "tool_message call_id content =
     JObj [(''content'', JStr content), (''role'', JStr ''tool''), (''tool_call_id'', JStr call_id)]"

definition assistant_message :: "json_text \<Rightarrow> string option \<Rightarrow> tool_call list \<Rightarrow> json" where
  "assistant_message jt content calls =
     JObj ((case content of Some c \<Rightarrow> [(''content'', JStr c)] | None \<Rightarrow> [])
       @ [(''role'', JStr ''assistant''),
          (''tool_calls'', JArr (map (\<lambda>tc. JObj
             [(''function'', JObj [(''arguments'', JStr (json_to_string jt (tc_arguments tc))), (''name'', JStr (tc_name tc))]),
              (''id'', JStr (tc_id tc)), (''type'', JStr ''function'')]) calls))])"

text \<open>The agent's own identifier replaces whatever the call names.\<close>

definition safe_args :: "string \<Rightarrow> json \<Rightarrow> json" where
  "safe_args agent_id args = (case args of JObj m \<Rightarrow> JObj (json_map_insert ''agent_id'' (JStr agent_id) m) | v \<Rightarrow> v)"

text \<open>Running a call: its events, and its result unless the timeout came first.\<close>

definition timed_execution :: "turn_env \<Rightarrow> nat \<Rightarrow> tool_call \<Rightarrow> exec_event list \<times> (ToolFailure + json) option" where
  "timed_execution env n call =
     (let ci = tu_call env n;
          (evs, r) = execute_tool_for_agent ci (tu_plugins env) (tu_allowed_plugins env) (tu_agent_id env) (tc_name call)
            (safe_args (tu_agent_id env) (tc_arguments call))
      in case ci_timeout ci of None \<Rightarrow> (evs, Some r) | Some k \<Rightarrow> (take k evs, None))"

definition call_content :: "turn_env \<Rightarrow> (ToolFailure + json) option \<Rightarrow> bool \<times> string \<times> tool_rejection option" where
  "call_content env result =
     (case result of
        Some (Inr v) \<Rightarrow> (True, json_to_string (tu_json env) v, None)
      | Some (Inl (Rejection r)) \<Rightarrow> (False, compose_rejection_text r, Some r)
      | Some (Inl (FailError e)) \<Rightarrow> (False, ''Error: '' @ tu_error_text env e, None)
      | None \<Rightarrow> (False, ''Error: tool execution timed out'', None))"

text \<open>A rejection is announced, noticed and audited, and may break the loop.\<close>

definition note_rejection :: "nat \<Rightarrow> tool_call \<Rightarrow> tool_rejection \<Rightarrow> turn_state \<Rightarrow> turn_state \<times> bool" where
  "note_rejection iteration call r ts =
     (let consecutive = (ts_rejections ts \<noteq> [] \<and> rj_code (snd (last (ts_rejections ts))) = rj_code r);
          ts = emit [ToolRejected (tc_name call) (tc_id call) r iteration,
                     RejectionNoticed (''tool-rejected:'' @ tc_id call) (if rj_retryable r then LogWarning else LogError)
                       (quoted (tc_name call) @ '' was rejected'') (rj_reason r),
                     RejectionAudited (tc_id call) (tc_name call) r] ts
      in (ts\<lparr>ts_rejections := ts_rejections ts @ [(tc_name call, r)]\<rparr>, \<not> rj_retryable r \<or> consecutive))"

definition run_call :: "turn_env \<Rightarrow> nat \<Rightarrow> nat \<Rightarrow> tool_call \<Rightarrow> turn_state \<Rightarrow> turn_state \<times> bool" where
  "run_call env iteration n call ts =
     (let (evs, result) = timed_execution env n call;
          (success, content, rejection) = call_content env result;
          ts = emit [ToolRun iteration call (safe_args (tu_agent_id env) (tc_arguments call)) evs,
                     ToolInvoked (tc_name call) (tc_id call) success iteration (tool_hint (tc_arguments call))] ts;
          (ts, broken) = (case rejection of None \<Rightarrow> (ts, False) | Some r \<Rightarrow> note_rejection iteration call r ts)
      in (push (tool_message (tc_id call) content) ts, broken))"

fun run_calls :: "turn_env \<Rightarrow> nat \<Rightarrow> string list \<Rightarrow> tool_call list \<Rightarrow> turn_state \<Rightarrow> turn_state \<times> bool" where
  "run_calls env iteration denied [] ts = (ts, False)"
| "run_calls env iteration denied (call # calls) ts =
     (let n = ts_total ts; ts = ts\<lparr>ts_total := n + 1\<rparr>
      in if tc_id call \<in> set denied then
           run_calls env iteration denied calls
             (push (tool_message (tc_id call) (''Error: command '' @ quoted (unwrap_or (command_of call) ''?'') @ '' was denied by user'')) ts)
         else if tc_name call \<notin> set (tu_tool_names env) then
           run_calls env iteration denied calls
             (push (tool_message (tc_id call) (''Error: tool '' @ quoted (tc_name call) @ '' not found'')) ts)
         else (case run_call env iteration n call ts of
             (ts', True) \<Rightarrow> (ts', True)
           | (ts', False) \<Rightarrow> run_calls env iteration denied calls ts'))"

definition trim_history :: "turn_state \<Rightarrow> turn_state" where
  "trim_history ts = ts\<lparr>ts_history := drop (length (ts_history ts) - MAX_TOOL_HISTORY) (ts_history ts)\<rparr>"

text \<open>One batch of calls: the message for the history, the gate, the runs.\<close>

definition run_batch :: "turn_env \<Rightarrow> nat \<Rightarrow> string option \<Rightarrow> tool_call list \<Rightarrow> turn_state \<Rightarrow> turn_state \<times> bool" where
  "run_batch env iteration content calls ts =
     (let ts = (case content of
                  Some c \<Rightarrow> if trim c \<noteq> [] then emit [ThinkingShown iteration c] ts else ts
                | None \<Rightarrow> ts);
          ts = push (assistant_message (tu_json env) content calls) ts;
          before = ts_approvals ts;
          (after, denied, gevs) = run_approval_gate (tu_servers env iteration) (tu_approval env iteration) calls
             (tu_agent_id env) (tu_yolo env iteration) (tu_cron_source env) before;
          ts = emit (map GateEvent gevs @ [GateRan iteration calls before denied]) (ts\<lparr>ts_approvals := after\<rparr>);
          (ts, broken) = run_calls env iteration denied calls ts
      in (trim_history ts, broken))"

function agentic_loop :: "turn_env \<Rightarrow> nat \<Rightarrow> turn_state \<Rightarrow> turn_state \<times> turn_end" where
  "agentic_loop env iteration ts =
     (let iteration' = min (iteration + 1) 255
      in if iteration' > max_iterations env then
           (emit [HistoryRecorded (ts_history ts)] ts,
            case tu_forced env of Inl e \<Rightarrow> Failed e | Inr s \<Rightarrow> Answered s)
         else
           let ts = emit [EngineAsked iteration' (ts_history ts)] ts
           in case tu_engine env iteration' (ts_history ts) of
                Inl e \<Rightarrow> (ts, Failed e)
              | Inr (Final content) \<Rightarrow>
                  (emit [LoopCompleted iteration' (ts_total ts), HistoryRecorded (ts_history ts)] ts, Answered content)
              | Inr (ToolCalls content calls) \<Rightarrow>
                  (case run_batch env iteration' content calls ts of
                     (ts', True) \<Rightarrow>
                       (case compose_rejection_final_response (ts_rejections ts') of
                          None \<Rightarrow> (ts', Panicked)
                        | Some response \<Rightarrow>
                            (emit [LoopCompleted iteration' (ts_total ts'), HistoryRecorded (ts_history ts')] ts', Answered response))
                   | (ts', False) \<Rightarrow> agentic_loop env iteration' ts'))"
  by pat_completeness auto
termination
  by (relation "measure (\<lambda>(env, iteration, ts). 64 - iteration)") (auto simp: max_iterations_def min_def split: if_splits)

declare agentic_loop.simps [simp del]

end
