(* ===== verification/Loop_Laws.thy ===== *)
theory Loop_Laws
  imports Agentic_Loop
begin

text \<open>
  What a turn guarantees, as one property of its trace: every event is justified by the events
  before it. The engine is asked a bounded number of times with a bounded history, and not after
  a rejection that ends the turn; a tool runs only after the gate let the call through, under the
  agent's own name, and reaches a server only where access control permits.
\<close>

section \<open>Counting and rejections along a trace\<close>

definition times_asked :: "turn_event list \<Rightarrow> nat" where
  "times_asked evs = length (filter (\<lambda>e. case e of EngineAsked _ _ \<Rightarrow> True | _ \<Rightarrow> False) evs)"

definition rejections_of :: "turn_event list \<Rightarrow> tool_rejection list" where
  "rejections_of evs = List.map_filter (\<lambda>e. case e of ToolRejected _ _ r _ \<Rightarrow> Some r | _ \<Rightarrow> None) evs"

lemma times_asked_simps [simp]:
  "times_asked [] = 0"
  "times_asked (a @ b) = times_asked a + times_asked b"
  "times_asked (e # evs) = (case e of EngineAsked _ _ \<Rightarrow> 1 | _ \<Rightarrow> 0) + times_asked evs"
  by (auto simp: times_asked_def split: turn_event.splits)

lemma rejections_of_simps [simp]:
  "rejections_of [] = []"
  "rejections_of (a @ b) = rejections_of a @ rejections_of b"
  "rejections_of (e # evs) = (case e of ToolRejected _ _ r _ \<Rightarrow> [r] | _ \<Rightarrow> []) @ rejections_of evs"
  by (auto simp: rejections_of_def List.map_filter_simps map_filter_def split: turn_event.splits)

lemma gate_events_silent [simp]: "times_asked (map GateEvent gevs) = 0" "rejections_of (map GateEvent gevs) = []"
  by (induction gevs) auto

text \<open>The rule that ends a turn: a rejection no retry can help, or the same code twice in a row.\<close>

definition ends_turn :: "tool_rejection list \<Rightarrow> bool" where
  "ends_turn rs \<longleftrightarrow> \<not> (list_all rj_retryable rs \<and> distinct_adj (map rj_code rs))"

lemma ends_turn_snoc:
  "ends_turn (rs @ [r]) \<longleftrightarrow> ends_turn rs \<or> \<not> rj_retryable r \<or> rs \<noteq> [] \<and> rj_code (last rs) = rj_code r"
  by (auto simp: ends_turn_def distinct_adj_append_iff last_map)

lemma ends_turn_Nil [simp]: "\<not> ends_turn []"
  by (simp add: ends_turn_def)

section \<open>What justifies an event\<close>

definition server_contact_permitted :: "turn_env \<Rightarrow> nat \<Rightarrow> exec_event list \<Rightarrow> string \<Rightarrow> json \<Rightarrow> bool" where
  "server_contact_permitted env n evs tool args \<longleftrightarrow>
     (\<forall>client t a. ClientCall client t a \<in> set evs \<longrightarrow> t = tool \<and> a = args \<and>
        (\<exists>server. execution_permitted (ci_gate (tu_call env n)) (ci_rbac_faults (tu_call env n)) (ci_faults (tu_call env n))
           (Agent (tu_agent_id env)) tool args server client))"

definition let_through :: "turn_env \<Rightarrow> turn_event list \<Rightarrow> nat \<Rightarrow> tool_call \<Rightarrow> bool" where
  "let_through env evs i call \<longleftrightarrow>
     (\<exists>calls st denied. GateRan i calls st denied \<in> set evs \<and> call \<in> set calls \<and> tc_id call \<notin> set denied \<and>
        denied = fst (snd (run_approval_gate (tu_servers env i) (tu_approval env i) calls (tu_agent_id env)
          (tu_yolo env i) (tu_cron_source env) st)))"

definition turn_ok :: "turn_env \<Rightarrow> nat \<Rightarrow> turn_event list \<Rightarrow> turn_event \<Rightarrow> bool" where
  "turn_ok env h0 pre e =
     (case e of
        EngineAsked i h \<Rightarrow> i = Suc (times_asked pre) \<and> i \<le> max_iterations env \<and> length h \<le> max h0 MAX_TOOL_HISTORY \<and>
          \<not> ends_turn (rejections_of pre)
      | ToolRun i call args evs \<Rightarrow> \<not> ends_turn (rejections_of pre) \<and> let_through env pre i call \<and>
          tc_name call \<in> set (tu_tool_names env) \<and> args = safe_args (tu_agent_id env) (tc_arguments call) \<and>
          (\<exists>n. server_contact_permitted env n evs (tc_name call) args)
      | _ \<Rightarrow> True)"

lemma turn_ok_simps [simp]:
  "turn_ok env h0 pre (ThinkingShown i c)" "turn_ok env h0 pre (GateRan i cs s d)" "turn_ok env h0 pre (GateEvent g)"
  "turn_ok env h0 pre (ToolInvoked t c s1 i h1)" "turn_ok env h0 pre (ToolRejected t c r i)"
  "turn_ok env h0 pre (RejectionNoticed c l t b1)" "turn_ok env h0 pre (RejectionAudited c t r)"
  "turn_ok env h0 pre (HistoryRecorded h)" "turn_ok env h0 pre (LoopCompleted i n)"
  by (simp_all add: turn_ok_def)

lemma let_through_append: "let_through env evs i call \<Longrightarrow> let_through env (evs @ rest) i call"
  by (auto simp: let_through_def)

text \<open>The state of a turn that goes on, and of one that a rejection has ended.\<close>

definition traced :: "turn_env \<Rightarrow> nat \<Rightarrow> turn_state \<Rightarrow> bool" where
  "traced env h0 ts \<longleftrightarrow> justified (turn_ok env h0) (ts_events ts) \<and> map snd (ts_rejections ts) = rejections_of (ts_events ts)"

definition running :: "turn_env \<Rightarrow> nat \<Rightarrow> turn_state \<Rightarrow> bool" where
  "running env h0 ts \<longleftrightarrow> traced env h0 ts \<and> \<not> ends_turn (rejections_of (ts_events ts))"

lemma execution_contacts: "server_contact_permitted env n (fst (timed_execution env n call)) (tc_name call)
    (safe_args (tu_agent_id env) (tc_arguments call))"
proof -
  let ?ci = "tu_call env n" and ?args = "safe_args (tu_agent_id env) (tc_arguments call)"
  have calls: "\<exists>server. t = tc_name call \<and> a = ?args \<and> execution_permitted (ci_gate ?ci) (ci_rbac_faults ?ci) (ci_faults ?ci)
      (Agent (tu_agent_id env)) (tc_name call) ?args server client"
    if "ClientCall client t a \<in> set (fst (execute_tool_internal (ci_gate ?ci) (ci_rbac_faults ?ci) (ci_faults ?ci) (ci_kernel_tool ?ci)
      (ci_reply ?ci) (Agent (tu_agent_id env)) (tc_name call) ?args))" for client t a
  proof -
    let ?calls = "filter is_call (fst (execute_tool_internal (ci_gate ?ci) (ci_rbac_faults ?ci)
        (ci_faults ?ci) (ci_kernel_tool ?ci) (ci_reply ?ci) (Agent (tu_agent_id env)) (tc_name call) ?args))"
    have mem: "ClientCall client t a \<in> set ?calls"
      using that by (simp add: is_call_def)
    then have "?calls \<noteq> []" by (metis empty_iff list.set(1))
    then obtain server c where p: "execution_permitted (ci_gate ?ci) (ci_rbac_faults ?ci) (ci_faults ?ci)
        (Agent (tu_agent_id env)) (tc_name call) ?args server c"
      using execute_calls_refused by blast
    then show ?thesis using mem by (auto simp: execute_calls_permitted [OF p])
  qed
  show ?thesis
    unfolding server_contact_permitted_def timed_execution_def execute_tool_for_agent_def Let_def
    using calls by (auto split: option.splits prod.splits dest!: in_set_takeD) (metis fst_conv)+
qed

section \<open>Runs keep it\<close>

lemma run_call_traced:
  assumes run: "running env h0 ts" and gate: "let_through env (ts_events ts) i call"
    and name: "tc_name call \<in> set (tu_tool_names env)" and step: "run_call env i n call ts = (ts', broken)"
  shows "traced env h0 ts'" and "ends_turn (rejections_of (ts_events ts')) \<longleftrightarrow> broken"
    and "times_asked (ts_events ts') = times_asked (ts_events ts)" and "broken \<Longrightarrow> ts_rejections ts' \<noteq> []"
    and "\<exists>rest. ts_events ts' = ts_events ts @ rest"
proof -
  let ?args = "safe_args (tu_agent_id env) (tc_arguments call)"
  obtain evs result where ex: "timed_execution env n call = (evs, result)" by fastforce
  obtain success content rejection where content: "call_content env result = (success, content, rejection)"
    using prod_cases3 by blast
  let ?run = "[ToolRun i call ?args evs, ToolInvoked (tc_name call) (tc_id call) success i (tool_hint (tc_arguments call))]"
  have "turn_ok env h0 (ts_events ts) (ToolRun i call ?args evs)"
    using run gate name execution_contacts [of env n call] ex by (auto simp: turn_ok_def running_def)
  then have ran: "justified (turn_ok env h0) (ts_events ts @ ?run)"
    using run justified_snoc [of "turn_ok env h0" "ts_events ts @ [ToolRun i call ?args evs]"] by (simp add: running_def traced_def)
  have rej: "map snd (ts_rejections ts) = rejections_of (ts_events ts)" and none: "\<not> ends_turn (rejections_of (ts_events ts))"
    using run by (simp_all add: running_def traced_def)
  have "traced env h0 ts' \<and> ends_turn (rejections_of (ts_events ts')) = broken \<and>
        times_asked (ts_events ts') = times_asked (ts_events ts) \<and> (broken \<longrightarrow> ts_rejections ts' \<noteq> []) \<and>
        (\<exists>rest. ts_events ts' = ts_events ts @ rest)"
  proof (cases rejection)
    case None
    then have "ts_events ts' = ts_events ts @ ?run" and "ts_rejections ts' = ts_rejections ts" and "\<not> broken"
      using step ex content by (auto simp: run_call_def emit_def push_def)
    then show ?thesis
      using ran rej none by (simp add: traced_def)
  next
    case (Some r)
    let ?noted = "[ToolRejected (tc_name call) (tc_id call) r i,
      RejectionNoticed (''tool-rejected:'' @ tc_id call) (if rj_retryable r then LogWarning else LogError)
        (quoted (tc_name call) @ '' was rejected'') (rj_reason r),
      RejectionAudited (tc_id call) (tc_name call) r]"
    have evs': "ts_events ts' = (ts_events ts @ ?run) @ ?noted" and rejs': "ts_rejections ts' = ts_rejections ts @ [(tc_name call, r)]"
      and broken: "broken \<longleftrightarrow> \<not> rj_retryable r \<or> ts_rejections ts \<noteq> [] \<and> rj_code (snd (last (ts_rejections ts))) = rj_code r"
      using step ex content Some by (auto simp: run_call_def note_rejection_def emit_def push_def Let_def)
    have "justified (turn_ok env h0) (ts_events ts')"
      unfolding evs' by (rule justified_extend [OF ran]) auto
    moreover have "last (rejections_of (ts_events ts)) = snd (last (ts_rejections ts))" if "ts_rejections ts \<noteq> []"
      using rej that by (metis last_map)
    moreover have "rejections_of (ts_events ts) \<noteq> [] \<longleftrightarrow> ts_rejections ts \<noteq> []" using rej by (metis map_is_Nil_conv)
    ultimately show ?thesis
      using rej none broken by (auto simp: traced_def evs' rejs' ends_turn_snoc)
  qed
  then show "traced env h0 ts'" and "ends_turn (rejections_of (ts_events ts')) \<longleftrightarrow> broken"
    and "times_asked (ts_events ts') = times_asked (ts_events ts)" and "broken \<Longrightarrow> ts_rejections ts' \<noteq> []"
    and "\<exists>rest. ts_events ts' = ts_events ts @ rest" by simp_all
qed

lemma running_push [simp]: "running env h0 (push v ts) = running env h0 ts" "ts_events (push v ts) = ts_events ts"
  "traced env h0 (push v ts) = traced env h0 ts"
  by (simp_all add: running_def traced_def push_def)

lemma running_total [simp]:
  "running env h0 (ts\<lparr>ts_total := n\<rparr>) = running env h0 ts" "running env h0 (ts\<lparr>ts_approvals := a\<rparr>) = running env h0 ts"
  by (simp_all add: running_def traced_def)

fun silent :: "turn_event \<Rightarrow> bool" where
  "silent (EngineAsked _ _) = False"
| "silent (ToolRun _ _ _ _) = False"
| "silent (ToolRejected _ _ _ _) = False"
| "silent _ = True"

lemma silent_ok: "silent e \<Longrightarrow> turn_ok env h0 pre e"
  by (cases e) simp_all

lemma emit_silent [simp]:
  assumes "list_all silent evs"
  shows "traced env h0 (emit evs ts) = traced env h0 ts" and "running env h0 (emit evs ts) = running env h0 ts"
    and "times_asked (ts_events (emit evs ts)) = times_asked (ts_events ts)"
proof -
  have rej: "rejections_of evs = []" and asked: "times_asked evs = 0"
    using assms by (induction evs) (auto split: turn_event.splits)
  have "justified (\<lambda>pre. turn_ok env h0 (ts_events ts @ pre)) evs"
    using assms by (intro justified_free silent_ok) (simp add: list_all_iff)
  then show "traced env h0 (emit evs ts) = traced env h0 ts" and "running env h0 (emit evs ts) = running env h0 ts"
    and "times_asked (ts_events (emit evs ts)) = times_asked (ts_events ts)"
    using rej asked by (simp_all add: running_def traced_def emit_def justified_append)
qed

lemma silent_gate [simp]: "list_all silent (map GateEvent gevs)"
  by (induction gevs) simp_all

lemma run_calls_traced:
  assumes "running env h0 ts" and "\<And>call. call \<in> set calls \<Longrightarrow> tc_id call \<notin> set denied \<Longrightarrow> let_through env (ts_events ts) i call"
    and "run_calls env i denied calls ts = (ts', broken)"
  shows "traced env h0 ts' \<and> (if broken then ts_rejections ts' \<noteq> [] else running env h0 ts') \<and>
    times_asked (ts_events ts') = times_asked (ts_events ts)"
  using assms
proof (induction env i denied calls ts rule: run_calls.induct)
  case (1 env i denied ts)
  then show ?case by (auto simp: running_def)
next
  case (2 env i denied call calls ts)
  let ?ts = "ts\<lparr>ts_total := ts_total ts + 1\<rparr>"
  note step = "2.prems"(3) and skip = "2.IH"(1,2) and go = "2.IH"(3)
  consider "tc_id call \<in> set denied" | "tc_id call \<notin> set denied" "tc_name call \<notin> set (tu_tool_names env)"
    | "tc_id call \<notin> set denied" "tc_name call \<in> set (tu_tool_names env)" by blast
  then show ?case
  proof cases
    case 1
    then show ?thesis using step skip(1) [OF refl refl] "2.prems"(1,2) by simp
  next
    case 2
    then show ?thesis using step skip(2) [OF refl refl] "2.prems"(1,2) by simp
  next
    case 3
    obtain ts1 broken1 where one: "run_call env i (ts_total ts) call ?ts = (ts1, broken1)" by fastforce
    have "running env h0 ?ts" and "let_through env (ts_events ?ts) i call" using "2.prems"(1,2) 3 by simp_all
    note facts = run_call_traced [OF this 3(2) one]
    show ?thesis
    proof (cases broken1)
      case True
      then show ?thesis using step 3 one facts by simp
    next
      case False
      then have "running env h0 ts1" using facts by (simp add: running_def)
      moreover have "let_through env (ts_events ts1) i c" if "c \<in> set calls" "tc_id c \<notin> set denied" for c
      proof -
        obtain rest where "ts_events ts1 = ts_events ts @ rest" using facts(5) by auto
        then show ?thesis using let_through_append [OF "2.prems"(2) [of c]] that by simp
      qed
      moreover have "run_calls env i denied calls ts1 = (ts', broken)" using step 3 one False by simp
      ultimately show ?thesis
        using go [OF refl refl 3(1) _ one [symmetric]] 3 False facts(3) by simp
    qed
  qed
qed

lemma run_batch_traced:
  assumes "running env h0 ts" and "run_batch env i content calls ts = (ts', broken)"
  shows "traced env h0 ts' \<and> (if broken then ts_rejections ts' \<noteq> [] else running env h0 ts') \<and>
    times_asked (ts_events ts') = times_asked (ts_events ts) \<and> length (ts_history ts') \<le> MAX_TOOL_HISTORY"
proof -
  let ?shown = "case content of Some c \<Rightarrow> if trim c \<noteq> [] then emit [ThinkingShown i c] ts else ts | None \<Rightarrow> ts"
  let ?pushed = "push (assistant_message (tu_json env) content calls) ?shown"
  obtain after denied gevs where gate: "run_approval_gate (tu_servers env i) (tu_approval env i) calls (tu_agent_id env)
      (tu_yolo env i) (tu_cron_source env) (ts_approvals ?pushed) = (after, denied, gevs)" using prod_cases3 by blast
  let ?gated = "emit (map GateEvent gevs @ [GateRan i calls (ts_approvals ?pushed) denied]) (?pushed\<lparr>ts_approvals := after\<rparr>)"
  obtain ts1 where calls: "run_calls env i denied calls ?gated = (ts1, broken)" and ts': "ts' = trim_history ts1"
    using assms(2) gate by (auto simp: run_batch_def Let_def split: prod.splits)
  have "running env h0 ?shown" using assms(1) by (simp split: option.splits)
  then have running: "running env h0 ?gated" by simp
  have through: "let_through env (ts_events ?gated) i call" if "call \<in> set calls" "tc_id call \<notin> set denied" for call
    unfolding let_through_def
    by (intro exI [of _ calls] exI [of _ "ts_approvals ?pushed"] exI [of _ denied]) (use that gate in \<open>simp add: emit_def\<close>)
  have "times_asked (ts_events ?gated) = times_asked (ts_events ts)" by (simp split: option.splits)
  then show ?thesis
    using run_calls_traced [OF running through calls]
    by (auto simp: ts' trim_history_def running_def traced_def split: if_splits)
qed

section \<open>The loop\<close>

lemma loop_traced:
  assumes "running env h0 ts" and "times_asked (ts_events ts) = iteration" and "length (ts_history ts) \<le> max h0 MAX_TOOL_HISTORY"
    and "iteration \<le> 64" and "agentic_loop env iteration ts = (ts', ended)"
  shows "traced env h0 ts' \<and> times_asked (ts_events ts') \<le> max iteration (max_iterations env) \<and> ended \<noteq> Panicked"
  using assms
proof (induction env iteration ts rule: agentic_loop.induct)
  case (1 env iteration ts)
  let ?it = "iteration + 1" and ?asked = "emit [EngineAsked (iteration + 1) (ts_history ts)] ts"
  have it: "min (iteration + 1) 255 = ?it" using "1.prems"(4) by simp
  show ?case
  proof (cases "?it > max_iterations env")
    case True
    then show ?thesis
      using "1.prems" it
      by (auto simp: agentic_loop.simps [of env iteration] Let_def running_def split: sum.splits)
  next
    case False
    have asked: "running env h0 ?asked"
      using "1.prems"(1-3) False by (simp add: running_def traced_def emit_def turn_ok_def)
    have count: "times_asked (ts_events ?asked) = ?it" using "1.prems"(2) by (simp add: emit_def)
    have le: "?it \<le> max_iterations env" and le64: "?it \<le> 64" using False by (auto simp: max_iterations_def)
    have loop: "agentic_loop env iteration ts = (case tu_engine env ?it (ts_history ?asked) of
                Inl e \<Rightarrow> (?asked, Failed e)
              | Inr (Final content) \<Rightarrow>
                  (emit [LoopCompleted ?it (ts_total ?asked), HistoryRecorded (ts_history ?asked)] ?asked, Answered content)
              | Inr (ToolCalls content calls) \<Rightarrow>
                  (case run_batch env ?it content calls ?asked of
                     (ts', True) \<Rightarrow>
                       (case compose_rejection_final_response (ts_rejections ts') of
                          None \<Rightarrow> (ts', Panicked)
                        | Some response \<Rightarrow>
                            (emit [LoopCompleted ?it (ts_total ts'), HistoryRecorded (ts_history ts')] ts', Answered response))
                   | (ts', False) \<Rightarrow> agentic_loop env ?it ts'))"
      unfolding agentic_loop.simps [of env iteration ts] it Let_def by (simp only: False if_False)
    show ?thesis
    proof (cases "tu_engine env ?it (ts_history ?asked)")
      case (Inl e)
      then show ?thesis using "1.prems"(5) loop asked count le by (auto simp: running_def)
    next
      case (Inr answer)
      show ?thesis
      proof (cases answer)
        case (Final content)
        then show ?thesis
          using "1.prems"(5) loop Inr asked count le by (auto simp: running_def)
      next
        case (ToolCalls content calls)
        obtain ts1 broken where batch: "run_batch env ?it content calls ?asked = (ts1, broken)" by fastforce
        note facts = run_batch_traced [OF asked batch]
        show ?thesis
        proof (cases broken)
          case True
          then show ?thesis
            using "1.prems"(5) loop Inr ToolCalls batch facts count le
            by (auto simp: compose_rejection_final_response_def)
        next
          case False
          then have "agentic_loop env ?it ts1 = (ts', ended)" using "1.prems"(5) loop Inr ToolCalls batch by simp
          moreover have "traced env h0 ts' \<and> times_asked (ts_events ts') \<le> max ?it (max_iterations env) \<and> ended \<noteq> Panicked"
            if "agentic_loop env ?it ts1 = (ts', ended)"
            by (rule "1.IH" [OF it [symmetric] _ refl Inr ToolCalls batch [symmetric]])
              (use facts False count le le64 that in auto)
          ultimately show ?thesis using le by simp
        qed
      qed
    qed
  qed
qed

definition turn_start :: "json list \<Rightarrow> approval_state \<Rightarrow> turn_state" where
  "turn_start history approvals =
     \<lparr>ts_history = history, ts_rejections = [], ts_total = 0, ts_approvals = approvals, ts_events = []\<rparr>"

lemma turn_traced:
  assumes "agentic_loop env 0 (turn_start history approvals) = (ts, ended)"
  shows "justified (turn_ok env (length history)) (ts_events ts)" and "times_asked (ts_events ts) \<le> max_iterations env"
    and "ended \<noteq> Panicked"
  using loop_traced [OF _ _ _ _ assms, of "length history"]
  by (simp_all add: turn_start_def running_def traced_def)



text \<open>A rejection that no retry can help, or one with the code of the rejection before it, ends the
  turn: after it no tool runs and the engine is not asked again.
\<close>

theorem turn_ends_on_rejection:
  assumes "agentic_loop env 0 (turn_start history approvals) = (ts, ended)"
    and "ts_events ts = pre @ e # post" and "ends_turn (rejections_of pre)"
  shows "(\<forall>i h. e \<noteq> EngineAsked i h) \<and> (\<forall>i call args evs. e \<noteq> ToolRun i call args evs)"
  using justifiedD [OF turn_traced(1) [OF assms(1)] assms(2)] assms(3) by (auto simp: turn_ok_def)

section \<open>Examples\<close>

text \<open>An engine that asks for one tool, twice the same way, and a plugin that rejects it the first and the third time.\<close>

definition example_reject :: tool_rejection where
  "example_reject = \<lparr>rj_code = YoloRequired, rj_reason = ''off'', rj_remediation_hint = None, rj_retryable = True, rj_details = None\<rparr>"

definition example_call_inputs :: call_inputs where
  "example_call_inputs = \<lparr>ci_gate = example_env, ci_rbac_faults = (\<lambda>_. None), ci_faults = no_faults,
     ci_kernel_tool = (\<lambda>_ _ _. Err (Rejection example_reject)), ci_reply = (\<lambda>_ _ _. Err ''down''), ci_timeout = None\<rparr>"

definition example_turn :: "(nat \<Rightarrow> json list \<Rightarrow> anyhow + think_result) \<Rightarrow> turn_env" where
  "example_turn engine = \<lparr>tu_agent_id = ''ann'',
     tu_plugins = [\<lparr>rt_plugin_id = ''p'', rt_name = ''echo'', rt_execute = (\<lambda>v. Ok v)\<rparr>,
                   \<lparr>rt_plugin_id = ''p'', rt_name = ''deny'', rt_execute = (\<lambda>v. Err (AReject example_reject))\<rparr>],
     tu_allowed_plugins = [''p''], tu_tool_names = [''echo'', ''deny''], tu_cron_source = False, tu_max_override = Some ''3'',
     tu_max_iterations = 16, tu_json = \<lparr>json_to_string = (\<lambda>_. ''v''), json_from_str = (\<lambda>_. None)\<rparr>,
     tu_error_text = (\<lambda>_. ''error''), tu_engine = engine, tu_forced = Ok ''forced'', tu_yolo = (\<lambda>_. False),
     tu_servers = (\<lambda>_. no_servers), tu_approval = (\<lambda>_. example_inputs (Some Approve)), tu_call = (\<lambda>_. example_call_inputs)\<rparr>"

definition asks_forever :: "nat \<Rightarrow> json list \<Rightarrow> anyhow + think_result" where
  "asks_forever i h = Ok (ToolCalls None [plugin_call ''c1'' ''echo''])"

definition rejected_apart :: "nat \<Rightarrow> json list \<Rightarrow> anyhow + think_result" where
  "rejected_apart i h = Ok (ToolCalls None [plugin_call ''c1'' ''deny'', plugin_call ''c2'' ''echo'', plugin_call ''c3'' ''deny'',
     plugin_call ''c4'' ''echo''])"

definition example_run :: "(nat \<Rightarrow> json list \<Rightarrow> anyhow + think_result) \<Rightarrow> turn_state \<times> turn_end" where
  "example_run engine = agentic_loop (example_turn engine) 0 (turn_start [] example_trust)"

definition runs_of :: "turn_event list \<Rightarrow> string list" where
  "runs_of evs = List.map_filter (\<lambda>e. case e of ToolRun _ c _ _ \<Rightarrow> Some (tc_id c) | _ \<Rightarrow> None) evs"


lemma forever_end: "snd (example_run asks_forever) = Answered ''forced''"
  by code_simp

lemma forever_runs: "runs_of (ts_events (fst (example_run asks_forever))) = [''c1'', ''c1'', ''c1'']"
  by code_simp

lemma apart_runs: "runs_of (ts_events (fst (example_run rejected_apart))) = [''c1'', ''c2'', ''c3'']"
  by code_simp


lemma example_loop: "agentic_loop (example_turn engine) 0 (turn_start [] example_trust) = (fst (example_run engine), snd (example_run engine))"
  by (simp add: example_run_def)



theorem turn_ends_on_rejection_witness:
  "ends_turn (rejections_of (butlast (ts_events (fst (example_run rejected_apart))))) \<and>
   (\<forall>i h. last (ts_events (fst (example_run rejected_apart))) \<noteq> EngineAsked i h)"
proof -
  let ?evs = "ts_events (fst (example_run rejected_apart))"
  have "?evs \<noteq> []" using apart_runs by (auto simp: runs_of_def List.map_filter_simps)
  then have split: "?evs = butlast ?evs @ last ?evs # []" by simp
  have ends: "ends_turn (rejections_of (butlast ?evs))" by code_simp
  show ?thesis using turn_ends_on_rejection [OF example_loop split ends] ends by blast
qed

text \<open>
  The same code counts as a repetition even with other calls between: the second rejection ends the
  turn although the call before it succeeded.
\<close>

theorem rejections_apart_end_turn:
  "runs_of (ts_events (fst (example_run rejected_apart))) = [''c1'', ''c2'', ''c3''] \<and>
   snd (example_run rejected_apart) \<noteq> Answered ''forced''"
  by code_simp

end
