(* ===== verification/Response_Stop.thy ===== *)
theory Response_Stop
  imports Prelude
begin

text \<open>
  \<open>managers/response_stop.rs\<close>: stopping a reply while it is produced. Requests to stop and the turn's
  own arming run at the same time, and each is several accesses to shared flags; the steps here are
  those accesses, in any order the threads take them. An entry is named by its place in the list
  of entries ever made, which stands for the identity of its \<open>Arc\<close>; \<open>se_signal\<close> is the wake-up
  \<open>Notify\<close> keeps, \<open>se_taken\<close> that the turn has received it.
\<close>

section \<open>State\<close>

record stop_entry =
  se_agent_id :: string
  se_requested :: bool
  se_armed :: bool
  se_signal :: bool
  se_taken :: bool

text \<open>Where a running \<open>arm\<close> or \<open>stop\<close> stands: before its own flag, or at a step of \<open>fire_if_ready\<close>.\<close>

datatype stop_thread = ArmStore nat | StopStore nat | CheckRequested nat | CheckArmed nat | NotifyOne nat

record stops =
  rs_entries :: "stop_entry list"
  rs_inner :: "(string, nat) hmap"
  rs_registrations :: "(string \<times> nat) list"
  rs_threads :: "stop_thread list"

definition stops_new :: stops where
  "stops_new = \<lparr>rs_entries = [], rs_inner = [], rs_registrations = [], rs_threads = []\<rparr>"

section \<open>Operations\<close>

definition register :: "string \<Rightarrow> string \<Rightarrow> stops \<Rightarrow> stops \<times> (string \<times> nat)" where
  "register message_id agent_id s =
     (let n = length (rs_entries s);
          entry = \<lparr>se_agent_id = agent_id, se_requested = False, se_armed = False, se_signal = False, se_taken = False\<rparr>
      in (s\<lparr>rs_entries := rs_entries s @ [entry], rs_inner := hm_insert message_id n (rs_inner s),
            rs_registrations := (message_id, n) # rs_registrations s\<rparr>, (message_id, n)))"

definition drop_registration :: "string \<times> nat \<Rightarrow> stops \<Rightarrow> stops" where
  "drop_registration reg s =
     s\<lparr>rs_inner := (if hm_get (rs_inner s) (fst reg) = Some (snd reg) then hm_remove (fst reg) (rs_inner s) else rs_inner s),
       rs_registrations := filter (\<lambda>r. r \<noteq> reg) (rs_registrations s)\<rparr>"

definition arm :: "string \<Rightarrow> stops \<Rightarrow> stops" where
  "arm message_id s =
     (case hm_get (rs_inner s) message_id of
        Some n \<Rightarrow> s\<lparr>rs_threads := ArmStore n # rs_threads s\<rparr>
      | None \<Rightarrow> s)"

definition stop :: "string \<Rightarrow> string \<Rightarrow> stops \<Rightarrow> stops \<times> bool" where
  "stop agent_id message_id s =
     (case hm_get (rs_inner s) message_id of
        Some n \<Rightarrow>
          if n < length (rs_entries s) \<and> se_agent_id (rs_entries s ! n) = agent_id
          then (s\<lparr>rs_threads := StopStore n # rs_threads s\<rparr>, True) else (s, False)
      | None \<Rightarrow> (s, False))"

definition set_entry :: "nat \<Rightarrow> (stop_entry \<Rightarrow> stop_entry) \<Rightarrow> stops \<Rightarrow> stops" where
  "set_entry n f s = s\<lparr>rs_entries := (rs_entries s)[n := f (rs_entries s ! n)]\<rparr>"

text \<open>One access of a thread: the entry after it, and where the thread stands then.\<close>

fun advance :: "stop_thread \<Rightarrow> stop_entry \<Rightarrow> stop_entry \<times> stop_thread list" where
  "advance (ArmStore n) e = (e\<lparr>se_armed := True\<rparr>, [CheckRequested n])"
| "advance (StopStore n) e = (e\<lparr>se_requested := True\<rparr>, [CheckRequested n])"
| "advance (CheckRequested n) e = (e, if se_requested e then [CheckArmed n] else [])"
| "advance (CheckArmed n) e = (e, if se_armed e then [NotifyOne n] else [])"
| "advance (NotifyOne n) e = (e\<lparr>se_signal := True\<rparr>, [])"

fun entry_of :: "stop_thread \<Rightarrow> nat" where
  "entry_of (ArmStore n) = n"
| "entry_of (StopStore n) = n"
| "entry_of (CheckRequested n) = n"
| "entry_of (CheckArmed n) = n"
| "entry_of (NotifyOne n) = n"

text \<open>\<open>until_stopped\<close> polls the stop first: the polls are what the stop and the work answer to them.\<close>

fun until_stopped :: "(bool \<times> 'a option) list \<Rightarrow> 'a option option" where
  "until_stopped [] = None"
| "until_stopped ((True, _) # polls) = Some None"
| "until_stopped ((False, Some out) # polls) = Some (Some out)"
| "until_stopped ((False, None) # polls) = until_stopped polls"

section \<open>Steps\<close>

datatype stop_label =
    LRegister string string
  | LDrop "string \<times> nat"
  | LArm string
  | LStop string string bool
  | LAccess nat
  | LStopped nat

inductive stop_step :: "stops \<Rightarrow> stop_label \<Rightarrow> stops \<Rightarrow> bool" where
  step_register: "stop_step s (LRegister m a) (fst (register m a s))"
| step_drop: "reg \<in> set (rs_registrations s) \<Longrightarrow> stop_step s (LDrop reg) (drop_registration reg s)"
| step_arm: "stop_step s (LArm m) (arm m s)"
| step_stop: "stop a m s = (t, answer) \<Longrightarrow> stop_step s (LStop a m answer) t"
| step_access: "i < length (rs_threads s) \<Longrightarrow> advance (rs_threads s ! i) (rs_entries s ! n) = (e, rest) \<Longrightarrow>
    n = entry_of (rs_threads s ! i) \<Longrightarrow>
    stop_step s (LAccess i) (s\<lparr>rs_entries := (rs_entries s)[n := e],
      rs_threads := take i (rs_threads s) @ rest @ drop (Suc i) (rs_threads s)\<rparr>)"
| step_stopped: "n < length (rs_entries s) \<Longrightarrow> se_signal (rs_entries s ! n) \<Longrightarrow>
    stop_step s (LStopped n) (set_entry n (\<lambda>e. e\<lparr>se_signal := False, se_taken := True\<rparr>) s)"

inductive_cases stop_stepE: "stop_step s l t"

section \<open>Invariant\<close>

definition awake :: "stop_entry \<Rightarrow> bool" where
  "awake e = (se_signal e \<or> se_taken e)"

definition firing :: "nat \<Rightarrow> stop_thread set \<Rightarrow> bool" where
  "firing n threads \<longleftrightarrow> CheckRequested n \<in> threads \<or> CheckArmed n \<in> threads \<or> NotifyOne n \<in> threads"

definition entry_ok :: "stop_thread set \<Rightarrow> nat \<Rightarrow> stop_entry \<Rightarrow> bool" where
  "entry_ok threads n e \<longleftrightarrow>
     (awake e \<longrightarrow> se_requested e \<and> se_armed e) \<and>
     (se_requested e \<and> se_armed e \<longrightarrow> awake e \<or> firing n threads) \<and>
     (CheckArmed n \<in> threads \<longrightarrow> se_requested e) \<and>
     (NotifyOne n \<in> threads \<longrightarrow> se_requested e \<and> se_armed e)"

definition stops_ok :: "stops \<Rightarrow> bool" where
  "stops_ok s \<longleftrightarrow>
     (\<forall>n < length (rs_entries s). entry_ok (set (rs_threads s)) n (rs_entries s ! n)) \<and>
     (\<forall>th \<in> set (rs_threads s). entry_of th < length (rs_entries s)) \<and>
     (\<forall>m n. hm_get (rs_inner s) m = Some n \<longrightarrow> (m, n) \<in> set (rs_registrations s)) \<and>
     (\<forall>(m, n) \<in> set (rs_registrations s). n < length (rs_entries s)) \<and>
     distinct (map snd (rs_registrations s))"

text \<open>The access of one thread keeps its entry well-formed, and no other entry notices.\<close>

lemma advance_keeps:
  assumes ok: "entry_ok (insert th T) n e" and adv: "advance th e = (e', rest)" and n: "entry_of th = n"
  shows "entry_ok (set rest \<union> T) n e'"
proof (cases th)
  case (CheckRequested m)
  then have "e' = e" and "rest = (if se_requested e then [CheckArmed n] else [])" and "m = n" using adv n by auto
  then show ?thesis using ok CheckRequested by (simp add: entry_ok_def firing_def; blast)
next
  case (CheckArmed m)
  then have "e' = e" and "rest = (if se_armed e then [NotifyOne n] else [])" and "m = n" using adv n by auto
  then show ?thesis using ok CheckArmed by (simp add: entry_ok_def firing_def; blast)
next
  case (ArmStore m)
  then have "e' = e\<lparr>se_armed := True\<rparr>" and "rest = [CheckRequested n]" using adv n by auto
  then show ?thesis using ok ArmStore by (auto simp: entry_ok_def firing_def awake_def)
next
  case (StopStore m)
  then have "e' = e\<lparr>se_requested := True\<rparr>" and "rest = [CheckRequested n]" using adv n by auto
  then show ?thesis using ok StopStore by (auto simp: entry_ok_def firing_def awake_def)
next
  case (NotifyOne m)
  then have "e' = e\<lparr>se_signal := True\<rparr>" and "rest = []" and "m = n" using adv n by auto
  then show ?thesis using ok NotifyOne by (auto simp: entry_ok_def firing_def awake_def)
qed

lemma advance_entry: "advance th e = (e', rest) \<Longrightarrow> x \<in> set rest \<Longrightarrow> entry_of x = entry_of th"
  by (cases th) (auto split: if_splits)

lemma entry_ok_cong:
  assumes "\<And>th. entry_of th = n \<Longrightarrow> th \<in> T \<longleftrightarrow> th \<in> U"
  shows "entry_ok T n e \<longleftrightarrow> entry_ok U n e"
  using assms [of "CheckRequested n"] assms [of "CheckArmed n"] assms [of "NotifyOne n"]
  by (simp add: entry_ok_def firing_def)

lemma entry_ok_insert: "th \<in> {ArmStore k, StopStore k} \<Longrightarrow> entry_ok (insert th T) n e \<longleftrightarrow> entry_ok T n e"
  by (auto simp: entry_ok_def firing_def)

lemma access_keeps:
  assumes ok: "stops_ok s" and i: "i < length (rs_threads s)" and n: "n = entry_of (rs_threads s ! i)"
    and adv: "advance (rs_threads s ! i) (rs_entries s ! n) = (e, rest)"
  shows "stops_ok (s\<lparr>rs_entries := (rs_entries s)[n := e], rs_threads := take i (rs_threads s) @ rest @ drop (Suc i) (rs_threads s)\<rparr>)"
proof -
  let ?th = "rs_threads s ! i" and ?A = "set (take i (rs_threads s)) \<union> set (drop (Suc i) (rs_threads s))"
  have threads: "set (rs_threads s) = insert ?th ?A"
    using id_take_nth_drop [OF i] by (metis Un_insert_right list.simps(15) set_append)
  have after: "set (take i (rs_threads s) @ rest @ drop (Suc i) (rs_threads s)) = set rest \<union> ?A" by auto
  have bound: "n < length (rs_entries s)" using ok i n by (auto simp: stops_ok_def)
  have entries: "entry_ok (set rest \<union> ?A) k ((rs_entries s)[n := e] ! k)" if k: "k < length (rs_entries s)" for k
  proof (cases "k = n")
    case True
    have "entry_ok (insert ?th ?A) n (rs_entries s ! n)" using ok bound threads by (auto simp: stops_ok_def)
    from advance_keeps [OF this adv n [symmetric]] show ?thesis using True bound by simp
  next
    case False
    have "entry_ok (set (rs_threads s)) k (rs_entries s ! k)" using ok k by (simp add: stops_ok_def)
    moreover have "th \<in> set rest \<union> ?A \<longleftrightarrow> th \<in> set (rs_threads s)" if "entry_of th = k" for th
      using that False n advance_entry [OF adv, of th] unfolding threads by blast
    then have "entry_ok (set rest \<union> ?A) k (rs_entries s ! k) \<longleftrightarrow> entry_ok (set (rs_threads s)) k (rs_entries s ! k)"
      by (rule entry_ok_cong)
    ultimately show ?thesis using False by simp
  qed
  have in_range: "entry_of th < length (rs_entries s)" if "th \<in> set rest \<union> ?A" for th
  proof (cases "th \<in> set rest")
    case True
    then show ?thesis using advance_entry [OF adv] bound n by simp
  next
    case False
    then have "th \<in> set (rs_threads s)" using that threads by blast
    then show ?thesis using ok by (simp add: stops_ok_def)
  qed
  let ?t = "s\<lparr>rs_entries := (rs_entries s)[n := e], rs_threads := take i (rs_threads s) @ rest @ drop (Suc i) (rs_threads s)\<rparr>"
  have proj: "length (rs_entries ?t) = length (rs_entries s)" "rs_entries ?t = (rs_entries s)[n := e]"
    "set (rs_threads ?t) = set rest \<union> ?A" "rs_inner ?t = rs_inner s" "rs_registrations ?t = rs_registrations s"
    using after by simp_all
  show ?thesis
    unfolding stops_ok_def proj length_list_update
  proof (intro conjI)
    show "\<forall>k < length (rs_entries s). entry_ok (set rest \<union> ?A) k ((rs_entries s)[n := e] ! k)" using entries by blast
    show "\<forall>th \<in> set rest \<union> ?A. entry_of th < length (rs_entries s)" using in_range by blast
  qed (use ok in \<open>simp_all add: stops_ok_def\<close>)
qed

lemma registered_keeps: "stops_ok s \<Longrightarrow> stops_ok (fst (register m a s))"
proof -
  assume ok: "stops_ok s"
  let ?n = "length (rs_entries s)"
  have fresh: "entry_of th \<noteq> ?n" if "th \<in> set (rs_threads s)" for th using ok that by (auto simp: stops_ok_def)
  have "entry_ok (set (rs_threads s)) ?n
      \<lparr>se_agent_id = a, se_requested = False, se_armed = False, se_signal = False, se_taken = False\<rparr>"
    using fresh [of "CheckArmed ?n"] fresh [of "NotifyOne ?n"] by (auto simp: entry_ok_def awake_def)
  moreover have "?n \<notin> snd ` set (rs_registrations s)" using ok by (fastforce simp: stops_ok_def)
  ultimately show ?thesis
    using ok by (auto simp: stops_ok_def register_def nth_append less_Suc_eq Let_def split: if_splits)
qed

lemma stopped_keeps:
  assumes ok: "stops_ok s" and n: "n < length (rs_entries s)" "se_signal (rs_entries s ! n)"
  shows "stops_ok (set_entry n (\<lambda>e. e\<lparr>se_signal := False, se_taken := True\<rparr>) s)"
proof -
  have "entry_ok (set (rs_threads s)) n (rs_entries s ! n)" using ok n by (simp add: stops_ok_def)
  then have "entry_ok (set (rs_threads s)) n ((rs_entries s ! n)\<lparr>se_signal := False, se_taken := True\<rparr>)"
    using n by (simp add: entry_ok_def awake_def)
  then have "entry_ok (set (rs_threads s)) k
      ((rs_entries s)[n := (rs_entries s ! n)\<lparr>se_signal := False, se_taken := True\<rparr>] ! k)" if "k < length (rs_entries s)" for k
    using ok that by (cases "k = n") (simp_all add: stops_ok_def)
  then show ?thesis using ok by (simp add: stops_ok_def set_entry_def)
qed

lemma begin_keeps: "stops_ok s \<Longrightarrow> th \<in> {ArmStore n, StopStore n} \<Longrightarrow> n < length (rs_entries s) \<Longrightarrow>
    stops_ok (s\<lparr>rs_threads := th # rs_threads s\<rparr>)"
  by (auto simp: stops_ok_def entry_ok_insert)

lemma drop_keeps: "stops_ok s \<Longrightarrow> reg \<in> set (rs_registrations s) \<Longrightarrow> stops_ok (drop_registration reg s)"
  by (cases reg) (auto simp: stops_ok_def drop_registration_def distinct_map inj_on_def split: if_splits)

lemma inner_bound: "stops_ok s \<Longrightarrow> hm_get (rs_inner s) m = Some n \<Longrightarrow> n < length (rs_entries s)"
  by (fastforce simp: stops_ok_def)

lemma stop_step_keeps:
  assumes "stops_ok s" and "stop_step s l t"
  shows "stops_ok t"
  using assms(2)
proof cases
  case (step_arm m)
  then show ?thesis using assms(1) begin_keeps inner_bound by (auto simp: arm_def split: option.splits)
next
  case (step_stop a m answer)
  then show ?thesis using assms(1) begin_keeps by (auto simp: stop_def split: option.splits if_splits)
qed (use assms(1) access_keeps registered_keeps stopped_keeps drop_keeps in simp_all)

lemma stops_new_ok: "stops_ok stops_new"
  by (simp add: stops_ok_def stops_new_def hm_get_def)

interpretation stopping: step_system stops_new stop_step stops_ok
  by unfold_locales (auto intro: stops_new_ok stop_step_keeps)

section \<open>Stops are not lost\<close>

text \<open>How many accesses a thread has left at most.\<close>

fun accesses_left :: "stop_thread \<Rightarrow> nat" where
  "accesses_left (ArmStore _) = 4"
| "accesses_left (StopStore _) = 4"
| "accesses_left (CheckRequested _) = 3"
| "accesses_left (CheckArmed _) = 2"
| "accesses_left (NotifyOne _) = 1"

definition work_left :: "stops \<Rightarrow> nat" where
  "work_left s = sum_list (map accesses_left (rs_threads s))"

lemma advance_decreases: "advance th e = (e', rest) \<Longrightarrow> sum_list (map accesses_left rest) < accesses_left th"
  by (cases th) (auto split: if_splits)

lemma access_decreases:
  assumes "stop_step s (LAccess i) t"
  shows "work_left t < work_left s"
  using assms
proof cases
  case (step_access n e rest)
  have "work_left s = sum_list (map accesses_left (take i (rs_threads s))) + accesses_left (rs_threads s ! i) +
      sum_list (map accesses_left (drop (Suc i) (rs_threads s)))"
    using id_take_nth_drop [OF step_access(2)] unfolding work_left_def
    by (metis add.assoc list.simps(9) map_append sum_list.Cons sum_list_append)
  moreover have "sum_list (map accesses_left rest) < accesses_left (rs_threads s ! i)"
    using advance_decreases [OF step_access(3)] .
  ultimately show ?thesis using step_access(1) by (simp add: work_left_def)
qed

lemma accesses_bounded:
  "stopping.run s ls t \<Longrightarrow> (\<forall>l \<in> set ls. \<exists>i. l = LAccess i) \<Longrightarrow> length ls + work_left t \<le> work_left s"
proof (induction rule: stopping.run.induct)
  case (run_cons s l t ls u)
  then obtain i where "l = LAccess i" by auto
  with run_cons access_decreases [of s i t] show ?case by simp
qed simp

lemma work_left_le: "work_left s \<le> 4 * length (rs_threads s)"
proof -
  have "accesses_left th \<le> 4" for th by (cases th) simp_all
  then have "sum_list (map accesses_left ths) \<le> 4 * length ths" for ths
    by (induction ths) (simp_all add: add_mono)
  then show ?thesis by (simp add: work_left_def)
qed

text \<open>C35. In every interleaving of stops, armings and registrations: a reply is told to stop only when a
  stop was requested and the turn had stored the user's message; a stop, whichever of the two came
  first, is never lost. Once the running calls have made their accesses, at most four each, and
  some access is always possible until then, a reply has been told to stop exactly when both flags
  are up. A registered reply has a live registration, so none outlives its turn.
\<close>

theorem stop_never_lost:
  assumes "stopping.run stops_new history s" and "stopping.run s accesses t"
    and "\<forall>l \<in> set accesses. \<exists>i. l = LAccess i"
  shows "(\<forall>n < length (rs_entries t). awake (rs_entries t ! n) \<longrightarrow> se_requested (rs_entries t ! n) \<and> se_armed (rs_entries t ! n)) \<and>
    length accesses \<le> 4 * length (rs_threads s) \<and>
    (rs_threads t \<noteq> [] \<longrightarrow> (\<exists>u. stop_step t (LAccess 0) u)) \<and>
    (rs_threads t = [] \<longrightarrow> (\<forall>n < length (rs_entries t).
       awake (rs_entries t ! n) \<longleftrightarrow> se_requested (rs_entries t ! n) \<and> se_armed (rs_entries t ! n))) \<and>
    (\<forall>m n. hm_get (rs_inner t) m = Some n \<longrightarrow> (m, n) \<in> set (rs_registrations t))"
proof -
  have ok: "stops_ok t" using assms(1,2) stopping.run_keeps_inv stops_new_ok by blast
  have "length accesses \<le> 4 * length (rs_threads s)"
    using accesses_bounded [OF assms(2,3)] work_left_le [of s] by simp
  moreover have "\<exists>u. stop_step t (LAccess 0) u" if "rs_threads t \<noteq> []"
  proof -
    obtain e rest where "advance (rs_threads t ! 0) (rs_entries t ! entry_of (rs_threads t ! 0)) = (e, rest)" by fastforce
    then show ?thesis using that step_access [of 0 t] by blast
  qed
  moreover have "awake (rs_entries t ! n) \<longleftrightarrow> se_requested (rs_entries t ! n) \<and> se_armed (rs_entries t ! n)"
    if "rs_threads t = []" and "n < length (rs_entries t)" for n
  proof -
    have "entry_ok (set (rs_threads t)) n (rs_entries t ! n)" using ok that by (simp only: stops_ok_def)
    moreover have "\<not> firing n (set (rs_threads t))" using that(1) by (simp add: firing_def)
    ultimately show ?thesis unfolding entry_ok_def by argo
  qed
  moreover have "se_requested (rs_entries t ! n) \<and> se_armed (rs_entries t ! n)"
    if "n < length (rs_entries t)" and "awake (rs_entries t ! n)" for n
    using ok that by (simp add: stops_ok_def entry_ok_def)
  moreover have "\<forall>m n. hm_get (rs_inner t) m = Some n \<longrightarrow> (m, n) \<in> set (rs_registrations t)"
    using ok unfolding stops_ok_def by (elim conjE)
  ultimately show ?thesis by blast
qed

definition example_armed :: stops where
  "example_armed = arm ''m1'' (fst (stop ''ann'' ''m1'' (fst (register ''m1'' ''ann'' stops_new))))"

text \<open>The stop is checked before the turn is armed, and the arming then fires it.\<close>

fun do_access :: "stops \<Rightarrow> nat \<Rightarrow> stops" where
  "do_access s i = (let n = entry_of (rs_threads s ! i); (e, rest) = advance (rs_threads s ! i) (rs_entries s ! n)
     in s\<lparr>rs_entries := (rs_entries s)[n := e], rs_threads := take i (rs_threads s) @ rest @ drop (Suc i) (rs_threads s)\<rparr>)"

lemma do_access_step: "i < length (rs_threads s) \<Longrightarrow> stop_step s (LAccess i) (do_access s i)"
  using step_access [of i s "entry_of (rs_threads s ! i)"] by (simp add: Let_def split: prod.splits)

fun all_enabled :: "stops \<Rightarrow> nat list \<Rightarrow> bool" where
  "all_enabled s [] = True"
| "all_enabled s (i # is) = (i < length (rs_threads s) \<and> all_enabled (do_access s i) is)"

lemma run_accesses: "all_enabled s is \<Longrightarrow> stopping.run s (map LAccess is) (foldl do_access s is)"
  by (induction "is" arbitrary: s) (auto intro: stopping.run.intros do_access_step simp del: do_access.simps)

lemma example_history: "stopping.run stops_new [LRegister ''m1'' ''ann'', LStop ''ann'' ''m1'' True, LArm ''m1''] example_armed"
proof -
  let ?r = "fst (register ''m1'' ''ann'' stops_new)"
  have "stop ''ann'' ''m1'' ?r = (fst (stop ''ann'' ''m1'' ?r), True)" by code_simp
  from stopping.run_cons [OF step_register stopping.run_cons [OF step_stop [OF this] stopping.run_cons [OF step_arm stopping.run_nil]]]
  show ?thesis unfolding example_armed_def .
qed

theorem stop_never_lost_witness:
  "rs_threads (foldl do_access example_armed [1, 1, 1, 0, 0, 0, 0]) = [] \<and>
   awake (rs_entries (foldl do_access example_armed [1, 1, 1, 0, 0, 0, 0]) ! 0)"
proof -
  let ?t = "foldl do_access example_armed [1, 1, 1, 0, 0, 0, 0]"
  have "all_enabled example_armed [1, 1, 1, 0, 0, 0, 0]" by code_simp
  from run_accesses [OF this] have run: "stopping.run example_armed (map LAccess [1, 1, 1, 0, 0, 0, 0]) ?t" .
  have "\<forall>l \<in> set (map LAccess [1, 1, 1, 0, 0, 0, 0]). \<exists>i. l = LAccess i" by auto
  note lost = stop_never_lost [OF example_history run this]
  have "rs_threads ?t = []" and "0 < length (rs_entries ?t)"
    and "se_requested (rs_entries ?t ! 0)" and "se_armed (rs_entries ?t ! 0)" by code_simp+
  then show ?thesis using lost by blast
qed

end
