(* ===== verification/Lifecycle.thy ===== *)
theory Lifecycle
  imports Capability_Gate
begin

text \<open>
  \<open>managers/mcp_lifecycle.rs\<close> and the restart policies of \<open>managers/mcp_protocol.rs\<close>: when the health
  monitor of \<open>managers/mcp_health.rs\<close> may restart a dead server, and how long it waits first. Counts
  are \<open>u32\<close> and waits \<open>u64\<close> milliseconds, with the wrapping addition and the saturating product of
  the code; the monitor asks and records in turn, each with its own reading of the clock, in
  milliseconds.
\<close>

section \<open>Policies\<close>

datatype RestartStrategy = Never | OnFailure | Always

record restart_policy =
  rp_strategy :: RestartStrategy
  rp_max_restarts :: u32
  rp_restart_window_secs :: u64
  rp_backoff_base_ms :: u64
  rp_backoff_max_ms :: u64

definition DEFAULT_MAX_RESTARTS :: u32 where "DEFAULT_MAX_RESTARTS = 5"
definition DEFAULT_RESTART_WINDOW_SECS :: u64 where "DEFAULT_RESTART_WINDOW_SECS = 300"
definition DEFAULT_BACKOFF_BASE_MS :: u64 where "DEFAULT_BACKOFF_BASE_MS = 1000"
definition DEFAULT_BACKOFF_MAX_MS :: u64 where "DEFAULT_BACKOFF_MAX_MS = 30000"

definition default_restart_policy :: restart_policy where
  "default_restart_policy =
     \<lparr>rp_strategy = OnFailure, rp_max_restarts = DEFAULT_MAX_RESTARTS,
      rp_restart_window_secs = DEFAULT_RESTART_WINDOW_SECS, rp_backoff_base_ms = DEFAULT_BACKOFF_BASE_MS,
      rp_backoff_max_ms = DEFAULT_BACKOFF_MAX_MS\<rparr>"

text \<open>The policy in force for a configuration, from its \<open>restart_policy\<close> and the older \<open>auto_restart\<close>.\<close>

definition effective_restart_policy :: "restart_policy option \<Rightarrow> bool option \<Rightarrow> restart_policy" where
  "effective_restart_policy policy auto_restart =
     (case policy of
        Some p \<Rightarrow> p
      | None \<Rightarrow> if unwrap_or auto_restart False then default_restart_policy
                else default_restart_policy\<lparr>rp_strategy := Never\<rparr>)"

section \<open>Counters\<close>

record restart_counter =
  rc_count :: u32
  rc_window_start :: instant
  rc_last_restart :: instant

type_synonym lifecycle = "(string, restart_counter) hmap"

definition fresh_counter :: "instant \<Rightarrow> restart_counter" where
  "fresh_counter now = \<lparr>rc_count = 0, rc_window_start = now, rc_last_restart = now\<rparr>"

definition window_ms :: "restart_policy \<Rightarrow> int" where
  "window_ms p = 1000 * uint (rp_restart_window_secs p)"

text \<open>\<open>duration_since\<close> is zero when the clock reads earlier.\<close>

definition check_restart_budget :: "lifecycle \<Rightarrow> string \<Rightarrow> restart_policy \<Rightarrow> instant \<Rightarrow> lifecycle \<times> bool" where
  "check_restart_budget counters server_id policy now =
     (let counter = unwrap_or (hm_get counters server_id) (fresh_counter now);
          counter = (if max 0 (now - rc_window_start counter) > window_ms policy
                     then counter\<lparr>rc_count := 0, rc_window_start := now\<rparr> else counter)
      in (hm_insert server_id counter counters, rc_count counter < rp_max_restarts policy))"

definition should_restart :: "lifecycle \<Rightarrow> string \<Rightarrow> restart_policy \<Rightarrow> ServerStatus \<Rightarrow> instant \<Rightarrow> lifecycle \<times> bool" where
  "should_restart counters server_id policy status now =
     (case rp_strategy policy of
        Never \<Rightarrow> (counters, False)
      | OnFailure \<Rightarrow>
          (case status of
             StatusError _ \<Rightarrow> check_restart_budget counters server_id policy now
           | _ \<Rightarrow> (counters, False))
      | Always \<Rightarrow> check_restart_budget counters server_id policy now)"

definition calculate_backoff :: "lifecycle \<Rightarrow> string \<Rightarrow> restart_policy \<Rightarrow> instant \<Rightarrow> lifecycle \<times> u64" where
  "calculate_backoff counters server_id policy now =
     (let counter = unwrap_or (hm_get counters server_id) (fresh_counter now);
          counter = counter\<lparr>rc_count := rc_count counter + 1, rc_last_restart := now\<rparr>;
          e = min (rc_count counter - 1) 20;
          backoff_ms = sat_mul (rp_backoff_base_ms policy) (push_bit (unat e) 1)
      in (hm_insert server_id counter counters, min backoff_ms (rp_backoff_max_ms policy)))"

definition reset_counter :: "lifecycle \<Rightarrow> string \<Rightarrow> lifecycle" where
  "reset_counter counters server_id = hm_remove server_id counters"

section \<open>Rounds of the monitor\<close>

text \<open>One dead server in a round: the question, and where it is allowed the recorded attempt and its wait.\<close>

definition restart_round ::
  "lifecycle \<Rightarrow> string \<Rightarrow> restart_policy \<Rightarrow> ServerStatus \<Rightarrow> instant \<Rightarrow> instant \<Rightarrow> lifecycle \<times> u64 option" where
  "restart_round counters server_id policy status asked recorded =
     (case should_restart counters server_id policy status asked of
        (counters', False) \<Rightarrow> (counters', None)
      | (counters', True) \<Rightarrow>
          let (counters'', wait) = calculate_backoff counters' server_id policy recorded in (counters'', Some wait))"

text \<open>The attempts of a series of rounds that all fail: when each was allowed, and its wait.\<close>

fun attempts :: "lifecycle \<Rightarrow> string \<Rightarrow> restart_policy \<Rightarrow> (ServerStatus \<times> instant \<times> instant) list \<Rightarrow> (instant \<times> u64) list" where
  "attempts counters server_id policy [] = []"
| "attempts counters server_id policy ((status, asked, recorded) # rounds) =
     (case restart_round counters server_id policy status asked recorded of
        (counters', None) \<Rightarrow> attempts counters' server_id policy rounds
      | (counters', Some wait) \<Rightarrow> (asked, wait) # attempts counters' server_id policy rounds)"

section \<open>The budget\<close>

text \<open>The count and the window a question at \<open>now\<close> works with.\<close>

definition counted :: "lifecycle \<Rightarrow> string \<Rightarrow> restart_policy \<Rightarrow> instant \<Rightarrow> nat \<times> instant" where
  "counted counters sid policy now =
     (case hm_get counters sid of
        None \<Rightarrow> (0, now)
      | Some c \<Rightarrow> if now - rc_window_start c > window_ms policy then (0, now) else (unat (rc_count c), rc_window_start c))"

lemma window_nonneg [simp]: "window_ms p \<ge> 0"
  by (simp add: window_ms_def)

lemma unat_min: "unat (min a b) = min (unat a) (unat b)"
  by (simp add: min_def word_le_nat_alt)

lemma unat_pow2:
  assumes "n \<le> 20"
  shows "unat (2 ^ n :: u64) = 2 ^ n"
proof -
  have "(2 :: nat) ^ n < 2 ^ LENGTH(64)" using assms by (intro power_strict_increasing) simp_all
  then have "unat (of_nat (2 ^ n) :: u64) = 2 ^ n" by (simp only: unsigned_of_nat take_bit_nat_eq_self of_nat_id)
  moreover have "of_nat (2 ^ n) = (2 ^ n :: u64)" by (simp only: of_nat_power of_nat_numeral)
  ultimately show ?thesis by (simp only:)
qed

lemma backoff_exact:
  assumes "hm_get counters sid = Some c"
  shows "unat (snd (calculate_backoff counters sid policy now)) =
      min (unat (rp_backoff_base_ms policy) * 2 ^ min (unat (rc_count c)) 20) (unat (rp_backoff_max_ms policy)) \<and>
    hm_get (fst (calculate_backoff counters sid policy now)) sid = Some (c\<lparr>rc_count := rc_count c + 1, rc_last_restart := now\<rparr>)"
proof -
  have e: "unat (min (rc_count c) 20) = min (unat (rc_count c)) 20" by (simp add: unat_min)
  have "unat (rp_backoff_max_ms policy) < 2 ^ LENGTH(64)" by (rule unsigned_less)
  then have "min (min x (2 ^ 64 - 1)) (unat (rp_backoff_max_ms policy)) = min x (unat (rp_backoff_max_ms policy))" for x
    by (simp add: min_def)
  then show ?thesis
    using assms by (simp add: calculate_backoff_def Let_def unat_min unat_sat_mul e unat_pow2)
qed

text \<open>The counter of a server stands at \<open>n\<close> attempts in the window begun at \<open>w\<close>.\<close>

definition stands :: "lifecycle \<Rightarrow> string \<Rightarrow> nat \<Rightarrow> instant \<Rightarrow> bool" where
  "stands counters sid n w \<longleftrightarrow>
     (\<exists>c. hm_get counters sid = Some c \<and> unat (rc_count c) = n \<and> rc_window_start c = w)"

lemma budget_stands:
  "snd (check_restart_budget counters sid policy now) \<longleftrightarrow> fst (counted counters sid policy now) < unat (rp_max_restarts policy)"
  "stands (fst (check_restart_budget counters sid policy now)) sid (fst (counted counters sid policy now)) (snd (counted counters sid policy now))"
proof -
  have "max 0 d > window_ms policy \<longleftrightarrow> d > window_ms policy" for d using window_nonneg [of policy] by linarith
  then show "snd (check_restart_budget counters sid policy now) \<longleftrightarrow> fst (counted counters sid policy now) < unat (rp_max_restarts policy)"
    "stands (fst (check_restart_budget counters sid policy now)) sid (fst (counted counters sid policy now)) (snd (counted counters sid policy now))"
    by (auto simp: check_restart_budget_def counted_def stands_def fresh_counter_def Let_def word_less_nat_alt unwrap_or_def
        split: option.splits)
qed

lemma round_cases:
  assumes "restart_round counters sid policy status asked recorded = (counters', r)" and "counted counters sid policy asked = (n, w)"
  obtains (untouched) "counters' = counters" "r = None"
  | (denied) "r = None" "n \<ge> unat (rp_max_restarts policy)" "stands counters' sid n w"
  | (allowed) wait where "r = Some wait" "n < unat (rp_max_restarts policy)" "stands counters' sid (Suc n) w"
proof (cases "should_restart counters sid policy status asked = (counters, False)")
  case True
  then show thesis using assms(1) untouched by (simp add: restart_round_def)
next
  case False
  then have ask: "should_restart counters sid policy status asked = check_restart_budget counters sid policy asked"
    by (simp add: should_restart_def split: RestartStrategy.splits ServerStatus.splits)
  obtain mid b where mid: "check_restart_budget counters sid policy asked = (mid, b)" by fastforce
  have b: "b \<longleftrightarrow> n < unat (rp_max_restarts policy)" and st: "stands mid sid n w"
    using budget_stands [of counters sid policy asked] mid assms(2) by simp_all
  show thesis
  proof (cases b)
    case False
    then show thesis using assms(1) ask mid b st denied by (simp add: restart_round_def)
  next
    case True
    from st obtain c where c: "hm_get mid sid = Some c" "unat (rc_count c) = n" "rc_window_start c = w"
      by (auto simp: stands_def)
    have "unat (rp_max_restarts policy) < 2 ^ LENGTH(32)" by (rule unsigned_less)
    then have "unat (rc_count c) + 1 < 2 ^ 32" using True b c(2) by simp
    then have "unat (rc_count c + 1) = Suc n" using c(2) by (simp add: unat_word_ariths)
    then have "stands (fst (calculate_backoff mid sid policy recorded)) sid (Suc n) w"
      using backoff_exact [OF c(1), of policy recorded] c(3) by (simp add: stands_def)
    then show thesis using assms(1) ask mid True b allowed by (auto simp: restart_round_def Let_def split: prod.splits)
  qed
qed

lemma attempts_induct [consumes 1, case_names here later]:
  assumes "(t, wait) \<in> set (attempts counters sid policy rounds)"
    and "\<And>counters counters' status recorded rounds.
      restart_round counters sid policy status t recorded = (counters', Some wait) \<Longrightarrow> P ((status, t, recorded) # rounds)"
    and "\<And>r rounds. P rounds \<Longrightarrow> P (r # rounds)"
  shows "P rounds"
  using assms(1)
proof (induction rounds arbitrary: counters)
  case (Cons r rounds)
  obtain status asked recorded where r: "r = (status, asked, recorded)" by (cases r)
  obtain counters' res where round: "restart_round counters sid policy status asked recorded = (counters', res)" by fastforce
  show ?case
  proof (cases "(t, wait) \<in> set (attempts counters' sid policy rounds)")
    case True
    then show ?thesis using Cons.IH assms(3) by blast
  next
    case False
    then have "res = Some wait \<and> asked = t" using Cons.prems by (auto simp: r round split: option.splits)
    then show ?thesis using assms(2) round r by blast
  qed
qed simp

lemma attempts_in_rounds: "(t, wait) \<in> set (attempts counters sid policy rounds) \<Longrightarrow> t \<in> (fst \<circ> snd) ` set rounds"
  by (induction rule: attempts_induct) auto

lemma counted_stands: "stands counters sid n w \<Longrightarrow>
    counted counters sid policy now = (if now - w > window_ms policy then (0, now) else (n, w))"
  by (auto simp: stands_def counted_def)

definition ordered :: "(ServerStatus \<times> instant \<times> instant) list \<Rightarrow> bool" where
  "ordered rounds = sorted (map (fst \<circ> snd) rounds)"

lemma attempts_later:
  assumes "ordered ((status, asked, recorded) # rounds)" and "(t, wait) \<in> set (attempts counters sid policy rounds)"
  shows "asked \<le> t"
  using attempts_in_rounds [OF assms(2)] assms(1) by (auto simp: ordered_def)

definition in_span :: "instant \<Rightarrow> instant \<Rightarrow> (instant \<times> u64) list \<Rightarrow> nat" where
  "in_span a b xs = length (filter (\<lambda>(t, _). a \<le> t \<and> t \<le> b) xs)"

lemma in_span_simps [simp]:
  "in_span a b [] = 0"
  "in_span a b ((t, wait) # xs) = (if a \<le> t \<and> t \<le> b then 1 else 0) + in_span a b xs"
  by (simp_all add: in_span_def)

lemma in_span_none: "(\<And>t wait. (t, wait) \<in> set xs \<Longrightarrow> b < t) \<Longrightarrow> in_span a b xs = 0"
  by (fastforce simp: in_span_def filter_empty_conv)

lemma in_span_mono: "b \<le> b' \<Longrightarrow> in_span a b xs \<le> in_span a b' xs"
  by (induction xs) auto

text \<open>In one window of the counter: what is left of the budget.\<close>

lemma window_budget:
  "stands counters sid n w \<Longrightarrow> ordered rounds \<Longrightarrow>
   in_span a (w + window_ms policy) (attempts counters sid policy rounds) \<le> unat (rp_max_restarts policy) - n"
proof (induction rounds arbitrary: counters n)
  case (Cons r rounds)
  obtain status asked recorded where r: "r = (status, asked, recorded)" by (cases r)
  obtain counters' res where round: "restart_round counters sid policy status asked recorded = (counters', res)" by fastforce
  have rest: "ordered rounds" using Cons.prems(2) by (simp add: ordered_def)
  show ?case
  proof (cases "asked - w > window_ms policy")
    case True
    then have "in_span a (w + window_ms policy) (attempts counters' sid policy rounds) = 0"
      using attempts_later [OF Cons.prems(2) [unfolded r]] by (intro in_span_none) force
    then show ?thesis using True by (simp add: r round split: option.splits)
  next
    case False
    then have "counted counters sid policy asked = (n, w)" using counted_stands [OF Cons.prems(1)] by simp
    from round this show ?thesis
    proof (cases rule: round_cases)
      case (allowed wait)
      then show ?thesis using Cons.IH [OF allowed(3) rest] by (auto simp: r round)
    next
      case denied
      then show ?thesis using Cons.IH [OF denied(3) rest] by (simp add: r round)
    next
      case untouched
      then show ?thesis using Cons.IH [OF Cons.prems(1) rest] by (simp add: r round)
    qed
  qed
qed simp

definition used :: "lifecycle \<Rightarrow> string \<Rightarrow> nat" where
  "used counters sid = (case hm_get counters sid of None \<Rightarrow> 0 | Some c \<Rightarrow> unat (rc_count c))"

lemma stands_used: "stands counters sid n w \<Longrightarrow> used counters sid = n"
  by (auto simp: stands_def used_def)

lemma counted_cases: "counted counters sid policy now = (n, w) \<Longrightarrow> n = 0 \<and> w = now \<or> n = used counters sid"
  by (auto simp: counted_def used_def split: option.splits if_splits)

lemma interval_budget_from:
  "ordered rounds \<Longrightarrow> (\<forall>r \<in> set rounds. a \<le> fst (snd r)) \<Longrightarrow>
   in_span a (a + window_ms policy) (attempts counters sid policy rounds) \<le>
     (unat (rp_max_restarts policy) - used counters sid) + unat (rp_max_restarts policy)"
proof (induction rounds arbitrary: counters)
  case (Cons r rounds)
  obtain status asked recorded where r: "r = (status, asked, recorded)" by (cases r)
  obtain counters' res where round: "restart_round counters sid policy status asked recorded = (counters', res)" by fastforce
  obtain n w where nw: "counted counters sid policy asked = (n, w)" by fastforce
  have rest: "ordered rounds" "\<forall>r \<in> set rounds. a \<le> fst (snd r)" using Cons.prems by (simp_all add: ordered_def)
  have a: "a \<le> asked" using Cons.prems r by simp
  have "in_span a (a + window_ms policy) (attempts counters' sid policy rounds) \<le>
      in_span a (asked + window_ms policy) (attempts counters' sid policy rounds)" using a by (intro in_span_mono) simp
  then have fresh: "in_span a (a + window_ms policy) (attempts counters' sid policy rounds) \<le> unat (rp_max_restarts policy) - m"
    if "stands counters' sid m asked" for m
    using window_budget [OF that rest(1), of a policy] by linarith
  from round nw show ?case
  proof (cases rule: round_cases)
    case (allowed wait)
    from counted_cases [OF nw] show ?thesis
    proof
      assume "n = 0 \<and> w = asked"
      then show ?thesis using fresh [of 1] allowed by (auto simp: r round)
    next
      assume "n = used counters sid"
      then show ?thesis using Cons.IH [OF rest, of counters'] stands_used [OF allowed(3)] allowed by (auto simp: r round)
    qed
  next
    case denied
    from counted_cases [OF nw] show ?thesis
    proof
      assume "n = 0 \<and> w = asked"
      then show ?thesis using fresh [of 0] denied by (simp add: r round)
    next
      assume "n = used counters sid"
      then show ?thesis using Cons.IH [OF rest, of counters'] stands_used [OF denied(3)] denied by (simp add: r round)
    qed
  next
    case untouched
    then show ?thesis using Cons.IH [OF rest, of counters] by (simp add: r round)
  qed
qed simp

lemma fresh_budget:
  "hm_get counters sid = None \<Longrightarrow> ordered rounds \<Longrightarrow> (\<forall>r \<in> set rounds. a \<le> fst (snd r)) \<Longrightarrow>
   in_span a (a + window_ms policy) (attempts counters sid policy rounds) \<le> unat (rp_max_restarts policy)"
proof (induction rounds)
  case (Cons r rounds)
  obtain status asked recorded where r: "r = (status, asked, recorded)" by (cases r)
  obtain counters' res where round: "restart_round counters sid policy status asked recorded = (counters', res)" by fastforce
  have nw: "counted counters sid policy asked = (0, asked)" using Cons.prems(1) by (simp add: counted_def)
  have rest: "ordered rounds" "\<forall>r \<in> set rounds. a \<le> fst (snd r)" using Cons.prems by (simp_all add: ordered_def)
  have "in_span a (a + window_ms policy) (attempts counters' sid policy rounds) \<le>
      in_span a (asked + window_ms policy) (attempts counters' sid policy rounds)" using Cons.prems(3) r by (intro in_span_mono) simp
  then have fresh: "in_span a (a + window_ms policy) (attempts counters' sid policy rounds) \<le> unat (rp_max_restarts policy) - m"
    if "stands counters' sid m asked" for m
    using window_budget [OF that rest(1), of a policy] by linarith
  from round nw show ?case
  proof (cases rule: round_cases)
    case (allowed wait)
    then show ?thesis using fresh [of 1] by (auto simp: r round)
  next
    case denied
    then show ?thesis using fresh [of 0] by (simp add: r round)
  next
    case untouched
    then show ?thesis using Cons.IH [OF Cons.prems(1) rest] by (simp add: r round)
  qed
qed simp

lemma interval_budget:
  "ordered rounds \<Longrightarrow> in_span a (a + window_ms policy) (attempts counters sid policy rounds) \<le> 2 * unat (rp_max_restarts policy)"
proof (induction rounds arbitrary: counters)
  case (Cons r rounds)
  obtain status asked recorded where r: "r = (status, asked, recorded)" by (cases r)
  show ?case
  proof (cases "a \<le> asked")
    case True
    then have "\<forall>r \<in> set (r # rounds). a \<le> fst (snd r)" using Cons.prems r by (force simp: ordered_def)
    from interval_budget_from [OF Cons.prems this, of policy counters sid] show ?thesis by simp
  next
    case False
    have "ordered rounds" using Cons.prems by (simp add: ordered_def)
    then show ?thesis using Cons.IH False by (auto simp: r split: prod.splits option.splits)
  qed
qed simp

lemma attempt_reason:
  assumes "(t, wait) \<in> set (attempts counters sid policy rounds)"
  shows "wait \<le> rp_backoff_max_ms policy \<and> rp_strategy policy \<noteq> Never \<and>
    (rp_strategy policy = OnFailure \<longrightarrow> (\<exists>e recorded. (StatusError e, t, recorded) \<in> set rounds))"
  using assms
proof (induction rule: attempts_induct)
  case (here counters counters' status recorded rounds)
  have "snd (calculate_backoff c sid policy recorded) \<le> rp_backoff_max_ms policy" for c
    by (simp add: calculate_backoff_def Let_def)
  moreover obtain c where "should_restart counters sid policy status t = (c, True)" and "wait = snd (calculate_backoff c sid policy recorded)"
    using here by (auto simp: restart_round_def Let_def split: prod.splits bool.splits)
  ultimately show ?case by (auto simp: should_restart_def split: RestartStrategy.splits ServerStatus.splits)
qed auto

text \<open>Restarts are bounded. While its restarts keep failing, a dead server is retried at most as often
  as configured within one window of its first attempt, and at most twice as often in any span of
  that length; never under the strategy \<open>Never\<close>, and under \<open>OnFailure\<close> only for a recorded error. No
  wait exceeds the configured maximum, and the wait after \<open>n\<close> attempts is the base times
  \<open>2 ^ min n 20\<close>, capped, whatever the configured numbers: nothing overflows.
\<close>

theorem restarts_bounded:
  assumes "ordered rounds"
  shows "in_span a (a + window_ms policy) (attempts counters sid policy rounds) \<le> 2 * unat (rp_max_restarts policy) \<and>
    (hm_get counters sid = None \<longrightarrow> rounds \<noteq> [] \<longrightarrow>
       in_span (fst (snd (hd rounds))) (fst (snd (hd rounds)) + window_ms policy) (attempts counters sid policy rounds)
         \<le> unat (rp_max_restarts policy)) \<and>
    (\<forall>(t, wait) \<in> set (attempts counters sid policy rounds).
       wait \<le> rp_backoff_max_ms policy \<and> rp_strategy policy \<noteq> Never \<and>
       (rp_strategy policy = OnFailure \<longrightarrow> (\<exists>e recorded. (StatusError e, t, recorded) \<in> set rounds))) \<and>
    (\<forall>c now. hm_get counters sid = Some c \<longrightarrow>
       unat (snd (calculate_backoff counters sid policy now)) =
         min (unat (rp_backoff_base_ms policy) * 2 ^ min (unat (rc_count c)) 20) (unat (rp_backoff_max_ms policy)))"
proof -
  have "in_span (fst (snd (hd rounds))) (fst (snd (hd rounds)) + window_ms policy) (attempts counters sid policy rounds)
      \<le> unat (rp_max_restarts policy)" if "hm_get counters sid = None" "rounds \<noteq> []"
  proof (rule fresh_budget [OF that(1) assms])
    show "\<forall>r \<in> set rounds. fst (snd (hd rounds)) \<le> fst (snd r)" using that(2) assms by (cases rounds) (auto simp: ordered_def)
  qed
  then show ?thesis using interval_budget [OF assms] attempt_reason backoff_exact by fastforce
qed

definition example_policy :: restart_policy where
  "example_policy = default_restart_policy\<lparr>rp_max_restarts := 2\<rparr>"

definition example_rounds :: "(ServerStatus \<times> instant \<times> instant) list" where
  "example_rounds = map (\<lambda>t. (StatusError ''crashed'', t, t)) [0, 299000, 301000, 303000]"

theorem restarts_bounded_witness:
  "in_span 299000 (299000 + window_ms example_policy) (attempts [] ''srv'' example_policy example_rounds) \<le> 4 \<and>
   in_span 0 (0 + window_ms example_policy) (attempts [] ''srv'' example_policy example_rounds) \<le> 2"
proof -
  have "ordered example_rounds" "fst (snd (hd example_rounds)) = 0" "example_rounds \<noteq> []" by code_simp+
  moreover have "unat (rp_max_restarts example_policy) = 2" by (simp add: example_policy_def)
  moreover have "hm_get ([] :: lifecycle) sid = None" for sid by (simp add: hm_get_def)
  ultimately show ?thesis
    using restarts_bounded [of example_rounds 299000 example_policy "[]" "''srv''"] by (auto simp del: attempts.simps)
qed

text \<open>The window does not roll: three attempts within its length, waits included, where the policy says two.\<close>

theorem restart_window_does_not_roll:
  "map fst (attempts [] sid example_policy example_rounds) = [0, 299000, 301000, 303000]"
  by (simp add: example_rounds_def example_policy_def default_restart_policy_def DEFAULT_RESTART_WINDOW_SECS_def
      restart_round_def should_restart_def check_restart_budget_def calculate_backoff_def window_ms_def fresh_counter_def
      unwrap_or_def hm_get_def hm_insert_def hm_remove_def Let_def)

end
