(* ===== verification/Isolation.thy ===== *)
theory Isolation
  imports Mgp Capabilities
begin

text \<open>
  \<open>managers/mcp_isolation.rs\<close>: the isolation profile of a server process, from its trust level, the
  permissions it has and the overrides of its configuration. Scopes are ordered by \<open>rank\<close>, higher
  is more permissive; a missing limit is no limit. \<open>str::to_lowercase\<close> is a parameter.
\<close>

section \<open>Scopes\<close>

datatype FilesystemScope = FsUnrestricted | FsSandbox | FsReadonly | FsNone

datatype NetworkScope = NetUnrestricted | NetProxyOnly | NetNone

fun fs_rank :: "FilesystemScope \<Rightarrow> nat" where
  "fs_rank FsNone = 0"
| "fs_rank FsReadonly = 1"
| "fs_rank FsSandbox = 2"
| "fs_rank FsUnrestricted = 3"

fun net_rank :: "NetworkScope \<Rightarrow> nat" where
  "net_rank NetNone = 0"
| "net_rank NetProxyOnly = 1"
| "net_rank NetUnrestricted = 2"

definition fs_parse :: "(string \<Rightarrow> string) \<Rightarrow> string \<Rightarrow> string + FilesystemScope" where
  "fs_parse lower s =
     (let l = lower s
      in if l = ''unrestricted'' then Ok FsUnrestricted else if l = ''sandbox'' then Ok FsSandbox
         else if l = ''readonly'' then Ok FsReadonly else if l = ''none'' then Ok FsNone
         else Err (''unknown filesystem scope: '' @ l))"

definition net_parse :: "(string \<Rightarrow> string) \<Rightarrow> string \<Rightarrow> string + NetworkScope" where
  "net_parse lower s =
     (let l = lower s
      in if l = ''unrestricted'' then Ok NetUnrestricted
         else if l = ''proxyonly'' \<or> l = ''proxy_only'' then Ok NetProxyOnly
         else if l = ''none'' then Ok NetNone
         else Err (''unknown network scope: '' @ l))"

section \<open>Profiles\<close>

record isolation_profile =
  ip_trust_level :: TrustLevel
  ip_sandbox_dir :: path
  ip_filesystem_scope :: FilesystemScope
  ip_network_scope :: NetworkScope
  ip_memory_limit_mb :: "u32 option"
  ip_max_child_processes :: "u32 option"
  ip_open_file_limit :: "u32 option"

record isolation_config =
  ic_memory_limit_mb :: "u32 option"
  ic_cpu_time_limit_secs :: "u32 option"
  ic_filesystem_scope :: "string option"
  ic_network_scope :: "string option"
  ic_max_child_processes :: "u32 option"

record isolation_defaults =
  id_filesystem :: FilesystemScope
  id_network :: NetworkScope
  id_memory_limit_mb :: "u32 option"
  id_max_child_processes :: "u32 option"

fun defaults_for :: "TrustLevel \<Rightarrow> isolation_defaults" where
  "defaults_for Core = \<lparr>id_filesystem = FsUnrestricted, id_network = NetUnrestricted,
     id_memory_limit_mb = None, id_max_child_processes = None\<rparr>"
| "defaults_for Standard = \<lparr>id_filesystem = FsSandbox, id_network = NetProxyOnly,
     id_memory_limit_mb = Some 512, id_max_child_processes = Some 5\<rparr>"
| "defaults_for Experimental = \<lparr>id_filesystem = FsSandbox, id_network = NetProxyOnly,
     id_memory_limit_mb = Some 256, id_max_child_processes = Some 2\<rparr>"
| "defaults_for Untrusted = \<lparr>id_filesystem = FsSandbox, id_network = NetNone,
     id_memory_limit_mb = Some 128, id_max_child_processes = Some 0\<rparr>"

definition apply_permission_upgrade :: "string \<Rightarrow> FilesystemScope \<times> NetworkScope \<Rightarrow> FilesystemScope \<times> NetworkScope" where
  "apply_permission_upgrade perm = (\<lambda>(fs, net).
     if perm = ''network.outbound'' \<and> net_rank net < net_rank NetProxyOnly then (fs, NetProxyOnly)
     else if perm = ''filesystem.write'' \<and> fs_rank fs < fs_rank FsSandbox then (FsSandbox, net)
     else if perm = ''filesystem.read'' \<and> fs_rank fs < fs_rank FsReadonly then (FsReadonly, net)
     else (fs, net))"

definition apply_permission_upgrades :: "string list \<Rightarrow> FilesystemScope \<times> NetworkScope \<Rightarrow> FilesystemScope \<times> NetworkScope" where
  "apply_permission_upgrades permissions scopes = fold apply_permission_upgrade permissions scopes"

section \<open>Overrides\<close>

text \<open>The two scope checks \<open>Standard\<close> and \<open>Experimental\<close> share; \<open>who\<close> names the level in the message.\<close>

definition check_scopes :: "(string \<Rightarrow> string) \<Rightarrow> string \<Rightarrow> isolation_config \<Rightarrow> string + unit" where
  "check_scopes lower who ovr =
     and_then (case ic_filesystem_scope ovr of
         None \<Rightarrow> Ok ()
       | Some fs \<Rightarrow> and_then (fs_parse lower fs) (\<lambda>scope.
           ensure (scope \<noteq> FsUnrestricted) (who @ '' servers cannot override filesystem to Unrestricted''))) (\<lambda>_.
     case ic_network_scope ovr of
         None \<Rightarrow> Ok ()
       | Some net \<Rightarrow> and_then (net_parse lower net) (\<lambda>scope.
           ensure (scope \<noteq> NetUnrestricted) (who @ '' servers cannot override network to Unrestricted'')))"

fun validate_overrides :: "(string \<Rightarrow> string) \<Rightarrow> TrustLevel \<Rightarrow> isolation_config \<Rightarrow> string + unit" where
  "validate_overrides lower Core ovr = Ok ()"
| "validate_overrides lower Standard ovr = check_scopes lower ''Standard'' ovr"
| "validate_overrides lower Experimental ovr =
     and_then (case ic_memory_limit_mb ovr of
         None \<Rightarrow> Ok ()
       | Some mem \<Rightarrow> ensure (mem \<le> 512)
           (''Experimental servers cannot exceed 512 MB memory limit (requested '' @ show_nat (unat mem) @ '')'')) (\<lambda>_.
     and_then (case ic_max_child_processes ovr of
         None \<Rightarrow> Ok ()
       | Some procs \<Rightarrow> ensure (procs \<le> 5)
           (''Experimental servers cannot exceed 5 child processes (requested '' @ show_nat (unat procs) @ '')'')) (\<lambda>_.
     check_scopes lower ''Experimental'' ovr))"
| "validate_overrides lower Untrusted ovr =
     ensure (\<not> (ic_memory_limit_mb ovr \<noteq> None \<or> ic_cpu_time_limit_secs ovr \<noteq> None \<or> ic_filesystem_scope ovr \<noteq> None \<or>
         ic_network_scope ovr \<noteq> None \<or> ic_max_child_processes ovr \<noteq> None))
       ''Untrusted servers cannot have isolation overrides''"

definition override_with :: "('a \<Rightarrow> string + 'b) \<Rightarrow> 'a option \<Rightarrow> 'b \<Rightarrow> string + 'b" where
  "override_with parse given d = (case given of None \<Rightarrow> Ok d | Some v \<Rightarrow> parse v)"

definition derive_isolation_profile ::
  "(string \<Rightarrow> string) \<Rightarrow> TrustLevel \<Rightarrow> string list \<Rightarrow> isolation_config option \<Rightarrow> string \<Rightarrow> path \<Rightarrow> string + isolation_profile" where
  "derive_isolation_profile lower trust_level permissions overrides server_id sandbox_base =
     and_then (case overrides of None \<Rightarrow> Ok () | Some ovr \<Rightarrow> validate_overrides lower trust_level ovr) (\<lambda>_.
     let defs = defaults_for trust_level;
         (fs, net) = apply_permission_upgrades permissions (id_filesystem defs, id_network defs)
     in and_then (case overrides of None \<Rightarrow> Ok fs | Some ovr \<Rightarrow> override_with (fs_parse lower) (ic_filesystem_scope ovr) fs) (\<lambda>fs_scope.
        and_then (case overrides of None \<Rightarrow> Ok net | Some ovr \<Rightarrow> override_with (net_parse lower) (ic_network_scope ovr) net) (\<lambda>net_scope.
        Ok \<lparr>ip_trust_level = trust_level, ip_sandbox_dir = path_join sandbox_base server_id,
            ip_filesystem_scope = fs_scope, ip_network_scope = net_scope,
            ip_memory_limit_mb = option_or (Option.bind overrides ic_memory_limit_mb) (id_memory_limit_mb defs),
            ip_max_child_processes = option_or (Option.bind overrides ic_max_child_processes) (id_max_child_processes defs),
            ip_open_file_limit = None\<rparr>)))"

section \<open>Profiles follow trust\<close>

text \<open>A missing limit is the highest.\<close>

definition limit_le :: "u32 option \<Rightarrow> u32 option \<Rightarrow> bool" where
  "limit_le a b = (case b of None \<Rightarrow> True | Some y \<Rightarrow> (case a of None \<Rightarrow> False | Some x \<Rightarrow> x \<le> y))"

definition scopes_le :: "isolation_profile \<Rightarrow> isolation_profile \<Rightarrow> bool" where
  "scopes_le p q \<longleftrightarrow>
     fs_rank (ip_filesystem_scope p) \<le> fs_rank (ip_filesystem_scope q) \<and>
     net_rank (ip_network_scope p) \<le> net_rank (ip_network_scope q)"

definition profile_le :: "isolation_profile \<Rightarrow> isolation_profile \<Rightarrow> bool" where
  "profile_le p q \<longleftrightarrow> scopes_le p q \<and>
     limit_le (ip_memory_limit_mb p) (ip_memory_limit_mb q) \<and>
     limit_le (ip_max_child_processes p) (ip_max_child_processes q)"

lemma limit_le_refl [simp]: "limit_le a a"
  by (simp add: limit_le_def split: option.splits)

text \<open>From the defaults, whose file system scope is wide enough, permissions can only open the proxy.\<close>

lemma upgrade_wide:
  "fs_rank fs \<ge> 2 \<Longrightarrow> apply_permission_upgrade perm (fs, net) =
     (fs, if perm = ''network.outbound'' \<and> net_rank net < 1 then NetProxyOnly else net)"
  by (simp add: apply_permission_upgrade_def)

lemma upgrades_exact:
  "fs_rank fs \<ge> 2 \<Longrightarrow> apply_permission_upgrades perms (fs, net) =
     (fs, if ''network.outbound'' \<in> set perms \<and> net_rank net < 1 then NetProxyOnly else net)"
  unfolding apply_permission_upgrades_def by (induction perms arbitrary: net) (auto simp: upgrade_wide)

lemma default_scopes: "fs_rank (id_filesystem (defaults_for t)) \<ge> 2"
  by (cases t) simp_all

lemma derive_plain:
  "derive_isolation_profile lower t perms None sid base =
     Ok \<lparr>ip_trust_level = t, ip_sandbox_dir = path_join base sid, ip_filesystem_scope = id_filesystem (defaults_for t),
       ip_network_scope = (if ''network.outbound'' \<in> set perms \<and> net_rank (id_network (defaults_for t)) < 1
         then NetProxyOnly else id_network (defaults_for t)),
       ip_memory_limit_mb = id_memory_limit_mb (defaults_for t),
       ip_max_child_processes = id_max_child_processes (defaults_for t), ip_open_file_limit = None\<rparr>"
  using default_scopes [of t] by (simp add: derive_isolation_profile_def upgrades_exact Let_def)

lemma check_scopes_fs:
  "check_scopes lower who ovr = Ok u \<Longrightarrow> ic_filesystem_scope ovr = Some fs \<Longrightarrow> fs_parse lower fs = Ok s \<Longrightarrow> s \<noteq> FsUnrestricted"
  by (auto simp: check_scopes_def)

lemma check_scopes_net:
  "check_scopes lower who ovr = Ok u \<Longrightarrow> ic_network_scope ovr = Some net \<Longrightarrow> net_parse lower net = Ok s \<Longrightarrow> s \<noteq> NetUnrestricted"
  by (auto simp: check_scopes_def)

lemma fs_not_unrestricted: "s \<noteq> FsUnrestricted \<Longrightarrow> fs_rank s \<le> 2"
  by (cases s) simp_all

lemma net_not_unrestricted: "s \<noteq> NetUnrestricted \<Longrightarrow> net_rank s \<le> 1"
  by (cases s) simp_all

lemma validate_scopes:
  assumes "t \<le> Standard" and "validate_overrides lower t ovr = Ok u"
  shows "ic_filesystem_scope ovr = Some fs \<Longrightarrow> fs_parse lower fs = Ok s \<Longrightarrow> fs_rank s \<le> 2"
    and "ic_network_scope ovr = Some net \<Longrightarrow> net_parse lower net = Ok n \<Longrightarrow> net_rank n \<le> 1"
proof -
  have *: "(\<exists>who. check_scopes lower who ovr = Ok u) \<or> ic_filesystem_scope ovr = None \<and> ic_network_scope ovr = None"
    using assms by (cases t) auto
  show "ic_filesystem_scope ovr = Some fs \<Longrightarrow> fs_parse lower fs = Ok s \<Longrightarrow> fs_rank s \<le> 2"
    using * check_scopes_fs fs_not_unrestricted by force
  show "ic_network_scope ovr = Some net \<Longrightarrow> net_parse lower net = Ok n \<Longrightarrow> net_rank n \<le> 1"
    using * check_scopes_net net_not_unrestricted by force
qed

lemma derive_scopes:
  assumes "t \<le> Standard" and "derive_isolation_profile lower t perms overrides sid base = Ok p"
  shows "fs_rank (ip_filesystem_scope p) \<le> 2 \<and> net_rank (ip_network_scope p) \<le> 1"
proof -
  let ?d = "defaults_for t"
  have d: "fs_rank (id_filesystem ?d) = 2" "net_rank (id_network ?d) \<le> 1" using assms(1) by (cases t; simp)+
  show ?thesis
  proof (cases overrides)
    case None
    then show ?thesis using assms(2) d by (auto simp: derive_plain split: if_splits)
  next
    case (Some ovr)
    then have v: "validate_overrides lower t ovr = Ok ()"
      using assms(2) by (auto simp: derive_isolation_profile_def)
    then show ?thesis
      using assms Some d
      by (cases "ic_filesystem_scope ovr"; cases "ic_network_scope ovr")
        (auto simp: derive_isolation_profile_def upgrades_exact override_with_def Let_def
          dest: validate_scopes [OF assms(1) v, simplified] split: if_splits)
  qed
qed

lemma derive_limits:
  assumes "derive_isolation_profile lower t perms overrides sid base = Ok p"
  shows "ip_memory_limit_mb p = option_or (Option.bind overrides ic_memory_limit_mb) (id_memory_limit_mb (defaults_for t)) \<and>
    ip_max_child_processes p = option_or (Option.bind overrides ic_max_child_processes) (id_max_child_processes (defaults_for t)) \<and>
    (\<forall>ovr. overrides = Some ovr \<longrightarrow> is_ok (validate_overrides lower t ovr))"
  using assms by (auto simp: derive_isolation_profile_def Let_def split: prod.splits option.splits)

lemma untrusted_derive:
  assumes "derive_isolation_profile lower Untrusted perms overrides sid base = Ok p"
  shows "derive_isolation_profile lower Untrusted perms None sid base = Ok p"
  using assms by (auto simp: derive_isolation_profile_def override_with_def Let_def split: prod.splits option.splits)

text \<open>A derived profile never exceeds its trust level. An untrusted server has the profile of the
  untrusted defaults, whatever its configuration says; an experimental one at most what a standard
  server has by default; up to standard, overrides and permissions leave the file system at the
  sandbox and the network at the proxy; and among servers without overrides, less trust never
  gives more of anything. Without overrides there always is a profile.
\<close>

theorem isolation_follows_trust:
  assumes "derive_isolation_profile lower t perms overrides sid base = Ok p"
  shows "(t = Untrusted \<longrightarrow> derive_isolation_profile lower Untrusted perms None sid base = Ok p) \<and>
    (\<exists>q. derive_isolation_profile lower Standard perms None sid base = Ok q \<and>
      (t \<le> Experimental \<longrightarrow> profile_le p q) \<and> (t \<le> Standard \<longrightarrow> scopes_le p q)) \<and>
    (overrides = None \<longrightarrow> (\<forall>t' \<ge> t. \<exists>q. derive_isolation_profile lower t' perms None sid base = Ok q \<and> profile_le p q)) \<and>
    ip_trust_level p = t"
proof -
  obtain q where q: "derive_isolation_profile lower Standard perms None sid base = Ok q"
    and qs: "ip_filesystem_scope q = FsSandbox" "ip_network_scope q = NetProxyOnly"
      "ip_memory_limit_mb q = Some 512" "ip_max_child_processes q = Some 5"
    by (simp add: derive_plain)
  have scopes: "scopes_le p q" if "t \<le> Standard" using derive_scopes [OF that assms] qs by (simp add: scopes_le_def)
  have limits: "limit_le (ip_memory_limit_mb p) (Some 512) \<and> limit_le (ip_max_child_processes p) (Some 5)" if "t \<le> Experimental"
  proof (cases t)
    case Untrusted
    from untrusted_derive [OF assms [unfolded Untrusted]] show ?thesis by (auto simp: derive_plain limit_le_def)
  next
    case Experimental
    then show ?thesis using derive_limits [OF assms]
      by (cases overrides) (auto simp: limit_le_def is_ok_iff option_or_def split: option.splits)
  qed (use that in simp_all)
  have mono: "\<exists>q. derive_isolation_profile lower t' perms None sid base = Ok q \<and> profile_le p q"
    if "overrides = None" "t \<le> t'" for t'
    using that assms by (cases t; cases t') (auto simp: derive_plain profile_le_def scopes_le_def limit_le_def)
  have "ip_trust_level p = t" using assms by (auto simp: derive_isolation_profile_def Let_def split: prod.splits)
  moreover have "t \<le> Experimental \<Longrightarrow> t \<le> Standard" by (cases t) simp_all
  ultimately show ?thesis
    using q scopes limits mono untrusted_derive assms by (auto simp: profile_le_def qs)
qed

theorem isolation_follows_trust_witness:
  "\<exists>p. derive_isolation_profile ascii_lower Experimental [''network.outbound'']
      (Some \<lparr>ic_memory_limit_mb = Some 400, ic_cpu_time_limit_secs = None, ic_filesystem_scope = Some ''Readonly'',
        ic_network_scope = None, ic_max_child_processes = None\<rparr>) ''srv'' [''data'', ''sandbox''] = Ok p \<and>
     ip_trust_level p = Experimental \<and>
     (\<exists>q. derive_isolation_profile ascii_lower Standard [''network.outbound''] None ''srv'' [''data'', ''sandbox''] = Ok q \<and> profile_le p q)"
proof -
  let ?o = "Some \<lparr>ic_memory_limit_mb = Some 400, ic_cpu_time_limit_secs = None, ic_filesystem_scope = Some ''Readonly'',
        ic_network_scope = None, ic_max_child_processes = None\<rparr>"
  have "is_ok (derive_isolation_profile ascii_lower Experimental [''network.outbound''] ?o ''srv'' [''data'', ''sandbox''])" by code_simp
  then obtain p where "derive_isolation_profile ascii_lower Experimental [''network.outbound''] ?o ''srv'' [''data'', ''sandbox''] = Ok p"
    by (auto simp: is_ok_iff)
  from isolation_follows_trust [OF this] this show ?thesis by auto
qed

end
