(* ===== verification/Launch.thy ===== *)
theory Launch
  imports Lifecycle Isolation "HOL-Library.Char_ord"
begin

text \<open>
  What is asked about a connector before it is started: its manifest
  (\<open>managers/connector_manifest.rs\<close>), the command whitelist of \<open>managers/mcp_transport.rs\<close>, the file its
  seal is about and the bearer of a remote server (\<open>managers/mcp.rs\<close>). Reading files, decoding a
  manifest and the environment of the kernel are parameters.
\<close>

section \<open>Connector manifests\<close>

definition KNOWN_CONNECTOR_TYPES :: "string list" where
  "KNOWN_CONNECTOR_TYPES = [''mgp_server'', ''ui_module'']"

definition LAUNCHABLE_CONNECTOR_TYPES :: "string list" where
  "LAUNCHABLE_CONNECTOR_TYPES = [''mgp_server'']"

definition DEFAULT_CONNECTOR_TYPE :: string where
  "DEFAULT_CONNECTOR_TYPE = ''mgp_server''"

definition MAX_SPEC_VERSION :: u32 where
  "MAX_SPEC_VERSION = 1"

record panel_declaration =
  pd_id :: string
  pd_name :: string
  pd_description :: string
  pd_version :: string
  pd_entry :: string
  pd_icon :: "string option"
  pd_requires :: "string list"
  pd_writes :: "string list"

record manifest =
  mf_spec_version :: u32
  mf_name :: string
  mf_connector_type :: "string option"
  mf_panels :: "panel_declaration list option"

record connector_panels =
  cp_root :: path
  cp_name :: string
  cp_panels :: "panel_declaration list"

record connector_declaration =
  dc_spec_version :: u32
  dc_connector_type :: string
  dc_declared :: bool

definition default_declaration :: connector_declaration where
  "default_declaration = \<lparr>dc_spec_version = 1, dc_connector_type = DEFAULT_CONNECTOR_TYPE, dc_declared = False\<rparr>"

text \<open>The disk and the decoder: the directories inside a directory, a file's text, a decoded manifest.\<close>

record connector_disk =
  cd_subdirs :: "path \<Rightarrow> string list option"
  cd_read :: "path \<Rightarrow> string option"
  cd_parse :: "string \<Rightarrow> string + manifest"

definition MANIFEST_FILE :: string where
  "MANIFEST_FILE = ''cloto-connector.json''"

definition manifest_paths :: "connector_disk \<Rightarrow> path \<Rightarrow> string \<Rightarrow> path list" where
  "manifest_paths disk servers_root server_id =
     (let base = path_join servers_root server_id
      in [base @ [MANIFEST_FILE], path_join (base @ [''servers'']) server_id @ [MANIFEST_FILE]] @
         (case cd_subdirs disk base of
            None \<Rightarrow> []
          | Some dirs \<Rightarrow>
              sort (map (\<lambda>dir. path_join (base @ [dir]) server_id @ [MANIFEST_FILE])
                (filter (\<lambda>dir. dir \<noteq> ''servers'' \<and> \<not> starts_with dir ''.'') dirs))))"

fun first_readable :: "connector_disk \<Rightarrow> path list \<Rightarrow> (path \<times> string) option" where
  "first_readable disk [] = None"
| "first_readable disk (p # ps) = (case cd_read disk p of Some t \<Rightarrow> Some (p, t) | None \<Rightarrow> first_readable disk ps)"

definition first_readable_manifest :: "connector_disk \<Rightarrow> path \<Rightarrow> string \<Rightarrow> (path \<times> string) option" where
  "first_readable_manifest disk servers_root server_id = first_readable disk (manifest_paths disk servers_root server_id)"

definition declaration_of :: "manifest \<Rightarrow> connector_declaration" where
  "declaration_of m =
     \<lparr>dc_spec_version = mf_spec_version m,
      dc_connector_type = unwrap_or (option_filter (\<lambda>t. trim t \<noteq> []) (mf_connector_type m)) DEFAULT_CONNECTOR_TYPE,
      dc_declared = True\<rparr>"

definition read_declaration :: "connector_disk \<Rightarrow> path \<Rightarrow> string \<Rightarrow> connector_declaration" where
  "read_declaration disk servers_root server_id =
     (case first_readable_manifest disk servers_root server_id of
        None \<Rightarrow> default_declaration
      | Some (_, t) \<Rightarrow> (case cd_parse disk t of Inr m \<Rightarrow> declaration_of m | Inl _ \<Rightarrow> default_declaration))"

definition check_supported :: "string \<Rightarrow> connector_declaration \<Rightarrow> string + unit" where
  "check_supported kernel_version d =
     (if dc_spec_version d > MAX_SPEC_VERSION
      then Err (''connector manifest is spec_version '' @ show_nat (unat (dc_spec_version d)) @ '' and this ClotoCore reads up to ''
        @ show_nat (unat MAX_SPEC_VERSION) @ '' '' @ em_dash @ '' a newer ClotoCore is required (this one is '' @ kernel_version @ '')'')
      else if dc_connector_type d \<notin> set KNOWN_CONNECTOR_TYPES
      then Err (''connector declares type '' @ quoted (dc_connector_type d) @ '', which this ClotoCore does not know how to run (it knows: ''
        @ join_with '', '' KNOWN_CONNECTOR_TYPES @ '') '' @ em_dash @ '' a newer ClotoCore is required (this one is '' @ kernel_version @ '')'')
      else Ok ())"

definition launches_a_process :: "connector_declaration \<Rightarrow> bool" where
  "launches_a_process d = (dc_connector_type d \<in> set LAUNCHABLE_CONNECTOR_TYPES)"

definition check_launchable :: "string \<Rightarrow> connector_declaration \<Rightarrow> string + unit" where
  "check_launchable kernel_version d =
     and_then (check_supported kernel_version d) (\<lambda>_.
     if \<not> launches_a_process d
     then Err (''connector declares type '' @ quoted (dc_connector_type d) @ '', which ships no server for this ClotoCore to start ''
       @ em_dash @ '' it contributes files only, and nothing should be registered to launch it'')
     else Ok ())"

definition read_panels :: "connector_disk \<Rightarrow> string \<Rightarrow> path \<Rightarrow> string \<Rightarrow> connector_panels option" where
  "read_panels disk kernel_version servers_root server_id =
     Option.bind (first_readable_manifest disk servers_root server_id) (\<lambda>(p, t).
     (case cd_parse disk t of
        Inl _ \<Rightarrow> None
      | Inr m \<Rightarrow>
          if \<not> is_ok (check_supported kernel_version (declaration_of m)) then None
          else Option.bind (mf_panels m) (\<lambda>panels.
            if panels = [] then None
            else map_option (\<lambda>root. \<lparr>cp_root = root, cp_name = mf_name m, cp_panels = panels\<rparr>) (path_parent p))))"

lemma check_launchable_Ok_iff:
  "check_launchable v d = Ok u \<longleftrightarrow> dc_spec_version d \<le> 1 \<and> dc_connector_type d = ''mgp_server''"
  by (auto simp: check_launchable_def check_supported_def launches_a_process_def MAX_SPEC_VERSION_def
      KNOWN_CONNECTOR_TYPES_def LAUNCHABLE_CONNECTOR_TYPES_def and_then_def split: sum.splits if_splits)

section \<open>Commands\<close>

definition ALLOWED_COMMANDS :: "string list" where
  "ALLOWED_COMMANDS = [''npx'', ''node'', ''python'', ''python3'', ''deno'', ''bun'', ''docker'']"

text \<open>Backslashes read as slashes, and the place where a text first occurs.\<close>

definition to_slashes :: "string \<Rightarrow> string" where
  "to_slashes s = map (\<lambda>c. if c = CHR 0x5C then CHR ''/'' else c) s"

fun str_find :: "string \<Rightarrow> string \<Rightarrow> nat option" where
  "str_find [] p = (if p = [] then Some 0 else None)"
| "str_find (c # s) p = (if starts_with (c # s) p then Some 0 else map_option Suc (str_find s p))"

definition is_workspace_binary :: "string \<Rightarrow> bool" where
  "is_workspace_binary command =
     (let normalized = to_slashes command
      in if str_contains normalized ''..'' then False
         else if starts_with normalized ''target/debug/mgp-'' \<or> starts_with normalized ''target/release/mgp-'' then True
         else (case str_find normalized ''/target/debug/mgp-'' of
                 Some i \<Rightarrow> i > 0
               | None \<Rightarrow> (case str_find normalized ''/target/release/mgp-'' of Some i \<Rightarrow> i > 0 | None \<Rightarrow> False)))"

definition validate_command :: "string \<Rightarrow> string + string" where
  "validate_command command =
     (if is_workspace_binary command then Ok command
      else if CHR ''/'' \<in> set command \<or> CHR 0x5C \<in> set command
      then Err (''Command must not contain path separators: '' @ quoted command @ ''. Use bare command names only.'')
      else if command \<notin> set ALLOWED_COMMANDS
      then Err (''Command '' @ quoted command @ '' not in whitelist. Allowed commands: '' @ join_with '', '' ALLOWED_COMMANDS)
      else Ok command)"

text \<open>\<open>Path::file_stem\<close> of the last component.\<close>

definition file_stem :: "string \<Rightarrow> string option" where
  "file_stem p =
     map_option (\<lambda>name.
         let parts = split_on (CHR ''.'') name
         in if length parts < 2 \<or> butlast parts = [[]] then name else join_with ''.'' (butlast parts))
       (file_name (components p))"

definition resolve_sealable_entry_point :: "string \<Rightarrow> string list \<Rightarrow> string" where
  "resolve_sealable_entry_point command args =
     (let stem = ascii_lower (unwrap_or (file_stem command) command)
      in if starts_with stem ''python'' \<or> stem \<in> {''node'', ''deno'', ''bun''}
         then (case List.find (\<lambda>a. \<not> starts_with a ''-'') args of Some script \<Rightarrow> script | None \<Rightarrow> command)
         else command)"

lemma validate_command_Ok:
  "validate_command command = Ok c \<Longrightarrow> c = command \<and> (command \<in> set ALLOWED_COMMANDS \<or> is_workspace_binary command)"
  by (auto simp: validate_command_def split: if_splits)

section \<open>Configurations\<close>

record mcp_server_config =
  cf_id :: string
  cf_command :: string
  cf_args :: "string list"
  cf_env :: "(string, string) hmap"
  cf_transport :: string
  cf_url :: "string option"
  cf_auth_token :: "string option"
  cf_auto_restart :: "bool option"
  cf_required_permissions :: "string list"
  cf_display_name :: "string option"
  cf_trust_level :: "string option"
  cf_restart_policy :: "restart_policy option"
  cf_seal :: "string option"
  cf_isolation :: "isolation_config option"
  cf_marketplace_id :: "string option"
  cf_protocol_era :: "string option"

definition ascii_digit :: "char \<Rightarrow> bool" where
  "ascii_digit c = (let n = of_char c :: nat in 48 \<le> n \<and> n \<le> 57)"

definition ascii_name_char :: "char \<Rightarrow> bool" where
  "ascii_name_char c = (ascii_digit c \<or> (let n = of_char c :: nat in 65 \<le> n \<and> n \<le> 90 \<or> 97 \<le> n \<and> n \<le> 122 \<or> n = 95))"

definition auth_token_reference :: "string \<Rightarrow> string option" where
  "auth_token_reference stored =
     Option.bind (strip_prefix ''${'' stored) (\<lambda>rest.
       if rest = [] \<or> last rest \<noteq> CHR ''}'' then None
       else (case butlast rest of
               [] \<Rightarrow> None
             | first # others \<Rightarrow>
                 if ascii_name_char first \<and> \<not> ascii_digit first \<and> list_all ascii_name_char others
                 then Some (butlast rest) else None))"

definition http_bearer :: "(string \<Rightarrow> string option) \<Rightarrow> string \<Rightarrow> mcp_server_config \<Rightarrow> string + string option" where
  "http_bearer env_var sid config =
     (case cf_auth_token config of
        Some stored \<Rightarrow>
          (case auth_token_reference stored of
             Some name \<Rightarrow>
               (case option_filter (\<lambda>v. v \<noteq> []) (env_var name) of
                  Some v \<Rightarrow> Ok (Some v)
                | None \<Rightarrow> Err (''MCP server '' @ quoted sid @ '': auth_token refers to ${'' @ name
                    @ ''}, which is not set in the kernel's environment''))
           | None \<Rightarrow> Ok (Some stored))
      | None \<Rightarrow> Ok (hm_get (cf_env config) ''BRIDGE_AUTH_TOKEN''))"

end
