(* ===== verification/Dispatcher.thy ===== *)
theory Dispatcher
  imports Capability_Gate
begin

text \<open>
  \<open>managers/capability_dispatcher.rs\<close>: which server answers for an abstract capability of the kernel,
  and the contract \<open>provider_index\<close> the kernel's indexes of servers share. The manifest of a server
  is an association list, in the order in which its map is walked.
\<close>

section \<open>Indexes of servers\<close>

text \<open>
  An index tells which servers offer something. Registering a server adds mentions of that server
  alone; dropping it leaves none of its own and all of the others'.
\<close>

locale provider_index =
  fixes put :: "string \<Rightarrow> 't \<Rightarrow> 'i \<Rightarrow> 'i"
    and drop_server :: "string \<Rightarrow> 'i \<Rightarrow> 'i"
    and mentions :: "'i \<Rightarrow> string \<Rightarrow> bool"
  assumes put_mentions: "mentions (put s x ix) s' \<Longrightarrow> s' = s \<or> mentions ix s'"
    and drop_mentions: "mentions (drop_server s ix) s' \<longleftrightarrow> s' \<noteq> s \<and> mentions ix s'"
begin

lemma dropped: "\<not> mentions (drop_server s ix) s"
  by (simp add: drop_mentions)

lemma dropped_stays: "\<not> mentions ix s \<Longrightarrow> \<not> mentions (drop_server s' ix) s"
  by (simp add: drop_mentions)

lemma put_other_keeps: "\<not> mentions ix s \<Longrightarrow> s' \<noteq> s \<Longrightarrow> \<not> mentions (put s' x ix) s"
  using put_mentions by blast

lemma puts_keep: "\<not> mentions ix s \<Longrightarrow> \<forall>(s', x) \<in> set xs. s' \<noteq> s \<Longrightarrow> \<not> mentions (fold (\<lambda>(s', x). put s' x) xs ix) s"
proof (induction xs arbitrary: ix)
  case (Cons p xs)
  then show ?case using put_other_keeps [of ix s "fst p" "snd p"] by (cases p) simp
qed simp

end

section \<open>Capabilities and tools\<close>

datatype CapabilityType = Memory | Reasoning | Vision | Stt | Speech

fun capability_display :: "CapabilityType \<Rightarrow> string" where
  "capability_display Memory = ''Memory''"
| "capability_display Reasoning = ''Reasoning''"
| "capability_display Vision = ''Vision''"
| "capability_display Stt = ''Stt''"
| "capability_display Speech = ''Speech''"

definition capability_from_str :: "string \<Rightarrow> CapabilityType option" where
  "capability_from_str s =
     (if s = ''Memory'' then Some Memory else if s = ''Reasoning'' then Some Reasoning
      else if s = ''Vision'' then Some Vision else if s = ''Stt'' then Some Stt
      else if s = ''Speech'' then Some Speech else None)"

datatype ToolKind =
    Store | Recall | ListMemories | ListEpisodes | ArchiveEpisode | UpdateProfile | DeleteAgentData
  | Think | ThinkWithTools | AnalyzeImage | Transcribe | Speak | Custom string

fun kind_name :: "ToolKind \<Rightarrow> string" where
  "kind_name Store = ''store''"
| "kind_name Recall = ''recall''"
| "kind_name ListMemories = ''list_memories''"
| "kind_name ListEpisodes = ''list_episodes''"
| "kind_name ArchiveEpisode = ''archive_episode''"
| "kind_name UpdateProfile = ''update_profile''"
| "kind_name DeleteAgentData = ''delete_agent_data''"
| "kind_name Think = ''think''"
| "kind_name ThinkWithTools = ''think_with_tools''"
| "kind_name AnalyzeImage = ''analyze_image''"
| "kind_name Transcribe = ''transcribe''"
| "kind_name Speak = ''speak''"
| "kind_name (Custom s) = s"

fun kind_capability :: "ToolKind \<Rightarrow> CapabilityType option" where
  "kind_capability Think = Some Reasoning"
| "kind_capability ThinkWithTools = Some Reasoning"
| "kind_capability AnalyzeImage = Some Vision"
| "kind_capability Transcribe = Some Stt"
| "kind_capability Speak = Some Speech"
| "kind_capability (Custom _) = None"
| "kind_capability _ = Some Memory"

definition kind_from_name :: "string \<Rightarrow> ToolKind" where
  "kind_from_name name =
     (case map_of [(''store'', Store), (''recall'', Recall), (''list_memories'', ListMemories),
         (''list_episodes'', ListEpisodes), (''archive_episode'', ArchiveEpisode), (''update_profile'', UpdateProfile),
         (''delete_agent_data'', DeleteAgentData), (''think'', Think), (''think_with_tools'', ThinkWithTools),
         (''analyze_image'', AnalyzeImage), (''transcribe'', Transcribe), (''speak'', Speak)] name of
        Some k \<Rightarrow> k
      | None \<Rightarrow> Custom name)"

definition memory_tools :: "string list" where
  "memory_tools = [''store'', ''recall'', ''list_memories'', ''delete_memory'', ''list_episodes'', ''delete_episode'',
     ''archive_episode'', ''delete_agent_data'', ''update_profile'', ''update_memory'', ''import_memories'',
     ''lock_memory'', ''unlock_memory'', ''set_recall_precision'', ''get_recall_precision'']"

definition classify_tool :: "string \<Rightarrow> string \<Rightarrow> CapabilityType option" where
  "classify_tool server_id tool =
     (if tool \<in> set memory_tools then Some Memory
      else if tool \<in> {''think'', ''think_with_tools''} then Some Reasoning
      else if tool \<in> {''analyze_image'', ''capture_screen'', ''capture_screenshot''} then Some Vision
      else if tool = ''transcribe'' then Some Stt
      else if tool = ''speak'' then Some Speech
      else None)"

section \<open>The dispatcher\<close>

record capability_mapping =
  cm_server_id :: string
  cm_tool_name :: string

type_synonym dispatcher = "(CapabilityType, capability_mapping list) hmap"

definition add_mapping :: "string \<Rightarrow> CapabilityType \<Rightarrow> string \<Rightarrow> dispatcher \<Rightarrow> dispatcher" where
  "add_mapping server_id cap tool d =
     (let entries = unwrap_or (hm_get d cap) [];
          m = \<lparr>cm_server_id = server_id, cm_tool_name = tool\<rparr>
      in hm_insert cap (if m \<in> set entries then entries else entries @ [m]) d)"

definition build_from_tools :: "string \<Rightarrow> string list \<Rightarrow> dispatcher \<Rightarrow> dispatcher" where
  "build_from_tools server_id tools d =
     fold (\<lambda>tool d. case classify_tool server_id tool of Some cap \<Rightarrow> add_mapping server_id cap tool d | None \<Rightarrow> d) tools d"

definition build_from_capabilities :: "string \<Rightarrow> (string \<times> string list) list \<Rightarrow> dispatcher \<Rightarrow> dispatcher" where
  "build_from_capabilities server_id tools_for_capability d =
     fold (\<lambda>(cap_name, tools) d.
         case capability_from_str cap_name of
           None \<Rightarrow> d
         | Some cap \<Rightarrow>
             fold (add_mapping server_id cap) tools (hm_insert cap (unwrap_or (hm_get d cap) []) d))
       tools_for_capability d"

definition dispatcher_remove_server :: "string \<Rightarrow> dispatcher \<Rightarrow> dispatcher" where
  "dispatcher_remove_server server_id d =
     map (\<lambda>(cap, entries). (cap, filter (\<lambda>m. cm_server_id m \<noteq> server_id) entries)) d"

definition dispatcher_resolve :: "dispatcher \<Rightarrow> CapabilityType \<Rightarrow> string \<Rightarrow> (string \<times> string) option" where
  "dispatcher_resolve d cap tool =
     map_option (\<lambda>m. (cm_server_id m, cm_tool_name m))
       (List.find (\<lambda>m. cm_tool_name m = tool) (unwrap_or (hm_get d cap) []))"

definition resolve_server :: "dispatcher \<Rightarrow> CapabilityType \<Rightarrow> string option" where
  "resolve_server d cap =
     (case unwrap_or (hm_get d cap) [] of [] \<Rightarrow> None | m # _ \<Rightarrow> Some (cm_server_id m))"

definition resolve_all :: "dispatcher \<Rightarrow> CapabilityType \<Rightarrow> (string \<times> string) list" where
  "resolve_all d cap = map (\<lambda>m. (cm_server_id m, cm_tool_name m)) (unwrap_or (hm_get d cap) [])"

definition resolve_kind :: "dispatcher \<Rightarrow> ToolKind \<Rightarrow> (string \<times> string) option" where
  "resolve_kind d kind = Option.bind (kind_capability kind) (\<lambda>cap. dispatcher_resolve d cap (kind_name kind))"

definition has_kind :: "dispatcher \<Rightarrow> ToolKind \<Rightarrow> bool" where
  "has_kind d kind = (resolve_kind d kind \<noteq> None)"

section \<open>Laws\<close>

definition provided :: "dispatcher \<Rightarrow> CapabilityType \<Rightarrow> capability_mapping list" where
  "provided d cap = unwrap_or (hm_get d cap) []"

definition dispatcher_mentions :: "dispatcher \<Rightarrow> string \<Rightarrow> bool" where
  "dispatcher_mentions d server_id = (\<exists>cap. \<exists>m \<in> set (provided d cap). cm_server_id m = server_id)"

lemma provided_insert [simp]: "provided (hm_insert cap es d) cap' = (if cap' = cap then es else provided d cap')"
  by (simp add: provided_def)

lemma provided_add: "provided (add_mapping s cap tool d) cap' =
    (if cap' = cap \<and> \<lparr>cm_server_id = s, cm_tool_name = tool\<rparr> \<notin> set (provided d cap)
     then provided d cap @ [\<lparr>cm_server_id = s, cm_tool_name = tool\<rparr>] else provided d cap')"
  by (simp add: add_mapping_def Let_def) (auto simp: provided_def)

lemma provided_remove: "provided (dispatcher_remove_server s d) cap = filter (\<lambda>m. cm_server_id m \<noteq> s) (provided d cap)"
  by (induction d) (auto simp: dispatcher_remove_server_def provided_def hm_get_def unwrap_or_def split: option.splits)

lemma mentions_add: "dispatcher_mentions (add_mapping s cap tool d) s' \<Longrightarrow> s' = s \<or> dispatcher_mentions d s'"
  by (auto simp: dispatcher_mentions_def provided_add split: if_splits)

lemma mentions_adds: "dispatcher_mentions (fold (add_mapping s cap) tools d) s' \<Longrightarrow> s' = s \<or> dispatcher_mentions d s'"
  by (induction tools arbitrary: d) (auto dest: mentions_add)

lemma mentions_touch [simp]: "dispatcher_mentions (hm_insert cap (unwrap_or (hm_get d cap) []) d) s \<longleftrightarrow> dispatcher_mentions d s"
  unfolding dispatcher_mentions_def provided_insert provided_def [symmetric] by (metis (full_types))

lemma mentions_remove: "dispatcher_mentions (dispatcher_remove_server s d) s' \<longleftrightarrow> s' \<noteq> s \<and> dispatcher_mentions d s'"
  by (auto simp: dispatcher_mentions_def provided_remove)

interpretation by_tools: provider_index build_from_tools dispatcher_remove_server dispatcher_mentions
proof
  fix s x s' and ix :: dispatcher
  show "dispatcher_mentions (build_from_tools s x ix) s' \<Longrightarrow> s' = s \<or> dispatcher_mentions ix s'"
    by (induction x arbitrary: ix) (auto simp: build_from_tools_def dest: mentions_add split: option.splits)
qed (rule mentions_remove)

interpretation by_manifest: provider_index build_from_capabilities dispatcher_remove_server dispatcher_mentions
proof
  fix s x s' and ix :: dispatcher
  show "dispatcher_mentions (build_from_capabilities s x ix) s' \<Longrightarrow> s' = s \<or> dispatcher_mentions ix s'"
  proof (induction x arbitrary: ix)
    case (Cons c x)
    obtain cap_name tools where c: "c = (cap_name, tools)" by (cases c)
    let ?next = "build_from_capabilities s [c] ix"
    have "dispatcher_mentions (build_from_capabilities s x ?next) s'"
      using Cons.prems by (simp add: build_from_capabilities_def)
    then have "s' = s \<or> dispatcher_mentions ?next s'" by (rule Cons.IH)
    then show ?case
      using mentions_adds [of s cap tools "hm_insert cap (unwrap_or (hm_get ix cap) []) ix" s' for cap]
      by (cases "capability_from_str cap_name") (auto simp: build_from_capabilities_def c dest!: mentions_adds)
  qed (simp add: build_from_capabilities_def)
qed (rule mentions_remove)

lemma resolve_mentions: "dispatcher_resolve d cap tool = Some (s, t) \<Longrightarrow> t = tool \<and> dispatcher_mentions d s"
proof -
  assume "dispatcher_resolve d cap tool = Some (s, t)"
  then obtain m where "List.find (\<lambda>m. cm_tool_name m = tool) (provided d cap) = Some m" "s = cm_server_id m" "t = cm_tool_name m"
    by (auto simp: dispatcher_resolve_def provided_def)
  moreover from this(1) have "m \<in> set (provided d cap)" "cm_tool_name m = tool" by (auto simp: find_Some_iff)
  ultimately show ?thesis by (auto simp: dispatcher_mentions_def)
qed

lemma capability_roundtrip: "capability_from_str (capability_display c) = Some c"
  by (cases c) (simp_all add: capability_from_str_def)

lemma kind_roundtrip: "kind_name (kind_from_name name) = name"
  by (simp add: kind_from_name_def)

end
