(* ===== verification/Tree_Seal.thy ===== *)
theory Tree_Seal
  imports Rust_Str "HOL-Library.Char_ord" "HOL-Library.List_Lexorder" "HOL-Library.Multiset"
begin

text \<open>
  \<open>managers/tree_seal.rs\<close>: the seal over an installed connector's files. A directory tree is a
  \<open>fs_node\<close>, with the nodes the walk can meet, failures included; names are valid UTF-8, as strings
  are throughout. SHA-256 and HMAC, with their hexadecimal output, are parameters. The reference
  is \<open>covered\<close>, the files a seal is meant to be about; \<open>tree_seal_exact\<close> says that verifying a seal
  compares just those.
\<close>

section \<open>The tree\<close>

type_synonym rel_path = "string list"

text \<open>
  \<open>FsLocked\<close> is a directory whose listing fails, \<open>FsUnreadable\<close> a file whose contents cannot be read,
  \<open>FsGone\<close> an entry that cannot be examined.
\<close>

datatype fs_node =
    FsDir "(string \<times> fs_node) list"
  | FsLocked
  | FsFile string
  | FsUnreadable
  | FsLink
  | FsSpecial
  | FsGone

lemma size_entry [termination_simp]: "(name, node) \<in> set es \<Longrightarrow> size node < Suc (size_list (size_prod (\<lambda>_. 0) size) es)"
  by (induction es) auto

record seal_crypto =
  sc_sha256_hex :: "string \<Rightarrow> string"
  sc_hmac_hex :: "string \<Rightarrow> string \<Rightarrow> string option"

definition TREE_SEAL_PREFIX :: string where
  "TREE_SEAL_PREFIX = ''tree-sha256:''"

definition MAX_MANIFEST_FILES :: nat where
  "MAX_MANIFEST_FILES = 20000"

definition is_tree_seal :: "string \<Rightarrow> bool" where
  "is_tree_seal seal = starts_with seal TREE_SEAL_PREFIX"

text \<open>\<open>Path::extension\<close> of a file name: what follows the last dot, when something precedes it.\<close>

definition extension :: "string \<Rightarrow> string option" where
  "extension name =
     (let parts = split_on (CHR ''.'') name
      in if name = ''..'' \<or> length parts < 2 \<or> butlast parts = [''''] then None else Some (last parts))"

definition excluded_name :: "string \<Rightarrow> bool" where
  "excluded_name name =
     (name \<in> {''__pycache__'', ''.venv'', ''.git'', ''node_modules''} \<or> ends_with name ''.egg-info'' \<or> ends_with name ''.dist-info'')"

definition is_excluded :: "rel_path \<Rightarrow> bool" where
  "is_excluded relative =
     (list_ex excluded_name relative \<or>
      relative \<noteq> [] \<and> extension (last relative) \<in> {Some ''pyc'', Some ''pyo''})"

section \<open>The walk\<close>

definition displayed :: "string \<Rightarrow> rel_path \<Rightarrow> string" where
  "displayed root relative = join_with ''/'' (root # relative)"

text \<open>The entries of one directory; the top of the stack is its first element.\<close>

fun visit :: "string \<Rightarrow> rel_path \<Rightarrow> (string \<times> fs_node) list \<Rightarrow> (rel_path \<times> fs_node) list \<Rightarrow> rel_path list \<Rightarrow>
    string + ((rel_path \<times> fs_node) list \<times> rel_path list)" where
  "visit root dir [] stack found = Ok (stack, found)"
| "visit root dir ((name, node) # entries) stack found =
     (let relative = dir @ [name]
      in if is_excluded relative then visit root dir entries stack found
         else (case node of
             FsGone \<Rightarrow> Err (''Failed to stat: '' @ displayed root relative)
           | FsDir _ \<Rightarrow> visit root dir entries ((relative, node) # stack) found
           | FsLocked \<Rightarrow> visit root dir entries ((relative, node) # stack) found
           | FsFile _ \<Rightarrow>
               if length (found @ [relative]) > MAX_MANIFEST_FILES
               then Err (''Refusing to seal '' @ quoted root @ '': more than 20000 files under the install tree'')
               else visit root dir entries stack (found @ [relative])
           | FsUnreadable \<Rightarrow>
               if length (found @ [relative]) > MAX_MANIFEST_FILES
               then Err (''Refusing to seal '' @ quoted root @ '': more than 20000 files under the install tree'')
               else visit root dir entries stack (found @ [relative])
           | FsLink \<Rightarrow> visit root dir entries stack found
           | FsSpecial \<Rightarrow> visit root dir entries stack found))"

definition stack_size :: "(rel_path \<times> fs_node) list \<Rightarrow> nat" where
  "stack_size stack = sum_list (map (\<lambda>(_, node). Suc (size node)) stack)"

lemma stack_size_simps [simp]:
  "stack_size [] = 0"
  "stack_size ((p, node) # stack) = Suc (size node) + stack_size stack"
  by (simp_all add: stack_size_def)

lemma visit_size: "visit root dir es stack found = Ok (stack', found') \<Longrightarrow>
    stack_size stack' \<le> stack_size stack + size_list (size_prod (\<lambda>_. 0) size) es"
proof (induction es arbitrary: stack found)
  case (Cons e es)
  obtain name node where e: "e = (name, node)" by (cases e)
  show ?case
    using Cons.prems Cons.IH [of stack] Cons.IH [of "(dir @ [name], node) # stack"]
    by (fastforce simp: e Let_def split: if_splits fs_node.splits)
qed simp

function collect_loop :: "string \<Rightarrow> (rel_path \<times> fs_node) list \<Rightarrow> rel_path list \<Rightarrow> string + rel_path list" where
  "collect_loop root [] found = Ok found"
| "collect_loop root ((dir, node) # stack) found =
     (case node of
        FsDir entries \<Rightarrow>
          (case visit root dir entries stack found of
             Inl e \<Rightarrow> Err e
           | Inr (stack', found') \<Rightarrow> collect_loop root stack' found')
      | _ \<Rightarrow> Err (''Failed to read directory: '' @ displayed root dir))"
  by pat_completeness auto
termination
  by (relation "measure (\<lambda>(_, stack, _). stack_size stack)")
    (auto dest!: visit_size)

definition collect_files :: "string \<Rightarrow> fs_node \<Rightarrow> string + rel_path list" where
  "collect_files root tree = and_then (collect_loop root [([], tree)] []) (\<lambda>found. Ok (sort found))"

text \<open>What is at a path below the root.\<close>

fun fs_at :: "fs_node \<Rightarrow> rel_path \<Rightarrow> fs_node option" where
  "fs_at node [] = Some node"
| "fs_at (FsDir es) (name # rest) = Option.bind (map_of es name) (\<lambda>node. fs_at node rest)"
| "fs_at _ (name # rest) = None"

definition read_file :: "string \<Rightarrow> fs_node \<Rightarrow> rel_path \<Rightarrow> string + string" where
  "read_file root tree relative =
     (case fs_at tree relative of
        Some (FsFile bytes) \<Rightarrow> Ok bytes
      | _ \<Rightarrow> Err (''Failed to read file for sealing: '' @ displayed root relative))"

definition newline :: char where
  "newline = CHR 0x0A"

definition manifest_line :: "seal_crypto \<Rightarrow> rel_path \<times> string \<Rightarrow> string" where
  "manifest_line sc = (\<lambda>(relative, bytes). sc_sha256_hex sc bytes @ ''  '' @ join_with ''/'' relative @ [newline])"

fun manifest_of :: "seal_crypto \<Rightarrow> string \<Rightarrow> fs_node \<Rightarrow> rel_path list \<Rightarrow> string + string" where
  "manifest_of sc root tree [] = Ok ''''"
| "manifest_of sc root tree (relative # files) =
     and_then (read_file root tree relative) (\<lambda>bytes.
     and_then (manifest_of sc root tree files) (\<lambda>rest. Ok (manifest_line sc (relative, bytes) @ rest)))"

definition tree_manifest :: "seal_crypto \<Rightarrow> string \<Rightarrow> fs_node \<Rightarrow> string + string" where
  "tree_manifest sc root tree = and_then (collect_files root tree) (manifest_of sc root tree)"

definition is_dir :: "fs_node \<Rightarrow> bool" where
  "is_dir node = (case node of FsDir _ \<Rightarrow> True | FsLocked \<Rightarrow> True | _ \<Rightarrow> False)"

definition compute_tree_seal :: "seal_crypto \<Rightarrow> string \<Rightarrow> fs_node \<Rightarrow> string \<Rightarrow> string + string" where
  "compute_tree_seal sc root tree key =
     (if \<not> is_dir tree then Err (''Cannot seal install tree: '' @ quoted root @ '' is not a directory'')
      else and_then (tree_manifest sc root tree) (\<lambda>manifest.
        (case sc_hmac_hex sc key manifest of
           None \<Rightarrow> Err ''Invalid HMAC key length''
         | Some mac \<Rightarrow> Ok (TREE_SEAL_PREFIX @ mac))))"

definition verify_tree_seal :: "seal_crypto \<Rightarrow> string \<Rightarrow> fs_node \<Rightarrow> string \<Rightarrow> string \<Rightarrow> string + bool" where
  "verify_tree_seal sc root tree expected key =
     (if \<not> is_tree_seal expected then Err (''Not a tree seal: '' @ quoted expected)
      else and_then (compute_tree_seal sc root tree key) (\<lambda>computed. Ok (computed = expected)))"

text \<open>
  Paths are the lists of their components, as \<open>Path::components\<close> gives them; \<open>..\<close> is a component
  that is not \<open>Normal\<close>, and an absolute path starts with \<open>/\<close>.
\<close>

definition install_root_for :: "rel_path \<Rightarrow> rel_path \<Rightarrow> rel_path option" where
  "install_root_for entry_point servers_root =
     (if take (length servers_root) entry_point = servers_root
      then (case drop (length servers_root) entry_point of
              [] \<Rightarrow> None
            | first # _ \<Rightarrow> if first = ''..'' \<or> first = ''/'' then None else Some (servers_root @ [first]))
      else None)"

section \<open>What a seal is about\<close>

text \<open>
  The sealed files: every regular file no component of whose path is excluded, reached through
  directories alone, with its contents, \<open>None\<close> where they cannot be read.
\<close>

fun covered :: "rel_path \<Rightarrow> fs_node \<Rightarrow> (rel_path \<times> string option) list" where
  "covered p (FsDir es) =
     concat (map (\<lambda>(name, node). if is_excluded (p @ [name]) then [] else covered (p @ [name]) node) es)"
| "covered p (FsFile bytes) = [(p, Some bytes)]"
| "covered p FsUnreadable = [(p, None)]"
| "covered p _ = []"

text \<open>Every directory among them can be listed and every entry examined.\<close>

fun walkable :: "rel_path \<Rightarrow> fs_node \<Rightarrow> bool" where
  "walkable p (FsDir es) = list_all (\<lambda>(name, node). is_excluded (p @ [name]) \<or> walkable (p @ [name]) node) es"
| "walkable p FsLocked = False"
| "walkable p FsGone = False"
| "walkable p _ = True"

text \<open>Names within a directory differ; none is empty, has a separator or, a restriction, a line break.\<close>

fun names_ok :: "fs_node \<Rightarrow> bool" where
  "names_ok (FsDir es) =
     (distinct (map fst es) \<and>
      list_all (\<lambda>(name, node). name \<noteq> [] \<and> CHR ''/'' \<notin> set name \<and> newline \<notin> set name \<and> names_ok node) es)"
| "names_ok _ = True"

definition sealable :: "fs_node \<Rightarrow> bool" where
  "sealable tree =
     (is_dir tree \<and> walkable [] tree \<and> length (covered [] tree) \<le> MAX_MANIFEST_FILES \<and>
      None \<notin> snd ` set (covered [] tree))"

section \<open>The walk finds the sealed files\<close>

definition subdirs :: "rel_path \<Rightarrow> (string \<times> fs_node) list \<Rightarrow> (rel_path \<times> fs_node) list" where
  "subdirs dir es = [(dir @ [name], node). (name, node) \<leftarrow> es, \<not> is_excluded (dir @ [name]), is_dir node]"

definition subfiles :: "rel_path \<Rightarrow> (string \<times> fs_node) list \<Rightarrow> rel_path list" where
  "subfiles dir es = [dir @ [name]. (name, node) \<leftarrow> es, \<not> is_excluded (dir @ [name]), node = FsUnreadable \<or> (\<exists>b. node = FsFile b)]"

definition all_seen :: "rel_path \<Rightarrow> (string \<times> fs_node) list \<Rightarrow> bool" where
  "all_seen dir es = list_all (\<lambda>(name, node). is_excluded (dir @ [name]) \<or> node \<noteq> FsGone) es"

lemma visit_exact:
  "length found \<le> MAX_MANIFEST_FILES \<Longrightarrow>
   if all_seen dir es \<and> length found + length (subfiles dir es) \<le> MAX_MANIFEST_FILES
   then visit root dir es stack found = Ok (rev (subdirs dir es) @ stack, found @ subfiles dir es)
   else \<exists>e. visit root dir es stack found = Err e"
proof (induction es arbitrary: stack found)
  case (Cons e es)
  obtain name node where e: "e = (name, node)" by (cases e)
  show ?case
  proof (cases "is_excluded (dir @ [name])")
    case True
    then show ?thesis using Cons.IH [OF Cons.prems, of stack]
      by (simp add: e subdirs_def subfiles_def all_seen_def)
  next
    case False
    then show ?thesis
      using Cons.IH [OF Cons.prems, of stack] Cons.IH [OF Cons.prems, of "(dir @ [name], node) # stack"]
        Cons.IH [of "found @ [dir @ [name]]" stack]
      by (cases node) (auto simp: e subdirs_def subfiles_def all_seen_def is_dir_def Let_def Suc_le_eq split: if_splits)
  qed
qed (simp add: subdirs_def subfiles_def all_seen_def)

definition stack_files :: "(rel_path \<times> fs_node) list \<Rightarrow> rel_path list" where
  "stack_files stack = concat (map (\<lambda>(p, node). map fst (covered p node)) stack)"

definition stack_ok :: "(rel_path \<times> fs_node) list \<Rightarrow> bool" where
  "stack_ok stack = list_all (\<lambda>(p, node). walkable p node) stack"

lemma stack_simps [simp]:
  "stack_files [] = []"
  "stack_files ((p, node) # stack) = map fst (covered p node) @ stack_files stack"
  "stack_files (a @ b) = stack_files a @ stack_files b"
  "stack_ok []"
  "stack_ok ((p, node) # stack) \<longleftrightarrow> walkable p node \<and> stack_ok stack"
  "stack_ok (a @ b) \<longleftrightarrow> stack_ok a \<and> stack_ok b"
  "stack_ok (rev a) \<longleftrightarrow> stack_ok a"
  by (auto simp: stack_files_def stack_ok_def list_all_iff)

lemma stack_files_rev [simp]: "mset (stack_files (rev stack)) = mset (stack_files stack)"
  by (simp add: stack_files_def mset_concat rev_map [symmetric] sum_list.rev)

lemma subdirs_dirs: "x \<in> set (subdirs dir es) \<Longrightarrow> is_dir (snd x)"
  by (auto simp: subdirs_def)

lemma covered_split: "mset (map fst (covered p (FsDir es))) = mset (subfiles p es) + mset (stack_files (subdirs p es))"
proof (induction es)
  case (Cons e es)
  obtain name node where e: "e = (name, node)" by (cases e)
  show ?case using Cons by (cases node) (simp_all add: e subdirs_def subfiles_def is_dir_def)
qed (simp add: subdirs_def subfiles_def)

lemma walkable_split: "walkable p (FsDir es) \<longleftrightarrow> all_seen p es \<and> stack_ok (subdirs p es)"
proof (induction es)
  case (Cons e es)
  obtain name node where e: "e = (name, node)" by (cases e)
  show ?case using Cons by (cases node) (auto simp: e subdirs_def all_seen_def is_dir_def)
qed (simp add: subdirs_def all_seen_def)

lemma collect_loop_exact:
  "length found \<le> MAX_MANIFEST_FILES \<Longrightarrow> list_all (is_dir \<circ> snd) stack \<Longrightarrow>
   if stack_ok stack \<and> length found + length (stack_files stack) \<le> MAX_MANIFEST_FILES
   then \<exists>r. collect_loop root stack found = Ok r \<and> mset r = mset found + mset (stack_files stack)
   else \<exists>e. collect_loop root stack found = Err e"
proof (induction root stack found rule: collect_loop.induct)
  case (2 root dir node stack found)
  show ?case
  proof (cases node)
    case (FsDir es)
    let ?ok = "all_seen dir es \<and> length found + length (subfiles dir es) \<le> MAX_MANIFEST_FILES"
    note visit = visit_exact [OF "2.prems"(1), of dir es root stack]
    have size: "length (covered dir node) = length (subfiles dir es) + length (stack_files (subdirs dir es))"
      using arg_cong [OF covered_split [of dir es], of size] FsDir by simp
    show ?thesis
    proof (cases ?ok)
      case False
      then obtain e where "visit root dir es stack found = Err e" using visit by auto
      then show ?thesis using False FsDir size walkable_split [of dir es] by auto
    next
      case True
      then have v: "visit root dir es stack found = Ok (rev (subdirs dir es) @ stack, found @ subfiles dir es)"
        using visit by simp
      have dirs: "list_all (is_dir \<circ> snd) (rev (subdirs dir es) @ stack)"
        using "2.prems"(2) subdirs_dirs [of _ dir es] by (auto simp: list_all_iff)
      have sizes: "length (stack_files (rev (subdirs dir es))) = length (stack_files (subdirs dir es))"
        by (metis size_mset stack_files_rev)
      note rest = "2.IH" [OF FsDir v refl _ dirs]
      show ?thesis
        using rest True v FsDir size sizes walkable_split [of dir es] covered_split [of dir es]
        by (auto simp: ac_simps split: if_splits)
    qed
  qed (use "2.prems" in \<open>simp_all add: is_dir_def\<close>)
qed simp

lemma collect_files_exact:
  assumes "is_dir tree"
  shows "if walkable [] tree \<and> length (covered [] tree) \<le> MAX_MANIFEST_FILES
    then collect_files root tree = Ok (sort (map fst (covered [] tree)))
    else \<exists>e. collect_files root tree = Err e"
proof -
  have "list_all (is_dir \<circ> snd) [([], tree)]" using assms by simp
  note loop = collect_loop_exact [of "[]", OF _ this, of root]
  show ?thesis
  proof (cases "walkable [] tree \<and> length (covered [] tree) \<le> MAX_MANIFEST_FILES")
    case True
    then obtain r where r: "collect_loop root [([], tree)] [] = Ok r" "mset r = mset (map fst (covered [] tree))"
      using loop by auto
    then have "sort r = sort (map fst (covered [] tree))" by (metis mset_sort properties_for_sort sorted_sort)
    then show ?thesis using True r(1) by (simp add: collect_files_def)
  next
    case False
    then obtain e where "collect_loop root [([], tree)] [] = Err e" using loop by auto
    then show ?thesis using False by (simp add: collect_files_def)
  qed
qed

section \<open>The manifest names them\<close>

lemma covered_at:
  "names_ok node \<Longrightarrow> (q, c) \<in> set (covered p node) \<Longrightarrow>
   \<exists>r. q = p @ r \<and> fs_at node r = Some (case c of Some bytes \<Rightarrow> FsFile bytes | None \<Rightarrow> FsUnreadable)"
proof (induction p node rule: covered.induct)
  case (1 p es)
  from "1.prems"(2) obtain name node where m: "(name, node) \<in> set es" "\<not> is_excluded (p @ [name])"
    "(q, c) \<in> set (covered (p @ [name]) node)" by (auto split: if_splits)
  then have at: "map_of es name = Some node" and "names_ok node"
    using "1.prems"(1) by (auto simp: list_all_iff)
  with "1.IH" [OF m(1) refl m(2)] m(3) show ?case by fastforce
qed auto

definition plain_rel :: "rel_path \<Rightarrow> bool" where
  "plain_rel p = list_all (\<lambda>name. CHR ''/'' \<notin> set name \<and> newline \<notin> set name) p"

lemma covered_plain: "names_ok node \<Longrightarrow> plain_rel p \<Longrightarrow> (q, c) \<in> set (covered p node) \<Longrightarrow> plain_rel q"
proof (induction p node rule: covered.induct)
  case (1 p es)
  from "1.prems"(3) obtain name node where m: "(name, node) \<in> set es" "\<not> is_excluded (p @ [name])"
    "(q, c) \<in> set (covered (p @ [name]) node)" by (auto split: if_splits)
  then show ?case using "1.IH" [OF m(1) refl m(2)] "1.prems"(1,2) by (fastforce simp: list_all_iff plain_rel_def)
qed auto

lemma covered_prefix: "(q, c) \<in> set (covered p node) \<Longrightarrow> take (length p) q = p"
proof (induction p node rule: covered.induct)
  case (1 p es)
  from "1.prems" obtain name node where m: "(name, node) \<in> set es" "\<not> is_excluded (p @ [name])"
    "(q, c) \<in> set (covered (p @ [name]) node)" by (auto split: if_splits)
  from "1.IH" [OF m(1) refl m(2) m(3)] have "take (Suc (length p)) q = p @ [name]" by simp
  from arg_cong [OF this, of "take (length p)"] show ?case by simp
qed auto

lemma covered_below:
  assumes "(q, c) \<in> set (covered p (FsDir es))"
  shows "\<exists>name node. (name, node) \<in> set es \<and> take (Suc (length p)) q = p @ [name]"
proof -
  from assms obtain name node where m: "(name, node) \<in> set es" "(q, c) \<in> set (covered (p @ [name]) node)"
    by (fastforce simp: covered.simps(1) split: if_splits prod.splits)
  from covered_prefix [OF m(2)] m(1) show ?thesis by auto
qed

lemma covered_distinct: "names_ok node \<Longrightarrow> distinct (map fst (covered p node))"
proof (induction p node rule: covered.induct)
  case (1 p es)
  have "distinct (map fst (covered p (FsDir es')))" if "set es' \<subseteq> set es" "distinct (map fst es')" for es'
    using that
  proof (induction es')
    case (Cons e es')
    obtain name node where e: "e = (name, node)" by (cases e)
    have here: "distinct (map fst (covered (p @ [name]) node))" if "\<not> is_excluded (p @ [name])"
    proof -
      have m: "(name, node) \<in> set es" using Cons.prems(1) e by simp
      then have "names_ok node" using "1.prems" by (auto simp: list_all_iff)
      then show ?thesis using "1.IH" [OF m refl that] by simp
    qed
    have apart: "fst ` set (covered (p @ [name]) node) \<inter> fst ` set (covered p (FsDir es')) = {}"
    proof (rule ccontr)
      assume "\<not> ?thesis"
      then obtain q c c' where "(q, c) \<in> set (covered (p @ [name]) node)" "(q, c') \<in> set (covered p (FsDir es'))" by fastforce
      then obtain name' node' where "take (Suc (length p)) q = p @ [name]" "(name', node') \<in> set es'" "take (Suc (length p)) q = p @ [name']"
        using covered_prefix [of q c "p @ [name]" node] covered_below [of q c' p es'] by auto
      then show False using Cons.prems(2) e by force
    qed
    have "covered p (FsDir (e # es')) = (if is_excluded (p @ [name]) then [] else covered (p @ [name]) node) @ covered p (FsDir es')"
      by (simp add: e)
    moreover have "distinct (map fst (covered p (FsDir es')))" using Cons by simp
    ultimately show ?case using here apart by (cases "is_excluded (p @ [name])") (simp_all del: covered.simps)
  qed simp
  then show ?case using "1.prems" by simp
qed auto

text \<open>The files of a manifest in its order, with their contents.\<close>

definition sealed_list :: "fs_node \<Rightarrow> (rel_path \<times> string) list" where
  "sealed_list tree =
     map (\<lambda>q. (q, the (the (map_of (covered [] tree) q)))) (sort (map fst (covered [] tree)))"

definition sealed_files :: "fs_node \<Rightarrow> (rel_path \<times> string) set" where
  "sealed_files tree = {(q, bytes). (q, Some bytes) \<in> set (covered [] tree)}"

lemma set_sealed_list:
  assumes "names_ok tree" and "None \<notin> snd ` set (covered [] tree)"
  shows "set (sealed_list tree) = sealed_files tree"
proof -
  let ?c = "covered [] tree"
  have iff: "map_of ?c q = Some c \<longleftrightarrow> (q, c) \<in> set ?c" for q c
    using covered_distinct [OF assms(1)] by (simp add: map_of_eq_Some_iff)
  have "(q, b) \<in> set (sealed_list tree) \<longleftrightarrow> (q, Some b) \<in> set ?c" for q b
  proof
    assume "(q, b) \<in> set (sealed_list tree)"
    then obtain c where c: "(q, c) \<in> set ?c" and b: "b = the (the (map_of ?c q))" by (auto simp: sealed_list_def)
    have "c \<noteq> None" using assms(2) c by force
    then show "(q, Some b) \<in> set ?c" using c b iff [of q c] by auto
  next
    assume q: "(q, Some b) \<in> set ?c"
    then have "map_of ?c q = Some (Some b)" using iff by blast
    moreover have "q \<in> set (sort (map fst ?c))" using q by force
    ultimately show "(q, b) \<in> set (sealed_list tree)" unfolding sealed_list_def by force
  qed
  then show ?thesis by (auto simp: sealed_files_def)
qed

lemma manifest_of_exact:
  assumes ok: "names_ok tree" and q: "set qs \<subseteq> fst ` set (covered [] tree)"
  shows "if None \<notin> (the \<circ> map_of (covered [] tree)) ` set qs
    then manifest_of sc root tree qs = Ok (concat (map (manifest_line sc) (map (\<lambda>q. (q, the (the (map_of (covered [] tree) q)))) qs)))
    else \<exists>e. manifest_of sc root tree qs = Err e"
  using q
proof (induction qs)
  case (Cons q qs)
  then obtain c where c: "(q, c) \<in> set (covered [] tree)" by auto
  then have mo: "map_of (covered [] tree) q = Some c" using covered_distinct [OF ok] by simp
  have "fs_at tree q = Some (case c of Some bytes \<Rightarrow> FsFile bytes | None \<Rightarrow> FsUnreadable)"
    using covered_at [OF ok c] by simp
  then show ?case using Cons mo by (cases c) (auto simp: read_file_def split: if_splits)
qed simp

lemma tree_manifest_exact:
  assumes ok: "names_ok tree" and dir: "is_dir tree"
  shows "if sealable tree then tree_manifest sc root tree = Ok (concat (map (manifest_line sc) (sealed_list tree)))
    else \<exists>e. tree_manifest sc root tree = Err e"
proof -
  let ?qs = "sort (map fst (covered [] tree))"
  have "(the \<circ> map_of xs) ` fst ` set xs = snd ` set xs" if "distinct (map fst xs)" for xs :: "(rel_path \<times> string option) list"
    unfolding image_image comp_def using that by (intro image_cong) auto
  from this [OF covered_distinct [OF ok]]
  have "(the \<circ> map_of (covered [] tree)) ` set ?qs = snd ` set (covered [] tree)" by simp
  moreover have "set ?qs \<subseteq> fst ` set (covered [] tree)" by simp
  ultimately show ?thesis
    using manifest_of_exact [OF ok, of ?qs sc root] collect_files_exact [OF dir, of root]
    by (auto simp: tree_manifest_def sealable_def sealed_list_def dir split: if_splits)
qed

section \<open>Equal manifests, equal files\<close>

text \<open>SHA-256 in hexadecimal, and an HMAC that refuses a key or not whatever the message.\<close>

definition crypto_shape :: "seal_crypto \<Rightarrow> bool" where
  "crypto_shape sc \<longleftrightarrow>
     (\<forall>bytes. length (sc_sha256_hex sc bytes) = 64 \<and> list_all hex_char (sc_sha256_hex sc bytes)) \<and>
     (\<forall>key m n. sc_hmac_hex sc key m = None \<longleftrightarrow> sc_hmac_hex sc key n = None)"

lemma sealed_list_plain:
  assumes "names_ok tree" and "is_dir tree" and "(q, b) \<in> set (sealed_list tree)"
  shows "plain_rel q \<and> q \<noteq> []"
proof -
  from assms(3) obtain c where c: "(q, c) \<in> set (covered [] tree)" by (auto simp: sealed_list_def)
  have "plain_rel q" using covered_plain [OF assms(1) _ c] by (simp add: plain_rel_def)
  moreover have "q \<noteq> []"
  proof (cases tree)
    case (FsDir es)
    from covered_below [of q c "[]" es] c FsDir show ?thesis by (auto simp del: covered.simps)
  qed (use assms(2) c in \<open>simp_all add: is_dir_def\<close>)
  ultimately show ?thesis by simp
qed

lemma join_newline_free: "plain_rel q \<Longrightarrow> newline \<notin> set (join_with ''/'' q)"
  by (induction "''/''" q rule: join_with.induct) (auto simp: plain_rel_def newline_def)

lemma manifest_inj:
  assumes shape: "crypto_shape sc" and names: "names_ok t" "is_dir t" "names_ok u" "is_dir u"
    and inj: "inj_on (sc_sha256_hex sc) (snd ` (set (sealed_list t) \<union> set (sealed_list u)))"
    and eq: "concat (map (manifest_line sc) (sealed_list t)) = concat (map (manifest_line sc) (sealed_list u))"
  shows "sealed_list t = sealed_list u"
proof -
  define core where "core = (\<lambda>(q, b). sc_sha256_hex sc b @ ''  '' @ join_with ''/'' q)"
  have line: "manifest_line sc = (\<lambda>x. core x @ [newline])" by (auto simp: manifest_line_def core_def)
  have hex: "newline \<notin> set (sc_sha256_hex sc b)" for b
  proof -
    have "\<not> hex_char newline" by code_simp
    moreover have "list_all hex_char (sc_sha256_hex sc b)" using shape by (simp add: crypto_shape_def)
    ultimately show ?thesis by (auto simp: list_all_iff)
  qed
  have free: "\<forall>l \<in> set (map core (sealed_list v)). newline \<notin> set l" if "names_ok v" "is_dir v" for v
  proof
    fix l assume "l \<in> set (map core (sealed_list v))"
    then obtain q b where qb: "(q, b) \<in> set (sealed_list v)" "l = core (q, b)" by auto
    have "newline \<notin> set (join_with ''/'' q)" using join_newline_free sealed_list_plain [OF that qb(1)] by simp
    then show "newline \<notin> set l" using hex [of b] qb(2) by (simp add: core_def newline_def)
  qed
  have "split_on newline (concat (map (manifest_line sc) (sealed_list v))) = map core (sealed_list v) @ [[]]"
    if "names_ok v" "is_dir v" for v
    using split_on_lines [OF free [OF that]] by (simp add: line comp_def)
  then have cores: "map core (sealed_list t) = map core (sealed_list u)" using names eq by (metis append_same_eq)
  have "inj_on core (set (sealed_list t) \<union> set (sealed_list u))"
  proof (rule inj_onI)
    fix x y assume x: "x \<in> set (sealed_list t) \<union> set (sealed_list u)" and y: "y \<in> set (sealed_list t) \<union> set (sealed_list u)"
      and "core x = core y"
    obtain p a q b where xy: "x = (p, a)" "y = (q, b)" by (cases x, cases y)
    have "length (sc_sha256_hex sc a) = length (sc_sha256_hex sc b)" using shape by (simp add: crypto_shape_def)
    then have sha: "sc_sha256_hex sc a = sc_sha256_hex sc b" and "join_with ''/'' p = join_with ''/'' q"
      using \<open>core x = core y\<close> xy by (simp_all add: core_def)
    moreover have "split_on (CHR ''/'') (join_with ''/'' r) = r" if "(r, c) \<in> set (sealed_list t) \<union> set (sealed_list u)" for r c
      using sealed_list_plain [of t r c] sealed_list_plain [of u r c] names that
      by (intro split_on_join) (auto simp: plain_rel_def list_all_iff)
    ultimately have "p = q" using x y xy by metis
    moreover have "a \<in> snd ` (set (sealed_list t) \<union> set (sealed_list u))" "b \<in> snd ` (set (sealed_list t) \<union> set (sealed_list u))"
      using x y xy by (force+)
    then have "a = b" using inj_onD [OF inj sha] by blast
    ultimately show "x = y" using xy by simp
  qed
  from map_inj_on [OF cores] this show ?thesis by (simp add: Un_commute)
qed

lemma sealed_list_unique:
  assumes "names_ok t" and "names_ok u" and "set (sealed_list t) = set (sealed_list u)"
  shows "sealed_list t = sealed_list u"
proof -
  have fst: "map fst (sealed_list v) = sort (map fst (covered [] v))" for v by (simp add: sealed_list_def comp_def)
  have d: "distinct (map fst (sealed_list v))" if "names_ok v" for v
    using covered_distinct [OF that] by (simp add: fst)
  have "inj_on fst (set (sealed_list t) \<union> set (sealed_list u))" using d [OF assms(1)] assms(3) by (simp add: distinct_map)
  then show ?thesis using d assms by (intro map_sorted_distinct_set_unique [of fst]) (simp_all add: fst)
qed

text \<open>A seal made over an installed tree verifies a tree exactly when the sealed files of the two are
  the same, by path and by contents: every regular file outside the excluded names counts, nothing
  else does, and the order in which a directory lists its entries does not matter. A tree that
  cannot be read, or has more files than the limit, is an error and never a pass. The digests of
  the files concerned and the codes of the two manifests are taken not to collide.
\<close>

theorem tree_seal_exact:
  assumes "crypto_shape sc" and "names_ok t" and "names_ok u"
    and "inj_on (sc_sha256_hex sc) (snd ` (sealed_files t \<union> sealed_files u))"
    and "\<And>m n. tree_manifest sc root t = Ok m \<Longrightarrow> tree_manifest sc root u = Ok n \<Longrightarrow>
      sc_hmac_hex sc key m = sc_hmac_hex sc key n \<Longrightarrow> m = n"
    and "compute_tree_seal sc root t key = Ok seal"
  shows "verify_tree_seal sc root t seal key = Ok True \<and>
    (sealable u \<longrightarrow> verify_tree_seal sc root u seal key = Ok (sealed_files u = sealed_files t)) \<and>
    (\<not> sealable u \<longrightarrow> (\<exists>e. verify_tree_seal sc root u seal key = Err e))"
proof -
  have dir: "is_dir t" using assms(6) by (auto simp: compute_tree_seal_def split: if_splits)
  obtain m where m: "tree_manifest sc root t = Ok m" and mac: "sc_hmac_hex sc key m \<noteq> None"
    and seal: "seal = TREE_SEAL_PREFIX @ the (sc_hmac_hex sc key m)"
    using assms(6) dir by (auto simp: compute_tree_seal_def split: option.splits)
  have st: "sealable t" and mt: "m = concat (map (manifest_line sc) (sealed_list t))"
    using tree_manifest_exact [OF assms(2) dir, of sc root] m by (auto split: if_splits)
  have tree: "is_tree_seal seal" by (simp add: is_tree_seal_def seal)
  have same: "verify_tree_seal sc root u seal key = Ok (sealed_files u = sealed_files t)" if su: "sealable u"
  proof -
    have du: "is_dir u" using su by (simp add: sealable_def)
    let ?n = "concat (map (manifest_line sc) (sealed_list u))"
    have n: "tree_manifest sc root u = Ok ?n" using tree_manifest_exact [OF assms(3) du, of sc root] su by simp
    have macn: "sc_hmac_hex sc key ?n \<noteq> None" using assms(1) mac unfolding crypto_shape_def by metis
    have sets: "set (sealed_list t) = sealed_files t" "set (sealed_list u) = sealed_files u"
      using set_sealed_list assms(2,3) st su by (simp_all add: sealable_def)
    have "sc_hmac_hex sc key ?n = sc_hmac_hex sc key m \<longleftrightarrow> ?n = m" using assms(5) [OF m n] by auto
    also have "\<dots> \<longleftrightarrow> sealed_list t = sealed_list u"
    proof
      assume "?n = m"
      then show "sealed_list t = sealed_list u"
        by (intro manifest_inj [OF assms(1,2) dir assms(3) du assms(4) [folded sets]]) (simp only: mt)
    qed (simp add: mt)
    also have "\<dots> \<longleftrightarrow> sealed_files u = sealed_files t" using sealed_list_unique [OF assms(2,3)] sets by metis
    finally show ?thesis using n macn mac tree du by (auto simp: verify_tree_seal_def compute_tree_seal_def seal)
  qed
  have "\<exists>e. verify_tree_seal sc root u seal key = Err e" if "\<not> sealable u"
    using tree_manifest_exact [OF assms(3), of sc root] that tree
    by (cases "is_dir u") (auto simp: verify_tree_seal_def compute_tree_seal_def)
  moreover have "verify_tree_seal sc root t seal key = Ok True" using assms(6) tree by (simp add: verify_tree_seal_def)
  ultimately show ?thesis using same by blast
qed

definition example_crypto :: seal_crypto where
  "example_crypto =
     \<lparr>sc_sha256_hex = (\<lambda>bytes. replicate 63 (CHR ''0'') @ [if bytes = ''print 1'' then CHR ''1'' else CHR ''2'']),
      sc_hmac_hex = (\<lambda>key m. Some (key @ m))\<rparr>"

definition example_tree :: fs_node where
  "example_tree = FsDir [(''lib'', FsDir [(''util.py'', FsFile ''print 1'')]), (''__pycache__'', FsDir [(''util.pyc'', FsFile ''x'')])]"

definition example_changed :: fs_node where
  "example_changed = FsDir [(''lib'', FsDir [(''util.py'', FsFile ''print 2'')])]"

lemma example_crypto_shape: "crypto_shape example_crypto"
proof -
  have "list_all hex_char (replicate 63 (CHR ''0'') @ [CHR ''1''])" "list_all hex_char (replicate 63 (CHR ''0'') @ [CHR ''2''])"
    by code_simp+
  then show ?thesis by (simp add: crypto_shape_def example_crypto_def)
qed

theorem tree_seal_exact_witness:
  "case compute_tree_seal example_crypto ''r'' example_tree ''k'' of
     Inr seal \<Rightarrow> verify_tree_seal example_crypto ''r'' example_tree seal ''k'' = Ok True \<and>
       verify_tree_seal example_crypto ''r'' example_changed seal ''k'' = Ok False
   | Inl _ \<Rightarrow> False"
proof -
  have names: "names_ok example_tree" "names_ok example_changed" by code_simp+
  have cov: "covered [] example_tree = [([''lib'', ''util.py''], Some ''print 1'')]"
    "covered [] example_changed = [([''lib'', ''util.py''], Some ''print 2'')]" by code_simp+
  moreover have "walkable [] example_tree" "walkable [] example_changed" and dir: "is_dir example_tree" "is_dir example_changed"
    by code_simp+
  ultimately have good: "sealable example_tree" "sealable example_changed"
    by (simp_all add: sealable_def MAX_MANIFEST_FILES_def)
  obtain seal where seal: "compute_tree_seal example_crypto ''r'' example_tree ''k'' = Ok seal"
    using tree_manifest_exact [OF names(1) dir(1), of example_crypto "''r''"] good(1) dir(1)
    by (auto simp: compute_tree_seal_def example_crypto_def)
  from cov have files: "sealed_files example_tree = {([''lib'', ''util.py''], ''print 1'')}"
    "sealed_files example_changed = {([''lib'', ''util.py''], ''print 2'')}" by (auto simp: sealed_files_def)
  have "inj_on (sc_sha256_hex example_crypto) (snd ` (sealed_files example_tree \<union> sealed_files example_changed))"
    by (simp add: files example_crypto_def)
  moreover have "m = n" if "sc_hmac_hex example_crypto ''k'' m = sc_hmac_hex example_crypto ''k'' n" for m n
    using that by (simp add: example_crypto_def)
  ultimately show ?thesis
    using tree_seal_exact [OF example_crypto_shape names, of "''r''" "''k''" seal] seal good files by auto
qed

text \<open>
  A link added anywhere under the root of an installed tree does not change what verifies: links are
  neither in the manifest nor counted.
\<close>

theorem added_link_unnoticed:
  assumes "names_ok (FsDir (es @ [(name, FsLink)]))" and "sealable (FsDir es)"
  shows "verify_tree_seal sc root (FsDir (es @ [(name, FsLink)])) seal key = verify_tree_seal sc root (FsDir es) seal key"
proof -
  have ok: "names_ok (FsDir es)" using assms by simp
  have same: "covered [] (FsDir (es @ [(name, FsLink)])) = covered [] (FsDir es)"
    "walkable [] (FsDir (es @ [(name, FsLink)])) = walkable [] (FsDir es)" by simp_all
  have dir: "is_dir (FsDir es')" for es' by (simp add: is_dir_def)
  have "sealed_list (FsDir (es @ [(name, FsLink)])) = sealed_list (FsDir es)"
    unfolding sealed_list_def by (simp only: same)
  moreover have "sealable (FsDir (es @ [(name, FsLink)]))"
    using assms(2) unfolding sealable_def same by (simp add: is_dir_def)
  ultimately have "tree_manifest sc root (FsDir (es @ [(name, FsLink)])) = tree_manifest sc root (FsDir es)"
    using tree_manifest_exact [OF assms(1) dir, of sc root] tree_manifest_exact [OF ok dir, of sc root] assms(2) by simp
  then show ?thesis by (simp add: verify_tree_seal_def compute_tree_seal_def dir)
qed

text \<open>
  A line break in a name lets one file stand for two lines of the manifest.
\<close>

theorem line_break_in_name_ambiguous:
  "manifest_line sc ([''a'' @ [newline] @ sc_sha256_hex sc ''y'' @ ''  b''], ''x'') =
   manifest_line sc ([''a''], ''x'') @ manifest_line sc ([''b''], ''y'')"
  by (simp add: manifest_line_def)

end
