(* ===== verification/Tool_Discovery.thy ===== *)
theory Tool_Discovery
  imports Capability_Gate
begin

text \<open>
  The searchable index of tools and the per-agent cache of loaded tools of
  \<open>managers/mcp_tool_discovery.rs\<close>, with the four kernel tools over them: \<open>mgp.tools.discover\<close>,
  \<open>mgp.tools.request\<close>, \<open>mgp.tools.session\<close> and \<open>mgp.tools.session.evict\<close>.

  Unicode case and classes and the printing of JSON are the parameter \<open>index_text\<close>. A relevance
  score is a double: \<open>fl\<close> rounds the exact result of each operation, and every theorem holds for
  any rounding. Token counts are below \<open>2 ^ 64\<close> and are naturals here. A clock reading is an
  argument, one for each tool a request puts into the cache.
\<close>

section \<open>Latency tiers\<close>

datatype LatencyTier = TierC | TierB | TierA | TierS

fun score_multiplier :: "LatencyTier \<Rightarrow> rat" where
  "score_multiplier TierC = 1"
| "score_multiplier TierB = 9/10"
| "score_multiplier TierA = 7/10"
| "score_multiplier TierS = 1/2"

definition classify_latency_tier :: "string \<Rightarrow> string \<Rightarrow> LatencyTier" where
  "classify_latency_tier server_id tool =
     (let suffix = last (split_on (CHR ''.'') server_id)
      in if (suffix = ''imagegen'' \<and> tool = ''generate_image'') \<or> (suffix = ''stt'' \<and> tool = ''transcribe'') \<or>
            (suffix = ''capture'' \<and> tool = ''analyze_image'') then TierS
         else if (suffix = ''websearch'' \<and> tool = ''fetch_page'') \<or>
            (suffix = ''cpersona'' \<and> tool \<in> {''update_profile'', ''archive_episode'', ''recall''}) \<or>
            (suffix = ''ollama'' \<and> tool \<in> {''think'', ''think_with_tools''}) then TierA
         else if tool \<in> {''list_models'', ''switch_model''} \<or>
            (suffix = ''agent_utils'' \<and> tool = ''get_current_time'') \<or>
            (suffix = ''websearch'' \<and> tool = ''search_status'') \<or>
            (suffix = ''gaze'' \<and> tool \<in> {''start_tracking'', ''stop_tracking'', ''get_tracker_status''}) then TierB
         else TierC)"

definition SCHEMA_OVERHEAD_TOKENS :: nat where
  "SCHEMA_OVERHEAD_TOKENS = 100"

definition DEFAULT_MAX_TOKENS :: nat where
  "DEFAULT_MAX_TOKENS = 8000"

section \<open>The index\<close>

record tool_index_entry =
  ti_tool_id :: string
  ti_server_id :: string
  ti_name :: string
  ti_description :: string
  ti_categories :: "string list"
  ti_keywords :: "string list"
  ti_input_schema :: json
  ti_security :: "tool_security_metadata option"
  ti_estimated_tokens :: nat
  ti_latency_tier :: LatencyTier

record tool_search_filter =
  tf_categories :: "string list option"
  tf_risk_level_max :: "string option"

type_synonym tool_index = "tool_index_entry list"

record index_text =
  tx_lower :: "string \<Rightarrow> string"
  tx_alphanumeric :: "string \<Rightarrow> string"
  tx_json :: json_text
  tx_trust :: "TrustLevel \<Rightarrow> string"

text \<open>\<open>str::split\<close> on a set of characters.\<close>

fun split_any :: "char list \<Rightarrow> string \<Rightarrow> string list" where
  "split_any cs [] = [[]]"
| "split_any cs (x # xs) =
     (if x \<in> set cs then [] # split_any cs xs
      else (case split_any cs xs of [] \<Rightarrow> [[x]] | p # ps \<Rightarrow> (x # p) # ps))"

definition extract_keywords :: "index_text \<Rightarrow> string \<Rightarrow> string \<Rightarrow> string list" where
  "extract_keywords tx name description =
     (let parts = filter (\<lambda>p. length p > 1) (map (tx_lower tx) (split_any ''_.'' name));
          words = map (\<lambda>w. tx_lower tx (tx_alphanumeric tx w)) (split_whitespace description)
      in foldl (\<lambda>ks w. if length w > 3 \<and> w \<notin> set ks then ks @ [w] else ks) parts words)"

definition extract_categories :: "index_text \<Rightarrow> string \<Rightarrow> string \<Rightarrow> string list" where
  "extract_categories tx server_id tool =
     (let suffix = tx_lower tx (last (split_on (CHR ''.'') server_id));
          lowered = tx_lower tx (hd (split_on (CHR ''_'') tool))
      in if lowered = suffix then [suffix] else [suffix, lowered])"

definition estimate_tokens :: "index_text \<Rightarrow> json \<Rightarrow> nat" where
  "estimate_tokens tx schema = length (json_to_string (tx_json tx) schema) div 4"

definition index_entry ::
  "index_text \<Rightarrow> string \<Rightarrow> (string \<Rightarrow> tool_security_metadata option) \<Rightarrow> mcp_tool \<Rightarrow> tool_index_entry" where
  "index_entry tx server_id security_fn tool =
     (let description = unwrap_or (tool_description tool) []
      in \<lparr>ti_tool_id = server_id @ ''.'' @ tool_name tool, ti_server_id = server_id, ti_name = tool_name tool,
          ti_description = description, ti_categories = extract_categories tx server_id (tool_name tool),
          ti_keywords = extract_keywords tx (tool_name tool) description, ti_input_schema = tool_input_schema tool,
          ti_security = security_fn (tool_name tool),
          ti_estimated_tokens = estimate_tokens tx (tool_input_schema tool) + SCHEMA_OVERHEAD_TOKENS,
          ti_latency_tier = classify_latency_tier server_id (tool_name tool)\<rparr>)"

definition remove_server_tools :: "string \<Rightarrow> tool_index \<Rightarrow> tool_index" where
  "remove_server_tools server_id entries = filter (\<lambda>e. ti_server_id e \<noteq> server_id) entries"

definition add_server_tools ::
  "index_text \<Rightarrow> (string \<Rightarrow> tool_security_metadata option) \<Rightarrow> string \<Rightarrow> mcp_tool list \<Rightarrow> tool_index \<Rightarrow> tool_index" where
  "add_server_tools tx security_fn server_id tools entries =
     filter (\<lambda>e. ti_server_id e \<noteq> server_id) entries
     @ map (index_entry tx server_id security_fn) (filter (\<lambda>t. \<not> starts_with (tool_name t) ''mgp.'') tools)"

section \<open>Search\<close>

definition risk_order :: "string \<Rightarrow> nat" where
  "risk_order s = (if s = ''safe'' then 0 else if s = ''moderate'' then 1 else if s = ''dangerous'' then 2 else 3)"

definition risk_within_max :: "string \<Rightarrow> string \<Rightarrow> bool" where
  "risk_within_max risk max_risk = (risk_order risk \<le> risk_order max_risk)"

fun risk_text :: "RiskLevel \<Rightarrow> string" where
  "risk_text Safe = ''safe''"
| "risk_text Moderate = ''moderate''"
| "risk_text Dangerous = ''dangerous''"

definition in_categories :: "index_text \<Rightarrow> string list \<Rightarrow> tool_index_entry \<Rightarrow> bool" where
  "in_categories tx cats e =
     (let cats_lower = map (tx_lower tx) cats in list_ex (\<lambda>c. tx_lower tx c \<in> set cats_lower) (ti_categories e))"

definition matches_filter :: "index_text \<Rightarrow> tool_index_entry \<Rightarrow> tool_search_filter \<Rightarrow> bool" where
  "matches_filter tx e flt =
     ((case tf_categories flt of None \<Rightarrow> True | Some cats \<Rightarrow> in_categories tx cats e) \<and>
      (case tf_risk_level_max flt of
         None \<Rightarrow> True
       | Some max_risk \<Rightarrow>
           (case ti_security e of
              None \<Rightarrow> True
            | Some sec \<Rightarrow> risk_within_max (risk_text (ts_effective_risk_level sec)) max_risk)))"

definition token_weight :: "index_text \<Rightarrow> tool_index_entry \<Rightarrow> string \<Rightarrow> rat" where
  "token_weight tx e token =
     (let name_lower = tx_lower tx (ti_name e)
      in if name_lower = token \<or> str_contains name_lower token then 1
         else if str_contains (tx_lower tx (ti_description e)) token then 1/2
         else if token \<in> set (ti_keywords e) then 3/10
         else if list_ex (\<lambda>c. str_contains (tx_lower tx c) token) (ti_categories e) then 1/5
         else 0)"

definition compute_relevance_score :: "(rat \<Rightarrow> rat) \<Rightarrow> index_text \<Rightarrow> tool_index_entry \<Rightarrow> string list \<Rightarrow> rat" where
  "compute_relevance_score fl tx e query_tokens =
     (let total = foldl (\<lambda>acc t. fl (acc + fl (token_weight tx e t))) 0 query_tokens;
          normalized = fl (total / of_nat (length query_tokens))
      in fl (normalized * fl (score_multiplier (ti_latency_tier e))))"

text \<open>\<open>sort_by\<close> is stable; the order is by descending score.\<close>

definition search_keyword ::
  "(rat \<Rightarrow> rat) \<Rightarrow> index_text \<Rightarrow> tool_index \<Rightarrow> string \<Rightarrow> nat \<Rightarrow> tool_search_filter \<Rightarrow> (tool_index_entry \<times> rat) list" where
  "search_keyword fl tx entries query max_results flt =
     (let query_tokens = split_whitespace (tx_lower tx query)
      in if query_tokens = [] then []
         else
           let scored = filter (\<lambda>(_, s). s > 0)
                 (map (\<lambda>e. (e, compute_relevance_score fl tx e query_tokens)) (filter (\<lambda>e. matches_filter tx e flt) entries))
           in take max_results (sort_key (\<lambda>(_, s). - s) scored))"

definition search_category ::
  "index_text \<Rightarrow> tool_index \<Rightarrow> string list \<Rightarrow> nat \<Rightarrow> (tool_index_entry \<times> rat) list" where
  "search_category tx entries cats max_results =
     take max_results (map (\<lambda>e. (e, 1)) (filter (in_categories tx cats) entries))"

section \<open>The cache of loaded tools\<close>

record cached_tool =
  ct_last_used :: instant
  ct_estimated_tokens :: nat

record agent_session =
  ss_pinned :: "string list"
  ss_cached :: "(string, cached_tool) hmap"
  ss_max_tokens :: nat

type_synonym session_cache = "(string, agent_session) hmap"

definition new_session :: agent_session where
  "new_session = \<lparr>ss_pinned = [], ss_cached = [], ss_max_tokens = DEFAULT_MAX_TOKENS\<rparr>"

definition session_tokens :: "(string, cached_tool) hmap \<Rightarrow> nat" where
  "session_tokens cached = sum_list (map (\<lambda>(_, c). ct_estimated_tokens c) cached)"

text \<open>\<open>Iterator::min_by_key\<close>: the first of the least.\<close>

definition min_by_key :: "('a \<Rightarrow> 'k::linorder) \<Rightarrow> 'a list \<Rightarrow> 'a option" where
  "min_by_key f xs = (case xs of [] \<Rightarrow> None | y # ys \<Rightarrow> Some (foldl (\<lambda>m z. if f z < f m then z else m) y ys))"

lemma foldl_min_by_key:
  "foldl (\<lambda>m z. if f z < f m then z else m) y ys \<in> set (y # ys) \<and>
   (\<forall>z \<in> set (y # ys). f (foldl (\<lambda>m z. if f z < f m then z else m) y ys) \<le> f z)"
  for f :: "'a \<Rightarrow> 'k::linorder"
proof (induction ys arbitrary: y)
  case (Cons z ys)
  show ?case
  proof (cases "f z < f y")
    case True
    with Cons.IH [of z] show ?thesis by (auto intro: order.trans)
  next
    case False
    with Cons.IH [of y] show ?thesis by (auto intro: order.trans)
  qed
qed simp

lemma min_by_key_Some: "min_by_key f xs = Some x \<Longrightarrow> x \<in> set xs \<and> (\<forall>z \<in> set xs. f x \<le> f z)"
  using foldl_min_by_key [of f "hd xs" "tl xs"] by (cases xs) (auto simp: min_by_key_def)

lemma min_by_key_None_iff [simp]: "min_by_key f xs = None \<longleftrightarrow> xs = []"
  by (simp add: min_by_key_def split: list.splits)

definition lru_key :: "string list \<Rightarrow> (string, cached_tool) hmap \<Rightarrow> string option" where
  "lru_key pinned cached =
     map_option fst (min_by_key (\<lambda>(_, c). ct_last_used c) (filter (\<lambda>(k, _). k \<notin> set pinned) cached))"

lemma lru_key_Some:
  assumes "lru_key pinned cached = Some k"
  obtains c where "(k, c) \<in> set cached" "k \<notin> set pinned"
    "\<And>k' c'. (k', c') \<in> set cached \<Longrightarrow> k' \<notin> set pinned \<Longrightarrow> ct_last_used c \<le> ct_last_used c'"
proof -
  from assms obtain c where "min_by_key (\<lambda>(_, c). ct_last_used c) (filter (\<lambda>(k, _). k \<notin> set pinned) cached) = Some (k, c)"
    by (auto simp: lru_key_def)
  from min_by_key_Some [OF this] have "(k, c) \<in> set cached \<and> k \<notin> set pinned"
    "\<forall>z \<in> set cached. fst z \<notin> set pinned \<longrightarrow> ct_last_used c \<le> ct_last_used (snd z)"
    by auto
  then show thesis
    using that [of c] by fastforce
qed

lemma lru_key_None: "lru_key pinned cached = None \<longleftrightarrow> fst ` set cached \<subseteq> set pinned"
  by (auto simp: lru_key_def filter_empty_conv)

lemma length_hm_remove: "(k, c) \<in> set m \<Longrightarrow> length (hm_remove k m) < length m"
  unfolding hm_remove_def by (rule length_filter_less) auto

function evict_lru :: "string list \<Rightarrow> nat \<Rightarrow> (string, cached_tool) hmap \<Rightarrow> (string, cached_tool) hmap" where
  "evict_lru pinned max_tokens cached =
     (if session_tokens cached \<le> max_tokens then cached
      else (case lru_key pinned cached of
              None \<Rightarrow> cached
            | Some key \<Rightarrow> evict_lru pinned max_tokens (hm_remove key cached)))"
  by pat_completeness auto

termination
  by (relation "measure (\<lambda>(_, _, cached). length cached)") (auto elim!: lru_key_Some intro: length_hm_remove)

declare evict_lru.simps [simp del]

definition enforce_budget :: "agent_session \<Rightarrow> agent_session" where
  "enforce_budget s = s\<lparr>ss_cached := evict_lru (ss_pinned s) (ss_max_tokens s) (ss_cached s)\<rparr>"

fun insert_tools ::
  "(nat \<Rightarrow> instant) \<Rightarrow> nat \<Rightarrow> (string \<times> nat) list \<Rightarrow> (string, cached_tool) hmap \<Rightarrow> (string, cached_tool) hmap \<times> nat \<times> nat" where
  "insert_tools now i [] cached = (cached, 0, 0)"
| "insert_tools now i ((tool_id, est) # tools) cached =
     (case hm_get cached tool_id of
        Some entry \<Rightarrow> insert_tools now (Suc i) tools (hm_insert tool_id (entry\<lparr>ct_last_used := now i\<rparr>) cached)
      | None \<Rightarrow>
          (let (cached', added, tokens) =
                 insert_tools now (Suc i) tools (hm_insert tool_id \<lparr>ct_last_used = now i, ct_estimated_tokens = est\<rparr> cached)
           in (cached', added + 1, tokens + est)))"

definition cache_tools ::
  "(nat \<Rightarrow> instant) \<Rightarrow> string \<Rightarrow> (string \<times> nat) list \<Rightarrow> session_cache \<Rightarrow> session_cache \<times> nat \<times> nat" where
  "cache_tools now agent_id tools sessions =
     (let s = unwrap_or (hm_get sessions agent_id) new_session;
          (cached, added, tokens_added) = insert_tools now 0 tools (ss_cached s)
      in (hm_insert agent_id (enforce_budget (s\<lparr>ss_cached := cached\<rparr>)) sessions, added, tokens_added))"

fun evict_tools :: "string list \<Rightarrow> string list \<Rightarrow> (string, cached_tool) hmap \<Rightarrow> (string, cached_tool) hmap \<times> nat" where
  "evict_tools pinned [] cached = (cached, 0)"
| "evict_tools pinned (tool_id # ids) cached =
     (if tool_id \<in> set pinned \<or> hm_get cached tool_id = None then evict_tools pinned ids cached
      else (let (cached', n) = evict_tools pinned ids (hm_remove tool_id cached) in (cached', n + 1)))"

definition cache_evict :: "string \<Rightarrow> string list \<Rightarrow> session_cache \<Rightarrow> session_cache \<times> nat" where
  "cache_evict agent_id ids sessions =
     (case hm_get sessions agent_id of
        None \<Rightarrow> (sessions, 0)
      | Some s \<Rightarrow>
          (let (cached, n) = evict_tools (ss_pinned s) ids (ss_cached s)
           in (hm_insert agent_id (s\<lparr>ss_cached := cached\<rparr>) sessions, n)))"

definition set_pinned :: "string \<Rightarrow> string list \<Rightarrow> session_cache \<Rightarrow> session_cache" where
  "set_pinned agent_id ids sessions =
     hm_insert agent_id ((unwrap_or (hm_get sessions agent_id) new_session)\<lparr>ss_pinned := ids\<rparr>) sessions"

definition touch :: "instant \<Rightarrow> string \<Rightarrow> string \<Rightarrow> session_cache \<Rightarrow> session_cache" where
  "touch now agent_id tool_id sessions =
     (case hm_get sessions agent_id of
        None \<Rightarrow> sessions
      | Some s \<Rightarrow>
          (case hm_get (ss_cached s) tool_id of
             None \<Rightarrow> sessions
           | Some entry \<Rightarrow>
               hm_insert agent_id (s\<lparr>ss_cached := hm_insert tool_id (entry\<lparr>ct_last_used := now\<rparr>) (ss_cached s)\<rparr>) sessions))"

record session_state =
  st_pinned :: "string list"
  st_cached :: "string list"
  st_total_tokens :: nat
  st_max_tokens :: nat

definition get_session_state :: "string \<Rightarrow> session_cache \<Rightarrow> session_state option" where
  "get_session_state agent_id sessions =
     map_option (\<lambda>s. \<lparr>st_pinned = ss_pinned s, st_cached = map fst (ss_cached s),
         st_total_tokens = session_tokens (ss_cached s), st_max_tokens = ss_max_tokens s\<rparr>) (hm_get sessions agent_id)"

section \<open>The kernel tools\<close>

definition required_str :: "json \<Rightarrow> string \<Rightarrow> ToolFailure + string" where
  "required_str args name =
     ok_or (Option.bind (json_get args name) json_as_str) (FailError (AMgp (missing_tool_arg name)))"

definition session_agent :: "json \<Rightarrow> string" where
  "session_agent args = unwrap_or (Option.bind (json_get args ''agent_id'') json_as_str) ''default''"

definition json_count :: "nat \<Rightarrow> json" where
  "json_count n = JNum (PosInt n)"

definition security_json :: "index_text \<Rightarrow> tool_security_metadata \<Rightarrow> json" where
  "security_json tx sec =
     json_object ([(''effective_risk_level'', JStr (risk_text (ts_effective_risk_level sec))),
       (''trust_level'', JStr (tx_trust tx (ts_trust_level sec)))]
       @ (case ts_validator sec of None \<Rightarrow> [] | Some v \<Rightarrow> [(''validator'', JStr v)])
       @ (case ts_code_safety sec of
            None \<Rightarrow> []
          | Some c \<Rightarrow> [(''code_safety'', json_object ([(''level'', JStr (csl_text (cs_level c)))]
              @ (case cs_language c of None \<Rightarrow> [] | Some l \<Rightarrow> [(''language'', JStr l)])
              @ (case cs_max_code_size_bytes c of None \<Rightarrow> [] | Some n \<Rightarrow> [(''max_code_size_bytes'', json_count n)])))]))"

definition entry_json :: "index_text \<Rightarrow> (string \<times> json) list \<Rightarrow> tool_index_entry \<Rightarrow> json" where
  "entry_json tx scores e =
     json_object ([(''name'', JStr (ti_name e)), (''server_id'', JStr (ti_server_id e)),
       (''description'', JStr (ti_description e))] @ scores @ [(''inputSchema'', ti_input_schema e)]
       @ (case ti_security e of None \<Rightarrow> [] | Some sec \<Rightarrow> [(''security'', security_json tx sec)]))"

text \<open>\<open>f64::round\<close>, half away from zero.\<close>

definition round_half_away :: "rat \<Rightarrow> rat" where
  "round_half_away x = (if x \<ge> 0 then of_int \<lfloor>x + 1/2\<rfloor> else of_int \<lceil>x - 1/2\<rceil>)"

definition shown_score :: "(rat \<Rightarrow> rat) \<Rightarrow> rat \<Rightarrow> json" where
  "shown_score fl s = JNum (Float (fl (round_half_away (fl (s * 100)) / 100)))"

definition discover_filter :: "json \<Rightarrow> tool_search_filter" where
  "discover_filter args =
     (let f = json_get args ''filter''
      in \<lparr>tf_categories = map_option json_str_items
            (Option.bind (Option.bind f (\<lambda>v. json_get v ''categories'')) json_as_array),
          tf_risk_level_max = Option.bind (Option.bind f (\<lambda>v. json_get v ''risk_level_max'')) json_as_str\<rparr>)"

definition execute_tools_discover ::
  "(rat \<Rightarrow> rat) \<Rightarrow> index_text \<Rightarrow> nat \<Rightarrow> tool_index \<Rightarrow> json \<Rightarrow> ToolFailure + json" where
  "execute_tools_discover fl tx query_time_ms index args =
     and_then (required_str args ''query'') (\<lambda>query.
       let strategy = unwrap_or (Option.bind (json_get args ''strategy'') json_as_str) ''keyword'';
           max_results = unwrap_or (Option.bind (json_get args ''max_results'') json_as_u64) 5;
           flt = discover_filter args;
           cats = unwrap_or (tf_categories flt) []
       in and_then
            (if strategy = ''category''
             then if cats = [] then Err (FailError (AMgp (invalid_tool_arg ''Category search requires filter.categories'')))
                  else Ok (search_category tx index cats max_results, ''category'', None)
             else if strategy = ''semantic''
             then Ok (search_keyword fl tx index query max_results flt, ''keyword'', Some ''keyword'')
             else Ok (search_keyword fl tx index query max_results flt, ''keyword'', None))
            (\<lambda>(results, actual, fallback).
              Ok (json_object ([(''tools'', JArr (map (\<lambda>(e, s). entry_json tx [(''relevance_score'', shown_score fl s)] e) results)),
                   (''total_available'', json_count (length index)), (''search_strategy'', JStr actual),
                   (''query_time_ms'', json_count query_time_ms)]
                 @ (case fallback of None \<Rightarrow> [] | Some fb \<Rightarrow> [(''fallback_strategy'', JStr fb)])))))"

definition request_reply :: "string \<Rightarrow> json list \<Rightarrow> string list \<Rightarrow> nat \<Rightarrow> nat \<Rightarrow> json" where
  "request_reply status loaded unavailable tool_count tokens =
     json_object [(''status'', JStr status), (''tools_loaded'', JArr loaded), (''tools_unavailable'', json_strings unavailable),
       (''session_tools_count'', json_count tool_count), (''context_tokens_added'', json_count tokens)]"

text \<open>The search a request makes: its capabilities, as one query.\<close>

definition requested_capabilities :: "json \<Rightarrow> string list" where
  "requested_capabilities requirements =
     unwrap_or (map_option json_str_items (Option.bind (json_get requirements ''capabilities'') json_as_array)) []"

definition request_results :: "(rat \<Rightarrow> rat) \<Rightarrow> index_text \<Rightarrow> tool_index \<Rightarrow> json \<Rightarrow> (tool_index_entry \<times> rat) list" where
  "request_results fl tx index requirements =
     search_keyword fl tx index (join_with '' '' (requested_capabilities requirements)) 10
       \<lparr>tf_categories = None,
        tf_risk_level_max = Option.bind (json_get requirements ''preferred_risk_level'') json_as_str\<rparr>"

definition load_results ::
  "(nat \<Rightarrow> instant) \<Rightarrow> index_text \<Rightarrow> string \<Rightarrow> (tool_index_entry \<times> rat) list \<Rightarrow> session_cache \<Rightarrow> session_cache \<times> json" where
  "load_results now tx agent_id results sessions =
     (let (sessions', _, tokens_added) =
            cache_tools now agent_id (map (\<lambda>(e, _). (ti_tool_id e, ti_estimated_tokens e)) results) sessions;
          cached = (case get_session_state agent_id sessions' of None \<Rightarrow> [] | Some s \<Rightarrow> st_cached s);
          surviving = filter (\<lambda>(e, _). ti_tool_id e \<in> set cached) results;
          status = (if length surviving = length results then ''fulfilled''
                    else if length surviving > 0 then ''partial'' else ''unavailable'')
      in (sessions', request_reply status (map (\<lambda>(e, _). entry_json tx [] e) surviving) [] (length cached) tokens_added))"

definition execute_tools_request ::
  "(rat \<Rightarrow> rat) \<Rightarrow> index_text \<Rightarrow> (nat \<Rightarrow> instant) \<Rightarrow> tool_index \<Rightarrow> json \<Rightarrow> session_cache \<Rightarrow> session_cache \<times> (ToolFailure + json)" where
  "execute_tools_request fl tx now index args sessions =
     (case and_then (required_str args ''reason'') (\<lambda>_. and_then (required_str args ''context'') (\<lambda>_.
             ok_or (json_get args ''requirements'') (FailError (AMgp (missing_tool_arg ''requirements''))))) of
        Inl e \<Rightarrow> (sessions, Err e)
      | Inr requirements \<Rightarrow>
          (let results = request_results fl tx index requirements
           in if results = [] then (sessions, Ok (request_reply ''unavailable'' [] (requested_capabilities requirements) 0 0))
              else (let (sessions', reply) = load_results now tx (session_agent args) results sessions
                    in (sessions', Ok reply))))"

definition session_json :: "session_state option \<Rightarrow> json" where
  "session_json state =
     (case state of
        Some s \<Rightarrow> json_object [(''pinned'', json_strings (st_pinned s)), (''cached'', json_strings (st_cached s)),
          (''total_tokens'', json_count (st_total_tokens s)), (''max_tokens'', json_count (st_max_tokens s))]
      | None \<Rightarrow> json_object [(''pinned'', JArr []), (''cached'', JArr []),
          (''total_tokens'', json_count 0), (''max_tokens'', json_count DEFAULT_MAX_TOKENS)])"

definition execute_tools_session :: "json \<Rightarrow> session_cache \<Rightarrow> session_cache \<times> (ToolFailure + json)" where
  "execute_tools_session args sessions =
     (let agent_id = session_agent args;
          sessions' = (case Option.bind (json_get args ''pinned'') json_as_array of
                         None \<Rightarrow> sessions | Some arr \<Rightarrow> set_pinned agent_id (json_str_items arr) sessions)
      in (sessions', Ok (session_json (get_session_state agent_id sessions'))))"

definition execute_tools_session_evict :: "json \<Rightarrow> session_cache \<Rightarrow> session_cache \<times> (ToolFailure + json)" where
  "execute_tools_session_evict args sessions =
     (case Option.bind (json_get args ''tools'') json_as_array of
        None \<Rightarrow> (sessions, Err (FailError (AMgp (missing_tool_arg ''tools''))))
      | Some arr \<Rightarrow>
          (let agent_id = session_agent args;
               (sessions', evicted) = cache_evict agent_id (json_str_items arr) sessions;
               remaining = (case get_session_state agent_id sessions' of None \<Rightarrow> 0 | Some s \<Rightarrow> length (st_cached s))
           in (sessions', Ok (json_object [(''evicted'', json_count evicted), (''remaining_count'', json_count remaining),
                 (''freed_tokens'', json_count (evicted * SCHEMA_OVERHEAD_TOKENS))]))))"

end
