(* ===== verification/Server_Table.thy ===== *)
theory Server_Table
  imports Launch Dispatcher Tree_Seal Lifecycle Tool_Discovery
begin

text \<open>
  The table of servers of \<open>managers/mcp.rs\<close>: \<open>connect_server\<close> with its permission gates
  (\<open>db/permissions.rs\<close>), seal check, isolation, attempts and registration; \<open>stop_server\<close>,
  \<open>drain_server\<close>, \<open>disconnect_server\<close>, \<open>start_server\<close>, \<open>restart_server\<close> and what the health monitor does with
  the outcome. A server's entry extends the handle the gate reads, and \<open>gate_state\<close> is the part of
  the table the gate sees.

  A connect holds the lock of its server throughout, so it is one operation here. What the outside
  answers is in \<open>connect_io\<close>: the disk, the seal library, the attempts to connect and the answers of
  the server. What is done, in order, is a list of \<open>connect_event\<close>s.
\<close>

section \<open>Permission requests (db/permissions.rs)\<close>

record permission_request =
  pr_request_id :: string
  pr_created_at :: instant
  pr_plugin_id :: string
  pr_permission_type :: string
  pr_justification :: string
  pr_status :: string
  pr_approved_by :: "string option"
  pr_approved_at :: "instant option"
  pr_expires_at :: "instant option"

type_synonym permission_table = "permission_request list"

text \<open>The insert leaves out who approved and when; \<open>request_id\<close> is unique.\<close>

definition create_permission_request :: "bool \<Rightarrow> permission_request \<Rightarrow> permission_table \<Rightarrow> permission_table \<times> (string + unit)" where
  "create_permission_request fault r rows =
     (if fault then (rows, Err ''database error'')
      else if pr_request_id r \<in> pr_request_id ` set rows then (rows, Err ''UNIQUE constraint failed: permission_requests.request_id'')
      else (rows @ [r\<lparr>pr_approved_by := None, pr_approved_at := None\<rparr>], Ok ()))"

definition is_permission_approved :: "bool \<Rightarrow> instant \<Rightarrow> permission_table \<Rightarrow> string \<Rightarrow> string \<Rightarrow> string + bool" where
  "is_permission_approved fault now rows plugin_id permission_type =
     (if fault then Err ''database error''
      else Ok (list_ex (\<lambda>r. pr_plugin_id r = plugin_id \<and> pr_permission_type r = permission_type \<and>
          (pr_status r = ''approved'' \<or> pr_status r = ''auto-approved'') \<and>
          (case pr_expires_at r of None \<Rightarrow> True | Some t \<Rightarrow> t > now)) rows))"

definition update_permission_request ::
  "bool \<Rightarrow> instant \<Rightarrow> string \<Rightarrow> string \<Rightarrow> string \<Rightarrow> permission_table \<Rightarrow> permission_table \<times> (string + unit)" where
  "update_permission_request fault now request_id status approved_by rows =
     (if status \<noteq> ''approved'' \<and> status \<noteq> ''denied''
      then (rows, Err (''Invalid status value: '' @ quoted status @ ''. Must be '' @ quoted ''approved'' @ '' or '' @ quoted ''denied''))
      else if fault then (rows, Err ''database error'')
      else if \<not> list_ex (\<lambda>r. pr_request_id r = request_id \<and> pr_status r = ''pending'') rows
      then (rows, Err (''Permission request '' @ quoted request_id @ '' not found or already processed''))
      else (map (\<lambda>r. if pr_request_id r = request_id \<and> pr_status r = ''pending''
               then r\<lparr>pr_status := status, pr_approved_by := Some approved_by, pr_approved_at := Some now\<rparr> else r) rows, Ok ()))"

section \<open>State\<close>

record server_entry = mcp_server_handle +
  en_config :: mcp_server_config
  en_handshake :: bool
  en_connected_at :: "instant option"
  en_isolation_profile :: "isolation_profile option"
  en_protocol_era :: "string option"
  en_instructions :: "string option"

record manager =
  mg_servers :: "(string, server_entry) hmap"
  mg_tool_index :: "(string, string) hmap"
  mg_rich_tool_index :: tool_index
  mg_dispatcher :: dispatcher
  mg_lifecycle :: lifecycle
  mg_permissions :: permission_table
  mg_yolo_mode :: bool
  mg_yolo_exceptions :: "string list"
  mg_isolation_enabled :: bool
  mg_allow_unsigned :: bool
  mg_sandbox_base_dir :: path

definition gate_state :: "manager \<Rightarrow> mcp_state" where
  "gate_state mg =
     \<lparr>st_servers = map (\<lambda>(k, e). (k, mcp_server_handle.truncate e)) (mg_servers mg), st_tool_index = mg_tool_index mg\<rparr>"

datatype SealStatus = Verified | Failed | Unsigned | Skipped

record negotiated_protocol =
  np_legacy :: bool
  np_mgp :: "mgp_server_capabilities option"
  np_instructions :: "string option"

record connect_io =
  io_now :: instant
  io_lower :: "string \<Rightarrow> string"
  io_index_text :: index_text
  io_env_var :: "string \<Rightarrow> string option"
  io_kernel_version :: string
  io_disk :: connector_disk
  io_servers_root :: "path option"
  io_serde_trust :: "string \<Rightarrow> TrustLevel option"
  io_parse_trust :: "string \<Rightarrow> TrustLevel"
  io_exists :: "string \<Rightarrow> bool"
  io_seal_key :: "string + string"
  io_check_seal :: "TrustLevel \<Rightarrow> string option \<Rightarrow> string \<Rightarrow> string \<Rightarrow> bool \<Rightarrow> string + SealStatus"
  io_crypto :: seal_crypto
  io_tree :: "path \<Rightarrow> fs_node"
  io_lookup_fault :: "string \<Rightarrow> bool"
  io_create_fault :: "string \<Rightarrow> bool"
  io_kernel_events :: bool
  io_connect :: "nat \<Rightarrow> string + (nat \<times> negotiated_protocol)"
  io_initialized :: "string + unit"
  io_tools :: "string + mcp_tool list"
  io_handshake :: "string + bool"

datatype connect_event =
    PermissionRequested string string
  | PermissionNotice string string
  | Spawn string "string list" "isolation_profile option"
  | HttpConnect string "string option"
  | ClientRpc string "string list" string
  | InitializedSent
  | ToolsListed
  | HandshakeTried
  | ClientShutdown nat
  | AuditLogged string string
  | LifecycleNotice string string string

definition YOLO_APPROVER_ID :: string where
  "YOLO_APPROVER_ID = ''YOLO''"

section \<open>Before anything is started\<close>

definition set_status :: "string \<Rightarrow> ServerStatus \<Rightarrow> manager \<Rightarrow> manager" where
  "set_status sid st mg =
     (case hm_get (mg_servers mg) sid of
        None \<Rightarrow> mg
      | Some e \<Rightarrow> mg\<lparr>mg_servers := hm_insert sid (e\<lparr>sh_status := st\<rparr>) (mg_servers mg)\<rparr>)"

definition set_server_error :: "string \<Rightarrow> string \<Rightarrow> manager \<Rightarrow> manager" where
  "set_server_error sid msg mg =
     (case hm_get (mg_servers mg) sid of
        None \<Rightarrow> mg
      | Some e \<Rightarrow> mg\<lparr>mg_servers := hm_insert sid (e\<lparr>sh_status := StatusError msg, sh_client := None\<rparr>) (mg_servers mg)\<rparr>)"

definition is_http :: "mcp_server_config \<Rightarrow> bool" where
  "is_http config = (cf_transport config = ''streamable-http'')"

definition preflight :: "connect_io \<Rightarrow> mcp_server_config \<Rightarrow> manager \<Rightarrow> string + unit" where
  "preflight io config mg =
     (let sid = cf_id config
      in and_then (case io_servers_root io of
             None \<Rightarrow> Ok ()
           | Some servers \<Rightarrow>
               (case check_launchable (io_kernel_version io) (read_declaration (io_disk io) servers sid) of
                  Inl reason \<Rightarrow> Err (''MCP server '' @ quoted sid @ '': '' @ reason)
                | Inr _ \<Rightarrow> Ok ())) (\<lambda>_.
         and_then (if is_http config then Ok '''' else validate_command (cf_command config)) (\<lambda>_.
         case hm_get (mg_servers mg) sid of
           Some e \<Rightarrow> if sh_status e = Connected then Err (''MCP server '' @ quoted sid @ '' is already connected'') else Ok ()
         | None \<Rightarrow> Ok ())))"

text \<open>The row a gate enters: \<open>mcp\<close> for the configured permissions, \<open>mgp\<close> for those a server declares.\<close>

definition justification :: "string \<Rightarrow> string \<Rightarrow> string \<Rightarrow> string \<Rightarrow> string" where
  "justification flow sid status perm =
     (if flow = ''mcp'' then ''MCP server '' @ quoted sid @ '' requires '' @ quoted perm @
        (if status = ''pending'' then '' permission to operate'' else '' (auto-approved: YOLO mode)'')
      else ''MGP server '' @ quoted sid @ '' declares '' @ quoted perm @
        (if status = ''pending'' then '' permission'' else '' (auto-approved: YOLO mode)''))"

definition gate_request :: "string \<Rightarrow> string \<Rightarrow> string \<Rightarrow> instant \<Rightarrow> string \<Rightarrow> permission_request" where
  "gate_request flow sid status now perm =
     (let automatic = (status \<noteq> ''pending'')
      in \<lparr>pr_request_id = flow @ ''-'' @ sid @ ''-'' @ perm, pr_created_at = now, pr_plugin_id = sid,
          pr_permission_type = perm, pr_justification = justification flow sid status perm, pr_status = status,
          pr_approved_by = (if automatic then Some YOLO_APPROVER_ID else None),
          pr_approved_at = (if automatic then Some now else None), pr_expires_at = None\<rparr>)"

text \<open>
  One permission of a gate: the new rows, and whether it stays pending. A failed lookup counts as
  not approved, a failed insert is only logged.
\<close>

definition ask_permission ::
  "connect_io \<Rightarrow> string \<Rightarrow> string \<Rightarrow> string \<Rightarrow> permission_table \<Rightarrow> string \<Rightarrow> permission_table \<times> bool" where
  "ask_permission io flow sid status rows perm =
     (case is_permission_approved (io_lookup_fault io perm) (io_now io) rows sid perm of
        Inr True \<Rightarrow> (rows, False)
      | _ \<Rightarrow> (fst (create_permission_request (io_create_fault io perm) (gate_request flow sid status (io_now io) perm) rows), True))"

fun ask_permissions ::
  "connect_io \<Rightarrow> string \<Rightarrow> string \<Rightarrow> string \<Rightarrow> permission_table \<Rightarrow> string list \<Rightarrow> permission_table \<times> string list" where
  "ask_permissions io flow sid status rows [] = (rows, [])"
| "ask_permissions io flow sid status rows (perm # perms) =
     (let (rows', open_perm) = ask_permission io flow sid status rows perm;
          (rows'', pending) = ask_permissions io flow sid status rows' perms
      in (rows'', (if open_perm then [perm] else []) @ pending))"

text \<open>
  Both gates: outside the automatic mode every permission is asked for; in it only the excepted
  ones, and the others are approved by being entered.
\<close>

definition permission_gate ::
  "connect_io \<Rightarrow> string \<Rightarrow> string \<Rightarrow> string list \<Rightarrow> manager \<Rightarrow> manager \<times> string list" where
  "permission_gate io flow sid perms mg =
     (let automatic = (if mg_yolo_mode mg then filter (\<lambda>p. p \<notin> set (mg_yolo_exceptions mg)) perms else []);
          manual = (if mg_yolo_mode mg then filter (\<lambda>p. p \<in> set (mg_yolo_exceptions mg)) perms else perms);
          (rows, _) = ask_permissions io flow sid ''auto-approved'' (mg_permissions mg) automatic;
          (rows', pending) = ask_permissions io flow sid ''pending'' rows manual
      in (mg\<lparr>mg_permissions := rows'\<rparr>, pending))"

definition blocked_message :: "string \<Rightarrow> string \<Rightarrow> string list \<Rightarrow> string" where
  "blocked_message protocol sid pending =
     protocol @ '' server '' @ quoted sid @ '' blocked: '' @ show_nat (length pending) @ '' permission(s) pending approval: [''
       @ join_with '', '' pending @ '']. Approve via dashboard or API, then retry.''"

section \<open>Seal and isolation\<close>

definition declared_trust :: "connect_io \<Rightarrow> mcp_server_config \<Rightarrow> TrustLevel" where
  "declared_trust io config = unwrap_or (Option.bind (cf_trust_level config) (io_serde_trust io)) Standard"

text \<open>\<open>Path::components\<close>: a root, or a leading current directory, is a component of its own.\<close>

definition path_components :: "string \<Rightarrow> path" where
  "path_components p =
     (if starts_with p ''/'' then [''/''] else if p = ''.'' \<or> starts_with p ''./'' then [''.''] else []) @ components p"

datatype seal_outcome = SealTrust TrustLevel | SealError string | SealTampered string

definition seal_status :: "connect_io \<Rightarrow> manager \<Rightarrow> mcp_server_config \<Rightarrow> string \<Rightarrow> string \<Rightarrow> string + SealStatus" where
  "seal_status io mg config entry_point key =
     (let data = unwrap_or (path_parent (mg_sandbox_base_dir mg)) [''data''];
          tree_root = Option.bind (option_filter is_tree_seal (cf_seal config)) (\<lambda>_.
            install_root_for (path_components entry_point) (data @ [''mcp-servers'']))
      in case (tree_root, cf_seal config) of
           (Some tree_dir, Some seal) \<Rightarrow>
             (case verify_tree_seal (io_crypto io) (join_with ''/'' tree_dir) (io_tree io tree_dir) seal key of
                Inr True \<Rightarrow> Ok Verified
              | _ \<Rightarrow> Ok Failed)
         | _ \<Rightarrow> io_check_seal io (declared_trust io config) (cf_seal config) entry_point key (mg_allow_unsigned mg))"

definition seal_verdict :: "connect_io \<Rightarrow> manager \<Rightarrow> mcp_server_config \<Rightarrow> seal_outcome" where
  "seal_verdict io mg config =
     (let declared = declared_trust io config;
          entry_point = resolve_sealable_entry_point (cf_command config) (cf_args config)
      in if is_http config then SealTrust declared
         else if io_exists io entry_point
         then (case and_then (io_seal_key io) (seal_status io mg config entry_point) of
                 Inl e \<Rightarrow> SealError e
               | Inr Verified \<Rightarrow> SealTrust declared
               | Inr Failed \<Rightarrow> SealTampered (''MCP server '' @ quoted (cf_id config) @ '': Magic Seal verification failed '' @ em_dash @ '' binary may be tampered'')
               | Inr Unsigned \<Rightarrow> SealTrust Untrusted
               | Inr Skipped \<Rightarrow> SealTrust declared)
         else if \<not> mg_allow_unsigned mg then SealTrust Untrusted
         else SealTrust declared)"

definition isolation_of :: "connect_io \<Rightarrow> manager \<Rightarrow> mcp_server_config \<Rightarrow> TrustLevel \<Rightarrow> isolation_profile option" where
  "isolation_of io mg config trust_level =
     (if is_http config \<or> \<not> mg_isolation_enabled mg then None
      else (case derive_isolation_profile (io_lower io) trust_level (cf_required_permissions config) (cf_isolation config)
                 (cf_id config) (mg_sandbox_base_dir mg) of
              Inr p \<Rightarrow> Some p
            | Inl _ \<Rightarrow> None))"

section \<open>Connecting\<close>

datatype attempt_outcome = Reached nat negotiated_protocol | Unconfigured string | Unreached string

definition connect_target :: "connect_io \<Rightarrow> mcp_server_config \<Rightarrow> isolation_profile option \<Rightarrow> string + connect_event" where
  "connect_target io config profile =
     (if is_http config
      then and_then (ok_or (cf_url config) (''MCP server '' @ quoted (cf_id config)
          @ '': transport is 'streamable-http' but no url configured'')) (\<lambda>url.
        and_then (http_bearer (io_env_var io) (cf_id config) config) (\<lambda>auth. Ok (HttpConnect url auth)))
      else Ok (Spawn (cf_command config) (cf_args config) profile))"

fun attempts_from ::
  "connect_io \<Rightarrow> mcp_server_config \<Rightarrow> isolation_profile option \<Rightarrow> nat \<Rightarrow> nat \<Rightarrow> connect_event list \<times> attempt_outcome" where
  "attempts_from io config profile 0 attempt = ([], Unreached ''unknown error'')"
| "attempts_from io config profile (Suc left) attempt =
     (case connect_target io config profile of
        Inl e \<Rightarrow> ([], Unconfigured e)
      | Inr ev \<Rightarrow>
          (case io_connect io attempt of
             Inr (client, negotiated) \<Rightarrow> ([ev], Reached client negotiated)
           | Inl e \<Rightarrow>
               if left = 0 then ([ev], Unreached e)
               else let (evs, r) = attempts_from io config profile left (attempt + 1) in (ev # evs, r)))"

definition merged_permissions :: "string list \<Rightarrow> string list \<Rightarrow> string list" where
  "merged_permissions configured declared =
     fold (\<lambda>perm all. if perm \<in> set all then all else all @ [perm]) declared configured"

text \<open>The permissions a server declares itself, when the permission extension is active.\<close>

definition declared_permissions ::
  "mcp_server_config \<Rightarrow> negotiated_mgp option \<Rightarrow> mgp_server_capabilities option \<Rightarrow> string list option" where
  "declared_permissions config mgp caps =
     (case (mgp, caps) of
        (Some m, Some c) \<Rightarrow>
          if list_ex (\<lambda>e. e = ''permissions'') (ng_active_extensions m) \<and> mc_permissions_required c \<noteq> []
          then Some (merged_permissions (cf_required_permissions config) (mc_permissions_required c)) else None
      | _ \<Rightarrow> None)"

definition route_tools :: "string \<Rightarrow> string list \<Rightarrow> (string, string) hmap \<Rightarrow> (string, string) hmap" where
  "route_tools sid tools ix = fold (\<lambda>t ix. if starts_with t ''mgp.'' then ix else hm_insert t sid ix) tools ix"

definition new_entry ::
  "connect_io \<Rightarrow> mcp_server_config \<Rightarrow> nat \<Rightarrow> negotiated_protocol \<Rightarrow> negotiated_mgp option \<Rightarrow> mcp_tool list \<Rightarrow> bool \<Rightarrow>
   isolation_profile option \<Rightarrow> server_entry" where
  "new_entry io config client negotiated mgp tools handshake profile =
     \<lparr>sh_id = cf_id config, sh_required_permissions = cf_required_permissions config, sh_client = Some client,
      sh_tools = tools, sh_mgp_negotiated = mgp, sh_status = Connected, en_config = config, en_handshake = handshake,
      en_connected_at = Some (io_now io), en_isolation_profile = profile,
      en_protocol_era = Some (if np_legacy negotiated then ''legacy'' else ''modern''),
      en_instructions = np_instructions negotiated\<rparr>"

definition register_server :: "index_text \<Rightarrow> string \<Rightarrow> server_entry \<Rightarrow> mgp_server_capabilities option \<Rightarrow> manager \<Rightarrow> manager" where
  "register_server tx sid entry caps mg =
     (let tools = sh_tools entry;
          mg1 = mg\<lparr>mg_servers := hm_insert sid entry (mg_servers mg)\<rparr>;
          mg2 = (if tools_expose_reasoning tools then mg1
                 else mg1\<lparr>mg_tool_index := route_tools sid (map tool_name tools) (mg_tool_index mg1),
                          mg_rich_tool_index :=
                            add_server_tools tx (compute_tool_security (mcp_server_handle.truncate entry)) sid tools
                              (mg_rich_tool_index mg1)\<rparr>)
      in mg2\<lparr>mg_dispatcher :=
           (case Option.bind caps mc_tools_for_capability of
              Some m \<Rightarrow> build_from_capabilities sid m (mg_dispatcher mg2)
            | None \<Rightarrow> build_from_tools sid (map tool_name tools) (mg_dispatcher mg2))\<rparr>)"

definition previous_client :: "string \<Rightarrow> manager \<Rightarrow> nat option" where
  "previous_client sid mg = Option.bind (hm_get (mg_servers mg) sid) sh_client"

text \<open>The server's own permissions, when it declares some.\<close>

definition permission_flow ::
  "connect_io \<Rightarrow> mcp_server_config \<Rightarrow> negotiated_mgp option \<Rightarrow> mgp_server_capabilities option \<Rightarrow> manager \<Rightarrow>
   manager \<times> connect_event list \<times> (string + unit)" where
  "permission_flow io config mgp caps mg =
     (case declared_permissions config mgp caps of
        None \<Rightarrow> (mg, [], Ok ())
      | Some perms \<Rightarrow>
          let sid = cf_id config;
              (mg1, pending) = permission_gate io ''mgp'' sid perms mg;
              automatic = (if mg_yolo_mode mg then filter (\<lambda>p. p \<notin> set (mg_yolo_exceptions mg)) perms else []);
              audit = (if automatic = [] then [] else [AuditLogged ''PERMISSION_GRANTED'' sid])
          in if pending \<noteq> []
             then (mg1, audit @ [ClientRpc ''mgp/permission/await'' pending [], AuditLogged ''PERMISSION_DENIED'' sid],
                   Err (blocked_message ''MGP'' sid pending))
             else (mg1, audit @ [ClientRpc ''mgp/permission/grant'' perms (if mg_yolo_mode mg then YOLO_APPROVER_ID else ''operator'')],
                   Ok ()))"

text \<open>
  The handshake, the tools, the end of a client the entry still holds, and the registration. What is
  then told to the \<open>ollama\<close> engine about its model changes nothing here and is left out.
\<close>

definition complete_connect ::
  "connect_io \<Rightarrow> mcp_server_config \<Rightarrow> isolation_profile option \<Rightarrow> nat \<Rightarrow> negotiated_protocol \<Rightarrow> negotiated_mgp option \<Rightarrow> manager \<Rightarrow>
   manager \<times> connect_event list \<times> (string + string list)" where
  "complete_connect io config profile client negotiated mgp mg =
     (let sid = cf_id config;
          hello = (if np_legacy negotiated then [InitializedSent] else [])
      in case (if np_legacy negotiated then io_initialized io else Ok ()) of
           Inl e \<Rightarrow>
             let msg = ''Failed to send initialized notification to ['' @ sid @ '']: '' @ e
             in (set_server_error sid msg mg, hello, Err msg)
         | Inr _ \<Rightarrow>
             let tools = (case io_tools io of Inr ts \<Rightarrow> ts | Inl _ \<Rightarrow> []);
                 handshake = (mgp = None \<and> io_handshake io = Ok True);
                 entry = new_entry io config client negotiated mgp tools handshake profile
             in (register_server (io_index_text io) sid entry (np_mgp negotiated) mg,
                 hello @ [ToolsListed] @ (if mgp = None then [HandshakeTried] else [])
                   @ (case previous_client sid mg of Some old \<Rightarrow> [ClientShutdown old] | None \<Rightarrow> [])
                   @ [AuditLogged ''SERVER_CONNECTED'' sid, LifecycleNotice sid ''Registered'' ''Connected''],
                 Ok (map tool_name tools)))"

definition finish_connect ::
  "connect_io \<Rightarrow> mcp_server_config \<Rightarrow> isolation_profile option \<Rightarrow> nat \<Rightarrow> negotiated_protocol \<Rightarrow> manager \<Rightarrow>
   manager \<times> connect_event list \<times> (string + string list)" where
  "finish_connect io config profile client negotiated mg =
     (let mgp = negotiate (io_parse_trust io) (np_mgp negotiated) (cf_trust_level config)
      in case permission_flow io config mgp (np_mgp negotiated) mg of
           (mg1, evs, Inl e) \<Rightarrow> (mg1, evs, Err e)
         | (mg1, evs, Inr _) \<Rightarrow>
             let (mg2, evs', r) = complete_connect io config profile client negotiated mgp mg1 in (mg2, evs @ evs', r))"

definition connect_server ::
  "connect_io \<Rightarrow> mcp_server_config \<Rightarrow> manager \<Rightarrow> manager \<times> connect_event list \<times> (string + string list)" where
  "connect_server io config mg =
     (let sid = cf_id config
      in case preflight io config mg of
           Inl e \<Rightarrow> (mg, [], Err e)
         | Inr _ \<Rightarrow>
             let (mg1, pending) = permission_gate io ''mcp'' sid (cf_required_permissions config) mg
             in if pending \<noteq> []
                then (mg1, if io_kernel_events io then concat (map (\<lambda>p. [PermissionRequested sid p, PermissionNotice sid p]) pending) else [],
                      Err (blocked_message ''MCP'' sid pending))
                else (case seal_verdict io mg1 config of
                    SealError e \<Rightarrow> (mg1, [], Err e)
                  | SealTampered msg \<Rightarrow> (set_server_error sid msg mg1, [], Err msg)
                  | SealTrust trust_level \<Rightarrow>
                      let profile = isolation_of io mg1 config trust_level;
                          mg2 = set_status sid Connecting mg1;
                          (evs, reached) = attempts_from io config profile 3 1
                      in (case reached of
                            Unconfigured e \<Rightarrow> (mg2, evs, Err e)
                          | Unreached e \<Rightarrow>
                              let msg = ''Failed to connect to MCP server '' @ quoted sid @ '' after 3 attempts: '' @ e
                              in (set_server_error sid msg mg2, evs, Err msg)
                          | Reached client negotiated \<Rightarrow>
                              let (mg3, evs', r) = finish_connect io config profile client negotiated mg2 in (mg3, evs @ evs', r))))"

section \<open>Stopping, removing, starting\<close>

definition stop_server :: "string \<Rightarrow> manager \<Rightarrow> manager \<times> connect_event list \<times> (string + unit)" where
  "stop_server sid mg =
     (case hm_get (mg_servers mg) sid of
        None \<Rightarrow> (mg, [], Err (''Server '' @ quoted sid @ '' not found or already stopped''))
      | Some e \<Rightarrow>
          if sh_status e = Disconnected then (mg, [], Err (''Server '' @ quoted sid @ '' is already stopped''))
          else
            (mg\<lparr>mg_servers := hm_insert sid
                  (e\<lparr>sh_client := None, sh_status := Disconnected, sh_tools := [], sh_mgp_negotiated := None,
                     en_handshake := False, en_connected_at := None, en_isolation_profile := None\<rparr>) (mg_servers mg),
                mg_tool_index := hm_retain (\<lambda>_ s. s \<noteq> sid) (mg_tool_index mg),
                mg_rich_tool_index := remove_server_tools sid (mg_rich_tool_index mg),
                mg_dispatcher := dispatcher_remove_server sid (mg_dispatcher mg)\<rparr>,
             (case sh_client e of Some c \<Rightarrow> [ClientShutdown c] | None \<Rightarrow> []), Ok ()))"

definition disconnect_server :: "string \<Rightarrow> manager \<Rightarrow> manager \<times> (string + unit)" where
  "disconnect_server sid mg =
     (case hm_get (mg_servers mg) sid of
        None \<Rightarrow> (mg, Err (''MCP server '' @ quoted sid @ '' not found''))
      | Some e \<Rightarrow>
          (mg\<lparr>mg_servers := hm_remove sid (mg_servers mg),
              mg_tool_index := fold (\<lambda>t. hm_remove (tool_name t)) (sh_tools e) (mg_tool_index mg),
              mg_rich_tool_index := remove_server_tools sid (mg_rich_tool_index mg)\<rparr>, Ok ()))"

text \<open>Draining is two steps with a wait between them; the second is \<open>stop_server\<close>.\<close>

definition begin_drain :: "string \<Rightarrow> manager \<Rightarrow> manager \<times> connect_event list \<times> (string + unit)" where
  "begin_drain sid mg =
     (case hm_get (mg_servers mg) sid of
        None \<Rightarrow> (mg, [], Err (''Server '' @ quoted sid @ '' not found''))
      | Some _ \<Rightarrow> (set_status sid Draining mg, [LifecycleNotice sid ''Connected'' ''Draining''], Ok ()))"

definition persisted_server_config :: "(string \<Rightarrow> string list) \<Rightarrow> (string \<Rightarrow> (string, string) hmap) \<Rightarrow> mcp_server_record \<Rightarrow> mcp_server_config" where
  "persisted_server_config decode_args decode_env r =
     \<lparr>cf_id = ms_name r, cf_command = ms_command r, cf_args = decode_args (ms_args r), cf_env = decode_env (ms_env r),
      cf_transport = ms_transport r, cf_url = ms_url r, cf_auth_token = ms_auth_token r,
      cf_auto_restart = Some (ms_auto_restart r), cf_required_permissions = [], cf_display_name = ms_display_name r,
      cf_trust_level = ms_trust_level r, cf_restart_policy = None, cf_seal = ms_seal r, cf_isolation = None,
      cf_marketplace_id = ms_marketplace_id r, cf_protocol_era = None\<rparr>"

definition start_config ::
  "(string \<Rightarrow> string list) \<Rightarrow> (string \<Rightarrow> (string, string) hmap) \<Rightarrow> db_error + mcp_server_record list \<Rightarrow> string \<Rightarrow> manager \<Rightarrow>
   string + mcp_server_config" where
  "start_config decode_args decode_env records sid mg =
     (case hm_get (mg_servers mg) sid of
        Some e \<Rightarrow>
          if sh_status e = Connected then Err (''Server '' @ quoted sid @ '' is already running'')
          else if sh_status e = Connecting \<or> sh_status e = Restarting then Err (''Server '' @ quoted sid @ '' is already starting'')
          else Ok (en_config e)
      | None \<Rightarrow>
          (case records of
             Inl e \<Rightarrow> Err e
           | Inr rs \<Rightarrow>
               (case List.find (\<lambda>r. ms_name r = sid) rs of
                  None \<Rightarrow> Err (''Server '' @ quoted sid @ '' not found in servers map or database'')
                | Some r \<Rightarrow>
                    if ms_command r = PLACEHOLDER_COMMAND
                    then Err (''Server '' @ quoted sid @ '' is not installed '' @ em_dash @ '' install it before starting it'')
                    else Ok (persisted_server_config decode_args decode_env r))))"

definition start_server ::
  "(string \<Rightarrow> string list) \<Rightarrow> (string \<Rightarrow> (string, string) hmap) \<Rightarrow> db_error + mcp_server_record list \<Rightarrow> connect_io \<Rightarrow> string \<Rightarrow>
   manager \<Rightarrow> manager \<times> connect_event list \<times> (string + string list)" where
  "start_server decode_args decode_env records io sid mg =
     (case start_config decode_args decode_env records sid mg of
        Inl e \<Rightarrow> (mg, [], Err e)
      | Inr config \<Rightarrow> connect_server io config mg)"

definition restart_server ::
  "(string \<Rightarrow> string list) \<Rightarrow> (string \<Rightarrow> (string, string) hmap) \<Rightarrow> db_error + mcp_server_record list \<Rightarrow> connect_io \<Rightarrow> string \<Rightarrow>
   manager \<Rightarrow> manager \<times> connect_event list \<times> (string + string list)" where
  "restart_server decode_args decode_env records io sid mg =
     (let (mg1, evs, _) = stop_server sid (set_status sid Restarting mg);
          (mg2, evs', r) = start_server decode_args decode_env records io sid mg1
      in (mg2, LifecycleNotice sid ''Connected'' ''Restarting'' # evs @ evs', r))"

text \<open>A failed first connect leaves an entry with its error, where there is none yet.\<close>

definition register_failure :: "mcp_server_config \<Rightarrow> string \<Rightarrow> manager \<Rightarrow> manager" where
  "register_failure config e mg =
     (case hm_get (mg_servers mg) (cf_id config) of
        Some _ \<Rightarrow> mg
      | None \<Rightarrow>
          mg\<lparr>mg_servers := hm_insert (cf_id config)
              \<lparr>sh_id = cf_id config, sh_required_permissions = cf_required_permissions config, sh_client = None, sh_tools = [],
               sh_mgp_negotiated = None, sh_status = StatusError e, en_config = config, en_handshake = False,
               en_connected_at = None, en_isolation_profile = None, en_protocol_era = None, en_instructions = None\<rparr> (mg_servers mg)\<rparr>)"

section \<open>The health monitor\<close>

text \<open>A server is dead when its client's process is, or when it has none and its status is an error.\<close>

definition is_dead :: "(nat \<Rightarrow> bool) \<Rightarrow> server_entry \<Rightarrow> bool" where
  "is_dead alive e =
     (case sh_client e of Some c \<Rightarrow> \<not> alive c | None \<Rightarrow> (case sh_status e of StatusError _ \<Rightarrow> True | _ \<Rightarrow> False))"

definition dead_servers :: "(nat \<Rightarrow> bool) \<Rightarrow> manager \<Rightarrow> (string \<times> ServerStatus \<times> restart_policy) list" where
  "dead_servers alive mg =
     map (\<lambda>(sid, e). (sid, sh_status e, effective_restart_policy (cf_restart_policy (en_config e)) (cf_auto_restart (en_config e))))
       (filter (\<lambda>(_, e). is_dead alive e) (mg_servers mg))"

text \<open>After the wait: a server stopped, draining or removed meanwhile is left alone.\<close>

definition restart_after_wait ::
  "(string \<Rightarrow> string list) \<Rightarrow> (string \<Rightarrow> (string, string) hmap) \<Rightarrow> db_error + mcp_server_record list \<Rightarrow> connect_io \<Rightarrow> string \<Rightarrow>
   manager \<Rightarrow> manager \<times> connect_event list" where
  "restart_after_wait decode_args decode_env records io sid mg =
     (case map_option sh_status (hm_get (mg_servers mg) sid) of
        None \<Rightarrow> (mg, [])
      | Some Disconnected \<Rightarrow> (mg, [])
      | Some Draining \<Rightarrow> (mg, [])
      | Some _ \<Rightarrow>
          (case restart_server decode_args decode_env records io sid mg of
             (mg', evs, Inr _) \<Rightarrow>
               (mg'\<lparr>mg_lifecycle := reset_counter (mg_lifecycle mg') sid\<rparr>, evs @ [LifecycleNotice sid ''Error'' ''Connected''])
           | (mg', evs, Inl e) \<Rightarrow>
               (set_status sid (StatusError (''Auto-restart failed: '' @ e)) mg', evs @ [LifecycleNotice sid ''Connected'' ''Error''])))"

definition health_round ::
  "instant \<Rightarrow> instant \<Rightarrow> string \<times> ServerStatus \<times> restart_policy \<Rightarrow> manager \<Rightarrow> manager \<times> u64 option" where
  "health_round asked recorded = (\<lambda>(sid, status, policy) mg.
     let (counters, wait) = restart_round (mg_lifecycle mg) sid policy status asked recorded
     in (mg\<lparr>mg_lifecycle := counters\<rparr>, wait))"

end
