(* ===== verification/Server_Laws.thy ===== *)
theory Server_Laws
  imports Server_Table
begin

text \<open>
  What holds of the table of servers: what a server must pass before it is started and before it is
  registered, the state a stopped server is in, and where the code falls short of its comments.
\<close>

section \<open>Permissions\<close>

definition approved :: "instant \<Rightarrow> permission_table \<Rightarrow> string \<Rightarrow> string \<Rightarrow> bool" where
  "approved now rows sid perm = (is_permission_approved False now rows sid perm = Ok True)"

lemma approved_append:
  "approved now (rows @ rows') sid perm \<longleftrightarrow> approved now rows sid perm \<or> approved now rows' sid perm"
  by (auto simp: approved_def is_permission_approved_def)

text \<open>The rows a gate enters are its own: of this server, with the gate's status and permissions.\<close>

definition entered :: "string \<Rightarrow> string \<Rightarrow> string set \<Rightarrow> permission_table \<Rightarrow> bool" where
  "entered sid status perms rows = list_all (\<lambda>r. pr_plugin_id r = sid \<and> pr_status r = status \<and> pr_permission_type r \<in> perms) rows"

lemma ask_permission_rows:
  assumes "ask_permission io flow sid status rows perm = (rows', still)"
  shows "(\<exists>news. rows' = rows @ news \<and> entered sid status {perm} news) \<and> (\<not> still \<longrightarrow> approved (io_now io) rows sid perm \<and> rows' = rows)"
proof (cases "is_permission_approved (io_lookup_fault io perm) (io_now io) rows sid perm = Ok True")
  case True
  then show ?thesis using assms
    by (auto simp: ask_permission_def entered_def approved_def is_permission_approved_def split: if_splits)
next
  case False
  then have "rows' = fst (create_permission_request (io_create_fault io perm) (gate_request flow sid status (io_now io) perm) rows) \<and> still"
    using assms by (auto simp: ask_permission_def split: sum.splits bool.splits)
  then show ?thesis by (auto simp: create_permission_request_def gate_request_def entered_def Let_def)
qed

lemma ask_permissions_rows:
  "ask_permissions io flow sid status rows perms = (rows', pending) \<Longrightarrow>
   \<exists>news. rows' = rows @ news \<and> entered sid status (set perms) news"
proof (induction perms arbitrary: rows rows' pending)
  case (Cons perm perms)
  obtain mid still where mid: "ask_permission io flow sid status rows perm = (mid, still)" by fastforce
  obtain pending' where rest: "ask_permissions io flow sid status mid perms = (rows', pending')"
    using Cons.prems mid by (auto simp: Let_def split: prod.splits)
  obtain a where a: "mid = rows @ a" "entered sid status {perm} a" using ask_permission_rows [OF mid] by blast
  obtain b where "rows' = mid @ b" "entered sid status (set perms) b" using Cons.IH [OF rest] by blast
  then have "rows' = rows @ a @ b \<and> entered sid status (set (perm # perms)) (a @ b)"
    using a by (auto simp: entered_def list_all_iff)
  then show ?case by blast
qed (simp add: entered_def)

lemma entered_pending: "entered sid ''pending'' perms news \<Longrightarrow> \<not> approved now news s p"
  by (auto simp: entered_def approved_def is_permission_approved_def list_all_iff list_ex_iff)

lemma entered_other: "entered sid status perms news \<Longrightarrow> p \<notin> perms \<Longrightarrow> \<not> approved now news s p"
  by (auto simp: entered_def approved_def is_permission_approved_def list_all_iff list_ex_iff)

lemma ask_permissions_granted:
  "ask_permissions io flow sid ''pending'' rows perms = (rows', []) \<Longrightarrow> p \<in> set perms \<Longrightarrow> approved (io_now io) rows sid p"
proof (induction perms arbitrary: rows rows')
  case (Cons perm perms)
  obtain mid still where mid: "ask_permission io flow sid ''pending'' rows perm = (mid, still)" by fastforce
  have still: "\<not> still" and rest: "ask_permissions io flow sid ''pending'' mid perms = (rows', [])"
    using Cons.prems(1) mid by (auto simp: Let_def split: prod.splits if_splits)
  then have "approved (io_now io) rows sid perm" "mid = rows" using ask_permission_rows [OF mid] by blast+
  then show ?case using Cons.IH [OF rest] Cons.prems(2) by auto
qed simp

text \<open>A permission is held when it was approved before, or the automatic mode covers it.\<close>

definition held :: "connect_io \<Rightarrow> manager \<Rightarrow> string \<Rightarrow> string \<Rightarrow> bool" where
  "held io mg sid perm \<longleftrightarrow>
     mg_yolo_mode mg \<and> perm \<notin> set (mg_yolo_exceptions mg) \<or> approved (io_now io) (mg_permissions mg) sid perm"

lemma permission_gate_result:
  assumes "permission_gate io flow sid perms mg = (mg', pending)"
  shows "(\<exists>rows. mg' = mg\<lparr>mg_permissions := rows\<rparr>) \<and> (\<forall>p s. held io mg' s p \<longrightarrow> held io mg s p) \<and>
    (pending = [] \<longrightarrow> (\<forall>p \<in> set perms. held io mg sid p))"
proof -
  let ?auto = "if mg_yolo_mode mg then filter (\<lambda>p. p \<notin> set (mg_yolo_exceptions mg)) perms else []"
  let ?manual = "if mg_yolo_mode mg then filter (\<lambda>p. p \<in> set (mg_yolo_exceptions mg)) perms else perms"
  obtain rows ap where auto: "ask_permissions io flow sid ''auto-approved'' (mg_permissions mg) ?auto = (rows, ap)" by fastforce
  obtain rows' where manual: "ask_permissions io flow sid ''pending'' rows ?manual = (rows', pending)"
    and mg': "mg' = mg\<lparr>mg_permissions := rows'\<rparr>"
    using assms auto by (auto simp: permission_gate_def Let_def split: prod.splits)
  obtain a where a: "rows = mg_permissions mg @ a" "entered sid ''auto-approved'' (set ?auto) a"
    using ask_permissions_rows [OF auto] by blast
  obtain b where b: "rows' = rows @ b" "entered sid ''pending'' (set ?manual) b"
    using ask_permissions_rows [OF manual] by blast
  have same: "approved now rows' s p \<Longrightarrow> p \<notin> set ?auto \<Longrightarrow> approved now (mg_permissions mg) s p" for now s p
    using entered_other [OF a(2)] entered_pending [OF b(2)] a(1) b(1) by (auto simp: approved_append)
  have "held io mg s p" if "held io mg' s p" for s p
    using that same [of "io_now io" s p] mg' by (auto simp: held_def split: if_splits)
  moreover have "held io mg sid p" if "pending = []" "p \<in> set perms" for p
  proof (cases "p \<in> set ?manual")
    case True
    then have "approved (io_now io) rows sid p" using ask_permissions_granted [of io flow sid rows ?manual rows' p] manual that(1) by simp
    moreover have "p \<notin> set ?auto" using True by (auto split: if_splits)
    ultimately show ?thesis using entered_other [OF a(2)] a(1) by (auto simp: held_def approved_append)
  next
    case False
    then show ?thesis using that(2) by (auto simp: held_def split: if_splits)
  qed
  ultimately show ?thesis using mg' by blast
qed

section \<open>Admission\<close>

text \<open>
  How a process may be started: by an allowed command, under the isolation of a trust level that is
  the declared one only where the seal allows it, and the untrusted one otherwise.
\<close>

definition sealed_as :: "connect_io \<Rightarrow> manager \<Rightarrow> mcp_server_config \<Rightarrow> TrustLevel \<Rightarrow> bool" where
  "sealed_as io mg config t \<longleftrightarrow>
     (let entry_point = resolve_sealable_entry_point (cf_command config) (cf_args config);
          status = and_then (io_seal_key io) (seal_status io mg config entry_point)
      in if io_exists io entry_point
         then status = Ok Verified \<and> t = declared_trust io config \<or> status = Ok Skipped \<and> t = declared_trust io config \<or>
              status = Ok Unsigned \<and> t = Untrusted
         else t = Untrusted \<or> mg_allow_unsigned mg \<and> t = declared_trust io config)"

definition may_start :: "connect_io \<Rightarrow> manager \<Rightarrow> mcp_server_config \<Rightarrow> bool" where
  "may_start io mg config \<longleftrightarrow>
     (\<forall>servers. io_servers_root io = Some servers \<longrightarrow>
        dc_connector_type (read_declaration (io_disk io) servers (cf_id config)) = ''mgp_server'' \<and>
        dc_spec_version (read_declaration (io_disk io) servers (cf_id config)) \<le> 1) \<and>
     (\<forall>e. hm_get (mg_servers mg) (cf_id config) = Some e \<longrightarrow> sh_status e \<noteq> Connected) \<and>
     (\<forall>p \<in> set (cf_required_permissions config). held io mg (cf_id config) p)"

fun admitted :: "connect_io \<Rightarrow> manager \<Rightarrow> mcp_server_config \<Rightarrow> connect_event \<Rightarrow> bool" where
  "admitted io mg config (Spawn command args profile) \<longleftrightarrow>
     may_start io mg config \<and> \<not> is_http config \<and> command = cf_command config \<and> args = cf_args config \<and>
     (command \<in> set ALLOWED_COMMANDS \<or> is_workspace_binary command) \<and>
     (\<exists>t. sealed_as io mg config t \<and> profile = isolation_of io mg config t)"
| "admitted io mg config (HttpConnect url auth) \<longleftrightarrow>
     may_start io mg config \<and> is_http config \<and> cf_url config = Some url \<and> http_bearer (io_env_var io) (cf_id config) config = Ok auth"
| "admitted io mg config _ \<longleftrightarrow> True"

lemma preflight_Ok:
  assumes "preflight io config mg = Ok u"
  shows "(\<forall>servers. io_servers_root io = Some servers \<longrightarrow>
        dc_connector_type (read_declaration (io_disk io) servers (cf_id config)) = ''mgp_server'' \<and>
        dc_spec_version (read_declaration (io_disk io) servers (cf_id config)) \<le> 1) \<and>
     (\<forall>e. hm_get (mg_servers mg) (cf_id config) = Some e \<longrightarrow> sh_status e \<noteq> Connected) \<and>
     (is_http config \<or> cf_command config \<in> set ALLOWED_COMMANDS \<or> is_workspace_binary (cf_command config))"
  using assms unfolding preflight_def Let_def
  by (auto simp: check_launchable_Ok_iff dest: validate_command_Ok split: option.splits sum.splits if_splits)

lemma seal_verdict_trust:
  "seal_verdict io mg config = SealTrust t \<Longrightarrow> \<not> is_http config \<Longrightarrow> sealed_as io mg config t"
  by (auto simp: seal_verdict_def sealed_as_def Let_def split: if_splits sum.splits SealStatus.splits)

lemma seal_rows [simp]:
  "seal_verdict io (mg\<lparr>mg_permissions := rows\<rparr>) config = seal_verdict io mg config"
  "isolation_of io (mg\<lparr>mg_permissions := rows\<rparr>) config t = isolation_of io mg config t"
proof -
  have fields: "mg_allow_unsigned (mg\<lparr>mg_permissions := rows\<rparr>) = mg_allow_unsigned mg"
    "mg_sandbox_base_dir (mg\<lparr>mg_permissions := rows\<rparr>) = mg_sandbox_base_dir mg"
    "mg_isolation_enabled (mg\<lparr>mg_permissions := rows\<rparr>) = mg_isolation_enabled mg" by simp_all
  have status: "seal_status io (mg\<lparr>mg_permissions := rows\<rparr>) = seal_status io mg" by (intro ext) (unfold seal_status_def fields, rule refl)
  show "seal_verdict io (mg\<lparr>mg_permissions := rows\<rparr>) config = seal_verdict io mg config"
    "isolation_of io (mg\<lparr>mg_permissions := rows\<rparr>) config t = isolation_of io mg config t"
    unfolding seal_verdict_def isolation_of_def status fields by (rule refl)+
qed

lemma attempts_events:
  "attempts_from io config profile left n = (evs, r) \<Longrightarrow> e \<in> set evs \<Longrightarrow> connect_target io config profile = Ok e"
proof (induction left arbitrary: n evs r)
  case (Suc left)
  then show ?case
    by (cases "connect_target io config profile"; cases "io_connect io n") (auto simp: Let_def split: if_splits prod.splits)
qed simp

lemma attempts_reached:
  "attempts_from io config profile left n = (evs, Reached client negotiated) \<Longrightarrow>
   \<exists>m. n \<le> m \<and> m < n + left \<and> io_connect io m = Ok (client, negotiated)"
proof (induction left arbitrary: n evs)
  case (Suc left)
  show ?case
  proof (cases "io_connect io n")
    case (Inl e)
    then obtain evs' where "attempts_from io config profile left (n + 1) = (evs', Reached client negotiated)"
      using Suc.prems by (auto simp: Let_def split: sum.splits if_splits prod.splits)
    from Suc.IH [OF this] obtain m where "n + 1 \<le> m" "m < n + 1 + left" "io_connect io m = Ok (client, negotiated)" by blast
    then show ?thesis by (intro exI [of _ m]) simp
  next
    case (Inr a)
    then show ?thesis using Suc.prems by (force split: sum.splits prod.splits)
  qed
qed simp

lemma connect_target_Ok:
  "connect_target io config profile = Ok e \<Longrightarrow>
   if is_http config then \<exists>url auth. e = HttpConnect url auth \<and> cf_url config = Some url \<and> http_bearer (io_env_var io) (cf_id config) config = Ok auth
   else e = Spawn (cf_command config) (cf_args config) profile"
  by (auto simp: connect_target_def split: if_splits)

text \<open>After the connection no further one is made.\<close>

fun opens :: "connect_event \<Rightarrow> bool" where
  "opens (Spawn _ _ _) = True"
| "opens (HttpConnect _ _) = True"
| "opens _ = False"

lemma permission_flow_quiet: "permission_flow io config mgp caps mg = (mg', evs, r) \<Longrightarrow> e \<in> set evs \<Longrightarrow> \<not> opens e"
  by (auto simp: permission_flow_def Let_def split: option.splits prod.splits if_splits)

lemma complete_connect_quiet:
  "complete_connect io config profile client negotiated mgp mg = (mg', evs, r) \<Longrightarrow> e \<in> set evs \<Longrightarrow> \<not> opens e"
  by (cases "if np_legacy negotiated then io_initialized io else Ok ()"; cases "previous_client (cf_id config) mg")
    (auto simp: complete_connect_def Let_def split: if_splits)

lemma finish_cases:
  assumes "finish_connect io config profile client negotiated mg = (mg', evs, r)"
  defines "mgp \<equiv> negotiate (io_parse_trust io) (np_mgp negotiated) (cf_trust_level config)"
  obtains (blocked) e where "permission_flow io config mgp (np_mgp negotiated) mg = (mg', evs, Err e)" "r = Err e"
  | (through) mg1 evs1 u evs2 where "permission_flow io config mgp (np_mgp negotiated) mg = (mg1, evs1, Ok u)"
      "complete_connect io config profile client negotiated mgp mg1 = (mg', evs2, r)" "evs = evs1 @ evs2"
  using assms by (auto simp: finish_connect_def mgp_def Let_def split: prod.splits sum.splits)

lemma finish_quiet: "finish_connect io config profile client negotiated mg = (mg', evs, r) \<Longrightarrow> e \<in> set evs \<Longrightarrow> \<not> opens e"
  by (erule finish_cases) (auto dest: permission_flow_quiet complete_connect_quiet)

lemma connect_cases:
  assumes "connect_server io config mg = (mg', evs, r)"
  obtains (refused) e where "mg' = mg" "evs = []" "r = Err e"
  | (pending) rows e where "mg' = mg\<lparr>mg_permissions := rows\<rparr>" "\<And>ev. ev \<in> set evs \<Longrightarrow> \<not> opens ev" "r = Err e"
  | (unsealed) rows e where "mg' = mg\<lparr>mg_permissions := rows\<rparr> \<or> mg' = set_server_error (cf_id config) e (mg\<lparr>mg_permissions := rows\<rparr>)"
      "evs = []" "r = Err e"
  | (unreached) rows t e where "may_start io mg config" "seal_verdict io mg config = SealTrust t"
      "is_http config \<or> cf_command config \<in> set ALLOWED_COMMANDS \<or> is_workspace_binary (cf_command config)"
      "mg' = set_status (cf_id config) Connecting (mg\<lparr>mg_permissions := rows\<rparr>) \<or>
       mg' = set_server_error (cf_id config) e (set_status (cf_id config) Connecting (mg\<lparr>mg_permissions := rows\<rparr>))"
      "\<And>ev. ev \<in> set evs \<Longrightarrow> connect_target io config (isolation_of io mg config t) = Ok ev" "r = Err e"
  | (reached) rows t client negotiated evs1 evs2 where "may_start io mg config" "seal_verdict io mg config = SealTrust t"
      "is_http config \<or> cf_command config \<in> set ALLOWED_COMMANDS \<or> is_workspace_binary (cf_command config)"
      "\<And>ev. ev \<in> set evs1 \<Longrightarrow> connect_target io config (isolation_of io mg config t) = Ok ev"
      "finish_connect io config (isolation_of io mg config t) client negotiated
         (set_status (cf_id config) Connecting (mg\<lparr>mg_permissions := rows\<rparr>)) = (mg', evs2, r)"
      "evs = evs1 @ evs2" "\<And>p s. held io (mg\<lparr>mg_permissions := rows\<rparr>) s p \<Longrightarrow> held io mg s p"
      "\<exists>n. 1 \<le> n \<and> n \<le> 3 \<and> io_connect io n = Ok (client, negotiated)"
proof (cases "preflight io config mg")
  case (Inl e)
  then show thesis using assms refused by (auto simp: connect_server_def Let_def)
next
  case (Inr u)
  note pre = preflight_Ok [OF Inr]
  obtain mg1 waiting where gate: "permission_gate io ''mcp'' (cf_id config) (cf_required_permissions config) mg = (mg1, waiting)"
    by fastforce
  note gated = permission_gate_result [OF gate]
  obtain rows where rows: "mg1 = mg\<lparr>mg_permissions := rows\<rparr>" using gated by blast
  show thesis
  proof (cases "waiting = []")
    case False
    then have "mg' = mg1" and evs: "evs = (if io_kernel_events io then
        concat (map (\<lambda>p. [PermissionRequested (cf_id config) p, PermissionNotice (cf_id config) p]) waiting) else [])"
      and r: "r = Err (blocked_message ''MCP'' (cf_id config) waiting)"
      using assms Inr gate by (simp_all add: connect_server_def Let_def)
    moreover have "\<not> opens ev" if "ev \<in> set evs" for ev using that evs by (auto split: if_splits)
    ultimately show thesis using pending rows by blast
  next
    case True
    then have start: "may_start io mg config" using pre gated unfolding may_start_def by blast
    show thesis
    proof (cases "seal_verdict io mg config")
      case (SealError e)
      then have "mg' = mg1 \<and> evs = [] \<and> r = Err e" using assms Inr gate True rows by (simp add: connect_server_def Let_def)
      then show thesis using unsealed rows by blast
    next
      case (SealTampered e)
      then have "mg' = set_server_error (cf_id config) e mg1 \<and> evs = [] \<and> r = Err e"
        using assms Inr gate True rows by (simp add: connect_server_def Let_def)
      then show thesis using unsealed rows by blast
    next
      case (SealTrust t)
      obtain evs1 out where att: "attempts_from io config (isolation_of io mg config t) 3 1 = (evs1, out)" by fastforce
      note target = attempts_events [OF att]
      have command: "is_http config \<or> cf_command config \<in> set ALLOWED_COMMANDS \<or> is_workspace_binary (cf_command config)"
        using pre by blast
      have run: "connect_server io config mg = (case out of
          Unconfigured e \<Rightarrow> (set_status (cf_id config) Connecting mg1, evs1, Err e)
        | Unreached e \<Rightarrow> let msg = ''Failed to connect to MCP server '' @ quoted (cf_id config) @ '' after 3 attempts: '' @ e
            in (set_server_error (cf_id config) msg (set_status (cf_id config) Connecting mg1), evs1, Err msg)
        | Reached client negotiated \<Rightarrow>
            let (mg3, evs', r) = finish_connect io config (isolation_of io mg config t) client negotiated
                (set_status (cf_id config) Connecting mg1) in (mg3, evs1 @ evs', r))"
        using Inr gate True SealTrust rows att by (cases out) (simp_all add: connect_server_def Let_def)
      show thesis
      proof (cases out)
        case (Unconfigured e)
        then show thesis using run assms unreached [OF start SealTrust command _ target] rows by auto
      next
        case (Unreached e)
        then show thesis using run assms unreached [OF start SealTrust command _ target] rows by (auto simp: Let_def)
      next
        case (Reached client negotiated)
        then obtain evs2 where "evs = evs1 @ evs2"
          "finish_connect io config (isolation_of io mg config t) client negotiated (set_status (cf_id config) Connecting mg1) = (mg', evs2, r)"
          using run assms by (auto simp: Let_def split: prod.splits)
        moreover have "\<exists>n. 1 \<le> n \<and> n \<le> 3 \<and> io_connect io n = Ok (client, negotiated)"
          using attempts_reached [OF att [unfolded Reached]] by auto
        ultimately show thesis using reached [OF start SealTrust command target] gated rows by blast
      qed
    qed
  qed
qed

lemma opened_admitted:
  assumes "may_start io mg config" and "seal_verdict io mg config = SealTrust t"
    and "is_http config \<or> cf_command config \<in> set ALLOWED_COMMANDS \<or> is_workspace_binary (cf_command config)"
    and "connect_target io config (isolation_of io mg config t) = Ok ev"
  shows "admitted io mg config ev"
proof (cases "is_http config")
  case True
  then show ?thesis using connect_target_Ok [OF assms(4)] assms(1) by auto
next
  case False
  then show ?thesis using connect_target_Ok [OF assms(4)] seal_verdict_trust [OF assms(2) False] assms(1,3) by auto
qed

lemma set_status_held [simp]: "held io (set_status sid st mg) s p \<longleftrightarrow> held io mg s p"
  by (simp add: held_def set_status_def split: option.splits)

lemma flow_held:
  "permission_flow io config mgp caps mg = (mg', evs, Ok u) \<Longrightarrow> declared_permissions config mgp caps = Some perms \<Longrightarrow> p \<in> set perms \<Longrightarrow>
   held io mg (cf_id config) p"
  by (auto simp: permission_flow_def Let_def dest!: permission_gate_result split: prod.splits if_splits)

text \<open>What a completed connect leaves in the table.\<close>

definition registered_as :: "connect_io \<Rightarrow> manager \<Rightarrow> mcp_server_config \<Rightarrow> nat \<times> negotiated_protocol \<Rightarrow> TrustLevel \<Rightarrow> server_entry \<Rightarrow> bool" where
  "registered_as io mg config answer t e \<longleftrightarrow>
     sh_status e = Connected \<and> sh_client e = Some (fst answer) \<and> sh_id e = cf_id config \<and> en_config e = config \<and>
     sh_mgp_negotiated e = negotiate (io_parse_trust io) (np_mgp (snd answer)) (cf_trust_level config) \<and>
     en_isolation_profile e = isolation_of io mg config t"

lemma register_entry: "hm_get (mg_servers (register_server tx sid entry caps mg)) sid = Some entry"
  by (simp add: register_server_def Let_def)

lemma complete_registers:
  assumes "complete_connect io config profile client negotiated mgp mg = (mg', evs, Ok tools)"
  shows "\<exists>e. hm_get (mg_servers mg') (cf_id config) = Some e \<and> map tool_name (sh_tools e) = tools \<and>
    sh_status e = Connected \<and> sh_client e = Some client \<and> sh_id e = cf_id config \<and> en_config e = config \<and>
    sh_mgp_negotiated e = mgp \<and> en_isolation_profile e = profile"
proof -
  obtain ts handshake where "mg' = register_server (io_index_text io) (cf_id config) (new_entry io config client negotiated mgp ts handshake profile) (np_mgp negotiated) mg"
    and "tools = map tool_name ts"
    using assms by (cases "if np_legacy negotiated then io_initialized io else Ok ()") (auto simp: complete_connect_def Let_def)
  then show ?thesis by (simp add: register_entry new_entry_def)
qed


text \<open>A remote-free, unsealed tool server that asks for nothing.\<close>

definition example_config :: mcp_server_config where
  "example_config =
     \<lparr>cf_id = ''srv'', cf_command = ''python'', cf_args = [''s.py''], cf_env = [], cf_transport = ''stdio'', cf_url = None,
      cf_auth_token = None, cf_auto_restart = None, cf_required_permissions = [], cf_display_name = None, cf_trust_level = None,
      cf_restart_policy = None, cf_seal = None, cf_isolation = None, cf_marketplace_id = None, cf_protocol_era = None\<rparr>"

definition calm_text :: index_text where
  "calm_text = \<lparr>tx_lower = ascii_lower, tx_alphanumeric = (\<lambda>w. w),
     tx_json = \<lparr>json_to_string = (\<lambda>_. []), json_from_str = (\<lambda>_. None)\<rparr>, tx_trust = (\<lambda>_. [])\<rparr>"

definition example_io :: connect_io where
  "example_io =
     \<lparr>io_now = 0, io_lower = ascii_lower, io_index_text = calm_text, io_env_var = (\<lambda>_. None), io_kernel_version = ''1'',
      io_disk = \<lparr>cd_subdirs = (\<lambda>_. None), cd_read = (\<lambda>_. None), cd_parse = (\<lambda>_. Err [])\<rparr>, io_servers_root = None,
      io_serde_trust = (\<lambda>_. None), io_parse_trust = (\<lambda>_. Untrusted), io_exists = (\<lambda>_. False), io_seal_key = Ok ''k'',
      io_check_seal = (\<lambda>_ _ _ _ _. Ok Unsigned), io_crypto = \<lparr>sc_sha256_hex = (\<lambda>s. s), sc_hmac_hex = (\<lambda>k m. Some m)\<rparr>,
      io_tree = (\<lambda>_. FsGone), io_lookup_fault = (\<lambda>_. False), io_create_fault = (\<lambda>_. False), io_kernel_events = True,
      io_connect = (\<lambda>n. if n < 2 then Err ''refused'' else Ok (7, \<lparr>np_legacy = True, np_mgp = None, np_instructions = None\<rparr>)),
      io_initialized = Ok (), io_tools = Ok [\<lparr>tool_name = ''recall'', tool_description = None, tool_input_schema = JNull, tool_annotations = None\<rparr>],
      io_handshake = Ok False\<rparr>"

definition manager_new :: "bool \<Rightarrow> string list \<Rightarrow> bool \<Rightarrow> bool \<Rightarrow> path \<Rightarrow> permission_table \<Rightarrow> manager" where
  "manager_new yolo exceptions isolation allow_unsigned sandbox rows =
     \<lparr>mg_servers = [], mg_tool_index = [], mg_rich_tool_index = [], mg_dispatcher = [], mg_lifecycle = [], mg_permissions = rows,
      mg_yolo_mode = yolo, mg_yolo_exceptions = exceptions, mg_isolation_enabled = isolation,
      mg_allow_unsigned = allow_unsigned, mg_sandbox_base_dir = sandbox\<rparr>"

definition example_manager :: manager where
  "example_manager = manager_new False [] True False [''data'', ''mcp-sandbox''] []"


section \<open>The table\<close>

interpretation routes: provider_index route_tools "\<lambda>sid. hm_retain (\<lambda>_ s. s \<noteq> sid)" "\<lambda>ix s. s \<in> snd ` set ix"
proof
  fix s x s' and ix :: "(string, string) hmap"
  show "s' \<in> snd ` set (route_tools s x ix) \<Longrightarrow> s' = s \<or> s' \<in> snd ` set ix"
  proof (induction x arbitrary: ix)
    case (Cons t x)
    have "route_tools s (t # x) ix = route_tools s x (if starts_with t ''mgp.'' then ix else hm_insert t s ix)"
      by (simp add: route_tools_def)
    with Cons show ?case by (fastforce simp: hm_insert_def hm_remove_def split: if_splits)
  qed (simp add: route_tools_def)
  show "s' \<in> snd ` set (hm_retain (\<lambda>_ s'. s' \<noteq> s) ix) \<longleftrightarrow> s' \<noteq> s \<and> s' \<in> snd ` set ix"
    by (force simp: hm_retain_def)
qed

interpretation rich: provider_index "\<lambda>s (tx, security_fn, tools). add_server_tools tx security_fn s tools" remove_server_tools
  "\<lambda>ix s. s \<in> ti_server_id ` set ix"
  by unfold_locales (auto simp: add_server_tools_def remove_server_tools_def index_entry_def Let_def)

definition unlisted :: "manager \<Rightarrow> string \<Rightarrow> bool" where
  "unlisted mg sid \<longleftrightarrow>
     sid \<notin> snd ` set (mg_tool_index mg) \<and> sid \<notin> ti_server_id ` set (mg_rich_tool_index mg) \<and> \<not> dispatcher_mentions (mg_dispatcher mg) sid"

definition entry_ok :: "manager \<Rightarrow> string \<Rightarrow> server_entry \<Rightarrow> bool" where
  "entry_ok mg sid e \<longleftrightarrow>
     sh_id e = sid \<and> cf_id (en_config e) = sid \<and> sh_required_permissions e = cf_required_permissions (en_config e) \<and>
     (sh_status e = Connected \<longrightarrow> sh_client e \<noteq> None) \<and>
     (sh_status e = Disconnected \<longrightarrow> sh_client e = None \<and> sh_tools e = [] \<and> sh_mgp_negotiated e = None \<and> unlisted mg sid)"

definition no_kernel_routes :: "(string, string) hmap \<Rightarrow> bool" where
  "no_kernel_routes ix = list_all (\<lambda>(t, _). \<not> starts_with t ''mgp.'') ix"

definition table_inv :: "manager \<Rightarrow> bool" where
  "table_inv mg \<longleftrightarrow>
     (\<forall>sid e. hm_get (mg_servers mg) sid = Some e \<longrightarrow> entry_ok mg sid e) \<and> no_kernel_routes (mg_tool_index mg)"

lemma table_inv_rows [simp]: "table_inv (mg\<lparr>mg_permissions := rows\<rparr>) \<longleftrightarrow> table_inv mg"
  "table_inv (mg\<lparr>mg_lifecycle := counters\<rparr>) \<longleftrightarrow> table_inv mg"
  by (simp_all add: table_inv_def entry_ok_def unlisted_def)

text \<open>An operation on one server keeps the invariant when the others' entries stay and none is listed anew.\<close>

lemma table_inv_change:
  assumes "table_inv mg" and "\<And>s. s \<noteq> sid \<Longrightarrow> hm_get (mg_servers mg') s = hm_get (mg_servers mg) s"
    and "\<And>s. s \<noteq> sid \<Longrightarrow> unlisted mg s \<Longrightarrow> unlisted mg' s"
    and "\<And>e. hm_get (mg_servers mg') sid = Some e \<Longrightarrow> entry_ok mg' sid e" and "no_kernel_routes (mg_tool_index mg')"
  shows "table_inv mg'"
proof -
  have "entry_ok mg' s e" if "hm_get (mg_servers mg') s = Some e" for s e
  proof (cases "s = sid")
    case False
    then have "entry_ok mg s e" using assms(1,2) that by (simp add: table_inv_def)
    then show ?thesis using assms(3) [OF False] by (auto simp: entry_ok_def)
  qed (use assms(4) that in simp)
  then show ?thesis using assms(5) by (simp add: table_inv_def)
qed

lemma entry_change:
  assumes "table_inv mg" and "entry_ok mg sid e"
  shows "table_inv (mg\<lparr>mg_servers := hm_insert sid e (mg_servers mg)\<rparr>)"
  using assms by (intro table_inv_change [OF assms(1), of sid]) (auto simp: table_inv_def unlisted_def entry_ok_def)

lemma set_status_keeps: "table_inv mg \<Longrightarrow> st \<noteq> Connected \<Longrightarrow> st \<noteq> Disconnected \<Longrightarrow> table_inv (set_status sid st mg)"
  by (auto simp: set_status_def table_inv_def [of mg] entry_ok_def split: option.split intro!: entry_change)

lemma set_server_error_keeps: "table_inv mg \<Longrightarrow> table_inv (set_server_error sid msg mg)"
  by (auto simp: set_server_error_def table_inv_def [of mg] entry_ok_def split: option.split intro!: entry_change)

lemma register_failure_keeps: "table_inv mg \<Longrightarrow> table_inv (register_failure config e mg)"
  by (auto simp: register_failure_def entry_ok_def split: option.split intro!: entry_change)

lemma route_tools_free: "no_kernel_routes ix \<Longrightarrow> no_kernel_routes (route_tools sid tools ix)"
proof (induction tools arbitrary: ix)
  case (Cons t tools)
  let ?ix = "if starts_with t ''mgp.'' then ix else hm_insert t sid ix"
  have "no_kernel_routes ?ix" using Cons.prems by (auto simp: no_kernel_routes_def hm_insert_def hm_remove_def list_all_iff)
  from Cons.IH [OF this] show ?case by (simp add: route_tools_def)
qed (simp add: route_tools_def)

lemma register_keeps:
  assumes "table_inv mg" and "sh_id e = sid" "cf_id (en_config e) = sid" "sh_status e = Connected" "sh_client e \<noteq> None"
    "sh_required_permissions e = cf_required_permissions (en_config e)"
  shows "table_inv (register_server tx sid e caps mg)"
proof (rule table_inv_change [OF assms(1), of sid])
  show "unlisted (register_server tx sid e caps mg) s" if "s \<noteq> sid" "unlisted mg s" for s
    using that routes.put_other_keeps [of s "mg_tool_index mg" sid] rich.put_other_keeps [of s "mg_rich_tool_index mg" sid "(tx, compute_tool_security (mcp_server_handle.truncate e), sh_tools e)"]
      by_tools.put_other_keeps [of "mg_dispatcher mg" s sid] by_manifest.put_other_keeps [of "mg_dispatcher mg" s sid]
    by (auto simp: unlisted_def register_server_def Let_def split: option.split)
qed (use assms in \<open>auto simp: register_server_def Let_def entry_ok_def table_inv_def route_tools_free split: option.splits\<close>)

lemma stop_server_keeps: "table_inv mg \<Longrightarrow> table_inv (fst (stop_server sid mg))"
proof -
  assume ok: "table_inv mg"
  show ?thesis
  proof (cases "hm_get (mg_servers mg) sid")
    case (Some e)
    have "entry_ok mg sid e" using ok Some by (simp add: table_inv_def)
    then show ?thesis
      using ok Some routes.drop_mentions [of _ sid "mg_tool_index mg"] rich.drop_mentions [of _ sid "mg_rich_tool_index mg"]
        mentions_remove [of sid "mg_dispatcher mg"]
      by (cases "sh_status e = Disconnected")
        (auto simp: stop_server_def entry_ok_def unlisted_def table_inv_def no_kernel_routes_def hm_retain_def list_all_iff
          intro!: table_inv_change [OF ok, of sid])
  qed (use ok in \<open>simp add: stop_server_def\<close>)
qed

lemma removed_routes: "set (fold (\<lambda>t. hm_remove (tool_name t)) ts ix) \<subseteq> set ix"
  by (induction ts arbitrary: ix) (force simp: hm_remove_def)+

lemma disconnect_server_keeps: "table_inv mg \<Longrightarrow> table_inv (fst (disconnect_server sid mg))"
proof -
  assume ok: "table_inv mg"
  show ?thesis
  proof (cases "hm_get (mg_servers mg) sid")
    case (Some e)
    have sub: "set (fold (\<lambda>t. hm_remove (tool_name t)) (sh_tools e) (mg_tool_index mg)) \<subseteq> set (mg_tool_index mg)"
      by (rule removed_routes)
    show ?thesis
    proof (rule table_inv_change [OF ok, of sid])
      show "unlisted (fst (disconnect_server sid mg)) s" if "s \<noteq> sid" "unlisted mg s" for s
        using that sub rich.dropped_stays [of s "mg_rich_tool_index mg" sid] Some
        by (auto simp: unlisted_def disconnect_server_def)
      show "no_kernel_routes (mg_tool_index (fst (disconnect_server sid mg)))"
        using ok sub Some by (auto simp: disconnect_server_def table_inv_def no_kernel_routes_def list_all_iff)
    qed (simp_all add: disconnect_server_def Some)
  qed (use ok in \<open>simp add: disconnect_server_def\<close>)
qed

lemma permission_flow_state:
  "permission_flow io config mgp caps mg = (mg', evs, r) \<Longrightarrow> \<exists>rows. mg' = mg\<lparr>mg_permissions := rows\<rparr>"
proof (cases "declared_permissions config mgp caps")
  case None
  assume "permission_flow io config mgp caps mg = (mg', evs, r)"
  then have "mg' = mg\<lparr>mg_permissions := mg_permissions mg\<rparr>" using None by (simp add: permission_flow_def)
  then show ?thesis by blast
next
  case (Some perms)
  assume "permission_flow io config mgp caps mg = (mg', evs, r)"
  then obtain pending where "permission_gate io ''mgp'' (cf_id config) perms mg = (mg', pending)"
    using Some by (auto simp: permission_flow_def Let_def split: prod.splits if_splits)
  from permission_gate_result [OF this] show ?thesis by blast
qed

lemma complete_connect_keeps:
  assumes "table_inv mg" and "complete_connect io config profile client negotiated mgp mg = (mg', evs, r)"
  shows "table_inv mg'"
proof (cases "if np_legacy negotiated then io_initialized io else Ok ()")
  case (Inl e)
  then show ?thesis using assms set_server_error_keeps by (auto simp: complete_connect_def Let_def)
next
  case (Inr u)
  then obtain ts handshake where "mg' = register_server (io_index_text io) (cf_id config) (new_entry io config client negotiated mgp ts handshake profile) (np_mgp negotiated) mg"
    using assms(2) by (auto simp: complete_connect_def Let_def)
  then show ?thesis using assms(1) by (simp add: register_keeps new_entry_def)
qed

lemma connect_server_keeps:
  assumes ok: "table_inv mg" and "connect_server io config mg = (mg', evs, r)"
  shows "table_inv mg'"
  using assms(2)
proof (cases rule: connect_cases)
  case (reached rows t client negotiated evs1 evs2)
  have "table_inv (set_status (cf_id config) Connecting (mg\<lparr>mg_permissions := rows\<rparr>))" using ok by (simp add: set_status_keeps)
  note start = this
  from reached(5) show ?thesis
  proof (cases rule: finish_cases)
    case (blocked e)
    then show ?thesis using start permission_flow_state by fastforce
  next
    case (through mg1 evs1 u evs2)
    then have "table_inv mg1" using start permission_flow_state by fastforce
    then show ?thesis using complete_connect_keeps through(2) by blast
  qed
qed (use ok in \<open>auto simp: set_status_keeps set_server_error_keeps\<close>)

section \<open>Sequences of operations\<close>

text \<open>The database's decoding of a record's columns, and its answer.\<close>

record server_store =
  ss_decode_args :: "string \<Rightarrow> string list"
  ss_decode_env :: "string \<Rightarrow> (string, string) hmap"
  ss_records :: "db_error + mcp_server_record list"

datatype table_op =
    OConnect connect_io mcp_server_config
  | OStop string
  | ODisconnect string
  | ODrain string
  | OStart server_store connect_io string
  | ORestart server_store connect_io string
  | OFailure mcp_server_config string
  | ORound instant instant "string \<times> ServerStatus \<times> restart_policy"
  | OAutoRestart server_store connect_io string
  | OAnswer bool instant string string string

fun table_exec :: "manager \<Rightarrow> table_op \<Rightarrow> manager" where
  "table_exec mg (OConnect io config) = fst (connect_server io config mg)"
| "table_exec mg (OStop sid) = fst (stop_server sid mg)"
| "table_exec mg (ODisconnect sid) = fst (disconnect_server sid mg)"
| "table_exec mg (ODrain sid) = fst (begin_drain sid mg)"
| "table_exec mg (OStart st io sid) = fst (start_server (ss_decode_args st) (ss_decode_env st) (ss_records st) io sid mg)"
| "table_exec mg (ORestart st io sid) = fst (restart_server (ss_decode_args st) (ss_decode_env st) (ss_records st) io sid mg)"
| "table_exec mg (OFailure config e) = register_failure config e mg"
| "table_exec mg (ORound asked recorded dead) = fst (health_round asked recorded dead mg)"
| "table_exec mg (OAutoRestart st io sid) = fst (restart_after_wait (ss_decode_args st) (ss_decode_env st) (ss_records st) io sid mg)"
| "table_exec mg (OAnswer fault now request status who) =
     mg\<lparr>mg_permissions := fst (update_permission_request fault now request status who (mg_permissions mg))\<rparr>"

lemma start_server_keeps: "table_inv mg \<Longrightarrow> table_inv (fst (start_server da de rs io sid mg))"
proof (cases "start_config da de rs sid mg")
  case (Inr config)
  assume ok: "table_inv mg"
  obtain mg' evs r where "connect_server io config mg = (mg', evs, r)" by (rule prod_cases3)
  then show ?thesis using connect_server_keeps [OF ok] Inr by (simp add: start_server_def)
qed (simp add: start_server_def)

lemma restart_server_keeps: "table_inv mg \<Longrightarrow> table_inv (fst (restart_server da de rs io sid mg))"
  using stop_server_keeps [OF set_status_keeps [of mg Restarting sid], of sid] start_server_keeps
  by (auto simp: restart_server_def Let_def split: prod.splits) (metis fst_conv)

lemma restart_after_wait_keeps: "table_inv mg \<Longrightarrow> table_inv (fst (restart_after_wait da de rs io sid mg))"
proof -
  assume ok: "table_inv mg"
  obtain mg' evs r where rs: "restart_server da de rs io sid mg = (mg', evs, r)" by (rule prod_cases3)
  have ok': "table_inv mg'" using restart_server_keeps [OF ok, of da de rs io sid] rs by simp
  then show ?thesis
    using ok rs set_status_keeps [OF ok']
    by (auto simp: restart_after_wait_def split: option.split ServerStatus.split sum.split)
qed

lemma table_exec_keeps: "table_inv mg \<Longrightarrow> table_inv (table_exec mg op)"
proof (cases op)
  case (OConnect io config)
  assume ok: "table_inv mg"
  obtain mg' evs r where "connect_server io config mg = (mg', evs, r)" by (rule prod_cases3)
  then show ?thesis using connect_server_keeps [OF ok] OConnect by simp
qed (auto simp: stop_server_keeps disconnect_server_keeps start_server_keeps restart_server_keeps register_failure_keeps
    restart_after_wait_keeps begin_drain_def health_round_def set_status_keeps Let_def split: option.split prod.split)

lemma manager_new_ok: "table_inv (manager_new y x i u d rows)"
  by (simp add: table_inv_def manager_new_def no_kernel_routes_def hm_get_def)

interpretation table: det_system "manager_new y x i u d rows" table_exec table_inv for y x i u d rows
  by unfold_locales (auto intro: manager_new_ok table_exec_keeps)

lemma gate_server: "hm_get (st_servers (gate_state mg)) sid = map_option mcp_server_handle.truncate (hm_get (mg_servers mg) sid)"
proof -
  have "map_of (map (\<lambda>(k, e). (k, f e)) m) k = map_option f (map_of m k)" for f :: "server_entry \<Rightarrow> mcp_server_handle" and m k
    by (induction m) auto
  then show ?thesis by (simp add: gate_state_def hm_get_def)
qed

text \<open>C15. In every state the operations can lead to: a connected server has a client; and a stopped one
  cannot be reached. It has no client and no tools, no tool name and no capability of the kernel
  resolves to it, discovery does not offer it, and the gate refuses every call to it, whoever calls.
  No tool of any server is routed under the kernel's own names.
\<close>

theorem stopped_server_unreachable:
  assumes "mg = foldl table_exec (manager_new y x i u d rows) ops" and "hm_get (mg_servers mg) sid = Some e"
  shows "(sh_status e = Connected \<longrightarrow> sh_client e \<noteq> None) \<and> sh_id e = sid \<and>
    (sh_status e = Disconnected \<longrightarrow>
       sh_tools e = [] \<and> (\<forall>tool. hm_get (mg_tool_index mg) tool \<noteq> Some sid) \<and>
       (\<forall>cap tool. map_option fst (dispatcher_resolve (mg_dispatcher mg) cap tool) \<noteq> Some sid) \<and>
       sid \<notin> ti_server_id ` set (mg_rich_tool_index mg) \<and>
       (\<forall>g fs caller tool args. ge_state g = gate_state mg \<longrightarrow> \<not> is_ok (resolve_tool_call_target g fs caller sid tool args))) \<and>
    (\<forall>tool s. hm_get (mg_tool_index mg) tool = Some s \<longrightarrow> \<not> starts_with tool ''mgp.'')"
proof -
  have inv: "table_inv mg" using table.after_inv assms(1) by simp
  then have e: "entry_ok mg sid e" using assms(2) by (simp add: table_inv_def)
  have gate: "\<not> is_ok (resolve_tool_call_target g fs caller sid tool args)"
    if "sh_client e = None" "ge_state g = gate_state mg" for g fs caller tool args
  proof -
    have "\<not> is_ok (find_client (ge_state g) sid)"
      using that assms(2) by (simp add: find_client_def gate_server mcp_server_handle.truncate_def)
    then show ?thesis by (auto simp: resolve_tool_call_target_def is_ok_iff)
  qed
  have routes: "hm_get (mg_tool_index mg) tool \<noteq> Some sid" if "unlisted mg sid" for tool
    using that hm_get_in_set [of "mg_tool_index mg" tool sid] by (force simp: unlisted_def)
  have caps: "map_option fst (dispatcher_resolve (mg_dispatcher mg) cap tool) \<noteq> Some sid" if "unlisted mg sid" for cap tool
    using that resolve_mentions [of "mg_dispatcher mg" cap tool sid] by (auto simp: unlisted_def)
  have "\<not> starts_with tool ''mgp.''" if "hm_get (mg_tool_index mg) tool = Some s" for tool s
    using inv hm_get_in_set [OF that] by (auto simp: table_inv_def no_kernel_routes_def list_all_iff)
  then show ?thesis using e gate routes caps by (auto simp: entry_ok_def unlisted_def)
qed

definition example_ops :: "table_op list" where
  "example_ops = [OConnect example_io example_config, OStop ''srv'']"

theorem stopped_server_unreachable_witness:
  "\<exists>e. hm_get (mg_servers (foldl table_exec example_manager example_ops)) ''srv'' = Some e \<and> sh_status e = Disconnected \<and>
     sh_tools e = [] \<and> dispatcher_resolve (mg_dispatcher (foldl table_exec example_manager example_ops)) Memory ''recall'' = None"
proof -
  have "map_option sh_status (hm_get (mg_servers (foldl table_exec example_manager example_ops)) ''srv'') = Some Disconnected"
    "dispatcher_resolve (mg_dispatcher (foldl table_exec example_manager example_ops)) Memory ''recall'' = None" by code_simp+
  moreover from this(1) obtain e where "hm_get (mg_servers (foldl table_exec example_manager example_ops)) ''srv'' = Some e"
    "sh_status e = Disconnected" by auto
  ultimately show ?thesis
    using stopped_server_unreachable [OF refl, where y = False and x = "[]" and i = True and u = False and
        d = "[''data'', ''mcp-sandbox'']" and rows = "[]" and ops = example_ops and sid = "''srv''", folded example_manager_def]
    by auto
qed

section \<open>Where the code falls short\<close>

text \<open>A removed server keeps its capabilities: the kernel still resolves them to it.\<close>

theorem removed_server_still_dispatched:
  "hm_get (mg_servers (foldl table_exec example_manager [OConnect example_io example_config, ODisconnect ''srv''])) ''srv'' = None \<and>
   dispatcher_resolve (mg_dispatcher (foldl table_exec example_manager [OConnect example_io example_config, ODisconnect ''srv'']))
     Memory ''recall'' = Some (''srv'', ''recall'')"
  by code_simp

text \<open>Removing a server drops the route of a tool another server has taken over.\<close>

theorem removal_drops_other_route:
  assumes "hm_get (mg_servers mg) a = Some e" and "t \<in> set (sh_tools e)"
  shows "hm_get (mg_tool_index (fst (disconnect_server a mg))) (tool_name t) = None"
proof -
  have "hm_get (fold (\<lambda>t. hm_remove (tool_name t)) ts ix) n = (if n \<in> tool_name ` set ts then None else hm_get ix n)"
    for ts :: "mcp_tool list" and n and ix :: "(string, string) hmap"
    by (induction ts arbitrary: ix) auto
  then show ?thesis using assms by (simp add: disconnect_server_def)
qed

text \<open>An untrusted server whose configuration tries to relax its isolation runs with none at all.\<close>

theorem refused_override_removes_isolation:
  assumes "cf_isolation config = Some ovr" and "ic_memory_limit_mb ovr \<noteq> None"
  shows "isolation_of io mg config Untrusted = None"
  using assms by (simp add: isolation_of_def derive_isolation_profile_def ensure_def)

text \<open>
  A server that declares a permission of its own and is started again before it is approved stays
  \<open>Connecting\<close>; once approved it still cannot be started.
\<close>

definition example_asking :: connect_io where
  "example_asking = example_io\<lparr>io_connect := (\<lambda>_. Ok (8, \<lparr>np_legacy = True,
     np_mgp = Some \<lparr>mc_version = ''0.6.0'', mc_extensions = [''permissions''], mc_server_id = None, mc_trust_level = None,
       mc_permissions_required = [''network.outbound''], mc_tools_for_capability = None\<rparr>, np_instructions = None\<rparr>))\<rparr>"

definition example_store :: server_store where
  "example_store = \<lparr>ss_decode_args = (\<lambda>_. []), ss_decode_env = (\<lambda>_. []), ss_records = Ok []\<rparr>"

definition example_stuck :: manager where
  "example_stuck = foldl table_exec example_manager
     [OFailure example_config ''not there'', OStart example_store example_asking ''srv'',
      OAnswer False 1 ''mgp-srv-network.outbound'' ''approved'' ''admin'']"

theorem approved_server_stays_connecting:
  "approved 1 (mg_permissions example_stuck) ''srv'' ''network.outbound'' \<and>
   map_option sh_status (hm_get (mg_servers example_stuck) ''srv'') = Some Connecting \<and>
   snd (snd (start_server (ss_decode_args example_store) (ss_decode_env example_store) (ss_records example_store)
     example_asking ''srv'' example_stuck)) = Err (''Server '' @ quoted ''srv'' @ '' is already starting'')"
  by code_simp

text \<open>The level an unsealed server is put back to is its isolation's alone: its tools are judged by the declared one.\<close>

definition example_unsealed :: manager where
  "example_unsealed = fst (connect_server
     (example_io\<lparr>io_serde_trust := (\<lambda>_. Some Core), io_parse_trust := (\<lambda>_. Core),
        io_connect := (\<lambda>_. Ok (8, \<lparr>np_legacy = True,
          np_mgp = Some \<lparr>mc_version = ''0.6.0'', mc_extensions = [''tool_security''], mc_server_id = None, mc_trust_level = None,
            mc_permissions_required = [], mc_tools_for_capability = None\<rparr>, np_instructions = None\<rparr>))\<rparr>)
     (example_config\<lparr>cf_trust_level := Some ''core''\<rparr>) example_manager)"

theorem unsealed_server_keeps_declared_trust:
  "Option.bind (hm_get (mg_servers example_unsealed) ''srv'') (\<lambda>e.
     Option.bind (en_isolation_profile e) (\<lambda>p. map_option (\<lambda>m. (ip_trust_level p, ng_trust_level m)) (sh_mgp_negotiated e)))
   = Some (Untrusted, Core)"
  by code_simp

end
