(* ===== verification/Discovery_Laws.thy ===== *)
theory Discovery_Laws
  imports Tool_Discovery
begin

text \<open>
  What the index and the session cache promise: a search answers with the best matches in order,
  and a session stays within its budget, gives up its least recently used tools first and never a
  pinned one.
\<close>

section \<open>Ranking\<close>

lemma take_sorted_best:
  assumes "sorted xs" "x \<in> set (take n xs)" "y \<in> set xs" "y \<notin> set (take n xs)"
  shows "x \<le> y"
proof -
  have "y \<in> set (drop n xs)"
    using assms(3,4) by (metis Un_iff append_take_drop_id set_append)
  moreover have "sorted (take n xs @ drop n xs)"
    using assms(1) by simp
  ultimately show ?thesis
    using assms(2) unfolding sorted_append by blast
qed

lemma take_sort_key_best:
  assumes "x \<in> set (take n (sort_key f xs))" "y \<in> set xs" "y \<notin> set (take n (sort_key f xs))"
  shows "f x \<le> f y"
proof -
  have "y \<in> set (drop n (sort_key f xs))"
    using assms(2,3) by (metis Un_iff append_take_drop_id set_append set_sort)
  moreover have "sorted (map f (take n (sort_key f xs)) @ map f (drop n (sort_key f xs)))"
    by (simp flip: map_append)
  ultimately show ?thesis
    using assms(1) unfolding sorted_append by fastforce
qed

text \<open>What a keyword search scores.\<close>

definition scored_entries ::
  "(rat \<Rightarrow> rat) \<Rightarrow> index_text \<Rightarrow> tool_index \<Rightarrow> string list \<Rightarrow> tool_search_filter \<Rightarrow> (tool_index_entry \<times> rat) list" where
  "scored_entries fl tx entries query_tokens flt =
     filter (\<lambda>(_, s). s > 0)
       (map (\<lambda>e. (e, compute_relevance_score fl tx e query_tokens)) (filter (\<lambda>e. matches_filter tx e flt) entries))"

lemma search_keyword_eq:
  "split_whitespace (tx_lower tx query) \<noteq> [] \<Longrightarrow>
   search_keyword fl tx entries query n flt =
     take n (sort_key (\<lambda>(_, s). - s) (scored_entries fl tx entries (split_whitespace (tx_lower tx query)) flt))"
  by (simp add: search_keyword_def scored_entries_def)

lemma scored_entries_iff:
  "(e, s) \<in> set (scored_entries fl tx entries ts flt) \<longleftrightarrow>
     e \<in> set entries \<and> matches_filter tx e flt \<and> s = compute_relevance_score fl tx e ts \<and> s > 0"
  by (auto simp: scored_entries_def)

lemma search_keyword_sound:
  assumes "(e, s) \<in> set (search_keyword fl tx entries query n flt)"
  shows "e \<in> set entries \<and> matches_filter tx e flt \<and>
         s = compute_relevance_score fl tx e (split_whitespace (tx_lower tx query)) \<and> s > 0"
proof -
  have "split_whitespace (tx_lower tx query) \<noteq> []"
    using assms by (auto simp: search_keyword_def)
  with assms have "(e, s) \<in> set (scored_entries fl tx entries (split_whitespace (tx_lower tx query)) flt)"
    by (auto simp: search_keyword_eq dest!: in_set_takeD)
  then show ?thesis by (simp add: scored_entries_iff)
qed

lemma search_keyword_sorted: "sorted_wrt (\<lambda>(_, s) (_, s'). s \<ge> s') (search_keyword fl tx entries query n flt)"
proof (cases "split_whitespace (tx_lower tx query) = []")
  case False
  define xs where "xs = sort_key (\<lambda>(_, s). - s) (scored_entries fl tx entries (split_whitespace (tx_lower tx query)) flt)"
  have "sorted (map (\<lambda>(_, s). - s) (take n xs))"
    unfolding xs_def take_map [symmetric] by (intro sorted_wrt_take) simp
  then have "sorted_wrt (\<lambda>(_, s) (_, s'). s \<ge> s') (take n xs)"
    unfolding sorted_map by (rule sorted_wrt_mono_rel [rotated]) auto
  with False show ?thesis by (simp add: search_keyword_eq xs_def)
qed (simp add: search_keyword_def)

lemma search_keyword_best:
  assumes "split_whitespace (tx_lower tx query) \<noteq> []"
    and "(e, s) \<in> set (search_keyword fl tx entries query n flt)"
    and "(e', s') \<in> set (scored_entries fl tx entries (split_whitespace (tx_lower tx query)) flt)"
    and "(e', s') \<notin> set (search_keyword fl tx entries query n flt)"
  shows "s' \<le> s"
  using take_sort_key_best [of "(e, s)" n "\<lambda>(_, s). - s" _ "(e', s')"] assms by (simp add: search_keyword_eq)

section \<open>The budget\<close>

definition budget_kept :: "string list \<Rightarrow> nat \<Rightarrow> (string, cached_tool) hmap \<Rightarrow> bool" where
  "budget_kept pinned max_tokens cached \<longleftrightarrow>
     session_tokens cached \<le> max_tokens \<or> fst ` set cached \<subseteq> set pinned"

lemma evict_lru_stop:
  "session_tokens cached \<le> max_tokens \<or> lru_key pinned cached = None \<Longrightarrow> evict_lru pinned max_tokens cached = cached"
  by (subst evict_lru.simps) auto

lemma evict_lru_step:
  "\<not> session_tokens cached \<le> max_tokens \<Longrightarrow> lru_key pinned cached = Some key \<Longrightarrow>
   evict_lru pinned max_tokens cached = evict_lru pinned max_tokens (hm_remove key cached)"
  by (subst evict_lru.simps) simp

lemma evict_lru_rule [consumes 0, case_names stop step]:
  assumes "\<And>cached. session_tokens cached \<le> max_tokens \<or> lru_key pinned cached = None \<Longrightarrow> P cached"
    and "\<And>cached key. \<not> session_tokens cached \<le> max_tokens \<Longrightarrow> lru_key pinned cached = Some key \<Longrightarrow>
           P (hm_remove key cached) \<Longrightarrow> P cached"
  shows "P cached"
proof (induction cached rule: measure_induct_rule [where f = length])
  case (less cached)
  show ?case
  proof (cases "session_tokens cached \<le> max_tokens \<or> lru_key pinned cached = None")
    case False
    then obtain key where key: "\<not> session_tokens cached \<le> max_tokens" "lru_key pinned cached = Some key"
      by auto
    obtain c where "(key, c) \<in> set cached"
      using key(2) by (rule lru_key_Some)
    from assms(2) [OF key(1,2) less.IH [OF length_hm_remove]] this show ?thesis by simp
  qed (rule assms(1))
qed

lemma evict_lru_budget: "budget_kept pinned max_tokens (evict_lru pinned max_tokens cached)"
proof (induction cached rule: evict_lru_rule [of max_tokens pinned])
  case (stop cached)
  then show ?case by (auto simp: evict_lru_stop budget_kept_def lru_key_None)
qed (simp add: evict_lru_step)

lemma evict_lru_subset: "set (evict_lru pinned max_tokens cached) \<subseteq> set cached"
proof (induction cached rule: evict_lru_rule [of max_tokens pinned])
  case (step cached key)
  then show ?case by (auto simp: evict_lru_step hm_remove_def)
qed (simp add: evict_lru_stop)

lemma evict_lru_pinned:
  "p \<in> set cached \<Longrightarrow> fst p \<in> set pinned \<Longrightarrow> p \<in> set (evict_lru pinned max_tokens cached)"
proof (induction cached rule: evict_lru_rule [of max_tokens pinned])
  case (step cached key)
  have "key \<notin> set pinned"
    using step.hyps(2) by (rule lru_key_Some)
  with step.prems have "p \<in> set (hm_remove key cached)"
    by (auto simp: hm_remove_def)
  with step show ?case by (simp add: evict_lru_step)
qed (simp add: evict_lru_stop)

text \<open>What was given up was used no later than what stays and is not pinned.\<close>

lemma evict_lru_oldest:
  assumes "hm_wf cached" "(k, c) \<in> set cached" "(k, c) \<notin> set (evict_lru pinned max_tokens cached)"
    and "(k', c') \<in> set (evict_lru pinned max_tokens cached)" "k' \<notin> set pinned"
  shows "ct_last_used c \<le> ct_last_used c'"
  using assms
proof (induction cached rule: evict_lru_rule [of max_tokens pinned])
  case (step cached key)
  obtain d where d: "(key, d) \<in> set cached"
    "\<And>k' c'. (k', c') \<in> set cached \<Longrightarrow> k' \<notin> set pinned \<Longrightarrow> ct_last_used d \<le> ct_last_used c'"
    using lru_key_Some [OF step.hyps(2)] by metis
  have in_cached: "(k', c') \<in> set cached"
    using evict_lru_subset step.prems(4) by blast
  show ?case
  proof (cases "k = key")
    case True
    with step.prems(1,2) d(1) have "c = d"
      by (auto simp: hm_wf_def dest: eq_key_imp_eq_value)
    with d(2) [OF in_cached step.prems(5)] show ?thesis by simp
  next
    case False
    with step.prems(2) have "(k, c) \<in> set (hm_remove key cached)"
      by (simp add: hm_remove_def)
    with step.prems step.IH show ?thesis
      by (simp add: evict_lru_step [OF step.hyps])
  qed
qed (simp add: evict_lru_stop)

lemma evict_lru_wf: "hm_wf cached \<Longrightarrow> hm_wf (evict_lru pinned max_tokens cached)"
proof (induction cached rule: evict_lru_rule [of max_tokens pinned])
  case (step cached key)
  then show ?case by (simp add: evict_lru_step)
qed (simp add: evict_lru_stop)

lemma insert_tools_wf: "hm_wf cached \<Longrightarrow> hm_wf (fst (insert_tools now i tools cached))"
  by (induction now i tools cached rule: insert_tools.induct) (auto simp: Let_def split: option.split prod.split)

section \<open>The cache over time\<close>

datatype cache_op =
    CacheTools "nat \<Rightarrow> instant" string "(string \<times> nat) list"
  | CacheEvict string "string list"
  | CachePin string "string list"
  | CacheTouch instant string string

fun cache_exec :: "session_cache \<Rightarrow> cache_op \<Rightarrow> session_cache" where
  "cache_exec sessions (CacheTools now a tools) = fst (cache_tools now a tools sessions)"
| "cache_exec sessions (CacheEvict a ids) = fst (cache_evict a ids sessions)"
| "cache_exec sessions (CachePin a ids) = set_pinned a ids sessions"
| "cache_exec sessions (CacheTouch now a tool_id) = touch now a tool_id sessions"

definition session_ok :: "agent_session \<Rightarrow> bool" where
  "session_ok s \<longleftrightarrow> hm_wf (ss_cached s) \<and> ss_max_tokens s = DEFAULT_MAX_TOKENS"

definition sessions_ok :: "session_cache \<Rightarrow> bool" where
  "sessions_ok sessions \<longleftrightarrow> (\<forall>a s. hm_get sessions a = Some s \<longrightarrow> session_ok s)"

lemma session_or_new: "sessions_ok sessions \<Longrightarrow> session_ok (unwrap_or (hm_get sessions a) new_session)"
  by (cases "hm_get sessions a") (auto simp: sessions_ok_def session_ok_def new_session_def)

lemma sessions_ok_insert: "sessions_ok sessions \<Longrightarrow> session_ok s \<Longrightarrow> sessions_ok (hm_insert a s sessions)"
  by (simp add: sessions_ok_def)

lemma evict_tools_wf: "hm_wf cached \<Longrightarrow> hm_wf (fst (evict_tools pinned ids cached))"
  by (induction pinned ids cached rule: evict_tools.induct) (auto simp: Let_def split: prod.split)

text \<open>What a request for tools does to the session of its agent.\<close>

lemma cache_tools_session:
  assumes "cache_tools now a tools sessions = (sessions', added, tokens)"
  defines "s \<equiv> unwrap_or (hm_get sessions a) new_session"
  shows "sessions' = hm_insert a (enforce_budget (s\<lparr>ss_cached := fst (insert_tools now 0 tools (ss_cached s))\<rparr>)) sessions"
  using assms(1) unfolding s_def cache_tools_def by (auto simp: Let_def split: prod.splits)

lemma cache_exec_keeps: "sessions_ok sessions \<Longrightarrow> sessions_ok (cache_exec sessions c)"
proof (cases c)
  case (CacheTools now a tools)
  assume ok: "sessions_ok sessions"
  obtain sessions' added tokens where eq: "cache_tools now a tools sessions = (sessions', added, tokens)"
    by (rule prod_cases3)
  show ?thesis
    using session_or_new [OF ok, of a] ok
    by (auto simp: CacheTools eq cache_tools_session [OF eq] enforce_budget_def session_ok_def
        intro!: sessions_ok_insert evict_lru_wf insert_tools_wf)
next
  case (CacheEvict a ids)
  assume ok: "sessions_ok sessions"
  then show ?thesis
    unfolding CacheEvict cache_exec.simps cache_evict_def
    by (cases "hm_get sessions a")
      (auto simp: sessions_ok_def session_ok_def split: prod.split dest: evict_tools_wf, metis evict_tools_wf fst_conv)
next
  case (CachePin a ids)
  assume ok: "sessions_ok sessions"
  then show ?thesis
    using session_or_new [OF ok, of a]
    by (auto simp: CachePin set_pinned_def session_ok_def intro!: sessions_ok_insert)
next
  case (CacheTouch now a tool_id)
  assume ok: "sessions_ok sessions"
  then show ?thesis
    by (auto simp: CacheTouch touch_def sessions_ok_def session_ok_def split: option.split)
qed

interpretation cache: det_system "[]" cache_exec sessions_ok
  by unfold_locales (simp add: sessions_ok_def, rule cache_exec_keeps)

text \<open>Loading tools into a session keeps it within its budget of tokens, or only pinned tools are
  left in it. A pinned tool is never given up; a tool that is, was used no later than any unpinned
  tool that stays; nothing is given up while the budget holds; the sessions of other agents do not
  change. This holds after any sequence of operations on the cache.\<close>

theorem session_cache_budget:
  defines "loaded sessions now a tools \<equiv> fst (insert_tools now 0 tools (ss_cached (unwrap_or (hm_get sessions a) new_session)))"
  assumes "sessions = foldl cache_exec [] ops"
    and "cache_tools now a tools sessions = (sessions', added, tokens)"
  shows "\<exists>s. hm_get sessions' a = Some s \<and>
     (session_tokens (ss_cached s) \<le> 8000 \<or> fst ` set (ss_cached s) \<subseteq> set (ss_pinned s)) \<and>
     set (ss_cached s) \<subseteq> set (loaded sessions now a tools) \<and>
     (\<forall>(k, c) \<in> set (loaded sessions now a tools) - set (ss_cached s). k \<notin> set (ss_pinned s) \<and>
        (\<forall>(k', c') \<in> set (ss_cached s). k' \<notin> set (ss_pinned s) \<longrightarrow> ct_last_used c \<le> ct_last_used c')) \<and>
     (session_tokens (loaded sessions now a tools) \<le> 8000 \<longrightarrow> ss_cached s = loaded sessions now a tools) \<and>
     (\<forall>b. b \<noteq> a \<longrightarrow> hm_get sessions' b = hm_get sessions b)"
proof -
  define s where "s = unwrap_or (hm_get sessions a) new_session"
  have ok: "session_ok s"
    using session_or_new [OF cache.after_inv] unfolding s_def assms(2) .
  define m where "m = loaded sessions now a tools"
  have m: "m = fst (insert_tools now 0 tools (ss_cached s))" "hm_wf m"
    using ok by (simp_all add: m_def loaded_def s_def insert_tools_wf session_ok_def)
  define t where "t = s\<lparr>ss_cached := evict_lru (ss_pinned s) 8000 m\<rparr>"
  have sessions': "sessions' = hm_insert a t sessions"
    using cache_tools_session [OF assms(3)] ok
    by (simp add: s_def [symmetric] m t_def enforce_budget_def session_ok_def DEFAULT_MAX_TOKENS_def)
  have "k \<notin> set (ss_pinned t) \<and> (\<forall>(k', c') \<in> set (ss_cached t). k' \<notin> set (ss_pinned t) \<longrightarrow> ct_last_used c \<le> ct_last_used c')"
    if "(k, c) \<in> set m - set (ss_cached t)" for k c
    using that evict_lru_pinned [of "(k, c)" m "ss_pinned s" 8000] evict_lru_oldest [OF m(2), of k c "ss_pinned s" 8000]
    by (auto simp: t_def)
  then have "\<forall>(k, c) \<in> set m - set (ss_cached t). k \<notin> set (ss_pinned t) \<and>
        (\<forall>(k', c') \<in> set (ss_cached t). k' \<notin> set (ss_pinned t) \<longrightarrow> ct_last_used c \<le> ct_last_used c')"
    by blast
  moreover have "session_tokens (ss_cached t) \<le> 8000 \<or> fst ` set (ss_cached t) \<subseteq> set (ss_pinned t)"
    using evict_lru_budget [of "ss_pinned s" 8000 m] by (simp add: t_def budget_kept_def)
  moreover have "set (ss_cached t) \<subseteq> set m"
    using evict_lru_subset by (simp add: t_def)
  moreover have "session_tokens m \<le> 8000 \<longrightarrow> ss_cached t = m"
    by (simp add: t_def evict_lru_stop)
  ultimately show ?thesis
    unfolding m_def [symmetric] sessions' by (intro exI [of _ t] conjI) simp_all
qed

text \<open>A keyword search answers with tools of the index that match the filter and the query, at
  most as many as asked for, in descending order of their score, and leaves none out that scores
  higher than one it answers with.\<close>

theorem search_ranks_best:
  assumes "split_whitespace (tx_lower tx query) = ts" and "ts \<noteq> []"
  shows "length (search_keyword fl tx entries query n flt) \<le> n \<and>
     sorted_wrt (\<lambda>(_, s) (_, s'). s \<ge> s') (search_keyword fl tx entries query n flt) \<and>
     (\<forall>(e, s) \<in> set (search_keyword fl tx entries query n flt).
        e \<in> set entries \<and> matches_filter tx e flt \<and> s = compute_relevance_score fl tx e ts \<and> s > 0 \<and>
        (\<forall>e' \<in> set entries. matches_filter tx e' flt \<longrightarrow> compute_relevance_score fl tx e' ts > s \<longrightarrow>
           (e', compute_relevance_score fl tx e' ts) \<in> set (search_keyword fl tx entries query n flt)))"
proof -
  have "(e', compute_relevance_score fl tx e' ts) \<in> set (search_keyword fl tx entries query n flt)"
    if hit: "(e, s) \<in> set (search_keyword fl tx entries query n flt)"
      and e': "e' \<in> set entries" "matches_filter tx e' flt" "compute_relevance_score fl tx e' ts > s" for e s e'
  proof (rule ccontr)
    assume out: "(e', compute_relevance_score fl tx e' ts) \<notin> set (search_keyword fl tx entries query n flt)"
    have "s > 0"
      using search_keyword_sound [OF hit] by blast
    with e' have "(e', compute_relevance_score fl tx e' ts) \<in> set (scored_entries fl tx entries (split_whitespace (tx_lower tx query)) flt)"
      by (simp add: scored_entries_iff assms(1))
    from search_keyword_best [OF _ hit this out] assms e'(3) show False by simp
  qed
  moreover have "length (search_keyword fl tx entries query n flt) \<le> n"
    by (simp add: search_keyword_def Let_def)
  moreover have "e \<in> set entries \<and> matches_filter tx e flt \<and> s = compute_relevance_score fl tx e ts \<and> s > 0"
    if "(e, s) \<in> set (search_keyword fl tx entries query n flt)" for e s
    using search_keyword_sound [OF that] unfolding assms(1) .
  ultimately show ?thesis
    using search_keyword_sorted [of fl tx entries query n flt] by blast
qed

section \<open>At concrete inputs\<close>

definition plain_text :: index_text where
  "plain_text = \<lparr>tx_lower = ascii_lower, tx_alphanumeric = (\<lambda>w. w),
     tx_json = \<lparr>json_to_string = (\<lambda>_. []), json_from_str = (\<lambda>_. None)\<rparr>, tx_trust = (\<lambda>_. [])\<rparr>"

definition example_tool :: "string \<Rightarrow> mcp_tool" where
  "example_tool name = \<lparr>tool_name = name, tool_description = None, tool_input_schema = JNull, tool_annotations = None\<rparr>"

definition example_index :: tool_index where
  "example_index = add_server_tools plain_text (\<lambda>_. None) ''tool.files'' (map example_tool [''read_file'', ''write_file'', ''list'']) []"

definition example_search :: "(tool_index_entry \<times> rat) list" where
  "example_search = search_keyword (\<lambda>x. x) plain_text example_index ''read file'' 1 \<lparr>tf_categories = None, tf_risk_level_max = None\<rparr>"

theorem search_ranks_best_witness:
  "length (search_keyword (\<lambda>x. x) plain_text example_index ''read file'' 1 \<lparr>tf_categories = None, tf_risk_level_max = None\<rparr>) \<le> 1 \<and>
   map (\<lambda>(e, s). (ti_tool_id e, s)) example_search = [(''tool.files.read_file'', 1)]"
proof (rule conjI)
  show "length (search_keyword (\<lambda>x. x) plain_text example_index ''read file'' 1 \<lparr>tf_categories = None, tf_risk_level_max = None\<rparr>) \<le> 1"
    using search_ranks_best [of plain_text "''read file''" "[''read'', ''file'']" "\<lambda>x. x" example_index 1 "\<lparr>tf_categories = None, tf_risk_level_max = None\<rparr>"]
    by (simp add: plain_text_def) code_simp
  show "map (\<lambda>(e, s). (ti_tool_id e, s)) example_search = [(''tool.files.read_file'', 1)]"
    by code_simp
qed

lemmas cache_evaluation = cache_tools_def enforce_budget_def evict_lru.simps session_tokens_def lru_key_def min_by_key_def
  new_session_def DEFAULT_MAX_TOKENS_def hm_insert_def hm_remove_def hm_get_Cons

theorem session_cache_budget_witness:
  "\<exists>s. hm_get (fst (cache_tools (\<lambda>i. 5 + int i) ''a'' [(''y'', 5000)] (foldl cache_exec [] [CacheTools int ''a'' [(''x'', 6000)]]))) ''a'' = Some s \<and>
     map fst (ss_cached s) = [''y'']"
proof -
  define sessions where "sessions = foldl cache_exec [] [CacheTools int ''a'' [(''x'', 6000)]]"
  obtain sessions' added tokens where eq: "cache_tools (\<lambda>i. 5 + int i) ''a'' [(''y'', 5000)] sessions = (sessions', added, tokens)"
    by (rule prod_cases3)
  have "\<exists>s. hm_get sessions' ''a'' = Some s"
    by (rule exE [OF session_cache_budget [OF sessions_def eq]], elim conjE) (rule exI)
  moreover have "map_option (\<lambda>s. map fst (ss_cached s)) (hm_get sessions' ''a'') = Some [''y'']"
    using arg_cong [OF eq, of fst, symmetric] unfolding sessions_def by (simp add: cache_evaluation)
  ultimately show ?thesis
    using eq by (auto simp: sessions_def)
qed

text \<open>
  A search by category ignores the limit on risk, and a tool without security metadata passes
  any limit: asked for safe tools only, the index answers with a dangerous one.
\<close>

definition dangerous_security :: tool_security_metadata where
  "dangerous_security = \<lparr>ts_effective_risk_level = Dangerous, ts_trust_level = Untrusted, ts_validator = None, ts_code_safety = None\<rparr>"

definition safe_only :: json where
  "safe_only = JObj [(''filter'', JObj [(''categories'', JArr [JStr ''files'']), (''risk_level_max'', JStr ''safe'')]),
     (''query'', JStr ''wipe''), (''strategy'', JStr ''category'')]"

theorem category_search_ignores_risk:
  "map (\<lambda>(e, _). ti_name e)
     (search_category plain_text (add_server_tools plain_text (\<lambda>_. Some dangerous_security) ''tool.files'' [example_tool ''wipe''] [])
        (unwrap_or (tf_categories (discover_filter safe_only)) []) 5) = [''wipe''] \<and>
   tf_risk_level_max (discover_filter safe_only) = Some ''safe'' \<and>
   \<not> matches_filter plain_text (index_entry plain_text ''tool.files'' (\<lambda>_. Some dangerous_security) (example_tool ''wipe'')) (discover_filter safe_only)"
  by code_simp

text \<open>A tool request reports as loaded just what the cache holds afterwards.\<close>

theorem request_reports_cached:
  assumes "load_results now tx a results sessions = (sessions', reply)"
  shows "\<exists>s. get_session_state a sessions' = Some s \<and>
     json_get reply ''tools_loaded'' =
       Some (JArr (map (\<lambda>(e, _). entry_json tx [] e) (filter (\<lambda>(e, _). ti_tool_id e \<in> set (st_cached s)) results))) \<and>
     json_get reply ''session_tools_count'' = Some (json_count (length (st_cached s)))"
proof -
  obtain s' added tokens where eq:
    "cache_tools now a (map (\<lambda>(e, _). (ti_tool_id e, ti_estimated_tokens e)) results) sessions = (s', added, tokens)"
    by (rule prod_cases3)
  have "sessions' = s'"
    using assms eq by (simp add: load_results_def Let_def)
  moreover obtain s where "get_session_state a s' = Some s"
    by (simp add: cache_tools_session [OF eq] get_session_state_def)
  ultimately show ?thesis
    using assms eq by (auto simp: load_results_def Let_def request_reply_def)
qed

text \<open>Taking pins away leaves a session over its budget until the next load.\<close>

theorem unpinning_leaves_over_budget:
  "let sessions = foldl cache_exec [] [CachePin ''a'' [''x'', ''y''], CacheTools int ''a'' [(''x'', 6000), (''y'', 6000)], CachePin ''a'' []]
   in map_option (\<lambda>s. session_tokens (ss_cached s) > 8000 \<and> ss_pinned s = []) (hm_get sessions ''a'') = Some True"
  by (simp add: cache_evaluation set_pinned_def)

end
