(* ===== verification/Footprint.thy ===== *)
theory Footprint
  imports Rust_Str
begin

text \<open>
  Paths as \<open>std::path\<close> reads them on Unix, and the install receipt of \<open>defender/footprint.rs\<close>: the
  ledger of what the application has put on the machine. A \<open>PathBuf\<close> is its bytes; two paths are
  equal when their components are. Windows paths (drive prefixes, backslashes) are not modelled:
  the arms for Windows of the defender are left out.

  The disk is a parameter: what \<open>exists\<close>, \<open>is_file\<close> and \<open>read_dir\<close> answer. \<open>lossy\<close> is
  \<open>String::from_utf8_lossy\<close>.
\<close>

section \<open>Paths\<close>

datatype path_component = RootDir | CurDir | ParentDir | Normal string

type_synonym pathbuf = string

definition part_component :: "string \<Rightarrow> path_component" where
  "part_component p = (if p = ''..'' then ParentDir else Normal p)"

text \<open>Empty parts and dots are dropped; a dot at the start of a relative path stays.\<close>

definition pb_components :: "pathbuf \<Rightarrow> path_component list" where
  "pb_components s =
     (let parts = split_on (CHR ''/'') s;
          kept = map part_component (filter (\<lambda>p. p \<noteq> [] \<and> p \<noteq> ''.'') parts)
      in if starts_with s ''/'' then RootDir # kept
         else if hd parts = ''.'' then CurDir # kept else kept)"

definition pb_is_absolute :: "pathbuf \<Rightarrow> bool" where
  "pb_is_absolute s = starts_with s ''/''"

definition pb_eq :: "pathbuf \<Rightarrow> pathbuf \<Rightarrow> bool" where
  "pb_eq p q = (pb_components p = pb_components q)"

definition pb_starts_with :: "pathbuf \<Rightarrow> pathbuf \<Rightarrow> bool" where
  "pb_starts_with p base = prefix (pb_components base) (pb_components p)"

text \<open>\<open>PathBuf::push\<close>, and \<open>join\<close>: an absolute path replaces what is there.\<close>

definition pb_join :: "pathbuf \<Rightarrow> string \<Rightarrow> pathbuf" where
  "pb_join base p =
     (if pb_is_absolute p then p
      else if base = [] \<or> ends_with base ''/'' then base @ p else base @ ''/'' @ p)"

definition component_str :: "path_component \<Rightarrow> string" where
  "component_str c = (case c of RootDir \<Rightarrow> ''/'' | CurDir \<Rightarrow> ''.'' | ParentDir \<Rightarrow> ''..'' | Normal s \<Rightarrow> s)"

definition pb_from_components :: "path_component list \<Rightarrow> pathbuf" where
  "pb_from_components cs = foldl pb_join [] (map component_str cs)"

text \<open>
  \<open>Path::parent\<close> and \<open>file_name\<close>. The parent of a path keeps its bytes up to the last component;
  here it is rendered from its components, which is an equal path.
\<close>

definition pb_parent :: "pathbuf \<Rightarrow> pathbuf option" where
  "pb_parent p =
     (case rev (pb_components p) of
        [] \<Rightarrow> None
      | RootDir # _ \<Rightarrow> None
      | _ # cs \<Rightarrow> Some (pb_from_components (rev cs)))"

definition pb_file_name :: "pathbuf \<Rightarrow> string option" where
  "pb_file_name p = (case rev (pb_components p) of Normal s # _ \<Rightarrow> Some s | _ \<Rightarrow> None)"

text \<open>The name up to its last dot; a name whose only dot is the first has no extension.\<close>

definition split_extension :: "string \<Rightarrow> string \<times> string option" where
  "split_extension name =
     (let parts = split_on (CHR ''.'') name;
          stem = join_with ''.'' (butlast parts)
      in if name = ''..'' \<or> length parts = 1 \<or> stem = [] then (name, None) else (stem, Some (last parts)))"

definition pb_file_stem :: "pathbuf \<Rightarrow> string option" where
  "pb_file_stem p = map_option (\<lambda>n. fst (split_extension n)) (pb_file_name p)"

definition pb_extension :: "pathbuf \<Rightarrow> string option" where
  "pb_extension p = Option.bind (pb_file_name p) (\<lambda>n. snd (split_extension n))"

section \<open>The receipt\<close>

definition RECEIPT_FILE :: string where
  "RECEIPT_FILE = ''installed.json''"

definition RECEIPT_VERSION :: nat where
  "RECEIPT_VERSION = 1"

datatype EntryKind = EkFile | EkDir | EkService

record receipt_entry =
  re_id :: string
  re_kind :: EntryKind
  re_path :: "string option"
  re_name :: "string option"
  re_secret :: bool
  re_unrepresentable :: bool

record receipt =
  rc_receipt_version :: nat
  rc_app_version :: string
  rc_installed_at :: string
  rc_updated_at :: string
  rc_entries :: "receipt_entry list"

text \<open>\<open>purge::representable\<close>: what a plan or receipt, which is UTF-8, can carry of a path.\<close>

definition representable :: "(string \<Rightarrow> string) \<Rightarrow> pathbuf \<Rightarrow> string option" where
  "representable lossy p = (if pb_eq (lossy p) p then Some (lossy p) else None)"

definition record_path :: "(string \<Rightarrow> string) \<Rightarrow> pathbuf \<Rightarrow> string \<times> bool" where
  "record_path lossy p = (case representable lossy p of None \<Rightarrow> (lossy p, True) | Some ok \<Rightarrow> (ok, False))"

definition entry_at :: "EntryKind \<Rightarrow> (string \<Rightarrow> string) \<Rightarrow> string \<Rightarrow> pathbuf \<Rightarrow> receipt_entry" where
  "entry_at kind lossy i p =
     (let (path, unrepresentable) = record_path lossy p
      in \<lparr>re_id = i, re_kind = kind, re_path = Some path, re_name = None, re_secret = False,
          re_unrepresentable = unrepresentable\<rparr>)"

definition file_entry :: "(string \<Rightarrow> string) \<Rightarrow> string \<Rightarrow> pathbuf \<Rightarrow> receipt_entry" where
  "file_entry = entry_at EkFile"

definition dir_entry :: "(string \<Rightarrow> string) \<Rightarrow> string \<Rightarrow> pathbuf \<Rightarrow> receipt_entry" where
  "dir_entry = entry_at EkDir"

definition service_entry :: "string \<Rightarrow> string \<Rightarrow> receipt_entry" where
  "service_entry i name =
     \<lparr>re_id = i, re_kind = EkService, re_path = None, re_name = Some name, re_secret = False, re_unrepresentable = False\<rparr>"

definition receipt_path :: "pathbuf \<Rightarrow> pathbuf" where
  "receipt_path data_dir = pb_join data_dir RECEIPT_FILE"

definition app_bundle_of :: "pathbuf \<Rightarrow> pathbuf option" where
  "app_bundle_of exe =
     Option.bind (pb_parent exe) (\<lambda>macos_dir.
       if pb_file_name macos_dir \<noteq> Some ''MacOS'' then None
       else Option.bind (pb_parent macos_dir) (\<lambda>contents.
         if pb_file_name contents \<noteq> Some ''Contents'' then None
         else Option.bind (pb_parent contents) (\<lambda>bundle.
           if pb_extension bundle = Some ''app'' then Some bundle else None)))"

definition NSIS_UNINSTALLER :: string where
  "NSIS_UNINSTALLER = ''uninstall.exe''"

definition prefix_dir_of :: "pathbuf \<Rightarrow> pathbuf option" where
  "prefix_dir_of exe = Option.bind (pb_parent exe) (\<lambda>dir. if pb_parent dir \<noteq> None then Some dir else None)"

definition install_prefix_of :: "(pathbuf \<Rightarrow> bool) \<Rightarrow> pathbuf \<Rightarrow> pathbuf option" where
  "install_prefix_of is_file exe = option_filter (\<lambda>dir. is_file (pb_join dir NSIS_UNINSTALLER)) (prefix_dir_of exe)"

text \<open>\<open>record\<close> up to the write: the entries are put in by id, and the receipt lists itself.\<close>

fun upsert_entry :: "receipt_entry \<Rightarrow> receipt_entry list \<Rightarrow> receipt_entry list" where
  "upsert_entry e [] = [e]"
| "upsert_entry e (x # xs) = (if re_id x = re_id e then e # xs else x # upsert_entry e xs)"

definition record_entries ::
  "(string \<Rightarrow> string) \<Rightarrow> string \<Rightarrow> string \<Rightarrow> pathbuf \<Rightarrow> receipt_entry list \<Rightarrow> receipt option \<Rightarrow> receipt" where
  "record_entries lossy app_version now data_dir entries loaded =
     (let r = unwrap_or loaded \<lparr>rc_receipt_version = RECEIPT_VERSION, rc_app_version = app_version,
                rc_installed_at = now, rc_updated_at = now, rc_entries = []\<rparr>;
          es = foldl (\<lambda>es e. upsert_entry e es) (rc_entries r) entries;
          es' = (if list_ex (\<lambda>e. re_id e = ''receipt'') es then es
                 else es @ [file_entry lossy ''receipt'' (receipt_path data_dir)])
      in r\<lparr>rc_entries := es', rc_app_version := app_version, rc_updated_at := now\<rparr>)"

text \<open>\<open>remove\<close>: no receipt or no such id writes nothing.\<close>

definition remove_entry :: "string \<Rightarrow> string \<Rightarrow> receipt option \<Rightarrow> receipt option" where
  "remove_entry now i loaded =
     Option.bind loaded (\<lambda>r.
       let es = filter (\<lambda>e. re_id e \<noteq> i) (rc_entries r)
       in if length es = length (rc_entries r) then None else Some (r\<lparr>rc_entries := es, rc_updated_at := now\<rparr>))"

definition binary_entries :: "(string \<Rightarrow> string) \<Rightarrow> (pathbuf \<Rightarrow> bool) \<Rightarrow> pathbuf \<Rightarrow> receipt_entry list" where
  "binary_entries lossy is_file exe =
     [file_entry lossy ''binary'' exe]
     @ (case app_bundle_of exe of None \<Rightarrow> [] | Some bundle \<Rightarrow> [dir_entry lossy ''app_bundle'' bundle])
     @ (case install_prefix_of is_file exe of None \<Rightarrow> [] | Some pre \<Rightarrow> [dir_entry lossy ''install_prefix'' pre])"

text \<open>\<open>checks::resolve_db_path\<close>: the database the kernel opens.\<close>

definition resolve_db_path :: "string option \<Rightarrow> pathbuf \<Rightarrow> pathbuf" where
  "resolve_db_path database_url data_dir =
     unwrap_or
       (Option.bind database_url (\<lambda>url.
          Option.bind (strip_prefix ''sqlite:'' url) (\<lambda>rest.
            let rest = unwrap_or (strip_prefix ''//'' rest) rest;
                rest = hd (split_on (CHR ''?'') rest)
            in if rest = [] \<or> rest = '':memory:'' then None else Some rest)))
       (pb_join data_dir ''cloto_memories.db'')"

definition boot_dirs :: "(string \<times> string) list" where
  "boot_dirs =
     [(''attachments'', ''attachments''), (''avatars'', ''avatars''), (''vrm'', ''vrm''), (''speech'', ''speech''),
      (''mcp_servers_root'', ''mcp-servers''), (''mcp_sandbox'', ''mcp-sandbox''), (''bin'', ''bin''),
      (''logs'', ''logs''), (''tmp'', ''tmp'')]"

definition boot_files :: "(string \<times> string) list" where
  "boot_files = [(''setup_marker'', ''setup-complete.json''), (''seal_key'', ''seal.key'')]"

definition boot_entries ::
  "(string \<Rightarrow> string) \<Rightarrow> (pathbuf \<Rightarrow> bool) \<Rightarrow> (pathbuf \<Rightarrow> bool) \<Rightarrow> pathbuf option \<Rightarrow> string option \<Rightarrow> pathbuf \<Rightarrow> pathbuf \<Rightarrow>
   receipt_entry list" where
  "boot_entries lossy exists is_file current_exe database_url env_path data_dir =
     (let db = resolve_db_path database_url data_dir
      in [dir_entry lossy ''data_dir'' data_dir]
         @ (case current_exe of None \<Rightarrow> [] | Some exe \<Rightarrow> binary_entries lossy is_file exe)
         @ (if exists db then [file_entry lossy ''db'' db] else [])
         @ List.map_filter (\<lambda>(i, sub). if exists (pb_join data_dir sub) then Some (dir_entry lossy i (pb_join data_dir sub)) else None) boot_dirs
         @ List.map_filter (\<lambda>(i, file).
              if exists (pb_join data_dir file)
              then Some (let e = file_entry lossy i (pb_join data_dir file) in if i = ''seal_key'' then e\<lparr>re_secret := True\<rparr> else e)
              else None) boot_files
         @ (if exists env_path then [(file_entry lossy ''env'' env_path)\<lparr>re_secret := True\<rparr>] else []))"

end
