(* ===== verification/Purge_Plan.thy ===== *)
theory Purge_Plan
  imports Footprint Prelude "HOL-Library.List_Lexorder" "HOL-Library.Char_ord"
begin

text \<open>
  The purge plan of \<open>defender/purge.rs\<close>: what an uninstall may remove. Candidates come from the
  receipt, the caller's prefix, the platform and stray data directories; they are checked against
  the disk, merged, raised to the widest tier of what they contain, cut at the requested tier,
  collapsed and ordered. The arms for Windows are left out.

  The machine is \<open>purge_machine\<close>: what \<open>symlink_metadata\<close>, \<open>read_dir\<close>, \<open>is_file\<close>, \<open>exists\<close>,
  \<open>same_file\<close> and the current directory answer.
\<close>

section \<open>Tiers\<close>

datatype PurgeTier = Application | UserData | Assets | Everything

instantiation PurgeTier :: linorder
begin

fun tier_level :: "PurgeTier \<Rightarrow> nat" where
  "tier_level Application = 1"
| "tier_level UserData = 2"
| "tier_level Assets = 3"
| "tier_level Everything = 4"

definition less_eq_PurgeTier :: "PurgeTier \<Rightarrow> PurgeTier \<Rightarrow> bool" where
  "less_eq_PurgeTier a b = (tier_level a \<le> tier_level b)"

definition less_PurgeTier :: "PurgeTier \<Rightarrow> PurgeTier \<Rightarrow> bool" where
  "less_PurgeTier a b = (tier_level a < tier_level b)"

instance
proof
  fix a b :: PurgeTier
  show "a \<le> b \<Longrightarrow> b \<le> a \<Longrightarrow> a = b"
    by (cases a; cases b) (simp_all add: less_eq_PurgeTier_def)
qed (auto simp: less_eq_PurgeTier_def less_PurgeTier_def)

end

definition from_level :: "nat \<Rightarrow> PurgeTier option" where
  "from_level l = (if l = 1 then Some Application else if l = 2 then Some UserData
     else if l = 3 then Some Assets else if l = 4 then Some Everything else None)"

definition tier_includes :: "PurgeTier \<Rightarrow> PurgeTier \<Rightarrow> bool" where
  "tier_includes t entry = (tier_level entry \<le> tier_level t)"

lemma tier_includes_iff: "tier_includes t entry \<longleftrightarrow> entry \<le> t"
  by (simp add: tier_includes_def less_eq_PurgeTier_def)

definition classify_exact :: "string \<Rightarrow> PurgeTier option" where
  "classify_exact i =
     (if i \<in> {''binary'', ''app_bundle'', ''install_prefix'', ''install_scripts'', ''service'', ''autostart''} then Some Application
      else if i \<in> {''start_menu_shortcut'', ''start_menu_shortcut_user'', ''desktop_shortcut'', ''desktop_shortcut_user'',
                   ''desktop_entry''} then Some Application
      else if i \<in> {''db'', ''seal_key'', ''env'', ''setup_marker'', ''attachments'', ''avatars'', ''vrm'', ''logs'', ''tmp'',
                   ''mcp_config''} then Some UserData
      else if i \<in> {''mcp_servers_root'', ''mcp_sandbox'', ''bin'', ''models'', ''voicevox'', ''speech''} then Some Assets
      else if i \<in> {''data_dir'', ''install_data'', ''receipt'', ''webview'', ''registry_uninstall''} then Some Everything
      else None)"

definition purge_classify :: "string \<Rightarrow> PurgeTier" where
  "purge_classify i =
     (case classify_exact i of
        Some t \<Rightarrow> t
      | None \<Rightarrow> if starts_with i ''mcp:'' then Assets else if starts_with i ''icon_'' then Application else UserData)"

section \<open>Plans\<close>

datatype PurgeKind = PkFile | PkDir | PkService | PkRegistry

datatype PurgeSource = FromReceipt | FromPlatform | FromLegacy | FromDerived

datatype SkipReason = Absent | AboveTier | CoveredByParent | Unsafe

record purge_entry =
  pe_id :: string
  pe_kind :: PurgeKind
  pe_path :: "string option"
  pe_name :: "string option"
  pe_tier :: PurgeTier
  pe_source :: PurgeSource
  pe_size_bytes :: "nat option"
  pe_size_truncated :: bool
  pe_unreadable :: bool
  pe_secret :: bool
  pe_covers_secret :: bool

record skipped_entry =
  sk_id :: string
  sk_reason :: SkipReason
  sk_path :: "string option"

definition PLAN_VERSION :: nat where
  "PLAN_VERSION = 1"

record purge_plan =
  pp_plan_version :: nat
  pp_app_version :: string
  pp_generated_at :: string
  pp_tier :: PurgeTier
  pp_data_dir :: string
  pp_entries :: "purge_entry list"
  pp_skipped :: "skipped_entry list"
  pp_notes :: "string list"

definition destroys_secret :: "purge_entry \<Rightarrow> bool" where
  "destroys_secret e \<longleftrightarrow> pe_secret e \<or> pe_covers_secret e"

definition total_bytes :: "purge_plan \<Rightarrow> nat" where
  "total_bytes plan = sum_list (List.map_filter pe_size_bytes (pp_entries plan))"

definition total_truncated :: "purge_plan \<Rightarrow> bool" where
  "total_truncated plan = list_ex pe_size_truncated (pp_entries plan)"

definition contains_secret :: "purge_plan \<Rightarrow> bool" where
  "contains_secret plan = list_ex destroys_secret (pp_entries plan)"

section \<open>The machine\<close>

datatype target_os = LinuxOs | MacOs

datatype stat_result = StatOk | StatNotFound | StatError

datatype file_meta = MetaDir | MetaLink nat | MetaFile nat

record purge_machine =
  pm_os :: target_os
  pm_lossy :: "string \<Rightarrow> string"
  pm_cwd :: "pathbuf option"
  pm_stat :: "pathbuf \<Rightarrow> stat_result"
  pm_read_dir :: "pathbuf \<Rightarrow> string list option"
  pm_meta :: "pathbuf \<Rightarrow> file_meta option"
  pm_is_file :: "pathbuf \<Rightarrow> bool"
  pm_exists :: "pathbuf \<Rightarrow> bool"
  pm_same_file :: "pathbuf \<Rightarrow> pathbuf \<Rightarrow> bool"
  pm_database_url :: "string option"

record probe_roots =
  pr_home :: "pathbuf option"
  pr_platform_data :: "pathbuf option"
  pr_platform_cache :: "pathbuf option"
  pr_exe_dir :: "pathbuf option"
  pr_exe :: "pathbuf option"
  pr_system_share :: "pathbuf option"

record plan_request =
  rq_data_dir :: pathbuf
  rq_tier :: PurgeTier
  rq_prefix :: "pathbuf option"
  rq_roots :: probe_roots

section \<open>Candidates\<close>

record candidate =
  cd_id :: string
  cd_kind :: PurgeKind
  cd_path :: "pathbuf option"
  cd_name :: "string option"
  cd_tier :: PurgeTier
  cd_source :: PurgeSource
  cd_secret :: bool

definition path_entry :: "string \<Rightarrow> PurgeKind \<Rightarrow> pathbuf \<Rightarrow> PurgeTier \<Rightarrow> PurgeSource \<Rightarrow> candidate" where
  "path_entry i kind p tier source =
     \<lparr>cd_id = i, cd_kind = kind, cd_path = Some p, cd_name = None, cd_tier = tier, cd_source = source, cd_secret = False\<rparr>"

text \<open>The names beside a database that start with its own, sorted as paths.\<close>

definition sqlite_sidecars :: "purge_machine \<Rightarrow> pathbuf \<Rightarrow> pathbuf list" where
  "sqlite_sidecars pm db =
     (case (pb_parent db, pb_file_name db) of
        (Some dir, Some name) \<Rightarrow>
          (case pm_read_dir pm dir of
             None \<Rightarrow> []
           | Some names \<Rightarrow>
               map (pb_join dir) (sort (filter (\<lambda>f. length f > length name \<and> starts_with f name) names)))
      | _ \<Rightarrow> [])"

definition sidecar_id :: "(string \<Rightarrow> string) \<Rightarrow> pathbuf \<Rightarrow> pathbuf \<Rightarrow> string" where
  "sidecar_id lossy db sidecar =
     (let base_len = (case pb_file_name db of None \<Rightarrow> 0 | Some n \<Rightarrow> length n)
      in ''db'' @ (case pb_file_name sidecar of None \<Rightarrow> [] | Some n \<Rightarrow> lossy (drop base_len n)))"

definition PRODUCT_NAME :: string where
  "PRODUCT_NAME = ''ClotoCore''"

definition icon_candidates :: "purge_machine \<Rightarrow> pathbuf \<Rightarrow> pathbuf option \<Rightarrow> pathbuf list" where
  "icon_candidates pm share exe =
     (case Option.bind exe pb_file_stem of
        None \<Rightarrow> []
      | Some stem \<Rightarrow>
          (let icon = fst (split_extension stem) @ ''.png'';
               themes = pb_join (pb_join share ''icons'') ''hicolor''
           in case pm_read_dir pm themes of
                None \<Rightarrow> []
              | Some sizes \<Rightarrow>
                  filter (pm_is_file pm)
                    (map (\<lambda>s. pb_join (pb_join (pb_join themes s) ''apps'') icon) (sort sizes))))"

definition desktop_integration_candidates :: "purge_machine \<Rightarrow> probe_roots \<Rightarrow> candidate list" where
  "desktop_integration_candidates pm roots =
     (case pm_os pm of
        MacOs \<Rightarrow> []
      | LinuxOs \<Rightarrow>
          (case pr_system_share roots of
             None \<Rightarrow> []
           | Some share \<Rightarrow>
               path_entry ''desktop_entry'' PkFile (pb_join (pb_join share ''applications'') (PRODUCT_NAME @ ''.desktop''))
                 Application FromPlatform
               # map (\<lambda>(idx, icon). path_entry (''icon_'' @ show_nat idx) PkFile icon Application FromPlatform)
                   (enumerate 0 (icon_candidates pm share (pr_exe roots)))))"

definition mac_webview_dirs :: "string list" where
  "mac_webview_dirs =
     [''Library/WebKit/com.cloto.app'', ''Library/Caches/com.cloto.app'', ''Library/Application Support/com.cloto.app'',
      ''Library/Saved Application State/com.cloto.app.savedState'']"

definition webview_entry :: "nat \<Rightarrow> pathbuf \<Rightarrow> candidate" where
  "webview_entry idx p = path_entry (''webview_'' @ show_nat idx) PkDir p Everything FromPlatform"

definition platform_candidates :: "purge_machine \<Rightarrow> probe_roots \<Rightarrow> candidate list" where
  "platform_candidates pm roots =
     (case pm_os pm of
        MacOs \<Rightarrow>
          (case pr_home roots of
             None \<Rightarrow> []
           | Some home \<Rightarrow>
               path_entry ''autostart'' PkFile (pb_join home ''Library/LaunchAgents/com.cloto.system.plist'') Application FromPlatform
               # map (\<lambda>(idx, rel). webview_entry idx (pb_join home rel)) (enumerate 0 mac_webview_dirs))
      | LinuxOs \<Rightarrow>
          path_entry ''autostart'' PkFile ''/etc/systemd/system/cloto.service'' Application FromPlatform
          # concat (map (\<lambda>(idx, dir). case dir of None \<Rightarrow> [] | Some d \<Rightarrow> [webview_entry idx (pb_join d ''com.cloto.app'')])
              (enumerate 0 [pr_platform_data roots, pr_platform_cache roots]))
          @ desktop_integration_candidates pm roots)"

text \<open>\<open>checks::drift_hits\<close>: data directories with a database that is not the live one.\<close>

definition drift_hits :: "purge_machine \<Rightarrow> pathbuf \<Rightarrow> pathbuf \<Rightarrow> pathbuf list \<Rightarrow> pathbuf list" where
  "drift_hits pm resolved live_db candidates =
     filter (\<lambda>c. let db = pb_join c ''cloto_memories.db''
                 in \<not> pb_eq c resolved \<and> pm_exists pm db \<and> \<not> pm_same_file pm db live_db) candidates"

definition legacy_candidates :: "purge_machine \<Rightarrow> pathbuf \<Rightarrow> probe_roots \<Rightarrow> candidate list" where
  "legacy_candidates pm data_dir roots =
     (let candidates = (case pr_exe_dir roots of None \<Rightarrow> [] | Some d \<Rightarrow> [pb_join d ''data''])
            @ (case pr_platform_data roots of None \<Rightarrow> [] | Some d \<Rightarrow> [pb_join d ''cloto-system''])
      in map (\<lambda>(idx, hit). path_entry (''legacy_data_dir_'' @ show_nat idx) PkDir hit Everything FromLegacy)
           (enumerate 0 (drift_hits pm data_dir (resolve_db_path (pm_database_url pm) data_dir) candidates)))"

definition receipt_candidates :: "purge_machine \<Rightarrow> receipt_entry \<Rightarrow> candidate list" where
  "receipt_candidates pm e =
     \<lparr>cd_id = re_id e, cd_kind = (case re_kind e of EkFile \<Rightarrow> PkFile | EkDir \<Rightarrow> PkDir | EkService \<Rightarrow> PkService),
      cd_path = re_path e, cd_name = re_name e, cd_tier = purge_classify (re_id e), cd_source = FromReceipt,
      cd_secret = re_secret e\<rparr>
     # (case re_path e of
          Some db \<Rightarrow>
            if re_kind e = EkFile \<and> re_id e = ''db''
            then map (\<lambda>s. path_entry (sidecar_id (pm_lossy pm) db s) PkFile s (purge_classify (re_id e)) FromDerived)
                   (sqlite_sidecars pm db)
            else []
        | None \<Rightarrow> [])"

definition collect_candidates :: "purge_machine \<Rightarrow> plan_request \<Rightarrow> receipt option \<Rightarrow> candidate list \<times> skipped_entry list" where
  "collect_candidates pm req rc =
     (let es = (case rc of None \<Rightarrow> [] | Some r \<Rightarrow> rc_entries r)
      in (concat (map (receipt_candidates pm) (filter (\<lambda>e. \<not> re_unrepresentable e) es))
            @ (case rq_prefix req of
                 None \<Rightarrow> []
               | Some pre \<Rightarrow> [path_entry ''install_prefix'' PkDir pre Application FromReceipt])
            @ platform_candidates pm (rq_roots req)
            @ legacy_candidates pm (rq_data_dir req) (rq_roots req),
          map (\<lambda>e. \<lparr>sk_id = re_id e, sk_reason = Unsafe, sk_path = re_path e\<rparr>) (filter re_unrepresentable es)))"

section \<open>The checks on paths\<close>

fun clean_components :: "path_component list \<Rightarrow> path_component list \<Rightarrow> path_component list option" where
  "clean_components out [] = Some out"
| "clean_components out (CurDir # cs) = clean_components out cs"
| "clean_components out (ParentDir # cs) =
     (if out = [] \<or> last out = RootDir then None else clean_components (butlast out) cs)"
| "clean_components out (c # cs) = clean_components (out @ [c]) cs"

definition absolutize :: "pathbuf option \<Rightarrow> pathbuf \<Rightarrow> pathbuf option" where
  "absolutize cwd p =
     Option.bind (if pb_is_absolute p then Some p else map_option (\<lambda>d. pb_join d p) cwd)
       (\<lambda>base. map_option pb_from_components (clean_components [] (pb_components base)))"

definition is_filesystem_root :: "pathbuf \<Rightarrow> bool" where
  "is_filesystem_root p \<longleftrightarrow> pb_parent p = None \<or> list_all ((=) RootDir) (pb_components p)"

definition is_strict_descendant :: "pathbuf \<Rightarrow> pathbuf \<Rightarrow> bool" where
  "is_strict_descendant p dir \<longleftrightarrow> \<not> pb_eq p dir \<and> pb_starts_with p dir"

datatype Existence = Present | Unreadable | Missing

definition existence :: "stat_result \<Rightarrow> Existence" where
  "existence r = (case r of StatOk \<Rightarrow> Present | StatNotFound \<Rightarrow> Missing | StatError \<Rightarrow> Unreadable)"

section \<open>From candidates to entries\<close>

record present =
  ps_id :: string
  ps_kind :: PurgeKind
  ps_path :: "pathbuf option"
  ps_name :: "string option"
  ps_tier :: PurgeTier
  ps_source :: PurgeSource
  ps_secret :: bool
  ps_covers_secret :: bool
  ps_unreadable :: bool

definition present_of :: "candidate \<Rightarrow> pathbuf option \<Rightarrow> bool \<Rightarrow> present" where
  "present_of c p unreadable =
     \<lparr>ps_id = cd_id c, ps_kind = cd_kind c, ps_path = p, ps_name = cd_name c, ps_tier = cd_tier c, ps_source = cd_source c,
      ps_secret = cd_secret c, ps_covers_secret = False, ps_unreadable = unreadable\<rparr>"

text \<open>One candidate: kept, or skipped with its reason and whether its path cannot be written down.\<close>

definition probe_candidate :: "purge_machine \<Rightarrow> candidate \<Rightarrow> (skipped_entry \<times> bool) + present" where
  "probe_candidate pm c =
     (case (cd_kind c \<in> {PkFile, PkDir}, cd_path c) of
        (True, Some p) \<Rightarrow>
          (case absolutize (pm_cwd pm) p of
             None \<Rightarrow> Err (\<lparr>sk_id = cd_id c, sk_reason = Unsafe, sk_path = Some (pm_lossy pm p)\<rparr>, False)
           | Some abs_path \<Rightarrow>
               (let skip = (\<lambda>reason. \<lparr>sk_id = cd_id c, sk_reason = reason, sk_path = Some (pm_lossy pm abs_path)\<rparr>)
                in if is_filesystem_root abs_path then Err (skip Unsafe, False)
                   else if representable (pm_lossy pm) abs_path = None then Err (skip Unsafe, True)
                   else (case existence (pm_stat pm abs_path) of
                           Present \<Rightarrow> Ok (present_of c (Some abs_path) False)
                         | Unreadable \<Rightarrow> Ok (present_of c (Some abs_path) True)
                         | Missing \<Rightarrow> Err (skip Absent, False))))
      | _ \<Rightarrow> Ok (present_of c (cd_path c) False))"

definition probe_existence :: "purge_machine \<Rightarrow> candidate list \<Rightarrow> present list \<times> skipped_entry list \<times> bool" where
  "probe_existence pm cs =
     (let rs = map (probe_candidate pm) cs
      in (List.map_filter (\<lambda>r. case r of Inr p \<Rightarrow> Some p | Inl _ \<Rightarrow> None) rs,
          List.map_filter (\<lambda>r. case r of Inl (s, _) \<Rightarrow> Some s | Inr _ \<Rightarrow> None) rs,
          list_ex (\<lambda>r. case r of Inl (_, u) \<Rightarrow> u | Inr _ \<Rightarrow> False) rs))"

definition merge_present :: "present \<Rightarrow> present \<Rightarrow> present" where
  "merge_present winner e =
     (let w = winner\<lparr>ps_tier := max (ps_tier winner) (ps_tier e), ps_secret := ps_secret winner \<or> ps_secret e,
                ps_unreadable := ps_unreadable winner \<or> ps_unreadable e\<rparr>
      in if ps_source w \<noteq> FromReceipt \<and> ps_source e = FromReceipt then w\<lparr>ps_source := ps_source e, ps_id := ps_id e\<rparr> else w)"

definition dedupe_key :: "(string \<Rightarrow> string) \<Rightarrow> pathbuf \<Rightarrow> string" where
  "dedupe_key lossy p = lossy p"

text \<open>The entry is merged into the one whose path has its key, or put at the end.\<close>

fun merge_into :: "(string \<Rightarrow> string) \<Rightarrow> present \<Rightarrow> present list \<Rightarrow> present list" where
  "merge_into lossy e [] = [e]"
| "merge_into lossy e (x # xs) =
     (if map_option (dedupe_key lossy) (ps_path x) = map_option (dedupe_key lossy) (ps_path e) \<and> ps_path e \<noteq> None
      then merge_present x e # xs else x # merge_into lossy e xs)"

definition dedupe_by_path :: "(string \<Rightarrow> string) \<Rightarrow> present list \<Rightarrow> present list" where
  "dedupe_by_path lossy es = foldl (\<lambda>out e. merge_into lossy e out) [] es"

definition contained_tiers :: "present list \<Rightarrow> pathbuf \<Rightarrow> PurgeTier list" where
  "contained_tiers es dir =
     List.map_filter (\<lambda>e. case ps_path e of Some p \<Rightarrow> if is_strict_descendant p dir then Some (ps_tier e) else None | None \<Rightarrow> None) es"

definition promote :: "present list \<Rightarrow> present \<Rightarrow> present" where
  "promote es e =
     (case (ps_kind e, ps_path e) of
        (PkDir, Some dir) \<Rightarrow> e\<lparr>ps_tier := foldl max (ps_tier e) (contained_tiers es dir)\<rparr>
      | _ \<Rightarrow> e)"

definition promote_containers :: "present list \<Rightarrow> present list" where
  "promote_containers es = map (promote es) es"

definition filter_by_tier :: "(string \<Rightarrow> string) \<Rightarrow> PurgeTier \<Rightarrow> present list \<Rightarrow> present list \<times> skipped_entry list" where
  "filter_by_tier lossy t es =
     (filter (\<lambda>e. tier_includes t (ps_tier e)) es,
      map (\<lambda>e. \<lparr>sk_id = ps_id e, sk_reason = AboveTier, sk_path = map_option lossy (ps_path e)\<rparr>)
        (filter (\<lambda>e. \<not> tier_includes t (ps_tier e)) es))"

definition plan_dirs :: "present list \<Rightarrow> pathbuf list" where
  "plan_dirs es = List.map_filter ps_path (filter (\<lambda>e. ps_kind e = PkDir) es)"

definition parent_of :: "pathbuf list \<Rightarrow> present \<Rightarrow> pathbuf option" where
  "parent_of dirs e = Option.bind (ps_path e) (\<lambda>p. find (is_strict_descendant p) dirs)"

definition collapse_nested :: "(string \<Rightarrow> string) \<Rightarrow> present list \<Rightarrow> present list \<times> skipped_entry list" where
  "collapse_nested lossy es =
     (let dirs = plan_dirs es;
          kept = filter (\<lambda>e. parent_of dirs e = None) es;
          nested = filter (\<lambda>e. parent_of dirs e \<noteq> None) es;
          secret_parents = List.map_filter (parent_of dirs) (filter (\<lambda>e. ps_secret e \<or> ps_covers_secret e) nested)
      in (map (\<lambda>e. case ps_path e of
                 Some p \<Rightarrow> if list_ex (\<lambda>q. pb_eq q p) secret_parents then e\<lparr>ps_covers_secret := True\<rparr> else e
               | None \<Rightarrow> e) kept,
          map (\<lambda>e. \<lparr>sk_id = ps_id e, sk_reason = CoveredByParent, sk_path = map_option lossy (ps_path e)\<rparr>) nested))"

section \<open>Sizes\<close>

definition SIZE_WALK_LIMIT :: nat where
  "SIZE_WALK_LIMIT = 200000"

text \<open>One directory of the walk: \<open>Inl\<close> when the limit is passed, with what was counted so far.\<close>

fun measure_entries ::
  "purge_machine \<Rightarrow> nat \<Rightarrow> pathbuf \<Rightarrow> string list \<Rightarrow> pathbuf list \<Rightarrow> nat \<Rightarrow> nat \<Rightarrow> nat + (pathbuf list \<times> nat \<times> nat)" where
  "measure_entries pm limit dir [] stack acc visited = Ok (stack, acc, visited)"
| "measure_entries pm limit dir (name # names) stack acc visited =
     (if Suc visited > limit then Err acc
      else (case pm_meta pm (pb_join dir name) of
              Some MetaDir \<Rightarrow> measure_entries pm limit dir names (pb_join dir name # stack) acc (Suc visited)
            | Some (MetaFile n) \<Rightarrow> measure_entries pm limit dir names stack (min (acc + n) (2 ^ 64 - 1)) (Suc visited)
            | Some (MetaLink _) \<Rightarrow> measure_entries pm limit dir names stack acc (Suc visited)
            | None \<Rightarrow> measure_entries pm limit dir names stack acc (Suc visited)))"

lemma measure_entries_bound:
  "measure_entries pm limit dir names stack acc visited = Ok (stack', acc', visited') \<Longrightarrow>
   (visited' = visited \<and> stack' = stack) \<or>
   (visited' \<le> limit \<and> visited \<le> visited' \<and> length stack' + visited \<le> length stack + visited')"
  by (induction pm limit dir names stack acc visited rule: measure_entries.induct)
    (fastforce split: if_splits option.splits file_meta.splits)+

function measure_loop :: "purge_machine \<Rightarrow> nat \<Rightarrow> pathbuf list \<Rightarrow> nat \<Rightarrow> nat \<Rightarrow> nat \<times> bool" where
  "measure_loop pm limit [] acc visited = (acc, False)"
| "measure_loop pm limit (dir # stack) acc visited =
     (case pm_read_dir pm dir of
        None \<Rightarrow> measure_loop pm limit stack acc visited
      | Some names \<Rightarrow>
          (case measure_entries pm limit dir names stack acc visited of
             Inl t \<Rightarrow> (t, True)
           | Inr (stack', acc', visited') \<Rightarrow> measure_loop pm limit stack' acc' visited'))"
  by pat_completeness auto

termination
  by (relation "measure (\<lambda>(pm, limit, stack, acc, visited). length stack + (limit - visited))")
    (auto dest!: measure_entries_bound)

definition measure_with_limit :: "purge_machine \<Rightarrow> pathbuf \<Rightarrow> nat \<Rightarrow> nat \<times> bool" where
  "measure_with_limit pm p limit =
     (case pm_meta pm p of
        None \<Rightarrow> (0, False)
      | Some MetaDir \<Rightarrow> measure_loop pm limit [p] 0 0
      | Some (MetaFile n) \<Rightarrow> (n, False)
      | Some (MetaLink n) \<Rightarrow> (n, False))"

definition measure_entry :: "purge_machine \<Rightarrow> present \<Rightarrow> purge_entry" where
  "measure_entry pm e =
     (let (size, truncated) =
            (case (ps_kind e \<in> {PkFile, PkDir}, ps_path e, ps_unreadable e) of
               (True, Some p, False) \<Rightarrow> (let (bytes, t) = measure_with_limit pm p SIZE_WALK_LIMIT in (Some bytes, t))
             | _ \<Rightarrow> (None, False))
      in \<lparr>pe_id = ps_id e, pe_kind = ps_kind e, pe_path = map_option (pm_lossy pm) (ps_path e), pe_name = ps_name e,
          pe_tier = ps_tier e, pe_source = ps_source e, pe_size_bytes = size, pe_size_truncated = truncated,
          pe_unreadable = ps_unreadable e, pe_secret = ps_secret e, pe_covers_secret = ps_covers_secret e\<rparr>)"

section \<open>The order of removal\<close>

definition holds_receipt :: "pathbuf option \<Rightarrow> purge_entry \<Rightarrow> bool" where
  "holds_receipt rc e =
     (case (rc, pe_path e) of (Some r, Some p) \<Rightarrow> p \<noteq> [] \<and> pb_starts_with r p | _ \<Rightarrow> False)"

definition removal_rank :: "pathbuf option \<Rightarrow> purge_entry \<Rightarrow> nat" where
  "removal_rank rc e = (if pe_kind e \<in> {PkService, PkRegistry} then 0 else if holds_receipt rc e then 2 else 1)"

definition removal_depth :: "purge_entry \<Rightarrow> nat" where
  "removal_depth e = (case pe_path e of None \<Rightarrow> 0 | Some p \<Rightarrow> length (pb_components p))"

text \<open>\<open>None\<close> before \<open>Some\<close>.\<close>

definition option_key :: "string option \<Rightarrow> string list" where
  "option_key p = (case p of None \<Rightarrow> [] | Some s \<Rightarrow> [s])"

text \<open>\<open>sort_by\<close> on rank, depth from the deepest, path and id is a stable sort by each key, last key first.\<close>

definition order_for_removal :: "purge_entry list \<Rightarrow> pathbuf option \<Rightarrow> purge_entry list" where
  "order_for_removal es rc =
     sort_key (removal_rank rc) (sort_key (\<lambda>e. - int (removal_depth e))
       (sort_key (\<lambda>e. option_key (pe_path e)) (sort_key pe_id es)))"

section \<open>The plan\<close>

definition plan_notes :: "receipt option \<Rightarrow> plan_request \<Rightarrow> bool \<Rightarrow> string list" where
  "plan_notes rc req unrepresentable =
     [''Third-party MCP servers may write outside their install directory (their own caches and configs). Only declared paths are enumerated here.'',
      ''OS-level traces (prefetch, event logs, recently-used lists) are out of scope and are never removed.'']
     @ (if rc = None then [''No install receipt was found, so this plan comes from platform probing alone and is almost certainly incomplete. Install receipts are written from the first boot of 0.6.8 onward.''] else [])
     @ (if rq_prefix req = None then [''This plan covers the receipt and the platform artifacts of this installation. A CLI install in a custom prefix that left no receipt is only covered when --prefix is given.''] else [])
     @ (if unrepresentable then [''A path on this system cannot be written into a plan file '' @ [CHR 0xE2, CHR 0x80, CHR 0x94] @ '' plan files are UTF-8 JSON, and that path is not valid UTF-8. It was left alone rather than reported as removed, so it is still on disk and has to be removed by hand.''] else [])
     @ [''Windows registry keys and OS services are deregistered only if present; they are listed without a size because there is nothing to measure.'']"

definition finish_plan ::
  "purge_machine \<Rightarrow> string \<Rightarrow> string \<Rightarrow> plan_request \<Rightarrow> candidate list \<Rightarrow> skipped_entry list \<Rightarrow> receipt option \<Rightarrow> purge_plan" where
  "finish_plan pm app_version now req cs refused rc =
     (let (found, unprobed, unrepresentable_live) = probe_existence pm cs;
          promoted = promote_containers (dedupe_by_path (pm_lossy pm) found);
          (in_tier, above) = filter_by_tier (pm_lossy pm) (rq_tier req) promoted;
          (collapsed, covered) = collapse_nested (pm_lossy pm) in_tier
      in \<lparr>pp_plan_version = PLAN_VERSION, pp_app_version = app_version, pp_generated_at = now, pp_tier = rq_tier req,
          pp_data_dir = pm_lossy pm (rq_data_dir req),
          pp_entries = order_for_removal (map (measure_entry pm) collapsed) (Some (receipt_path (rq_data_dir req))),
          pp_skipped = refused @ unprobed @ above @ covered,
          pp_notes = plan_notes rc req (refused \<noteq> [] \<or> unrepresentable_live)\<rparr>)"

definition build_plan :: "purge_machine \<Rightarrow> string \<Rightarrow> string \<Rightarrow> receipt option \<Rightarrow> plan_request \<Rightarrow> purge_plan" where
  "build_plan pm app_version now rc req =
     (let (cs, refused) = collect_candidates pm req rc in finish_plan pm app_version now req cs refused rc)"

end
