(* ===== verification/Purge_Exec.thy ===== *)
theory Purge_Exec
  imports Purge_Plan
begin

text \<open>
  The executor of \<open>defender/purge_exec.rs\<close>: it removes what a plan lists, when the path passes the
  floor and lies in a declared root. What it does to the disk, in order, is a list of
  \<open>purge_effect\<close>s; what the machine answers to the n-th entry is \<open>purge_world\<close>, so the disk may
  change between two entries in any way. Deleting a registry key exists on Windows only and is the
  refusal it is here.
\<close>

section \<open>Roots\<close>

type_synonym purge_roots = "pathbuf list"

definition path_le :: "pathbuf \<Rightarrow> string list" where
  "path_le p = map component_str (pb_components p)"

fun dedup_adjacent :: "pathbuf list \<Rightarrow> pathbuf list" where
  "dedup_adjacent (p # q # ps) = (if pb_eq p q then dedup_adjacent (p # ps) else p # dedup_adjacent (q # ps))"
| "dedup_adjacent ps = ps"

definition roots_from_paths :: "pathbuf list \<Rightarrow> purge_roots" where
  "roots_from_paths ps = dedup_adjacent (sort_key path_le (filter (\<lambda>p. pb_is_absolute p \<and> \<not> is_filesystem_root p) ps))"

definition option_list :: "'a option \<Rightarrow> 'a list" where
  "option_list x = (case x of None \<Rightarrow> [] | Some v \<Rightarrow> [v])"

definition roots_from_probe ::
  "target_os \<Rightarrow> pathbuf option \<Rightarrow> pathbuf \<Rightarrow> pathbuf option \<Rightarrow> probe_roots \<Rightarrow> purge_roots" where
  "roots_from_probe os platform_local data_dir pre roots =
     roots_from_paths
       ([data_dir] @ option_list pre @ option_list (pr_home roots) @ option_list (pr_platform_data roots)
        @ option_list (pr_platform_cache roots) @ option_list platform_local @ option_list (pr_exe_dir roots)
        @ (case os of
             MacOs \<Rightarrow> [''/Applications'']
           | LinuxOs \<Rightarrow>
               [''/etc/systemd/system'']
               @ (case pr_system_share roots of
                    None \<Rightarrow> [] | Some share \<Rightarrow> [pb_join share ''applications'', pb_join (pb_join share ''icons'') ''hicolor''])))"

definition is_within :: "pathbuf \<Rightarrow> pathbuf \<Rightarrow> bool" where
  "is_within r p = pb_starts_with p r"

definition roots_contain :: "purge_roots \<Rightarrow> pathbuf \<Rightarrow> bool" where
  "roots_contain roots p = list_ex (\<lambda>r. is_within r p) roots"

section \<open>Reports\<close>

datatype EntryOutcome = Removed | OutcomeAbsent | Refused string | Failed string

record entry_report =
  er_id :: string
  er_kind :: PurgeKind
  er_target :: "string option"
  er_outcome :: EntryOutcome

record purge_report =
  rp_plan_version :: nat
  rp_app_version :: string
  rp_tier :: PurgeTier
  rp_entries :: "entry_report list"

definition report_count :: "(EntryOutcome \<Rightarrow> bool) \<Rightarrow> purge_report \<Rightarrow> nat" where
  "report_count P r = length (filter (\<lambda>e. P (er_outcome e)) (rp_entries r))"

definition is_refused :: "EntryOutcome \<Rightarrow> bool" where
  "is_refused x = (case x of Refused _ \<Rightarrow> True | _ \<Rightarrow> False)"

definition is_failed :: "EntryOutcome \<Rightarrow> bool" where
  "is_failed x = (case x of Failed _ \<Rightarrow> True | _ \<Rightarrow> False)"

section \<open>One entry\<close>

datatype purge_effect =
    RemoveDirAll pathbuf
  | RemoveFile pathbuf
  | Unlink pathbuf
  | UninstallService

datatype node_kind = NodeFile | NodeDir | NodeLink | NodeOther

datatype io_result = IoDone | IoNotFound | IoError string

record purge_world =
  pw_stat :: "nat \<Rightarrow> pathbuf \<Rightarrow> string option + node_kind"
  pw_remove :: "nat \<Rightarrow> pathbuf \<Rightarrow> io_result"
  pw_unlink :: "nat \<Rightarrow> pathbuf \<Rightarrow> string option"
  pw_service :: "nat \<Rightarrow> string + bool"

definition non_empty :: "string option \<Rightarrow> string option" where
  "non_empty v = option_filter (\<lambda>s. trim s \<noteq> []) v"

definition checked_path :: "string option \<Rightarrow> string + pathbuf" where
  "checked_path raw =
     (case non_empty raw of
        None \<Rightarrow> Err ''entry carries no path''
      | Some p \<Rightarrow>
          if \<not> pb_is_absolute p
          then Err (''path is not absolute: '' @ p @ '' (the helper runs from a temp directory, where a relative path resolves somewhere else)'')
          else if is_filesystem_root p then Err (''path is a filesystem root: '' @ p)
          else if ParentDir \<in> set (pb_components p) then Err (''path contains a parent-directory component: '' @ p)
          else Ok p)"

definition contained :: "pathbuf \<Rightarrow> purge_roots \<Rightarrow> string + unit" where
  "contained p roots =
     (if roots = [] then Err (''no purge roots were established, so nothing can be shown to belong to this installation: '' @ p)
      else if roots_contain roots p then Ok ()
      else Err (''path is outside this installation's footprint: '' @ p @ '' (allowed: '' @ join_with '', '' roots @ '')''))"

text \<open>A failed stat is \<open>None\<close> when nothing is there. \<open>pw_unlink\<close> is what both attempts of \<open>remove_symlink\<close> come to.\<close>

definition remove_path :: "purge_world \<Rightarrow> nat \<Rightarrow> pathbuf \<Rightarrow> PurgeKind \<Rightarrow> purge_effect list \<times> EntryOutcome" where
  "remove_path w i p kind =
     (case pw_stat w i p of
        Inl None \<Rightarrow> ([], OutcomeAbsent)
      | Inl (Some e) \<Rightarrow> ([], Failed (''cannot inspect '' @ p @ '': '' @ e))
      | Inr node \<Rightarrow>
          if node = NodeLink
          then ([Unlink p], case pw_unlink w i p of None \<Rightarrow> Removed | Some e \<Rightarrow> Failed (''cannot remove symlink '' @ p @ '': '' @ e))
          else if (kind = PkDir \<and> node = NodeDir) \<or> (kind = PkFile \<and> node = NodeFile)
          then ([if kind = PkDir then RemoveDirAll p else RemoveFile p],
                case pw_remove w i p of
                  IoDone \<Rightarrow> Removed | IoNotFound \<Rightarrow> OutcomeAbsent | IoError e \<Rightarrow> Failed (''cannot remove '' @ p @ '': '' @ e))
          else ([], Refused (''type changed since the plan was generated: '' @ p @ '' is not ''
                       @ (if kind = PkDir then ''a directory'' else ''a regular file''))))"

definition UNINSTALL_KEY_PREFIX :: "string list" where
  "UNINSTALL_KEY_PREFIX = [''Software'', ''Microsoft'', ''Windows'', ''CurrentVersion'', ''Uninstall'']"

definition PRODUCT_KEY_COMPONENTS :: "string list" where
  "PRODUCT_KEY_COMPONENTS = [''Software'', ''cloto'', PRODUCT_NAME]"

definition backslash :: char where
  "backslash = CHR 0x5C"

definition is_removable_key :: "string \<Rightarrow> bool" where
  "is_removable_key key =
     (let parts = split_on backslash key; rest = tl parts;
          same = (\<lambda>shape xs. list_all2 eq_ignore_ascii_case shape xs)
      in CHR ''/'' \<notin> set key \<and>
         list_ex (\<lambda>h. eq_ignore_ascii_case h (hd parts)) [''HKLM'', ''HKCU''] \<and>
         \<not> list_ex (\<lambda>c. trim c = []) rest \<and>
         \<not> list_ex (\<lambda>c. CHR ''*'' \<in> set c \<or> CHR ''?'' \<in> set c) rest \<and>
         (length rest = length UNINSTALL_KEY_PREFIX + 1 \<and> same UNINSTALL_KEY_PREFIX (take (length UNINSTALL_KEY_PREFIX) rest) \<or>
          same PRODUCT_KEY_COMPONENTS rest))"

definition remove_registry :: "string option \<Rightarrow> EntryOutcome" where
  "remove_registry raw =
     (case non_empty raw of
        None \<Rightarrow> Refused ''registry entry carries no key path''
      | Some key \<Rightarrow>
          if \<not> is_removable_key key
          then Refused (''registry key is outside this installation's own keys: '' @ key @ '' (only ''
                 @ join_with [backslash] ([''HKLM|HKCU''] @ UNINSTALL_KEY_PREFIX @ [''<name>'']) @ '' and ''
                 @ join_with [backslash] [''HKLM|HKCU'', ''Software'', ''<manufacturer>'', ''<product>''] @ '' may be removed)'')
          else Refused ''registry keys exist only on Windows'')"

definition execute_entry :: "purge_world \<Rightarrow> purge_roots \<Rightarrow> nat \<Rightarrow> purge_entry \<Rightarrow> purge_effect list \<times> EntryOutcome" where
  "execute_entry w roots i e =
     (case pe_kind e of
        PkService \<Rightarrow>
          (case non_empty (pe_name e) of
             None \<Rightarrow> ([], Refused ''service entry carries no service name'')
           | Some _ \<Rightarrow> ([UninstallService],
               case pw_service w i of Inr True \<Rightarrow> Removed | Inr False \<Rightarrow> OutcomeAbsent | Inl err \<Rightarrow> Failed err))
      | PkRegistry \<Rightarrow> ([], remove_registry (pe_path e))
      | _ \<Rightarrow>
          (case checked_path (pe_path e) of
             Inl reason \<Rightarrow> ([], Refused reason)
           | Inr p \<Rightarrow>
               (case contained p roots of
                  Inl reason \<Rightarrow> ([], Refused reason)
                | Inr _ \<Rightarrow> remove_path w i p (pe_kind e))))"

section \<open>A plan\<close>

definition describe :: "purge_entry \<Rightarrow> EntryOutcome \<Rightarrow> entry_report" where
  "describe e outcome =
     \<lparr>er_id = pe_id e, er_kind = pe_kind e,
      er_target = (if pe_kind e = PkService then Some ''this installation's own service registration''
                   else case pe_path e of Some p \<Rightarrow> Some p | None \<Rightarrow> pe_name e),
      er_outcome = outcome\<rparr>"

definition execute_planned :: "purge_world \<Rightarrow> purge_roots \<Rightarrow> PurgeTier \<Rightarrow> nat \<times> purge_entry \<Rightarrow> purge_effect list \<times> entry_report" where
  "execute_planned w roots t ie =
     (let (i, e) = ie;
          (effects, outcome) =
            (if tier_includes t (pe_tier e) then execute_entry w roots i e
             else ([], Refused (''entry is tier '' @ show_nat (tier_level (pe_tier e)) @ '' but the plan declares tier ''
                                 @ show_nat (tier_level t))))
      in (effects, describe e outcome))"

definition plan_receipt :: "purge_plan \<Rightarrow> pathbuf option" where
  "plan_receipt plan = map_option receipt_path (non_empty (Some (pp_data_dir plan)))"

definition purge_execute :: "purge_world \<Rightarrow> purge_plan \<Rightarrow> purge_roots \<Rightarrow> purge_effect list \<times> purge_report" where
  "purge_execute w plan roots =
     (let report = (\<lambda>es. \<lparr>rp_plan_version = pp_plan_version plan, rp_app_version = pp_app_version plan,
                     rp_tier = pp_tier plan, rp_entries = es\<rparr>)
      in if pp_plan_version plan \<noteq> PLAN_VERSION
         then ([], report (map (\<lambda>e. describe e (Refused (''plan version mismatch: plan is v'' @ show_nat (pp_plan_version plan)
                              @ '', this binary executes v'' @ show_nat PLAN_VERSION))) (pp_entries plan)))
         else (let steps = map (execute_planned w roots (pp_tier plan))
                             (enumerate 0 (order_for_removal (pp_entries plan) (plan_receipt plan)))
               in (concat (map fst steps), report (map snd steps))))"

definition requires_elevation :: "purge_plan \<Rightarrow> pathbuf option \<Rightarrow> bool" where
  "requires_elevation plan home =
     list_ex (\<lambda>e. case pe_kind e of
         PkService \<Rightarrow> True
       | PkRegistry \<Rightarrow> (case pe_path e of None \<Rightarrow> False | Some key \<Rightarrow> starts_with (ascii_lower key) ''hklm'')
       | _ \<Rightarrow> (case (pe_path e, home) of
                (Some p, Some h) \<Rightarrow> \<not> is_within h p | (Some _, None) \<Rightarrow> True | (None, _) \<Rightarrow> False)) (pp_entries plan)"

definition unfinished :: "purge_report \<Rightarrow> string + unit" where
  "unfinished r =
     (let failed = report_count is_failed r; refused = report_count is_refused r
      in if failed + refused = 0 then Ok ()
         else Err (show_nat (failed + refused) @ '' item(s) were not removed: '' @ show_nat failed @ '' failed, ''
                    @ show_nat refused @ '' refused by the executor's safety floor''))"

section \<open>The commands\<close>

text \<open>
  \<open>run_cli\<close> of the detached helper and \<open>run_uninstall\<close>. Reading and writing files, the parent's
  exit, a running kernel and the confirmation are arguments; what is printed is left out.
\<close>

record exec_args =
  xa_parent_exits :: "nat \<Rightarrow> bool"
  xa_load_plan :: "string + purge_plan"
  xa_env_roots :: purge_roots

definition run_purge_exec ::
  "purge_world \<Rightarrow> exec_args \<Rightarrow> nat option \<Rightarrow> purge_roots \<Rightarrow> purge_effect list \<times> (string + unit)" where
  "run_purge_exec w xa parent_pid roots =
     (case option_filter (\<lambda>pid. \<not> xa_parent_exits xa pid) parent_pid of
        Some pid \<Rightarrow> ([], Err (''Parent process '' @ show_nat pid @ '' did not exit within 30s; nothing was removed''))
      | None \<Rightarrow>
           (case xa_load_plan xa of
              Inl e \<Rightarrow> ([], Err e)
            | Inr plan \<Rightarrow>
                (let (effects, report) = purge_execute w plan (if roots = [] then xa_env_roots xa else roots)
                 in (effects, unfinished report))))"

definition arrow :: string where
  "arrow = [CHR 0xE2, CHR 0x86, CHR 0x92]"

definition resume_hint :: "string \<Rightarrow> string" where
  "resume_hint plan_path =
     ''Fix the cause, then re-run:  clotocore purge-exec --plan '' @ plan_path @ [CHR 0x0A]
     @ ''That plan still names everything the install receipt knew about. Running `clotocore uninstall --execute` again rebuilds the plan from the receipt instead, which this run may already have removed, so it can no longer name those items.''"

definition unfinished_in_process :: "purge_report \<Rightarrow> string \<Rightarrow> string + unit" where
  "unfinished_in_process r plan_path =
     (case unfinished r of Inl e \<Rightarrow> Err (e @ [CHR 0x0A, CHR 0x0A] @ resume_hint plan_path) | Inr _ \<Rightarrow> Ok ())"

record uninstall_args =
  ua_app_version :: string
  ua_now :: string
  ua_live_holder :: "nat option"
  ua_receipt :: "receipt option"
  ua_roots :: probe_roots
  ua_platform_local :: "pathbuf option"
  ua_confirm :: "string + bool"
  ua_stage :: "string + pathbuf"

definition run_uninstall ::
  "purge_machine \<Rightarrow> purge_world \<Rightarrow> uninstall_args \<Rightarrow> pathbuf \<Rightarrow> nat \<Rightarrow> pathbuf option \<Rightarrow> bool \<Rightarrow>
   purge_effect list \<times> (string + unit)" where
  "run_uninstall pm w ua data_dir tier pre assume_yes =
     (case from_level tier of
        None \<Rightarrow> ([], Err (''Invalid scope tier '' @ show_nat tier @ ''; expected 1, 2, 3 or 4''))
      | Some t \<Rightarrow>
          (case ua_live_holder ua of
             Some pid \<Rightarrow> ([], Err (''ClotoCore is running (PID '' @ show_nat pid @ ''). Stop it first, or uninstall from the app (Settings ''
               @ arrow @ '' Health '' @ arrow @ '' Danger Zone), which hands the removal to a detached helper. Nothing was removed.''))
           | None \<Rightarrow>
               (let plan = build_plan pm (ua_app_version ua) (ua_now ua) (ua_receipt ua)
                      \<lparr>rq_data_dir = data_dir, rq_tier = t, rq_prefix = pre, rq_roots = ua_roots ua\<rparr>
                in if pp_entries plan = [] then ([], Ok ())
                   else (case (if assume_yes then Ok True else ua_confirm ua) of
                           Inl e \<Rightarrow> ([], Err e)
                         | Inr False \<Rightarrow> ([], Ok ())
                         | Inr True \<Rightarrow>
                             (case ua_stage ua of
                                Inl e \<Rightarrow> ([], Err e)
                              | Inr plan_path \<Rightarrow>
                                  (let (effects, report) = purge_execute w plan
                                         (roots_from_probe (pm_os pm) (ua_platform_local ua) data_dir pre (ua_roots ua))
                                   in (effects, unfinished_in_process report (pm_lossy pm plan_path))))))))"

end
