(* ===== verification/Purge_Laws.thy ===== *)
theory Purge_Laws
  imports Purge_Exec "HOL-Library.Multiset"
begin

text \<open>
  What the uninstall path promises: the executor touches only what its plan lists within the
  declared roots and accounts for every entry; and a plan made by the planner and then executed
  destroys nothing that is classified above the scope the user picked.
\<close>

section \<open>Normal paths\<close>

definition normal_name :: "string \<Rightarrow> bool" where
  "normal_name n \<longleftrightarrow> n \<noteq> [] \<and> n \<noteq> ''.'' \<and> n \<noteq> ''..'' \<and> CHR ''/'' \<notin> set n"

definition clean_path :: "path_component list \<Rightarrow> bool" where
  "clean_path cs \<longleftrightarrow> (\<exists>ns. cs = RootDir # map Normal ns \<and> list_all normal_name ns)"

lemma join_normal: "normal_name n \<Longrightarrow> base \<noteq> [] \<Longrightarrow> \<not> ends_with base ''/'' \<Longrightarrow> pb_join base n = base @ ''/'' @ n"
  by (cases n) (auto simp: pb_join_def pb_is_absolute_def normal_name_def starts_with_def)

lemma normal_not_ends: "normal_name n \<Longrightarrow> \<not> ends_with (b @ n) ''/''"
  by (cases n rule: rev_cases) (auto simp: normal_name_def ends_with_iff)

lemma foldl_join_normal:
  "list_all normal_name ns \<Longrightarrow> base \<noteq> [] \<Longrightarrow> \<not> ends_with base ''/'' \<Longrightarrow>
   foldl pb_join base ns = base @ concat (map (\<lambda>n. CHR ''/'' # n) ns)"
proof (induction ns arbitrary: base)
  case (Cons n ns)
  have "\<not> ends_with (base @ ''/'' @ n) ''/''"
    using Cons.prems(1) normal_not_ends [of n "base @ ''/''"] by simp
  with Cons show ?case by (simp add: join_normal)
qed simp

lemma render_clean:
  assumes "list_all normal_name ns"
  shows "pb_from_components (RootDir # map Normal ns) = (if ns = [] then ''/'' else concat (map (\<lambda>n. CHR ''/'' # n) ns))"
proof (cases ns)
  case Nil
  then show ?thesis by (simp add: pb_from_components_def component_str_def pb_join_def pb_is_absolute_def starts_with_def)
next
  case (Cons n ms)
  have n: "normal_name n" "list_all normal_name ms" using assms Cons by simp_all
  have first: "pb_join (pb_join [] ''/'') n = CHR ''/'' # n"
    using n(1) by (cases n) (auto simp: pb_join_def pb_is_absolute_def normal_name_def starts_with_def ends_with_def)
  have "foldl pb_join (CHR ''/'' # n) ms = (CHR ''/'' # n) @ concat (map (\<lambda>n. CHR ''/'' # n) ms)"
    using n foldl_join_normal [of ms "CHR ''/'' # n"] normal_not_ends [of n "''/''"] by simp
  with first show ?thesis
    by (simp add: pb_from_components_def Cons comp_def component_str_def)
qed

lemma split_rendered: "list_all normal_name ns \<Longrightarrow> ns \<noteq> [] \<Longrightarrow> split_on (CHR ''/'') (concat (map (\<lambda>n. CHR ''/'' # n) ns)) = [] # ns"
proof (induction ns)
  case (Cons n ns)
  have n: "CHR ''/'' \<notin> set n" using Cons.prems by (simp add: normal_name_def)
  show ?case
  proof (cases ns)
    case Nil
    with n show ?thesis by (simp add: split_on_no_sep)
  next
    case (Cons m ms)
    have "split_on (CHR ''/'') (n @ CHR ''/'' # m @ concat (map (\<lambda>n. CHR ''/'' # n) ms)) = n # ns"
      using Cons.IH Cons.prems n by (subst split_on_append) (auto simp: Cons)
    then show ?thesis by (simp add: Cons)
  qed
qed simp

lemma components_rendered:
  assumes "clean_path cs"
  shows "pb_components (pb_from_components cs) = cs"
proof -
  obtain ns where ns: "cs = RootDir # map Normal ns" "list_all normal_name ns"
    using assms by (auto simp: clean_path_def)
  have kept: "map part_component (filter (\<lambda>p. p \<noteq> [] \<and> p \<noteq> ''.'') ns) = map Normal ns"
    using ns(2) by (induction ns) (auto simp: part_component_def normal_name_def)
  show ?thesis
  proof (cases "ns = []")
    case True
    then show ?thesis
      using render_clean [OF ns(2)] by (simp add: ns(1) pb_components_def starts_with_def Let_def)
  next
    case False
    then have "starts_with (concat (map (\<lambda>n. CHR ''/'' # n) ns)) ''/''"
      by (cases ns) (simp_all add: starts_with_def)
    then show ?thesis
      using render_clean [OF ns(2)] split_rendered [OF ns(2) False] kept False
      by (simp add: ns(1) pb_components_def Let_def)
  qed
qed

lemma clean_snoc: "clean_path cs \<Longrightarrow> normal_name n \<Longrightarrow> clean_path (cs @ [Normal n])"
  unfolding clean_path_def
proof (elim exE conjE)
  fix ns assume "cs = RootDir # map Normal ns" "list_all normal_name ns" "normal_name n"
  then show "\<exists>ms. cs @ [Normal n] = RootDir # map Normal ms \<and> list_all normal_name ms"
    by (intro exI [of _ "ns @ [n]"]) simp
qed

lemma clean_butlast: "clean_path cs \<Longrightarrow> last cs \<noteq> RootDir \<Longrightarrow> clean_path (butlast cs)"
  unfolding clean_path_def
proof (elim exE conjE)
  fix ns assume ns: "cs = RootDir # map Normal ns" "list_all normal_name ns" "last cs \<noteq> RootDir"
  then have "ns \<noteq> []" by auto
  with ns show "\<exists>ms. butlast cs = RootDir # map Normal ms \<and> list_all normal_name ms"
    by (intro exI [of _ "butlast ns"]) (auto simp: map_butlast list_all_iff dest: in_set_butlastD)
qed

lemma clean_components_clean:
  "clean_components out cs = Some r \<Longrightarrow> clean_path out \<Longrightarrow>
   \<forall>c \<in> set cs. c = CurDir \<or> c = ParentDir \<or> (\<exists>n. c = Normal n \<and> normal_name n) \<Longrightarrow> clean_path r"
  by (induction out cs rule: clean_components.induct)
    (auto split: if_splits intro: clean_snoc clean_butlast)

lemma split_kept_normal:
  "p \<in> set (filter (\<lambda>p. p \<noteq> [] \<and> p \<noteq> ''.'') (split_on (CHR ''/'') s)) \<Longrightarrow>
   part_component p = ParentDir \<or> (\<exists>n. part_component p = Normal n \<and> normal_name n)"
  by (auto simp: part_component_def normal_name_def dest: split_on_free)

lemma absolute_components:
  assumes "pb_is_absolute p"
  obtains cs where "pb_components p = RootDir # cs" "\<forall>c \<in> set cs. c = ParentDir \<or> (\<exists>n. c = Normal n \<and> normal_name n)"
proof -
  have "pb_components p = RootDir # map part_component (filter (\<lambda>p. p \<noteq> [] \<and> p \<noteq> ''.'') (split_on (CHR ''/'') p))"
    using assms by (simp add: pb_components_def pb_is_absolute_def Let_def)
  with that show thesis
    using split_kept_normal by fastforce
qed

lemma clean_root: "clean_path [RootDir]"
  unfolding clean_path_def by (intro exI [of _ "[]"]) simp

text \<open>A relative path is joined to the current directory, which is absolute.\<close>

lemma absolutize_clean:
  assumes "absolutize cwd p = Some q" "\<And>d. cwd = Some d \<Longrightarrow> pb_is_absolute d"
  shows "clean_path (pb_components q) \<and> q = pb_from_components (pb_components q)"
proof -
  from assms(1) obtain base cs where base: "clean_components [] (pb_components base) = Some cs" "q = pb_from_components cs"
    and b: "pb_is_absolute p \<and> base = p \<or> (\<exists>d. cwd = Some d \<and> base = pb_join d p)"
    by (auto simp: absolutize_def bind_eq_Some_conv split: if_splits)
  have "pb_is_absolute base"
    using b
  proof (elim disjE exE conjE)
    fix d assume d: "cwd = Some d" "base = pb_join d p"
    from assms(2) [OF d(1)] d(2) show ?thesis
      by (auto simp: pb_join_def pb_is_absolute_def starts_with_iff)
  qed simp
  then obtain rest where rest: "pb_components base = RootDir # rest"
      "\<forall>c \<in> set rest. c = ParentDir \<or> (\<exists>n. c = Normal n \<and> normal_name n)"
    by (rule absolute_components)
  from base(1) rest have "clean_path cs"
    by (auto intro!: clean_components_clean [of "[RootDir]" rest] clean_root)
  then show ?thesis
    by (simp add: base(2) components_rendered)
qed

lemma absolutize_inj:
  assumes "absolutize cwd p = Some q" "absolutize cwd p' = Some q'" "pb_eq q q'" "\<And>d. cwd = Some d \<Longrightarrow> pb_is_absolute d"
  shows "q = q'"
  using absolutize_clean [OF assms(1,4)] absolutize_clean [OF assms(2,4)] assms(3) by (simp add: pb_eq_def)

section \<open>Merging\<close>

definition path_key :: "(string \<Rightarrow> string) \<Rightarrow> present \<Rightarrow> string option" where
  "path_key lossy e = map_option lossy (ps_path e)"

definition path_keys :: "(string \<Rightarrow> string) \<Rightarrow> present list \<Rightarrow> string list" where
  "path_keys lossy es = List.map_filter (path_key lossy) es"

lemma path_keys_simps [simp]:
  "path_keys lossy [] = []"
  "path_keys lossy (e # es) = (case path_key lossy e of None \<Rightarrow> path_keys lossy es | Some k \<Rightarrow> k # path_keys lossy es)"
  by (simp_all add: path_keys_def map_filter_simps split: option.split)

lemma in_path_keys: "k \<in> set (path_keys lossy es) \<longleftrightarrow> (\<exists>e \<in> set es. path_key lossy e = Some k)"
  by (induction es) (auto split: option.split)

lemma merge_present_path [simp]:
  "ps_path (merge_present w e) = ps_path w" "ps_kind (merge_present w e) = ps_kind w"
  "ps_tier (merge_present w e) = max (ps_tier w) (ps_tier e)" "path_key lossy (merge_present w e) = path_key lossy w"
  by (simp_all add: merge_present_def Let_def path_key_def)

lemma merge_into_Cons:
  "merge_into lossy e (x # xs) =
     (if path_key lossy x = path_key lossy e \<and> path_key lossy e \<noteq> None
      then merge_present x e # xs else x # merge_into lossy e xs)"
  by (auto simp: path_key_def dedupe_key_def [abs_def])

declare merge_into.simps(2) [simp del]
lemmas merge_into_simps = merge_into.simps(1) merge_into_Cons

lemma merge_into_keys:
  "path_keys lossy (merge_into lossy e xs) =
     (case path_key lossy e of
        None \<Rightarrow> path_keys lossy xs
      | Some k \<Rightarrow> if k \<in> set (path_keys lossy xs) then path_keys lossy xs else path_keys lossy xs @ [k])"
  by (induction xs) (auto simp: merge_into_simps split: option.splits)

lemma merge_into_origin:
  "x \<in> set (merge_into lossy e xs) \<Longrightarrow> \<exists>y \<in> insert e (set xs). ps_path x = ps_path y \<and> ps_kind x = ps_kind y"
  by (induction xs) (auto simp: merge_into_simps split: if_splits)

definition tier_covered :: "(string \<Rightarrow> string) \<Rightarrow> present list \<Rightarrow> string \<Rightarrow> PurgeTier \<Rightarrow> bool" where
  "tier_covered lossy xs k t \<longleftrightarrow> (\<exists>x \<in> set xs. path_key lossy x = Some k \<and> t \<le> ps_tier x)"

lemma merge_into_covers:
  "tier_covered lossy xs k t \<Longrightarrow> tier_covered lossy (merge_into lossy e xs) k t"
proof (induction xs)
  case (Cons x xs)
  then show ?case by (auto simp: merge_into_simps tier_covered_def le_max_iff_disj)
qed (simp add: tier_covered_def)

lemma merge_into_covers_new:
  "path_key lossy e = Some k \<Longrightarrow> tier_covered lossy (merge_into lossy e xs) k (ps_tier e)"
  by (induction xs) (auto simp: merge_into_simps tier_covered_def)

lemma foldl_merge:
  "distinct (path_keys lossy out) \<Longrightarrow>
   distinct (path_keys lossy (foldl (\<lambda>out e. merge_into lossy e out) out es)) \<and>
   (\<forall>x \<in> set (foldl (\<lambda>out e. merge_into lossy e out) out es). \<exists>y \<in> set out \<union> set es. ps_path x = ps_path y \<and> ps_kind x = ps_kind y) \<and>
   (\<forall>k t. tier_covered lossy out k t \<longrightarrow> tier_covered lossy (foldl (\<lambda>out e. merge_into lossy e out) out es) k t) \<and>
   (\<forall>e \<in> set es. \<forall>k. path_key lossy e = Some k \<longrightarrow> tier_covered lossy (foldl (\<lambda>out e. merge_into lossy e out) out es) k (ps_tier e))"
proof (induction es arbitrary: out)
  case (Cons e es)
  have "distinct (path_keys lossy (merge_into lossy e out))"
    using Cons.prems by (auto simp: merge_into_keys split: option.split)
  note IH = Cons.IH [OF this]
  have "\<exists>y \<in> set out \<union> set (e # es). ps_path x = ps_path y \<and> ps_kind x = ps_kind y"
    if "x \<in> set (foldl (\<lambda>out e. merge_into lossy e out) (merge_into lossy e out) es)" for x
  proof -
    from IH that obtain y where y: "y \<in> set (merge_into lossy e out) \<union> set es" "ps_path x = ps_path y" "ps_kind x = ps_kind y"
      by blast
    with merge_into_origin [of y lossy e out] show ?thesis by auto
  qed
  then show ?case
    using IH merge_into_covers [of lossy out _ _ e] merge_into_covers_new [of lossy e _ out] by simp
qed auto

lemma dedupe_distinct: "distinct (path_keys lossy (dedupe_by_path lossy es))"
  using foldl_merge [of lossy "[]" es] by (simp add: dedupe_by_path_def)

lemma dedupe_origin:
  "x \<in> set (dedupe_by_path lossy es) \<Longrightarrow> \<exists>y \<in> set es. ps_path x = ps_path y \<and> ps_kind x = ps_kind y"
  using foldl_merge [of lossy "[]" es] by (simp add: dedupe_by_path_def)

lemma dedupe_covers:
  "e \<in> set es \<Longrightarrow> path_key lossy e = Some k \<Longrightarrow> tier_covered lossy (dedupe_by_path lossy es) k (ps_tier e)"
  using foldl_merge [of lossy "[]" es] by (simp add: dedupe_by_path_def)

lemma same_key_same_entry:
  "distinct (path_keys lossy es) \<Longrightarrow> x \<in> set es \<Longrightarrow> y \<in> set es \<Longrightarrow> path_key lossy x = Some k \<Longrightarrow> path_key lossy y = Some k \<Longrightarrow> x = y"
  by (induction es) (auto simp: in_path_keys split: option.splits)

section \<open>Containment\<close>

lemma foldl_max: "a \<le> foldl max a xs \<and> (\<forall>x \<in> set xs. x \<le> foldl max a xs)" for a :: "'a::linorder"
proof (induction xs arbitrary: a)
  case (Cons x xs)
  from Cons.IH [of "max a x"] show ?case by auto
qed simp

lemma promote_facts:
  "ps_path (promote es e) = ps_path e" "ps_kind (promote es e) = ps_kind e" "ps_tier e \<le> ps_tier (promote es e)"
  by (auto simp: promote_def foldl_max split: PurgeKind.split option.split)

lemma promote_contains:
  assumes "ps_kind e = PkDir" "ps_path e = Some dir" "x \<in> set es" "ps_path x = Some p" "is_strict_descendant p dir"
  shows "ps_tier x \<le> ps_tier (promote es e)"
proof -
  have "ps_tier x \<in> set (contained_tiers es dir)"
    using assms(3-5) unfolding contained_tiers_def map_filter_def by force
  with foldl_max [of "ps_tier e" "contained_tiers es dir"] assms(1,2) show ?thesis
    by (simp add: promote_def)
qed

lemma collapse_origin:
  "e \<in> set (fst (collapse_nested lossy es)) \<Longrightarrow>
   \<exists>x \<in> set es. ps_path e = ps_path x \<and> ps_kind e = ps_kind x \<and> ps_tier e = ps_tier x"
  by (auto simp: collapse_nested_def Let_def split: option.splits if_splits intro: bexI [rotated])

lemma measure_entry_facts [simp]:
  "pe_kind (measure_entry pm e) = ps_kind e" "pe_path (measure_entry pm e) = map_option (pm_lossy pm) (ps_path e)"
  "pe_tier (measure_entry pm e) = ps_tier e"
  by (simp_all add: measure_entry_def Let_def split: prod.split)

lemma set_order [simp]: "set (order_for_removal es rc) = set es"
  by (simp add: order_for_removal_def)

lemma mset_order [simp]: "mset (order_for_removal es rc) = mset es"
  by (simp add: order_for_removal_def)

text \<open>A path the plan takes from a probed candidate is absolute, normal and can be written down.\<close>

definition probed :: "purge_machine \<Rightarrow> pathbuf \<Rightarrow> bool" where
  "probed pm p \<longleftrightarrow> pb_eq (pm_lossy pm p) p \<and> (\<exists>raw. absolutize (pm_cwd pm) raw = Some p)"

lemma probe_candidate_path:
  assumes "probe_candidate pm c = Ok pr" "ps_path pr = Some p" "ps_kind pr \<in> {PkFile, PkDir}"
  shows "probed pm p"
  using assms
  by (auto simp: probe_candidate_def present_of_def probed_def representable_def Let_def
      split: option.splits if_splits Existence.splits bool.splits prod.splits)

lemma probe_candidate_fields:
  "probe_candidate pm c = Ok pr \<Longrightarrow> ps_kind pr = cd_kind c \<and> ps_tier pr = cd_tier c"
  by (auto simp: probe_candidate_def present_of_def Let_def
      split: option.splits if_splits Existence.splits bool.splits prod.splits)

lemma probe_candidate_raw:
  "probe_candidate pm c = Ok pr \<Longrightarrow> cd_kind c \<notin> {PkFile, PkDir} \<Longrightarrow> ps_path pr = cd_path c"
  by (auto simp: probe_candidate_def present_of_def)

lemma probe_existence_found:
  "pr \<in> set (fst (probe_existence pm cs)) \<longleftrightarrow> (\<exists>c \<in> set cs. probe_candidate pm c = Ok pr)"
  by (force simp: probe_existence_def map_filter_def Let_def split: sum.splits)

text \<open>The candidate \<open>c\<close> is on the machine at \<open>q\<close>, and a plan may name it.\<close>

definition found_at :: "purge_machine \<Rightarrow> candidate \<Rightarrow> pathbuf \<Rightarrow> bool" where
  "found_at pm c q \<longleftrightarrow> cd_kind c \<in> {PkFile, PkDir} \<and> (\<exists>pr. probe_candidate pm c = Ok pr \<and> ps_path pr = Some q)"

definition written_plainly :: "purge_machine \<Rightarrow> candidate list \<Rightarrow> bool" where
  "written_plainly pm cs \<longleftrightarrow>
     (\<forall>c \<in> set cs. cd_kind c \<notin> {PkFile, PkDir} \<longrightarrow> (\<forall>p. cd_path c = Some p \<longrightarrow> pm_lossy pm p = p))"

lemma found_paths:
  assumes "written_plainly pm cs" "pr \<in> set (fst (probe_existence pm cs))" "ps_path pr = Some p"
  shows "pb_eq (pm_lossy pm p) p"
proof -
  obtain c where c: "c \<in> set cs" "probe_candidate pm c = Ok pr"
    using assms(2) by (auto simp: probe_existence_found)
  show ?thesis
  proof (cases "cd_kind c \<in> {PkFile, PkDir}")
    case True
    with c probe_candidate_path [OF c(2) assms(3)] probe_candidate_fields [OF c(2)] show ?thesis
      by (simp add: probed_def)
  next
    case False
    with assms(1,3) c probe_candidate_raw [OF c(2)] show ?thesis
      by (auto simp: written_plainly_def pb_eq_def)
  qed
qed

lemma plan_entry_origin:
  assumes "e \<in> set (pp_entries (finish_plan pm app_version now req cs refused rc))"
  defines "es \<equiv> dedupe_by_path (pm_lossy pm) (fst (probe_existence pm cs))"
  shows "\<exists>x \<in> set es. pe_tier e = ps_tier (promote es x) \<and> pe_kind e = ps_kind x \<and>
     pe_path e = map_option (pm_lossy pm) (ps_path x) \<and> pe_tier e \<le> rq_tier req"
proof -
  define kept where "kept = fst (filter_by_tier (pm_lossy pm) (rq_tier req) (promote_containers es))"
  obtain y where y: "y \<in> set (fst (collapse_nested (pm_lossy pm) kept))" "e = measure_entry pm y"
    using assms(1) by (auto simp: finish_plan_def es_def kept_def Let_def split: prod.splits)
  obtain z where z: "z \<in> set kept" "ps_path y = ps_path z" "ps_kind y = ps_kind z" "ps_tier y = ps_tier z"
    using collapse_origin [OF y(1)] by blast
  obtain x where x: "x \<in> set es" "z = promote es x" "ps_tier z \<le> rq_tier req"
    using z(1) by (auto simp: kept_def filter_by_tier_def promote_containers_def tier_includes_iff)
  show ?thesis
    using x(1,3) y(2) z(2-4) by (intro bexI [of _ x]) (simp_all add: x(2) promote_facts)
qed

text \<open>The invariant of the planner: what lies in a directory it lists is of no wider tier.\<close>

lemma plan_contains:
  assumes plain: "written_plainly pm cs"
    and cwd: "\<And>d. pm_cwd pm = Some d \<Longrightarrow> pb_is_absolute d"
    and entry: "e \<in> set (pp_entries (finish_plan pm app_version now req cs refused rc))"
    and removal: "pe_path e = Some d" "pe_kind e = PkDir \<and> pb_starts_with q d \<or> pe_kind e = PkFile \<and> pb_eq q d"
    and found: "c \<in> set cs" "found_at pm c q"
  shows "cd_tier c \<le> pe_tier e \<and> pe_tier e \<le> rq_tier req"
proof -
  define ps where "ps = fst (probe_existence pm cs)"
  define es where "es = dedupe_by_path (pm_lossy pm) ps"
  obtain x where x: "x \<in> set es" "pe_tier e = ps_tier (promote es x)" "pe_kind e = ps_kind x"
      "pe_path e = map_option (pm_lossy pm) (ps_path x)" "pe_tier e \<le> rq_tier req"
    using plan_entry_origin [OF entry] unfolding es_def ps_def by blast
  obtain d0 where d0: "ps_path x = Some d0" "d = pm_lossy pm d0"
    using x(4) removal(1) by (cases "ps_path x") auto
  obtain y where y: "y \<in> set ps" "ps_path y = Some d0" "ps_kind y = ps_kind x"
    using dedupe_origin [of x "pm_lossy pm" ps] x(1) d0(1) by (auto simp: es_def)
  have "probed pm d0"
    using y removal(2) x(3) probe_candidate_path unfolding ps_def probe_existence_found by fastforce
  obtain pr where pr: "probe_candidate pm c = Ok pr" "ps_path pr = Some q" "cd_kind c \<in> {PkFile, PkDir}"
    using found(2) by (auto simp: found_at_def)
  have prq: "pr \<in> set ps" "ps_tier pr = cd_tier c" "probed pm q"
    using pr found(1) probe_candidate_fields [OF pr(1)] probe_candidate_path [OF pr(1,2)]
    by (auto simp: ps_def probe_existence_found)
  obtain z where z: "z \<in> set es" "path_key (pm_lossy pm) z = Some (pm_lossy pm q)" "cd_tier c \<le> ps_tier z"
    using dedupe_covers [of pr ps "pm_lossy pm" "pm_lossy pm q"] prq pr(2)
    by (auto simp: tier_covered_def es_def path_key_def)
  obtain p' where p': "ps_path z = Some p'" "pm_lossy pm p' = pm_lossy pm q"
    using z(2) by (auto simp: path_key_def)
  have "pb_eq (pm_lossy pm p') p'"
    using dedupe_origin [of z "pm_lossy pm" ps] z(1) p'(1) found_paths [OF plain] unfolding es_def ps_def by metis
  then have same: "pb_components p' = pb_components q" "pb_components d = pb_components d0"
    using prq(3) \<open>probed pm d0\<close> p'(2) d0(2) by (simp_all add: probed_def pb_eq_def)
  have "cd_tier c \<le> ps_tier (promote es x)"
  proof (cases "pb_eq q d0")
    case True
    with prq(3) \<open>probed pm d0\<close> have "q = d0"
      using absolutize_inj cwd unfolding probed_def by metis
    then have "path_key (pm_lossy pm) x = Some (pm_lossy pm q)"
      by (simp add: path_key_def d0)
    with z x(1) have "z = x"
      using same_key_same_entry dedupe_distinct unfolding es_def by metis
    with z(3) show ?thesis
      using promote_facts(3) order.trans by metis
  next
    case False
    with removal(2) x(3) same have "ps_kind x = PkDir" "is_strict_descendant p' d0"
      by (auto simp: is_strict_descendant_def pb_eq_def pb_starts_with_def)
    with promote_contains [OF _ d0(1) z(1) p'(1)] z(3) show ?thesis
      using order.trans by metis
  qed
  with x show ?thesis by simp
qed

section \<open>The executor\<close>

definition effect_path :: "purge_effect \<Rightarrow> pathbuf option" where
  "effect_path f = (case f of RemoveDirAll p \<Rightarrow> Some p | RemoveFile p \<Rightarrow> Some p | Unlink p \<Rightarrow> Some p | UninstallService \<Rightarrow> None)"

definition effect_of :: "purge_entry \<Rightarrow> purge_effect \<Rightarrow> bool" where
  "effect_of e f =
     (case f of
        RemoveDirAll p \<Rightarrow> pe_kind e = PkDir \<and> pe_path e = Some p
      | RemoveFile p \<Rightarrow> pe_kind e = PkFile \<and> pe_path e = Some p
      | Unlink p \<Rightarrow> pe_kind e \<in> {PkFile, PkDir} \<and> pe_path e = Some p
      | UninstallService \<Rightarrow> pe_kind e = PkService)"

definition floor_ok :: "purge_roots \<Rightarrow> pathbuf \<Rightarrow> bool" where
  "floor_ok roots p \<longleftrightarrow> pb_is_absolute p \<and> \<not> is_filesystem_root p \<and> ParentDir \<notin> set (pb_components p) \<and>
     (\<exists>r \<in> set roots. pb_starts_with p r)"

lemma checked_path_Ok:
  "checked_path raw = Ok p \<Longrightarrow> raw = Some p \<and> pb_is_absolute p \<and> \<not> is_filesystem_root p \<and> ParentDir \<notin> set (pb_components p)"
  by (auto simp: checked_path_def non_empty_def split: option.splits if_splits)

lemma contained_Ok: "contained p roots = Ok u \<Longrightarrow> \<exists>r \<in> set roots. pb_starts_with p r"
  by (auto simp: contained_def roots_contain_def is_within_def list_ex_iff split: if_splits)

lemma remove_path_effect:
  "f \<in> set (fst (remove_path w i p kind)) \<Longrightarrow> kind \<in> {PkFile, PkDir} \<Longrightarrow>
   f = Unlink p \<or> f = (if kind = PkDir then RemoveDirAll p else RemoveFile p)"
  by (auto simp: remove_path_def split: sum.splits option.splits if_splits)

lemma remove_path_removed:
  "snd (remove_path w i p kind) = Removed \<Longrightarrow> fst (remove_path w i p kind) \<noteq> []"
  by (auto simp: remove_path_def split: sum.splits option.splits if_splits)

lemma execute_entry_effect:
  assumes "f \<in> set (fst (execute_entry w roots i e))"
  shows "effect_of e f \<and> (\<forall>p. effect_path f = Some p \<longrightarrow> floor_ok roots p)"
proof (cases "pe_kind e \<in> {PkFile, PkDir}")
  case True
  then obtain p where p: "checked_path (pe_path e) = Ok p" "contained p roots = Ok ()" "f \<in> set (fst (remove_path w i p (pe_kind e)))"
    using assms by (auto simp: execute_entry_def split: sum.splits)
  from remove_path_effect [OF p(3) True] checked_path_Ok [OF p(1)] contained_Ok [OF p(2)] True show ?thesis
    by (auto simp: effect_of_def effect_path_def floor_ok_def)
next
  case False
  then show ?thesis
    using assms by (cases "pe_kind e") (auto simp: execute_entry_def effect_of_def effect_path_def split: option.splits)
qed

lemma execute_entry_removed:
  "snd (execute_entry w roots i e) = Removed \<Longrightarrow> fst (execute_entry w roots i e) \<noteq> []"
  by (cases "pe_kind e") (auto simp: execute_entry_def remove_registry_def remove_path_removed split: sum.splits option.splits if_splits)

lemma execute_effect:
  assumes "f \<in> set (fst (purge_execute w plan roots))"
  obtains e where "e \<in> set (pp_entries plan)" "pp_plan_version plan = PLAN_VERSION" "pe_tier e \<le> pp_tier plan"
    "effect_of e f" "\<And>p. effect_path f = Some p \<Longrightarrow> floor_ok roots p"
proof -
  from assms have version: "pp_plan_version plan = PLAN_VERSION"
    by (auto simp: purge_execute_def Let_def split: if_splits)
  with assms obtain i e where e: "(i, e) \<in> set (enumerate 0 (order_for_removal (pp_entries plan) (plan_receipt plan)))"
      "f \<in> set (fst (execute_planned w roots (pp_tier plan) (i, e)))"
    by (auto simp: purge_execute_def Let_def)
  have "e \<in> set (pp_entries plan)"
    using e(1) by (auto simp: enumerate_eq_zip dest: set_zip_rightD)
  moreover have "pe_tier e \<le> pp_tier plan" "f \<in> set (fst (execute_entry w roots i e))"
    using e(2) by (auto simp: execute_planned_def tier_includes_iff split: prod.splits if_splits)
  ultimately show thesis
    using that version execute_entry_effect [of f w roots i e] by blast
qed

lemma removal_order_ranked: "sorted (map (removal_rank rc) (order_for_removal es rc))"
  by (simp add: order_for_removal_def)

lemma describe_id [simp]: "er_id (describe e x) = pe_id e"
  by (simp add: describe_def)

lemma execute_planned_id [simp]: "er_id (snd (execute_planned w roots t ie)) = pe_id (snd ie)"
  by (simp add: execute_planned_def split: prod.split)

lemma map_snd_enumerate: "map (\<lambda>ie. f (snd ie)) (enumerate n xs) = map f xs"
  by (induction xs arbitrary: n) simp_all

lemma execute_accounts:
  "mset (map er_id (rp_entries (snd (purge_execute w plan roots)))) = mset (map pe_id (pp_entries plan))"
proof (cases "pp_plan_version plan = PLAN_VERSION")
  case True
  then show ?thesis
    by (simp add: purge_execute_def Let_def comp_def map_snd_enumerate)
qed (simp add: purge_execute_def Let_def comp_def)

lemma report_count_0: "report_count P r = 0 \<longleftrightarrow> (\<forall>e \<in> set (rp_entries r). \<not> P (er_outcome e))"
  by (simp add: report_count_def filter_empty_conv)

lemma unfinished_Ok: "unfinished r = Ok u \<longleftrightarrow> (\<forall>e \<in> set (rp_entries r). er_outcome e \<in> {Removed, OutcomeAbsent})"
proof -
  have "\<not> is_failed x \<and> \<not> is_refused x \<longleftrightarrow> x \<in> {Removed, OutcomeAbsent}" for x
    by (cases x) (simp_all add: is_failed_def is_refused_def)
  then show ?thesis
    by (simp add: unfinished_def Let_def report_count_0) blast
qed

text \<open>C25. Whatever plan it is given and whatever the disk holds by then, the executor touches only what
  the plan lists: every effect is that of an entry whose tier the plan declares, and a path it removes
  is absolute, no root, free of parent components and inside a declared root. Every entry gets one
  outcome, and the run is a success only when each entry was removed or was not there.\<close>

theorem executor_stays_in_plan:
  assumes "purge_execute w plan roots = (effects, report)"
  shows "(\<forall>f \<in> set effects. \<exists>e \<in> set (pp_entries plan). effect_of e f \<and> pe_tier e \<le> pp_tier plan \<and>
             pp_plan_version plan = PLAN_VERSION \<and> (\<forall>p. effect_path f = Some p \<longrightarrow> floor_ok roots p)) \<and>
         mset (map er_id (rp_entries report)) = mset (map pe_id (pp_entries plan)) \<and>
         (unfinished report = Ok () \<longleftrightarrow> (\<forall>e \<in> set (rp_entries report). er_outcome e \<in> {Removed, OutcomeAbsent}))"
proof -
  have "\<exists>e \<in> set (pp_entries plan). effect_of e f \<and> pe_tier e \<le> pp_tier plan \<and>
          pp_plan_version plan = PLAN_VERSION \<and> (\<forall>p. effect_path f = Some p \<longrightarrow> floor_ok roots p)"
    if "f \<in> set effects" for f
  proof -
    have "f \<in> set (fst (purge_execute w plan roots))"
      using that assms by simp
    then show ?thesis by (rule execute_effect) blast
  qed
  then show ?thesis
    using execute_accounts [of w plan roots] unfinished_Ok [of report "()"] assms by simp
qed

lemma collect_written_plainly:
  assumes "\<And>r e p. rc = Some r \<Longrightarrow> e \<in> set (rc_entries r) \<Longrightarrow> re_path e = Some p \<Longrightarrow> pm_lossy pm p = p"
  shows "written_plainly pm (fst (collect_candidates pm req rc))"
proof -
  have "cd_kind c \<in> {PkFile, PkDir} \<or> (\<forall>p. cd_path c = Some p \<longrightarrow> pm_lossy pm p = p)"
    if "c \<in> set (fst (collect_candidates pm req rc))" for c
    using that assms
    by (auto simp: collect_candidates_def receipt_candidates_def path_entry_def platform_candidates_def
        desktop_integration_candidates_def webview_entry_def legacy_candidates_def Let_def
        split: option.splits target_os.splits if_splits)
  then show ?thesis by (auto simp: written_plainly_def)
qed

text \<open>Planned from the receipt and the machine and then executed with any roots, an uninstall never
  destroys what is classified above the scope the user picked: a candidate found at \<open>q\<close> whose path a
  removed directory contains, or which is itself removed, is of the requested tier or below. The text
  of the receipt is UTF-8 and the current directory absolute.\<close>

theorem uninstall_spares_wider_tiers:
  assumes "\<And>r e p. rc = Some r \<Longrightarrow> e \<in> set (rc_entries r) \<Longrightarrow> re_path e = Some p \<Longrightarrow> pm_lossy pm p = p"
    and "\<And>d. pm_cwd pm = Some d \<Longrightarrow> pb_is_absolute d"
    and "c \<in> set (fst (collect_candidates pm req rc))" and "found_at pm c q"
    and "f \<in> set (fst (purge_execute w (build_plan pm app_version now rc req) roots))"
    and "f = RemoveDirAll d \<and> pb_starts_with q d \<or> (f = RemoveFile d \<or> f = Unlink d) \<and> pb_eq q d"
  shows "cd_tier c \<le> rq_tier req"
proof -
  obtain e where e: "e \<in> set (pp_entries (build_plan pm app_version now rc req))" "effect_of e f"
    using assms(5) by (rule execute_effect)
  have "pe_path e = Some d" and "pe_kind e = PkDir \<and> pb_starts_with q d \<or> pe_kind e = PkFile \<and> pb_eq q d"
    using e(2) assms(6) by (auto simp: effect_of_def pb_eq_def pb_starts_with_def)
  moreover have "e \<in> set (pp_entries (finish_plan pm app_version now req (fst (collect_candidates pm req rc))
                   (snd (collect_candidates pm req rc)) rc))"
    using e(1) by (simp add: build_plan_def split_beta)
  ultimately have "cd_tier c \<le> pe_tier e \<and> pe_tier e \<le> rq_tier req"
    using plan_contains collect_written_plainly assms(1-4) by metis
  then show ?thesis
    using order.trans by blast
qed

section \<open>At concrete machines\<close>

declare SIZE_WALK_LIMIT_def [code del]

text \<open>A Linux machine on which every path asked about is there.\<close>

definition plain_machine :: purge_machine where
  "plain_machine = \<lparr>pm_os = LinuxOs, pm_lossy = (\<lambda>s. s), pm_cwd = None, pm_stat = (\<lambda>p. if starts_with p ''/opt'' then StatOk else StatNotFound),
     pm_read_dir = (\<lambda>_. None), pm_meta = (\<lambda>_. None), pm_is_file = (\<lambda>_. False), pm_exists = (\<lambda>_. False),
     pm_same_file = (\<lambda>_ _. False), pm_database_url = None\<rparr>"

definition no_roots :: probe_roots where
  "no_roots = \<lparr>pr_home = None, pr_platform_data = None, pr_platform_cache = None, pr_exe_dir = None, pr_exe = None, pr_system_share = None\<rparr>"

definition request_for :: "PurgeTier \<Rightarrow> plan_request" where
  "request_for t = \<lparr>rq_data_dir = ''/opt/d'', rq_tier = t, rq_prefix = None, rq_roots = no_roots\<rparr>"

definition receipt_of :: "receipt_entry list \<Rightarrow> receipt" where
  "receipt_of es = \<lparr>rc_receipt_version = 1, rc_app_version = [], rc_installed_at = [], rc_updated_at = [], rc_entries = es\<rparr>"

definition prefix_receipt :: receipt where
  "prefix_receipt = receipt_of [dir_entry (\<lambda>s. s) ''install_prefix'' ''/opt/c'', file_entry (\<lambda>s. s) ''db'' ''/opt/c/data/my.db'']"

definition calm_world :: purge_world where
  "calm_world = \<lparr>pw_stat = (\<lambda>_ _. Inr NodeDir), pw_remove = (\<lambda>_ _. IoDone), pw_unlink = (\<lambda>_ _. None), pw_service = (\<lambda>_. Inr False)\<rparr>"

definition executed :: "receipt \<Rightarrow> PurgeTier \<Rightarrow> purge_effect list \<times> purge_report" where
  "executed rc t = purge_execute calm_world (build_plan plain_machine [] [] (Some rc) (request_for t)) [''/opt'']"

text \<open>The prefix that holds the database goes with user data, and not with the application.\<close>

lemma prefix_goes_with_user_data:
  "fst (executed prefix_receipt UserData) = [RemoveDirAll ''/opt/c'']" "fst (executed prefix_receipt Application) = []"
  by code_simp+

definition db_candidate :: candidate where
  "db_candidate = \<lparr>cd_id = ''db'', cd_kind = PkFile, cd_path = Some ''/opt/c/data/my.db'', cd_name = None, cd_tier = UserData,
     cd_source = FromReceipt, cd_secret = False\<rparr>"

lemma db_candidate_found:
  "db_candidate \<in> set (fst (collect_candidates plain_machine (request_for UserData) (Some prefix_receipt)))"
  "found_at plain_machine db_candidate ''/opt/c/data/my.db''"
proof -
  have "map_option ps_path (case probe_candidate plain_machine db_candidate of Inr p \<Rightarrow> Some p | Inl _ \<Rightarrow> None) = Some (Some ''/opt/c/data/my.db'')"
    by code_simp
  then show "found_at plain_machine db_candidate ''/opt/c/data/my.db''"
    by (auto simp: found_at_def db_candidate_def split: sum.splits)
qed code_simp

theorem uninstall_spares_wider_tiers_witness:
  "fst (executed prefix_receipt UserData) = [RemoveDirAll ''/opt/c''] \<and> cd_tier db_candidate \<le> UserData"
proof (rule conjI)
  have "cd_tier db_candidate \<le> rq_tier (request_for UserData)"
  proof (rule uninstall_spares_wider_tiers)
    show "RemoveDirAll ''/opt/c'' \<in> set (fst (purge_execute calm_world (build_plan plain_machine [] [] (Some prefix_receipt) (request_for UserData)) [''/opt'']))"
      using prefix_goes_with_user_data(1) by (simp add: executed_def)
    show "RemoveDirAll ''/opt/c'' = RemoveDirAll ''/opt/c'' \<and> pb_starts_with ''/opt/c/data/my.db'' ''/opt/c'' \<or>
       (RemoveDirAll ''/opt/c'' = RemoveFile ''/opt/c'' \<or> RemoveDirAll ''/opt/c'' = Unlink ''/opt/c'') \<and> pb_eq ''/opt/c/data/my.db'' ''/opt/c''"
      by code_simp
  qed (simp_all add: db_candidate_found, simp_all add: plain_machine_def)
  then show "cd_tier db_candidate \<le> UserData"
    by (simp add: request_for_def)
qed (rule prefix_goes_with_user_data)

theorem executor_stays_in_plan_witness:
  "floor_ok [''/opt''] ''/opt/c'' \<and> map er_outcome (rp_entries (snd (executed prefix_receipt UserData))) = [Removed]"
proof (rule conjI)
  have "RemoveDirAll ''/opt/c'' \<in> set (fst (executed prefix_receipt UserData))"
    by (simp add: prefix_goes_with_user_data)
  then show "floor_ok [''/opt''] ''/opt/c''"
    using executor_stays_in_plan [OF prod.collapse [symmetric], of calm_world
        "build_plan plain_machine [] [] (Some prefix_receipt) (request_for UserData)" "[''/opt'']"]
    unfolding executed_def by (fastforce simp: effect_path_def)
  show "map er_outcome (rp_entries (snd (executed prefix_receipt UserData))) = [Removed]"
    by code_simp
qed

text \<open>
  A receipt entry whose path cannot be written down is refused, and the plan says that it was left
  alone; but it no longer promotes the directory that holds it, which is then removed with it.
\<close>

definition unwritable_db :: receipt_entry where
  "unwritable_db = \<lparr>re_id = ''db'', re_kind = EkFile, re_path = Some ''/opt/c/data/my?.db'', re_name = None, re_secret = False, re_unrepresentable = True\<rparr>"

theorem refused_entry_is_destroyed:
  "let rc = receipt_of [dir_entry (\<lambda>s. s) ''install_prefix'' ''/opt/c'', unwritable_db];
       plan = build_plan plain_machine [] [] (Some rc) (request_for Application)
   in fst (executed rc Application) = [RemoveDirAll ''/opt/c''] \<and>
      map sk_id (filter (\<lambda>s. sk_reason s = Unsafe) (pp_skipped plan)) = [''db''] \<and> purge_classify (re_id unwritable_db) = UserData"
  by code_simp

text \<open>
  A secret in a directory that is itself nested in a removed one, and listed before it, is not
  shown: only the inner directory would carry the warning, and it is not in the plan.
\<close>

theorem nested_secret_is_not_shown:
  "let rc = receipt_of [dir_entry (\<lambda>s. s) ''data_dir'' ''/opt/c/data'', (file_entry (\<lambda>s. s) ''seal_key'' ''/opt/c/data/seal.key'')\<lparr>re_secret := True\<rparr>,
                        dir_entry (\<lambda>s. s) ''install_prefix'' ''/opt/c''];
       plan = build_plan plain_machine [] [] (Some rc) (request_for Everything)
   in map pe_path (pp_entries plan) = [Some ''/opt/c''] \<and> \<not> contains_secret plan"
  by code_simp

end
