(* ===== verification/Event_Bus.thy ===== *)
theory Event_Bus
  imports Prelude Json "HOL-Library.Word"
begin

text \<open>
  The event pipeline: \<open>EventProcessor\<close> of \<open>events.rs\<close>, the delivery of an event to the plugins by
  \<open>PluginRegistry::dispatch_event\<close> (\<open>managers/registry.rs\<close>) and the capability a granted permission
  brings (\<open>managers/plugin.rs\<close>). One event of the channel is one step: it is recorded, may start a
  turn, is broadcast, delivered, and post-processed; what it puts back into the channel are its
  children. Log lines are left out.

  The outside is \<open>bus_io\<close>, one for each event: the answers of the plugins in completion order, the
  rate limiter, the database, fresh ids and the clock. A version 5 UUID is \<open>bi_from_name\<close>.
\<close>

section \<open>Events\<close>

type_synonym cloto_id = string

datatype Permission =
    VisionRead | InputControl | FileReadPerm | FileWritePerm | NetworkAccess | ProcessExecution
  | MemoryRead | MemoryWrite | AdminAccess

datatype message_source = SrcUser string string | SrcAgent string | SrcSystem

record cloto_message =
  cm_id :: string
  cm_source :: message_source
  cm_target_agent :: "string option"
  cm_content :: string
  cm_timestamp :: instant
  cm_metadata :: "(string, string) hmap"

datatype HandAction =
    MouseMove int int | MouseClick string | KeyPress string | WaitMs nat | CaptureScreen | ClickElement string

record external_action =
  xc_action_id :: string
  xc_source :: string
  xc_source_label :: string
  xc_target_agent_id :: string
  xc_target_agent_name :: string
  xc_prompt :: string
  xc_sender_name :: string
  xc_engine_id :: string
  xc_response :: "string option"
  xc_status :: string
  xc_callback_id :: string

record mcp_callback =
  mb_callback_id :: string
  mb_server_id :: string
  mb_callback_type :: string
  mb_message :: string
  mb_options :: "string list option"
  mb_metadata :: "json option"

text \<open>The variants no step reads are \<open>OtherEvent\<close>, with their name and content.\<close>

datatype event_data =
    MessageReceived cloto_message
  | ActionRequested cloto_id HandAction
  | ThoughtResponse string string string string bool
  | PermissionGranted string string
  | McpCallbackRequested mcp_callback
  | ExternalAction external_action
  | OtherEvent string json

record cloto_event =
  ev_trace_id :: cloto_id
  ev_timestamp :: instant
  ev_data :: event_data

record sequenced_event =
  sq_seq_id :: "64 word"
  sq_event :: cloto_event

record enveloped_event =
  en_event :: cloto_event
  en_issuer :: "cloto_id option"
  en_correlation_id :: "cloto_id option"
  en_depth :: "8 word"

text \<open>\<open>EnvelopedEvent::system\<close>.\<close>

definition system_event :: "cloto_id \<Rightarrow> instant \<Rightarrow> event_data \<Rightarrow> enveloped_event" where
  "system_event trace now data =
     \<lparr>en_event = \<lparr>ev_trace_id = trace, ev_timestamp = now, ev_data = data\<rparr>, en_issuer = None, en_correlation_id = None, en_depth = 0\<rparr>"

section \<open>State\<close>

datatype plugin_answer = PluginEvent event_data | PluginNone | PluginError string | PluginTimeout | PluginPanicked

record bus_config =
  bc_max_event_depth :: "8 word"
  bc_max_history_size :: nat
  bc_max_event_history :: nat
  bc_event_retention_hours :: int
  bc_default_agent_id :: string

record bus =
  bs_next_seq :: "64 word"
  bs_history :: "sequenced_event list"
  bs_total_requests :: "64 word"
  bs_plugins :: "string list"
  bs_permissions :: "(cloto_id, Permission list) hmap"

record bus_io =
  bi_now :: instant
  bi_from_name :: "string \<Rightarrow> cloto_id"
  bi_fresh_id :: string
  bi_answers :: "cloto_event \<Rightarrow> string \<Rightarrow> plugin_answer"
  bi_rate_ok :: "cloto_id \<Rightarrow> bool"
  bi_agents_for_server :: "string \<Rightarrow> string + string list"
  bi_agent_config :: "string \<Rightarrow> (string \<times> string) option"
  bi_json :: json_text

datatype plugin_capability = CapNetwork | CapFile string bool | CapProcess "string list"

datatype bus_effect =
    Recorded sequenced_event
  | Broadcast sequenced_event
  | TurnSpawned string cloto_message
  | Delivered string cloto_event
  | LastSeenTouched string
  | CapabilityInjected string plugin_capability

section \<open>The history\<close>

definition sequenced_new :: "cloto_event \<Rightarrow> bus \<Rightarrow> sequenced_event \<times> bus" where
  "sequenced_new e s = (\<lparr>sq_seq_id = bs_next_seq s, sq_event = e\<rparr>, s\<lparr>bs_next_seq := bs_next_seq s + 1\<rparr>)"

definition trim_front :: "nat \<Rightarrow> 'a list \<Rightarrow> 'a list" where
  "trim_front n xs = drop (length xs - n) xs"

definition record_event :: "bus_config \<Rightarrow> sequenced_event \<Rightarrow> bus \<Rightarrow> bus" where
  "record_event cfg e s = s\<lparr>bs_history := trim_front (bc_max_history_size cfg) (bs_history s @ [e])\<rparr>"

definition cleanup_old_events :: "bus_config \<Rightarrow> instant \<Rightarrow> bus \<Rightarrow> bus" where
  "cleanup_old_events cfg now s =
     (let cutoff = now - bc_event_retention_hours cfg * 3600000;
          kept = dropWhile (\<lambda>e. ev_timestamp (sq_event e) < cutoff) (bs_history s)
      in s\<lparr>bs_history := trim_front (bc_max_event_history cfg) kept\<rparr>)"

section \<open>Delivery to the plugins\<close>

text \<open>An answer becomes an event of the plugin, one level deeper; errors, timeouts and panics do not.\<close>

definition redispatch :: "(string \<Rightarrow> cloto_id) \<Rightarrow> instant \<Rightarrow> cloto_id \<Rightarrow> 8 word \<Rightarrow> string \<Rightarrow> plugin_answer \<Rightarrow> enveloped_event list" where
  "redispatch from_name now trace depth plugin answer =
     (case answer of
        PluginEvent data \<Rightarrow>
          [\<lparr>en_event = \<lparr>ev_trace_id = trace, ev_timestamp = now, ev_data = data\<rparr>, en_issuer = Some (from_name plugin),
            en_correlation_id = Some trace, en_depth = depth + 1\<rparr>]
      | _ \<Rightarrow> [])"

definition dispatch_event :: "bus_config \<Rightarrow> bus_io \<Rightarrow> bus \<Rightarrow> enveloped_event \<Rightarrow> bus_effect list \<times> enveloped_event list" where
  "dispatch_event cfg io s env =
     (if en_depth env \<ge> bc_max_event_depth cfg then ([], [])
      else (map (\<lambda>p. Delivered p (en_event env)) (bs_plugins s),
            concat (map (\<lambda>p. redispatch (bi_from_name io) (bi_now io) (ev_trace_id (en_event env)) (en_depth env) p
                                (bi_answers io (en_event env) p)) (bs_plugins s))))"

section \<open>Permissions and capabilities\<close>

definition update_effective_permissions :: "cloto_id \<Rightarrow> Permission \<Rightarrow> bus \<Rightarrow> bus" where
  "update_effective_permissions i p s =
     (let perms = unwrap_or (hm_get (bs_permissions s) i) []
      in s\<lparr>bs_permissions := hm_insert i (if p \<in> set perms then perms else perms @ [p]) (bs_permissions s)\<rparr>)"

definition authorize :: "bus \<Rightarrow> cloto_id \<Rightarrow> Permission \<Rightarrow> bool" where
  "authorize s requester required = (case hm_get (bs_permissions s) requester of None \<Rightarrow> False | Some perms \<Rightarrow> required \<in> set perms)"

text \<open>The serde names of \<open>Permission\<close>.\<close>

definition permission_from_str :: "string \<Rightarrow> Permission option" where
  "permission_from_str s = map_of
     [(''VisionRead'', VisionRead), (''InputControl'', InputControl), (''FileRead'', FileReadPerm), (''FileWrite'', FileWritePerm),
      (''NetworkAccess'', NetworkAccess), (''ProcessExecution'', ProcessExecution), (''MemoryRead'', MemoryRead),
      (''MemoryWrite'', MemoryWrite), (''AdminAccess'', AdminAccess)] s"

definition safe_char :: "char \<Rightarrow> bool" where
  "safe_char c \<longleftrightarrow> (CHR ''a'' \<le> c \<and> c \<le> CHR ''z'') \<or> (CHR ''A'' \<le> c \<and> c \<le> CHR ''Z'') \<or> (CHR ''0'' \<le> c \<and> c \<le> CHR ''9'') \<or>
     c \<in> {CHR ''.'', CHR ''_'', CHR ''-''}"

text \<open>A character of several bytes is one character: its continuation bytes give nothing.\<close>

definition continuation_byte :: "char \<Rightarrow> bool" where
  "continuation_byte c \<longleftrightarrow> CHR 0x80 \<le> c \<and> c < CHR 0xC0"

definition sanitized :: "string \<Rightarrow> string" where
  "sanitized s = map (\<lambda>c. if safe_char c then c else CHR ''_'') (filter (\<lambda>c. \<not> continuation_byte c) s)"

definition plugin_sandbox_dir :: "string \<Rightarrow> string" where
  "plugin_sandbox_dir plugin_id =
     (let safe = sanitized plugin_id
      in ''data/plugin_sandbox/'' @ (if list_all ((=) (CHR ''.'')) safe then ''_unnamed'' else safe))"

definition get_capability_for_permission :: "string \<Rightarrow> Permission \<Rightarrow> plugin_capability option" where
  "get_capability_for_permission plugin_id p =
     (case p of
        NetworkAccess \<Rightarrow> Some CapNetwork
      | FileReadPerm \<Rightarrow> Some (CapFile (plugin_sandbox_dir plugin_id) False)
      | FileWritePerm \<Rightarrow> Some (CapFile (plugin_sandbox_dir plugin_id) True)
      | ProcessExecution \<Rightarrow> Some (CapProcess [])
      | _ \<Rightarrow> None)"

definition on_permission_granted :: "bus_io \<Rightarrow> string \<Rightarrow> string \<Rightarrow> bus \<Rightarrow> bus \<times> bus_effect list" where
  "on_permission_granted io plugin_id permission s =
     (case permission_from_str permission of
        None \<Rightarrow> (s, [])
      | Some p \<Rightarrow>
          (update_effective_permissions (bi_from_name io plugin_id) p s,
           if plugin_id \<in> set (bs_plugins s)
           then (case get_capability_for_permission plugin_id p of None \<Rightarrow> [] | Some cap \<Rightarrow> [CapabilityInjected plugin_id cap])
           else []))"

section \<open>Messages from outside\<close>

definition meta_str :: "json option \<Rightarrow> string \<Rightarrow> string \<Rightarrow> string" where
  "meta_str meta key default_text = unwrap_or (Option.bind (Option.bind meta (\<lambda>m. json_get m key)) json_as_str) default_text"

definition forwarded :: "json \<Rightarrow> (string \<Rightarrow> string) \<Rightarrow> string list \<Rightarrow> (string, string) hmap \<Rightarrow> (string, string) hmap" where
  "forwarded meta name keys m =
     fold (\<lambda>k m. case Option.bind (json_get meta k) json_as_str of None \<Rightarrow> m | Some v \<Rightarrow> hm_insert (name k) v m) keys m"

definition external_metadata :: "bus_io \<Rightarrow> mcp_callback \<Rightarrow> string \<Rightarrow> (string, string) hmap" where
  "external_metadata io cb target =
     (let meta = mb_metadata cb;
          base = fold (\<lambda>(k, v). hm_insert k v)
            [(''target_agent_id'', target), (''external_action_id'', ''ext-'' @ mb_callback_id cb),
             (''external_callback_id'', mb_callback_id cb), (''external_source'', meta_str meta ''source'' ''external''),
             (''external_sender_name'', meta_str meta ''author_name'' ''Unknown''), (''external_server_id'', mb_server_id cb),
             (''external_author_id'', meta_str meta ''author_id'' ''0''), (''skip_user_persist'', ''true'')] []
      in case meta of
           None \<Rightarrow> base
         | Some m \<Rightarrow>
             (let m1 = forwarded m (\<lambda>k. ''external_'' @ k) [''channel_id'', ''message_id'', ''guild_id'', ''session_id''] base;
                  m2 = (case json_get m ''reference'' of
                          None \<Rightarrow> m1
                        | Some r \<Rightarrow> if json_is_null r then m1 else hm_insert ''external_reference'' (json_to_string (bi_json io) r) m1);
                  m3 = (case json_get m ''conversation_context'' of
                          Some (JArr xs) \<Rightarrow> hm_insert ''conversation_context'' (json_to_string (bi_json io) (JArr xs)) m2
                        | _ \<Rightarrow> m2)
              in forwarded m (\<lambda>k. k) [''tool_hint'', ''tool_args''] m3))"

definition callback_target :: "bus_config \<Rightarrow> bus_io \<Rightarrow> mcp_callback \<Rightarrow> string" where
  "callback_target cfg io cb =
     (case bi_agents_for_server io (mb_server_id cb) of Inr (a # _) \<Rightarrow> a | _ \<Rightarrow> bc_default_agent_id cfg)"

definition external_message :: "bus_config \<Rightarrow> bus_io \<Rightarrow> mcp_callback \<Rightarrow> cloto_message" where
  "external_message cfg io cb =
     (let target = callback_target cfg io cb; meta = mb_metadata cb;
          sender = meta_str meta ''author_name'' ''Unknown''
      in \<lparr>cm_id = bi_fresh_id io,
          cm_source = SrcUser (meta_str meta ''source'' ''external'' @ '':'' @ meta_str meta ''author_id'' ''0'') sender,
          cm_target_agent = Some target, cm_content = mb_message cb, cm_timestamp = bi_now io,
          cm_metadata = external_metadata io cb target\<rparr>)"

definition pending_action :: "bus_config \<Rightarrow> bus_io \<Rightarrow> mcp_callback \<Rightarrow> external_action" where
  "pending_action cfg io cb =
     (let target = callback_target cfg io cb; meta = mb_metadata cb; source = meta_str meta ''source'' ''external'';
          (agent_name, engine_id) = (case bi_agent_config io target of None \<Rightarrow> (target, []) | Some c \<Rightarrow> c)
      in \<lparr>xc_action_id = ''ext-'' @ mb_callback_id cb, xc_source = source, xc_source_label = source, xc_target_agent_id = target,
          xc_target_agent_name = agent_name, xc_prompt = mb_message cb, xc_sender_name = meta_str meta ''author_name'' ''Unknown'',
          xc_engine_id = engine_id, xc_response = None, xc_status = ''pending'', xc_callback_id = mb_callback_id cb\<rparr>)"

section \<open>One event\<close>

definition child_message :: "instant \<Rightarrow> enveloped_event \<Rightarrow> cloto_message \<Rightarrow> enveloped_event" where
  "child_message now env msg =
     (let trace = ev_trace_id (en_event env)
      in \<lparr>en_event = \<lparr>ev_trace_id = trace, ev_timestamp = now, ev_data = MessageReceived msg\<rparr>, en_issuer = None,
          en_correlation_id = Some trace, en_depth = en_depth env + 1\<rparr>)"

definition started_turn :: "cloto_event \<Rightarrow> bus_effect list" where
  "started_turn e =
     (case ev_data e of
        MessageReceived msg \<Rightarrow>
          (case cm_source msg of
             SrcAgent _ \<Rightarrow> []
           | _ \<Rightarrow> [TurnSpawned (unwrap_or (option_or (cm_target_agent msg) (hm_get (cm_metadata msg) ''target_agent_id'')) []) msg])
      | _ \<Rightarrow> [])"

definition broadcast_at_once :: "event_data \<Rightarrow> bool" where
  "broadcast_at_once d = (case d of ActionRequested _ _ \<Rightarrow> False | PermissionGranted _ _ \<Rightarrow> False | _ \<Rightarrow> True)"

definition action_admitted :: "bus_io \<Rightarrow> bus \<Rightarrow> enveloped_event \<Rightarrow> cloto_id \<Rightarrow> bool" where
  "action_admitted io s env requester \<longleftrightarrow>
     (case en_issuer env of Some issuer \<Rightarrow> issuer = requester | None \<Rightarrow> True) \<and>
     authorize s requester InputControl \<and> bi_rate_ok io requester"

text \<open>Step (4) of the loop: state, effects and the messages put back into the channel.\<close>

definition post_process ::
  "bus_config \<Rightarrow> bus_io \<Rightarrow> enveloped_event \<Rightarrow> sequenced_event \<Rightarrow> bus \<Rightarrow> bus \<times> bus_effect list \<times> enveloped_event list" where
  "post_process cfg io env seq s =
     (case ev_data (en_event env) of
        ThoughtResponse agent_id engine content msg_id auto \<Rightarrow>
          (s, [LastSeenTouched agent_id],
           [child_message (bi_now io) env \<lparr>cm_id = bi_fresh_id io, cm_source = SrcAgent agent_id, cm_target_agent = None,
              cm_content = content, cm_timestamp = bi_now io, cm_metadata = []\<rparr>])
      | ActionRequested requester action \<Rightarrow>
          (s, if action_admitted io s env requester then [Broadcast seq] else [], [])
      | PermissionGranted plugin_id permission \<Rightarrow>
          (let (s', effects) = on_permission_granted io plugin_id permission s in (s', effects, []))
      | McpCallbackRequested cb \<Rightarrow>
          if mb_callback_type cb = ''external_message''
          then (let (seq', s1) = sequenced_new \<lparr>ev_trace_id = ev_trace_id (en_event env), ev_timestamp = bi_now io,
                        ev_data = ExternalAction (pending_action cfg io cb)\<rparr> s
                in (record_event cfg seq' s1, [Recorded seq', Broadcast seq'],
                    [child_message (bi_now io) env (external_message cfg io cb)]))
          else (s, [], [])
      | _ \<Rightarrow> (s, [], []))"

definition count_request :: "event_data \<Rightarrow> bus \<Rightarrow> bus" where
  "count_request d s = (case d of MessageReceived _ \<Rightarrow> s\<lparr>bs_total_requests := bs_total_requests s + 1\<rparr> | _ \<Rightarrow> s)"

definition process_event ::
  "bus_config \<Rightarrow> bus_io \<Rightarrow> enveloped_event \<Rightarrow> bus \<Rightarrow> bus \<times> bus_effect list \<times> enveloped_event list" where
  "process_event cfg io env s =
     (let e = en_event env;
          (seq, s1) = sequenced_new e s;
          s2 = count_request (ev_data e) (record_event cfg seq s1);
          (delivered, answers) = dispatch_event cfg io s2 env;
          (s3, effects, messages) = post_process cfg io env seq s2
      in (s3,
          [Recorded seq] @ started_turn e @ (if broadcast_at_once (ev_data e) then [Broadcast seq] else []) @ delivered @ effects,
          answers @ messages))"

text \<open>
  The channel is drained: the n-th event processed meets the n-th \<open>bus_io\<close>. Children are sent by
  tasks of their own, so they come after what is already there.
\<close>

partial_function (option) drain ::
  "bus_config \<Rightarrow> (nat \<Rightarrow> bus_io) \<Rightarrow> nat \<Rightarrow> enveloped_event list \<Rightarrow> bus \<Rightarrow> (nat \<times> bus \<times> bus_effect list) option" where
  "drain cfg io n queue s =
     (case queue of
        [] \<Rightarrow> Some (n, s, [])
      | env # rest \<Rightarrow>
          (let (s', effects, children) = process_event cfg (io n) env s
           in Option.bind (drain cfg io (Suc n) (rest @ children) s')
                (\<lambda>(k, s'', more). Some (k, s'', effects @ more))))"

end
