(* ===== verification/Event_Laws.thy ===== *)
theory Event_Laws
  imports Event_Bus "HOL-Library.Sublist"
begin

text \<open>
  What the event pipeline promises: a cascade of events ends whatever the plugins answer, an action
  is shown to subscribers only when its requester may act, and the history is the recent end of what
  was recorded.
\<close>

section \<open>Cascades end\<close>

definition raises_message :: "event_data \<Rightarrow> bool" where
  "raises_message d = (case d of ThoughtResponse _ _ _ _ _ \<Rightarrow> True | McpCallbackRequested _ \<Rightarrow> True | _ \<Rightarrow> False)"

abbreviation env_depth :: "enveloped_event \<Rightarrow> nat" where
  "env_depth env \<equiv> unat (en_depth env)"

abbreviation env_data :: "enveloped_event \<Rightarrow> event_data" where
  "env_data env \<equiv> ev_data (en_event env)"

definition depth_ok :: "nat \<Rightarrow> enveloped_event \<Rightarrow> bool" where
  "depth_ok m env \<longleftrightarrow> env_depth env \<le> m \<or> env_depth env = Suc m \<and> \<not> raises_message (env_data env)"

text \<open>How many events a queued event can come to, with \<open>N\<close> plugins and the limit \<open>m\<close>.\<close>

definition cascade_weight :: "nat \<Rightarrow> nat \<Rightarrow> enveloped_event \<Rightarrow> nat" where
  "cascade_weight N m env =
     (if env_depth env < m then (N + 2) ^ (m - env_depth env + 2) else if raises_message (env_data env) then 2 else 1)"

definition queue_weight :: "nat \<Rightarrow> nat \<Rightarrow> enveloped_event list \<Rightarrow> nat" where
  "queue_weight N m queue = sum_list (map (cascade_weight N m) queue)"

lemma queue_weight_simps [simp]:
  "queue_weight N m [] = 0"
  "queue_weight N m (env # queue) = cascade_weight N m env + queue_weight N m queue"
  "queue_weight N m (xs @ ys) = queue_weight N m xs + queue_weight N m ys"
  by (simp_all add: queue_weight_def)

lemma dispatch_children:
  assumes "env' \<in> set (snd (dispatch_event cfg io s env))"
  shows "en_depth env < bc_max_event_depth cfg \<and> en_depth env' = en_depth env + 1"
  using assms by (auto simp: dispatch_event_def redispatch_def split: if_splits plugin_answer.splits)

lemma length_concat_le: "(\<And>x. length (f x) \<le> 1) \<Longrightarrow> length (concat (map f xs)) \<le> length xs"
proof (induction xs)
  case (Cons x xs)
  from Cons.prems [of x] Cons.IH [OF Cons.prems] show ?case by simp
qed simp

lemma dispatch_children_length: "length (snd (dispatch_event cfg io s env)) \<le> length (bs_plugins s)"
  unfolding dispatch_event_def
  by (simp, intro impI length_concat_le) (simp add: redispatch_def split: plugin_answer.split)

lemma post_children:
  assumes "post_process cfg io env seq s = (s', effects, children)"
  shows "bs_plugins s' = bs_plugins s \<and> length children \<le> (if raises_message (env_data env) then 1 else 0) \<and>
     (\<forall>c \<in> set children. en_depth c = en_depth env + 1 \<and> \<not> raises_message (env_data c))"
  using assms
  by (auto simp: post_process_def raises_message_def child_message_def on_permission_granted_def
      update_effective_permissions_def record_event_def sequenced_new_def Let_def
      split: event_data.splits if_splits prod.splits option.splits)

lemma process_children:
  assumes "process_event cfg io env s = (s', effects, children)"
  obtains s2 answers messages where "children = answers @ messages" "bs_plugins s' = bs_plugins s" "bs_plugins s2 = bs_plugins s"
    "answers = snd (dispatch_event cfg io s2 env)" "length messages \<le> (if raises_message (env_data env) then 1 else 0)"
    "\<forall>c \<in> set messages. en_depth c = en_depth env + 1 \<and> \<not> raises_message (env_data c)"
proof -
  obtain seq s1 where seq: "sequenced_new (en_event env) s = (seq, s1)" by (rule prod.exhaust)
  define s2 where "s2 = count_request (env_data env) (record_event cfg seq s1)"
  have s2: "bs_plugins s2 = bs_plugins s"
    using seq by (auto simp: s2_def count_request_def record_event_def sequenced_new_def split: event_data.split)
  obtain delivered answers where d: "dispatch_event cfg io s2 env = (delivered, answers)" by (rule prod.exhaust)
  obtain s3 more messages where p: "post_process cfg io env seq s2 = (s3, more, messages)" by (rule prod_cases3)
  have "s' = s3" "children = answers @ messages"
    using assms seq d p by (simp_all add: process_event_def s2_def Let_def)
  with post_children [OF p] s2 d show thesis
    by (intro that [of answers messages s2]) simp_all
qed

lemma small_depth_succ:
  assumes "unat (d :: 8 word) \<le> 26"
  shows "unat (d + 1) = Suc (unat d)"
proof -
  have "d + 1 \<noteq> 0"
  proof
    assume "d + 1 = 0"
    then have "d = -1" by (simp add: eq_neg_iff_add_eq_0)
    with assms show False by (simp add: unat_max_word)
  qed
  then show ?thesis by (simp add: unatSuc add.commute)
qed

lemma child_weight:
  assumes "env_depth c = Suc d" "d < m"
  shows "cascade_weight N m c \<le> (N + 2) ^ (m - d + 1)"
proof (cases "Suc d < m")
  case True
  then have "m - Suc d + 2 = m - d + 1" by simp
  with assms True show ?thesis unfolding cascade_weight_def by (metis order_refl)
next
  case False
  have "(2::nat) \<le> (N + 2) ^ 1" by simp
  also have "\<dots> \<le> (N + 2) ^ (m - d + 1)" by (rule power_increasing) simp_all
  finally show ?thesis using False assms by (simp add: cascade_weight_def)
qed

lemma queue_weight_bound: "(\<And>c. c \<in> set queue \<Longrightarrow> cascade_weight N m c \<le> w) \<Longrightarrow> queue_weight N m queue \<le> length queue * w"
proof (induction queue)
  case (Cons c queue)
  from Cons.prems [of c] Cons.IH Cons.prems show ?case by fastforce
qed simp

text \<open>The children of an event weigh less than it does.\<close>

lemma process_event_decreases:
  assumes step: "process_event cfg io env s = (s', effects, children)"
    and limit: "unat (bc_max_event_depth cfg) = m" "m \<le> 25" and ok: "depth_ok m env" and plugins: "length (bs_plugins s) = N"
  shows "bs_plugins s' = bs_plugins s \<and> (\<forall>c \<in> set children. depth_ok m c) \<and> queue_weight N m children < cascade_weight N m env"
proof -
  obtain s2 answers messages where c: "children = answers @ messages" "bs_plugins s' = bs_plugins s" "bs_plugins s2 = bs_plugins s"
    "answers = snd (dispatch_event cfg io s2 env)" "length messages \<le> (if raises_message (env_data env) then 1 else 0)"
    "\<forall>c \<in> set messages. en_depth c = en_depth env + 1 \<and> \<not> raises_message (env_data c)"
    using step by (rule process_children)
  have succ: "unat (en_depth env + 1) = Suc (env_depth env)"
    using ok limit(2) by (intro small_depth_succ) (auto simp: depth_ok_def)
  have answers: "env_depth env < m \<and> env_depth a = Suc (env_depth env)" if "a \<in> set answers" for a
    using dispatch_children [of a cfg io s2 env] that succ limit(1) by (simp add: c(4) word_less_nat_alt)
  have messages: "env_depth a = Suc (env_depth env) \<and> \<not> raises_message (env_data a)" if "a \<in> set messages" for a
    using c(6) that succ by simp
  have all_ok: "depth_ok m a" if "a \<in> set children" for a
  proof (cases "a \<in> set answers")
    case True
    with answers [of a] show ?thesis by (auto simp: depth_ok_def)
  next
    case False
    with that c(1) have a: "a \<in> set messages" by simp
    then have "raises_message (env_data env)"
      using c(5) by (cases messages) (auto split: if_splits)
    with messages [OF a] ok show ?thesis by (auto simp: depth_ok_def)
  qed
  have "queue_weight N m children < cascade_weight N m env"
  proof (cases "env_depth env < m")
    case True
    have "queue_weight N m children \<le> length children * (N + 2) ^ (m - env_depth env + 1)"
      using answers messages c(1) child_weight [OF _ True] by (intro queue_weight_bound) auto
    also have "length children \<le> N + 1"
      using dispatch_children_length [of cfg io s2 env] c(1,3,4,5) plugins by (auto split: if_splits)
    then have "length children * (N + 2) ^ (m - env_depth env + 1) \<le> (N + 1) * (N + 2) ^ (m - env_depth env + 1)"
      by (rule mult_right_mono) simp
    also have "\<dots> < (N + 2) ^ (m - env_depth env + 2)"
      by simp
    finally show ?thesis
      using True by (simp add: cascade_weight_def)
  next
    case False
    then have "answers = []"
      using answers by (cases answers) auto
    moreover have "queue_weight N m messages \<le> length messages * 1"
      using messages False by (intro queue_weight_bound) (simp add: cascade_weight_def)
    ultimately show ?thesis
      using c(1,5) False by (auto simp: cascade_weight_def split: if_splits)
  qed
  with all_ok c(2) show ?thesis by blast
qed

lemma cascade_weight_pos: "cascade_weight N m env > 0"
  by (simp add: cascade_weight_def)

lemma drain_ends:
  assumes "unat (bc_max_event_depth cfg) = m" "m \<le> 25" "length (bs_plugins s) = N" "\<forall>env \<in> set queue. depth_ok m env"
  shows "\<exists>k s' effects. drain cfg io n queue s = Some (k, s', effects) \<and> k \<le> n + queue_weight N m queue"
  using assms(3,4)
proof (induction "queue_weight N m queue" arbitrary: queue n s rule: less_induct)
  case less
  show ?case
  proof (cases queue)
    case Nil
    then show ?thesis by (subst drain.simps) simp
  next
    case (Cons env rest)
    obtain s' effects children where step: "process_event cfg (io n) env s = (s', effects, children)"
      by (rule prod_cases3)
    have dec: "bs_plugins s' = bs_plugins s" "\<forall>c \<in> set children. depth_ok m c"
        "queue_weight N m children < cascade_weight N m env"
      using process_event_decreases [OF step assms(1,2)] less.prems Cons by simp_all
    have "queue_weight N m (rest @ children) < queue_weight N m queue"
      using dec(3) by (simp add: Cons)
    moreover have "length (bs_plugins s') = N" "\<forall>env \<in> set (rest @ children). depth_ok m env"
      using dec less.prems Cons by auto
    ultimately have "\<exists>k s'' more. drain cfg io (Suc n) (rest @ children) s' = Some (k, s'', more) \<and>
        k \<le> Suc n + queue_weight N m (rest @ children)"
      by (rule less.hyps)
    then obtain k s'' more where "drain cfg io (Suc n) (rest @ children) s' = Some (k, s'', more)"
        "k \<le> Suc n + queue_weight N m (rest @ children)"
      by (elim exE conjE)
    then show ?thesis
      using dec(3) step by (subst drain.simps) (simp add: Cons)
  qed
qed


section \<open>Who may act\<close>

lemma count_request_fields [simp]:
  "bs_history (count_request d s) = bs_history s" "bs_next_seq (count_request d s) = bs_next_seq s"
  "bs_permissions (count_request d s) = bs_permissions s" "bs_plugins (count_request d s) = bs_plugins s"
  by (simp_all add: count_request_def split: event_data.split)

lemma no_broadcast:
  "Broadcast q \<notin> set (started_turn e)" "Broadcast q \<notin> set (fst (dispatch_event cfg io s env))"
  "Recorded q \<notin> set (started_turn e)" "Recorded q \<notin> set (fst (dispatch_event cfg io s env))"
  by (auto simp: started_turn_def dispatch_event_def split: event_data.split message_source.split)

text \<open>An action is shown to the subscribers exactly when the event comes from its requester or from
  the kernel, the requester holds the permission to act, and the rate limiter admits it.\<close>

theorem action_shown_only_when_admitted:
  assumes "process_event cfg io env s = (s', effects, children)"
    and "ev_data (en_event env) = ActionRequested requester action"
  shows "Broadcast q \<in> set effects \<longleftrightarrow>
     q = \<lparr>sq_seq_id = bs_next_seq s, sq_event = en_event env\<rparr> \<and>
     (en_issuer env = None \<or> en_issuer env = Some requester) \<and>
     (\<exists>perms. hm_get (bs_permissions s) requester = Some perms \<and> InputControl \<in> set perms) \<and>
     bi_rate_ok io requester"
proof -
  define s2 where "s2 = count_request (ActionRequested requester action) (record_event cfg \<lparr>sq_seq_id = bs_next_seq s, sq_event = en_event env\<rparr>
    (s\<lparr>bs_next_seq := bs_next_seq s + 1\<rparr>))"
  have "bs_permissions s2 = bs_permissions s"
    by (simp add: s2_def record_event_def)
  moreover have "Broadcast q \<in> set effects \<longleftrightarrow>
      action_admitted io s2 env requester \<and> q = \<lparr>sq_seq_id = bs_next_seq s, sq_event = en_event env\<rparr>"
    using assms no_broadcast(1) [of q "en_event env"] no_broadcast(2) [of q cfg io s2 env]
    by (auto simp: process_event_def sequenced_new_def post_process_def broadcast_at_once_def s2_def [symmetric] Let_def
        split: prod.splits)
  ultimately show ?thesis
    by (auto simp: action_admitted_def authorize_def split: option.splits)
qed

section \<open>The history\<close>

datatype bus_op = Handle bus_io enveloped_event | Cleanup instant

fun bus_run :: "bus_config \<Rightarrow> bus_op list \<Rightarrow> bus \<Rightarrow> bus \<times> bus_effect list" where
  "bus_run cfg [] s = (s, [])"
| "bus_run cfg (Handle io env # ops) s =
     (let (s', effects, _) = process_event cfg io env s; (s'', more) = bus_run cfg ops s' in (s'', effects @ more))"
| "bus_run cfg (Cleanup now # ops) s = bus_run cfg ops (cleanup_old_events cfg now s)"

definition bus_new :: "string list \<Rightarrow> bus" where
  "bus_new plugins = \<lparr>bs_next_seq = 1, bs_history = [], bs_total_requests = 0, bs_plugins = plugins, bs_permissions = []\<rparr>"

definition recorded :: "bus_effect list \<Rightarrow> sequenced_event list" where
  "recorded effects = List.map_filter (\<lambda>f. case f of Recorded q \<Rightarrow> Some q | _ \<Rightarrow> None) effects"

lemma recorded_simps [simp]:
  "recorded [] = []" "recorded (Recorded q # fs) = q # recorded fs" "recorded (Broadcast q # fs) = recorded fs"
  "recorded (fs @ gs) = recorded fs @ recorded gs"
  by (simp_all add: recorded_def map_filter_simps map_filter_def)

lemma recorded_none: "(\<And>q. Recorded q \<notin> set fs) \<Longrightarrow> recorded fs = []"
  by (auto simp: recorded_def map_filter_def filter_empty_conv split: bus_effect.splits)

text \<open>The state keeps an end of what was recorded, numbered from the start.\<close>

definition history_inv :: "bus_config \<Rightarrow> sequenced_event list \<Rightarrow> bus \<Rightarrow> bool" where
  "history_inv cfg past s \<longleftrightarrow>
     suffix (bs_history s) past \<and> length (bs_history s) \<le> bc_max_history_size cfg \<and>
     map sq_seq_id past = map of_nat [1..<Suc (length past)] \<and> bs_next_seq s = of_nat (Suc (length past))"

lemma suffix_trim_front: "suffix (trim_front n xs) xs"
  by (simp add: trim_front_def suffix_drop)

lemma history_inv_record:
  assumes "history_inv cfg past s" "sequenced_new e s = (seq, s1)"
  shows "history_inv cfg (past @ [seq]) (record_event cfg seq s1)"
proof -
  have seq: "seq = \<lparr>sq_seq_id = of_nat (Suc (length past)), sq_event = e\<rparr>" "s1 = s\<lparr>bs_next_seq := of_nat (Suc (length past)) + 1\<rparr>"
    using assms by (simp_all add: sequenced_new_def history_inv_def)
  have "suffix (bs_history s @ [seq]) (past @ [seq])"
    using assms(1) by (auto simp: history_inv_def suffix_def)
  then have "suffix (trim_front (bc_max_history_size cfg) (bs_history s @ [seq])) (past @ [seq])"
    using suffix_trim_front suffix_order.trans by blast
  with assms(1) seq show ?thesis
    by (auto simp: history_inv_def record_event_def trim_front_def)
qed

lemma history_inv_same:
  "history_inv cfg past s \<Longrightarrow> bs_history s' = bs_history s \<Longrightarrow> bs_next_seq s' = bs_next_seq s \<Longrightarrow> history_inv cfg past s'"
  by (simp add: history_inv_def)

lemma history_inv_post:
  assumes "history_inv cfg past s" "post_process cfg io env seq s = (s', effects, children)"
  shows "history_inv cfg (past @ recorded effects) s'"
proof (cases "\<exists>cb. env_data env = McpCallbackRequested cb \<and> mb_callback_type cb = ''external_message''")
  case True
  then obtain cb where cb: "env_data env = McpCallbackRequested cb" "mb_callback_type cb = ''external_message''" by blast
  obtain q s1 where q: "sequenced_new \<lparr>ev_trace_id = ev_trace_id (en_event env), ev_timestamp = bi_now io,
      ev_data = ExternalAction (pending_action cfg io cb)\<rparr> s = (q, s1)" by (rule prod.exhaust)
  with assms(2) cb have "s' = record_event cfg q s1" "effects = [Recorded q, Broadcast q]"
    by (simp_all add: post_process_def)
  with history_inv_record [OF assms(1) q] show ?thesis by simp
next
  case False
  then have "recorded effects = [] \<and> bs_history s' = bs_history s \<and> bs_next_seq s' = bs_next_seq s"
    using assms(2)
    by (auto simp: post_process_def on_permission_granted_def update_effective_permissions_def Let_def
        intro!: recorded_none split: event_data.splits option.splits if_splits prod.splits)
  with assms(1) history_inv_same show ?thesis by simp
qed

lemma history_inv_process:
  assumes "history_inv cfg past s" "process_event cfg io env s = (s', effects, children)"
  shows "history_inv cfg (past @ recorded effects) s'"
proof -
  obtain seq s1 where seq: "sequenced_new (en_event env) s = (seq, s1)" by (rule prod.exhaust)
  define s2 where "s2 = count_request (env_data env) (record_event cfg seq s1)"
  obtain s3 more messages where p: "post_process cfg io env seq s2 = (s3, more, messages)" by (rule prod_cases3)
  have "history_inv cfg (past @ [seq]) s2"
    using history_inv_record [OF assms(1) seq] unfolding s2_def by (rule history_inv_same) simp_all
  from history_inv_post [OF this p] have "history_inv cfg (past @ seq # recorded more) s3" by simp
  moreover have "s' = s3" "recorded effects = seq # recorded more"
    using assms(2) seq p recorded_none [OF no_broadcast(3)] recorded_none [OF no_broadcast(4) [of _ cfg io s2 env]]
    by (auto simp: process_event_def s2_def [symmetric] Let_def split: prod.splits)
  ultimately show ?thesis by simp
qed

lemma history_inv_cleanup: "history_inv cfg past s \<Longrightarrow> history_inv cfg past (cleanup_old_events cfg now s)"
proof -
  assume inv: "history_inv cfg past s"
  let ?kept = "dropWhile (\<lambda>e. ev_timestamp (sq_event e) < now - bc_event_retention_hours cfg * 3600000) (bs_history s)"
  have "suffix (trim_front (bc_max_event_history cfg) ?kept) (bs_history s)"
    using suffix_trim_front suffix_dropWhile suffix_order.trans by blast
  with inv show ?thesis
    unfolding history_inv_def cleanup_old_events_def Let_def
    by (auto dest: suffix_length_le intro: suffix_order.trans)
qed

lemma bus_run_history:
  "history_inv cfg past s \<Longrightarrow> bus_run cfg ops s = (s', effects) \<Longrightarrow> history_inv cfg (past @ recorded effects) s'"
proof (induction cfg ops s arbitrary: past effects rule: bus_run.induct)
  case (2 cfg io env ops s)
  obtain s1 fs children where step: "process_event cfg io env s = (s1, fs, children)" by (rule prod_cases3)
  obtain more where rest: "bus_run cfg ops s1 = (s', more)" "effects = fs @ more"
    using "2.prems"(2) step by (auto split: prod.splits)
  from "2.IH" [OF step [symmetric] refl refl history_inv_process [OF "2.prems"(1) step] rest(1)]
  show ?case by (simp add: rest(2))
qed (auto intro: history_inv_cleanup)

text \<open>The history that subscribers replay from is, after any events and cleanups, the recent end of
  everything recorded, no longer than its limit; what is recorded is numbered 1, 2, 3, \<open>\<dots>\<close> without a
  gap, so no event is ever missing between two of the history.\<close>

theorem history_is_recent_end:
  assumes "bus_run cfg ops (bus_new plugins) = (s, effects)"
  shows "suffix (bs_history s) (recorded effects) \<and> length (bs_history s) \<le> bc_max_history_size cfg \<and>
     map sq_seq_id (recorded effects) = map of_nat [1..<Suc (length (recorded effects))]"
proof -
  have "history_inv cfg [] (bus_new plugins)"
    by (simp add: history_inv_def bus_new_def)
  from bus_run_history [OF this assms] show ?thesis
    by (simp add: history_inv_def)
qed


section \<open>At concrete inputs\<close>

definition quiet_io :: bus_io where
  "quiet_io = \<lparr>bi_now = 0, bi_from_name = (\<lambda>n. n), bi_fresh_id = ''m'', bi_answers = (\<lambda>_ _. PluginNone), bi_rate_ok = (\<lambda>_. True),
     bi_agents_for_server = (\<lambda>_. Err []), bi_agent_config = (\<lambda>_. None),
     bi_json = \<lparr>json_to_string = (\<lambda>_. []), json_from_str = (\<lambda>_. None)\<rparr>\<rparr>"

definition small_config :: bus_config where
  "small_config = \<lparr>bc_max_event_depth = 2, bc_max_history_size = 1, bc_max_event_history = 1, bc_event_retention_hours = 1,
     bc_default_agent_id = ''a''\<rparr>"

definition thought :: event_data where
  "thought = ThoughtResponse ''a'' ''e'' ''hello'' ''m'' False"

definition click :: "string \<Rightarrow> event_data" where
  "click requester = ActionRequested requester (MouseClick ''left'')"

definition sent :: "event_data \<Rightarrow> enveloped_event" where
  "sent d = system_event ''t'' 0 d"

definition thinking_io :: bus_io where
  "thinking_io = quiet_io\<lparr>bi_answers := (\<lambda>_ _. PluginEvent thought)\<rparr>"


definition clicked :: "string option \<Rightarrow> bus \<Rightarrow> bus \<times> bus_effect list \<times> enveloped_event list" where
  "clicked issuer s = process_event small_config quiet_io ((sent (click ''p''))\<lparr>en_issuer := issuer\<rparr>) s"

theorem action_shown_only_when_admitted_witness:
  "Broadcast \<lparr>sq_seq_id = 1, sq_event = en_event (sent (click ''p''))\<rparr> \<notin> set (fst (snd (clicked None (bus_new [''p'']))))"
proof -
  obtain s' effects children where "clicked None (bus_new [''p'']) = (s', effects, children)"
    by (rule prod_cases3)
  then show ?thesis
    using action_shown_only_when_admitted [of small_config quiet_io "(sent (click ''p''))\<lparr>en_issuer := None\<rparr>" "bus_new [''p'']" s' effects children "''p''" "MouseClick ''left''"]
    by (simp add: clicked_def sent_def system_event_def click_def bus_new_def)
qed

theorem history_is_recent_end_witness:
  "map sq_seq_id (recorded (snd (bus_run small_config [Handle quiet_io (sent thought), Handle quiet_io (sent thought)] (bus_new [])))) = [1, 2]"
proof -
  obtain s effects where run: "bus_run small_config [Handle quiet_io (sent thought), Handle quiet_io (sent thought)] (bus_new []) = (s, effects)"
    by (rule prod.exhaust)
  have "length (recorded effects) = 2"
    using run by (auto simp: process_event_def post_process_def sequenced_new_def started_turn_def broadcast_at_once_def dispatch_event_def
        sent_def system_event_def thought_def recorded_def map_filter_def Let_def split: if_splits)
  with history_is_recent_end [OF run] show ?thesis
    by (simp only: run fst_conv snd_conv) (simp add: upt_rec)
qed

text \<open>
  Three ways around the checks. The event a plugin answers with may grant a permission, to itself
  too: nothing looks at who issued it. An action is delivered to every plugin before its issuer and
  permission are checked. Two plugins may share one sandbox directory.
\<close>

theorem plugin_grants_itself:
  "let io = quiet_io\<lparr>bi_answers := (\<lambda>_ p. if p = ''p'' then PluginEvent (PermissionGranted ''p'' ''InputControl'') else PluginNone)\<rparr>;
       (s1, _, children) = process_event small_config io (sent thought) (bus_new [''p'']);
       (s2, _, _) = process_event small_config quiet_io (hd children) s1
   in en_issuer (hd children) = Some ''p'' \<and> \<not> authorize s1 ''p'' InputControl \<and> authorize s2 ''p'' InputControl"
  by (simp add: process_event_def post_process_def sequenced_new_def dispatch_event_def redispatch_def small_config_def quiet_io_def
      on_permission_granted_def update_effective_permissions_def authorize_def permission_from_str_def record_event_def
      trim_front_def bus_new_def sent_def system_event_def thought_def count_request_def Let_def)

theorem forged_action_is_delivered:
  "Delivered ''hand'' (en_event (sent (click ''p''))) \<in> set (fst (snd (clicked (Some ''forger'') (bus_new [''hand'']))))"
  by (simp add: clicked_def process_event_def post_process_def sequenced_new_def dispatch_event_def redispatch_def small_config_def
      quiet_io_def record_event_def bus_new_def sent_def system_event_def click_def count_request_def Let_def)

theorem sandboxes_collide:
  "plugin_sandbox_dir ''mail/in'' = plugin_sandbox_dir ''mail_in'' \<and> (''mail/in'' :: string) \<noteq> ''mail_in''"
  by code_simp

text \<open>A sandbox directory is one plain component below the common root.\<close>

lemma sanitized_chars: "c \<in> set (sanitized s) \<Longrightarrow> safe_char c"
  by (auto simp: sanitized_def safe_char_def)

theorem sandbox_is_one_component:
  "\<exists>name. plugin_sandbox_dir plugin_id = ''data/plugin_sandbox/'' @ name \<and> list_all safe_char name \<and> name \<noteq> [] \<and> name \<noteq> ''.'' \<and> name \<noteq> ''..''"
proof (cases "list_all ((=) (CHR ''.'')) (sanitized plugin_id)")
  case True
  have "list_all safe_char ''_unnamed''" by code_simp
  with True show ?thesis by (simp add: plugin_sandbox_dir_def Let_def)
next
  case False
  then have "sanitized plugin_id \<notin> {[], ''.'', ''..''}" by auto
  with False sanitized_chars show ?thesis
    by (auto simp: plugin_sandbox_dir_def Let_def list_all_iff)
qed

end
