(* ===== verification/Agents.thy ===== *)
theory Agents
  imports Approval_Gate Auth
begin

text \<open>
  The agents and who may change them: \<open>AgentManager\<close> (\<open>managers/agents.rs\<close>), the handlers over it
  (\<open>handlers/agents.rs\<close>) and the password check they share (\<open>handlers/utils.rs\<close>). The tables an
  agent owns rows in are one state, so that a deletion's transaction can be stated; the rows of the
  access tables are those of \<open>Access_Control\<close>. The agent tokens, which live in memory, are beside
  them: no handler here touches them.

  SQL statements fail by their fault. Password hashing, the clock, the lower-case mapping of names
  and file writes are arguments. \<open>check_auth\<close> is the first line of every handler and is modelled in
  \<open>Auth\<close>: these definitions are what follows it.
\<close>

section \<open>Identifiers\<close>

definition lower_or_digit :: "char \<Rightarrow> bool" where
  "lower_or_digit c \<longleftrightarrow> (CHR ''a'' \<le> c \<and> c \<le> CHR ''z'') \<or> (CHR ''0'' \<le> c \<and> c \<le> CHR ''9'')"

definition ascii_alnum :: "char \<Rightarrow> bool" where
  "ascii_alnum c \<longleftrightarrow> lower_or_digit c \<or> (CHR ''A'' \<le> c \<and> c \<le> CHR ''Z'')"

definition is_agent_slug :: "string \<Rightarrow> bool" where
  "is_agent_slug slug =
     (case slug of
        [] \<Rightarrow> False
      | c # cs \<Rightarrow> length slug \<le> 64 \<and> lower_or_digit c \<and>
          list_all (\<lambda>x. lower_or_digit x \<or> x = CHR ''_'' \<or> x = CHR ''-'') cs)"

text \<open>
  The characters of a name, byte by byte: a character of several bytes becomes an underscore at its
  first byte when it is white space, and nothing otherwise.
\<close>

fun slug_chars :: "string \<Rightarrow> string" where
  "slug_chars [] = []"
| "slug_chars (c # cs) =
     (if ascii_alnum c \<or> c = CHR ''_'' \<or> c = CHR ''-'' then c # slug_chars cs
      else if (of_char c :: nat) < 128 \<or> list_ex (starts_with (c # cs)) ws_units then CHR ''_'' # slug_chars cs
      else slug_chars cs)"

definition derive_agent_id :: "(string \<Rightarrow> string) \<Rightarrow> string \<Rightarrow> string option" where
  "derive_agent_id lower name =
     (case dropWhile (\<lambda>c. \<not> ascii_alnum c) (slug_chars (lower name)) of
        [] \<Rightarrow> None
      | rest \<Rightarrow> (let slug = take 64 rest in if is_agent_slug slug then Some slug else None))"

section \<open>Tables\<close>

record agent_record =
  ag_id :: string
  ag_name :: string
  ag_description :: string
  ag_enabled :: bool
  ag_last_seen :: instant
  ag_default_engine_id :: string
  ag_required_capabilities :: "string list"
  ag_metadata :: "(string, string) hmap"
  ag_power_password_hash :: "string option"
  ag_agent_type :: string

record agent_tables =
  tb_agents :: "agent_record list"
  tb_db :: db
  tb_chat :: "(string \<times> string) list"
  tb_trusted :: trusted_table
  tb_tokens :: agent_token_store

record agent_metadata =
  am_id :: string
  am_name :: string
  am_description :: string
  am_enabled :: bool
  am_last_seen :: instant
  am_status :: string
  am_default_engine_id :: "string option"
  am_required_capabilities :: "string list"
  am_metadata :: "(string, string) hmap"
  am_agent_type :: string

definition resolve_status :: "instant \<Rightarrow> duration \<Rightarrow> agent_metadata \<Rightarrow> agent_metadata" where
  "resolve_status now threshold a =
     a\<lparr>am_status := (if \<not> am_enabled a \<or> am_last_seen a = 0 then ''offline''
                    else if now - am_last_seen a \<le> threshold then ''online'' else ''degraded'')\<rparr>"

definition row_to_metadata :: "instant \<Rightarrow> duration \<Rightarrow> agent_record \<Rightarrow> agent_metadata" where
  "row_to_metadata now threshold row =
     (let m0 = ag_metadata row;
          m1 = (if ag_power_password_hash row \<noteq> None then hm_insert ''has_power_password'' ''true'' m0 else m0);
          m2 = (if hm_contains_key m1 ''avatar_path'' then hm_insert ''has_avatar'' ''true'' m1 else m1);
          m3 = (if hm_contains_key m2 ''vrm_path'' then hm_insert ''has_vrm'' ''true'' m2 else m2)
      in resolve_status now threshold
           \<lparr>am_id = ag_id row, am_name = ag_name row, am_description = ag_description row, am_enabled = ag_enabled row,
            am_last_seen = ag_last_seen row, am_status = [], am_default_engine_id = Some (ag_default_engine_id row),
            am_required_capabilities = ag_required_capabilities row, am_metadata = m3, am_agent_type = ag_agent_type row\<rparr>)"

definition find_agent :: "agent_tables \<Rightarrow> string \<Rightarrow> agent_record option" where
  "find_agent t i = find (\<lambda>r. ag_id r = i) (tb_agents t)"

definition ROW_NOT_FOUND :: db_error where
  "ROW_NOT_FOUND = ''no rows returned by a query that expected to return at least one row''"

text \<open>\<open>fetch_one\<close>.\<close>

definition fetch_agent :: "fault \<Rightarrow> agent_tables \<Rightarrow> string \<Rightarrow> db_error + agent_record" where
  "fetch_agent f t i = (case f of Some e \<Rightarrow> Err e | None \<Rightarrow> ok_or (find_agent t i) ROW_NOT_FOUND)"

definition agent_exists :: "fault \<Rightarrow> agent_tables \<Rightarrow> string \<Rightarrow> db_error + bool" where
  "agent_exists f t i = (case f of Some e \<Rightarrow> Err e | None \<Rightarrow> Ok (find_agent t i \<noteq> None))"

definition get_agent_config ::
  "fault \<Rightarrow> instant \<Rightarrow> duration \<Rightarrow> agent_tables \<Rightarrow> string \<Rightarrow> db_error + agent_metadata \<times> string" where
  "get_agent_config f now threshold t i =
     and_then (fetch_agent f t i) (\<lambda>row. Ok (row_to_metadata now threshold row, ag_default_engine_id row))"

definition list_agents :: "fault \<Rightarrow> instant \<Rightarrow> duration \<Rightarrow> agent_tables \<Rightarrow> db_error + agent_metadata list" where
  "list_agents f now threshold t =
     (case f of Some e \<Rightarrow> Err e
      | None \<Rightarrow> Ok (map (row_to_metadata now threshold) (filter (\<lambda>r. ag_agent_type r = ''agent'') (tb_agents t))))"

definition update_agent_rows ::
  "fault \<Rightarrow> string \<Rightarrow> (agent_record \<Rightarrow> agent_record) \<Rightarrow> agent_tables \<Rightarrow> agent_tables \<times> (db_error + nat)" where
  "update_agent_rows f i upd t =
     (case f of Some e \<Rightarrow> (t, Err e)
      | None \<Rightarrow> (t\<lparr>tb_agents := map (\<lambda>r. if ag_id r = i then upd r else r) (tb_agents t)\<rparr>,
                 Ok (length (filter (\<lambda>r. ag_id r = i) (tb_agents t)))))"

definition touch_last_seen :: "fault \<Rightarrow> instant \<Rightarrow> string \<Rightarrow> agent_tables \<Rightarrow> agent_tables \<times> (db_error + nat)" where
  "touch_last_seen f now i = update_agent_rows f i (\<lambda>r. r\<lparr>ag_last_seen := now\<rparr>)"

definition set_enabled :: "fault \<Rightarrow> instant \<Rightarrow> string \<Rightarrow> bool \<Rightarrow> agent_tables \<Rightarrow> agent_tables \<times> (db_error + nat)" where
  "set_enabled f now i enabled =
     update_agent_rows f i (\<lambda>r. r\<lparr>ag_enabled := enabled, ag_last_seen := (if enabled then now else 0)\<rparr>)"

record password_lib =
  pl_hash :: "string \<Rightarrow> string + string"
  pl_verify :: "string \<Rightarrow> string \<Rightarrow> string + bool"

definition set_password ::
  "password_lib \<Rightarrow> fault \<Rightarrow> string \<Rightarrow> string option \<Rightarrow> agent_tables \<Rightarrow> agent_tables \<times> (string + unit)" where
  "set_password pl f i password t =
     (case (case password of None \<Rightarrow> Ok None | Some pw \<Rightarrow> and_then (pl_hash pl pw) (\<lambda>h. Ok (Some h))) of
        Inl e \<Rightarrow> (t, Err e)
      | Inr hash \<Rightarrow>
          (case update_agent_rows f i (\<lambda>r. r\<lparr>ag_power_password_hash := hash\<rparr>) t of
             (t', Inl e) \<Rightarrow> (t', Err e)
           | (t', Inr _) \<Rightarrow> (t', Ok ())))"

definition get_granted_server_ids :: "fault \<Rightarrow> agent_tables \<Rightarrow> string \<Rightarrow> db_error + string list" where
  "get_granted_server_ids f t i =
     and_then (get_access_entries_for_agent f (tb_db t) i)
       (\<lambda>entries. Ok (map ac_server_id (filter (\<lambda>e. ac_entry_type e = ServerGrant \<and> ac_permission e = Allow) entries)))"

section \<open>Creation\<close>

definition create_agent_with_id ::
  "(string \<Rightarrow> string) \<Rightarrow> password_lib \<Rightarrow> fault \<Rightarrow> instant \<Rightarrow> string option \<Rightarrow> string \<Rightarrow> string \<Rightarrow> string \<Rightarrow>
   (string, string) hmap \<Rightarrow> string list \<Rightarrow> string option \<Rightarrow> agent_tables \<Rightarrow> agent_tables \<times> (string + string)" where
  "create_agent_with_id lower pl f now given name description engine metadata caps password t =
     (case and_then
        (case given of
           Some g \<Rightarrow> if is_agent_slug (trim g) then Ok (trim g)
                     else Err (''agent id '' @ quoted (trim g) @ '' must be lowercase ASCII: a letter or digit, then letters, digits, '' @
                       quoted ''_'' @ '' or '' @ quoted ''-'')
         | None \<Rightarrow> ok_or (derive_agent_id lower name)
             (''the name '' @ quoted name @ '' suggests no id: it has no ASCII letters or digits. Give the agent an id of its own; the name it is shown under does not change.''))
        (\<lambda>slug. and_then
          (case password of None \<Rightarrow> Ok None
           | Some pw \<Rightarrow> if pw = [] then Ok None else and_then (pl_hash pl pw) (\<lambda>h. Ok (Some h)))
          (\<lambda>hash. Ok (''agent.'' @ slug, hash))) of
        Inl e \<Rightarrow> (t, Err e)
      | Inr (i, hash) \<Rightarrow>
          (case f of
             Some e \<Rightarrow> (t, Err e)
           | None \<Rightarrow>
               if find_agent t i \<noteq> None then (t, Err UNIQUE_ERROR)
               else (t\<lparr>tb_agents := tb_agents t @
                       [\<lparr>ag_id = i, ag_name = name, ag_description = description, ag_enabled = True, ag_last_seen = now,
                         ag_default_engine_id = engine, ag_required_capabilities = caps, ag_metadata = metadata,
                         ag_power_password_hash = hash, ag_agent_type = ''agent''\<rparr>]\<rparr>, Ok i)))"

definition AGENT_NAME_MAX :: nat where "AGENT_NAME_MAX = 200"
definition AGENT_DESC_MAX :: nat where "AGENT_DESC_MAX = 5000"
definition AGENT_METADATA_MAX_PAIRS :: nat where "AGENT_METADATA_MAX_PAIRS = 50"
definition AGENT_METADATA_KEY_MAX :: nat where "AGENT_METADATA_KEY_MAX = 200"
definition AGENT_METADATA_VALUE_MAX :: nat where "AGENT_METADATA_VALUE_MAX = 5000"
definition AVATAR_MAX_BYTES :: nat where "AVATAR_MAX_BYTES = 5 * 1024 * 1024"
definition VRM_MAX_BYTES :: nat where "VRM_MAX_BYTES = 50 * 1024 * 1024"

declare AGENT_DESC_MAX_def [code del] AGENT_METADATA_VALUE_MAX_def [code del] AVATAR_MAX_BYTES_def [code del] VRM_MAX_BYTES_def [code del]

datatype handler_error =
    HPermissionDenied
  | HValidationError string
  | HAgentNotFound string
  | HValidation string
  | HInternal string

record create_agent_request =
  rq_id :: "string option"
  rq_name :: string
  rq_description :: string
  rq_default_engine :: string
  rq_metadata :: "(string, string) hmap option"
  rq_required_capabilities :: "string list option"
  rq_password :: "string option"

definition requested_id :: "create_agent_request \<Rightarrow> string option" where
  "requested_id rq = option_filter (\<lambda>s. s \<noteq> []) (map_option trim (rq_id rq))"

definition metadata_problem :: "(string, string) hmap \<Rightarrow> (string \<times> string) option" where
  "metadata_problem m = find (\<lambda>(k, v). length k > AGENT_METADATA_KEY_MAX \<or> length v > AGENT_METADATA_VALUE_MAX) m"

definition check_create :: "(string \<Rightarrow> string) \<Rightarrow> create_agent_request \<Rightarrow> handler_error + unit" where
  "check_create lower rq =
     (let metadata = unwrap_or (rq_metadata rq) [] in
      if rq_name rq = [] \<or> length (rq_name rq) > AGENT_NAME_MAX
      then Err (HValidationError (''Agent name must be 1-200 characters (got '' @ show_nat (length (rq_name rq)) @ '' chars)''))
      else if rq_description rq = [] \<or> length (rq_description rq) > AGENT_DESC_MAX
      then Err (HValidationError (''Agent description must be 1-5000 characters (got '' @ show_nat (length (rq_description rq)) @ '' chars)''))
      else if length metadata > AGENT_METADATA_MAX_PAIRS
      then Err (HValidationError (''Metadata must have at most 50 key-value pairs (got '' @ show_nat (length metadata) @ '')''))
      else case metadata_problem metadata of
        Some (k, v) \<Rightarrow> Err (HValidationError (''Metadata key '' @ quoted k @ '' exceeds limits''))
      | None \<Rightarrow>
          (case requested_id rq of
             Some given \<Rightarrow>
               if \<not> is_agent_slug given then Err (HValidationError (''Agent id '' @ quoted given @ '' must be lowercase ASCII'')) else Ok ()
           | None \<Rightarrow>
               if derive_agent_id lower (rq_name rq) = None
               then Err (HValidationError (''The name '' @ quoted (rq_name rq) @ '' has no ASCII letters or digits''))
               else Ok ()))"

definition auto_grant :: "string \<Rightarrow> string \<Rightarrow> string \<Rightarrow> access_control_entry" where
  "auto_grant stamp agent_id server_id =
     \<lparr>ac_id = None, ac_entry_type = ServerGrant, ac_agent_id = agent_id, ac_server_id = server_id, ac_tool_name = None,
      ac_permission = Allow, ac_granted_by = Some ''system'', ac_granted_at = stamp, ac_expires_at = None,
      ac_justification = Some ''Auto-granted during agent creation'', ac_metadata = None\<rparr>"

text \<open>A failing grant is only logged.\<close>

fun auto_grants :: "(nat \<Rightarrow> nat \<Rightarrow> fault) \<Rightarrow> int \<Rightarrow> string \<Rightarrow> string \<Rightarrow> string list \<Rightarrow> db \<Rightarrow> db" where
  "auto_grants f now stamp agent_id [] db = db"
| "auto_grants f now stamp agent_id (s # ss) db =
     auto_grants (\<lambda>i. f (Suc i)) now stamp agent_id ss (fst (save_access_control_entry (f 0) now (auto_grant stamp agent_id s) db))"

definition servers_to_grant :: "create_agent_request \<Rightarrow> string list" where
  "servers_to_grant rq =
     rq_default_engine rq #
       (case hm_get (unwrap_or (rq_metadata rq) []) ''preferred_memory'' of
          Some mem \<Rightarrow> if mem = [] then [] else [mem]
        | None \<Rightarrow> [])"

record agent_io =
  gi_lower :: "string \<Rightarrow> string"
  gi_password :: password_lib
  gi_now :: instant
  gi_stamp :: string
  gi_fault :: "nat \<Rightarrow> fault"
  gi_grant_fault :: "nat \<Rightarrow> nat \<Rightarrow> fault"
  gi_default_agent :: string
  gi_threshold :: duration
  gi_data_dir :: string
  gi_file_written :: "string + unit"
  gi_vision :: "string option"

definition create_agent :: "agent_io \<Rightarrow> create_agent_request \<Rightarrow> agent_tables \<Rightarrow> agent_tables \<times> (handler_error + string)" where
  "create_agent io rq t =
     (case check_create (gi_lower io) rq of
        Inl e \<Rightarrow> (t, Err e)
      | Inr _ \<Rightarrow>
          (case create_agent_with_id (gi_lower io) (gi_password io) (gi_fault io 0) (gi_now io) (requested_id rq) (rq_name rq)
                  (rq_description rq) (rq_default_engine rq) (unwrap_or (rq_metadata rq) [])
                  (unwrap_or (rq_required_capabilities rq) [''Reasoning'', ''Memory'']) (rq_password rq) t of
             (t', Inl e) \<Rightarrow> (t', Err (HInternal e))
           | (t', Inr i) \<Rightarrow>
               (t'\<lparr>tb_db := auto_grants (gi_grant_fault io) (gi_now io) (gi_stamp io) i (servers_to_grant rq) (tb_db t')\<rparr>, Ok i)))"

section \<open>Changes\<close>

text \<open>
  The nested \<open>json_set\<close> of the update: new metadata keep the fields that have routes of their own,
  where the row has them.
\<close>

definition KEPT_METADATA :: "string list" where
  "KEPT_METADATA = [''avatar_path'', ''avatar_description'', ''vrm_path'', ''avatar_updated_at'']"

definition kept_metadata :: "(string, string) hmap \<Rightarrow> (string, string) hmap \<Rightarrow> (string, string) hmap" where
  "kept_metadata old new = fold (\<lambda>k m. case hm_get old k of None \<Rightarrow> m | Some v \<Rightarrow> hm_insert k v m) KEPT_METADATA new"

definition update_agent_config ::
  "fault \<Rightarrow> string \<Rightarrow> string option \<Rightarrow> string option \<Rightarrow> string option \<Rightarrow> (string, string) hmap option \<Rightarrow> agent_tables \<Rightarrow>
   agent_tables \<times> (string + unit)" where
  "update_agent_config f i name description engine metadata t =
     (case update_agent_rows f i (\<lambda>r. r
             \<lparr>ag_metadata := (case metadata of None \<Rightarrow> ag_metadata r | Some m \<Rightarrow> kept_metadata (ag_metadata r) m),
              ag_name := unwrap_or name (ag_name r), ag_description := unwrap_or description (ag_description r),
              ag_default_engine_id := unwrap_or engine (ag_default_engine_id r)\<rparr>) t of
        (t', Inl e) \<Rightarrow> (t', Err e)
      | (t', Inr n) \<Rightarrow> (t', if n = 0 then Err (''Agent not found: '' @ i) else Ok ()))"

record update_agent_request =
  ru_name :: "string option"
  ru_description :: "string option"
  ru_default_engine_id :: "string option"
  ru_metadata :: "(string, string) hmap option"

definition text_problem :: "string \<Rightarrow> nat \<Rightarrow> string option \<Rightarrow> bool" where
  "text_problem what limit v = (case v of None \<Rightarrow> False | Some s \<Rightarrow> s = [] \<or> length s > limit)"

definition update_agent :: "agent_io \<Rightarrow> string \<Rightarrow> update_agent_request \<Rightarrow> agent_tables \<Rightarrow> agent_tables \<times> (handler_error + unit)" where
  "update_agent io i rq t =
     (if i = gi_default_agent io \<and> (ru_name rq \<noteq> None \<or> ru_description rq \<noteq> None)
      then (t, Err (HValidation ''Cannot modify name or description of the default agent''))
      else if text_problem ''name'' AGENT_NAME_MAX (ru_name rq) then (t, Err (HValidation ''Agent name must be 1-200 characters''))
      else if text_problem ''description'' AGENT_DESC_MAX (ru_description rq)
      then (t, Err (HValidation ''Agent description must be 1-5000 characters''))
      else
        (case update_agent_config (gi_fault io 0) i (ru_name rq) (ru_description rq) (ru_default_engine_id rq) (ru_metadata rq) t of
           (t', Inl e) \<Rightarrow> (t', Err (HInternal e))
         | (t', Inr _) \<Rightarrow> (t', Ok ())))"

definition verify_agent_password ::
  "password_lib \<Rightarrow> fault \<Rightarrow> agent_tables \<Rightarrow> string \<Rightarrow> string option \<Rightarrow> string \<Rightarrow> handler_error + unit" where
  "verify_agent_password pl f t i password operation =
     (case fetch_agent f t i of
        Inl e \<Rightarrow> Err (HInternal e)
      | Inr row \<Rightarrow>
          (case ag_power_password_hash row of
             None \<Rightarrow> Ok ()
           | Some hash \<Rightarrow>
               (case password of
                  None \<Rightarrow> Err (HValidationError (''Password required to '' @ operation))
                | Some pw \<Rightarrow>
                    (case pl_verify pl pw hash of
                       Inl e \<Rightarrow> Err (HInternal e)
                     | Inr ok \<Rightarrow> if ok then Ok () else Err HPermissionDenied))))"

definition power_toggle ::
  "agent_io \<Rightarrow> string \<Rightarrow> bool \<Rightarrow> string option \<Rightarrow> agent_tables \<Rightarrow> agent_tables \<times> (handler_error + bool)" where
  "power_toggle io i enabled password t =
     (case verify_agent_password (gi_password io) (gi_fault io 0) t i password ''control this agent's power state'' of
        Inl e \<Rightarrow> (t, Err e)
      | Inr _ \<Rightarrow>
          (case set_enabled (gi_fault io 1) (gi_now io) i enabled t of
             (t', Inl e) \<Rightarrow> (t', Err (HInternal e))
           | (t', Inr _) \<Rightarrow> (t', Ok enabled)))"

definition set_power_password ::
  "agent_io \<Rightarrow> string \<Rightarrow> string option \<Rightarrow> string \<Rightarrow> agent_tables \<Rightarrow> agent_tables \<times> (handler_error + bool)" where
  "set_power_password io i current new t =
     (case agent_exists (gi_fault io 0) t i of
        Inl e \<Rightarrow> (t, Err (HInternal e))
      | Inr False \<Rightarrow> (t, Err (HAgentNotFound i))
      | Inr True \<Rightarrow>
          (case verify_agent_password (gi_password io) (gi_fault io 1) t i current ''change this agent's password'' of
             Inl e \<Rightarrow> (t, Err e)
           | Inr _ \<Rightarrow>
               (let wanted = (if new = [] then None else Some new)
                in case set_password (gi_password io) (gi_fault io 2) i wanted t of
                     (t', Inl e) \<Rightarrow> (t', Err (HInternal e))
                   | (t', Inr _) \<Rightarrow> (t', Ok (wanted \<noteq> None)))))"

section \<open>Deletion\<close>

datatype agent_file = FileRemoved string | MemoryDeleted string string | FileStored string

definition metadata_path :: "agent_tables \<Rightarrow> string \<Rightarrow> string \<Rightarrow> string option" where
  "metadata_path t i key = Option.bind (find_agent t i) (\<lambda>r. hm_get (ag_metadata r) key)"

definition forget_agent :: "string \<Rightarrow> agent_tables \<Rightarrow> agent_tables" where
  "forget_agent i t =
     t\<lparr>tb_agents := filter (\<lambda>r. ag_id r \<noteq> i) (tb_agents t),
       tb_db := (tb_db t)\<lparr>db_access := filter (\<lambda>r. ac_agent_id r \<noteq> i) (db_access (tb_db t))\<rparr>,
       tb_chat := filter (\<lambda>(_, a). a \<noteq> i) (tb_chat t),
       tb_trusted := filter (\<lambda>(a, _). a \<noteq> i) (tb_trusted t)\<rparr>"

text \<open>The files go first; the rows go in one transaction, which a missing agent undoes.\<close>

definition delete_agent_rows ::
  "fault \<Rightarrow> string \<Rightarrow> string \<Rightarrow> agent_tables \<Rightarrow> agent_tables \<times> agent_file list \<times> (string + unit)" where
  "delete_agent_rows f i default_agent t =
     (if i = default_agent then (t, [], Err (''Cannot delete the default agent '' @ quoted i))
      else
        (let files = List.map_filter (\<lambda>key. map_option FileRemoved (metadata_path t i key)) [''avatar_path'', ''vrm_path'']
         in case f of
              Some e \<Rightarrow> (t, files, Err e)
            | None \<Rightarrow>
                if find_agent t i = None then (t, files, Err (''Agent not found: '' @ i))
                else (forget_agent i t, files, Ok ())))"

definition delete_agent ::
  "agent_io \<Rightarrow> string \<Rightarrow> string option \<Rightarrow> agent_tables \<Rightarrow> agent_tables \<times> agent_file list \<times> (handler_error + unit)" where
  "delete_agent io i password t =
     (if i = gi_default_agent io then (t, [], Err (HValidation (''Cannot delete the default agent '' @ quoted i)))
      else
        (case verify_agent_password (gi_password io) (gi_fault io 0) t i password ''delete this agent'' of
           Inl e \<Rightarrow> (t, [], Err e)
         | Inr _ \<Rightarrow>
             (let memory = (case get_agent_config (gi_fault io 1) (gi_now io) (gi_threshold io) t i of
                              Inl _ \<Rightarrow> None
                            | Inr (meta, _) \<Rightarrow> option_filter (\<lambda>s. s \<noteq> []) (hm_get (am_metadata meta) ''preferred_memory''))
              in case delete_agent_rows (gi_fault io 2) i (gi_default_agent io) t of
                   (t', files, Inl e) \<Rightarrow> (t', files, Err (HInternal e))
                 | (t', files, Inr _) \<Rightarrow>
                     (t', files @ (case memory of None \<Rightarrow> [] | Some server \<Rightarrow> [MemoryDeleted server i]), Ok ()))))"

section \<open>Pictures and models\<close>

definition mime_to_ext :: "string \<Rightarrow> string option" where
  "mime_to_ext mime = map_of
     [(''image/png'', ''png''), (''image/jpeg'', ''jpg''), (''image/jpg'', ''jpg''), (''image/gif'', ''gif''), (''image/webp'', ''webp''),
      (''image/svg+xml'', ''svg'')] mime"

definition ext_to_mime :: "string \<Rightarrow> string" where
  "ext_to_mime ext = unwrap_or (map_of
     [(''png'', ''image/png''), (''jpg'', ''image/jpeg''), (''jpeg'', ''image/jpeg''), (''gif'', ''image/gif''), (''webp'', ''image/webp''),
      (''svg'', ''image/svg+xml'')] ext) ''application/octet-stream''"

definition set_metadata :: "fault \<Rightarrow> string \<Rightarrow> (string \<times> string) list \<Rightarrow> agent_tables \<Rightarrow> agent_tables \<times> (db_error + nat)" where
  "set_metadata f i kvs = update_agent_rows f i (\<lambda>r. r\<lparr>ag_metadata := fold (\<lambda>(k, v). hm_insert k v) kvs (ag_metadata r)\<rparr>)"

definition clear_metadata :: "fault \<Rightarrow> string \<Rightarrow> string list \<Rightarrow> agent_tables \<Rightarrow> agent_tables \<times> (db_error + nat)" where
  "clear_metadata f i ks = update_agent_rows f i (\<lambda>r. r\<lparr>ag_metadata := fold hm_remove ks (ag_metadata r)\<rparr>)"

definition set_avatar :: "fault \<Rightarrow> string \<Rightarrow> string \<Rightarrow> string \<Rightarrow> string option \<Rightarrow> agent_tables \<Rightarrow> agent_tables \<times> (db_error + nat)" where
  "set_avatar f stamp i path description =
     set_metadata f i [(''avatar_path'', path), (''avatar_description'', unwrap_or description []), (''avatar_updated_at'', stamp)]"

definition clear_avatar :: "fault \<Rightarrow> string \<Rightarrow> agent_tables \<Rightarrow> agent_tables \<times> (db_error + nat)" where
  "clear_avatar f i = clear_metadata f i [''avatar_path'', ''avatar_description'', ''has_avatar'', ''avatar_updated_at'']"

definition set_vrm :: "fault \<Rightarrow> string \<Rightarrow> string \<Rightarrow> agent_tables \<Rightarrow> agent_tables \<times> (db_error + nat)" where
  "set_vrm f i path = set_metadata f i [(''vrm_path'', path)]"

definition clear_vrm :: "fault \<Rightarrow> string \<Rightarrow> agent_tables \<Rightarrow> agent_tables \<times> (db_error + nat)" where
  "clear_vrm f i = clear_metadata f i [''vrm_path'']"

text \<open>
  An upload: the checks, the file, the row. \<open>gi_vision\<close> is the description the vision server gave,
  if the agent may use one and it answered in time.
\<close>

definition stored_upload ::
  "agent_io \<Rightarrow> string \<Rightarrow> string \<Rightarrow> (agent_tables \<Rightarrow> agent_tables \<times> (db_error + nat)) \<Rightarrow> agent_tables \<Rightarrow>
   agent_tables \<times> agent_file list \<times> (handler_error + string)" where
  "stored_upload io i path write t =
     (case get_agent_config (gi_fault io 0) (gi_now io) (gi_threshold io) t i of
        Inl e \<Rightarrow> (t, [], Err (HInternal e))
      | Inr _ \<Rightarrow>
          (case gi_file_written io of
             Inl e \<Rightarrow> (t, [], Err (HInternal (''Failed to write file: '' @ e)))
           | Inr _ \<Rightarrow>
               (case write t of
                  (t', Inl e) \<Rightarrow> (t', [FileStored path], Err (HInternal e))
                | (t', Inr _) \<Rightarrow> (t', [FileStored path], Ok path))))"

definition upload_avatar ::
  "agent_io \<Rightarrow> string \<Rightarrow> nat \<Rightarrow> string option \<Rightarrow> agent_tables \<Rightarrow> agent_tables \<times> agent_file list \<times> (handler_error + string)" where
  "upload_avatar io i bytes content_type t =
     (if i = gi_default_agent io then (t, [], Err (HValidation ''Cannot modify avatar of the default agent''))
      else if bytes > AVATAR_MAX_BYTES then (t, [], Err (HValidation ''Avatar image too large''))
      else case mime_to_ext (unwrap_or content_type ''image/png'') of
        None \<Rightarrow> (t, [], Err (HValidation ''Unsupported image type''))
      | Some ext \<Rightarrow>
          (let path = gi_data_dir io @ ''/avatars/'' @ i @ ''.'' @ ext
           in stored_upload io i path (set_avatar (gi_fault io 1) (gi_stamp io) i path (gi_vision io)) t))"

definition upload_vrm ::
  "agent_io \<Rightarrow> string \<Rightarrow> nat \<Rightarrow> agent_tables \<Rightarrow> agent_tables \<times> agent_file list \<times> (handler_error + string)" where
  "upload_vrm io i bytes t =
     (if bytes > VRM_MAX_BYTES then (t, [], Err (HValidation ''VRM file too large''))
      else
        (let path = gi_data_dir io @ ''/vrm/'' @ i @ ''.vrm''
         in stored_upload io i path (set_vrm (gi_fault io 1) i path) t))"

definition cleared :: "agent_tables \<times> (db_error + nat) \<Rightarrow> agent_tables \<times> (handler_error + unit)" where
  "cleared r = (case r of (t', Inl e) \<Rightarrow> (t', Err (HInternal e)) | (t', Inr _) \<Rightarrow> (t', Ok ()))"

definition delete_avatar :: "agent_io \<Rightarrow> string \<Rightarrow> agent_tables \<Rightarrow> agent_tables \<times> agent_file list \<times> (handler_error + unit)" where
  "delete_avatar io i t =
     (if i = gi_default_agent io then (t, [], Err (HValidation ''Cannot modify avatar of the default agent''))
      else
        (let (t', res) = cleared (clear_avatar (gi_fault io 1) i t)
         in (t', (if gi_fault io 0 = None then List.map_filter (map_option FileRemoved) [metadata_path t i ''avatar_path''] else []), res)))"

definition delete_vrm :: "agent_io \<Rightarrow> string \<Rightarrow> agent_tables \<Rightarrow> agent_tables \<times> agent_file list \<times> (handler_error + unit)" where
  "delete_vrm io i t =
     (let (t', res) = cleared (clear_vrm (gi_fault io 1) i t)
      in (t', (if gi_fault io 0 = None then List.map_filter (map_option FileRemoved) [metadata_path t i ''vrm_path''] else []), res))"

end
