(* ===== verification/Agent_Laws.thy ===== *)
theory Agent_Laws
  imports Agents Access_Laws
begin

text \<open>
  What holds of the agents over any sequence of the handlers of \<open>Agents\<close>: what a power password
  guards, what a deletion takes with it and what it leaves, and what an identifier looks like.
\<close>

section \<open>Identifiers\<close>

lemma agent_slug_plain: "is_agent_slug s \<Longrightarrow> c \<in> set s \<Longrightarrow> lower_or_digit c \<or> c = CHR ''_'' \<or> c = CHR ''-''"
  by (auto simp: is_agent_slug_def list_all_iff split: list.splits)

lemma derived_is_slug: "derive_agent_id lower name = Some s \<Longrightarrow> is_agent_slug s"
  by (auto simp: derive_agent_id_def Let_def split: list.splits if_splits)

text \<open>An agent's id names one directory: a fixed prefix and a slug, with no separator in it.\<close>

theorem created_id_is_component:
  assumes "create_agent_with_id lower pl f now given name description engine metadata caps password t = (t', Ok i)"
  shows "\<exists>slug. i = ''agent.'' @ slug \<and> is_agent_slug slug \<and> CHR ''/'' \<notin> set i"
proof -
  let ?slug = "\<lambda>s. (case given of Some g \<Rightarrow> s = trim g \<and> is_agent_slug s | None \<Rightarrow> derive_agent_id lower name = Some s)"
  from assms have "\<exists>slug. i = ''agent.'' @ slug \<and> ?slug slug"
    by (auto simp: create_agent_with_id_def and_then_Ok_iff ok_or_Ok_iff split: sum.splits option.splits if_splits)
  then obtain slug where "i = ''agent.'' @ slug" "?slug slug" by (elim exE conjE)
  moreover from \<open>?slug slug\<close> have "is_agent_slug slug"
    by (cases given) (auto intro: derived_is_slug)
  moreover have "CHR ''/'' \<notin> set slug"
    using agent_slug_plain [OF \<open>is_agent_slug slug\<close>, of "CHR ''/''"] by (auto simp: lower_or_digit_def less_eq_char_def)
  ultimately show ?thesis by auto
qed

section \<open>Rows\<close>

lemma find_agent_map:
  assumes "\<And>r. ag_id (g r) = ag_id r"
  shows "find (\<lambda>r. ag_id r = i) (map g rs) = map_option g (find (\<lambda>r. ag_id r = i) rs)"
  using assms by (induction rs) auto

lemma find_agent_id: "find_agent t i = Some r \<Longrightarrow> ag_id r = i"
  by (auto simp: find_agent_def find_Some_iff)

lemma find_update_rows:
  assumes "update_agent_rows f j upd t = (t', res)" and "\<And>r. ag_id (upd r) = ag_id r"
  shows "find_agent t' i = (if f = None \<and> i = j then map_option upd (find_agent t i) else find_agent t i)"
proof (cases f)
  case None
  with assms(1) have t': "tb_agents t' = map (\<lambda>r. if ag_id r = j then upd r else r) (tb_agents t)"
    by (auto simp: update_agent_rows_def)
  have "find_agent t' i = map_option (\<lambda>r. if ag_id r = j then upd r else r) (find_agent t i)"
    unfolding find_agent_def t' by (rule find_agent_map) (simp add: assms(2))
  also have "\<dots> = (if i = j then map_option upd (find_agent t i) else find_agent t i)"
    by (cases "find_agent t i") (auto dest: find_agent_id)
  finally show ?thesis using None by simp
qed (use assms(1) in \<open>auto simp: update_agent_rows_def\<close>)

lemma find_filter_other: "j \<noteq> i \<Longrightarrow> find (\<lambda>r. ag_id r = i) (filter (\<lambda>r. ag_id r \<noteq> j) rs) = find (\<lambda>r. ag_id r = i) rs"
  by (induction rs) auto

lemma find_filter_self: "find (\<lambda>r. ag_id r = i) (filter (\<lambda>r. ag_id r \<noteq> i) rs) = None"
  by (simp add: find_None_iff)

section \<open>The power password\<close>

text \<open>The requests to the handlers, each with the circumstances it meets.\<close>

datatype agent_op =
    CreateAgent create_agent_request
  | UpdateAgent string update_agent_request
  | PowerToggle string bool "string option"
  | SetPowerPassword string "string option" string
  | DeleteAgent string "string option"
  | UploadAvatar string nat "string option"
  | DeleteAvatar string
  | UploadVrm string nat
  | DeleteVrm string
  | Heartbeat string

fun agent_exec :: "agent_io \<Rightarrow> agent_op \<Rightarrow> agent_tables \<Rightarrow> agent_tables" where
  "agent_exec io (CreateAgent rq) t = fst (create_agent io rq t)"
| "agent_exec io (UpdateAgent i rq) t = fst (update_agent io i rq t)"
| "agent_exec io (PowerToggle i enabled pw) t = fst (power_toggle io i enabled pw t)"
| "agent_exec io (SetPowerPassword i cur new) t = fst (set_power_password io i cur new t)"
| "agent_exec io (DeleteAgent i pw) t = fst (delete_agent io i pw t)"
| "agent_exec io (UploadAvatar i n ct) t = fst (upload_avatar io i n ct t)"
| "agent_exec io (DeleteAvatar i) t = fst (delete_avatar io i t)"
| "agent_exec io (UploadVrm i n) t = fst (upload_vrm io i n t)"
| "agent_exec io (DeleteVrm i) t = fst (delete_vrm io i t)"
| "agent_exec io (Heartbeat i) t = fst (touch_last_seen (gi_fault io 0) (gi_now io) i t)"

definition agent_run :: "(agent_io \<times> agent_op) list \<Rightarrow> agent_tables \<Rightarrow> agent_tables" where
  "agent_run ops t = foldl (\<lambda>t (io, op). agent_exec io op t) t ops"

text \<open>The password a request presents for an agent.\<close>

fun presented :: "agent_op \<Rightarrow> string \<Rightarrow> string option" where
  "presented (PowerToggle j _ pw) i = (if i = j then pw else None)"
| "presented (SetPowerPassword j cur _) i = (if i = j then cur else None)"
| "presented (DeleteAgent j pw) i = (if i = j then pw else None)"
| "presented _ i = None"

definition knows_password :: "agent_io \<Rightarrow> agent_op \<Rightarrow> string \<Rightarrow> string \<Rightarrow> bool" where
  "knows_password io op i hash \<longleftrightarrow> (\<exists>pw. presented op i = Some pw \<and> pl_verify (gi_password io) pw hash = Ok True)"

definition guarded :: "string \<Rightarrow> string \<Rightarrow> bool \<Rightarrow> agent_tables \<Rightarrow> bool" where
  "guarded i hash enabled t \<longleftrightarrow>
     (\<exists>r. find_agent t i = Some r \<and> ag_power_password_hash r = Some hash \<and> ag_enabled r = enabled)"

lemma guarded_cong: "tb_agents t' = tb_agents t \<Longrightarrow> guarded i h e t' = guarded i h e t"
  by (simp add: guarded_def find_agent_def)

lemma guarded_update:
  assumes "update_agent_rows f j upd t = (t', res)" and "\<And>r. ag_id (upd r) = ag_id r"
    and "guarded i h e t" and "j = i \<Longrightarrow> f = None \<Longrightarrow> (\<And>r. ag_power_password_hash (upd r) = ag_power_password_hash r \<and> ag_enabled (upd r) = ag_enabled r)"
  shows "guarded i h e t'"
  using assms(3,4) by (auto simp: guarded_def find_update_rows [OF assms(1,2)])

lemma refused_without_password:
  assumes "guarded i h e t" and "pw = None \<or> pl_verify pl (the pw) h \<noteq> Ok True"
  shows "\<exists>err. verify_agent_password pl f t i pw what = Err err"
  using assms by (auto simp: guarded_def verify_agent_password_def fetch_agent_def split: option.splits sum.splits)

lemma guarded_create:
  assumes "guarded i h e t"
  shows "guarded i h e (fst (create_agent io rq t))"
  using assms
  by (auto simp: create_agent_def create_agent_with_id_def guarded_def find_agent_def find_append
      split: sum.splits option.splits if_splits)

lemma guarded_stored:
  assumes "guarded i h e t" and "\<And>t' res. write t = (t', res) \<Longrightarrow> guarded i h e t'"
  shows "guarded i h e (fst (stored_upload io j path write t))"
  using assms by (auto simp: stored_upload_def split: sum.splits prod.splits)

lemma guarded_set_metadata:
  assumes "guarded i h e t" and "set_metadata f j kvs t = (t', res)"
  shows "guarded i h e t'"
  using guarded_update [OF assms(2) [unfolded set_metadata_def] _ assms(1)] by simp

lemma guarded_clear_metadata:
  assumes "guarded i h e t" and "clear_metadata f j ks t = (t', res)"
  shows "guarded i h e t'"
  using guarded_update [OF assms(2) [unfolded clear_metadata_def] _ assms(1)] by simp

lemma guarded_power:
  assumes "guarded i h e t" and "\<not> knows_password io (PowerToggle j b pw) i h"
  shows "guarded i h e (fst (power_toggle io j b pw t))"
proof (cases "j = i")
  case True
  with assms obtain err where
    "verify_agent_password (gi_password io) (gi_fault io 0) t i pw ''control this agent's power state'' = Err err"
    using refused_without_password [OF assms(1), of pw "gi_password io" "gi_fault io 0" "''control this agent's power state''"] assms(2)
    by (cases pw) (auto simp: knows_password_def)
  with True assms(1) show ?thesis by (simp add: power_toggle_def)
next
  case False
  then show ?thesis
    using assms(1) guarded_update [OF _ _ assms(1)]
    by (auto simp: power_toggle_def set_enabled_def split: sum.splits prod.splits)
qed

lemma guarded_password:
  assumes "guarded i h e t" and "\<not> knows_password io (SetPowerPassword j cur new) i h"
  shows "guarded i h e (fst (set_power_password io j cur new t))"
proof (cases "j = i")
  case True
  with assms obtain err where
    "verify_agent_password (gi_password io) (gi_fault io 1) t i cur ''change this agent's password'' = Err err"
    using refused_without_password [OF assms(1), of cur "gi_password io" "gi_fault io 1" "''change this agent's password''"] assms(2)
    by (cases cur) (auto simp: knows_password_def)
  with True assms(1) show ?thesis by (auto simp: set_power_password_def split: sum.splits bool.splits)
next
  case False
  then show ?thesis
    using assms(1) guarded_update [OF _ _ assms(1)]
    by (auto simp: set_power_password_def set_password_def Let_def split: sum.splits prod.splits bool.splits)
qed

lemma guarded_forget: "j \<noteq> i \<Longrightarrow> guarded i h e t \<Longrightarrow> guarded i h e (forget_agent j t)"
  by (simp add: guarded_def find_agent_def forget_agent_def find_filter_other)

lemma guarded_delete:
  assumes "guarded i h e t" and "\<not> knows_password io (DeleteAgent j pw) i h"
  shows "guarded i h e (fst (delete_agent io j pw t))"
proof (cases "j = i")
  case True
  with assms obtain err where "verify_agent_password (gi_password io) (gi_fault io 0) t i pw ''delete this agent'' = Err err"
    using refused_without_password [OF assms(1), of pw "gi_password io" "gi_fault io 0" "''delete this agent''"] assms(2)
    by (cases pw) (auto simp: knows_password_def)
  with True assms(1) show ?thesis by (auto simp: delete_agent_def)
next
  case False
  then show ?thesis
    using assms(1) guarded_forget [OF False assms(1)]
    by (auto simp: delete_agent_def delete_agent_rows_def Let_def split: sum.splits prod.splits option.splits if_splits)
qed

lemma guarded_exec:
  assumes "guarded i h e t" and "\<not> knows_password io op i h"
  shows "guarded i h e (agent_exec io op t)"
proof (cases op)
  case (CreateAgent rq)
  then show ?thesis by (simp add: guarded_create [OF assms(1)])
next
  case (UpdateAgent j rq)
  have "guarded i h e t'" if "update_agent_config f j n d en m t = (t', res)" for f n d en m t' res
    using that guarded_update [OF _ _ assms(1)]
    by (auto simp: update_agent_config_def split: prod.splits sum.splits)
  with assms(1) UpdateAgent show ?thesis by (auto simp: update_agent_def split: prod.splits sum.splits)
next
  case (PowerToggle j b pw)
  with assms show ?thesis by (simp add: guarded_power)
next
  case (SetPowerPassword j cur new)
  with assms show ?thesis by (simp add: guarded_password)
next
  case (DeleteAgent j pw)
  with assms show ?thesis by (simp add: guarded_delete)
next
  case (UploadAvatar j n ct)
  with assms(1) guarded_stored [OF assms(1)] guarded_set_metadata [OF assms(1)] show ?thesis
    by (auto simp: upload_avatar_def set_avatar_def Let_def split: option.splits)
next
  case (DeleteAvatar j)
  with assms(1) guarded_clear_metadata [OF assms(1)] show ?thesis
    by (auto simp: delete_avatar_def clear_avatar_def cleared_def split: prod.splits sum.splits)
next
  case (UploadVrm j n)
  with assms(1) guarded_stored [OF assms(1)] guarded_set_metadata [OF assms(1)] show ?thesis
    by (auto simp: upload_vrm_def set_vrm_def Let_def)
next
  case (DeleteVrm j)
  with assms(1) guarded_clear_metadata [OF assms(1)] show ?thesis
    by (auto simp: delete_vrm_def clear_vrm_def cleared_def split: prod.splits sum.splits)
next
  case (Heartbeat j)
  obtain t' res where "update_agent_rows (gi_fault io 0) j (\<lambda>r. r\<lparr>ag_last_seen := gi_now io\<rparr>) t = (t', res)"
    by (rule prod.exhaust)
  with Heartbeat guarded_update [OF this _ assms(1)] show ?thesis
    by (simp add: touch_last_seen_def)
qed

lemma guarded_run:
  "guarded i h e t \<Longrightarrow> (\<And>io op. (io, op) \<in> set ops \<Longrightarrow> \<not> knows_password io op i h) \<Longrightarrow> guarded i h e (agent_run ops t)"
proof (induction ops arbitrary: t)
  case (Cons x ops)
  obtain io op where x: "x = (io, op)" by (rule prod.exhaust)
  have "\<not> knows_password io op i h" using Cons.prems(2) [of io op] x by simp
  from guarded_exec [OF Cons.prems(1) this] have step: "guarded i h e (agent_exec io op t)" .
  have "guarded i h e (agent_run ops (agent_exec io op t))"
    by (rule Cons.IH [OF step]) (use Cons.prems(2) in simp)
  then show ?case by (simp add: agent_run_def x)
qed (simp add: agent_run_def)

text \<open>What a power password guards. As long as no request for the agent carries a password that
  its stored hash accepts, no sequence of requests, for this agent and for others, deletes it,
  turns it on or off, or changes the hash.\<close>

theorem power_password_guards:
  assumes "find_agent t i = Some r" and "ag_power_password_hash r = Some h"
    and "\<forall>(io, op) \<in> set ops. \<not> knows_password io op i h"
  shows "\<exists>r'. find_agent (agent_run ops t) i = Some r' \<and> ag_power_password_hash r' = Some h \<and> ag_enabled r' = ag_enabled r"
proof -
  have "guarded i h (ag_enabled r) t" using assms(1,2) by (simp add: guarded_def)
  then have "guarded i h (ag_enabled r) (agent_run ops t)"
    by (rule guarded_run) (use assms(3) in auto)
  then show ?thesis by (simp add: guarded_def)
qed

section \<open>Deletion\<close>

lemma delete_agent_Ok:
  assumes "delete_agent io i pw t = (t', files, Ok ())"
  shows "t' = forget_agent i t" and "i \<noteq> gi_default_agent io"
  using assms by (auto simp: delete_agent_def delete_agent_rows_def Let_def split: sum.splits prod.splits option.splits if_splits)

lemma delete_agent_Err:
  assumes "delete_agent io i pw t = (t', files, Err e)"
  shows "t' = t"
  using assms by (auto simp: delete_agent_def delete_agent_rows_def Let_def split: sum.splits prod.splits option.splits if_splits)

lemma save_grant_rows:
  "set (db_access (fst (save_access_control_entry f now e db))) \<subseteq>
     set (db_access db) \<union> {r. ac_agent_id r = ac_agent_id e \<and> ac_server_id r = ac_server_id e \<and> ac_granted_by r = ac_granted_by e}"
  by (auto simp: save_access_control_entry_def insert_access_def row_of_entry_def ensure_server_def Let_def
      split: option.splits sum.splits if_splits)

lemma auto_grants_rows:
  "r \<in> set (db_access (auto_grants f now stamp i ss db)) \<Longrightarrow>
     r \<in> set (db_access db) \<or> (ac_agent_id r = i \<and> ac_server_id r \<in> set ss \<and> ac_granted_by r = Some ''system'')"
proof (induction ss arbitrary: f db)
  case (Cons s ss)
  let ?db = "fst (save_access_control_entry (f 0) now (auto_grant stamp i s) db)"
  from Cons.prems have "r \<in> set (db_access (auto_grants (\<lambda>i. f (Suc i)) now stamp i ss ?db))" by simp
  from Cons.IH [OF this] consider "r \<in> set (db_access ?db)" | "ac_agent_id r = i \<and> ac_server_id r \<in> set ss \<and> ac_granted_by r = Some ''system''"
    by blast
  then show ?case
  proof cases
    case 1
    with save_grant_rows [of "f 0" now "auto_grant stamp i s" db] show ?thesis by (auto simp: auto_grant_def)
  qed simp
qed simp

lemma create_agent_access:
  assumes "create_agent io rq t = (t', Ok i)" and "r \<in> set (db_access (tb_db t'))"
  shows "r \<in> set (db_access (tb_db t)) \<or> (ac_agent_id r = i \<and> ac_server_id r \<in> set (servers_to_grant rq) \<and> ac_granted_by r = Some ''system'')"
proof -
  from assms(1) have "tb_db t' = auto_grants (gi_grant_fault io) (gi_now io) (gi_stamp io) i (servers_to_grant rq) (tb_db t)"
    by (auto simp: create_agent_def create_agent_with_id_def split: sum.splits prod.splits option.splits if_splits)
  with assms(2) auto_grants_rows show ?thesis by fastforce
qed

definition untouched :: "string \<Rightarrow> agent_tables \<Rightarrow> agent_tables \<Rightarrow> bool" where
  "untouched i t t' \<longleftrightarrow>
     filter (\<lambda>r. ag_id r \<noteq> i) (tb_agents t') = filter (\<lambda>r. ag_id r \<noteq> i) (tb_agents t) \<and>
     filter (\<lambda>r. ac_agent_id r \<noteq> i) (db_access (tb_db t')) = filter (\<lambda>r. ac_agent_id r \<noteq> i) (db_access (tb_db t)) \<and>
     filter (\<lambda>(_, a). a \<noteq> i) (tb_chat t') = filter (\<lambda>(_, a). a \<noteq> i) (tb_chat t) \<and>
     filter (\<lambda>(a, _). a \<noteq> i) (tb_trusted t') = filter (\<lambda>(a, _). a \<noteq> i) (tb_trusted t)"


section \<open>At concrete inputs\<close>

definition quiet_agents :: agent_io where
  "quiet_agents = \<lparr>gi_lower = ascii_lower, gi_password = \<lparr>pl_hash = (\<lambda>pw. Ok (''h:'' @ pw)), pl_verify = (\<lambda>pw h. Ok (h = ''h:'' @ pw))\<rparr>,
     gi_now = 1, gi_stamp = ''t'', gi_fault = (\<lambda>_. None), gi_grant_fault = (\<lambda>_ _. None), gi_default_agent = ''agent.default'',
     gi_threshold = 30000, gi_data_dir = ''data'', gi_file_written = Ok (), gi_vision = None\<rparr>"

definition sakura :: agent_record where
  "sakura = \<lparr>ag_id = ''agent.s'', ag_name = ''S'', ag_description = ''d'', ag_enabled = True, ag_last_seen = 1,
     ag_default_engine_id = ''e'', ag_required_capabilities = [], ag_metadata = [(''avatar_path'', ''data/settings.json'')],
     ag_power_password_hash = Some ''h:pw'', ag_agent_type = ''agent''\<rparr>"

definition with_sakura :: agent_tables where
  "with_sakura = \<lparr>tb_agents = [sakura],
     tb_db = \<lparr>db_servers = [], db_access = [], db_access_seq = 0,
       db_rules = [\<lparr>rr_agent_id = ''agent.s'', rr_server_id = ''e'', rr_tool_name = [], rr_equals = ''{}'', rr_required = ''[]'', rr_updated_at = ''t''\<rparr>],
       db_agents = []\<rparr>,
     tb_chat = [(''m'', ''agent.s'')], tb_trusted = [(''agent.s'', ''ls'')],
     tb_tokens = [(''fp'', \<lparr>at_agent_id = ''agent.s'', at_expires_at = 10\<rparr>)]\<rparr>"

theorem power_password_guards_witness:
  "\<exists>r'. find_agent (agent_run [(quiet_agents, PowerToggle ''agent.s'' False (Some ''guess'')), (quiet_agents, DeleteAgent ''agent.s'' None)] with_sakura) ''agent.s''
        = Some r' \<and> ag_power_password_hash r' = Some ''h:pw'' \<and> ag_enabled r' = True"
  using power_password_guards [of with_sakura "''agent.s''" sakura "''h:pw''"
      "[(quiet_agents, PowerToggle ''agent.s'' False (Some ''guess'')), (quiet_agents, DeleteAgent ''agent.s'' None)]"]
  by (simp add: with_sakura_def sakura_def find_agent_def knows_password_def quiet_agents_def)

definition sakura_deleted :: "agent_tables \<times> agent_file list \<times> (handler_error + unit)" where
  "sakura_deleted = delete_agent quiet_agents ''agent.s'' (Some ''pw'') with_sakura"

lemma sakura_gone: "sakura_deleted = (forget_agent ''agent.s'' with_sakura, [FileRemoved ''data/settings.json''], Ok ())"
  by (simp add: sakura_deleted_def delete_agent_def delete_agent_rows_def verify_agent_password_def fetch_agent_def get_agent_config_def
      find_agent_def metadata_path_def with_sakura_def sakura_def quiet_agents_def row_to_metadata_def resolve_status_def
      hm_get_def hm_insert_def hm_remove_def hm_contains_key_def map_filter_def option_filter_def ok_or_def and_then_def)


text \<open>
  What a deletion leaves: the argument rules of the agent and its live tokens, which name an agent
  created later under the same id. And the file it removes is whatever path the metadata hold,
  which the request that created the agent may have set.
\<close>

theorem deleted_agent_keeps_token_and_rules:
  "map rr_agent_id (db_rules (tb_db (fst sakura_deleted))) = [''agent.s''] \<and>
   map (at_agent_id \<circ> snd) (tb_tokens (fst sakura_deleted)) = [''agent.s'']"
  by (simp add: sakura_gone forget_agent_def with_sakura_def)

theorem deletion_removes_named_file: "FileRemoved ''data/settings.json'' \<in> set (fst (snd sakura_deleted))"
  by (simp add: sakura_gone)

end
