(* ===== verification/Audit_Log.thy ===== *)
theory Audit_Log
  imports Agents Server_Table
begin

text \<open>
  The audit log and its hash chain (\<open>db/audit.rs\<close>, with the retention trigger of
  \<open>migrations/20260214000000_add_constraints.sql\<close>), and the health scan and repair of the database
  (\<open>db/health.rs\<close>). The hash is the argument \<open>sha\<close>, hexadecimal as the code stores it; times are
  printed and parsed by arguments. A write is one transaction: it happens, or its fault does.
\<close>

section \<open>Entries\<close>

record audit_entry =
  ae_timestamp :: instant
  ae_event_type :: string
  ae_actor_id :: "string option"
  ae_target_id :: "string option"
  ae_permission :: "string option"
  ae_result :: string
  ae_reason :: string
  ae_metadata :: "json option"
  ae_trace_id :: "string option"

record audit_row =
  au_id :: int
  au_timestamp :: string
  au_event_type :: string
  au_actor_id :: "string option"
  au_target_id :: "string option"
  au_permission :: "string option"
  au_result :: string
  au_reason :: string
  au_metadata :: "string option"
  au_trace_id :: "string option"
  au_chain_hash :: "string option"

record audit_log =
  al_rows :: "audit_row list"
  al_seq :: int

record audit_lib =
  ax_sha :: "string \<Rightarrow> string"
  ax_rfc3339 :: "instant \<Rightarrow> string"
  ax_parse_time :: "string \<Rightarrow> instant option"
  ax_json :: json_text

definition canonical_text :: "string \<Rightarrow> string \<Rightarrow> string option \<Rightarrow> string option \<Rightarrow> string \<Rightarrow> string" where
  "canonical_text timestamp event_type actor target result =
     timestamp @ ''|'' @ event_type @ ''|'' @ unwrap_or actor [] @ ''|'' @ unwrap_or target [] @ ''|'' @ result"

definition canonical_data :: "string \<Rightarrow> audit_entry \<Rightarrow> string" where
  "canonical_data timestamp e = canonical_text timestamp (ae_event_type e) (ae_actor_id e) (ae_target_id e) (ae_result e)"

definition compute_chain_hash :: "(string \<Rightarrow> string) \<Rightarrow> string option \<Rightarrow> string \<Rightarrow> string" where
  "compute_chain_hash sha previous data = sha ((case previous of None \<Rightarrow> [] | Some p \<Rightarrow> p @ ''|'') @ data)"

section \<open>Writing\<close>

text \<open>\<open>ORDER BY id DESC LIMIT 1\<close>; the rows are kept in the order of their ids.\<close>

definition last_chain_hash :: "audit_log \<Rightarrow> string option" where
  "last_chain_hash l = (case rev (al_rows l) of [] \<Rightarrow> None | r # _ \<Rightarrow> au_chain_hash r)"

text \<open>The trigger after every insert: rows whose time is textually before the cutoff go.\<close>

definition audit_log_cleanup :: "string \<Rightarrow> audit_log \<Rightarrow> audit_log" where
  "audit_log_cleanup cutoff l = l\<lparr>al_rows := filter (\<lambda>r. \<not> au_timestamp r < cutoff) (al_rows l)\<rparr>"

definition row_of_audit :: "audit_lib \<Rightarrow> audit_log \<Rightarrow> audit_entry \<Rightarrow> audit_row" where
  "row_of_audit ax l e =
     (let timestamp = ax_rfc3339 ax (ae_timestamp e)
      in \<lparr>au_id = al_seq l + 1, au_timestamp = timestamp, au_event_type = ae_event_type e, au_actor_id = ae_actor_id e,
          au_target_id = ae_target_id e, au_permission = ae_permission e, au_result = ae_result e, au_reason = ae_reason e,
          au_metadata = map_option (json_to_string (ax_json ax)) (ae_metadata e), au_trace_id = ae_trace_id e,
          au_chain_hash = Some (compute_chain_hash (ax_sha ax) (last_chain_hash l) (canonical_data timestamp e))\<rparr>)"

definition write_audit_log :: "audit_lib \<Rightarrow> fault \<Rightarrow> string \<Rightarrow> audit_entry \<Rightarrow> audit_log \<Rightarrow> audit_log \<times> (db_error + unit)" where
  "write_audit_log ax f cutoff e l =
     (case f of
        Some err \<Rightarrow> (l, Err err)
      | None \<Rightarrow> (audit_log_cleanup cutoff (l\<lparr>al_rows := al_rows l @ [row_of_audit ax l e], al_seq := al_seq l + 1\<rparr>), Ok ()))"

definition AUDIT_MAX_RETRIES :: nat where
  "AUDIT_MAX_RETRIES = 3"

text \<open>The task behind \<open>spawn_audit_log\<close>: up to three attempts, and which counter it moves.\<close>

fun audit_attempts :: "audit_lib \<Rightarrow> (nat \<Rightarrow> fault) \<Rightarrow> string \<Rightarrow> audit_entry \<Rightarrow> nat \<Rightarrow> audit_log \<Rightarrow> audit_log \<times> bool" where
  "audit_attempts ax f cutoff e 0 l = (l, False)"
| "audit_attempts ax f cutoff e (Suc n) l =
     (case write_audit_log ax (f 0) cutoff e l of
        (l', Inr _) \<Rightarrow> (l', True)
      | (l', Inl _) \<Rightarrow> audit_attempts ax (\<lambda>i. f (Suc i)) cutoff e n l')"

record audit_counters =
  ac_writes_ok :: u64
  ac_writes_failed :: u64

definition spawn_audit_log ::
  "audit_lib \<Rightarrow> (nat \<Rightarrow> fault) \<Rightarrow> string \<Rightarrow> audit_entry \<Rightarrow> audit_log \<times> audit_counters \<Rightarrow> audit_log \<times> audit_counters" where
  "spawn_audit_log ax f cutoff e s =
     (case audit_attempts ax f cutoff e AUDIT_MAX_RETRIES (fst s) of
        (l', True) \<Rightarrow> (l', (snd s)\<lparr>ac_writes_ok := ac_writes_ok (snd s) + 1\<rparr>)
      | (l', False) \<Rightarrow> (l', (snd s)\<lparr>ac_writes_failed := ac_writes_failed (snd s) + 1\<rparr>))"

section \<open>Reading\<close>

text \<open>SQLite's \<open>LIMIT\<close>: a negative one is none.\<close>

definition sql_limit :: "int \<Rightarrow> 'a list \<Rightarrow> 'a list" where
  "sql_limit n xs = (if n < 0 then xs else take (nat n) xs)"

definition audit_of_row :: "audit_lib \<Rightarrow> audit_row \<Rightarrow> string + audit_entry" where
  "audit_of_row ax r =
     and_then (ok_or (ax_parse_time ax (au_timestamp r)) ''input contains invalid characters'') (\<lambda>t.
       Ok \<lparr>ae_timestamp = t, ae_event_type = au_event_type r, ae_actor_id = au_actor_id r, ae_target_id = au_target_id r,
           ae_permission = au_permission r, ae_result = au_result r, ae_reason = au_reason r,
           ae_metadata = Option.bind (au_metadata r) (json_from_str (ax_json ax)), ae_trace_id = au_trace_id r\<rparr>)"

fun audits_of_rows :: "audit_lib \<Rightarrow> audit_row list \<Rightarrow> string + (int \<times> audit_entry) list" where
  "audits_of_rows ax [] = Ok []"
| "audits_of_rows ax (r # rs) =
     and_then (audit_of_row ax r) (\<lambda>e. and_then (audits_of_rows ax rs) (\<lambda>es. Ok ((au_id r, e) # es)))"

definition query_audit_logs_since ::
  "audit_lib \<Rightarrow> fault \<Rightarrow> int option \<Rightarrow> string option \<Rightarrow> int \<Rightarrow> audit_log \<Rightarrow> string + (int \<times> audit_entry) list" where
  "query_audit_logs_since ax f since_id since_timestamp limit l =
     and_then (db_timeout f (sql_limit limit
        (case since_id of
           Some i \<Rightarrow> sort_key au_id (filter (\<lambda>r. au_id r > i) (al_rows l))
         | None \<Rightarrow>
             (case since_timestamp of
                Some ts \<Rightarrow> sort_key au_timestamp (filter (\<lambda>r. au_timestamp r > ts) (al_rows l))
              | None \<Rightarrow> sort_key au_id (al_rows l)))))
       (audits_of_rows ax)"

definition query_audit_logs :: "audit_lib \<Rightarrow> fault \<Rightarrow> int \<Rightarrow> audit_log \<Rightarrow> string + audit_entry list" where
  "query_audit_logs ax f limit l =
     and_then (db_timeout f (sql_limit limit (rev (sort_key au_timestamp (al_rows l)))))
       (\<lambda>rows. and_then (audits_of_rows ax rows) (\<lambda>es. Ok (map snd es)))"

section \<open>Health\<close>

datatype HealthStatus = Healthy | Degraded | HealthError

record health_check =
  hc_name :: string
  hc_status :: HealthStatus
  hc_message :: string
  hc_repairable :: bool

record health_db =
  hd_tables :: agent_tables
  hd_permissions :: permission_table
  hd_plugins :: "string list"
  hd_audit :: audit_log

definition known_agent :: "health_db \<Rightarrow> string \<Rightarrow> bool" where
  "known_agent d a = list_ex (\<lambda>r. ag_id r = a) (tb_agents (hd_tables d))"

definition orphaned_request :: "health_db \<Rightarrow> permission_request \<Rightarrow> bool" where
  "orphaned_request d r \<longleftrightarrow> pr_plugin_id r \<notin> set (hd_plugins d) \<and> pr_status r = ''pending''"

definition count_check :: "string \<Rightarrow> string \<Rightarrow> string \<Rightarrow> db_error + nat \<Rightarrow> health_check" where
  "count_check name clean found r =
     (case r of
        Inl e \<Rightarrow> \<lparr>hc_name = name, hc_status = HealthError, hc_message = ''Check failed: '' @ e, hc_repairable = False\<rparr>
      | Inr n \<Rightarrow>
          if n = 0 then \<lparr>hc_name = name, hc_status = Healthy, hc_message = clean, hc_repairable = False\<rparr>
          else \<lparr>hc_name = name, hc_status = Degraded, hc_message = show_nat n @ found, hc_repairable = True\<rparr>)"

definition check_db_connection :: "fault \<Rightarrow> health_check" where
  "check_db_connection f =
     (case f of
        None \<Rightarrow> \<lparr>hc_name = ''db_connection'', hc_status = Healthy, hc_message = ''Database connection OK'', hc_repairable = False\<rparr>
      | Some e \<Rightarrow> \<lparr>hc_name = ''db_connection'', hc_status = HealthError, hc_message = ''Database connection failed: '' @ e, hc_repairable = False\<rparr>)"

definition check_orphaned_chat_messages :: "fault \<Rightarrow> health_db \<Rightarrow> health_check" where
  "check_orphaned_chat_messages f d =
     count_check ''orphaned_chat_messages'' ''No orphaned chat messages'' '' orphaned chat message(s) found''
       (db_timeout f (length (filter (\<lambda>(_, a). \<not> known_agent d a) (tb_chat (hd_tables d)))))"

definition check_orphaned_trusted_commands :: "fault \<Rightarrow> health_db \<Rightarrow> health_check" where
  "check_orphaned_trusted_commands f d =
     count_check ''orphaned_trusted_commands'' ''No orphaned trusted commands'' '' orphaned trusted command(s) found''
       (db_timeout f (length (filter (\<lambda>(a, _). \<not> known_agent d a) (tb_trusted (hd_tables d)))))"

definition check_orphaned_permission_requests :: "fault \<Rightarrow> health_db \<Rightarrow> health_check" where
  "check_orphaned_permission_requests f d =
     count_check ''orphaned_permission_requests'' ''No orphaned permission requests'' '' orphaned permission request(s) found''
       (db_timeout f (length (filter (orphaned_request d) (hd_permissions d))))"

definition audit_check :: "HealthStatus \<Rightarrow> string \<Rightarrow> health_check" where
  "audit_check status message = \<lparr>hc_name = ''audit_chain'', hc_status = status, hc_message = message, hc_repairable = False\<rparr>"

definition check_audit_chain_tail :: "fault \<Rightarrow> health_db \<Rightarrow> health_check" where
  "check_audit_chain_tail f d =
     (case f of
        Some e \<Rightarrow> audit_check HealthError (''Audit chain check failed: '' @ e)
      | None \<Rightarrow>
          (case rev (al_rows (hd_audit d)) of
             newest # prev # _ \<Rightarrow>
               (case (au_chain_hash newest, au_chain_hash prev) of
                  (Some _, Some _) \<Rightarrow> audit_check Healthy ''Audit chain hashes present''
                | _ \<Rightarrow> audit_check Degraded ''Audit chain has entries without chain_hash (pre-migration data)'')
           | _ \<Rightarrow> audit_check Healthy ''Audit chain OK (fewer than 2 entries)''))"

definition quick_checks :: "(nat \<Rightarrow> fault) \<Rightarrow> health_db \<Rightarrow> health_check list" where
  "quick_checks f d =
     [check_db_connection (f 0), check_orphaned_chat_messages (f 1) d, check_orphaned_trusted_commands (f 2) d,
      check_orphaned_permission_requests (f 3) d, check_audit_chain_tail (f 4) d]"

definition overall_status :: "health_check list \<Rightarrow> HealthStatus" where
  "overall_status checks =
     (if list_ex (\<lambda>c. hc_status c = HealthError) checks then HealthError
      else if list_ex (\<lambda>c. hc_status c = Degraded) checks then Degraded
      else Healthy)"

record health_report =
  hr_status :: HealthStatus
  hr_checks :: "health_check list"

definition run_quick_scan :: "(nat \<Rightarrow> fault) \<Rightarrow> health_db \<Rightarrow> health_report" where
  "run_quick_scan f d = (let checks = quick_checks f d in \<lparr>hr_status = overall_status checks, hr_checks = checks\<rparr>)"

section \<open>Repair\<close>

record repair_action =
  ra_name :: string
  ra_fixed_count :: nat
  ra_message :: string

definition repair_orphaned_chat_messages :: "fault \<Rightarrow> health_db \<Rightarrow> health_db \<times> (db_error + nat)" where
  "repair_orphaned_chat_messages f d =
     (case f of Some e \<Rightarrow> (d, Err e)
      | None \<Rightarrow>
          (let orphan = (\<lambda>(_, a). \<not> known_agent d a); t = hd_tables d
           in (d\<lparr>hd_tables := t\<lparr>tb_chat := filter (\<lambda>m. \<not> orphan m) (tb_chat t)\<rparr>\<rparr>, Ok (length (filter orphan (tb_chat t))))))"

definition repair_orphaned_trusted_commands :: "fault \<Rightarrow> health_db \<Rightarrow> health_db \<times> (db_error + nat)" where
  "repair_orphaned_trusted_commands f d =
     (case f of Some e \<Rightarrow> (d, Err e)
      | None \<Rightarrow>
          (let orphan = (\<lambda>(a, _). \<not> known_agent d a); t = hd_tables d
           in (d\<lparr>hd_tables := t\<lparr>tb_trusted := filter (\<lambda>m. \<not> orphan m) (tb_trusted t)\<rparr>\<rparr>, Ok (length (filter orphan (tb_trusted t))))))"

definition repair_orphaned_permission_requests :: "fault \<Rightarrow> health_db \<Rightarrow> health_db \<times> (db_error + nat)" where
  "repair_orphaned_permission_requests f d =
     (case f of Some e \<Rightarrow> (d, Err e)
      | None \<Rightarrow> (d\<lparr>hd_permissions := filter (\<lambda>r. \<not> orphaned_request d r) (hd_permissions d)\<rparr>,
                 Ok (length (filter (orphaned_request d) (hd_permissions d)))))"

definition repair_step ::
  "string \<Rightarrow> string \<Rightarrow> (health_db \<Rightarrow> health_db \<times> (db_error + nat)) \<Rightarrow> health_db \<times> repair_action list \<Rightarrow>
   db_error + health_db \<times> repair_action list" where
  "repair_step name what fix s =
     (case fix (fst s) of
        (_, Inl e) \<Rightarrow> Err e
      | (d', Inr n) \<Rightarrow>
          Ok (d', if n > 0 then snd s @ [\<lparr>ra_name = name, ra_fixed_count = n, ra_message = ''Deleted '' @ show_nat n @ what\<rparr>] else snd s))"

text \<open>The statements before a failing one stay done.\<close>

definition repaired_so_far :: "(nat \<Rightarrow> fault) \<Rightarrow> health_db \<Rightarrow> health_db" where
  "repaired_so_far f d =
     (case repair_orphaned_chat_messages (f 0) d of
        (d1, Inl _) \<Rightarrow> d1
      | (d1, Inr _) \<Rightarrow>
          (case repair_orphaned_trusted_commands (f 1) d1 of
             (d2, Inl _) \<Rightarrow> d2
           | (d2, Inr _) \<Rightarrow> fst (repair_orphaned_permission_requests (f 2) d2)))"

definition run_standard_repair :: "(nat \<Rightarrow> fault) \<Rightarrow> health_db \<Rightarrow> health_db \<times> (db_error + repair_action list)" where
  "run_standard_repair f d =
     (case and_then (repair_step ''orphaned_chat_messages'' '' orphaned chat message(s)'' (repair_orphaned_chat_messages (f 0)) (d, []))
        (\<lambda>s1. and_then (repair_step ''orphaned_trusted_commands'' '' orphaned trusted command(s)'' (repair_orphaned_trusted_commands (f 1)) s1)
        (repair_step ''orphaned_permission_requests'' '' orphaned permission request(s)'' (repair_orphaned_permission_requests (f 2)))) of
        Inl e \<Rightarrow> (repaired_so_far f d, Err e)
      | Inr (d', actions) \<Rightarrow> (d', Ok actions))"

definition total_fixed :: "repair_action list \<Rightarrow> nat" where
  "total_fixed actions = sum_list (map ra_fixed_count actions)"

end
