(* ===== verification/Audit_Laws.thy ===== *)
theory Audit_Laws
  imports Audit_Log
begin

text \<open>
  What the hash chain of the audit log fixes and what it leaves open, and what a repair of the
  database removes.
\<close>

section \<open>The chain\<close>

definition row_data :: "audit_row \<Rightarrow> string" where
  "row_data r = canonical_text (au_timestamp r) (au_event_type r) (au_actor_id r) (au_target_id r) (au_result r)"

text \<open>Every row but the first carries the hash of its data and of its predecessor's hash.\<close>

definition chain_linked :: "(string \<Rightarrow> string) \<Rightarrow> audit_row list \<Rightarrow> bool" where
  "chain_linked sha rows \<longleftrightarrow>
     list_all (\<lambda>i. au_chain_hash (rows ! Suc i) =
         Some (compute_chain_hash sha (au_chain_hash (rows ! i)) (row_data (rows ! Suc i)))) [0..<length rows - 1]"

lemma chain_linkedD:
  "chain_linked sha rows \<Longrightarrow> Suc i < length rows \<Longrightarrow>
     au_chain_hash (rows ! Suc i) = Some (compute_chain_hash sha (au_chain_hash (rows ! i)) (row_data (rows ! Suc i)))"
  by (auto simp: chain_linked_def list_all_iff)

lemma chain_linkedI:
  "(\<And>i. Suc i < length rows \<Longrightarrow>
      au_chain_hash (rows ! Suc i) = Some (compute_chain_hash sha (au_chain_hash (rows ! i)) (row_data (rows ! Suc i))))
   \<Longrightarrow> chain_linked sha rows"
  by (auto simp: chain_linked_def list_all_iff)

lemma chain_linked_drop: "chain_linked sha rows \<Longrightarrow> chain_linked sha (drop n rows)"
proof (rule chain_linkedI)
  fix i assume linked: "chain_linked sha rows" and "Suc i < length (drop n rows)"
  then have "Suc (n + i) < length rows" by simp
  from chain_linkedD [OF linked this] this
  show "au_chain_hash (drop n rows ! Suc i) =
      Some (compute_chain_hash sha (au_chain_hash (drop n rows ! i)) (row_data (drop n rows ! Suc i)))"
    by simp
qed

lemma last_chain_hash_nonempty: "al_rows l \<noteq> [] \<Longrightarrow> last_chain_hash l = au_chain_hash (last (al_rows l))"
  by (cases "al_rows l" rule: rev_cases) (auto simp: last_chain_hash_def)

lemma chain_linked_snoc:
  assumes "chain_linked sha rows"
    and "rows \<noteq> [] \<Longrightarrow> au_chain_hash r = Some (compute_chain_hash sha (au_chain_hash (last rows)) (row_data r))"
  shows "chain_linked sha (rows @ [r])"
proof (rule chain_linkedI)
  fix i assume i: "Suc i < length (rows @ [r])"
  show "au_chain_hash ((rows @ [r]) ! Suc i) =
      Some (compute_chain_hash sha (au_chain_hash ((rows @ [r]) ! i)) (row_data ((rows @ [r]) ! Suc i)))"
  proof (cases "Suc i < length rows")
    case True
    with chain_linkedD [OF assms(1) this] show ?thesis by (simp add: nth_append)
  next
    case False
    with i have n: "length rows = Suc i" by simp
    then have "rows \<noteq> []" by auto
    with n have "last rows = rows ! i" by (simp add: last_conv_nth)
    with assms(2) n \<open>rows \<noteq> []\<close> show ?thesis by (simp add: nth_append)
  qed
qed

definition plain_hash :: "audit_row \<Rightarrow> bool" where
  "plain_hash r \<longleftrightarrow> (case au_chain_hash r of None \<Rightarrow> False | Some h \<Rightarrow> CHR ''|'' \<notin> set h)"

lemma compute_chain_hash_inj:
  assumes "inj sha" "CHR ''|'' \<notin> set p" "CHR ''|'' \<notin> set q"
    and "compute_chain_hash sha (Some p) d = compute_chain_hash sha (Some q) e"
  shows "p = q \<and> d = e"
proof -
  from assms(1,4) have eq: "p @ CHR ''|'' # d = q @ CHR ''|'' # e"
    by (auto simp: compute_chain_hash_def dest: injD)
  with assms(2,3) have "split_once CHR ''|'' (p @ CHR ''|'' # d) = Some (q, e)"
    by (simp add: split_once_append)
  with assms(2) show ?thesis by (simp add: split_once_append)
qed

text \<open>Going back from the last row, hashes and data agree row by row.\<close>

lemma chain_agrees_back:
  assumes "inj sha" and "chain_linked sha xs" "chain_linked sha ys" "length xs = length ys"
    and "list_all plain_hash xs" "list_all plain_hash ys"
    and "au_chain_hash (last xs) = au_chain_hash (last ys)" and "k < length xs"
  shows "au_chain_hash (xs ! (length xs - 1 - k)) = au_chain_hash (ys ! (length xs - 1 - k)) \<and>
     (k > 0 \<longrightarrow> row_data (xs ! (length xs - k)) = row_data (ys ! (length xs - k)))"
  using assms(8)
proof (induction k)
  case 0
  then have "xs \<noteq> []" and "ys \<noteq> []" using assms(4) by auto
  with assms(4,7) show ?case by (simp add: last_conv_nth)
next
  case (Suc k)
  define i where "i = length xs - 1 - Suc k"
  have i: "Suc i = length xs - 1 - k" "Suc i < length xs" "Suc i = length xs - Suc k" "i < length xs"
    using Suc.prems by (auto simp: i_def)
  from Suc have "au_chain_hash (xs ! Suc i) = au_chain_hash (ys ! Suc i)" by (simp add: i)
  with chain_linkedD [OF assms(2) i(2)] chain_linkedD [OF assms(3)] i(2) assms(4)
  have eq: "compute_chain_hash sha (au_chain_hash (xs ! i)) (row_data (xs ! Suc i)) =
      compute_chain_hash sha (au_chain_hash (ys ! i)) (row_data (ys ! Suc i))" by simp
  obtain p q where pq: "au_chain_hash (xs ! i) = Some p" "CHR ''|'' \<notin> set p" "au_chain_hash (ys ! i) = Some q" "CHR ''|'' \<notin> set q"
    using assms(4-6) i(4) by (fastforce simp: list_all_length plain_hash_def split: option.splits)
  with compute_chain_hash_inj [OF assms(1) pq(2,4)] eq have "p = q" "row_data (xs ! Suc i) = row_data (ys ! Suc i)"
    by auto
  with pq i(1,3) show ?case by (simp add: i_def)
qed

lemma chain_agrees:
  assumes "inj sha" and "chain_linked sha xs" "chain_linked sha ys" "length xs = length ys"
    and "list_all plain_hash xs" "list_all plain_hash ys"
    and "au_chain_hash (last xs) = au_chain_hash (last ys)"
  shows "map au_chain_hash xs = map au_chain_hash ys \<and> map row_data (tl xs) = map row_data (tl ys)"
proof -
  note agree = chain_agrees_back [OF assms]
  have "au_chain_hash (xs ! i) = au_chain_hash (ys ! i)" if "i < length xs" for i
    using agree [of "length xs - 1 - i"] that by simp
  moreover have "row_data (tl xs ! i) = row_data (tl ys ! i)" if "i < length xs - 1" for i
    using agree [of "length xs - 1 - i"] that assms(4) by (simp add: nth_tl)
  ultimately show ?thesis
    using assms(4) by (auto intro!: nth_equalityI)
qed

section \<open>The log the kernel writes\<close>

type_synonym audit_write = "fault \<times> string \<times> audit_entry"

definition audit_run :: "audit_lib \<Rightarrow> audit_write list \<Rightarrow> audit_log \<Rightarrow> audit_log" where
  "audit_run ax ops l = foldl (\<lambda>l (f, cutoff, e). fst (write_audit_log ax f cutoff e l)) l ops"

definition audit_new :: audit_log where
  "audit_new = \<lparr>al_rows = [], al_seq = 0\<rparr>"

definition written_at :: "audit_lib \<Rightarrow> audit_write \<Rightarrow> string" where
  "written_at ax w = ax_rfc3339 ax (ae_timestamp (snd (snd w)))"

definition audit_inv :: "audit_lib \<Rightarrow> string list \<Rightarrow> audit_log \<Rightarrow> bool" where
  "audit_inv ax later l \<longleftrightarrow>
     chain_linked (ax_sha ax) (al_rows l) \<and> sorted (map au_timestamp (al_rows l) @ later) \<and>
     ((\<forall>a. CHR ''|'' \<notin> set (ax_sha ax a)) \<longrightarrow> list_all plain_hash (al_rows l))"

lemma sorted_filter_drop:
  fixes rows :: "audit_row list"
  assumes "sorted (map au_timestamp rows)"
  shows "\<exists>n. filter (\<lambda>r. \<not> au_timestamp r < cutoff) rows = drop n rows"
  using assms
proof (induction rows)
  case (Cons r rows)
  show ?case
  proof (cases "au_timestamp r < cutoff")
    case True
    with Cons obtain n where "filter (\<lambda>r. \<not> au_timestamp r < cutoff) rows = drop n rows" by auto
    with True show ?thesis by (intro exI [of _ "Suc n"]) simp
  next
    case False
    with Cons.prems have "filter (\<lambda>r. \<not> au_timestamp r < cutoff) rows = rows"
      by (auto simp: filter_id_conv)
    with False show ?thesis by (intro exI [of _ 0]) simp
  qed
qed simp

lemma write_keeps:
  assumes "audit_inv ax (written_at ax (f, cutoff, e) # later) l"
  shows "audit_inv ax later (fst (write_audit_log ax f cutoff e l))"
proof (cases f)
  case None
  let ?r = "row_of_audit ax l e"
  let ?rows = "al_rows l @ [?r]"
  have r: "au_timestamp ?r = written_at ax (f, cutoff, e)"
      "au_chain_hash ?r = Some (compute_chain_hash (ax_sha ax) (last_chain_hash l) (row_data ?r))"
    by (simp_all add: row_of_audit_def written_at_def row_data_def canonical_data_def Let_def)
  have linked: "chain_linked (ax_sha ax) ?rows"
    using assms by (intro chain_linked_snoc) (simp_all add: audit_inv_def r last_chain_hash_nonempty)
  have sorted: "sorted (map au_timestamp ?rows @ later)"
    using assms by (simp add: audit_inv_def r)
  have plain: "list_all plain_hash ?rows" if "\<forall>a. CHR ''|'' \<notin> set (ax_sha ax a)"
    using assms that r(2) by (simp add: audit_inv_def plain_hash_def compute_chain_hash_def)
  have "sorted (map au_timestamp ?rows)" using sorted by (simp only: sorted_append)
  then obtain n where n: "filter (\<lambda>r. \<not> au_timestamp r < cutoff) ?rows = drop n ?rows"
    using sorted_filter_drop by blast
  have "al_rows (fst (write_audit_log ax f cutoff e l)) = filter (\<lambda>r. \<not> au_timestamp r < cutoff) ?rows"
    using None by (simp add: write_audit_log_def audit_log_cleanup_def)
  with n have "al_rows (fst (write_audit_log ax f cutoff e l)) = drop n ?rows" by (simp only:)
  moreover have "sorted (map au_timestamp (drop n ?rows) @ later)"
    using sorted unfolding sorted_append drop_map [symmetric]
    by (meson in_set_dropD sorted_wrt_drop)
  ultimately show ?thesis
    using chain_linked_drop [OF linked] plain
    by (auto simp: audit_inv_def list_all_iff dest: in_set_dropD)
qed (use assms in \<open>auto simp: audit_inv_def write_audit_log_def sorted_append\<close>)

lemma run_keeps: "audit_inv ax (map (written_at ax) ops) l \<Longrightarrow> audit_inv ax [] (audit_run ax ops l)"
proof (induction ops arbitrary: l)
  case (Cons w ops)
  obtain f cutoff e where w: "w = (f, cutoff, e)" by (rule prod_cases3)
  with Cons.prems write_keeps have "audit_inv ax (map (written_at ax) ops) (fst (write_audit_log ax f cutoff e l))"
    by simp
  from Cons.IH [OF this] show ?case by (simp add: audit_run_def w)
qed (simp add: audit_run_def)


section \<open>Repair\<close>

lemma orphans_same:
  "orphaned_request (d\<lparr>hd_tables := t\<rparr>) = orphaned_request d"
  "tb_agents t = tb_agents (hd_tables d) \<Longrightarrow> known_agent (d\<lparr>hd_tables := t\<rparr>) = known_agent d"
  by (simp_all add: orphaned_request_def known_agent_def fun_eq_iff)

lemma known_after_repair:
  "known_agent (d\<lparr>hd_tables := (hd_tables d)\<lparr>tb_chat := c, tb_trusted := u\<rparr>, hd_permissions := p\<rparr>) = known_agent d"
  "orphaned_request (d\<lparr>hd_tables := t, hd_permissions := p\<rparr>) = orphaned_request d"
  by (simp_all add: orphaned_request_def known_agent_def fun_eq_iff)

lemma repair_step_Ok:
  "repair_step name what fix s = Ok (d', actions) \<longleftrightarrow>
     (\<exists>n. fix (fst s) = (d', Ok n) \<and>
        actions = (if n > 0 then snd s @ [\<lparr>ra_name = name, ra_fixed_count = n, ra_message = ''Deleted '' @ show_nat n @ what\<rparr>] else snd s))"
  by (auto simp: repair_step_def split: prod.splits sum.splits)

text \<open>A repair that succeeds removes the orphaned rows and nothing else: rows of an existing agent
  and answered requests stay, the number reported is the number of rows removed, and a scan
  afterwards finds no orphan.\<close>

theorem repair_removes_orphans_only:
  assumes "run_standard_repair f d = (d', Ok actions)"
  shows "tb_chat (hd_tables d') = filter (\<lambda>(_, a). known_agent d a) (tb_chat (hd_tables d)) \<and>
     tb_trusted (hd_tables d') = filter (\<lambda>(a, _). known_agent d a) (tb_trusted (hd_tables d)) \<and>
     hd_permissions d' = filter (\<lambda>r. \<not> orphaned_request d r) (hd_permissions d) \<and>
     tb_agents (hd_tables d') = tb_agents (hd_tables d) \<and> hd_audit d' = hd_audit d \<and>
     total_fixed actions + length (tb_chat (hd_tables d')) + length (tb_trusted (hd_tables d')) + length (hd_permissions d') =
       length (tb_chat (hd_tables d)) + length (tb_trusted (hd_tables d)) + length (hd_permissions d) \<and>
     hc_status (check_orphaned_chat_messages None d') = Healthy \<and>
     hc_status (check_orphaned_trusted_commands None d') = Healthy \<and>
     hc_status (check_orphaned_permission_requests None d') = Healthy"
proof -
  let ?a1 = "repair_step ''orphaned_chat_messages'' '' orphaned chat message(s)'' (repair_orphaned_chat_messages (f 0)) (d, [])"
  let ?a2 = "repair_step ''orphaned_trusted_commands'' '' orphaned trusted command(s)'' (repair_orphaned_trusted_commands (f 1))"
  let ?a3 = "repair_step ''orphaned_permission_requests'' '' orphaned permission request(s)'' (repair_orphaned_permission_requests (f 2))"
  from assms have "and_then ?a1 (\<lambda>s1. and_then (?a2 s1) ?a3) = Ok (d', actions)"
    by (simp add: run_standard_repair_def split: sum.splits prod.splits)
  then obtain d1 acts1 d2 acts2 where steps: "?a1 = Ok (d1, acts1)" "?a2 (d1, acts1) = Ok (d2, acts2)" "?a3 (d2, acts2) = Ok (d', actions)"
    by (fastforce simp: and_then_Ok_iff)
  then obtain n1 n2 n3 where repairs:
      "repair_orphaned_chat_messages (f 0) d = (d1, Ok n1)"
      "repair_orphaned_trusted_commands (f 1) d1 = (d2, Ok n2)"
      "repair_orphaned_permission_requests (f 2) d2 = (d', Ok n3)"
    and fixed: "total_fixed actions = n1 + n2 + n3"
    by (fastforce simp: repair_step_Ok total_fixed_def split: if_splits)
  from repairs have d': "d' = d\<lparr>hd_tables := (hd_tables d)
        \<lparr>tb_chat := filter (\<lambda>m. \<not> (case m of (_, a) \<Rightarrow> \<not> known_agent d a)) (tb_chat (hd_tables d)),
         tb_trusted := filter (\<lambda>m. \<not> (case m of (a, _) \<Rightarrow> \<not> known_agent d a)) (tb_trusted (hd_tables d))\<rparr>,
       hd_permissions := filter (\<lambda>r. \<not> orphaned_request d r) (hd_permissions d)\<rparr>"
    and n: "n1 = length (filter (\<lambda>(_, a). \<not> known_agent d a) (tb_chat (hd_tables d)))"
      "n2 = length (filter (\<lambda>(a, _). \<not> known_agent d a) (tb_trusted (hd_tables d)))"
      "n3 = length (filter (orphaned_request d) (hd_permissions d))"
    by (auto simp: repair_orphaned_chat_messages_def repair_orphaned_trusted_commands_def
        repair_orphaned_permission_requests_def Let_def orphans_same split: option.splits)
  have "total_fixed actions + length (tb_chat (hd_tables d')) + length (tb_trusted (hd_tables d')) + length (hd_permissions d') =
       length (tb_chat (hd_tables d)) + length (tb_trusted (hd_tables d)) + length (hd_permissions d)"
    using sum_length_filter_compl [of "\<lambda>(_, a). \<not> known_agent d a" "tb_chat (hd_tables d)"]
      sum_length_filter_compl [of "\<lambda>(a, _). \<not> known_agent d a" "tb_trusted (hd_tables d)"]
      sum_length_filter_compl [of "orphaned_request d" "hd_permissions d"]
    by (simp add: fixed n d')
  then show ?thesis
    by (simp add: d' known_after_repair case_prod_unfold count_check_def check_orphaned_chat_messages_def
        check_orphaned_trusted_commands_def check_orphaned_permission_requests_def db_timeout_def filter_empty_conv)
qed

section \<open>At concrete inputs\<close>

text \<open>A hash without collisions and without bars: the bits of each byte.\<close>

definition bits_of :: "char \<Rightarrow> string" where
  "bits_of c = map (\<lambda>b. if b then CHR ''1'' else CHR ''0'')
     [digit0 c, digit1 c, digit2 c, digit3 c, digit4 c, digit5 c, digit6 c, digit7 c]"

definition bits :: "string \<Rightarrow> string" where
  "bits s = concat (map bits_of s)"

lemma bits_of_inj: "bits_of c = bits_of d \<Longrightarrow> c = d"
proof -
  assume eq: "bits_of c = bits_of d"
  have "(if p then CHR ''1'' else CHR ''0'') = (if q then CHR ''1'' else CHR ''0'') \<longleftrightarrow> p = q" for p q
    by simp
  with eq have "digit0 c = digit0 d \<and> digit1 c = digit1 d \<and> digit2 c = digit2 d \<and> digit3 c = digit3 d \<and>
      digit4 c = digit4 d \<and> digit5 c = digit5 d \<and> digit6 c = digit6 d \<and> digit7 c = digit7 d"
    by (simp only: bits_of_def list.map list.inject)
  then show "c = d" by (simp add: char.expand)
qed

lemma bits_eq: "bits s = bits t \<Longrightarrow> s = t"
proof (induction s arbitrary: t)
  case Nil
  then show ?case by (cases t) (simp_all add: bits_def bits_of_def)
next
  case (Cons c s)
  then obtain d t' where t: "t = d # t'" by (cases t) (simp_all add: bits_def bits_of_def)
  have "length (bits_of c) = length (bits_of d)" by (simp add: bits_of_def)
  with Cons.prems t have "bits_of c = bits_of d" "bits s = bits t'" by (simp_all add: bits_def)
  with Cons.IH t show ?case by (simp add: bits_of_inj)
qed

lemma bits_inj: "inj bits"
  by (rule injI) (rule bits_eq)

lemma bits_plain: "CHR ''|'' \<notin> set (bits s)"
  by (auto simp: bits_def bits_of_def split: if_splits)

definition plain_audit :: audit_lib where
  "plain_audit = \<lparr>ax_sha = bits, ax_rfc3339 = (\<lambda>_. ''t''), ax_parse_time = (\<lambda>_. Some 0),
     ax_json = \<lparr>json_to_string = (\<lambda>_. []), json_from_str = (\<lambda>_. None)\<rparr>\<rparr>"

definition an_entry :: "string \<Rightarrow> audit_entry" where
  "an_entry reason = \<lparr>ae_timestamp = 0, ae_event_type = ''KEY_REVOKED'', ae_actor_id = Some ''admin'', ae_target_id = None, ae_permission = None,
     ae_result = ''SUCCESS'', ae_reason = reason, ae_metadata = None, ae_trace_id = None\<rparr>"

definition two_writes :: "audit_write list" where
  "two_writes = [(None, [], an_entry ''a''), (None, [], an_entry ''b'')]"


definition an_agent :: agent_record where
  "an_agent = \<lparr>ag_id = ''agent.a'', ag_name = ''A'', ag_description = ''d'', ag_enabled = True, ag_last_seen = 1, ag_default_engine_id = ''e'',
     ag_required_capabilities = [], ag_metadata = [], ag_power_password_hash = None, ag_agent_type = ''agent''\<rparr>"

definition waiting_request :: permission_request where
  "waiting_request = \<lparr>pr_request_id = ''r'', pr_created_at = 0, pr_plugin_id = ''server'', pr_permission_type = ''shell.execute'', pr_justification = [],
     pr_status = ''pending'', pr_approved_by = None, pr_approved_at = None, pr_expires_at = None\<rparr>"

definition small_db :: "audit_row list \<Rightarrow> health_db" where
  "small_db rows = \<lparr>hd_tables = \<lparr>tb_agents = [an_agent], tb_db = \<lparr>db_servers = [mcp_server_record_default\<lparr>ms_name := ''server''\<rparr>], db_access = [],
       db_access_seq = 0, db_rules = [], db_agents = []\<rparr>, tb_chat = [(''m'', ''agent.a''), (''n'', ''agent.gone'')], tb_trusted = [], tb_tokens = []\<rparr>,
     hd_permissions = [waiting_request], hd_plugins = [], hd_audit = \<lparr>al_rows = rows, al_seq = 0\<rparr>\<rparr>"

theorem repair_removes_orphans_only_witness:
  "tb_chat (hd_tables (fst (run_standard_repair (\<lambda>_. None) (small_db [])))) = [(''m'', ''agent.a'')]"
proof -
  have "is_ok (snd (run_standard_repair (\<lambda>_. None) (small_db [])))"
    by (simp add: run_standard_repair_def repair_step_def repair_orphaned_chat_messages_def repair_orphaned_trusted_commands_def
        repair_orphaned_permission_requests_def and_then_def Let_def is_ok_def)
  then obtain d' actions where run: "run_standard_repair (\<lambda>_. None) (small_db []) = (d', Ok actions)"
    unfolding is_ok_iff by (metis prod.collapse)
  from repair_removes_orphans_only [OF run] run show ?thesis
    by (simp add: small_db_def known_agent_def an_agent_def)
qed

text \<open>
  The scan reports a chain as healthy when the last two rows have a hash, right or wrong. The chain
  does not cover the reason of a row, nor its permission and metadata. And a server's own waiting
  request counts as orphaned, since servers have no row among the plugins: a repair drops it.
\<close>

theorem broken_chain_reported_healthy:
  "let rows = map (\<lambda>r. r\<lparr>au_chain_hash := Some ''x''\<rparr>) (al_rows (audit_run plain_audit two_writes audit_new))
   in \<not> chain_linked bits rows \<and> hc_status (check_audit_chain_tail None (small_db rows)) = Healthy"
  by (simp add: audit_run_def two_writes_def write_audit_log_def audit_log_cleanup_def audit_new_def row_of_audit_def
      chain_linked_def compute_chain_hash_def bits_def check_audit_chain_tail_def audit_check_def small_db_def Let_def
      canonical_data_def canonical_text_def row_data_def bits_of_def an_entry_def plain_audit_def)

theorem reason_outside_chain:
  "chain_linked (ax_sha ax) (map (\<lambda>r. r\<lparr>au_reason := f r, au_permission := g r, au_metadata := h r\<rparr>) rows) = chain_linked (ax_sha ax) rows"
  by (auto simp: chain_linked_def list_all_iff row_data_def)

theorem repair_drops_server_request:
  "has_server (tb_db (hd_tables (small_db []))) (pr_plugin_id waiting_request) \<and>
   waiting_request \<in> set (hd_permissions (small_db [])) \<and>
   hd_permissions (fst (run_standard_repair (\<lambda>_. None) (small_db []))) = []"
  by (simp add: small_db_def waiting_request_def has_server_def run_standard_repair_def repair_step_def repair_orphaned_chat_messages_def
      repair_orphaned_trusted_commands_def repair_orphaned_permission_requests_def and_then_def Let_def orphaned_request_def)

end
