(* ===== verification/Server_Events.thy ===== *)
theory Server_Events
  imports Tool_Discovery
begin

text \<open>
  Events, callbacks and streams of servers: \<open>EventManager\<close> and the kernel tools over it
  (\<open>managers/mcp_events.rs\<close>), \<open>StreamAssembler\<close> (\<open>managers/mcp_streaming.rs\<close>) and
  \<open>handle_stream_chunk\<close> (\<open>managers/mcp.rs\<close>). Every operation of the two managers holds its lock from
  start to end, so each is one step. Clock readings are arguments in milliseconds; the text of a
  timestamp is an argument as well. What is sent to a server is a \<open>client_message\<close>, and its answer
  an argument.
\<close>

section \<open>Numbers in JSON\<close>

definition json_as_i64 :: "json \<Rightarrow> int option" where
  "json_as_i64 v =
     (case v of JNum (PosInt n) \<Rightarrow> if n < 2 ^ 63 then Some (int n) else None | JNum (NegInt i) \<Rightarrow> Some i | _ \<Rightarrow> None)"

definition json_i64 :: "int \<Rightarrow> json" where
  "json_i64 i = JNum (if i \<ge> 0 then PosInt (nat i) else NegInt i)"

definition json_u64 :: "u64 \<Rightarrow> json" where
  "json_u64 w = JNum (PosInt (unat w))"

definition json_option :: "('a \<Rightarrow> json) \<Rightarrow> 'a option \<Rightarrow> json" where
  "json_option f v = (case v of None \<Rightarrow> JNull | Some x \<Rightarrow> f x)"

definition show_int :: "int \<Rightarrow> string" where
  "show_int i = (if i < 0 then CHR ''-'' # show_nat (nat (- i)) else show_nat (nat i))"

section \<open>State\<close>

record event_subscription =
  es_id :: string
  es_server_id :: string
  es_channels :: "string list"
  es_filter :: "json option"

record buffered_event =
  be_seq :: u64
  be_channel :: string
  be_data :: json
  be_timestamp :: string

record pending_callback =
  pc_server_id :: string
  pc_callback_type :: string
  pc_message :: string
  pc_options :: "string list option"
  pc_created_at :: instant
  pc_responded :: bool
  pc_recorded_response :: "string option"

record event_manager =
  em_subscriptions :: "(string, event_subscription) hmap"
  em_event_buffer :: "buffered_event list"
  em_event_seq :: u64
  em_callbacks :: "(string, pending_callback) hmap"

definition event_manager_new :: event_manager where
  "event_manager_new = \<lparr>em_subscriptions = [], em_event_buffer = [], em_event_seq = 0, em_callbacks = []\<rparr>"

definition MAX_BUFFER_SIZE :: nat where
  "MAX_BUFFER_SIZE = 1000"

definition UNRESPONDED_CALLBACK_TTL :: duration where
  "UNRESPONDED_CALLBACK_TTL = 3600000"

section \<open>Subscriptions and the buffer\<close>

definition add_subscription :: "event_subscription \<Rightarrow> event_manager \<Rightarrow> event_manager" where
  "add_subscription sub m = m\<lparr>em_subscriptions := hm_insert (es_id sub) sub (em_subscriptions m)\<rparr>"

definition remove_subscription :: "string \<Rightarrow> event_manager \<Rightarrow> event_manager \<times> bool" where
  "remove_subscription sub_id m =
     (m\<lparr>em_subscriptions := hm_remove sub_id (em_subscriptions m)\<rparr>, hm_contains_key (em_subscriptions m) sub_id)"

definition on_channel :: "string \<Rightarrow> string list \<Rightarrow> bool" where
  "on_channel channel channels = list_ex (\<lambda>c. c = channel \<or> c = ''*'') channels"

definition matching_subscriptions :: "string \<Rightarrow> event_manager \<Rightarrow> event_subscription list" where
  "matching_subscriptions channel m = filter (\<lambda>s. on_channel channel (es_channels s)) (map snd (em_subscriptions m))"

definition buffer_event :: "string \<Rightarrow> string \<Rightarrow> json \<Rightarrow> event_manager \<Rightarrow> event_manager \<times> u64" where
  "buffer_event stamp channel data m =
     (let seq = em_event_seq m + 1;
          buffer = em_event_buffer m @ [\<lparr>be_seq = seq, be_channel = channel, be_data = data, be_timestamp = stamp\<rparr>]
      in (m\<lparr>em_event_seq := seq, em_event_buffer := drop (length buffer - MAX_BUFFER_SIZE) buffer\<rparr>, seq))"

definition replay_events :: "u64 \<Rightarrow> nat \<Rightarrow> string list option \<Rightarrow> event_manager \<Rightarrow> buffered_event list" where
  "replay_events after_seq limit channels m =
     take limit (filter (\<lambda>e. case channels of None \<Rightarrow> True | Some chs \<Rightarrow> on_channel (be_channel e) chs)
       (filter (\<lambda>e. be_seq e > after_seq) (em_event_buffer m)))"

definition min_buffered_seq :: "event_manager \<Rightarrow> u64 option" where
  "min_buffered_seq m = (case em_event_buffer m of [] \<Rightarrow> None | e # _ \<Rightarrow> Some (be_seq e))"

section \<open>Callbacks\<close>

definition register_callback ::
  "instant \<Rightarrow> string \<Rightarrow> string \<Rightarrow> string \<Rightarrow> string \<Rightarrow> string list option \<Rightarrow> event_manager \<Rightarrow> event_manager \<times> bool" where
  "register_callback now callback_id server_id callback_type message options m =
     (if hm_contains_key (em_callbacks m) callback_id then (m, False)
      else (m\<lparr>em_callbacks := hm_insert callback_id
               \<lparr>pc_server_id = server_id, pc_callback_type = callback_type, pc_message = message, pc_options = options,
                pc_created_at = now, pc_responded = False, pc_recorded_response = None\<rparr> (em_callbacks m)\<rparr>, True))"

definition resolve_callback :: "string \<Rightarrow> string \<Rightarrow> event_manager \<Rightarrow> event_manager \<times> string option" where
  "resolve_callback callback_id response m =
     (case hm_get (em_callbacks m) callback_id of
        None \<Rightarrow> (m, None)
      | Some cb \<Rightarrow>
          if pc_responded cb then (m, None)
          else (m\<lparr>em_callbacks := hm_insert callback_id
                   (cb\<lparr>pc_responded := True, pc_recorded_response := Some response\<rparr>) (em_callbacks m)\<rparr>,
                Some (pc_server_id cb)))"

definition reopen_callback :: "string \<Rightarrow> event_manager \<Rightarrow> event_manager" where
  "reopen_callback callback_id m =
     (case hm_get (em_callbacks m) callback_id of
        None \<Rightarrow> m
      | Some cb \<Rightarrow> m\<lparr>em_callbacks := hm_insert callback_id
                     (cb\<lparr>pc_responded := False, pc_recorded_response := None\<rparr>) (em_callbacks m)\<rparr>)"

definition get_recorded_response :: "string \<Rightarrow> event_manager \<Rightarrow> (string \<times> string) option" where
  "get_recorded_response callback_id m =
     Option.bind (hm_get (em_callbacks m) callback_id) (\<lambda>cb.
       if \<not> pc_responded cb then None else map_option (\<lambda>r. (pc_server_id cb, r)) (pc_recorded_response cb))"

definition callback_server :: "string \<Rightarrow> event_manager \<Rightarrow> string option" where
  "callback_server callback_id m = map_option pc_server_id (hm_get (em_callbacks m) callback_id)"

definition subscription_server :: "string \<Rightarrow> event_manager \<Rightarrow> string option" where
  "subscription_server sub_id m = map_option es_server_id (hm_get (em_subscriptions m) sub_id)"

definition pending_callbacks ::
  "instant \<Rightarrow> event_manager \<Rightarrow> (string \<times> string \<times> string \<times> string list option \<times> int) list" where
  "pending_callbacks now m =
     map (\<lambda>(i, cb). (i, pc_server_id cb, pc_message cb, pc_options cb, (now - pc_created_at cb) div 1000))
       (filter (\<lambda>(_, cb). \<not> pc_responded cb) (em_callbacks m))"

definition cleanup_stale_callbacks :: "instant \<Rightarrow> duration \<Rightarrow> event_manager \<Rightarrow> event_manager \<times> nat" where
  "cleanup_stale_callbacks now timeout m =
     (let kept = hm_retain (\<lambda>_ cb. now - pc_created_at cb < (if pc_responded cb then timeout else UNRESPONDED_CALLBACK_TTL))
                   (em_callbacks m)
      in (m\<lparr>em_callbacks := kept\<rparr>, length (em_callbacks m) - length kept))"

section \<open>The kernel tools over them\<close>

definition optional_str :: "json \<Rightarrow> string \<Rightarrow> string option" where
  "optional_str args name = Option.bind (json_get args name) json_as_str"

definition required_arg :: "json \<Rightarrow> string \<Rightarrow> anyhow + string" where
  "required_arg args name = ok_or (optional_str args name) (AMgp (missing_tool_arg name))"

definition events_subscribe :: "instant \<Rightarrow> json \<Rightarrow> event_manager \<Rightarrow> event_manager \<times> (anyhow + json)" where
  "events_subscribe now args m =
     (let server_id = unwrap_or (optional_str args ''server_id'') ''kernel'';
          channels = unwrap_or (map_option json_str_items (Option.bind (json_get args ''channels'') json_as_array)) []
      in if channels = [] then (m, Err (AMgp (invalid_tool_arg ''channels must not be empty'')))
         else
           (let sub_id = ''sub-'' @ server_id @ ''-'' @ show_int now
            in (add_subscription \<lparr>es_id = sub_id, es_server_id = server_id, es_channels = channels,
                  es_filter = json_get args ''filter''\<rparr> m,
                Ok (json_object [(''subscribed'', json_strings channels), (''unsupported'', JArr []),
                                 (''subscription_id'', JStr sub_id)]))))"

definition events_unsubscribe :: "json \<Rightarrow> event_manager \<Rightarrow> event_manager \<times> (anyhow + json)" where
  "events_unsubscribe args m =
     (case required_arg args ''subscription_id'' of
        Inl e \<Rightarrow> (m, Err e)
      | Inr sub_id \<Rightarrow>
          (let (m', removed) = remove_subscription sub_id m
           in (m', Ok (json_object [(''subscription_id'', JStr sub_id), (''removed'', JBool removed)]))))"

definition replayed_json :: "buffered_event \<Rightarrow> json" where
  "replayed_json e =
     json_object [(''_mgp.seq'', json_u64 (be_seq e)), (''channel'', JStr (be_channel e)), (''data'', be_data e),
       (''timestamp'', JStr (be_timestamp e))]"

definition events_replay :: "json \<Rightarrow> event_manager \<Rightarrow> anyhow + json" where
  "events_replay args m =
     and_then (required_arg args ''subscription_id'') (\<lambda>sub_id.
       (let after_seq = (of_nat (unwrap_or (Option.bind (json_get args ''after_seq'') json_as_u64) 0) :: u64);
            limit = min (unwrap_or (Option.bind (json_get args ''limit'') json_as_u64) 100) 1000
        in and_then (ok_or (map_option es_channels (hm_get (em_subscriptions m) sub_id))
               (AMgp (resource_not_found (''Subscription '' @ quoted sub_id @ '' not found''))))
             (\<lambda>channels.
                (let events = replay_events after_seq (limit + 1) (Some channels) m;
                     truncated = (after_seq > 0 \<and> (case min_buffered_seq m of None \<Rightarrow> False | Some seq \<Rightarrow> seq > after_seq + 1))
                 in Ok (json_object
                      [(''subscription_id'', JStr sub_id), (''events'', JArr (map replayed_json (take limit events))),
                       (''has_more'', JBool (length events > limit)), (''truncated'', JBool truncated)])))))"

section \<open>Delivery\<close>

datatype client_message = Notify nat string json | ClientRequest nat string json

definition event_matches_filter :: "json \<Rightarrow> json \<Rightarrow> bool" where
  "event_matches_filter data wanted =
     (case json_as_object wanted of
        None \<Rightarrow> True
      | Some f \<Rightarrow>
          (case json_as_object data of
             None \<Rightarrow> False
           | Some d \<Rightarrow> list_all (\<lambda>(k, v). map_of d k = Some v) f))"

definition passes_filter :: "json \<Rightarrow> event_subscription \<Rightarrow> bool" where
  "passes_filter data sub = (case es_filter sub of None \<Rightarrow> True | Some f \<Rightarrow> event_matches_filter data f)"

definition operational_client :: "mcp_state \<Rightarrow> string \<Rightarrow> nat option" where
  "operational_client st server_id =
     Option.bind (hm_get (st_servers st) server_id) (\<lambda>h. if is_operational (sh_status h) then sh_client h else None)"

definition event_params :: "u64 \<Rightarrow> string \<Rightarrow> string \<Rightarrow> json \<Rightarrow> event_subscription \<Rightarrow> json" where
  "event_params seq stamp channel data sub =
     json_object [(''_mgp.seq'', json_u64 seq), (''subscription_id'', JStr (es_id sub)), (''channel'', JStr channel),
       (''data'', data), (''timestamp'', JStr stamp)]"

definition deliver_event ::
  "mcp_state \<Rightarrow> string \<Rightarrow> string \<Rightarrow> json \<Rightarrow> event_manager \<Rightarrow> event_manager \<times> client_message list" where
  "deliver_event st stamp channel data m =
     (let (m', seq) = buffer_event stamp channel data m
      in (m', List.map_filter (\<lambda>sub.
             if passes_filter data sub
             then map_option (\<lambda>client. Notify client ''notifications/mgp.event'' (event_params seq stamp channel data sub))
                    (operational_client st (es_server_id sub))
             else None)
           (matching_subscriptions channel m')))"

section \<open>A callback from request to answer\<close>

datatype CallbackHandleResult =
    NewCallback string string string string "string list option" "json option"
  | DuplicateWithResponse string string string
  | DuplicateNoResponse

definition handle_callback_request ::
  "instant \<Rightarrow> string \<Rightarrow> json \<Rightarrow> event_manager \<Rightarrow> event_manager \<times> CallbackHandleResult" where
  "handle_callback_request now server_id params m =
     (case optional_str params ''callback_id'' of
        None \<Rightarrow> (m, DuplicateNoResponse)
      | Some callback_id \<Rightarrow>
          (let callback_type = unwrap_or (optional_str params ''type'') ''generic'';
               message = unwrap_or (optional_str params ''message'') [];
               options = map_option json_str_items (Option.bind (json_get params ''options'') json_as_array);
               (m', is_new) = register_callback now callback_id server_id callback_type message options m
           in if \<not> is_new
              then (m', case get_recorded_response callback_id m' of
                          Some (owner, response) \<Rightarrow> DuplicateWithResponse owner callback_id response
                        | None \<Rightarrow> DuplicateNoResponse)
              else (m', NewCallback callback_id server_id callback_type message options (json_get params ''metadata''))))"

definition callback_params :: "string \<Rightarrow> string \<Rightarrow> json" where
  "callback_params callback_id response = json_object [(''callback_id'', JStr callback_id), (''response'', JStr response)]"

text \<open>Sending the answer: what goes to the server, and what comes of it.\<close>

definition send_callback_response ::
  "mcp_state \<Rightarrow> (client_message \<Rightarrow> string + json) \<Rightarrow> string \<Rightarrow> string \<Rightarrow> string \<Rightarrow> client_message list \<times> (anyhow + unit)" where
  "send_callback_response st reply callback_id server_id response =
     (case hm_get (st_servers st) server_id of
        None \<Rightarrow> ([], Err (AMgp (resource_not_found (''Server '' @ quoted server_id @ '' not found''))))
      | Some h \<Rightarrow>
          (case sh_client h of
             None \<Rightarrow> ([], Err (AMgp (mgp_error_new MGP_ERR_SERVER_NOT_READY (''Server '' @ quoted server_id @ '' not connected''))))
           | Some client \<Rightarrow>
               (let msg = ClientRequest client ''mgp/callback/respond'' (callback_params callback_id response)
                in ([msg], map_err (\<lambda>e. AMsg (''Failed to send callback response: '' @ e))
                             (and_then (reply msg) (\<lambda>_. Ok ()))))))"

definition respond_to_callback ::
  "mcp_state \<Rightarrow> (client_message \<Rightarrow> string + json) \<Rightarrow> json \<Rightarrow> event_manager \<Rightarrow>
   event_manager \<times> client_message list \<times> (anyhow + json)" where
  "respond_to_callback st reply args m =
     (case and_then (required_arg args ''callback_id'') (\<lambda>callback_id.
             and_then (required_arg args ''response'') (\<lambda>response. Ok (callback_id, response))) of
        Inl e \<Rightarrow> (m, [], Err e)
      | Inr (callback_id, response) \<Rightarrow>
          (case resolve_callback callback_id response m of
             (m', None) \<Rightarrow>
               (m', [], Err (AMgp (resource_not_found
                 (if get_recorded_response callback_id m' \<noteq> None
                  then ''Callback '' @ quoted callback_id @ '' has already been answered''
                  else ''Callback '' @ quoted callback_id @ '' not found''))))
           | (m', Some server_id) \<Rightarrow>
               (case send_callback_response st reply callback_id server_id response of
                  (msgs, Inl e) \<Rightarrow> (reopen_callback callback_id m', msgs, Err e)
                | (msgs, Inr _) \<Rightarrow>
                    (m', msgs, Ok (json_object
                       [(''callback_id'', JStr callback_id), (''server_id'', JStr server_id), (''status'', JStr ''responded'')])))))"

section \<open>Streams\<close>

definition MAX_STREAM_GAP :: u32 where
  "MAX_STREAM_GAP = 1024"

record stream_tracker =
  sk_expected_index :: u32
  sk_received_count :: u32
  sk_gaps :: "u32 list"

type_synonym stream_assembler = "(string \<times> int, stream_tracker) hmap"

definition stream_tracker_new :: stream_tracker where
  "stream_tracker_new = \<lparr>sk_expected_index = 0, sk_received_count = 0, sk_gaps = []\<rparr>"

text \<open>The indices \<open>lo..hi\<close>, the end not included.\<close>

definition index_range :: "u32 \<Rightarrow> u32 \<Rightarrow> u32 list" where
  "index_range lo hi = map of_nat [unat lo..<unat hi]"

definition track_chunk :: "u32 \<Rightarrow> stream_tracker \<Rightarrow> stream_tracker \<times> u32 list option" where
  "track_chunk index t0 =
     (let t = t0\<lparr>sk_received_count := sat_add (sk_received_count t0) 1\<rparr>; expected = sk_expected_index t
      in if index = expected then (t\<lparr>sk_expected_index := sat_add index 1\<rparr>, None)
         else if sat_sub index expected > MAX_STREAM_GAP then (t\<lparr>sk_expected_index := sat_add index 1\<rparr>, None)
         else if index < expected then (t\<lparr>sk_gaps := filter (\<lambda>g. g \<noteq> index) (sk_gaps t)\<rparr>, None)
         else
           (let missing = index_range expected index
            in (t\<lparr>sk_gaps := sk_gaps t @ missing, sk_expected_index := sat_add index 1\<rparr>, Some missing)))"

definition record_chunk :: "string \<Rightarrow> int \<Rightarrow> u32 \<Rightarrow> stream_assembler \<Rightarrow> stream_assembler \<times> u32 list option" where
  "record_chunk server_id request_id index sa =
     (let (t, gaps) = track_chunk index (unwrap_or (hm_get sa (server_id, request_id)) stream_tracker_new)
      in (hm_insert (server_id, request_id) t sa, gaps))"

definition tracker_duplicate :: "u32 \<Rightarrow> stream_tracker \<Rightarrow> bool" where
  "tracker_duplicate index t \<longleftrightarrow> index < sk_expected_index t \<and> index \<notin> set (sk_gaps t)"

definition is_duplicate :: "string \<Rightarrow> int \<Rightarrow> u32 \<Rightarrow> stream_assembler \<Rightarrow> bool" where
  "is_duplicate server_id request_id index sa =
     (case hm_get sa (server_id, request_id) of None \<Rightarrow> False | Some t \<Rightarrow> tracker_duplicate index t)"

definition remove_stream :: "string \<Rightarrow> int \<Rightarrow> stream_assembler \<Rightarrow> stream_assembler" where
  "remove_stream server_id request_id sa = hm_remove (server_id, request_id) sa"

definition send_gap_notification :: "mcp_state \<Rightarrow> string \<Rightarrow> int \<Rightarrow> u32 list \<Rightarrow> client_message list" where
  "send_gap_notification st server_id request_id missing =
     (case Option.bind (hm_get (st_servers st) server_id) sh_client of
        None \<Rightarrow> []
      | Some client \<Rightarrow> [Notify client ''notifications/mgp.stream.gap''
          (json_object [(''request_id'', json_i64 request_id),
                        (''missing_indices'', JArr (map (\<lambda>i. JNum (PosInt (unat i))) missing))])])"

definition handle_stream_chunk ::
  "mcp_state \<Rightarrow> string \<Rightarrow> int \<Rightarrow> u32 \<Rightarrow> bool \<Rightarrow> stream_assembler \<Rightarrow> stream_assembler \<times> client_message list \<times> u32 list option" where
  "handle_stream_chunk st server_id request_id index finished sa =
     (if is_duplicate server_id request_id index sa then (sa, [], None)
      else
        (let (sa1, gaps) = record_chunk server_id request_id index sa;
             sa2 = (if finished then remove_stream server_id request_id sa1 else sa1)
         in (sa2, (case gaps of None \<Rightarrow> [] | Some missing \<Rightarrow> send_gap_notification st server_id request_id missing), gaps)))"

definition stream_client :: "mcp_state \<Rightarrow> string \<Rightarrow> anyhow + mcp_server_handle \<times> nat" where
  "stream_client st server_id =
     and_then (ok_or (hm_get (st_servers st) server_id) (AMsg (''Server '' @ quoted server_id @ '' not found''))) (\<lambda>h.
       and_then (ok_or (sh_client h) (AMsg (''Server '' @ quoted server_id @ '' not connected''))) (\<lambda>client. Ok (h, client)))"

definition cancel_stream ::
  "mcp_state \<Rightarrow> (client_message \<Rightarrow> string + json) \<Rightarrow> string \<Rightarrow> int \<Rightarrow> string \<Rightarrow> client_message list \<times> (anyhow + json)" where
  "cancel_stream st reply server_id request_id reason =
     (case stream_client st server_id of
        Inl e \<Rightarrow> ([], Err e)
      | Inr (_, client) \<Rightarrow>
          (let msg = ClientRequest client ''mgp/stream/cancel''
                 (json_object [(''request_id'', json_i64 request_id), (''reason'', JStr reason)])
           in ([msg], map_err AMsg (reply msg))))"

definition send_pace ::
  "mcp_state \<Rightarrow> (client_message \<Rightarrow> string + json) \<Rightarrow> string \<Rightarrow> int \<Rightarrow> u32 \<Rightarrow> string option \<Rightarrow> client_message list \<times> (anyhow + unit)" where
  "send_pace st reply server_id request_id max_chunks reason =
     (case hm_get (st_servers st) server_id of
        None \<Rightarrow> ([], Err (AMsg (''Server '' @ quoted server_id @ '' not found'')))
      | Some h \<Rightarrow>
          if \<not> is_operational (sh_status h) then ([], Err (AMsg (''Server '' @ quoted server_id @ '' not operational'')))
          else
            (case sh_client h of
               None \<Rightarrow> ([], Err (AMsg (''Server '' @ quoted server_id @ '' not connected'')))
             | Some client \<Rightarrow>
                 (let msg = Notify client ''notifications/mgp.stream.pace''
                        (json_object [(''request_id'', json_i64 request_id),
                           (''max_chunks_per_second'', JNum (PosInt (unat max_chunks))), (''reason'', json_option JStr reason)])
                  in ([msg], map_err AMsg (and_then (reply msg) (\<lambda>_. Ok ()))))))"

end
