(* ===== verification/Server_Script.thy ===== *)
theory Server_Script
  imports Server_Events Agents
begin

text \<open>
  The scripts of servers written by agents: the two templates of \<open>execute_create_mcp_server\<close> in
  \<open>managers/mcp_kernel_tool.rs\<close>, with the description of the server in a Python docstring.
\<close>

definition dq :: string where
  "dq = [CHR 0x22]"

definition dq3 :: string where
  "dq3 = [CHR 0x22, CHR 0x22, CHR 0x22]"

definition script_lines :: "string list \<Rightarrow> string" where
  "script_lines ls = concat (map (\<lambda>l. l @ [CHR 0x0A]) ls)"

definition escaped_description :: "string \<Rightarrow> string" where
  "escaped_description d = concat (map (\<lambda>c. if c = CHR 0x22 then [CHR 0x5C, CHR 0x22] else [c]) d)"

definition coordinator_script :: "string \<Rightarrow> string \<Rightarrow> string \<Rightarrow> string \<Rightarrow> string" where
  "coordinator_script server_id name desc code = script_lines
     [dq3 @ ''MGP Coordinator Server: '' @ name @ '' '' @ long_dash @ '' '' @ desc @ dq3,
      ''import asyncio'',
      ''import json'',
      ''import os'',
      ''import datetime'',
      ''import httpx'',
      [],
      ''from mcp.server import Server'',
      ''from mcp.server.stdio import stdio_server'',
      ''from mcp.types import TextContent, Tool'',
      [],
      ''app = Server('' @ dq @ name @ dq @ '')'',
      [],
      ''KERNEL_URL = os.environ.get('' @ dq @ ''CLOTO_KERNEL_URL'' @ dq @ '', '' @ dq @ ''http://127.0.0.1:8081'' @ dq @ '')'',
      [],
      [],
      ''async def delegate(server_id: str, tool_name: str, arguments: dict,'',
      ''                   original_actor: str, chain: list = None) -> dict:'',
      ''    '' @ dq3 @ ''Delegate a tool call to another MCP server via the kernel (MGP section 5.6).'' @ dq3,
      ''    delegation_chain = list(chain or [])'',
      ''    delegation_chain.append({'',
      ''        '' @ dq @ ''server_id'' @ dq @ '': '' @ dq @ server_id @ dq @ '','',
      ''        '' @ dq @ ''tool_name'' @ dq @ '': tool_name,'',
      ''        '' @ dq @ ''timestamp'' @ dq @ '': datetime.datetime.utcnow().isoformat() + '' @ dq @ ''Z'' @ dq,
      ''    })'',
      ''    if len(delegation_chain) > 3:'',
      ''        raise ValueError('' @ dq @ ''Delegation chain depth exceeds maximum of 3'' @ dq @ '')'',
      ''    payload = {'',
      ''        '' @ dq @ ''server_id'' @ dq @ '': server_id,'',
      ''        '' @ dq @ ''tool_name'' @ dq @ '': tool_name,'',
      ''        '' @ dq @ ''arguments'' @ dq @ '': {'',
      ''            **arguments,'',
      ''            '' @ dq @ ''_mgp'' @ dq @ '': {'',
      ''                '' @ dq @ ''delegation'' @ dq @ '': {'',
      ''                    '' @ dq @ ''original_actor'' @ dq @ '': original_actor,'',
      ''                    '' @ dq @ ''delegated_via'' @ dq @ '': '' @ dq @ server_id @ dq @ '','',
      ''                    '' @ dq @ ''chain'' @ dq @ '': delegation_chain'',
      ''                }'',
      ''            }'',
      ''        }'',
      ''    }'',
      ''    api_key = os.environ.get('' @ dq @ ''CLOTO_API_KEY'' @ dq @ '', '' @ dq @ dq @ '')'',
      ''    async with httpx.AsyncClient(timeout=30) as client:'',
      ''        resp = await client.post('',
      ''            f'' @ dq @ ''{KERNEL_URL}/api/mcp/call'' @ dq @ '','',
      ''            json=payload,'',
      ''            headers={'' @ dq @ ''X-API-Key'' @ dq @ '': api_key}'',
      ''        )'',
      ''        resp.raise_for_status()'',
      ''        return resp.json()'',
      [],
      [],
      code,
      [],
      ''async def main():'',
      ''    init_options = app.create_initialization_options()'',
      ''    if init_options.capabilities:'',
      ''        init_options.capabilities.experimental = {'',
      ''            '' @ dq @ ''mgp'' @ dq @ '': {'',
      ''                '' @ dq @ ''version'' @ dq @ '': '' @ dq @ MGP_VERSION @ dq @ '','',
      ''                '' @ dq @ ''extensions'' @ dq @ '': ['' @ dq @ ''tool_security'' @ dq @ '', '' @ dq @ ''delegation'' @ dq @ ''],'',
      ''                '' @ dq @ ''server_id'' @ dq @ '': '' @ dq @ server_id @ dq @ '','',
      ''                '' @ dq @ ''trust_level'' @ dq @ '': '' @ dq @ ''untrusted'' @ dq,
      ''            }'',
      ''        }'',
      ''    async with stdio_server() as (read, write):'',
      ''        await app.run(read, write, init_options)'',
      [],
      ''if __name__ == '' @ dq @ ''__main__'' @ dq @ '':'',
      ''    asyncio.run(main())'']"

definition basic_script :: "string \<Rightarrow> string \<Rightarrow> string \<Rightarrow> string \<Rightarrow> string" where
  "basic_script server_id name desc code = script_lines
     [dq3 @ ''MCP Server: '' @ name @ '' '' @ long_dash @ '' '' @ desc @ dq3,
      ''import asyncio'',
      ''import json'',
      [],
      ''from mcp.server import Server'',
      ''from mcp.server.stdio import stdio_server'',
      ''from mcp.types import TextContent, Tool'',
      [],
      ''app = Server('' @ dq @ name @ dq @ '')'',
      [],
      code,
      [],
      ''async def main():'',
      ''    init_options = app.create_initialization_options()'',
      ''    if init_options.capabilities:'',
      ''        init_options.capabilities.experimental = {'',
      ''            '' @ dq @ ''mgp'' @ dq @ '': {'',
      ''                '' @ dq @ ''version'' @ dq @ '': '' @ dq @ MGP_VERSION @ dq @ '','',
      ''                '' @ dq @ ''extensions'' @ dq @ '': ['' @ dq @ ''tool_security'' @ dq @ ''],'',
      ''                '' @ dq @ ''server_id'' @ dq @ '': '' @ dq @ server_id @ dq @ '','',
      ''                '' @ dq @ ''trust_level'' @ dq @ '': '' @ dq @ ''untrusted'' @ dq,
      ''            }'',
      ''        }'',
      ''    async with stdio_server() as (read, write):'',
      ''        await app.run(read, write, init_options)'',
      [],
      ''if __name__ == '' @ dq @ ''__main__'' @ dq @ '':'',
      ''    asyncio.run(main())'']"

definition render_script :: "string \<Rightarrow> string \<Rightarrow> string \<Rightarrow> string \<Rightarrow> string \<Rightarrow> string" where
  "render_script server_type server_id name description code =
     (let desc = escaped_description description
      in if server_type = ''coordinator'' then coordinator_script server_id name desc code
         else basic_script server_id name desc code)"

section \<open>The description stays in the docstring\<close>

text \<open>What follows a triple-quoted string, read from inside it the way Python does.\<close>

fun after_docstring :: "string \<Rightarrow> string option" where
  "after_docstring [] = None"
| "after_docstring [c] = None"
| "after_docstring (c # c' # cs) =
     (if c = CHR 0x5C then after_docstring cs
      else if c = CHR 0x22 \<and> c' = CHR 0x22 \<and> take 1 cs = [CHR 0x22] then Some (drop 1 cs)
      else after_docstring (c' # cs))"

lemma after_docstring_suffix: "after_docstring s = Some r \<Longrightarrow> \<exists>p. s = p @ r"
proof (induction s rule: after_docstring.induct)
  case (3 c c' cs)
  note found = "3.prems" and ih = "3.IH"
  consider "c = CHR 0x5C" | "c \<noteq> CHR 0x5C" "c = CHR 0x22 \<and> c' = CHR 0x22 \<and> take 1 cs = [CHR 0x22]"
    | "c \<noteq> CHR 0x5C" "\<not> (c = CHR 0x22 \<and> c' = CHR 0x22 \<and> take 1 cs = [CHR 0x22])" by blast
  then show ?case
  proof cases
    case 1
    then obtain p where "cs = p @ r" using ih(1) found by auto
    then show ?thesis by (intro exI [of _ "c # c' # p"]) simp
  next
    case 2
    then have "r = drop 1 cs" using found by simp
    then show ?thesis using append_take_drop_id [of 1 cs] by (intro exI [of _ "c # c' # take 1 cs"]) simp
  next
    case 3
    then obtain p where "c' # cs = p @ r" using ih(2) found by (auto split: if_splits)
    then show ?thesis by (intro exI [of _ "c # p"]) simp
  qed
qed simp_all

lemma escaped_simps [simp]:
  "escaped_description [] = []"
  "escaped_description (c # d) = (if c = CHR 0x22 then [CHR 0x5C, CHR 0x22] else [c]) @ escaped_description d"
  "escaped_description (d @ d') = escaped_description d @ escaped_description d'"
  by (simp_all add: escaped_description_def)

lemma after_docstring_plain: "c \<noteq> CHR 0x22 \<Longrightarrow> c \<noteq> CHR 0x5C \<Longrightarrow> after_docstring (c # s) = after_docstring s"
  by (cases s) simp_all

lemma after_docstring_escape: "after_docstring (CHR 0x5C # c # s) = after_docstring s"
  by simp

lemma after_docstring_lone: "take 2 s \<noteq> [CHR 0x22, CHR 0x22] \<Longrightarrow> after_docstring (CHR 0x22 # s) = after_docstring s"
  by (cases s rule: list.exhaust; cases "tl s") auto

lemma escaped_head: "d \<noteq> [] \<Longrightarrow> \<exists>c s. escaped_description d = c # s \<and> c \<noteq> CHR 0x22"
  by (cases d) auto

lemma description_in_docstring:
  assumes "after_docstring (escaped_description d @ dq3 @ rest) = Some r"
  shows "\<exists>p. dq @ rest = p @ r"
  using assms
proof (induction "length d" arbitrary: d rule: less_induct)
  case less
  have quotes: "dq3 = CHR 0x22 # CHR 0x22 # dq" "dq = [CHR 0x22]" by (simp_all add: dq3_def dq_def)
  have tail: "\<exists>p. dq @ rest = p @ r" if "after_docstring (dq @ rest) = Some r"
    using after_docstring_suffix [OF that] .
  show ?case
  proof (cases d)
    case Nil
    then show ?thesis using less(2) by (auto simp: quotes)
  next
    case (Cons c d1)
    show ?thesis
    proof (cases "c = CHR 0x5C")
      case False
      then show ?thesis using less Cons by (auto simp: after_docstring_plain split: if_splits)
    next
      case True
      show ?thesis
      proof (cases d1)
        case Nil
        have "after_docstring (CHR 0x22 # CHR 0x22 # rest) = Some r" using less(2) Cons True Nil by (simp add: quotes)
        then have "after_docstring (CHR 0x22 # rest) = Some r \<or> Some (drop 1 rest) = Some r \<and> take 1 rest = [CHR 0x22]"
          by (simp split: if_splits)
        then show ?thesis
        proof
          assume "after_docstring (CHR 0x22 # rest) = Some r"
          then show ?thesis using tail by (simp add: quotes)
        next
          assume "Some (drop 1 rest) = Some r \<and> take 1 rest = [CHR 0x22]"
          then show ?thesis using append_take_drop_id [of 1 rest] by (intro exI [of _ "dq @ take 1 rest"]) simp
        qed
      next
        case (Cons c2 d2)
        have step: "after_docstring (escaped_description d @ dq3 @ rest) =
            (if c2 = CHR 0x22 then after_docstring (CHR 0x22 # escaped_description d2 @ dq3 @ rest)
             else after_docstring (escaped_description d2 @ dq3 @ rest))"
          using \<open>d = c # d1\<close> True Cons by simp
        show ?thesis
        proof (cases "c2 = CHR 0x22 \<and> d2 = []")
          case True
          then have "Some (dq @ rest) = Some r" using less(2) step by (simp add: quotes)
          then show ?thesis by (intro exI [of _ "[]"]) simp
        next
          case False
          have "after_docstring (escaped_description d2 @ dq3 @ rest) = Some r"
          proof (cases "c2 = CHR 0x22")
            case True
            then obtain c' s where "escaped_description d2 = c' # s" "c' \<noteq> CHR 0x22" using False escaped_head by blast
            then show ?thesis using less(2) step True by (simp add: after_docstring_lone)
          next
            case False
            then show ?thesis using less(2) step by simp
          qed
          then show ?thesis using less(1) [of d2] Cons \<open>d = c # d1\<close> by simp
        qed
      qed
    qed
  qed
qed

lemma plain_description_closes:
  "CHR 0x5C \<notin> set d \<Longrightarrow> after_docstring (escaped_description d @ dq3 @ rest) = Some rest"
  by (induction d) (auto simp: dq3_def after_docstring_plain)

text \<open>Only quotes are escaped: a description that ends in a backslash takes a quote of the closing three with it.\<close>

lemma backslash_breaks_docstring:
  "after_docstring (escaped_description [CHR 0x5C] @ dq3 @ [CHR 0x0A]) = None"
  by (simp add: dq3_def)

text \<open>A script starts with the docstring; the description is inside it, and nothing after it depends on the description.\<close>

definition plain :: "string \<Rightarrow> bool" where
  "plain s \<longleftrightarrow> (\<forall>c \<in> set s. c \<noteq> CHR 0x22 \<and> c \<noteq> CHR 0x5C)"

lemma after_docstring_skip: "plain h \<Longrightarrow> after_docstring (h @ s) = after_docstring s"
  by (induction h) (simp_all add: after_docstring_plain plain_def)

lemma script_lines_Cons: "script_lines (l # ls) = l @ [CHR 0x0A] @ script_lines ls"
  by (simp add: script_lines_def)

lemma render_shape:
  assumes "plain name"
  shows "\<exists>head rest. plain head \<and> (\<forall>desc. render_script ty sid name desc code = dq3 @ head @ escaped_description desc @ dq3 @ rest)"
proof (cases "ty = ''coordinator''")
  case True
  let ?head = "''MGP Coordinator Server: '' @ name @ '' '' @ long_dash @ '' ''"
  have "plain ?head" using assms by (auto simp: plain_def long_dash_def)
  moreover have "\<exists>rest. \<forall>desc. coordinator_script sid name desc code = dq3 @ ?head @ desc @ dq3 @ rest"
    unfolding coordinator_script_def script_lines_Cons append_assoc by (rule exI, rule allI, rule refl)
  ultimately show ?thesis using True unfolding render_script_def Let_def by auto
next
  case False
  let ?head = "''MCP Server: '' @ name @ '' '' @ long_dash @ '' ''"
  have "plain ?head" using assms by (auto simp: plain_def long_dash_def)
  moreover have "\<exists>rest. \<forall>desc. basic_script sid name desc code = dq3 @ ?head @ desc @ dq3 @ rest"
    unfolding basic_script_def script_lines_Cons append_assoc by (rule exI, rule allI, rule refl)
  ultimately show ?thesis using False unfolding render_script_def Let_def by auto
qed

lemma rendered_description_confined:
  assumes "plain name"
  shows "\<exists>rest. \<forall>desc r. after_docstring (drop 3 (render_script ty sid name desc code)) = Some r \<longrightarrow> (\<exists>p. dq @ rest = p @ r)"
proof -
  obtain head rest where head: "plain head"
      and shape: "\<And>desc. render_script ty sid name desc code = dq3 @ head @ escaped_description desc @ dq3 @ rest"
    using render_shape [OF assms] by metis
  have "\<exists>p. dq @ rest = p @ r" if "after_docstring (drop 3 (render_script ty sid name desc code)) = Some r" for desc r
  proof -
    have "drop 3 (dq3 @ head @ s) = head @ s" for s by (simp add: dq3_def)
    then have "after_docstring (escaped_description desc @ dq3 @ rest) = Some r"
      using that unfolding shape by (simp only: after_docstring_skip [OF head])
    then show ?thesis by (rule description_in_docstring)
  qed
  then show ?thesis by blast
qed

end
