(* ===== verification/Kernel_Tools.thy ===== *)
theory Kernel_Tools
  imports Server_Script Audit_Log
begin

text \<open>
  The tools the kernel answers itself (\<open>managers/mcp_kernel_tool.rs\<close>): access queries, grants and
  revocations, audit replay, health, draining, streams, subscriptions and callbacks, questions to
  the operator, and the creation of servers by agents; and the switch of the privileged mode
  (\<open>set_yolo_mode\<close> in \<open>handlers/mcp.rs\<close>). Delegation to another agent is in \<open>Delegation\<close>.

  A tool takes the caller's arguments with its own \<open>agent_id\<close> already forced into them
  (\<open>safe_args\<close> of the agentic loop). Audit entries, notices and calls to a server are effects.
\<close>

record kernel_world =
  kw_yolo :: bool
  kw_gate :: gate_env
  kw_events :: event_manager
  kw_streams :: stream_assembler
  kw_audit :: audit_log

record kernel_io =
  ki_now :: instant
  ki_sql_time :: "instant \<Rightarrow> string"
  ki_rfc3339 :: "instant \<Rightarrow> string"
  ki_fresh :: string
  ki_fault :: "nat \<Rightarrow> fault"
  ki_alive :: "nat \<Rightarrow> bool"
  ki_connected_at :: "string \<Rightarrow> instant option"
  ki_reply :: "client_message \<Rightarrow> string + json"
  ki_audit :: audit_lib
  ki_add_server :: "string + string list"
  ki_script_written :: "string + unit"
  ki_port :: "string option"
  ki_api_key :: "string option"

datatype kernel_effect =
    ToClient client_message
  | AuditTrail string string "string option" string
  | DrainStarted string string nat
  | ProposalRecorded string string "string option" string McpLogLevel
  | ServerAdded string "string list" string "string option" "(string \<times> string) list"

definition kw_db :: "kernel_world \<Rightarrow> db" where
  "kw_db w = ge_db (kw_gate w)"

definition kw_state :: "kernel_world \<Rightarrow> mcp_state" where
  "kw_state w = ge_state (kw_gate w)"

definition with_db :: "db \<Rightarrow> kernel_world \<Rightarrow> kernel_world" where
  "with_db d w = w\<lparr>kw_gate := (kw_gate w)\<lparr>ge_db := d\<rparr>\<rparr>"

definition arrow_right :: string where
  "arrow_right = [CHR 0xE2, CHR 0x86, CHR 0x92]"

definition yolo_required_rejection :: ToolFailure where
  "yolo_required_rejection = Rejection
     \<lparr>rj_code = YoloRequired,
      rj_reason = ''This tool is restricted to privileged (YOLO) mode, which is currently disabled by the operator. The kernel will reject identical requests until the operator re-enables privileged mode in the dashboard.'',
      rj_remediation_hint = Some (''Ask the operator to enable YOLO mode in Settings '' @ arrow_right @ '' Security.''),
      rj_retryable = True, rj_details = None\<rparr>"

section \<open>Access\<close>

definition opt_json :: "string option \<Rightarrow> json" where
  "opt_json s = json_option JStr s"

definition access_entry_json :: "access_control_entry \<Rightarrow> json" where
  "access_entry_json e =
     json_object [(''entry_type'', JStr (entry_type_str (ac_entry_type e))), (''server_id'', JStr (ac_server_id e)),
       (''tool_name'', opt_json (ac_tool_name e)), (''permission'', JStr (permission_str (ac_permission e))),
       (''granted_by'', opt_json (ac_granted_by e)), (''granted_at'', JStr (ac_granted_at e))]"

definition lift_db :: "db_error + 'a \<Rightarrow> ToolFailure + 'a" where
  "lift_db r = map_err (\<lambda>e. FailError (AMsg e)) r"

definition execute_access_query :: "kernel_io \<Rightarrow> json \<Rightarrow> kernel_world \<Rightarrow> ToolFailure + json" where
  "execute_access_query io args w =
     (if \<not> kw_yolo w then Err yolo_required_rejection
      else and_then (required_str args ''agent_id'') (\<lambda>agent_id. and_then (required_str args ''server_id'') (\<lambda>server_id.
        case optional_str args ''tool_name'' of
          Some tn \<Rightarrow>
            and_then (lift_db (resolve_tool_access (ge_sqlite (kw_gate w)) (ki_now io) (ki_fault io) (kw_db w) agent_id server_id tn))
              (\<lambda>p. Ok (json_object [(''agent_id'', JStr agent_id), (''server_id'', JStr server_id), (''tool_name'', JStr tn),
                 (''permission'', JStr (permission_str p))]))
        | None \<Rightarrow>
            and_then (lift_db (get_access_entries_for_agent (ki_fault io 0) (kw_db w) agent_id))
              (\<lambda>entries. Ok (json_object [(''agent_id'', JStr agent_id), (''server_id'', JStr server_id),
                 (''entries'', JArr (map access_entry_json (filter (\<lambda>e. ac_server_id e = server_id) entries)))])))))"

definition YOLO_GRANT_TTL_HOURS :: int where
  "YOLO_GRANT_TTL_HOURS = 24"

definition hours :: "int \<Rightarrow> duration" where
  "hours n = n * 3600000"

definition entry_type_of_str :: "string \<Rightarrow> EntryType option" where
  "entry_type_of_str s = map_of [(''capability'', Capability), (''server_grant'', ServerGrant), (''tool_grant'', ToolGrant)] s"

definition permission_of_str :: "string \<Rightarrow> PermissionLevel option" where
  "permission_of_str s = map_of [(''allow'', Allow), (''deny'', Deny)] s"

definition yolo_grant_by :: "string \<Rightarrow> string" where
  "yolo_grant_by agent_id = ''yolo-grant:'' @ agent_id"

definition yolo_entry ::
  "kernel_io \<Rightarrow> string \<Rightarrow> string \<Rightarrow> EntryType \<Rightarrow> string option \<Rightarrow> PermissionLevel \<Rightarrow> string option \<Rightarrow> access_control_entry" where
  "yolo_entry io agent_id server_id ty tool p reason_given =
     \<lparr>ac_id = None, ac_entry_type = ty, ac_agent_id = agent_id, ac_server_id = server_id, ac_tool_name = tool,
      ac_permission = p, ac_granted_by = Some (yolo_grant_by agent_id), ac_granted_at = ki_rfc3339 io (ki_now io),
      ac_expires_at = Some (ki_sql_time io (ki_now io + hours YOLO_GRANT_TTL_HOURS)), ac_justification = reason_given,
      ac_metadata = None\<rparr>"

record grant_request =
  gq_agent_id :: string
  gq_server_id :: string
  gq_entry_type :: EntryType
  gq_permission :: PermissionLevel

definition parse_grant :: "json \<Rightarrow> ToolFailure + grant_request" where
  "parse_grant args =
     and_then (required_str args ''agent_id'') (\<lambda>agent_id. and_then (required_str args ''server_id'') (\<lambda>server_id.
     and_then (required_str args ''entry_type'') (\<lambda>entry_type. and_then (required_str args ''permission'') (\<lambda>permission.
     and_then (ok_or (entry_type_of_str entry_type) (FailError (AMgp (invalid_tool_arg (''Invalid entry_type: '' @ quoted entry_type)))))
     (\<lambda>ty. and_then (ok_or (permission_of_str permission) (FailError (AMgp (invalid_tool_arg (''Invalid permission: '' @ quoted permission)))))
     (\<lambda>p. Ok \<lparr>gq_agent_id = agent_id, gq_server_id = server_id, gq_entry_type = ty, gq_permission = p\<rparr>))))))"

definition execute_access_grant ::
  "kernel_io \<Rightarrow> json \<Rightarrow> kernel_world \<Rightarrow> kernel_world \<times> kernel_effect list \<times> (ToolFailure + json)" where
  "execute_access_grant io args w =
     (if \<not> kw_yolo w then (w, [], Err yolo_required_rejection)
      else case parse_grant args of
        Inl e \<Rightarrow> (w, [], Err e)
      | Inr rq \<Rightarrow>
          (let reason_given = optional_str args ''justification''; tool = optional_str args ''tool_name'';
               entry = yolo_entry io (gq_agent_id rq) (gq_server_id rq) (gq_entry_type rq) tool (gq_permission rq) reason_given;
               (db', res) = save_access_control_entry (ki_fault io) (ki_now io) entry (kw_db w)
           in case res of
                Inl e \<Rightarrow> (with_db db' w, [], Err (FailError (AMsg e)))
              | Inr i \<Rightarrow>
                  (with_db db' w,
                   [AuditTrail ''ACCESS_GRANTED'' (gq_server_id rq @ '':'' @ gq_agent_id rq) (Some (permission_str (gq_permission rq)))
                      (unwrap_or reason_given ''mgp.access.grant'')],
                   Ok (json_object [(''status'', JStr ''granted''), (''id'', json_i64 i), (''agent_id'', JStr (gq_agent_id rq)),
                     (''server_id'', JStr (gq_server_id rq)), (''entry_type'', JStr (entry_type_str (gq_entry_type rq))),
                     (''permission'', JStr (permission_str (gq_permission rq)))]))))"

definition execute_access_revoke ::
  "kernel_io \<Rightarrow> json \<Rightarrow> kernel_world \<Rightarrow> kernel_world \<times> kernel_effect list \<times> (ToolFailure + json)" where
  "execute_access_revoke io args w =
     (if \<not> kw_yolo w then (w, [], Err yolo_required_rejection)
      else case and_then (required_str args ''agent_id'') (\<lambda>agent_id. and_then (required_str args ''server_id'') (\<lambda>server_id.
                  and_then (required_str args ''entry_type'') (\<lambda>entry_type. Ok (agent_id, server_id, entry_type)))) of
        Inl e \<Rightarrow> (w, [], Err e)
      | Inr (agent_id, server_id, entry_type) \<Rightarrow>
          (case delete_access_entry (ki_fault io 0) agent_id server_id entry_type (optional_str args ''tool_name'') (kw_db w) of
             (db', Inl e) \<Rightarrow> (with_db db' w, [], Err (FailError (AMsg e)))
           | (db', Inr n) \<Rightarrow>
               (with_db db' w, [AuditTrail ''ACCESS_REVOKED'' (server_id @ '':'' @ agent_id) None ''mgp.access.revoke''],
                Ok (json_object [(''status'', JStr ''revoked''), (''deleted_count'', json_count n), (''agent_id'', JStr agent_id),
                  (''server_id'', JStr server_id), (''entry_type'', JStr entry_type)]))))"

text \<open>The operator's switch. \<open>LIKE\<close> ignores the case of letters.\<close>

definition yolo_granted :: "access_row \<Rightarrow> bool" where
  "yolo_granted r = (case ac_granted_by r of None \<Rightarrow> False | Some g \<Rightarrow> starts_with (ascii_lower g) ''yolo-grant:'')"

definition purge_yolo_grants :: "fault \<Rightarrow> db \<Rightarrow> db" where
  "purge_yolo_grants f d = (case f of Some _ \<Rightarrow> d | None \<Rightarrow> d\<lparr>db_access := filter (\<lambda>r. \<not> yolo_granted r) (db_access d)\<rparr>)"

definition set_yolo_mode :: "fault \<Rightarrow> json \<Rightarrow> kernel_world \<Rightarrow> kernel_world" where
  "set_yolo_mode f body w =
     (let enabled = unwrap_or (Option.bind (json_get body ''enabled'') json_as_bool) False;
          w1 = w\<lparr>kw_yolo := enabled\<rparr>
      in if enabled then w1 else with_db (purge_yolo_grants f (kw_db w1)) w1)"

section \<open>Audit replay\<close>

definition clamp :: "int \<Rightarrow> int \<Rightarrow> int \<Rightarrow> int" where
  "clamp lo hi n = max lo (min hi n)"

definition audit_json :: "kernel_io \<Rightarrow> int \<times> audit_entry \<Rightarrow> json" where
  "audit_json io p =
     (let (seq, e) = p
      in json_object
        [(''seq'', json_i64 seq), (''timestamp'', JStr (ki_rfc3339 io (ae_timestamp e))), (''event_type'', JStr (ae_event_type e)),
         (''actor'', json_object
            [(''type'', JStr (case ae_actor_id e of Some i \<Rightarrow> if starts_with i ''agent.'' then ''agent'' else ''kernel'' | None \<Rightarrow> ''kernel'')),
             (''id'', opt_json (ae_actor_id e))]),
         (''target'', json_object
            [(''server_id'', opt_json (ae_target_id e)),
             (''tool_name'', opt_json (Option.bind (Option.bind (ae_metadata e) (\<lambda>m. json_get m ''tool_name'')) json_as_str))]),
         (''permission'', opt_json (ae_permission e)), (''result'', JStr (ae_result e)), (''reason'', JStr (ae_reason e)),
         (''metadata'', json_option (\<lambda>m. m) (ae_metadata e))])"

definition execute_audit_replay :: "kernel_io \<Rightarrow> json \<Rightarrow> kernel_world \<Rightarrow> ToolFailure + json" where
  "execute_audit_replay io args w =
     (if \<not> kw_yolo w then Err yolo_required_rejection
      else
        (let since_seq = Option.bind (json_get args ''since_seq'') json_as_i64;
             since_timestamp = optional_str args ''since_timestamp'';
             limit = clamp 1 1000 (unwrap_or (Option.bind (json_get args ''limit'') json_as_i64) 100)
         in and_then (lift_db (query_audit_logs_since (ki_audit io) (ki_fault io 0) since_seq since_timestamp limit (kw_audit w)))
              (\<lambda>entries. Ok (json_object
                 [(''events'', JArr (map (audit_json io) entries)), (''has_more'', JBool (int (length entries) = limit)),
                  (''next_seq'', (case rev entries of [] \<Rightarrow> JNull | (i, _) # _ \<Rightarrow> json_i64 i))]))))"

section \<open>Health\<close>

definition uptime_json :: "kernel_io \<Rightarrow> string \<Rightarrow> json" where
  "uptime_json io server_id = json_option (\<lambda>t. json_i64 ((ki_now io - t) div 1000)) (ki_connected_at io server_id)"

definition not_found_json :: "string \<Rightarrow> json" where
  "not_found_json server_id = json_object [(''server_id'', JStr server_id), (''status'', JStr ''not_found'')]"

definition execute_health_ping :: "kernel_io \<Rightarrow> json \<Rightarrow> kernel_world \<Rightarrow> ToolFailure + json" where
  "execute_health_ping io args w =
     and_then (required_str args ''server_id'') (\<lambda>server_id.
       case hm_get (st_servers (kw_state w)) server_id of
         None \<Rightarrow> Ok (not_found_json server_id)
       | Some h \<Rightarrow>
           (let alive = (case sh_client h of None \<Rightarrow> False | Some c \<Rightarrow> ki_alive io c);
                health = (if alive \<and> is_operational (sh_status h) then ''healthy'' else if alive then ''degraded'' else ''unhealthy'')
            in Ok (json_object [(''status'', JStr health), (''timestamp'', JStr (ki_rfc3339 io (ki_now io))),
                 (''uptime_secs'', uptime_json io server_id), (''server_id'', JStr server_id)])))"

definition execute_health_status :: "kernel_io \<Rightarrow> json \<Rightarrow> kernel_world \<Rightarrow> ToolFailure + json" where
  "execute_health_status io args w =
     and_then (required_str args ''server_id'') (\<lambda>server_id.
       case hm_get (st_servers (kw_state w)) server_id of
         None \<Rightarrow> Ok (not_found_json server_id)
       | Some h \<Rightarrow>
           (let up = is_operational (sh_status h)
            in Ok (json_object
                 [(''server_id'', JStr server_id), (''status'', JStr (if up then ''healthy'' else ''unhealthy'')),
                  (''uptime_secs'', uptime_json io server_id), (''tools_available'', json_count (if up then length (sh_tools h) else 0)),
                  (''tools_total'', json_count (length (sh_tools h))), (''pending_requests'', json_count 0), (''resources'', JObj []),
                  (''checks'', json_object [(''mgp_negotiated'', JBool (sh_mgp_negotiated h \<noteq> None))])])))"

section \<open>Which servers a caller may act on\<close>

definition granted_servers :: "fault \<Rightarrow> json \<Rightarrow> kernel_world \<Rightarrow> ToolFailure + string list" where
  "granted_servers f args w =
     (case optional_str args ''agent_id'' of
        None \<Rightarrow> Ok []
      | Some agent_id \<Rightarrow>
          and_then (lift_db (get_access_entries_for_agent f (kw_db w) agent_id))
            (\<lambda>entries. Ok (map ac_server_id (filter (\<lambda>e. ac_entry_type e = ServerGrant \<and> ac_permission e = Allow) entries))))"

definition require_server_access :: "fault \<Rightarrow> json \<Rightarrow> string \<Rightarrow> kernel_world \<Rightarrow> ToolFailure + unit" where
  "require_server_access f args server_id w =
     and_then (required_str args ''agent_id'') (\<lambda>agent_id. and_then (granted_servers f args w) (\<lambda>granted.
       if server_id \<in> set granted then Ok ()
       else Err (Rejection (access_denied_rejection (''Access denied: agent '' @ quoted agent_id @ '' has no grant for server '' @
              quoted server_id @ '' (bug-441 ownership check)'')))))"

definition required_i64 :: "json \<Rightarrow> string \<Rightarrow> ToolFailure + int" where
  "required_i64 args name = ok_or (Option.bind (json_get args name) json_as_i64) (FailError (AMgp (missing_tool_arg name)))"

section \<open>Draining and streams\<close>

text \<open>Draining sets the status, tells the servers and stops the server after the wait: \<open>begin_drain\<close> of \<open>Server_Table\<close>.\<close>

definition execute_lifecycle_shutdown ::
  "kernel_io \<Rightarrow> json \<Rightarrow> kernel_world \<Rightarrow> kernel_effect list \<times> (ToolFailure + json)" where
  "execute_lifecycle_shutdown io args w =
     (case and_then (required_str args ''server_id'') (\<lambda>server_id. and_then (require_server_access (ki_fault io 0) args server_id w)
             (\<lambda>_. and_then (required_str args ''reason'') (\<lambda>reason. Ok (server_id, reason)))) of
        Inl e \<Rightarrow> ([], Err e)
      | Inr (server_id, reason) \<Rightarrow>
          (let timeout_ms = unwrap_or (Option.bind (json_get args ''timeout_ms'') json_as_u64) 5000
           in case hm_get (st_servers (kw_state w)) server_id of
                None \<Rightarrow> ([], Err (FailError (AMgp (resource_not_found (''Server '' @ quoted server_id @ '' not found'')))))
              | Some _ \<Rightarrow> ([DrainStarted server_id reason timeout_ms],
                  Ok (json_object [(''accepted'', JBool True), (''pending_requests'', json_count 0), (''estimated_drain_ms'', json_count timeout_ms)]))))"

definition execute_stream_cancel ::
  "kernel_io \<Rightarrow> json \<Rightarrow> kernel_world \<Rightarrow> kernel_world \<times> kernel_effect list \<times> (ToolFailure + json)" where
  "execute_stream_cancel io args w =
     (case and_then (required_str args ''server_id'') (\<lambda>server_id. and_then (required_i64 args ''request_id'') (\<lambda>request_id.
             and_then (require_server_access (ki_fault io 0) args server_id w) (\<lambda>_. Ok (server_id, request_id)))) of
        Inl e \<Rightarrow> (w, [], Err e)
      | Inr (server_id, request_id) \<Rightarrow>
          (case cancel_stream (kw_state w) (ki_reply io) server_id request_id (unwrap_or (optional_str args ''reason'') ''user_cancelled'') of
             (msgs, Inl e) \<Rightarrow> (w, map ToClient msgs, Err (FailError e))
           | (msgs, Inr result) \<Rightarrow>
               (w\<lparr>kw_streams := remove_stream server_id request_id (kw_streams w)\<rparr>, map ToClient msgs,
                Ok (json_object [(''server_id'', JStr server_id), (''request_id'', json_i64 request_id), (''cancelled'', JBool True),
                  (''partial_result'', json_option (\<lambda>v. v) (json_get result ''partial_result''))]))))"

definition execute_stream_pace :: "kernel_io \<Rightarrow> json \<Rightarrow> kernel_world \<Rightarrow> kernel_effect list \<times> (ToolFailure + json)" where
  "execute_stream_pace io args w =
     (case and_then (required_str args ''server_id'') (\<lambda>server_id. and_then (required_i64 args ''request_id'') (\<lambda>request_id.
             and_then (ok_or (Option.bind (json_get args ''max_chunks_per_second'') json_as_u64)
                         (FailError (AMgp (missing_tool_arg ''max_chunks_per_second'')))) (\<lambda>chunks.
             and_then (require_server_access (ki_fault io 0) args server_id w) (\<lambda>_. Ok (server_id, request_id, chunks))))) of
        Inl e \<Rightarrow> ([], Err e)
      | Inr (server_id, request_id, chunks) \<Rightarrow>
          (let n = (of_nat chunks :: u32)
           in case send_pace (kw_state w) (ki_reply io) server_id request_id n (optional_str args ''reason'') of
                (msgs, Inl e) \<Rightarrow> (map ToClient msgs, Err (FailError e))
              | (msgs, Inr _) \<Rightarrow>
                  (map ToClient msgs,
                   Ok (json_object [(''server_id'', JStr server_id), (''request_id'', json_i64 request_id),
                     (''max_chunks_per_second'', json_count (unat n)), (''paced'', JBool True)]))))"

section \<open>Subscriptions and callbacks\<close>

definition on_events ::
  "(event_manager \<Rightarrow> event_manager \<times> (anyhow + json)) \<Rightarrow> kernel_world \<Rightarrow> kernel_world \<times> (ToolFailure + json)" where
  "on_events op w = (let (m, res) = op (kw_events w) in (w\<lparr>kw_events := m\<rparr>, map_err tool_failure_from res))"

definition access_if_known :: "fault \<Rightarrow> json \<Rightarrow> string option \<Rightarrow> kernel_world \<Rightarrow> ToolFailure + unit" where
  "access_if_known f args server w = (case server of None \<Rightarrow> Ok () | Some sid \<Rightarrow> require_server_access f args sid w)"

definition execute_events_subscribe :: "kernel_io \<Rightarrow> json \<Rightarrow> kernel_world \<Rightarrow> kernel_world \<times> (ToolFailure + json)" where
  "execute_events_subscribe io args w =
     (case access_if_known (ki_fault io 0) args (optional_str args ''server_id'') w of
        Inl e \<Rightarrow> (w, Err e)
      | Inr _ \<Rightarrow> on_events (events_subscribe (ki_now io) args) w)"

definition execute_events_unsubscribe :: "kernel_io \<Rightarrow> json \<Rightarrow> kernel_world \<Rightarrow> kernel_world \<times> (ToolFailure + json)" where
  "execute_events_unsubscribe io args w =
     (case access_if_known (ki_fault io 0) args
             (Option.bind (optional_str args ''subscription_id'') (\<lambda>i. subscription_server i (kw_events w))) w of
        Inl e \<Rightarrow> (w, Err e)
      | Inr _ \<Rightarrow> on_events (events_unsubscribe args) w)"

definition execute_events_replay :: "json \<Rightarrow> kernel_world \<Rightarrow> ToolFailure + json" where
  "execute_events_replay args w = map_err tool_failure_from (events_replay args (kw_events w))"

definition pending_json :: "string \<times> string \<times> string \<times> string list option \<times> int \<Rightarrow> json" where
  "pending_json p =
     (let (i, server_id, message, options, age) = p
      in json_object [(''callback_id'', JStr i), (''server_id'', JStr server_id), (''message'', JStr message),
           (''options'', json_option json_strings options), (''age_secs'', json_i64 age)])"

definition visible_callbacks ::
  "instant \<Rightarrow> string list \<Rightarrow> event_manager \<Rightarrow> (string \<times> string \<times> string \<times> string list option \<times> int) list" where
  "visible_callbacks now granted m = filter (\<lambda>(_, server_id, _). server_id \<in> set granted) (pending_callbacks now m)"

definition execute_events_pending_callbacks :: "kernel_io \<Rightarrow> json \<Rightarrow> kernel_world \<Rightarrow> ToolFailure + json" where
  "execute_events_pending_callbacks io args w =
     and_then (granted_servers (ki_fault io 0) args w) (\<lambda>granted.
       (let items = visible_callbacks (ki_now io) granted (kw_events w)
        in Ok (json_object [(''pending'', JArr (map pending_json items)), (''count'', json_count (length items))])))"

definition execute_callback_respond ::
  "kernel_io \<Rightarrow> json \<Rightarrow> kernel_world \<Rightarrow> kernel_world \<times> kernel_effect list \<times> (ToolFailure + json)" where
  "execute_callback_respond io args w =
     (case access_if_known (ki_fault io 0) args
             (Option.bind (optional_str args ''callback_id'') (\<lambda>i. callback_server i (kw_events w))) w of
        Inl e \<Rightarrow> (w, [], Err e)
      | Inr _ \<Rightarrow>
          (let (m, msgs, res) = respond_to_callback (kw_state w) (ki_reply io) args (kw_events w)
           in (w\<lparr>kw_events := m\<rparr>, map ToClient msgs, map_err tool_failure_from res)))"

section \<open>Questions to the operator\<close>

definition log_level_of_str :: "string \<Rightarrow> McpLogLevel option" where
  "log_level_of_str s = map_of
     [(''debug'', LogDebug), (''info'', LogInfo), (''notice'', LogNotice), (''warning'', LogWarning), (''error'', LogError),
      (''critical'', LogCritical), (''alert'', LogAlert), (''emergency'', LogEmergency)] s"

definition execute_operator_ask ::
  "kernel_io \<Rightarrow> Caller \<Rightarrow> json \<Rightarrow> kernel_effect list \<times> (ToolFailure + json)" where
  "execute_operator_ask io caller args =
     (case caller of
        System \<Rightarrow> ([], Err (FailError (AMgp (permission_denied
          ''mgp.operator.ask identifies the asker by agent, and this call was not made by one''))))
      | Agent agent_id \<Rightarrow>
          (case ok_or (option_filter (\<lambda>s. s \<noteq> []) (map_option trim (optional_str args ''title''))) (FailError (AMgp (missing_tool_arg ''title''))) of
             Inl e \<Rightarrow> ([], Err e)
           | Inr title \<Rightarrow>
               (let severity = unwrap_or (Option.bind (optional_str args ''severity'') log_level_of_str) LogNotice;
                    item_id = ''proposal-'' @ ki_fresh io
                in case ki_fault io 0 of
                     Some e \<Rightarrow> ([], Err (FailError (AMsg e)))
                   | None \<Rightarrow>
                       ([ProposalRecorded item_id title (optional_str args ''body'') agent_id severity],
                        Ok (json_object [(''item_id'', JStr item_id), (''status'', JStr ''waiting''),
                          (''detail'', JStr (''Asked. Nothing is waiting on this '' @ long_dash @ '' read the answer later with mgp.operator.replies.''))])))))"

section \<open>Servers written by agents\<close>

definition name_char :: "char \<Rightarrow> bool" where
  "name_char c \<longleftrightarrow> ascii_alnum c \<or> c = CHR ''_'' \<or> c = CHR ''-''"

record server_draft =
  sd_name :: string
  sd_description :: string
  sd_code :: string
  sd_server_type :: string

definition parse_draft :: "json \<Rightarrow> ToolFailure + server_draft" where
  "parse_draft args =
     and_then (required_str args ''name'') (\<lambda>name.
       (let description = unwrap_or (optional_str args ''description'') ''Agent-generated MCP server''
        in and_then (required_str args ''code'') (\<lambda>code.
             (let server_type = unwrap_or (optional_str args ''server_type'') ''basic''
              in if server_type \<noteq> ''basic'' \<and> server_type \<noteq> ''coordinator''
                 then Err (FailError (AMgp (invalid_tool_arg (''Invalid server_type '' @ quoted server_type @ '': must be '' @
                        quoted ''basic'' @ '' or '' @ quoted ''coordinator''))))
                 else if name = [] \<or> length name > 64
                 then Err (FailError (AMgp (invalid_tool_arg ''Server name must be 1-64 characters'')))
                 else if \<not> list_all name_char name
                 then Err (FailError (AMgp (invalid_tool_arg ''Server name must contain only alphanumeric, underscore, or hyphen'')))
                 else Ok \<lparr>sd_name = name, sd_description = description, sd_code = code, sd_server_type = server_type\<rparr>))))"

definition create_hints :: json where
  "create_hints = json_object
     [(''blocked_imports'', json_strings BLOCKED_IMPORTS), (''blocked_patterns'', json_strings BLOCKED_PATTERNS),
      (''max_code_size_bytes'', json_count MAX_CODE_SIZE),
      (''auto_provided_imports'', json_strings
         [''asyncio'', ''json'', ''mcp.server.Server'', ''mcp.server.stdio.stdio_server'', ''mcp.types.TextContent'', ''mcp.types.Tool'']),
      (''allowed_additional_imports'', json_strings
         [''httpx'', ''os'', ''datetime'', ''time'', ''math'', ''re'', ''hashlib'', ''base64'', ''urllib.request'', ''typing''])]"

text \<open>A coordinator is told where the kernel is and, when the kernel has one in its environment, the operator's key.\<close>

definition script_env :: "kernel_io \<Rightarrow> string \<Rightarrow> (string \<times> string) list" where
  "script_env io server_type =
     (if server_type = ''coordinator''
      then [(''CLOTO_KERNEL_URL'', ''http://127.0.0.1:'' @ unwrap_or (ki_port io) ''8081'')]
           @ (case ki_api_key io of None \<Rightarrow> [] | Some k \<Rightarrow> [(''CLOTO_API_KEY'', k)])
      else [])"

definition create_rejected :: "string list \<Rightarrow> json" where
  "create_rejected violations = json_object
     [(''status'', JStr ''rejected''),
      (''reason'', JStr (''Code validation failed '' @ long_dash @ '' review violations and use hints to fix'')),
      (''violations'', json_strings violations), (''hints'', create_hints)]"

text \<open>The server is added untrusted and unsealed.\<close>

definition execute_create_mcp_server ::
  "kernel_io \<Rightarrow> (string \<Rightarrow> string) \<Rightarrow> json \<Rightarrow> kernel_world \<Rightarrow>
   kernel_effect list \<times> (ToolFailure + json)" where
  "execute_create_mcp_server io lower args w =
     (if \<not> kw_yolo w then ([], Err yolo_required_rejection)
      else case parse_draft args of
        Inl e \<Rightarrow> ([], Err e)
      | Inr d \<Rightarrow>
          (case validate_mcp_code lower (sd_code d) CsStandard of
             Inl violations \<Rightarrow>
               ([], Ok (create_rejected violations))
           | Inr _ \<Rightarrow>
               (let server_id = ''agent.'' @ sd_name d;
                    script = render_script (sd_server_type d) server_id (sd_name d) (sd_description d) (sd_code d);
                    path = ''data/mcp_scripts/mcp_'' @ sd_name d @ ''.py''
                in case ki_script_written io of
                     Inl e \<Rightarrow> ([], Err (FailError (AMsg (''Failed to write script: '' @ e))))
                   | Inr _ \<Rightarrow>
                       (let added = ServerAdded server_id [''python'', path] script (Some ''untrusted'') (script_env io (sd_server_type d))
                        in case ki_add_server io of
                             Inl e \<Rightarrow> ([added], Err (FailError (AMsg (''Failed to start server: '' @ e))))
                           | Inr tools \<Rightarrow>
                               ([added], Ok (json_object [(''status'', JStr ''created''), (''server_id'', JStr server_id),
                                  (''tools'', json_strings tools), (''script_path'', JStr path)]))))))"

section \<open>The kernel's dispatch\<close>

definition without_change ::
  "kernel_world \<Rightarrow> ToolFailure + json \<Rightarrow> kernel_world \<times> kernel_effect list \<times> (ToolFailure + json)" where
  "without_change w r = (w, [], r)"

definition without_effect ::
  "kernel_world \<times> (ToolFailure + json) \<Rightarrow> kernel_world \<times> kernel_effect list \<times> (ToolFailure + json)" where
  "without_effect p = (fst p, [], snd p)"

definition same_world ::
  "kernel_world \<Rightarrow> kernel_effect list \<times> (ToolFailure + json) \<Rightarrow> kernel_world \<times> kernel_effect list \<times> (ToolFailure + json)" where
  "same_world w p = (w, p)"

text \<open>\<open>None\<close> for the tools that are modelled elsewhere or not at all.\<close>

definition execute_kernel_tool ::
  "kernel_io \<Rightarrow> (string \<Rightarrow> string) \<Rightarrow> Caller \<Rightarrow> string \<Rightarrow> json \<Rightarrow> kernel_world \<Rightarrow>
   (kernel_world \<times> kernel_effect list \<times> (ToolFailure + json)) option" where
  "execute_kernel_tool io lower caller tool args w =
     (if tool = ''mgp.kernel.create_mcp_server'' then Some (same_world w (execute_create_mcp_server io lower args w))
      else if tool = ''mgp.access.query'' then Some (without_change w (execute_access_query io args w))
      else if tool = ''mgp.access.grant'' then Some (execute_access_grant io args w)
      else if tool = ''mgp.access.revoke'' then Some (execute_access_revoke io args w)
      else if tool = ''mgp.audit.replay'' then Some (without_change w (execute_audit_replay io args w))
      else if tool = ''mgp.health.ping'' then Some (without_change w (execute_health_ping io args w))
      else if tool = ''mgp.health.status'' then Some (without_change w (execute_health_status io args w))
      else if tool = ''mgp.lifecycle.shutdown'' then Some (same_world w (execute_lifecycle_shutdown io args w))
      else if tool = ''mgp.stream.cancel'' then Some (execute_stream_cancel io args w)
      else if tool = ''mgp.stream.pace'' then Some (same_world w (execute_stream_pace io args w))
      else if tool = ''mgp.events.subscribe'' then Some (without_effect (execute_events_subscribe io args w))
      else if tool = ''mgp.events.unsubscribe'' then Some (without_effect (execute_events_unsubscribe io args w))
      else if tool = ''mgp.events.replay'' then Some (without_change w (execute_events_replay args w))
      else if tool = ''mgp.events.pending_callbacks'' then Some (without_change w (execute_events_pending_callbacks io args w))
      else if tool = ''mgp.callback.respond'' then Some (execute_callback_respond io args w)
      else if tool = ''mgp.operator.ask'' then Some (same_world w (execute_operator_ask io caller args))
      else None)"

end
