(* ===== verification/Kernel_Laws.thy ===== *)
theory Kernel_Laws
  imports Kernel_Tools Gate_Laws
begin

text \<open>
  What the kernel's own tools guarantee: what an agent grants itself in privileged mode leaves no trace
  when the mode ends, an agent acts only on servers it was granted, a callback is answered once, and a
  chunk of a stream is taken once.
\<close>

section \<open>Grants of the privileged mode\<close>

lemma yolo_prefix: "ascii_lower ''yolo-grant:'' = ''yolo-grant:''"
  by code_simp

lemma yolo_granted_entry: "yolo_granted ((row_of_entry (yolo_entry io a s ty tool p j))\<lparr>ac_id := n\<rparr>)"
proof -
  have "ascii_lower (''yolo-grant:'' @ a) = ''yolo-grant:'' @ ascii_lower a"
    using yolo_prefix by (simp add: ascii_lower_def)
  moreover have "starts_with (''yolo-grant:'' @ b) ''yolo-grant:''" for b
    by (simp only: starts_with_iff) blast
  ultimately show ?thesis
    by (simp add: yolo_granted_def row_of_entry_def yolo_entry_def yolo_grant_by_def del: append_Cons)
qed

text \<open>The rows and policies the operator wrote.\<close>

definition operator_rows :: "db \<Rightarrow> access_row list" where
  "operator_rows d = filter (\<lambda>r. \<not> yolo_granted r) (db_access d)"

definition same_operator :: "db \<Rightarrow> db \<Rightarrow> bool" where
  "same_operator d d' \<longleftrightarrow> operator_rows d = operator_rows d' \<and> server_policy d = server_policy d'"

lemma same_operator_refl [simp]: "same_operator d d"
  by (simp add: same_operator_def)

lemma same_operator_ensure [simp]: "same_operator (ensure_server now n d) d"
proof -
  have "db_access (ensure_server now n d) = db_access d" by (simp add: ensure_server_def)
  then show ?thesis by (simp add: same_operator_def operator_rows_def fun_eq_iff)
qed

lemma same_operator_trans: "same_operator d d' \<Longrightarrow> same_operator d' d'' \<Longrightarrow> same_operator d d''"
  by (simp add: same_operator_def)

lemma insert_yolo: "(\<And>n. yolo_granted (row\<lparr>ac_id := n\<rparr>)) \<Longrightarrow> insert_access row d = Ok d2 \<Longrightarrow> same_operator d2 d"
  by (auto simp: insert_access_def same_operator_def operator_rows_def intro!: server_policy_cong split: if_splits)

lemma save_yolo_entry: "same_operator (fst (save_access_control_entry f now (yolo_entry io a s ty tool p j) d)) d"
proof -
  let ?e = "yolo_entry io a s ty tool p j" and ?d = "ensure_server now s d"
  have server: "ac_server_id ?e = s" by (simp add: yolo_entry_def)
  have "same_operator d2 ?d" if "insert_access (row_of_entry ?e) ?d = Ok d2" for d2
    by (rule insert_yolo [OF yolo_granted_entry that])
  then have "same_operator (fst (save_access_control_entry f now ?e d)) ?d \<or> fst (save_access_control_entry f now ?e d) = d"
    unfolding save_access_control_entry_def server Let_def by (auto split: option.splits sum.splits)
  then show ?thesis using same_operator_trans [OF _ same_operator_ensure] by fastforce
qed

lemma grant_keeps_operator: "same_operator (kw_db (fst (execute_access_grant io args w))) (kw_db w)"
  using save_yolo_entry
  by (auto simp: execute_access_grant_def with_db_def kw_db_def Let_def split: sum.splits prod.splits) (metis fst_conv)+

definition agent_grants :: "(kernel_io \<times> json) list \<Rightarrow> kernel_world \<Rightarrow> kernel_world" where
  "agent_grants gs w = fold (\<lambda>(io, args) w. fst (execute_access_grant io args w)) gs w"

lemma grants_keep_operator: "same_operator (kw_db (agent_grants gs w)) (kw_db w)"
proof (induction gs arbitrary: w)
  case (Cons g gs)
  obtain io args where g: "g = (io, args)" by fastforce
  have "agent_grants (g # gs) w = agent_grants gs (fst (execute_access_grant io args w))" by (simp add: agent_grants_def g)
  then show ?case using same_operator_trans [OF Cons grant_keeps_operator] by simp
qed (simp add: agent_grants_def)

definition yolo_off :: json where
  "yolo_off = JObj [(''enabled'', JBool False)]"

lemma set_yolo_off: "kw_db (set_yolo_mode None yolo_off w) = (kw_db w)\<lparr>db_access := operator_rows (kw_db w)\<rparr>"
  by (simp add: set_yolo_mode_def yolo_off_def json_get_def json_as_bool_def with_db_def kw_db_def purge_yolo_grants_def operator_rows_def Let_def)

text \<open>However many grants agents issue in privileged mode, for whatever agent, server and tool, and
  whichever of them fail: once the operator ends the mode and the purge succeeds, the access rows are
  exactly the operator's own, and every lookup answers what it answered from those before the grants.\<close>

theorem yolo_grants_leave_no_trace:
  "db_access (kw_db (set_yolo_mode None yolo_off (agent_grants gs w))) = operator_rows (kw_db w) \<and>
   resolve_tool_access sq now f (kw_db (set_yolo_mode None yolo_off (agent_grants gs w))) agent server tool =
     resolve_tool_access sq now f ((kw_db w)\<lparr>db_access := operator_rows (kw_db w)\<rparr>) agent server tool"
proof -
  let ?d = "kw_db (set_yolo_mode None yolo_off (agent_grants gs w))" and ?before = "(kw_db w)\<lparr>db_access := operator_rows (kw_db w)\<rparr>"
  have same: "operator_rows (kw_db (agent_grants gs w)) = operator_rows (kw_db w)"
    and policy: "server_policy (kw_db (agent_grants gs w)) = server_policy (kw_db w)"
    using grants_keep_operator [of gs w] by (simp_all add: same_operator_def)
  have rows: "db_access ?d = operator_rows (kw_db w)" by (simp add: set_yolo_off same)
  have "server_policy ?d = server_policy ?before"
    using policy by (simp add: set_yolo_off server_policy_def find_server_def fun_eq_iff)
  then have "resolve_tool_access sq now f ?d agent server tool = resolve_tool_access sq now f ?before agent server tool"
    by (intro resolve_tool_access_cong) (simp_all add: same_rows_def tool_rows_def server_rows_def rows)
  with rows show ?thesis by blast
qed

text \<open>
  Revoking is not undone: an agent that removes a denial of the operator keeps what the denial held
  back after the mode has ended.
\<close>

definition revoke_io :: kernel_io where
  "revoke_io = \<lparr>ki_now = 7, ki_sql_time = (\<lambda>_. ''t''), ki_rfc3339 = (\<lambda>_. ''t''), ki_fresh = ''1'', ki_fault = (\<lambda>_. None),
     ki_alive = (\<lambda>_. True), ki_connected_at = (\<lambda>_. None), ki_reply = (\<lambda>_. Ok JNull),
     ki_audit = \<lparr>ax_sha = id, ax_rfc3339 = (\<lambda>_. ''t''), ax_parse_time = (\<lambda>_. None), ax_json = example_codec\<rparr>,
     ki_add_server = Ok [], ki_script_written = Ok (), ki_port = None, ki_api_key = None\<rparr>"

definition revoke_world :: kernel_world where
  "revoke_world = \<lparr>kw_yolo = True,
     kw_gate = \<lparr>ge_sqlite = insertion_order, ge_now = 7, ge_json = example_codec, ge_nfkc = id, ge_lower = ascii_lower,
       ge_db = example_db, ge_state = \<lparr>st_servers = [], st_tool_index = []\<rparr>\<rparr>,
     kw_events = event_manager_new, kw_streams = [], kw_audit = \<lparr>al_rows = [], al_seq = 0\<rparr>\<rparr>"

definition revoke_denial :: json where
  "revoke_denial = JObj [(''agent_id'', JStr ''ann''), (''entry_type'', JStr ''tool_grant''), (''server_id'', JStr ''files''),
     (''tool_name'', JStr ''write'')]"

lemma revoked_denial_stays_revoked:
  "resolve_tool_access insertion_order 7 (\<lambda>_. None) (kw_db revoke_world) ''ann'' ''files'' ''write'' = Ok Deny \<and>
   resolve_tool_access insertion_order 7 (\<lambda>_. None)
     (kw_db (set_yolo_mode None yolo_off (fst (execute_access_revoke revoke_io revoke_denial revoke_world)))) ''ann'' ''files'' ''write'' = Ok Allow"
  by code_simp

section \<open>Only on servers the agent was granted\<close>

definition owns :: "kernel_world \<Rightarrow> json \<Rightarrow> string \<Rightarrow> bool" where
  "owns w args server \<longleftrightarrow>
     (\<exists>agent. json_get args ''agent_id'' = Some (JStr agent) \<and>
        (\<exists>r \<in> set (db_access (kw_db w)). ac_agent_id r = agent \<and> ac_server_id r = server \<and>
           ac_entry_type r = ServerGrant \<and> ac_permission r = ''allow''))"

lemma required_str_Ok: "required_str args k = Ok s \<longleftrightarrow> json_get args k = Some (JStr s)"
  by (cases "json_get args k") (auto simp: required_str_def ok_or_def json_as_str_def split: json.splits option.splits)

lemma decode_row_fields:
  "decode_row r = Ok e \<Longrightarrow> ac_server_id e = ac_server_id r \<and> ac_entry_type e = ac_entry_type r \<and>
     (ac_permission e = Allow \<longrightarrow> ac_permission r = ''allow'') \<and> ac_agent_id e = ac_agent_id r"
  by (auto simp: decode_row_def and_then_Ok_iff decode_permission_def split: if_splits)

lemma decode_rows_source: "decode_rows rs = Ok es \<Longrightarrow> e \<in> set es \<Longrightarrow> \<exists>r \<in> set rs. decode_row r = Ok e"
  by (induction rs arbitrary: es) (auto simp: and_then_Ok_iff)

lemma entries_source:
  assumes "get_access_entries_for_agent f d agent = Ok es" and "e \<in> set es" and "ac_entry_type e = ServerGrant" and "ac_permission e = Allow"
  shows "\<exists>r \<in> set (db_access d). ac_agent_id r = agent \<and> ac_server_id r = ac_server_id e \<and> ac_entry_type r = ServerGrant \<and> ac_permission r = ''allow''"
proof -
  let ?rows = "sort_key (\<lambda>r. (ac_server_id r, entry_type_str (ac_entry_type r), ac_tool_name r)) (filter (\<lambda>r. ac_agent_id r = agent) (db_access d))"
  have "decode_rows ?rows = Ok es"
    using assms(1) by (cases f) (simp_all add: get_access_entries_for_agent_def)
  then obtain r where "r \<in> set ?rows" and "decode_row r = Ok e" using decode_rows_source assms(2) by blast
  then show ?thesis using decode_row_fields assms(3,4) by fastforce
qed

lemma require_server_access_owns:
  assumes "require_server_access f args server w = Ok ()"
  shows "owns w args server"
proof -
  obtain agent es e where "json_get args ''agent_id'' = Some (JStr agent)" and "get_access_entries_for_agent f (kw_db w) agent = Ok es"
      and "e \<in> set es" and "ac_entry_type e = ServerGrant" and "ac_permission e = Allow" and "server = ac_server_id e"
    using assms by (auto simp: require_server_access_def granted_servers_def and_then_Ok_iff required_str_Ok lift_db_def optional_str_def
      json_as_str_def split: if_splits)
  then show ?thesis using entries_source unfolding owns_def by blast
qed

text \<open>With every permission readable, the check is exact.\<close>

lemma decode_rows_total:
  "(\<And>r. r \<in> set rs \<Longrightarrow> \<exists>e. decode_row r = Ok e) \<Longrightarrow> \<exists>es. decode_rows rs = Ok es \<and> (\<forall>r \<in> set rs. \<exists>e \<in> set es. decode_row r = Ok e)"
proof (induction rs)
  case (Cons r rs)
  then obtain e es where "decode_row r = Ok e" "decode_rows rs = Ok es" "\<forall>r \<in> set rs. \<exists>e \<in> set es. decode_row r = Ok e"
    by (metis list.set_intros)
  then show ?case by auto
qed simp

lemma owns_require_server_access:
  assumes "owns w args server" and readable: "\<And>r. r \<in> set (db_access (kw_db w)) \<Longrightarrow> ac_permission r \<in> {''allow'', ''deny''}"
  shows "require_server_access None args server w = Ok ()"
proof -
  obtain agent r where agent: "json_get args ''agent_id'' = Some (JStr agent)" and r: "r \<in> set (db_access (kw_db w))"
      "ac_agent_id r = agent" "ac_server_id r = server" "ac_entry_type r = ServerGrant" "ac_permission r = ''allow''"
    using assms(1) by (auto simp: owns_def)
  let ?rows = "sort_key (\<lambda>r. (ac_server_id r, entry_type_str (ac_entry_type r), ac_tool_name r))
      (filter (\<lambda>r. ac_agent_id r = agent) (db_access (kw_db w)))"
  have "\<exists>e. decode_row x = Ok e" if "x \<in> set ?rows" for x
    using readable [of x] that by (auto simp: decode_row_def decode_permission_def)
  then obtain es where es: "decode_rows ?rows = Ok es" "\<forall>x \<in> set ?rows. \<exists>e \<in> set es. decode_row x = Ok e"
    using decode_rows_total by blast
  then obtain e where "e \<in> set es" and "decode_row r = Ok e" using r by auto
  moreover from this have "ac_server_id e = server \<and> ac_entry_type e = ServerGrant \<and> ac_permission e = Allow"
    using r by (auto simp: decode_row_def decode_permission_def and_then_Ok_iff)
  moreover have "get_access_entries_for_agent None (kw_db w) agent = Ok es" using es by (simp add: get_access_entries_for_agent_def)
  ultimately show ?thesis
    using agent by (auto simp: require_server_access_def granted_servers_def required_str_def ok_or_def json_as_str_def
        optional_str_def lift_db_def map_err_def)
qed

fun message_client :: "client_message \<Rightarrow> nat" where
  "message_client (Notify c m v) = c"
| "message_client (ClientRequest c m v) = c"

text \<open>What a tool did, and to whom: messages to servers, drains, callbacks and subscriptions taken.\<close>

definition within_grants :: "kernel_world \<Rightarrow> json \<Rightarrow> kernel_world \<times> kernel_effect list \<times> (ToolFailure + json) \<Rightarrow> bool" where
  "within_grants w args out \<longleftrightarrow>
     (\<forall>msg. ToClient msg \<in> set (fst (snd out)) \<longrightarrow>
        (\<exists>s h. owns w args s \<and> hm_get (st_servers (kw_state w)) s = Some h \<and> sh_client h = Some (message_client msg))) \<and>
     (\<forall>s why t. DrainStarted s why t \<in> set (fst (snd out)) \<longrightarrow> owns w args s) \<and>
     (\<forall>i cb. hm_get (em_callbacks (kw_events w)) i = Some cb \<and> hm_get (em_callbacks (kw_events (fst out))) i \<noteq> Some cb \<longrightarrow>
        owns w args (pc_server_id cb)) \<and>
     (\<forall>i sub. hm_get (em_subscriptions (kw_events w)) i = Some sub \<and> hm_get (em_subscriptions (kw_events (fst out))) i = None \<longrightarrow>
        owns w args (es_server_id sub))"

lemma within_grants_idle: "(\<And>m. ToClient m \<notin> set effs) \<Longrightarrow> (\<And>s y t. DrainStarted s y t \<notin> set effs) \<Longrightarrow> kw_events w' = kw_events w \<Longrightarrow>
    within_grants w args (w', effs, r)"
  by (auto simp: within_grants_def)

lemma within_grants_sent:
  assumes "owns w args s" and "hm_get (st_servers (kw_state w)) s = Some h" and "sh_client h = Some c"
    and "\<And>m. m \<in> set msgs \<Longrightarrow> message_client m = c" and "kw_events w' = kw_events w"
  shows "within_grants w args (w', map ToClient msgs, r)"
  using assms by (fastforce simp: within_grants_def)

lemma stream_client_Ok: "stream_client st s = Ok (h, c) \<longleftrightarrow> hm_get (st_servers st) s = Some h \<and> sh_client h = Some c"
  by (auto simp: stream_client_def and_then_Ok_iff)

lemma within_shutdown: "within_grants w args (same_world w (execute_lifecycle_shutdown io args w))"
proof (cases "fst (execute_lifecycle_shutdown io args w) = []")
  case True
  then show ?thesis
    by (cases "execute_lifecycle_shutdown io args w") (auto simp: same_world_def intro: within_grants_idle)
next
  case False
  then obtain s why t r where "execute_lifecycle_shutdown io args w = ([DrainStarted s why t], r)"
      and "require_server_access (ki_fault io 0) args s w = Ok ()"
    by (auto simp: execute_lifecycle_shutdown_def and_then_Ok_iff Let_def split: sum.splits option.splits)
  then show ?thesis using require_server_access_owns by (auto simp: same_world_def within_grants_def)
qed

lemma within_cancel: "within_grants w args (execute_stream_cancel io args w)"
proof (cases "fst (snd (execute_stream_cancel io args w)) = []")
  case True
  have "kw_events (fst (execute_stream_cancel io args w)) = kw_events w"
    by (auto simp: execute_stream_cancel_def split: sum.splits prod.splits)
  with True show ?thesis
    by (cases "execute_stream_cancel io args w") (auto intro: within_grants_idle)
next
  case False
  then obtain s q where parse: "required_str args ''server_id'' = Ok s" "required_i64 args ''request_id'' = Ok q"
      and owner: "require_server_access (ki_fault io 0) args s w = Ok ()"
    by (auto simp: execute_stream_cancel_def and_then_def split: sum.splits)
  obtain msgs res where cancel: "cancel_stream (kw_state w) (ki_reply io) s q (unwrap_or (optional_str args ''reason'') ''user_cancelled'') = (msgs, res)"
    by fastforce
  obtain w' r where run: "execute_stream_cancel io args w = (w', map ToClient msgs, r)" and same: "kw_events w' = kw_events w"
    using parse owner cancel by (cases res) (simp_all add: execute_stream_cancel_def)
  have "msgs \<noteq> []" using False run by auto
  then obtain h c where "stream_client (kw_state w) s = Ok (h, c)" and "\<And>m. m \<in> set msgs \<Longrightarrow> message_client m = c"
    using cancel by (auto simp: cancel_stream_def Let_def split: sum.splits)
  then show ?thesis
    unfolding run using require_server_access_owns [OF owner] same
    by (intro within_grants_sent [where h = h and c = c]) (auto simp: stream_client_Ok)
qed

lemma within_pace: "within_grants w args (same_world w (execute_stream_pace io args w))"
proof (cases "fst (execute_stream_pace io args w) = []")
  case True
  then show ?thesis
    by (cases "execute_stream_pace io args w") (auto simp: same_world_def intro: within_grants_idle)
next
  case False
  then obtain s q n where parse: "required_str args ''server_id'' = Ok s" "required_i64 args ''request_id'' = Ok q"
        "ok_or (Option.bind (json_get args ''max_chunks_per_second'') json_as_u64) (FailError (AMgp (missing_tool_arg ''max_chunks_per_second''))) = Ok n"
      and owner: "require_server_access (ki_fault io 0) args s w = Ok ()"
    by (auto simp: execute_stream_pace_def and_then_def split: sum.splits)
  obtain msgs res where pace: "send_pace (kw_state w) (ki_reply io) s q (of_nat n) (optional_str args ''reason'') = (msgs, res)"
    by fastforce
  obtain r where run: "execute_stream_pace io args w = (map ToClient msgs, r)"
    using parse owner pace by (cases res) (simp_all add: execute_stream_pace_def Let_def)
  have "msgs \<noteq> []" using False run by auto
  then obtain h c where "hm_get (st_servers (kw_state w)) s = Some h" "sh_client h = Some c" and "\<And>m. m \<in> set msgs \<Longrightarrow> message_client m = c"
    using pace by (auto simp: send_pace_def Let_def split: sum.splits option.splits if_splits)
  then show ?thesis
    unfolding run same_world_def using require_server_access_owns [OF owner] by (intro within_grants_sent [where h = h and c = c]) simp_all
qed

lemma within_subscribe: "within_grants w args (without_effect (execute_events_subscribe io args w))"
  by (auto simp: within_grants_def without_effect_def execute_events_subscribe_def on_events_def events_subscribe_def
      add_subscription_def Let_def split: sum.splits prod.splits if_splits)

lemma within_unsubscribe: "within_grants w args (without_effect (execute_events_unsubscribe io args w))"
proof (cases "access_if_known (ki_fault io 0) args (Option.bind (optional_str args ''subscription_id'') (\<lambda>i. subscription_server i (kw_events w))) w")
  case (Inl e)
  then show ?thesis by (auto simp: within_grants_def without_effect_def execute_events_unsubscribe_def)
next
  case (Inr u)
  have gone: "owns w args (es_server_id sub)"
    if "hm_get (em_subscriptions (kw_events w)) i = Some sub" and "optional_str args ''subscription_id'' = Some i" for i sub
    using Inr that by (auto simp: access_if_known_def subscription_server_def intro: require_server_access_owns)
  show ?thesis
    using Inr gone
    by (auto simp: within_grants_def without_effect_def execute_events_unsubscribe_def on_events_def events_unsubscribe_def
        remove_subscription_def required_arg_def Let_def split: sum.splits prod.splits if_splits)
qed

lemma resolve_callback_cases:
  "(fst (resolve_callback i response m) = m \<and> snd (resolve_callback i response m) = None) \<or>
   (\<exists>cb. hm_get (em_callbacks m) i = Some cb \<and> \<not> pc_responded cb \<and> snd (resolve_callback i response m) = Some (pc_server_id cb) \<and>
      fst (resolve_callback i response m) =
        m\<lparr>em_callbacks := hm_insert i (cb\<lparr>pc_responded := True, pc_recorded_response := Some response\<rparr>) (em_callbacks m)\<rparr>)"
  by (auto simp: resolve_callback_def split: option.splits)

text \<open>Answering sends one message, to the server that asked; it touches the one callback only.\<close>

lemma respond_effects:
  assumes "respond_to_callback st reply args m = (m', msgs, res)"
  shows "(m' = m \<and> msgs = []) \<or>
    (\<exists>i cb. optional_str args ''callback_id'' = Some i \<and> hm_get (em_callbacks m) i = Some cb \<and> \<not> pc_responded cb \<and>
       em_subscriptions m' = em_subscriptions m \<and> (\<forall>j. j \<noteq> i \<longrightarrow> hm_get (em_callbacks m') j = hm_get (em_callbacks m) j) \<and>
       (\<forall>msg \<in> set msgs. \<exists>h. hm_get (st_servers st) (pc_server_id cb) = Some h \<and> sh_client h = Some (message_client msg)))"
proof (cases "and_then (required_arg args ''callback_id'') (\<lambda>i. and_then (required_arg args ''response'') (\<lambda>r. Ok (i, r)))")
  case (Inl e)
  then show ?thesis using assms by (simp add: respond_to_callback_def)
next
  case (Inr p)
  then obtain i response where p: "p = (i, response)" and i: "optional_str args ''callback_id'' = Some i"
    by (auto simp: and_then_Ok_iff required_arg_def)
  show ?thesis
  proof (cases "snd (resolve_callback i response m)")
    case None
    then have "fst (resolve_callback i response m) = m" using resolve_callback_cases [of i response m] by auto
    then have "resolve_callback i response m = (m, None)" using None by (metis prod.collapse)
    then show ?thesis using assms Inr p by (simp add: respond_to_callback_def)
  next
    case (Some server)
    then obtain cb where cb: "hm_get (em_callbacks m) i = Some cb" "\<not> pc_responded cb" "server = pc_server_id cb"
        and taken: "fst (resolve_callback i response m) =
          m\<lparr>em_callbacks := hm_insert i (cb\<lparr>pc_responded := True, pc_recorded_response := Some response\<rparr>) (em_callbacks m)\<rparr>"
      using resolve_callback_cases [of i response m] by auto
    let ?m = "m\<lparr>em_callbacks := hm_insert i (cb\<lparr>pc_responded := True, pc_recorded_response := Some response\<rparr>) (em_callbacks m)\<rparr>"
    have resolved: "resolve_callback i response m = (?m, Some server)" using taken Some by (metis prod.collapse)
    obtain out sent where send: "send_callback_response st reply i server response = (out, sent)" by fastforce
    have "msgs = out" and "m' = (case sent of Inl e \<Rightarrow> reopen_callback i ?m | Inr _ \<Rightarrow> ?m)"
      using assms Inr p resolved send by (auto simp: respond_to_callback_def split: sum.splits)
    moreover have "\<forall>msg \<in> set out. \<exists>h. hm_get (st_servers st) server = Some h \<and> sh_client h = Some (message_client msg)"
      using send by (auto simp: send_callback_response_def Let_def split: option.splits)
    ultimately have "em_subscriptions m' = em_subscriptions m \<and> (\<forall>j. j \<noteq> i \<longrightarrow> hm_get (em_callbacks m') j = hm_get (em_callbacks m) j) \<and>
        (\<forall>msg \<in> set msgs. \<exists>h. hm_get (st_servers st) (pc_server_id cb) = Some h \<and> sh_client h = Some (message_client msg))"
      using cb by (auto simp: reopen_callback_def split: sum.splits option.splits)
    then show ?thesis using i cb by blast
  qed
qed

lemma within_respond: "within_grants w args (execute_callback_respond io args w)"
proof (cases "access_if_known (ki_fault io 0) args (Option.bind (optional_str args ''callback_id'') (\<lambda>i. callback_server i (kw_events w))) w")
  case (Inl e)
  then show ?thesis by (auto simp: execute_callback_respond_def intro: within_grants_idle)
next
  case (Inr u)
  obtain m' msgs res where respond: "respond_to_callback (kw_state w) (ki_reply io) args (kw_events w) = (m', msgs, res)"
    using prod_cases3 by blast
  have run: "execute_callback_respond io args w = (w\<lparr>kw_events := m'\<rparr>, map ToClient msgs, map_err tool_failure_from res)"
    using Inr respond by (simp add: execute_callback_respond_def)
  have owned: "owns w args (pc_server_id cb)"
    if "optional_str args ''callback_id'' = Some i" and "hm_get (em_callbacks (kw_events w)) i = Some cb" for i cb
    using Inr that by (auto simp: access_if_known_def callback_server_def intro: require_server_access_owns)
  from respond_effects [OF respond] show ?thesis
  proof
    assume "m' = kw_events w \<and> msgs = []"
    then show ?thesis unfolding run by (intro within_grants_idle) simp_all
  next
    assume "\<exists>i cb. optional_str args ''callback_id'' = Some i \<and> hm_get (em_callbacks (kw_events w)) i = Some cb \<and> \<not> pc_responded cb \<and>
       em_subscriptions m' = em_subscriptions (kw_events w) \<and>
       (\<forall>j. j \<noteq> i \<longrightarrow> hm_get (em_callbacks m') j = hm_get (em_callbacks (kw_events w)) j) \<and>
       (\<forall>msg \<in> set msgs. \<exists>h. hm_get (st_servers (kw_state w)) (pc_server_id cb) = Some h \<and> sh_client h = Some (message_client msg))"
    then obtain i cb where i: "optional_str args ''callback_id'' = Some i" "hm_get (em_callbacks (kw_events w)) i = Some cb"
        and subs: "em_subscriptions m' = em_subscriptions (kw_events w)"
        and others: "\<And>j. j \<noteq> i \<Longrightarrow> hm_get (em_callbacks m') j = hm_get (em_callbacks (kw_events w)) j"
        and sent: "\<And>msg. msg \<in> set msgs \<Longrightarrow> \<exists>h. hm_get (st_servers (kw_state w)) (pc_server_id cb) = Some h \<and> sh_client h = Some (message_client msg)"
      by blast
    note mine = owned [OF i]
    have "owns w args (pc_server_id cb')"
      if "hm_get (em_callbacks (kw_events w)) j = Some cb'" and "hm_get (em_callbacks m') j \<noteq> Some cb'" for j cb'
      using others [of j] that mine i(2) by (cases "j = i") auto
    moreover have "\<exists>s h. owns w args s \<and> hm_get (st_servers (kw_state w)) s = Some h \<and> sh_client h = Some (message_client msg)"
      if "msg \<in> set msgs" for msg
      using sent [OF that] mine by blast
    ultimately show ?thesis unfolding run within_grants_def using subs by auto
  qed
qed

lemma within_quiet:
  "within_grants w args (without_change w r)"
  "within_grants w args (execute_access_grant io args w)"
  "within_grants w args (execute_access_revoke io args w)"
  "within_grants w args (same_world w (execute_create_mcp_server io lower args w))"
  "within_grants w args (same_world w (execute_operator_ask io caller args))"
proof -
  show "within_grants w args (without_change w r)" by (simp add: without_change_def within_grants_idle)
  show "within_grants w args (execute_access_grant io args w)"
    by (auto simp: execute_access_grant_def with_db_def Let_def split: sum.splits prod.splits intro: within_grants_idle)
  show "within_grants w args (execute_access_revoke io args w)"
    by (auto simp: execute_access_revoke_def with_db_def split: sum.splits prod.splits intro: within_grants_idle)
  show "within_grants w args (same_world w (execute_create_mcp_server io lower args w))"
    by (auto simp: execute_create_mcp_server_def same_world_def Let_def split: sum.splits intro: within_grants_idle)
  show "within_grants w args (same_world w (execute_operator_ask io caller args))"
    by (auto simp: execute_operator_ask_def same_world_def Let_def split: sum.splits Caller.splits option.splits intro: within_grants_idle)
qed

lemmas within_tools = within_quiet within_shutdown within_cancel within_pace within_subscribe within_unsubscribe within_respond

text \<open>Whatever kernel tool an agent calls: each message it sends to a server, each server it drains,
  each callback it answers and each subscription it ends belongs to a server for which the table holds a
  row that allows the agent the whole server; a message goes to that server's connection.\<close>

theorem kernel_tools_act_on_granted_servers:
  assumes "execute_kernel_tool io lower caller tool args w = Some out"
  shows "within_grants w args out"
  using assms unfolding execute_kernel_tool_def by (auto simp: within_tools split: if_splits)

definition pace_world :: kernel_world where
  "pace_world = revoke_world\<lparr>kw_gate := (kw_gate revoke_world)\<lparr>ge_state :=
     \<lparr>st_servers = [(''files'', \<lparr>sh_id = ''files'', sh_required_permissions = [], sh_client = Some 4, sh_tools = [],
        sh_mgp_negotiated = None, sh_status = Connected\<rparr>)], st_tool_index = []\<rparr>\<rparr>\<rparr>"

definition cancel_args :: json where
  "cancel_args = JObj [(''agent_id'', JStr ''ann''), (''request_id'', JNum (PosInt 3)), (''server_id'', JStr ''files'')]"

lemma pace_world_owned: "require_server_access None cancel_args ''files'' pace_world = Ok ()"
  by (rule owns_require_server_access)
    (auto simp: owns_def cancel_args_def json_get_def pace_world_def revoke_world_def kw_db_def example_db_def grant_row_def)

lemma pace_world_cancels: "fst (snd (execute_stream_cancel (revoke_io\<lparr>ki_now := t\<rparr>) cancel_args pace_world)) \<noteq> []"
proof -
  let ?io = "revoke_io\<lparr>ki_now := t\<rparr>"
  have parse: "required_str cancel_args ''server_id'' = Ok ''files''" "required_i64 cancel_args ''request_id'' = Ok 3"
    and server: "\<exists>h. hm_get (st_servers (kw_state pace_world)) ''files'' = Some h \<and> sh_client h = Some 4"
    and fault: "ki_fault ?io 0 = None"
    by (simp_all add: required_str_Ok required_i64_def cancel_args_def json_get_def ok_or_def json_as_i64_def pace_world_def kw_state_def
        hm_get_def revoke_io_def)
  then obtain h where "stream_client (kw_state pace_world) ''files'' = Ok (h, 4)" using stream_client_Ok by blast
  then have "fst (cancel_stream (kw_state pace_world) (ki_reply ?io) ''files'' 3 why) \<noteq> []" for why
    by (simp add: cancel_stream_def Let_def)
  then show ?thesis
    unfolding execute_stream_cancel_def parse fault and_then_simps pace_world_owned sum.case prod.case
    by (auto split: prod.splits sum.splits) (metis fst_conv)+
qed

theorem kernel_tools_act_on_granted_servers_witness:
  "within_grants pace_world cancel_args (execute_stream_cancel revoke_io cancel_args pace_world) \<and>
   fst (snd (execute_stream_cancel revoke_io cancel_args pace_world)) \<noteq> []"
proof -
  have "execute_kernel_tool revoke_io id System ''mgp.stream.cancel'' cancel_args pace_world =
      Some (execute_stream_cancel revoke_io cancel_args pace_world)"
    by (simp add: execute_kernel_tool_def)
  then have "within_grants pace_world cancel_args (execute_stream_cancel revoke_io cancel_args pace_world)"
    by (rule kernel_tools_act_on_granted_servers)
  then show ?thesis using pace_world_cancels [of 7] by (simp add: revoke_io_def)
qed

text \<open>The row is not asked whether it has expired: a grant that no longer resolves still opens these tools.\<close>

lemma expired_grant_still_owns:
  "resolve_tool_access insertion_order 3000 (\<lambda>_. None) (kw_db pace_world) ''ann'' ''files'' ''read'' = Ok Deny \<and>
   fst (snd (execute_stream_cancel (revoke_io\<lparr>ki_now := 3000\<rparr>) cancel_args pace_world)) \<noteq> []"
proof
  show "resolve_tool_access insertion_order 3000 (\<lambda>_. None) (kw_db pace_world) ''ann'' ''files'' ''read'' = Ok Deny"
    by code_simp
qed (rule pace_world_cancels)

section \<open>A callback is answered once\<close>

lemma answered_callback_refused:
  assumes "hm_get (em_callbacks m) i = Some cb" and "pc_responded cb" and "optional_str args ''callback_id'' = Some i"
  shows "\<exists>e. respond_to_callback st reply args m = (m, [], Err e)"
  using assms by (auto simp: respond_to_callback_def resolve_callback_def required_arg_def and_then_def split: sum.splits)

text \<open>After an answer to a callback was delivered, whoever answers it again with whatever text sends
  nothing, changes nothing and is refused; and when the delivery failed, a callback that was pending is
  pending again.\<close>

theorem callback_answered_once:
  assumes "respond_to_callback st reply args m = (m', msgs, res)" and "optional_str args ''callback_id'' = Some i"
  shows "case res of
      Inr _ \<Rightarrow> (\<forall>st' reply' args'. optional_str args' ''callback_id'' = Some i \<longrightarrow>
        (\<exists>e. respond_to_callback st' reply' args' m' = (m', [], Err e)))
    | Inl _ \<Rightarrow> (\<forall>cb. hm_get (em_callbacks m) i = Some cb \<and> \<not> pc_responded cb \<longrightarrow>
        (\<exists>cb'. hm_get (em_callbacks m') i = Some cb' \<and> \<not> pc_responded cb' \<and> pc_server_id cb' = pc_server_id cb))"
proof (cases "required_arg args ''response''")
  case (Inl e)
  then show ?thesis using assms by (auto simp: respond_to_callback_def required_arg_def and_then_def)
next
  case (Inr response)
  then have parse: "and_then (required_arg args ''callback_id'') (\<lambda>i. and_then (required_arg args ''response'') (\<lambda>r. Ok (i, r))) = Ok (i, response)"
    using assms(2) by (simp add: required_arg_def)
  show ?thesis
  proof (cases "\<exists>cb. hm_get (em_callbacks m) i = Some cb \<and> \<not> pc_responded cb")
    case False
    then have "resolve_callback i response m = (m, None)" by (auto simp: resolve_callback_def split: option.splits)
    then show ?thesis using assms(1) parse False by (auto simp: respond_to_callback_def)
  next
    case True
    then obtain cb where cb: "hm_get (em_callbacks m) i = Some cb" "\<not> pc_responded cb" by blast
    let ?m = "m\<lparr>em_callbacks := hm_insert i (cb\<lparr>pc_responded := True, pc_recorded_response := Some response\<rparr>) (em_callbacks m)\<rparr>"
    have resolved: "resolve_callback i response m = (?m, Some (pc_server_id cb))" using cb by (simp add: resolve_callback_def)
    obtain out sent where send: "send_callback_response st reply i (pc_server_id cb) response = (out, sent)" by fastforce
    show ?thesis
    proof (cases sent)
      case (Inl e)
      then have "res = Err e" and "m' = reopen_callback i ?m"
        using assms(1) parse resolved send by (simp_all add: respond_to_callback_def)
      then show ?thesis using cb by (simp add: reopen_callback_def)
    next
      case (Inr u)
      then have "m' = ?m" and "\<exists>v. res = Ok v"
        using assms(1) parse resolved send by (auto simp: respond_to_callback_def)
      then show ?thesis using answered_callback_refused [of m' i] by (auto split: sum.splits)
    qed
  qed
qed

text \<open>An answer that is refused because its sending failed, then given, then given again.\<close>

definition waiting_events :: event_manager where
  "waiting_events = fst (register_callback 7 ''q1'' ''files'' ''choice'' ''go?'' None event_manager_new)"

definition answer_args :: "string \<Rightarrow> json" where
  "answer_args s = JObj [(''callback_id'', JStr ''q1''), (''response'', JStr s)]"

theorem callback_answered_once_witness:
  "\<exists>e. respond_to_callback (kw_state pace_world) (\<lambda>_. Ok JNull) (answer_args ''no'')
       (fst (respond_to_callback (kw_state pace_world) (\<lambda>_. Ok JNull) (answer_args ''yes'') waiting_events))
     = (fst (respond_to_callback (kw_state pace_world) (\<lambda>_. Ok JNull) (answer_args ''yes'') waiting_events), [], Err e)"
proof -
  obtain m' msgs res where run: "respond_to_callback (kw_state pace_world) (\<lambda>_. Ok JNull) (answer_args ''yes'') waiting_events = (m', msgs, res)"
    using prod_cases3 by blast
  have named: "optional_str (answer_args s) ''callback_id'' = Some ''q1''" for s
    by (simp add: answer_args_def optional_str_def json_get_def json_as_str_def)
  have "\<not> isl (snd (snd (respond_to_callback (kw_state pace_world) (\<lambda>_. Ok JNull) (answer_args ''yes'') waiting_events)))"
    by code_simp
  then obtain v where "res = Ok v" using run by (cases res) auto
  then show ?thesis using callback_answered_once [OF run named] named run by simp
qed

section \<open>Servers written by agents\<close>

lemma parse_draft_name: "parse_draft args = Ok d \<Longrightarrow> sd_name d \<noteq> [] \<and> length (sd_name d) \<le> 64 \<and> list_all name_char (sd_name d)"
  by (auto simp: parse_draft_def and_then_Ok_iff Let_def split: if_splits)

lemma name_char_plain:
  assumes "list_all name_char n"
  shows "plain n \<and> CHR ''/'' \<notin> set n \<and> CHR ''.'' \<notin> set n"
proof -
  have "\<not> name_char (CHR 0x22)" "\<not> name_char (CHR 0x5C)" "\<not> name_char (CHR ''/'')" "\<not> name_char (CHR ''.'')"
    by code_simp+
  then show ?thesis using assms unfolding list_all_iff plain_def by metis
qed

text \<open>An agent adds a server only in privileged mode, with code that passed the checks; the server is
  untrusted, its file is one directly in the scripts directory, and whatever description it gives, what
  Python reads after the docstring is a part of the text that does not depend on the description.\<close>

theorem created_server_confined:
  assumes "execute_create_mcp_server io lower args w = (effs, r)" and "ServerAdded server cmd script trust env \<in> set effs"
  shows "kw_yolo w \<and> trust = Some ''untrusted'' \<and>
    (\<exists>d. parse_draft args = Ok d \<and> validate_mcp_code lower (sd_code d) CsStandard = Ok () \<and> server = ''agent.'' @ sd_name d \<and>
       CHR ''/'' \<notin> set (sd_name d) \<and> CHR ''.'' \<notin> set (sd_name d) \<and> cmd = [''python'', ''data/mcp_scripts/mcp_'' @ sd_name d @ ''.py''] \<and>
       script = render_script (sd_server_type d) server (sd_name d) (sd_description d) (sd_code d) \<and>
       (\<exists>rest. \<forall>desc read. after_docstring (drop 3 (render_script (sd_server_type d) server (sd_name d) desc (sd_code d))) = Some read \<longrightarrow>
          (\<exists>p. dq @ rest = p @ read)))"
proof -
  have yolo: "kw_yolo w" using assms by (auto simp: execute_create_mcp_server_def split: if_splits)
  obtain d where d: "parse_draft args = Ok d"
    using assms yolo by (auto simp: execute_create_mcp_server_def split: sum.splits)
  have code: "validate_mcp_code lower (sd_code d) CsStandard = Ok ()"
    using assms yolo d by (auto simp: execute_create_mcp_server_def split: sum.splits)
  have "ki_script_written io = Ok ()"
    using assms yolo d code by (auto simp: execute_create_mcp_server_def Let_def split: sum.splits)
  then have "effs = [ServerAdded (''agent.'' @ sd_name d) [''python'', ''data/mcp_scripts/mcp_'' @ sd_name d @ ''.py'']
      (render_script (sd_server_type d) (''agent.'' @ sd_name d) (sd_name d) (sd_description d) (sd_code d)) (Some ''untrusted'')
      (script_env io (sd_server_type d))]"
    using assms(1) yolo d code by (auto simp: execute_create_mcp_server_def Let_def split: sum.splits)
  then have "server = ''agent.'' @ sd_name d" "cmd = [''python'', ''data/mcp_scripts/mcp_'' @ sd_name d @ ''.py'']" "trust = Some ''untrusted''"
      "script = render_script (sd_server_type d) (''agent.'' @ sd_name d) (sd_name d) (sd_description d) (sd_code d)"
    using assms(2) by (simp_all del: append_Cons)
  moreover have "plain (sd_name d) \<and> CHR ''/'' \<notin> set (sd_name d) \<and> CHR ''.'' \<notin> set (sd_name d)"
    using parse_draft_name [OF d] name_char_plain by blast
  ultimately show ?thesis
    using yolo d code rendered_description_confined [of "sd_name d" "sd_server_type d" server "sd_code d"] by blast
qed

definition draft_args :: json where
  "draft_args = JObj [(''code'', JStr ''x = 1''), (''name'', JStr ''tool-1'')]"

theorem created_server_confined_witness:
  "\<exists>server cmd script env. ServerAdded server cmd script (Some ''untrusted'') env
       \<in> set (fst (execute_create_mcp_server revoke_io ascii_lower draft_args pace_world)) \<and> kw_yolo pace_world"
proof -
  obtain effs r where run: "execute_create_mcp_server revoke_io ascii_lower draft_args pace_world = (effs, r)" by fastforce
  have yolo: "kw_yolo pace_world" and draft: "parse_draft draft_args = Ok \<lparr>sd_name = ''tool-1'',
      sd_description = ''Agent-generated MCP server'', sd_code = ''x = 1'', sd_server_type = ''basic''\<rparr>"
    and valid: "validate_mcp_code ascii_lower ''x = 1'' CsStandard = Ok ()"
    by (simp add: pace_world_def revoke_world_def, code_simp+)
  then obtain server cmd script trust env where added: "ServerAdded server cmd script trust env \<in> set effs"
    using run by (auto simp: execute_create_mcp_server_def revoke_io_def Let_def)
  then show ?thesis using created_server_confined [OF run added] run by auto
qed

end
