(* ===== verification/Stream_Laws.thy ===== *)
theory Stream_Laws
  imports Server_Events
begin

text \<open>
  What the assembly of streamed results guarantees: as long as chunks do not run more than 1024 ahead of
  the highest one seen, a chunk is taken exactly once, in whatever order the chunks come, and the server
  is told of every index that was skipped.
\<close>

definition expected_after :: "u32 list \<Rightarrow> nat" where
  "expected_after is = fold (\<lambda>i e. max e (Suc (unat i))) is 0"

definition paced :: "u32 list \<Rightarrow> bool" where
  "paced is \<longleftrightarrow> (\<forall>pre i post. is = pre @ i # post \<longrightarrow> unat i < 2 ^ 32 - 1 \<and> unat i \<le> expected_after pre + 1024)"

lemma expected_after_simps [simp]:
  "expected_after [] = 0" "expected_after (is @ [i]) = max (expected_after is) (Suc (unat i))"
  by (simp_all add: expected_after_def)

lemma expected_after_above: "i \<in> set is \<Longrightarrow> unat i < expected_after is"
  by (induction "is" rule: rev_induct) auto

lemma paced_snoc: "paced (is @ [i]) \<longleftrightarrow> paced is \<and> unat i < 2 ^ 32 - 1 \<and> unat i \<le> expected_after is + 1024"
proof
  assume p: "paced (is @ [i])"
  then have "unat i < 2 ^ 32 - 1 \<and> unat i \<le> expected_after is + 1024" unfolding paced_def by blast
  moreover have "paced is"
    unfolding paced_def
  proof (intro allI impI)
    fix pre x post assume "is = pre @ x # post"
    then have "is @ [i] = pre @ x # (post @ [i])" by simp
    then show "unat x < 2 ^ 32 - 1 \<and> unat x \<le> expected_after pre + 1024" using p unfolding paced_def by blast
  qed
  ultimately show "paced is \<and> unat i < 2 ^ 32 - 1 \<and> unat i \<le> expected_after is + 1024" by simp
next
  assume p: "paced is \<and> unat i < 2 ^ 32 - 1 \<and> unat i \<le> expected_after is + 1024"
  show "paced (is @ [i])"
    unfolding paced_def
  proof (intro allI impI)
    fix pre x post assume split: "is @ [i] = pre @ x # post"
    show "unat x < 2 ^ 32 - 1 \<and> unat x \<le> expected_after pre + 1024"
    proof (cases post rule: rev_cases)
      case Nil
      then show ?thesis using p split by simp
    next
      case (snoc post' y)
      then have "is = pre @ x # post'" using split by simp
      then show ?thesis using p unfolding paced_def by blast
    qed
  qed
qed

definition tracked :: "u32 list \<Rightarrow> stream_tracker \<Rightarrow> bool" where
  "tracked is t \<longleftrightarrow> unat (sk_expected_index t) = expected_after is \<and>
     (\<forall>g. g \<in> set (sk_gaps t) \<longleftrightarrow> unat g < expected_after is \<and> g \<notin> set is)"

lemma tracked_new: "tracked [] stream_tracker_new"
  by (simp add: tracked_def stream_tracker_new_def)

lemma tracked_duplicate: "tracked is t \<Longrightarrow> tracker_duplicate i t \<longleftrightarrow> i \<in> set is"
  using expected_after_above [of i "is"] by (auto simp: tracked_def tracker_duplicate_def word_less_nat_alt)

lemma set_index_range: "set (index_range lo hi) = {j. unat lo \<le> unat j \<and> unat j < unat hi}"
proof -
  have "(of_nat n :: u32) \<in> {j. unat lo \<le> unat j \<and> unat j < unat hi}" if "unat lo \<le> n" "n < unat hi" for n
  proof -
    have "unat hi < 2 ^ LENGTH(32)" by (rule unsigned_less)
    then have "n < 2 ^ 32" using that(2) by simp
    then show ?thesis using that by (simp add: unat_of_nat)
  qed
  moreover have "j \<in> of_nat ` {unat lo..<unat hi}" if "unat lo \<le> unat j" "unat j < unat hi" for j :: u32
    using that by (intro image_eqI [of _ _ "unat j"]) simp_all
  ultimately show ?thesis by (auto simp: index_range_def)
qed

lemma unat_next: "unat i < 2 ^ 32 - 1 \<Longrightarrow> unat (sat_add i 1 :: u32) = Suc (unat i)"
  by (simp add: unat_sat_add)

lemma tracked_step:
  assumes "tracked is t" and "unat i < 2 ^ 32 - 1" and "unat i \<le> expected_after is + 1024" and "i \<notin> set is"
  shows "tracked (is @ [i]) (fst (track_chunk i t))"
    and "snd (track_chunk i t) = (if expected_after is < unat i then Some (index_range (sk_expected_index t) i) else None)"
proof -
  let ?e = "sk_expected_index t"
  have e: "unat ?e = expected_after is" and gaps: "\<And>g. g \<in> set (sk_gaps t) \<longleftrightarrow> unat g < expected_after is \<and> g \<notin> set is"
    using assms(1) by (auto simp: tracked_def)
  have near: "\<not> sat_sub i ?e > MAX_STREAM_GAP"
    using assms(3) e by (simp add: word_less_nat_alt unat_sat_sub MAX_STREAM_GAP_def)
  have step: "track_chunk i t =
     (let t1 = t\<lparr>sk_received_count := sat_add (sk_received_count t) 1\<rparr>
      in if i = ?e then (t1\<lparr>sk_expected_index := sat_add i 1\<rparr>, None)
         else if i < ?e then (t1\<lparr>sk_gaps := filter (\<lambda>g. g \<noteq> i) (sk_gaps t)\<rparr>, None)
         else (t1\<lparr>sk_gaps := sk_gaps t @ index_range ?e i, sk_expected_index := sat_add i 1\<rparr>, Some (index_range ?e i)))"
    using near by (simp add: track_chunk_def Let_def)
  consider "i = ?e" | "unat i < expected_after is" "i \<noteq> ?e" "i < ?e" | "expected_after is < unat i" "i \<noteq> ?e" "\<not> i < ?e"
    using e by (metis linorder_neqE_nat word_unat_eq_iff word_less_nat_alt)
  then have "tracked (is @ [i]) (fst (track_chunk i t)) \<and>
      snd (track_chunk i t) = (if expected_after is < unat i then Some (index_range ?e i) else None)"
  proof cases
    case 1
    then have i: "unat i = expected_after is" using e by simp
    have "g \<in> set (sk_gaps t) \<longleftrightarrow> unat g < Suc (unat i) \<and> g \<notin> set (is @ [i])" for g
      using i gaps [of g] word_unat_eq_iff [of g i] by auto
    moreover have "max (expected_after is) (Suc (unat i)) = Suc (unat i)" using i by simp
    ultimately show ?thesis
      using 1 i unat_next [OF assms(2)] unfolding step Let_def tracked_def expected_after_simps by simp
  next
    case 2
    then show ?thesis using e gaps by (auto simp: step tracked_def Let_def)
  next
    case 3
    have "g \<in> set (sk_gaps t) \<or> expected_after is \<le> unat g \<and> unat g < unat i \<longleftrightarrow> unat g < Suc (unat i) \<and> g \<notin> set (is @ [i])" for g
      using 3 gaps [of g] expected_after_above [of g "is"] word_unat_eq_iff [of g i] by auto
    moreover have "max (expected_after is) (Suc (unat i)) = Suc (unat i)" using 3 by simp
    ultimately show ?thesis
      using 3 e unat_next [OF assms(2)] unfolding step Let_def tracked_def expected_after_simps by (simp add: set_index_range)
  qed
  then show "tracked (is @ [i]) (fst (track_chunk i t))"
    and "snd (track_chunk i t) = (if expected_after is < unat i then Some (index_range ?e i) else None)" by simp_all
qed

section \<open>A stream as it is handled\<close>

definition streamed :: "mcp_state \<Rightarrow> string \<Rightarrow> int \<Rightarrow> u32 list \<Rightarrow> stream_assembler \<Rightarrow> stream_assembler" where
  "streamed st server request is sa = fold (\<lambda>i sa. fst (handle_stream_chunk st server request i False sa)) is sa"

definition tracker_of :: "string \<Rightarrow> int \<Rightarrow> stream_assembler \<Rightarrow> stream_tracker" where
  "tracker_of server request sa = unwrap_or (hm_get sa (server, request)) stream_tracker_new"

lemma is_duplicate_tracker: "is_duplicate server request i sa \<longleftrightarrow> tracker_duplicate i (tracker_of server request sa)"
  by (simp add: is_duplicate_def tracker_of_def tracker_duplicate_def stream_tracker_new_def split: option.splits)

lemma streamed_tracked:
  assumes "hm_get sa (server, request) = None" and "paced is"
  shows "tracked is (tracker_of server request (streamed st server request is sa))"
  using assms(2)
proof (induction "is" rule: rev_induct)
  case Nil
  then show ?case using assms(1) by (simp add: streamed_def tracker_of_def tracked_new)
next
  case (snoc i "is")
  let ?sa = "streamed st server request is sa" and ?t = "tracker_of server request (streamed st server request is sa)"
  have p: "paced is" "unat i < 2 ^ 32 - 1" "unat i \<le> expected_after is + 1024" using snoc.prems by (simp_all add: paced_snoc)
  note tracked = snoc.IH [OF p(1)]
  have next_sa: "streamed st server request (is @ [i]) sa = fst (handle_stream_chunk st server request i False ?sa)"
    by (simp add: streamed_def)
  show ?case
  proof (cases "i \<in> set is")
    case True
    then have "handle_stream_chunk st server request i False ?sa = (?sa, [], None)"
      using tracked_duplicate [OF tracked] by (simp add: handle_stream_chunk_def is_duplicate_tracker)
    moreover have "tracked (is @ [i]) ?t"
      using tracked True expected_after_above [OF True] by (auto simp: tracked_def)
    ultimately show ?thesis by (simp add: next_sa)
  next
    case False
    then have "tracker_of server request (fst (handle_stream_chunk st server request i False ?sa)) = fst (track_chunk i ?t)"
      using tracked_duplicate [OF tracked]
      by (simp add: handle_stream_chunk_def is_duplicate_tracker record_chunk_def tracker_of_def Let_def split: prod.splits)
    then show ?thesis using tracked_step(1) [OF tracked p(2,3) False] by (simp add: next_sa)
  qed
qed

text \<open>A chunk of a stream that has come before is recognised, changes nothing and sends nothing. One
  that has not is recorded, and the missing indices told to the server are exactly those between the
  highest index seen before it and its own. This holds in every order of arrival, while no chunk is more
  than 1024 ahead of the first index not yet reached and none has the last index of 32 bits.\<close>

theorem stream_chunk_taken_once:
  assumes "hm_get sa (server, request) = None" and "paced is"
  shows "(i \<in> set is \<longrightarrow>
      handle_stream_chunk st server request i finished (streamed st server request is sa) = (streamed st server request is sa, [], None)) \<and>
    (i \<notin> set is \<and> paced (is @ [i]) \<longrightarrow>
      (case snd (snd (handle_stream_chunk st server request i finished (streamed st server request is sa))) of
         None \<Rightarrow> unat i \<le> expected_after is
       | Some missing \<Rightarrow> expected_after is < unat i \<and> set missing = {j. expected_after is \<le> unat j \<and> unat j < unat i}))"
proof (intro conjI impI)
  let ?sa = "streamed st server request is sa" and ?t = "tracker_of server request (streamed st server request is sa)"
  note tracked = streamed_tracked [OF assms, of st]
  show "handle_stream_chunk st server request i finished ?sa = (?sa, [], None)" if "i \<in> set is"
    using that tracked_duplicate [OF tracked] by (simp add: handle_stream_chunk_def is_duplicate_tracker)
  assume "i \<notin> set is \<and> paced (is @ [i])"
  then have new: "i \<notin> set is" and near: "unat i < 2 ^ 32 - 1" "unat i \<le> expected_after is + 1024" by (simp_all add: paced_snoc)
  have "snd (snd (handle_stream_chunk st server request i finished ?sa)) = snd (track_chunk i ?t)"
    using new tracked_duplicate [OF tracked]
    by (simp add: handle_stream_chunk_def is_duplicate_tracker record_chunk_def tracker_of_def Let_def split: prod.splits)
  also have "\<dots> = (if expected_after is < unat i then Some (index_range (sk_expected_index ?t) i) else None)"
    by (rule tracked_step(2) [OF tracked near new])
  finally show "case snd (snd (handle_stream_chunk st server request i finished ?sa)) of None \<Rightarrow> unat i \<le> expected_after is
       | Some missing \<Rightarrow> expected_after is < unat i \<and> set missing = {j. expected_after is \<le> unat j \<and> unat j < unat i}"
    using tracked by (auto simp: set_index_range tracked_def)
qed

text \<open>Chunks 0, 2 and 1: the third fills the gap, and each comes again for nothing.\<close>

theorem stream_chunk_taken_once_witness:
  "handle_stream_chunk \<lparr>st_servers = [], st_tool_index = []\<rparr> ''files'' 3 2 False
      (streamed \<lparr>st_servers = [], st_tool_index = []\<rparr> ''files'' 3 [0, 2, 1] [])
    = (streamed \<lparr>st_servers = [], st_tool_index = []\<rparr> ''files'' 3 [0, 2, 1] [], [], None)"
proof -
  have "paced [0, 2, 1]"
    using paced_snoc [of "[0, 2]" 1] paced_snoc [of "[0]" 2] paced_snoc [of "[]" 0] by (simp add: paced_def expected_after_def)
  then show ?thesis
    using stream_chunk_taken_once [of "[]" "''files''" 3 "[0, 2, 1]" 2 "\<lparr>st_servers = [], st_tool_index = []\<rparr>" False]
    by (simp add: hm_get_def)
qed

text \<open>
  Beyond that distance the tracker gives up the indices between: chunks that never came count as
  duplicates when they arrive.
\<close>

lemma jump_loses_chunks:
  "let sa = fst (handle_stream_chunk st server request 2000 False []) in
     handle_stream_chunk st server request 5 False sa = (sa, [], None)"
  by (simp add: handle_stream_chunk_def is_duplicate_def record_chunk_def track_chunk_def stream_tracker_new_def MAX_STREAM_GAP_def
      tracker_duplicate_def sat_sub_def sat_add_def Let_def)

text \<open>
  A stream that ends while an index is missing is forgotten; the missing chunk, when it comes, starts the
  stream anew, and the kernel asks again for the chunks before it.
\<close>

lemma index_range_one: "index_range 1 2 = [1]" "index_range 0 1 = [0]"
  by (simp_all add: index_range_def upt_rec)

lemma late_chunk_restarts_stream:
  "let sa = streamed st server request [0] []; ended = fst (handle_stream_chunk st server request 2 True sa) in
     snd (snd (handle_stream_chunk st server request 2 True sa)) = Some [1] \<and>
     snd (snd (handle_stream_chunk st server request 1 False ended)) = Some [0]"
  by (simp add: handle_stream_chunk_def is_duplicate_def record_chunk_def track_chunk_def stream_tracker_new_def MAX_STREAM_GAP_def
      tracker_duplicate_def sat_sub_def sat_add_def streamed_def remove_stream_def index_range_one Let_def)

end
