(* ===== verification/Delegation.thy ===== *)
theory Delegation
  imports Agentic_Loop Kernel_Tools
begin

text \<open>
  Delegation to another agent: \<open>mgp.agent.ask\<close> of \<open>managers/mcp_kernel_tool.rs\<close>, with the small loop
  that asks the engine of the target and runs the tools it requests.

  What a step reads is an input numbered by the iteration and the call: the tool index, the
  caller's access and the target's gate are three separate reads of the state, and each has its own
  environment. The schemas of the target's tools and the enriched agent are inputs.
\<close>

section \<open>What an engine answers\<close>

definition result_text :: "call_tool_result \<Rightarrow> string" where
  "result_text r = join_with [CHR 0x0A] (texts_of (cr_content r))"

definition extract_think_response :: "json_text \<Rightarrow> call_tool_result \<Rightarrow> string" where
  "extract_think_response jt r =
     (let t = result_text r
      in case json_from_str jt t of
           None \<Rightarrow> t
         | Some parsed \<Rightarrow> unwrap_or (Option.bind (json_get parsed ''content'') json_as_str) t)"

definition parse_tool_call :: "json \<Rightarrow> tool_call option" where
  "parse_tool_call tc =
     Option.bind (Option.bind (json_get tc ''id'') json_as_str) (\<lambda>i.
     Option.bind (Option.bind (json_get tc ''name'') json_as_str) (\<lambda>n.
       Some \<lparr>tc_id = i, tc_name = n, tc_arguments = unwrap_or (json_get tc ''arguments'') (JObj [])\<rparr>))"

definition parse_think_json :: "json \<Rightarrow> anyhow + think_result" where
  "parse_think_json v =
     (case Option.bind (json_get v ''error'') json_as_str of
        Some e \<Rightarrow> Err (AMsg (''Engine error: '' @ e))
      | None \<Rightarrow>
          if unwrap_or (Option.bind (json_get v ''type'') json_as_str) ''final'' = ''tool_calls''
          then Ok (ToolCalls (Option.bind (json_get v ''assistant_content'') json_as_str)
                 (List.map_filter parse_tool_call (unwrap_or (Option.bind (json_get v ''calls'') json_as_array) [])))
          else Ok (Final (unwrap_or (Option.bind (json_get v ''content'') json_as_str) [])))"

definition parse_think_result :: "json_text \<Rightarrow> (string \<Rightarrow> string) \<Rightarrow> call_tool_result \<Rightarrow> anyhow + think_result" where
  "parse_think_result jt json_error r =
     (case texts_of (cr_content r) of
        [] \<Rightarrow> Err (AMsg ''MCP engine returned no parseable ThinkResult'')
      | t # _ \<Rightarrow>
          (case json_from_str jt t of
             None \<Rightarrow> Err (AMsg (''MCP engine returned invalid JSON: '' @ json_error t))
           | Some v \<Rightarrow> parse_think_json v))"

section \<open>The loop\<close>

record delegated_read =
  dr_index :: gate_env
  dr_caller :: gate_env
  dr_caller_faults :: "nat \<Rightarrow> fault"
  dr_gate :: gate_env
  dr_gate_faults :: gate_faults
  dr_reply :: server_reply
  dr_timeout :: "nat option"

record ask_env =
  ak_engine_id :: string
  ak_target :: string
  ak_caller :: string
  ak_think_args :: json
  ak_tools :: "json list"
  ak_json :: json_text
  ak_json_error :: "string \<Rightarrow> string"
  ak_error_text :: "anyhow \<Rightarrow> string"
  ak_engine :: "nat \<Rightarrow> delegated_read"
  ak_call :: "nat \<Rightarrow> nat \<Rightarrow> delegated_read"

record dialogue =
  di_dialogue_id :: string
  di_caller :: string
  di_caller_name :: string
  di_target :: string
  di_target_name :: string
  di_prompt :: string
  di_engine_id :: string
  di_response :: "string option"
  di_chain_depth :: nat
  di_status :: string

datatype ask_event =
    EngineCalled nat string json "exec_event list"
  | DelegatedRun nat nat tool_call json "exec_event list"
  | DialogueShown dialogue
  | DelegationAudited string string string string string

definition MGP_AGENT_ASK_MAX_TOOL_ITERATIONS :: nat where
  "MGP_AGENT_ASK_MAX_TOOL_ITERATIONS = 5"

definition with_entry :: "string \<Rightarrow> json \<Rightarrow> json \<Rightarrow> json" where
  "with_entry k v args = (case args of JObj m \<Rightarrow> JObj (json_map_insert k v m) | a \<Rightarrow> a)"

definition call_engine :: "ask_env \<Rightarrow> nat \<Rightarrow> string \<Rightarrow> json \<Rightarrow> ask_event list \<times> (anyhow + call_tool_result)" where
  "call_engine env i tool args =
     (let rd = ak_engine env i;
          (evs, r) = call_server_tool (dr_gate rd) (dr_gate_faults rd) (dr_reply rd) (Agent (ak_target env)) (ak_engine_id env) tool args
      in ([EngineCalled i tool args evs], r))"

text \<open>\<open>None\<close> is the timeout; the events are then the first of those of the whole call.\<close>

definition delegated_call :: "ask_env \<Rightarrow> delegated_read \<Rightarrow> tool_call \<Rightarrow> exec_event list \<times> (anyhow + call_tool_result) option" where
  "delegated_call env rd call =
     (case hm_get (st_tool_index (ge_state (dr_index rd))) (tc_name call) of
        None \<Rightarrow> ([], Some (Err (AMsg (''Tool '' @ quoted (tc_name call) @ '' not found in any connected server''))))
      | Some sid \<Rightarrow>
          (case check_tool_access (dr_caller rd) (dr_caller_faults rd) (ak_caller env) (tc_name call) of
             Inr Allow \<Rightarrow>
               (let (evs, r) = call_server_tool (dr_gate rd) (dr_gate_faults rd) (dr_reply rd) (Agent (ak_target env)) sid (tc_name call)
                      (safe_args (ak_target env) (tc_arguments call))
                in case dr_timeout rd of None \<Rightarrow> (evs, Some r) | Some k \<Rightarrow> (take k evs, None))
           | _ \<Rightarrow> ([], Some (Err (AMsg (''Delegation denied: caller '' @ quoted (ak_caller env) @ '' is not granted tool ''
                    @ quoted (tc_name call) @ '' (MGP '' @ section_sign @ ''5.6.1 caller'' @ [CHR 0xE2, CHR 0x88, CHR 0xA9] @ ''target)''))))))"

definition delegated_text :: "ask_env \<Rightarrow> (anyhow + call_tool_result) option \<Rightarrow> string" where
  "delegated_text env r =
     (case r of
        Some (Inr v) \<Rightarrow> result_text v
      | Some (Inl e) \<Rightarrow> ''Error: '' @ ak_error_text env e
      | None \<Rightarrow> ''Error: tool execution timed out'')"

definition delegated_step :: "ask_env \<Rightarrow> nat \<Rightarrow> nat \<Rightarrow> tool_call \<Rightarrow> ask_event list \<times> json" where
  "delegated_step env i n call =
     (let (evs, r) = delegated_call env (ak_call env i n) call
      in ([DelegatedRun i n call (safe_args (ak_target env) (tc_arguments call)) evs], tool_message (tc_id call) (delegated_text env r)))"

fun delegated_calls :: "ask_env \<Rightarrow> nat \<Rightarrow> nat \<Rightarrow> tool_call list \<Rightarrow> ask_event list \<times> json list" where
  "delegated_calls env i n [] = ([], [])"
| "delegated_calls env i n (call # calls) =
     (let (evs, msg) = delegated_step env i n call; (evs', msgs) = delegated_calls env i (Suc n) calls
      in (evs @ evs', msg # msgs))"

text \<open>The first argument is how many iterations are left.\<close>

fun ask_loop :: "ask_env \<Rightarrow> nat \<Rightarrow> nat \<Rightarrow> json list \<Rightarrow> ask_event list \<times> (anyhow + string)" where
  "ask_loop env 0 i h =
     ([], Err (AMsg (''mgp.agent.ask agentic loop exceeded '' @ show_nat MGP_AGENT_ASK_MAX_TOOL_ITERATIONS @ '' iterations'')))"
| "ask_loop env (Suc k) i h =
     (let args = with_entry ''tool_history'' (JArr h) (with_entry ''tools'' (JArr (ak_tools env)) (ak_think_args env));
          (evs, r) = call_engine env i ''think_with_tools'' args
      in case and_then r (parse_think_result (ak_json env) (ak_json_error env)) of
           Inl e \<Rightarrow> (evs, Err e)
         | Inr (Final content) \<Rightarrow> (evs, Ok content)
         | Inr (ToolCalls content calls) \<Rightarrow>
             (let (evs1, msgs) = delegated_calls env i 0 calls;
                  h' = h @ [assistant_message (ak_json env) (Some (unwrap_or content [])) calls] @ msgs;
                  (evs2, out) = ask_loop env k (Suc i) h'
              in (evs @ evs1 @ evs2, out)))"

definition run_mgp_agent_ask_loop :: "ask_env \<Rightarrow> ask_event list \<times> (anyhow + string)" where
  "run_mgp_agent_ask_loop env =
     (if ak_tools env = [] then
        (let (evs, r) = call_engine env 0 ''think'' (ak_think_args env)
         in (evs, and_then r (\<lambda>v. Ok (extract_think_response (ak_json env) v))))
      else ask_loop env MGP_AGENT_ASK_MAX_TOOL_ITERATIONS 0 [])"

section \<open>The tool\<close>

definition MAX_DELEGATION_DEPTH :: nat where
  "MAX_DELEGATION_DEPTH = 3"

definition all_strings :: "json list \<Rightarrow> string list option" where
  "all_strings xs = (if list_all (\<lambda>x. json_as_str x \<noteq> None) xs then Some (List.map_filter json_as_str xs) else None)"

definition delegation_chain :: "json \<Rightarrow> string list" where
  "delegation_chain args =
     unwrap_or (Option.bind (Option.bind (json_get args ''_delegation_chain'') json_as_array) all_strings) []"

definition hard_rejection :: "RejectionCode \<Rightarrow> string \<Rightarrow> json option \<Rightarrow> ToolFailure" where
  "hard_rejection code reason_text details = Rejection
     \<lparr>rj_code = code, rj_reason = reason_text, rj_remediation_hint = None, rj_retryable = False, rj_details = details\<rparr>"

text \<open>The three hard limits, on what the caller says of the chain.\<close>

definition check_chain :: "string \<Rightarrow> string \<Rightarrow> string list \<Rightarrow> ToolFailure + unit" where
  "check_chain caller target chain =
     (if caller = target then Err (hard_rejection SelfDelegation
        ''Delegation target and caller are the same agent. An agent cannot delegate to itself; this is a hard logical constraint enforced by the kernel.'' None)
      else if length chain \<ge> MAX_DELEGATION_DEPTH then Err (hard_rejection DelegationDepth
        (''Inter-agent delegation chain exceeded the maximum depth limit (chain length: '' @ show_nat (length chain) @ '', maximum: '' @
         show_nat MAX_DELEGATION_DEPTH @ ''). This is a hard logical constraint enforced by the kernel to prevent runaway delegation.'')
        (Some (json_object [(''chain'', json_strings chain)])))
      else if target \<in> set chain then Err (hard_rejection DelegationCycle
        (''Inter-agent delegation would form a cycle '' @ long_dash @ '' the target agent '' @ quoted target @
         '' is already in the current delegation chain. This is a hard logical constraint enforced by the kernel.'')
        (Some (json_object [(''chain'', json_strings chain)])))
      else Ok ())"

record ask_io =
  ao_now :: instant
  ao_rfc3339 :: "instant \<Rightarrow> string"
  ao_faults :: "nat \<Rightarrow> fault"
  ao_agent_json :: "agent_metadata \<Rightarrow> string \<Rightarrow> string + json"
  ao_tool_schemas :: "string \<Rightarrow> json list"
  ao_json :: json_text
  ao_json_error :: "string \<Rightarrow> string"
  ao_error_text :: "anyhow \<Rightarrow> string"
  ao_engine :: "nat \<Rightarrow> delegated_read"
  ao_call :: "nat \<Rightarrow> nat \<Rightarrow> delegated_read"

definition ask_refused :: "string \<Rightarrow> json" where
  "ask_refused why = json_object [(''status'', JStr ''error''), (''reason'', JStr why)]"

definition full_prompt :: "string \<Rightarrow> string \<Rightarrow> string" where
  "full_prompt prompt ctx = (if ctx = [] then prompt else prompt @ [CHR 0x0A, CHR 0x0A] @ ''Context:'' @ [CHR 0x0A] @ ctx)"

definition think_args :: "ask_io \<Rightarrow> json \<Rightarrow> string \<Rightarrow> string \<Rightarrow> json" where
  "think_args io agent caller content =
     json_object
       [(''agent'', agent),
        (''message'', json_object
           [(''id'', JStr (''delegation-'' @ show_int (ao_now io))),
            (''source'', json_object [(''Agent'', json_object [(''id'', JStr caller)])]),
            (''content'', JStr content), (''timestamp'', JStr (ao_rfc3339 io (ao_now io))),
            (''metadata'', json_object [(''delegation'', JStr ''true''), (''delegated_by'', JStr caller)])]),
        (''context'', JArr [])]"

definition ask_threshold :: duration where
  "ask_threshold = 30000"

text \<open>The target, if it exists, is powered on and its engine is a known server.\<close>

definition ask_target :: "ask_io \<Rightarrow> kernel_world \<Rightarrow> agent_tables \<Rightarrow> string \<Rightarrow> string + agent_metadata \<times> string" where
  "ask_target io w t target =
     (case get_agent_config (ao_faults io 1) (ao_now io) ask_threshold t target of
        Inl _ \<Rightarrow> Err (''Agent '' @ quoted target @ '' not found.'')
      | Inr (meta, engine_id) \<Rightarrow>
          if \<not> am_enabled meta then Err (''Agent '' @ quoted target @ '' is powered off.'')
          else if \<not> hm_contains_key (st_servers (kw_state w)) engine_id
          then Err (''Engine '' @ quoted engine_id @ '' for agent '' @ quoted target @ '' is not available.'')
          else Ok (meta, engine_id))"

definition has_server_tool :: "mcp_state \<Rightarrow> string \<Rightarrow> string \<Rightarrow> bool" where
  "has_server_tool st server_id tool =
     (case hm_get (st_servers st) server_id of None \<Rightarrow> False | Some h \<Rightarrow> list_ex (\<lambda>x. tool_name x = tool) (sh_tools h))"

definition ask_setting :: "ask_io \<Rightarrow> kernel_world \<Rightarrow> string \<Rightarrow> string \<Rightarrow> string \<Rightarrow> json \<Rightarrow> ask_env" where
  "ask_setting io w engine_id target caller args =
     \<lparr>ak_engine_id = engine_id, ak_target = target, ak_caller = caller, ak_think_args = args,
      ak_tools = (if has_server_tool (kw_state w) engine_id ''think_with_tools'' then ao_tool_schemas io target else []),
      ak_json = ao_json io, ak_json_error = ao_json_error io, ak_error_text = ao_error_text io,
      ak_engine = ao_engine io, ak_call = ao_call io\<rparr>"

definition converse :: "ask_io \<Rightarrow> dialogue \<Rightarrow> ask_env \<Rightarrow> ask_event list \<times> (ToolFailure + json)" where
  "converse io d env =
     (case run_mgp_agent_ask_loop env of
        (evs, Inl e) \<Rightarrow>
          (let why = ''Engine call failed: '' @ ao_error_text io e
           in (DialogueShown d # evs @
                 [DialogueShown (d\<lparr>di_response := Some why, di_status := ''error''\<rparr>),
                  DelegationAudited ''DELEGATION_FAILED'' (di_caller d) (di_target d) ''error'' (ao_error_text io e)],
               Ok (json_object [(''status'', JStr ''error''), (''reason'', JStr why), (''source_agent'', JStr (di_caller d)),
                 (''target_agent'', JStr (di_target d))])))
      | (evs, Inr response) \<Rightarrow>
          (DialogueShown d # evs @
             [DialogueShown (d\<lparr>di_response := Some response, di_status := ''success''\<rparr>),
              DelegationAudited ''DELEGATION_EXECUTED'' (di_caller d) (di_target d) ''success'' []],
           Ok (json_object [(''status'', JStr ''success''), (''source_agent'', JStr (di_caller d)), (''target_agent'', JStr (di_target d)),
             (''engine_id'', JStr (di_engine_id d)), (''response'', JStr response)])))"

definition ask_agent ::
  "ask_io \<Rightarrow> kernel_world \<Rightarrow> agent_tables \<Rightarrow> string \<Rightarrow> string \<Rightarrow> string \<Rightarrow> string \<Rightarrow> nat \<Rightarrow> ask_event list \<times> (ToolFailure + json)" where
  "ask_agent io w t caller target prompt ctx depth =
     (let caller_name = (case get_agent_config (ao_faults io 0) (ao_now io) ask_threshold t caller of
                           Inl _ \<Rightarrow> caller | Inr (meta, _) \<Rightarrow> am_name meta)
      in case ask_target io w t target of
           Inl why \<Rightarrow> ([], Ok (ask_refused why))
         | Inr (meta, engine_id) \<Rightarrow>
             (case ao_agent_json io meta engine_id of
                Inl e \<Rightarrow> ([], Err (FailError (AMsg (''Failed to serialize agent metadata: '' @ e))))
              | Inr agent \<Rightarrow>
                  converse io
                    \<lparr>di_dialogue_id = ''dlg-'' @ show_int (ao_now io), di_caller = caller, di_caller_name = caller_name, di_target = target,
                     di_target_name = am_name meta, di_prompt = prompt, di_engine_id = engine_id, di_response = None,
                     di_chain_depth = min depth 255, di_status = ''pending''\<rparr>
                    (ask_setting io w engine_id target caller (think_args io agent caller (full_prompt prompt ctx)))))"

definition execute_mgp_agent_ask ::
  "ask_io \<Rightarrow> json \<Rightarrow> kernel_world \<Rightarrow> agent_tables \<Rightarrow> ask_event list \<times> (ToolFailure + json)" where
  "execute_mgp_agent_ask io args w t =
     (if \<not> kw_yolo w then ([], Err yolo_required_rejection)
      else case and_then (required_str args ''target_agent_id'') (\<lambda>target. and_then (required_str args ''prompt'')
                  (\<lambda>prompt. Ok (target, prompt))) of
        Inl e \<Rightarrow> ([], Err e)
      | Inr (target, prompt) \<Rightarrow>
          (let caller = unwrap_or (optional_str args ''agent_id'') ''unknown''; chain = delegation_chain args
           in case check_chain caller target chain of
                Inl e \<Rightarrow> ([], Err e)
              | Inr _ \<Rightarrow> ask_agent io w t caller target prompt (unwrap_or (optional_str args ''context'') []) (length chain + 1)))"

end
