(* ===== verification/Delegation_Laws.thy ===== *)
theory Delegation_Laws
  imports Delegation Kernel_Laws
begin

text \<open>
  What delegation guarantees: the target works with what both it and the caller may use, in a bounded
  number of steps; and what it does not look at.
\<close>

lemma call_server_tool_contact:
  "ClientCall c t a \<in> set (fst (call_server_tool g fs reply caller server tool args)) \<longleftrightarrow>
     t = tool \<and> a = args \<and> resolve_tool_call_target g fs caller server tool args = Ok c"
  by (auto simp: call_server_tool_def split: sum.splits)

definition permitted_event :: "ask_env \<Rightarrow> ask_event \<Rightarrow> bool" where
  "permitted_event env e =
     (case e of
        EngineCalled i tool args evs \<Rightarrow> i < MGP_AGENT_ASK_MAX_TOOL_ITERATIONS \<and> tool \<in> set ENGINE_TOOL_NAMES \<and>
          (\<forall>c t a. ClientCall c t a \<in> set evs \<longrightarrow> t = tool \<and> a = args \<and>
             resolve_tool_call_target (dr_gate (ak_engine env i)) (dr_gate_faults (ak_engine env i)) (Agent (ak_target env))
               (ak_engine_id env) tool args = Ok c)
      | DelegatedRun i n call args evs \<Rightarrow> args = safe_args (ak_target env) (tc_arguments call) \<and>
          (\<forall>c t a. ClientCall c t a \<in> set evs \<longrightarrow> t = tc_name call \<and> a = args \<and>
             check_tool_access (dr_caller (ak_call env i n)) (dr_caller_faults (ak_call env i n)) (ak_caller env) t = Ok Allow \<and>
             (\<exists>server. hm_get (st_tool_index (ge_state (dr_index (ak_call env i n)))) t = Some server \<and>
                resolve_tool_call_target (dr_gate (ak_call env i n)) (dr_gate_faults (ak_call env i n)) (Agent (ak_target env))
                  server t args = Ok c))
      | _ \<Rightarrow> True)"

definition engine_calls :: "ask_event list \<Rightarrow> nat" where
  "engine_calls evs = length (filter (\<lambda>e. case e of EngineCalled _ _ _ _ \<Rightarrow> True | _ \<Rightarrow> False) evs)"

lemma engine_calls_simps [simp]:
  "engine_calls [] = 0" "engine_calls (a @ b) = engine_calls a + engine_calls b"
  "engine_calls (EngineCalled i s0 js es # evs) = Suc (engine_calls evs)"
  "engine_calls (DelegatedRun i n tc js es # evs) = engine_calls evs"
  "engine_calls (DialogueShown d # evs) = engine_calls evs"
  "engine_calls (DelegationAudited k s1 s2 r w # evs) = engine_calls evs"
  by (simp_all add: engine_calls_def)

lemma delegated_call_contact:
  assumes "ClientCall c t a \<in> set (fst (delegated_call env rd call))"
  shows "t = tc_name call \<and> a = safe_args (ak_target env) (tc_arguments call) \<and>
    check_tool_access (dr_caller rd) (dr_caller_faults rd) (ak_caller env) (tc_name call) = Ok Allow \<and>
    (\<exists>server. hm_get (st_tool_index (ge_state (dr_index rd))) (tc_name call) = Some server \<and>
       resolve_tool_call_target (dr_gate rd) (dr_gate_faults rd) (Agent (ak_target env)) server (tc_name call) a = Ok c)"
proof -
  let ?run = "\<lambda>sid. call_server_tool (dr_gate rd) (dr_gate_faults rd) (dr_reply rd) (Agent (ak_target env)) sid (tc_name call)
    (safe_args (ak_target env) (tc_arguments call))"
  obtain sid where sid: "hm_get (st_tool_index (ge_state (dr_index rd))) (tc_name call) = Some sid"
    using assms by (auto simp: delegated_call_def split: option.splits)
  have access: "check_tool_access (dr_caller rd) (dr_caller_faults rd) (ak_caller env) (tc_name call) = Ok Allow"
    using assms sid by (auto simp: delegated_call_def split: sum.splits PermissionLevel.splits)
  have "ClientCall c t a \<in> set (fst (?run sid))"
    using assms sid access by (auto simp: delegated_call_def split: prod.splits option.splits dest!: in_set_takeD)
  then show ?thesis using sid access by (auto simp: call_server_tool_contact)
qed

lemma delegated_step_permitted: "list_all (permitted_event env) (fst (delegated_step env i n call)) \<and> engine_calls (fst (delegated_step env i n call)) = 0"
  using delegated_call_contact [of _ _ _ env "ak_call env i n" call]
  by (fastforce simp: delegated_step_def permitted_event_def split: prod.splits)

lemma delegated_calls_permitted:
  "list_all (permitted_event env) (fst (delegated_calls env i n calls)) \<and> engine_calls (fst (delegated_calls env i n calls)) = 0"
  by (induction env i n calls rule: delegated_calls.induct)
    (use delegated_step_permitted in \<open>auto split: prod.splits\<close>, (metis fst_conv)+)

lemma call_engine_permitted:
  assumes "i < MGP_AGENT_ASK_MAX_TOOL_ITERATIONS" and "tool \<in> set ENGINE_TOOL_NAMES"
  shows "list_all (permitted_event env) (fst (call_engine env i tool args)) \<and> engine_calls (fst (call_engine env i tool args)) = 1"
proof -
  let ?rd = "ak_engine env i"
  obtain evs r where run: "call_server_tool (dr_gate ?rd) (dr_gate_faults ?rd) (dr_reply ?rd) (Agent (ak_target env)) (ak_engine_id env) tool args
      = (evs, r)" by fastforce
  have "t = tool \<and> a = args \<and> resolve_tool_call_target (dr_gate ?rd) (dr_gate_faults ?rd) (Agent (ak_target env)) (ak_engine_id env) tool args = Ok c"
    if "ClientCall c t a \<in> set evs" for c t a
    using that run call_server_tool_contact by (metis fst_conv)
  then have "permitted_event env (EngineCalled i tool args evs)"
    using assms unfolding permitted_event_def by auto
  then show ?thesis using run by (simp add: call_engine_def)
qed

lemma ask_loop_permitted:
  assumes "k + i \<le> MGP_AGENT_ASK_MAX_TOOL_ITERATIONS"
  shows "list_all (permitted_event env) (fst (ask_loop env k i h)) \<and> engine_calls (fst (ask_loop env k i h)) \<le> k"
  using assms
proof (induction env k i h rule: ask_loop.induct)
  case (2 env k i h)
  let ?args = "with_entry ''tool_history'' (JArr h) (with_entry ''tools'' (JArr (ak_tools env)) (ak_think_args env))"
  obtain evs r where engine: "call_engine env i ''think_with_tools'' ?args = (evs, r)" by fastforce
  have asked: "list_all (permitted_event env) evs \<and> engine_calls evs = 1"
    using call_engine_permitted [of i "''think_with_tools''" env ?args] engine "2.prems" by (simp add: ENGINE_TOOL_NAMES_def)
  show ?case
  proof (cases "and_then r (parse_think_result (ak_json env) (ak_json_error env))")
    case (Inl e)
    then show ?thesis using engine asked by simp
  next
    case (Inr answer)
    show ?thesis
    proof (cases answer)
      case (Final content)
      then show ?thesis using engine asked Inr by simp
    next
      case (ToolCalls content calls)
      obtain evs1 msgs where runs: "delegated_calls env i 0 calls = (evs1, msgs)" by fastforce
      let ?h = "h @ [assistant_message (ak_json env) (Some (unwrap_or content [])) calls] @ msgs"
      obtain evs2 out where rest: "ask_loop env k (Suc i) ?h = (evs2, out)" by fastforce
      have "list_all (permitted_event env) evs2 \<and> engine_calls evs2 \<le> k"
        using "2.IH" [OF refl engine [symmetric] refl Inr ToolCalls runs [symmetric] refl refl] "2.prems" rest by simp
      then show ?thesis
        using delegated_calls_permitted [of env i 0 calls] engine asked Inr ToolCalls runs rest by simp
    qed
  qed
qed simp

lemma run_permitted:
  "list_all (permitted_event env) (fst (run_mgp_agent_ask_loop env)) \<and>
   engine_calls (fst (run_mgp_agent_ask_loop env)) \<le> MGP_AGENT_ASK_MAX_TOOL_ITERATIONS"
proof (cases "ak_tools env = []")
  case True
  then show ?thesis
    using call_engine_permitted [of 0 "''think''" env "ak_think_args env"]
    by (auto simp: run_mgp_agent_ask_loop_def ENGINE_TOOL_NAMES_def MGP_AGENT_ASK_MAX_TOOL_ITERATIONS_def split: prod.splits)
next
  case False
  then show ?thesis using ask_loop_permitted [of MGP_AGENT_ASK_MAX_TOOL_ITERATIONS 0 env "[]"] by (simp add: run_mgp_agent_ask_loop_def)
qed

section \<open>Delegation as a whole\<close>

text \<open>What was asked, as far as the loop knows it.\<close>

definition ask_named :: "ask_io \<Rightarrow> json \<Rightarrow> agent_tables \<Rightarrow> ask_env \<Rightarrow> bool" where
  "ask_named io args t env \<longleftrightarrow>
     json_get args ''target_agent_id'' = Some (JStr (ak_target env)) \<and>
     ak_caller env = unwrap_or (optional_str args ''agent_id'') ''unknown'' \<and>
     ak_engine env = ao_engine io \<and> ak_call env = ao_call io \<and>
     (\<exists>row. find_agent t (ak_target env) = Some row \<and> ag_enabled row \<and> ag_default_engine_id row = ak_engine_id env)"

lemma am_enabled_row: "am_enabled (row_to_metadata now threshold row) = ag_enabled row"
  by (simp add: row_to_metadata_def resolve_status_def Let_def)

lemma ask_target_Ok:
  assumes "ask_target io w t target = Ok (meta, engine_id)"
  shows "\<exists>row. find_agent t target = Some row \<and> ag_enabled row \<and> ag_default_engine_id row = engine_id"
  using assms
  by (auto simp: ask_target_def get_agent_config_def fetch_agent_def and_then_Ok_iff am_enabled_row
      split: sum.splits option.splits prod.splits if_splits)

lemma converse_events:
  assumes "converse io d env = (evs, res)"
  shows "list_all (permitted_event env) evs \<and> engine_calls evs \<le> MGP_AGENT_ASK_MAX_TOOL_ITERATIONS"
proof -
  obtain trace out where run: "run_mgp_agent_ask_loop env = (trace, out)" by fastforce
  then show ?thesis
    using assms run_permitted [of env]
    by (cases out) (auto simp: converse_def Let_def permitted_event_def)
qed

text \<open>C12. A delegation that does anything was asked in privileged mode, by another agent than the
  target, with at most two agents said to be in the chain and the target not among them; the target
  exists and is powered on. Its engine is asked at most five times, as the target, and every server a
  tool of the target contacts is one the tool index names for it, where both the caller is granted the
  tool and the call passes the whole gate as a call of the target.\<close>

theorem delegation_within_both:
  assumes "execute_mgp_agent_ask io args w t = (evs, res)" and "evs \<noteq> []"
  shows "kw_yolo w \<and> (\<exists>env. ask_named io args t env \<and> ak_caller env \<noteq> ak_target env \<and>
    length (delegation_chain args) < 3 \<and> ak_target env \<notin> set (delegation_chain args) \<and>
    list_all (permitted_event env) evs \<and> engine_calls evs \<le> 5)"
proof -
  let ?caller = "unwrap_or (optional_str args ''agent_id'') ''unknown''" and ?chain = "delegation_chain args"
    and ?ctx = "unwrap_or (optional_str args ''context'') []"
  obtain target prompt where named: "required_str args ''target_agent_id'' = Ok target" "required_str args ''prompt'' = Ok prompt"
    and yolo: "kw_yolo w"
    using assms by (auto simp: execute_mgp_agent_ask_def and_then_def split: sum.splits if_splits prod.splits)
  have chain: "check_chain ?caller target ?chain = Ok ()"
    using assms named yolo by (auto simp: execute_mgp_agent_ask_def Let_def split: sum.splits)
  have run: "ask_agent io w t ?caller target prompt ?ctx (length ?chain + 1) = (evs, res)"
    using assms named yolo chain by (auto simp: execute_mgp_agent_ask_def Let_def)
  obtain meta engine_id where agent: "ask_target io w t target = Ok (meta, engine_id)"
    using run assms(2) by (auto simp: ask_agent_def Let_def split: sum.splits)
  obtain agent_json where json: "ao_agent_json io meta engine_id = Ok agent_json"
    using run assms(2) agent by (auto simp: ask_agent_def Let_def split: sum.splits)
  let ?env = "ask_setting io w engine_id target ?caller (think_args io agent_json ?caller (full_prompt prompt ?ctx))"
  obtain d where conv: "converse io d ?env = (evs, res)"
    using run agent json by (auto simp: ask_agent_def Let_def split: sum.splits)
  have "ask_named io args t ?env"
    using named ask_target_Ok [OF agent] by (simp add: ask_named_def ask_setting_def required_str_Ok)
  moreover have "?caller \<noteq> target \<and> length ?chain < 3 \<and> target \<notin> set ?chain"
    using chain by (simp add: check_chain_def MAX_DELEGATION_DEPTH_def split: if_splits)
  ultimately show ?thesis
    using yolo converse_events [OF conv]
    by (intro conjI exI [of _ ?env]) (simp_all add: ask_setting_def MGP_AGENT_ASK_MAX_TOOL_ITERATIONS_def)
qed

text \<open>A delegation that runs a tool: \<open>ann\<close> asks \<open>bob\<close>, whose engine calls one tool and then answers.\<close>

definition asked_codec :: json_text where
  "asked_codec = \<lparr>json_to_string = (\<lambda>_. ''{}''),
     json_from_str = (\<lambda>s. if s = ''calls'' then Some (JObj [(''calls'', JArr [JObj [(''id'', JStr ''1''), (''name'', JStr ''get'')]]),
       (''type'', JStr ''tool_calls'')]) else Some (JObj [(''content'', JStr s), (''type'', JStr ''final'')]))\<rparr>"

definition asked_gate :: gate_env where
  "asked_gate = example_env\<lparr>ge_state :=
     \<lparr>st_servers = [(''web'', \<lparr>sh_id = ''web'', sh_required_permissions = [], sh_client = Some 4,
         sh_tools = [\<lparr>tool_name = ''think_with_tools'', tool_description = None, tool_input_schema = JNull, tool_annotations = None\<rparr>],
         sh_mgp_negotiated = None, sh_status = Connected\<rparr>)],
      st_tool_index = [(''get'', ''web'')]\<rparr>\<rparr>"

definition asked_read :: "string \<Rightarrow> delegated_read" where
  "asked_read answer = \<lparr>dr_index = asked_gate, dr_caller = asked_gate, dr_caller_faults = (\<lambda>_. None), dr_gate = asked_gate,
     dr_gate_faults = no_faults,
     dr_reply = (\<lambda>_ _ _. Ok \<lparr>cr_content = [TextContent answer], cr_is_error = None, cr_result_type = None\<rparr>), dr_timeout = None\<rparr>"

definition asked_io :: ask_io where
  "asked_io = \<lparr>ao_now = 7, ao_rfc3339 = (\<lambda>_. ''t''), ao_faults = (\<lambda>_. None), ao_agent_json = (\<lambda>_ _. Ok (JObj [])),
     ao_tool_schemas = (\<lambda>_. [JObj []]), ao_json = asked_codec, ao_json_error = id, ao_error_text = (\<lambda>_. ''e''),
     ao_engine = (\<lambda>i. asked_read (if i = 0 then ''calls'' else ''done'')), ao_call = (\<lambda>_ _. asked_read ''page'')\<rparr>"

definition asked_args :: json where
  "asked_args = JObj [(''agent_id'', JStr ''ann''), (''prompt'', JStr ''look''), (''target_agent_id'', JStr ''bob'')]"

definition asked_world :: kernel_world where
  "asked_world = \<lparr>kw_yolo = True, kw_gate = asked_gate, kw_events = event_manager_new, kw_streams = [],
     kw_audit = \<lparr>al_rows = [], al_seq = 0\<rparr>\<rparr>"

definition asked_agents :: agent_tables where
  "asked_agents = \<lparr>tb_agents = [\<lparr>ag_id = ''bob'', ag_name = ''Bob'', ag_description = [], ag_enabled = True, ag_last_seen = 0,
       ag_default_engine_id = ''web'', ag_required_capabilities = [], ag_metadata = [], ag_power_password_hash = None,
       ag_agent_type = ''agent''\<rparr>],
     tb_db = example_db, tb_chat = [], tb_trusted = [], tb_tokens = []\<rparr>"

definition ran_a_tool :: "ask_event \<Rightarrow> bool" where
  "ran_a_tool e = (case e of DelegatedRun _ _ _ _ evs \<Rightarrow> evs \<noteq> [] | _ \<Rightarrow> False)"

theorem delegation_within_both_witness:
  "kw_yolo asked_world \<and> list_ex ran_a_tool (fst (execute_mgp_agent_ask asked_io asked_args asked_world asked_agents)) \<and>
   (\<exists>env. ask_named asked_io asked_args asked_agents env)"
proof -
  have ran: "list_ex ran_a_tool (fst (execute_mgp_agent_ask asked_io asked_args asked_world asked_agents))"
    by code_simp
  then have "fst (execute_mgp_agent_ask asked_io asked_args asked_world asked_agents) \<noteq> []" by auto
  from delegation_within_both [OF prod.collapse [symmetric] this] ran show ?thesis by blast
qed

section \<open>What it does not look at\<close>

text \<open>
  The caller's side of the intersection is its permission for the tool. Its argument rules are not
  consulted: a call they would refuse to the caller itself runs when the caller delegates it.
\<close>

lemma lookups_ignore_rules:
  "explicit_tool_grant sq now f (d\<lparr>db_rules := rules\<rparr>) a server tool = explicit_tool_grant sq now f d a server tool"
  "explicit_server_grant sq now f (d\<lparr>db_rules := rules\<rparr>) a server = explicit_server_grant sq now f d a server"
  "find_server (d\<lparr>db_rules := rules\<rparr>) server = find_server d server"
  "agent_active (d\<lparr>db_rules := rules\<rparr>) a = agent_active d a"
  by (simp_all add: explicit_tool_grant_def explicit_server_grant_def tool_rows_def server_rows_def find_server_def agent_active_def)

lemma resolve_ignores_rules:
  "resolve_tool_access sq now fs (d\<lparr>db_rules := rules\<rparr>) a server tool = resolve_tool_access sq now fs d a server tool"
  unfolding resolve_tool_access_def resolve_explicit_permission_def lookups_ignore_rules ..

lemma caller_rules_not_consulted:
  "check_tool_access (g\<lparr>ge_db := (ge_db g)\<lparr>db_rules := rules\<rparr>\<rparr>) f a tool = check_tool_access g f a tool"
  by (simp add: check_tool_access_def resolve_ignores_rules)

text \<open>The same holds of the delegation a call carries: only the permission of the actor it names is looked up.\<close>

lemma actor_rules_not_consulted:
  "check_delegation (g\<lparr>ge_db := (ge_db g)\<lparr>db_rules := rules\<rparr>\<rparr>) fs server tool d = check_delegation g fs server tool d"
proof -
  have "ge_db (g\<lparr>ge_db := (ge_db g)\<lparr>db_rules := rules\<rparr>\<rparr>) = (ge_db g)\<lparr>db_rules := rules\<rparr>"
    and "ge_state (g\<lparr>ge_db := (ge_db g)\<lparr>db_rules := rules\<rparr>\<rparr>) = ge_state g"
    and "ge_sqlite (g\<lparr>ge_db := (ge_db g)\<lparr>db_rules := rules\<rparr>\<rparr>) = ge_sqlite g"
    and "ge_now (g\<lparr>ge_db := (ge_db g)\<lparr>db_rules := rules\<rparr>\<rparr>) = ge_now g" by simp_all
  then show ?thesis unfolding check_delegation_def by (simp only: resolve_ignores_rules lookups_ignore_rules)
qed

text \<open>
  The target is shown the tools of the kernel, but the loop runs a tool through the index of the
  connected servers only: a tool that no server provides is never run, the kernel's own included.
\<close>

lemma kernel_tool_not_delegated:
  "hm_get (st_tool_index (ge_state (dr_index rd))) (tc_name call) = None \<Longrightarrow>
   delegated_call env rd call = ([], Some (Err (AMsg (''Tool '' @ quoted (tc_name call) @ '' not found in any connected server''))))"
  by (simp add: delegated_call_def)

end
