(* ===== verification/Marketplace.thy ===== *)
theory Marketplace
  imports Footprint Launch
begin

text \<open>
  The decisions of the marketplace, \<open>handlers/marketplace.rs\<close>: where an entry of the catalog is
  installed, whether it is installed and whether an update is due, the seal given at install, the
  extraction of an archive, and what an uninstall removes. Fetching, building and running installers
  are I/O: what they answer is an input. A path is its bytes, as in \<open>Footprint\<close>.

  The catalog comes from the hub. The seal library's messages, its base64 and its check of a signature
  are parameters; a signature and a key are named by their texts.
\<close>

section \<open>Entries and rows\<close>

record registry_entry =
  rg_id :: string
  rg_version :: string
  rg_directory :: string
  rg_trust_level :: string
  rg_entry_point_sha256 :: "string option"
  rg_signature_payload :: "json option"
  rg_raw_url_sha256 :: "string option"

record install_row =
  iw_name :: string
  iw_command :: string
  iw_marketplace_id :: "string option"
  iw_is_active :: bool
  iw_installed_version :: "string option"
  iw_installed_archive_sha256 :: "string option"

definition is_placeholder :: "install_row \<Rightarrow> bool" where
  "is_placeholder r = (iw_command r = PLACEHOLDER_COMMAND)"

record install_receipt =
  ir_connector_dir :: string
  ir_version :: string
  ir_archive_sha256 :: "string option"

definition row_claiming :: "install_row list \<Rightarrow> string \<Rightarrow> install_row option" where
  "row_claiming rows catalog_id = find (\<lambda>r. iw_marketplace_id r = Some catalog_id) rows"

definition row_named :: "install_row list \<Rightarrow> string \<Rightarrow> install_row option" where
  "row_named rows catalog_id = find (\<lambda>r. iw_name r = catalog_id \<and> \<not> is_placeholder r) rows"

section \<open>Where an entry is installed\<close>

definition trim_slashes :: "string \<Rightarrow> string" where
  "trim_slashes s = (let f = dropWhile (\<lambda>c. c = CHR ''/'') in rev (f (rev (f s))))"

definition after_last_separator :: "string \<Rightarrow> string" where
  "after_last_separator s = rev (takeWhile (\<lambda>c. c \<noteq> CHR ''/'' \<and> c \<noteq> CHR 0x5C) (rev s))"

definition effective_install_dir :: "registry_entry \<Rightarrow> string" where
  "effective_install_dir e =
     (let raw = (if rg_directory e = [] then rg_id e else rg_directory e);
          name = after_last_separator (trim_slashes raw)
      in if name = [] then raw else name)"

definition single_normal :: "string \<Rightarrow> bool" where
  "single_normal s = (case pb_components s of [Normal _] \<Rightarrow> True | _ \<Rightarrow> False)"

definition resolve_install_dir :: "pathbuf \<Rightarrow> registry_entry \<Rightarrow> string + pathbuf" where
  "resolve_install_dir servers_dir e =
     (let component = effective_install_dir e
      in if single_normal component then Ok (pb_join servers_dir component)
         else Err (''Refusing to install '' @ quoted (rg_id e) @ '': install directory '' @ quoted component @
                '' is not a single path component under mcp-servers (path traversal blocked)''))"

definition pb_strip_prefix :: "pathbuf \<Rightarrow> pathbuf \<Rightarrow> path_component list option" where
  "pb_strip_prefix p base =
     (if pb_starts_with p base then Some (drop (length (pb_components base)) (pb_components p)) else None)"

definition first_normal :: "path_component list \<Rightarrow> string option" where
  "first_normal cs = (case cs of Normal s # _ \<Rightarrow> Some s | _ \<Rightarrow> None)"

fun find_map :: "('a \<Rightarrow> 'b option) \<Rightarrow> 'a list \<Rightarrow> 'b option" where
  "find_map f [] = None"
| "find_map f (x # xs) = (case f x of Some y \<Rightarrow> Some y | None \<Rightarrow> find_map f xs)"

definition string_items :: "json \<Rightarrow> string list option" where
  "string_items v =
     (case v of JArr xs \<Rightarrow> if list_all (\<lambda>x. json_as_str x \<noteq> None) xs then Some (List.map_filter json_as_str xs) else None
      | _ \<Rightarrow> None)"

definition install_dir_from_args :: "json_text \<Rightarrow> string option \<Rightarrow> pathbuf \<Rightarrow> string option" where
  "install_dir_from_args jt args_json servers_root =
     Option.bind args_json (\<lambda>s. Option.bind (json_from_str jt s) (\<lambda>v. Option.bind (string_items v)
       (find_map (\<lambda>a. Option.bind (pb_strip_prefix a servers_root) first_normal))))"

section \<open>What is installed\<close>

definition row_absence_is_by_design :: "(string \<Rightarrow> connector_declaration) \<Rightarrow> string \<Rightarrow> bool" where
  "row_absence_is_by_design declared server_id \<longleftrightarrow> \<not> launches_a_process (declared server_id)"

record install_state =
  is_claimed :: "install_row option"
  is_named :: "install_row option"
  is_has_files :: bool
  is_registers_no_server :: bool
  is_receipt_version :: "string option"
  is_receipt_archive :: "string option"

text \<open>\<open>is_dir\<close> asks the disk and \<open>declared\<close> is \<open>read_declaration\<close> of the directory under the servers root.\<close>

definition resolve_install ::
  "(pathbuf \<Rightarrow> bool) \<Rightarrow> (string \<Rightarrow> connector_declaration) \<Rightarrow> install_row list \<Rightarrow> registry_entry \<Rightarrow> pathbuf \<Rightarrow> install_state" where
  "resolve_install is_dir declared rows e servers_root =
     (let dir = effective_install_dir e; has_files = is_dir (pb_join servers_root dir)
      in \<lparr>is_claimed = row_claiming rows (rg_id e), is_named = row_named rows (rg_id e), is_has_files = has_files,
          is_registers_no_server = (has_files \<and> \<not> launches_a_process (declared dir)),
          is_receipt_version = None, is_receipt_archive = None\<rparr>)"

definition with_receipts :: "install_receipt list \<Rightarrow> registry_entry \<Rightarrow> install_state \<Rightarrow> install_state" where
  "with_receipts receipts e s =
     (if is_has_files s then
        (let receipt = find (\<lambda>r. ir_connector_dir r = effective_install_dir e) receipts
         in s\<lparr>is_receipt_version := option_filter (\<lambda>v. v \<noteq> []) (map_option ir_version receipt),
              is_receipt_archive := Option.bind receipt ir_archive_sha256\<rparr>)
      else s)"

definition shown_as_installed :: "install_state \<Rightarrow> bool" where
  "shown_as_installed s \<longleftrightarrow>
     (case is_claimed s of None \<Rightarrow> False | Some r \<Rightarrow> iw_is_active r) \<or> is_named s \<noteq> None \<or> is_has_files s"

definition blocks_a_fresh_install :: "install_state \<Rightarrow> bool" where
  "blocks_a_fresh_install s \<longleftrightarrow> is_named s \<noteq> None \<or> is_registers_no_server s"

definition recorded_in :: "install_state \<Rightarrow> install_row option" where
  "recorded_in s = option_or (is_claimed s) (is_named s)"

definition installed_version :: "install_state \<Rightarrow> string option" where
  "installed_version s = option_or (Option.bind (recorded_in s) iw_installed_version) (is_receipt_version s)"

definition installed_archive_sha256 :: "install_state \<Rightarrow> string option" where
  "installed_archive_sha256 s = option_or (Option.bind (recorded_in s) iw_installed_archive_sha256) (is_receipt_archive s)"

definition keys_disagree :: "install_state \<Rightarrow> bool" where
  "keys_disagree s \<longleftrightarrow> shown_as_installed s \<noteq> blocks_a_fresh_install s"

record unlisted_install =
  ui_name :: string
  ui_installed_version :: "string option"
  ui_running :: bool

definition unlisted_installs ::
  "install_row list \<Rightarrow> registry_entry list \<Rightarrow> (string \<times> ServerStatus) list \<Rightarrow> string list \<Rightarrow> unlisted_install list" where
  "unlisted_installs rows entries running restricted =
     (if entries = [] then []
      else
        (let accounted = map iw_name (List.map_filter (\<lambda>r. r)
               (concat (map (\<lambda>e. [row_claiming rows (rg_id e), row_named rows (rg_id e)]) entries)))
         in map (\<lambda>r. \<lparr>ui_name = iw_name r, ui_installed_version = iw_installed_version r,
                      ui_running = list_ex (\<lambda>(i, st). i = iw_name r \<and> st = Connected) running\<rparr>)
              (filter (\<lambda>r. \<not> list_ex (\<lambda>i. iw_marketplace_id r = Some i \<or> iw_name r = i) restricted)
                (filter (\<lambda>r. iw_name r \<notin> set accounted)
                  (filter (\<lambda>r. iw_marketplace_id r \<noteq> None \<and> \<not> is_placeholder r) rows)))))"

section \<open>What was signed\<close>

datatype ArchiveBinding = BindingAbsent | BindingMalformed | BindingBound string nat

definition is_hex_digit :: "char \<Rightarrow> bool" where
  "is_hex_digit c \<longleftrightarrow> (CHR ''0'' \<le> c \<and> c \<le> CHR ''9'') \<or> (CHR ''a'' \<le> c \<and> c \<le> CHR ''f'') \<or> (CHR ''A'' \<le> c \<and> c \<le> CHR ''F'')"

definition hex_digest :: "string \<Rightarrow> bool" where
  "hex_digest s \<longleftrightarrow> length s = 64 \<and> list_all is_hex_digit s"

definition archive_binding :: "registry_entry \<Rightarrow> ArchiveBinding" where
  "archive_binding e =
     (case Option.bind (rg_signature_payload e) (\<lambda>p. json_get p ''archive'') of
        None \<Rightarrow> BindingAbsent
      | Some archive \<Rightarrow>
          (case (Option.bind (json_get archive ''sha256'') json_as_str, Option.bind (json_get archive ''length'') json_as_u64) of
             (Some sha, Some n) \<Rightarrow>
               (let sha = trim sha in if hex_digest sha then BindingBound (ascii_lower sha) n else BindingMalformed)
           | _ \<Rightarrow> BindingMalformed))"

definition catalog_archive_digest :: "registry_entry \<Rightarrow> string option" where
  "catalog_archive_digest e =
     (case archive_binding e of
        BindingBound sha _ \<Rightarrow> Some sha
      | _ \<Rightarrow> Option.bind (rg_raw_url_sha256 e) (\<lambda>s. let d = trim s in if hex_digest d then Some (ascii_lower d) else None))"

definition catalog_offers_an_update :: "string option \<Rightarrow> string option \<Rightarrow> registry_entry \<Rightarrow> bool" where
  "catalog_offers_an_update version digest e =
     (case version of
        None \<Rightarrow> False
      | Some v \<Rightarrow>
          if v \<noteq> rg_version e then True
          else (case (digest, catalog_archive_digest e) of
                  (Some installed, Some current) \<Rightarrow> \<not> eq_ignore_ascii_case installed current
                | _ \<Rightarrow> False))"

datatype UnsealedReason =
    NoEntryPointHash | NoSignature | MalformedSignatureBlock | UndecodableSignature | HubKeyUnavailable | MalformedArchiveBinding

datatype SealVerdict = Verified | Unsealed UnsealedReason

datatype install_refusal = TamperSuspect string string | CannotRead string

record seal_lib =
  sl_signature_ok :: "string \<Rightarrow> bool"
  sl_key_id_ok :: "string \<Rightarrow> bool"
  sl_message :: "string \<Rightarrow> string \<Rightarrow> string \<Rightarrow> string"
  sl_message_v2 :: "string \<Rightarrow> string \<Rightarrow> string \<Rightarrow> string \<Rightarrow> nat \<Rightarrow> string"
  sl_verify :: "string \<Rightarrow> string \<Rightarrow> string \<Rightarrow> string \<Rightarrow> bool"

definition entry_signature_kid :: "registry_entry \<Rightarrow> string option" where
  "entry_signature_kid e =
     Option.bind (Option.bind (Option.bind (rg_signature_payload e) (\<lambda>p. json_get p ''ed25519'')) (\<lambda>b. json_get b ''key_id'')) json_as_str"

definition integrity_mismatch :: "registry_entry \<Rightarrow> string \<Rightarrow> string \<Rightarrow> install_refusal" where
  "integrity_mismatch e expected actual = TamperSuspect ''integrity_mismatch''
     (''entry point integrity check failed for '' @ quoted (rg_id e) @ '': catalog expects sha256 '' @ expected @
      '', installed file hashes to '' @ actual)"

definition signature_invalid :: "registry_entry \<Rightarrow> string \<Rightarrow> install_refusal" where
  "signature_invalid e kid = TamperSuspect ''signature_invalid''
     (''Ed25519 seal verification failed for '' @ quoted (rg_id e) @ '': the catalog'' @ [CHR 0x27] @
      ''s signature does not match its signed identity under hub key '' @ quoted kid @ '' '' @ [CHR 0xE2, CHR 0x80, CHR 0x94] @ '' refusing install'')"

definition check_entry_signature ::
  "seal_lib \<Rightarrow> registry_entry \<Rightarrow> string \<Rightarrow> string option \<Rightarrow> json \<Rightarrow> install_refusal + SealVerdict" where
  "check_entry_signature sl e expected hub_key block =
     (case (Option.bind (json_get block ''sig'') json_as_str, Option.bind (json_get block ''key_id'') json_as_str) of
        (Some sig, Some kid) \<Rightarrow>
          if \<not> (sl_signature_ok sl sig \<and> sl_key_id_ok sl kid) then Ok (Unsealed UndecodableSignature)
          else (case hub_key of
                  None \<Rightarrow> Ok (Unsealed HubKeyUnavailable)
                | Some pk \<Rightarrow>
                    (case (case archive_binding e of
                             BindingBound sha n \<Rightarrow> Some (sl_message_v2 sl (rg_id e) (rg_version e) expected sha n)
                           | BindingAbsent \<Rightarrow> Some (sl_message sl (rg_id e) (rg_version e) expected)
                           | BindingMalformed \<Rightarrow> None) of
                       None \<Rightarrow> Ok (Unsealed MalformedArchiveBinding)
                     | Some msg \<Rightarrow> if sl_verify sl pk kid msg sig then Ok Verified else Err (signature_invalid e kid)))
      | _ \<Rightarrow> Ok (Unsealed MalformedSignatureBlock))"

definition install_seal_verdict ::
  "seal_lib \<Rightarrow> registry_entry \<Rightarrow> string + string \<Rightarrow> string option \<Rightarrow> install_refusal + SealVerdict" where
  "install_seal_verdict sl e installed_sha hub_key =
     (case option_filter (\<lambda>s. s \<noteq> []) (map_option trim (rg_entry_point_sha256 e)) of
        None \<Rightarrow> Ok (Unsealed NoEntryPointHash)
      | Some expected \<Rightarrow>
          (case installed_sha of
             Inl err \<Rightarrow> Err (CannotRead err)
           | Inr actual \<Rightarrow>
               if \<not> eq_ignore_ascii_case actual expected then Err (integrity_mismatch e expected actual)
               else (case Option.bind (rg_signature_payload e) (\<lambda>p. json_get p ''ed25519'') of
                       None \<Rightarrow> Ok (Unsealed NoSignature)
                     | Some block \<Rightarrow> check_entry_signature sl e expected hub_key block)))"

text \<open>The local seal: over the tree when the install directory is there, over the entry point otherwise.\<close>

definition local_seal_for_install ::
  "seal_lib \<Rightarrow> (pathbuf \<Rightarrow> bool) \<Rightarrow> (pathbuf \<Rightarrow> string + string) \<Rightarrow> (string + string) \<Rightarrow> pathbuf \<Rightarrow> registry_entry \<Rightarrow> string + string
   \<Rightarrow> string option \<Rightarrow> install_refusal + string option" where
  "local_seal_for_install sl is_dir tree_seal entry_seal data_dir e installed_sha hub_key =
     and_then (install_seal_verdict sl e installed_sha hub_key) (\<lambda>v.
       if v \<noteq> Verified then Ok None
       else
         (let sealed = (case resolve_install_dir (pb_join data_dir ''mcp-servers'') e of
                          Inr base \<Rightarrow> if is_dir base then tree_seal base else entry_seal
                        | Inl _ \<Rightarrow> entry_seal)
          in case sealed of Inl err \<Rightarrow> Err (CannotRead err) | Inr s \<Rightarrow> Ok (Some s)))"

section \<open>Extracting an archive\<close>

text \<open>\<open>PathBuf::push\<close> and \<open>pop\<close> over the components of a destination.\<close>

fun normal_step :: "pathbuf \<Rightarrow> path_component \<Rightarrow> pathbuf" where
  "normal_step acc ParentDir = unwrap_or (pb_parent acc) acc"
| "normal_step acc (Normal s) = pb_join acc s"
| "normal_step acc RootDir = pb_join acc ''/''"
| "normal_step acc CurDir = acc"

definition normalized_dest :: "pathbuf \<Rightarrow> pathbuf" where
  "normalized_dest dest = foldl normal_step [] (pb_components dest)"

definition validate_dest_path :: "pathbuf \<Rightarrow> pathbuf \<Rightarrow> string + unit" where
  "validate_dest_path target_dir dest =
     (let full = (if pb_is_absolute dest then normalized_dest dest else pb_join target_dir (normalized_dest dest))
      in if pb_starts_with full target_dir then Ok ()
         else Err (''Path traversal detected: '' @ quoted dest @ '' escapes target directory''))"

definition MAX_EXTRACTED_BYTES :: nat where
  "MAX_EXTRACTED_BYTES = 512 * 1024 * 1024"

definition MAX_EXTRACTED_ENTRIES :: nat where
  "MAX_EXTRACTED_ENTRIES = 20000"

declare MAX_EXTRACTED_BYTES_def [code del] MAX_EXTRACTED_ENTRIES_def [code del]

record extract_budget =
  eb_remaining_bytes :: nat
  eb_remaining_entries :: nat

definition extract_budget_new :: extract_budget where
  "extract_budget_new = \<lparr>eb_remaining_bytes = MAX_EXTRACTED_BYTES, eb_remaining_entries = MAX_EXTRACTED_ENTRIES\<rparr>"

definition charge_entry :: "extract_budget \<Rightarrow> string + extract_budget" where
  "charge_entry b =
     (case eb_remaining_entries b of
        0 \<Rightarrow> Err (''Refusing to extract: archive carries more than '' @ show_nat MAX_EXTRACTED_ENTRIES @ '' entries'')
      | Suc n \<Rightarrow> Ok (b\<lparr>eb_remaining_entries := n\<rparr>))"

datatype EntryType = TarDirectory | TarRegular | TarContinuous | TarGNUSparse | TarSymlink | TarLink | TarChar | TarBlock | TarFifo | TarOther string

definition refused_types :: "EntryType list" where
  "refused_types = [TarSymlink, TarLink, TarChar, TarBlock, TarFifo]"

definition entry_type_debug :: "EntryType \<Rightarrow> string" where
  "entry_type_debug t =
     (case t of TarDirectory \<Rightarrow> ''Directory'' | TarRegular \<Rightarrow> ''Regular'' | TarContinuous \<Rightarrow> ''Continuous'' | TarGNUSparse \<Rightarrow> ''GNUSparse''
      | TarSymlink \<Rightarrow> ''Symlink'' | TarLink \<Rightarrow> ''Link'' | TarChar \<Rightarrow> ''Char'' | TarBlock \<Rightarrow> ''Block'' | TarFifo \<Rightarrow> ''Fifo''
      | TarOther s \<Rightarrow> s)"

text \<open>
  An entry: its path, its kind, how many bytes it expands to, and what fails when it is written, with
  the number of bytes copied by then if the file had been created.
\<close>

record tar_entry =
  te_path :: string
  te_type :: EntryType
  te_size :: nat
  te_fault :: "(nat option \<times> string) option"

datatype extract_effect = DirMade pathbuf | FileMade pathbuf nat

definition write_entry ::
  "tar_entry \<Rightarrow> pathbuf \<Rightarrow> extract_budget \<Rightarrow> extract_budget \<times> extract_effect list \<times> (string + bool)" where
  "write_entry te dest b =
     (case charge_entry b of
        Inl e \<Rightarrow> (b, [], Err e)
      | Inr b1 \<Rightarrow>
          if te_type te = TarDirectory then
            (case te_fault te of Some (_, e) \<Rightarrow> (b1, [], Err e) | None \<Rightarrow> (b1, [DirMade dest], Ok False))
          else if te_type te \<in> set refused_types then
            (b1, [], Err (''Refusing to extract '' @ quoted dest @ '': archives may not carry links or special files (entry type '' @
               entry_type_debug (te_type te) @ '')''))
          else if te_type te \<in> {TarRegular, TarContinuous, TarGNUSparse} then
            (case te_fault te of
               Some (None, e) \<Rightarrow> (b1, [], Err e)
             | Some (Some n, e) \<Rightarrow> (b1, [FileMade dest (min n (min (te_size te) (eb_remaining_bytes b1 + 1)))], Err e)
             | None \<Rightarrow>
                 (let limit = eb_remaining_bytes b1; written = min (te_size te) (limit + 1)
                  in if written > limit
                     then (b1, [FileMade dest written], Err (''Refusing to extract '' @ quoted dest @ '': archive expands past the '' @
                            show_nat MAX_EXTRACTED_BYTES @ ''-byte limit''))
                     else (b1\<lparr>eb_remaining_bytes := limit - written\<rparr>, [FileMade dest written], Ok True)))
          else (b1, [], Ok False))"

text \<open>The part of an entry's path from its first \<open>servers\<close> on, if the path goes through a wanted directory.\<close>

fun str_find :: "string \<Rightarrow> string \<Rightarrow> nat option" where
  "str_find [] p = (if p = [] then Some 0 else None)"
| "str_find (c # cs) p = (if starts_with (c # cs) p then Some 0 else map_option Suc (str_find cs p))"

definition wanted_suffixes :: "string list \<Rightarrow> bool \<Rightarrow> string list" where
  "wanted_suffixes directories include_common =
     map (\<lambda>d. ''/servers/'' @ d @ ''/'') directories @ (if include_common then [''/servers/common/''] else [])"

definition archive_relative :: "string list \<Rightarrow> string \<Rightarrow> string option" where
  "archive_relative wanted path =
     (if list_ex (\<lambda>s. str_contains path s) wanted
      then map_option (\<lambda>i. drop (i + 1) path) (str_find path ''/servers/'') else None)"

definition entry_dest :: "pathbuf \<Rightarrow> string \<Rightarrow> pathbuf" where
  "entry_dest target_dir relative = pb_join target_dir (unwrap_or (strip_prefix ''servers/'' relative) relative)"

text \<open>The archive is the entries its reader yields; the first it cannot read ends the extraction.\<close>

fun extract_entries ::
  "pathbuf \<Rightarrow> string list \<Rightarrow> (string + tar_entry) list \<Rightarrow> extract_budget \<Rightarrow> extract_effect list \<times> (string + unit)" where
  "extract_entries target_dir wanted [] b = ([], Ok ())"
| "extract_entries target_dir wanted (Inl e # tes) b = ([], Err e)"
| "extract_entries target_dir wanted (Inr te # tes) b =
     (case archive_relative wanted (te_path te) of
        None \<Rightarrow> extract_entries target_dir wanted tes b
      | Some relative \<Rightarrow>
          (let dest = entry_dest target_dir relative
           in case validate_dest_path target_dir dest of
                Inl e \<Rightarrow> ([], Err e)
              | Inr _ \<Rightarrow>
                  (case write_entry te dest b of
                     (b', effs, Inl e) \<Rightarrow> (effs, Err e)
                   | (b', effs, Inr _) \<Rightarrow>
                       (let (effs', res) = extract_entries target_dir wanted tes b' in (effs @ effs', res)))))"

definition extract_selective :: "(string + tar_entry) list \<Rightarrow> pathbuf \<Rightarrow> string \<Rightarrow> bool \<Rightarrow> extract_effect list \<times> (string + unit)" where
  "extract_selective archive target_dir directory include_common =
     extract_entries target_dir (wanted_suffixes [directory] include_common) archive extract_budget_new"

definition extract_batch :: "(string + tar_entry) list \<Rightarrow> pathbuf \<Rightarrow> string list \<Rightarrow> bool \<Rightarrow> extract_effect list \<times> (string + unit)" where
  "extract_batch archive target_dir directories include_common =
     extract_entries target_dir (wanted_suffixes directories include_common) archive extract_budget_new"

section \<open>Asking for an install\<close>

record install_request =
  iq_server_id :: string
  iq_env :: "(string, string) hmap option"
  iq_auto_start :: "bool option"
  iq_update :: "bool option"

definition reject_existing :: "bool \<Rightarrow> bool \<Rightarrow> bool" where
  "reject_existing exists is_update \<longleftrightarrow> exists \<and> \<not> is_update"

definition merged_env :: "(string, string) hmap \<Rightarrow> (string, string) hmap \<Rightarrow> (string, string) hmap" where
  "merged_env stored requested = fold (\<lambda>(k, v) m. if v \<noteq> [] then hm_insert k v m else m) requested stored"

datatype market_error = MarketInvalid string | MarketConflict string | MarketInternal string

record install_plan =
  il_entry :: registry_entry
  il_is_update :: bool
  il_env :: "(string, string) hmap"
  il_auto_start :: bool

text \<open>
  The handler up to the task it starts; the second component is whether the installation flag is set
  afterwards. \<open>registry\<close> is the cached catalog or what a fetch of it answers, \<open>engine\<close> the probe of the
  install engine.
\<close>

definition install_handler ::
  "bool \<Rightarrow> string + registry_entry list \<Rightarrow> (pathbuf \<Rightarrow> bool) \<Rightarrow> (string \<Rightarrow> connector_declaration) \<Rightarrow> install_row list \<Rightarrow> pathbuf \<Rightarrow>
   string + unit \<Rightarrow> (string, string) hmap \<Rightarrow> install_request \<Rightarrow> bool \<Rightarrow> bool \<times> (market_error + install_plan)" where
  "install_handler within_rate registry is_dir declared rows data_dir engine stored_env rq in_progress =
     (if \<not> within_rate
      then (in_progress, Err (MarketInvalid ''Too many install requests. Please wait before trying again.''))
      else case registry of
        Inl e \<Rightarrow> (in_progress, Err (MarketInternal (''Registry not available: '' @ e)))
      | Inr entries \<Rightarrow>
          (case find (\<lambda>e. rg_id e = iq_server_id rq) entries of
             None \<Rightarrow> (in_progress, Err (MarketInvalid (''Server '' @ quoted (iq_server_id rq) @ '' not found in registry'')))
           | Some e \<Rightarrow>
               (let exists = blocks_a_fresh_install (resolve_install is_dir declared rows e (pb_join data_dir ''mcp-servers''));
                    is_update = unwrap_or (iq_update rq) False
                in if reject_existing exists is_update
                   then (in_progress, Err (MarketInvalid (''Server '' @ quoted (iq_server_id rq) @ '' is already installed'')))
                   else case engine of
                     Inl err \<Rightarrow> (in_progress, Err (MarketConflict err))
                   | Inr _ \<Rightarrow>
                       if in_progress
                       then (True, Err (MarketInvalid ''Another installation is already in progress''))
                       else
                         (let requested = unwrap_or (iq_env rq) []
                          in (True, Ok \<lparr>il_entry = e, il_is_update = is_update,
                                 il_env = (if is_update \<and> exists then merged_env stored_env requested else requested),
                                 il_auto_start = unwrap_or (iq_auto_start rq) True\<rparr>)))))"

datatype InstallOutcome = Installed | NotInstalled

datatype install_step = StopServer string | RunInstall string | FlagCleared | ProviderForgotten string | EvidenceCleared | StartServer string | LeftStopped string | CompleteShown

text \<open>
  The task: \<open>stopped\<close> is what \<open>stop_server\<close> answers, \<open>result\<close> what the install does, and \<open>is_dir\<close> the disk
  after it.
\<close>

definition install_task ::
  "bool \<Rightarrow> string + InstallOutcome \<Rightarrow> (pathbuf \<Rightarrow> bool) \<Rightarrow> pathbuf \<Rightarrow> install_plan \<Rightarrow> install_step list" where
  "install_task stopped result is_dir data_dir plan =
     (let e = il_entry plan; dir = pb_join (pb_join data_dir ''mcp-servers'') (effective_install_dir e);
          stopped_for_update = (il_is_update plan \<and> stopped)
      in (if il_is_update plan then [StopServer (rg_id e)] else [])
         @ [RunInstall (rg_id e), FlagCleared]
         @ (if result = Ok Installed then [ProviderForgotten (rg_id e), EvidenceCleared] else [])
         @ (if stopped_for_update \<and> result \<noteq> Ok Installed
            then (if is_dir dir then [StartServer (rg_id e)] else [LeftStopped (rg_id e)]) else [])
         @ [CompleteShown])"

section \<open>Uninstalling\<close>

definition is_bad_server_id :: "string \<Rightarrow> bool" where
  "is_bad_server_id s \<longleftrightarrow> CHR ''/'' \<in> set s \<or> CHR 0x5C \<in> set s \<or> str_contains s ''..''"

definition uninstall_candidates :: "registry_entry list option \<Rightarrow> string option \<Rightarrow> string \<Rightarrow> string list" where
  "uninstall_candidates cached args_dir server_id =
     (let catalog_dir = Option.bind cached (\<lambda>es. map_option effective_install_dir (find (\<lambda>e. rg_id e = server_id) es))
      in foldl (\<lambda>cs c. if c \<in> set cs then cs else cs @ [c]) [] (List.map_filter (\<lambda>c. c) [catalog_dir, args_dir, Some server_id]))"

record uninstall_disk =
  ud_is_dir :: "pathbuf \<Rightarrow> bool"
  ud_canonical :: "pathbuf \<Rightarrow> pathbuf option"
  ud_remove_ok :: "pathbuf \<Rightarrow> bool"

datatype uninstall_effect = TreeRemoved pathbuf | RemovalFailed pathbuf | ReceiptRowRemoved string | ServerRemoved string | FootprintRemoved string

definition contained_in :: "uninstall_disk \<Rightarrow> pathbuf \<Rightarrow> pathbuf \<Rightarrow> bool" where
  "contained_in disk base dir =
     (case (ud_canonical disk base, ud_canonical disk dir) of
        (Some r, Some t) \<Rightarrow> pb_starts_with t r \<and> \<not> pb_eq t r
      | _ \<Rightarrow> False)"

text \<open>The first candidate that is a directory inside the root is tried, and none after it.\<close>

fun remove_first :: "uninstall_disk \<Rightarrow> pathbuf \<Rightarrow> string list \<Rightarrow> uninstall_effect list" where
  "remove_first disk base [] = []"
| "remove_first disk base (c # cs) =
     (let dir = pb_join base c
      in if \<not> ud_is_dir disk dir then remove_first disk base cs
         else if \<not> contained_in disk base dir then remove_first disk base cs
         else if ud_remove_ok disk dir then [TreeRemoved dir, ReceiptRowRemoved c] else [RemovalFailed dir])"

definition uninstall_handler ::
  "bool \<Rightarrow> json_text \<Rightarrow> uninstall_disk \<Rightarrow> registry_entry list option \<Rightarrow> string option \<Rightarrow> pathbuf \<Rightarrow> string \<Rightarrow>
   uninstall_effect list \<times> (market_error + unit)" where
  "uninstall_handler within_rate jt disk cached registered_args data_dir server_id =
     (if \<not> within_rate then ([], Err (MarketInvalid ''Too many requests. Please wait before trying again.''))
      else if is_bad_server_id server_id then ([], Err (MarketInvalid ''Invalid server id''))
      else
        (let base = pb_join data_dir ''mcp-servers'';
             candidates = uninstall_candidates cached (install_dir_from_args jt registered_args base) server_id
         in (ServerRemoved server_id # remove_first disk base candidates @ [FootprintRemoved (''mcp:'' @ server_id)], Ok ())))"

end
