(* ===== verification/Market_Laws.thy ===== *)
theory Market_Laws
  imports Marketplace Purge_Laws
begin

text \<open>
  What the marketplace promises: an archive is extracted under the target directory, carries no links
  and stays within its budgets; the seal of an install says exactly what was checked; an uninstall
  removes one tree, inside the servers root.
\<close>

section \<open>Where a path leads\<close>

text \<open>The directory a path leads to where there are no symbolic links: the parent of the root is the root.\<close>

fun step_into :: "path_component list \<Rightarrow> path_component \<Rightarrow> path_component list" where
  "step_into out RootDir = [RootDir]"
| "step_into out CurDir = out"
| "step_into out ParentDir = (if last out = RootDir then out else butlast out)"
| "step_into out (Normal n) = out @ [Normal n]"

definition leads_to :: "pathbuf \<Rightarrow> path_component list" where
  "leads_to p = foldl step_into [RootDir] (pb_components p)"

lemma clean_not_Nil: "clean_path cs \<Longrightarrow> cs \<noteq> []"
  by (auto simp: clean_path_def)

lemma absolute_of_clean: "clean_path cs \<Longrightarrow> pb_is_absolute (pb_from_components cs)"
  by (auto simp: clean_path_def render_clean pb_is_absolute_def starts_with_def neq_Nil_conv)

lemma join_clean:
  assumes "clean_path cs" "normal_name n"
  shows "pb_join (pb_from_components cs) n = pb_from_components (cs @ [Normal n])"
  by (simp add: pb_from_components_def component_str_def)

lemma parent_clean:
  assumes "clean_path cs"
  shows "unwrap_or (pb_parent (pb_from_components cs)) (pb_from_components cs) =
         pb_from_components (if last cs = RootDir then cs else butlast cs)"
proof -
  obtain c rest where rev: "rev cs = c # rest"
    using clean_not_Nil [OF assms] by (metis neq_Nil_conv rev_is_Nil_conv)
  then have "cs = rev rest @ [c]" by (metis rev_rev_ident rev.simps(2))
  with assms rev show ?thesis
    by (cases c) (auto simp: pb_parent_def components_rendered unwrap_or_def)
qed

lemma normalized_foldl:
  "clean_path cs \<Longrightarrow> \<forall>c \<in> set rest. c = CurDir \<or> c = ParentDir \<or> (\<exists>n. c = Normal n \<and> normal_name n) \<Longrightarrow>
   foldl normal_step (pb_from_components cs) rest = pb_from_components (foldl step_into cs rest) \<and> clean_path (foldl step_into cs rest)"
proof (induction rest arbitrary: cs)
  case (Cons c rest)
  then have "normal_step (pb_from_components cs) c = pb_from_components (step_into cs c) \<and> clean_path (step_into cs c)"
    by (auto simp: join_clean parent_clean intro: clean_snoc clean_butlast)
  with Cons show ?case by simp
qed simp

lemma normalized_absolute:
  assumes "pb_is_absolute p"
  shows "pb_components (normalized_dest p) = leads_to p"
proof -
  obtain rest where rest: "pb_components p = RootDir # rest"
      "\<forall>c \<in> set rest. c = ParentDir \<or> (\<exists>n. c = Normal n \<and> normal_name n)"
    by (rule absolute_components [OF assms])
  have "pb_join [] ''/'' = pb_from_components [RootDir]"
    by (simp add: pb_from_components_def component_str_def)
  with rest normalized_foldl [OF clean_root, of rest] show ?thesis
    by (simp add: normalized_dest_def leads_to_def components_rendered)
qed

lemma join_absolute: "pb_is_absolute base \<Longrightarrow> pb_is_absolute (pb_join base p)"
  by (auto simp: pb_join_def pb_is_absolute_def starts_with_iff)

lemma validated_inside:
  assumes "pb_is_absolute dest" "validate_dest_path base dest = Ok u"
  shows "prefix (pb_components base) (leads_to dest)"
  using assms by (auto simp: validate_dest_path_def pb_starts_with_def normalized_absolute Let_def split: if_splits)

section \<open>Extraction\<close>

fun effect_path :: "extract_effect \<Rightarrow> pathbuf" where
  "effect_path (DirMade p) = p"
| "effect_path (FileMade p _) = p"

fun effect_bytes :: "extract_effect \<Rightarrow> nat" where
  "effect_bytes (DirMade _) = 0"
| "effect_bytes (FileMade _ n) = n"

definition bytes_written :: "extract_effect list \<Rightarrow> nat" where
  "bytes_written effs = sum_list (map effect_bytes effs)"

lemma bytes_written_simps [simp]:
  "bytes_written [] = 0" "bytes_written (e # es) = effect_bytes e + bytes_written es"
  "bytes_written (es @ fs) = bytes_written es + bytes_written fs"
  by (simp_all add: bytes_written_def)

text \<open>What one entry costs: at most one effect, at its own destination, within the allowance.\<close>

lemma write_entry_facts:
  assumes "write_entry te dest b = (b', effs, res)"
  shows "\<forall>eff \<in> set effs. effect_path eff = dest"
    and "bytes_written effs \<le> eb_remaining_bytes b + 1"
    and "length effs \<le> eb_remaining_entries b"
    and "is_ok res \<Longrightarrow> te_type te \<notin> set refused_types \<and> bytes_written effs + eb_remaining_bytes b' = eb_remaining_bytes b
           \<and> length effs + eb_remaining_entries b' \<le> eb_remaining_entries b"
  using assms
  by (auto simp: write_entry_def charge_entry_def Let_def split: nat.splits option.splits if_splits)
    (auto simp: refused_types_def)

lemma entry_dest_absolute: "pb_is_absolute base \<Longrightarrow> pb_is_absolute (entry_dest base relative)"
  by (simp add: entry_dest_def join_absolute)

lemma extract_entries_facts:
  assumes "pb_is_absolute base" "extract_entries base wanted tes b = (effs, res)"
  shows "\<forall>eff \<in> set effs. prefix (pb_components base) (leads_to (effect_path eff))"
    and "bytes_written effs \<le> eb_remaining_bytes b + 1"
    and "length effs \<le> eb_remaining_entries b"
    and "is_ok res \<Longrightarrow> bytes_written effs \<le> eb_remaining_bytes b \<and>
           (\<forall>te. Inr te \<in> set tes \<and> archive_relative wanted (te_path te) \<noteq> None \<longrightarrow> te_type te \<notin> set refused_types)"
proof -
  have "(\<forall>eff \<in> set effs. prefix (pb_components base) (leads_to (effect_path eff)))
    \<and> bytes_written effs \<le> eb_remaining_bytes b + 1 \<and> length effs \<le> eb_remaining_entries b
    \<and> (is_ok res \<longrightarrow> bytes_written effs \<le> eb_remaining_bytes b \<and>
        (\<forall>te. Inr te \<in> set tes \<and> archive_relative wanted (te_path te) \<noteq> None \<longrightarrow> te_type te \<notin> set refused_types))"
    using assms(2)
  proof (induction tes arbitrary: b effs res)
    case (Cons t tes)
    show ?case
    proof (cases t)
      case (Inl e)
      with Cons.prems show ?thesis by auto
    next
      case (Inr te)
      show ?thesis
      proof (cases "archive_relative wanted (te_path te)")
        case None
        with Cons.prems Inr have rest: "extract_entries base wanted tes b = (effs, res)" by simp
        from Cons.IH [OF this] Inr None show ?thesis by auto
      next
        case (Some relative)
        let ?dest = "entry_dest base relative"
        show ?thesis
        proof (cases "validate_dest_path base ?dest")
          case (Inl e)
          with Cons.prems \<open>t = Inr te\<close> Some have "effs = []" "res = Err e" by simp_all
          then show ?thesis by simp
        next
          case (Inr u)
          have inside: "prefix (pb_components base) (leads_to ?dest)"
            using validated_inside [OF entry_dest_absolute [OF assms(1)] Inr] .
          obtain b1 effs1 res1 where w: "write_entry te ?dest b = (b1, effs1, res1)"
            by (cases "write_entry te ?dest b") auto
          obtain effs2 res2 where e2: "extract_entries base wanted tes b1 = (effs2, res2)"
            by fastforce
          note ih = Cons.IH [OF e2]
          show ?thesis
            using Cons.prems \<open>t = Inr te\<close> Some Inr w e2 ih inside write_entry_facts [OF w]
            by (cases res1) auto
        qed
      qed
    qed
  qed auto
  then show "\<forall>eff \<in> set effs. prefix (pb_components base) (leads_to (effect_path eff))"
    and "bytes_written effs \<le> eb_remaining_bytes b + 1"
    and "length effs \<le> eb_remaining_entries b"
    and "is_ok res \<Longrightarrow> bytes_written effs \<le> eb_remaining_bytes b \<and>
           (\<forall>te. Inr te \<in> set tes \<and> archive_relative wanted (te_path te) \<noteq> None \<longrightarrow> te_type te \<notin> set refused_types)"
    by blast+
qed


definition sample_archive :: "(string + tar_entry) list" where
  "sample_archive =
     [Inr \<lparr>te_path = ''repo/servers/web/server.py'', te_type = TarRegular, te_size = 5, te_fault = None\<rparr>,
      Inr \<lparr>te_path = ''repo/servers/web/../../../etc/passwd'', te_type = TarRegular, te_size = 5, te_fault = None\<rparr>]"

lemma sample_entries:
  "extract_entries ''/d/mcp-servers'' [''/servers/web/''] sample_archive \<lparr>eb_remaining_bytes = n, eb_remaining_entries = m\<rparr> = x \<Longrightarrow>
   4 < n \<Longrightarrow> 1 < m \<Longrightarrow> fst x = [FileMade ''/d/mcp-servers/web/server.py'' 5] \<and> \<not> is_ok (snd x)"
proof -
  have rel: "archive_relative [''/servers/web/''] ''repo/servers/web/server.py'' = Some ''servers/web/server.py''"
    "archive_relative [''/servers/web/''] ''repo/servers/web/../../../etc/passwd'' = Some ''servers/web/../../../etc/passwd''"
    by code_simp+
  have dest: "entry_dest ''/d/mcp-servers'' ''servers/web/server.py'' = ''/d/mcp-servers/web/server.py''"
    "entry_dest ''/d/mcp-servers'' ''servers/web/../../../etc/passwd'' = ''/d/mcp-servers/web/../../../etc/passwd''"
    by code_simp+
  have valid: "is_ok (validate_dest_path ''/d/mcp-servers'' ''/d/mcp-servers/web/server.py'')"
    "\<not> is_ok (validate_dest_path ''/d/mcp-servers'' ''/d/mcp-servers/web/../../../etc/passwd'')"
    by code_simp+
  assume x: "extract_entries ''/d/mcp-servers'' [''/servers/web/''] sample_archive \<lparr>eb_remaining_bytes = n, eb_remaining_entries = m\<rparr> = x"
    and nm: "4 < n" "1 < m"
  show ?thesis
    using x nm valid
    by (auto simp: sample_archive_def rel dest Let_def write_entry_def charge_entry_def min_def refused_types_def
        is_ok_iff split: sum.splits nat.splits)
qed


text \<open>
  The check of a destination compares nothing when the target is relative: the normalized destination
  is put under the target before it is compared with it.
\<close>

theorem relative_target_is_not_guarded:
  "is_ok (validate_dest_path ''data/mcp-servers'' ''data/mcp-servers/web/../../../../etc/passwd'')"
  by code_simp

text \<open>
  Asked for one connector, the extraction writes into the directory of another: the entry is wanted for
  a \<open>/servers/web/\<close> anywhere in its path, and placed by the first \<open>/servers/\<close> in it.
\<close>

theorem wanted_entry_lands_elsewhere:
  "archive_relative (wanted_suffixes [''web''] False) ''repo/servers/other/servers/web/x'' = Some ''servers/other/servers/web/x''
   \<and> entry_dest ''/d/mcp-servers'' ''servers/other/servers/web/x'' = ''/d/mcp-servers/other/servers/web/x''"
  by code_simp

section \<open>The seal of an install\<close>

definition signature_block :: "registry_entry \<Rightarrow> json option" where
  "signature_block e = Option.bind (rg_signature_payload e) (\<lambda>p. json_get p ''ed25519'')"

definition expected_hash :: "registry_entry \<Rightarrow> string option" where
  "expected_hash e = option_filter (\<lambda>s. s \<noteq> []) (map_option trim (rg_entry_point_sha256 e))"

text \<open>The message the hub signed for an entry, with the archive when the entry binds one.\<close>

definition signed_message :: "seal_lib \<Rightarrow> registry_entry \<Rightarrow> string \<Rightarrow> string \<Rightarrow> bool" where
  "signed_message sl e expected msg \<longleftrightarrow>
     (case archive_binding e of
        BindingBound sha n \<Rightarrow> msg = sl_message_v2 sl (rg_id e) (rg_version e) expected sha n
      | BindingAbsent \<Rightarrow> msg = sl_message sl (rg_id e) (rg_version e) expected
      | BindingMalformed \<Rightarrow> False)"

definition signature_parts :: "seal_lib \<Rightarrow> registry_entry \<Rightarrow> string \<Rightarrow> string \<Rightarrow> bool" where
  "signature_parts sl e sig kid \<longleftrightarrow>
     (\<exists>block. signature_block e = Some block
        \<and> Option.bind (json_get block ''sig'') json_as_str = Some sig
        \<and> Option.bind (json_get block ''key_id'') json_as_str = Some kid)
     \<and> sl_signature_ok sl sig \<and> sl_key_id_ok sl kid"

lemma check_entry_signature_Verified:
  assumes "signature_block e = Some block"
  shows "check_entry_signature sl e expected hub_key block = Ok Verified \<longleftrightarrow>
    (\<exists>sig kid pk msg. signature_parts sl e sig kid \<and> hub_key = Some pk \<and> signed_message sl e expected msg
       \<and> sl_verify sl pk kid msg sig)"
  using assms
  by (auto simp: check_entry_signature_def signature_parts_def signed_message_def split: option.splits if_splits ArchiveBinding.splits)

lemma check_entry_signature_Tamper:
  assumes "signature_block e = Some block"
  shows "(\<exists>r. check_entry_signature sl e expected hub_key block = Err r) \<longleftrightarrow>
    (\<exists>sig kid pk msg. signature_parts sl e sig kid \<and> hub_key = Some pk \<and> signed_message sl e expected msg
       \<and> \<not> sl_verify sl pk kid msg sig)"
  using assms
  by (auto simp: check_entry_signature_def signature_parts_def signed_message_def split: option.splits if_splits ArchiveBinding.splits)

lemma no_block_no_parts: "signature_block e = None \<Longrightarrow> \<not> signature_parts sl e sig kid"
  by (simp add: signature_parts_def)

lemma verdict_cases:
  "install_seal_verdict sl e installed_sha hub_key =
     (case expected_hash e of
        None \<Rightarrow> Ok (Unsealed NoEntryPointHash)
      | Some expected \<Rightarrow>
          (case installed_sha of
             Inl err \<Rightarrow> Err (CannotRead err)
           | Inr actual \<Rightarrow>
               if \<not> eq_ignore_ascii_case actual expected then Err (integrity_mismatch e expected actual)
               else (case signature_block e of
                       None \<Rightarrow> Ok (Unsealed NoSignature)
                     | Some block \<Rightarrow> check_entry_signature sl e expected hub_key block)))"
  by (simp only: install_seal_verdict_def expected_hash_def signature_block_def)

lemma install_verdict_exact:
  "(install_seal_verdict sl e (Ok actual) hub_key = Ok Verified \<longleftrightarrow>
      (\<exists>expected sig kid pk msg. expected_hash e = Some expected \<and> eq_ignore_ascii_case actual expected
         \<and> signature_parts sl e sig kid \<and> hub_key = Some pk \<and> signed_message sl e expected msg
         \<and> sl_verify sl pk kid msg sig))
   \<and> (is_ok (install_seal_verdict sl e (Ok actual) hub_key) \<longleftrightarrow>
      \<not> (\<exists>expected. expected_hash e = Some expected \<and>
           (\<not> eq_ignore_ascii_case actual expected
            \<or> (\<exists>sig kid pk msg. signature_parts sl e sig kid \<and> hub_key = Some pk \<and> signed_message sl e expected msg
                 \<and> \<not> sl_verify sl pk kid msg sig))))"
proof (cases "expected_hash e")
  case None
  then show ?thesis by (simp add: verdict_cases)
next
  case (Some expected)
  show ?thesis
  proof (cases "eq_ignore_ascii_case actual expected \<and> signature_block e \<noteq> None")
    case True
    then obtain block where block: "signature_block e = Some block" by auto
    with True Some show ?thesis
      using check_entry_signature_Verified [OF block, of sl expected hub_key] check_entry_signature_Tamper [OF block, of sl expected hub_key]
      by (simp add: verdict_cases) (metis not_is_ok_iff)
  next
    case False
    with Some show ?thesis
      by (auto simp: verdict_cases no_block_no_parts split: option.splits)
  qed
qed

text \<open>C16. The verdict on an install is exact. An entry is verified iff the catalog gives a hash of the
  entry point, the installed file has it, and the hub's key verifies the entry's signature over its id,
  version and that hash, with the archive's digest and length when the entry binds one. And with a
  readable file the install is refused iff the hash differs, or the hub's key is known and refutes a
  well-formed signature: an entry that is only unsigned is never refused.\<close>

theorem install_seal_exact:
  "(install_seal_verdict sl e (Ok actual) hub_key = Ok Verified \<longleftrightarrow>
      (\<exists>expected sig kid pk msg. expected_hash e = Some expected \<and> eq_ignore_ascii_case actual expected
         \<and> signature_parts sl e sig kid \<and> hub_key = Some pk \<and> signed_message sl e expected msg
         \<and> sl_verify sl pk kid msg sig))
   \<and> (is_ok (install_seal_verdict sl e (Ok actual) hub_key) \<longleftrightarrow>
      \<not> (\<exists>expected. expected_hash e = Some expected \<and> \<not> eq_ignore_ascii_case actual expected) \<and>
      \<not> (\<exists>expected sig kid pk msg. expected_hash e = Some expected \<and> signature_parts sl e sig kid \<and> hub_key = Some pk
           \<and> signed_message sl e expected msg \<and> \<not> sl_verify sl pk kid msg sig))"
  using install_verdict_exact [of sl e actual hub_key] by blast

section \<open>Uninstalling\<close>

definition touched_trees :: "uninstall_effect list \<Rightarrow> pathbuf list" where
  "touched_trees effs = List.map_filter (\<lambda>x. case x of TreeRemoved p \<Rightarrow> Some p | RemovalFailed p \<Rightarrow> Some p | _ \<Rightarrow> None) effs"

lemma touched_simps [simp]:
  "touched_trees [] = []" "touched_trees (xs @ ys) = touched_trees xs @ touched_trees ys"
  "touched_trees (TreeRemoved p # xs) = p # touched_trees xs" "touched_trees (RemovalFailed p # xs) = p # touched_trees xs"
  "touched_trees (ReceiptRowRemoved c # xs) = touched_trees xs" "touched_trees (ServerRemoved c # xs) = touched_trees xs"
  "touched_trees (FootprintRemoved c # xs) = touched_trees xs"
  by (simp_all add: touched_trees_def List.map_filter_def)

lemma remove_first_inside:
  assumes "p \<in> set (touched_trees (remove_first disk base cs))"
  shows "touched_trees (remove_first disk base cs) = [p] \<and> contained_in disk base p"
  using assms by (induction cs) (auto simp: Let_def split: if_splits)

lemma uninstall_handler_touches:
  assumes "uninstall_handler within_rate jt disk cached args data_dir server_id = (effs, res)" "p \<in> set (touched_trees effs)"
  shows "touched_trees effs = [p] \<and> contained_in disk (pb_join data_dir ''mcp-servers'') p \<and> \<not> is_bad_server_id server_id"
proof -
  let ?base = "pb_join data_dir ''mcp-servers''"
  let ?cs = "uninstall_candidates cached (install_dir_from_args jt args ?base) server_id"
  from assms have bad: "\<not> is_bad_server_id server_id"
    and effs: "effs = ServerRemoved server_id # remove_first disk ?base ?cs @ [FootprintRemoved (''mcp:'' @ server_id)]"
    by (simp_all add: uninstall_handler_def Let_def split: if_splits)
  from assms(2) have "p \<in> set (touched_trees (remove_first disk ?base ?cs))"
    unfolding effs by simp
  from remove_first_inside [OF this] bad show ?thesis
    unfolding effs by simp
qed

text \<open>C18. An uninstall removes at most one tree, and that tree lies strictly inside the servers root:
  its canonical path starts with the root's and is not the root's, whatever the catalog, the registered
  arguments or the id in the request say. A request whose id has a separator or \<open>..\<close> changes nothing.\<close>

theorem uninstall_removes_inside:
  assumes "uninstall_handler within_rate jt disk cached registered_args data_dir server_id = (effs, res)"
      and "p \<in> set (touched_trees effs)"
  shows "touched_trees effs = [p] \<and> \<not> is_bad_server_id server_id
       \<and> (\<exists>r t. ud_canonical disk (pb_join data_dir ''mcp-servers'') = Some r \<and> ud_canonical disk p = Some t
            \<and> strict_prefix (pb_components r) (pb_components t))"
  using uninstall_handler_touches [OF assms]
  by (auto simp: contained_in_def pb_starts_with_def pb_eq_def strict_prefix_def split: option.splits)

definition sample_market_disk :: uninstall_disk where
  "sample_market_disk =
     \<lparr>ud_is_dir = (\<lambda>p. p \<in> {''/d/mcp-servers'', ''/d/mcp-servers/..'', ''/d/mcp-servers/web''}),
      ud_canonical = (\<lambda>p. if p = ''/d/mcp-servers/..'' then Some ''/d'' else Some p), ud_remove_ok = (\<lambda>p. True)\<rparr>"

definition sample_listing :: registry_entry where
  "sample_listing = \<lparr>rg_id = ''web'', rg_version = ''1'', rg_directory = ''..'', rg_trust_level = ''standard'',
     rg_entry_point_sha256 = None, rg_signature_payload = None, rg_raw_url_sha256 = None\<rparr>"

theorem uninstall_removes_inside_witness:
  "strict_prefix (pb_components ''/d/mcp-servers'') (pb_components ''/d/mcp-servers/web'')"
proof -
  let ?jt = "\<lparr>json_to_string = (\<lambda>_. []), json_from_str = (\<lambda>_. None)\<rparr>"
  let ?run = "uninstall_handler True ?jt sample_market_disk (Some [sample_listing]) None ''/d'' ''web''"
  have "touched_trees (fst ?run) = [''/d/mcp-servers/web'']" by code_simp
  then have p: "''/d/mcp-servers/web'' \<in> set (touched_trees (fst ?run))" by simp
  have u: "?run = (fst ?run, snd ?run)" by simp
  have "pb_join ''/d'' ''mcp-servers'' = ''/d/mcp-servers''" by code_simp
  with uninstall_removes_inside [OF u p] show ?thesis by (simp add: sample_market_disk_def)
qed

end
