(* ===== verification/Panels.thy ===== *)
theory Panels
  imports Launch Footprint Json
begin

text \<open>
  The user interface modules the kernel serves, \<open>handlers/modules.rs\<close>: directories placed by hand and the
  panels installed connectors declare, how one list is made of both, and which file of a module is
  served.

  The disk, the decoder of a \<open>module.json\<close>, the debug rendering of a string and the lists a directory
  gives are parameters. Paths are lists of components, as in \<open>Launch\<close>.
\<close>

section \<open>Manifests\<close>

definition MODULES_DIR :: string where
  "MODULES_DIR = ''modules''"

definition MANIFEST_NAME :: string where
  "MANIFEST_NAME = ''module.json''"

definition default_entry :: string where
  "default_entry = ''index.html''"

record module_manifest =
  mm_id :: "string option"
  mm_name :: string
  mm_description :: string
  mm_version :: string
  mm_entry :: string
  mm_icon :: "string option"
  mm_requires :: "string list"
  mm_writes :: "string list"

record panel_group =
  pg_id :: string
  pg_name :: string
  pg_position :: nat

record discovered =
  dv_id :: string
  dv_connector :: "string option"
  dv_group :: "panel_group option"
  dv_root :: "path option"
  dv_manifest :: "module_manifest option"
  dv_error :: "string option"

definition rejected :: "string \<Rightarrow> string \<Rightarrow> discovered" where
  "rejected i err = \<lparr>dv_id = i, dv_connector = None, dv_group = None, dv_root = None, dv_manifest = None, dv_error = Some err\<rparr>"

record module_entry =
  me_id :: string
  me_manifest :: "module_manifest option"
  me_connector :: "panel_group option"
  me_error :: "string option"

definition into_entry :: "discovered \<Rightarrow> module_entry" where
  "into_entry d = \<lparr>me_id = dv_id d, me_manifest = dv_manifest d, me_connector = dv_group d, me_error = dv_error d\<rparr>"

definition id_char :: "char \<Rightarrow> bool" where
  "id_char c \<longleftrightarrow> (CHR ''0'' \<le> c \<and> c \<le> CHR ''9'') \<or> (CHR ''a'' \<le> c \<and> c \<le> CHR ''z'') \<or> (CHR ''A'' \<le> c \<and> c \<le> CHR ''Z'')
     \<or> c = CHR ''-'' \<or> c = CHR ''_''"

definition is_valid_module_id :: "string \<Rightarrow> bool" where
  "is_valid_module_id i \<longleftrightarrow> i \<noteq> [] \<and> length i \<le> 64 \<and> list_all id_char i"

definition INVALID_ID_MESSAGE :: string where
  "INVALID_ID_MESSAGE = ''not a valid module id (ASCII letters, digits, '' @ [CHR 0x27] @ ''-'' @ [CHR 0x27] @ '' and ''
     @ [CHR 0x27] @ ''_'' @ [CHR 0x27] @ '', at most 64)''"

text \<open>A relative path a caller names, in its components; nothing when it may lead elsewhere.\<close>

fun safe_components :: "path_component list \<Rightarrow> path option" where
  "safe_components [] = Some []"
| "safe_components (Normal s # cs) = (if CHR 0x00 \<in> set s then None else map_option ((#) s) (safe_components cs))"
| "safe_components (CurDir # cs) = safe_components cs"
| "safe_components (ParentDir # cs) = None"
| "safe_components (RootDir # cs) = None"

definition safe_relative_path :: "string \<Rightarrow> path option" where
  "safe_relative_path p =
     (if p = [] then None
      else case safe_components (pb_components p) of
        Some (s # ss) \<Rightarrow> Some (s # ss)
      | _ \<Rightarrow> None)"

section \<open>What is on the disk\<close>

text \<open>An entry of a directory: its name where it is UTF-8, and whether it is a directory.\<close>

record dir_item =
  di_name :: "string option"
  di_is_dir :: bool

record panel_disk =
  pn_list :: "path \<Rightarrow> dir_item list option"
  pn_read :: "path \<Rightarrow> string + string"
  pn_decode :: "string \<Rightarrow> string + module_manifest"
  pn_connectors :: connector_disk
  pn_canonical :: "path \<Rightarrow> path option"
  pn_is_file :: "path \<Rightarrow> bool"
  pn_readable :: "path \<Rightarrow> bool"
  pn_debug :: "string \<Rightarrow> string"
  pn_kernel_version :: string

definition read_module_manifest :: "panel_disk \<Rightarrow> path \<Rightarrow> string \<Rightarrow> string + module_manifest" where
  "read_module_manifest d dir i =
     (case pn_read d (dir @ [MANIFEST_NAME]) of
        Inl e \<Rightarrow> Err (''cannot read '' @ MANIFEST_NAME @ '': '' @ e)
      | Inr raw \<Rightarrow>
          (case pn_decode d raw of
             Inl e \<Rightarrow> Err (''invalid '' @ MANIFEST_NAME @ '': '' @ e)
           | Inr m \<Rightarrow>
               if (case mm_id m of None \<Rightarrow> False | Some declared \<Rightarrow> declared \<noteq> i)
               then Err (''manifest id '' @ pn_debug d (the (mm_id m)) @ '' does not match directory '' @ pn_debug d i)
               else if trim (mm_name m) = [] then Err ''manifest has an empty name''
               else if safe_relative_path (mm_entry m) = None then Err (''entry '' @ pn_debug d (mm_entry m) @ '' escapes the module'')
               else Ok m))"

text \<open>The directories worth a look: those with a readable name that is not hidden.\<close>

definition visible_dirs :: "panel_disk \<Rightarrow> path \<Rightarrow> string list" where
  "visible_dirs d base =
     (case pn_list d base of
        None \<Rightarrow> []
      | Some items \<Rightarrow> filter (\<lambda>n. \<not> starts_with n ''.'') (List.map_filter di_name (filter di_is_dir items)))"

definition placed_module :: "panel_disk \<Rightarrow> path \<Rightarrow> string \<Rightarrow> discovered" where
  "placed_module d base i =
     (if \<not> is_valid_module_id i then rejected i INVALID_ID_MESSAGE
      else case read_module_manifest d (base @ [i]) i of
        Inr m \<Rightarrow>
          if mm_writes m \<noteq> []
          then rejected i ''declares writes, which only a panel shipped by an installed connector may do''
          else \<lparr>dv_id = i, dv_connector = None, dv_group = None, dv_root = Some (base @ [i]), dv_manifest = Some m, dv_error = None\<rparr>
      | Inl e \<Rightarrow> rejected i e)"

definition discover_placed_modules :: "panel_disk \<Rightarrow> path \<Rightarrow> discovered list" where
  "discover_placed_modules d base = map (placed_module d base) (visible_dirs d base)"

section \<open>Declared writes\<close>

definition WRITE_METHODS :: "string list" where
  "WRITE_METHODS = [''POST'', ''PATCH'']"

definition DENIED_WRITE_PREFIXES :: "string list" where
  "DENIED_WRITE_PREFIXES = [''/api/modules'', ''/api/hub-access'']"

definition is_denied :: "string \<Rightarrow> bool" where
  "is_denied p = list_ex (\<lambda>denied. p = denied \<or>
     (case strip_prefix denied p of None \<Rightarrow> False | Some rest \<Rightarrow> starts_with rest ''/'')) DENIED_WRITE_PREFIXES"

definition inexact_chars :: "char list" where
  "inexact_chars = [CHR ''*'', CHR ''?'', CHR ''#'', CHR '' '', CHR 0x5C, CHR ''%'']"

definition parse_write :: "string \<Rightarrow> string + string \<times> string" where
  "parse_write entry =
     (case split_once (CHR '' '') entry of
        None \<Rightarrow> Err (''is not written as '' @ [CHR 0x22] @ ''<METHOD> <path>'' @ [CHR 0x22])
      | Some (meth, p) \<Rightarrow>
          if meth \<notin> set WRITE_METHODS then Err ''uses a method other than POST or PATCH''
          else if \<not> starts_with p ''/api/'' then Err ''is not an /api/ path''
          else if is_denied p then Err ''targets a route no panel may write to''
          else if list_ex (\<lambda>c. c \<in> set inexact_chars) p then Err ''is not one exact path''
          else if list_ex (\<lambda>s. s \<in> {'''', ''.'', ''..''}) (drop 1 (split_on (CHR ''/'') p)) then Err ''is not one exact path''
          else Ok (meth, p))"

fun validate_writes :: "(string \<Rightarrow> string) \<Rightarrow> string list \<Rightarrow> string + unit" where
  "validate_writes dbg [] = Ok ()"
| "validate_writes dbg (w # ws) =
     (case parse_write w of
        Inl why \<Rightarrow> Err (dbg w @ '': '' @ why)
      | Inr _ \<Rightarrow> validate_writes dbg ws)"

section \<open>Panels of connectors\<close>

definition panel_module_id :: "string \<Rightarrow> string \<Rightarrow> string" where
  "panel_module_id connector panel = connector @ ''-'' @ panel"

definition declared_panel :: "panel_disk \<Rightarrow> string \<Rightarrow> string \<Rightarrow> path \<Rightarrow> nat \<times> panel_declaration \<Rightarrow> discovered" where
  "declared_panel d connector connector_name base np =
     (let (position, p) = np; i = panel_module_id connector (pd_id p)
      in if \<not> is_valid_module_id (pd_id p) \<or> \<not> is_valid_module_id i
         then rejected i (''connector '' @ pn_debug d connector @ '' declares panel id '' @ pn_debug d (pd_id p)
                @ '', which does not produce a valid module id ('' @ INVALID_ID_MESSAGE @ '')'')
         else if trim (pd_name p) = []
         then rejected i (''connector '' @ pn_debug d connector @ '' declares a panel with an empty name'')
         else if safe_relative_path (pd_entry p) = None
         then rejected i (''entry '' @ pn_debug d (pd_entry p) @ '' escapes the connector'')
         else case validate_writes (pn_debug d) (pd_writes p) of
           Inl why \<Rightarrow> rejected i (''connector '' @ pn_debug d connector @ '' declares an invalid panel write '' @ why)
         | Inr _ \<Rightarrow>
             \<lparr>dv_id = i, dv_connector = Some connector,
              dv_group = Some \<lparr>pg_id = connector, pg_name = connector_name, pg_position = position\<rparr>,
              dv_root = Some base,
              dv_manifest = Some \<lparr>mm_id = None, mm_name = pd_name p, mm_description = pd_description p, mm_version = pd_version p,
                mm_entry = pd_entry p, mm_icon = pd_icon p, mm_requires = pd_requires p, mm_writes = pd_writes p\<rparr>,
              dv_error = None\<rparr>)"

definition connector_panels_of :: "panel_disk \<Rightarrow> path \<Rightarrow> string \<Rightarrow> discovered list" where
  "connector_panels_of d servers_root connector =
     (case read_panels (pn_connectors d) (pn_kernel_version d) servers_root connector of
        None \<Rightarrow> []
      | Some declared \<Rightarrow>
          (let connector_name = (if trim (cp_name declared) = [] then connector else cp_name declared)
           in map (declared_panel d connector connector_name (cp_root declared)) (enumerate 0 (cp_panels declared))))"

definition discover_connector_panels :: "panel_disk \<Rightarrow> path \<Rightarrow> discovered list" where
  "discover_connector_panels d servers_root = concat (map (connector_panels_of d servers_root) (visible_dirs d servers_root))"

section \<open>One list\<close>

text \<open>An id claimed more than once is listed once, as ambiguous, where it was first seen.\<close>

fun merge_found :: "(string \<Rightarrow> nat) \<Rightarrow> discovered list \<Rightarrow> string list \<Rightarrow> discovered list" where
  "merge_found counts [] emitted = []"
| "merge_found counts (x # xs) emitted =
     (if counts (dv_id x) > 1 then
        (if dv_id x \<in> set emitted then merge_found counts xs emitted
         else rejected (dv_id x) (''more than one source claims this id '' @ [CHR 0xE2, CHR 0x80, CHR 0x94] @ '' nothing is served for it'')
                # merge_found counts xs (dv_id x # emitted))
      else x # merge_found counts xs emitted)"

definition claim_count :: "discovered list \<Rightarrow> string \<Rightarrow> nat" where
  "claim_count found i = length (filter (\<lambda>x. dv_id x = i) found)"

text \<open>\<open>sort_by\<close> is stable, and strings are compared byte by byte.\<close>

definition discover_modules_in :: "panel_disk \<Rightarrow> path \<Rightarrow> path option \<Rightarrow> discovered list" where
  "discover_modules_in d modules_root servers_root =
     (let found = discover_placed_modules d modules_root @
            (case servers_root of None \<Rightarrow> [] | Some r \<Rightarrow> discover_connector_panels d r)
      in sort_key dv_id (merge_found (claim_count found) found []))"

record found_module =
  fm_id :: string
  fm_connector :: "string option"
  fm_root :: path
  fm_manifest :: module_manifest

definition find_module_in :: "panel_disk \<Rightarrow> path \<Rightarrow> path option \<Rightarrow> string \<Rightarrow> found_module option" where
  "find_module_in d modules_root servers_root i =
     Option.bind (find (\<lambda>m. dv_id m = i) (discover_modules_in d modules_root servers_root)) (\<lambda>m.
     Option.bind (dv_root m) (\<lambda>base.
     Option.bind (dv_manifest m) (\<lambda>manifest.
       Some \<lparr>fm_id = dv_id m, fm_connector = dv_connector m, fm_root = base, fm_manifest = manifest\<rparr>)))"

definition list_modules :: "panel_disk \<Rightarrow> path \<Rightarrow> path option \<Rightarrow> module_entry list" where
  "list_modules d modules_root servers_root = map into_entry (discover_modules_in d modules_root servers_root)"

section \<open>Serving a file\<close>

datatype panel_error = PanelNotFound string | PanelInvalid string | PanelInternal string | PanelUnauthorized

definition resolve_asset :: "panel_disk \<Rightarrow> path \<Rightarrow> path \<Rightarrow> panel_error + path" where
  "resolve_asset d module_dir relative =
     (case pn_canonical d module_dir of
        None \<Rightarrow> Err (PanelNotFound ''Module not found'')
      | Some canonical_dir \<Rightarrow>
          (case pn_canonical d (module_dir @ relative) of
             None \<Rightarrow> Err (PanelNotFound ''File not found'')
           | Some canonical \<Rightarrow>
               if \<not> prefix canonical_dir canonical then Err (PanelInvalid ''Access denied'')
               else if \<not> pn_is_file d canonical then Err (PanelNotFound ''File not found'')
               else Ok canonical))"

definition serve_module_asset :: "bool \<Rightarrow> panel_disk \<Rightarrow> path \<Rightarrow> path option \<Rightarrow> string \<Rightarrow> string \<Rightarrow> panel_error + path" where
  "serve_module_asset authorized d modules_root servers_root i p =
     (if \<not> authorized then Err PanelUnauthorized
      else if \<not> is_valid_module_id i then Err (PanelInvalid ''Invalid module id'')
      else case safe_relative_path p of
        None \<Rightarrow> Err (PanelInvalid ''Invalid path'')
      | Some relative \<Rightarrow>
          (case Option.bind (find (\<lambda>m. dv_id m = i) (discover_modules_in d modules_root servers_root)) dv_root of
             None \<Rightarrow> Err (PanelNotFound ''Module not found'')
           | Some module_dir \<Rightarrow>
               and_then (resolve_asset d module_dir relative) (\<lambda>canonical.
                 if pn_readable d canonical then Ok canonical else Err (PanelNotFound ''File not found''))))"

end
