(* ===== verification/Panel_Writes.thy ===== *)
theory Panel_Writes
  imports Panels Tree_Seal Mgp Audit_Log
begin

text \<open>
  The gate of panel writes, \<open>handlers/panel_writes.rs\<close>, and its tables, \<open>db/panels.rs\<close>: who may write,
  the operator's consent, and the relay of one write through the kernel's own router.

  The trust names, the text of a JSON value, SHA-256, the decoder of a request and the router are
  parameters; the seal is \<open>Tree_Seal\<close>'s over the tree the disk has. Times are milliseconds. What a
  statement of the database fails with is an argument.
\<close>

section \<open>Receipts and consents\<close>

record receipt_row =
  rr_connector_dir :: string
  rr_trust_level :: string
  rr_seal :: "string option"
  rr_version :: string
  rr_installed_at :: string
  rr_archive_sha256 :: "string option"

record write_consent =
  wc_panel_id :: string
  wc_writes_digest :: string
  wc_connector_version :: string
  wc_granted_at :: string
  wc_granted_by :: string

text \<open>The two tables, each keyed by its first column.\<close>

record panel_tables =
  pt_receipts :: "(string, receipt_row) hmap"
  pt_consents :: "(string, write_consent) hmap"

definition upsert_install_receipt ::
  "fault \<Rightarrow> string \<Rightarrow> string \<Rightarrow> string \<Rightarrow> string option \<Rightarrow> string \<Rightarrow> string option \<Rightarrow> panel_tables \<Rightarrow> panel_tables \<times> (db_error + unit)" where
  "upsert_install_receipt f now dir trust seal version archive t =
     (case f of
        Some e \<Rightarrow> (t, Err e)
      | None \<Rightarrow> (t\<lparr>pt_receipts := hm_insert dir \<lparr>rr_connector_dir = dir, rr_trust_level = trust, rr_seal = seal,
                   rr_version = version, rr_installed_at = now, rr_archive_sha256 = archive\<rparr> (pt_receipts t)\<rparr>, Ok ()))"

definition get_install_receipt :: "fault \<Rightarrow> string \<Rightarrow> panel_tables \<Rightarrow> db_error + receipt_row option" where
  "get_install_receipt f dir t = (case f of Some e \<Rightarrow> Err e | None \<Rightarrow> Ok (hm_get (pt_receipts t) dir))"

definition list_install_receipts :: "fault \<Rightarrow> panel_tables \<Rightarrow> db_error + receipt_row list" where
  "list_install_receipts f t = (case f of Some e \<Rightarrow> Err e | None \<Rightarrow> Ok (map snd (pt_receipts t)))"

definition delete_install_receipt :: "fault \<Rightarrow> string \<Rightarrow> panel_tables \<Rightarrow> panel_tables \<times> (db_error + unit)" where
  "delete_install_receipt f dir t =
     (case f of Some e \<Rightarrow> (t, Err e) | None \<Rightarrow> (t\<lparr>pt_receipts := hm_remove dir (pt_receipts t)\<rparr>, Ok ()))"

definition put_panel_write_consent ::
  "fault \<Rightarrow> string \<Rightarrow> string \<Rightarrow> string \<Rightarrow> string \<Rightarrow> string \<Rightarrow> panel_tables \<Rightarrow> panel_tables \<times> (db_error + unit)" where
  "put_panel_write_consent f now panel digest version granted_by t =
     (case f of
        Some e \<Rightarrow> (t, Err e)
      | None \<Rightarrow> (t\<lparr>pt_consents := hm_insert panel \<lparr>wc_panel_id = panel, wc_writes_digest = digest,
                   wc_connector_version = version, wc_granted_at = now, wc_granted_by = granted_by\<rparr> (pt_consents t)\<rparr>, Ok ()))"

definition get_panel_write_consent :: "fault \<Rightarrow> string \<Rightarrow> panel_tables \<Rightarrow> db_error + write_consent option" where
  "get_panel_write_consent f panel t = (case f of Some e \<Rightarrow> Err e | None \<Rightarrow> Ok (hm_get (pt_consents t) panel))"

definition delete_panel_write_consent :: "fault \<Rightarrow> string \<Rightarrow> panel_tables \<Rightarrow> panel_tables \<times> (db_error + bool)" where
  "delete_panel_write_consent f panel t =
     (case f of
        Some e \<Rightarrow> (t, Err e)
      | None \<Rightarrow> (t\<lparr>pt_consents := hm_remove panel (pt_consents t)\<rparr>, Ok (hm_get (pt_consents t) panel \<noteq> None)))"

section \<open>The rate cap\<close>

definition MAX_WRITE_BODY_BYTES :: nat where
  "MAX_WRITE_BODY_BYTES = 64 * 1024"

definition WRITES_PER_WINDOW :: nat where
  "WRITES_PER_WINDOW = 30"

definition RATE_WINDOW :: nat where
  "RATE_WINDOW = 60000"

type_synonym write_times = "(string, nat list) hmap"

text \<open>\<open>Instant::duration_since\<close> saturates at zero.\<close>

definition admit :: "write_times \<Rightarrow> string \<Rightarrow> nat \<Rightarrow> write_times \<times> bool" where
  "admit recent panel now =
     (let times = dropWhile (\<lambda>t. now - t \<ge> RATE_WINDOW) (unwrap_or (hm_get recent panel) [])
      in if length times \<ge> WRITES_PER_WINDOW then (hm_insert panel times recent, False)
         else (hm_insert panel (times @ [now]) recent, True))"

section \<open>Declarations\<close>

text \<open>\<open>sort_unstable\<close> and \<open>dedup\<close>: strings are compared byte by byte.\<close>

definition writes_text :: "string list \<Rightarrow> string" where
  "writes_text writes = join_with [CHR 0x0A] (remdups_adj (sort writes))"

definition writes_digest :: "(string \<Rightarrow> string) \<Rightarrow> string list \<Rightarrow> string" where
  "writes_digest sha writes = sha (writes_text writes)"

section \<open>Eligibility\<close>

definition MINIMUM_TRUST :: TrustLevel where
  "MINIMUM_TRUST = Standard"

record gate_lib =
  gl_trust :: "string \<Rightarrow> TrustLevel"
  gl_trust_name :: "TrustLevel \<Rightarrow> string"
  gl_sha :: "string \<Rightarrow> string"
  gl_seal :: seal_crypto
  gl_json :: json_text

text \<open>What the gate reads: the modules, the installed trees by their root, the seal key.\<close>

record gate_world =
  gw_disk :: panel_disk
  gw_tree :: "path \<Rightarrow> fs_node"
  gw_shown :: "path \<Rightarrow> string"
  gw_seal_key :: "string + string"
  gw_modules_root :: path
  gw_servers_root :: path

record eligible =
  el_trust_level :: TrustLevel
  el_connector_version :: string

definition evaluate_eligibility ::
  "gate_lib \<Rightarrow> gate_world \<Rightarrow> fault \<Rightarrow> panel_tables \<Rightarrow> found_module \<Rightarrow> string + eligible" where
  "evaluate_eligibility gl w f t m =
     (case fm_connector m of
        None \<Rightarrow> Err ''it was placed by hand, not installed with a connector''
      | Some connector \<Rightarrow>
          if mm_writes (fm_manifest m) = [] then Err ''it declares no writes''
          else (case get_install_receipt f connector t of
            Inl _ \<Rightarrow> Err ''its install record could not be read''
          | Inr None \<Rightarrow> Err ''its connector has no install record; reinstall it from the marketplace''
          | Inr (Some receipt) \<Rightarrow>
              (let trust = gl_trust gl (rr_trust_level receipt)
               in if trust < MINIMUM_TRUST
                  then Err (''its connector'' @ [CHR 0x27] @ ''s trust level is '' @ gl_trust_name gl trust @ '' and writing needs ''
                         @ gl_trust_name gl MINIMUM_TRUST @ '' or above'')
                  else (case option_filter is_tree_seal (rr_seal receipt) of
                    None \<Rightarrow> Err ''its connector was installed without a seal''
                  | Some seal \<Rightarrow>
                      (let install_root = path_join (gw_servers_root w) connector
                       in case (pn_canonical (gw_disk w) install_root, pn_canonical (gw_disk w) (fm_root m)) of
                            (Some canonical_install, Some canonical_panel) \<Rightarrow>
                              if \<not> prefix canonical_install canonical_panel
                              then Err ''it is not served from the tree its install record describes''
                              else (case gw_seal_key w of
                                Inl _ \<Rightarrow> Err ''its seal could not be checked''
                              | Inr key \<Rightarrow>
                                  (case verify_tree_seal (gl_seal gl) (gw_shown w install_root) (gw_tree w install_root) seal key of
                                     Inr True \<Rightarrow> Ok \<lparr>el_trust_level = trust, el_connector_version = rr_version receipt\<rparr>
                                   | Inr False \<Rightarrow> Err ''its files no longer match the seal recorded at install''
                                   | Inl _ \<Rightarrow> Err ''its seal could not be checked''))
                          | _ \<Rightarrow> Err ''its files could not be located'')))))"

definition consent_holds :: "write_consent \<Rightarrow> string \<Rightarrow> string \<Rightarrow> bool" where
  "consent_holds c digest version \<longleftrightarrow> wc_writes_digest c = digest \<and> wc_connector_version c = version"

definition find_panel :: "gate_world \<Rightarrow> string \<Rightarrow> found_module option" where
  "find_panel w i = find_module_in (gw_disk w) (gw_modules_root w) (Some (gw_servers_root w)) i"

section \<open>Audit rows and refusals\<close>

definition OPERATOR :: string where
  "OPERATOR = ''operator''"

definition panel_audit :: "instant \<Rightarrow> string \<Rightarrow> string \<Rightarrow> string \<Rightarrow> string \<Rightarrow> json \<Rightarrow> audit_entry" where
  "panel_audit now event panel result reason metadata =
     \<lparr>ae_timestamp = now, ae_event_type = event, ae_actor_id = Some OPERATOR, ae_target_id = Some panel, ae_permission = None,
      ae_result = result, ae_reason = reason, ae_metadata = Some metadata, ae_trace_id = None\<rparr>"

text \<open>A response: 403 with a reason, what the router answered, or the data of the handler's own answer.\<close>

datatype panel_response = Forbidden string | Routed nat | PanelData json

datatype panel_effect = Audited audit_entry | Dispatched string string string

definition deny :: "instant \<Rightarrow> string \<Rightarrow> string \<Rightarrow> json \<Rightarrow> panel_effect list \<times> (panel_error + panel_response)" where
  "deny now panel reason metadata =
     ([Audited (panel_audit now ''PANEL_WRITE_DENIED'' panel ''denied'' reason metadata)],
      Ok (Forbidden (''This panel cannot write: '' @ reason)))"

section \<open>Consent\<close>

record write_access =
  wa_panel_id :: string
  wa_writes :: "string list"
  wa_eligible :: bool
  wa_reason :: "string option"
  wa_trust_level :: "string option"
  wa_consent :: "(string \<times> bool) option"

definition get_write_access ::
  "bool \<Rightarrow> gate_lib \<Rightarrow> gate_world \<Rightarrow> fault \<Rightarrow> fault \<Rightarrow> panel_tables \<Rightarrow> string \<Rightarrow> panel_error + write_access" where
  "get_write_access authorized gl w f1 f2 t i =
     (if \<not> authorized then Err PanelUnauthorized
      else case find_panel w i of
        None \<Rightarrow> Err (PanelNotFound ''Module not found'')
      | Some m \<Rightarrow>
          (let eligibility = evaluate_eligibility gl w f1 t m; digest = writes_digest (gl_sha gl) (mm_writes (fm_manifest m))
           in case get_panel_write_consent f2 i t of
                Inl e \<Rightarrow> Err (PanelInternal e)
              | Inr consent \<Rightarrow>
                  Ok \<lparr>wa_panel_id = i, wa_writes = mm_writes (fm_manifest m), wa_eligible = is_ok eligibility,
                      wa_reason = (case eligibility of Inl why \<Rightarrow> Some why | Inr _ \<Rightarrow> None),
                      wa_trust_level = (case eligibility of Inl _ \<Rightarrow> None | Inr e \<Rightarrow> Some (gl_trust_name gl (el_trust_level e))),
                      wa_consent = map_option (\<lambda>c. (wc_granted_at c,
                        (case eligibility of Inl _ \<Rightarrow> False | Inr e \<Rightarrow> consent_holds c digest (el_connector_version e)))) consent\<rparr>))"

definition CONSENT_NOTE_MAX_CHARS :: nat where
  "CONSENT_NOTE_MAX_CHARS = 200"

text \<open>
  \<open>decode\<close> is the decoder of the consent request, its note where there is one; counting the characters
  of a text and telling control characters are Unicode's.
\<close>

record note_lib =
  nl_decode :: "string \<Rightarrow> string + string option"
  nl_chars :: "string \<Rightarrow> nat"
  nl_has_control :: "string \<Rightarrow> bool"

definition ascii_whitespace :: "char \<Rightarrow> bool" where
  "ascii_whitespace c \<longleftrightarrow> c \<in> {CHR '' '', CHR 0x09, CHR 0x0A, CHR 0x0C, CHR 0x0D}"

definition consent_note :: "note_lib \<Rightarrow> string \<Rightarrow> panel_error + string option" where
  "consent_note nl body =
     (if list_all ascii_whitespace body then Ok None
      else case nl_decode nl body of
        Inl e \<Rightarrow> Err (PanelInvalid (''invalid consent request: '' @ e))
      | Inr None \<Rightarrow> Ok None
      | Inr (Some raw) \<Rightarrow>
          (let note = trim raw
           in if note = [] then Ok None
              else if nl_chars nl note > CONSENT_NOTE_MAX_CHARS
              then Err (PanelInvalid (''a consent note is at most '' @ show_nat CONSENT_NOTE_MAX_CHARS @ '' characters''))
              else if nl_has_control nl note then Err (PanelInvalid ''a consent note is one line of text'')
              else Ok (Some note)))"

definition put_write_consent ::
  "bool \<Rightarrow> gate_lib \<Rightarrow> note_lib \<Rightarrow> gate_world \<Rightarrow> fault \<Rightarrow> fault \<Rightarrow> instant \<Rightarrow> string \<Rightarrow> string \<Rightarrow> string \<Rightarrow> panel_tables
   \<Rightarrow> panel_tables \<times> panel_effect list \<times> (panel_error + panel_response)" where
  "put_write_consent authorized gl nl w f1 f2 now stamp i body t =
     (if \<not> authorized then (t, [], Err PanelUnauthorized)
      else case consent_note nl body of
        Inl e \<Rightarrow> (t, [], Err e)
      | Inr note \<Rightarrow>
          (case find_panel w i of
             None \<Rightarrow> (t, [], Err (PanelNotFound ''Module not found''))
           | Some m \<Rightarrow>
               (case evaluate_eligibility gl w f1 t m of
                  Inl why \<Rightarrow> (t, [], Ok (Forbidden (''This panel cannot write: '' @ why)))
                | Inr e \<Rightarrow>
                    (let writes = mm_writes (fm_manifest m); digest = writes_digest (gl_sha gl) writes;
                         (t', res) = put_panel_write_consent f2 stamp i digest (el_connector_version e) OPERATOR t
                     in case res of
                          Inl err \<Rightarrow> (t', [], Err (PanelInternal err))
                        | Inr _ \<Rightarrow>
                            (t', [Audited (panel_audit now ''PANEL_WRITE_CONSENT_GRANTED'' i ''granted''
                                (case note of
                                   Some n \<Rightarrow> ''operator consented to the declared writes ('' @ n @ '')''
                                 | None \<Rightarrow> ''operator consented to the declared writes'')
                                (json_object [(''writes'', JArr (map JStr writes)), (''writes_digest'', JStr digest),
                                       (''connector_version'', JStr (el_connector_version e)),
                                       (''trust_level'', JStr (gl_trust_name gl (el_trust_level e))),
                                       (''note'', (case note of Some n \<Rightarrow> JStr n | None \<Rightarrow> JNull))]))],
                             Ok (PanelData (json_object [(''panel_id'', JStr i), (''consented'', JBool True)])))))))"

definition delete_write_consent ::
  "bool \<Rightarrow> fault \<Rightarrow> instant \<Rightarrow> string \<Rightarrow> panel_tables \<Rightarrow> panel_tables \<times> panel_effect list \<times> (panel_error + panel_response)" where
  "delete_write_consent authorized f now i t =
     (if \<not> authorized then (t, [], Err PanelUnauthorized)
      else let (t', res) = delete_panel_write_consent f i t
      in case res of
           Inl e \<Rightarrow> (t', [], Err (PanelInternal e))
         | Inr False \<Rightarrow> (t', [], Err (PanelNotFound ''No consent recorded for this panel''))
         | Inr True \<Rightarrow>
             (t', [Audited (panel_audit now ''PANEL_WRITE_CONSENT_REVOKED'' i ''revoked'' ''operator revoked the consent'' (json_object []))],
              Ok (PanelData (json_object [(''panel_id'', JStr i), (''consented'', JBool False)]))))"

section \<open>The relay\<close>

record write_request =
  wq_method :: string
  wq_path :: string
  wq_body :: "json option"

definition asked_json :: "write_request \<Rightarrow> json" where
  "asked_json q = json_object [(''method'', JStr (wq_method q)), (''path'', JStr (wq_path q))]"

definition admitted_json :: "gate_lib \<Rightarrow> write_request \<Rightarrow> eligible \<Rightarrow> string \<Rightarrow> (string \<times> json) list" where
  "admitted_json gl q e digest =
     [(''method'', JStr (wq_method q)), (''path'', JStr (wq_path q)), (''trust_level'', JStr (gl_trust_name gl (el_trust_level e))),
      (''seal_verified'', JBool True), (''writes_digest'', JStr digest)]"

definition relay_body :: "gate_lib \<Rightarrow> write_request \<Rightarrow> string" where
  "relay_body gl q = (case wq_body q of None \<Rightarrow> [] | Some v \<Rightarrow> json_to_string (gl_json gl) v)"

record relay_input =
  ri_authorized :: bool
  ri_request :: "string + write_request"
  ri_receipt_fault :: fault
  ri_consent_fault :: fault
  ri_router :: "(string \<Rightarrow> string \<Rightarrow> string \<Rightarrow> nat) option"
  ri_now :: instant
  ri_millis :: nat

definition relay_write ::
  "gate_lib \<Rightarrow> gate_world \<Rightarrow> relay_input \<Rightarrow> string \<Rightarrow> panel_tables \<Rightarrow> write_times
   \<Rightarrow> write_times \<times> panel_effect list \<times> (panel_error + panel_response)" where
  "relay_write gl w ri i t recent =
     (if \<not> ri_authorized ri then (recent, [], Err PanelUnauthorized)
      else case ri_request ri of
        Inl e \<Rightarrow> (recent, [], Err (PanelInvalid (''invalid write request: '' @ e)))
      | Inr q \<Rightarrow>
          (case find_panel w i of
             None \<Rightarrow> (recent, deny (ri_now ri) i ''it is not an installed panel'' (asked_json q))
           | Some m \<Rightarrow>
               (case evaluate_eligibility gl w (ri_receipt_fault ri) t m of
                  Inl why \<Rightarrow> (recent, deny (ri_now ri) i why (asked_json q))
                | Inr e \<Rightarrow>
                    (let digest = writes_digest (gl_sha gl) (mm_writes (fm_manifest m));
                         fields = admitted_json gl q e digest;
                         refuse = (\<lambda>reason. deny (ri_now ri) i reason (json_object fields));
                         entry = wq_method q @ '' '' @ wq_path q
                     in if entry \<notin> set (mm_writes (fm_manifest m))
                        then (recent, refuse (entry @ '' is not one of the writes it declares''))
                        else (case get_panel_write_consent (ri_consent_fault ri) i t of
                          Inl err \<Rightarrow> (recent, [], Err (PanelInternal err))
                        | Inr None \<Rightarrow> (recent, refuse ''the operator has not consented to its writes'')
                        | Inr (Some c) \<Rightarrow>
                            if \<not> consent_holds c digest (el_connector_version e)
                            then (recent, refuse ''its declared writes or its version changed since the consent was given'')
                            else if length (relay_body gl q) > MAX_WRITE_BODY_BYTES
                            then (recent, refuse (''the request body is larger than '' @ show_nat MAX_WRITE_BODY_BYTES @ '' bytes''))
                            else (case admit recent i (ri_millis ri) of
                              (recent', False) \<Rightarrow>
                                (recent', refuse (''it made more than '' @ show_nat WRITES_PER_WINDOW @ '' writes in the last minute''))
                            | (recent', True) \<Rightarrow>
                                (case ri_router ri of
                                   None \<Rightarrow> (recent', [], Err (PanelInternal ''panel write relay has no router''))
                                 | Some route \<Rightarrow>
                                     (let status = route (wq_method q) (wq_path q) (relay_body gl q)
                                      in (recent',
                                          [Dispatched (wq_method q) (wq_path q) (relay_body gl q),
                                           Audited (panel_audit (ri_now ri) ''PANEL_WRITE'' i
                                             (if 200 \<le> status \<and> status < 300 then ''success'' else ''failure'')
                                             (entry @ '' returned '' @ show_nat status)
                                             (json_object (fields @ [(''status'', JNum (PosInt status))])))],
                                          Ok (Routed status))))))))))"

end
