(* ===== verification/Panel_Laws.thy ===== *)
theory Panel_Laws
  imports Panel_Writes
begin

text \<open>
  What the gate of panel writes promises: a write is relayed only for a sealed panel of a trusted
  connector, through a route it declared and the operator consented to; a consent is to a set of writes;
  no panel exceeds its cap in any window; and a file is served for an id only one source claims.
\<close>

section \<open>Strings with one separator\<close>

lemma one_separator:
  "a @ x # b = c @ x # d \<Longrightarrow> x \<notin> set a \<Longrightarrow> x \<notin> set b \<Longrightarrow> a = c \<and> b = d"
  by (metis append_Cons_eq_iff)

lemma last_separator:
  fixes x :: char
  assumes "a @ x # b = c @ x # d" "x \<notin> set b" "x \<notin> set d"
  shows "a = c \<and> b = d"
proof -
  have "rev b @ x # rev a = rev d @ x # rev c"
    using arg_cong [OF assms(1), of rev] by simp
  moreover have "split_once x (rev b @ x # rev a) = Some (rev b, rev a)"
    by (rule split_once_append) (simp add: assms(2))
  moreover have "split_once x (rev d @ x # rev c) = Some (rev d, rev c)"
    by (rule split_once_append) (simp add: assms(3))
  ultimately show ?thesis by (metis option.inject prod.inject rev_rev_ident)
qed

section \<open>Declared routes\<close>

lemma method_plain: "m \<in> set WRITE_METHODS \<Longrightarrow> CHR '' '' \<notin> set m \<and> CHR 0x0A \<notin> set m"
  by (auto simp: WRITE_METHODS_def)

text \<open>A route a panel may declare.\<close>

definition plain_route :: "string \<Rightarrow> string \<Rightarrow> bool" where
  "plain_route m p \<longleftrightarrow> m \<in> {''POST'', ''PATCH''} \<and> starts_with p ''/api/''
     \<and> (\<forall>denied \<in> {''/api/modules'', ''/api/hub-access''}. p \<noteq> denied \<and> \<not> starts_with p (denied @ ''/''))
     \<and> set p \<inter> set inexact_chars = {}
     \<and> (\<forall>s \<in> set (drop 1 (split_on (CHR ''/'') p)). s \<notin> {'''', ''.'', ''..''})"

lemma below_prefix:
  "(case strip_prefix d p of None \<Rightarrow> False | Some rest \<Rightarrow> starts_with rest ''/'') \<longleftrightarrow> starts_with p (d @ ''/'')"
proof (cases "strip_prefix d p")
  case None
  then show ?thesis by (simp add: starts_with_iff) (simp add: strip_prefix_None_iff)
next
  case (Some rest)
  then have "p = d @ rest" by (simp add: strip_prefix_Some_iff)
  with Some show ?thesis by (simp add: starts_with_iff)
qed

lemma is_denied_iff: "is_denied p \<longleftrightarrow> (\<exists>d \<in> set DENIED_WRITE_PREFIXES. p = d \<or> starts_with p (d @ ''/''))"
  by (simp only: is_denied_def list_ex_iff below_prefix)

lemma parse_write_split:
  assumes "split_once (CHR '' '') w = Some (m, p)"
  shows "parse_write w = Ok (m', p') \<longleftrightarrow> m' = m \<and> p' = p \<and> plain_route m p"
  by (auto simp: parse_write_def assms plain_route_def is_denied_iff DENIED_WRITE_PREFIXES_def WRITE_METHODS_def list_ex_iff
      simp del: starts_with_iff)

lemma parse_write_Ok: "parse_write w = Ok (m, p) \<longleftrightarrow> w = m @ '' '' @ p \<and> plain_route m p"
proof
  assume ok: "parse_write w = Ok (m, p)"
  then obtain m' p' where split: "split_once (CHR '' '') w = Some (m', p')"
    by (auto simp: parse_write_def split: option.splits)
  then show "w = m @ '' '' @ p \<and> plain_route m p"
    using ok [unfolded parse_write_split [OF split]] split [unfolded split_once_Some_iff] by simp
next
  assume w: "w = m @ '' '' @ p \<and> plain_route m p"
  then have "CHR '' '' \<notin> set m" by (auto simp: plain_route_def)
  then have "split_once (CHR '' '') w = Some (m, p)" using w by (simp add: split_once_append)
  from parse_write_split [OF this] w show "parse_write w = Ok (m, p)" by simp
qed

lemma parse_write_cases: "is_ok (parse_write w) \<longleftrightarrow> (\<exists>m p. w = m @ '' '' @ p \<and> plain_route m p)"
  using parse_write_Ok by (metis is_ok_iff surj_pair)

lemma validate_writes_Cons: "validate_writes dbg (w # ws) = Ok u \<longleftrightarrow> is_ok (parse_write w) \<and> validate_writes dbg ws = Ok u"
  by (cases "parse_write w") auto

lemma validate_writes_Ok: "validate_writes dbg ws = Ok u \<longleftrightarrow> (\<forall>w \<in> set ws. \<exists>m p. w = m @ '' '' @ p \<and> plain_route m p)"
proof (induction ws)
  case (Cons w ws)
  then show ?case
    by (simp only: validate_writes_Cons parse_write_cases list.set ball_simps)
qed simp

lemma plain_route_no_space:
  assumes "plain_route m p"
  shows "CHR '' '' \<notin> set m \<and> CHR '' '' \<notin> set p"
proof
  note route = assms
  have "CHR '' '' \<in> set inexact_chars" by (simp add: inexact_chars_def)
  with route show "CHR '' '' \<notin> set p" unfolding plain_route_def by blast
  show "CHR '' '' \<notin> set m" using route by (auto simp: plain_route_def)
qed

lemma declared_route:
  assumes "validate_writes dbg ws = Ok u" "m @ '' '' @ p \<in> set ws"
  shows "plain_route m p"
proof -
  obtain m' p' where mp: "m @ '' '' @ p = m' @ '' '' @ p'" "plain_route m' p'"
    using assms(2) assms(1) [unfolded validate_writes_Ok] by blast
  then have "m' = m \<and> p' = p"
    using plain_route_no_space [OF mp(2)] by (intro one_separator [of m' "CHR '' ''" p' m p]) simp_all
  with mp show ?thesis by simp
qed

section \<open>What a consent is to\<close>

lemma join_snoc: "join_with s (xs @ [x]) = (if xs = [] then x else join_with s xs @ s @ x)"
  by (induction s xs rule: join_with.induct) auto

lemma join_writes_inj:
  "\<forall>w \<in> set ws \<union> set vs. \<exists>m p. w = m @ '' '' @ p \<and> plain_route m p \<Longrightarrow>
   join_with [CHR 0x0A] ws = join_with [CHR 0x0A] vs \<Longrightarrow> ws = vs"
proof (induction ws arbitrary: vs rule: rev_induct)
  case Nil
  then show ?case
    by (cases vs rule: rev_cases) (auto simp: join_snoc split: if_splits)
next
  case (snoc w ws)
  note ih = snoc.IH and ok = snoc.prems(1) and eq = snoc.prems(2)
  obtain m p where w: "w = m @ '' '' @ p" "plain_route m p" using ok by auto
  show ?case
  proof (cases vs rule: rev_cases)
    case Nil
    with eq w show ?thesis by (simp add: join_snoc split: if_splits)
  next
    case (snoc vs' v)
    obtain n q where v: "v = n @ '' '' @ q" "plain_route n q" using ok snoc by auto
    let ?l = "if ws = [] then m else join_with [CHR 0x0A] ws @ CHR 0x0A # m"
    let ?r = "if vs' = [] then n else join_with [CHR 0x0A] vs' @ CHR 0x0A # n"
    have "?l @ CHR '' '' # p = ?r @ CHR '' '' # q"
      using eq w(1) v(1) snoc by (simp add: join_snoc split: if_splits)
    then have heads: "?l = ?r" "p = q"
      using last_separator [of ?l "CHR '' ''" p ?r q] plain_route_no_space [OF w(2)] plain_route_no_space [OF v(2)] by blast+
    have nl: "CHR 0x0A \<notin> set m" "CHR 0x0A \<notin> set n"
      using w(2) v(2) by (auto simp: plain_route_def)
    have split: "ws = [] \<longleftrightarrow> vs' = []"
      using heads(1) nl by (auto split: if_splits)
    have "m = n \<and> (ws \<noteq> [] \<longrightarrow> join_with [CHR 0x0A] ws = join_with [CHR 0x0A] vs')"
      using heads(1) split last_separator [of "join_with [CHR 0x0A] ws" "CHR 0x0A" m "join_with [CHR 0x0A] vs'" n] nl
      by (auto split: if_splits)
    moreover have "\<forall>w \<in> set ws \<union> set vs'. \<exists>m p. w = m @ '' '' @ p \<and> plain_route m p"
      using ok snoc by auto
    ultimately show ?thesis
      using ih split snoc heads(2) w(1) v(1) by (cases "ws = []") auto
  qed
qed

lemma distinct_remdups_adj_sorted: "sorted xs \<Longrightarrow> distinct (remdups_adj xs)"
  by (induction xs rule: remdups_adj.induct) (auto simp: le_less)

lemma writes_text_set:
  assumes "validate_writes dbg ws = Ok u" "validate_writes dbg' vs = Ok u'"
  shows "writes_text ws = writes_text vs \<longleftrightarrow> set ws = set vs"
proof
  assume "writes_text ws = writes_text vs"
  then have "remdups_adj (sort ws) = remdups_adj (sort vs)"
    unfolding writes_text_def
    using assms by (intro join_writes_inj) (auto simp: validate_writes_Ok)
  then show "set ws = set vs" by (metis remdups_adj_set set_sort)
next
  assume "set ws = set vs"
  then have "remdups_adj (sort ws) = remdups_adj (sort vs)"
    by (intro sorted_distinct_set_unique) (simp_all add: distinct_remdups_adj_sorted)
  then show "writes_text ws = writes_text vs" by (simp add: writes_text_def)
qed

text \<open>The digest a consent is kept under stands for the set of declared writes, and nothing else: for
  lists that pass the validation, with a hash that tells their two texts apart, the digests agree exactly
  when the same writes are declared, in whatever order and however often.\<close>

theorem consent_binds_writes:
  assumes "validate_writes dbg ws = Ok u" "validate_writes dbg' vs = Ok u'"
      and "inj_on sha {writes_text ws, writes_text vs}"
  shows "writes_digest sha ws = writes_digest sha vs \<longleftrightarrow> set ws = set vs"
proof -
  have "writes_digest sha ws = writes_digest sha vs \<longleftrightarrow> writes_text ws = writes_text vs"
    unfolding writes_digest_def by (rule inj_on_eq_iff [OF assms(3)]) simp_all
  then show ?thesis using writes_text_set [OF assms(1,2)] by simp
qed

theorem consent_binds_writes_witness:
  "writes_digest (\<lambda>s. s) [''POST /api/b'', ''PATCH /api/a'', ''POST /api/b''] = writes_digest (\<lambda>s. s) [''PATCH /api/a'', ''POST /api/b'']"
proof -
  have v: "validate_writes (\<lambda>s. s) [''POST /api/b'', ''PATCH /api/a'', ''POST /api/b''] = Ok ()"
    "validate_writes (\<lambda>s. s) [''PATCH /api/a'', ''POST /api/b''] = Ok ()" by code_simp+
  show ?thesis
    using consent_binds_writes [OF v, of "\<lambda>s. s"] by (simp add: insert_commute)
qed

section \<open>Which module an id names\<close>

lemma merge_found_root:
  "x \<in> set (merge_found counts xs emitted) \<Longrightarrow> dv_root x \<noteq> None \<Longrightarrow> x \<in> set xs \<and> counts (dv_id x) \<le> 1"
  by (induction counts xs emitted rule: merge_found.induct) (auto simp: rejected_def split: if_splits)

definition all_found :: "panel_disk \<Rightarrow> path \<Rightarrow> path option \<Rightarrow> discovered list" where
  "all_found d modules_root servers_root = discover_placed_modules d modules_root @
     (case servers_root of None \<Rightarrow> [] | Some r \<Rightarrow> discover_connector_panels d r)"

lemma filter_single: "filter P xs = [x] \<Longrightarrow> x \<in> set xs"
  by (metis filter_is_subset list.set_intros(1) subsetD)

lemma discovered_once:
  assumes "x \<in> set (discover_modules_in d modules_root servers_root)" "dv_root x = Some r"
  shows "filter (\<lambda>y. dv_id y = dv_id x) (all_found d modules_root servers_root) = [x]"
proof -
  let ?f = "all_found d modules_root servers_root"
  have "x \<in> set (merge_found (claim_count ?f) ?f [])"
    using assms(1) by (simp add: discover_modules_in_def all_found_def Let_def)
  with assms(2) have x: "x \<in> set ?f" "claim_count ?f (dv_id x) \<le> 1"
    using merge_found_root by fastforce+
  have "x \<in> set (filter (\<lambda>y. dv_id y = dv_id x) ?f)" using x(1) by simp
  with x(2) show ?thesis
    by (cases "filter (\<lambda>y. dv_id y = dv_id x) ?f") (auto simp: claim_count_def)
qed

lemma placed_no_connector: "x \<in> set (discover_placed_modules d r) \<Longrightarrow> dv_connector x = None"
  by (auto simp: discover_placed_modules_def placed_module_def rejected_def split: sum.splits if_splits)

lemma declared_panel_facts:
  assumes "dv_manifest (declared_panel d c name base np) = Some m"
  shows "dv_connector (declared_panel d c name base np) = Some c" "dv_id (declared_panel d c name base np) = panel_module_id c (pd_id (snd np))"
    "mm_writes m = pd_writes (snd np)" "validate_writes (pn_debug d) (mm_writes m) = Ok ()"
  using assms
  by (cases np; auto simp: declared_panel_def rejected_def Let_def split: sum.splits if_splits)+

lemma connector_panel:
  assumes "x \<in> set (discover_connector_panels d r)" "dv_manifest x = Some m"
  obtains c and p :: panel_declaration where "dv_connector x = Some c" "dv_id x = panel_module_id c (pd_id p)"
      "mm_writes m = pd_writes p" "validate_writes (pn_debug d) (mm_writes m) = Ok ()"
proof -
  obtain c name base np where "x = declared_panel d c name base np"
    using assms(1) by (auto simp: discover_connector_panels_def connector_panels_of_def Let_def split: option.splits)
  with declared_panel_facts [of d c name base np m] assms(2) show thesis by (intro that [of c "snd np"]) simp_all
qed

lemma found_module_facts:
  assumes "find_module_in d modules_root servers_root i = Some m"
  shows "fm_id m = i" and "claim_count (all_found d modules_root servers_root) i = 1"
    and "fm_connector m \<noteq> None \<Longrightarrow> validate_writes (pn_debug d) (mm_writes (fm_manifest m)) = Ok ()"
proof -
  obtain x where x: "x \<in> set (discover_modules_in d modules_root servers_root)" "dv_id x = i"
      "dv_root x = Some (fm_root m)" "dv_manifest x = Some (fm_manifest m)" "dv_connector x = fm_connector m" "fm_id m = i"
    using assms by (fastforce simp: find_module_in_def bind_eq_Some_conv find_Some_iff in_set_conv_nth)
  note once = discovered_once [OF x(1,3)]
  show "fm_id m = i" by (rule x(6))
  show "claim_count (all_found d modules_root servers_root) i = 1"
    using once x(2) by (simp add: claim_count_def)
  have "x \<in> set (all_found d modules_root servers_root)"
    using filter_single [OF once] .
  then show "validate_writes (pn_debug d) (mm_writes (fm_manifest m)) = Ok ()" if "fm_connector m \<noteq> None"
    using that x(4,5) placed_no_connector [of x d modules_root]
    by (auto simp: all_found_def split: option.splits elim: connector_panel)
qed

lemma safe_components_plain: "safe_components cs = Some p \<Longrightarrow> set cs \<subseteq> insert CurDir (Normal ` set p)"
  by (induction cs arbitrary: p rule: safe_components.induct) (auto split: if_splits)

text \<open>A file is served for one module only: the id names exactly one of the modules found in both
  sources, the file's canonical path lies in that module's canonical directory, and the path asked for
  has no component that leads up or elsewhere. An id that two sources claim serves nothing.\<close>

theorem asset_of_one_module:
  assumes "serve_module_asset authorized d modules_root servers_root i p = Ok file"
  shows "authorized \<and> claim_count (all_found d modules_root servers_root) i = 1
       \<and> set (pb_components p) \<subseteq> insert CurDir (range Normal)
       \<and> (\<exists>x r. x \<in> set (all_found d modules_root servers_root) \<and> dv_id x = i \<and> dv_root x = Some r
            \<and> (\<exists>dir. pn_canonical d r = Some dir \<and> prefix dir file) \<and> pn_is_file d file)"
proof -
  let ?all = "discover_modules_in d modules_root servers_root"
  obtain relative dir where asked: "authorized" "safe_relative_path p = Some relative"
      "Option.bind (find (\<lambda>m. dv_id m = i) ?all) dv_root = Some dir" "resolve_asset d dir relative = Ok file"
    using assms by (auto simp: serve_module_asset_def and_then_Ok_iff split: if_splits option.splits)
  from asked(3) obtain x where x: "x \<in> set ?all" "dv_id x = i" "dv_root x = Some dir"
    by (fastforce simp: bind_eq_Some_conv find_Some_iff in_set_conv_nth)
  note once = discovered_once [OF x(1,3), unfolded x(2)]
  have found: "x \<in> set (all_found d modules_root servers_root)" "claim_count (all_found d modules_root servers_root) i = 1"
    using filter_single [OF once] once by (simp_all add: claim_count_def)
  have plain: "set (pb_components p) \<subseteq> insert CurDir (range Normal)"
  proof -
    have "safe_components (pb_components p) = Some relative"
      using asked(2) by (auto simp: safe_relative_path_def split: if_splits option.splits list.splits)
    from safe_components_plain [OF this] show ?thesis by blast
  qed
  have "(\<exists>c. pn_canonical d dir = Some c \<and> prefix c file) \<and> pn_is_file d file"
    using asked(4) by (auto simp: resolve_asset_def split: option.splits if_splits)
  with asked(1) found plain x show ?thesis by blast
qed

section \<open>What is relayed\<close>

lemma eligible_facts:
  assumes "evaluate_eligibility gl w f t m = Ok e"
  obtains c receipt seal key inst panel where "fm_connector m = Some c" "hm_get (pt_receipts t) c = Some receipt"
      "el_trust_level e = gl_trust gl (rr_trust_level receipt)" "Standard \<le> el_trust_level e"
      "el_connector_version e = rr_version receipt" "rr_seal receipt = Some seal" "gw_seal_key w = Ok key"
      "pn_canonical (gw_disk w) (path_join (gw_servers_root w) c) = Some inst"
      "pn_canonical (gw_disk w) (fm_root m) = Some panel" "prefix inst panel"
      "verify_tree_seal (gl_seal gl) (gw_shown w (path_join (gw_servers_root w) c)) (gw_tree w (path_join (gw_servers_root w) c)) seal key = Ok True"
proof -
  obtain c where c: "fm_connector m = Some c" using assms by (cases "fm_connector m") (simp_all add: evaluate_eligibility_def)
  obtain receipt where receipt: "hm_get (pt_receipts t) c = Some receipt"
    using assms c by (auto simp: evaluate_eligibility_def get_install_receipt_def split: if_splits option.splits)
  note e = assms [unfolded evaluate_eligibility_def get_install_receipt_def]
  let ?trust = "gl_trust gl (rr_trust_level receipt)"
  have f: "f = None" using e c by (cases f) (simp_all split: if_splits)
  have trust: "\<not> ?trust < Standard" using e c f receipt by (auto simp: Let_def MINIMUM_TRUST_def simp del: trust_order split: if_splits)
  obtain seal where seal: "rr_seal receipt = Some seal" "is_tree_seal seal"
    using e c f receipt trust
    by (cases "rr_seal receipt") (auto simp: Let_def MINIMUM_TRUST_def option_filter_def simp del: trust_order split: if_splits)
  let ?inst = "path_join (gw_servers_root w) c"
  obtain inst panel where places: "pn_canonical (gw_disk w) ?inst = Some inst" "pn_canonical (gw_disk w) (fm_root m) = Some panel"
    using e c f receipt trust seal
    by (cases "pn_canonical (gw_disk w) ?inst"; cases "pn_canonical (gw_disk w) (fm_root m)")
      (auto simp: Let_def MINIMUM_TRUST_def option_filter_def simp del: trust_order split: if_splits)
  obtain key where key: "gw_seal_key w = Ok key"
    using e c f receipt trust seal places
    by (cases "gw_seal_key w") (auto simp: Let_def MINIMUM_TRUST_def option_filter_def simp del: trust_order split: if_splits)
  show thesis
    using e c f receipt trust seal places key
    by (intro that [of c receipt seal key inst panel])
      (auto simp: Let_def MINIMUM_TRUST_def option_filter_def simp del: trust_order split: if_splits sum.splits bool.splits)
qed

lemma deny_no_dispatch [simp]: "Dispatched m p b \<notin> set (fst (deny now i why meta))"
  by (simp add: deny_def)

lemma relay_dispatched:
  assumes "relay_write gl w ri i t recent = (recent', effs, res)" "Dispatched m p b \<in> set effs"
  obtains q fm e c route where "ri_authorized ri" "ri_request ri = Ok q" "m = wq_method q" "p = wq_path q" "b = relay_body gl q"
      "find_panel w i = Some fm" "evaluate_eligibility gl w (ri_receipt_fault ri) t fm = Ok e"
      "m @ '' '' @ p \<in> set (mm_writes (fm_manifest fm))"
      "hm_get (pt_consents t) i = Some c"
      "consent_holds c (writes_digest (gl_sha gl) (mm_writes (fm_manifest fm))) (el_connector_version e)"
      "length b \<le> MAX_WRITE_BODY_BYTES" "admit recent i (ri_millis ri) = (recent', True)"
      "ri_router ri = Some route" "res = Ok (Routed (route m p b))"
      "effs = [Dispatched m p b, Audited (panel_audit (ri_now ri) ''PANEL_WRITE'' i
         (if 200 \<le> route m p b \<and> route m p b < 300 then ''success'' else ''failure'')
         (m @ '' '' @ p @ '' returned '' @ show_nat (route m p b))
         (json_object (admitted_json gl q e (writes_digest (gl_sha gl) (mm_writes (fm_manifest fm))) @ [(''status'', JNum (PosInt (route m p b)))])))]"
  using assms
  by (auto simp: relay_write_def get_panel_write_consent_def deny_def Let_def not_less
      split: if_splits sum.splits option.splits prod.splits bool.splits)

text \<open>C24. A write is relayed only when every condition of the gate holds at that moment: the caller is
  authorized; the panel is the one module with its id and comes from a connector whose receipt has trust
  standard or above and a seal that verifies against the installed tree, which the panel is served from;
  the route is declared exactly, is a \<open>POST\<close> or \<open>PATCH\<close> under \<open>/api/\<close> and none of those denied to panels; the
  operator's consent has the digest of the present declarations and the connector's version; the body is
  within its cap. It is dispatched once and audited.\<close>

theorem panel_write_admits_only:
  assumes "relay_write gl w ri i t recent = (recent', effs, res)"
      and "Dispatched meth p b \<in> set effs"
  shows "ri_authorized ri \<and> plain_route meth p \<and> length b \<le> MAX_WRITE_BODY_BYTES
       \<and> (\<exists>entry. effs = [Dispatched meth p b, Audited entry] \<and> ae_event_type entry = ''PANEL_WRITE'')
       \<and> (\<exists>fm connector receipt seal key c. find_panel w i = Some fm
            \<and> claim_count (all_found (gw_disk w) (gw_modules_root w) (Some (gw_servers_root w))) i = 1
            \<and> fm_connector fm = Some connector \<and> hm_get (pt_receipts t) connector = Some receipt
            \<and> Standard \<le> gl_trust gl (rr_trust_level receipt)
            \<and> rr_seal receipt = Some seal \<and> gw_seal_key w = Ok key
            \<and> (let installed = path_join (gw_servers_root w) connector
               in verify_tree_seal (gl_seal gl) (gw_shown w installed) (gw_tree w installed) seal key = Ok True
                \<and> (\<exists>dir panel. pn_canonical (gw_disk w) installed = Some dir \<and> pn_canonical (gw_disk w) (fm_root fm) = Some panel
                     \<and> prefix dir panel))
            \<and> meth @ '' '' @ p \<in> set (mm_writes (fm_manifest fm))
            \<and> hm_get (pt_consents t) i = Some c
            \<and> wc_writes_digest c = writes_digest (gl_sha gl) (mm_writes (fm_manifest fm))
            \<and> wc_connector_version c = rr_version receipt)"
proof -
  obtain fm e c where r: "ri_authorized ri" "find_panel w i = Some fm"
      "evaluate_eligibility gl w (ri_receipt_fault ri) t fm = Ok e"
      "meth @ '' '' @ p \<in> set (mm_writes (fm_manifest fm))" "hm_get (pt_consents t) i = Some c"
      "consent_holds c (writes_digest (gl_sha gl) (mm_writes (fm_manifest fm))) (el_connector_version e)"
      "length b \<le> MAX_WRITE_BODY_BYTES"
      "\<exists>entry. effs = [Dispatched meth p b, Audited entry] \<and> ae_event_type entry = ''PANEL_WRITE''"
    by (rule relay_dispatched [OF assms]) (auto simp: panel_audit_def)
  note found = found_module_facts [OF r(2) [unfolded find_panel_def]]
  from eligible_facts [OF r(3)] obtain connector receipt seal key inst panel where e:
    "fm_connector fm = Some connector" "hm_get (pt_receipts t) connector = Some receipt"
    "el_trust_level e = gl_trust gl (rr_trust_level receipt)" "Standard \<le> el_trust_level e"
    "el_connector_version e = rr_version receipt" "rr_seal receipt = Some seal" "gw_seal_key w = Ok key"
    "pn_canonical (gw_disk w) (path_join (gw_servers_root w) connector) = Some inst"
    "pn_canonical (gw_disk w) (fm_root fm) = Some panel" "prefix inst panel"
    "verify_tree_seal (gl_seal gl) (gw_shown w (path_join (gw_servers_root w) connector)) (gw_tree w (path_join (gw_servers_root w) connector)) seal key = Ok True" .
  have route: "plain_route meth p"
    using declared_route [OF found(3) r(4)] e(1) by simp
  have trust: "Standard \<le> gl_trust gl (rr_trust_level receipt)" using e(3,4) by metis
  have consent: "wc_writes_digest c = writes_digest (gl_sha gl) (mm_writes (fm_manifest fm))" "wc_connector_version c = rr_version receipt"
    using r(6) e(5) by (simp_all add: consent_holds_def)
  show ?thesis
    unfolding Let_def
    using r(1,2,4,5,7,8) found(2) route trust consent e by blast
qed

section \<open>The cap\<close>

text \<open>One panel's writes in the order they are asked for; the times admitted, oldest first.\<close>

fun admitted_times :: "string \<Rightarrow> nat list \<Rightarrow> write_times \<Rightarrow> nat list" where
  "admitted_times panel [] recent = []"
| "admitted_times panel (now # later) recent =
     (let (recent', ok) = admit recent panel now
      in (if ok then [now] else []) @ admitted_times panel later recent')"

definition in_window :: "nat \<Rightarrow> nat list \<Rightarrow> nat" where
  "in_window start ts = length (filter (\<lambda>t. start \<le> t \<and> t < start + RATE_WINDOW) ts)"

lemma in_window_append [simp]: "in_window s (xs @ ys) = in_window s xs + in_window s ys"
  by (simp add: in_window_def)

lemma in_window_le: "in_window s xs \<le> length xs"
  by (simp add: in_window_def)

lemma in_window_aged:
  assumes "\<forall>t \<in> set ts. t + RATE_WINDOW \<le> now"
  shows "now < s + RATE_WINDOW \<Longrightarrow> in_window s ts = 0"
  using assms by (induction ts) (auto simp: in_window_def)

text \<open>
  What is kept for a panel: of the times admitted so far, at most the cap's number, those left out at
  least a window old, and no window holds more than the cap.
\<close>

definition cap_inv :: "write_times \<Rightarrow> string \<Rightarrow> nat list \<Rightarrow> nat \<Rightarrow> bool" where
  "cap_inv recent panel seen clock \<longleftrightarrow>
     (\<exists>old. seen = old @ unwrap_or (hm_get recent panel) [] \<and> (\<forall>t \<in> set old. t + RATE_WINDOW \<le> clock))
     \<and> length (unwrap_or (hm_get recent panel) []) \<le> WRITES_PER_WINDOW \<and> (\<forall>t \<in> set seen. t \<le> clock)
     \<and> (\<forall>s. in_window s seen \<le> WRITES_PER_WINDOW)"

lemma admit_inv:
  assumes "cap_inv recent panel seen clock" "clock \<le> now" "admit recent panel now = (recent', ok)"
  shows "cap_inv recent' panel (seen @ (if ok then [now] else [])) now"
proof -
  let ?kept = "unwrap_or (hm_get recent panel) []"
  let ?fresh = "dropWhile (\<lambda>t. now - t \<ge> RATE_WINDOW) ?kept"
  let ?stale = "takeWhile (\<lambda>t. now - t \<ge> RATE_WINDOW) ?kept"
  obtain old where old: "seen = old @ ?kept" "\<forall>t \<in> set old. t + RATE_WINDOW \<le> clock"
    and small: "length ?kept \<le> WRITES_PER_WINDOW" and past: "\<forall>t \<in> set seen. t \<le> clock"
    and caps: "\<forall>s. in_window s seen \<le> WRITES_PER_WINDOW"
    using assms(1) by (auto simp: cap_inv_def)
  have seen': "seen = (old @ ?stale) @ ?fresh" using old(1) by simp
  have aged: "\<forall>t \<in> set (old @ ?stale). t + RATE_WINDOW \<le> now"
  proof
    fix t
    assume "t \<in> set (old @ ?stale)"
    then consider "t \<in> set old" | "RATE_WINDOW \<le> now - t" by (auto dest: set_takeWhileD)
    then show "t + RATE_WINDOW \<le> now"
      using old(2) assms(2) by cases (auto simp: RATE_WINDOW_def)
  qed
  have recent': "recent' = hm_insert panel (if ok then ?fresh @ [now] else ?fresh) recent"
    and ok: "ok \<longleftrightarrow> length ?fresh < WRITES_PER_WINDOW"
    using assms(3) by (auto simp: admit_def Let_def split: if_splits)
  have fresh: "length ?fresh \<le> WRITES_PER_WINDOW"
    using small length_dropWhile_le [of "\<lambda>t. now - t \<ge> RATE_WINDOW" ?kept] by linarith
  have kept': "unwrap_or (hm_get recent' panel) [] = (if ok then ?fresh @ [now] else ?fresh)"
    unfolding recent' by (simp add: unwrap_or_def)
  have past': "\<forall>t \<in> set seen. t \<le> now" using past assms(2) by fastforce
  have split: "\<exists>old'. seen @ (if ok then [now] else []) = old' @ (if ok then ?fresh @ [now] else ?fresh)
      \<and> (\<forall>t \<in> set old'. t + RATE_WINDOW \<le> now)"
    using seen' aged by (intro exI [of _ "old @ ?stale"]) (simp only: append.assoc if_True if_False append_Nil2 split: if_split, simp)
  show ?thesis
  proof (cases ok)
    case False
    show ?thesis
      unfolding cap_inv_def kept'
      using split fresh past' caps False by simp
  next
    case True
    have "in_window s (seen @ [now]) \<le> WRITES_PER_WINDOW" for s
    proof (cases "s \<le> now \<and> now < s + RATE_WINDOW")
      case out: False
      with caps show ?thesis by (auto simp: in_window_def)
    next
      case inside: True
      have "in_window s (old @ ?stale) = 0"
        using in_window_aged [OF aged] inside by simp
      then have "in_window s (seen @ [now]) \<le> length (?fresh @ [now])"
        using in_window_le [of s "?fresh @ [now]"] seen' by (metis (no_types) add_0 append.assoc in_window_append)
      with True ok show ?thesis by simp
    qed
    then show ?thesis
      unfolding cap_inv_def kept'
      using split ok past' True by simp
  qed
qed

lemma admitted_capped:
  "cap_inv recent panel seen clock \<Longrightarrow> sorted (clock # nows) \<Longrightarrow>
   in_window s (seen @ admitted_times panel nows recent) \<le> WRITES_PER_WINDOW"
proof (induction nows arbitrary: recent seen clock)
  case Nil
  then show ?case by (simp add: cap_inv_def)
next
  case (Cons now nows)
  obtain recent' ok where a: "admit recent panel now = (recent', ok)" by fastforce
  have "cap_inv recent' panel (seen @ (if ok then [now] else [])) now"
    using admit_inv [OF Cons.prems(1) _ a] Cons.prems(2) by simp
  from Cons.IH [OF this] Cons.prems(2) a show ?case by (simp split: if_splits)
qed

text \<open>No panel makes more than \<open>WRITES_PER_WINDOW\<close> writes in any window of a minute, wherever the
  window starts: from an empty table and a clock that does not run back, at most that many of the
  admitted times fall into it.\<close>

theorem panel_writes_capped:
  assumes "sorted nows"
  shows "in_window start (admitted_times panel nows []) \<le> WRITES_PER_WINDOW"
proof -
  have "cap_inv [] panel [] 0" by (simp add: cap_inv_def in_window_def unwrap_or_def)
  from admitted_capped [OF this, of nows start] assms show ?thesis by simp
qed

theorem panel_writes_capped_witness:
  "admitted_times ''p'' [5, 5, 60004] [] = [5, 5, 60004] \<and> in_window 5 (admitted_times ''p'' [5, 5, 60004] []) \<le> WRITES_PER_WINDOW"
proof
  show "admitted_times ''p'' [5, 5, 60004] [] = [5, 5, 60004]"
    by (simp add: admit_def Let_def RATE_WINDOW_def WRITES_PER_WINDOW_def unwrap_or_def)
  show "in_window 5 (admitted_times ''p'' [5, 5, 60004] []) \<le> WRITES_PER_WINDOW"
    by (rule panel_writes_capped) simp
qed

section \<open>Whose consent it is\<close>

text \<open>
  A consent is kept under the id of the panel, which does not tell whose panel it is, and removing the
  install record leaves it: the panel of another connector with the same id, writes and version has it.
\<close>

theorem consent_outlives_connector:
  "panel_module_id ''a'' ''b-c'' = panel_module_id ''a-b'' ''c''
   \<and> pt_consents (fst (delete_install_receipt None ''a'' t)) = pt_consents t"
  by (simp add: panel_module_id_def delete_install_receipt_def)

section \<open>An example\<close>

definition sample_panel :: panel_declaration where
  "sample_panel = \<lparr>pd_id = ''p'', pd_name = ''P'', pd_description = [], pd_version = [], pd_entry = ''i'', pd_icon = None,
     pd_requires = [], pd_writes = [''POST /api/x'']\<rparr>"

definition sample_connectors :: connector_disk where
  "sample_connectors = \<lparr>cd_subdirs = (\<lambda>_. None), cd_read = (\<lambda>p. Some ''m''),
     cd_parse = (\<lambda>_. Ok \<lparr>mf_spec_version = 1, mf_name = ''C'', mf_connector_type = Some ''ui_module'', mf_panels = Some [sample_panel]\<rparr>)\<rparr>"

definition sample_panel_disk :: panel_disk where
  "sample_panel_disk = \<lparr>pn_list = (\<lambda>p. if p = [''s''] then Some [\<lparr>di_name = Some ''c'', di_is_dir = True\<rparr>] else None),
     pn_read = (\<lambda>_. Err ''none''), pn_decode = (\<lambda>_. Err ''none''), pn_connectors = sample_connectors, pn_canonical = Some,
     pn_is_file = (\<lambda>_. True), pn_readable = (\<lambda>_. True), pn_debug = (\<lambda>s. s), pn_kernel_version = ''1''\<rparr>"

definition sample_module :: module_manifest where
  "sample_module = \<lparr>mm_id = None, mm_name = ''P'', mm_description = [], mm_version = [], mm_entry = ''i'', mm_icon = None,
     mm_requires = [], mm_writes = [''POST /api/x'']\<rparr>"

definition sample_discovered :: discovered where
  "sample_discovered = \<lparr>dv_id = ''c-p'', dv_connector = Some ''c'', dv_group = Some \<lparr>pg_id = ''c'', pg_name = ''C'', pg_position = 0\<rparr>,
     dv_root = Some [''s'', ''c''], dv_manifest = Some sample_module, dv_error = None\<rparr>"

lemma sample_read_panels: "read_panels sample_connectors ''1'' [''s''] ''c'' = Some \<lparr>cp_root = [''s'', ''c''], cp_name = ''C'', cp_panels = [sample_panel]\<rparr>"
proof -
  have t: "trim ''ui_module'' = ''ui_module''" by code_simp
  have j: "path_join [''s''] ''c'' = [''s'', ''c'']" by code_simp
  show ?thesis
    by (simp add: read_panels_def first_readable_manifest_def manifest_paths_def sample_connectors_def Let_def j path_parent_def
        check_supported_def declaration_of_def option_filter_def t unwrap_or_def KNOWN_CONNECTOR_TYPES_def MAX_SPEC_VERSION_def)
qed

lemma sample_declared: "declared_panel sample_panel_disk ''c'' ''C'' [''s'', ''c''] (0, sample_panel) = sample_discovered"
proof -
  have "is_valid_module_id ''p''" "is_valid_module_id ''c-p''" "trim ''P'' \<noteq> []" "safe_relative_path ''i'' = Some [''i'']"
    "validate_writes (\<lambda>s. s) [''POST /api/x''] = Ok ()" by code_simp+
  then show ?thesis
    by (simp add: declared_panel_def Let_def sample_panel_def sample_discovered_def sample_module_def panel_module_id_def sample_panel_disk_def)
qed

lemma sample_found: "discover_modules_in sample_panel_disk [''m''] (Some [''s'']) = [sample_discovered]"
proof -
  have t: "trim ''C'' \<noteq> []" by code_simp
  have dirs: "visible_dirs sample_panel_disk [''m''] = []" "visible_dirs sample_panel_disk [''s''] = [''c'']"
    by (simp_all add: visible_dirs_def sample_panel_disk_def List.map_filter_def starts_with_def)
  have panels: "connector_panels_of sample_panel_disk [''s''] ''c'' = [sample_discovered]"
  proof -
    have "pn_connectors sample_panel_disk = sample_connectors" "pn_kernel_version sample_panel_disk = ''1''"
      by (simp_all add: sample_panel_disk_def)
    then show ?thesis
      using t sample_declared by (simp add: connector_panels_of_def Let_def sample_read_panels)
  qed
  show ?thesis
    by (simp add: discover_modules_in_def Let_def discover_placed_modules_def discover_connector_panels_def dirs panels claim_count_def)
qed

theorem asset_of_one_module_witness:
  "serve_module_asset True sample_panel_disk [''m''] (Some [''s'']) ''c-p'' ''i'' = Ok [''s'', ''c'', ''i'']
   \<and> claim_count (all_found sample_panel_disk [''m''] (Some [''s''])) ''c-p'' = 1"
proof
  have "is_valid_module_id ''c-p''" "safe_relative_path ''i'' = Some [''i'']" by code_simp+
  then show served: "serve_module_asset True sample_panel_disk [''m''] (Some [''s'']) ''c-p'' ''i'' = Ok [''s'', ''c'', ''i'']"
    by (simp add: serve_module_asset_def sample_found) (simp add: sample_discovered_def resolve_asset_def sample_panel_disk_def)
  from asset_of_one_module [OF this] show "claim_count (all_found sample_panel_disk [''m''] (Some [''s''])) ''c-p'' = 1" by simp
qed

definition sample_gate :: gate_lib where
  "sample_gate = \<lparr>gl_trust = (\<lambda>_. Core), gl_trust_name = (\<lambda>_. ''core''), gl_sha = (\<lambda>s. s),
     gl_seal = \<lparr>sc_sha256_hex = (\<lambda>s. s), sc_hmac_hex = (\<lambda>k m. Some m)\<rparr>,
     gl_json = \<lparr>json_to_string = (\<lambda>_. []), json_from_str = (\<lambda>_. None)\<rparr>\<rparr>"

definition sample_world :: gate_world where
  "sample_world = \<lparr>gw_disk = sample_panel_disk, gw_tree = (\<lambda>_. FsDir []), gw_shown = (\<lambda>_. ''c''), gw_seal_key = Ok ''k'',
     gw_modules_root = [''m''], gw_servers_root = [''s'']\<rparr>"

definition sample_tables :: panel_tables where
  "sample_tables = \<lparr>pt_receipts = [(''c'', \<lparr>rr_connector_dir = ''c'', rr_trust_level = ''core'', rr_seal = Some ''tree-sha256:'',
       rr_version = ''1'', rr_installed_at = [], rr_archive_sha256 = None\<rparr>)],
     pt_consents = [(''c-p'', \<lparr>wc_panel_id = ''c-p'', wc_writes_digest = ''POST /api/x'', wc_connector_version = ''1'',
       wc_granted_at = [], wc_granted_by = OPERATOR\<rparr>)]\<rparr>"

definition sample_relay :: relay_input where
  "sample_relay = \<lparr>ri_authorized = True, ri_request = Ok \<lparr>wq_method = ''POST'', wq_path = ''/api/x'', wq_body = None\<rparr>,
     ri_receipt_fault = None, ri_consent_fault = None, ri_router = Some (\<lambda>_ _ _. 200), ri_now = 0, ri_millis = 0\<rparr>"

lemma sample_find: "find_panel sample_world ''c-p'' =
    Some \<lparr>fm_id = ''c-p'', fm_connector = Some ''c'', fm_root = [''s'', ''c''], fm_manifest = sample_module\<rparr>"
  by (simp add: find_panel_def sample_world_def find_module_in_def sample_found) (simp add: sample_discovered_def)

lemma sample_eligible: "evaluate_eligibility sample_gate sample_world None sample_tables
     \<lparr>fm_id = ''c-p'', fm_connector = Some ''c'', fm_root = [''s'', ''c''], fm_manifest = sample_module\<rparr> =
   Ok \<lparr>el_trust_level = Core, el_connector_version = ''1''\<rparr>"
proof -
  have j: "path_join [''s''] ''c'' = [''s'', ''c'']" by code_simp
  have s: "is_tree_seal ''tree-sha256:''"
    "verify_tree_seal \<lparr>sc_sha256_hex = (\<lambda>s. s), sc_hmac_hex = (\<lambda>k m. Some m)\<rparr> ''c'' (FsDir []) ''tree-sha256:'' ''k'' = Ok True"
    by code_simp+
  have fields: "gl_trust sample_gate x = Core" "gl_seal sample_gate = \<lparr>sc_sha256_hex = (\<lambda>s. s), sc_hmac_hex = (\<lambda>k m. Some m)\<rparr>"
    "pn_canonical (gw_disk sample_world) = Some" "gw_servers_root sample_world = [''s'']" "gw_seal_key sample_world = Ok ''k''"
    "gw_shown sample_world p = ''c''" "gw_tree sample_world p = FsDir []" "mm_writes sample_module \<noteq> []" for x p
    by (simp_all add: sample_gate_def sample_world_def sample_panel_disk_def sample_module_def)
  obtain receipt where receipt: "get_install_receipt None ''c'' sample_tables = Ok (Some receipt)"
      "rr_seal receipt = Some ''tree-sha256:''" "rr_version receipt = ''1''"
    by (simp add: get_install_receipt_def sample_tables_def hm_get_def)
  show ?thesis
    by (simp add: evaluate_eligibility_def Let_def fields receipt j s MINIMUM_TRUST_def option_filter_def)
qed

theorem panel_write_admits_only_witness: "plain_route ''POST'' ''/api/x''"
proof -
  obtain recent' effs res where r: "relay_write sample_gate sample_world sample_relay ''c-p'' sample_tables [] = (recent', effs, res)"
    by (cases "relay_write sample_gate sample_world sample_relay ''c-p'' sample_tables []") auto
  let ?q = "\<lparr>wq_method = ''POST'', wq_path = ''/api/x'', wq_body = None\<rparr>"
  have fields: "ri_authorized sample_relay" "ri_request sample_relay = Ok ?q" "ri_receipt_fault sample_relay = None"
    "ri_consent_fault sample_relay = None" "ri_router sample_relay = Some (\<lambda>_ _ _. 200)" "ri_millis sample_relay = 0"
    by (simp_all add: sample_relay_def)
  have writes: "mm_writes sample_module = [''POST /api/x'']" by (simp add: sample_module_def)
  have digest: "writes_digest (gl_sha sample_gate) [''POST /api/x''] = ''POST /api/x''"
    by (simp add: writes_digest_def writes_text_def sample_gate_def)
  obtain c where c: "get_panel_write_consent None ''c-p'' sample_tables = Ok (Some c)" "consent_holds c ''POST /api/x'' ''1''"
    by (simp add: get_panel_write_consent_def sample_tables_def consent_holds_def hm_get_def)
  have body: "relay_body sample_gate ?q = []" by (simp add: relay_body_def)
  obtain recent1 where ad: "admit [] ''c-p'' 0 = (recent1, True)"
    by (simp add: admit_def Let_def unwrap_or_def WRITES_PER_WINDOW_def)
  have "Dispatched ''POST'' ''/api/x'' [] \<in> set effs"
    using r by (auto simp: relay_write_def Let_def fields sample_find sample_eligible writes digest c body ad)
  from panel_write_admits_only [OF r this] show ?thesis by simp
qed

end
