(* ===== verification/Mcp_Protocol.thy ===== *)
theory Mcp_Protocol
  imports Server_Events
begin

text \<open>
  The messages and the eras of MCP, \<open>managers/mcp_protocol.rs\<close>: JSON-RPC requests, notifications and
  responses, the versions the kernel speaks, the reply to \<open>server/discover\<close> and the era of a connection.

  A derived decoder of a structure takes an object by its members' names or an array by their order:
  \<open>struct_field\<close> reads either.
\<close>

section \<open>Structures\<close>

definition struct_field :: "json \<Rightarrow> nat \<Rightarrow> string \<Rightarrow> json option" where
  "struct_field v i k =
     (case v of JObj m \<Rightarrow> map_of m k | JArr vs \<Rightarrow> if i < length vs then Some (vs ! i) else None | _ \<Rightarrow> None)"

text \<open>An array must have the members that have no default and no more than there are.\<close>

definition struct_shape :: "nat \<Rightarrow> nat \<Rightarrow> json \<Rightarrow> bool" where
  "struct_shape lo hi v = (case v of JObj _ \<Rightarrow> True | JArr vs \<Rightarrow> lo \<le> length vs \<and> length vs \<le> hi | _ \<Rightarrow> False)"

text \<open>\<open>Option<Value>\<close>, and \<open>Option\<close> of a decoded member: absent and null are \<open>None\<close>.\<close>

definition opt_value :: "json option \<Rightarrow> json option" where
  "opt_value f = (case f of Some JNull \<Rightarrow> None | _ \<Rightarrow> f)"

definition opt_field :: "(json \<Rightarrow> 'a option) \<Rightarrow> json option \<Rightarrow> 'a option option" where
  "opt_field decode f = (case opt_value f of None \<Rightarrow> Some None | Some v \<Rightarrow> map_option Some (decode v))"

section \<open>JSON-RPC\<close>

record json_rpc_request =
  rq_id :: "json option"
  rq_method :: string
  rq_params :: "json option"

definition new_request :: "int \<Rightarrow> string \<Rightarrow> json option \<Rightarrow> json_rpc_request" where
  "new_request i method params = \<lparr>rq_id = Some (json_i64 i), rq_method = method, rq_params = params\<rparr>"

definition new_notification :: "string \<Rightarrow> json option \<Rightarrow> json_rpc_request" where
  "new_notification method params = \<lparr>rq_id = None, rq_method = method, rq_params = params\<rparr>"

text \<open>Only absent parameters are skipped: an absent id is written as null.\<close>

definition request_json :: "json_rpc_request \<Rightarrow> json" where
  "request_json r = json_object ([(''jsonrpc'', JStr ''2.0''), (''id'', json_option (\<lambda>v. v) (rq_id r)), (''method'', JStr (rq_method r))] @
     (case rq_params r of None \<Rightarrow> [] | Some p \<Rightarrow> [(''params'', p)]))"

record rpc_error =
  re_code :: int
  re_message :: string
  re_data :: "json option"

definition rpc_error_text :: "rpc_error \<Rightarrow> string" where
  "rpc_error_text e = ''RPC Error '' @ show_int (re_code e) @ '': '' @ re_message e"

definition supported_versions :: "rpc_error \<Rightarrow> string list" where
  "supported_versions e =
     (case Option.bind (re_data e) (\<lambda>d. Option.bind (json_get d ''supported'') json_as_array) of
        Some vs \<Rightarrow> json_str_items vs
      | None \<Rightarrow> [])"

record json_rpc_response =
  rs_id :: "json option"
  rs_result :: "json option"
  rs_error :: "rpc_error option"

record json_rpc_notification =
  nt_method :: string
  nt_params :: "json option"

datatype json_rpc_message = Notification json_rpc_notification | Response json_rpc_response

definition decode_rpc_error :: "json \<Rightarrow> rpc_error option" where
  "decode_rpc_error v =
     (if \<not> struct_shape 3 3 v then None
      else case (Option.bind (struct_field v 0 ''code'') json_as_i64, Option.bind (struct_field v 1 ''message'') json_as_str) of
        (Some code, Some msg) \<Rightarrow> Some \<lparr>re_code = code, re_message = msg, re_data = opt_value (struct_field v 2 ''data'')\<rparr>
      | _ \<Rightarrow> None)"

definition decode_notification :: "json \<Rightarrow> json_rpc_notification option" where
  "decode_notification v =
     (if \<not> struct_shape 1 2 v then None
      else map_option (\<lambda>method. \<lparr>nt_method = method, nt_params = opt_value (struct_field v 1 ''params'')\<rparr>)
        (Option.bind (struct_field v 0 ''method'') json_as_str))"

definition decode_response :: "json \<Rightarrow> json_rpc_response option" where
  "decode_response v =
     (if \<not> struct_shape 4 4 v then None
      else case (Option.bind (struct_field v 0 ''jsonrpc'') json_as_str, opt_field decode_rpc_error (struct_field v 3 ''error'')) of
        (Some _, Some err) \<Rightarrow>
          Some \<lparr>rs_id = opt_value (struct_field v 1 ''id''), rs_result = opt_value (struct_field v 2 ''result''), rs_error = err\<rparr>
      | _ \<Rightarrow> None)"

definition decode_message :: "json \<Rightarrow> json_rpc_message option" where
  "decode_message v =
     (case decode_notification v of
        Some n \<Rightarrow> Some (Notification n)
      | None \<Rightarrow> map_option Response (decode_response v))"

section \<open>Versions and eras\<close>

definition MODERN_PROTOCOL_VERSIONS :: "string list" where
  "MODERN_PROTOCOL_VERSIONS = [''2026-07-28'']"

definition MODERN_PROTOCOL_VERSION :: string where
  "MODERN_PROTOCOL_VERSION = ''2026-07-28''"

definition HANDSHAKE_PROTOCOL_VERSIONS :: "string list" where
  "HANDSHAKE_PROTOCOL_VERSIONS = [''2024-11-05'', ''2025-03-26'', ''2025-06-18'', ''2025-11-25'']"

definition LEGACY_PROTOCOL_VERSION :: string where
  "LEGACY_PROTOCOL_VERSION = ''2024-11-05''"

definition INITIALIZE_METHOD :: string where
  "INITIALIZE_METHOD = ''initialize''"

definition DISCOVER_METHOD :: string where
  "DISCOVER_METHOD = ''server/discover''"

definition CANCELLED_NOTIFICATION_METHOD :: string where
  "CANCELLED_NOTIFICATION_METHOD = ''notifications/cancelled''"

definition DISCOVER_PROBE_TIMEOUT_SECS :: nat where
  "DISCOVER_PROBE_TIMEOUT_SECS = 10"

definition DISCOVER_PROBE_READINESS_CAP_SECS :: nat where
  "DISCOVER_PROBE_READINESS_CAP_SECS = 60"

definition UNSUPPORTED_PROTOCOL_VERSION :: int where
  "UNSUPPORTED_PROTOCOL_VERSION = - 32022"

definition META_PROTOCOL_VERSION :: string where
  "META_PROTOCOL_VERSION = ''io.modelcontextprotocol/protocolVersion''"

definition META_CLIENT_INFO :: string where
  "META_CLIENT_INFO = ''io.modelcontextprotocol/clientInfo''"

definition META_CLIENT_CAPABILITIES :: string where
  "META_CLIENT_CAPABILITIES = ''io.modelcontextprotocol/clientCapabilities''"

definition META_LOG_LEVEL :: string where
  "META_LOG_LEVEL = ''io.modelcontextprotocol/logLevel''"

definition META_MGP_GRANTS :: string where
  "META_MGP_GRANTS = ''dev.cloto/mgp/grants''"

definition MGP_CAPABILITY_EXTENSION :: string where
  "MGP_CAPABILITY_EXTENSION = ''dev.cloto/mgp''"

definition HEADER_PROTOCOL_VERSION :: string where
  "HEADER_PROTOCOL_VERSION = ''mcp-protocol-version''"

definition HEADER_METHOD :: string where
  "HEADER_METHOD = ''mcp-method''"

definition RESULT_TYPE_INPUT_REQUIRED :: string where
  "RESULT_TYPE_INPUT_REQUIRED = ''input_required''"

datatype ProtocolEra = Legacy | Modern

datatype EraPreference = Auto | LegacyOnly

text \<open>What is neither empty, \<open>auto\<close> nor \<open>legacy\<close> is warned about and probed.\<close>

definition era_preference :: "string option \<Rightarrow> EraPreference" where
  "era_preference raw =
     (case map_option trim raw of
        None \<Rightarrow> Auto
      | Some v \<Rightarrow> if v = [] \<or> eq_ignore_ascii_case v ''auto'' then Auto
                  else if eq_ignore_ascii_case v ''legacy'' then LegacyOnly else Auto)"

definition highest_mutual_modern_version :: "string list \<Rightarrow> string option" where
  "highest_mutual_modern_version offered = find (\<lambda>v. v \<in> set offered) (rev MODERN_PROTOCOL_VERSIONS)"

definition offers_handshake_version :: "string list \<Rightarrow> bool" where
  "offers_handshake_version offered = list_ex (\<lambda>v. v \<in> set HANDSHAKE_PROTOCOL_VERSIONS) offered"

record era_handle =
  eh_era :: "ProtocolEra option"
  eh_version :: "string option"

definition era_new :: era_handle where
  "era_new = \<lparr>eh_era = None, eh_version = None\<rparr>"

definition is_modern :: "era_handle \<Rightarrow> bool" where
  "is_modern e = (eh_era e = Some Modern)"

definition set_legacy :: "era_handle \<Rightarrow> era_handle" where
  "set_legacy e = e\<lparr>eh_era := Some Legacy\<rparr>"

definition set_wire_version :: "string \<Rightarrow> era_handle \<Rightarrow> era_handle" where
  "set_wire_version v e = e\<lparr>eh_version := Some v\<rparr>"

definition set_modern :: "string \<Rightarrow> era_handle \<Rightarrow> era_handle" where
  "set_modern v e = (set_wire_version v e)\<lparr>eh_era := Some Modern\<rparr>"

section \<open>The reply to discovery\<close>

record discover_result =
  dr_supported_versions :: "string list"
  dr_ttl_ms :: "int option"
  dr_cache_scope :: "string option"
  dr_capabilities :: "json option"
  dr_instructions :: "string option"
  dr_result_type :: "string option"
  dr_meta :: "json option"

definition decode_discover :: "json \<Rightarrow> discover_result option" where
  "decode_discover v =
     (if \<not> struct_shape 1 7 v then None
      else case (Option.bind (struct_field v 0 ''supportedVersions'') json_as_strings,
                 opt_field json_as_i64 (struct_field v 1 ''ttlMs''), opt_field json_as_str (struct_field v 2 ''cacheScope''),
                 opt_field json_as_str (struct_field v 4 ''instructions''), opt_field json_as_str (struct_field v 5 ''resultType'')) of
        (Some versions, Some ttl, Some scope, Some instructions, Some result_type) \<Rightarrow>
          Some \<lparr>dr_supported_versions = versions, dr_ttl_ms = ttl, dr_cache_scope = scope,
                dr_capabilities = opt_value (struct_field v 3 ''capabilities''), dr_instructions = instructions,
                dr_result_type = result_type, dr_meta = opt_value (struct_field v 6 ''_meta'')\<rparr>
      | _ \<Rightarrow> None)"

definition mutual_modern_version :: "discover_result \<Rightarrow> string option" where
  "mutual_modern_version d = highest_mutual_modern_version (dr_supported_versions d)"

section \<open>Lemmas\<close>

lemma highest_mutual_Some:
  "highest_mutual_modern_version offered = Some v \<Longrightarrow> v \<in> set MODERN_PROTOCOL_VERSIONS \<and> v \<in> set offered"
  by (auto simp: highest_mutual_modern_version_def MODERN_PROTOCOL_VERSIONS_def split: if_splits)

text \<open>What a reader of the other side sees: a request's own id, and null for a notification.\<close>

lemma request_json_fields [simp]:
  "json_get (request_json r) ''jsonrpc'' = Some (JStr ''2.0'')"
  "json_get (request_json r) ''method'' = Some (JStr (rq_method r))"
  "json_get (request_json r) ''id'' = Some (json_option (\<lambda>v. v) (rq_id r))"
  "json_get (request_json r) ''params'' = rq_params r"
  by (simp_all add: request_json_def split: option.splits)

lemma decode_message_response:
  "decode_message (JObj m) = Some (Response r) \<Longrightarrow> Option.bind (map_of m ''method'') json_as_str = None"
  by (auto simp: decode_message_def decode_notification_def struct_shape_def struct_field_def split: option.splits if_splits)

text \<open>A message with a method is a notification, with an id and an answer too.\<close>

lemma method_makes_notification:
  "map_of m ''method'' = Some (JStr s) \<Longrightarrow> decode_message (JObj m) = Some (Notification \<lparr>nt_method = s, nt_params = opt_value (map_of m ''params'')\<rparr>)"
  by (simp add: decode_message_def decode_notification_def struct_shape_def struct_field_def json_as_str_def)

end
