(* ===== verification/Transport.thy ===== *)
theory Transport
  imports Launch Mcp_Protocol
begin

text \<open>
  How a server is reached, \<open>managers/mcp_transport.rs\<close>: the command and the environment of a child
  process, the address of a remote server, and how the bytes either sends become messages.

  The kernel's environment, the virtual environment's interpreter and what is on the disk are inputs;
  \<open>String::from_utf8_lossy\<close> is a parameter. The tasks that write to a child and keep its log are I/O.
\<close>

section \<open>The command\<close>

definition resolve_python_command :: "string option \<Rightarrow> string \<Rightarrow> string \<times> bool" where
  "resolve_python_command venv_python command =
     (if command \<noteq> ''python'' \<and> command \<noteq> ''python3'' then (command, False)
      else case venv_python of Some p \<Rightarrow> (p, True) | None \<Rightarrow> (command, False))"

definition validate_entry_point_exists :: "(string \<Rightarrow> bool) \<Rightarrow> string \<Rightarrow> string list \<Rightarrow> string + unit" where
  "validate_entry_point_exists exists command args =
     (let entry = resolve_sealable_entry_point command args
      in if starts_with entry ''/'' \<and> \<not> exists entry
         then Err (''MCP server entry-point not found: '' @ entry @ '' '' @ em_dash @
                ''  the install is stale or incomplete. Reinstall this server from the marketplace.'')
         else Ok ())"

section \<open>The environment\<close>

definition resolve_env_value :: "(string, string) hmap \<Rightarrow> string \<Rightarrow> string" where
  "resolve_env_value kernel_env v =
     (case strip_prefix ''${'' v of
        Some rest \<Rightarrow> if ends_with rest ''}'' then unwrap_or (hm_get kernel_env (butlast rest)) [] else v
      | None \<Rightarrow> v)"

type_synonym env_map = "(string, string) hmap"

definition put_all :: "(string \<times> string) list \<Rightarrow> env_map \<Rightarrow> env_map" where
  "put_all kvs m = foldl (\<lambda>m (k, v). hm_insert k v m) m kvs"

definition remove_all :: "string list \<Rightarrow> env_map \<Rightarrow> env_map" where
  "remove_all ks m = foldl (\<lambda>m k. hm_remove k m) m ks"

definition sandbox_env :: "string \<Rightarrow> (string \<times> string) list" where
  "sandbox_env dir = [(''CLOTO_SANDBOX_DIR'', dir), (''HOME'', dir), (''TMPDIR'', dir), (''TMP'', dir), (''TEMP'', dir)]"

definition proxy_env :: "string \<Rightarrow> (string \<times> string) list" where
  "proxy_env url = [(''CLOTO_LLM_PROXY'', url), (''HTTP_PROXY'', url), (''HTTPS_PROXY'', url), (''NO_PROXY'', ''localhost,127.0.0.1,::1'')]"

definition child_env ::
  "env_map \<Rightarrow> env_map \<Rightarrow> u16 \<Rightarrow> string \<Rightarrow> isolation_profile option \<Rightarrow> (path \<Rightarrow> string) \<Rightarrow> string list \<Rightarrow> env_map" where
  "child_env kernel_env env port token isolation shown sensitive =
     (let given = put_all (map (\<lambda>(k, v). (k, resolve_env_value kernel_env v)) env) kernel_env;
          always = put_all [(''PYTHONUNBUFFERED'', ''1''), (''CLOTO_LLM_PROXY_PORT'', show_nat (unat port)),
                            (''CLOTO_LLM_PROXY_TOKEN'', token)] given;
          unsealed = hm_remove ''CLOTO_SEAL_KEY'' always
      in case isolation of
           None \<Rightarrow> unsealed
         | Some profile \<Rightarrow>
             (let boxed = (if ip_filesystem_scope profile \<noteq> FsUnrestricted
                           then put_all (sandbox_env (shown (ip_sandbox_dir profile))) unsealed else unsealed);
                  proxied = (if ip_network_scope profile = NetProxyOnly
                             then put_all (proxy_env (''http://127.0.0.1:'' @ show_nat (unat port))) boxed else boxed)
              in remove_all sensitive proxied))"

record child_start =
  ch_command :: string
  ch_args :: "string list"
  ch_env :: env_map
  ch_directory :: "path option"

text \<open>\<open>make_dir\<close> says whether the sandbox directory could be made.\<close>

definition start_child ::
  "string option \<Rightarrow> (string \<Rightarrow> bool) \<Rightarrow> (path \<Rightarrow> bool) \<Rightarrow> env_map \<Rightarrow> string \<Rightarrow> string list \<Rightarrow> env_map \<Rightarrow> isolation_profile option
   \<Rightarrow> u16 \<Rightarrow> string \<Rightarrow> (path \<Rightarrow> string) \<Rightarrow> string list \<Rightarrow> string + child_start" where
  "start_child venv_python exists make_dir kernel_env command args env isolation port token shown sensitive =
     (let (resolved, is_venv) = resolve_python_command venv_python command
      in and_then (if is_venv then Ok resolved else validate_command command) (\<lambda>final.
         and_then (validate_entry_point_exists exists final args) (\<lambda>_.
         and_then (case isolation of
             None \<Rightarrow> Ok None
           | Some profile \<Rightarrow>
               if ip_filesystem_scope profile = FsUnrestricted then Ok None
               else if make_dir (ip_sandbox_dir profile) then Ok (Some (ip_sandbox_dir profile))
               else Err (''Failed to create sandbox directory: '' @ shown (ip_sandbox_dir profile))) (\<lambda>dir.
         Ok \<lparr>ch_command = final, ch_args = args,
             ch_env = child_env kernel_env env port token isolation shown sensitive, ch_directory = dir\<rparr>))))"

section \<open>The address of a remote server\<close>

definition local_hosts :: "string list" where
  "local_hosts = [''localhost'', ''127.0.0.1'', ''::1'', ''[::1]'']"

definition url_host :: "string \<Rightarrow> string" where
  "url_host after_scheme = hd (split_on (CHR '':'') (hd (split_on (CHR ''/'') after_scheme)))"

definition validate_http_url :: "string \<Rightarrow> string + unit" where
  "validate_http_url url =
     (if \<not> starts_with url ''https://'' \<and> \<not> starts_with url ''http://''
      then Err (''MCP server URL must start with http:// or https://: '' @ url)
      else if starts_with url ''http://'' \<and> url_host (drop 7 url) \<notin> set local_hosts
      then Err (''Remote MCP server URL must use HTTPS. HTTP is only allowed for localhost. Got: '' @ url)
      else Ok ())"

section \<open>Lines of a child\<close>

definition MAX_STDIO_LINE_BYTES :: nat where
  "MAX_STDIO_LINE_BYTES = 1024 * 1024"

definition MAX_SSE_LINE_BYTES :: nat where
  "MAX_SSE_LINE_BYTES = 1024 * 1024"

declare MAX_STDIO_LINE_BYTES_def [code del] MAX_SSE_LINE_BYTES_def [code del]

definition line_feed :: char where
  "line_feed = CHR 0x0A"

text \<open>One chunk: the lines it ends, and what is left of the last.\<close>

fun take_lines :: "string \<Rightarrow> string \<Rightarrow> string list \<times> string" where
  "take_lines buf [] = ([], buf)"
| "take_lines buf (b # bs) =
     (if b = line_feed then (let (ls, rest) = take_lines [] bs in (buf # ls, rest))
      else take_lines (buf @ [b]) bs)"

text \<open>
  What reading yields: a chunk, the end, or an error. The reader ends at the first of the last two, or at a
  line that grows past the limit; a line without its end is then lost.
\<close>

datatype stdout_read = Chunk string | EndOfFile | ReadError

definition stdio_line :: "(string \<Rightarrow> string) \<Rightarrow> string \<Rightarrow> string option" where
  "stdio_line lossy l = (let t = trim (lossy l) in if t = [] then None else Some t)"

fun read_stdout :: "(string \<Rightarrow> string) \<Rightarrow> string \<Rightarrow> stdout_read list \<Rightarrow> string list" where
  "read_stdout lossy buf [] = []"
| "read_stdout lossy buf (EndOfFile # rs) = []"
| "read_stdout lossy buf (ReadError # rs) = []"
| "read_stdout lossy buf (Chunk c # rs) =
     (let (ls, buf') = take_lines buf c; out = List.map_filter (stdio_line lossy) ls
      in if length buf' > MAX_STDIO_LINE_BYTES then out else out @ read_stdout lossy buf' rs)"

section \<open>Events of a remote server\<close>

text \<open>\<open>trim_end_matches\<close> of a carriage return.\<close>

definition trim_cr :: "string \<Rightarrow> string" where
  "trim_cr l = rev (dropWhile (\<lambda>c. c = CHR 0x0D) (rev l))"

definition sse_data :: "(string \<Rightarrow> string) \<Rightarrow> string \<Rightarrow> string option" where
  "sse_data lossy l = option_filter (\<lambda>d. d \<noteq> []) (strip_prefix ''data: '' (trim_cr (lossy l)))"

text \<open>The chunks of a response body, the last of them possibly an error.\<close>

fun parse_sse_stream :: "(string \<Rightarrow> string) \<Rightarrow> string \<Rightarrow> (string + string) list \<Rightarrow> string list \<times> (string + unit)" where
  "parse_sse_stream lossy buf [] =
     ((if buf \<noteq> [] then (case sse_data lossy buf of Some d \<Rightarrow> [d] | None \<Rightarrow> []) else []), Ok ())"
| "parse_sse_stream lossy buf (Inl e # cs) = ([], Err (''SSE stream chunk error: '' @ e))"
| "parse_sse_stream lossy buf (Inr c # cs) =
     (let (ls, buf') = take_lines buf c; out = List.map_filter (sse_data lossy) ls
      in if length buf' > MAX_SSE_LINE_BYTES
         then (out, Err (''SSE line exceeded '' @ show_nat MAX_SSE_LINE_BYTES @ '' bytes without a newline '' @ em_dash @ '' aborting stream''))
         else (let (more, res) = parse_sse_stream lossy buf' cs in (out @ more, res)))"

section \<open>Requests to a remote server\<close>

record http_response =
  hp_status :: nat
  hp_status_text :: string
  hp_session :: "string option"
  hp_content_type :: string
  hp_body :: "string + string"
  hp_chunks :: "(string + string) list"

text \<open>\<open>hp_session\<close> is the header of that name when it is text, \<open>hp_chunks\<close> the body as a stream.\<close>

datatype http_outcome = HttpFailed string | HttpTimedOut | HttpResponse http_response

definition HTTP_PER_MESSAGE_TIMEOUT_SECS :: nat where
  "HTTP_PER_MESSAGE_TIMEOUT_SECS = 30"

definition is_success :: "nat \<Rightarrow> bool" where
  "is_success status = (200 \<le> status \<and> status < 300)"

definition http_headers :: "string option \<Rightarrow> era_handle \<Rightarrow> string option \<Rightarrow> json option \<Rightarrow> (string \<times> string) list" where
  "http_headers auth era session parsed =
     (let method = Option.bind (Option.bind parsed (\<lambda>v. json_get v ''method'')) json_as_str
      in [(''Content-Type'', ''application/json''), (''Accept'', ''application/json, text/event-stream'')] @
         (case auth of Some token \<Rightarrow> [(''Authorization'', ''Bearer '' @ token)] | None \<Rightarrow> []) @
         (if is_modern era \<or> method = Some DISCOVER_METHOD
          then (HEADER_PROTOCOL_VERSION, unwrap_or (eh_version era) MODERN_PROTOCOL_VERSION) #
               (case method of Some m \<Rightarrow> [(HEADER_METHOD, m)] | None \<Rightarrow> []) else []) @
         (if is_modern era then [] else case session of Some sid \<Rightarrow> [(''Mcp-Session-Id'', sid)] | None \<Rightarrow> []))"

definition error_envelope :: "json \<Rightarrow> string \<Rightarrow> json" where
  "error_envelope i msg = json_object [(''jsonrpc'', JStr ''2.0''),
     (''error'', json_object [(''code'', json_i64 (- 32000)), (''message'', JStr msg)]), (''id'', i)]"

text \<open>What one message to the server brings back: the lines the client reads.\<close>

definition http_answer :: "json_text \<Rightarrow> (string \<Rightarrow> string) \<Rightarrow> json option \<Rightarrow> http_outcome \<Rightarrow> string list" where
  "http_answer jt lossy parsed outcome =
     (let i = unwrap_or (Option.bind parsed (\<lambda>v. json_get v ''id'')) JNull;
          failure = (\<lambda>msg. [json_to_string jt (error_envelope i msg)])
      in case outcome of
           HttpFailed e \<Rightarrow> failure (''HTTP transport error: '' @ e)
         | HttpTimedOut \<Rightarrow> failure (''HTTP per-message timeout ('' @ show_nat HTTP_PER_MESSAGE_TIMEOUT_SECS @ ''s)'')
         | HttpResponse r \<Rightarrow>
             (if \<not> is_success (hp_status r)
              then failure (''HTTP '' @ hp_status_text r @ '': '' @ (case hp_body r of Inr b \<Rightarrow> b | Inl _ \<Rightarrow> []))
              else if str_contains (hp_content_type r) ''text/event-stream'' then fst (parse_sse_stream lossy [] (hp_chunks r))
              else (case hp_body r of Inr b \<Rightarrow> if trim b \<noteq> [] then [b] else [] | Inl _ \<Rightarrow> [])))"

definition http_session :: "era_handle \<Rightarrow> string option \<Rightarrow> http_outcome \<Rightarrow> string option" where
  "http_session era session outcome =
     (case outcome of
        HttpResponse r \<Rightarrow> if is_success (hp_status r) \<and> \<not> is_modern era then option_or (hp_session r) session else session
      | _ \<Rightarrow> session)"

definition http_turn ::
  "json_text \<Rightarrow> (string \<Rightarrow> string) \<Rightarrow> string option \<Rightarrow> era_handle \<Rightarrow> string option \<Rightarrow> string \<Rightarrow> http_outcome
   \<Rightarrow> (string \<times> string) list \<times> string option \<times> string list" where
  "http_turn jt lossy auth era session msg outcome =
     (let parsed = json_from_str jt msg
      in (http_headers auth era session parsed, http_session era session outcome, http_answer jt lossy parsed outcome))"

end
