(* ===== verification/Mcp_Client.thy ===== *)
theory Mcp_Client
  imports Mcp_Protocol
begin

text \<open>
  The client of one server, \<open>managers/mcp_client.rs\<close>: the requests in flight, what reaches the wire, the
  response loop, streaming calls and the withdrawal of requests nobody waits for; and the decoders of tool
  lists and results in \<open>managers/mcp_protocol.rs\<close>.

  Every lock is held for one step of the model. A call is two steps, \<open>register_request\<close> and \<open>send_done\<close>,
  because the response loop may run between them. The channels calls wait on are numbered in the order
  they are made. Messages are the JSON values their texts stand for.
\<close>

section \<open>Results\<close>

definition default_field :: "(json \<Rightarrow> 'a option) \<Rightarrow> 'a \<Rightarrow> json option \<Rightarrow> 'a option" where
  "default_field decode d f = (case f of None \<Rightarrow> Some d | Some v \<Rightarrow> decode v)"

definition decode_tool :: "json \<Rightarrow> mcp_tool option" where
  "decode_tool v =
     (if \<not> struct_shape 3 4 v then None
      else case (Option.bind (struct_field v 0 ''name'') json_as_str, opt_field json_as_str (struct_field v 1 ''description''),
                 struct_field v 2 ''inputSchema'') of
        (Some name, Some description, Some schema) \<Rightarrow>
          Some \<lparr>tool_name = name, tool_description = description, tool_input_schema = schema,
                tool_annotations = opt_value (struct_field v 3 ''annotations'')\<rparr>
      | _ \<Rightarrow> None)"

definition decode_list :: "(json \<Rightarrow> 'a option) \<Rightarrow> json \<Rightarrow> 'a list option" where
  "decode_list decode v = Option.bind (json_as_array v) (\<lambda>vs. those (map decode vs))"

text \<open>\<open>ListToolsResult\<close>: the cursor is decoded, and only the tools are used.\<close>

definition decode_list_tools :: "json \<Rightarrow> mcp_tool list option" where
  "decode_list_tools v =
     (if \<not> struct_shape 2 2 v then None
      else case (Option.bind (struct_field v 0 ''tools'') (decode_list decode_tool), opt_field json_as_str (struct_field v 1 ''nextCursor'')) of
        (Some tools, Some _) \<Rightarrow> Some tools
      | _ \<Rightarrow> None)"

text \<open>An internally tagged variant: the tag is the member \<open>type\<close> or an array's first.\<close>

definition tagged_parts :: "json \<Rightarrow> (string \<times> json) option" where
  "tagged_parts v =
     (case v of
        JObj m \<Rightarrow> map_option (\<lambda>t. (t, v)) (Option.bind (map_of m ''type'') json_as_str)
      | JArr (t # vs) \<Rightarrow> map_option (\<lambda>t. (t, JArr vs)) (json_as_str t)
      | _ \<Rightarrow> None)"

definition decode_content :: "json \<Rightarrow> ToolContent option" where
  "decode_content v =
     Option.bind (tagged_parts v) (\<lambda>(t, b).
       if t = ''text'' \<and> struct_shape 1 1 b then map_option TextContent (Option.bind (struct_field b 0 ''text'') json_as_str)
       else if t = ''image'' \<and> struct_shape 2 2 b
       then (case (Option.bind (struct_field b 0 ''data'') json_as_str, Option.bind (struct_field b 1 ''mime_type'') json_as_str) of
               (Some d, Some mime) \<Rightarrow> Some (ImageContent d mime) | _ \<Rightarrow> None)
       else if t = ''resource'' \<and> struct_shape 1 1 b then map_option ResourceContent (struct_field b 0 ''resource'')
       else None)"

definition decode_call_result :: "json \<Rightarrow> call_tool_result option" where
  "decode_call_result v =
     (if \<not> struct_shape 2 3 v then None
      else case (Option.bind (struct_field v 0 ''content'') (decode_list decode_content),
                 opt_field json_as_bool (struct_field v 1 ''isError''), opt_field json_as_str (struct_field v 2 ''resultType'')) of
        (Some content, Some is_error, Some result_type) \<Rightarrow>
          Some \<lparr>cr_content = content, cr_is_error = is_error, cr_result_type = result_type\<rparr>
      | _ \<Rightarrow> None)"

section \<open>The context of a modern request\<close>

definition KERNEL_CLIENT_NAME :: string where
  "KERNEL_CLIENT_NAME = ''CLOTO-KERNEL''"

definition client_info :: "string \<Rightarrow> json" where
  "client_info kernel_version = json_object [(''name'', JStr KERNEL_CLIENT_NAME), (''version'', JStr kernel_version)]"

definition client_capabilities_extension :: json where
  "client_capabilities_extension = json_object [(''extensions'', json_object [(MGP_CAPABILITY_EXTENSION,
     json_object [(''version'', JStr MGP_VERSION), (''extensions'', json_strings CLIENT_EXTENSIONS)])])]"

definition modern_template :: "string \<Rightarrow> string \<Rightarrow> string \<Rightarrow> json_map" where
  "modern_template kernel_version version log_level =
     json_map_insert META_LOG_LEVEL (JStr log_level)
       (json_map_insert META_CLIENT_CAPABILITIES client_capabilities_extension
         (json_map_insert META_CLIENT_INFO (client_info kernel_version)
           (json_map_insert META_PROTOCOL_VERSION (JStr version) [])))"

text \<open>The kernel's own members replace the caller's; a level the caller chose is kept.\<close>

definition stamp_member :: "json_map \<Rightarrow> string \<times> json \<Rightarrow> json_map" where
  "stamp_member meta = (\<lambda>(k, v).
     if k = META_LOG_LEVEL \<and> map_of meta k \<noteq> None then meta else json_map_insert k v meta)"

definition stamped_meta :: "json_map \<Rightarrow> json option \<Rightarrow> json_map \<Rightarrow> json_map" where
  "stamped_meta template grants meta =
     (let stamped = foldl stamp_member meta template
      in case grants of None \<Rightarrow> stamped | Some g \<Rightarrow> json_map_insert META_MGP_GRANTS g stamped)"

definition stamp_modern_meta :: "json option \<Rightarrow> json_map \<Rightarrow> json option \<Rightarrow> json" where
  "stamp_modern_meta params template grants =
     (case params of
        Some v \<Rightarrow>
          (case v of
             JObj m \<Rightarrow>
               (let meta = (case map_of m ''_meta'' of Some (JObj given) \<Rightarrow> given | _ \<Rightarrow> [])
                in JObj (json_map_insert ''_meta'' (JObj (stamped_meta template grants meta)) m))
           | other \<Rightarrow> other)
      | None \<Rightarrow> JObj [(''_meta'', JObj (stamped_meta template grants []))])"

section \<open>State\<close>

definition MAX_PENDING_REQUESTS :: nat where
  "MAX_PENDING_REQUESTS = 100"

datatype call_error = CeRpc rpc_error | CeTimeout | CeOther string

type_synonym call_result = "call_error + json"

datatype client_task = DropPending int | LateSend json

record mcp_client =
  cl_pending :: "(int, nat) hmap"
  cl_next_id :: int
  cl_channels :: nat
  cl_sending :: "(int, json) hmap"
  cl_inflight :: "(int, string) hmap"
  cl_collectors :: "(int, unit) hmap"
  cl_tasks :: "client_task list"
  cl_alive :: bool
  cl_era :: era_handle
  cl_modern_meta :: "json_map option"
  cl_grants :: "json option"
  cl_cancels :: bool

text \<open>
  What a step does to the outside: a message handed to the transport, what a waiting call receives, a
  notification handed to the manager, a chunk handed to a stream. A full channel may still drop the last two.
\<close>

datatype client_event =
    Wire json
  | Resolve nat call_result
  | Forward json_rpc_notification
  | StreamPart int json

definition client_new :: "bool \<Rightarrow> era_handle \<Rightarrow> mcp_client" where
  "client_new cancels era =
     \<lparr>cl_pending = [], cl_next_id = 1, cl_channels = 0, cl_sending = [], cl_inflight = [], cl_collectors = [], cl_tasks = [],
      cl_alive = True, cl_era = era, cl_modern_meta = None, cl_grants = None, cl_cancels = cancels\<rparr>"

text \<open>\<open>AtomicI64::fetch_add\<close> wraps around.\<close>

definition next_i64 :: "int \<Rightarrow> int" where
  "next_i64 i = (if i = 2 ^ 63 - 1 then - (2 ^ 63) else i + 1)"

definition prepare_params :: "mcp_client \<Rightarrow> string \<Rightarrow> json option \<Rightarrow> json option" where
  "prepare_params c method params =
     (case cl_modern_meta c of
        None \<Rightarrow> params
      | Some template \<Rightarrow> Some (stamp_modern_meta params template (if method = ''tools/call'' then cl_grants c else None)))"

section \<open>Calls\<close>

definition limit_message :: string where
  "limit_message = ''MCP pending request limit reached ('' @ show_nat MAX_PENDING_REQUESTS @ '')''"

definition register_as :: "int \<Rightarrow> string \<Rightarrow> json \<Rightarrow> mcp_client \<Rightarrow> mcp_client" where
  "register_as i method msg c =
     c\<lparr>cl_pending := hm_insert i (cl_channels c) (cl_pending c), cl_channels := cl_channels c + 1,
       cl_sending := hm_insert i msg (cl_sending c), cl_inflight := hm_insert i method (cl_inflight c)\<rparr>"

definition register_request :: "string \<Rightarrow> json option \<Rightarrow> mcp_client \<Rightarrow> mcp_client \<times> (string + int)" where
  "register_request method params c =
     (let i = cl_next_id c; msg = request_json (new_request i method (prepare_params c method params));
          c' = c\<lparr>cl_next_id := next_i64 i\<rparr>
      in if length (cl_pending c') \<ge> MAX_PENDING_REQUESTS then (c', Err limit_message)
         else (register_as i method msg c', Ok i))"

definition call_params :: "string \<Rightarrow> json \<Rightarrow> json" where
  "call_params name args = json_object [(''name'', JStr name), (''arguments'', args)]"

definition streaming_params :: "string \<Rightarrow> json \<Rightarrow> json" where
  "streaming_params name args =
     json_object [(''name'', JStr name), (''arguments'', args), (''_mgp'', json_object [(''stream'', JBool True)])]"

definition register_streaming :: "string \<Rightarrow> json \<Rightarrow> mcp_client \<Rightarrow> mcp_client \<times> (string + int)" where
  "register_streaming name args c =
     (let i = cl_next_id c;
          msg = request_json (new_request i ''tools/call'' (prepare_params c ''tools/call'' (Some (streaming_params name args))));
          c' = c\<lparr>cl_next_id := next_i64 i, cl_collectors := hm_insert i () (cl_collectors c)\<rparr>
      in if length (cl_pending c') \<ge> MAX_PENDING_REQUESTS
         then (c'\<lparr>cl_collectors := hm_remove i (cl_collectors c')\<rparr>, Err limit_message)
         else (register_as i ''tools/call'' msg c', Ok i))"

definition drop_pending :: "int \<Rightarrow> mcp_client \<Rightarrow> mcp_client" where
  "drop_pending i c = c\<lparr>cl_pending := hm_remove i (cl_pending c)\<rparr>"

definition end_inflight :: "int \<Rightarrow> mcp_client \<Rightarrow> mcp_client" where
  "end_inflight i c = c\<lparr>cl_inflight := hm_remove i (cl_inflight c)\<rparr>"

text \<open>\<open>sent\<close> is false when the transport is gone or did not take the message in time.\<close>

definition send_done :: "int \<Rightarrow> bool \<Rightarrow> mcp_client \<Rightarrow> mcp_client \<times> client_event list" where
  "send_done i sent c =
     (case hm_get (cl_sending c) i of
        None \<Rightarrow> (c, [])
      | Some msg \<Rightarrow>
          (let c' = c\<lparr>cl_sending := hm_remove i (cl_sending c)\<rparr>
           in if sent then (c', [Wire msg])
              else (end_inflight i (drop_pending i c'), [])))"

definition send_notification :: "string \<Rightarrow> json option \<Rightarrow> bool \<Rightarrow> mcp_client \<Rightarrow> mcp_client \<times> client_event list" where
  "send_notification method params sent c =
     (c, if sent then [Wire (request_json (new_notification method (prepare_params c method params)))] else [])"

definition send_initialized_notification :: "bool \<Rightarrow> mcp_client \<Rightarrow> mcp_client \<times> client_event list" where
  "send_initialized_notification sent c =
     (c, if sent then [Wire (request_json (new_notification ''notifications/initialized'' None))] else [])"

section \<open>Withdrawal\<close>

datatype try_send = Taken | Full | Closed

definition cancelled_notification :: "mcp_client \<Rightarrow> int \<Rightarrow> string \<Rightarrow> json" where
  "cancelled_notification c i reason =
     (let params = json_object [(''requestId'', json_i64 i), (''reason'', JStr reason)]
      in request_json (new_notification CANCELLED_NOTIFICATION_METHOD
           (Some (case cl_modern_meta c of Some template \<Rightarrow> stamp_modern_meta (Some params) template None | None \<Rightarrow> params))))"

text \<open>\<open>busy\<close>: the pending requests are locked by another task; what cannot be done at once becomes a task.\<close>

definition withdraw :: "int \<Rightarrow> string \<Rightarrow> string \<Rightarrow> bool \<Rightarrow> try_send \<Rightarrow> mcp_client \<Rightarrow> mcp_client \<times> client_event list" where
  "withdraw i method reason busy room c =
     (let c' = (if busy then c\<lparr>cl_tasks := cl_tasks c @ [DropPending i]\<rparr> else drop_pending i c)
      in if \<not> cl_cancels c \<or> method = INITIALIZE_METHOD \<or> method = DISCOVER_METHOD then (c', [])
         else (let msg = cancelled_notification c i reason
               in case room of
                    Taken \<Rightarrow> (c', [Wire msg])
                  | Full \<Rightarrow> (c'\<lparr>cl_tasks := cl_tasks c' @ [LateSend msg]\<rparr>, [])
                  | Closed \<Rightarrow> (c', [])))"

text \<open>
  The end of an \<open>InFlight\<close>: answered, or given up at a deadline or by dropping the future, which may still
  be waiting for room to send.
\<close>

definition settled :: "int \<Rightarrow> mcp_client \<Rightarrow> mcp_client" where
  "settled i c = end_inflight i c"

definition give_up :: "int \<Rightarrow> string \<Rightarrow> bool \<Rightarrow> try_send \<Rightarrow> mcp_client \<Rightarrow> mcp_client \<times> client_event list" where
  "give_up i reason busy room c =
     (case hm_get (cl_inflight c) i of
        None \<Rightarrow> (c, [])
      | Some method \<Rightarrow>
          withdraw i method reason busy room (end_inflight i (c\<lparr>cl_sending := hm_remove i (cl_sending c)\<rparr>)))"

text \<open>The end of a streaming call's watchdog removes its collector, however it ended.\<close>

definition end_stream :: "int \<Rightarrow> mcp_client \<Rightarrow> mcp_client" where
  "end_stream i c = c\<lparr>cl_collectors := hm_remove i (cl_collectors c)\<rparr>"

definition run_task :: "bool \<Rightarrow> mcp_client \<Rightarrow> mcp_client \<times> client_event list" where
  "run_task sent c =
     (case cl_tasks c of
        [] \<Rightarrow> (c, [])
      | DropPending i # ts \<Rightarrow> (drop_pending i (c\<lparr>cl_tasks := ts\<rparr>), [])
      | LateSend msg # ts \<Rightarrow> (c\<lparr>cl_tasks := ts\<rparr>, if sent then [Wire msg] else []))"

section \<open>The response loop\<close>

definition parse_i64 :: "string \<Rightarrow> int option" where
  "parse_i64 s =
     (let negative = (s \<noteq> [] \<and> hd s = CHR ''-'');
          d = (case s of c # r \<Rightarrow> if c = CHR ''+'' \<or> c = CHR ''-'' then r else s | [] \<Rightarrow> []);
          n = (if negative then - int (digits_value d) else int (digits_value d))
      in if d \<noteq> [] \<and> list_all is_digit d \<and> - (2 ^ 63) \<le> n \<and> n < 2 ^ 63 then Some n else None)"

definition response_id :: "json \<Rightarrow> int option" where
  "response_id v = option_or (json_as_i64 v) (Option.bind (json_as_str v) parse_i64)"

definition channel_result :: "json_rpc_response \<Rightarrow> call_result" where
  "channel_result r =
     (case rs_error r of Some e \<Rightarrow> Err (CeRpc e) | None \<Rightarrow> Ok (unwrap_or (rs_result r) JNull))"

definition on_response :: "json_rpc_response \<Rightarrow> mcp_client \<Rightarrow> mcp_client \<times> client_event list" where
  "on_response r c =
     (case Option.bind (rs_id r) response_id of
        None \<Rightarrow> (c, [])
      | Some i \<Rightarrow>
          (case hm_get (cl_pending c) i of
             None \<Rightarrow> (c, [])
           | Some ch \<Rightarrow> (drop_pending i c, [Resolve ch (channel_result r)])))"

definition stream_request :: "json_rpc_notification \<Rightarrow> int option" where
  "stream_request n =
     (if nt_method n \<in> {''notifications/mgp.stream.chunk'', ''notifications/mgp.stream.progress''}
      then Option.bind (nt_params n) (\<lambda>p. Option.bind (json_get p ''request_id'') json_as_i64) else None)"

definition on_notification :: "json_rpc_notification \<Rightarrow> mcp_client \<Rightarrow> mcp_client \<times> client_event list" where
  "on_notification n c =
     (c, case stream_request n of
           Some i \<Rightarrow> (if hm_contains_key (cl_collectors c) i then [StreamPart i (unwrap_or (nt_params n) JNull)] else [Forward n])
         | None \<Rightarrow> [Forward n])"

text \<open>One line of the server, decoded; one that is no JSON, or no message, is logged.\<close>

definition on_line :: "json option \<Rightarrow> mcp_client \<Rightarrow> mcp_client \<times> client_event list" where
  "on_line line c =
     (if \<not> cl_alive c then (c, [])
      else case Option.bind line decode_message of
        Some (Response r) \<Rightarrow> on_response r c
      | Some (Notification n) \<Rightarrow> on_notification n c
      | None \<Rightarrow> (c, []))"

definition terminated :: call_result where
  "terminated = Err (CeOther ''MCP server process terminated'')"

definition on_eof :: "mcp_client \<Rightarrow> mcp_client \<times> client_event list" where
  "on_eof c =
     (if \<not> cl_alive c then (c, [])
      else (c\<lparr>cl_pending := [], cl_alive := False\<rparr>, map (\<lambda>(i, ch). Resolve ch terminated) (cl_pending c)))"

section \<open>Settling on an era\<close>

definition settle_modern_state :: "string \<Rightarrow> string \<Rightarrow> string \<Rightarrow> mcp_client \<Rightarrow> mcp_client" where
  "settle_modern_state kernel_version version log_level c =
     c\<lparr>cl_modern_meta := option_or (cl_modern_meta c) (Some (modern_template kernel_version version log_level)),
       cl_era := set_modern version (cl_era c)\<rparr>"

definition set_mgp_grants :: "json \<Rightarrow> mcp_client \<Rightarrow> mcp_client" where
  "set_mgp_grants g c = c\<lparr>cl_grants := Some g\<rparr>"

section \<open>All of it\<close>

datatype client_step =
    Call string "json option"
  | CallStreaming string json
  | SendDone int bool
  | Settle int
  | GiveUp int string bool try_send
  | EndStream int
  | RunTask bool
  | NotifyServer string "json option" bool
  | SendInitialized bool
  | Line "json option"
  | Eof
  | SettleModern string string string
  | SettleLegacy
  | SetGrants json

fun client_exec :: "client_step \<Rightarrow> mcp_client \<Rightarrow> mcp_client \<times> client_event list" where
  "client_exec (Call method params) c = (fst (register_request method params c), [])"
| "client_exec (CallStreaming name args) c = (fst (register_streaming name args c), [])"
| "client_exec (SendDone i sent) c = send_done i sent c"
| "client_exec (Settle i) c = (settled i c, [])"
| "client_exec (GiveUp i reason busy room) c = give_up i reason busy room c"
| "client_exec (EndStream i) c = (end_stream i c, [])"
| "client_exec (RunTask sent) c = run_task sent c"
| "client_exec (NotifyServer method params sent) c = send_notification method params sent c"
| "client_exec (SendInitialized sent) c = send_initialized_notification sent c"
| "client_exec (Line line) c = on_line line c"
| "client_exec Eof c = on_eof c"
| "client_exec (SettleModern kernel_version version log_level) c = (settle_modern_state kernel_version version log_level c, [])"
| "client_exec SettleLegacy c = (c\<lparr>cl_era := set_legacy (cl_era c)\<rparr>, [])"
| "client_exec (SetGrants g) c = (set_mgp_grants g c, [])"

definition client_step :: "mcp_client \<times> client_event list \<Rightarrow> client_step \<Rightarrow> mcp_client \<times> client_event list" where
  "client_step s l = (let (c', evs) = client_exec l (fst s) in (c', snd s @ evs))"

definition client_run :: "bool \<Rightarrow> era_handle \<Rightarrow> client_step list \<Rightarrow> mcp_client \<times> client_event list" where
  "client_run cancels era ls = foldl client_step (client_new cancels era, []) ls"

end
