(* ===== verification/Transport_Laws.thy ===== *)
theory Transport_Laws
  imports Transport Mcp_Client
begin

text \<open>
  Laws of \<open>Transport\<close>: what reaches the kernel of a child's output does not depend on how the bytes were
  cut into reads, what a child's environment never holds, and which addresses a remote server may have.
\<close>

section \<open>Lines\<close>

lemma butlast_split_on_Cons: "butlast (split_on c (c # s)) = [] # butlast (split_on c s)"
  by simp

lemma split_on_split:
  "split_on c (a @ b) = butlast (split_on c a) @ split_on c (last (split_on c a) @ b)"
proof (induction c a rule: split_on.induct)
  case (1 c)
  show ?case by simp
next
  case (2 c x s)
  show ?case
  proof (cases "x = c")
    case True
    then show ?thesis using 2 by simp
  next
    case False
    obtain p ps where parts: "split_on c s = p # ps" by (cases "split_on c s") simp_all
    obtain q qs where whole: "split_on c (s @ b) = q # qs" by (cases "split_on c (s @ b)") simp_all
    have ih: "split_on c (s @ b) = butlast (split_on c s) @ split_on c (last (split_on c s) @ b)" using 2 by auto
    show ?thesis using False ih parts whole by (cases ps) (auto split: list.splits)
  qed
qed

lemma take_lines_exact:
  assumes "line_feed \<notin> set buf"
  shows "take_lines buf s = (butlast (split_on line_feed (buf @ s)), last (split_on line_feed (buf @ s)))"
  using assms
proof (induction buf s rule: take_lines.induct)
  case (1 buf)
  then show ?case by (simp add: split_on_no_sep)
next
  case (2 buf b bs)
  show ?case
  proof (cases "b = line_feed")
    case True
    then show ?thesis using 2 by (simp add: split_on_append)
  next
    case False
    then show ?thesis using 2 by simp
  qed
qed

lemma last_split_on_free: "c \<notin> set (last (split_on c s))"
  by (rule split_on_free [OF last_in_set]) simp

lemma map_filter_append: "List.map_filter f (xs @ ys) = List.map_filter f xs @ List.map_filter f ys"
  by (simp add: List.map_filter_def)

lemma later_lines_short:
  assumes "\<forall>l \<in> set (split_on c (a @ b)). P l"
  shows "\<forall>l \<in> set (split_on c (last (split_on c a) @ b)). P l"
  using assms by (subst (asm) split_on_split) auto

lemma first_part_le:
  "\<exists>l \<in> set (split_on c (a @ b)). length a \<le> length l" if "c \<notin> set a"
  using that
proof (induction a)
  case Nil
  show ?case by (metis last_in_set le0 list.size(3) split_on_neq_Nil)
next
  case (Cons x a)
  have away: "x \<noteq> c" "c \<notin> set a" using Cons.prems by auto
  obtain p ps where parts: "split_on c (a @ b) = p # ps" by (cases "split_on c (a @ b)") simp_all
  have head: "length a \<le> length p"
    using away(2) parts
  proof (induction a arbitrary: p ps)
    case (Cons y a)
    then show ?case by (auto split: list.splits if_splits)
  qed simp
  show ?case using away(1) parts head by simp
qed

lemma read_stdout_exact:
  assumes "line_feed \<notin> set buf" "\<forall>l \<in> set (split_on line_feed (buf @ concat cs)). length l \<le> MAX_STDIO_LINE_BYTES"
  shows "read_stdout lossy buf (map Chunk cs @ [EndOfFile]) =
         List.map_filter (stdio_line lossy) (butlast (split_on line_feed (buf @ concat cs)))"
  using assms
proof (induction cs arbitrary: buf)
  case Nil
  then show ?case by (simp add: split_on_no_sep List.map_filter_simps)
next
  case (Cons c cs)
  let ?rest = "last (split_on line_feed (buf @ c))"
  have later: "\<forall>l \<in> set (split_on line_feed (?rest @ concat cs)). length l \<le> MAX_STDIO_LINE_BYTES"
    by (rule later_lines_short) (use Cons.prems(2) in simp)
  have short: "length ?rest \<le> MAX_STDIO_LINE_BYTES"
    using first_part_le [OF last_split_on_free [of line_feed "buf @ c"], of "concat cs"] later
    by (meson dual_order.trans)
  have whole: "butlast (split_on line_feed (buf @ c @ concat cs)) =
      butlast (split_on line_feed (buf @ c)) @ butlast (split_on line_feed (?rest @ concat cs))"
    using split_on_split [of line_feed "buf @ c" "concat cs"] by (simp add: butlast_append)
  show ?case
    using Cons.IH [OF last_split_on_free later] short Cons.prems(1)
    by (simp add: take_lines_exact whole map_filter_append Let_def not_less)
qed

text \<open>Whatever the sizes of the reads a child's output arrives in, the messages the kernel takes from it
  are the same: the complete lines of the whole output, in their order, each trimmed and none of them empty,
  as long as no line is longer than the limit. What follows the last line end is not taken.\<close>

theorem stdout_lines_whatever_the_reads:
  assumes "\<forall>l \<in> set (split_on line_feed (concat cs)). length l \<le> MAX_STDIO_LINE_BYTES"
  shows "read_stdout lossy [] (map Chunk cs @ [EndOfFile]) =
         List.map_filter (stdio_line lossy) (butlast (split_on line_feed (concat cs)))"
  using read_stdout_exact [of "[]" cs lossy] assms by simp

lemma stdout_lines_witness:
  "read_stdout (\<lambda>b. b) [] (map Chunk [''a'', ''b'' @ [line_feed] @ ''c'', [line_feed] @ ''d''] @ [EndOfFile]) = [''ab'', ''c'']"
proof -
  have limit: "\<forall>l \<in> set (split_on line_feed (concat [''a'', ''b'' @ [line_feed] @ ''c'', [line_feed] @ ''d''])).
      length l \<le> MAX_STDIO_LINE_BYTES"
    by (simp add: line_feed_def MAX_STDIO_LINE_BYTES_def)
  show ?thesis
    unfolding stdout_lines_whatever_the_reads [OF limit]
    by (simp add: line_feed_def List.map_filter_simps stdio_line_def trim_graphic graphic_def)
qed

lemma unended_line_is_lost: "line_feed \<notin> set s \<Longrightarrow> length s \<le> MAX_STDIO_LINE_BYTES \<Longrightarrow> read_stdout lossy [] [Chunk s, EndOfFile] = []"
  using read_stdout_exact [of "[]" "[s]" lossy] by (simp add: split_on_no_sep List.map_filter_simps)

section \<open>The environment\<close>

lemma get_put_all: "hm_get (put_all kvs m) k = (case map_of (rev kvs) k of Some v \<Rightarrow> Some v | None \<Rightarrow> hm_get m k)"
  unfolding put_all_def
  by (induction kvs arbitrary: m) (auto split: option.splits)

lemma get_remove_all: "hm_get (remove_all ks m) k = (if k \<in> set ks then None else hm_get m k)"
  unfolding remove_all_def by (induction ks arbitrary: m) auto

lemma child_env_seal_key: "hm_get (child_env kernel_env env port token isolation shown sensitive) ''CLOTO_SEAL_KEY'' = None"
  by (simp add: child_env_def Let_def get_remove_all get_put_all sandbox_env_def proxy_env_def split: option.splits)

lemma child_env_sensitive:
  "k \<in> set sensitive \<Longrightarrow> hm_get (child_env kernel_env env port token (Some profile) shown sensitive) k = None"
  by (simp add: child_env_def Let_def get_remove_all)

lemma proxied_names: "k \<in> {''HTTP_PROXY'', ''HTTPS_PROXY'', ''CLOTO_LLM_PROXY''} \<Longrightarrow> map_of (rev (proxy_env url)) k = Some url"
  by (auto simp: proxy_env_def)

lemma boxed_names:
  "k \<in> {''CLOTO_SANDBOX_DIR'', ''HOME'', ''TMPDIR'', ''TMP'', ''TEMP''} \<Longrightarrow>
   map_of (rev (sandbox_env dir)) k = Some dir \<and> map_of (rev (proxy_env url)) k = None"
  by (auto simp: sandbox_env_def proxy_env_def)

lemma child_env_network:
  "ip_network_scope profile = NetProxyOnly \<Longrightarrow> k \<in> {''HTTP_PROXY'', ''HTTPS_PROXY'', ''CLOTO_LLM_PROXY''} \<Longrightarrow> k \<notin> set sensitive \<Longrightarrow>
   hm_get (child_env kernel_env env port token (Some profile) shown sensitive) k = Some (''http://127.0.0.1:'' @ show_nat (unat port))"
  by (simp add: child_env_def Let_def get_remove_all get_put_all [where kvs = "proxy_env u" for u] proxied_names del: insert_iff)

lemma child_env_home:
  "ip_filesystem_scope profile \<noteq> FsUnrestricted \<Longrightarrow> k \<in> {''CLOTO_SANDBOX_DIR'', ''HOME'', ''TMPDIR'', ''TMP'', ''TEMP''} \<Longrightarrow> k \<notin> set sensitive \<Longrightarrow>
   hm_get (child_env kernel_env env port token (Some profile) shown sensitive) k = Some (shown (ip_sandbox_dir profile))"
  by (simp add: child_env_def Let_def get_remove_all get_put_all [where kvs = "proxy_env u" for u]
        get_put_all [where kvs = "sandbox_env d" for d] boxed_names del: insert_iff)

lemma started_child:
  assumes "start_child venv exists make_dir kernel_env command args env isolation port token shown sensitive = Ok c"
  shows "ch_env c = child_env kernel_env env port token isolation shown sensitive"
    and "resolve_python_command venv command = (ch_command c, True) \<or> validate_command command = Ok (ch_command c)"
    and "ch_directory c = (case isolation of None \<Rightarrow> None
         | Some p \<Rightarrow> if ip_filesystem_scope p = FsUnrestricted then None else Some (ip_sandbox_dir p))"
  using assms
  by (auto simp: start_child_def Let_def and_then_Ok_iff resolve_python_command_def
        split: prod.splits if_splits option.splits)


definition boxed_profile :: isolation_profile where
  "boxed_profile = \<lparr>ip_trust_level = Standard, ip_sandbox_dir = [''data'', ''box''], ip_filesystem_scope = FsSandbox,
     ip_network_scope = NetProxyOnly, ip_memory_limit_mb = Some 512, ip_max_child_processes = Some 5, ip_open_file_limit = None\<rparr>"

lemma node_is_allowed: "validate_command ''node'' = Ok ''node''"
  by code_simp


text \<open>The name is removed and the value is not: a configuration may ask for it under another name.\<close>

lemma seal_key_under_another_name:
  "hm_get (child_env [(''CLOTO_SEAL_KEY'', key)] [(''KEY'', ''${CLOTO_SEAL_KEY}'')] port token None shown sensitive) ''KEY'' = Some key"
  by (simp add: child_env_def Let_def get_put_all resolve_env_value_def strip_prefix_def starts_with_def ends_with_def hm_get_Cons)

text \<open>No network is the environment of any network.\<close>

lemma no_network_is_any_network:
  "child_env kernel_env env port token (Some (profile\<lparr>ip_network_scope := NetNone\<rparr>)) shown sensitive =
   child_env kernel_env env port token (Some (profile\<lparr>ip_network_scope := NetUnrestricted\<rparr>)) shown sensitive"
  by (simp add: child_env_def Let_def)

section \<open>Addresses\<close>

lemma http_url_Ok:
  assumes "validate_http_url url = Ok u"
  shows "starts_with url ''https://'' \<or> starts_with url ''http://'' \<and> url_host (drop 7 url) \<in> set local_hosts"
  using assms by (auto simp: validate_http_url_def split: if_splits)

text \<open>What stands before the first colon is taken for the host, so a user name may stand for one.\<close>

lemma user_name_taken_for_host: "is_ok (validate_http_url ''http://localhost:x@evil.example/mcp'')"
  by code_simp

lemma ipv6_loopback_refused: "\<not> is_ok (validate_http_url ''http://[::1]:8080/mcp'')"
  by code_simp

section \<open>Failures of a remote server\<close>

lemma decode_error_envelope:
  "decode_message (error_envelope i msg) =
     Some (Response \<lparr>rs_id = opt_value (Some i), rs_result = None, rs_error = Some \<lparr>re_code = - 32000, re_message = msg, re_data = None\<rparr>\<rparr>)"
  by (simp add: error_envelope_def decode_message_def decode_notification_def decode_response_def decode_rpc_error_def
        struct_shape_def struct_field_def opt_field_def opt_value_def json_object_def json_as_str_def json_i64_def json_as_i64_def)

definition http_failed :: "http_outcome \<Rightarrow> bool" where
  "http_failed outcome = (case outcome of HttpResponse r \<Rightarrow> \<not> is_success (hp_status r) | _ \<Rightarrow> True)"

lemma failed_answer:
  "http_failed outcome \<Longrightarrow> parsed = Some v \<Longrightarrow> json_get v ''id'' = Some i \<Longrightarrow>
   \<exists>msg. http_answer jt lossy parsed outcome = [json_to_string jt (error_envelope i msg)]"
  by (auto simp: http_answer_def http_failed_def Let_def split: http_outcome.splits)

text \<open>C22. When a request to a remote server fails on the way, times out or is answered with a status that is no
  success, the transport answers for the server: one line, which ends exactly the call whose id the request
  bore, with a JSON-RPC error, and leaves every other call waiting.\<close>

theorem http_failure_ends_its_call:
  assumes "json_from_str jt text = Some (request_json (new_request i method params))"
    and "- (2 ^ 63) \<le> i" "i < 2 ^ 63"
    and "\<And>msg. json_reads_back jt (error_envelope (json_i64 i) msg)"
    and "http_failed outcome" "cl_alive c" "hm_get (cl_pending c) i = Some ch"
  shows "\<exists>line e. snd (snd (http_turn jt lossy auth era session text outcome)) = [line] \<and>
         on_line (json_from_str jt line) c = (drop_pending i c, [Resolve ch (Err (CeRpc e))]) \<and> re_code e = - 32000"
proof -
  have "json_get (request_json (new_request i method params)) ''id'' = Some (json_i64 i)"
    by (simp add: new_request_def json_option_def)
  then obtain msg where line: "http_answer jt lossy (json_from_str jt text) outcome = [json_to_string jt (error_envelope (json_i64 i) msg)]"
    using failed_answer [OF assms(5) assms(1)] by blast
  have "opt_value (Some (json_i64 i)) = Some (json_i64 i)" by (simp add: opt_value_def json_i64_def)
  moreover have "response_id (json_i64 i) = Some i"
    using assms(2,3) by (auto simp: response_id_def json_i64_def json_as_i64_def)
  ultimately show ?thesis
    using line assms(4) [of msg] assms(6,7)
    by (auto simp: http_turn_def Let_def json_reads_back_def on_line_def decode_error_envelope on_response_def channel_result_def)
qed

text \<open>A printer of one request and of the envelopes for it, which are told apart by their first character.\<close>

definition sample_text :: json_text where
  "sample_text = \<lparr>
     json_to_string = (\<lambda>v. case Option.bind (json_get v ''error'') (\<lambda>e. Option.bind (json_get e ''message'') json_as_str) of
        Some msg \<Rightarrow> CHR ''e'' # msg | None \<Rightarrow> ''q''),
     json_from_str = (\<lambda>s. case s of [] \<Rightarrow> None
        | c # msg \<Rightarrow> if c = CHR ''e'' then Some (error_envelope (json_i64 1) msg) else Some (request_json (new_request 1 ''tools/list'' None)))\<rparr>"

lemma sample_text_reads_back: "json_reads_back sample_text (error_envelope (json_i64 1) msg)"
  by (simp add: json_reads_back_def sample_text_def error_envelope_def json_as_str_def)

lemma http_failure_ends_its_call_witness:
  "\<exists>line e. snd (snd (http_turn sample_text (\<lambda>b. b) None era_new None ''q'' HttpTimedOut)) = [line] \<and>
      on_line (json_from_str sample_text line) ((client_new False era_new)\<lparr>cl_pending := [(1, 0)]\<rparr>) =
        (drop_pending 1 ((client_new False era_new)\<lparr>cl_pending := [(1, 0)]\<rparr>), [Resolve 0 (Err (CeRpc e))]) \<and> re_code e = - 32000"
  by (rule http_failure_ends_its_call [OF _ _ _ sample_text_reads_back])
     (simp_all add: sample_text_def http_failed_def client_new_def hm_get_Cons)

text \<open>A body that cannot be read, and a stream that breaks, leave the call to its own deadline.\<close>

lemma broken_body_answers_nothing:
  "is_success (hp_status r) \<Longrightarrow> \<not> str_contains (hp_content_type r) ''text/event-stream'' \<Longrightarrow> hp_body r = Inl e \<Longrightarrow>
   http_answer jt lossy parsed (HttpResponse r) = []"
  by (simp add: http_answer_def Let_def)

text \<open>The modern era has no sessions.\<close>

lemma no_session_when_modern:
  "is_modern era \<Longrightarrow> http_session era session outcome = session \<and> http_headers auth era session parsed = http_headers auth era None parsed"
  by (simp add: http_session_def http_headers_def Let_def split: http_outcome.splits)

end
