(* ===== verification/Client_Laws.thy ===== *)
theory Client_Laws
  imports Mcp_Client
begin

text \<open>
  Laws of \<open>Mcp_Client\<close>: whatever the server sends and whenever callers give up, a call is answered at most
  once, at most \<open>MAX_PENDING_REQUESTS\<close> wait, every message on the wire has the shape of JSON-RPC, and the
  context of a modern request is the kernel's.
\<close>

section \<open>The book of waiting calls\<close>

text \<open>Who waits under which id, how many channels there are, and which have been resolved.\<close>

definition book_ok :: "(int, nat) hmap \<Rightarrow> nat \<Rightarrow> nat list \<Rightarrow> bool" where
  "book_ok pending channels resolved \<longleftrightarrow>
     hm_wf pending \<and> length pending \<le> MAX_PENDING_REQUESTS \<and>
     distinct (map snd pending @ resolved) \<and> (\<forall>ch \<in> set (map snd pending @ resolved). ch < channels)"

lemma distinct_snd_filter: "distinct (map snd m) \<Longrightarrow> distinct (map snd (filter P m))"
  by (induction m) auto

lemma distinct_snd_remove: "distinct (map snd m) \<Longrightarrow> distinct (map snd (hm_remove i m))"
  by (simp add: hm_remove_def distinct_snd_filter)

lemma hm_remove_shorter: "length (hm_remove i m) \<le> length m"
  by (simp add: hm_remove_def)

lemma set_hm_remove: "set (hm_remove i m) \<subseteq> set m"
  by (auto simp: hm_remove_def)

lemma hm_remove_gone: "hm_wf m \<Longrightarrow> hm_get m i = Some ch \<Longrightarrow> distinct (map snd m) \<Longrightarrow> ch \<notin> snd ` set (hm_remove i m)"
proof -
  assume wf: "hm_wf m" and got: "hm_get m i = Some ch" and d: "distinct (map snd m)"
  have entry: "(i, ch) \<in> set m" using got by (rule hm_get_in_set)
  have "(j, ch) \<in> set m \<Longrightarrow> j = i" for j
    using d entry by (metis (no_types, lifting) distinct_map inj_on_eq_iff prod.inject snd_conv)
  then show ?thesis by (auto simp: hm_remove_def)
qed

lemma book_drop: "book_ok pending channels res \<Longrightarrow> book_ok (hm_remove i pending) channels res"
  using hm_remove_shorter [of i pending] set_hm_remove [of i pending] distinct_snd_remove [of pending i]
  by (auto simp: book_ok_def)

lemma book_register:
  assumes "book_ok pending channels res" "length pending < MAX_PENDING_REQUESTS"
  shows "book_ok (hm_insert i channels pending) (Suc channels) res"
proof -
  have kept: "book_ok (hm_remove i pending) channels res" using assms(1) by (rule book_drop)
  have fits: "length (hm_insert i channels pending) \<le> MAX_PENDING_REQUESTS"
    using hm_remove_shorter [of i pending] assms(2) by (simp add: hm_insert_def)
  have wf: "hm_wf (hm_insert i channels pending)" using assms(1) by (simp add: book_ok_def)
  have fresh: "\<forall>ch \<in> set (map snd (hm_remove i pending) @ res). ch < channels" using kept by (simp add: book_ok_def)
  then have "distinct (channels # map snd (hm_remove i pending) @ res)" using kept by (auto simp: book_ok_def)
  then have "distinct (map snd (hm_insert i channels pending) @ res)" by (simp add: hm_insert_def)
  moreover have "\<forall>ch \<in> set (map snd (hm_insert i channels pending) @ res). ch < Suc channels"
    using fresh by (auto simp: hm_insert_def ball_Un intro: less_SucI)
  ultimately show ?thesis using fits wf by (simp add: book_ok_def)
qed

lemma book_resolve:
  assumes "book_ok pending channels res" "hm_get pending i = Some ch"
  shows "book_ok (hm_remove i pending) channels (res @ [ch])"
proof -
  have entry: "ch \<in> snd ` set pending" using hm_get_in_set [OF assms(2)] by force
  have gone: "ch \<notin> snd ` set (hm_remove i pending)"
    using assms by (intro hm_remove_gone) (auto simp: book_ok_def)
  show ?thesis
    using book_drop [OF assms(1), of i] assms(1) entry gone by (auto simp: book_ok_def)
qed

lemma book_end: "book_ok pending channels res \<Longrightarrow> book_ok [] channels (res @ map snd pending)"
  by (auto simp: book_ok_def hm_wf_def)

section \<open>A call is answered at most once\<close>

definition resolved_channels :: "client_event list \<Rightarrow> nat list" where
  "resolved_channels evs = List.map_filter (\<lambda>e. case e of Resolve ch _ \<Rightarrow> Some ch | _ \<Rightarrow> None) evs"

lemma resolved_simps [simp]:
  "resolved_channels [] = []"
  "resolved_channels (Resolve ch r # evs) = ch # resolved_channels evs"
  "resolved_channels (Wire m # evs) = resolved_channels evs"
  "resolved_channels (Forward n # evs) = resolved_channels evs"
  "resolved_channels (StreamPart i v # evs) = resolved_channels evs"
  "resolved_channels (xs @ ys) = resolved_channels xs @ resolved_channels ys"
  by (simp_all add: resolved_channels_def List.map_filter_def)

lemma resolved_all: "resolved_channels (map (\<lambda>(i, ch). Resolve ch r) m) = map snd m"
  by (induction m) auto

definition client_booked :: "mcp_client \<times> client_event list \<Rightarrow> bool" where
  "client_booked s \<longleftrightarrow> book_ok (cl_pending (fst s)) (cl_channels (fst s)) (resolved_channels (snd s))"

definition booked_step :: "mcp_client \<Rightarrow> nat list \<Rightarrow> mcp_client \<times> client_event list \<Rightarrow> bool" where
  "booked_step c res out \<longleftrightarrow>
     (book_ok (cl_pending c) (cl_channels c) res \<longrightarrow> book_ok (cl_pending (fst out)) (cl_channels (fst out)) (res @ resolved_channels (snd out)))"

lemma booked_register:
  "booked_step c res (fst (register_request method params c), [])"
  "booked_step c res (fst (register_streaming name args c), [])"
  by (auto simp: booked_step_def register_request_def register_streaming_def register_as_def Let_def book_register)

lemma booked_withdraw: "booked_step c res (withdraw i method reason busy room c)"
  by (auto simp: booked_step_def withdraw_def Let_def drop_pending_def book_drop split: try_send.splits)

lemma booked_give_up: "booked_step c res (give_up i reason busy room c)"
  using booked_withdraw [of "end_inflight i (c\<lparr>cl_sending := hm_remove i (cl_sending c)\<rparr>)"]
  by (auto simp: booked_step_def give_up_def end_inflight_def split: option.splits)

lemma booked_send_done: "booked_step c res (send_done i sent c)"
  by (auto simp: booked_step_def send_done_def Let_def end_inflight_def drop_pending_def book_drop split: option.splits)

lemma booked_run_task: "booked_step c res (run_task sent c)"
  by (auto simp: booked_step_def run_task_def drop_pending_def book_drop split: list.splits client_task.splits)

lemma booked_line: "booked_step c res (on_line line c)"
  by (auto simp: booked_step_def on_line_def on_response_def on_notification_def drop_pending_def book_resolve
        split: option.splits json_rpc_message.splits)

lemma booked_eof: "booked_step c res (on_eof c)"
  by (auto simp: booked_step_def on_eof_def resolved_all book_end)

lemma booked_exec: "booked_step c res (client_exec l c)"
  by (cases l)
     (simp_all add: booked_register booked_send_done booked_give_up booked_run_task booked_line booked_eof,
      simp_all add: booked_step_def settled_def end_inflight_def end_stream_def send_notification_def
        send_initialized_notification_def settle_modern_state_def set_mgp_grants_def)

interpretation booked: det_system "(client_new cancels era, [])" client_step client_booked
  for cancels era
proof
  show "client_booked (client_new cancels era, [])"
    by (simp add: client_booked_def client_new_def book_ok_def hm_wf_def)
next
  fix s l
  assume "client_booked s"
  then show "client_booked (client_step s l)"
    using booked_exec [of "fst s" "resolved_channels (snd s)" l]
    by (auto simp: client_booked_def client_step_def booked_step_def split: prod.splits)
qed

text \<open>C19. Whatever lines a server sends, in any order with the kernel's calls, the ends of its sends, callers
  giving up and the loss of the process: no call is ever answered twice, a call that waits has not been
  answered, and no more than \<open>MAX_PENDING_REQUESTS\<close> wait.\<close>

theorem call_answered_once:
  "distinct (resolved_channels (snd (client_run cancels era ls))) \<and>
   snd ` set (cl_pending (fst (client_run cancels era ls))) \<inter> set (resolved_channels (snd (client_run cancels era ls))) = {} \<and>
   length (cl_pending (fst (client_run cancels era ls))) \<le> MAX_PENDING_REQUESTS"
  using booked.after_inv [of cancels era ls] by (auto simp: client_run_def client_booked_def book_ok_def)

text \<open>Which call: the one whose id the line bears.\<close>

lemma line_resolves:
  assumes "Resolve ch r \<in> set (snd (on_line line c))"
  obtains v resp i where "line = Some v" "decode_message v = Some (Response resp)" "Option.bind (rs_id resp) response_id = Some i"
    "hm_get (cl_pending c) i = Some ch" "r = channel_result resp" "on_line line c = (drop_pending i c, [Resolve ch r])"
  using assms
  by (cases line)
     (auto simp: on_line_def on_response_def on_notification_def split: if_splits option.splits json_rpc_message.splits)

lemma eof_fails_all:
  "cl_alive c \<Longrightarrow> on_eof c = (c\<lparr>cl_pending := [], cl_alive := False\<rparr>, map (\<lambda>(i, ch). Resolve ch terminated) (cl_pending c))"
  by (simp add: on_eof_def)

section \<open>What is on the wire\<close>

definition rpc_typed :: "json \<Rightarrow> bool" where
  "rpc_typed j \<longleftrightarrow>
     json_get j ''jsonrpc'' = Some (JStr ''2.0'') \<and>
     (case json_get j ''method'' of Some (JStr _) \<Rightarrow> True | _ \<Rightarrow> False) \<and>
     (case json_get j ''id'' of Some v \<Rightarrow> v = JNull \<or> json_as_i64 v \<noteq> None | None \<Rightarrow> False)"

definition message_id :: "json \<Rightarrow> int option" where
  "message_id j = Option.bind (json_get j ''id'') json_as_i64"

definition wire_messages :: "client_event list \<Rightarrow> json list" where
  "wire_messages evs = List.map_filter (\<lambda>e. case e of Wire m \<Rightarrow> Some m | _ \<Rightarrow> None) evs"

definition wire_ids :: "client_event list \<Rightarrow> int list" where
  "wire_ids evs = List.map_filter message_id (wire_messages evs)"

lemma wire_simps [simp]:
  "wire_messages [] = []"
  "wire_messages (Wire m # evs) = m # wire_messages evs"
  "wire_messages (Resolve ch r # evs) = wire_messages evs"
  "wire_messages (Forward n # evs) = wire_messages evs"
  "wire_messages (StreamPart i v # evs) = wire_messages evs"
  "wire_messages (xs @ ys) = wire_messages xs @ wire_messages ys"
  by (simp_all add: wire_messages_def List.map_filter_def)

lemma wire_ids_simps [simp]:
  "wire_ids [] = []"
  "wire_ids (xs @ ys) = wire_ids xs @ wire_ids ys"
  by (simp_all add: wire_ids_def List.map_filter_def)

lemma wire_none: "wire_messages evs = [] \<Longrightarrow> wire_ids evs = []"
  by (simp add: wire_ids_def List.map_filter_def)

lemma wire_resolves [simp]: "wire_messages (map (\<lambda>(i, ch). Resolve ch r) m) = []"
  by (induction m) auto

lemma request_typed:
  "- (2 ^ 63) \<le> i \<Longrightarrow> i < 2 ^ 63 \<Longrightarrow>
   rpc_typed (request_json (new_request i method params)) \<and> message_id (request_json (new_request i method params)) = Some i"
  by (auto simp: rpc_typed_def message_id_def new_request_def json_option_def json_i64_def json_as_i64_def)

lemma notification_typed:
  "rpc_typed (request_json (new_notification method params)) \<and> message_id (request_json (new_notification method params)) = None"
  by (simp add: rpc_typed_def message_id_def new_notification_def json_option_def json_as_i64_def)

text \<open>The numbering: ids below the next, each used for one message, none in a notification.\<close>

definition numbered :: "mcp_client \<Rightarrow> json list \<Rightarrow> int list \<Rightarrow> bool" where
  "numbered c wired ids \<longleftrightarrow>
     1 \<le> cl_next_id c \<and> distinct (map fst (cl_sending c) @ ids) \<and>
     (\<forall>i \<in> set (map fst (cl_sending c) @ ids). i < cl_next_id c) \<and>
     (\<forall>(i, m) \<in> set (cl_sending c). rpc_typed m \<and> message_id m = Some i) \<and>
     (\<forall>m. LateSend m \<in> set (cl_tasks c) \<longrightarrow> rpc_typed m \<and> message_id m = None) \<and>
     (\<forall>m \<in> set wired. rpc_typed m)"

definition numbered_step :: "mcp_client \<Rightarrow> json list \<Rightarrow> int list \<Rightarrow> mcp_client \<times> client_event list \<Rightarrow> bool" where
  "numbered_step c wired ids out \<longleftrightarrow>
     (numbered c wired ids \<longrightarrow> cl_next_id c < 2 ^ 63 - 1 \<longrightarrow>
      numbered (fst out) (wired @ wire_messages (snd out)) (ids @ wire_ids (snd out)) \<and> cl_next_id (fst out) \<le> cl_next_id c + 1)"

lemma numbered_remove:
  assumes "numbered c wired ids" "cl_next_id c' = cl_next_id c" "cl_tasks c' = cl_tasks c"
    "cl_sending c' = hm_remove i (cl_sending c)"
  shows "numbered c' wired ids"
proof -
  have fewer: "set (cl_sending c') \<subseteq> set (cl_sending c)" using assms(4) set_hm_remove by simp
  then have keys: "set (map fst (cl_sending c') @ ids) \<subseteq> set (map fst (cl_sending c) @ ids)" by auto
  have "distinct (map fst (cl_sending c') @ ids)"
    using assms(1,4) keys fewer by (auto simp: numbered_def hm_remove_def distinct_map_fst_filter)
  then show ?thesis
    using assms(1-3) fewer keys unfolding numbered_def by (metis (no_types, lifting) subsetD)
qed

lemma numbered_cong:
  "numbered c wired ids \<Longrightarrow> cl_next_id c' = cl_next_id c \<Longrightarrow> cl_tasks c' = cl_tasks c \<Longrightarrow> cl_sending c' = cl_sending c \<Longrightarrow>
   numbered c' wired ids"
  by (simp add: numbered_def)

lemma numbered_register:
  assumes "numbered c wired ids" "cl_next_id c < 2 ^ 63 - 1" "cl_tasks c' = cl_tasks c" "cl_next_id c' = cl_next_id c + 1"
    "cl_sending c' = hm_insert (cl_next_id c) (request_json (new_request (cl_next_id c) verb params)) (cl_sending c)"
  shows "numbered c' wired ids"
proof -
  define msg where "msg = request_json (new_request (cl_next_id c) verb params)"
  have below: "\<forall>i \<in> set (map fst (cl_sending c) @ ids). i < cl_next_id c" using assms(1) by (simp add: numbered_def)
  then have "\<forall>p \<in> set (cl_sending c). fst p \<noteq> cl_next_id c" by (metis UnCI image_eqI less_irrefl list.set_map set_append)
  then have "hm_remove (cl_next_id c) (cl_sending c) = cl_sending c"
    by (auto simp: hm_remove_def filter_id_conv)
  then have sending: "cl_sending c' = (cl_next_id c, msg) # cl_sending c"
    using assms(5) by (simp add: hm_insert_def msg_def)
  have typed: "rpc_typed msg \<and> message_id msg = Some (cl_next_id c)"
    unfolding msg_def using assms(1,2) by (intro request_typed) (auto simp: numbered_def)
  have fresh: "cl_next_id c \<notin> set (map fst (cl_sending c) @ ids)" using below by blast
  have upto: "\<forall>i \<in> set (map fst (cl_sending c') @ ids). i < cl_next_id c'"
    using below by (auto simp: sending assms(4) ball_Un intro: less_trans)
  have once: "distinct (map fst (cl_sending c') @ ids)" using assms(1) fresh by (simp add: sending numbered_def)
  have all_typed: "\<forall>(i, m) \<in> set (cl_sending c'). rpc_typed m \<and> message_id m = Some i"
    using assms(1) typed by (simp add: sending numbered_def)
  show ?thesis
    using assms(1) upto once all_typed by (simp add: numbered_def assms(3,4))
qed

lemma numbered_nothing_sent:
  assumes "numbered c wired ids" "cl_next_id c' = cl_next_id c + 1" "cl_tasks c' = cl_tasks c" "cl_sending c' = cl_sending c"
  shows "numbered c' wired ids"
proof -
  have "\<forall>i \<in> set (map fst (cl_sending c) @ ids). i < cl_next_id c + 1"
    using assms(1) unfolding numbered_def by (metis zless_add1_eq)
  then show ?thesis using assms by (simp add: numbered_def)
qed

lemma register_as_fields [simp]:
  "cl_next_id (register_as i method msg c) = cl_next_id c" "cl_tasks (register_as i method msg c) = cl_tasks c"
  "cl_sending (register_as i method msg c) = hm_insert i msg (cl_sending c)"
  by (simp_all add: register_as_def)

lemma next_i64_below: "i < 2 ^ 63 - 1 \<Longrightarrow> next_i64 i = i + 1"
  by (simp add: next_i64_def)

lemma numbered_request: "numbered_step c wired ids (fst (register_request method params c), [])"
proof (cases "length (cl_pending c) \<ge> MAX_PENDING_REQUESTS")
  case True
  then show ?thesis
    by (auto simp: numbered_step_def register_request_def Let_def next_i64_below intro: numbered_nothing_sent [where c = c])
next
  case False
  have "numbered c wired ids \<Longrightarrow> cl_next_id c < 2 ^ 63 - 1 \<Longrightarrow> numbered (fst (register_request method params c)) wired ids"
    by (rule numbered_register [where c = c and verb = "method" and params = "prepare_params c method params"])
       (use False in \<open>simp_all add: register_request_def Let_def next_i64_below\<close>)
  then show ?thesis
    using False by (simp add: numbered_step_def) (simp add: register_request_def Let_def next_i64_below)
qed

lemma numbered_streaming: "numbered_step c wired ids (fst (register_streaming name args c), [])"
proof (cases "length (cl_pending c) \<ge> MAX_PENDING_REQUESTS")
  case True
  then show ?thesis
    by (auto simp: numbered_step_def register_streaming_def Let_def next_i64_below intro: numbered_nothing_sent [where c = c])
next
  case False
  have "numbered c wired ids \<Longrightarrow> cl_next_id c < 2 ^ 63 - 1 \<Longrightarrow> numbered (fst (register_streaming name args c)) wired ids"
    by (rule numbered_register [where c = c and verb = "''tools/call''" and
          params = "prepare_params c ''tools/call'' (Some (streaming_params name args))"])
       (use False in \<open>simp_all add: register_streaming_def Let_def next_i64_below\<close>)
  then show ?thesis
    using False by (simp add: numbered_step_def) (simp add: register_streaming_def Let_def next_i64_below)
qed

lemmas numbered_calls = numbered_request numbered_streaming

lemma numbered_wire:
  assumes "numbered c wired ids" "hm_get (cl_sending c) i = Some m" "cl_next_id c' = cl_next_id c" "cl_tasks c' = cl_tasks c"
    "cl_sending c' = hm_remove i (cl_sending c)"
  shows "numbered c' (wired @ [m]) (ids @ [i])" and "message_id m = Some i"
proof -
  have entry: "(i, m) \<in> set (cl_sending c)" using assms(2) by (rule hm_get_in_set)
  have typed: "rpc_typed m" "message_id m = Some i"
    using assms(1) entry unfolding numbered_def by (metis (mono_tags, lifting) case_prodD)+
  have key: "i \<in> fst ` set (cl_sending c)" using entry by force
  then have below: "i < cl_next_id c" using assms(1) unfolding numbered_def by auto
  have "i \<in> set (map fst (cl_sending c))" using key by simp
  then have fresh: "i \<notin> set ids" using assms(1) by (auto simp: numbered_def)
  have kept: "numbered c' wired ids" using assms by (intro numbered_remove [of c wired ids c' i]) simp_all
  have gone: "i \<notin> fst ` set (cl_sending c')" by (auto simp: assms(5) hm_remove_def)
  show "numbered c' (wired @ [m]) (ids @ [i])"
    using kept gone fresh typed below by (auto simp: numbered_def assms(3))
  show "message_id m = Some i" by (rule typed)
qed

lemma numbered_send_done: "numbered_step c wired ids (send_done i sent c)"
proof (cases "hm_get (cl_sending c) i")
  case None
  then show ?thesis by (simp add: numbered_step_def send_done_def)
next
  case (Some m)
  then show ?thesis
    using numbered_wire [OF _ Some, of wired ids "c\<lparr>cl_sending := hm_remove i (cl_sending c)\<rparr>"]
    by (auto simp: numbered_step_def send_done_def Some Let_def end_inflight_def drop_pending_def wire_ids_def List.map_filter_def
          intro: numbered_remove)
qed

lemma numbered_notice: "numbered c wired ids \<Longrightarrow> rpc_typed m \<Longrightarrow> numbered c (wired @ [m]) ids"
  by (auto simp: numbered_def)

lemma wire_ids_notice: "message_id m = None \<Longrightarrow> wire_ids [Wire m] = []"
  by (simp add: wire_ids_def List.map_filter_def)

lemma cancelled_typed: "rpc_typed (cancelled_notification c i reason) \<and> message_id (cancelled_notification c i reason) = None"
  by (simp add: cancelled_notification_def Let_def notification_typed)

lemma numbered_task_added:
  "numbered c wired ids \<Longrightarrow> cl_next_id c' = cl_next_id c \<Longrightarrow> cl_sending c' = cl_sending c \<Longrightarrow> cl_tasks c' = cl_tasks c @ ts \<Longrightarrow>
   (\<And>m. LateSend m \<in> set ts \<Longrightarrow> rpc_typed m \<and> message_id m = None) \<Longrightarrow> numbered c' wired ids"
  by (auto simp: numbered_def)

lemma numbered_withdraw: "numbered_step c wired ids (withdraw i method reason busy room c)"
proof -
  define c1 where "c1 = (if busy then c\<lparr>cl_tasks := cl_tasks c @ [DropPending i]\<rparr> else drop_pending i c)"
  have same: "cl_next_id c1 = cl_next_id c" "cl_modern_meta c1 = cl_modern_meta c"
    by (simp_all add: c1_def drop_pending_def)
  have kept: "numbered c1 wired ids" if "numbered c wired ids"
    using that
    by (cases busy) (auto simp: c1_def drop_pending_def intro: numbered_task_added numbered_cong)
  show ?thesis
    using kept cancelled_typed [of c i reason] same
    by (auto simp: numbered_step_def withdraw_def Let_def c1_def [symmetric] wire_ids_notice
          intro: numbered_notice numbered_task_added split: try_send.splits)
qed

lemma numbered_give_up: "numbered_step c wired ids (give_up i reason busy room c)"
proof -
  let ?c = "end_inflight i (c\<lparr>cl_sending := hm_remove i (cl_sending c)\<rparr>)"
  have "numbered ?c wired ids" if "numbered c wired ids"
    using that by (rule numbered_remove) (simp_all add: end_inflight_def)
  moreover have "cl_next_id ?c = cl_next_id c" by (simp add: end_inflight_def)
  ultimately show ?thesis
    using numbered_withdraw [of ?c wired ids i _ reason busy room]
    by (auto simp: numbered_step_def give_up_def split: option.splits)
qed

lemma numbered_run_task: "numbered_step c wired ids (run_task sent c)"
proof (cases "cl_tasks c")
  case Nil
  then show ?thesis by (simp add: numbered_step_def run_task_def)
next
  case (Cons t ts)
  have fewer: "numbered (c\<lparr>cl_tasks := ts\<rparr>) wired ids" if "numbered c wired ids"
    using that by (auto simp: numbered_def Cons)
  show ?thesis
  proof (cases t)
    case (DropPending i)
    then show ?thesis
      using fewer by (auto simp: numbered_step_def run_task_def Cons drop_pending_def intro: numbered_cong)
  next
    case (LateSend m)
    then have "rpc_typed m \<and> message_id m = None" if "numbered c wired ids"
      using that by (auto simp: numbered_def Cons)
    then show ?thesis
      using fewer by (auto simp: numbered_step_def run_task_def Cons LateSend wire_ids_notice intro: numbered_notice)
  qed
qed

lemma numbered_incoming:
  "numbered_step c wired ids (on_line line c)" "numbered_step c wired ids (on_eof c)"
  by (auto simp: numbered_step_def on_line_def on_response_def on_notification_def on_eof_def drop_pending_def wire_none
        intro: numbered_cong split: option.splits json_rpc_message.splits)

lemma numbered_notifications:
  "numbered_step c wired ids (send_notification method params sent c)"
  "numbered_step c wired ids (send_initialized_notification sent c)"
  using notification_typed
  by (auto simp: numbered_step_def send_notification_def send_initialized_notification_def wire_ids_notice
        intro: numbered_notice)

lemma numbered_exec: "numbered_step c wired ids (client_exec l c)"
  by (cases l)
     (simp_all add: numbered_calls numbered_send_done numbered_give_up numbered_run_task numbered_incoming numbered_notifications,
      auto simp: numbered_step_def settled_def end_inflight_def end_stream_def settle_modern_state_def set_mgp_grants_def
        intro: numbered_cong)

lemma numbered_run:
  "int (length ls) < 2 ^ 63 - 1 \<Longrightarrow>
   (let s = client_run cancels era ls
    in numbered (fst s) (wire_messages (snd s)) (wire_ids (snd s)) \<and> cl_next_id (fst s) \<le> 1 + int (length ls))"
proof (induction ls rule: rev_induct)
  case Nil
  show ?case by (simp add: client_run_def client_new_def numbered_def)
next
  case (snoc l ls)
  let ?s = "client_run cancels era ls"
  have before: "numbered (fst ?s) (wire_messages (snd ?s)) (wire_ids (snd ?s))" "cl_next_id (fst ?s) \<le> 1 + int (length ls)"
    using snoc by (simp_all add: Let_def)
  have room: "cl_next_id (fst ?s) < 2 ^ 63 - 1" using before(2) snoc.prems by simp
  have step: "client_run cancels era (ls @ [l]) = client_step ?s l" by (simp add: client_run_def)
  show ?case
    using numbered_exec [of "fst ?s" "wire_messages (snd ?s)" "wire_ids (snd ?s)" l] before room
    by (auto simp: step client_step_def numbered_step_def split: prod.splits)
qed

text \<open>C20. Every message the client puts on the wire has JSON-RPC's members at their types: the version, a
  method, and an id that is an integer or null. And no two of them bear the same integer: an answer's id names
  one request. The integers wrap around at their width, so the run is shorter than that.\<close>

theorem wire_well_typed:
  assumes "int (length ls) < 2 ^ 63 - 1"
  shows "list_all rpc_typed (wire_messages (snd (client_run cancels era ls))) \<and>
         distinct (wire_ids (snd (client_run cancels era ls)))"
  using numbered_run [OF assms, of cancels era] by (auto simp: numbered_def Let_def list_all_iff)

lemma wire_well_typed_witness:
  "list_all rpc_typed (wire_messages (snd (client_run True era_new [Call ''tools/list'' None, SendDone 1 True, GiveUp 1 ''late'' False Taken]))) \<and>
   distinct (wire_ids (snd (client_run True era_new [Call ''tools/list'' None, SendDone 1 True, GiveUp 1 ''late'' False Taken])))"
  by (rule wire_well_typed) simp

text \<open>An answer bears the integer its request had. A notification has an id too: null.\<close>

lemma answer_to_request: "Option.bind (Some (json_i64 i)) response_id = Some i" if "- (2 ^ 63) \<le> i" "i < 2 ^ 63"
  using that by (auto simp: response_id_def json_i64_def json_as_i64_def)

lemma notifications_bear_an_id: "json_get (request_json (new_notification method params)) ''id'' = Some JNull"
  by (simp add: new_notification_def json_option_def)

section \<open>Withdrawn requests\<close>

lemma handshake_never_cancelled:
  "hm_get (cl_inflight c) i = Some method \<Longrightarrow> method \<in> {INITIALIZE_METHOD, DISCOVER_METHOD} \<Longrightarrow> snd (give_up i reason busy room c) = []"
  by (auto simp: give_up_def withdraw_def Let_def end_inflight_def)

lemma remote_never_cancelled: "\<not> cl_cancels c \<Longrightarrow> snd (give_up i reason busy room c) = []"
  by (auto simp: give_up_def withdraw_def Let_def end_inflight_def split: option.splits)

lemma withdrawn_is_forgotten:
  "hm_get (cl_inflight c) i = Some method \<Longrightarrow> hm_get (cl_pending (fst (give_up i reason False room c))) i = None"
  by (auto simp: give_up_def withdraw_def Let_def end_inflight_def drop_pending_def split: try_send.splits)

text \<open>A call dropped while it waits for room to send is cancelled at the server, which never saw it.\<close>

lemma cancels_an_unsent_request:
  "map (\<lambda>m. json_get m ''method'') (wire_messages (snd (client_run True era_new [Call ''tools/list'' None, GiveUp 1 ''dropped'' False Taken])))
   = [Some (JStr ''notifications/cancelled'')]"
  by (simp add: client_run_def client_step_def client_new_def register_request_def register_as_def MAX_PENDING_REQUESTS_def
        give_up_def withdraw_def end_inflight_def hm_get_Cons hm_insert_def cancelled_notification_def new_notification_def
        CANCELLED_NOTIFICATION_METHOD_def INITIALIZE_METHOD_def DISCOVER_METHOD_def drop_pending_def Let_def)

section \<open>The context of modern requests\<close>

lemma modern_template_keys: "distinct (map fst (modern_template kernel_version version log_level))"
proof -
  have "json_map_wf (modern_template kernel_version version log_level)"
    unfolding modern_template_def by (intro json_map_wf_insert) (simp add: json_map_wf_def)
  then show ?thesis by (simp add: json_map_wf_def strict_sorted_iff)
qed

lemma map_of_stamped:
  "distinct (map fst t) \<Longrightarrow>
   map_of (foldl stamp_member meta t) k =
     (if k = META_LOG_LEVEL \<and> map_of meta k \<noteq> None then map_of meta k
      else case map_of t k of Some v \<Rightarrow> Some v | None \<Rightarrow> map_of meta k)"
proof (induction t arbitrary: meta)
  case (Cons p t)
  obtain k' v where p: "p = (k', v)" by (cases p)
  have absent: "map_of t k' = None" using Cons.prems by (simp add: p map_of_eq_None_iff)
  show ?case
    using Cons.IH [of "stamp_member meta p"] Cons.prems absent
    by (auto simp: p stamp_member_def split: option.splits)
qed simp

lemma template_members:
  "map_of (modern_template kernel_version version log_level) META_PROTOCOL_VERSION = Some (JStr version)"
  "map_of (modern_template kernel_version version log_level) META_CLIENT_INFO = Some (client_info kernel_version)"
  "map_of (modern_template kernel_version version log_level) META_CLIENT_CAPABILITIES = Some client_capabilities_extension"
  "map_of (modern_template kernel_version version log_level) META_LOG_LEVEL = Some (JStr log_level)"
  "map_of (modern_template kernel_version version log_level) META_MGP_GRANTS = None"
  by (simp_all add: modern_template_def META_PROTOCOL_VERSION_def META_CLIENT_INFO_def META_CLIENT_CAPABILITIES_def
        META_LOG_LEVEL_def META_MGP_GRANTS_def)

definition meta_member :: "json \<Rightarrow> string \<Rightarrow> json option" where
  "meta_member v k = Option.bind (json_get v ''_meta'') (\<lambda>meta. json_get meta k)"

definition other_members :: "json \<Rightarrow> string \<Rightarrow> json option" where
  "other_members v k = (if k = ''_meta'' then None else json_get v k)"

text \<open>In the modern era the context of a request is the kernel's: whatever the caller's parameters say,
  the version, the client and its capabilities are the connection's own; a log level the caller chose is
  kept; the approved grants replace the caller's; and everything else is as the caller gave it.\<close>

theorem modern_context_is_the_kernels:
  "(let sent = stamp_modern_meta (Some (JObj m)) (modern_template kernel_version version log_level) grants
    in meta_member sent META_PROTOCOL_VERSION = Some (JStr version) \<and>
       meta_member sent META_CLIENT_INFO = Some (client_info kernel_version) \<and>
       meta_member sent META_CLIENT_CAPABILITIES = Some client_capabilities_extension \<and>
       meta_member sent META_LOG_LEVEL = option_or (meta_member (JObj m) META_LOG_LEVEL) (Some (JStr log_level)) \<and>
       meta_member sent META_MGP_GRANTS = option_or grants (meta_member (JObj m) META_MGP_GRANTS) \<and>
       other_members sent = other_members (JObj m))"
proof -
  note names = META_PROTOCOL_VERSION_def META_CLIENT_INFO_def META_CLIENT_CAPABILITIES_def META_LOG_LEVEL_def META_MGP_GRANTS_def
  define given where "given = (case map_of m ''_meta'' of Some (JObj g) \<Rightarrow> g | _ \<Rightarrow> [])"
  have before: "meta_member (JObj m) = map_of given"
    by (rule ext) (auto simp: meta_member_def json_get_def given_def split: option.splits json.splits)
  have sent: "stamp_modern_meta (Some (JObj m)) t grants = JObj (json_map_insert ''_meta'' (JObj (stamped_meta t grants given)) m)" for t
    by (simp add: stamp_modern_meta_def given_def)
  have after: "meta_member (stamp_modern_meta (Some (JObj m)) t grants) k = map_of (stamped_meta t grants given) k" for t k
    by (simp add: sent meta_member_def json_get_def)
  have distinct: "META_PROTOCOL_VERSION \<noteq> META_MGP_GRANTS" "META_CLIENT_INFO \<noteq> META_MGP_GRANTS" "META_CLIENT_CAPABILITIES \<noteq> META_MGP_GRANTS"
    "META_LOG_LEVEL \<noteq> META_MGP_GRANTS" "META_PROTOCOL_VERSION \<noteq> META_LOG_LEVEL" "META_CLIENT_INFO \<noteq> META_LOG_LEVEL"
    "META_CLIENT_CAPABILITIES \<noteq> META_LOG_LEVEL"
    by (simp_all add: names)
  have rest: "other_members (stamp_modern_meta (Some (JObj m)) t grants) = other_members (JObj m)" for t
    by (rule ext) (simp add: sent other_members_def json_get_def)
  show ?thesis
    using distinct
    by (auto simp: Let_def after rest before stamped_meta_def map_of_stamped [OF modern_template_keys] template_members
          option_or_def split: option.splits)
qed

end
