(* ===== verification/Mcp_Negotiation.thy ===== *)
theory Mcp_Negotiation
  imports Mcp_Client Server_Table
begin

text \<open>
  How a connection settles on an era, and how long its calls are waited for, in
  \<open>managers/mcp_client.rs\<close>: \<open>negotiate\<close> with its probes, the fallback to the handshake, the deadline of a
  probe and the watchdog of a streaming call.

  What each call of a negotiation gets back is an argument, by its place in the order of the calls.
\<close>

section \<open>Calls\<close>

type_synonym call_answers = "nat \<Rightarrow> call_result"

type_synonym connecting = "mcp_client \<times> (string \<times> json option) list"

definition input_required_message :: "string \<Rightarrow> string" where
  "input_required_message method = ''MCP server returned MRTR input_required for '' @ quoted method @ '' '' @ em_dash @
     '' multi-round tool interaction is not supported by the kernel host''"

definition check_result_type :: "era_handle \<Rightarrow> string \<Rightarrow> json \<Rightarrow> call_result" where
  "check_result_type era method v =
     (if is_modern era \<and> Option.bind (json_get v ''resultType'') json_as_str = Some RESULT_TYPE_INPUT_REQUIRED
      then Err (CeOther (input_required_message method)) else Ok v)"

definition call_server :: "call_answers \<Rightarrow> string \<Rightarrow> json option \<Rightarrow> connecting \<Rightarrow> connecting \<times> call_result" where
  "call_server answers method params s =
     (let (c, calls) = s
      in ((c, calls @ [(method, prepare_params c method params)]),
          and_then (answers (length calls)) (check_result_type (cl_era c) method)))"

section \<open>The probe\<close>

datatype probe_outcome =
    Discovered discover_result
  | VersionRejected "string list"
  | FallBackToLegacy
  | ProbeTransport call_error

definition classify_probe_error :: "call_error \<Rightarrow> probe_outcome" where
  "classify_probe_error e =
     (case e of
        CeRpc rpc \<Rightarrow> if re_code rpc = UNSUPPORTED_PROTOCOL_VERSION then VersionRejected (supported_versions rpc) else FallBackToLegacy
      | CeTimeout \<Rightarrow> FallBackToLegacy
      | CeOther _ \<Rightarrow> ProbeTransport e)"

definition probe_params :: "string \<Rightarrow> string \<Rightarrow> json" where
  "probe_params kernel_version version = json_object [(''_meta'', json_object
     [(META_PROTOCOL_VERSION, JStr version), (META_CLIENT_INFO, client_info kernel_version),
      (META_CLIENT_CAPABILITIES, client_capabilities_extension)])]"

definition on_client :: "(mcp_client \<Rightarrow> mcp_client) \<Rightarrow> connecting \<Rightarrow> connecting" where
  "on_client f s = (f (fst s), snd s)"

definition probe_discover :: "call_answers \<Rightarrow> string \<Rightarrow> string \<Rightarrow> connecting \<Rightarrow> connecting \<times> probe_outcome" where
  "probe_discover answers kernel_version version s =
     (let (s', r) = call_server answers DISCOVER_METHOD (Some (probe_params kernel_version version))
                      (on_client (\<lambda>c. c\<lparr>cl_era := set_wire_version version (cl_era c)\<rparr>) s)
      in (s', case r of
                Inr v \<Rightarrow> (case decode_discover v of Some d \<Rightarrow> Discovered d | None \<Rightarrow> FallBackToLegacy)
              | Inl e \<Rightarrow> classify_probe_error e))"

section \<open>What the server declares\<close>

definition json_string_lists :: "json \<Rightarrow> (string, string list) hmap option" where
  "json_string_lists v =
     (case v of JObj m \<Rightarrow> those (map (\<lambda>(k, x). map_option (Pair k) (json_as_strings x)) m) | _ \<Rightarrow> None)"

definition decode_server_capabilities :: "json \<Rightarrow> mgp_server_capabilities option" where
  "decode_server_capabilities v =
     (if \<not> struct_shape 1 6 v then None
      else case (Option.bind (struct_field v 0 ''version'') json_as_str,
                 default_field json_as_strings [] (struct_field v 1 ''extensions''),
                 opt_field json_as_str (struct_field v 2 ''server_id''), opt_field json_as_str (struct_field v 3 ''trust_level''),
                 default_field json_as_strings [] (struct_field v 4 ''permissions_required''),
                 opt_field json_string_lists (struct_field v 5 ''tools_for_capability'')) of
        (Some version, Some extensions, Some server_id, Some trust, Some permissions, Some mapping) \<Rightarrow>
          Some \<lparr>mc_version = version, mc_extensions = extensions, mc_server_id = server_id, mc_trust_level = trust,
                mc_permissions_required = permissions, mc_tools_for_capability = mapping\<rparr>
      | _ \<Rightarrow> None)"

definition server_caps_from_discover :: "json option \<Rightarrow> mgp_server_capabilities option" where
  "server_caps_from_discover capabilities =
     Option.bind capabilities (\<lambda>c. Option.bind (json_get c ''extensions'') (\<lambda>e.
       Option.bind (json_get e MGP_CAPABILITY_EXTENSION) decode_server_capabilities))"

definition handshake_mgp :: "json \<Rightarrow> mgp_server_capabilities option" where
  "handshake_mgp result =
     Option.bind (Option.bind (json_get result ''capabilities'') (\<lambda>caps.
       option_or (json_get caps ''mgp'') (Option.bind (json_get caps ''experimental'') (\<lambda>e. json_get e ''mgp''))))
       decode_server_capabilities"

definition handshake_instructions :: "json \<Rightarrow> string option" where
  "handshake_instructions result =
     option_filter (\<lambda>s. s \<noteq> []) (map_option trim (Option.bind (json_get result ''instructions'') json_as_str))"

definition advertises_logging :: "json \<Rightarrow> bool" where
  "advertises_logging result = (Option.bind (json_get result ''capabilities'') (\<lambda>c. json_get c ''logging'') \<noteq> None)"

section \<open>Settling\<close>

definition settle_modern :: "string \<Rightarrow> string \<Rightarrow> string \<Rightarrow> discover_result \<Rightarrow> connecting \<Rightarrow> connecting \<times> negotiated_protocol" where
  "settle_modern kernel_version log_level version d s =
     (on_client (settle_modern_state kernel_version version log_level) s,
      \<lparr>np_legacy = False, np_mgp = server_caps_from_discover (dr_capabilities d), np_instructions = dr_instructions d\<rparr>)"

definition initialize_params :: "string \<Rightarrow> json" where
  "initialize_params kernel_version = json_object
     [(''protocolVersion'', JStr LEGACY_PROTOCOL_VERSION),
      (''capabilities'', json_object [(''mgp'', json_object [(''version'', JStr MGP_VERSION), (''extensions'', json_strings CLIENT_EXTENSIONS)])]),
      (''clientInfo'', client_info kernel_version)]"

text \<open>A failed \<open>logging/setLevel\<close> is only logged.\<close>

definition initialize ::
  "call_answers \<Rightarrow> string \<Rightarrow> string \<Rightarrow> connecting \<Rightarrow> connecting \<times> (call_error + mgp_server_capabilities option \<times> string option)" where
  "initialize answers kernel_version log_level s =
     (case call_server answers INITIALIZE_METHOD (Some (initialize_params kernel_version)) s of
        (s', Inl e) \<Rightarrow> (s', Err e)
      | (s', Inr result) \<Rightarrow>
          ((if advertises_logging result
            then fst (call_server answers ''logging/setLevel'' (Some (json_object [(''level'', JStr log_level)])) s') else s'),
           Ok (handshake_mgp result, handshake_instructions result)))"

definition corrective_version :: "call_error \<Rightarrow> string option" where
  "corrective_version e =
     (case e of
        CeRpc rpc \<Rightarrow> if re_code rpc = UNSUPPORTED_PROTOCOL_VERSION then highest_mutual_modern_version (supported_versions rpc) else None
      | _ \<Rightarrow> None)"

definition negotiate_legacy ::
  "call_answers \<Rightarrow> string \<Rightarrow> string \<Rightarrow> bool \<Rightarrow> connecting \<Rightarrow> connecting \<times> (call_error + negotiated_protocol)" where
  "negotiate_legacy answers kernel_version log_level probed s =
     (case initialize answers kernel_version log_level s of
        (s', Inr (mgp, instructions)) \<Rightarrow>
          (on_client (\<lambda>c. c\<lparr>cl_era := set_legacy (cl_era c)\<rparr>) s',
           Ok \<lparr>np_legacy = True, np_mgp = mgp, np_instructions = instructions\<rparr>)
      | (s', Inl e) \<Rightarrow>
          (case (if probed then corrective_version e else None) of
             None \<Rightarrow> (s', Err e)
           | Some version \<Rightarrow>
               (case probe_discover answers kernel_version version s' of
                  (s'', Discovered d) \<Rightarrow> (let (t, np) = settle_modern kernel_version log_level version d s'' in (t, Ok np))
                | (s'', _) \<Rightarrow> (s'', Err e))))"

definition version_mismatch :: call_error where
  "version_mismatch = CeOther ''MCP protocol version mismatch''"

text \<open>The message of a mismatch also lists the versions of both sides.\<close>

definition negotiate_era ::
  "call_answers \<Rightarrow> string \<Rightarrow> string \<Rightarrow> EraPreference \<Rightarrow> connecting \<Rightarrow> connecting \<times> (call_error + negotiated_protocol)" where
  "negotiate_era answers kernel_version log_level preference s =
     (if preference = LegacyOnly then negotiate_legacy answers kernel_version log_level False s
      else case probe_discover answers kernel_version MODERN_PROTOCOL_VERSION s of
        (s', Discovered d) \<Rightarrow>
          (case mutual_modern_version d of
             Some version \<Rightarrow> (let (t, np) = settle_modern kernel_version log_level version d s' in (t, Ok np))
           | None \<Rightarrow> negotiate_legacy answers kernel_version log_level True s')
      | (s', VersionRejected supported) \<Rightarrow>
          (case highest_mutual_modern_version supported of
             Some version \<Rightarrow>
               (case probe_discover answers kernel_version version s' of
                  (s'', Discovered d) \<Rightarrow> (let (t, np) = settle_modern kernel_version log_level version d s'' in (t, Ok np))
                | (s'', ProbeTransport e) \<Rightarrow> (s'', Err e)
                | (s'', _) \<Rightarrow> negotiate_legacy answers kernel_version log_level True s'')
           | None \<Rightarrow>
               if offers_handshake_version supported then negotiate_legacy answers kernel_version log_level True s'
               else (s', Err version_mismatch))
      | (s', FallBackToLegacy) \<Rightarrow> negotiate_legacy answers kernel_version log_level True s'
      | (s', ProbeTransport e) \<Rightarrow> (s', Err e))"

section \<open>How long a probe waits\<close>

text \<open>Times are seconds; \<open>spoke\<close> is when the child's first byte came, if one did.\<close>

definition probe_window :: "nat \<Rightarrow> nat" where
  "probe_window request_timeout = min request_timeout DISCOVER_PROBE_TIMEOUT_SECS"

definition probe_cap :: "nat \<Rightarrow> nat" where
  "probe_cap request_timeout = min request_timeout DISCOVER_PROBE_READINESS_CAP_SECS"

definition probe_deadline :: "nat \<Rightarrow> nat \<Rightarrow> nat \<Rightarrow> nat option \<Rightarrow> nat" where
  "probe_deadline started window cap spoke =
     (let hard = started + cap in case spoke of None \<Rightarrow> hard | Some t \<Rightarrow> min (max t started + window) hard)"

datatype 'a wait_end = Answered nat 'a | GaveUp nat

definition answered_by :: "nat \<Rightarrow> (nat \<times> 'a) option \<Rightarrow> 'a wait_end" where
  "answered_by deadline answer =
     (case answer of Some (t, r) \<Rightarrow> if t \<le> deadline then Answered t r else GaveUp deadline | None \<Rightarrow> GaveUp deadline)"

text \<open>
  The first wait ends with an answer, the child's first byte or the cap; of two that are due at once the
  answer is taken first.
\<close>

definition readiness_wait :: "nat \<Rightarrow> nat \<Rightarrow> nat \<Rightarrow> nat option \<Rightarrow> (nat \<times> 'a) option \<Rightarrow> 'a wait_end" where
  "readiness_wait started window cap0 spoke answer =
     (let cap = max cap0 window; hard = started + cap
      in case spoke of
           None \<Rightarrow> answered_by hard answer
         | Some t \<Rightarrow>
             if t \<le> started then answered_by (probe_deadline started window cap spoke) answer
             else (case answer of
                 Some (a, r) \<Rightarrow>
                   if a \<le> min t hard then Answered a r
                   else if t > hard then GaveUp hard else answered_by (probe_deadline started window cap spoke) answer
               | None \<Rightarrow> if t > hard then GaveUp hard else answered_by (probe_deadline started window cap spoke) answer))"

text \<open>A remote server has no child to be heard from.\<close>

definition call_with_readiness_window :: "bool \<Rightarrow> nat \<Rightarrow> nat \<Rightarrow> nat \<Rightarrow> nat option \<Rightarrow> (nat \<times> 'a) option \<Rightarrow> 'a wait_end" where
  "call_with_readiness_window child started window cap spoke answer =
     (if child then readiness_wait started window cap spoke answer else answered_by (started + window) answer)"

section \<open>The watchdog of a streaming call\<close>

datatype watch_event = WatchResult call_result | WatchChunk | CallerGone

datatype watch_ending = StreamSettled nat "string + call_tool_result" | StreamTimedOut nat string | NobodyWaiting nat

definition call_error_text :: "call_error \<Rightarrow> string" where
  "call_error_text e = (case e of CeRpc rpc \<Rightarrow> rpc_error_text rpc | CeTimeout \<Rightarrow> ''MCP Request timed out'' | CeOther s \<Rightarrow> s)"

definition streaming_result :: "era_handle \<Rightarrow> call_result \<Rightarrow> string + call_tool_result" where
  "streaming_result era r =
     (case r of
        Inl e \<Rightarrow> Err (call_error_text e)
      | Inr v \<Rightarrow>
          if is_modern era \<and> Option.bind (json_get v ''resultType'') json_as_str = Some RESULT_TYPE_INPUT_REQUIRED
          then Err (''MCP server returned MRTR input_required for '' @ quoted ''tools/call'' @ '' (streaming) '' @ em_dash @
                 '' multi-round tool interaction is not supported by the kernel host'')
          else ok_or (decode_call_result v) ''Failed to parse streaming result'')"

definition total_message :: "nat \<Rightarrow> string" where
  "total_message limit = ''Streaming request timed out (total '' @ show_nat limit @ ''s)''"

definition idle_message :: "nat \<Rightarrow> string" where
  "idle_message limit = ''Streaming request timed out (idle '' @ show_nat limit @ ''s, no chunk received)''"

definition watch_expired :: "nat \<Rightarrow> nat \<Rightarrow> nat \<Rightarrow> nat option \<Rightarrow> watch_ending" where
  "watch_expired start limit idle idle_at =
     (case idle_at of
        Some i \<Rightarrow> if i < start + limit then StreamTimedOut i (idle_message idle) else StreamTimedOut (start + limit) (total_message limit)
      | None \<Rightarrow> StreamTimedOut (start + limit) (total_message limit))"

definition watch_until :: "nat \<Rightarrow> nat \<Rightarrow> nat option \<Rightarrow> nat" where
  "watch_until start limit idle_at = (case idle_at of Some i \<Rightarrow> min i (start + limit) | None \<Rightarrow> start + limit)"

text \<open>What happens, in the order of its times; an event at a deadline is taken before the deadline.\<close>

fun watch :: "era_handle \<Rightarrow> nat \<Rightarrow> nat \<Rightarrow> nat \<Rightarrow> nat option \<Rightarrow> (nat \<times> watch_event) list \<Rightarrow> watch_ending" where
  "watch era start limit idle idle_at [] = watch_expired start limit idle idle_at"
| "watch era start limit idle idle_at ((t, e) # es) =
     (if watch_until start limit idle_at < t then watch_expired start limit idle idle_at
      else case e of
        WatchResult r \<Rightarrow> StreamSettled t (streaming_result era r)
      | CallerGone \<Rightarrow> NobodyWaiting t
      | WatchChunk \<Rightarrow> watch era start limit idle (Some (t + idle)) es)"

end
