(* ===== verification/Negotiation_Laws.thy ===== *)
theory Negotiation_Laws
  imports Mcp_Negotiation
begin

text \<open>
  Laws of \<open>Mcp_Negotiation\<close>: a negotiation makes at most four calls and leaves the connection in the era it
  reports or in none, a probe's wait has its bounds, and a streaming call ends.
\<close>

section \<open>Eras\<close>

text \<open>A connection whose negotiation has not settled, after \<open>n\<close> calls.\<close>

definition unsettled :: "nat \<Rightarrow> connecting \<Rightarrow> bool" where
  "unsettled n s \<longleftrightarrow> eh_era (cl_era (fst s)) = None \<and> cl_modern_meta (fst s) = None \<and> length (snd s) = n"

lemma unsettled_call: "unsettled n s \<Longrightarrow> unsettled (Suc n) (fst (call_server answers method params s))"
  by (auto simp: unsettled_def call_server_def split: prod.splits)

lemma call_while_unsettled:
  "unsettled n s \<Longrightarrow> snd (call_server answers method params s) = answers n \<and>
   snd (fst (call_server answers method params s)) = snd s @ [(method, params)]"
  by (cases "answers n")
     (auto simp: unsettled_def call_server_def prepare_params_def check_result_type_def is_modern_def split: prod.splits)

lemma unsettled_probe: "unsettled n s \<Longrightarrow> unsettled (Suc n) (fst (probe_discover answers kernel_version version s))"
proof -
  assume "unsettled n s"
  then have "unsettled n (on_client (\<lambda>c. c\<lparr>cl_era := set_wire_version version (cl_era c)\<rparr>) s)"
    by (simp add: unsettled_def on_client_def set_wire_version_def)
  from unsettled_call [OF this] show ?thesis
    by (simp add: probe_discover_def split_def Let_def)
qed

lemma unsettled_initialize:
  assumes "unsettled n s"
  shows "\<exists>m. unsettled m (fst (initialize answers kernel_version log_level s)) \<and> m \<le> n + 2 \<and>
           (\<forall>e. snd (initialize answers kernel_version log_level s) = Err e \<longrightarrow> m = n + 1)"
proof -
  let ?call = "call_server answers INITIALIZE_METHOD (Some (initialize_params kernel_version)) s"
  obtain s' r where call: "?call = (s', r)" by (cases ?call)
  have after: "unsettled (Suc n) s'"
    using unsettled_call [OF assms, of answers INITIALIZE_METHOD "Some (initialize_params kernel_version)"] by (simp add: call)
  have later: "unsettled (Suc (Suc n)) (fst (call_server answers ''logging/setLevel'' (Some (json_object [(''level'', JStr log_level)])) s'))"
    by (rule unsettled_call [OF after])
  show ?thesis
  proof (cases r)
    case (Inl e)
    then show ?thesis using after call by (intro exI [of _ "Suc n"]) (simp add: initialize_def)
  next
    case (Inr v)
    show ?thesis
    proof (cases "advertises_logging v")
      case True
      then show ?thesis using later call Inr by (intro exI [of _ "Suc (Suc n)"]) (simp add: initialize_def)
    next
      case False
      then show ?thesis using after call Inr by (intro exI [of _ "Suc n"]) (simp add: initialize_def)
    qed
  qed
qed

text \<open>How a negotiation that starts after \<open>n\<close> calls may end: settled on one era, or unsettled with an error.\<close>

definition negotiated_well :: "call_answers \<Rightarrow> string \<Rightarrow> string \<Rightarrow> nat \<Rightarrow> connecting \<times> (call_error + negotiated_protocol) \<Rightarrow> bool" where
  "negotiated_well answers kernel_version log_level bound out \<longleftrightarrow>
     length (snd (fst out)) \<le> bound \<and>
     (case snd out of
        Inl e \<Rightarrow> eh_era (cl_era (fst (fst out))) = None \<and> cl_modern_meta (fst (fst out)) = None
      | Inr np \<Rightarrow>
          if np_legacy np then eh_era (cl_era (fst (fst out))) = Some Legacy \<and> cl_modern_meta (fst (fst out)) = None
          else (\<exists>version \<in> set MODERN_PROTOCOL_VERSIONS.
                  cl_era (fst (fst out)) = \<lparr>eh_era = Some Modern, eh_version = Some version\<rparr> \<and>
                  cl_modern_meta (fst (fst out)) = Some (modern_template kernel_version version log_level)))"

lemma negotiated_more: "negotiated_well answers kernel_version log_level b out \<Longrightarrow> b \<le> b' \<Longrightarrow> negotiated_well answers kernel_version log_level b' out"
  by (auto simp: negotiated_well_def)

lemma negotiated_error: "unsettled n s \<Longrightarrow> negotiated_well answers kernel_version log_level n (s, Err e)"
  by (simp add: unsettled_def negotiated_well_def)

lemma era_settled: "set_modern version e = \<lparr>eh_era = Some Modern, eh_version = Some version\<rparr>"
  by (cases e) (simp add: set_modern_def set_wire_version_def)

lemma negotiated_modern:
  "unsettled n s \<Longrightarrow> version \<in> set MODERN_PROTOCOL_VERSIONS \<Longrightarrow>
   negotiated_well answers kernel_version log_level n
     (let (t, np) = settle_modern kernel_version log_level version d s in (t, Ok np))"
  by (auto simp: unsettled_def negotiated_well_def settle_modern_def on_client_def settle_modern_state_def era_settled
        intro!: bexI [of _ version])

lemma corrective_version_modern: "corrective_version e = Some v \<Longrightarrow> v \<in> set MODERN_PROTOCOL_VERSIONS"
  by (auto simp: corrective_version_def split: call_error.splits if_splits dest: highest_mutual_Some)

lemma negotiated_legacy:
  assumes "unsettled n s"
  shows "negotiated_well answers kernel_version log_level (n + 2) (negotiate_legacy answers kernel_version log_level probed s)"
proof -
  obtain s' r where init: "initialize answers kernel_version log_level s = (s', r)" by (cases "initialize answers kernel_version log_level s")
  obtain m where m: "unsettled m s'" "m \<le> n + 2" "\<And>e. r = Err e \<Longrightarrow> m = n + 1"
    using unsettled_initialize [OF assms, of answers kernel_version log_level] by (auto simp: init)
  show ?thesis
  proof (cases r)
    case (Inr v)
    then show ?thesis
      using m(1,2) by (cases v) (auto simp: negotiate_legacy_def init negotiated_well_def unsettled_def on_client_def set_legacy_def)
  next
    case (Inl e)
    then have m': "unsettled (n + 1) s'" using m by blast
    show ?thesis
    proof (cases "if probed then corrective_version e else None")
      case None
      then show ?thesis
        using negotiated_more [OF negotiated_error [OF m'], where b' = "n + 2"] Inl
        by (simp add: negotiate_legacy_def init)
    next
      case (Some version)
      obtain s'' p where probe: "probe_discover answers kernel_version version s' = (s'', p)"
        by (cases "probe_discover answers kernel_version version s'")
      have u: "unsettled (n + 2) s''" using unsettled_probe [OF m', of answers kernel_version version] probe by simp
      have modern: "version \<in> set MODERN_PROTOCOL_VERSIONS"
        using Some corrective_version_modern by (auto split: if_splits)
      show ?thesis
        using negotiated_modern [OF u modern] negotiated_error [OF u] Some Inl
        by (cases p) (simp_all add: negotiate_legacy_def init probe)
    qed
  qed
qed

lemma first_probe:
  assumes "unsettled n s"
  obtains s' p where "probe_discover answers kernel_version version s = (s', p)" "unsettled (n + 1) s'"
  using unsettled_probe [OF assms, of answers kernel_version version]
  by (cases "probe_discover answers kernel_version version s") auto

lemma negotiated_any:
  assumes "unsettled 0 s"
  shows "negotiated_well answers kernel_version log_level 4 (negotiate_era answers kernel_version log_level preference s)"
proof (cases "preference = LegacyOnly")
  case True
  then show ?thesis
    using negotiated_more [OF negotiated_legacy [OF assms]] by (simp add: negotiate_era_def)
next
  case False
  obtain s' p where probe: "probe_discover answers kernel_version MODERN_PROTOCOL_VERSION s = (s', p)" and u: "unsettled 1 s'"
    by (rule first_probe [OF assms, of answers kernel_version MODERN_PROTOCOL_VERSION]) simp
  note legacy = negotiated_more [OF negotiated_legacy [OF u], where b' = 4 and answers = answers and kernel_version = kernel_version and log_level = log_level]
  show ?thesis
  proof (cases p)
    case (Discovered d)
    then show ?thesis
      using negotiated_more [OF negotiated_modern [OF u], where b' = 4] legacy False
      by (auto simp: negotiate_era_def probe mutual_modern_version_def dest: highest_mutual_Some split: option.splits)
  next
    case FallBackToLegacy
    then show ?thesis using legacy False by (simp add: negotiate_era_def probe)
  next
    case (ProbeTransport e)
    then show ?thesis
      using negotiated_more [OF negotiated_error [OF u], where b' = 4] False by (simp add: negotiate_era_def probe)
  next
    case (VersionRejected supported)
    show ?thesis
    proof (cases "highest_mutual_modern_version supported")
      case None
      then show ?thesis
        using negotiated_more [OF negotiated_error [OF u], where b' = 4] legacy False VersionRejected
        by (simp add: negotiate_era_def probe)
    next
      case (Some version)
      obtain s'' q where again: "probe_discover answers kernel_version version s' = (s'', q)" and u2: "unsettled 2 s''"
        by (rule first_probe [OF u, of answers kernel_version version]) (simp add: numeral_2_eq_2)
      show ?thesis
        using negotiated_more [OF negotiated_modern [OF u2], where b' = 4] highest_mutual_Some [OF Some]
          negotiated_more [OF negotiated_error [OF u2], where b' = 4]
          negotiated_legacy [OF u2, of answers kernel_version log_level True] False VersionRejected Some again
        by (cases q) (simp_all add: negotiate_era_def probe)
    qed
  qed
qed

text \<open>C21. Whatever a server answers, and whenever it does not, the negotiation of a new connection makes at most
  four calls. If it reports the modern era, the connection is in it, at a version the kernel speaks and with
  that version in the context of its requests; if it reports the handshake era, the connection is in that
  and its requests get no context; and if it fails, the connection is in neither.\<close>

theorem negotiation_settles:
  "(let ((c, calls), result) = negotiate_era answers kernel_version log_level preference (client_new cancels era_new, [])
    in length calls \<le> 4 \<and>
       (case result of
          Inl e \<Rightarrow> eh_era (cl_era c) = None \<and> cl_modern_meta c = None
        | Inr np \<Rightarrow>
            if np_legacy np then eh_era (cl_era c) = Some Legacy \<and> cl_modern_meta c = None
            else (\<exists>version. version \<in> set MODERN_PROTOCOL_VERSIONS \<and> cl_era c = \<lparr>eh_era = Some Modern, eh_version = Some version\<rparr> \<and>
                    cl_modern_meta c = Some (modern_template kernel_version version log_level))))"
proof -
  have "unsettled 0 (client_new cancels era_new, [])" by (simp add: unsettled_def client_new_def era_new_def)
  from negotiated_any [OF this, of answers kernel_version log_level preference] show ?thesis
    by (auto simp: negotiated_well_def split: prod.splits sum.splits)
qed

text \<open>A failure of the transport is no answer about the era, and the preference for the handshake asks nothing else.\<close>

lemma transport_failure_propagates:
  "answers 0 = Err (CeOther e) \<Longrightarrow>
   snd (negotiate_era answers kernel_version log_level Auto (client_new cancels era_new, [])) = Err (CeOther e) \<and>
   map fst (snd (fst (negotiate_era answers kernel_version log_level Auto (client_new cancels era_new, [])))) = [DISCOVER_METHOD]"
  by (simp add: negotiate_era_def probe_discover_def call_server_def on_client_def classify_probe_error_def)

lemma handshake_first_when_asked:
  "map fst (snd (fst (negotiate_legacy answers kernel_version log_level False (client_new cancels era_new, [])))) \<in>
     {[INITIALIZE_METHOD], [INITIALIZE_METHOD, ''logging/setLevel'']}"
  by (auto simp: negotiate_legacy_def initialize_def call_server_def on_client_def split: sum.splits prod.splits option.splits)

text \<open>Guidance that is only blank is none in the handshake era, and is passed on in the modern one.\<close>

lemma blank_guidance_kept_when_modern:
  "np_instructions (snd (settle_modern kernel_version log_level version (d\<lparr>dr_instructions := Some '' ''\<rparr>) s)) = Some '' ''"
  by (simp add: settle_modern_def)

lemma blank_guidance_dropped_in_handshake: "handshake_instructions (json_object [(''instructions'', JStr '' '')]) = None"
  by (simp add: handshake_instructions_def json_as_str_def trim_space) (simp add: trim_graphic)

section \<open>Content\<close>

text \<open>The variants are renamed and their members are not: an image as MCP writes it is no image.\<close>

lemma image_as_written_refused:
  "decode_content (json_object [(''type'', JStr ''image''), (''data'', JStr d), (''mimeType'', JStr mime)]) = None"
  by (simp add: decode_content_def tagged_parts_def json_object_def struct_shape_def struct_field_def json_as_str_def)

lemma one_image_fails_the_result:
  "decode_call_result (json_object [(''content'', JArr [json_object [(''type'', JStr ''image''), (''data'', JStr d), (''mimeType'', JStr mime)]])]) = None"
  using image_as_written_refused [of d mime]
  by (simp add: decode_call_result_def struct_shape_def struct_field_def decode_list_def json_as_array_def json_object_def)

section \<open>Waiting\<close>

lemma probe_deadline_bounds:
  "window \<le> cap \<Longrightarrow> started + window \<le> probe_deadline started window cap spoke \<and> probe_deadline started window cap spoke \<le> started + cap"
  by (auto simp: probe_deadline_def Let_def split: option.splits)

text \<open>The wait for a probe's answer ends, and no answer that comes in time is missed. It ends by the cap. It
  gives up no sooner than a window after the probe was sent, and no sooner than a window after the child was
  first heard, or only at the cap when it never was.\<close>

theorem probe_wait_bounded:
  "(case readiness_wait started window cap spoke answer of
      Answered t r \<Rightarrow> answer = Some (t, r) \<and> t \<le> started + max cap window
    | GaveUp t \<Rightarrow>
        started + window \<le> t \<and> t \<le> started + max cap window \<and>
        t = probe_deadline started window (max cap window) (option_filter (\<lambda>b. b \<le> started + max cap window) spoke) \<and>
        (case answer of None \<Rightarrow> True | Some (a, _) \<Rightarrow> t < a))"
  by (auto simp: readiness_wait_def answered_by_def probe_deadline_def Let_def option_filter_def split: option.splits)

lemma watch_expired_until: "\<exists>msg. watch_expired start limit idle idle_at = StreamTimedOut (watch_until start limit idle_at) msg"
  by (auto simp: watch_expired_def watch_until_def split: option.splits)

definition ending_time :: "watch_ending \<Rightarrow> nat" where
  "ending_time w = (case w of StreamSettled t _ \<Rightarrow> t | StreamTimedOut t _ \<Rightarrow> t | NobodyWaiting t \<Rightarrow> t)"

lemma watch_ends:
  "ending_time (watch era start limit idle idle_at es) \<le> start + limit"
proof (induction es arbitrary: idle_at)
  case Nil
  then show ?case using watch_expired_until [of start limit idle idle_at] by (auto simp: ending_time_def watch_until_def split: option.splits)
next
  case (Cons x es)
  obtain t e where x: "x = (t, e)" by (cases x)
  have "watch_until start limit idle_at \<le> start + limit" by (auto simp: watch_until_def split: option.splits)
  then show ?case
    using Cons watch_expired_until [of start limit idle idle_at]
    by (auto simp: x ending_time_def split: watch_event.splits)
qed

end
