(* ===== verification/Conversation.thy ===== *)
theory Conversation
  imports Event_Bus
begin

text \<open>
  What a model reads of a conversation: the transcripts of sessions in flight
  (\<open>managers/session_manager.rs\<close>) and the one timeline made of the stored rows, such a transcript and
  long-term recall (\<open>conversation_context.rs\<close>). Clock readings are arguments.
\<close>

section \<open>Sessions\<close>

definition DEFAULT_HOT_GAP :: duration where "DEFAULT_HOT_GAP = 1800000"
definition DEFAULT_STASH_TTL :: duration where "DEFAULT_STASH_TTL = 1800000"
definition DEFAULT_WARM_TTL :: duration where "DEFAULT_WARM_TTL = 86400000"

type_synonym session_key = "string \<times> string"

datatype SessionTier = HotActive | HotStashed | Warm | Cold

record session_policy =
  sp_hot_gap :: duration
  sp_stash_ttl :: duration
  sp_warm_ttl :: duration

definition default_policy :: session_policy where
  "default_policy = \<lparr>sp_hot_gap = DEFAULT_HOT_GAP, sp_stash_ttl = DEFAULT_STASH_TTL, sp_warm_ttl = DEFAULT_WARM_TTL\<rparr>"

definition tier_from_elapsed :: "session_policy \<Rightarrow> duration \<Rightarrow> SessionTier" where
  "tier_from_elapsed p elapsed =
     (if elapsed \<le> sp_hot_gap p then HotActive
      else if elapsed \<le> sp_hot_gap p + sp_stash_ttl p then HotStashed
      else if elapsed \<le> sp_warm_ttl p then Warm else Cold)"

record engine_session =
  se_transcript :: "cloto_message list"
  se_tool_history :: "json list"
  se_last_active :: instant
  se_created_at :: instant

definition session_new :: "instant \<Rightarrow> engine_session" where
  "session_new now = \<lparr>se_transcript = [], se_tool_history = [], se_last_active = now, se_created_at = now\<rparr>"

definition session_tier :: "session_policy \<Rightarrow> instant \<Rightarrow> engine_session \<Rightarrow> SessionTier" where
  "session_tier p now s = tier_from_elapsed p (max 0 (now - se_last_active s))"

definition session_append :: "instant \<Rightarrow> cloto_message \<Rightarrow> engine_session \<Rightarrow> engine_session" where
  "session_append now m s = s\<lparr>se_transcript := se_transcript s @ [m], se_last_active := now\<rparr>"

type_synonym transcript_store = "(session_key, engine_session) hmap"

definition append_message :: "session_policy \<Rightarrow> instant \<Rightarrow> session_key \<Rightarrow> cloto_message \<Rightarrow> transcript_store \<Rightarrow> transcript_store \<times> SessionTier" where
  "append_message p now key m store =
     (let s = session_append now m (unwrap_or (hm_get store key) (session_new now))
      in (hm_insert key s store, session_tier p now s))"

definition session_record_history :: "instant \<Rightarrow> session_key \<Rightarrow> json list \<Rightarrow> transcript_store \<Rightarrow> transcript_store" where
  "session_record_history now key history store =
     (case hm_get store key of
        None \<Rightarrow> store
      | Some s \<Rightarrow> hm_insert key (s\<lparr>se_tool_history := history, se_last_active := now\<rparr>) store)"

definition snapshot_transcript :: "session_key \<Rightarrow> transcript_store \<Rightarrow> cloto_message list" where
  "snapshot_transcript key store = (case hm_get store key of Some s \<Rightarrow> se_transcript s | None \<Rightarrow> [])"

definition snapshot_tool_history :: "session_key \<Rightarrow> transcript_store \<Rightarrow> json list" where
  "snapshot_tool_history key store = (case hm_get store key of Some s \<Rightarrow> se_tool_history s | None \<Rightarrow> [])"

definition tier_of :: "session_policy \<Rightarrow> instant \<Rightarrow> session_key \<Rightarrow> transcript_store \<Rightarrow> SessionTier" where
  "tier_of p now key store = (case hm_get store key of Some s \<Rightarrow> session_tier p now s | None \<Rightarrow> Cold)"

definition cooled :: "session_policy \<Rightarrow> instant \<Rightarrow> engine_session \<Rightarrow> engine_session" where
  "cooled p now s = (if session_tier p now s = Warm then s\<lparr>se_tool_history := []\<rparr> else s)"

definition run_cleanup :: "session_policy \<Rightarrow> instant \<Rightarrow> transcript_store \<Rightarrow> transcript_store \<times> nat" where
  "run_cleanup p now store =
     (map (\<lambda>(k, s). (k, cooled p now s)) (hm_retain (\<lambda>_ s. session_tier p now s \<noteq> Cold) store),
      hm_count (\<lambda>s. session_tier p now s = Cold) store)"

definition session_evict :: "session_key \<Rightarrow> transcript_store \<Rightarrow> transcript_store" where
  "session_evict key store = hm_remove key store"

section \<open>Stored rows\<close>

record chat_row =
  row_id :: string
  row_agent_id :: string
  row_user_id :: string
  row_source :: string
  row_content :: string
  row_metadata :: "string option"
  row_created_at :: instant
  row_parent_id :: "string option"
  row_branch_index :: int
  row_conversation_id :: "string option"

definition block_text :: "json \<Rightarrow> string option" where
  "block_text block =
     (case Option.bind (json_get block ''type'') json_as_str of
        None \<Rightarrow> None
      | Some t \<Rightarrow>
          if t = ''text'' then Option.bind (json_get block ''text'') json_as_str
          else Some (''['' @ t @ '']''))"

definition text_of_blocks :: "json_text \<Rightarrow> string \<Rightarrow> string" where
  "text_of_blocks jt content =
     (case Option.bind (json_from_str jt content) json_as_array of
        None \<Rightarrow> content
      | Some blocks \<Rightarrow> join_with [CHR 0x0A] (List.map_filter block_text blocks))"

text \<open>\<open>clock\<close> says which millisecond counts are dates; any other becomes the time of reading.\<close>

definition row_to_message :: "json_text \<Rightarrow> (int \<Rightarrow> bool) \<Rightarrow> instant \<Rightarrow> chat_row \<Rightarrow> cloto_message" where
  "row_to_message jt clock now r =
     \<lparr>cm_id = row_id r,
      cm_source = (if row_source r = ''user'' then SrcUser (row_user_id r) (row_user_id r)
                   else if row_source r = ''agent'' then SrcAgent (row_agent_id r) else SrcSystem),
      cm_target_agent = Some (row_agent_id r),
      cm_content = text_of_blocks jt (row_content r),
      cm_timestamp = (if clock (row_created_at r) then row_created_at r else now),
      cm_metadata = []\<rparr>"

definition rows_to_messages :: "json_text \<Rightarrow> (int \<Rightarrow> bool) \<Rightarrow> instant \<Rightarrow> chat_row list \<Rightarrow> cloto_message list" where
  "rows_to_messages jt clock now rows = map (row_to_message jt clock now) rows"

section \<open>One timeline\<close>

definition CONTEXT_TYPE_KEY :: string where "CONTEXT_TYPE_KEY = ''context_type''"
definition CONTEXT_CONVERSATION :: string where "CONTEXT_CONVERSATION = ''conversation''"
definition CONTEXT_MEMORY :: string where "CONTEXT_MEMORY = ''memory''"

definition tag_origin :: "string \<Rightarrow> cloto_message \<Rightarrow> cloto_message" where
  "tag_origin origin m = m\<lparr>cm_metadata := hm_insert CONTEXT_TYPE_KEY origin (cm_metadata m)\<rparr>"

text \<open>The first of each id, without the message being answered; messages without an id are all kept.\<close>

fun first_of_each :: "string \<Rightarrow> string list \<Rightarrow> cloto_message list \<Rightarrow> cloto_message list" where
  "first_of_each current seen [] = []"
| "first_of_each current seen (m # ms) =
     (if cm_id m = [] then m # first_of_each current seen ms
      else if cm_id m = current \<or> cm_id m \<in> set seen then first_of_each current seen ms
      else m # first_of_each current (cm_id m # seen) ms)"

definition merge_context :: "cloto_message list \<Rightarrow> cloto_message list \<Rightarrow> cloto_message list \<Rightarrow> string \<Rightarrow> cloto_message list" where
  "merge_context recall conversation transcript current_id =
     sort_key cm_timestamp (first_of_each current_id []
       (map (tag_origin CONTEXT_CONVERSATION) (conversation @ transcript) @ map (tag_origin CONTEXT_MEMORY) recall))"

section \<open>Laws of sessions\<close>

lemma tier_from_elapsed_cases:
  "tier_from_elapsed p e = Cold \<longleftrightarrow> sp_hot_gap p < e \<and> sp_hot_gap p + sp_stash_ttl p < e \<and> sp_warm_ttl p < e"
  by (auto simp: tier_from_elapsed_def)

lemma map_of_map_values: "map_of (map (\<lambda>(k, v). (k, f v)) m) k = map_option f (map_of m k)"
  by (induction m) auto

lemma cooled_tier [simp]: "session_tier p now (cooled p now s) = session_tier p now s"
  by (simp add: cooled_def session_tier_def)

lemma history_keeps_tier [simp]: "session_tier p now (s\<lparr>se_tool_history := h\<rparr>) = session_tier p now s"
  by (simp add: session_tier_def)

lemma cleaned_session:
  "hm_wf store \<Longrightarrow>
   hm_get (fst (run_cleanup p now store)) key =
     (case hm_get store key of
        Some s \<Rightarrow> if session_tier p now s = Cold then None else Some (cooled p now s)
      | None \<Rightarrow> None)"
  unfolding run_cleanup_def hm_get_def fst_conv map_of_map_values
  by (simp add: hm_retain_def hm_wf_def map_of_filter_distinct split: option.splits)

text \<open>Cleaning up the sessions cannot be seen by whoever reads their tiers: at the same moment every session
  is in the tier it was in. What is gone is cold; a transcript that is not cold is whole; and the tool history
  of a session that has gone warm is empty.\<close>

theorem cleanup_keeps_tiers:
  assumes "hm_wf store"
  shows "tier_of p now key (fst (run_cleanup p now store)) = tier_of p now key store \<and>
         snapshot_transcript key (fst (run_cleanup p now store)) = (if tier_of p now key store = Cold then [] else snapshot_transcript key store) \<and>
         snapshot_tool_history key (fst (run_cleanup p now store)) =
           (if tier_of p now key store \<in> {HotActive, HotStashed} then snapshot_tool_history key store else [])"
proof (cases "hm_get store key")
  case None
  then show ?thesis
    by (simp add: tier_of_def snapshot_transcript_def snapshot_tool_history_def cleaned_session [OF assms])
next
  case (Some s)
  then show ?thesis
    by (cases "session_tier p now s")
       (simp_all add: tier_of_def snapshot_transcript_def snapshot_tool_history_def cleaned_session [OF assms] cooled_def)
qed

lemma cleanup_keeps_tiers_witness:
  "tier_of default_policy 10000000 (''a'', ''s'') (fst (run_cleanup default_policy 10000000 [((''a'', ''s''), session_new 0)])) = Warm"
  using cleanup_keeps_tiers [of "[((''a'', ''s''), session_new 0)]" default_policy 10000000 "(''a'', ''s'')"]
  by (simp add: hm_wf_def tier_of_def hm_get_Cons session_tier_def session_new_def tier_from_elapsed_def default_policy_def
        DEFAULT_HOT_GAP_def DEFAULT_STASH_TTL_def DEFAULT_WARM_TTL_def)

section \<open>Laws of the timeline\<close>

lemma tag_origin_fields [simp]:
  "cm_id (tag_origin o' m) = cm_id m" "hm_get (cm_metadata (tag_origin o' m)) CONTEXT_TYPE_KEY = Some o'"
  by (simp_all add: tag_origin_def)

lemma first_of_each_ids:
  "set (filter (\<lambda>i. i \<noteq> []) (map cm_id (first_of_each current seen ms))) = cm_id ` set ms - ({[], current} \<union> set seen)"
proof (induction current seen ms rule: first_of_each.induct)
  case (2 current seen m ms)
  show ?case
  proof (cases "cm_id m = []")
    case True
    then show ?thesis using 2(1) by (simp add: insert_Diff_if)
  next
    case named: False
    show ?thesis
    proof (cases "cm_id m = current \<or> cm_id m \<in> set seen")
      case True
      then show ?thesis using 2(2) named by (simp add: insert_Diff_if)
    next
      case False
      then show ?thesis using 2(3) named by (simp add: insert_Diff_if) blast
    qed
  qed
qed simp

lemma first_of_each_absent:
  "x \<in> set (first_of_each current seen ms) \<Longrightarrow> cm_id x \<noteq> [] \<Longrightarrow> cm_id x \<noteq> current \<and> cm_id x \<notin> set seen"
proof -
  assume "x \<in> set (first_of_each current seen ms)" "cm_id x \<noteq> []"
  then have "cm_id x \<in> set (filter (\<lambda>i. i \<noteq> []) (map cm_id (first_of_each current seen ms)))" by simp
  then show ?thesis unfolding first_of_each_ids by simp
qed

lemma first_of_each_distinct: "distinct (filter (\<lambda>i. i \<noteq> []) (map cm_id (first_of_each current seen ms)))"
proof (induction current seen ms rule: first_of_each.induct)
  case (2 current seen m ms)
  have "cm_id m \<notin> set (filter (\<lambda>i. i \<noteq> []) (map cm_id (first_of_each current (cm_id m # seen) ms)))"
    unfolding first_of_each_ids by simp
  then show ?case using 2 by (simp del: set_filter)
qed simp

text \<open>What is kept under an id is the first of that id.\<close>

lemma first_of_each_first:
  "x \<in> set (first_of_each current seen (as @ bs)) \<Longrightarrow> cm_id x \<noteq> [] \<Longrightarrow> cm_id x \<in> cm_id ` set as \<Longrightarrow> x \<in> set as"
proof (induction as arbitrary: seen)
  case (Cons m as)
  have step: "x = m \<or> (\<exists>seen'. x \<in> set (first_of_each current seen' (as @ bs)) \<and>
      (cm_id m = [] \<or> cm_id m = current \<or> cm_id m \<in> set seen'))"
    using Cons.prems(1) by (simp split: if_splits) (metis list.set_intros(1))+
  show ?case
  proof (cases "x = m")
    case False
    then obtain seen' where later: "x \<in> set (first_of_each current seen' (as @ bs))"
      and m: "cm_id m = [] \<or> cm_id m = current \<or> cm_id m \<in> set seen'"
      using step by blast
    have "cm_id x \<noteq> cm_id m" using first_of_each_absent [OF later Cons.prems(2)] m Cons.prems(2) by metis
    then have "cm_id x \<in> cm_id ` set as" using Cons.prems(3) by simp
    then show ?thesis using Cons.IH [OF later Cons.prems(2)] by simp
  qed simp
qed simp

lemma first_of_each_sub: "set (first_of_each current seen ms) \<subseteq> set ms"
  by (induction current seen ms rule: first_of_each.induct) auto

definition origin_of :: "cloto_message list \<Rightarrow> string \<Rightarrow> string" where
  "origin_of turns i = (if i \<in> cm_id ` set turns then CONTEXT_CONVERSATION else CONTEXT_MEMORY)"


end
