(* ===== verification/Engine_Choice.thy ===== *)
theory Engine_Choice
  imports Mcp_Protocol Agentic_Loop
begin

text \<open>
  Which engine answers, and on which model: the routing rules of an agent
  (\<open>plugins/routing_default.rs\<close>), the choice of a model within an agent's range
  (\<open>handlers/engine_selection.rs\<close>) and the texts of a consensus (\<open>consensus.rs\<close>). Lowering case is
  Unicode's and a parameter.
\<close>

section \<open>Routing rules\<close>

definition ESCALATION_MARKER :: string where
  "ESCALATION_MARKER = ''[[ESCALATE]]''"

record routing_rule =
  rr_condition :: string
  rr_engine :: string
  rr_cfr :: bool
  rr_escalate_to :: "string option"
  rr_fallback :: "string option"

definition decode_rule :: "json \<Rightarrow> routing_rule option" where
  "decode_rule v =
     (if \<not> struct_shape 5 5 v then None
      else case (Option.bind (struct_field v 0 ''match'') json_as_str, Option.bind (struct_field v 1 ''engine'') json_as_str,
                 (case struct_field v 2 ''cfr'' of None \<Rightarrow> Some False | Some b \<Rightarrow> json_as_bool b),
                 opt_field json_as_str (struct_field v 3 ''escalate_to''), opt_field json_as_str (struct_field v 4 ''fallback'')) of
        (Some c, Some e, Some cfr, Some esc, Some fb) \<Rightarrow>
          Some \<lparr>rr_condition = c, rr_engine = e, rr_cfr = cfr, rr_escalate_to = esc, rr_fallback = fb\<rparr>
      | _ \<Rightarrow> None)"

definition decode_rules :: "json_text \<Rightarrow> string \<Rightarrow> routing_rule list option" where
  "decode_rules jt s = Option.bind (Option.bind (json_from_str jt s) json_as_array) (\<lambda>vs. those (map decode_rule vs))"

definition tool_keywords :: "string list" where
  "tool_keywords =
     [[CHR 0xE8, CHR 0xAA, CHR 0xBF, CHR 0xE3, CHR 0x81, CHR 0xB9],
      [CHR 0xE6, CHR 0xA4, CHR 0x9C, CHR 0xE7, CHR 0xB4, CHR 0xA2],
      [CHR 0xE5, CHR 0xAE, CHR 0x9F, CHR 0xE8, CHR 0xA1, CHR 0x8C],
      [CHR 0xE3, CHR 0x83, CHR 0x95, CHR 0xE3, CHR 0x82, CHR 0xA1, CHR 0xE3, CHR 0x82, CHR 0xA4, CHR 0xE3, CHR 0x83, CHR 0xAB],
      ''search'', ''run'', ''execute'', ''find'']"

definition rule_matches :: "(string \<Rightarrow> string) \<Rightarrow> string \<Rightarrow> routing_rule \<Rightarrow> bool" where
  "rule_matches lower message r =
     (let c = rr_condition r
      in if c = ''default'' then True
         else case strip_prefix ''contains:'' c of
           Some kw \<Rightarrow> str_contains (lower message) (lower kw)
         | None \<Rightarrow>
             (case Option.bind (strip_prefix ''length:>'' c) parse_u64 of
                Some n \<Rightarrow> length message > n
              | None \<Rightarrow> c = ''tools_likely'' \<and> list_ex (\<lambda>k. str_contains (lower message) k) tool_keywords))"

record engine_selection =
  el_engine_id :: string
  el_cfr :: bool
  el_escalate_to :: "string option"
  el_fallback :: "string option"

definition default_selection :: "string \<Rightarrow> engine_selection" where
  "default_selection engine = \<lparr>el_engine_id = engine, el_cfr = False, el_escalate_to = None, el_fallback = None\<rparr>"

definition selection_of :: "string list \<Rightarrow> routing_rule \<Rightarrow> engine_selection" where
  "selection_of online r =
     (let esc = option_filter (\<lambda>e. e \<in> set online) (rr_escalate_to r)
      in \<lparr>el_engine_id = rr_engine r, el_cfr = (rr_cfr r \<and> esc \<noteq> None), el_escalate_to = esc,
          el_fallback = option_filter (\<lambda>f. f \<in> set online) (rr_fallback r)\<rparr>)"

definition evaluate_engine_routing ::
  "json_text \<Rightarrow> (string \<Rightarrow> string) \<Rightarrow> string \<Rightarrow> (string, string) hmap \<Rightarrow> string list \<Rightarrow> string \<Rightarrow> engine_selection" where
  "evaluate_engine_routing jt lower message metadata online default_engine =
     (case Option.bind (hm_get metadata ''engine_routing'') (decode_rules jt) of
        None \<Rightarrow> default_selection default_engine
      | Some rules \<Rightarrow>
          (case find (\<lambda>r. rr_engine r \<in> set online \<and> rule_matches lower message r) rules of
             Some r \<Rightarrow> selection_of online r
           | None \<Rightarrow> default_selection default_engine))"

definition needs_escalation :: "string \<Rightarrow> bool" where
  "needs_escalation content = str_contains content ESCALATION_MARKER"

text \<open>On the text of the error.\<close>

definition is_retriable_error :: "string \<Rightarrow> bool" where
  "is_retriable_error msg =
     list_ex (str_contains msg) [''rate_limited'', ''provider_error'', ''connection_failed'', ''timeout'', ''429'', ''502'', ''503'']"

section \<open>A model within the range\<close>

record selection =
  sl_binding :: string
  sl_previous_model :: string
  sl_previous_effort :: string

definition range_list :: "json_map \<Rightarrow> string \<Rightarrow> string + string list" where
  "range_list obj key =
     (case map_of obj key of
        Some (JArr (v # vs)) \<Rightarrow> ok_or (strings_of (v # vs)) (''`'' @ key @ ''` must list strings'')
      | _ \<Rightarrow> Err (''the agent has no `'' @ key @
            ''` range, so nothing can be chosen here; its range is set with the organisation ledger''))"

text \<open>The debug form of a chosen value in a message is the parameter \<open>shown\<close>.\<close>

definition outside_range :: "(string \<Rightarrow> string) \<Rightarrow> string \<Rightarrow> string \<Rightarrow> string list \<Rightarrow> string" where
  "outside_range shown what chosen listed =
     what @ '' '' @ shown chosen @ '' is outside this agent'' @ [CHR 0x27] @ ''s range ('' @ join_with '', '' listed @ '')''"

definition previous_choice :: "json_map \<Rightarrow> string \<Rightarrow> string" where
  "previous_choice obj key = unwrap_or (Option.bind (map_of obj key) json_as_str) []"

definition apply_selection :: "json_text \<Rightarrow> (string \<Rightarrow> string) \<Rightarrow> string \<Rightarrow> string \<Rightarrow> string \<Rightarrow> string + selection" where
  "apply_selection jt shown binding model effort =
     (case Option.bind (json_from_str jt binding) json_as_object of
        None \<Rightarrow> Err (''the agent'' @ [CHR 0x27] @ ''s engine settings are not a JSON object'')
      | Some obj \<Rightarrow>
          and_then (range_list obj ''allowed_models'') (\<lambda>models.
          and_then (range_list obj ''allowed_efforts'') (\<lambda>efforts.
          and_then (ensure (model \<in> set models) (outside_range shown ''model'' model models)) (\<lambda>_.
          and_then (ensure (effort \<in> set efforts) (outside_range shown ''effort'' effort efforts)) (\<lambda>_.
          Ok \<lparr>sl_binding = json_to_string jt (JObj (json_map_insert ''effort'' (JStr effort) (json_map_insert ''model'' (JStr model) obj))),
              sl_previous_model = previous_choice obj ''model'', sl_previous_effort = previous_choice obj ''effort''\<rparr>)))))"

definition EFFORT_ORDER :: "string list" where
  "EFFORT_ORDER = [''low'', ''medium'', ''high'', ''xhigh'', ''max'', ''ultra'']"

fun position :: "'a \<Rightarrow> 'a list \<Rightarrow> nat option" where
  "position x [] = None"
| "position x (y # ys) = (if x = y then Some 0 else map_option Suc (position x ys))"

text \<open>A word that is not known comes after all that are.\<close>

definition effort_rank :: "string \<Rightarrow> nat" where
  "effort_rank e = unwrap_or (position e EFFORT_ORDER) (2 ^ 64 - 1)"

fun lowest_by :: "('a \<Rightarrow> nat) \<Rightarrow> 'a list \<Rightarrow> 'a option" where
  "lowest_by f [] = None"
| "lowest_by f (x # xs) = (case lowest_by f xs of None \<Rightarrow> Some x | Some y \<Rightarrow> if f x \<le> f y then Some x else Some y)"

definition side_members :: "string list" where
  "side_members = [''harness'', ''model'', ''allowed_models'', ''allowed_efforts'']"

definition side_floor :: "json_map \<Rightarrow> string option" where
  "side_floor obj =
     option_or (Option.bind (Option.bind (map_of obj ''allowed_efforts'') json_as_array) (\<lambda>items. lowest_by effort_rank (json_str_items items)))
       (Option.bind (map_of obj ''effort'') json_as_str)"

definition side_run_binding :: "json_text \<Rightarrow> string \<Rightarrow> string option" where
  "side_run_binding jt binding =
     map_option (\<lambda>obj.
       let side = foldl (\<lambda>m k. case map_of obj k of Some v \<Rightarrow> json_map_insert k v m | None \<Rightarrow> m) [] side_members
       in json_to_string jt (JObj (case side_floor obj of Some e \<Rightarrow> json_map_insert ''effort'' (JStr e) side | None \<Rightarrow> side)))
       (Option.bind (json_from_str jt binding) json_as_object)"

section \<open>Choosing\<close>

definition NOTE_MAX_CHARS :: nat where
  "NOTE_MAX_CHARS = 200"

text \<open>The control characters are Unicode's: \<open>controls\<close> says whether a text has one.\<close>

definition checked_note :: "(string \<Rightarrow> bool) \<Rightarrow> string option \<Rightarrow> string + string option" where
  "checked_note controls note =
     (case map_option trim note of
        None \<Rightarrow> Ok None
      | Some n \<Rightarrow>
          if n = [] then Ok None
          else if char_count n > NOTE_MAX_CHARS \<or> controls n
          then Err (''a note is one line of at most '' @ show_nat NOTE_MAX_CHARS @ '' characters'')
          else Ok (Some n))"

datatype choice_error = ChoiceValidation string | ChoiceNotFound string | ChoiceConflict string | ChoiceUnauthorized | ChoiceInternal

datatype choice_effect =
    BindingReplaced string string string string
  | ChoiceAudited string string "string option"

text \<open>The stored settings of an engine, by agent and engine; \<open>read\<close> is the row as the first statement saw it.\<close>

type_synonym engine_bindings = "(string \<times> string, string) hmap"

definition write_if_unchanged :: "string \<Rightarrow> string \<Rightarrow> string \<Rightarrow> string \<Rightarrow> engine_bindings \<Rightarrow> engine_bindings \<times> bool" where
  "write_if_unchanged agent engine old new db =
     (if hm_get db (agent, engine) = Some old then (hm_insert (agent, engine) new db, True) else (db, False))"

definition choice_reason :: "selection \<Rightarrow> string \<Rightarrow> string \<Rightarrow> string option \<Rightarrow> string" where
  "choice_reason sel model effort note =
     sl_previous_model sel @ '' / '' @ sl_previous_effort sel @ '' -> '' @ model @ '' / '' @ effort @
     (case note of Some n \<Rightarrow> '' ('' @ n @ '')'' | None \<Rightarrow> [])"

definition select_engine ::
  "json_text \<Rightarrow> (string \<Rightarrow> string) \<Rightarrow> (string \<Rightarrow> bool) \<Rightarrow> bool \<Rightarrow> (string \<times> string option) option \<Rightarrow> string \<Rightarrow> string \<Rightarrow> string \<Rightarrow> string option
   \<Rightarrow> engine_bindings \<Rightarrow> engine_bindings \<times> choice_effect list \<times> (choice_error + string \<times> string)" where
  "select_engine jt shown controls authorized row agent model effort note db =
     (if \<not> authorized then (db, [], Err ChoiceUnauthorized)
      else case checked_note controls note of
        Inl e \<Rightarrow> (db, [], Err (ChoiceValidation e))
      | Inr n \<Rightarrow>
          (case row of
             None \<Rightarrow> (db, [], Err (ChoiceNotFound (''Agent '' @ agent @ '' not found'')))
           | Some (engine, stored) \<Rightarrow>
               (case option_filter (\<lambda>b. trim b \<noteq> []) stored of
                  None \<Rightarrow> (db, [], Err (ChoiceValidation (''agent '' @ agent @ '' has no settings for its engine '' @ shown engine @
                            '', so nothing can be chosen here'')))
                | Some binding \<Rightarrow>
                    (case apply_selection jt shown binding model effort of
                       Inl e \<Rightarrow> (db, [], Err (ChoiceValidation e))
                     | Inr sel \<Rightarrow>
                         (case write_if_unchanged agent engine binding (sl_binding sel) db of
                            (_, False) \<Rightarrow> (db, [], Err (ChoiceConflict (''agent '' @ agent @ [CHR 0x27] @
                              ''s engine settings changed while this was being applied; read them again'')))
                          | (db', True) \<Rightarrow>
                              (db', [BindingReplaced agent engine binding (sl_binding sel),
                                     ChoiceAudited agent (choice_reason sel model effort n) n],
                               Ok (sl_previous_model sel, sl_previous_effort sel)))))))"

section \<open>Consensus texts\<close>

definition REUSE_FRAMINGS :: "string list" where
  "REUSE_FRAMINGS =
     [''Reason from first principles, then answer:'', ''Carefully weigh edge cases and caveats, then answer:'',
      ''Consider alternative viewpoints, then answer:'', ''Be precise and direct, then answer:'']"

definition framed_prompt :: "string \<Rightarrow> nat \<Rightarrow> string" where
  "framed_prompt content sample_index =
     (if sample_index \<le> 1 then content
      else REUSE_FRAMINGS ! ((sample_index - 2) mod length REUSE_FRAMINGS) @ [CHR 0x0A, CHR 0x0A] @ content)"

definition combine_views :: "string list \<Rightarrow> string" where
  "combine_views proposals =
     join_with [CHR 0x0A, CHR 0x0A] (map (\<lambda>(i, p). ''## Opinion '' @ show_nat (i + 1) @ '':'' @ [CHR 0x0A] @ p) (enumerate 0 proposals))"

definition synthesis_prompt :: "string \<Rightarrow> string" where
  "synthesis_prompt combined =
     ''You are a wise moderator. Synthesize the following opinions into a single, coherent conclusion.'' @ [CHR 0x0A, CHR 0x0A] @ combined"

section \<open>Laws\<close>

lemma find_in: "find P xs = Some x \<Longrightarrow> x \<in> set xs \<and> P x"
  by (auto simp: find_Some_iff in_set_conv_nth)

text \<open>Routing never leads to an engine that is not there: whatever an agent's rules say, the engine chosen is
  the agent's default or a connected one, those to escalate or fall back to are connected, and the cheap
  engine is tried first only when there is one to escalate to.\<close>

theorem routing_stays_connected:
  "(let sel = evaluate_engine_routing jt lower message metadata online default_engine
    in el_engine_id sel \<in> insert default_engine (set online) \<and>
       set_option (el_escalate_to sel) \<subseteq> set online \<and> set_option (el_fallback sel) \<subseteq> set online \<and>
       (el_cfr sel \<le> (el_escalate_to sel \<noteq> None)))"
  by (auto simp: evaluate_engine_routing_def default_selection_def selection_of_def Let_def option_filter_def
        split: option.splits if_splits dest: find_in)

lemma range_list_Ok: "range_list obj key = Ok xs \<Longrightarrow> xs \<noteq> [] \<and> Option.bind (map_of obj key) json_as_strings = Some xs"
proof -
  assume ok: "range_list obj key = Ok xs"
  obtain v vs where arr: "map_of obj key = Some (JArr (v # vs))" "strings_of (v # vs) = Some xs"
    using ok by (auto simp: range_list_def split: option.splits json.splits list.splits)
  have "strings_of ws = Some ys \<Longrightarrow> length ws = length ys" for ws ys
    by (induction ws arbitrary: ys rule: strings_of.induct) auto
  from this [OF arr(2)] show ?thesis using arr by (auto simp: json_as_strings_def)
qed

lemma selection_made:
  assumes "apply_selection jt shown binding model effort = Ok sel"
  obtains obj models efforts where "Option.bind (json_from_str jt binding) json_as_object = Some obj"
    "Option.bind (map_of obj ''allowed_models'') json_as_strings = Some models" "model \<in> set models"
    "Option.bind (map_of obj ''allowed_efforts'') json_as_strings = Some efforts" "effort \<in> set efforts"
    "sl_binding sel = json_to_string jt (JObj (json_map_insert ''effort'' (JStr effort) (json_map_insert ''model'' (JStr model) obj)))"
  using assms
  by (auto simp: apply_selection_def and_then_Ok_iff split: option.splits dest!: range_list_Ok)

text \<open>C28. A choice of a model replaces an agent's engine settings only as they were read, and only by the same
  settings with another model and effort, both from the lists the settings themselves carry: every other
  member, the lists included, is as it was. Any other outcome changes nothing.\<close>

theorem choice_stays_in_range:
  "(case select_engine jt shown controls authorized row agent model effort note db of
      (db', effects, Inl e) \<Rightarrow> db' = db \<and> effects = []
    | (db', effects, Inr _) \<Rightarrow> authorized \<and>
        (\<exists>engine binding obj models efforts.
           row = Some (engine, Some binding) \<and> hm_get db (agent, engine) = Some binding \<and>
           Option.bind (json_from_str jt binding) json_as_object = Some obj \<and>
           Option.bind (map_of obj ''allowed_models'') json_as_strings = Some models \<and> model \<in> set models \<and>
           Option.bind (map_of obj ''allowed_efforts'') json_as_strings = Some efforts \<and> effort \<in> set efforts \<and>
           db' = hm_insert (agent, engine)
             (json_to_string jt (JObj (json_map_insert ''effort'' (JStr effort) (json_map_insert ''model'' (JStr model) obj)))) db))"
proof -
  obtain db' effects result where run: "select_engine jt shown controls authorized row agent model effort note db = (db', effects, result)"
    by (cases "select_engine jt shown controls authorized row agent model effort note db") auto
  show ?thesis
  proof (cases result)
    case (Inl e)
    then show ?thesis
      using run by (auto simp: select_engine_def split: if_splits sum.splits option.splits prod.splits bool.splits)
  next
    case (Inr v)
    from run obtain engine binding sel where parts: "authorized" "row = Some (engine, Some binding)"
      "apply_selection jt shown binding model effort = Ok sel" "write_if_unchanged agent engine binding (sl_binding sel) db = (db', True)"
      by (auto simp: select_engine_def Inr split: if_splits sum.splits option.splits prod.splits bool.splits)
    from parts(3) obtain obj models efforts where chosen: "Option.bind (json_from_str jt binding) json_as_object = Some obj"
      "Option.bind (map_of obj ''allowed_models'') json_as_strings = Some models" "model \<in> set models"
      "Option.bind (map_of obj ''allowed_efforts'') json_as_strings = Some efforts" "effort \<in> set efforts"
      "sl_binding sel = json_to_string jt (JObj (json_map_insert ''effort'' (JStr effort) (json_map_insert ''model'' (JStr model) obj)))"
      by (rule selection_made)
    have "hm_get db (agent, engine) = Some binding \<and> db' = hm_insert (agent, engine) (sl_binding sel) db"
      using parts(4) by (auto simp: write_if_unchanged_def split: if_splits)
    then show ?thesis unfolding run Inr using parts(1,2) chosen by auto
  qed
qed

end
