(* ===== verification/Engine_Calls.thy ===== *)
theory Engine_Calls
  imports Conversation Engine_Choice Dispatcher Delegation
begin

text \<open>
  One question to an engine: what is sent, whether it fits the model (\<open>managers/token_budget.rs\<close>), what is
  read back and what is kept of its use (\<open>handlers/system.rs\<close>, \<open>managers/usage_tracker.rs\<close>,
  \<open>managers/provider_probe.rs\<close>).

  The answer of a server to a call made as a caller, the row of a provider, the texts of times, JSON text,
  the product of a window with a binary fraction and the clock are inputs (\<open>engine_io\<close>). What a call meets
  on its way is \<open>Capability_Gate\<close>'s.
\<close>

section \<open>What is sent\<close>

definition caller_for :: "agent_metadata \<Rightarrow> Caller" where
  "caller_for a = (if am_agent_type a = ''system'' then System else Agent (am_id a))"

definition source_json :: "message_source \<Rightarrow> json" where
  "source_json s = (case s of
       SrcUser i n \<Rightarrow> json_object [(''type'', JStr ''User''), (''id'', JStr i), (''name'', JStr n)]
     | SrcAgent i \<Rightarrow> json_object [(''type'', JStr ''Agent''), (''id'', JStr i)]
     | SrcSystem \<Rightarrow> json_object [(''type'', JStr ''System'')])"

definition metadata_json :: "(string, string) hmap \<Rightarrow> json" where
  "metadata_json m = json_object (map (\<lambda>(k, v). (k, JStr v)) m)"

definition opt_str_json :: "string option \<Rightarrow> json" where
  "opt_str_json o' = (case o' of Some s \<Rightarrow> JStr s | None \<Rightarrow> JNull)"

definition int_json :: "int \<Rightarrow> json" where
  "int_json i = JNum (if i < 0 then NegInt i else PosInt (nat i))"

definition agent_json :: "agent_metadata \<Rightarrow> json" where
  "agent_json a = json_object
     [(''id'', JStr (am_id a)), (''name'', JStr (am_name a)), (''description'', JStr (am_description a)), (''enabled'', JBool (am_enabled a)),
      (''last_seen'', int_json (am_last_seen a)), (''status'', JStr (am_status a)), (''default_engine_id'', opt_str_json (am_default_engine_id a)),
      (''required_capabilities'', JArr (map JStr (am_required_capabilities a))), (''metadata'', metadata_json (am_metadata a)),
      (''agent_type'', JStr (am_agent_type a))]"

definition message_json :: "(instant \<Rightarrow> string) \<Rightarrow> cloto_message \<Rightarrow> json" where
  "message_json serde_time m = json_object
     [(''id'', JStr (cm_id m)), (''source'', source_json (cm_source m)), (''target_agent'', opt_str_json (cm_target_agent m)),
      (''content'', JStr (cm_content m)), (''timestamp'', JStr (serde_time (cm_timestamp m))), (''metadata'', metadata_json (cm_metadata m))]"

definition context_entry :: "(instant \<Rightarrow> string) \<Rightarrow> cloto_message \<Rightarrow> json" where
  "context_entry shown_time m = json_object
     ([(''source'', source_json (cm_source m)), (''content'', JStr (cm_content m)), (''timestamp'', JStr (shown_time (cm_timestamp m)))] @
      (case hm_get (cm_metadata m) CONTEXT_TYPE_KEY of Some ct \<Rightarrow> [(CONTEXT_TYPE_KEY, JStr ct)] | None \<Rightarrow> []))"

definition serialize_context :: "(instant \<Rightarrow> string) \<Rightarrow> cloto_message list \<Rightarrow> json list" where
  "serialize_context shown_time ms = map (context_entry shown_time) ms"

text \<open>The five members a dispatch adds, each when there is one: a token, the language, and three composed blocks.\<close>

record dispatch_extras =
  dx_token :: "string option"
  dx_inject_language :: bool
  dx_language :: string
  dx_server_instructions :: "string option"
  dx_agent_instructions :: "string option"
  dx_skills :: "string option"

definition add_member :: "string \<Rightarrow> string option \<Rightarrow> (string, string) hmap \<Rightarrow> (string, string) hmap" where
  "add_member k v m = (case v of Some x \<Rightarrow> hm_insert k x m | None \<Rightarrow> m)"

definition METADATA_AGENT_TOKEN :: string where "METADATA_AGENT_TOKEN = ''agent_token''"

definition enrich_agent_for_dispatch :: "dispatch_extras \<Rightarrow> agent_metadata \<Rightarrow> agent_metadata" where
  "enrich_agent_for_dispatch dx a = a\<lparr>am_metadata :=
     add_member ''agent_skills'' (dx_skills dx)
      (add_member ''agent_instructions'' (dx_agent_instructions dx)
       (add_member ''mcp_server_instructions'' (dx_server_instructions dx)
        (add_member ''response_language'' (if dx_inject_language dx \<and> dx_language dx \<noteq> [] then Some (dx_language dx) else None)
         (add_member METADATA_AGENT_TOKEN (dx_token dx) (am_metadata a)))))\<rparr>"

section \<open>Errors of an engine\<close>

definition engine_guidance :: "string \<Rightarrow> string \<Rightarrow> string" where
  "engine_guidance err code =
     (if code = ''auth_failed'' then '' Check your API key in Settings '' @ arrow @ '' Security.''
      else if code = ''rate_limited'' then '' Please wait a moment and try again.''
      else if code = ''provider_error'' then '' The LLM provider is experiencing issues. Try a different engine.''
      else if code = ''connection_failed'' \<or> code = ''timeout'' then '' Ensure the kernel and LLM services are running.''
      else if code = ''context_overflow'' then
        '' The request is larger than the model'' @ [CHR 0x27] @ ''s context window. Raise the provider'' @ [CHR 0x27] @
        ''s context_length in Settings '' @ arrow @ '' LLM Providers, reduce the memory recall window, or remove unused tools.''
      else if str_contains err ''exceeds the available context'' \<or> str_contains err ''context_length_exceeded'' \<or> str_contains err ''n_ctx:''
      then '' The request exceeds the model'' @ [CHR 0x27] @
        ''s loaded context window. Raise the context length when loading the model, or reduce memory/tools in Settings.''
      else [])"

definition format_engine_error :: "string \<Rightarrow> string option \<Rightarrow> string" where
  "format_engine_error err code = err @ engine_guidance err (unwrap_or code ''unknown'')"

definition reported_error :: "json \<Rightarrow> string option" where
  "reported_error v =
     map_option (\<lambda>e. format_engine_error e (Option.bind (json_get v ''error_code'') json_as_str)) (Option.bind (json_get v ''error'') json_as_str)"

section \<open>What is read back\<close>

definition extract_mcp_think_content :: "json_text \<Rightarrow> call_tool_result \<Rightarrow> anyhow + string" where
  "extract_mcp_think_content jt r =
     (case texts_of (cr_content r) of
        [] \<Rightarrow> Err (AMsg ''MCP engine returned no text content'')
      | t # _ \<Rightarrow>
          (case json_from_str jt t of
             None \<Rightarrow> Ok t
           | Some v \<Rightarrow>
               (case reported_error v of
                  Some e \<Rightarrow> Err (AMsg e)
                | None \<Rightarrow> Ok (unwrap_or (Option.bind (json_get v ''content'') json_as_str) t))))"

definition parse_mcp_think_result :: "json_text \<Rightarrow> (string \<Rightarrow> string) \<Rightarrow> call_tool_result \<Rightarrow> anyhow + think_result" where
  "parse_mcp_think_result jt json_error r =
     (case texts_of (cr_content r) of
        [] \<Rightarrow> Err (AMsg ''MCP engine returned no parseable ThinkResult'')
      | t # _ \<Rightarrow>
          (case json_from_str jt t of
             None \<Rightarrow> Err (AMsg (''MCP engine returned invalid JSON: '' @ json_error t))
           | Some v \<Rightarrow>
               (case reported_error v of
                  Some e \<Rightarrow> Err (AMsg e)
                | None \<Rightarrow>
                    if unwrap_or (Option.bind (json_get v ''type'') json_as_str) ''final'' = ''tool_calls''
                    then Ok (ToolCalls (Option.bind (json_get v ''assistant_content'') json_as_str)
                           (List.map_filter parse_tool_call (unwrap_or (Option.bind (json_get v ''calls'') json_as_array) [])))
                    else Ok (Final (unwrap_or (Option.bind (json_get v ''content'') json_as_str) [])))))"

definition extract_tool_json :: "json_text \<Rightarrow> call_tool_result \<Rightarrow> json option" where
  "extract_tool_json jt r = (case texts_of (cr_content r) of [] \<Rightarrow> None | t # _ \<Rightarrow> json_from_str jt t)"

text \<open>A message source as JSON, tagged by its type; an array holds the tag first.\<close>

definition decode_source :: "json \<Rightarrow> message_source option" where
  "decode_source v =
     Option.bind (Option.bind (struct_field v 0 ''type'') json_as_str) (\<lambda>t.
       if t = ''User'' \<and> struct_shape 3 3 v then
         Option.bind (Option.bind (struct_field v 1 ''id'') json_as_str) (\<lambda>i.
         map_option (SrcUser i) (Option.bind (struct_field v 2 ''name'') json_as_str))
       else if t = ''Agent'' \<and> struct_shape 2 2 v then map_option SrcAgent (Option.bind (struct_field v 1 ''id'') json_as_str)
       else if t = ''System'' \<and> struct_shape 1 1 v then Some SrcSystem
       else None)"

definition recalled_message :: "(string \<Rightarrow> instant option) \<Rightarrow> instant \<Rightarrow> json \<Rightarrow> cloto_message option" where
  "recalled_message read_time now v =
     map_option (\<lambda>c. \<lparr>cm_id = unwrap_or (Option.bind (json_get v ''id'') json_as_str) [],
        cm_source = unwrap_or (Option.bind (json_get v ''source'') decode_source) SrcSystem,
        cm_target_agent = None, cm_content = c,
        cm_timestamp = unwrap_or (Option.bind (Option.bind (json_get v ''timestamp'') json_as_str) read_time) now,
        cm_metadata = (case Option.bind (json_get v ''context_type'') json_as_str of Some ct \<Rightarrow> [(''context_type'', ct)] | None \<Rightarrow> [])\<rparr>)
       (Option.bind (json_get v ''content'') json_as_str)"

text \<open>The first text that is JSON and reports an error or carries messages decides.\<close>

fun recalled_from :: "json_text \<Rightarrow> (string \<Rightarrow> instant option) \<Rightarrow> instant \<Rightarrow> string list \<Rightarrow> cloto_message list" where
  "recalled_from jt read_time now [] = []"
| "recalled_from jt read_time now (t # ts) =
     (case json_from_str jt t of
        None \<Rightarrow> recalled_from jt read_time now ts
      | Some v \<Rightarrow>
          if Option.bind (json_get v ''error'') json_as_str \<noteq> None then []
          else (case Option.bind (json_get v ''messages'') json_as_array of
                  Some ms \<Rightarrow> sort_key cm_timestamp (List.map_filter (recalled_message read_time now) ms)
                | None \<Rightarrow> recalled_from jt read_time now ts))"

definition parse_mcp_recall_result :: "json_text \<Rightarrow> (string \<Rightarrow> instant option) \<Rightarrow> instant \<Rightarrow> call_tool_result \<Rightarrow> cloto_message list" where
  "parse_mcp_recall_result jt read_time now r = recalled_from jt read_time now (texts_of (cr_content r))"

section \<open>Whether it fits\<close>

definition estimate_str_tokens :: "string \<Rightarrow> nat" where
  "estimate_str_tokens s = length s div 3"

definition estimate_request_tokens :: "json_text \<Rightarrow> json \<Rightarrow> nat" where
  "estimate_request_tokens jt v = length (json_to_string jt v) div 3"

datatype DominantComponent = SystemPrompt | ContextPart | ToolsPart | MessagePart

fun component_name :: "DominantComponent \<Rightarrow> string" where
  "component_name SystemPrompt = ''system_prompt''"
| "component_name ContextPart = ''context''"
| "component_name ToolsPart = ''tools''"
| "component_name MessagePart = ''message''"

text \<open>The last of those that are greatest.\<close>

fun max_by_key :: "('a \<Rightarrow> nat) \<Rightarrow> 'a list \<Rightarrow> 'a option" where
  "max_by_key f [] = None"
| "max_by_key f (x # xs) = (case max_by_key f xs of None \<Rightarrow> Some x | Some y \<Rightarrow> if f y < f x then Some x else Some y)"

record budget_decision =
  bd_exceeds :: bool
  bd_estimated_input :: nat
  bd_context_length :: int
  bd_headroom :: nat
  bd_dominant :: DominantComponent
  bd_system :: nat
  bd_context :: nat
  bd_tools :: nat
  bd_message :: nat

definition RESPONSE_HEADROOM :: nat where "RESPONSE_HEADROOM = 1024"

text \<open>\<open>fraction\<close> is the truncated product of the window with 0.85 in binary arithmetic.\<close>

definition check_budget :: "json_text \<Rightarrow> (int \<Rightarrow> nat) \<Rightarrow> string \<Rightarrow> json \<Rightarrow> json \<Rightarrow> json \<Rightarrow> int \<Rightarrow> budget_decision" where
  "check_budget jt fraction system_prompt context_part tools message context_length =
     (let s = estimate_str_tokens system_prompt; c = estimate_request_tokens jt context_part;
          t = estimate_request_tokens jt tools; m = estimate_request_tokens jt message;
          est = s + c + t + m
      in \<lparr>bd_exceeds = (est > fraction context_length - RESPONSE_HEADROOM), bd_estimated_input = est,
          bd_context_length = context_length, bd_headroom = RESPONSE_HEADROOM,
          bd_dominant = (case max_by_key snd [(SystemPrompt, s), (ContextPart, c), (ToolsPart, t), (MessagePart, m)] of
                           Some (d, _) \<Rightarrow> d | None \<Rightarrow> ToolsPart),
          bd_system = s, bd_context = c, bd_tools = t, bd_message = m\<rparr>)"

definition show_i64 :: "int \<Rightarrow> string" where
  "show_i64 i = (if i < 0 then CHR ''-'' # show_nat (nat (- i)) else show_nat (nat i))"

definition overflow_text :: "budget_decision \<Rightarrow> string" where
  "overflow_text d = format_engine_error
     (''Estimated '' @ show_nat (bd_estimated_input d) @ '' input tokens exceeds the '' @ show_i64 (bd_context_length d) @
      ''-token context window ('' @ component_name (bd_dominant d) @ '' is the dominant contributor).'') (Some ''context_overflow'')"

section \<open>What the model was loaded with\<close>

type_synonym loaded_models = "(string, int option) hmap"

text \<open>Of a probe's answer, the loaded window of each model; kept for ten seconds.\<close>

type_synonym probe_cache = "(string, instant \<times> loaded_models) hmap"

definition PROBE_CACHE_TTL :: duration where "PROBE_CACHE_TTL = 10000"

definition get_or_probe :: "instant \<Rightarrow> loaded_models option \<Rightarrow> string \<Rightarrow> probe_cache \<Rightarrow> probe_cache \<times> bool \<times> loaded_models option" where
  "get_or_probe now fresh provider_id cache =
     (case option_filter (\<lambda>(ts, _). now - ts < PROBE_CACHE_TTL) (hm_get cache provider_id) of
        Some (_, models) \<Rightarrow> (cache, False, Some models)
      | None \<Rightarrow>
          (case fresh of
             None \<Rightarrow> (cache, True, None)
           | Some models \<Rightarrow> (hm_insert provider_id (now, models) cache, True, Some models)))"

section \<open>Use\<close>

record provider_row =
  pv_id :: string
  pv_api_url :: string
  pv_model_id :: string
  pv_context_length :: "int option"

record last_usage =
  lu_prompt_tokens :: nat
  lu_completion_tokens :: nat
  lu_total_tokens :: nat
  lu_context_length :: "int option"
  lu_provider_id :: string
  lu_model_id :: string
  lu_reasoning_effort :: "string option"
  lu_is_estimate :: bool
  lu_updated_at :: instant

definition clip_u32 :: "nat \<Rightarrow> nat" where
  "clip_u32 n = min n (2 ^ 32 - 1)"

definition normalize_usage :: "json \<Rightarrow> (nat \<times> nat \<times> nat) option" where
  "normalize_usage v =
     Option.bind (json_as_object v) (\<lambda>obj.
     Option.bind (Option.bind (option_or (map_of obj ''prompt_tokens'') (map_of obj ''input_tokens'')) json_as_u64) (\<lambda>prompt.
       let completion = unwrap_or (Option.bind (option_or (map_of obj ''completion_tokens'') (map_of obj ''output_tokens'')) json_as_u64) 0;
           total_n = unwrap_or (Option.bind (map_of obj ''total_tokens'') json_as_u64) (min (prompt + completion) (2 ^ 64 - 1))
       in Some (clip_u32 prompt, clip_u32 completion, clip_u32 total_n)))"

definition reported_string :: "json \<Rightarrow> string \<Rightarrow> string option" where
  "reported_string v k = option_filter (\<lambda>s. s \<noteq> []) (map_option trim (Option.bind (json_get v k) json_as_str))"

definition last_usage_from :: "instant \<Rightarrow> json \<Rightarrow> string \<Rightarrow> provider_row option \<Rightarrow> last_usage option" where
  "last_usage_from now v provider_id provider =
     map_option (\<lambda>(p, c, t).
       \<lparr>lu_prompt_tokens = p, lu_completion_tokens = c, lu_total_tokens = t,
        lu_context_length = Option.bind provider pv_context_length, lu_provider_id = provider_id,
        lu_model_id = unwrap_or (reported_string v ''model'') (case provider of Some r \<Rightarrow> pv_model_id r | None \<Rightarrow> []),
        lu_reasoning_effort = reported_string v ''reasoning_effort'', lu_is_estimate = False, lu_updated_at = now\<rparr>)
       (Option.bind (json_get v ''usage'') normalize_usage)"

definition bare_engine :: "string \<Rightarrow> string" where
  "bare_engine e = unwrap_or (strip_prefix ''mind.'' e) e"

section \<open>The call\<close>

record engine_io =
  ec_now :: instant
  ec_json :: json_text
  ec_json_error :: "string \<Rightarrow> string"
  ec_shown_time :: "instant \<Rightarrow> string"
  ec_serde_time :: "instant \<Rightarrow> string"
  ec_extras :: "string \<Rightarrow> string \<Rightarrow> dispatch_extras"
  ec_provider :: "string \<Rightarrow> provider_row option"
  ec_probed :: "provider_row \<Rightarrow> loaded_models option"
  ec_fraction :: "int \<Rightarrow> nat"
  ec_call :: "Caller \<Rightarrow> string \<Rightarrow> ToolKind \<Rightarrow> json \<Rightarrow> anyhow + call_tool_result"
  ec_streaming :: bool
  ec_chunks :: "json list"

datatype stream_event =
    TokenStream string string string nat nat string
  | ToolUseStream string string string "string option" nat nat string

datatype engine_effect =
    ProviderProbed string
  | KindCalled Caller string ToolKind json
  | KindStreamed Caller string ToolKind json
  | Streamed stream_event

record engine_state =
  es_cache :: probe_cache
  es_usage :: "(string, last_usage) hmap"

definition window_of :: "int option \<Rightarrow> int option \<Rightarrow> int option" where
  "window_of configured loaded =
     (case (configured, loaded) of (Some d, Some l) \<Rightarrow> Some (min d l) | (Some d, None) \<Rightarrow> Some d | (None, l) \<Rightarrow> l)"

definition preflight_token_budget ::
  "engine_io \<Rightarrow> string \<Rightarrow> json \<Rightarrow> json \<Rightarrow> json \<Rightarrow> json \<Rightarrow> probe_cache \<Rightarrow> probe_cache \<times> engine_effect list \<times> (anyhow + unit)" where
  "preflight_token_budget io engine_id agent context_part tools message cache =
     (case ec_provider io (bare_engine engine_id) of
        None \<Rightarrow> (cache, [], Ok ())
      | Some p \<Rightarrow>
          (case get_or_probe (ec_now io) (ec_probed io p) (pv_id p) cache of
             (cache', asked_now, models) \<Rightarrow>
               (cache', (if asked_now then [ProviderProbed (pv_id p)] else []),
                (case window_of (pv_context_length p) (Option.bind models (\<lambda>m. Option.bind (hm_get m (pv_model_id p)) id)) of
                   None \<Rightarrow> Ok ()
                 | Some w \<Rightarrow>
                     (let d = check_budget (ec_json io) (ec_fraction io) (json_to_string (ec_json io) agent) context_part tools message w
                      in if bd_exceeds d then Err (AMsg (overflow_text d)) else Ok ())))))"

text \<open>The block is read from the first content, which must be text.\<close>

definition maybe_record_usage :: "engine_io \<Rightarrow> string \<Rightarrow> string \<Rightarrow> call_tool_result \<Rightarrow> (string, last_usage) hmap \<Rightarrow> (string, last_usage) hmap" where
  "maybe_record_usage io agent_id engine_id r usage =
     (case cr_content r of
        TextContent t # _ \<Rightarrow>
          (case Option.bind (json_from_str (ec_json io) t) (\<lambda>v. last_usage_from (ec_now io) v (bare_engine engine_id) (ec_provider io (bare_engine engine_id))) of
             Some u \<Rightarrow> hm_insert agent_id u usage
           | None \<Rightarrow> usage)
      | _ \<Rightarrow> usage)"

definition chunk_field :: "json option \<Rightarrow> string \<Rightarrow> string option" where
  "chunk_field content k = option_filter (\<lambda>s. s \<noteq> []) (Option.bind (Option.bind content (\<lambda>c. json_get c k)) json_as_str)"

text \<open>The index is cut to 32 bits.\<close>

definition stream_chunk_event :: "json \<Rightarrow> string \<Rightarrow> string \<Rightarrow> nat \<Rightarrow> string \<Rightarrow> stream_event option" where
  "stream_chunk_event chunk agent_id engine_id iteration message_id =
     (let index = unwrap_or (Option.bind (json_get chunk ''index'') json_as_u64) 0 mod 2 ^ 32;
          content = json_get chunk ''content'';
          kind = unwrap_or (Option.bind (Option.bind content (\<lambda>c. json_get c ''type'')) json_as_str) ''text''
      in if kind = ''text'' then map_option (\<lambda>d. TokenStream agent_id engine_id d index iteration message_id) (chunk_field content ''text'')
         else if kind = ''tool_use'' then
           map_option (\<lambda>n. ToolUseStream agent_id engine_id n (chunk_field content ''id'') index iteration message_id) (chunk_field content ''name'')
         else None)"

text \<open>Where a question goes: a plugin that reasons or does not, a server, or nowhere.\<close>

datatype engine_route = PluginRoute bool | ServerRoute | NoRoute

definition not_reasoning :: "string \<Rightarrow> anyhow" where
  "not_reasoning engine_id = AMsg (''Plugin '' @ quoted engine_id @ '' is not a ReasoningEngine'')"

definition no_engine :: "string \<Rightarrow> anyhow" where
  "no_engine engine_id = AMgp (server_not_ready (''Engine '' @ quoted engine_id @ '' is not a registered/connected engine server''))"

definition dispatched_agent :: "engine_io \<Rightarrow> agent_metadata \<Rightarrow> string \<Rightarrow> json" where
  "dispatched_agent io agent engine_id = agent_json (enrich_agent_for_dispatch (ec_extras io (am_id agent) engine_id) agent)"

definition ask_server ::
  "engine_io \<Rightarrow> string \<Rightarrow> agent_metadata \<Rightarrow> cloto_message \<Rightarrow> cloto_message list \<Rightarrow> ToolKind \<Rightarrow> json list \<Rightarrow> (string \<times> json) list \<Rightarrow> bool
   \<Rightarrow> engine_state \<Rightarrow> engine_state \<times> engine_effect list \<times> (anyhow + call_tool_result)" where
  "ask_server io engine_id agent m context_ms kind tools extra streamed st =
     (let agent_val = dispatched_agent io agent engine_id;
          message_val = message_json (ec_serde_time io) m;
          context_val = JArr (serialize_context (ec_shown_time io) context_ms);
          args = json_object ([(''agent'', agent_val), (''message'', message_val), (''context'', context_val)] @ extra);
          caller = caller_for agent
      in case preflight_token_budget io engine_id agent_val context_val (JArr tools) message_val (es_cache st) of
           (cache', es, Inl e) \<Rightarrow> (st\<lparr>es_cache := cache'\<rparr>, es, Err e)
         | (cache', es, Inr _) \<Rightarrow>
             (case ec_call io caller engine_id kind args of
                Inl e \<Rightarrow> (st\<lparr>es_cache := cache'\<rparr>, es @ [(if streamed then KindStreamed else KindCalled) caller engine_id kind args], Err e)
              | Inr r \<Rightarrow> (st\<lparr>es_cache := cache', es_usage := maybe_record_usage io (am_id agent) engine_id r (es_usage st)\<rparr>,
                         es @ [(if streamed then KindStreamed else KindCalled) caller engine_id kind args], Ok r)))"

text \<open>The answer of a plugin is an input.\<close>

definition engine_think ::
  "engine_io \<Rightarrow> engine_route \<Rightarrow> (anyhow + string) \<Rightarrow> string \<Rightarrow> agent_metadata \<Rightarrow> cloto_message \<Rightarrow> cloto_message list \<Rightarrow> engine_state
   \<Rightarrow> engine_state \<times> engine_effect list \<times> (anyhow + string)" where
  "engine_think io route plugin_answer engine_id agent m context_ms st =
     (case route of
        PluginRoute reasons \<Rightarrow> (st, [], if reasons then plugin_answer else Err (not_reasoning engine_id))
      | ServerRoute \<Rightarrow>
          (case ask_server io engine_id agent m context_ms Think [] [] False st of
             (st', es, r) \<Rightarrow> (st', es, and_then r (extract_mcp_think_content (ec_json io))))
      | NoRoute \<Rightarrow> (st, [], Err (no_engine engine_id)))"

text \<open>
  With tools the call may stream: what arrives on the way becomes events, and the result is the same
  complete one. How many chunks arrive before the bus closes is in \<open>ec_chunks\<close>.
\<close>

definition engine_think_with_tools ::
  "engine_io \<Rightarrow> engine_route \<Rightarrow> (anyhow + think_result) \<Rightarrow> string \<Rightarrow> agent_metadata \<Rightarrow> cloto_message \<Rightarrow> cloto_message list \<Rightarrow> json list \<Rightarrow> json list
   \<Rightarrow> nat \<Rightarrow> engine_state \<Rightarrow> engine_state \<times> engine_effect list \<times> (anyhow + think_result)" where
  "engine_think_with_tools io route plugin_answer engine_id agent m context_ms tools history iteration st =
     (case route of
        PluginRoute reasons \<Rightarrow> (st, [], if reasons then plugin_answer else Err (not_reasoning engine_id))
      | ServerRoute \<Rightarrow>
          (case ask_server io engine_id agent m context_ms ThinkWithTools tools
                  [(''tools'', JArr tools), (''tool_history'', JArr history)] (ec_streaming io) st of
             (st', es, r) \<Rightarrow>
               (st', es @ (if ec_streaming io \<and> (\<exists>e\<in>set es. case e of KindStreamed _ _ _ _ \<Rightarrow> True | _ \<Rightarrow> False)
                           then map Streamed (List.map_filter (\<lambda>c. stream_chunk_event c (am_id agent) engine_id iteration (cm_id m)) (ec_chunks io))
                           else []),
                and_then r (parse_mcp_think_result (ec_json io) (ec_json_error io))))
      | NoRoute \<Rightarrow> (st, [], Err (no_engine engine_id)))"

section \<open>Side questions\<close>

definition think_simple_args :: "string \<Rightarrow> string option \<Rightarrow> string \<Rightarrow> string \<Rightarrow> json" where
  "think_simple_args engine_id settings prompt system_desc = json_object
     [(''agent'', json_object [(''name'', JStr ''system''), (''description'', JStr system_desc),
         (''metadata'', JObj (case settings of Some s \<Rightarrow> [(engine_id, JStr s)] | None \<Rightarrow> []))]),
      (''message'', json_object [(''content'', JStr prompt), (''source'', json_object [(''type'', JStr ''System'')]), (''metadata'', JObj [])]),
      (''context'', JArr [])]"

definition side_run_settings :: "json_text \<Rightarrow> agent_metadata \<Rightarrow> string \<Rightarrow> string option" where
  "side_run_settings jt agent engine_id = Option.bind (hm_get (am_metadata agent) engine_id) (side_run_binding jt)"

definition call_engine_think_simple ::
  "json_text \<Rightarrow> (Caller \<Rightarrow> string \<Rightarrow> ToolKind \<Rightarrow> json \<Rightarrow> anyhow + call_tool_result) \<Rightarrow> Caller \<Rightarrow> string \<Rightarrow> string option \<Rightarrow> string \<Rightarrow> string
   \<Rightarrow> engine_effect list \<times> string option" where
  "call_engine_think_simple jt answer caller engine_id settings prompt system_desc =
     (let args = think_simple_args engine_id settings prompt system_desc
      in ([KindCalled caller engine_id Think args],
          case answer caller engine_id Think args of
            Inl _ \<Rightarrow> None
          | Inr r \<Rightarrow> (case extract_mcp_think_content jt r of Inr t \<Rightarrow> Some t | Inl _ \<Rightarrow> None)))"

definition history_line :: "json \<Rightarrow> string option" where
  "history_line v =
     Option.bind (Option.bind (json_get v ''content'') json_as_str) (\<lambda>c.
       if c = [] then None
       else Some (''['' @ (if Option.bind (Option.bind (json_get v ''source'') (\<lambda>s. json_get s ''type'')) json_as_str = Some ''User''
                           then ''User'' else ''Agent'') @ ''] '' @ c))"

definition format_history_for_llm :: "json list \<Rightarrow> string" where
  "format_history_for_llm history = join_with [CHR 0x0A] (List.map_filter history_line history)"

end
