(* ===== verification/Chat_Rows.thy ===== *)
theory Chat_Rows
  imports Conversation Agentic_Loop Access_Control
begin

text \<open>
  Conversations, their messages and what is attached to them, as stored (\<open>db/conversations.rs\<close>,
  \<open>db/chat.rs\<close>). Rows are in the order they were inserted; a statement meets a fault or none. Rows that one
  \<open>ORDER BY created_at\<close> leaves tied come in the order of the parameter \<open>newest\<close>.
\<close>

section \<open>Tables\<close>

record conversation_row =
  cv_id :: string
  cv_agent_id :: string
  cv_user_id :: string
  cv_title :: string
  cv_created_at :: instant
  cv_updated_at :: instant
  cv_archived_at :: "instant option"
  cv_last_read_at :: "instant option"

record attachment_row =
  at_id :: string
  at_message_id :: string
  at_filename :: string
  at_mime_type :: string
  at_size_bytes :: int
  at_storage_type :: string
  at_inline_data :: "string option"
  at_disk_path :: "string option"
  at_created_at :: instant

record chat_db =
  ch_agents :: "string list"
  ch_conversations :: "conversation_row list"
  ch_messages :: "chat_row list"
  ch_attachments :: "attachment_row list"

section \<open>Titles and ids\<close>

definition FIRST_LINE_TITLE_CHARS :: nat where
  "FIRST_LINE_TITLE_CHARS = 60"

definition title_from_first_message :: "string \<Rightarrow> string" where
  "title_from_first_message content =
     (let line = trim (unwrap_or (find (\<lambda>l. trim l \<noteq> []) (str_lines content)) [])
      in if char_count line \<le> FIRST_LINE_TITLE_CHARS then line
         else take_chars FIRST_LINE_TITLE_CHARS line @ [CHR 0xE2, CHR 0x80, CHR 0xA6])"

definition default_conversation_id :: "string \<Rightarrow> string \<Rightarrow> string" where
  "default_conversation_id agent user = ''default:'' @ agent @ '':'' @ user"

section \<open>Conversations\<close>

definition find_conversation :: "chat_db \<Rightarrow> string \<Rightarrow> conversation_row option" where
  "find_conversation db i = find (\<lambda>c. cv_id c = i) (ch_conversations db)"

definition fresh_conversation :: "string \<Rightarrow> string \<Rightarrow> string \<Rightarrow> string \<Rightarrow> instant \<Rightarrow> conversation_row" where
  "fresh_conversation i agent user title now =
     \<lparr>cv_id = i, cv_agent_id = agent, cv_user_id = user, cv_title = title, cv_created_at = now, cv_updated_at = now,
      cv_archived_at = None, cv_last_read_at = None\<rparr>"

definition insert_conversation :: "fault \<Rightarrow> string \<Rightarrow> string \<Rightarrow> string \<Rightarrow> string \<Rightarrow> instant \<Rightarrow> chat_db \<Rightarrow> chat_db \<times> (db_error + unit)" where
  "insert_conversation f i agent user title now db =
     (case f of
        Some e \<Rightarrow> (db, Err e)
      | None \<Rightarrow>
          if find_conversation db i \<noteq> None then (db, Err UNIQUE_ERROR)
          else if agent \<notin> set (ch_agents db) then (db, Err FK_ERROR)
          else (db\<lparr>ch_conversations := ch_conversations db @ [fresh_conversation i agent user title now]\<rparr>, Ok ()))"

definition create_conversation :: "fault \<Rightarrow> string \<Rightarrow> string \<Rightarrow> string \<Rightarrow> instant \<Rightarrow> chat_db \<Rightarrow> chat_db \<times> (db_error + conversation_row)" where
  "create_conversation f uuid agent user now db =
     (case insert_conversation f uuid agent user [] now db of
        (db', Inl e) \<Rightarrow> (db', Err e)
      | (db', Inr _) \<Rightarrow> (db', Ok (fresh_conversation uuid agent user [] now)))"

text \<open>\<open>INSERT OR IGNORE\<close> ignores a row that is there; an agent that is not there is still an error.\<close>

definition ensure_default_conversation :: "fault \<Rightarrow> string \<Rightarrow> string \<Rightarrow> instant \<Rightarrow> chat_db \<Rightarrow> chat_db \<times> (db_error + string)" where
  "ensure_default_conversation f agent user now db =
     (let i = default_conversation_id agent user
      in case f of
           Some e \<Rightarrow> (db, Err e)
         | None \<Rightarrow>
             if find_conversation db i \<noteq> None then (db, Ok i)
             else if agent \<notin> set (ch_agents db) then (db, Err FK_ERROR)
             else (db\<lparr>ch_conversations := ch_conversations db @ [fresh_conversation i agent user [] now]\<rparr>, Ok i))"

definition update_conversations :: "(conversation_row \<Rightarrow> bool) \<Rightarrow> (conversation_row \<Rightarrow> conversation_row) \<Rightarrow> chat_db \<Rightarrow> chat_db \<times> nat" where
  "update_conversations P g db =
     (db\<lparr>ch_conversations := map (\<lambda>c. if P c then g c else c) (ch_conversations db)\<rparr>, length (filter P (ch_conversations db)))"

definition updated_some :: "fault \<Rightarrow> (chat_db \<Rightarrow> chat_db \<times> nat) \<Rightarrow> chat_db \<Rightarrow> chat_db \<times> (db_error + bool)" where
  "updated_some f run db = (case f of Some e \<Rightarrow> (db, Err e) | None \<Rightarrow> (case run db of (db', n) \<Rightarrow> (db', Ok (0 < n))))"

definition rename_conversation :: "fault \<Rightarrow> string \<Rightarrow> string \<Rightarrow> chat_db \<Rightarrow> chat_db \<times> (db_error + bool)" where
  "rename_conversation f i title = updated_some f (update_conversations (\<lambda>c. cv_id c = i) (\<lambda>c. c\<lparr>cv_title := title\<rparr>))"

definition mark_conversation_read :: "fault \<Rightarrow> string \<Rightarrow> instant \<Rightarrow> chat_db \<Rightarrow> chat_db \<times> (db_error + bool)" where
  "mark_conversation_read f i now = updated_some f (update_conversations (\<lambda>c. cv_id c = i) (\<lambda>c. c\<lparr>cv_last_read_at := Some now\<rparr>))"

definition set_title_if_empty :: "fault \<Rightarrow> string \<Rightarrow> string \<Rightarrow> chat_db \<Rightarrow> chat_db \<times> (db_error + bool)" where
  "set_title_if_empty f i title =
     updated_some f (update_conversations (\<lambda>c. cv_id c = i \<and> cv_title c = []) (\<lambda>c. c\<lparr>cv_title := title\<rparr>))"

definition set_conversation_archived :: "fault \<Rightarrow> string \<Rightarrow> instant option \<Rightarrow> chat_db \<Rightarrow> chat_db \<times> (db_error + bool)" where
  "set_conversation_archived f i archived_at = updated_some f (update_conversations (\<lambda>c. cv_id c = i) (\<lambda>c. c\<lparr>cv_archived_at := archived_at\<rparr>))"

definition touch_conversation :: "fault \<Rightarrow> string \<Rightarrow> instant \<Rightarrow> chat_db \<Rightarrow> chat_db \<times> (db_error + unit)" where
  "touch_conversation f i now db =
     (case f of Some e \<Rightarrow> (db, Err e)
      | None \<Rightarrow> (fst (update_conversations (\<lambda>c. cv_id c = i) (\<lambda>c. c\<lparr>cv_updated_at := max (cv_updated_at c) now\<rparr>) db), Ok ()))"

definition of_user :: "string \<Rightarrow> string \<Rightarrow> bool" where
  "of_user user u = (u = user \<or> u = ''system'')"

definition messages_in :: "chat_db \<Rightarrow> string \<Rightarrow> chat_row list" where
  "messages_in db i = filter (\<lambda>m. row_conversation_id m = Some i) (ch_messages db)"

definition count_messages :: "fault \<Rightarrow> string \<Rightarrow> chat_db \<Rightarrow> db_error + nat" where
  "count_messages f i db = db_timeout f (length (messages_in db i))"

definition list_conversations ::
  "fault \<Rightarrow> (conversation_row list \<Rightarrow> conversation_row list) \<Rightarrow> string \<Rightarrow> string \<Rightarrow> bool \<Rightarrow> chat_db \<Rightarrow> db_error + (conversation_row \<times> nat) list" where
  "list_conversations f newest agent user include_archived db =
     db_timeout f (map (\<lambda>c. (c, length (messages_in db (cv_id c))))
       (newest (filter (\<lambda>c. cv_agent_id c = agent \<and> of_user user (cv_user_id c) \<and> (include_archived \<or> cv_archived_at c = None)) (ch_conversations db))))"

text \<open>The order of the agents is the database's; here each stands where its first conversation does.\<close>

definition unread_in :: "chat_db \<Rightarrow> conversation_row \<Rightarrow> bool" where
  "unread_in db c = list_ex (\<lambda>m. row_source m = ''agent'' \<and> unwrap_or (cv_last_read_at c) 0 < row_created_at m) (messages_in db (cv_id c))"

definition agents_with_unread :: "fault \<Rightarrow> string \<Rightarrow> chat_db \<Rightarrow> db_error + string list" where
  "agents_with_unread f user db =
     db_timeout f (remdups (map cv_agent_id (filter (\<lambda>c. cv_user_id c = user \<and> cv_archived_at c = None \<and> unread_in db c) (ch_conversations db))))"

section \<open>Messages\<close>

definition message_sources :: "string list" where
  "message_sources = [''user'', ''agent'', ''system'']"

definition CHECK_ERROR :: db_error where "CHECK_ERROR = ''CHECK constraint failed''"

definition save_chat_message :: "fault \<Rightarrow> chat_row \<Rightarrow> chat_db \<Rightarrow> chat_db \<times> (db_error + unit)" where
  "save_chat_message f r db =
     (case f of
        Some e \<Rightarrow> (db, Err e)
      | None \<Rightarrow>
          if row_source r \<notin> set message_sources then (db, Err CHECK_ERROR)
          else if row_id r \<in> row_id ` set (ch_messages db) then (db, Err UNIQUE_ERROR)
          else if row_agent_id r \<notin> set (ch_agents db) then (db, Err FK_ERROR)
          else (db\<lparr>ch_messages := ch_messages db @ [r]\<rparr>, Ok ()))"

text \<open>Once more after a failure.\<close>

definition save_chat_message_reliable :: "fault \<Rightarrow> fault \<Rightarrow> chat_row \<Rightarrow> chat_db \<Rightarrow> chat_db \<times> (db_error + unit)" where
  "save_chat_message_reliable f f' r db =
     (case save_chat_message f r db of (db', Inr _) \<Rightarrow> (db', Ok ()) | (db', Inl _) \<Rightarrow> save_chat_message f' r db')"

text \<open>A negative limit is none.\<close>

definition take_limit :: "int \<Rightarrow> 'a list \<Rightarrow> 'a list" where
  "take_limit n xs = (if n < 0 then xs else take (nat n) xs)"

definition get_chat_messages ::
  "fault \<Rightarrow> (chat_row list \<Rightarrow> chat_row list) \<Rightarrow> string \<Rightarrow> string \<Rightarrow> string option \<Rightarrow> instant option \<Rightarrow> int \<Rightarrow> int \<Rightarrow> chat_db \<Rightarrow> db_error + chat_row list" where
  "get_chat_messages f newest agent user conversation before limit max_limit db =
     db_timeout f (take_limit (min limit max_limit) (newest (filter (\<lambda>m. row_agent_id m = agent \<and> of_user user (row_user_id m) \<and>
        (case conversation of Some c \<Rightarrow> row_conversation_id m = Some c | None \<Rightarrow> True) \<and>
        (case before of Some t \<Rightarrow> row_created_at m < t | None \<Rightarrow> True)) (ch_messages db))))"

definition get_chat_messages_in_conversation :: "fault \<Rightarrow> string \<Rightarrow> int \<Rightarrow> chat_db \<Rightarrow> db_error + chat_row list" where
  "get_chat_messages_in_conversation f conversation limit db =
     db_timeout f (take_limit limit (rev (sort_key row_created_at (messages_in db conversation))))"

definition get_conversation_context :: "fault \<Rightarrow> string \<Rightarrow> nat \<Rightarrow> chat_db \<Rightarrow> db_error + chat_row list" where
  "get_conversation_context f conversation budget db =
     and_then (get_chat_messages_in_conversation f conversation (sint (word_of_nat budget :: 64 word)) db) (\<lambda>rows. Ok (rev rows))"

definition get_next_branch_index :: "fault \<Rightarrow> string \<Rightarrow> chat_db \<Rightarrow> db_error + int" where
  "get_next_branch_index f parent db =
     db_timeout f (sint (word_of_int (foldr max (map row_branch_index (filter (\<lambda>m. row_parent_id m = Some parent) (ch_messages db))) (- 1) + 1) :: 32 word))"

definition get_chat_message_by_id :: "fault \<Rightarrow> string \<Rightarrow> chat_db \<Rightarrow> db_error + chat_row option" where
  "get_chat_message_by_id f i db = db_timeout f (find (\<lambda>m. row_id m = i) (ch_messages db))"

section \<open>Attachments and deletion\<close>

definition save_attachment :: "fault \<Rightarrow> attachment_row \<Rightarrow> chat_db \<Rightarrow> chat_db \<times> (db_error + unit)" where
  "save_attachment f a db =
     (case f of
        Some e \<Rightarrow> (db, Err e)
      | None \<Rightarrow>
          if at_storage_type a \<notin> {''inline'', ''disk''} then (db, Err CHECK_ERROR)
          else if at_id a \<in> at_id ` set (ch_attachments db) then (db, Err UNIQUE_ERROR)
          else if at_message_id a \<notin> row_id ` set (ch_messages db) then (db, Err FK_ERROR)
          else (db\<lparr>ch_attachments := ch_attachments db @ [a]\<rparr>, Ok ()))"

definition get_attachments_for_message :: "fault \<Rightarrow> string \<Rightarrow> chat_db \<Rightarrow> db_error + attachment_row list" where
  "get_attachments_for_message f i db = db_timeout f (filter (\<lambda>a. at_message_id a = i) (ch_attachments db))"

definition get_attachment_by_id :: "fault \<Rightarrow> string \<Rightarrow> chat_db \<Rightarrow> db_error + attachment_row option" where
  "get_attachment_by_id f i db = db_timeout f (find (\<lambda>a. at_id a = i) (ch_attachments db))"

definition get_disk_attachment_paths :: "fault \<Rightarrow> string list \<Rightarrow> chat_db \<Rightarrow> db_error + string list" where
  "get_disk_attachment_paths f ids db =
     (if ids = [] then Ok []
      else db_timeout f (List.map_filter at_disk_path
             (filter (\<lambda>a. at_message_id a \<in> set ids \<and> at_storage_type a = ''disk'') (ch_attachments db))))"

text \<open>The attachments of a deleted message go with it.\<close>

definition drop_messages :: "(chat_row \<Rightarrow> bool) \<Rightarrow> chat_db \<Rightarrow> chat_db" where
  "drop_messages P db = db
     \<lparr>ch_messages := filter (\<lambda>m. \<not> P m) (ch_messages db),
      ch_attachments := filter (\<lambda>a. at_message_id a \<notin> row_id ` {m \<in> set (ch_messages db). P m}) (ch_attachments db)\<rparr>"

text \<open>The rows first, then the files: their paths, and how many messages went. The faults are of the three statements.\<close>

definition delete_matching ::
  "(nat \<Rightarrow> fault) \<Rightarrow> (chat_row \<Rightarrow> bool) \<Rightarrow> (chat_db \<Rightarrow> db_error + chat_db) \<Rightarrow> chat_db \<Rightarrow> chat_db \<times> string list \<times> (db_error + nat)" where
  "delete_matching f P after db =
     (let doomed = filter P (ch_messages db)
      in case and_then (db_timeout (f 0) (map row_id doomed)) (\<lambda>ids. get_disk_attachment_paths (f 1) ids db) of
           Inl e \<Rightarrow> (db, [], Err e)
         | Inr paths \<Rightarrow>
             (case f 2 of
                Some e \<Rightarrow> (db, [], Err e)
              | None \<Rightarrow>
                  (case after (drop_messages P db) of
                     Inl e \<Rightarrow> (drop_messages P db, [], Err e)
                   | Inr db' \<Rightarrow> (db', paths, Ok (length doomed)))))"

definition delete_chat_messages :: "(nat \<Rightarrow> fault) \<Rightarrow> string \<Rightarrow> string \<Rightarrow> chat_db \<Rightarrow> chat_db \<times> string list \<times> (db_error + nat)" where
  "delete_chat_messages f agent user = delete_matching f (\<lambda>m. row_agent_id m = agent \<and> of_user user (row_user_id m)) Ok"

definition drop_conversation :: "string \<Rightarrow> chat_db \<Rightarrow> chat_db" where
  "drop_conversation i db = db\<lparr>ch_conversations := filter (\<lambda>c. cv_id c \<noteq> i) (ch_conversations db)\<rparr>"

definition delete_conversation :: "(nat \<Rightarrow> fault) \<Rightarrow> string \<Rightarrow> chat_db \<Rightarrow> chat_db \<times> string list \<times> (db_error + nat option)" where
  "delete_conversation f i db =
     (case db_timeout (f 0) (find_conversation db i) of
        Inl e \<Rightarrow> (db, [], Err e)
      | Inr None \<Rightarrow> (db, [], Ok None)
      | Inr (Some _) \<Rightarrow>
          (case delete_matching (\<lambda>n. f (n + 1)) (\<lambda>m. row_conversation_id m = Some i)
                  (\<lambda>db'. db_timeout (f 4) (drop_conversation i db')) db of
             (db', paths, r) \<Rightarrow> (db', paths, and_then r (\<lambda>n. Ok (Some n)))))"

definition archive_all_conversations :: "fault \<Rightarrow> string \<Rightarrow> string \<Rightarrow> instant \<Rightarrow> chat_db \<Rightarrow> chat_db \<times> (db_error + nat)" where
  "archive_all_conversations f agent user now db =
     (case f of Some e \<Rightarrow> (db, Err e)
      | None \<Rightarrow>
          (case update_conversations (\<lambda>c. cv_agent_id c = agent \<and> of_user user (cv_user_id c) \<and> cv_archived_at c = None)
                  (\<lambda>c. c\<lparr>cv_archived_at := Some now\<rparr>) db of (db', n) \<Rightarrow> (db', Ok n)))"

fun delete_each :: "(nat \<Rightarrow> nat \<Rightarrow> fault) \<Rightarrow> string list \<Rightarrow> nat \<Rightarrow> chat_db \<Rightarrow> chat_db \<times> string list \<times> (db_error + nat)" where
  "delete_each f [] n db = (db, [], Ok n)"
| "delete_each f (i # ids) n db =
     (case delete_conversation (f 0) i db of
        (db', paths, Inl e) \<Rightarrow> (db', paths, Err e)
      | (db', paths, Inr d) \<Rightarrow>
          (case delete_each (\<lambda>k. f (k + 1)) ids (if d = None then n else n + 1) db' of
             (db'', paths', r) \<Rightarrow> (db'', paths @ paths', r)))"

definition delete_all_conversations ::
  "fault \<Rightarrow> (nat \<Rightarrow> nat \<Rightarrow> fault) \<Rightarrow> string \<Rightarrow> string \<Rightarrow> chat_db \<Rightarrow> chat_db \<times> string list \<times> (db_error + nat)" where
  "delete_all_conversations f fs agent user db =
     (case db_timeout f (map cv_id (filter (\<lambda>c. cv_agent_id c = agent \<and> of_user user (cv_user_id c)) (ch_conversations db))) of
        Inl e \<Rightarrow> (db, [], Err e)
      | Inr ids \<Rightarrow> delete_each fs ids 0 db)"

end
