(* ===== verification/Side_Work.thy ===== *)
theory Side_Work
  imports Engine_Calls Chat_Rows
begin

text \<open>
  Work around a message (\<open>handlers/system.rs\<close>): the images and sounds sent with it become text before the
  engine sees it, and enough memories since the last episode become episodes and a profile.

  Attached rows, files, names of temporary files and the answers of servers are inputs; answers are taken in
  the order the calls are made, and a call that ran out of time has none.
\<close>

section \<open>Attachments\<close>

record media_io =
  md_json :: json_text
  md_lower :: "string \<Rightarrow> string"
  md_attachments :: "nat \<Rightarrow> (string + attachment_row list)"
  md_vision_server :: "string option"
  md_access :: "string \<Rightarrow> db_error + PermissionLevel"
  md_row_content :: "string option"
  md_decode64 :: "string \<Rightarrow> string option"
  md_file :: "string \<Rightarrow> string option"
  md_uuid :: "nat \<Rightarrow> string"
  md_writes :: "nat \<Rightarrow> bool"
  md_absolute :: "string \<Rightarrow> string option"
  md_answer :: "nat \<Rightarrow> anyhow + call_tool_result"

datatype media_effect =
    TempWritten string string
  | MediaCalled Caller ToolKind json
  | TempRemoved string

definition VISION_AUTO_ANALYZE_KEY :: string where "VISION_AUTO_ANALYZE_KEY = ''vision_auto_analyze''"

text \<open>Case is ignored on ASCII letters only.\<close>

definition vision_opted_out :: "(string, string) hmap \<Rightarrow> bool" where
  "vision_opted_out metadata =
     (case hm_get metadata VISION_AUTO_ANALYZE_KEY of Some v \<Rightarrow> ascii_lower (trim v) = ''off'' | None \<Rightarrow> False)"

definition vision_refusal :: "bool \<Rightarrow> string option \<Rightarrow> bool \<Rightarrow> string option" where
  "vision_refusal opted_out server allowed =
     (if opted_out then Some ''this agent is set not to read images''
      else case server of
        None \<Rightarrow> Some ''no server that can read images is installed''
      | Some _ \<Rightarrow> if allowed then None else Some ''this agent is not allowed to read images'')"

definition block_image :: "(string \<Rightarrow> string option) \<Rightarrow> json \<Rightarrow> string option" where
  "block_image decode block =
     (if Option.bind (json_get block ''type'') json_as_str = Some ''image'' then
        Option.bind (Option.bind (json_get block ''url'') json_as_str) (\<lambda>url.
        Option.bind (strip_prefix ''data:'' url) (\<lambda>d.
        Option.bind (split_once (CHR '','') d) (\<lambda>(_, b64). decode b64)))
      else None)"

definition content_block_images :: "json_text \<Rightarrow> (string \<Rightarrow> string option) \<Rightarrow> string option \<Rightarrow> string list" where
  "content_block_images jt decode row =
     (case Option.bind (Option.bind row (json_from_str jt)) json_as_array of
        Some blocks \<Rightarrow> List.map_filter (block_image decode) blocks
      | None \<Rightarrow> [])"

definition nth_option :: "'a list \<Rightarrow> nat \<Rightarrow> 'a option" where
  "nth_option xs i = (if i < length xs then Some (xs ! i) else None)"

definition image_bytes :: "media_io \<Rightarrow> string list \<Rightarrow> nat \<Rightarrow> attachment_row \<Rightarrow> string option" where
  "image_bytes io inline_images idx att =
     (case at_inline_data att of
        Some d \<Rightarrow> Some d
      | None \<Rightarrow> option_or (Option.bind (at_disk_path att) (md_file io)) (nth_option inline_images idx))"

definition image_extension :: "string \<Rightarrow> string" where
  "image_extension mime =
     (let ext = unwrap_or (strip_prefix ''image/'' mime) ''png'' in if ext = ''jpeg'' then ''jpg'' else ext)"

definition audio_extension :: "string \<Rightarrow> string" where
  "audio_extension mime =
     (if mime \<in> {''audio/mpeg'', ''audio/mp3''} then ''mp3''
      else if mime \<in> {''audio/wav'', ''audio/x-wav''} then ''wav''
      else if mime = ''audio/flac'' then ''flac''
      else if mime = ''audio/ogg'' then ''ogg''
      else if mime \<in> {''audio/mp4'', ''audio/x-m4a'', ''audio/m4a''} then ''m4a''
      else unwrap_or (strip_prefix ''audio/'' mime) ''wav'')"

text \<open>One attached file through a temporary file; the number counts the files of the message.\<close>

definition through_temp_file ::
  "media_io \<Rightarrow> string \<Rightarrow> string \<Rightarrow> (string \<Rightarrow> json) \<Rightarrow> Caller \<Rightarrow> ToolKind \<Rightarrow> (string \<Rightarrow> string option) \<Rightarrow> nat \<Rightarrow> string
   \<Rightarrow> media_effect list \<times> string option" where
  "through_temp_file io stem ext args caller kind shown n bytes =
     (let path = stem @ md_uuid io n @ ''.'' @ ext
      in if \<not> md_writes io n then ([], None)
         else ([TempWritten path bytes, MediaCalled caller kind (args (unwrap_or (md_absolute io path) path)), TempRemoved path],
               case md_answer io n of
                 Inl _ \<Rightarrow> None
               | Inr r \<Rightarrow> (case extract_mcp_think_content (md_json io) r of Inl _ \<Rightarrow> None | Inr t \<Rightarrow> shown t)))"

definition analysis_text :: "json_text \<Rightarrow> string \<Rightarrow> string option" where
  "analysis_text jt t = (case json_from_str jt t of None \<Rightarrow> Some t | Some v \<Rightarrow> Option.bind (json_get v ''response'') json_as_str)"

definition transcript_text :: "json_text \<Rightarrow> string \<Rightarrow> string option" where
  "transcript_text jt t =
     Some (case json_from_str jt t of None \<Rightarrow> t | Some v \<Rightarrow> unwrap_or (Option.bind (json_get v ''text'') json_as_str) t)"

definition analysis_args :: "cloto_message \<Rightarrow> string \<Rightarrow> json" where
  "analysis_args m path = json_object
     [(''file_path'', JStr path),
      (''prompt'', JStr (''Analyze this image. The user said: '' @ quoted (cm_content m) @ ''. Describe what you see in detail.''))]"

definition separator :: string where "separator = [CHR 0x0A] @ ''---'' @ [CHR 0x0A]"

definition prepended :: "string \<Rightarrow> string list \<Rightarrow> cloto_message \<Rightarrow> cloto_message" where
  "prepended heading texts m =
     (if texts = [] then m
      else m\<lparr>cm_content := ''['' @ heading @ '']'' @ [CHR 0x0A] @ join_with separator texts @ [CHR 0x0A, CHR 0x0A] @ ''[User Message]'' @ [CHR 0x0A] @ cm_content m\<rparr>)"

definition refused_note :: "nat \<Rightarrow> string \<Rightarrow> cloto_message \<Rightarrow> cloto_message" where
  "refused_note n reason m = m\<lparr>cm_content :=
     ''['' @ show_nat n @ '' image(s) were attached but not read: '' @ reason @ ''. Say so rather than answering as if nothing was attached.]'' @
     [CHR 0x0A, CHR 0x0A] @ cm_content m\<rparr>"

definition each_file :: "(nat \<Rightarrow> attachment_row \<Rightarrow> media_effect list \<times> string option) \<Rightarrow> attachment_row list \<Rightarrow> media_effect list \<times> string list" where
  "each_file f atts =
     (let rs = map (\<lambda>(i, a). f i a) (enumerate 0 atts) in (concat (map fst rs), List.map_filter snd rs))"

definition maybe_analyze_images :: "media_io \<Rightarrow> cloto_message \<Rightarrow> string \<Rightarrow> bool \<Rightarrow> media_effect list \<times> cloto_message" where
  "maybe_analyze_images io m agent_id opted_out =
     (case md_attachments io 0 of
        Inl _ \<Rightarrow> ([], m)
      | Inr atts \<Rightarrow>
          (let images = filter (\<lambda>a. starts_with (at_mime_type a) ''image/'') atts
           in if images = [] then ([], m)
              else case vision_refusal opted_out (md_vision_server io)
                          (case md_vision_server io of Some s \<Rightarrow> md_access io s = Ok Allow | None \<Rightarrow> False) of
                Some reason \<Rightarrow> ([], refused_note (length images) reason m)
              | None \<Rightarrow>
                  (let fallback = content_block_images (md_json io) (md_decode64 io) (md_row_content io);
                       (es, texts) = each_file (\<lambda>i a. case image_bytes io fallback i a of
                            None \<Rightarrow> ([], None)
                          | Some b \<Rightarrow> through_temp_file io ''data/tmp_vision_'' (image_extension (at_mime_type a)) (analysis_args m)
                                        (Agent agent_id) AnalyzeImage (analysis_text (md_json io)) i b) images
                   in (es, prepended ''Image Analysis'' texts m))))"

definition maybe_transcribe_audio :: "media_io \<Rightarrow> cloto_message \<Rightarrow> media_effect list \<times> cloto_message" where
  "maybe_transcribe_audio io m =
     (case md_attachments io 1 of
        Inl _ \<Rightarrow> ([], m)
      | Inr atts \<Rightarrow>
          (let (es, texts) = each_file (\<lambda>i a. case option_or (at_inline_data a) (Option.bind (at_disk_path a) (md_file io)) of
                   None \<Rightarrow> ([], None)
                 | Some b \<Rightarrow> through_temp_file io ''data/tmp_stt_'' (audio_extension (at_mime_type a)) (\<lambda>p. json_object [(''file_path'', JStr p)])
                               System Transcribe (transcript_text (md_json io)) i b)
                 (filter (\<lambda>a. starts_with (at_mime_type a) ''audio/'') atts)
           in (es, prepended ''Audio Transcription'' texts m)))"

section \<open>Episodes\<close>

definition TOOL_USAGE_THRESHOLD :: nat where "TOOL_USAGE_THRESHOLD = 10"

datatype episode_call = EpisodeCall Caller string ToolKind json

record episode_io =
  ep_json :: json_text
  ep_lower :: "string \<Rightarrow> string"
  ep_answer :: "nat \<Rightarrow> call_tool_result option"
  ep_server :: string
  ep_agent :: string
  ep_engine :: string
  ep_settings :: "string option"

definition ep_ask :: "episode_io \<Rightarrow> string \<Rightarrow> ToolKind \<Rightarrow> json \<Rightarrow> episode_call list \<Rightarrow> episode_call list \<times> call_tool_result option" where
  "ep_ask io server kind args done_calls = (done_calls @ [EpisodeCall (Agent (ep_agent io)) server kind args], ep_answer io (length done_calls))"

definition ep_think :: "episode_io \<Rightarrow> string \<Rightarrow> string \<Rightarrow> episode_call list \<Rightarrow> episode_call list \<times> string option" where
  "ep_think io prompt system_desc done_calls =
     (case ep_ask io (ep_engine io) Think (think_simple_args (ep_engine io) (ep_settings io) prompt system_desc) done_calls of
        (done', r) \<Rightarrow> (done', Option.bind r (\<lambda>x. case extract_mcp_think_content (ep_json io) x of Inr t \<Rightarrow> Some t | Inl _ \<Rightarrow> None)))"

definition null_or :: "json option \<Rightarrow> json" where
  "null_or v = unwrap_or v JNull"

definition history_entry :: "json \<Rightarrow> json" where
  "history_entry v = json_object [(''content'', null_or (json_get v ''content'')), (''source'', null_or (json_get v ''source'')),
     (''timestamp'', null_or (json_get v ''timestamp''))]"

definition str_member :: "string \<Rightarrow> json \<Rightarrow> string" where
  "str_member k v = unwrap_or (Option.bind (json_get v k) json_as_str) []"

text \<open>\<open>BTreeMap<String, Vec<_>>\<close>: by channel, in the order of the channels' bytes.\<close>

fun file_under :: "string \<Rightarrow> 'a \<Rightarrow> (string \<times> 'a list) list \<Rightarrow> (string \<times> 'a list) list" where
  "file_under k v [] = [(k, [v])]"
| "file_under k v ((k', vs) # m) =
     (if k = k' then (k, vs @ [v]) # m else if k < k' then (k, [v]) # (k', vs) # m else (k', vs) # file_under k v m)"

definition by_channel :: "json list \<Rightarrow> (string \<times> json list) list" where
  "by_channel ms = foldl (\<lambda>m v. file_under (str_member ''channel'' v) v m) [] ms"

definition last_episode_time :: "json_text \<Rightarrow> call_tool_result \<Rightarrow> string option" where
  "last_episode_time jt r =
     Option.bind (extract_tool_json jt r) (\<lambda>j. Option.bind (Option.bind (json_get j ''episodes'') json_as_array) (\<lambda>es.
       Option.bind (nth_option es 0) (\<lambda>e. Option.bind (json_get e ''created_at'') json_as_str)))"

definition unarchived_of :: "string option \<Rightarrow> json list \<Rightarrow> json list" where
  "unarchived_of last_time ms = (case last_time of None \<Rightarrow> ms | Some t \<Rightarrow> filter (\<lambda>m. t < str_member ''created_at'' m) ms)"

definition archive_args :: "string \<Rightarrow> string \<Rightarrow> json list \<Rightarrow> string \<Rightarrow> string \<Rightarrow> bool option \<Rightarrow> json" where
  "archive_args agent channel history summary keywords resolved = json_object
     ([(''agent_id'', JStr agent), (''history'', JArr history), (''summary'', JStr summary), (''keywords'', JStr keywords)] @
      (if channel = [] then [] else [(''channel'', JStr channel)]) @
      (case resolved of Some r \<Rightarrow> [(''resolved'', JBool r)] | None \<Rightarrow> []))"

text \<open>One channel: a summary, and when there is one, keywords, whether it was finished, and the episode.\<close>

definition archive_channel :: "episode_io \<Rightarrow> string \<Rightarrow> json list \<Rightarrow> episode_call list \<Rightarrow> episode_call list \<times> bool" where
  "archive_channel io channel msgs calls =
     (let history = map history_entry msgs;
          (calls, summary) = ep_think io (''Summarize the following conversation concisely (800-1200 characters).'' @ [CHR 0x0A] @
             ''Preserve proper nouns, dates, decisions, and key technical details.'' @ [CHR 0x0A, CHR 0x0A] @ format_history_for_llm history)
             ''You are a conversation summarizer.'' calls
      in case unwrap_or summary [] of
           [] \<Rightarrow> (calls, False)
         | s # ss \<Rightarrow>
             (let (calls, keywords) = ep_think io (''Extract 5-10 search keywords from this summary. Output space-separated keywords only.'' @
                    [CHR 0x0A, CHR 0x0A] @ (s # ss)) ''You are a keyword extractor.'' calls;
                  (calls, resolved) = ep_think io (''Based on this conversation summary, was the main task completed? Output ONLY '' @ quoted ''true'' @
                    '' or '' @ quoted ''false'' @ ''.'' @ [CHR 0x0A, CHR 0x0A] @ (s # ss)) ''You classify conversation completion status.'' calls;
                  (calls, stored) = ep_ask io (ep_server io) ArchiveEpisode
                    (archive_args (ep_agent io) channel history (s # ss) (unwrap_or keywords [])
                       (map_option (\<lambda>r. ep_lower io (trim r) = ''true'') resolved)) calls
              in (calls, stored \<noteq> None)))"

fun archive_channels :: "episode_io \<Rightarrow> (string \<times> json list) list \<Rightarrow> episode_call list \<Rightarrow> episode_call list \<times> bool" where
  "archive_channels io [] calls = (calls, False)"
| "archive_channels io ((ch, msgs) # rest) calls =
     (case archive_channel io ch msgs calls of
        (calls', a) \<Rightarrow> (case archive_channels io rest calls' of (calls'', b) \<Rightarrow> (calls'', a \<or> b)))"

definition update_profile :: "episode_io \<Rightarrow> json list \<Rightarrow> episode_call list \<Rightarrow> episode_call list" where
  "update_profile io ms calls =
     (let formatted = format_history_for_llm (map history_entry ms);
          (calls, got) = ep_ask io (ep_server io) (Custom ''get_profile'') (json_object [(''agent_id'', JStr (ep_agent io))]) calls;
          existing = unwrap_or (Option.bind (Option.bind got (extract_tool_json (ep_json io))) (\<lambda>j. Option.bind (json_get j ''profile'') json_as_str)) [];
          (calls, new) = ep_think io (''Extract facts about the user from the following conversation.'' @ [CHR 0x0A] @
             ''Output a concise profile in bullet-point format.'' @ [CHR 0x0A] @
             ''MERGE with existing facts '' @ em_dash @ '' keep all existing information unless explicitly contradicted.'' @ [CHR 0x0A, CHR 0x0A] @
             ''Existing profile:'' @ [CHR 0x0A] @ (if existing = [] then ''(none)'' else existing) @ [CHR 0x0A, CHR 0x0A] @
             ''Conversation:'' @ [CHR 0x0A] @ formatted) ''You are a memory extraction assistant.'' calls
      in case new of
           None \<Rightarrow> calls
         | Some p \<Rightarrow> fst (ep_ask io (ep_server io) UpdateProfile (json_object [(''agent_id'', JStr (ep_agent io)), (''profile'', JStr p)]) calls))"

definition maybe_archive_episode :: "episode_io \<Rightarrow> episode_call list" where
  "maybe_archive_episode io =
     (let (calls, got) = ep_ask io (ep_server io) ListMemories
            (json_object [(''agent_id'', JStr (ep_agent io)), (''limit'', JNum (PosInt (TOOL_USAGE_THRESHOLD + 5)))]) []
      in case Option.bind (Option.bind got (extract_tool_json (ep_json io))) (\<lambda>j. Option.bind (json_get j ''memories'') json_as_array) of
           None \<Rightarrow> calls
         | Some memories \<Rightarrow>
             if length memories < TOOL_USAGE_THRESHOLD then calls
             else (let (calls, eps) = ep_ask io (ep_server io) ListEpisodes
                         (json_object [(''agent_id'', JStr (ep_agent io)), (''limit'', JNum (PosInt 1))]) calls
                   in case eps of
                        None \<Rightarrow> calls
                      | Some r \<Rightarrow>
                          (let unarchived = unarchived_of (last_episode_time (ep_json io) r) memories
                           in if length unarchived < TOOL_USAGE_THRESHOLD then calls
                              else (case archive_channels io (by_channel unarchived) calls of
                                      (calls, archived) \<Rightarrow> if archived then update_profile io unarchived calls else calls))))"

end
