(* ===== verification/Turn_Parts.thy ===== *)
theory Turn_Parts
  imports Side_Work Agents Event_Bus
begin

text \<open>
  What a message turn is made of (\<open>handlers/system.rs\<close>): the settings of an agent it reads, who and what the
  message names, the rows and messages it writes, the agent's memory, and everything it may do
  (\<open>message_effect\<close>).

  Rows, engines, tools, the memory server and the clock are inputs (\<open>message_io\<close>); a turn of one engine is
  \<open>Agentic_Loop\<close>'s and here its result. A spawned task is an effect where it is started.
\<close>

section \<open>Settings of an agent\<close>

datatype RecallPolicy = RecallAlways | SessionStartActive | SessionStart | ManualOnly

definition recall_policy_of :: "string option \<Rightarrow> RecallPolicy" where
  "recall_policy_of v =
     (if v = Some ''session_start+active'' then SessionStartActive
      else if v = Some ''session_start'' then SessionStart
      else if v = Some ''manual_only'' then ManualOnly else RecallAlways)"

definition should_recall :: "RecallPolicy \<Rightarrow> SessionTier \<Rightarrow> bool \<Rightarrow> bool" where
  "should_recall p tier force =
     (force \<or> (case p of RecallAlways \<Rightarrow> True | SessionStartActive \<Rightarrow> tier \<noteq> HotActive | SessionStart \<Rightarrow> tier = Cold | ManualOnly \<Rightarrow> False))"

definition memory_stores :: "agent_metadata \<Rightarrow> bool" where
  "memory_stores a = (hm_get (am_metadata a) ''memory_store'' \<noteq> Some ''off'')"

datatype SessionScope = PerUser | PerChannel | PerThread

definition session_scope_of :: "string option \<Rightarrow> SessionScope" where
  "session_scope_of v = (if v = Some ''channel'' then PerChannel else if v = Some ''thread'' then PerThread else PerUser)"

definition derive_channel :: "string \<Rightarrow> string option \<Rightarrow> string" where
  "derive_channel base_channel channel_id = unwrap_or channel_id base_channel"

definition derive_recall_scope :: "SessionScope \<Rightarrow> string \<Rightarrow> string \<Rightarrow> string option \<Rightarrow> string \<times> string" where
  "derive_recall_scope scope base_source base_channel channel_id =
     ((if scope = PerUser then base_source else []), derive_channel base_channel channel_id)"

section \<open>Messages\<close>

definition meta :: "cloto_message \<Rightarrow> string \<Rightarrow> string option" where
  "meta m k = hm_get (cm_metadata m) k"

definition meta_or :: "string \<Rightarrow> cloto_message \<Rightarrow> string \<Rightarrow> string" where
  "meta_or default_text m k = unwrap_or (meta m k) default_text"

definition target_agent_of :: "string \<Rightarrow> cloto_message \<Rightarrow> string" where
  "target_agent_of default_agent m = unwrap_or (option_or (cm_target_agent m) (meta m ''target_agent_id'')) default_agent"

definition session_key_of :: "string \<Rightarrow> cloto_message \<Rightarrow> session_key" where
  "session_key_of agent m =
     (agent, unwrap_or (option_or (meta m ''external_session_id'') (meta m ''conversation_id'')) (''kernel:'' @ cm_id m))"

definition extract_user_id :: "cloto_message \<Rightarrow> string" where
  "extract_user_id m = (case cm_source m of SrcUser i _ \<Rightarrow> i | SrcAgent i \<Rightarrow> i | SrcSystem \<Rightarrow> ''system'')"

definition text_blocks :: "json_text \<Rightarrow> string \<Rightarrow> string" where
  "text_blocks jt t = json_to_string jt (JArr [json_object [(''type'', JStr ''text''), (''text'', JStr t)]])"

definition reply_id :: "cloto_message \<Rightarrow> string" where
  "reply_id m = cm_id m @ ''-resp''"

definition reply_parent :: "cloto_message \<Rightarrow> string" where
  "reply_parent m = meta_or (cm_id m) m ''parent_id''"

definition user_row :: "json_text \<Rightarrow> instant \<Rightarrow> string \<Rightarrow> int \<Rightarrow> string \<Rightarrow> cloto_message \<Rightarrow> chat_row" where
  "user_row jt now agent branch conversation m =
     \<lparr>row_id = cm_id m, row_agent_id = agent, row_user_id = extract_user_id m, row_source = ''user'',
      row_content = text_blocks jt (cm_content m), row_metadata = None, row_created_at = now,
      row_parent_id = meta m ''parent_id'', row_branch_index = branch, row_conversation_id = Some conversation\<rparr>"

definition agent_reply_row :: "json_text \<Rightarrow> instant \<Rightarrow> string \<Rightarrow> cloto_message \<Rightarrow> string \<Rightarrow> int \<Rightarrow> string \<Rightarrow> chat_row" where
  "agent_reply_row jt now agent m reply branch conversation =
     \<lparr>row_id = reply_id m, row_agent_id = agent, row_user_id = extract_user_id m, row_source = ''agent'',
      row_content = text_blocks jt reply, row_metadata = None, row_created_at = now,
      row_parent_id = Some (reply_parent m), row_branch_index = branch, row_conversation_id = Some conversation\<rparr>"

definition reply_message :: "instant \<Rightarrow> string \<Rightarrow> cloto_message \<Rightarrow> string \<Rightarrow> cloto_message" where
  "reply_message now agent m reply =
     \<lparr>cm_id = reply_id m, cm_source = SrcAgent agent, cm_target_agent = Some agent, cm_content = reply, cm_timestamp = now, cm_metadata = []\<rparr>"

definition title_is_provisional :: "string \<Rightarrow> string \<Rightarrow> bool" where
  "title_is_provisional title first_line = (title = [] \<or> title = first_line)"

text \<open>\<open>str::parse::<i32>\<close>: a sign or none, digits, within the range.\<close>

definition parse_i32 :: "string \<Rightarrow> int option" where
  "parse_i32 s =
     (let (neg, ds) = (case s of [] \<Rightarrow> (False, []) | c # cs \<Rightarrow> if c = CHR ''-'' then (True, cs) else if c = CHR ''+'' then (False, cs) else (False, s));
          v = (if neg then - int (digits_value ds) else int (digits_value ds))
      in if ds \<noteq> [] \<and> list_all is_digit ds \<and> - (2 ^ 31) \<le> v \<and> v < 2 ^ 31 then Some v else None)"

section \<open>Inputs and effects\<close>

record memory_plugin =
  mp_id :: string
  mp_is_memory :: bool
  mp_permissions :: "Permission list"

text \<open>The memory as one look at it finds it: the plugin for a preference, and the server of the capability.\<close>

record memory_view =
  mv_plugin :: "string option \<Rightarrow> memory_plugin option"
  mv_server :: "string option"
  mv_sqlite :: sqlite
  mv_faults :: "nat \<Rightarrow> nat \<Rightarrow> fault"
  mv_now :: instant
  mv_db :: db

record consensus_config =
  cc_engines :: "string list"
  cc_prefix :: string
  cc_synthesizer_engine :: string
  cc_min_proposals :: nat
  cc_synthetic_agent_id :: string
  cc_engine_reuse :: bool

record handler_settings =
  hs_default_agent :: string
  hs_memory_limit :: nat
  hs_max_context :: nat
  hs_policy :: session_policy
  hs_consensus :: consensus_config

datatype run_end = RunAnswered string | RunFailed anyhow | RunTimedOut

record message_io =
  mi_now :: instant
  mi_lower :: "string \<Rightarrow> string"
  mi_json :: json_text
  mi_shown_time :: "instant \<Rightarrow> string"
  mi_read_time :: "string \<Rightarrow> instant option"
  mi_dates :: "int \<Rightarrow> bool"
  mi_trace :: string
  mi_new_id :: "nat \<Rightarrow> string"
  mi_agent :: "string \<Rightarrow> anyhow + agent_metadata \<times> string"
  mi_generation :: "db_error + nat"
  mi_default_conversation :: "db_error + string"
  mi_media :: media_io
  mi_memory :: "nat \<Rightarrow> memory_view"
  mi_granted :: "string + string list"
  mi_recalled :: "cloto_message list option"
  mi_mcp_recalled :: "call_tool_result option"
  mi_rows :: "string \<Rightarrow> nat \<Rightarrow> db_error + chat_row list"
  mi_sessions :: transcript_store
  mi_tool :: "(ToolFailure + json) option"
  mi_failure_text :: "ToolFailure \<Rightarrow> string"
  mi_error_text :: "anyhow \<Rightarrow> string"
  mi_pretty :: "json \<Rightarrow> string"
  mi_connected :: "string list"
  mi_think :: "anyhow + string"
  mi_loop :: "nat \<Rightarrow> anyhow + string"
  mi_next_branch :: "db_error + int"
  mi_save_reply :: "db_error + unit"
  mi_message_count :: "db_error + nat"
  mi_title :: "nat \<Rightarrow> db_error + string option"
  mi_title_answer :: "anyhow + call_tool_result"
  mi_speech_server :: "string option"
  mi_engine_plugin :: "string \<Rightarrow> bool"
  mi_has_kind :: "string \<Rightarrow> ToolKind \<Rightarrow> bool"
  mi_proposal :: "nat \<Rightarrow> run_end"
  mi_finished_at :: "nat \<Rightarrow> nat"
  mi_sample :: "nat \<Rightarrow> run_end"
  mi_synthesis :: run_end

text \<open>
  \<open>EngineRun\<close> is the turn of an engine for an agent on a message, with the context, the grants and the
  session it was given; \<open>EngineThought\<close> a question without tools; \<open>MemoryCall\<close> a call as the agent.
\<close>

datatype message_effect =
    CronContextSet string string nat
  | AgentSeen string
  | RowSaved chat_row
  | ConversationTouched string instant
  | TitleSetIfEmpty string string
  | Renamed string string
  | StopArmed string
  | MediaWork media_effect
  | PluginRecall string string string
  | PluginStore string string cloto_message
  | MemoryCall string string ToolKind json
  | EpisodeCheck string string string "string option"
  | Appended session_key cloto_message
  | EngineThought string "cloto_message list"
  | EngineRun agent_metadata string cloto_message "cloto_message list" "string list" session_key
  | EngineAsked engine_effect
  | ConsensusShown string string nat "string option" string "int option" "bool option"
  | ToolExecuted string string json
  | ActionShown external_action
  | CallbackAnswered string string
  | DialogueCompleted string string string string
  | ReplySent string string string string bool
  | AutoSpoken string json

section \<open>Memory\<close>

definition mcp_memory_for :: "memory_view \<Rightarrow> string \<Rightarrow> string option" where
  "mcp_memory_for v agent =
     option_filter (\<lambda>sid. resolve_any_tool_access (mv_sqlite v) (mv_now v) (mv_faults v) (mv_db v) agent sid
         [kind_name Recall, kind_name Store] = Allow)
       (mv_server v)"

text \<open>A plugin comes first; the server is asked about only without one.\<close>

definition memory_targets :: "memory_view \<Rightarrow> agent_metadata \<Rightarrow> memory_plugin option \<times> string option" where
  "memory_targets v agent =
     (case mv_plugin v (hm_get (am_metadata agent) ''preferred_memory'') of
        Some mp \<Rightarrow> (Some mp, None)
      | None \<Rightarrow> (None, mcp_memory_for v (am_id agent)))"

definition has_permission :: "Permission \<Rightarrow> memory_plugin \<Rightarrow> bool" where
  "has_permission p mp = (mp_is_memory mp \<and> p \<in> set (mp_permissions mp))"

definition base_channel_of :: "cloto_message \<Rightarrow> string" where
  "base_channel_of m = meta_or ''chat'' m ''external_source''"

definition recall_payload :: "handler_settings \<Rightarrow> agent_metadata \<Rightarrow> cloto_message \<Rightarrow> json" where
  "recall_payload hs agent m =
     (let (source, channel) = derive_recall_scope (session_scope_of (hm_get (am_metadata agent) ''session_scope''))
             (case cm_source m of SrcUser i _ \<Rightarrow> i | _ \<Rightarrow> []) (base_channel_of m) (meta m ''external_channel_id'')
      in json_object [(''agent_id'', JStr (am_id agent)), (''query'', JStr (cm_content m)), (''limit'', JNum (PosInt (hs_memory_limit hs))),
           (''channel'', JStr channel), (''source_id'', JStr source), (''full_content'', JBool True)])"

text \<open>What is recalled is an input, and nothing when the call failed or timed out.\<close>

definition recall_memory ::
  "handler_settings \<Rightarrow> message_io \<Rightarrow> agent_metadata \<Rightarrow> memory_plugin option \<times> string option \<Rightarrow> SessionTier \<Rightarrow> cloto_message
   \<Rightarrow> message_effect list \<times> cloto_message list" where
  "recall_memory hs io agent targets tier m =
     (if \<not> should_recall (recall_policy_of (hm_get (am_metadata agent) ''recall_policy'')) tier (meta m ''force_recall'' = Some ''true'')
      then ([], [])
      else case targets of
        (Some mp, _) \<Rightarrow> if has_permission MemoryRead mp then ([PluginRecall (mp_id mp) (am_id agent) (cm_content m)], unwrap_or (mi_recalled io) [])
                   else ([], [])
      | (None, Some sid) \<Rightarrow>
          ([MemoryCall (am_id agent) sid Recall (recall_payload hs agent m)],
           (case mi_mcp_recalled io of Some r \<Rightarrow> parse_mcp_recall_result (mi_json io) (mi_read_time io) (mi_now io) r | None \<Rightarrow> []))
      | (None, None) \<Rightarrow> ([], []))"

definition store_args :: "(instant \<Rightarrow> string) \<Rightarrow> string \<Rightarrow> cloto_message \<Rightarrow> cloto_message \<Rightarrow> json" where
  "store_args shown_time agent turn_msg stored =
     json_object [(''agent_id'', JStr agent),
       (''message'', json_object [(''id'', JStr (cm_id stored)), (''content'', JStr (cm_content stored)), (''source'', source_json (cm_source stored)),
          (''timestamp'', JStr (shown_time (cm_timestamp stored))),
          (''metadata'', json_object [(''session_id'', JStr (meta_or [] turn_msg ''external_session_id''))])]),
       (''channel'', JStr (derive_channel (base_channel_of turn_msg) (meta turn_msg ''external_channel_id'')))]"

text \<open>A reply goes to a plugin without a look at its permission to write.\<close>

definition store_agent_response ::
  "message_io \<Rightarrow> agent_metadata \<Rightarrow> cloto_message \<Rightarrow> string \<Rightarrow> memory_plugin option \<times> string option \<Rightarrow> message_effect list" where
  "store_agent_response io agent m reply targets =
     (if \<not> memory_stores agent then []
      else let stored = reply_message (mi_now io) (am_id agent) m reply
           in case targets of
                (Some mp, _) \<Rightarrow> if mp_is_memory mp then [PluginStore (mp_id mp) (am_id agent) stored] else []
              | (None, Some sid) \<Rightarrow> [MemoryCall (am_id agent) sid Store (store_args (mi_shown_time io) (am_id agent) m stored)]
              | (None, None) \<Rightarrow> [])"

definition store_user_message ::
  "message_io \<Rightarrow> agent_metadata \<Rightarrow> string \<Rightarrow> cloto_message \<Rightarrow> memory_plugin option \<times> string option \<Rightarrow> message_effect list" where
  "store_user_message io agent default_engine m targets =
     (if \<not> memory_stores agent then []
      else case targets of
        (Some mp, _) \<Rightarrow> if has_permission MemoryWrite mp then [PluginStore (mp_id mp) (am_id agent) m] else []
      | (None, Some sid) \<Rightarrow>
          [MemoryCall (am_id agent) sid Store (store_args (mi_shown_time io) (am_id agent) m m),
           EpisodeCheck sid (am_id agent) default_engine (side_run_settings (mi_json io) agent default_engine)]
      | (None, None) \<Rightarrow> [])"

end
