(* ===== verification/Consensus.thy ===== *)
theory Consensus
  imports Turn_Parts
begin

text \<open>
  \<open>run_consensus\<close> of \<open>handlers/system.rs\<close>: the engines an agent has been given propose at once, engines that
  worked are asked again through another framing while there are too few proposals, one engine makes them one
  answer, and exactly one message carries it. Each run's end is an input; the moments the first proposals end
  at order what is shown of them.
\<close>

section \<open>Engines\<close>

definition is_engine_server :: "message_io \<Rightarrow> string \<Rightarrow> bool" where
  "is_engine_server io i = (starts_with i ''mind.'' \<or> mi_engine_plugin io i \<or> mi_has_kind io i ThinkWithTools \<or> mi_has_kind io i Think)"

definition agent_engine_servers :: "message_io \<Rightarrow> string list \<Rightarrow> string list" where
  "agent_engine_servers io granted = filter (is_engine_server io) granted"

definition filter_consensus_engines :: "string list \<Rightarrow> string list \<Rightarrow> string list" where
  "filter_consensus_engines agent_engines global =
     (if global = [] then agent_engines else filter (\<lambda>i. bare_engine i \<in> set (map bare_engine global)) agent_engines)"

definition classify_engine_error :: "(anyhow \<Rightarrow> string) \<Rightarrow> anyhow \<Rightarrow> int option \<times> bool option \<times> string" where
  "classify_engine_error error_text e =
     (case e of
        AMgp err \<Rightarrow> (Some (me_code err), map_option mr_retryable (me_recovery err), ''MGP-'' @ show_i64 (me_code err) @ '': '' @ me_message err)
      | _ \<Rightarrow> (None, None, error_text e))"

text \<open>What is shown at the end of a run, beside its phase, engine and number.\<close>

definition shown_end :: "(anyhow \<Rightarrow> string) \<Rightarrow> string \<Rightarrow> run_end \<Rightarrow> string option \<times> string \<times> int option \<times> bool option" where
  "shown_end error_text timeout_text r =
     (case r of
        RunAnswered t \<Rightarrow> (Some t, ''success'', None, None)
      | RunFailed e \<Rightarrow> (case classify_engine_error error_text e of (code, retryable, message) \<Rightarrow> (Some message, ''error'', code, retryable))
      | RunTimedOut \<Rightarrow> (Some timeout_text, ''error'', Some MGP_ERR_TIMEOUT, Some True))"

definition show_pending :: "string \<Rightarrow> string \<Rightarrow> nat \<Rightarrow> message_effect" where
  "show_pending phase engine sample = ConsensusShown phase engine sample None ''pending'' None None"

definition show_end :: "message_io \<Rightarrow> string \<Rightarrow> string \<Rightarrow> string \<Rightarrow> nat \<Rightarrow> run_end \<Rightarrow> message_effect" where
  "show_end io timeout_text phase engine sample r =
     (case shown_end (mi_error_text io) timeout_text r of (response, status, code, retryable) \<Rightarrow>
        ConsensusShown phase engine sample response status code retryable)"

section \<open>The one answer\<close>

definition consensus_row :: "handler_settings \<Rightarrow> message_io \<Rightarrow> agent_metadata \<Rightarrow> cloto_message \<Rightarrow> string \<Rightarrow> chat_row" where
  "consensus_row hs io agent m reply =
     (agent_reply_row (mi_json io) (mi_now io) (am_id agent) m reply (case mi_next_branch io of Inr b \<Rightarrow> b | Inl _ \<Rightarrow> 0) [])
       \<lparr>row_metadata := Some (json_to_string (mi_json io) (json_object [(''consensus'', JBool True),
            (''synthetic_agent_id'', JStr (cc_synthetic_agent_id (hs_consensus hs)))])),
        row_conversation_id := meta m ''conversation_id''\<rparr>"

text \<open>The memory is looked up again.\<close>

definition deliver_consensus_result :: "handler_settings \<Rightarrow> message_io \<Rightarrow> agent_metadata \<Rightarrow> cloto_message \<Rightarrow> string \<Rightarrow> message_effect list" where
  "deliver_consensus_result hs io agent m content =
     [RowSaved (consensus_row hs io agent m content)] @
     (case (mi_save_reply io, meta m ''conversation_id'') of (Inr _, Some c) \<Rightarrow> [ConversationTouched c (mi_now io)] | _ \<Rightarrow> []) @
     store_agent_response io agent m content (memory_targets (mi_memory io 1) agent) @
     [ReplySent (am_id agent) ''consensus'' content (cm_id m) False]"

section \<open>Proposals\<close>

definition proposal_key :: "message_io \<Rightarrow> agent_metadata \<Rightarrow> string \<Rightarrow> session_key" where
  "proposal_key io agent engine = (am_id agent, ''consensus:'' @ mi_trace io @ '':'' @ engine)"

definition first_proposals ::
  "message_io \<Rightarrow> agent_metadata \<Rightarrow> cloto_message \<Rightarrow> cloto_message list \<Rightarrow> string list \<Rightarrow> string list \<Rightarrow> message_effect list" where
  "first_proposals io agent m context_ms granted engines =
     map (\<lambda>e. show_pending ''proposal'' e 1) engines @
     map (\<lambda>e. EngineRun agent e m context_ms granted (proposal_key io agent e)) engines @
     map (\<lambda>i. show_end io ''Engine timed out'' ''proposal'' (engines ! i) 1 (mi_proposal io i)) (sort_key (mi_finished_at io) [0..<length engines])"

definition answered_proposals :: "message_io \<Rightarrow> string list \<Rightarrow> (string \<times> string) list" where
  "answered_proposals io engines =
     List.map_filter (\<lambda>(i, e). case mi_proposal io i of RunAnswered t \<Rightarrow> Some (e, t) | _ \<Rightarrow> None) (enumerate 0 engines)"

definition framed_message :: "message_io \<Rightarrow> nat \<Rightarrow> cloto_message \<Rightarrow> nat \<Rightarrow> cloto_message" where
  "framed_message io n m sample =
     \<lparr>cm_id = mi_new_id io n, cm_source = cm_source m, cm_target_agent = None, cm_content = framed_prompt (cm_content m) sample,
      cm_timestamp = mi_now io, cm_metadata = []\<rparr>"

text \<open>
  Engines that worked are asked again in turn, \<open>left\<close> times at most; \<open>n\<close> counts the attempts and \<open>counts\<close> the
  samples of each engine.
\<close>

fun reuse_engines ::
  "message_io \<Rightarrow> agent_metadata \<Rightarrow> cloto_message \<Rightarrow> cloto_message list \<Rightarrow> string list \<Rightarrow> string list \<Rightarrow> nat \<Rightarrow> nat \<Rightarrow> nat \<Rightarrow> (string, nat) hmap
   \<Rightarrow> string list \<Rightarrow> message_effect list \<times> string list" where
  "reuse_engines io agent m context_ms granted working quorum 0 n counts proposals = ([], proposals)"
| "reuse_engines io agent m context_ms granted working quorum (Suc left) n counts proposals =
     (if quorum \<le> length proposals then ([], proposals)
      else let engine = working ! (n mod length working);
               sample = unwrap_or (hm_get counts engine) 1 + 1;
               r = mi_sample io n;
               (es, proposals') = reuse_engines io agent m context_ms granted working quorum left (n + 1) (hm_insert engine sample counts)
                  (case r of RunAnswered t \<Rightarrow> proposals @ [t] | _ \<Rightarrow> proposals)
           in (show_pending ''proposal'' engine sample #
               EngineRun agent engine (framed_message io n m sample) context_ms granted
                 (am_id agent, ''consensus:'' @ mi_trace io @ '':'' @ engine @ ''#'' @ show_nat sample) #
               show_end io ''Engine timed out'' ''proposal'' engine sample r # es, proposals'))"

definition collected_proposals ::
  "handler_settings \<Rightarrow> message_io \<Rightarrow> agent_metadata \<Rightarrow> cloto_message \<Rightarrow> cloto_message list \<Rightarrow> string list \<Rightarrow> string list
   \<Rightarrow> message_effect list \<times> string list \<times> string list" where
  "collected_proposals hs io agent m context_ms granted engines =
     (let cfg = hs_consensus hs;
          answered = answered_proposals io engines;
          working = map fst answered;
          (es, proposals) =
            (if cc_engine_reuse cfg \<and> length answered < cc_min_proposals cfg \<and> working \<noteq> []
             then reuse_engines io agent m context_ms granted working (cc_min_proposals cfg) (min (cc_min_proposals cfg * 3) (2 ^ 64 - 1)) 0
                    (map (\<lambda>e. (e, 1)) (remdups working)) (map snd answered)
             else ([], map snd answered))
      in (first_proposals io agent m context_ms granted engines @ es, working, proposals))"

section \<open>Synthesis\<close>

definition synthesizer :: "consensus_config \<Rightarrow> string list \<Rightarrow> string list \<Rightarrow> string" where
  "synthesizer cfg working engines =
     (if cc_synthesizer_engine cfg \<noteq> [] then cc_synthesizer_engine cfg
      else case working of e # _ \<Rightarrow> e | [] \<Rightarrow> engines ! 0)"

definition synth_agent :: "string \<Rightarrow> agent_metadata" where
  "synth_agent engine =
     \<lparr>am_id = ''agent.synthesizer'', am_name = ''Synthesizer'', am_description = ''Consensus moderator'', am_enabled = True, am_last_seen = 0,
      am_status = ''online'', am_default_engine_id = Some engine, am_required_capabilities = [], am_metadata = [], am_agent_type = ''system''\<rparr>"

definition synth_message :: "message_io \<Rightarrow> string list \<Rightarrow> cloto_message" where
  "synth_message io proposals =
     \<lparr>cm_id = mi_new_id io 0, cm_source = SrcSystem, cm_target_agent = None, cm_content = synthesis_prompt (combine_views proposals),
      cm_timestamp = mi_now io, cm_metadata = []\<rparr>"

definition synthesized :: "message_io \<Rightarrow> string list \<Rightarrow> string" where
  "synthesized io proposals =
     (case mi_synthesis io of
        RunAnswered t \<Rightarrow> t
      | RunFailed e \<Rightarrow> ''[Consensus synthesis failed: '' @ mi_error_text io e @ ''. Individual proposals below.]'' @ [CHR 0x0A, CHR 0x0A] @ combine_views proposals
      | RunTimedOut \<Rightarrow> ''[Consensus synthesis timed out. Individual proposals below.]'' @ [CHR 0x0A, CHR 0x0A] @ combine_views proposals)"

definition synthesis :: "handler_settings \<Rightarrow> message_io \<Rightarrow> string \<Rightarrow> string list \<Rightarrow> message_effect list" where
  "synthesis hs io engine proposals =
     [show_pending ''synthesis'' engine 1,
      EngineRun (synth_agent engine) engine (synth_message io proposals) [] []
        (cc_synthetic_agent_id (hs_consensus hs), ''consensus-synth:'' @ mi_trace io),
      show_end io ''Synthesis timed out'' ''synthesis'' engine 1 (mi_synthesis io)]"

definition too_few_engines :: "consensus_config \<Rightarrow> nat \<Rightarrow> string" where
  "too_few_engines cfg n =
     ''[Consensus unavailable] Consensus needs at least '' @ show_nat (cc_min_proposals cfg) @ '' engines assigned to this agent but only '' @
     show_nat n @ '' is/are available (grant more engine servers, or widen the CONSENSUS_ENGINES filter).''"

definition too_few_proposals :: "consensus_config \<Rightarrow> nat \<Rightarrow> string" where
  "too_few_proposals cfg n =
     ''[Consensus failed] Consensus collected only '' @ show_nat n @ ''/'' @ show_nat (cc_min_proposals cfg) @ '' proposals (engines errored or timed out).''"

text \<open>
  With no minimum and no engine at all the source indexes an empty list and panics; there the model names the
  engine no list holds, and the configuration never sets a minimum of none.
\<close>

definition run_consensus ::
  "handler_settings \<Rightarrow> message_io \<Rightarrow> agent_metadata \<Rightarrow> cloto_message \<Rightarrow> cloto_message list \<Rightarrow> string list \<Rightarrow> message_effect list" where
  "run_consensus hs io agent m context_ms granted =
     (let cfg = hs_consensus hs;
          engines = filter_consensus_engines (agent_engine_servers io granted) (cc_engines cfg)
      in if length engines < cc_min_proposals cfg then deliver_consensus_result hs io agent m (too_few_engines cfg (length engines))
         else case collected_proposals hs io agent m context_ms granted engines of
           (es, working, proposals) \<Rightarrow>
             es @
             (if length proposals < cc_min_proposals cfg then deliver_consensus_result hs io agent m (too_few_proposals cfg (length proposals))
              else synthesis hs io (synthesizer cfg working engines) proposals @
                   deliver_consensus_result hs io agent m (synthesized io proposals)))"

end
