(* ===== verification/Message_Turn.thy ===== *)
theory Message_Turn
  imports Consensus
begin

text \<open>
  One message from its arrival to its reply, \<open>handle_message\<close> in \<open>handlers/system.rs\<close>: the agent, the
  conversation, what is stored, media, memory, the timeline of the engine, then consensus, a direct tool or an
  engine with its fallback, the memory again, and the record a scheduled message leaves.
\<close>

section \<open>Before the engine\<close>

datatype handle_outcome = Executed | Skipped string | Stopped

text \<open>The message names its conversation, or is filed in the default one of its user.\<close>

definition filed_message :: "message_io \<Rightarrow> cloto_message \<Rightarrow> db_error + cloto_message" where
  "filed_message io m =
     (case meta m ''conversation_id'' of
        Some _ \<Rightarrow> Ok m
      | None \<Rightarrow> and_then (mi_default_conversation io) (\<lambda>i. Ok (m\<lparr>cm_metadata := hm_insert ''conversation_id'' i (cm_metadata m)\<rparr>)))"

definition conversation_of :: "cloto_message \<Rightarrow> string" where
  "conversation_of m = meta_or [] m ''conversation_id''"

definition note_conversation_message :: "instant \<Rightarrow> string \<Rightarrow> string \<Rightarrow> message_effect list" where
  "note_conversation_message now conversation content =
     ConversationTouched conversation now #
     (let title = title_from_first_message content in if title = [] then [] else [TitleSetIfEmpty conversation title])"

definition persist_user_message :: "message_io \<Rightarrow> string \<Rightarrow> cloto_message \<Rightarrow> message_effect list" where
  "persist_user_message io agent m =
     (if meta m ''skip_user_persist'' = Some ''true'' then []
      else RowSaved (user_row (mi_json io) (mi_now io) agent (unwrap_or (Option.bind (meta m ''branch_index'') parse_i32) 0) (conversation_of m) m) #
           note_conversation_message (mi_now io) (conversation_of m) (cm_content m))"

definition with_media :: "message_io \<Rightarrow> agent_metadata \<Rightarrow> string \<Rightarrow> cloto_message \<Rightarrow> message_effect list \<times> cloto_message" where
  "with_media io agent agent_id m =
     (let (es, seen) = maybe_analyze_images (mi_media io) m agent_id (vision_opted_out (am_metadata agent));
          (es', heard) = maybe_transcribe_audio (mi_media io) seen
      in (map MediaWork (es @ es'), heard))"

text \<open>The rows of the conversation a message names or is filed in, as many as the handler takes.\<close>

definition conversation_context_for :: "handler_settings \<Rightarrow> message_io \<Rightarrow> cloto_message \<Rightarrow> cloto_message list" where
  "conversation_context_for hs io m =
     (case mi_rows io (unwrap_or (meta m ''conversation_id'') (default_conversation_id (target_agent_of (hs_default_agent hs) m) (extract_user_id m)))
        (hs_max_context hs) of Inr rows \<Rightarrow> rows_to_messages (mi_json io) (mi_dates io) (mi_now io) rows | Inl _ \<Rightarrow> [])"

section \<open>A direct tool\<close>

definition direct_tool_args :: "json_text \<Rightarrow> agent_metadata \<Rightarrow> string \<Rightarrow> cloto_message \<Rightarrow> json_map" where
  "direct_tool_args jt agent tool m =
     (let given = unwrap_or (Option.bind (Option.bind (meta m ''tool_args'') (json_from_str jt)) json_as_object) [];
          args = json_map_insert ''agent_id'' (JStr (am_id agent)) given
      in if kind_from_name tool = Speak \<and> map_of args ''text'' = None then json_map_insert ''text'' (JStr (cm_content m)) args else args)"

definition direct_tool_text :: "message_io \<Rightarrow> string" where
  "direct_tool_text io =
     (case mi_tool io of
        Some (Inr v) \<Rightarrow> (case v of JStr s \<Rightarrow> s | _ \<Rightarrow> mi_pretty io v)
      | Some (Inl e) \<Rightarrow> ''Error: '' @ mi_failure_text io e
      | None \<Rightarrow> ''Error: Tool execution timed out'')"

definition action_of :: "agent_metadata \<Rightarrow> cloto_message \<Rightarrow> string \<Rightarrow> string \<Rightarrow> string \<Rightarrow> string \<Rightarrow> external_action" where
  "action_of agent m callback engine response status =
     (let source = meta_or ''external'' m ''external_source''
      in \<lparr>xc_action_id = meta_or [] m ''external_action_id'', xc_source = source, xc_source_label = source,
          xc_target_agent_id = am_id agent, xc_target_agent_name = am_name agent, xc_prompt = cm_content m,
          xc_sender_name = meta_or ''Unknown'' m ''external_sender_name'', xc_engine_id = engine,
          xc_response = Some response, xc_status = status, xc_callback_id = callback\<rparr>)"

text \<open>What is shown of an external request and told to whoever waits for it, when somebody does.\<close>

definition answer_callback :: "agent_metadata \<Rightarrow> cloto_message \<Rightarrow> string \<Rightarrow> string \<Rightarrow> string \<Rightarrow> message_effect list" where
  "answer_callback agent m engine response status =
     (case meta m ''external_callback_id'' of
        None \<Rightarrow> []
      | Some cb \<Rightarrow> [ActionShown (action_of agent m cb engine response status), CallbackAnswered cb response])"

definition run_direct_tool :: "message_io \<Rightarrow> agent_metadata \<Rightarrow> string \<Rightarrow> cloto_message \<Rightarrow> message_effect list" where
  "run_direct_tool io agent tool m =
     ToolExecuted (am_id agent) tool (JObj (direct_tool_args (mi_json io) agent tool m)) #
     answer_callback agent m [] (direct_tool_text io) ''success''"

section \<open>An engine\<close>

definition engine_selection_of :: "message_io \<Rightarrow> agent_metadata \<Rightarrow> string \<Rightarrow> cloto_message \<Rightarrow> engine_selection" where
  "engine_selection_of io agent default_engine m =
     (case meta m ''engine_override'' of
        Some e \<Rightarrow> default_selection e
      | None \<Rightarrow> evaluate_engine_routing (mi_json io) (mi_lower io) (cm_content m) (am_metadata agent) (mi_connected io) default_engine)"

text \<open>The runs of a message are numbered; the last engine is the one that gave the result.\<close>

definition run_engines ::
  "message_io \<Rightarrow> engine_selection \<Rightarrow> (string \<Rightarrow> message_effect) \<Rightarrow> cloto_message list \<Rightarrow> message_effect list \<times> (anyhow + string) \<times> string" where
  "run_engines io sel run context_ms =
     (let engine = el_engine_id sel
      in if el_cfr sel then
           (case mi_think io of
              Inr t \<Rightarrow>
                if needs_escalation t then
                  (let up = unwrap_or (el_escalate_to sel) engine in ([EngineThought engine context_ms, run up], mi_loop io 0, up))
                else ([EngineThought engine context_ms], Ok t, engine)
            | Inl e \<Rightarrow>
                (case el_fallback sel of
                   Some fb \<Rightarrow>
                     if is_retriable_error (mi_error_text io e) then ([EngineThought engine context_ms, run fb], mi_loop io 0, fb)
                     else ([EngineThought engine context_ms], Err e, engine)
                 | None \<Rightarrow> ([EngineThought engine context_ms], Err e, engine)))
         else
           (case mi_loop io 0 of
              Inr t \<Rightarrow> ([run engine], Ok t, engine)
            | Inl e \<Rightarrow>
                (case el_fallback sel of
                   Some fb \<Rightarrow> if is_retriable_error (mi_error_text io e) then ([run engine, run fb], mi_loop io 1, fb) else ([run engine], Err e, engine)
                 | None \<Rightarrow> ([run engine], Err e, engine))))"

definition title_prompt :: "string \<Rightarrow> string \<Rightarrow> string" where
  "title_prompt user_text reply =
     ''Give this conversation a title of at most eight words, in the language the person wrote in. Output the title only, no quotes.'' @
     [CHR 0x0A, CHR 0x0A] @ ''Person: '' @ take_chars 1000 user_text @ [CHR 0x0A, CHR 0x0A] @ ''Reply: '' @ take_chars 1000 reply"

definition trim_quotes :: "string \<Rightarrow> string" where
  "trim_quotes s = rev (dropWhile (\<lambda>c. c = CHR 0x22) (rev (dropWhile (\<lambda>c. c = CHR 0x22) s)))"

definition offered_title :: "string \<Rightarrow> string option" where
  "offered_title answer =
     (let t = trim (trim_quotes (trim answer)) in if t = [] \<or> char_count t > 120 then None else Some t)"

text \<open>The title is read before the engine is asked and again after; a row that cannot be read does not stop the question.\<close>

definition after_reply_persisted :: "message_io \<Rightarrow> agent_metadata \<Rightarrow> string \<Rightarrow> string \<Rightarrow> string \<Rightarrow> string \<Rightarrow> message_effect list" where
  "after_reply_persisted io agent conversation engine user_text reply =
     ConversationTouched conversation (mi_now io) #
     (let first_line = title_from_first_message user_text
      in if mi_message_count io \<noteq> Ok 2 then []
         else if (case mi_title io 0 of Inr (Some t) \<Rightarrow> \<not> title_is_provisional t first_line | _ \<Rightarrow> False) then []
         else (case call_engine_think_simple (mi_json io) (\<lambda>_ _ _ _. mi_title_answer io) (Agent (am_id agent)) engine
                  (side_run_settings (mi_json io) agent engine) (title_prompt user_text reply) ''You name conversations.'' of
                 (es, answer) \<Rightarrow>
                   map EngineAsked es @
                   (case Option.bind answer offered_title of
                      None \<Rightarrow> []
                    | Some t \<Rightarrow>
                        (case mi_title io 1 of
                           Inr (Some now_title) \<Rightarrow> if title_is_provisional now_title first_line then [Renamed conversation t] else []
                         | _ \<Rightarrow> []))))"

definition reply_row :: "message_io \<Rightarrow> agent_metadata \<Rightarrow> cloto_message \<Rightarrow> string \<Rightarrow> chat_row" where
  "reply_row io agent m reply =
     agent_reply_row (mi_json io) (mi_now io) (am_id agent) m reply (case mi_next_branch io of Inr b \<Rightarrow> b | Inl _ \<Rightarrow> 0) (conversation_of m)"

definition is_external :: "cloto_message \<Rightarrow> bool" where
  "is_external m = (meta m ''external_callback_id'' \<noteq> None)"

definition deliver_reply ::
  "message_io \<Rightarrow> agent_metadata \<Rightarrow> cloto_message \<Rightarrow> session_key \<Rightarrow> memory_plugin option \<times> string option \<Rightarrow> string list \<Rightarrow> string \<Rightarrow> string
   \<Rightarrow> message_effect list" where
  "deliver_reply io agent m key targets granted engine reply =
     (let speaks = (case mi_speech_server io of Some s \<Rightarrow> s \<in> set granted | None \<Rightarrow> False)
      in [Appended key (reply_message (mi_now io) (am_id agent) m reply)] @
         store_agent_response io agent m reply targets @
         (if is_external m then []
          else RowSaved (reply_row io agent m reply) #
               (case mi_save_reply io of Inr _ \<Rightarrow> after_reply_persisted io agent (conversation_of m) engine (cm_content m) reply | Inl _ \<Rightarrow> [])) @
         (case meta m ''cron_dialogue_id'' of Some d \<Rightarrow> [DialogueCompleted d (meta_or ''CRON'' m ''cron_job_name'') engine reply] | None \<Rightarrow> []) @
         answer_callback agent m engine reply ''success'' @
         (if is_external m then [] else [ReplySent (am_id agent) engine reply (cm_id m) speaks]) @
         (if speaks then [AutoSpoken (am_id agent) (json_object [(''text'', JStr reply), (''agent_id'', JStr (am_id agent))])] else []))"

definition deliver_error :: "message_io \<Rightarrow> agent_metadata \<Rightarrow> cloto_message \<Rightarrow> string \<Rightarrow> anyhow \<Rightarrow> message_effect list" where
  "deliver_error io agent m engine e =
     (let reply = ''[Error] '' @ mi_error_text io e
      in answer_callback agent m engine reply ''error'' @
         [RowSaved (reply_row io agent m reply), ReplySent (am_id agent) engine reply (cm_id m) False])"

definition run_normal ::
  "message_io \<Rightarrow> agent_metadata \<Rightarrow> string \<Rightarrow> cloto_message \<Rightarrow> session_key \<Rightarrow> memory_plugin option \<times> string option \<Rightarrow> string list
   \<Rightarrow> cloto_message list \<Rightarrow> message_effect list" where
  "run_normal io agent default_engine m key targets granted context_ms =
     (case run_engines io (engine_selection_of io agent default_engine m) (\<lambda>e. EngineRun agent e m context_ms granted key) context_ms of
        (es, Inr reply, engine) \<Rightarrow> es @ deliver_reply io agent m key targets granted engine reply
      | (es, Inl e, engine) \<Rightarrow> es @ deliver_error io agent m engine e)"

section \<open>The turn\<close>

datatype turn_mode = ConsensusMode | ToolMode string | EngineMode

definition turn_mode_of :: "handler_settings \<Rightarrow> message_io \<Rightarrow> cloto_message \<Rightarrow> turn_mode" where
  "turn_mode_of hs io m =
     (if starts_with (mi_lower io (cm_content m)) (mi_lower io (cc_prefix (hs_consensus hs))) then ConsensusMode
      else case meta m ''tool_hint'' of Some t \<Rightarrow> ToolMode t | None \<Rightarrow> EngineMode)"

definition run_turn ::
  "handler_settings \<Rightarrow> message_io \<Rightarrow> agent_metadata \<Rightarrow> string \<Rightarrow> cloto_message \<Rightarrow> session_key \<Rightarrow> memory_plugin option \<times> string option \<Rightarrow> string list
   \<Rightarrow> cloto_message list \<Rightarrow> message_effect list" where
  "run_turn hs io agent default_engine m key targets granted context_ms =
     (case turn_mode_of hs io m of
        ConsensusMode \<Rightarrow> run_consensus hs io agent m context_ms granted
      | ToolMode t \<Rightarrow> run_direct_tool io agent t m
      | EngineMode \<Rightarrow> run_normal io agent default_engine m key targets granted context_ms)"

definition cron_context :: "message_io \<Rightarrow> string \<Rightarrow> cloto_message \<Rightarrow> message_effect list" where
  "cron_context io agent m =
     (case meta m ''cron_job_id'' of
        Some j \<Rightarrow> [CronContextSet agent j (case mi_generation io of Inr g \<Rightarrow> g | Inl _ \<Rightarrow> 0)]
      | None \<Rightarrow> [])"

text \<open>After the message is stored: the stop is armed, then everything else.\<close>

definition answer_message :: "handler_settings \<Rightarrow> message_io \<Rightarrow> agent_metadata \<Rightarrow> string \<Rightarrow> string \<Rightarrow> session_key \<Rightarrow> cloto_message \<Rightarrow> message_effect list" where
  "answer_message hs io agent default_engine agent_id key m =
     (let (media, heard) = with_media io agent agent_id m;
          granted = (case mi_granted io of Inr g \<Rightarrow> g | Inl _ \<Rightarrow> []);
          targets = memory_targets (mi_memory io 0) agent;
          (recall, recalled) = recall_memory hs io agent targets (tier_of (hs_policy hs) (mi_now io) key (mi_sessions io)) heard;
          context_ms = merge_context recalled (conversation_context_for hs io heard) (snapshot_transcript key (mi_sessions io)) (cm_id heard)
      in StopArmed (cm_id m) # media @ recall @ Appended key heard #
         run_turn hs io agent default_engine heard key targets granted context_ms @
         store_user_message io agent default_engine heard targets)"

definition handle_message_impl :: "handler_settings \<Rightarrow> message_io \<Rightarrow> cloto_message \<Rightarrow> message_effect list \<times> (anyhow + handle_outcome)" where
  "handle_message_impl hs io m =
     (let agent_id = target_agent_of (hs_default_agent hs) m;
          key = session_key_of agent_id m;
          cron = cron_context io agent_id m
      in case mi_agent io agent_id of
           Inl e \<Rightarrow> (cron, Err e)
         | Inr (agent, default_engine) \<Rightarrow>
             if \<not> am_enabled agent then (cron, Ok (Skipped (''agent '' @ quoted agent_id @ '' is powered off'')))
             else case filed_message io m of
               Inl e \<Rightarrow> (cron @ [AgentSeen agent_id], Err (AMsg e))
             | Inr filed \<Rightarrow>
                 (cron @ [AgentSeen agent_id] @ persist_user_message io agent_id filed @
                  answer_message hs io agent default_engine agent_id key filed, Ok Executed))"

section \<open>Stopping and the record\<close>

datatype wrapper_effect =
    Turned message_effect
  | ResponseStopped string string
  | CronContextRemoved string
  | CronStatus string string "string option"
  | CronSkipped string string string

text \<open>
  The turn up to where a stop found it: after \<open>n\<close> of its effects, and only once it is armed (\<open>Response_Stop\<close>).
\<close>

definition until_stop :: "nat option \<Rightarrow> message_effect list \<Rightarrow> (anyhow + handle_outcome) \<Rightarrow> message_effect list \<times> (anyhow + handle_outcome)" where
  "until_stop stop es r =
     (case stop of
        Some n \<Rightarrow> if list_ex (\<lambda>e. case e of StopArmed _ \<Rightarrow> True | _ \<Rightarrow> False) (take n es) \<and> n < length es then (take n es, Ok Stopped) else (es, r)
      | None \<Rightarrow> (es, r))"

definition cron_status_of :: "(anyhow \<Rightarrow> string) \<Rightarrow> anyhow + handle_outcome \<Rightarrow> string \<times> string option" where
  "cron_status_of error_text r =
     (case r of
        Inr Executed \<Rightarrow> (''success'', None)
      | Inr (Skipped reason) \<Rightarrow> (''skipped'', Some reason)
      | Inr Stopped \<Rightarrow> (''stopped'', Some ''stopped before the reply was finished'')
      | Inl e \<Rightarrow> (''error'', Some (error_text e)))"

definition turn_record :: "(anyhow \<Rightarrow> string) \<Rightarrow> string \<Rightarrow> string option \<Rightarrow> string \<Rightarrow> anyhow + handle_outcome \<Rightarrow> wrapper_effect list" where
  "turn_record error_text agent cron message_id r =
     (if r = Ok Stopped then [ResponseStopped agent message_id] else []) @
     (case cron of
        None \<Rightarrow> []
      | Some j \<Rightarrow>
          (case cron_status_of error_text r of (status, err) \<Rightarrow> [CronContextRemoved agent, CronStatus j status err]) @
          (case r of Inr (Skipped reason) \<Rightarrow> [CronSkipped agent j reason] | _ \<Rightarrow> []))"

definition handle_message_stoppable ::
  "handler_settings \<Rightarrow> message_io \<Rightarrow> nat option \<Rightarrow> cloto_message \<Rightarrow> wrapper_effect list \<times> (anyhow + unit)" where
  "handle_message_stoppable hs io stop m =
     (case handle_message_impl hs io m of
        (es, r) \<Rightarrow>
          (case until_stop stop es r of
             (es', r') \<Rightarrow>
               (map Turned es' @ turn_record (mi_error_text io) (target_agent_of (hs_default_agent hs) m) (meta m ''cron_job_id'') (cm_id m) r',
                and_then r' (\<lambda>_. Ok ()))))"

end
