(* ===== verification/Turn_Laws.thy ===== *)
theory Turn_Laws
  imports Message_Turn
begin

text \<open>
  Laws of a message turn: how often it answers, whose memory it reads and writes, under which identity a
  direct tool runs, what a stop leaves, and what a consensus may run.
\<close>

section \<open>Counting answers\<close>

definition is_reply :: "message_effect \<Rightarrow> bool" where
  "is_reply e = (case e of ReplySent _ _ _ _ _ \<Rightarrow> True | _ \<Rightarrow> False)"

definition is_callback :: "message_effect \<Rightarrow> bool" where
  "is_callback e = (case e of CallbackAnswered _ _ \<Rightarrow> True | _ \<Rightarrow> False)"

definition answers :: "message_effect list \<Rightarrow> nat \<times> nat" where
  "answers es = (length (filter is_reply es), length (filter is_callback es))"

definition answers_nobody :: "message_effect list \<Rightarrow> bool" where
  "answers_nobody es = list_all (\<lambda>e. \<not> is_reply e \<and> \<not> is_callback e) es"

lemma silent_simps [simp]:
  "answers_nobody []" "answers_nobody (e # es) = (\<not> is_reply e \<and> \<not> is_callback e \<and> answers_nobody es)" "answers_nobody (xs @ ys) = (answers_nobody xs \<and> answers_nobody ys)"
  by (auto simp: answers_nobody_def)

lemma answers_append: "answers (xs @ ys) = (fst (answers xs) + fst (answers ys), snd (answers xs) + snd (answers ys))"
  by (simp add: answers_def)

lemma answers_silent: "answers_nobody es \<Longrightarrow> answers es = (0, 0)"
  by (auto simp: answers_def answers_nobody_def list_all_iff filter_empty_conv)

lemma answers_around: "answers_nobody xs \<Longrightarrow> answers (xs @ ys) = answers ys" "answers_nobody ys \<Longrightarrow> answers (xs @ ys) = answers xs"
  by (simp_all add: answers_append answers_silent)

lemma kinds [simp]:
  "\<not> is_reply (CronContextSet a b n)" "\<not> is_reply (AgentSeen a)" "\<not> is_reply (RowSaved r)" "\<not> is_reply (ConversationTouched a i)"
  "\<not> is_reply (TitleSetIfEmpty a b)" "\<not> is_reply (Renamed a b)" "\<not> is_reply (StopArmed a)" "\<not> is_reply (MediaWork w)"
  "\<not> is_reply (PluginRecall a b c)" "\<not> is_reply (PluginStore a b m)" "\<not> is_reply (MemoryCall a b k v)" "\<not> is_reply (EpisodeCheck a b c eo)"
  "\<not> is_reply (Appended key m)" "\<not> is_reply (EngineThought a ms)" "\<not> is_reply (EngineRun ag b m ms gs key)" "\<not> is_reply (EngineAsked x)"
  "\<not> is_reply (ConsensusShown a b n co d ic bo)" "\<not> is_reply (ToolExecuted a b v)" "\<not> is_reply (ActionShown x')" "\<not> is_reply (CallbackAnswered a b)"
  "\<not> is_reply (DialogueCompleted a b c s)" "\<not> is_reply (AutoSpoken a v)" "is_reply (ReplySent a b c s f)"
  by (simp_all add: is_reply_def)

lemma kinds' [simp]:
  "\<not> is_callback (CronContextSet a b n)" "\<not> is_callback (AgentSeen a)" "\<not> is_callback (RowSaved r)" "\<not> is_callback (ConversationTouched a i)"
  "\<not> is_callback (TitleSetIfEmpty a b)" "\<not> is_callback (Renamed a b)" "\<not> is_callback (StopArmed a)" "\<not> is_callback (MediaWork w)"
  "\<not> is_callback (PluginRecall a b c)" "\<not> is_callback (PluginStore a b m)" "\<not> is_callback (MemoryCall a b k v)" "\<not> is_callback (EpisodeCheck a b c eo)"
  "\<not> is_callback (Appended key m)" "\<not> is_callback (EngineThought a ms)" "\<not> is_callback (EngineRun ag b m ms gs key)" "\<not> is_callback (EngineAsked x)"
  "\<not> is_callback (ConsensusShown a b n co d ic bo)" "\<not> is_callback (ToolExecuted a b v)" "\<not> is_callback (ActionShown x')" "is_callback (CallbackAnswered a b)"
  "\<not> is_callback (DialogueCompleted a b c s)" "\<not> is_callback (AutoSpoken a v)" "\<not> is_callback (ReplySent a b c s f)"
  by (simp_all add: is_callback_def)

lemma answers_Cons [simp]:
  "answers (e # es) = (of_bool (is_reply e) + fst (answers es), of_bool (is_callback e) + snd (answers es))" "answers [] = (0, 0)"
  by (auto simp: answers_def)

lemma silent_map: "(\<And>x. \<not> is_reply (f x) \<and> \<not> is_callback (f x)) \<Longrightarrow> answers_nobody (map f xs)"
  by (auto simp: answers_nobody_def list_all_iff)

lemma silent_parts [simp]:
  "answers_nobody (cron_context io a m)" "answers_nobody (persist_user_message io a m)" "answers_nobody (note_conversation_message i c t)"
  "answers_nobody (store_agent_response io ag m reply targets)" "answers_nobody (store_user_message io ag eng m targets)"
  "answers_nobody (fst (recall_memory hs io ag targets tier m))" "answers_nobody (fst (with_media io ag a m))"
  by (auto simp: cron_context_def persist_user_message_def note_conversation_message_def store_agent_response_def store_user_message_def
      recall_memory_def with_media_def Let_def silent_map split: option.splits prod.splits)

lemma silent_asked [simp]: "answers_nobody (map EngineAsked es)"
  by (simp add: silent_map)

lemma silent_after_reply [simp]: "answers_nobody (after_reply_persisted io ag c eng t reply)"
  by (auto simp: after_reply_persisted_def Let_def split: option.splits prod.splits sum.splits)

lemma silent_engines:
  assumes "run_engines io sel run ms = (es, r, engine)" and quiet: "\<And>e. \<not> is_reply (run e) \<and> \<not> is_callback (run e)"
  shows "answers_nobody es"
  using assms(1) quiet by (auto simp: run_engines_def Let_def split: sum.splits option.splits if_splits)

lemma answers_callback: "answers (answer_callback ag m eng reply status) = (0, of_bool (is_external m))"
  by (simp add: answer_callback_def is_external_def split: option.splits)

lemma answers_reply: "answers (deliver_reply io ag m key targets granted eng reply) = (of_bool (\<not> is_external m), of_bool (is_external m))"
  by (simp add: deliver_reply_def Let_def answers_append answers_callback answers_silent split: option.splits sum.splits)

lemma answers_error: "answers (deliver_error io ag m eng e) = (1, of_bool (is_external m))"
  by (simp add: deliver_error_def Let_def answers_append answers_callback)

lemma answers_normal:
  "answers (run_normal io ag eng m key targets granted ms) \<in> {(of_bool (\<not> is_external m), of_bool (is_external m)), (1, of_bool (is_external m))}"
proof -
  obtain es r engine where run: "run_engines io (engine_selection_of io ag eng m) (\<lambda>e. EngineRun ag e m ms granted key) ms = (es, r, engine)"
    by (cases "run_engines io (engine_selection_of io ag eng m) (\<lambda>e. EngineRun ag e m ms granted key) ms") auto
  have "answers_nobody es" by (rule silent_engines [OF run]) simp
  then show ?thesis
    by (cases r) (simp_all add: run_normal_def run answers_around answers_reply answers_error)
qed

lemma answers_tool: "answers (run_direct_tool io ag tool m) = (0, of_bool (is_external m))"
  by (simp add: run_direct_tool_def answers_callback)

lemma answers_delivery: "answers (deliver_consensus_result hs io ag m content) = (1, 0)"
  by (simp add: deliver_consensus_result_def answers_append answers_silent split: sum.splits option.splits)

lemma show_end_quiet [simp]:
  "\<not> is_reply (show_end io t p e n r)" "\<not> is_callback (show_end io t p e n r)" "\<not> is_reply (show_pending p e n)" "\<not> is_callback (show_pending p e n)"
  by (simp_all add: show_end_def show_pending_def split: prod.splits)

lemma silent_reuse: "answers_nobody (fst (reuse_engines io ag m ms granted working quorum left n counts ps))"
  by (induction io ag m ms granted working quorum left n counts ps rule: reuse_engines.induct)
    (auto simp: Let_def split: prod.splits run_end.splits)

lemma silent_collected: "answers_nobody (fst (collected_proposals hs io ag m ms granted engines))"
  using silent_reuse by (auto simp: collected_proposals_def first_proposals_def Let_def silent_map split: prod.splits) (metis fst_conv)

lemma answers_consensus: "answers (run_consensus hs io ag m ms granted) = (1, 0)"
  using silent_collected
  by (auto simp: run_consensus_def Let_def answers_delivery synthesis_def answers_append split: prod.splits)
    (metis answers_silent fst_conv snd_conv add_0)+

text \<open>Replies and callbacks a turn may end with, when somebody outside waits or not.\<close>

definition expected_answers :: "turn_mode \<Rightarrow> bool \<Rightarrow> (nat \<times> nat) set" where
  "expected_answers mode external =
     (case mode of
        ConsensusMode \<Rightarrow> {(1, 0)}
      | ToolMode _ \<Rightarrow> {(0, of_bool external)}
      | EngineMode \<Rightarrow> {(of_bool (\<not> external), of_bool external), (1, of_bool external)})"

lemma answers_turn:
  "answers (run_turn hs io ag eng m key targets granted ms) \<in>
     expected_answers (turn_mode_of hs io m) (is_external m)"
  using answers_normal [of io ag eng m key targets granted ms]
  by (cases "turn_mode_of hs io m") (simp_all add: expected_answers_def run_turn_def answers_consensus answers_tool)

lemma prepended_meta [simp]: "cm_metadata (prepended h ts m) = cm_metadata m" "cm_id (prepended h ts m) = cm_id m"
  by (simp_all add: prepended_def)

lemma heard_meta [simp]:
  "cm_metadata (snd (with_media io ag a m)) = cm_metadata m" "cm_id (snd (with_media io ag a m)) = cm_id m"
  by (simp_all add: with_media_def maybe_analyze_images_def maybe_transcribe_audio_def refused_note_def Let_def
      split: prod.splits sum.splits option.splits if_splits)

lemma filed_meta: "filed_message io m = Ok filed \<Longrightarrow> k \<noteq> ''conversation_id'' \<Longrightarrow> meta filed k = meta m k"
  by (auto simp: filed_message_def meta_def and_then_Ok_iff split: option.splits)

lemma external_cong: "meta m ''external_callback_id'' = meta m' ''external_callback_id'' \<Longrightarrow> is_external m = is_external m'"
  by (simp add: is_external_def)

lemma heard_external [simp]: "is_external (snd (with_media io ag a m)) = is_external m"
  by (rule external_cong) (simp add: meta_def)

lemma answer_message_eq:
  "answer_message hs io ag eng a key m =
     (let heard = snd (with_media io ag a m); targets = memory_targets (mi_memory io 0) ag;
          granted = (case mi_granted io of Inr g \<Rightarrow> g | Inl _ \<Rightarrow> []);
          recall = recall_memory hs io ag targets (tier_of (hs_policy hs) (mi_now io) key (mi_sessions io)) heard
      in StopArmed (cm_id m) # fst (with_media io ag a m) @ fst recall @ Appended key heard #
         run_turn hs io ag eng heard key targets granted
           (merge_context (snd recall) (conversation_context_for hs io heard) (snapshot_transcript key (mi_sessions io)) (cm_id heard)) @
         store_user_message io ag eng heard targets)"
  by (simp add: answer_message_def Let_def case_prod_unfold)

lemma answers_message:
  "answers (answer_message hs io ag eng a key m) \<in>
     expected_answers (turn_mode_of hs io (snd (with_media io ag a m))) (is_external m)"
proof -
  let ?heard = "snd (with_media io ag a m)"
  obtain key' targets granted ms where "answers (answer_message hs io ag eng a key m) = answers (run_turn hs io ag eng ?heard key' targets granted ms)"
    by (simp add: answer_message_eq Let_def answers_append answers_silent)
  then show ?thesis using answers_turn [of hs io ag eng ?heard key' targets granted ms] by simp
qed


section \<open>On whose behalf\<close>

definition media_acts :: "string \<Rightarrow> media_effect \<Rightarrow> bool" where
  "media_acts a e = (case e of MediaCalled c k _ \<Rightarrow> c = Agent a \<or> c = System \<and> k = Transcribe | _ \<Rightarrow> True)"

definition memory_server_of :: "message_io \<Rightarrow> agent_metadata \<Rightarrow> string \<Rightarrow> bool" where
  "memory_server_of io ag s = (mcp_memory_for (mi_memory io 0) (am_id ag) = Some s \<or> mcp_memory_for (mi_memory io 1) (am_id ag) = Some s)"

definition engine_acts :: "agent_metadata \<Rightarrow> engine_effect \<Rightarrow> bool" where
  "engine_acts ag x = (case x of KindCalled c _ _ _ \<Rightarrow> c = Agent (am_id ag) | _ \<Rightarrow> False)"

definition acts_for :: "message_io \<Rightarrow> string \<Rightarrow> agent_metadata \<Rightarrow> message_effect \<Rightarrow> bool" where
  "acts_for io a ag e = (case e of
       MemoryCall x s k _ \<Rightarrow> x = am_id ag \<and> memory_server_of io ag s \<and> (memory_stores ag \<or> k = Recall)
     | PluginStore _ x _ \<Rightarrow> x = am_id ag \<and> memory_stores ag
     | PluginRecall _ x _ \<Rightarrow> x = am_id ag
     | EpisodeCheck s x _ _ \<Rightarrow> x = am_id ag \<and> memory_server_of io ag s \<and> memory_stores ag
     | ToolExecuted x _ v \<Rightarrow> x = am_id ag \<and> json_get v ''agent_id'' = Some (JStr (am_id ag))
     | AutoSpoken x _ \<Rightarrow> x = am_id ag
     | ReplySent x _ _ _ _ \<Rightarrow> x = am_id ag
     | EngineAsked x \<Rightarrow> engine_acts ag x
     | EngineRun x _ _ ms gs _ \<Rightarrow> x = ag \<or> am_agent_type x = ''system'' \<and> gs = [] \<and> ms = []
     | MediaWork x \<Rightarrow> media_acts a x
     | _ \<Rightarrow> True)"

abbreviation all_act :: "message_io \<Rightarrow> string \<Rightarrow> agent_metadata \<Rightarrow> message_effect list \<Rightarrow> bool" where
  "all_act io a ag es \<equiv> list_all (acts_for io a ag) es"

lemma memory_targets_server:
  "memory_targets (mi_memory io 0) ag = (p, Some s) \<Longrightarrow> memory_server_of io ag s"
  "memory_targets (mi_memory io 1) ag = (p, Some s) \<Longrightarrow> memory_server_of io ag s"
  by (auto simp: memory_targets_def memory_server_of_def split: option.splits)

lemma acts_store:
  "all_act io a ag (store_agent_response io ag m reply (memory_targets (mi_memory io 0) ag))"
  "all_act io a ag (store_agent_response io ag m reply (memory_targets (mi_memory io 1) ag))"
  "all_act io a ag (store_user_message io ag eng m (memory_targets (mi_memory io 0) ag))"
  by (auto simp: store_agent_response_def store_user_message_def acts_for_def Let_def simp del: One_nat_def
      dest: memory_targets_server split: prod.splits option.splits)

lemma acts_recall: "all_act io a ag (fst (recall_memory hs io ag (memory_targets (mi_memory io 0) ag) tier m))"
  by (auto simp: recall_memory_def acts_for_def dest: memory_targets_server split: prod.splits option.splits)

lemma each_file_all:
  assumes "\<And>i x. list_all P (fst (f i x))"
  shows "list_all P (fst (each_file f atts))"
  using assms by (auto simp: each_file_def Let_def list_all_iff)

lemma acts_temp_file: "c = Agent a \<or> c = System \<and> k = Transcribe \<Longrightarrow> list_all (media_acts a) (fst (through_temp_file io stem ext args c k shown n bytes))"
  by (auto simp: through_temp_file_def media_acts_def Let_def)

lemma acts_images: "list_all (media_acts a) (fst (maybe_analyze_images io m a opted))"
  unfolding maybe_analyze_images_def
  by (auto simp: Let_def case_prod_unfold split: sum.splits option.splits intro!: each_file_all acts_temp_file)

lemma acts_audio: "list_all (media_acts a) (fst (maybe_transcribe_audio io m))"
  unfolding maybe_transcribe_audio_def
  by (auto simp: Let_def case_prod_unfold split: sum.splits option.splits intro!: each_file_all acts_temp_file)

lemma acts_media: "all_act io a ag (fst (with_media io ag a m))"
  using acts_images [of a "mi_media io" m "vision_opted_out (am_metadata ag)"] acts_audio [of a "mi_media io"]
  by (auto simp: with_media_def acts_for_def list_all_iff split: prod.splits) (metis fst_conv)+

lemma acts_callback: "all_act io a ag (answer_callback ag m eng reply status)"
  by (simp add: answer_callback_def acts_for_def split: option.splits)

lemma acts_side: "list_all (engine_acts ag) (fst (call_engine_think_simple jt answer (Agent (am_id ag)) eng settings prompt d))"
  by (simp add: call_engine_think_simple_def engine_acts_def Let_def)

lemma acts_title: "all_act io a ag (after_reply_persisted io ag c eng t reply)"
  using acts_side [of ag "mi_json io" "\<lambda>_ _ _ _. mi_title_answer io" eng "side_run_settings (mi_json io) ag eng" "title_prompt t reply" "''You name conversations.''"]
  by (auto simp: after_reply_persisted_def Let_def acts_for_def list_all_iff case_prod_unfold split: option.splits sum.splits)

lemma acts_reply: "all_act io a ag (deliver_reply io ag m key (memory_targets (mi_memory io 0) ag) granted eng reply)"
  using acts_title acts_callback acts_store(1)
  by (simp add: deliver_reply_def Let_def) (simp add: acts_for_def split: option.splits sum.splits)

lemma acts_error: "all_act io a ag (deliver_error io ag m eng e)"
  using acts_callback by (simp add: deliver_error_def Let_def) (simp add: acts_for_def)

lemma acts_engines:
  assumes "run_engines io sel run ms = (es, r, engine)" and "\<And>e. acts_for io a ag (run e)"
  shows "all_act io a ag es"
  using assms by (auto simp: run_engines_def Let_def acts_for_def split: sum.splits option.splits if_splits)

lemma acts_normal: "all_act io a ag (run_normal io ag eng m key (memory_targets (mi_memory io 0) ag) granted ms)"
proof -
  let ?run = "\<lambda>e. EngineRun ag e m ms granted key"
  obtain es r engine where run: "run_engines io (engine_selection_of io ag eng m) ?run ms = (es, r, engine)"
    by (cases "run_engines io (engine_selection_of io ag eng m) ?run ms") auto
  have "all_act io a ag es" by (rule acts_engines [OF run]) (simp add: acts_for_def)
  then show ?thesis by (cases r) (simp_all add: run_normal_def run acts_reply acts_error)
qed

lemma acts_tool: "all_act io a ag (run_direct_tool io ag tool m)"
  by (simp add: run_direct_tool_def acts_callback) (simp add: acts_for_def direct_tool_args_def Let_def json_get_def)

lemma acts_delivery: "all_act io a ag (deliver_consensus_result hs io ag m content)"
  using acts_store(2) by (simp add: deliver_consensus_result_def) (simp add: acts_for_def split: sum.splits option.splits)

lemma acts_shown [simp]: "acts_for io a ag (show_pending p e n)" "acts_for io a ag (show_end io' t p e n r)"
  by (simp_all add: acts_for_def show_pending_def show_end_def split: prod.splits)

lemma acts_reuse: "all_act io a ag (fst (reuse_engines io ag m ms granted working quorum left n counts ps))"
proof (induction io ag m ms granted working quorum left n counts ps rule: reuse_engines.induct)
  case (2 io ag m ms granted working quorum left n counts ps)
  then show ?case by (auto simp: Let_def acts_for_def [of _ _ _ "EngineRun _ _ _ _ _ _"] split: prod.splits)
qed simp

lemma acts_collected: "all_act io a ag (fst (collected_proposals hs io ag m ms granted engines))"
  using acts_reuse [of io a ag]
  by (auto simp: collected_proposals_def first_proposals_def Let_def list_all_iff acts_for_def [of _ _ _ "EngineRun _ _ _ _ _ _"] split: prod.splits)
    (metis fst_conv)+

lemma acts_consensus: "all_act io a ag (run_consensus hs io ag m ms granted)"
proof -
  obtain es working ps where got: "collected_proposals hs io ag m ms granted
      (filter_consensus_engines (agent_engine_servers io granted) (cc_engines (hs_consensus hs))) = (es, working, ps)"
    by (cases "collected_proposals hs io ag m ms granted
      (filter_consensus_engines (agent_engine_servers io granted) (cc_engines (hs_consensus hs)))") auto
  have "all_act io a ag es" using acts_collected [of io a ag hs m ms granted] got by (metis fst_conv)
  then show ?thesis
    by (simp add: run_consensus_def Let_def got acts_delivery synthesis_def acts_for_def [of _ _ _ "EngineRun _ _ _ _ _ _"] synth_agent_def)
qed

lemma acts_turn: "all_act io a ag (run_turn hs io ag eng m key (memory_targets (mi_memory io 0) ag) granted ms)"
  by (simp add: run_turn_def acts_consensus acts_tool acts_normal split: turn_mode.splits)

lemma acts_plain: "all_act io a ag (cron_context io b m)" "all_act io a ag (persist_user_message io b m)"
  by (auto simp: cron_context_def persist_user_message_def note_conversation_message_def Let_def acts_for_def split: option.splits)


section \<open>A stop\<close>

definition is_arm :: "message_effect \<Rightarrow> bool" where
  "is_arm e = (case e of StopArmed _ \<Rightarrow> True | _ \<Rightarrow> False)"

lemma taken_before: "list_ex P (take n (xs @ ys)) \<Longrightarrow> \<not> list_ex P xs \<Longrightarrow> set xs \<subseteq> set (take n (xs @ ys))"
  by (cases "n \<le> length xs") (auto simp: list_ex_iff dest: in_set_takeD)

lemma not_armed_yet: "\<not> list_ex is_arm (cron_context io a m @ AgentSeen a # persist_user_message io a filed)"
  by (auto simp: cron_context_def persist_user_message_def note_conversation_message_def Let_def is_arm_def split: option.splits)

lemma until_stop_stopped: "until_stop stop es r = (es', Ok Stopped) \<Longrightarrow> r \<noteq> Ok Stopped \<Longrightarrow> \<exists>n. es' = take n es \<and> list_ex is_arm es'"
  by (auto simp: until_stop_def is_arm_def [abs_def] split: option.splits if_splits)

lemma until_stop_whole: "until_stop stop es r = (es', r') \<Longrightarrow> r' \<noteq> Ok Stopped \<Longrightarrow> es' = es \<and> r' = r"
  by (auto simp: until_stop_def split: option.splits if_splits)

lemma impl_not_stopped: "snd (handle_message_impl hs io m) \<noteq> Ok Stopped"
  by (simp add: handle_message_impl_def Let_def split: sum.splits prod.splits)

lemma stopped_shown: "ResponseStopped a i \<in> set (map Turned es @ turn_record et a cron i r) \<longleftrightarrow> r = Ok Stopped"
  by (auto simp: turn_record_def split: option.splits prod.splits sum.splits handle_outcome.splits)


section \<open>What a consensus runs\<close>

definition engine_of :: "message_effect \<Rightarrow> string option" where
  "engine_of e = (case e of EngineRun _ x _ _ _ _ \<Rightarrow> Some x | _ \<Rightarrow> None)"

definition engines_run :: "message_effect list \<Rightarrow> string list" where
  "engines_run es = List.map_filter engine_of es"

lemma engines_run_simps [simp]:
  "engines_run [] = []" "engines_run (xs @ ys) = engines_run xs @ engines_run ys"
  "engines_run (e # es) = (case engine_of e of Some x \<Rightarrow> x # engines_run es | None \<Rightarrow> engines_run es)"
  by (simp_all add: engines_run_def List.map_filter_def split: option.splits)

lemma no_engine_of [simp]:
  "engine_of (show_pending p e n) = None" "engine_of (show_end io t p e n r) = None" "engine_of (EngineRun ag x m ms gs key) = Some x"
  by (simp_all add: engine_of_def show_pending_def show_end_def split: prod.splits)

lemma no_engines: "(\<And>e. e \<in> set es \<Longrightarrow> engine_of e = None) \<Longrightarrow> engines_run es = []"
  by (induction es) auto

lemma delivery_runs_nothing: "engines_run (deliver_consensus_result hs io ag m content) = []"
  by (rule no_engines) (auto simp: deliver_consensus_result_def store_agent_response_def engine_of_def Let_def split: sum.splits option.splits prod.splits if_splits)

lemma engines_run_map: "(\<And>x. engine_of (f x) = Some (g x)) \<Longrightarrow> engines_run (map f xs) = map g xs"
  by (induction xs) auto

lemma engines_run_quiet: "(\<And>x. engine_of (f x) = None) \<Longrightarrow> engines_run (map f xs) = []"
  by (induction xs) auto

lemma first_proposals_run: "engines_run (first_proposals io ag m ms granted engines) = engines"
  by (simp add: first_proposals_def engines_run_quiet engines_run_map [where g = "\<lambda>x. x"])

lemma reuse_runs:
  "working \<noteq> [] \<Longrightarrow> set (engines_run (fst (reuse_engines io ag m ms granted working quorum left n counts ps))) \<subseteq> set working \<and>
     length (engines_run (fst (reuse_engines io ag m ms granted working quorum left n counts ps))) \<le> left"
proof (induction io ag m ms granted working quorum left n counts ps rule: reuse_engines.induct)
  case (2 io ag m ms granted working quorum left n counts ps)
  then show ?case by (auto simp: Let_def case_prod_unfold)
qed simp

lemma answered_engines: "set (map fst (answered_proposals io engines)) \<subseteq> set engines"
  by (auto simp: answered_proposals_def map_filter_def in_set_enumerate_eq split: run_end.splits)

definition consensus_engine :: "handler_settings \<Rightarrow> message_io \<Rightarrow> string list \<Rightarrow> string \<Rightarrow> bool" where
  "consensus_engine hs io granted e =
     (e \<in> set granted \<and> is_engine_server io e \<and> (cc_engines (hs_consensus hs) = [] \<or> bare_engine e \<in> bare_engine ` set (cc_engines (hs_consensus hs))))"

lemma consensus_engines:
  "set (filter_consensus_engines (agent_engine_servers io granted) (cc_engines (hs_consensus hs))) = Collect (consensus_engine hs io granted)"
  "length (filter_consensus_engines (agent_engine_servers io granted) (cc_engines (hs_consensus hs))) \<le> length granted"
  by (auto simp: filter_consensus_engines_def agent_engine_servers_def consensus_engine_def filter_filter intro: le_trans [OF length_filter_le])

lemma collected_runs:
  assumes "collected_proposals hs io ag m ms granted engines = (es, working, ps)"
  shows "set (engines_run es) \<subseteq> set engines" "length (engines_run es) \<le> length engines + 3 * cc_min_proposals (hs_consensus hs)"
    "set working \<subseteq> set engines" "working = [] \<Longrightarrow> ps = []"
proof -
  let ?w = "map fst (answered_proposals io engines)"
  let ?re = "\<lambda>k. reuse_engines io ag m ms granted ?w (cc_min_proposals (hs_consensus hs)) k 0
    (map (\<lambda>e. (e, 1)) (remdups ?w)) (map snd (answered_proposals io engines))"
  have w: "set ?w \<subseteq> set engines" by (rule answered_engines)
  have parts: "working = ?w" "ps = [] \<or> ?w \<noteq> []"
    using assms by (auto simp: collected_proposals_def Let_def split: prod.splits if_splits)
  have run: "set (engines_run (fst (?re k))) \<subseteq> set engines \<and> length (engines_run (fst (?re k))) \<le> k" if "?w \<noteq> []" for k
    using reuse_runs [OF that] w by (meson subset_trans)
  have es: "es = first_proposals io ag m ms granted engines \<or>
      es = first_proposals io ag m ms granted engines @ fst (?re (min (cc_min_proposals (hs_consensus hs) * 3) (2 ^ 64 - 1))) \<and> ?w \<noteq> []"
    using assms by (auto simp: collected_proposals_def Let_def split: prod.splits if_splits)
  show "set working \<subseteq> set engines" "working = [] \<Longrightarrow> ps = []" using parts w by auto
  show "set (engines_run es) \<subseteq> set engines"
    using es run [of "min (cc_min_proposals (hs_consensus hs) * 3) (2 ^ 64 - 1)"] by (auto simp: first_proposals_run)
  show "length (engines_run es) \<le> length engines + 3 * cc_min_proposals (hs_consensus hs)"
    using es run [of "min (cc_min_proposals (hs_consensus hs) * 3) (2 ^ 64 - 1)"] by (auto simp: first_proposals_run)
qed


end
