(* ===== verification/Chat_Handlers.thy ===== *)
theory Chat_Handlers
  imports Chat_Rows Turn_Parts
begin

text \<open>
  The requests about chat (\<open>handlers/chat.rs\<close>) and the search across conversations (\<open>db/chat_search.rs\<close>).
  Whether the caller is authorized, the agents, fresh ids, decoded images and the disk are inputs; a statement
  meets a fault or none. A message handed to the event bus is an effect.
\<close>

section \<open>Requests\<close>

datatype chat_error = ChatUnauthorized | ChatValidation string | ChatNotFound string | ChatInternal string | ChatDb db_error

datatype chat_effect =
    BusMessage cloto_message
  | FilesRemoved "string list"
  | AttachmentWritten string string

definition DEFAULT_USER_ID :: string where "DEFAULT_USER_ID = ''default''"

record chat_io =
  hi_authorized :: bool
  hi_now :: instant
  hi_json :: json_text
  hi_faults :: "nat \<Rightarrow> fault"
  hi_newest :: "chat_row list \<Rightarrow> chat_row list"
  hi_max_limit :: int
  hi_enabled :: "string \<Rightarrow> bool option"
  hi_uuid :: "nat \<Rightarrow> string"
  hi_decode64 :: "string \<Rightarrow> string option"
  hi_inline_threshold :: int
  hi_attachment_dir :: string
  hi_disk_writes :: "nat \<Rightarrow> bool"
  hi_bus_open :: bool

definition db_result :: "db_error + 'a \<Rightarrow> chat_error + 'a" where
  "db_result r = map_err ChatDb r"

definition page_limit :: "int \<Rightarrow> int option \<Rightarrow> int" where
  "page_limit max_limit asked_limit = min (max 1 (unwrap_or asked_limit 50)) max_limit"

definition has_more :: "chat_row list \<Rightarrow> int \<Rightarrow> bool" where
  "has_more rows limit = (limit < int (length rows))"

text \<open>A page and whether there is more: one row beyond the page is asked for, within the same maximum.\<close>

definition read_page ::
  "chat_io \<Rightarrow> string \<Rightarrow> string \<Rightarrow> string option \<Rightarrow> instant option \<Rightarrow> int option \<Rightarrow> chat_db \<Rightarrow> chat_error + chat_row list \<times> bool" where
  "read_page io agent user conversation before asked_limit db =
     (let limit = page_limit (hi_max_limit io) asked_limit
      in and_then (db_result (get_chat_messages (hi_faults io 0) (hi_newest io) agent user conversation before (limit + 1) (hi_max_limit io) db))
           (\<lambda>rows. Ok (take (nat limit) rows, has_more rows limit)))"

definition get_messages ::
  "chat_io \<Rightarrow> string \<Rightarrow> string option \<Rightarrow> string option \<Rightarrow> instant option \<Rightarrow> int option \<Rightarrow> chat_db \<Rightarrow> chat_error + chat_row list \<times> bool" where
  "get_messages io agent user conversation before asked_limit db =
     (if \<not> hi_authorized io then Err ChatUnauthorized
      else read_page io agent (unwrap_or user DEFAULT_USER_ID) conversation before asked_limit db)"

section \<open>Saving a message\<close>

definition CONTENT_BLOCK_MAX_ITEMS :: nat where "CONTENT_BLOCK_MAX_ITEMS = 20"

definition ALLOWED_MIME_TYPES :: "string list" where
  "ALLOWED_MIME_TYPES = [''image/png'', ''image/jpeg'', ''image/jpg'', ''image/gif'', ''image/webp'', ''image/svg+xml'']"

fun trim_end_text :: "nat \<Rightarrow> string \<Rightarrow> string \<Rightarrow> string" where
  "trim_end_text 0 suf s = s"
| "trim_end_text (Suc n) suf s = (if suf \<noteq> [] \<and> ends_with s suf then trim_end_text n suf (take (length s - length suf) s) else s)"

definition text_of_content :: "json \<Rightarrow> string" where
  "text_of_content content =
     (case json_as_array content of
        None \<Rightarrow> []
      | Some blocks \<Rightarrow> join_with [CHR 0x0A] (List.map_filter (\<lambda>b. Option.bind (json_get b ''text'') json_as_str)
            (filter (\<lambda>b. Option.bind (json_get b ''type'') json_as_str = Some ''text'') blocks)))"

text \<open>An image given in the text of a block: its type and bytes, when the type is allowed and the bytes decode.\<close>

definition inline_image :: "(string \<Rightarrow> string option) \<Rightarrow> json \<Rightarrow> (string \<times> string) option" where
  "inline_image decode block =
     (if Option.bind (json_get block ''type'') json_as_str = Some ''image'' then
        Option.bind (Option.bind (json_get block ''url'') json_as_str) (\<lambda>url.
        Option.bind (Option.bind (strip_prefix ''data:'' url) (split_once (CHR '',''))) (\<lambda>(info, b64).
          let mime = trim_end_text (length info) '';base64'' info
          in if mime \<notin> set ALLOWED_MIME_TYPES then None else map_option (Pair mime) (decode b64)))
      else None)"

definition attachment_of :: "chat_io \<Rightarrow> string \<Rightarrow> nat \<Rightarrow> string \<times> string \<Rightarrow> chat_effect list \<times> attachment_row option" where
  "attachment_of io message_id n img =
     (case img of (mime, bytes) \<Rightarrow>
        let i = hi_uuid io n;
            filename = ''image_'' @ take 8 i @ ''.'' @ unwrap_or (mime_to_ext mime) ''bin'';
            small = int (length bytes) \<le> hi_inline_threshold io;
            path = hi_attachment_dir io @ ''/'' @ i @ ''/'' @ filename
        in if \<not> small \<and> \<not> hi_disk_writes io n then ([], None)
           else ((if small then [] else [AttachmentWritten path bytes]),
                 Some \<lparr>at_id = i, at_message_id = message_id, at_filename = filename, at_mime_type = mime, at_size_bytes = int (length bytes),
                   at_storage_type = (if small then ''inline'' else ''disk''), at_inline_data = (if small then Some bytes else None),
                   at_disk_path = (if small then None else Some path), at_created_at = hi_now io\<rparr>))"

fun save_images :: "chat_io \<Rightarrow> string \<Rightarrow> nat \<Rightarrow> (string \<times> string) list \<Rightarrow> chat_db \<Rightarrow> chat_db \<times> chat_effect list" where
  "save_images io message_id n [] db = (db, [])"
| "save_images io message_id n (img # imgs) db =
     (case attachment_of io message_id n img of
        (es, None) \<Rightarrow> (case save_images io message_id (n + 1) imgs db of (db', es') \<Rightarrow> (db', es @ es'))
      | (es, Some a) \<Rightarrow>
          (case save_images io message_id (n + 1) imgs (fst (save_attachment (hi_faults io (10 + n)) a db)) of (db', es') \<Rightarrow> (db', es @ es')))"

record post_request =
  pr_id :: string
  pr_source :: string
  pr_content :: json
  pr_metadata :: "json option"
  pr_user_id :: "string option"
  pr_conversation_id :: "string option"

definition checked_post :: "chat_io \<Rightarrow> string \<Rightarrow> post_request \<Rightarrow> chat_error + json list" where
  "checked_post io agent r =
     (case hi_enabled io agent of
        None \<Rightarrow> Err (ChatValidation (''Agent '' @ quoted agent @ '' not found''))
      | Some False \<Rightarrow> Err (ChatValidation (''Agent '' @ quoted agent @ '' is powered off''))
      | Some True \<Rightarrow>
          if pr_source r \<notin> set message_sources then Err (ChatValidation (''source must be '' @ quoted ''user'' @ '', '' @ quoted ''agent'' @ '', or '' @ quoted ''system''))
          else (case json_as_array (pr_content r) of
                  None \<Rightarrow> Err (ChatValidation ''content must be a JSON array of ContentBlock'')
                | Some blocks \<Rightarrow>
                    if CONTENT_BLOCK_MAX_ITEMS < length blocks
                    then Err (ChatValidation (''content array exceeds maximum of '' @ show_nat CONTENT_BLOCK_MAX_ITEMS @ '' items''))
                    else Ok blocks))"

definition post_row :: "chat_io \<Rightarrow> string \<Rightarrow> post_request \<Rightarrow> string \<Rightarrow> chat_row" where
  "post_row io agent r conversation =
     \<lparr>row_id = pr_id r, row_agent_id = agent, row_user_id = unwrap_or (pr_user_id r) DEFAULT_USER_ID, row_source = pr_source r,
      row_content = json_to_string (hi_json io) (pr_content r), row_metadata = map_option (json_to_string (hi_json io)) (pr_metadata r),
      row_created_at = hi_now io, row_parent_id = None, row_branch_index = 0, row_conversation_id = Some conversation\<rparr>"

definition first_title :: "chat_io \<Rightarrow> post_request \<Rightarrow> string \<Rightarrow> chat_db \<Rightarrow> chat_db \<times> (db_error + unit)" where
  "first_title io r conversation db =
     (let title = title_from_first_message (text_of_content (pr_content r))
      in if pr_source r \<noteq> ''user'' \<or> title = [] then (db, Ok ())
         else case set_title_if_empty (hi_faults io 3) conversation title db of (db', res) \<Rightarrow> (db', and_then res (\<lambda>_. Ok ())))"

text \<open>A named conversation is taken as it is named.\<close>

definition post_conversation :: "chat_io \<Rightarrow> string \<Rightarrow> post_request \<Rightarrow> chat_db \<Rightarrow> chat_db \<times> (db_error + string)" where
  "post_conversation io agent r db =
     (case pr_conversation_id r of
        Some i \<Rightarrow> (db, Ok i)
      | None \<Rightarrow> ensure_default_conversation (hi_faults io 0) agent (unwrap_or (pr_user_id r) DEFAULT_USER_ID) (hi_now io) db)"

definition post_message :: "chat_io \<Rightarrow> string \<Rightarrow> post_request \<Rightarrow> chat_db \<Rightarrow> chat_db \<times> chat_effect list \<times> (chat_error + string)" where
  "post_message io agent r db =
     (if \<not> hi_authorized io then (db, [], Err ChatUnauthorized)
      else case checked_post io agent r of
        Inl e \<Rightarrow> (db, [], Err e)
      | Inr blocks \<Rightarrow>
          (case post_conversation io agent r db of
             (db1, Inl e) \<Rightarrow> (db1, [], Err (ChatDb e))
           | (db1, Inr c) \<Rightarrow>
               (case save_chat_message (hi_faults io 1) (post_row io agent r c) db1 of
                  (db2, Inl e) \<Rightarrow> (db2, [], Err (ChatDb e))
                | (db2, Inr _) \<Rightarrow>
                    (case touch_conversation (hi_faults io 2) c (hi_now io) db2 of
                       (db3, Inl e) \<Rightarrow> (db3, [], Err (ChatDb e))
                     | (db3, Inr _) \<Rightarrow>
                         (case first_title io r c db3 of
                            (db4, Inl e) \<Rightarrow> (db4, [], Err (ChatDb e))
                          | (db4, Inr _) \<Rightarrow>
                              (case save_images io (pr_id r) 0 (List.map_filter (inline_image (hi_decode64 io)) blocks) db4 of
                                 (db5, es) \<Rightarrow> (db5, es, Ok (pr_id r))))))))"

definition delete_messages :: "chat_io \<Rightarrow> string \<Rightarrow> string option \<Rightarrow> chat_db \<Rightarrow> chat_db \<times> chat_effect list \<times> (chat_error + nat)" where
  "delete_messages io agent user db =
     (if \<not> hi_authorized io then (db, [], Err ChatUnauthorized)
      else case delete_chat_messages (hi_faults io) agent (unwrap_or user DEFAULT_USER_ID) db of
        (db', paths, r) \<Rightarrow> (db', [FilesRemoved paths], db_result r))"

definition attachment_bytes :: "(string \<Rightarrow> string option) \<Rightarrow> attachment_row \<Rightarrow> chat_error + string" where
  "attachment_bytes file_text a =
     (if at_storage_type a = ''inline'' then ok_or (at_inline_data a) (ChatInternal ''Inline attachment has no data'')
      else if at_storage_type a = ''disk'' then
        and_then (ok_or (at_disk_path a) (ChatInternal ''Disk attachment has no path''))
          (\<lambda>p. ok_or (file_text p) (ChatInternal ''Failed to read attachment file''))
      else Err (ChatInternal ''Unknown storage type''))"

definition get_attachment :: "chat_io \<Rightarrow> (string \<Rightarrow> string option) \<Rightarrow> string \<Rightarrow> chat_db \<Rightarrow> chat_error + string \<times> string \<times> string" where
  "get_attachment io file_text i db =
     (if \<not> hi_authorized io then Err ChatUnauthorized
      else and_then (db_result (get_attachment_by_id (hi_faults io 0) i db)) (\<lambda>found.
           and_then (ok_or found (ChatNotFound ''Attachment not found'')) (\<lambda>a.
           and_then (attachment_bytes file_text a) (\<lambda>bytes. Ok (at_mime_type a, at_filename a, bytes)))))"

section \<open>Stopping and retrying\<close>

definition STOPPED_MESSAGE_KIND :: string where "STOPPED_MESSAGE_KIND = ''stopped''"

definition stop_mark :: "chat_io \<Rightarrow> string \<Rightarrow> string \<Rightarrow> chat_row \<Rightarrow> chat_row" where
  "stop_mark io agent source_id source =
     \<lparr>row_id = hi_uuid io 0, row_agent_id = agent, row_user_id = row_user_id source, row_source = ''system'', row_content = ''[]'',
      row_metadata = Some (json_to_string (hi_json io) (json_object [(''kind'', JStr STOPPED_MESSAGE_KIND), (''source_message_id'', JStr source_id)])),
      row_created_at = hi_now io, row_parent_id = Some source_id, row_branch_index = row_branch_index source,
      row_conversation_id = row_conversation_id source\<rparr>"

definition record_stopped_turn :: "chat_io \<Rightarrow> string \<Rightarrow> string \<Rightarrow> chat_db \<Rightarrow> chat_db \<times> (db_error + unit)" where
  "record_stopped_turn io agent source_id db =
     (case get_chat_message_by_id (hi_faults io 0) source_id db of
        Inl e \<Rightarrow> (db, Err e)
      | Inr None \<Rightarrow> (db, Ok ())
      | Inr (Some source) \<Rightarrow>
          if row_agent_id source \<noteq> agent then (db, Ok ())
          else save_chat_message_reliable (hi_faults io 1) (hi_faults io 2) (stop_mark io agent source_id source) db)"

text \<open>Whether a reply was stopped is \<open>Response_Stop\<close>'s and an input.\<close>

definition stop_response :: "chat_io \<Rightarrow> bool \<Rightarrow> string \<Rightarrow> string \<Rightarrow> chat_db \<Rightarrow> chat_db \<times> (chat_error + bool)" where
  "stop_response io stopped agent source_id db =
     (if \<not> hi_authorized io then (db, Err ChatUnauthorized)
      else ((if stopped then fst (record_stopped_turn io agent source_id db) else db), Ok stopped))"

definition send_to_bus :: "chat_io \<Rightarrow> string \<Rightarrow> cloto_message \<Rightarrow> 'a \<Rightarrow> chat_effect list \<times> (chat_error + 'a)" where
  "send_to_bus io failed m answer = (if hi_bus_open io then ([BusMessage m], Ok answer) else ([], Err (ChatInternal failed)))"

definition retry_text :: "json_text \<Rightarrow> string \<Rightarrow> string" where
  "retry_text jt content =
     join_with '' '' (List.map_filter (\<lambda>b. if Option.bind (json_get b ''type'') json_as_str = Some ''text'' then Option.bind (json_get b ''text'') json_as_str else None)
       (unwrap_or (Option.bind (json_from_str jt content) json_as_array) []))"

definition retry_message :: "chat_io \<Rightarrow> string \<Rightarrow> string \<Rightarrow> chat_row \<Rightarrow> string \<Rightarrow> cloto_message" where
  "retry_message io agent message_id original content =
     \<lparr>cm_id = ''retry-'' @ show_i64 (hi_now io), cm_source = SrcUser (row_user_id original) (row_user_id original), cm_target_agent = Some agent,
      cm_content = content, cm_timestamp = hi_now io,
      cm_metadata = [(''target_agent_id'', agent), (''skip_user_persist'', ''true''), (''parent_id'', message_id)] @
        (case row_conversation_id original of Some c \<Rightarrow> [(''conversation_id'', c)] | None \<Rightarrow> [])\<rparr>"

definition retry_response :: "chat_io \<Rightarrow> string \<Rightarrow> string \<Rightarrow> chat_db \<Rightarrow> chat_effect list \<times> (chat_error + string)" where
  "retry_response io agent message_id db =
     (if \<not> hi_authorized io then ([], Err ChatUnauthorized)
      else case get_chat_message_by_id (hi_faults io 0) message_id db of
        Inl e \<Rightarrow> ([], Err (ChatDb e))
      | Inr None \<Rightarrow> ([], Err (ChatNotFound (''Message '' @ quoted message_id @ '' not found'')))
      | Inr (Some original) \<Rightarrow>
          if row_agent_id original \<noteq> agent then ([], Err (ChatNotFound (''Message '' @ quoted message_id @ '' not found for agent '' @ quoted agent)))
          else (case hi_enabled io agent of
                  None \<Rightarrow> ([], Err (ChatValidation (''Agent '' @ quoted agent @ '' not found'')))
                | Some False \<Rightarrow> ([], Err (ChatValidation (''Agent '' @ quoted agent @ '' is powered off'')))
                | Some True \<Rightarrow>
                    (let t = retry_text (hi_json io) (row_content original)
                     in if t = [] then ([], Err (ChatValidation ''Original message has no text content to retry''))
                        else send_to_bus io ''Failed to accept retry'' (retry_message io agent message_id original t) (''retry-'' @ show_i64 (hi_now io)))))"

definition chat_handler :: "chat_io \<Rightarrow> cloto_message \<Rightarrow> chat_effect list \<times> (chat_error + unit)" where
  "chat_handler io m = (if \<not> hi_authorized io then ([], Err ChatUnauthorized) else send_to_bus io ''Failed to accept message'' m ())"

section \<open>Conversations\<close>

definition owned_conversation :: "fault \<Rightarrow> string \<Rightarrow> string \<Rightarrow> chat_db \<Rightarrow> chat_error + conversation_row" where
  "owned_conversation f agent i db =
     and_then (db_result (db_timeout f (find_conversation db i)))
       (\<lambda>found. ok_or (option_filter (\<lambda>c. cv_agent_id c = agent) found) (ChatNotFound ''conversation''))"

definition DEFAULT_USER_NAME :: string where "DEFAULT_USER_NAME = ''User''"

definition message_for_send :: "chat_io \<Rightarrow> string \<Rightarrow> conversation_row \<Rightarrow> string \<Rightarrow> cloto_message" where
  "message_for_send io agent c content =
     \<lparr>cm_id = hi_uuid io 0, cm_source = SrcUser (cv_user_id c) DEFAULT_USER_NAME, cm_target_agent = Some agent, cm_content = content,
      cm_timestamp = hi_now io, cm_metadata = [(''target_agent_id'', agent), (''conversation_id'', cv_id c)]\<rparr>"

definition send_to_agent :: "chat_io \<Rightarrow> string \<Rightarrow> string \<Rightarrow> string \<Rightarrow> chat_db \<Rightarrow> chat_effect list \<times> (chat_error + string \<times> string)" where
  "send_to_agent io agent conversation content db =
     (if \<not> hi_authorized io then ([], Err ChatUnauthorized)
      else case hi_enabled io agent of
        None \<Rightarrow> ([], Err (ChatNotFound (''agent '' @ quoted agent)))
      | Some False \<Rightarrow> ([], Err (ChatValidation (''Agent '' @ quoted agent @ '' is powered off'')))
      | Some True \<Rightarrow>
          if trim content = [] then ([], Err (ChatValidation ''content is required''))
          else (case owned_conversation (hi_faults io 0) agent conversation db of
                  Inl e \<Rightarrow> ([], Err e)
                | Inr c \<Rightarrow> send_to_bus io ''Failed to accept message'' (message_for_send io agent c (trim content)) (hi_uuid io 0, cv_id c)))"

definition create_conversation_handler :: "chat_io \<Rightarrow> string \<Rightarrow> string option \<Rightarrow> chat_db \<Rightarrow> chat_db \<times> (chat_error + conversation_row)" where
  "create_conversation_handler io agent user db =
     (if \<not> hi_authorized io then (db, Err ChatUnauthorized)
      else if hi_enabled io agent = None then (db, Err (ChatNotFound (''agent '' @ quoted agent)))
      else case create_conversation (hi_faults io 0) (hi_uuid io 0) agent (unwrap_or user DEFAULT_USER_ID) (hi_now io) db of
        (db', r) \<Rightarrow> (db', db_result r))"

definition get_conversation_handler ::
  "chat_io \<Rightarrow> string \<Rightarrow> string \<Rightarrow> int option \<Rightarrow> chat_db \<Rightarrow> chat_error + conversation_row \<times> chat_row list \<times> bool" where
  "get_conversation_handler io agent conversation asked_limit db =
     (if \<not> hi_authorized io then Err ChatUnauthorized
      else and_then (owned_conversation (hi_faults io 1) agent conversation db) (\<lambda>c.
           and_then (read_page io agent (cv_user_id c) (Some (cv_id c)) None asked_limit db) (\<lambda>(rows, more). Ok (c, rows, more))))"

definition checked_title :: "string \<Rightarrow> chat_error + string" where
  "checked_title t =
     (if trim t = [] \<or> 200 < char_count (trim t)
      then Err (ChatValidation (''title must be 1'' @ [CHR 0xE2, CHR 0x80, CHR 0x93] @ ''200 characters'')) else Ok (trim t))"

text \<open>A title that is given comes first; archiving follows only when it was written.\<close>

definition update_conversation ::
  "chat_io \<Rightarrow> string \<Rightarrow> string \<Rightarrow> string option \<Rightarrow> bool option \<Rightarrow> chat_db \<Rightarrow> chat_db \<times> (chat_error + conversation_row)" where
  "update_conversation io agent conversation title archived db =
     (if \<not> hi_authorized io then (db, Err ChatUnauthorized)
      else case owned_conversation (hi_faults io 0) agent conversation db of
        Inl e \<Rightarrow> (db, Err e)
      | Inr c \<Rightarrow>
          (case (case title of
                   None \<Rightarrow> (db, Ok ())
                 | Some t \<Rightarrow>
                     (case checked_title t of
                        Inl e \<Rightarrow> (db, Err e)
                      | Inr t' \<Rightarrow> (case rename_conversation (hi_faults io 1) (cv_id c) t' db of (db', r) \<Rightarrow> (db', and_then (db_result r) (\<lambda>_. Ok ()))))) of
             (db1, Inl e) \<Rightarrow> (db1, Err e)
           | (db1, Inr _) \<Rightarrow>
               (case (case archived of
                        None \<Rightarrow> (db1, Ok ())
                      | Some b \<Rightarrow> (case set_conversation_archived (hi_faults io 2) (cv_id c) (if b then Some (hi_now io) else None) db1 of
                          (db', r) \<Rightarrow> (db', and_then (db_result r) (\<lambda>_. Ok ())))) of
                  (db2, Inl e) \<Rightarrow> (db2, Err e)
                | (db2, Inr _) \<Rightarrow>
                    (db2, and_then (db_result (db_timeout (hi_faults io 3) (find_conversation db2 (cv_id c))))
                            (\<lambda>found. ok_or found (ChatNotFound ''conversation''))))))"

definition mark_read_handler :: "chat_io \<Rightarrow> string \<Rightarrow> string \<Rightarrow> chat_db \<Rightarrow> chat_db \<times> (chat_error + instant)" where
  "mark_read_handler io agent conversation db =
     (if \<not> hi_authorized io then (db, Err ChatUnauthorized)
      else case owned_conversation (hi_faults io 0) agent conversation db of
        Inl e \<Rightarrow> (db, Err e)
      | Inr c \<Rightarrow> (case mark_conversation_read (hi_faults io 1) (cv_id c) (hi_now io) db of (db', r) \<Rightarrow> (db', and_then (db_result r) (\<lambda>_. Ok (hi_now io)))))"

definition delete_conversation_handler :: "chat_io \<Rightarrow> string \<Rightarrow> string \<Rightarrow> chat_db \<Rightarrow> chat_db \<times> chat_effect list \<times> (chat_error + nat)" where
  "delete_conversation_handler io agent conversation db =
     (if \<not> hi_authorized io then (db, [], Err ChatUnauthorized)
      else case owned_conversation (hi_faults io 0) agent conversation db of
        Inl e \<Rightarrow> (db, [], Err e)
      | Inr c \<Rightarrow> (case delete_conversation (\<lambda>n. hi_faults io (n + 1)) (cv_id c) db of
          (db', paths, r) \<Rightarrow> (db', [FilesRemoved paths], and_then (db_result r) (\<lambda>n. Ok (unwrap_or n 0)))))"

section \<open>Search\<close>

definition TRIGRAM_CHARS :: nat where "TRIGRAM_CHARS = 3"
definition SNIPPET_BEFORE_CHARS :: nat where "SNIPPET_BEFORE_CHARS = 30"
definition SNIPPET_AFTER_CHARS :: nat where "SNIPPET_AFTER_CHARS = 90"

fun keep_first :: "'a list \<Rightarrow> 'a list \<Rightarrow> 'a list" where
  "keep_first seen [] = seen"
| "keep_first seen (x # xs) = keep_first (if x \<in> set seen then seen else seen @ [x]) xs"

definition search_terms :: "string \<Rightarrow> string list" where
  "search_terms q = keep_first [] (split_whitespace q)"

text \<open>A text as its characters: bytes that continue one belong to it.\<close>

function chars_of :: "string \<Rightarrow> string list" where
  "chars_of [] = []"
| "chars_of (b # bs) = (b # takeWhile is_continuation bs) # chars_of (dropWhile is_continuation bs)"
  by pat_completeness auto
termination
  by (relation "measure length") (auto simp: le_imp_less_Suc length_dropWhile_le)

definition like_pattern :: "string \<Rightarrow> string" where
  "like_pattern term =
     ''%'' @ concat (map (\<lambda>c. if c \<in> {CHR ''%'', CHR ''_'', CHR 0x5C} then [CHR 0x5C, c] else [c]) term) @ ''%''"

definition match_expression :: "string list \<Rightarrow> string" where
  "match_expression terms =
     join_with '' '' (map (\<lambda>t. [CHR 0x22] @ concat (map (\<lambda>c. if c = CHR 0x22 then [CHR 0x22, CHR 0x22] else [c]) t) @ [CHR 0x22]) terms)"

definition fold_char :: "(string \<Rightarrow> string list) \<Rightarrow> string \<Rightarrow> string" where
  "fold_char lower c = (case lower c of [l] \<Rightarrow> l | _ \<Rightarrow> c)"

fun find_window :: "'a list \<Rightarrow> 'a list \<Rightarrow> nat option" where
  "find_window needle [] = None"
| "find_window needle (x # xs) =
     (if take (length needle) (x # xs) = needle then Some 0 else map_option Suc (find_window needle xs))"

definition find_chars :: "'a list \<Rightarrow> 'a list \<Rightarrow> nat option" where
  "find_chars haystack needle = (if needle = [] \<or> length haystack < length needle then None else find_window needle haystack)"

definition snippet :: "(string \<Rightarrow> string list) \<Rightarrow> string \<Rightarrow> string list \<Rightarrow> string" where
  "snippet lower body terms =
     (let txt = chars_of (join_with '' '' (split_whitespace body));
          folded = map (fold_char lower) txt;
          found = List.map_filter (\<lambda>t. find_chars folded (map (fold_char lower) (chars_of t))) terms;
          first = (case found of [] \<Rightarrow> 0 | n # ns \<Rightarrow> foldl min n ns);
          start = first - SNIPPET_BEFORE_CHARS;
          stop_at = min (first + SNIPPET_AFTER_CHARS) (length txt);
          dots = [CHR 0xE2, CHR 0x80, CHR 0xA6]
      in (if 0 < start then dots else []) @ concat (drop start (take stop_at txt)) @ (if stop_at < length txt then dots else []))"

record search_hit =
  sh_row :: chat_row
  sh_title :: "string option"
  sh_archived :: bool
  sh_snippet :: string

text \<open>
  What the index matches is the parameter \<open>matched\<close>, given the phrases and the patterns; rows are newest first,
  then by id. The body of a message is \<open>body\<close>'s.
\<close>

definition search_chat_messages ::
  "fault \<Rightarrow> fault \<Rightarrow> (string list \<Rightarrow> string list \<Rightarrow> chat_row \<Rightarrow> bool) \<Rightarrow> (chat_row \<Rightarrow> string) \<Rightarrow> (string \<Rightarrow> string list) \<Rightarrow> string \<Rightarrow> string \<Rightarrow> int
   \<Rightarrow> chat_db \<Rightarrow> db_error + search_hit list \<times> nat" where
  "search_chat_messages f f' matched body lower user q limit db =
     (let terms = search_terms q;
          longs = filter (\<lambda>t. TRIGRAM_CHARS \<le> char_count t) terms;
          shorts = filter (\<lambda>t. char_count t < TRIGRAM_CHARS) terms;
          rows = filter (\<lambda>m. matched longs (map like_pattern shorts) m \<and> of_user user (row_user_id m)) (ch_messages db)
      in if terms = [] then Ok ([], 0)
         else and_then (db_timeout f (length rows)) (\<lambda>n.
              and_then (db_timeout f' (take_limit limit (sort_key (\<lambda>m. - row_created_at m) (sort_key row_id rows)))) (\<lambda>shown.
                Ok (map (\<lambda>m. \<lparr>sh_row = m,
                      sh_title = Option.bind (row_conversation_id m) (\<lambda>c. map_option cv_title (find_conversation db c)),
                      sh_archived = (Option.bind (Option.bind (row_conversation_id m) (find_conversation db)) cv_archived_at \<noteq> None),
                      sh_snippet = snippet lower (body m) terms\<rparr>) shown, n))))"

definition search_truncated :: "search_hit list \<Rightarrow> nat \<Rightarrow> bool" where
  "search_truncated hits n = (length hits < n)"

end
