(* ===== verification/Chat_Laws.thy ===== *)
theory Chat_Laws
  imports Chat_Handlers
begin

text \<open>
  Laws of stored chats: whatever is done, ids stay unique and nothing hangs from a row that is gone; requests
  change conversations of their agent only; what a page says of the rest.
\<close>

section \<open>Tables stay whole\<close>

datatype chat_op =
    InsertConversation fault string string string string instant
  | EnsureDefault fault string string instant
  | UpdateConversations "conversation_row \<Rightarrow> bool" "conversation_row \<Rightarrow> conversation_row"
  | SaveMessage fault chat_row
  | SaveAttachment fault attachment_row
  | DeleteMessages "nat \<Rightarrow> fault" string string
  | DeleteConversation "nat \<Rightarrow> fault" string
  | DeleteAll fault "nat \<Rightarrow> nat \<Rightarrow> fault" string string

definition keeps_keys :: "(conversation_row \<Rightarrow> conversation_row) \<Rightarrow> bool" where
  "keeps_keys g = (\<forall>c. cv_id (g c) = cv_id c \<and> cv_agent_id (g c) = cv_agent_id c)"

fun run_chat_op :: "chat_op \<Rightarrow> chat_db \<Rightarrow> chat_db" where
  "run_chat_op (InsertConversation f i a u t now) db = fst (insert_conversation f i a u t now db)"
| "run_chat_op (EnsureDefault f a u now) db = fst (ensure_default_conversation f a u now db)"
| "run_chat_op (UpdateConversations P g) db = (if keeps_keys g then fst (update_conversations P g db) else db)"
| "run_chat_op (SaveMessage f r) db = fst (save_chat_message f r db)"
| "run_chat_op (SaveAttachment f a) db = fst (save_attachment f a db)"
| "run_chat_op (DeleteMessages f a u) db = fst (delete_chat_messages f a u db)"
| "run_chat_op (DeleteConversation f i) db = fst (delete_conversation f i db)"
| "run_chat_op (DeleteAll f fs a u) db = fst (delete_all_conversations f fs a u db)"

definition chat_ok :: "chat_db \<Rightarrow> bool" where
  "chat_ok db =
     (distinct (map cv_id (ch_conversations db)) \<and> distinct (map row_id (ch_messages db)) \<and> distinct (map at_id (ch_attachments db)) \<and>
      set (map cv_agent_id (ch_conversations db)) \<subseteq> set (ch_agents db) \<and> set (map row_agent_id (ch_messages db)) \<subseteq> set (ch_agents db) \<and>
      set (map row_source (ch_messages db)) \<subseteq> set message_sources \<and>
      set (map at_message_id (ch_attachments db)) \<subseteq> set (map row_id (ch_messages db)))"

definition no_chats :: "string list \<Rightarrow> chat_db" where
  "no_chats agents = \<lparr>ch_agents = agents, ch_conversations = [], ch_messages = [], ch_attachments = []\<rparr>"

lemma find_conversation_None: "find_conversation db i = None \<longleftrightarrow> i \<notin> cv_id ` set (ch_conversations db)"
  by (auto simp: find_conversation_def find_None_iff)

lemma ok_insert: "chat_ok db \<Longrightarrow> chat_ok (fst (insert_conversation f i a u t now db))"
  by (auto simp: insert_conversation_def chat_ok_def fresh_conversation_def find_conversation_None split: option.splits)

lemma ok_ensure: "chat_ok db \<Longrightarrow> chat_ok (fst (ensure_default_conversation f a u now db))"
  by (auto simp: ensure_default_conversation_def Let_def chat_ok_def fresh_conversation_def find_conversation_None split: option.splits)

lemma ok_update: "chat_ok db \<Longrightarrow> keeps_keys g \<Longrightarrow> chat_ok (fst (update_conversations P g db))"
proof -
  assume ok: "chat_ok db" and g: "keeps_keys g"
  have "map cv_id (map (\<lambda>c. if P c then g c else c) cs) = map cv_id cs" "map cv_agent_id (map (\<lambda>c. if P c then g c else c) cs) = map cv_agent_id cs" for cs
    using g by (auto simp: keeps_keys_def)
  then show ?thesis using ok by (simp add: update_conversations_def chat_ok_def del: map_map)
qed

lemma ok_save: "chat_ok db \<Longrightarrow> chat_ok (fst (save_chat_message f r db))"
  by (auto simp: save_chat_message_def chat_ok_def split: option.splits)

lemma ok_attach: "chat_ok db \<Longrightarrow> chat_ok (fst (save_attachment f a db))"
  by (auto simp: save_attachment_def chat_ok_def split: option.splits)

lemma distinct_map_filter': "distinct (map f xs) \<Longrightarrow> distinct (map f (filter P xs))"
  by (induction xs) auto

lemma kept_images: "f ` A \<subseteq> g ` M \<Longrightarrow> f ` {x \<in> A. f x \<notin> g ` {m \<in> M. P m}} \<subseteq> g ` {m \<in> M. \<not> P m}"
  by blast

lemma ok_drop:
  assumes "chat_ok db"
  shows "chat_ok (drop_messages P db)"
proof -
  have "at_message_id ` {a \<in> set (ch_attachments db). at_message_id a \<notin> row_id ` {m \<in> set (ch_messages db). P m}}
      \<subseteq> row_id ` {m \<in> set (ch_messages db). \<not> P m}"
    using assms by (intro kept_images) (simp add: chat_ok_def)
  moreover have "x ` {m \<in> set (ch_messages db). \<not> P m} \<subseteq> x ` set (ch_messages db)" for x :: "chat_row \<Rightarrow> string"
    by auto
  ultimately show ?thesis
    using assms by (simp add: drop_messages_def chat_ok_def distinct_map_filter') (meson subset_trans)
qed

lemma ok_drop_conversation: "chat_ok db \<Longrightarrow> chat_ok (drop_conversation i db)"
  by (auto simp: drop_conversation_def chat_ok_def distinct_map_filter')

lemma ok_matching:
  assumes "chat_ok db" and "\<And>db'. after (drop_messages P db) = Ok db' \<Longrightarrow> chat_ok db'"
  shows "chat_ok (fst (delete_matching f P after db))"
  using assms by (auto simp: delete_matching_def Let_def ok_drop split: sum.splits option.splits)

lemma ok_delete: "chat_ok db \<Longrightarrow> chat_ok (fst (delete_conversation f i db))"
proof -
  assume ok: "chat_ok db"
  have "chat_ok (fst (delete_matching g (\<lambda>m. row_conversation_id m = Some i) (\<lambda>db'. db_timeout (f 4) (drop_conversation i db')) db))" for g
    by (rule ok_matching [OF ok]) (auto simp: ok ok_drop ok_drop_conversation db_timeout_def split: option.splits)
  then show ?thesis using ok by (auto simp: delete_conversation_def split: sum.splits option.splits prod.splits) (metis fst_conv)+
qed

lemma ok_delete_messages: "chat_ok db \<Longrightarrow> chat_ok (fst (delete_chat_messages f a u db))"
  by (auto simp: delete_chat_messages_def ok_drop intro!: ok_matching)

lemma ok_delete_each: "chat_ok db \<Longrightarrow> chat_ok (fst (delete_each f ids n db))"
proof (induction f ids n db rule: delete_each.induct)
  case (2 f i ids n db)
  then show ?case using ok_delete [of db "f 0" i] by (auto split: prod.splits sum.splits)
qed simp

lemma ok_delete_all: "chat_ok db \<Longrightarrow> chat_ok (fst (delete_all_conversations f fs a u db))"
  by (auto simp: delete_all_conversations_def ok_delete_each split: sum.splits)

lemma ok_run: "chat_ok db \<Longrightarrow> chat_ok (run_chat_op op' db)"
  by (cases op') (simp_all add: ok_insert ok_ensure ok_update ok_save ok_attach ok_delete ok_delete_messages ok_delete_all)

definition chats :: "string list \<Rightarrow> chat_op list \<Rightarrow> chat_db" where
  "chats agents ops = foldl (\<lambda>db op'. run_chat_op op' db) (no_chats agents) ops"

interpretation stored: det_system "no_chats agents" "\<lambda>db op'. run_chat_op op' db" chat_ok for agents
proof
  show "chat_ok (no_chats agents)"
    by (simp add: no_chats_def chat_ok_def)
qed (rule ok_run)

lemma chats_ok: "chat_ok (chats agents ops)"
  unfolding chats_def by (rule stored.after_inv)


section \<open>Requests stay with their agent\<close>

definition of_others :: "string \<Rightarrow> chat_db \<Rightarrow> conversation_row list" where
  "of_others agent db = filter (\<lambda>c. cv_agent_id c \<noteq> agent) (ch_conversations db)"

lemma owned_is: "owned_conversation f agent i db = Ok c \<Longrightarrow> c \<in> set (ch_conversations db) \<and> cv_id c = i \<and> cv_agent_id c = agent"
  by (auto simp: owned_conversation_def db_result_def map_err_def find_conversation_def and_then_Ok_iff ok_or_def option_filter_Some_iff find_Some_iff
      db_timeout_def split: option.splits sum.splits)

definition id_of_agent :: "chat_db \<Rightarrow> string \<Rightarrow> string \<Rightarrow> bool" where
  "id_of_agent db i agent = list_all (\<lambda>c. cv_id c = i \<longrightarrow> cv_agent_id c = agent) (ch_conversations db)"

lemma owned_id: "chat_ok db \<Longrightarrow> owned_conversation f agent i db = Ok c \<Longrightarrow> cv_id c = i \<and> id_of_agent db i agent"
  using owned_is [of f agent i db c] by (auto simp: chat_ok_def distinct_map inj_on_def id_of_agent_def list_all_iff)

lemma update_spares:
  assumes "id_of_agent db i agent" "keeps_keys g"
  shows "of_others agent (fst (update_conversations (\<lambda>c. cv_id c = i) g db)) = of_others agent db"
    "id_of_agent (fst (update_conversations (\<lambda>c. cv_id c = i) g db)) i agent"
proof -
  have "list_all (\<lambda>c. cv_id c = i \<longrightarrow> cv_agent_id c = agent) cs \<Longrightarrow>
      filter (\<lambda>c. cv_agent_id c \<noteq> agent) (map (\<lambda>c. if cv_id c = i then g c else c) cs) = filter (\<lambda>c. cv_agent_id c \<noteq> agent) cs" for cs
    by (induction cs) (use assms(2) in \<open>auto simp: keeps_keys_def\<close>)
  then show "of_others agent (fst (update_conversations (\<lambda>c. cv_id c = i) g db)) = of_others agent db"
    using assms(1) by (simp add: of_others_def update_conversations_def id_of_agent_def)
  show "id_of_agent (fst (update_conversations (\<lambda>c. cv_id c = i) g db)) i agent"
    using assms by (auto simp: id_of_agent_def update_conversations_def list_all_iff keeps_keys_def)
qed

lemma updated_spares:
  assumes "updated_some f (update_conversations (\<lambda>c. cv_id c = i) g) db = (db', r)" "id_of_agent db i agent" "keeps_keys g"
  shows "of_others agent db' = of_others agent db" "id_of_agent db' i agent"
  using assms update_spares [OF assms(2,3)] by (auto simp: updated_some_def split: option.splits prod.splits)

lemma keeps [simp]:
  "keeps_keys (\<lambda>c. c\<lparr>cv_title := t\<rparr>)" "keeps_keys (\<lambda>c. c\<lparr>cv_archived_at := d\<rparr>)" "keeps_keys (\<lambda>c. c\<lparr>cv_last_read_at := d\<rparr>)"
  by (simp_all add: keeps_keys_def)

lemma rename_spares:
  "rename_conversation f i t db = (db', r) \<Longrightarrow> id_of_agent db i agent \<Longrightarrow> of_others agent db' = of_others agent db \<and> id_of_agent db' i agent"
  unfolding rename_conversation_def using updated_spares [of f i "\<lambda>c. c\<lparr>cv_title := t\<rparr>" db db' r agent] by simp

lemma archive_spares:
  "set_conversation_archived f i d db = (db', r) \<Longrightarrow> id_of_agent db i agent \<Longrightarrow> of_others agent db' = of_others agent db"
  unfolding set_conversation_archived_def using updated_spares [of f i "\<lambda>c. c\<lparr>cv_archived_at := d\<rparr>" db db' r agent] by simp

lemma read_spares:
  "mark_conversation_read f i now db = (db', r) \<Longrightarrow> id_of_agent db i agent \<Longrightarrow> of_others agent db' = of_others agent db"
  unfolding mark_conversation_read_def using updated_spares [of f i "\<lambda>c. c\<lparr>cv_last_read_at := Some now\<rparr>" db db' r agent] by simp

lemma drop_spares: "id_of_agent db i agent \<Longrightarrow> of_others agent (drop_conversation i db) = of_others agent db"
  by (auto simp: of_others_def drop_conversation_def id_of_agent_def list_all_iff intro!: filter_cong)

lemma drop_messages_others [simp]: "of_others agent (drop_messages P db) = of_others agent db" "id_of_agent (drop_messages P db) i agent = id_of_agent db i agent"
  by (simp_all add: of_others_def drop_messages_def id_of_agent_def)

lemma delete_spares:
  assumes "delete_conversation f i db = (db', paths, r)" "id_of_agent db i agent"
  shows "of_others agent db' = of_others agent db"
  using assms
  by (auto simp: delete_conversation_def delete_matching_def Let_def db_timeout_def drop_spares split: sum.splits option.splits prod.splits)

text \<open>C31. A request that names a conversation under an agent's path marks, renames, archives or deletes no
  conversation of another agent, whichever id it names and whatever was stored before.\<close>

theorem requests_spare_other_agents:
  "(let db = chats agents ops
    in of_others agent (fst (mark_read_handler io agent i db)) = of_others agent db \<and>
       of_others agent (fst (update_conversation io agent i title archived db)) = of_others agent db \<and>
       of_others agent (fst (delete_conversation_handler io agent i db)) = of_others agent db)"
proof -
  let ?db = "chats agents ops"
  note owned = owned_id [OF chats_ok]
  have "of_others agent (fst (mark_read_handler io agent i ?db)) = of_others agent ?db"
    by (auto simp: mark_read_handler_def dest!: owned intro: read_spares split: sum.splits prod.splits)
  moreover have "of_others agent (fst (delete_conversation_handler io agent i ?db)) = of_others agent ?db"
    by (auto simp: delete_conversation_handler_def dest!: owned intro: delete_spares split: sum.splits prod.splits)
  moreover have "of_others agent (fst (update_conversation io agent i title archived ?db)) = of_others agent ?db"
  proof (cases "owned_conversation (hi_faults io 0) agent i ?db")
    case (Inr c)
    note own = owned [OF Inr]
    define first_step where "first_step = (case title of None \<Rightarrow> (?db, Ok ())
      | Some t \<Rightarrow> (case checked_title t of Inl e \<Rightarrow> (?db, Err e)
          | Inr t' \<Rightarrow> (case rename_conversation (hi_faults io 1) (cv_id c) t' ?db of (db', r) \<Rightarrow> (db', and_then (db_result r) (\<lambda>_. Ok ())))))"
    obtain db1 r1 where step: "first_step = (db1, r1)" by (cases first_step)
    have one: "of_others agent db1 = of_others agent ?db \<and> id_of_agent db1 i agent"
      using step own by (auto simp: first_step_def dest: rename_spares split: option.splits sum.splits prod.splits)
    show ?thesis
      using one own
      by (auto simp: update_conversation_def Inr first_step_def [symmetric] step dest: archive_spares split: option.splits sum.splits prod.splits if_splits)
  qed (simp add: update_conversation_def)
  ultimately show ?thesis by (simp add: Let_def)
qed

section \<open>Pages\<close>

definition page_rows :: "chat_io \<Rightarrow> string \<Rightarrow> string \<Rightarrow> string option \<Rightarrow> instant option \<Rightarrow> chat_db \<Rightarrow> chat_row list" where
  "page_rows io agent user conversation before db =
     hi_newest io (filter (\<lambda>m. row_agent_id m = agent \<and> of_user user (row_user_id m) \<and>
        (case conversation of Some c \<Rightarrow> row_conversation_id m = Some c | None \<Rightarrow> True) \<and>
        (case before of Some t \<Rightarrow> row_created_at m < t | None \<Rightarrow> True)) (ch_messages db))"

lemma page_math:
  assumes "1 \<le> n" "n \<le> mx"
  shows "take (nat n) (take_limit (min (n + 1) mx) xs) = take (nat n) xs"
    "has_more (take_limit (min (n + 1) mx) xs) n = (n < mx \<and> n < int (length xs))"
  using assms by (auto simp: take_limit_def has_more_def min_def)

text \<open>A page of messages is the newest of those asked for, as many as asked within one and the maximum, and it
  says there are more exactly when there are, below the maximum; a page of the maximum itself always says there
  are none, however many there are.\<close>

theorem page_exact:
  "(case read_page io agent user conversation before wanted db of
      Inl e \<Rightarrow> (case hi_faults io 0 of Some f \<Rightarrow> e = ChatDb f | None \<Rightarrow> False)
    | Inr (rows, rest) \<Rightarrow>
        let matching = page_rows io agent user conversation before db; n = page_limit (hi_max_limit io) wanted
        in if hi_max_limit io < 1 then True
           else 1 \<le> n \<and> n \<le> hi_max_limit io \<and> rows = take (nat n) matching \<and>
                rest = (n < hi_max_limit io \<and> n < int (length matching)))"
proof (cases "hi_faults io 0")
  case None
  let ?n = "page_limit (hi_max_limit io) wanted"
  have got: "read_page io agent user conversation before wanted db =
      (let rows = take_limit (min (?n + 1) (hi_max_limit io)) (page_rows io agent user conversation before db) in Ok (take (nat ?n) rows, has_more rows ?n))"
    by (simp add: read_page_def get_chat_messages_def db_result_def map_err_def None Let_def page_rows_def)
  show ?thesis
  proof (cases "hi_max_limit io < 1")
    case False
    then have n: "1 \<le> ?n" "?n \<le> hi_max_limit io" by (auto simp: page_limit_def)
    show ?thesis using n page_math [OF n] by (simp add: got Let_def)
  qed (simp add: got Let_def)
qed (simp add: read_page_def get_chat_messages_def db_result_def map_err_def Let_def)

end
