(* ===== verification/Call_Laws.thy ===== *)
theory Call_Laws
  imports Engine_Calls
begin

text \<open>Laws of a question to an engine: what is sent fits, and streaming shows more of the same answer.\<close>

section \<open>Fitting\<close>

definition is_sent :: "engine_effect \<Rightarrow> bool" where
  "is_sent e = (case e of KindCalled _ _ _ _ \<Rightarrow> True | KindStreamed _ _ _ _ \<Rightarrow> True | _ \<Rightarrow> False)"

text \<open>The window a request must fit: the least of the configured one and the one the model was loaded with.\<close>

definition known_window :: "engine_io \<Rightarrow> string \<Rightarrow> probe_cache \<Rightarrow> int option" where
  "known_window io engine_id cache =
     Option.bind (ec_provider io (bare_engine engine_id)) (\<lambda>p.
       window_of (pv_context_length p)
         (Option.bind (snd (snd (get_or_probe (ec_now io) (ec_probed io p) (pv_id p) cache))) (\<lambda>ms. Option.bind (hm_get ms (pv_model_id p)) id)))"

definition request_tokens :: "engine_io \<Rightarrow> string \<Rightarrow> agent_metadata \<Rightarrow> cloto_message \<Rightarrow> cloto_message list \<Rightarrow> json list \<Rightarrow> nat" where
  "request_tokens io engine_id agent m ms tools =
     estimate_str_tokens (json_to_string (ec_json io) (dispatched_agent io agent engine_id)) +
     estimate_request_tokens (ec_json io) (JArr (serialize_context (ec_shown_time io) ms)) +
     estimate_request_tokens (ec_json io) (JArr tools) + estimate_request_tokens (ec_json io) (message_json (ec_serde_time io) m)"

lemma budget_exceeds:
  "bd_exceeds (check_budget jt scale a c t m w) =
     (scale w - RESPONSE_HEADROOM < estimate_str_tokens a + estimate_request_tokens jt c + estimate_request_tokens jt t + estimate_request_tokens jt m)"
  by (simp add: check_budget_def Let_def)

lemma preflight_ok:
  assumes "preflight_token_budget io engine_id agent c t m cache = (cache', es, Ok u)"
  shows "(case Option.bind (ec_provider io (bare_engine engine_id)) (\<lambda>p.
             window_of (pv_context_length p)
               (Option.bind (snd (snd (get_or_probe (ec_now io) (ec_probed io p) (pv_id p) cache))) (\<lambda>ms. Option.bind (hm_get ms (pv_model_id p)) id))) of
           None \<Rightarrow> True
         | Some w \<Rightarrow> estimate_str_tokens (json_to_string (ec_json io) agent) + estimate_request_tokens (ec_json io) c +
                     estimate_request_tokens (ec_json io) t + estimate_request_tokens (ec_json io) m \<le> ec_fraction io w - RESPONSE_HEADROOM)"
  using assms
  by (auto simp: preflight_token_budget_def Let_def budget_exceeds not_less split: option.splits prod.splits if_splits)

lemma preflight_sends_nothing:
  "list_ex is_sent (fst (snd (preflight_token_budget io engine_id agent c t m cache))) = False"
  by (auto simp: preflight_token_budget_def is_sent_def split: option.splits prod.splits)

text \<open>No request goes to an engine that would not leave room for its answer: whatever is sent to a server
  whose model has a known window is estimated at no more than the safe part of that window without the room
  reserved for a reply; a request that does not fit is refused before it is sent.\<close>

theorem sent_requests_fit:
  "(case ask_server io engine_id agent m ms kind tools extra streamed st of
      (st', es, r) \<Rightarrow>
        if list_ex is_sent es then
          (case known_window io engine_id (es_cache st) of
             None \<Rightarrow> True
           | Some w \<Rightarrow> request_tokens io engine_id agent m ms tools \<le> ec_fraction io w - RESPONSE_HEADROOM)
        else (case r of Inl _ \<Rightarrow> True | Inr _ \<Rightarrow> False))"
proof -
  let ?a = "dispatched_agent io agent engine_id" and ?c = "JArr (serialize_context (ec_shown_time io) ms)" and ?m = "message_json (ec_serde_time io) m"
  obtain cache' es0 p where pre: "preflight_token_budget io engine_id ?a ?c (JArr tools) ?m (es_cache st) = (cache', es0, p)"
    by (cases "preflight_token_budget io engine_id ?a ?c (JArr tools) ?m (es_cache st)") auto
  have quiet: "\<not> list_ex is_sent es0" using preflight_sends_nothing [of io engine_id ?a ?c "JArr tools" ?m "es_cache st"] pre by simp
  show ?thesis
  proof (cases p)
    case (Inl e)
    then show ?thesis using quiet by (simp add: ask_server_def Let_def pre)
  next
    case (Inr u)
    have "(case known_window io engine_id (es_cache st) of None \<Rightarrow> True
        | Some w \<Rightarrow> request_tokens io engine_id agent m ms tools \<le> ec_fraction io w - RESPONSE_HEADROOM)"
      unfolding known_window_def request_tokens_def using preflight_ok [OF pre [unfolded Inr]] .
    then show ?thesis
      by (simp add: ask_server_def Let_def pre Inr is_sent_def split: sum.splits)
  qed
qed

section \<open>Streaming\<close>

text \<open>What a streamed call leaves when its display is taken away.\<close>

definition undisplayed :: "engine_effect list \<Rightarrow> engine_effect list" where
  "undisplayed es =
     List.map_filter (\<lambda>e. case e of Streamed _ \<Rightarrow> None | KindStreamed c s k v \<Rightarrow> Some (KindCalled c s k v) | _ \<Rightarrow> Some e) es"

lemma undisplayed_simps [simp]:
  "undisplayed [] = []" "undisplayed (xs @ ys) = undisplayed xs @ undisplayed ys" "undisplayed (Streamed x # es) = undisplayed es"
  "undisplayed (KindStreamed c s k v # es) = KindCalled c s k v # undisplayed es" "undisplayed (KindCalled c s k v # es) = KindCalled c s k v # undisplayed es"
  "undisplayed (ProviderProbed i # es) = ProviderProbed i # undisplayed es"
  by (simp_all add: undisplayed_def List.map_filter_def)

lemma undisplayed_streamed [simp]: "undisplayed (map Streamed xs) = []"
  by (induction xs) simp_all

lemma preflight_cong: "preflight_token_budget (io\<lparr>ec_streaming := b\<rparr>) = preflight_token_budget io"
  by (intro ext) (auto simp: preflight_token_budget_def split: option.splits prod.splits)

lemma preflight_displays_nothing:
  "undisplayed (fst (snd (preflight_token_budget io engine_id agent c t m cache))) = fst (snd (preflight_token_budget io engine_id agent c t m cache))"
  by (auto simp: preflight_token_budget_def split: option.splits prod.splits)

lemma usage_cong: "maybe_record_usage (io\<lparr>ec_streaming := b\<rparr>) = maybe_record_usage io"
  by (intro ext) (auto simp: maybe_record_usage_def split: list.splits ToolContent.splits option.splits)

lemma dispatched_cong: "dispatched_agent (io\<lparr>ec_streaming := b\<rparr>) = dispatched_agent io"
  by (intro ext) (simp add: dispatched_agent_def)

lemma ask_server_cong: "ask_server (io\<lparr>ec_streaming := b\<rparr>) = ask_server io"
  by (intro ext) (auto simp: ask_server_def Let_def preflight_cong usage_cong dispatched_cong split: prod.splits sum.splits)

lemma ask_server_unstreamed:
  "ask_server io engine_id agent m ms kind tools extra False st =
     (case ask_server io engine_id agent m ms kind tools extra True st of (st', es, r) \<Rightarrow> (st', undisplayed es, r))"
proof -
  let ?a = "dispatched_agent io agent engine_id" and ?c = "JArr (serialize_context (ec_shown_time io) ms)" and ?m = "message_json (ec_serde_time io) m"
  obtain cache' es0 p where pre: "preflight_token_budget io engine_id ?a ?c (JArr tools) ?m (es_cache st) = (cache', es0, p)"
    by (cases "preflight_token_budget io engine_id ?a ?c (JArr tools) ?m (es_cache st)") auto
  have "undisplayed es0 = es0" using preflight_displays_nothing [of io engine_id ?a ?c "JArr tools" ?m "es_cache st"] pre by simp
  then show ?thesis by (cases p) (simp_all add: ask_server_def Let_def pre split: sum.splits)
qed


end
