(* ===== verification/Spec2Isabelle.thy ===== *)
theory Spec2Isabelle
  imports Token_Store Access_Laws Gate_Laws Auth_Laws Capabilities Loop_Laws Response_Stop Server_Laws Discovery_Laws Purge_Laws Event_Laws
    Agent_Laws Audit_Laws Kernel_Laws Stream_Laws Delegation_Laws Market_Laws Panel_Laws Transport_Laws Client_Laws Negotiation_Laws
    Turn_Laws Chat_Laws Call_Laws
begin

text \<open>
  ClotoCore is a kernel for AI agents, written in Rust. Agents think with engines and act through
  tools; engines and tools are servers of the Model Context Protocol (MCP), child processes or remote
  endpoints, which the kernel starts, routes to and guards. This development models the kernel's own
  decisions (\<open>crates/core/src\<close>): who may call what, what is started, what is kept and forgotten, and
  what the operator is asked.

  \<^bold>\<open>How the parts work together.\<close> A request to the HTTP interface passes the authentication of
  \<open>Auth\<close>, which knows the operator's key, browser sessions, agent tokens (\<open>Token_Store\<close>) and the
  assertions of an access proxy (\<open>Access_Assertion\<close>). A message for an agent becomes an event
  (\<open>Event_Bus\<close>) and then a turn (\<open>Message_Turn\<close>): it is filed in its conversation (\<open>Chat_Rows\<close>), what is
  attached is read (\<open>Side_Work\<close>), memory, transcript and conversation become one timeline (\<open>Conversation\<close>), and
  an engine chosen by the agent's rules (\<open>Engine_Choice\<close>), or several at once (\<open>Consensus\<close>), runs its loop
  (\<open>Agentic_Loop\<close>): the engine is asked (\<open>Engine_Calls\<close>), the calls it makes go through
  the operator's approval (\<open>Approval_Gate\<close>) and are run. A call to a tool is either one of the kernel's
  own (\<open>Kernel_Tools\<close>, \<open>Delegation\<close>, \<open>Tool_Discovery\<close>) or goes through the gate (\<open>Capability_Gate\<close>):
  the access tables (\<open>Access_Control\<close>), the argument rules, and the checks of the arguments
  (\<open>Tool_Validator\<close>). Servers come into the table (\<open>Server_Table\<close>) by the permission gates, the seal of
  their files (\<open>Tree_Seal\<close>), the negotiation (\<open>Mgp\<close>) and an isolation profile (\<open>Isolation\<close>), what to
  launch is read from a manifest (\<open>Launch\<close>), failures restart them (\<open>Lifecycle\<close>), and their capabilities are
  found by the \<open>Dispatcher\<close>. The bytes a server sends become messages (\<open>Transport\<close>), a connection settles
  on an era (\<open>Mcp_Negotiation\<close>) and then carries calls and their answers (\<open>Mcp_Client\<close>). \<open>Audit_Log\<close> records what happened. \<open>Purge_Plan\<close> and \<open>Purge_Exec\<close> take the
  whole installation off a machine again.

  \<^bold>\<open>The theories\<close>, each opening with what it holds; source files are relative to
  \<open>crates/core/src\<close>.

  Foundations: \<open>Prelude\<close> (results, hash maps, saturating arithmetic, traces in which every event is
  justified, transition systems), \<open>Rust_Str\<close> (strings as UTF-8 bytes), \<open>Json\<close>.

  Access: \<open>Access_Control\<close> and \<open>Access_Laws\<close> (\<open>db/mcp.rs\<close>), \<open>Tool_Validator\<close>
  (\<open>managers/mcp_tool_validator.rs\<close>), \<open>Mgp\<close> (\<open>managers/mcp_mgp.rs\<close>), \<open>Capability_Gate\<close> and \<open>Gate_Laws\<close>
  (the gate and both call paths of \<open>managers/mcp.rs\<close>), \<open>Capabilities\<close> (\<open>capabilities.rs\<close>).

  Identity: \<open>Token_Store\<close> (\<open>managers/agent_token.rs\<close>, \<open>managers/browser_session.rs\<close>),
  \<open>Access_Assertion\<close> (\<open>managers/access_assertion.rs\<close>), \<open>Auth\<close> and \<open>Auth_Laws\<close> (\<open>middleware.rs\<close>,
  \<open>handlers.rs\<close>, \<open>handlers/auth.rs\<close>, \<open>db/api_keys.rs\<close>).

  Agents: \<open>Agents\<close> and \<open>Agent_Laws\<close> (\<open>managers/agents.rs\<close>, \<open>handlers/agents.rs\<close>), \<open>Approval_Gate\<close> and
  \<open>Approval_Laws\<close> (\<open>handlers/command_approval.rs\<close>), \<open>Agentic_Loop\<close> and \<open>Loop_Laws\<close>
  (\<open>handlers/system.rs\<close>, \<open>managers/registry.rs\<close>), \<open>Response_Stop\<close> (\<open>managers/response_stop.rs\<close>),
  \<open>Event_Bus\<close> and \<open>Event_Laws\<close> (\<open>events.rs\<close>, \<open>managers/registry.rs\<close>), \<open>Delegation\<close> and
  \<open>Delegation_Laws\<close> (\<open>execute_mgp_agent_ask\<close> in \<open>managers/mcp_kernel_tool.rs\<close>).

  A message and its conversation: \<open>Conversation\<close> (\<open>managers/session_manager.rs\<close>,
  \<open>conversation_context.rs\<close>), \<open>Chat_Rows\<close>, \<open>Chat_Handlers\<close> and \<open>Chat_Laws\<close> (\<open>db/conversations.rs\<close>, \<open>db/chat.rs\<close>,
  \<open>db/chat_search.rs\<close>, \<open>handlers/chat.rs\<close>), \<open>Engine_Choice\<close> (\<open>plugins/routing_default.rs\<close>,
  \<open>handlers/engine_selection.rs\<close>, \<open>consensus.rs\<close>), \<open>Engine_Calls\<close> and \<open>Call_Laws\<close> (the questions to engines in
  \<open>handlers/system.rs\<close>, \<open>managers/token_budget.rs\<close>, \<open>managers/usage_tracker.rs\<close>,
  \<open>managers/provider_probe.rs\<close>), \<open>Side_Work\<close>, \<open>Turn_Parts\<close>, \<open>Consensus\<close>, \<open>Message_Turn\<close> and \<open>Turn_Laws\<close> (the
  handling of a message in \<open>handlers/system.rs\<close>).

  The kernel's tools: \<open>Kernel_Tools\<close>, \<open>Server_Script\<close> and \<open>Kernel_Laws\<close> (\<open>managers/mcp_kernel_tool.rs\<close>),
  \<open>Server_Events\<close> and \<open>Stream_Laws\<close> (\<open>managers/mcp_events.rs\<close>, \<open>managers/mcp_streaming.rs\<close>),
  \<open>Tool_Discovery\<close> and \<open>Discovery_Laws\<close> (\<open>managers/mcp_tool_discovery.rs\<close>).

  Servers: \<open>Lifecycle\<close> (\<open>managers/mcp_lifecycle.rs\<close>), \<open>Isolation\<close> (\<open>managers/mcp_isolation.rs\<close>),
  \<open>Tree_Seal\<close> (\<open>managers/tree_seal.rs\<close>), \<open>Launch\<close> (\<open>managers/connector_manifest.rs\<close>,
  \<open>managers/mcp_transport.rs\<close>), \<open>Dispatcher\<close> (\<open>managers/capability_dispatcher.rs\<close>), \<open>Server_Table\<close> and
  \<open>Server_Laws\<close> (\<open>managers/mcp.rs\<close>), \<open>Marketplace\<close> and \<open>Market_Laws\<close> (\<open>handlers/marketplace.rs\<close>:
  what is installed, its seal, extraction, uninstalling).

  One server's connection: \<open>Mcp_Protocol\<close> (\<open>managers/mcp_protocol.rs\<close>), \<open>Transport\<close> and \<open>Transport_Laws\<close>
  (\<open>managers/mcp_transport.rs\<close>), \<open>Mcp_Client\<close>, \<open>Client_Laws\<close>, \<open>Mcp_Negotiation\<close> and \<open>Negotiation_Laws\<close>
  (\<open>managers/mcp_client.rs\<close>).

  The dashboard's modules: \<open>Panels\<close> (\<open>handlers/modules.rs\<close>), \<open>Panel_Writes\<close> and \<open>Panel_Laws\<close>
  (\<open>handlers/panel_writes.rs\<close>, \<open>db/panels.rs\<close>: the writes an operator's consent admits).

  The record and the machine: \<open>Audit_Log\<close> and \<open>Audit_Laws\<close> (\<open>db/audit.rs\<close>, \<open>db/health.rs\<close>),
  \<open>Footprint\<close>, \<open>Purge_Plan\<close>, \<open>Purge_Exec\<close> and \<open>Purge_Laws\<close> (\<open>defender\<close>).

  \<^bold>\<open>How code becomes definitions.\<close> A struct is a record, an enum a datatype, a
  \<open>Result\<close> a sum with \<open>Inl\<close> for the error, an \<open>Option\<close> an \<open>option\<close>. Strings are their
  bytes. A \<open>HashMap\<close> is an association list behind the interface \<open>hash_map\<close>; nothing relies on
  its order. Counters keep the width of the code where they can wrap or saturate. A function that
  changes state takes it and returns it. Calls to a server, rows of the audit log, notices to the operator
  and files removed are effects: lists, in the order the code has them. What happens between two
  reads of shared state is an input: readings of the clock, answers of servers and engines, random bytes,
  and for each statement of the database a \<open>fault\<close> that says whether it failed. So a lemma about all
  inputs covers every interleaving the inputs can express. Where two tasks share flags
  (\<open>Response_Stop\<close>), the steps are single accesses in any order.

  Third-party code is a parameter: SHA-256 and HMAC, RSA, JSON text, Unicode tables, the URL parser, the DNS
  resolver, the time library, SQLite's choice of a row. What a lemma needs of one is a hypothesis
  with a name (\<open>sqlite_ok\<close>, \<open>lower_spec\<close>), and a witness shows that it can hold.

  \<^bold>\<open>What is shown.\<close> The numbered statements (C1 and on) are the properties; each stands in the
  \<open>Laws\<close> theory of its component with an example of its hypotheses after it. The gate lemmas say
  exactly when a call reaches a server, and that a revoked agent reaches none. The loop lemmas
  describe a turn by its trace: what is run was let through, under the agent's own name, in a bounded
  number of rounds. Around it, the turn lemmas say what a message is answered by, on whose behalf everything
  is done, what a stop leaves and which engines a consensus runs. The store lemmas are instances of the interfaces \<open>token_store\<close> and
  \<open>revocable_store\<close>; the invariants of tables, chats, caches and the revocation list of \<open>step_system\<close>
  and \<open>det_system\<close>; the two dispatch tables and the tool indices of \<open>provider_index\<close>; the two call paths of
  \<open>gated_path\<close>. The rest are about one component each: approval, seals, isolation, restarts, purge, events,
  audit, the kernel's tools, delegation, streams, connections. Lemmas without a number, named in the manifest's findings,
  show where the code departs from its comments.

  \<^bold>\<open>Bounds.\<close> Recursions end by structure or by a measure (\<open>evict_lru\<close>: the tools left;
  \<open>agentic_loop\<close>: the rounds left; \<open>trim_start_matches\<close>: the text). The loop of a delegation
  counts down from \<open>MGP_AGENT_ASK_MAX_TOOL_ITERATIONS\<close>, the cascade of events stops at the
  depth the code allows, and both are shown to be enough. \<open>reuse_engines\<close> counts down the attempts the code
  allows, three for each proposal it needs; \<open>trim_end_text\<close> takes the length of the text, and each step
  shortens it. No definition takes fuel that could run out early.

  \<^bold>\<open>Not modelled.\<close> Processes, pipes and sockets below the lines and turns of \<open>Transport\<close>; the
  downloads and builds of \<open>handlers/marketplace.rs\<close>, installers and language model providers. Above
  \<open>Mcp_Client\<close> a server is the function from a call to its reply, and above \<open>Agentic_Loop\<close> a run of an engine is its result. SQL that
  only stores and lists (notifications, cron), the index of the full text search, rendering of reports, command lines and platform services. Schemas of tools shown to models. The
  manifest lists every part with the reason.
\<close>

end
